(* ===== verification/Prelude.thy ===== *)
theory Prelude
  imports Main "HOL-Library.AList" "HOL-Library.Char_ord" "HOL-Library.List_Lexorder"
    "HOL-Library.Sublist"
begin

text \<open>
  What every component of the model shares: Python exceptions as values of a sum type with a
  sequencing operator, Python dictionaries as insertion-ordered association lists, and the
  operations of Python's \<open>str\<close> that the modelled code calls.  A \<open>str\<close> is a \<open>string\<close> whose
  characters are the code points U+0000 to U+00FF, so character classes (\<open>isspace\<close>, \<open>isdigit\<close>,
  \<open>lower\<close>) are those of Unicode on that range.
\<close>

named_theorems res_simps \<open>sequencing of fallible computations\<close>
named_theorems str_simps \<open>evaluation of the string operations\<close>

section \<open>Exceptions as values\<close>

datatype py_error =
    ValueError string
  | TypeError string
  | KeyError string
  | IndexError string
  | ZeroDivisionError string
  | OverflowError string
  | OSError string
  | PermissionError string
  | FixedOverflowError int
  | FixedParseError string
  | SyntaxError string
  | CompileError string
  | RuntimeError string
  | AttributeError string

type_synonym 'a result = "py_error + 'a"

abbreviation Raise :: "py_error \<Rightarrow> 'a result" where
  "Raise e \<equiv> Inl e"

abbreviation Return :: "'a \<Rightarrow> 'a result" where
  "Return x \<equiv> Inr x"

definition bindR :: "'a result \<Rightarrow> ('a \<Rightarrow> 'b result) \<Rightarrow> 'b result" where
  "bindR m f = (case m of Inl e \<Rightarrow> Inl e | Inr x \<Rightarrow> f x)"

lemma bindR_Raise [simp, res_simps]: "bindR (Inl e) f = Inl e"
  by (simp add: bindR_def)

lemma bindR_Return [simp, res_simps]: "bindR (Inr x) f = f x"
  by (simp add: bindR_def)

lemma bindR_right [simp, res_simps]: "bindR m Inr = m"
  by (cases m) auto

lemma bindR_eq_Return: "bindR m f = Inr y \<longleftrightarrow> (\<exists>x. m = Inr x \<and> f x = Inr y)"
  by (cases m) auto

lemma bindR_eq_Raise: "bindR m f = Inl e \<longleftrightarrow> m = Inl e \<or> (\<exists>x. m = Inr x \<and> f x = Inl e)"
  by (cases m) auto

lemma bindR_ReturnE [elim]:
  assumes "bindR m f = Inr y"
  obtains x where "m = Inr x" "f x = Inr y"
  using assms by (auto simp: bindR_eq_Return)

lemma bindR_assoc: "bindR (bindR m f) g = bindR m (\<lambda>x. bindR (f x) g)"
  by (cases m) auto

lemma bindR_cong [fundef_cong]:
  "m = m' \<Longrightarrow> (\<And>x. m' = Inr x \<Longrightarrow> f x = f' x) \<Longrightarrow> bindR m f = bindR m' f'"
  by (cases m') auto

text \<open>A \<open>for\<close> loop whose body may raise, and a comprehension whose element may raise.\<close>

fun foldR :: "('s \<Rightarrow> 'a \<Rightarrow> 's result) \<Rightarrow> 's \<Rightarrow> 'a list \<Rightarrow> 's result" where
  "foldR f s [] = Return s"
| "foldR f s (x # xs) = bindR (f s x) (\<lambda>s'. foldR f s' xs)"

fun mapR :: "('a \<Rightarrow> 'b result) \<Rightarrow> 'a list \<Rightarrow> 'b list result" where
  "mapR f [] = Return []"
| "mapR f (x # xs) = bindR (f x) (\<lambda>y. bindR (mapR f xs) (\<lambda>ys. Return (y # ys)))"

lemma foldR_append: "foldR f s (xs @ ys) = bindR (foldR f s xs) (\<lambda>s'. foldR f s' ys)"
  by (induction xs arbitrary: s) (auto simp: bindR_assoc)

lemma foldR_invariant:
  assumes "foldR f s xs = Inr t" and "P s"
    and "\<And>s x s'. x \<in> set xs \<Longrightarrow> P s \<Longrightarrow> f s x = Inr s' \<Longrightarrow> P s'"
  shows "P t"
  using assms
proof (induction xs arbitrary: s)
  case Nil
  then show ?case by simp
next
  case (Cons x xs)
  from Cons.prems(1) obtain s' where s': "f s x = Inr s'" "foldR f s' xs = Inr t"
    by auto
  show ?case
  proof (rule Cons.IH [OF s'(2)])
    show "P s'" by (rule Cons.prems(3) [OF _ Cons.prems(2) s'(1)]) simp
  qed (use Cons.prems(3) in auto)
qed

text \<open>A loop whose body never raises under an invariant that may count the iterations.\<close>

lemma foldR_total:
  assumes "P i s"
    and "\<And>j x s. j < i + length xs \<Longrightarrow> x \<in> set xs \<Longrightarrow> P j s \<Longrightarrow> \<exists>s'. f s x = Inr s' \<and> P (Suc j) s'"
  shows "\<exists>t. foldR f s xs = Inr t \<and> P (i + length xs) t"
  using assms
proof (induction xs arbitrary: i s)
  case Nil
  then show ?case by simp
next
  case (Cons x xs)
  from Cons.prems(2) [of i x s] Cons.prems(1) obtain s' where s': "f s x = Inr s'" "P (Suc i) s'"
    by auto
  have "\<exists>t. foldR f s' xs = Inr t \<and> P (Suc i + length xs) t"
    by (rule Cons.IH [OF s'(2)]) (use Cons.prems(2) in auto)
  with s'(1) show ?case by simp
qed

lemma mapR_length: "mapR f xs = Inr ys \<Longrightarrow> length ys = length xs"
  by (induction xs arbitrary: ys) (auto simp: bindR_eq_Return)

lemma mapR_list_all2: "mapR f xs = Inr ys \<Longrightarrow> list_all2 (\<lambda>x y. f x = Inr y) xs ys"
  by (induction xs arbitrary: ys) (auto simp: bindR_eq_Return)

lemma mapR_elem: "mapR f xs = Inr ys \<Longrightarrow> y \<in> set ys \<Longrightarrow> \<exists>x\<in>set xs. f x = Inr y"
  by (induction xs arbitrary: ys) (auto simp: bindR_eq_Return)

lemma mapR_keys: "mapR f xs = Inr ys \<Longrightarrow> (\<And>x y. f x = Inr y \<Longrightarrow> g y = h x) \<Longrightarrow> map g ys = map h xs"
  by (induction xs arbitrary: ys) (auto simp: bindR_eq_Return)

section \<open>Dictionaries\<close>

text \<open>
  A dictionary keeps its keys in insertion order: \<open>d[k] = v\<close> on a key already present replaces
  the value where it stands, which is what \<^const>\<open>AList.update\<close> does.
\<close>

type_synonym 'v dict = "(string \<times> 'v) list"

abbreviation dget :: "'v dict \<Rightarrow> string \<Rightarrow> 'v option" where
  "dget d k \<equiv> map_of d k"

abbreviation dset :: "string \<Rightarrow> 'v \<Rightarrow> 'v dict \<Rightarrow> 'v dict" where
  "dset k v d \<equiv> AList.update k v d"

abbreviation dpop :: "string \<Rightarrow> 'v dict \<Rightarrow> 'v dict" where
  "dpop k d \<equiv> AList.delete k d"

abbreviation dkeys :: "'v dict \<Rightarrow> string list" where
  "dkeys d \<equiv> map fst d"

definition has_key :: "'v dict \<Rightarrow> string \<Rightarrow> bool" where
  "has_key d k = (map_of d k \<noteq> None)"

definition dget_or :: "'v dict \<Rightarrow> string \<Rightarrow> 'v \<Rightarrow> 'v" where
  "dget_or d k v = (case map_of d k of None \<Rightarrow> v | Some w \<Rightarrow> w)"

lemma dget_or_dset: "dget_or (dset k v d) k' x = (if k' = k then v else dget_or d k' x)"
  by (simp add: dget_or_def update_conv)

text \<open>\<open>d.update(e)\<close>: the items of \<open>e\<close> in order.\<close>

definition dupdate :: "'v dict \<Rightarrow> 'v dict \<Rightarrow> 'v dict" where
  "dupdate d e = fold (\<lambda>(k, v) acc. dset k v acc) e d"

lemma has_key_iff: "has_key d k \<longleftrightarrow> k \<in> set (dkeys d)"
  by (metis has_key_def map_of_eq_None_iff list.set_map)

lemma dget_dset [simp]: "dget (dset k v d) k' = (if k' = k then Some v else dget d k')"
  by (simp add: update_conv')

lemma dget_dpop [simp]: "dget (dpop k d) k' = (if k' = k then None else dget d k')"
  by (simp add: delete_conv')

lemma distinct_dset: "distinct (dkeys d) \<Longrightarrow> distinct (dkeys (dset k v d))"
  by (rule distinct_update)

lemma dkeys_dset: "dkeys (dset k v d) = (if k \<in> set (dkeys d) then dkeys d else dkeys d @ [k])"
  by (simp add: update_keys)

lemma dset_same: "dget d k = Some v \<Longrightarrow> dset k v d = d"
  by (induction d) (auto split: if_splits)

lemma dset_dset: "dset k w (dset k v d) = dset k w d"
  by (induction d) auto

lemma length_dset: "length (dset k v d) = (if k \<in> set (dkeys d) then length d else Suc (length d))"
  using dkeys_dset [of k v d] by (metis length_append_singleton length_map)

lemma dset_new: "k \<notin> set (dkeys d) \<Longrightarrow> dset k v d = d @ [(k, v)]"
  by (induction d) auto

text \<open>A dictionary built key by key from a list without duplicates.\<close>

lemma fold_dset_map_aux:
  "distinct xs \<Longrightarrow> set xs \<inter> set (dkeys acc) = {} \<Longrightarrow>
     fold (\<lambda>k d. dset k (g k) d) xs acc = acc @ map (\<lambda>k. (k, g k)) xs"
  by (induction xs arbitrary: acc) (auto simp: dset_new)

lemma fold_dset_map: "distinct xs \<Longrightarrow> fold (\<lambda>k d. dset k (g k) d) xs [] = map (\<lambda>k. (k, g k)) xs"
  by (simp add: fold_dset_map_aux)

lemma dget_graph: "dget (map (\<lambda>k. (k, g k)) xs) k = (if k \<in> set xs then Some (g k) else None)"
  by (induction xs) auto

lemma dkeys_graph [simp]: "dkeys (map (\<lambda>k. (k, g k)) xs) = xs"
  by (induction xs) auto

text \<open>\<open>sorted(d)\<close>: the keys of a dictionary in code point order.\<close>

definition sorted_keys :: "'v dict \<Rightarrow> string list" where
  "sorted_keys d = sort (dkeys d)"

lemma set_sorted_keys [simp]: "set (sorted_keys d) = set (dkeys d)"
  by (simp add: sorted_keys_def)

lemma length_sorted_keys [simp]: "length (sorted_keys d) = length d"
  by (simp add: sorted_keys_def)

lemma distinct_sorted_keys: "distinct (dkeys d) \<Longrightarrow> distinct (sorted_keys d)"
  by (simp add: sorted_keys_def)

lemma sorted_keys_graph: "sorted xs \<Longrightarrow> sorted_keys (map (\<lambda>k. (k, g k)) xs) = xs"
  by (simp add: sorted_keys_def sorted_sort_id comp_def)

section \<open>Characters and strings\<close>

abbreviation code :: "char \<Rightarrow> nat" where
  "code c \<equiv> of_char c"

definition is_space :: "char \<Rightarrow> bool" where
  "is_space c = (code c \<in> {9, 10, 11, 12, 13, 28, 29, 30, 31, 32, 133, 160})"

definition is_ascii_digit :: "char \<Rightarrow> bool" where
  "is_ascii_digit c = (48 \<le> code c \<and> code c \<le> 57)"

text \<open>\<open>str.isdigit\<close> also holds of the superscripts two, three and one, which \<open>int()\<close> refuses.\<close>

definition is_digit :: "char \<Rightarrow> bool" where
  "is_digit c = (is_ascii_digit c \<or> code c \<in> {178, 179, 185})"

definition py_isdigit :: "string \<Rightarrow> bool" where
  "py_isdigit s = (s \<noteq> [] \<and> list_all is_digit s)"

definition lstrip :: "string \<Rightarrow> string" where
  "lstrip s = dropWhile is_space s"

definition rstrip :: "string \<Rightarrow> string" where
  "rstrip s = rev (dropWhile is_space (rev s))"

definition strip :: "string \<Rightarrow> string" where
  "strip s = rstrip (lstrip s)"

definition rstrip_char :: "char \<Rightarrow> string \<Rightarrow> string" where
  "rstrip_char c s = rev (dropWhile (\<lambda>x. x = c) (rev s))"

definition lower_char :: "char \<Rightarrow> char" where
  "lower_char c =
     (let n = code c in
      if 65 \<le> n \<and> n \<le> 90 \<or> 192 \<le> n \<and> n \<le> 222 \<and> n \<noteq> 215 then char_of (n + 32) else c)"

definition lower :: "string \<Rightarrow> string" where
  "lower s = map lower_char s"

text \<open>
  Upper case: sharp s becomes two letters; the micro sign and y with diaeresis have upper-case
  forms outside the modelled range and are left as they are.
\<close>

definition upper_char :: "char \<Rightarrow> string" where
  "upper_char c =
     (let n = code c in
      if 97 \<le> n \<and> n \<le> 122 \<or> 224 \<le> n \<and> n \<le> 254 \<and> n \<noteq> 247 then [char_of (n - 32)]
      else if n = 223 then ''SS'' else [c])"

definition upper :: "string \<Rightarrow> string" where
  "upper s = concat (map upper_char s)"

abbreviation startswith :: "string \<Rightarrow> string \<Rightarrow> bool" where
  "startswith s p \<equiv> prefix p s"

definition removeprefix :: "string \<Rightarrow> string \<Rightarrow> string" where
  "removeprefix s p = (if prefix p s then drop (length p) s else s)"

fun split_char :: "char \<Rightarrow> string \<Rightarrow> string list" where
  "split_char c [] = [[]]"
| "split_char c (x # xs) =
     (if x = c then [] # split_char c xs
      else (case split_char c xs of [] \<Rightarrow> [[x]] | y # ys \<Rightarrow> (x # y) # ys))"

text \<open>\<open>s.split()\<close>: the maximal runs of non-space characters.\<close>

fun words_aux :: "string \<Rightarrow> string \<Rightarrow> string list" where
  "words_aux acc [] = (if acc = [] then [] else [rev acc])"
| "words_aux acc (x # xs) =
     (if is_space x then (if acc = [] then words_aux [] xs else rev acc # words_aux [] xs)
      else words_aux (x # acc) xs)"

definition py_words :: "string \<Rightarrow> string list" where
  "py_words s = words_aux [] s"

fun join :: "string \<Rightarrow> string list \<Rightarrow> string" where
  "join sep [] = []"
| "join sep [x] = x"
| "join sep (x # y # ys) = x @ sep @ join sep (y # ys)"

fun has_infix :: "string \<Rightarrow> string \<Rightarrow> bool" where
  "has_infix p [] = (p = [])"
| "has_infix p (x # xs) = (prefix p (x # xs) \<or> has_infix p xs)"

text \<open>The part before the first occurrence of \<open>p\<close>, the whole string when there is none.\<close>

fun before_infix :: "string \<Rightarrow> string \<Rightarrow> string" where
  "before_infix p [] = []"
| "before_infix p (x # xs) = (if prefix p (x # xs) then [] else x # before_infix p xs)"

lemma split_char_nonempty [simp]: "split_char c s \<noteq> []"
  by (induction s) (auto split: list.splits)

lemma split_char_no_sep: "c \<notin> set s \<Longrightarrow> split_char c s = [s]"
  by (induction s) auto

lemma split_char_append:
  "c \<notin> set s \<Longrightarrow> split_char c (s @ c # t) = s # split_char c t"
  by (induction s) auto

lemma takeWhile_sep: "c \<notin> set a \<Longrightarrow> takeWhile (\<lambda>x. x \<noteq> c) (a @ c # z) = a"
  by (induction a) auto

lemma dropWhile_sep: "c \<notin> set a \<Longrightarrow> dropWhile (\<lambda>x. x \<noteq> c) (a @ c # z) = c # z"
  by (induction a) auto

lemma dropWhile_id: "(\<And>x. x \<in> set xs \<Longrightarrow> \<not> P x) \<Longrightarrow> dropWhile P xs = xs"
  by (cases xs) auto

lemma strip_Nil_iff: "strip s = [] \<longleftrightarrow> (\<forall>c\<in>set s. is_space c)"
proof
  assume "strip s = []"
  then have "\<forall>c\<in>set (lstrip s). is_space c"
    by (auto simp: strip_def rstrip_def)
  moreover have "\<forall>c\<in>set (takeWhile is_space s). is_space c" by (auto dest: set_takeWhileD)
  moreover have "set s = set (takeWhile is_space s) \<union> set (lstrip s)"
    unfolding lstrip_def by (metis set_append takeWhile_dropWhile_id)
  ultimately show "\<forall>c\<in>set s. is_space c" by auto
next
  assume a: "\<forall>c\<in>set s. is_space c"
  then have "lstrip s = []" by (simp add: lstrip_def)
  then show "strip s = []" by (simp add: strip_def rstrip_def)
qed

lemma strip_no_space: "list_all (\<lambda>c. \<not> is_space c) s \<Longrightarrow> strip s = s"
proof -
  assume a: "list_all (\<lambda>c. \<not> is_space c) s"
  then have "dropWhile is_space s = s" "dropWhile is_space (rev s) = rev s"
    by (auto simp: list_all_iff intro!: dropWhile_id)
  then show ?thesis by (simp add: strip_def rstrip_def lstrip_def)
qed

text \<open>A stripped text starts and ends with a character that is no space.\<close>

definition tight :: "string \<Rightarrow> bool" where
  "tight s = (s = [] \<or> \<not> is_space (hd s) \<and> \<not> is_space (last s))"

lemma strip_id: "tight s \<Longrightarrow> strip s = s"
proof -
  assume s: "tight s"
  have "dropWhile is_space s = s" using s by (cases s) (auto simp: tight_def)
  moreover have "dropWhile is_space (rev s) = rev s" using s by (cases s rule: rev_cases) (auto simp: tight_def)
  ultimately show ?thesis by (simp add: strip_def lstrip_def rstrip_def)
qed

lemma tight_strip: "tight (strip s)"
proof -
  define t where "t = lstrip s"
  have t: "t = [] \<or> \<not> is_space (hd t)" unfolding t_def lstrip_def using hd_dropWhile [of is_space s] by fastforce
  have last: "rstrip t = [] \<or> \<not> is_space (last (rstrip t))"
    unfolding rstrip_def using hd_dropWhile [of is_space "rev t"] by (auto simp: last_rev)
  have "prefix (rstrip t) t" unfolding rstrip_def
    by (metis suffix_dropWhile suffix_to_prefix rev_rev_ident)
  then obtain z where "t = rstrip t @ z" by (auto simp: prefix_def)
  then have "rstrip t = [] \<or> hd (rstrip t) = hd t" by (metis hd_append)
  with t last show ?thesis unfolding tight_def strip_def t_def [symmetric] by (metis rstrip_def dropWhile.simps(1) rev.simps(1))
qed

lemma strip_idem: "strip (strip s) = strip s"
  by (rule strip_id) (rule tight_strip)

lemma keys_sort_key: "map fst (sort_key fst kvs) = sort (map fst kvs)"
proof (induction kvs)
  case (Cons a kvs)
  have "map fst (insort_key fst a xs) = insort (fst a) (map fst xs)" for xs
    by (induction xs) auto
  with Cons show ?case by simp
qed simp

lemma sort_Nil_iff: "sort xs = [] \<longleftrightarrow> xs = []"
  by (metis length_0_conv length_sort)

section \<open>Decimal numerals\<close>

definition digit_char :: "int \<Rightarrow> char" where
  "digit_char d = ''0123456789'' ! nat d"

definition digit_val :: "char \<Rightarrow> int" where
  "digit_val c = int (code c) - 48"

function show_digits :: "int \<Rightarrow> string" where
  "show_digits n = (if n < 10 then [digit_char n] else show_digits (n div 10) @ [digit_char (n mod 10)])"
  by pat_completeness auto
termination
  by (relation "measure nat") auto

declare show_digits.simps [simp del]

text \<open>\<open>str(n)\<close> of an integer.\<close>

definition py_str :: "int \<Rightarrow> string" where
  "py_str n = (if n < 0 then CHR ''-'' # show_digits (- n) else show_digits n)"

text \<open>The value of a run of decimal digits.\<close>

definition digits_val :: "string \<Rightarrow> int" where
  "digits_val s = foldl (\<lambda>a c. 10 * a + digit_val c) 0 s"

text \<open>\<open>int(s)\<close>: optional white space and sign, digits with single underscores between them.\<close>

fun underscore_ok :: "string \<Rightarrow> bool" where
  "underscore_ok [] = False"
| "underscore_ok [c] = is_ascii_digit c"
| "underscore_ok (c # d # cs) =
     (is_ascii_digit c \<and> (if d = CHR ''_'' then underscore_ok cs else underscore_ok (d # cs)))"

definition split_sign :: "string \<Rightarrow> int \<times> string" where
  "split_sign s = (case s of [] \<Rightarrow> (1, [])
     | c # cs \<Rightarrow> if c = CHR ''-'' then (-1, cs) else if c = CHR ''+'' then (1, cs) else (1, s))"

definition py_int :: "string \<Rightarrow> int result" where
  "py_int s =
     (case split_sign (strip s) of (sg, t) \<Rightarrow>
        if underscore_ok t then Return (sg * digits_val (filter (\<lambda>c. c \<noteq> CHR ''_'') t))
        else Raise (ValueError (''invalid literal for int() with base 10: '' @ s)))"

text \<open>\<open>f"{n:0{w}d}"\<close> for a non-negative \<open>n\<close>.\<close>

definition zero_pad :: "nat \<Rightarrow> int \<Rightarrow> string" where
  "zero_pad w n = (let s = show_digits n in replicate (w - length s) (CHR ''0'') @ s)"

lemma digit_cases:
  assumes "0 \<le> d" "d < (10::int)"
  obtains "d = 0" | "d = 1" | "d = 2" | "d = 3" | "d = 4" | "d = 5" | "d = 6" | "d = 7" | "d = 8" | "d = 9"
proof -
  have "d \<in> set [0..9]" using assms by simp
  then show ?thesis using that by (auto simp: upto.simps)
qed

lemma digit_char_props:
  assumes "0 \<le> d" "d < 10"
  shows "digit_val (digit_char d) = d" and "is_ascii_digit (digit_char d)"
  using assms by (auto elim!: digit_cases simp: digit_char_def digit_val_def is_ascii_digit_def)

lemma digits_val_snoc: "digits_val (s @ [c]) = 10 * digits_val s + digit_val c"
  by (simp add: digits_val_def)

lemma digits_val_Nil [simp]: "digits_val [] = 0"
  by (simp add: digits_val_def)

lemma digits_val_zeros: "digits_val (replicate k (CHR ''0'') @ s) = digits_val s"
  by (induction k) (auto simp: digits_val_def digit_val_def)

lemma show_digits_val: "0 \<le> n \<Longrightarrow> digits_val (show_digits n) = n"
proof (induction n rule: show_digits.induct)
  case (1 n)
  show ?case
  proof (cases "n < 10")
    case True
    with 1 show ?thesis
      by (subst show_digits.simps) (simp add: digits_val_def digit_char_props)
  next
    case False
    with 1 have "digits_val (show_digits (n div 10)) = n div 10" by simp
    with False show ?thesis
      by (subst show_digits.simps) (simp add: digits_val_snoc digit_char_props)
  qed
qed

lemma show_digits_ascii: "0 \<le> n \<Longrightarrow> list_all is_ascii_digit (show_digits n)"
proof (induction n rule: show_digits.induct)
  case (1 n)
  then show ?case
    by (subst show_digits.simps) (auto simp: digit_char_props)
qed

lemma show_digits_nonempty [simp]: "show_digits n \<noteq> []"
  by (subst show_digits.simps) simp

lemma show_digits_length: "n < 10 ^ k \<Longrightarrow> 0 < k \<Longrightarrow> length (show_digits n) \<le> k"
proof (induction k arbitrary: n)
  case 0
  then show ?case by simp
next
  case (Suc k)
  show ?case
  proof (cases "n < 10")
    case True
    then show ?thesis by (subst show_digits.simps) simp
  next
    case False
    then have "0 < k" using Suc.prems by (cases k) auto
    moreover have "n div 10 < 10 ^ k" using Suc.prems(1) by simp
    ultimately have "length (show_digits (n div 10)) \<le> k" by (rule Suc.IH [rotated])
    with False show ?thesis by (subst show_digits.simps) simp
  qed
qed

lemma zero_pad_val: "0 \<le> n \<Longrightarrow> digits_val (zero_pad w n) = n"
  by (simp add: zero_pad_def Let_def digits_val_zeros show_digits_val)

lemma zero_pad_length: "n < 10 ^ w \<Longrightarrow> 0 < w \<Longrightarrow> length (zero_pad w n) = w"
  using show_digits_length [of n w] by (simp add: zero_pad_def Let_def)

lemma zero_pad_ascii: "0 \<le> n \<Longrightarrow> list_all is_ascii_digit (zero_pad w n)"
  using show_digits_ascii [of n]
  by (auto simp: zero_pad_def Let_def list_all_iff is_ascii_digit_def)

lemma ascii_digit_is_digit: "is_ascii_digit c \<Longrightarrow> is_digit c"
  by (simp add: is_digit_def)

lemma ascii_digit_not_space: "is_ascii_digit c \<Longrightarrow> \<not> is_space c"
  by (auto simp: is_ascii_digit_def is_space_def)

lemma minus_not_space: "\<not> is_space (CHR ''-'')"
  by (simp add: is_space_def)

lemma ascii_digit_not_special:
  "is_ascii_digit c \<Longrightarrow> c \<noteq> CHR ''_'' \<and> c \<noteq> CHR ''-'' \<and> c \<noteq> CHR ''+'' \<and> c \<noteq> CHR ''.'' \<and>
     c \<noteq> CHR ''e'' \<and> c \<noteq> CHR ''E''"
  by (auto simp: is_ascii_digit_def)

lemma list_all_ascii_isdigit:
  "s \<noteq> [] \<Longrightarrow> list_all is_ascii_digit s \<Longrightarrow> py_isdigit s"
  by (auto simp: py_isdigit_def list_all_iff ascii_digit_is_digit)

lemma underscore_ok_digits: "s \<noteq> [] \<Longrightarrow> list_all is_ascii_digit s \<Longrightarrow> underscore_ok s"
  by (induction s rule: underscore_ok.induct) (auto dest: ascii_digit_not_special)

lemma filter_no_underscore: "list_all is_ascii_digit s \<Longrightarrow> filter (\<lambda>c. c \<noteq> CHR ''_'') s = s"
  by (induction s) (auto dest: ascii_digit_not_special)

lemma split_sign_digits:
  "s \<noteq> [] \<Longrightarrow> list_all is_ascii_digit s \<Longrightarrow> split_sign s = (1, s)"
  by (cases s) (auto simp: split_sign_def dest: ascii_digit_not_special)

lemma py_int_digits:
  assumes "s \<noteq> []" "list_all is_ascii_digit s"
  shows "py_int s = Return (digits_val s)"
proof -
  have "strip s = s"
    by (rule strip_no_space) (use assms(2) in \<open>auto simp: list_all_iff ascii_digit_not_space\<close>)
  with assms show ?thesis
    by (simp add: py_int_def split_sign_digits underscore_ok_digits filter_no_underscore)
qed

lemma digits_val_nonneg: "list_all is_ascii_digit s \<Longrightarrow> 0 \<le> digits_val s"
proof (induction s rule: rev_induct)
  case Nil
  then show ?case by simp
next
  case (snoc c s)
  then show ?case by (auto simp: digits_val_snoc digit_val_def is_ascii_digit_def)
qed

lemma digits_val_less: "list_all is_ascii_digit s \<Longrightarrow> digits_val s < 10 ^ length s"
proof (induction s rule: rev_induct)
  case Nil
  then show ?case by simp
next
  case (snoc c s)
  then show ?case by (auto simp: digits_val_snoc digit_val_def is_ascii_digit_def)
qed

text \<open>The round trip of \<open>int(str(n))\<close>.\<close>

lemma py_int_py_str: "py_int (py_str n) = Return n"
proof (cases "n < 0")
  case False
  then show ?thesis
    by (simp add: py_str_def py_int_digits show_digits_ascii show_digits_val)
next
  case True
  let ?s = "show_digits (- n)"
  have ad: "list_all is_ascii_digit ?s" using True by (simp add: show_digits_ascii)
  have "strip (CHR ''-'' # ?s) = CHR ''-'' # ?s"
    by (rule strip_no_space)
       (use ad in \<open>auto simp: list_all_iff ascii_digit_not_space minus_not_space\<close>)
  with True ad show ?thesis
    by (simp add: py_str_def py_int_def split_sign_def underscore_ok_digits
        filter_no_underscore show_digits_val)
qed

section \<open>Booleans and integers in text\<close>

definition py_bool_str :: "bool \<Rightarrow> string" where
  "py_bool_str b = (if b then ''True'' else ''False'')"

end
