(* ===== verification/Fixed_Math.thy ===== *)
theory Fixed_Math
  imports Prelude
begin

text \<open>
  \<^verbatim>\<open>solis/physics/fixed_math.py\<close>: 64.64 fixed-point numbers held as one integer in the signed
  128-bit range, with half-even rounding of products, quotients and decimal conversions.
  A \<open>fixed64\<close> carries the integer \<open>raw\<close> of the dataclass; every constructor of the class goes
  through the range check, so each operation returns an in-range value or raises.
\<close>

named_theorems fx_defs \<open>definitions of the fixed-point operations\<close>

section \<open>Constants and the value type\<close>

definition SCALE_BITS :: nat where
  "SCALE_BITS = 64"

definition SCALE :: int where
  "SCALE = push_bit SCALE_BITS 1"

definition RAW_MIN :: int where
  "RAW_MIN = - push_bit 127 1"

definition RAW_MAX :: int where
  "RAW_MAX = push_bit 127 1 - 1"

lemma SCALE_eq [simp]: "SCALE = 18446744073709551616"
  by (simp add: SCALE_def SCALE_BITS_def push_bit_eq_mult)

lemma SCALE_pos [simp]: "0 < SCALE" and SCALE_nonneg [simp]: "0 \<le> SCALE"
  by simp_all

lemma RAW_MIN_eq: "RAW_MIN = - (2 ^ 127)"
  by (simp add: RAW_MIN_def push_bit_eq_mult)

lemma RAW_MAX_eq: "RAW_MAX = 2 ^ 127 - 1"
  by (simp add: RAW_MAX_def push_bit_eq_mult)

datatype fixed64 = Fixed64 (fx_raw: int)

text \<open>\<open>@dataclass(order=True)\<close>: comparisons are those of the single field.\<close>

instantiation fixed64 :: linorder
begin

definition less_eq_fixed64 :: "fixed64 \<Rightarrow> fixed64 \<Rightarrow> bool" where
  "less_eq_fixed64 a b = (fx_raw a \<le> fx_raw b)"

definition less_fixed64 :: "fixed64 \<Rightarrow> fixed64 \<Rightarrow> bool" where
  "less_fixed64 a b = (fx_raw a < fx_raw b)"

instance
  by standard (auto simp: less_eq_fixed64_def less_fixed64_def fixed64.expand)

end

lemma fx_le [simp]: "Fixed64 a \<le> Fixed64 b \<longleftrightarrow> a \<le> b"
  by (simp add: less_eq_fixed64_def)

lemma fx_less [simp]: "Fixed64 a < Fixed64 b \<longleftrightarrow> a < b"
  by (simp add: less_fixed64_def)

section \<open>Range check and rounding\<close>

definition check_raw :: "int \<Rightarrow> int result" where
  "check_raw r = (if r < RAW_MIN \<or> r > RAW_MAX then Raise (FixedOverflowError r) else Return r)"

definition round_div_half_even :: "int \<Rightarrow> int \<Rightarrow> int result" where
  "round_div_half_even numerator denominator =
     (if denominator = 0 then Raise (ZeroDivisionError ''division by zero'')
      else
        (let (num, den) = (if denominator < 0 then (- numerator, - denominator)
                           else (numerator, denominator));
             sign = (if num < 0 then -1 else 1);
             n = \<bar>num\<bar>;
             quotient = n div den;
             remainder = n mod den;
             doubled = remainder * 2;
             quotient' = (if doubled > den then quotient + 1
                          else if doubled = den \<and> quotient mod 2 = 1 then quotient + 1
                          else quotient)
         in Return (sign * quotient')))"

text \<open>\<open>Fixed64(raw)\<close> with \<open>__post_init__\<close>, and the class methods.\<close>

definition mk_fixed :: "int \<Rightarrow> fixed64 result" where
  "mk_fixed r = bindR (check_raw r) (\<lambda>_. Return (Fixed64 r))"

definition from_raw :: "int \<Rightarrow> fixed64 result" where
  "from_raw r = bindR (check_raw r) mk_fixed"

definition fx_zero :: fixed64 where
  "fx_zero = Fixed64 0"

definition fx_one :: fixed64 where
  "fx_one = Fixed64 SCALE"

definition from_int :: "int \<Rightarrow> fixed64 result" where
  "from_int v = bindR (check_raw (v * SCALE)) from_raw"

definition from_ratio :: "int \<Rightarrow> int \<Rightarrow> fixed64 result" where
  "from_ratio numerator denominator =
     bindR (round_div_half_even (numerator * SCALE) denominator) from_raw"

section \<open>Decimal text\<close>

text \<open>
  \<open>Decimal(text)\<close> for text with an exponent: white space around it and underscores are
  dropped, then an optional sign, digits with an optional point, and the exponent.  \<open>None\<close> is
  \<open>InvalidOperation\<close>.
\<close>

definition decimal_parts :: "string \<Rightarrow> (int \<times> string \<times> string \<times> int) option" where
  "decimal_parts text =
     (let t = filter (\<lambda>c. c \<noteq> CHR ''_'') (strip text);
          (sg, u) = split_sign t;
          ip = takeWhile is_ascii_digit u;
          r = dropWhile is_ascii_digit u;
          (fp, r2) = (if r \<noteq> [] \<and> hd r = CHR ''.''
                      then (takeWhile is_ascii_digit (tl r), dropWhile is_ascii_digit (tl r))
                      else ([], r))
      in if ip = [] \<and> fp = [] then None
         else (case r2 of
             [] \<Rightarrow> Some (sg, ip, fp, 0)
           | c # cs \<Rightarrow>
               if c = CHR ''e'' \<or> c = CHR ''E'' then
                 (case split_sign cs of (es, ed) \<Rightarrow>
                    if ed \<noteq> [] \<and> list_all is_ascii_digit ed
                    then Some (sg, ip, fp, es * digits_val ed) else None)
               else None))"

text \<open>\<open>format(d, "f")\<close> of the parsed decimal: the coefficient's digits with the point placed.\<close>

definition decimal_format_f :: "int \<times> string \<times> string \<times> int \<Rightarrow> string" where
  "decimal_format_f d =
     (case d of (sg, ip, fp, e) \<Rightarrow>
        let coeff = digits_val (ip @ fp);
            e0 = e - int (length fp);
            ex = (if coeff = 0 \<and> e0 > 0 then 0 else e0);
            cs = show_digits coeff;
            left = ex + int (length cs);
            (whole, frac) =
              (if left < 0 then (''0'', replicate (nat (- left)) (CHR ''0'') @ cs)
               else if left > int (length cs) then (cs @ replicate (nat (left - int (length cs))) (CHR ''0''), [])
               else ((if left = 0 then ''0'' else take (nat left) cs), drop (nat left) cs))
        in (if sg < 0 then ''-'' else []) @ whole @ (if frac = [] then [] else CHR ''.'' # frac))"

definition normalize_exponent :: "string \<Rightarrow> string \<Rightarrow> string result" where
  "normalize_exponent value text =
     (if CHR ''e'' \<in> set (lower text) then
        (case decimal_parts text of
           None \<Rightarrow> Raise (FixedParseError (''invalid fixed-point string: '' @ value))
         | Some d \<Rightarrow>
             (let t = decimal_format_f d;
                  t' = (if CHR ''.'' \<in> set t then rstrip_char (CHR ''.'') (rstrip_char (CHR ''0'') t) else t)
              in Return (if t' = [] \<or> t' = ''-0'' then ''0'' else t')))
      else Return text)"

text \<open>The digits of plain decimal text: the sign was taken off in front.\<close>

definition parse_plain :: "string \<Rightarrow> int \<Rightarrow> string \<Rightarrow> fixed64 result" where
  "parse_plain value sign text =
     (if count_list text (CHR ''.'') > 1
      then Raise (FixedParseError (''invalid fixed-point string: '' @ value))
      else
        (let (int_part, frac_part) =
               (if CHR ''.'' \<in> set text
                then (takeWhile (\<lambda>c. c \<noteq> CHR ''.'') text, tl (dropWhile (\<lambda>c. c \<noteq> CHR ''.'') text))
                else (text, []));
             int_part = (if int_part = [] then ''0'' else int_part)
         in if \<not> py_isdigit int_part \<or> (frac_part \<noteq> [] \<and> \<not> py_isdigit frac_part)
            then Raise (FixedParseError (''invalid fixed-point string: '' @ value))
            else bindR (py_int int_part) (\<lambda>i.
              bindR (if frac_part \<noteq> []
                     then bindR (py_int frac_part) (\<lambda>f.
                            round_div_half_even (f * SCALE) (10 ^ length frac_part))
                     else Return 0) (\<lambda>frac_raw.
                let r = i * SCALE + frac_raw
                in from_raw (if sign < 0 then - r else r)))))"

definition from_str :: "string \<Rightarrow> fixed64 result" where
  "from_str value =
     (let text = strip value in
      if text = [] then Raise (FixedParseError ''empty fixed-point string'')
      else (case split_sign text of (sign, text) \<Rightarrow>
        if text = [] then Raise (FixedParseError ''invalid fixed-point string'')
        else bindR (normalize_exponent value text) (parse_plain value sign)))"

definition to_raw :: "fixed64 \<Rightarrow> int" where
  "to_raw x = fx_raw x"

definition to_int_floor :: "fixed64 \<Rightarrow> int" where
  "to_int_floor x = fx_raw x div SCALE"

definition to_str :: "int \<Rightarrow> fixed64 \<Rightarrow> string result" where
  "to_str precision x =
     (if precision < 0 then Raise (ValueError ''precision must be >= 0'')
      else
        (let sign = (if fx_raw x < 0 then ''-'' else []);
             abs_raw = \<bar>fx_raw x\<bar>;
             integer = abs_raw div SCALE;
             fraction_raw = abs_raw mod SCALE
         in if precision = 0 then Return (sign @ py_str integer)
            else
              (let den = 10 ^ nat precision in
               bindR (round_div_half_even (fraction_raw * den) SCALE) (\<lambda>fraction_scaled.
                 let (integer, fraction_scaled) =
                       (if fraction_scaled \<ge> den then (integer + 1, fraction_scaled - den)
                        else (integer, fraction_scaled))
                 in Return (sign @ py_str integer @ ''.'' @ zero_pad (nat precision) fraction_scaled)))))"

text \<open>\<open>str(x)\<close>.\<close>

definition fx_str :: "fixed64 \<Rightarrow> string result" where
  "fx_str x = to_str 18 x"

section \<open>Arithmetic\<close>

text \<open>The operands \<open>_coerce\<close> accepts; anything else is a \<open>TypeError\<close>.\<close>

datatype fx_operand = OpFixed fixed64 | OpInt int | OpStr string | OpOther string

fun coerce :: "fx_operand \<Rightarrow> fixed64 result" where
  "coerce (OpFixed x) = Return x"
| "coerce (OpInt n) = from_int n"
| "coerce (OpStr s) = from_str s"
| "coerce (OpOther t) = Raise (TypeError (''unsupported operand type: '' @ t))"

definition fx_add_op :: "fixed64 \<Rightarrow> fx_operand \<Rightarrow> fixed64 result" where
  "fx_add_op x other =
     bindR (coerce other) (\<lambda>rhs. bindR (check_raw (fx_raw x + fx_raw rhs)) from_raw)"

definition fx_sub_op :: "fixed64 \<Rightarrow> fx_operand \<Rightarrow> fixed64 result" where
  "fx_sub_op x other =
     bindR (coerce other) (\<lambda>rhs. bindR (check_raw (fx_raw x - fx_raw rhs)) from_raw)"

definition fx_mul_op :: "fixed64 \<Rightarrow> fx_operand \<Rightarrow> fixed64 result" where
  "fx_mul_op x other =
     bindR (coerce other) (\<lambda>rhs.
       bindR (round_div_half_even (fx_raw x * fx_raw rhs) SCALE) (\<lambda>r.
         bindR (check_raw r) from_raw))"

definition fx_div_op :: "fixed64 \<Rightarrow> fx_operand \<Rightarrow> fixed64 result" where
  "fx_div_op x other =
     bindR (coerce other) (\<lambda>rhs.
       bindR (round_div_half_even (fx_raw x * SCALE) (fx_raw rhs)) (\<lambda>r.
         bindR (check_raw r) from_raw))"

definition fx_neg :: "fixed64 \<Rightarrow> fixed64 result" where
  "fx_neg x = bindR (check_raw (- fx_raw x)) from_raw"

definition fx_abs :: "fixed64 \<Rightarrow> fixed64 result" where
  "fx_abs x = (if fx_raw x \<ge> 0 then Return x else fx_neg x)"

abbreviation fx_add :: "fixed64 \<Rightarrow> fixed64 \<Rightarrow> fixed64 result" where
  "fx_add a b \<equiv> fx_add_op a (OpFixed b)"

abbreviation fx_sub :: "fixed64 \<Rightarrow> fixed64 \<Rightarrow> fixed64 result" where
  "fx_sub a b \<equiv> fx_sub_op a (OpFixed b)"

abbreviation fx_mul :: "fixed64 \<Rightarrow> fixed64 \<Rightarrow> fixed64 result" where
  "fx_mul a b \<equiv> fx_mul_op a (OpFixed b)"

abbreviation fx_div :: "fixed64 \<Rightarrow> fixed64 \<Rightarrow> fixed64 result" where
  "fx_div a b \<equiv> fx_div_op a (OpFixed b)"

section \<open>Rounding: the nearest integer, ties to even\<close>

definition fx_ok :: "fixed64 \<Rightarrow> bool" where
  "fx_ok x = (RAW_MIN \<le> fx_raw x \<and> fx_raw x \<le> RAW_MAX)"

text \<open>The value of the rounding where it does not raise.\<close>

definition rhe :: "int \<Rightarrow> int \<Rightarrow> int" where
  "rhe n d = (case round_div_half_even n d of Inr q \<Rightarrow> q | Inl _ \<Rightarrow> 0)"

lemma round_div_zero: "round_div_half_even n 0 = Raise (ZeroDivisionError ''division by zero'')"
  by (simp add: round_div_half_even_def)

lemma round_div_rhe: "d \<noteq> 0 \<Longrightarrow> round_div_half_even n d = Return (rhe n d)"
  by (simp add: rhe_def round_div_half_even_def Let_def)

lemma rhe_nonneg_eq:
  "0 < d \<Longrightarrow> 0 \<le> n \<Longrightarrow>
     rhe n d = n div d + (if 2 * (n mod d) > d \<or> 2 * (n mod d) = d \<and> odd (n div d) then 1 else 0)"
  by (auto simp: rhe_def round_div_half_even_def Let_def odd_iff_mod_2_eq_one)

lemma rhe_uminus: "0 < d \<Longrightarrow> rhe (- n) d = - rhe n d"
  by (cases "n = 0") (auto simp: rhe_def round_div_half_even_def Let_def)

lemma rhe_uminus_den: "rhe n (- d) = rhe (- n) d"
  by (cases "d = 0") (auto simp: rhe_def round_div_half_even_def Let_def)

lemma rhe_nearest_nonneg:
  assumes "0 < d" "0 \<le> n"
  shows "2 * \<bar>n - d * rhe n d\<bar> \<le> d"
    and "2 * \<bar>n - d * rhe n d\<bar> = d \<Longrightarrow> even (rhe n d)"
proof -
  define q where "q = n div d"
  define r where "r = n mod d"
  have n: "n = d * q + r" by (simp add: q_def r_def)
  have r: "0 \<le> r" "r < d" using assms by (auto simp: r_def)
  have q: "rhe n d = q + (if 2 * r > d \<or> 2 * r = d \<and> odd q then 1 else 0)"
    using rhe_nonneg_eq [OF assms] by (simp add: q_def r_def)
  show "2 * \<bar>n - d * rhe n d\<bar> \<le> d"
    unfolding q using r by (auto simp: n algebra_simps)
  show "even (rhe n d)" if "2 * \<bar>n - d * rhe n d\<bar> = d"
    using that unfolding q using r by (auto simp: n algebra_simps split: if_splits)
qed

lemma rhe_nearest:
  assumes "0 < d"
  shows "2 * \<bar>n - d * rhe n d\<bar> \<le> d"
    and "2 * \<bar>n - d * rhe n d\<bar> = d \<Longrightarrow> even (rhe n d)"
proof -
  have *: "2 * \<bar>n - d * rhe n d\<bar> \<le> d \<and> (2 * \<bar>n - d * rhe n d\<bar> = d \<longrightarrow> even (rhe n d))"
  proof (cases "0 \<le> n")
    case True
    then show ?thesis using rhe_nearest_nonneg [OF assms] by blast
  next
    case False
    have e: "\<bar>n - d * rhe n d\<bar> = \<bar>(- n) - d * rhe (- n) d\<bar>"
      by (simp add: rhe_uminus [OF assms])
    from False show ?thesis
      using rhe_nearest_nonneg [OF assms, of "- n"] unfolding e
      by (simp add: rhe_uminus [OF assms])
  qed
  then show "2 * \<bar>n - d * rhe n d\<bar> \<le> d"
    and "2 * \<bar>n - d * rhe n d\<bar> = d \<Longrightarrow> even (rhe n d)" by auto
qed

lemma half_gap:
  fixes a b d n n' u v :: int
  shows "a + d \<le> b \<Longrightarrow> 2 * u \<le> d \<Longrightarrow> 2 * v \<le> d \<Longrightarrow> b - n \<le> u \<Longrightarrow> n' - a \<le> v \<Longrightarrow> n' \<le> n"
  by linarith

lemma rhe_mono:
  assumes "0 < d" "n \<le> n'"
  shows "rhe n d \<le> rhe n' d"
proof (rule ccontr)
  assume "\<not> ?thesis"
  then have "rhe n' d + 1 \<le> rhe n d" by simp
  then have "d * (rhe n' d + 1) \<le> d * rhe n d"
    using assms(1) by (intro mult_left_mono) auto
  moreover have "2 * \<bar>n - d * rhe n d\<bar> \<le> d" "2 * \<bar>n' - d * rhe n' d\<bar> \<le> d"
    using rhe_nearest(1) [OF assms(1)] by auto
  moreover have "n' \<le> n" if "a + d \<le> b" "2 * \<bar>n - b\<bar> \<le> d" "2 * \<bar>n' - a\<bar> \<le> d" for a b :: int
    by (rule half_gap [OF that]) (simp_all add: abs_le_iff)
  moreover have "d * (rhe n' d + 1) = d * rhe n' d + d" by (simp add: algebra_simps)
  ultimately have "n' \<le> n" by metis
  with assms(2) have "n = n'" by simp
  with \<open>\<not> ?thesis\<close> show False by simp
qed

lemma near_dist:
  fixes a b d n :: int
  shows "2 * \<bar>n - a\<bar> \<le> d \<Longrightarrow> 2 * \<bar>n - b\<bar> \<le> d \<Longrightarrow> \<bar>a - b\<bar> \<le> d"
    and "2 * \<bar>n - a\<bar> \<le> d \<Longrightarrow> 2 * \<bar>n - b\<bar> < d \<Longrightarrow> \<bar>a - b\<bar> < d"
proof -
  have t: "\<bar>a - b\<bar> \<le> \<bar>n - a\<bar> + \<bar>n - b\<bar>" by arith
  have "w \<le> u + v \<Longrightarrow> 2 * u \<le> d \<Longrightarrow> 2 * v \<le> d \<Longrightarrow> w \<le> d"
    and "w \<le> u + v \<Longrightarrow> 2 * u \<le> d \<Longrightarrow> 2 * v < d \<Longrightarrow> w < d" for u v w :: int
    by linarith+
  with t show "2 * \<bar>n - a\<bar> \<le> d \<Longrightarrow> 2 * \<bar>n - b\<bar> \<le> d \<Longrightarrow> \<bar>a - b\<bar> \<le> d"
    and "2 * \<bar>n - a\<bar> \<le> d \<Longrightarrow> 2 * \<bar>n - b\<bar> < d \<Longrightarrow> \<bar>a - b\<bar> < d" by blast+
qed

lemma near_multiple:
  fixes d n q r :: int
  assumes d: "0 < d" and r: "2 * \<bar>n - d * r\<bar> \<le> d"
  shows "2 * \<bar>n - d * q\<bar> \<le> d \<Longrightarrow> \<bar>r - q\<bar> \<le> 1"
    and "2 * \<bar>n - d * q\<bar> < d \<Longrightarrow> r = q"
proof -
  have m: "\<bar>d * r - d * q\<bar> = d * \<bar>r - q\<bar>"
    using d by (simp add: abs_mult flip: right_diff_distrib)
  show "\<bar>r - q\<bar> \<le> 1" if "2 * \<bar>n - d * q\<bar> \<le> d"
  proof -
    have "d * \<bar>r - q\<bar> \<le> d * 1" using near_dist(1) [OF r that] m by simp
    then show ?thesis using d by (simp only: mult_le_cancel_left_pos)
  qed
  show "r = q" if "2 * \<bar>n - d * q\<bar> < d"
  proof -
    have "d * \<bar>r - q\<bar> < d * 1" using near_dist(2) [OF r that] m by simp
    then have "\<bar>r - q\<bar> < 1" using d by (simp only: mult_less_cancel_left_pos)
    then show ?thesis by simp
  qed
qed

lemma rhe_unique: "0 < d \<Longrightarrow> 2 * \<bar>n - d * q\<bar> < d \<Longrightarrow> rhe n d = q"
  by (rule near_multiple(2) [OF _ rhe_nearest(1)])

lemma round_half_even_near: "d \<noteq> 0 \<Longrightarrow> 2 * \<bar>n - d * rhe n d\<bar> \<le> \<bar>d\<bar>"
proof (cases "0 < d")
  case True
  then show ?thesis using rhe_nearest(1) [of d n] by simp
next
  case False
  assume "d \<noteq> 0"
  with False have "2 * \<bar>- n - - d * rhe (- n) (- d)\<bar> \<le> - d" by (intro rhe_nearest(1)) simp
  moreover have "\<bar>- n - - d * rhe (- n) (- d)\<bar> = \<bar>n - d * rhe n d\<bar>"
    using rhe_uminus_den [of n "- d"] by (simp add: abs_minus_commute)
  ultimately show ?thesis using False by simp
qed

lemma rhe_tie:
  assumes d: "0 < d" and tie: "2 * \<bar>n - d * q\<bar> = d" "even q"
  shows "rhe n d = q"
proof (rule ccontr)
  assume ne: "rhe n d \<noteq> q"
  let ?r = "rhe n d"
  have r: "2 * \<bar>n - d * ?r\<bar> \<le> d" by (rule rhe_nearest(1) [OF d])
  have q: "2 * \<bar>n - d * q\<bar> \<le> d" using tie(1) by simp
  have "\<not> 2 * \<bar>n - d * ?r\<bar> < d"
    using near_multiple(2) [OF d q, of ?r] ne by blast
  with r have "even ?r" using rhe_nearest(2) [OF d, of n] by simp
  moreover have "\<bar>?r - q\<bar> \<le> 1" by (rule near_multiple(1) [OF d r q])
  ultimately show False using ne tie(2) by presburger
qed

lemma rhe_exact [simp]: "0 < d \<Longrightarrow> rhe (d * k) d = k"
  by (rule rhe_unique) auto

lemma rhe_exact' [simp]: "0 < d \<Longrightarrow> rhe (k * d) d = k"
  using rhe_exact [of d k] by (simp only: mult.commute)

lemma rhe_zero [simp]: "0 < d \<Longrightarrow> rhe 0 d = 0"
  using rhe_exact [of d 0] by simp

lemma rhe_nonneg: "0 < d \<Longrightarrow> 0 \<le> n \<Longrightarrow> 0 \<le> rhe n d"
  using rhe_mono [of d 0 n] by simp

lemma rhe_le: "0 < d \<Longrightarrow> n \<le> d * k \<Longrightarrow> rhe n d \<le> k"
  using rhe_mono [of d n "d * k"] by simp

lemma rhe_ge: "0 < d \<Longrightarrow> d * k \<le> n \<Longrightarrow> k \<le> rhe n d"
  using rhe_mono [of d "d * k" n] by simp

section \<open>The operations on raw values\<close>

lemma check_raw_Return: "check_raw r = Inr s \<longleftrightarrow> s = r \<and> RAW_MIN \<le> r \<and> r \<le> RAW_MAX"
  by (auto simp: check_raw_def)

lemma check_raw_bind: "bindR (check_raw r) f = (if RAW_MIN \<le> r \<and> r \<le> RAW_MAX then f r else Raise (FixedOverflowError r))"
  by (auto simp: check_raw_def)

lemma from_raw_eq:
  "from_raw r = (if RAW_MIN \<le> r \<and> r \<le> RAW_MAX then Return (Fixed64 r) else Raise (FixedOverflowError r))"
  by (simp add: from_raw_def mk_fixed_def check_raw_bind)

lemma from_int_eq:
  "from_int v = (if RAW_MIN \<le> v * SCALE \<and> v * SCALE \<le> RAW_MAX then Return (Fixed64 (v * SCALE))
                 else Raise (FixedOverflowError (v * SCALE)))"
  by (simp add: from_int_def from_raw_eq check_raw_bind)

lemma fx_add_eq: "fx_add a b = from_raw (fx_raw a + fx_raw b)"
  by (simp add: fx_add_op_def check_raw_bind from_raw_eq)

lemma fx_sub_eq: "fx_sub a b = from_raw (fx_raw a - fx_raw b)"
  by (simp add: fx_sub_op_def check_raw_bind from_raw_eq)

lemma fx_mul_eq: "fx_mul a b = from_raw (rhe (fx_raw a * fx_raw b) SCALE)"
  by (simp add: fx_mul_op_def check_raw_bind from_raw_eq round_div_rhe)

lemma fx_div_eq:
  "fx_div a b = (if fx_raw b = 0 then Raise (ZeroDivisionError ''division by zero'')
                 else from_raw (rhe (fx_raw a * SCALE) (fx_raw b)))"
  by (simp add: fx_div_op_def check_raw_bind from_raw_eq round_div_rhe round_div_zero del: SCALE_eq)

lemma fx_neg_eq: "fx_neg a = from_raw (- fx_raw a)"
  by (simp add: fx_neg_def check_raw_bind from_raw_eq)

lemma from_raw_Return: "from_raw r = Inr y \<longleftrightarrow> y = Fixed64 r \<and> fx_ok y"
  by (auto simp: from_raw_eq fx_ok_def)

lemma from_raw_ok: "from_raw r = Inr y \<Longrightarrow> fx_ok y"
  by (auto simp: from_raw_Return)

lemma fx_raw_zero [simp]: "fx_raw fx_zero = 0"
  by (simp add: fx_zero_def)

lemma fx_raw_one [simp]: "fx_raw fx_one = SCALE"
  by (simp add: fx_one_def)

lemma fx_ok_zero [simp]: "fx_ok fx_zero" and fx_ok_one [simp]: "fx_ok fx_one"
  by (simp_all add: fx_ok_def RAW_MIN_eq RAW_MAX_eq)

lemma fx_le_raw: "a \<le> b \<longleftrightarrow> fx_raw a \<le> fx_raw b"
  by (simp add: less_eq_fixed64_def)

lemma fx_less_raw: "a < b \<longleftrightarrow> fx_raw a < fx_raw b"
  by (simp add: less_fixed64_def)

lemmas fx_op_eqs = fx_add_eq fx_sub_eq fx_mul_eq fx_div_eq fx_neg_eq

text \<open>Every constructor and operation yields an in-range value.\<close>

lemma from_ratio_ok: "from_ratio n d = Inr y \<Longrightarrow> fx_ok y"
  by (auto simp: from_ratio_def dest: from_raw_ok)

lemma from_int_ok: "from_int n = Inr y \<Longrightarrow> fx_ok y"
  by (auto simp: from_int_def dest: from_raw_ok)

lemma parse_plain_ok: "parse_plain v sg s = Inr y \<Longrightarrow> fx_ok y"
  by (auto simp: parse_plain_def Let_def bindR_eq_Return split: if_splits dest!: from_raw_ok)

lemma from_str_ok: "from_str s = Inr y \<Longrightarrow> fx_ok y"
  by (auto simp: from_str_def Let_def bindR_eq_Return split: if_splits prod.splits dest!: parse_plain_ok)

lemma coerce_ok: "coerce op = Inr y \<Longrightarrow> (\<And>x. op = OpFixed x \<Longrightarrow> fx_ok x) \<Longrightarrow> fx_ok y"
  by (cases op) (auto dest: from_int_ok from_str_ok)

section \<open>Conversion of decimal text\<close>

lemma to_str_eq:
  assumes "0 < p"
  shows "to_str (int p) x =
     (let d = 10 ^ p; i = \<bar>fx_raw x\<bar> div SCALE; f = rhe (\<bar>fx_raw x\<bar> mod SCALE * d) SCALE
      in Return ((if fx_raw x < 0 then ''-'' else []) @
           (if f \<ge> d then py_str (i + 1) @ ''.'' @ zero_pad p (f - d)
            else py_str i @ ''.'' @ zero_pad p f)))"
  using assms by (simp add: to_str_def Let_def round_div_rhe)

text \<open>Text of the shape \<open>to_str\<close> prints: a sign, the whole part, a point and a padded fraction.\<close>

definition decimal_text :: "bool \<Rightarrow> nat \<Rightarrow> int \<Rightarrow> int \<Rightarrow> string" where
  "decimal_text neg w i f = (if neg then ''-'' else []) @ py_str i @ ''.'' @ zero_pad w f"

lemma py_str_nonneg: "0 \<le> i \<Longrightarrow> py_str i = show_digits i"
  by (simp add: py_str_def)

lemma lower_ascii: "list_all is_ascii_digit s \<Longrightarrow> lower s = s"
  by (induction s) (auto simp: lower_def lower_char_def is_ascii_digit_def Let_def)

lemma point_not_space: "\<not> is_space (CHR ''.'')"
  by (simp add: is_space_def)

lemma lower_char_point: "lower_char (CHR ''.'') = CHR ''.''"
  by (simp add: lower_char_def)

lemma count_list_no: "x \<notin> set xs \<Longrightarrow> count_list xs x = 0"
  by (simp add: count_list_0_iff)

lemma zero_pad_nonempty [simp]: "zero_pad w f \<noteq> []"
  by (simp add: zero_pad_def Let_def)

lemma from_str_decimal_text:
  assumes i: "0 \<le> i" and f: "0 \<le> f" "f < 10 ^ w" and w: "0 < w"
  shows "from_str (decimal_text neg w i f) =
     from_raw (if neg then - (i * SCALE + rhe (f * SCALE) (10 ^ w))
               else i * SCALE + rhe (f * SCALE) (10 ^ w))"
proof -
  define a where "a = show_digits i"
  define z where "z = zero_pad w f"
  have a: "a \<noteq> []" "list_all is_ascii_digit a" "digits_val a = i"
    using i by (simp_all add: a_def show_digits_ascii show_digits_val)
  have z: "z \<noteq> []" "list_all is_ascii_digit z" "digits_val z = f" "length z = w"
    using f w by (simp_all add: z_def zero_pad_ascii zero_pad_val zero_pad_length)
  let ?t = "a @ CHR ''.'' # z"
  have dot: "CHR ''.'' \<notin> set a" "CHR ''.'' \<notin> set z"
    using a(2) z(2) by (auto simp: list_all_iff dest: ascii_digit_not_special)
  have tx: "decimal_text neg w i f = (if neg then CHR ''-'' # ?t else ?t)"
    using i by (simp add: decimal_text_def py_str_nonneg a_def z_def)
  have ne: "decimal_text neg w i f \<noteq> []" by (simp add: tx)
  have "list_all (\<lambda>c. \<not> is_space c) ?t"
    using a(2) z(2) by (auto simp: list_all_iff ascii_digit_not_space point_not_space)
  then have strip: "strip (decimal_text neg w i f) = decimal_text neg w i f"
    by (intro strip_no_space) (auto simp: tx minus_not_space)
  have sgn: "split_sign (decimal_text neg w i f) = (if neg then -1 else 1, ?t)"
    using a by (cases a) (auto simp: tx split_sign_def dest: ascii_digit_not_special)
  have "lower ?t = ?t"
    using lower_ascii [OF a(2)] lower_ascii [OF z(2)]
    by (simp add: lower_def lower_char_point)
  moreover have "CHR ''e'' \<notin> set ?t"
    using a(2) z(2) by (auto simp: list_all_iff dest: ascii_digit_not_special)
  ultimately have norm: "normalize_exponent v ?t = Return ?t" for v
    by (simp add: normalize_exponent_def)
  have cnt: "count_list ?t (CHR ''.'') = 1"
    using dot by (simp add: count_list_no)
  have tw: "takeWhile (\<lambda>c. c \<noteq> CHR ''.'') ?t = a" "tl (dropWhile (\<lambda>c. c \<noteq> CHR ''.'') ?t) = z"
    using dot(1) by (simp_all add: takeWhile_sep dropWhile_sep)
  have "parse_plain v sg ?t =
      from_raw (if sg < 0 then - (i * SCALE + rhe (f * SCALE) (10 ^ w))
                else i * SCALE + rhe (f * SCALE) (10 ^ w))" for v sg
    using a z cnt tw
    by (simp add: parse_plain_def Let_def list_all_ascii_isdigit py_int_digits round_div_rhe
        del: SCALE_eq)
  then show ?thesis
    using ne by (simp add: from_str_def strip sgn norm Let_def del: SCALE_eq)
qed

text \<open>Eighteen decimals are finer than needed to recover a decimal, coarser than one raw unit.\<close>

lemma decimal_fraction_recovered:
  assumes "0 \<le> f" "f < 10 ^ 18"
  defines "r \<equiv> rhe (f * SCALE) (10 ^ 18)"
  shows "rhe (r * 10 ^ 18) SCALE = f" and "0 \<le> r" and "r < SCALE"
proof -
  have near: "2 * \<bar>f * SCALE - 10 ^ 18 * r\<bar> \<le> 10 ^ 18"
    unfolding r_def by (rule rhe_nearest(1)) simp
  show "rhe (r * 10 ^ 18) SCALE = f"
    by (rule rhe_unique) (use near in \<open>simp_all add: algebra_simps abs_minus_commute\<close>)
  show "0 \<le> r" using assms by (simp add: r_def rhe_nonneg)
  have "r \<le> SCALE - 1"
    unfolding r_def by (rule rhe_le) (use assms in \<open>simp_all\<close>)
  then show "r < SCALE" by simp
qed

lemma fraction_reprinted:
  assumes "0 \<le> r" "r < SCALE"
  defines "f \<equiv> rhe (r * 10 ^ 18) SCALE"
  shows "\<bar>rhe (f * SCALE) (10 ^ 18) - r\<bar> \<le> 9" and "0 \<le> f" and "f \<le> 10 ^ 18"
proof -
  have n1: "2 * \<bar>r * 10 ^ 18 - SCALE * f\<bar> \<le> SCALE"
    unfolding f_def by (rule rhe_nearest(1)) simp
  have n2: "2 * \<bar>f * SCALE - 10 ^ 18 * rhe (f * SCALE) (10 ^ 18)\<bar> \<le> 10 ^ 18"
    by (rule rhe_nearest(1)) simp
  show "\<bar>rhe (f * SCALE) (10 ^ 18) - r\<bar> \<le> 9"
    using n1 n2 by (simp add: abs_le_iff)
  show "0 \<le> f" using assms by (simp add: f_def rhe_nonneg)
  show "f \<le> 10 ^ 18"
    unfolding f_def by (rule rhe_le) (use assms in \<open>simp_all\<close>)
qed

section \<open>Properties\<close>

text \<open>
  The function \<open>_round_div_half_even\<close> returns the nearest integer to the quotient, and of two equally near
  the even one: for a nonzero denominator this determines the result.
\<close>

theorem round_half_even_spec:
  assumes "d \<noteq> 0"
  shows "round_div_half_even n d = Return q \<longleftrightarrow>
    2 * \<bar>n - d * q\<bar> < \<bar>d\<bar> \<or> 2 * \<bar>n - d * q\<bar> = \<bar>d\<bar> \<and> even q"
proof -
  have pos: "rhe n d = q \<longleftrightarrow> 2 * \<bar>n - d * q\<bar> < d \<or> 2 * \<bar>n - d * q\<bar> = d \<and> even q"
    if d: "0 < d" for n d
  proof
    assume "rhe n d = q"
    with rhe_nearest [OF d, of n] show "2 * \<bar>n - d * q\<bar> < d \<or> 2 * \<bar>n - d * q\<bar> = d \<and> even q"
      by fastforce
  next
    assume "2 * \<bar>n - d * q\<bar> < d \<or> 2 * \<bar>n - d * q\<bar> = d \<and> even q"
    then show "rhe n d = q"
    proof
      assume "2 * \<bar>n - d * q\<bar> < d"
      with d show ?thesis by (rule rhe_unique)
    next
      assume tie: "2 * \<bar>n - d * q\<bar> = d \<and> even q"
      show ?thesis by (rule rhe_tie [OF d]) (use tie in auto)
    qed
  qed
  show ?thesis
  proof (cases "0 < d")
    case True
    with assms show ?thesis by (simp add: round_div_rhe pos)
  next
    case False
    with assms have d: "0 < - d" by simp
    have "round_div_half_even n d = Return (rhe (- n) (- d))"
      using assms rhe_uminus_den [of n "- d"] by (simp add: round_div_rhe)
    moreover have "\<bar>- n - - d * q\<bar> = \<bar>n - d * q\<bar>" by (simp add: abs_minus_commute)
    ultimately show ?thesis using d pos [OF d, of "- n"] by simp
  qed
qed

theorem round_half_even_spec_witness:
  "round_div_half_even 7 2 = Return 4 \<and> round_div_half_even 5 2 = Return 2 \<and>
   round_div_half_even (-5) 2 = Return (-2)"
  by (simp add: round_half_even_spec)

text \<open>
  A fixed-point value whose text has at most eighteen decimals survives parsing and printing:
  \<open>from_str\<close> accepts every such text below 2^63 and \<open>to_str(18)\<close> prints the same text again.
\<close>

theorem decimal_text_roundtrip:
  assumes "0 \<le> i" "i < 2 ^ 63" "0 \<le> f" "f < 10 ^ 18" and "neg \<longrightarrow> (i, f) \<noteq> (0, 0)"
  shows "\<exists>x. from_str (decimal_text neg 18 i f) = Return x \<and>
    to_str 18 x = Return (decimal_text neg 18 i f)"
proof -
  define r where "r = rhe (f * SCALE) (10 ^ 18)"
  have r: "rhe (r * 10 ^ 18) SCALE = f" "0 \<le> r" "r < SCALE"
    using decimal_fraction_recovered [OF assms(3,4)] by (simp_all only: r_def)
  define m where "m = i * SCALE + r"
  have m: "m div SCALE = i" "m mod SCALE = r" "0 \<le> m" "m \<le> RAW_MAX"
    using r assms(1,2) by (simp_all add: m_def RAW_MAX_eq)
  define x where "x = Fixed64 (if neg then - m else m)"
  have "from_str (decimal_text neg 18 i f) = from_raw (fx_raw x)"
    using from_str_decimal_text [of i f 18 neg] assms by (simp add: x_def m_def r_def)
  moreover have "from_raw (fx_raw x) = Return x"
    using m by (simp add: from_raw_eq x_def RAW_MIN_eq RAW_MAX_eq)
  moreover have "to_str 18 x = Return (decimal_text neg 18 i f)"
  proof -
    have "neg \<longrightarrow> 0 < m"
    proof
      assume neg
      with assms(5) have "0 < i \<or> 0 < f" using assms(1,3) by auto
      then show "0 < m"
      proof
        assume "0 < i"
        with r(2) show ?thesis by (simp add: m_def)
      next
        assume "0 < f"
        with r(1) have "r \<noteq> 0" by auto
        with r(2) assms(1) show ?thesis by (simp add: m_def)
      qed
    qed
    then have "\<bar>fx_raw x\<bar> = m" "fx_raw x < 0 \<longleftrightarrow> neg"
      using m(3) by (auto simp: x_def)
    then show ?thesis
      using to_str_eq [of 18 x] m r(1) assms(4) by (simp add: Let_def decimal_text_def del: SCALE_eq)
  qed
  ultimately show ?thesis by auto
qed

theorem decimal_text_roundtrip_witness:
  "\<exists>x. from_str (decimal_text True 18 3 250000000000000000) = Return x \<and>
    to_str 18 x = Return (decimal_text True 18 3 250000000000000000)"
  using decimal_text_roundtrip [of 3 250000000000000000 True] by simp

text \<open>
  Printing to eighteen decimals and parsing the text again moves a value by at most nine raw
  units (2^-64 each), and does not raise unless the value is within nine units of the range's end.
\<close>

theorem print_parse_close:
  assumes "\<bar>fx_raw x\<bar> \<le> RAW_MAX - 9"
  shows "\<exists>s y. to_str 18 x = Return s \<and> from_str s = Return y \<and> \<bar>fx_raw y - fx_raw x\<bar> \<le> 9"
proof -
  define m where "m = \<bar>fx_raw x\<bar>"
  define neg where "neg = (fx_raw x < 0)"
  define r where "r = m mod SCALE"
  define f where "f = rhe (r * 10 ^ 18) SCALE"
  define i where "i = (if f \<ge> 10 ^ 18 then m div SCALE + 1 else m div SCALE)"
  define g where "g = (if f \<ge> 10 ^ 18 then f - 10 ^ 18 else f)"
  have r: "0 \<le> r" "r < SCALE" by (simp_all add: r_def)
  have f: "0 \<le> f" "f \<le> 10 ^ 18" "\<bar>rhe (f * SCALE) (10 ^ 18) - r\<bar> \<le> 9"
    using fraction_reprinted [OF r] by (simp_all only: f_def)
  have "0 \<le> m div SCALE" by (simp add: m_def pos_imp_zdiv_nonneg_iff)
  then have i: "0 \<le> i" by (simp add: i_def)
  have g: "0 \<le> g" "g < 10 ^ 18" using f by (auto simp: g_def)
  have str: "to_str 18 x = Return (decimal_text neg 18 i g)"
    using to_str_eq [of 18 x]
    by (simp add: Let_def decimal_text_def neg_def i_def g_def f_def r_def m_def del: SCALE_eq)
  have top: "rhe (f * SCALE) (10 ^ 18) = SCALE" if "f = 10 ^ 18"
    using rhe_exact [of "10 ^ 18" SCALE] that by (simp del: SCALE_eq)
  have m: "m = (m div SCALE) * SCALE + r" by (simp add: r_def)
  have sum: "i * SCALE + rhe (g * SCALE) (10 ^ 18) = (m div SCALE) * SCALE + rhe (f * SCALE) (10 ^ 18)"
  proof (cases "f = 10 ^ 18")
    case True
    then show ?thesis by (simp add: i_def g_def top algebra_simps del: SCALE_eq)
  next
    case False
    with f(2) show ?thesis by (simp add: i_def g_def)
  qed
  define v where "v = i * SCALE + rhe (g * SCALE) (10 ^ 18)"
  have v: "\<bar>v - m\<bar> \<le> 9" using f(3) m unfolding v_def sum by linarith
  have m0: "0 \<le> m" "m \<le> RAW_MAX - 9" using assms by (simp_all add: m_def)
  have parse: "from_str (decimal_text neg 18 i g) = from_raw (if neg then - v else v)"
    using from_str_decimal_text [of i g 18 neg] i g by (simp add: v_def)
  have "from_raw (if neg then - v else v) = Return (Fixed64 (if neg then - v else v))"
    using v m0 by (auto simp: from_raw_eq RAW_MIN_eq RAW_MAX_eq)
  moreover have "\<bar>(if neg then - v else v) - fx_raw x\<bar> \<le> 9"
    using v by (auto simp: neg_def m_def)
  ultimately show ?thesis using str parse by auto
qed

theorem print_parse_close_witness:
  "\<exists>s y. to_str 18 (Fixed64 1) = Return s \<and> from_str s = Return y \<and> \<bar>fx_raw y - 1\<bar> \<le> 9"
  using print_parse_close [of "Fixed64 1"] by (simp add: RAW_MAX_eq)

text \<open>
  Multiplying back after a division returns to the dividend up to half the divisor and half a
  unit, in units of the last place: the two roundings are the only loss.
\<close>

theorem div_mul_close:
  assumes "fx_div a b = Return q" "fx_mul q b = Return p"
  shows "2 * SCALE * \<bar>fx_raw p - fx_raw a\<bar> \<le> \<bar>fx_raw b\<bar> + SCALE"
proof -
  let ?a = "fx_raw a" and ?b = "fx_raw b" and ?q = "fx_raw q" and ?p = "fx_raw p"
  have b0: "?b \<noteq> 0" using assms(1) by (auto simp: fx_div_eq)
  have q: "?q = rhe (?a * SCALE) ?b" and p: "?p = rhe (?q * ?b) SCALE"
    using assms b0 by (auto simp: fx_div_eq fx_mul_eq from_raw_Return)
  have n1: "2 * \<bar>?a * SCALE - ?b * ?q\<bar> \<le> \<bar>?b\<bar>"
    using round_half_even_near [OF b0, of "?a * SCALE"] by (simp only: q)
  have n2: "2 * \<bar>?q * ?b - SCALE * ?p\<bar> \<le> SCALE"
    unfolding p by (rule rhe_nearest(1)) simp
  have "\<bar>?a * SCALE - SCALE * ?p\<bar> \<le> \<bar>?a * SCALE - ?b * ?q\<bar> + \<bar>?q * ?b - SCALE * ?p\<bar>"
    using abs_triangle_ineq [of "?a * SCALE - ?b * ?q" "?q * ?b - SCALE * ?p"]
    by (simp add: algebra_simps del: SCALE_eq)
  moreover have "?a * SCALE - SCALE * ?p = SCALE * (?a - ?p)"
    by (simp only: right_diff_distrib mult.commute)
  then have "\<bar>?a * SCALE - SCALE * ?p\<bar> = \<bar>SCALE\<bar> * \<bar>?a - ?p\<bar>"
    by (simp only: abs_mult)
  moreover have "\<bar>SCALE\<bar> * \<bar>?a - ?p\<bar> = SCALE * \<bar>?p - ?a\<bar>"
    by (simp add: abs_minus_commute)
  ultimately show ?thesis using n1 n2 by linarith
qed

theorem div_mul_close_witness:
  "fx_div (Fixed64 SCALE) (Fixed64 (3 * SCALE)) = Return (Fixed64 6148914691236517205) \<and>
   2 * SCALE * \<bar>18446744073709551615 - SCALE\<bar> \<le> \<bar>3 * SCALE\<bar> + SCALE"
proof -
  have d: "fx_div (Fixed64 SCALE) (Fixed64 (3 * SCALE)) = Return (Fixed64 6148914691236517205)"
    by (simp add: fx_div_op_def round_div_half_even_def check_raw_def from_raw_eq Let_def
        RAW_MIN_eq RAW_MAX_eq)
  have m: "fx_mul (Fixed64 6148914691236517205) (Fixed64 (3 * SCALE)) = Return (Fixed64 18446744073709551615)"
    by (simp add: fx_mul_op_def round_div_half_even_def check_raw_def from_raw_eq Let_def
        RAW_MIN_eq RAW_MAX_eq)
  show ?thesis using d div_mul_close [OF d m] by simp
qed

end
