(* ===== verification/Stellar_Physics.thy ===== *)
theory Stellar_Physics
  imports Fixed_Math
begin

text \<open>
  The deterministic physics of the Solis constellation on \<open>fixed64\<close> values:
  \<^verbatim>\<open>solis/physics/collapse_engine.py\<close>, \<^verbatim>\<open>entropy_engine.py\<close>, \<^verbatim>\<open>contagion_engine.py\<close>,
  \<^verbatim>\<open>stability_solver.py\<close> and \<^verbatim>\<open>sheaf_model.py\<close>, with \<^verbatim>\<open>solis/sheaf/engine.py\<close>.  Mappings are
  dictionaries; the code iterates them in sorted key order, and so does the model.
\<close>

section \<open>Collapse\<close>

definition clamp01 :: "fixed64 \<Rightarrow> fixed64" where
  "clamp01 value = (if value < fx_zero then fx_zero else if value > fx_one then fx_one else value)"

definition collapse_probability_v1 :: "fixed64 \<Rightarrow> fixed64 \<Rightarrow> fixed64 \<Rightarrow> fixed64 result" where
  "collapse_probability_v1 entropy magnetic fusion =
     bindR (fx_sub fx_one magnetic) (\<lambda>k.
     bindR (fx_mul entropy k) (\<lambda>instability.
     bindR (fx_mul instability fusion) (\<lambda>c. Return (clamp01 c))))"

definition stability_margin :: "fixed64 \<Rightarrow> fixed64 result" where
  "stability_margin c = bindR (fx_sub fx_one c) (\<lambda>m. Return (clamp01 m))"

definition collapse_drift :: "fixed64 \<Rightarrow> fixed64 \<Rightarrow> fixed64 result" where
  "collapse_drift previous current = fx_sub current previous"

record collapse_projection =
  cp_entropy :: fixed64
  cp_magnetic :: fixed64
  cp_fusion :: fixed64
  cp_instability :: fixed64
  cp_collapse_probability :: fixed64
  cp_stability_margin :: fixed64

definition project_collapse :: "fixed64 \<Rightarrow> fixed64 \<Rightarrow> fixed64 \<Rightarrow> collapse_projection result" where
  "project_collapse entropy magnetic fusion =
     bindR (fx_sub fx_one magnetic) (\<lambda>k.
     bindR (fx_mul entropy k) (\<lambda>instability.
     bindR (fx_mul instability fusion) (\<lambda>raw_collapse.
       let collapse = clamp01 raw_collapse in
       bindR (stability_margin collapse) (\<lambda>margin.
         Return \<lparr>cp_entropy = entropy, cp_magnetic = magnetic, cp_fusion = fusion,
                 cp_instability = instability, cp_collapse_probability = collapse,
                 cp_stability_margin = margin\<rparr>))))"

section \<open>Entropy\<close>

definition entropy_delta :: "fixed64 \<Rightarrow> fixed64 \<Rightarrow> fixed64 result" where
  "entropy_delta previous current = fx_sub current previous"

definition entropy_gradient :: "fixed64 \<Rightarrow> fixed64 \<Rightarrow> int \<Rightarrow> fixed64 result" where
  "entropy_gradient previous current steps =
     (if steps \<le> 0 then Raise (ValueError ''steps must be > 0'')
      else bindR (entropy_delta previous current) (\<lambda>d.
           bindR (from_int steps) (\<lambda>n. fx_div d n)))"

definition entropy_projection :: "fixed64 \<Rightarrow> fixed64 \<Rightarrow> fixed64 result" where
  "entropy_projection current delta =
     bindR (fx_add current delta) (\<lambda>projected.
       Return (if projected < fx_zero then fx_zero else projected))"

record entropy_vec =
  ev_previous :: fixed64
  ev_current :: fixed64
  ev_delta :: fixed64
  ev_gradient :: fixed64

definition entropy_vector :: "fixed64 \<Rightarrow> fixed64 \<Rightarrow> int \<Rightarrow> entropy_vec result" where
  "entropy_vector previous current steps =
     bindR (entropy_delta previous current) (\<lambda>delta.
     bindR (entropy_gradient previous current steps) (\<lambda>gradient.
       Return \<lparr>ev_previous = previous, ev_current = current, ev_delta = delta, ev_gradient = gradient\<rparr>))"

section \<open>Contagion\<close>

type_synonym matrix = "fixed64 dict dict"

definition exposure_row :: "string \<Rightarrow> fixed64 \<Rightarrow> string list \<Rightarrow> fixed64 dict" where
  "exposure_row source weight targets =
     fold (\<lambda>target row. dset target (if source = target then fx_zero else weight) row) targets []"

definition exposure_matrix :: "string list \<Rightarrow> fixed64 option \<Rightarrow> matrix result" where
  "exposure_matrix node_uris base_weight =
     (if node_uris = [] then Return []
      else bindR (case base_weight of Some w \<Rightarrow> Return w
                  | None \<Rightarrow> from_ratio 1 (max (int (length node_uris) - 1) 1)) (\<lambda>weight.
        Return (fold (\<lambda>source m. dset source (exposure_row source weight (sort node_uris)) m)
                  (sort node_uris) [])))"

text \<open>The sum of one row, with the replacement of a zero sum by one.\<close>

definition row_sum :: "matrix \<Rightarrow> string \<Rightarrow> fixed64 result" where
  "row_sum m source =
     (let row = dget_or m source [] in
      bindR (foldR (\<lambda>acc target. fx_add acc (dget_or row target fx_zero)) fx_zero (sorted_keys row)) (\<lambda>s.
        Return (if s = fx_zero then fx_one else s)))"

definition contagion_index :: "fixed64 dict \<Rightarrow> matrix \<Rightarrow> fixed64 result" where
  "contagion_index collapse_by_uri m =
     (if collapse_by_uri = [] then Return fx_zero
      else bindR (foldR (\<lambda>(acc, contributing) source.
                    bindR (row_sum m source) (\<lambda>rs.
                    bindR (fx_mul (dget_or collapse_by_uri source fx_zero) rs) (\<lambda>w.
                    bindR (fx_add acc w) (\<lambda>acc'. Return (acc', contributing + 1)))))
                  (fx_zero, 0) (sorted_keys collapse_by_uri)) (\<lambda>(acc, contributing).
        if contributing = 0 then Return fx_zero
        else bindR (from_int contributing) (\<lambda>n.
             bindR (fx_div acc n) (\<lambda>normalized. Return (clamp01 normalized)))))"

definition collapse_weight_projection :: "fixed64 dict \<Rightarrow> matrix \<Rightarrow> fixed64 dict result" where
  "collapse_weight_projection collapse_by_uri m =
     foldR (\<lambda>out source.
        bindR (row_sum m source) (\<lambda>rs.
        bindR (fx_mul (dget_or collapse_by_uri source fx_zero) rs) (\<lambda>w.
          Return (dset source (clamp01 w) out))))
       [] (sorted_keys collapse_by_uri)"

record contagion_snapshot =
  cs_exposure_matrix :: matrix
  cs_collapse_weights :: "fixed64 dict"
  cs_contagion_index :: fixed64

definition snapshot :: "fixed64 dict \<Rightarrow> contagion_snapshot result" where
  "snapshot collapse_by_uri =
     bindR (exposure_matrix (sorted_keys collapse_by_uri) None) (\<lambda>m.
     bindR (collapse_weight_projection collapse_by_uri m) (\<lambda>weights.
     bindR (contagion_index collapse_by_uri m) (\<lambda>idx.
       Return \<lparr>cs_exposure_matrix = m, cs_collapse_weights = weights, cs_contagion_index = idx\<rparr>)))"

section \<open>Stability field\<close>

record stability_field =
  sf_collapse_vector :: "fixed64 dict"
  sf_entropy_gradient :: "fixed64 dict"
  sf_systemic_risk_index :: fixed64
  sf_stability_margin :: fixed64

definition solve_stability_field :: "fixed64 dict dict \<Rightarrow> int \<Rightarrow> stability_field result" where
  "solve_stability_field constellation_state steps =
     bindR (foldR (\<lambda>(collapse_vector, entropy_v) uri.
              let state = dget_or constellation_state uri [];
                  entropy = dget_or state ''entropy_index'' fx_zero;
                  magnetic = dget_or state ''magnetic_field'' fx_one;
                  fusion = dget_or state ''fusion_rate'' fx_zero;
                  prev_entropy = dget_or state ''previous_entropy_index'' entropy
              in bindR (collapse_probability_v1 entropy magnetic fusion) (\<lambda>c.
                 bindR (entropy_gradient prev_entropy entropy steps) (\<lambda>g.
                   Return (dset uri c collapse_vector, dset uri g entropy_v))))
            ([], []) (sorted_keys constellation_state)) (\<lambda>(collapse_vector, entropy_v).
     bindR (snapshot collapse_vector) (\<lambda>c_snapshot.
       let systemic = cs_contagion_index c_snapshot in
       bindR (stability_margin systemic) (\<lambda>margin.
         Return \<lparr>sf_collapse_vector = collapse_vector, sf_entropy_gradient = entropy_v,
                 sf_systemic_risk_index = systemic, sf_stability_margin = margin\<rparr>)))"

text \<open>\<^verbatim>\<open>solis/agent/runtime/risk_adapter.py\<close>: the field's systemic risk against a threshold.\<close>

record risk_assessment =
  ra_allowed :: bool
  ra_collapse_threshold :: fixed64
  ra_systemic_risk_index :: fixed64

definition assess_runtime_risk :: "stability_field \<Rightarrow> fixed64 \<Rightarrow> risk_assessment" where
  "assess_runtime_risk stability collapse_threshold =
     \<lparr>ra_allowed = (sf_systemic_risk_index stability \<le> collapse_threshold),
      ra_collapse_threshold = collapse_threshold,
      ra_systemic_risk_index = sf_systemic_risk_index stability\<rparr>"

section \<open>Sheaf layers\<close>

record sheaf_layer =
  sl_name :: string
  sl_field :: "fixed64 dict"

type_synonym sheaf_state = "sheaf_layer list"

definition sort_field :: "fixed64 dict \<Rightarrow> fixed64 dict" where
  "sort_field src = fold (\<lambda>key field. dset key (dget_or src key fx_zero) field) (sorted_keys src) []"

definition make_sheaf_state :: "fixed64 dict dict \<Rightarrow> sheaf_state" where
  "make_sheaf_state layer_fields =
     map (\<lambda>name. \<lparr>sl_name = name, sl_field = sort_field (dget_or layer_fields name [])\<rparr>)
       (sorted_keys layer_fields)"

definition influence_matrix :: "sheaf_state \<Rightarrow> matrix result" where
  "influence_matrix state =
     (let names = map sl_name state in
      foldR (\<lambda>coeffs source.
        bindR (foldR (\<lambda>row target.
                  bindR (if source = target then Return fx_one else from_str ''0.125'') (\<lambda>c.
                    Return (dset target c row))) [] names) (\<lambda>row.
          Return (dset source row coeffs))) [] names)"

text \<open>
  \<open>layer_lookup\<close> holds the layers as they were: the fields updated in \<open>result\<close> are copies.
\<close>

definition add_incoming :: "fixed64 \<Rightarrow> fixed64 dict \<Rightarrow> fixed64 dict \<Rightarrow> string \<Rightarrow> fixed64 dict result" where
  "add_incoming coefficient source_field target_field key =
     bindR (fx_mul (dget_or source_field key fx_zero) coefficient) (\<lambda>incoming.
     bindR (fx_add (dget_or target_field key fx_zero) incoming) (\<lambda>v.
       Return (dset key v target_field)))"

definition propagate :: "sheaf_state \<Rightarrow> matrix \<Rightarrow> sheaf_state result" where
  "propagate state m =
     (let result0 = fold (\<lambda>layer d. dset (sl_name layer) (sl_field layer) d) state [];
          layer_lookup = fold (\<lambda>layer d. dset (sl_name layer) layer d) state []
      in bindR (foldR (\<lambda>result target_name.
            bindR (foldR (\<lambda>target_field source_name.
                if source_name = target_name then Return target_field
                else
                  (let coefficient = dget_or (dget_or m source_name []) target_name fx_zero;
                       source_field = (case dget layer_lookup source_name of
                                         Some layer \<Rightarrow> sl_field layer | None \<Rightarrow> [])
                   in foldR (add_incoming coefficient source_field) target_field
                        (sorted_keys source_field)))
              (dget_or result target_name []) (sorted_keys layer_lookup)) (\<lambda>target_field.
              Return (dset target_name target_field result)))
          result0 (sorted_keys result0)) (\<lambda>result. Return (make_sheaf_state result)))"

record sheaf_projection =
  sp_state :: sheaf_state
  sp_influence :: matrix
  sp_propagated :: sheaf_state
  sp_stability :: stability_field

definition build_sheaf_projection ::
  "fixed64 dict dict \<Rightarrow> fixed64 dict dict \<Rightarrow> int \<Rightarrow> sheaf_projection result" where
  "build_sheaf_projection layer_fields constellation_state steps =
     (let state = make_sheaf_state layer_fields in
      bindR (influence_matrix state) (\<lambda>m.
      bindR (propagate state m) (\<lambda>projected.
      bindR (solve_stability_field constellation_state steps) (\<lambda>stability.
        Return \<lparr>sp_state = state, sp_influence = m, sp_propagated = projected,
                sp_stability = stability\<rparr>))))"

section \<open>Capital\<close>

text \<open>
  \<^verbatim>\<open>solis/shared/fixed_types.py\<close>, \<^verbatim>\<open>solis/agent/runtime/capital_router.py\<close> and
  \<^verbatim>\<open>solis/agent/marketplace/revenue_model.py\<close>.
\<close>

definition to_fixed :: "fx_operand \<Rightarrow> fixed64 result" where
  "to_fixed v = (case v of OpFixed x \<Rightarrow> Return x | OpInt n \<Rightarrow> from_int n | OpStr s \<Rightarrow> from_str s
     | OpOther t \<Rightarrow> Raise (TypeError (''unsupported fixed value: '' @ t)))"

definition sum_fixed :: "fx_operand list \<Rightarrow> fixed64 result" where
  "sum_fixed values = foldR (\<lambda>acc v. bindR (to_fixed v) (fx_add acc)) fx_zero values"

definition route_capital :: "fixed64 \<Rightarrow> fixed64 dict \<Rightarrow> fixed64 dict result" where
  "route_capital total_capital allocation =
     foldR (\<lambda>routed asset.
        bindR (fx_mul total_capital (dget_or allocation asset fx_zero)) (\<lambda>v.
          Return (dset asset v routed)))
       [] (sorted_keys allocation)"

record revenue_split =
  rs_creator :: fixed64
  rs_operator :: fixed64
  rs_protocol :: fixed64

definition split_revenue ::
  "fixed64 \<Rightarrow> fixed64 \<Rightarrow> fixed64 \<Rightarrow> fixed64 \<Rightarrow> revenue_split result" where
  "split_revenue revenue ratio_creator ratio_operator ratio_protocol =
     bindR (bindR (fx_add ratio_creator ratio_operator) (\<lambda>s. fx_add s ratio_protocol)) (\<lambda>allocated.
       if allocated \<noteq> fx_one then Raise (ValueError ''revenue ratio must sum to 1.0'')
       else bindR (fx_mul revenue ratio_creator) (\<lambda>c.
            bindR (fx_mul revenue ratio_operator) (\<lambda>o'.
            bindR (fx_mul revenue ratio_protocol) (\<lambda>p.
              Return \<lparr>rs_creator = c, rs_operator = o', rs_protocol = p\<rparr>))))"

section \<open>Lemmas\<close>

lemma fx_op_Return:
  "fx_add a b = Inr c \<longleftrightarrow> c = Fixed64 (fx_raw a + fx_raw b) \<and> fx_ok c"
  "fx_sub a b = Inr c \<longleftrightarrow> c = Fixed64 (fx_raw a - fx_raw b) \<and> fx_ok c"
  "fx_mul a b = Inr c \<longleftrightarrow> c = Fixed64 (rhe (fx_raw a * fx_raw b) SCALE) \<and> fx_ok c"
  by (simp_all add: fx_add_eq fx_sub_eq fx_mul_eq from_raw_Return)

lemma fx_div_Return:
  "fx_div a b = Inr c \<longleftrightarrow> fx_raw b \<noteq> 0 \<and> c = Fixed64 (rhe (fx_raw a * SCALE) (fx_raw b)) \<and> fx_ok c"
  by (simp add: fx_div_eq from_raw_Return)

lemma clamp01_range: "fx_zero \<le> clamp01 x" "clamp01 x \<le> fx_one"
  by (auto simp: clamp01_def fx_le_raw fx_less_raw)

lemma clamp01_id: "fx_zero \<le> x \<Longrightarrow> x \<le> fx_one \<Longrightarrow> clamp01 x = x"
  by (auto simp: clamp01_def)

lemma clamp01_mono: "x \<le> y \<Longrightarrow> clamp01 x \<le> clamp01 y"
  by (auto simp: clamp01_def fx_le_raw fx_less_raw)

lemma stability_margin_exact:
  assumes "fx_zero \<le> c" "c \<le> fx_one"
  shows "stability_margin c = Return (Fixed64 (SCALE - fx_raw c))"
  using assms
  by (auto simp: stability_margin_def fx_sub_eq from_raw_eq RAW_MIN_eq RAW_MAX_eq clamp01_def
      fx_le_raw fx_less_raw)

text \<open>Rounded multiplication by a non-negative value is monotone.\<close>

lemma fx_mul_mono:
  assumes "fx_mul a k = Inr x" "fx_mul b k = Inr y" "a \<le> b" "fx_zero \<le> k"
  shows "x \<le> y"
  using assms
  by (auto simp: fx_op_Return fx_le_raw simp del: SCALE_eq intro!: rhe_mono mult_right_mono)

lemma fx_mul_commute: "fx_mul a b = fx_mul b a"
  by (simp add: fx_mul_eq mult.commute)

lemma fx_mul_one: "fx_ok a \<Longrightarrow> fx_mul a fx_one = Return a"
  by (cases a) (auto simp: fx_mul_eq from_raw_eq fx_ok_def simp del: SCALE_eq)

lemma fx_mul_nonneg: "fx_mul a b = Inr c \<Longrightarrow> fx_zero \<le> a \<Longrightarrow> fx_zero \<le> b \<Longrightarrow> fx_zero \<le> c"
  by (auto simp: fx_op_Return fx_le_raw simp del: SCALE_eq intro!: rhe_nonneg)

text \<open>Sums of non-negative values that stay in range do not raise.\<close>

lemma fx_sum_Return:
  assumes "\<And>t. t \<in> set xs \<Longrightarrow> 0 \<le> fx_raw (f t)" "0 \<le> fx_raw a"
    and "fx_raw a + (\<Sum>t\<leftarrow>xs. fx_raw (f t)) \<le> RAW_MAX"
  shows "foldR (\<lambda>acc t. fx_add acc (f t)) a xs = Return (Fixed64 (fx_raw a + (\<Sum>t\<leftarrow>xs. fx_raw (f t))))"
  using assms
proof (induction xs arbitrary: a)
  case Nil
  then show ?case by (cases a) simp
next
  case (Cons x xs)
  have "0 \<le> (\<Sum>t\<leftarrow>xs. fx_raw (f t))" "0 \<le> fx_raw (f x)"
    using Cons.prems(1) by (auto intro!: sum_list_nonneg)
  with Cons.prems(2,3) have "fx_add a (f x) = Return (Fixed64 (fx_raw a + fx_raw (f x)))"
    by (simp add: fx_add_eq from_raw_eq RAW_MIN_eq)
  moreover have "foldR (\<lambda>acc t. fx_add acc (f t)) (Fixed64 (fx_raw a + fx_raw (f x))) xs =
      Return (Fixed64 (fx_raw a + fx_raw (f x) + (\<Sum>t\<leftarrow>xs. fx_raw (f t))))"
    using Cons.IH [of "Fixed64 (fx_raw a + fx_raw (f x))"] Cons.prems \<open>0 \<le> fx_raw (f x)\<close>
    by (simp add: algebra_simps)
  ultimately show ?case by (simp add: algebra_simps)
qed

lemma sum_all_but_one:
  fixes w :: int
  shows "distinct xs \<Longrightarrow> (\<Sum>t\<leftarrow>xs. if s = t then 0 else w) =
    (int (length xs) - (if s \<in> set xs then 1 else 0)) * w"
  by (induction xs) (auto simp: algebra_simps)

text \<open>The default weight of a matrix over \<open>n\<close> nodes.\<close>

abbreviation peers :: "'a list \<Rightarrow> int" where
  "peers xs \<equiv> max (int (length xs) - 1) 1"

definition default_weight :: "string list \<Rightarrow> fixed64" where
  "default_weight xs = Fixed64 (rhe SCALE (peers xs))"

lemma peer_weight:
  assumes "1 \<le> m" "m < 2 ^ 32"
  shows "2 * \<bar>m * rhe SCALE m - SCALE\<bar> \<le> m" and "0 \<le> rhe SCALE m" and "rhe SCALE m \<le> SCALE"
proof -
  show "2 * \<bar>m * rhe SCALE m - SCALE\<bar> \<le> m"
    using rhe_nearest(1) [of m SCALE] assms(1) by (simp add: abs_minus_commute del: SCALE_eq)
  show "0 \<le> rhe SCALE m" using assms(1) by (intro rhe_nonneg) simp_all
  have "1 * SCALE \<le> m * SCALE" using assms(1) by (intro mult_right_mono) (auto simp del: SCALE_eq)
  then show "rhe SCALE m \<le> SCALE" using assms(1) by (intro rhe_le) (auto simp del: SCALE_eq)
qed

lemma near_scale_bounds:
  "2 * \<bar>v - SCALE\<bar> \<le> k \<Longrightarrow> k < 2 ^ 32 \<Longrightarrow> v \<le> 2 * SCALE"
  "2 * \<bar>v - SCALE\<bar> \<le> k \<Longrightarrow> k < 2 ^ 32 \<Longrightarrow> 0 < v"
  by (simp_all add: abs_if split: if_splits)

lemma exposure_matrix_default:
  assumes "sorted xs" "distinct xs" "xs \<noteq> []" "length xs < 2 ^ 32"
  shows "exposure_matrix xs None =
    Return (map (\<lambda>s. (s, map (\<lambda>t. (t, if s = t then fx_zero else default_weight xs)) xs)) xs)"
proof -
  have m: "1 \<le> peers xs" "peers xs < 2 ^ 32" using assms(4) by auto
  have "from_ratio 1 (peers xs) = Return (default_weight xs)"
    using peer_weight [OF m] m(1)
    by (simp add: from_ratio_def default_weight_def round_div_rhe from_raw_eq RAW_MIN_eq RAW_MAX_eq)
  then show ?thesis
    using assms by (simp add: exposure_matrix_def exposure_row_def fold_dset_map sorted_sort_id)
qed

lemma row_sum_default:
  assumes xs: "sorted xs" "distinct xs" "length xs < 2 ^ 32" and s: "s \<in> set xs"
    and m: "m = map (\<lambda>s. (s, map (\<lambda>t. (t, if s = t then fx_zero else default_weight xs)) xs)) xs"
  obtains r where "row_sum m s = Return (Fixed64 r)" "2 * \<bar>r - SCALE\<bar> \<le> int (length xs)" "0 \<le> r"
proof -
  let ?w = "rhe SCALE (peers xs)" and ?n = "int (length xs) - 1"
  define row where "row = map (\<lambda>t. (t, if s = t then fx_zero else default_weight xs)) xs"
  have p: "1 \<le> peers xs" "peers xs < 2 ^ 32" using xs(3) by auto
  note w = peer_weight [OF p]
  have n0: "0 \<le> ?n" using s by (cases xs) auto
  have row: "dget_or m s [] = row" using s by (simp add: m row_def dget_or_def dget_graph)
  have entries: "fx_raw (dget_or row t fx_zero) = (if s = t then 0 else ?w)" if "t \<in> set xs" for t
    using that by (simp add: row_def dget_or_def dget_graph default_weight_def)
  have tot: "(\<Sum>t\<leftarrow>xs. fx_raw (dget_or row t fx_zero)) = ?n * ?w"
    using sum_all_but_one [OF xs(2), of s ?w] s entries by (simp cong: map_cong)
  have cases_n: "?n = 0 \<or> ?n = peers xs" using n0 by linarith
  have near: "?n \<noteq> 0 \<Longrightarrow> 2 * \<bar>?n * ?w - SCALE\<bar> \<le> peers xs" using cases_n w(1) by metis
  have "?n * ?w \<le> 2 * SCALE" and pos: "?n \<noteq> 0 \<Longrightarrow> 0 < ?n * ?w"
    using near p(2) near_scale_bounds [of "?n * ?w" "peers xs"] by (cases "?n = 0"; simp)+
  then have "foldR (\<lambda>acc t. fx_add acc (dget_or row t fx_zero)) fx_zero xs = Return (Fixed64 (?n * ?w))"
    using fx_sum_Return [of xs "\<lambda>t. dget_or row t fx_zero" fx_zero] w(2) entries
    by (simp add: tot RAW_MAX_eq)
  then have sum: "row_sum m s = Return (if ?n * ?w = 0 then fx_one else Fixed64 (?n * ?w))"
    using xs(1) unfolding row_sum_def row by (simp add: row_def sorted_keys_graph fx_zero_def Let_def)
  show ?thesis
  proof (cases "?n = 0")
    case True
    then have "row_sum m s = Return (Fixed64 SCALE)" using sum by (simp add: fx_one_def)
    then show ?thesis by (rule that) (auto simp: True)
  next
    case False
    then have "?n * ?w \<noteq> 0" using pos by (metis less_irrefl)
    then have "row_sum m s = Return (Fixed64 (?n * ?w))" by (simp only: sum if_False)
    then show ?thesis using False near pos n0 by (intro that) (auto simp del: SCALE_eq)
  qed
qed

definition physical :: "fixed64 \<Rightarrow> bool" where
  "physical x = (fx_zero \<le> x \<and> x \<le> fx_one)"

lemma physical_clamp01 [simp]: "physical (clamp01 x)"
  by (simp add: physical_def clamp01_range)

lemma physical_zero [simp]: "physical fx_zero" and physical_one [simp]: "physical fx_one"
  by (simp_all add: physical_def fx_le_raw)

lemma physical_raw: "physical x \<longleftrightarrow> 0 \<le> fx_raw x \<and> fx_raw x \<le> SCALE"
  by (simp add: physical_def fx_le_raw)

text \<open>A probability times a row sum is at most two.\<close>

lemma fx_mul_weight:
  assumes "physical c" "0 \<le> r" "r \<le> 2 * SCALE"
  obtains w where "fx_mul c (Fixed64 r) = Return (Fixed64 w)" "0 \<le> w" "w \<le> 2 * SCALE"
proof -
  have c: "0 \<le> fx_raw c" "fx_raw c \<le> SCALE" using assms(1) by (auto simp: physical_raw)
  have "fx_raw c * r \<le> SCALE * (2 * SCALE)" by (rule mult_mono [OF c(2) assms(3)]) (use assms in simp_all)
  then have le: "rhe (fx_raw c * r) SCALE \<le> 2 * SCALE" by (intro rhe_le) auto
  have ge: "0 \<le> rhe (fx_raw c * r) SCALE" using c(1) assms(2) by (intro rhe_nonneg) auto
  have "fx_mul c (Fixed64 r) = Return (Fixed64 (rhe (fx_raw c * r) SCALE))"
    using le ge by (simp add: fx_mul_eq from_raw_eq RAW_MIN_eq RAW_MAX_eq)
  then show ?thesis by (rule that [OF _ ge le])
qed

definition rows_near_one :: "matrix \<Rightarrow> string set \<Rightarrow> bool" where
  "rows_near_one m ks = (\<forall>s\<in>ks. \<exists>r. row_sum m s = Return (Fixed64 r) \<and> 0 \<le> r \<and> r \<le> 2 * SCALE)"

lemma weighted_row:
  assumes "rows_near_one m ks" "s \<in> ks" "physical (dget_or d s fx_zero)"
  obtains rs w where "row_sum m s = Return rs" "fx_mul (dget_or d s fx_zero) rs = Return (Fixed64 w)"
    "0 \<le> w" "w \<le> 2 * SCALE"
  using assms unfolding rows_near_one_def by (metis fx_mul_weight)

lemma collapse_weight_projection_total:
  assumes rows: "rows_near_one m (set (dkeys d))" and d: "\<And>k. physical (dget_or d k fx_zero)"
  shows "\<exists>ws. collapse_weight_projection d m = Return ws \<and> (\<forall>k. physical (dget_or ws k fx_zero))"
proof -
  let ?P = "\<lambda>(_::nat) (ws::fixed64 dict). \<forall>k. physical (dget_or ws k fx_zero)"
  let ?f = "\<lambda>out source. bindR (row_sum m source) (\<lambda>rs.
        bindR (fx_mul (dget_or d source fx_zero) rs) (\<lambda>w. Return (dset source (clamp01 w) out)))"
  have "\<exists>t. foldR ?f [] (sorted_keys d) = Inr t \<and> ?P (0 + length (sorted_keys d)) t"
  proof (rule foldR_total [of ?P])
    show "?P 0 []" by (simp add: dget_or_def)
    fix j :: nat and x and ws :: "fixed64 dict"
    assume x: "x \<in> set (sorted_keys d)" and P: "?P j ws"
    from x have "x \<in> set (dkeys d)" by simp
    then obtain rs w where "row_sum m x = Return rs" "fx_mul (dget_or d x fx_zero) rs = Return (Fixed64 w)"
      by (rule weighted_row [OF rows _ d])
    with P show "\<exists>s'. ?f ws x = Inr s' \<and> ?P (Suc j) s'" by (simp add: dget_or_def)
  qed
  then show ?thesis by (simp add: collapse_weight_projection_def)
qed

lemma contagion_index_total:
  assumes rows: "rows_near_one m (set (dkeys d))" and d: "\<And>k. physical (dget_or d k fx_zero)"
    and n: "length d < 2 ^ 32"
  shows "\<exists>i. contagion_index d m = Return i \<and> physical i"
proof (cases "d = []")
  case True
  then show ?thesis by (simp add: contagion_index_def)
next
  case False
  let ?P = "\<lambda>(j::nat) (acc, k::int). k = int j \<and> 0 \<le> fx_raw acc \<and> fx_raw acc \<le> int j * (2 * SCALE)"
  let ?f = "\<lambda>(acc, contributing::int) source. bindR (row_sum m source) (\<lambda>rs.
     bindR (fx_mul (dget_or d source fx_zero) rs) (\<lambda>w.
     bindR (fx_add acc w) (\<lambda>acc'. Return (acc', contributing + 1))))"
  have "\<exists>t. foldR ?f (fx_zero, 0) (sorted_keys d) = Inr t \<and> ?P (0 + length (sorted_keys d)) t"
  proof (rule foldR_total [of ?P])
    show "?P 0 (fx_zero, 0)" by simp
    fix j :: nat and x and s :: "fixed64 \<times> int"
    assume j: "j < 0 + length (sorted_keys d)" and x: "x \<in> set (sorted_keys d)" and P: "?P j s"
    obtain acc where s: "s = (acc, int j)" and acc: "0 \<le> fx_raw acc" "fx_raw acc \<le> int j * (2 * SCALE)"
      using P by (cases s) auto
    from x have "x \<in> set (dkeys d)" by simp
    then obtain rs w where w: "row_sum m x = Return rs" "fx_mul (dget_or d x fx_zero) rs = Return (Fixed64 w)"
      "0 \<le> w" "w \<le> 2 * SCALE"
      by (rule weighted_row [OF rows _ d])
    have "int j < 2 ^ 32" using j n by simp
    then have "fx_raw acc + w \<le> RAW_MAX" using acc w(4) by (simp add: RAW_MAX_eq)
    then have "fx_add acc (Fixed64 w) = Return (Fixed64 (fx_raw acc + w))"
      using acc w(3) by (simp add: fx_add_eq from_raw_eq RAW_MIN_eq)
    with s w acc show "\<exists>s'. ?f s x = Inr s' \<and> ?P (Suc j) s'" by (simp add: distrib_right)
  qed
  then obtain acc where acc: "foldR ?f (fx_zero, 0) (sorted_keys d) = Return (acc, int (length d))"
    and b: "0 \<le> fx_raw acc" "fx_raw acc \<le> int (length d) * (2 * SCALE)" by auto
  have k: "from_int (int (length d)) = Return (Fixed64 (int (length d) * SCALE))"
    using n by (simp add: from_int_eq RAW_MIN_eq RAW_MAX_eq)
  have l: "0 < int (length d)" using False by simp
  have "fx_raw acc * SCALE \<le> (int (length d) * SCALE) * (2 * SCALE)"
    using b(2) by (simp add: algebra_simps)
  then have "rhe (fx_raw acc * SCALE) (int (length d) * SCALE) \<le> 2 * SCALE" using l by (intro rhe_le) auto
  moreover have "0 \<le> rhe (fx_raw acc * SCALE) (int (length d) * SCALE)" using l b(1) by (intro rhe_nonneg) auto
  ultimately have "\<exists>q. fx_div acc (Fixed64 (int (length d) * SCALE)) = Return q"
    using l by (simp add: fx_div_eq from_raw_eq RAW_MIN_eq RAW_MAX_eq)
  with False acc k show ?thesis by (auto simp: contagion_index_def)
qed

section \<open>Properties\<close>

text \<open>
  A collapse projection that does not raise reports a collapse probability between zero and
  one, the same one \<open>collapse_probability_v1\<close> computes, and a stability margin that is exactly
  its complement.
\<close>

theorem project_collapse_spec:
  assumes "project_collapse e m f = Return p"
  shows "fx_zero \<le> cp_collapse_probability p \<and> cp_collapse_probability p \<le> fx_one \<and>
    collapse_probability_v1 e m f = Return (cp_collapse_probability p) \<and>
    fx_raw (cp_stability_margin p) + fx_raw (cp_collapse_probability p) = SCALE"
proof -
  from assms obtain k i c mg where k: "fx_sub fx_one m = Inr k" and i: "fx_mul e k = Inr i"
    and c: "fx_mul i f = Inr c" and mg: "stability_margin (clamp01 c) = Inr mg"
    and p: "p = \<lparr>cp_entropy = e, cp_magnetic = m, cp_fusion = f, cp_instability = i,
                 cp_collapse_probability = clamp01 c, cp_stability_margin = mg\<rparr>"
    by (auto simp: project_collapse_def Let_def bindR_eq_Return)
  have "mg = Fixed64 (SCALE - fx_raw (clamp01 c))"
    using mg stability_margin_exact [OF clamp01_range [of c]] by simp
  then show ?thesis
    using k i c p clamp01_range [of c] by (simp add: collapse_probability_v1_def)
qed

theorem project_collapse_spec_witness:
  "\<exists>p. project_collapse fx_one fx_zero fx_one = Return p \<and> fx_zero \<le> cp_collapse_probability p"
proof -
  have "\<exists>p. project_collapse fx_one fx_zero fx_one = Return p"
    by (simp add: project_collapse_def fx_op_eqs from_raw_eq RAW_MIN_eq RAW_MAX_eq Let_def
        rhe_def round_div_half_even_def stability_margin_def clamp01_def fx_zero_def fx_one_def)
  then obtain p where p: "project_collapse fx_one fx_zero fx_one = Return p" by blast
  from project_collapse_spec [OF this] p show ?thesis by blast
qed

text \<open>
  Inside the physical range (magnetic field at most one, non-negative fusion) the collapse
  probability never falls when entropy or fusion rises: the rounding of the two products keeps
  the order.
\<close>

theorem collapse_probability_mono:
  assumes "collapse_probability_v1 e m f = Return c" "collapse_probability_v1 e' m f' = Return c'"
    and "fx_zero \<le> e" "e \<le> e'" "m \<le> fx_one" "fx_zero \<le> f" "f \<le> f'"
  shows "c \<le> c'"
proof -
  from assms(1) obtain k i x where k: "fx_sub fx_one m = Inr k" and i: "fx_mul e k = Inr i"
    and x: "fx_mul i f = Inr x" and c: "c = clamp01 x"
    by (auto simp: collapse_probability_v1_def bindR_eq_Return)
  from assms(2) k obtain i' x' where i': "fx_mul e' k = Inr i'"
    and x': "fx_mul i' f' = Inr x'" and c': "c' = clamp01 x'"
    by (auto simp: collapse_probability_v1_def bindR_eq_Return)
  have k0: "fx_zero \<le> k" using k assms(5) by (auto simp: fx_op_Return fx_le_raw)
  have ii: "i \<le> i'" by (rule fx_mul_mono [OF i i' assms(4) k0])
  have i0: "fx_zero \<le> i" by (rule fx_mul_nonneg [OF i assms(3) k0])
  have "fx_raw i * fx_raw f \<le> fx_raw i' * fx_raw f'"
    using ii i0 assms(6,7) by (intro mult_mono) (auto simp: fx_le_raw)
  then have "x \<le> x'"
    using x x' by (auto simp: fx_op_Return fx_le_raw simp del: SCALE_eq intro!: rhe_mono)
  then show ?thesis unfolding c c' by (rule clamp01_mono)
qed

theorem collapse_probability_mono_witness:
  "\<exists>c c'. collapse_probability_v1 fx_zero fx_zero fx_one = Return c \<and>
     collapse_probability_v1 fx_one fx_zero fx_one = Return c' \<and> c \<le> c'"
proof -
  have 1: "collapse_probability_v1 fx_zero fx_zero fx_one = Return fx_zero"
    and 2: "collapse_probability_v1 fx_one fx_zero fx_one = Return fx_one"
    by (simp_all add: collapse_probability_v1_def fx_op_eqs from_raw_eq RAW_MIN_eq RAW_MAX_eq
        rhe_def round_div_half_even_def clamp01_def fx_zero_def fx_one_def)
  have "fx_zero \<le> fx_one" by (simp add: fx_le_raw)
  with collapse_probability_mono [OF 1 2] 1 2 show ?thesis by auto
qed

text \<open>
  A revenue split conserves the total up to one raw unit (2^-64): the ratios sum to one
  exactly or the split is refused, and three half-even roundings lose at most one unit together.
\<close>

theorem split_revenue_conserves:
  assumes "split_revenue revenue rc ro rp = Return s"
  shows "fx_raw rc + fx_raw ro + fx_raw rp = SCALE \<and>
    \<bar>fx_raw (rs_creator s) + fx_raw (rs_operator s) + fx_raw (rs_protocol s) - fx_raw revenue\<bar> \<le> 1"
proof -
  let ?t = "fx_raw revenue"
  from assms obtain c ow p where sum: "fx_raw rc + fx_raw ro + fx_raw rp = SCALE"
    and cop: "fx_mul revenue rc = Inr c" "fx_mul revenue ro = Inr ow" "fx_mul revenue rp = Inr p"
    and s: "s = \<lparr>rs_creator = c, rs_operator = ow, rs_protocol = p\<rparr>"
    by (auto simp: split_revenue_def bindR_eq_Return fx_op_Return(1) fx_one_def split: if_splits)
  have near: "2 * \<bar>?t * fx_raw r - SCALE * fx_raw v\<bar> \<le> SCALE" if "fx_mul revenue r = Inr v" for r v
    using that rhe_nearest(1) [of SCALE "?t * fx_raw r"] by (auto simp: fx_op_Return)
  have "?t * SCALE = ?t * fx_raw rc + ?t * fx_raw ro + ?t * fx_raw rp"
    by (simp only: sum [symmetric] distrib_left)
  then have "2 * \<bar>SCALE * (fx_raw c + fx_raw ow + fx_raw p - ?t)\<bar> \<le> 3 * SCALE"
    using near [OF cop(1)] near [OF cop(2)] near [OF cop(3)]
    by (simp add: abs_le_iff algebra_simps)
  then have "\<bar>fx_raw c + fx_raw ow + fx_raw p - ?t\<bar> \<le> 1"
    by (simp add: abs_le_iff)
  with sum s show ?thesis by simp
qed

theorem split_revenue_conserves_witness:
  "\<exists>s. split_revenue (Fixed64 1) (Fixed64 (SCALE div 2)) (Fixed64 (SCALE div 4)) (Fixed64 (SCALE div 4)) = Return s \<and>
    \<bar>fx_raw (rs_creator s) + fx_raw (rs_operator s) + fx_raw (rs_protocol s) - 1\<bar> \<le> 1"
proof -
  have "\<exists>s. split_revenue (Fixed64 1) (Fixed64 (SCALE div 2)) (Fixed64 (SCALE div 4)) (Fixed64 (SCALE div 4)) = Return s"
    by (simp add: split_revenue_def fx_op_eqs from_raw_eq RAW_MIN_eq RAW_MAX_eq rhe_def
        round_div_half_even_def fx_one_def Let_def)
  then obtain s where s: "split_revenue (Fixed64 1) (Fixed64 (SCALE div 2)) (Fixed64 (SCALE div 4)) (Fixed64 (SCALE div 4)) = Return s"
    by blast
  from split_revenue_conserves [OF this] s show ?thesis by auto
qed

text \<open>
  For a constellation of at least one and fewer than 2^32 stars whose collapse probabilities
  lie in [0, 1], a contagion snapshot never raises: every row of the uniform exposure matrix sums
  to one up to half a raw unit per star, and the contagion index and every projected weight lie
  in [0, 1].
\<close>

theorem contagion_snapshot_total:
  assumes "d \<noteq> []" "distinct (dkeys d)" "length d < 2 ^ 32" "\<forall>c\<in>set (map snd d). physical c"
  shows "\<exists>s. snapshot d = Return s \<and> physical (cs_contagion_index s) \<and>
    (\<forall>k. physical (dget_or (cs_collapse_weights s) k fx_zero)) \<and>
    (\<forall>k\<in>set (dkeys d). \<exists>r. row_sum (cs_exposure_matrix s) k = Return (Fixed64 r) \<and>
       2 * \<bar>r - SCALE\<bar> \<le> int (length d))"
proof -
  define xs where "xs = sorted_keys d"
  define m where "m = map (\<lambda>s. (s, map (\<lambda>t. (t, if s = t then fx_zero else default_weight xs)) xs)) xs"
  have lx: "length xs = length d" and sx: "set xs = set (dkeys d)" by (simp_all add: xs_def)
  have xs: "sorted xs" "distinct xs" "xs \<noteq> []" "length xs < 2 ^ 32"
    using assms(1-3) lx by (auto simp: xs_def distinct_sorted_keys simp del: length_sorted_keys)
      (simp_all add: sorted_keys_def)
  have phys: "physical (dget_or d k fx_zero)" for k
    using assms(4) by (auto simp: dget_or_def split: option.splits dest!: map_of_SomeD)
  have rows: "\<exists>r. row_sum m s = Return (Fixed64 r) \<and> 2 * \<bar>r - SCALE\<bar> \<le> int (length d) \<and> 0 \<le> r"
    if "s \<in> set (dkeys d)" for s
    using row_sum_default [OF xs(1,2,4) _ m_def, of s] that sx lx by metis
  have "rows_near_one m (set (dkeys d))"
  proof -
    have "r \<le> 2 * SCALE" if "2 * \<bar>r - SCALE\<bar> \<le> int (length d)" for r
      using near_scale_bounds(1) [OF that] assms(3) by simp
    with rows show ?thesis unfolding rows_near_one_def by meson
  qed
  note total = collapse_weight_projection_total [OF this phys] contagion_index_total [OF this phys assms(3)]
  from total obtain ws i where "collapse_weight_projection d m = Return ws"
    "\<forall>k. physical (dget_or ws k fx_zero)" "contagion_index d m = Return i" "physical i" by blast
  moreover have "exposure_matrix (sorted_keys d) None = Return m"
    using exposure_matrix_default [OF xs] by (simp add: m_def xs_def)
  ultimately show ?thesis using rows by (auto simp: snapshot_def)
qed

theorem contagion_snapshot_total_witness:
  "\<exists>s. snapshot [(''b'', fx_one), (''a'', fx_zero)] = Return s \<and> physical (cs_contagion_index s)"
  using contagion_snapshot_total [of "[(''b'', fx_one), (''a'', fx_zero)]"] by auto

end
