(* ===== verification/Policy_Guard.thy ===== *)
theory Policy_Guard
  imports Stellar_Physics
begin

text \<open>
  \<^verbatim>\<open>solis/physics/invariants.py\<close> and \<^verbatim>\<open>solis/agent/runtime/policy_guard.py\<close>: the physical
  invariants of a state change and the guard that evaluates a proposed transition of a star
  before it is executed.
\<close>

section \<open>Invariant rows\<close>

record invariant_result =
  ir_name :: string
  ir_passed :: bool
  ir_reason_code :: string
  ir_detail :: string

record invariant_limits =
  max_entropy_growth :: fixed64
  max_collapse_probability :: fixed64
  max_leverage_ratio :: fixed64
  max_contagion_index :: fixed64
  capital_tolerance :: fixed64

record global_state =
  gs_capital_total :: fixed64
  gs_entropy_index :: fixed64
  gs_collapse_probability :: fixed64
  gs_leverage_ratio :: fixed64
  gs_contagion_index :: fixed64

definition inv_ok :: "string \<Rightarrow> invariant_result" where
  "inv_ok name = \<lparr>ir_name = name, ir_passed = True, ir_reason_code = ''OK'', ir_detail = []\<rparr>"

definition inv_fail :: "string \<Rightarrow> string \<Rightarrow> string \<Rightarrow> invariant_result" where
  "inv_fail name reason_code detail =
     \<lparr>ir_name = name, ir_passed = False, ir_reason_code = reason_code, ir_detail = detail\<rparr>"

definition invariant_capital_conservation ::
  "fixed64 \<Rightarrow> fixed64 \<Rightarrow> fixed64 \<Rightarrow> invariant_result result" where
  "invariant_capital_conservation previous_capital current_capital tolerance =
     bindR (bindR (fx_sub current_capital previous_capital) fx_abs) (\<lambda>drift.
       if drift \<le> tolerance then Return (inv_ok ''capital_conservation'')
       else bindR (to_str 18 drift) (\<lambda>s.
              Return (inv_fail ''capital_conservation'' ''CAPITAL_DRIFT'' (''drift='' @ s))))"

definition invariant_collapse_bound :: "fixed64 \<Rightarrow> fixed64 \<Rightarrow> invariant_result" where
  "invariant_collapse_bound p max_probability =
     (if p \<le> max_probability then inv_ok ''collapse_bound''
      else inv_fail ''collapse_bound'' ''COLLAPSE_BOUND_EXCEEDED'' [])"

definition invariant_entropy_growth ::
  "fixed64 \<Rightarrow> fixed64 \<Rightarrow> fixed64 \<Rightarrow> invariant_result result" where
  "invariant_entropy_growth previous_entropy current_entropy max_growth =
     bindR (fx_sub current_entropy previous_entropy) (\<lambda>growth.
       if growth \<le> max_growth then Return (inv_ok ''entropy_growth'')
       else bindR (to_str 18 growth) (\<lambda>s.
              Return (inv_fail ''entropy_growth'' ''ENTROPY_GROWTH_EXCEEDED'' (''growth='' @ s))))"

definition invariant_leverage_envelope :: "fixed64 \<Rightarrow> fixed64 \<Rightarrow> invariant_result" where
  "invariant_leverage_envelope leverage_ratio max_leverage =
     (if leverage_ratio \<le> max_leverage then inv_ok ''leverage_envelope''
      else inv_fail ''leverage_envelope'' ''LEVERAGE_LIMIT_EXCEEDED'' [])"

definition invariant_contagion_threshold :: "fixed64 \<Rightarrow> fixed64 \<Rightarrow> invariant_result" where
  "invariant_contagion_threshold idx max_contagion =
     (if idx \<le> max_contagion then inv_ok ''contagion_threshold''
      else inv_fail ''contagion_threshold'' ''CONTAGION_THRESHOLD_EXCEEDED'' [])"

definition evaluate_global_invariants ::
  "global_state \<Rightarrow> global_state \<Rightarrow> invariant_limits \<Rightarrow> invariant_result list result" where
  "evaluate_global_invariants previous_state current_state limits =
     bindR (invariant_capital_conservation (gs_capital_total previous_state)
              (gs_capital_total current_state) (capital_tolerance limits)) (\<lambda>capital.
     bindR (invariant_entropy_growth (gs_entropy_index previous_state)
              (gs_entropy_index current_state) (max_entropy_growth limits)) (\<lambda>entropy.
       Return [capital, entropy,
         invariant_collapse_bound (gs_collapse_probability current_state) (max_collapse_probability limits),
         invariant_leverage_envelope (gs_leverage_ratio current_state) (max_leverage_ratio limits),
         invariant_contagion_threshold (gs_contagion_index current_state) (max_contagion_index limits)]))"

definition zero_state :: global_state where
  "zero_state = \<lparr>gs_capital_total = fx_zero, gs_entropy_index = fx_zero,
     gs_collapse_probability = fx_zero, gs_leverage_ratio = fx_zero, gs_contagion_index = fx_zero\<rparr>"

definition member_rows ::
  "global_state dict \<Rightarrow> invariant_limits \<Rightarrow> string \<Rightarrow> invariant_result list result" where
  "member_rows member_states limits member_uri =
     (case dget member_states member_uri of
        None \<Rightarrow> Raise (KeyError member_uri)
      | Some state \<Rightarrow>
          bindR (evaluate_global_invariants zero_state state limits) (\<lambda>rows.
            Return (map (\<lambda>row. row\<lparr>ir_name := member_uri @ '':'' @ ir_name row\<rparr>) rows)))"

definition evaluate_constellation_invariants ::
  "global_state dict \<Rightarrow> invariant_limits \<Rightarrow> invariant_result list result" where
  "evaluate_constellation_invariants member_states limits =
     bindR (foldR (\<lambda>results member_uri.
              bindR (member_rows member_states limits member_uri) (\<lambda>rows. Return (results @ rows)))
            [] (sorted_keys member_states)) (\<lambda>results.
       Return (if member_states = []
               then results @ [inv_fail ''constellation_membership'' ''NO_MEMBERS'' []]
               else results))"

definition agent_required :: "string list" where
  "agent_required = [''max_drawdown'', ''collapse_threshold'', ''risk_version'']"

definition evaluate_agent_invariants :: "'v dict \<Rightarrow> invariant_result list" where
  "evaluate_agent_invariants policy =
     (let missing = sort (filter (\<lambda>k. \<not> has_key policy k) agent_required) in
      if missing \<noteq> []
      then [inv_fail ''agent_policy_schema'' ''AGENT_POLICY_MISSING_FIELDS'' (join '','' missing)]
      else [inv_ok ''agent_policy_schema''])"

section \<open>The guard\<close>

text \<open>
  A value of a transition mapping: a \<open>Fixed64\<close>, an \<open>int\<close> (or \<open>bool\<close>), a \<open>float\<close> given by its
  \<open>.18g\<close> rendering, a string, or an object of another type, given by the type's name.
\<close>

datatype guard_value = GFixed fixed64 | GInt int | GFloat string | GStr string | GOther string

fun guard_to_fixed :: "guard_value \<Rightarrow> fixed64 result" where
  "guard_to_fixed (GFixed x) = Return x"
| "guard_to_fixed (GInt n) = from_int n"
| "guard_to_fixed (GFloat s) = from_str s"
| "guard_to_fixed (GStr s) = from_str s"
| "guard_to_fixed (GOther t) = Raise (TypeError (''unsupported numeric type: '' @ t))"

record policy_guard =
  pg_limits :: invariant_limits
  pg_tolerance :: fixed64
  pg_allowed_fields :: "string list"

record guard_decision =
  gd_allowed :: bool
  gd_reason_codes :: "string list"
  gd_computed_collapse :: fixed64

definition default_transition_fields :: "string list" where
  "default_transition_fields =
     [''schema_version'', ''star_id'', ''chain_id'', ''mass'', ''luminosity'', ''core_temp'',
      ''magnetic_field'', ''entropy_index'', ''fusion_rate'', ''collapse_probability'',
      ''capital_total'', ''leverage_ratio'', ''contagion_index'', ''collapse_count'',
      ''collapse_mean'', ''entropy_mean'', ''magnetic_mean'', ''cascade_threshold'',
      ''cascade_detected'', ''last_propagation'']"

text \<open>An empty set of allowed fields is false in Python, so it selects the default too.\<close>

definition make_guard ::
  "invariant_limits option \<Rightarrow> fixed64 option \<Rightarrow> string list option \<Rightarrow> policy_guard result" where
  "make_guard limits tolerance field_set =
     bindR (case limits of Some l \<Rightarrow> Return l
       | None \<Rightarrow>
           bindR (from_str ''5.0'') (\<lambda>growth.
           bindR (from_str ''100.0'') (\<lambda>leverage.
           bindR (from_int 1000000) (\<lambda>cap.
             Return \<lparr>max_entropy_growth = growth, max_collapse_probability = fx_one,
                     max_leverage_ratio = leverage, max_contagion_index = fx_one,
                     capital_tolerance = cap\<rparr>)))) (\<lambda>limits.
     bindR (case tolerance of Some t \<Rightarrow> Return t | None \<Rightarrow> from_str ''0.05'') (\<lambda>tolerance.
       Return \<lparr>pg_limits = limits, pg_tolerance = tolerance,
               pg_allowed_fields = (case field_set of Some f \<Rightarrow>
                  if f = [] then default_transition_fields else f | None \<Rightarrow> default_transition_fields)\<rparr>))"

definition read_fixed ::
  "guard_value dict \<Rightarrow> guard_value dict \<Rightarrow> string \<Rightarrow> string \<Rightarrow> fixed64 result" where
  "read_fixed primary secondary key dflt =
     (case dget primary key of Some v \<Rightarrow> guard_to_fixed v
      | None \<Rightarrow> (case dget secondary key of Some v \<Rightarrow> guard_to_fixed v
                 | None \<Rightarrow> from_str dflt))"

definition to_global_state ::
  "guard_value dict \<Rightarrow> fixed64 \<Rightarrow> fixed64 \<Rightarrow> global_state result" where
  "to_global_state payload fallback_mass fallback_collapse =
     bindR (guard_to_fixed (dget_or payload ''capital_total''
              (dget_or payload ''mass'' (GFixed fallback_mass)))) (\<lambda>capital.
     bindR (guard_to_fixed (dget_or payload ''entropy_index'' (GStr ''0''))) (\<lambda>entropy.
     bindR (guard_to_fixed (dget_or payload ''collapse_probability'' (GFixed fallback_collapse))) (\<lambda>collapse.
     bindR (guard_to_fixed (dget_or payload ''leverage_ratio'' (GStr ''0''))) (\<lambda>leverage.
     bindR (guard_to_fixed (dget_or payload ''contagion_index'' (GStr ''0''))) (\<lambda>contagion.
       Return \<lparr>gs_capital_total = capital, gs_entropy_index = entropy,
               gs_collapse_probability = collapse, gs_leverage_ratio = leverage,
               gs_contagion_index = contagion\<rparr>)))))"

definition reject :: "string list \<Rightarrow> fixed64 \<Rightarrow> guard_decision" where
  "reject codes c = \<lparr>gd_allowed = False, gd_reason_codes = codes, gd_computed_collapse = c\<rparr>"

definition decide_invariants ::
  "policy_guard \<Rightarrow> guard_value dict \<Rightarrow> guard_value dict \<Rightarrow> fixed64 \<Rightarrow> fixed64 \<Rightarrow> guard_decision result" where
  "decide_invariants g current proposed next_mass computed =
     bindR (to_global_state current next_mass computed) (\<lambda>current_state.
     bindR (to_global_state proposed next_mass computed) (\<lambda>proposed_state.
     bindR (evaluate_global_invariants current_state proposed_state (pg_limits g)) (\<lambda>rows.
       let failed = sort (remdups (map ir_reason_code (filter (\<lambda>row. \<not> ir_passed row) rows))) in
       Return (if failed \<noteq> [] then reject failed computed
               else \<lparr>gd_allowed = True, gd_reason_codes = [''OK''], gd_computed_collapse = computed\<rparr>))))"

definition decide_collapse ::
  "policy_guard \<Rightarrow> guard_value dict \<Rightarrow> guard_value dict \<Rightarrow> fixed64 \<Rightarrow> fixed64 \<Rightarrow> guard_decision result" where
  "decide_collapse g current proposed next_mass next_entropy =
     bindR (read_fixed proposed current ''magnetic_field'' ''1'') (\<lambda>next_magnetic.
     bindR (read_fixed proposed current ''fusion_rate'' ''0'') (\<lambda>next_fusion.
     bindR (collapse_probability_v1 next_entropy next_magnetic next_fusion) (\<lambda>computed.
     bindR (read_fixed proposed [(''collapse_probability'', GFixed computed)]
              ''collapse_probability'' ''0'') (\<lambda>declared.
     bindR (bindR (fx_sub declared computed) fx_abs) (\<lambda>gap.
       if gap > pg_tolerance g then Return (reject [''COLLAPSE_FORMULA_MISMATCH''] computed)
       else decide_invariants g current proposed next_mass computed)))))"

definition evaluate_transition ::
  "policy_guard \<Rightarrow> guard_value dict \<Rightarrow> guard_value dict \<Rightarrow> guard_decision result" where
  "evaluate_transition g current proposed =
     (let disallowed_fields = sort (filter (\<lambda>f. f \<notin> set (pg_allowed_fields g)) (dkeys proposed)) in
      if disallowed_fields \<noteq> []
      then Return (reject (map (\<lambda>f. ''FIELD_NOT_ALLOWED:'' @ f) disallowed_fields) fx_zero)
      else
        bindR (read_fixed proposed current ''mass'' ''0'') (\<lambda>next_mass.
        if next_mass \<le> fx_zero then Return (reject [''MASS_NON_POSITIVE''] fx_zero)
        else
        bindR (read_fixed proposed current ''entropy_index'' ''0'') (\<lambda>next_entropy.
        if next_entropy < fx_zero then Return (reject [''NEGATIVE_ENTROPY''] fx_zero)
        else decide_collapse g current proposed next_mass next_entropy)))"

definition validate_transition ::
  "policy_guard \<Rightarrow> guard_value dict \<Rightarrow> guard_value dict \<Rightarrow> unit result" where
  "validate_transition g current proposed =
     bindR (evaluate_transition g current proposed) (\<lambda>d.
       if \<not> gd_allowed d
       then Raise (ValueError (''policy_guard: transition rejected ('' @ join '','' (gd_reason_codes d) @ '')''))
       else Return ())"

section \<open>Lemmas\<close>

lemma inv_row_simps [simp]:
  "ir_passed (inv_ok n)" "\<not> ir_passed (inv_fail n r d)"
  "ir_name (inv_ok n) = n" "ir_name (inv_fail n r d) = n" "ir_reason_code (inv_fail n r d) = r"
  "inv_ok n \<noteq> inv_fail n' r d"
  by (simp_all add: inv_ok_def inv_fail_def)

lemma to_str_18: "\<exists>s. to_str 18 x = Return s"
  using to_str_eq [of 18 x] by (simp add: Let_def)

lemma fx_abs_Return: "fx_abs x = Inr y \<Longrightarrow> fx_raw y = \<bar>fx_raw x\<bar>"
  by (auto simp: fx_abs_def fx_neg_eq from_raw_Return split: if_splits)

lemma capital_row:
  assumes "invariant_capital_conservation p c t = Inr row"
  shows "ir_passed row \<longleftrightarrow> \<bar>fx_raw c - fx_raw p\<bar> \<le> fx_raw t"
    and "\<not> ir_passed row \<Longrightarrow> ir_reason_code row = ''CAPITAL_DRIFT''"
    and "ir_name row = ''capital_conservation''"
  using assms
  by (auto simp: invariant_capital_conservation_def bindR_eq_Return fx_op_Return(2) fx_le_raw
      dest!: fx_abs_Return split: if_splits)

lemma entropy_row:
  assumes "invariant_entropy_growth p c t = Inr row"
  shows "ir_passed row \<longleftrightarrow> fx_raw c - fx_raw p \<le> fx_raw t"
    and "\<not> ir_passed row \<Longrightarrow> ir_reason_code row = ''ENTROPY_GROWTH_EXCEEDED''"
    and "ir_name row = ''entropy_growth''"
  using assms
  by (auto simp: invariant_entropy_growth_def bindR_eq_Return fx_op_Return(2) fx_le_raw
      split: if_splits)

lemma bound_rows:
  "ir_passed (invariant_collapse_bound x t) \<longleftrightarrow> x \<le> t"
  "ir_passed (invariant_leverage_envelope x t) \<longleftrightarrow> x \<le> t"
  "ir_passed (invariant_contagion_threshold x t) \<longleftrightarrow> x \<le> t"
  "ir_name (invariant_collapse_bound x t) = ''collapse_bound''"
  "ir_name (invariant_leverage_envelope x t) = ''leverage_envelope''"
  "ir_name (invariant_contagion_threshold x t) = ''contagion_threshold''"
  by (simp_all add: invariant_collapse_bound_def invariant_leverage_envelope_def
      invariant_contagion_threshold_def)

text \<open>The physical envelope of a state change, in raw units.\<close>

definition within_limits :: "invariant_limits \<Rightarrow> global_state \<Rightarrow> global_state \<Rightarrow> bool" where
  "within_limits l p c =
     (\<bar>fx_raw (gs_capital_total c) - fx_raw (gs_capital_total p)\<bar> \<le> fx_raw (capital_tolerance l) \<and>
      fx_raw (gs_entropy_index c) - fx_raw (gs_entropy_index p) \<le> fx_raw (max_entropy_growth l) \<and>
      gs_collapse_probability c \<le> max_collapse_probability l \<and>
      gs_leverage_ratio c \<le> max_leverage_ratio l \<and>
      gs_contagion_index c \<le> max_contagion_index l)"

lemma global_invariants_passed:
  assumes "evaluate_global_invariants p c l = Inr rows"
  shows "list_all ir_passed rows \<longleftrightarrow> within_limits l p c"
    and "map ir_name rows = [''capital_conservation'', ''entropy_growth'', ''collapse_bound'',
           ''leverage_envelope'', ''contagion_threshold'']"
proof -
  from assms obtain a b where
    a: "invariant_capital_conservation (gs_capital_total p) (gs_capital_total c) (capital_tolerance l) = Inr a"
    and b: "invariant_entropy_growth (gs_entropy_index p) (gs_entropy_index c) (max_entropy_growth l) = Inr b"
    and rows: "rows = [a, b, invariant_collapse_bound (gs_collapse_probability c) (max_collapse_probability l),
       invariant_leverage_envelope (gs_leverage_ratio c) (max_leverage_ratio l),
       invariant_contagion_threshold (gs_contagion_index c) (max_contagion_index l)]"
    by (auto simp: evaluate_global_invariants_def bindR_eq_Return)
  show "list_all ir_passed rows \<longleftrightarrow> within_limits l p c"
    by (simp add: rows bound_rows capital_row(1) [OF a] entropy_row(1) [OF b] within_limits_def)
  show "map ir_name rows = [''capital_conservation'', ''entropy_growth'', ''collapse_bound'',
           ''leverage_envelope'', ''contagion_threshold'']"
    by (simp add: rows bound_rows capital_row(3) [OF a] entropy_row(3) [OF b])
qed

lemma sort_filter_Nil: "sort (filter P xs) = [] \<longleftrightarrow> (\<forall>x\<in>set xs. \<not> P x)"
  by (simp add: sort_Nil_iff filter_empty_conv)

lemma no_failed_codes:
  "sort (remdups (map f (filter (\<lambda>row. \<not> P row) rows))) = [] \<longleftrightarrow> list_all P rows"
  by (simp add: sort_Nil_iff filter_empty_conv list_all_iff)

text \<open>
  The contract of the guard, independent of the order of its checks: the values the proposal
  denotes, and the conditions they have to satisfy.
\<close>

definition invariants_ok ::
  "policy_guard \<Rightarrow> guard_value dict \<Rightarrow> guard_value dict \<Rightarrow> fixed64 \<Rightarrow> fixed64 \<Rightarrow> bool" where
  "invariants_ok g current proposed mass c \<longleftrightarrow>
     (\<exists>p q. to_global_state current mass c = Return p \<and> to_global_state proposed mass c = Return q \<and>
        within_limits (pg_limits g) p q)"

definition collapse_ok ::
  "policy_guard \<Rightarrow> guard_value dict \<Rightarrow> guard_value dict \<Rightarrow> fixed64 \<Rightarrow> fixed64 \<Rightarrow> bool" where
  "collapse_ok g current proposed entropy c \<longleftrightarrow>
     (\<exists>magnetic fusion declared.
        read_fixed proposed current ''magnetic_field'' ''1'' = Return magnetic \<and>
        read_fixed proposed current ''fusion_rate'' ''0'' = Return fusion \<and>
        collapse_probability_v1 entropy magnetic fusion = Return c \<and>
        read_fixed proposed [(''collapse_probability'', GFixed c)] ''collapse_probability'' ''0'' =
          Return declared \<and>
        \<bar>fx_raw declared - fx_raw c\<bar> \<le> fx_raw (pg_tolerance g))"

definition transition_ok ::
  "policy_guard \<Rightarrow> guard_value dict \<Rightarrow> guard_value dict \<Rightarrow> fixed64 \<Rightarrow> bool" where
  "transition_ok g current proposed c \<longleftrightarrow>
     set (dkeys proposed) \<subseteq> set (pg_allowed_fields g) \<and>
     (\<exists>mass entropy.
        read_fixed proposed current ''mass'' ''0'' = Return mass \<and> fx_zero < mass \<and>
        read_fixed proposed current ''entropy_index'' ''0'' = Return entropy \<and> fx_zero \<le> entropy \<and>
        collapse_ok g current proposed entropy c \<and> invariants_ok g current proposed mass c)"

lemma reject_simps [simp]:
  "\<not> gd_allowed (reject r c)" "gd_reason_codes (reject r c) = r" "gd_computed_collapse (reject r c) = c"
  by (simp_all add: reject_def)

lemma decide_invariants_spec:
  assumes "decide_invariants g current proposed mass c = Inr d"
  shows "gd_allowed d \<longleftrightarrow> invariants_ok g current proposed mass c"
    and "gd_computed_collapse d = c"
    and "if gd_allowed d then gd_reason_codes d = [''OK''] else gd_reason_codes d \<noteq> []"
proof -
  from assms obtain p q rows where
    st: "to_global_state current mass c = Inr p" "to_global_state proposed mass c = Inr q"
    and rows: "evaluate_global_invariants p q (pg_limits g) = Inr rows"
    and d: "d = (if list_all ir_passed rows
      then \<lparr>gd_allowed = True, gd_reason_codes = [''OK''], gd_computed_collapse = c\<rparr>
      else reject (sort (remdups (map ir_reason_code (filter (\<lambda>row. \<not> ir_passed row) rows)))) c)"
    by (auto simp: decide_invariants_def Let_def bindR_eq_Return no_failed_codes)
  show "gd_allowed d \<longleftrightarrow> invariants_ok g current proposed mass c"
    using st global_invariants_passed(1) [OF rows] by (simp add: d invariants_ok_def)
  show "gd_computed_collapse d = c" by (simp add: d)
  show "if gd_allowed d then gd_reason_codes d = [''OK''] else gd_reason_codes d \<noteq> []"
    using no_failed_codes [of ir_reason_code ir_passed rows] by (simp add: d)
qed

lemma decide_collapse_spec:
  assumes "decide_collapse g current proposed mass entropy = Inr d"
  shows "gd_allowed d \<longleftrightarrow> (\<exists>c. collapse_ok g current proposed entropy c \<and> invariants_ok g current proposed mass c)"
    and "if gd_allowed d then gd_reason_codes d = [''OK''] else gd_reason_codes d \<noteq> []"
proof -
  from assms obtain m f c declared diff gap where
    r: "read_fixed proposed current ''magnetic_field'' ''1'' = Inr m"
      "read_fixed proposed current ''fusion_rate'' ''0'' = Inr f"
      "collapse_probability_v1 entropy m f = Inr c"
      "read_fixed proposed [(''collapse_probability'', GFixed c)] ''collapse_probability'' ''0'' = Inr declared"
    and gap: "fx_sub declared c = Inr diff" "fx_abs diff = Inr gap"
    and d: "(if gap > pg_tolerance g then Return (reject [''COLLAPSE_FORMULA_MISMATCH''] c)
             else decide_invariants g current proposed mass c) = Inr d"
    unfolding decide_collapse_def bindR_eq_Return by blast
  have "gap > pg_tolerance g \<longleftrightarrow> \<not> \<bar>fx_raw declared - fx_raw c\<bar> \<le> fx_raw (pg_tolerance g)"
    using gap(1) fx_abs_Return [OF gap(2)] by (auto simp: fx_op_Return(2) fx_less_raw)
  then have ok: "collapse_ok g current proposed entropy c' \<longleftrightarrow> c' = c \<and> \<not> gap > pg_tolerance g" for c'
    unfolding collapse_ok_def using r by auto
  show "gd_allowed d \<longleftrightarrow> (\<exists>c. collapse_ok g current proposed entropy c \<and> invariants_ok g current proposed mass c)"
    using d decide_invariants_spec(1) by (auto simp: ok split: if_splits)
  show "if gd_allowed d then gd_reason_codes d = [''OK''] else gd_reason_codes d \<noteq> []"
    using d decide_invariants_spec(3) by (auto split: if_splits)
qed

lemma evaluate_transition_spec:
  assumes "evaluate_transition g current proposed = Inr d"
  shows "gd_allowed d \<longleftrightarrow> (\<exists>c. transition_ok g current proposed c)"
    and "if gd_allowed d then gd_reason_codes d = [''OK''] else gd_reason_codes d \<noteq> []"
proof -
  let ?bad = "sort (filter (\<lambda>f. f \<notin> set (pg_allowed_fields g)) (dkeys proposed))"
  let ?goal = "(gd_allowed d \<longleftrightarrow> (\<exists>c. transition_ok g current proposed c)) \<and>
    (if gd_allowed d then gd_reason_codes d = [''OK''] else gd_reason_codes d \<noteq> [])"
  have bad: "?bad = [] \<longleftrightarrow> set (dkeys proposed) \<subseteq> set (pg_allowed_fields g)"
    unfolding sort_filter_Nil by blast
  have ?goal
  proof (cases "?bad = []")
    case False
    then obtain codes where "codes \<noteq> []" "d = reject codes fx_zero"
      using assms unfolding evaluate_transition_def Let_def if_P [OF False] by auto
    with False bad show ?thesis unfolding transition_ok_def by simp
  next
    case ok: True
    let ?rest = "\<lambda>m. bindR (read_fixed proposed current ''entropy_index'' ''0'') (\<lambda>e.
        if e < fx_zero then Return (reject [''NEGATIVE_ENTROPY''] fx_zero)
        else decide_collapse g current proposed m e)"
    from assms ok obtain m where m: "read_fixed proposed current ''mass'' ''0'' = Inr m"
      and rest: "(if m \<le> fx_zero then Return (reject [''MASS_NON_POSITIVE''] fx_zero) else ?rest m) = Inr d"
      unfolding evaluate_transition_def Let_def by (simp only: not_not if_False simp_thms bindR_eq_Return) blast
    show ?thesis
    proof (cases "m \<le> fx_zero")
      case True
      with rest m show ?thesis by (auto simp: transition_ok_def)
    next
      case mpos: False
      with rest obtain e where e: "read_fixed proposed current ''entropy_index'' ''0'' = Inr e"
        and last: "(if e < fx_zero then Return (reject [''NEGATIVE_ENTROPY''] fx_zero)
           else decide_collapse g current proposed m e) = Inr d"
        by (simp only: if_False bindR_eq_Return) blast
      show ?thesis
      proof (cases "e < fx_zero")
        case True
        with last m e show ?thesis by (auto simp: transition_ok_def)
      next
        case False
        with last have "decide_collapse g current proposed m e = Inr d" by simp
        from decide_collapse_spec [OF this] m e mpos False ok bad show ?thesis
          by (auto simp: transition_ok_def)
      qed
    qed
  qed
  then show "gd_allowed d \<longleftrightarrow> (\<exists>c. transition_ok g current proposed c)"
    and "if gd_allowed d then gd_reason_codes d = [''OK''] else gd_reason_codes d \<noteq> []" by auto
qed

section \<open>Properties\<close>

text \<open>
  C6: a decision of the policy guard allows a transition exactly when the transition meets the
  guard's contract: only allowed fields, positive mass, non-negative entropy, a declared collapse
  probability within tolerance of the computed one, and a state change inside the five physical
  limits; an allowed decision carries the single code OK, a rejected one at least one code.
\<close>

theorem guard_decides_contract:
  assumes "evaluate_transition g current proposed = Return d"
  shows "(gd_allowed d \<longleftrightarrow> (\<exists>c. transition_ok g current proposed c)) \<and>
    (gd_allowed d \<longrightarrow> gd_reason_codes d = [''OK'']) \<and> (\<not> gd_allowed d \<longrightarrow> gd_reason_codes d \<noteq> [])"
  using evaluate_transition_spec [OF assms] by (auto split: if_splits)

definition sample_guard :: policy_guard where
  "sample_guard = \<lparr>pg_limits = \<lparr>max_entropy_growth = fx_one, max_collapse_probability = fx_one,
      max_leverage_ratio = fx_one, max_contagion_index = fx_one, capital_tolerance = fx_one\<rparr>,
    pg_tolerance = fx_zero, pg_allowed_fields = default_transition_fields\<rparr>"

definition sample_star :: "guard_value dict" where
  "sample_star = [(''mass'', GFixed fx_one), (''entropy_index'', GFixed fx_one),
     (''magnetic_field'', GFixed fx_zero), (''fusion_rate'', GFixed fx_one),
     (''collapse_probability'', GFixed fx_one), (''leverage_ratio'', GFixed fx_zero),
     (''contagion_index'', GFixed fx_zero)]"

theorem guard_decides_contract_witness:
  "\<exists>d c. evaluate_transition sample_guard sample_star sample_star = Return d \<and> gd_allowed d \<and>
     transition_ok sample_guard sample_star sample_star c"
proof -
  have ok: "fx_mul fx_one fx_one = Return fx_one" "fx_sub fx_one fx_zero = Return fx_one"
    "fx_sub fx_one fx_one = Return fx_zero" "fx_abs fx_zero = Return fx_zero"
    by (simp add: fx_mul_one)
      (simp_all add: fx_sub_eq fx_abs_def from_raw_eq RAW_MIN_eq RAW_MAX_eq fx_zero_def fx_one_def)
  have collapse: "collapse_probability_v1 fx_one fx_zero fx_one = Return fx_one"
    by (simp add: collapse_probability_v1_def ok clamp01_def fx_less_raw)
  have gs: "to_global_state sample_star fx_one fx_one = Return \<lparr>gs_capital_total = fx_one,
      gs_entropy_index = fx_one, gs_collapse_probability = fx_one, gs_leverage_ratio = fx_zero,
      gs_contagion_index = fx_zero\<rparr>"
    by (simp add: to_global_state_def sample_star_def dget_or_def)
  have rows: "evaluate_global_invariants s s (pg_limits sample_guard) = Return
      (map inv_ok [''capital_conservation'', ''entropy_growth'', ''collapse_bound'',
        ''leverage_envelope'', ''contagion_threshold''])"
    if "s = \<lparr>gs_capital_total = fx_one, gs_entropy_index = fx_one, gs_collapse_probability = fx_one,
      gs_leverage_ratio = fx_zero, gs_contagion_index = fx_zero\<rparr>" for s
    by (simp add: that evaluate_global_invariants_def invariant_capital_conservation_def ok
        invariant_entropy_growth_def invariant_collapse_bound_def invariant_leverage_envelope_def
        invariant_contagion_threshold_def sample_guard_def fx_le_raw)
  have keys: "filter (\<lambda>f. f \<notin> set (pg_allowed_fields sample_guard)) (dkeys sample_star) = []"
    by (simp add: sample_guard_def sample_star_def default_transition_fields_def)
  have tol: "pg_tolerance sample_guard = fx_zero" by (simp add: sample_guard_def)
  have reads: "read_fixed sample_star sample_star ''mass'' d = Return fx_one"
    "read_fixed sample_star sample_star ''entropy_index'' d = Return fx_one"
    "read_fixed sample_star sample_star ''magnetic_field'' d = Return fx_zero"
    "read_fixed sample_star sample_star ''fusion_rate'' d = Return fx_one"
    "read_fixed sample_star x ''collapse_probability'' d = Return fx_one" for d x
    by (simp_all add: read_fixed_def sample_star_def)
  have d: "evaluate_transition sample_guard sample_star sample_star =
      Return \<lparr>gd_allowed = True, gd_reason_codes = [''OK''], gd_computed_collapse = fx_one\<rparr>"
    unfolding evaluate_transition_def decide_collapse_def decide_invariants_def
    by (simp add: keys reads collapse ok gs rows tol Let_def fx_le_raw fx_less_raw clamp01_def)
  from guard_decides_contract [OF d] d show ?thesis by auto
qed

end
