(* ===== verification/Json.thy ===== *)
theory Json
  imports Prelude
begin

text \<open>
  JSON values and their canonical text.  The modelled code hashes and signs
  \<^verbatim>\<open>json.dumps(obj, sort_keys=True, ...)\<close>, with or without \<^verbatim>\<open>ensure_ascii\<close> and with compact or
  default separators: a style holds those choices.  A \<open>float\<close> is given by its \<open>repr\<close> text.
  The main lemma says that the text determines the value up to the order of object keys.
\<close>

section \<open>Values\<close>

datatype json =
    JNull
  | JBool bool
  | JInt int
  | JFloat string
  | JStr string
  | JArr "json list"
  | JObj "(string \<times> json) list"

record json_style =
  js_item :: string
  js_key :: string
  js_ascii :: bool

definition compact :: json_style where
  "compact = \<lparr>js_item = '','', js_key = '':'', js_ascii = True\<rparr>"

definition compact_utf8 :: json_style where
  "compact_utf8 = \<lparr>js_item = '','', js_key = '':'', js_ascii = False\<rparr>"

definition spaced :: json_style where
  "spaced = \<lparr>js_item = '', '', js_key = '': '', js_ascii = True\<rparr>"

section \<open>Printing\<close>

definition hex_digit :: "nat \<Rightarrow> char" where
  "hex_digit n = ''0123456789abcdef'' ! n"

definition unicode_escape :: "nat \<Rightarrow> string" where
  "unicode_escape n = CHR 0x5C # ''u00'' @ [hex_digit (n div 16), hex_digit (n mod 16)]"

definition escape_char :: "bool \<Rightarrow> char \<Rightarrow> string" where
  "escape_char ascii c =
     (let n = code c in
      if n = 34 \<or> n = 92 then [CHR 0x5C, c]
      else if n = 8 then CHR 0x5C # ''b'' else if n = 12 then CHR 0x5C # ''f''
      else if n = 10 then CHR 0x5C # ''n'' else if n = 13 then CHR 0x5C # ''r''
      else if n = 9 then CHR 0x5C # ''t''
      else if n < 32 \<or> ascii \<and> 126 < n then unicode_escape n
      else [c])"

definition quote :: "bool \<Rightarrow> string \<Rightarrow> string" where
  "quote ascii s = CHR 0x22 # concat (map (escape_char ascii) s) @ [CHR 0x22]"

text \<open>The text of a value with its objects in the order they stand.\<close>

primrec print_json :: "json_style \<Rightarrow> json \<Rightarrow> string" where
  "print_json st JNull = ''null''"
| "print_json st (JBool b) = (if b then ''true'' else ''false'')"
| "print_json st (JInt n) = py_str n"
| "print_json st (JFloat t) = t"
| "print_json st (JStr s) = quote (js_ascii st) s"
| "print_json st (JArr xs) = ''['' @ join (js_item st) (map (print_json st) xs) @ '']''"
| "print_json st (JObj kvs) =
     ''{'' @ join (js_item st)
       (map (\<lambda>kv. quote (js_ascii st) (fst kv) @ js_key st @ snd kv)
          (map (map_prod id (print_json st)) kvs)) @ ''}''"

text \<open>\<open>sort_keys=True\<close>: every object in key order.\<close>

primrec sort_json :: "json \<Rightarrow> json" where
  "sort_json JNull = JNull"
| "sort_json (JBool b) = JBool b"
| "sort_json (JInt n) = JInt n"
| "sort_json (JFloat t) = JFloat t"
| "sort_json (JStr s) = JStr s"
| "sort_json (JArr xs) = JArr (map sort_json xs)"
| "sort_json (JObj kvs) = JObj (sort_key fst (map (map_prod id sort_json) kvs))"

definition dumps :: "json_style \<Rightarrow> json \<Rightarrow> string" where
  "dumps st v = print_json st (sort_json v)"

definition canonical_json :: "json \<Rightarrow> string" where
  "canonical_json v = dumps compact_utf8 v"

section \<open>Reading values\<close>

text \<open>\<open>dict.get\<close> on an object, \<open>str(v)\<close> and truth of the values the code meets.\<close>

definition jget :: "json \<Rightarrow> string \<Rightarrow> json option" where
  "jget v k = (case v of JObj kvs \<Rightarrow> map_of kvs k | _ \<Rightarrow> None)"

definition jget_or :: "json \<Rightarrow> string \<Rightarrow> json \<Rightarrow> json" where
  "jget_or v k d = (case jget v k of None \<Rightarrow> d | Some w \<Rightarrow> w)"

definition truthy :: "json \<Rightarrow> bool" where
  "truthy v = (case v of JNull \<Rightarrow> False | JBool b \<Rightarrow> b | JInt n \<Rightarrow> n \<noteq> 0
     | JFloat t \<Rightarrow> t \<noteq> ''0.0'' \<and> t \<noteq> ''-0.0'' | JStr s \<Rightarrow> s \<noteq> [] | JArr xs \<Rightarrow> xs \<noteq> []
     | JObj kvs \<Rightarrow> kvs \<noteq> [])"

text \<open>
  \<open>str(v)\<close>: exact for scalars; \<open>repr\<close> of a list or a dict is written for elements whose own
  \<open>repr\<close> needs no escapes.
\<close>

primrec py_repr :: "json \<Rightarrow> string" where
  "py_repr JNull = ''None''"
| "py_repr (JBool b) = py_bool_str b"
| "py_repr (JInt n) = py_str n"
| "py_repr (JFloat t) = t"
| "py_repr (JStr s) = CHR 0x27 # s @ [CHR 0x27]"
| "py_repr (JArr xs) = ''['' @ join '', '' (map py_repr xs) @ '']''"
| "py_repr (JObj kvs) =
     ''{'' @ join '', '' (map (\<lambda>kv. CHR 0x27 # fst kv @ [CHR 0x27] @ '': '' @ snd kv)
       (map (map_prod id py_repr) kvs)) @ ''}''"

definition jstr :: "json \<Rightarrow> string" where
  "jstr v = (case v of JStr s \<Rightarrow> s | _ \<Rightarrow> py_repr v)"

section \<open>Well-formed values\<close>

definition num_char :: "char \<Rightarrow> bool" where
  "num_char c = (is_ascii_digit c \<or> c \<in> {CHR ''-'', CHR ''+'', CHR ''.'', CHR ''e''})"

text \<open>The \<open>repr\<close> of a finite float: number characters, with a point or an exponent.\<close>

definition float_text :: "string \<Rightarrow> bool" where
  "float_text t = (t \<noteq> [] \<and> list_all num_char t \<and> (CHR ''.'' \<in> set t \<or> CHR ''e'' \<in> set t))"

primrec wf_json :: "json \<Rightarrow> bool" where
  "wf_json JNull = True"
| "wf_json (JBool b) = True"
| "wf_json (JInt n) = True"
| "wf_json (JFloat t) = float_text t"
| "wf_json (JStr s) = True"
| "wf_json (JArr xs) = list_all id (map wf_json xs)"
| "wf_json (JObj kvs) = (distinct (map fst kvs) \<and> list_all snd (map (map_prod id wf_json) kvs))"

definition good_style :: "json_style \<Rightarrow> bool" where
  "good_style st = (\<exists>sp. js_item st = CHR '','' # sp)"

lemma good_styles [simp]: "good_style compact" "good_style compact_utf8" "good_style spaced"
  by (simp_all add: good_style_def compact_def compact_utf8_def spaced_def)

section \<open>Prefix-free tokens\<close>

lemma code_inject [simp]: "code c = code d \<longleftrightarrow> c = d"
  by (rule of_char_eq_iff)

lemma code_less [simp]: "code c < 256"
  by (metis of_char_mod_256 mod_less_divisor zero_less_numeral)

lemma hex_digit_inj: "i < 16 \<Longrightarrow> j < 16 \<Longrightarrow> hex_digit i = hex_digit j \<longleftrightarrow> i = j"
proof -
  have "distinct ''0123456789abcdef''" by simp
  then show "i < 16 \<Longrightarrow> j < 16 \<Longrightarrow> hex_digit i = hex_digit j \<longleftrightarrow> i = j"
    unfolding hex_digit_def by (subst nth_eq_iff_index_eq) auto
qed

lemma unicode_escape_inj:
  assumes "m < 256" "n < 256" "unicode_escape m @ x = unicode_escape n @ y"
  shows "m = n \<and> x = y"
proof -
  have "m div 16 = n div 16" "m mod 16 = n mod 16" "x = y"
    using assms by (auto simp: unicode_escape_def hex_digit_inj div_less_iff_less_mult less_mult_imp_div_less)
  then show ?thesis by (metis div_mult_mod_eq)
qed

lemma escape_char_cases:
  obtains (plain) "escape_char a c = [c]" "c \<noteq> CHR 0x22" "c \<noteq> CHR 0x5C"
  | (short) e where "escape_char a c = [CHR 0x5C, e]" "e \<noteq> CHR ''u''"
      "e = (if code c = 34 \<or> code c = 92 then c else if code c = 8 then CHR ''b''
            else if code c = 12 then CHR ''f'' else if code c = 10 then CHR ''n''
            else if code c = 13 then CHR ''r'' else CHR ''t'')"
      "code c \<in> {34, 92, 8, 12, 10, 13, 9}"
  | (unicode) "escape_char a c = unicode_escape (code c)"
proof -
  have q: "code c = 34 \<longleftrightarrow> c = CHR 0x22" "code c = 92 \<longleftrightarrow> c = CHR 0x5C"
    using code_inject [of c "CHR 0x22"] code_inject [of c "CHR 0x5C"] by simp_all
  consider "code c \<in> {34, 92, 8, 12, 10, 13, 9}"
    | "code c \<notin> {34, 92, 8, 12, 10, 13, 9}" "code c < 32 \<or> a \<and> 126 < code c"
    | "code c \<notin> {34, 92, 8, 12, 10, 13, 9}" "\<not> (code c < 32 \<or> a \<and> 126 < code c)" by blast
  then show ?thesis
  proof cases
    case 1
    then show ?thesis by (intro short) (auto simp: escape_char_def Let_def q)
  next
    case 2
    then show ?thesis by (intro unicode) (auto simp: escape_char_def Let_def)
  next
    case 3
    then show ?thesis using q by (intro plain) (auto simp: escape_char_def Let_def)
  qed
qed

lemma escape_nonempty: "escape_char a c \<noteq> []" and escape_hd: "hd (escape_char a c) \<noteq> CHR 0x22"
  by (cases a c rule: escape_char_cases; simp add: unicode_escape_def)+

lemma short_escapes:
  fixes m n :: nat
  assumes "m \<in> {34, 92, 8, 12, 10, 13, 9}" "n \<in> {34, 92, 8, 12, 10, 13, 9}"
    and "code c = m" "code d = n"
    and "(if m = 34 \<or> m = 92 then c else if m = 8 then CHR ''b'' else if m = 12 then CHR ''f''
          else if m = 10 then CHR ''n'' else if m = 13 then CHR ''r'' else CHR ''t'') =
         (if n = 34 \<or> n = 92 then d else if n = 8 then CHR ''b'' else if n = 12 then CHR ''f''
          else if n = 10 then CHR ''n'' else if n = 13 then CHR ''r'' else CHR ''t'')"
  shows "m = n"
  using assms by auto

lemma escape_char_inj:
  assumes "escape_char a c @ x = escape_char a d @ y"
  shows "c = d \<and> x = y"
proof (cases a c rule: escape_char_cases)
  case plain
  note c = this
  show ?thesis
    by (cases a d rule: escape_char_cases) (use assms c in \<open>auto simp: unicode_escape_def\<close>)
next
  case (short e)
  note c = this
  show ?thesis
  proof (cases a d rule: escape_char_cases)
    case plain
    with c assms show ?thesis by auto
  next
    case (short e')
    from assms c(1) short(1) have xy: "e = e'" "x = y" by auto
    have "code c = code d"
      by (rule short_escapes [OF c(4) short(4) refl refl]) (use xy c(3) short(3) in simp)
    with xy show ?thesis by simp
  next
    case unicode
    with c assms show ?thesis by (auto simp: unicode_escape_def)
  qed
next
  case unicode
  note c = this
  show ?thesis
  proof (cases a d rule: escape_char_cases)
    case plain
    with c assms show ?thesis by (auto simp: unicode_escape_def)
  next
    case (short e')
    with c assms show ?thesis by (auto simp: unicode_escape_def)
  next
    case unicode
    with c assms unicode_escape_inj [of "code c" "code d" x y] show ?thesis by simp
  qed
qed

lemma escapes_inj:
  "concat (map (escape_char a) s) @ CHR 0x22 # x = concat (map (escape_char a) t) @ CHR 0x22 # y \<Longrightarrow>
     s = t \<and> x = y"
proof (induction s arbitrary: t)
  case Nil
  then show ?case
    using escape_nonempty escape_hd by (cases t) (auto, metis hd_append list.sel(1))
next
  case (Cons c s)
  show ?case
  proof (cases t)
    case Nil
    with Cons.prems show ?thesis using escape_nonempty escape_hd by (simp, metis hd_append list.sel(1))
  next
    case (Cons d t')
    with Cons.prems have "escape_char a c @ concat (map (escape_char a) s) @ CHR 0x22 # x =
        escape_char a d @ concat (map (escape_char a) t') @ CHR 0x22 # y" by simp
    then have "c = d" "concat (map (escape_char a) s) @ CHR 0x22 # x =
        concat (map (escape_char a) t') @ CHR 0x22 # y"
      using escape_char_inj by blast+
    with Cons.IH Cons show ?thesis by blast
  qed
qed

lemma quote_inj: "quote a s @ x = quote a t @ y \<Longrightarrow> s = t \<and> x = y"
  using escapes_inj [of a s x t y] by (simp add: quote_def)

lemma quote_hd [simp]: "quote a s \<noteq> []" "hd (quote a s) = CHR 0x22" "hd (quote a s @ x) = CHR 0x22"
  by (simp_all add: quote_def)

text \<open>Number tokens end where the number characters end.\<close>

definition stop :: "string \<Rightarrow> bool" where
  "stop r = (r = [] \<or> \<not> num_char (hd r))"

lemma stop_simps [simp]: "stop []" "stop (c # r) \<longleftrightarrow> \<not> num_char c"
  by (simp_all add: stop_def)

lemma takeWhile_num: "list_all num_char t \<Longrightarrow> stop r \<Longrightarrow> takeWhile num_char (t @ r) = t"
proof (induction t)
  case Nil
  then show ?case by (cases r) auto
qed auto

lemma num_token_inj:
  assumes "list_all num_char t" "list_all num_char u" "stop r" "stop r'" "t @ r = u @ r'"
  shows "t = u \<and> r = r'"
proof -
  have "takeWhile num_char (t @ r) = t" "takeWhile num_char (u @ r') = u"
    by (rule takeWhile_num; fact)+
  then have "t = u" using assms(5) by simp
  with assms(5) show ?thesis by simp
qed

lemma py_str_num: "list_all num_char (py_str n)" and py_str_int: "CHR ''.'' \<notin> set (py_str n)" "CHR ''e'' \<notin> set (py_str n)"
proof -
  have "list_all is_ascii_digit (show_digits (if n < 0 then - n else n))"
    by (rule show_digits_ascii) simp
  then have "\<forall>c\<in>set (py_str n). is_ascii_digit c \<or> c = CHR ''-''"
    by (auto simp: py_str_def list_all_iff split: if_splits)
  then show "list_all num_char (py_str n)" "CHR ''.'' \<notin> set (py_str n)" "CHR ''e'' \<notin> set (py_str n)"
    by (auto simp: list_all_iff num_char_def is_ascii_digit_def)
qed

lemma py_str_nonempty [simp]: "py_str n \<noteq> []"
  by (simp add: py_str_def)

lemma py_str_inject: "py_str m = py_str n \<longleftrightarrow> m = n"
  using py_int_py_str by (metis sum.inject(2))

text \<open>The first character of the text tells the kind of the value.\<close>

definition kind_char :: "char \<Rightarrow> nat" where
  "kind_char c = (if c = CHR ''n'' then 0 else if c = CHR ''t'' \<or> c = CHR ''f'' then 1
     else if num_char c then 2 else if c = CHR 0x22 then 3 else if c = CHR ''['' then 4
     else if c = CHR ''{'' then 5 else 6)"

definition kind :: "json \<Rightarrow> nat" where
  "kind v = (case v of JNull \<Rightarrow> 0 | JBool _ \<Rightarrow> 1 | JInt _ \<Rightarrow> 2 | JFloat _ \<Rightarrow> 2 | JStr _ \<Rightarrow> 3
     | JArr _ \<Rightarrow> 4 | JObj _ \<Rightarrow> 5)"

lemma num_char_kind: "num_char c \<Longrightarrow> kind_char c = 2"
  by (auto simp: kind_char_def num_char_def is_ascii_digit_def)

lemma num_token_kind: "list_all num_char t \<Longrightarrow> t \<noteq> [] \<Longrightarrow> kind_char (hd (t @ r)) = 2"
  by (cases t) (auto simp: num_char_kind)

lemma print_json_kind:
  assumes "wf_json v"
  shows "print_json st v \<noteq> []" and "kind_char (hd (print_json st v @ r)) = kind v"
proof -
  show "print_json st v \<noteq> []" using assms by (cases v) (auto simp: float_text_def)
  show "kind_char (hd (print_json st v @ r)) = kind v"
  proof (cases v)
    case (JInt n)
    then show ?thesis using num_token_kind [OF py_str_num(1) py_str_nonempty, of n r] by (simp add: kind_def)
  next
    case (JFloat t)
    then show ?thesis using assms num_token_kind [of t r] by (simp add: kind_def float_text_def)
  qed (simp_all add: kind_def, simp_all add: kind_char_def num_char_def is_ascii_digit_def)
qed

lemma print_json_same_kind:
  assumes "wf_json a" "wf_json b" "print_json st a @ r = print_json st b @ r'"
  shows "kind a = kind b"
  using print_json_kind(2) [OF assms(1), of st r] print_json_kind(2) [OF assms(2), of st r'] assms(3)
  by simp

lemma kind_iff:
  "0 = kind b \<longleftrightarrow> b = JNull" "Suc 0 = kind b \<longleftrightarrow> (\<exists>x. b = JBool x)"
  "2 = kind b \<longleftrightarrow> (\<exists>n. b = JInt n) \<or> (\<exists>t. b = JFloat t)" "3 = kind b \<longleftrightarrow> (\<exists>x. b = JStr x)"
  "4 = kind b \<longleftrightarrow> (\<exists>x. b = JArr x)" "5 = kind b \<longleftrightarrow> (\<exists>x. b = JObj x)"
  by (cases b; simp add: kind_def)+

lemma kinds [simp]: "kind JNull = 0" "kind (JBool x) = Suc 0" "kind (JInt n) = 2" "kind (JFloat t) = 2"
  "kind (JStr u) = 3" "kind (JArr xs) = 4" "kind (JObj kvs) = 5"
  by (simp_all add: kind_def)

section \<open>The text determines the value\<close>

lemma join_Cons: "join sep (x # xs) = x @ concat (map (\<lambda>y. sep @ y) xs)"
  by (induction xs arbitrary: x) auto

definition uniquely_read :: "('a \<Rightarrow> string) \<Rightarrow> 'a set \<Rightarrow> 'a set \<Rightarrow> bool" where
  "uniquely_read p A B = (\<forall>x\<in>A. \<forall>y\<in>B. \<forall>r r'. stop r \<longrightarrow> stop r' \<longrightarrow> p x @ r = p y @ r' \<longrightarrow> x = y \<and> r = r')"

lemma tail_inj:
  assumes sep: "sep = CHR '','' # sp" and c: "\<not> num_char c" "c \<noteq> CHR '',''"
    and "uniquely_read p (set xs) (set ys)"
    and "concat (map (\<lambda>x. sep @ p x) xs) @ c # r = concat (map (\<lambda>x. sep @ p x) ys) @ c # r'"
  shows "xs = ys \<and> r = r'"
  using assms(4,5)
proof (induction xs arbitrary: ys)
  case Nil
  then show ?case using sep c by (cases ys) auto
next
  case (Cons x xs)
  show ?case
  proof (cases ys)
    case Nil
    with Cons.prems sep c show ?thesis by auto
  next
    case (Cons y ys')
    have st: "stop (concat (map (\<lambda>x. sep @ p x) zs) @ c # q)" for zs q
      using sep c by (cases zs) (auto simp: num_char_def is_ascii_digit_def)
    from Cons.prems(2) Cons have "p x @ concat (map (\<lambda>x. sep @ p x) xs) @ c # r =
        p y @ concat (map (\<lambda>x. sep @ p x) ys') @ c # r'" by simp
    then have "x = y \<and> concat (map (\<lambda>x. sep @ p x) xs) @ c # r = concat (map (\<lambda>x. sep @ p x) ys') @ c # r'"
      using Cons.prems(1) Cons st unfolding uniquely_read_def by (metis list.set_intros(1))
    moreover have "uniquely_read p (set xs) (set ys')"
      using Cons.prems(1) Cons by (auto simp: uniquely_read_def)
    ultimately show ?thesis using Cons.IH Cons by blast
  qed
qed

lemma join_inj:
  assumes sep: "sep = CHR '','' # sp" and c: "\<not> num_char c" "c \<noteq> CHR '',''"
    and u: "uniquely_read p (set xs) (set ys)"
    and ne: "\<And>x. x \<in> set xs \<union> set ys \<Longrightarrow> p x \<noteq> [] \<and> hd (p x) \<noteq> c"
    and eq: "join sep (map p xs) @ c # r = join sep (map p ys) @ c # r'"
  shows "xs = ys \<and> r = r'"
proof -
  have hd_join: "join sep (map p (x # zs)) @ q \<noteq> c # q'" if "x \<in> set xs \<union> set ys" for x zs q q'
    using ne [OF that] by (cases "p x") (auto simp: join_Cons)
  show ?thesis
  proof (cases xs)
    case Nil
    with eq hd_join show ?thesis by (cases ys) (auto, metis append.assoc)
  next
    case (Cons x xs')
    show ?thesis
    proof (cases ys)
      case Nil
      with eq hd_join [of x xs' "c # r" r'] Cons show ?thesis by simp
    next
      case ys: (Cons y ys')
      have st: "stop (concat (map (\<lambda>x. sep @ p x) zs) @ c # q)" for zs q
        using sep c by (cases zs) (auto simp: num_char_def is_ascii_digit_def)
      from eq Cons ys have "p x @ concat (map (\<lambda>x. sep @ p x) xs') @ c # r =
          p y @ concat (map (\<lambda>x. sep @ p x) ys') @ c # r'" by (simp add: join_Cons comp_def)
      then have "x = y \<and> concat (map (\<lambda>x. sep @ p x) xs') @ c # r = concat (map (\<lambda>x. sep @ p x) ys') @ c # r'"
        using u Cons ys st unfolding uniquely_read_def by (metis list.set_intros(1))
      moreover have "uniquely_read p (set xs') (set ys')"
        using u Cons ys by (auto simp: uniquely_read_def)
      ultimately show ?thesis using tail_inj [OF sep c] Cons ys by blast
    qed
  qed
qed

lemma print_json_inj:
  assumes "good_style st"
  shows "wf_json a \<Longrightarrow> wf_json b \<Longrightarrow> stop r \<Longrightarrow> stop r' \<Longrightarrow>
    print_json st a @ r = print_json st b @ r' \<Longrightarrow> a = b \<and> r = r'"
proof (induction a arbitrary: b r r')
  case JNull
  then show ?case using print_json_same_kind [of JNull b st r r'] by (auto simp: kind_iff)
next
  case (JBool x)
  then obtain y where "b = JBool y"
    using print_json_same_kind [of "JBool x" b st r r'] by (auto simp: kind_iff)
  with JBool show ?case by (auto split: if_splits)
next
  case (JInt n)
  then consider (int) m where "b = JInt m" | (float) t where "b = JFloat t"
    using print_json_same_kind [of "JInt n" b st r r'] by (auto simp: kind_iff)
  then show ?case
  proof cases
    case float
    with JInt.prems have "py_str n = t" using num_token_inj [OF py_str_num(1), of t r r' n]
      by (auto simp: float_text_def)
    with JInt.prems(2) float py_str_int show ?thesis by (auto simp: float_text_def)
  next
    case int
    with JInt.prems show ?thesis
      using num_token_inj [OF py_str_num(1) py_str_num(1), of r r' n m] by (simp add: py_str_inject)
  qed
next
  case (JFloat t)
  then consider (int) m where "b = JInt m" | (float) u where "b = JFloat u"
    using print_json_same_kind [of "JFloat t" b st r r'] by (auto simp: kind_iff)
  then show ?case
  proof cases
    case float
    with JFloat.prems show ?thesis using num_token_inj [of t u r r'] by (auto simp: float_text_def)
  next
    case int
    with JFloat.prems have "t = py_str m" using num_token_inj [OF _ py_str_num(1), of t r r' m]
      by (auto simp: float_text_def)
    with JFloat.prems(1) py_str_int show ?thesis by (auto simp: float_text_def)
  qed
next
  case (JStr s)
  then obtain t where t: "b = JStr t"
    using print_json_same_kind [of "JStr s" b st r r'] by (auto simp: kind_iff)
  then show ?case using quote_inj [of "js_ascii st" s r t r'] JStr.prems(5) by simp
next
  case (JArr xs)
  then obtain ys where ys: "b = JArr ys"
    using print_json_same_kind [of "JArr xs" b st r r'] by (auto simp: kind_iff)
  obtain sp where sep: "js_item st = CHR '','' # sp" using assms by (auto simp: good_style_def)
  have wf: "\<forall>x\<in>set xs. wf_json x" "\<forall>x\<in>set ys. wf_json x"
    using JArr.prems(1,2) ys by (auto simp: list_all_iff)
  have "uniquely_read (print_json st) (set xs) (set ys)"
    unfolding uniquely_read_def using JArr.IH wf by blast
  moreover have "print_json st x \<noteq> [] \<and> hd (print_json st x) \<noteq> CHR '']''" if "x \<in> set xs \<union> set ys" for x
  proof -
    have "wf_json x" using that wf by auto
    moreover have "kind_char (CHR '']'') = 6" by (simp add: kind_char_def num_char_def is_ascii_digit_def)
    moreover have "kind x < 6" by (cases x) auto
    ultimately show ?thesis using print_json_kind(1) [of x st] print_json_kind(2) [of x st "[]"] by (metis append_Nil2 less_irrefl)
  qed
  moreover have "join (js_item st) (map (print_json st) xs) @ CHR '']'' # r =
      join (js_item st) (map (print_json st) ys) @ CHR '']'' # r'"
    using JArr.prems(5) ys by simp
  ultimately have "xs = ys \<and> r = r'"
    by (intro join_inj [OF sep, of "CHR '']''"]) (auto simp: num_char_def is_ascii_digit_def)
  with ys show ?case by simp
next
  case (JObj kvs)
  then obtain lvs where lvs: "b = JObj lvs"
    using print_json_same_kind [of "JObj kvs" b st r r'] by (auto simp: kind_iff)
  let ?p = "\<lambda>kv. quote (js_ascii st) (fst kv) @ js_key st @ print_json st (snd kv)"
  obtain sp where sep: "js_item st = CHR '','' # sp" using assms by (auto simp: good_style_def)
  have wf: "\<forall>x\<in>set kvs. wf_json (snd x)" "\<forall>x\<in>set lvs. wf_json (snd x)"
    using JObj.prems(1,2) lvs by (auto simp: list_all_iff)
  have "uniquely_read ?p (set kvs) (set lvs)"
    unfolding uniquely_read_def
  proof (intro ballI allI impI)
    fix x y q q'
    assume x: "x \<in> set kvs" and y: "y \<in> set lvs" and st: "stop q" "stop q'" and eq: "?p x @ q = ?p y @ q'"
    then have k: "fst x = fst y" and v: "print_json st (snd x) @ q = print_json st (snd y) @ q'"
      using quote_inj [of "js_ascii st" "fst x" "js_key st @ print_json st (snd x) @ q" "fst y"
          "js_key st @ print_json st (snd y) @ q'"] by auto
    have "snd x = snd y \<and> q = q'"
      by (rule JObj.IH [OF x _ _ _ st v]) (use wf x y in \<open>auto simp: snds.simps prod_set_defs\<close>)
    with k show "x = y \<and> q = q'" by (simp add: prod_eq_iff)
  qed
  moreover have "?p x \<noteq> [] \<and> hd (?p x) \<noteq> CHR ''}''" for x by simp
  moreover have "join (js_item st) (map ?p kvs) @ CHR ''}'' # r = join (js_item st) (map ?p lvs) @ CHR ''}'' # r'"
    using JObj.prems(5) lvs by (simp add: comp_def)
  ultimately have "kvs = lvs \<and> r = r'"
    by (intro join_inj [OF sep, of "CHR ''}''" ?p]) (auto simp: num_char_def is_ascii_digit_def)
  with lvs show ?case by simp
qed

text \<open>Sorting the keys keeps a value well formed.\<close>

lemma wf_sort_json: "wf_json v \<Longrightarrow> wf_json (sort_json v)"
proof (induction v)
  case (JObj kvs)
  have "map fst (sort_key fst (map (map_prod id sort_json) kvs)) = sort (map fst kvs)"
    by (simp add: keys_sort_key del: sort_key_simps)
  with JObj show ?case
    by (auto simp: list_all_iff prod_set_defs)
qed (auto simp: list_all_iff)

text \<open>
  Two well-formed values with the same canonical text are equal up to the order of object keys,
  at every depth.
\<close>

lemma dumps_inj:
  assumes "good_style st" "wf_json a" "wf_json b" "dumps st a = dumps st b"
  shows "sort_json a = sort_json b"
  using print_json_inj [OF assms(1) wf_sort_json [OF assms(2)] wf_sort_json [OF assms(3)], of "[]" "[]"] assms(4)
  by (simp add: dumps_def)

text \<open>Looking up a key commutes with sorting.\<close>

lemma map_of_sort_key: "distinct (map fst kvs) \<Longrightarrow> map_of (sort_key fst kvs) k = map_of kvs k"
  using map_of_inject_set [of "sort_key fst kvs" kvs] by (simp add: keys_sort_key del: sort_key_simps)

lemma jget_sort_json:
  assumes "wf_json v"
  shows "jget (sort_json v) k = map_option sort_json (jget v k)"
proof (cases v)
  case (JObj kvs)
  have "map_of (map (map_prod id sort_json) kvs) k = map_option sort_json (map_of kvs k)"
    by (induction kvs) auto
  moreover have "distinct (map fst (map (map_prod id sort_json) kvs))" using assms JObj by simp
  ultimately show ?thesis
    using JObj map_of_sort_key [of "map (map_prod id sort_json) kvs" k] by (simp add: jget_def)
qed (simp_all add: jget_def)

lemma sort_json_eqD:
  assumes "sort_json v = sort_json w" "wf_json v" "wf_json w" "jget v k = Some x" "jget w k = Some y"
  shows "sort_json x = sort_json y"
  using jget_sort_json [OF assms(2), of k] jget_sort_json [OF assms(3), of k] assms by simp

text \<open>Sorting twice is sorting once.\<close>

lemma map_values_sort: "map (map_prod id f) (sort_key fst xs) = sort_key fst (map (map_prod id f) xs)"
proof (induction xs)
  case (Cons a xs)
  have "map (map_prod id f) (insort_key fst a ys) = insort_key fst (map_prod id f a) (map (map_prod id f) ys)" for ys
    by (induction ys) auto
  with Cons show ?case by (simp only: sort_key_simps list.map)
qed simp

lemma sort_key_idem: "sort_key f (sort_key f xs) = sort_key f xs"
proof -
  have "sort_key f ys = ys" if "sorted (map f ys)" for ys
    using that by (induction ys) (auto simp: insort_is_Cons)
  then show ?thesis by simp
qed

lemma sort_json_idem: "sort_json (sort_json v) = sort_json v"
proof (induction v)
  case (JObj kvs)
  then have "map (map_prod id sort_json \<circ> map_prod id sort_json) kvs = map (map_prod id sort_json) kvs"
    by (auto simp: prod_set_defs)
  then show ?case
    by (simp add: map_values_sort sort_key_idem del: sort_key_simps cong: map_cong)
qed auto

end
