(* ===== verification/Merkle.thy ===== *)
theory Merkle
  imports Sha256
begin

text \<open>
  Merkle roots, membership proofs and the anchoring accumulators: \<^verbatim>\<open>solis/merkle/\<close> and
  \<^verbatim>\<open>solis/identity/anchor/merkle.py\<close>.  The three root functions of the repository have the same
  loop, which \<open>merkle_loop\<close> models.
\<close>

section \<open>Roots\<close>

definition hash_event :: "string \<Rightarrow> string" where
  "hash_event event_json = sha256_hex event_json"

definition hash_leaf :: "string \<Rightarrow> string" where
  "hash_leaf payload = sha256_hex payload"

definition even_layer :: "string list \<Rightarrow> string list" where
  "even_layer layer = (if length layer mod 2 = 1 then layer @ [last layer] else layer)"

fun pair_layer :: "string list \<Rightarrow> string list" where
  "pair_layer (a # b # rest) = sha256_hex (a @ b) # pair_layer rest"
| "pair_layer _ = []"

lemma length_pair_layer: "length (pair_layer xs) = length xs div 2"
  by (induction xs rule: pair_layer.induct) auto

lemma length_even_layer: "length (even_layer xs) = 2 * ((length xs + 1) div 2)"
  by (auto simp: even_layer_def) presburger+

lemma length_next_layer: "length (pair_layer (even_layer xs)) = (length xs + 1) div 2"
  by (simp add: length_pair_layer length_even_layer)

function merkle_loop :: "string list \<Rightarrow> string" where
  "merkle_loop layer =
     (if length layer > 1 then merkle_loop (pair_layer (even_layer layer)) else layer ! 0)"
  by pat_completeness auto
termination
  by (relation "measure length") (auto simp: length_next_layer)

declare merkle_loop.simps [simp del]

definition build_merkle_root :: "string list \<Rightarrow> string" where
  "build_merkle_root hashes = (if hashes = [] then [] else merkle_loop hashes)"

definition merkle_root :: "string list \<Rightarrow> string" where
  "merkle_root leaves = (if leaves = [] then [] else merkle_loop leaves)"

definition derive_root_from_hashes :: "string list \<Rightarrow> string" where
  "derive_root_from_hashes hashes = (if hashes = [] then [] else merkle_loop hashes)"

section \<open>Membership proofs\<close>

record merkle_proof =
  mp_leaf_hash :: string
  mp_siblings :: "string list"
  mp_index :: int

definition proof_step :: "string \<Rightarrow> int \<Rightarrow> string \<Rightarrow> string" where
  "proof_step current index sibling =
     sha256_hex (if index mod 2 = 0 then current @ sibling else sibling @ current)"

fun climb :: "string \<Rightarrow> int \<Rightarrow> string list \<Rightarrow> string" where
  "climb current index [] = current"
| "climb current index (sibling # rest) = climb (proof_step current index sibling) (index div 2) rest"

definition verify_proof :: "merkle_proof \<Rightarrow> string \<Rightarrow> bool" where
  "verify_proof p root =
     (if root = [] then False
      else if mp_index p < 0 then False
      else climb (mp_leaf_hash p) (mp_index p) (mp_siblings p) = root)"

section \<open>The epoch accumulator\<close>

record merkle_anchor =
  ma_epoch_size :: int
  ma_event_hashes :: "string list"

definition make_anchor :: "int \<Rightarrow> merkle_anchor result" where
  "make_anchor epoch_size =
     (if epoch_size \<le> 0 then Raise (ValueError ''epoch_size must be > 0'')
      else Return \<lparr>ma_epoch_size = epoch_size, ma_event_hashes = []\<rparr>)"

definition anchor_append :: "string \<Rightarrow> merkle_anchor \<Rightarrow> merkle_anchor" where
  "anchor_append event_json a = a\<lparr>ma_event_hashes := ma_event_hashes a @ [hash_event event_json]\<rparr>"

definition anchor_root :: "merkle_anchor \<Rightarrow> string" where
  "anchor_root a = build_merkle_root (ma_event_hashes a)"

definition should_anchor :: "merkle_anchor \<Rightarrow> bool" where
  "should_anchor a =
     (length (ma_event_hashes a) > 0 \<and> int (length (ma_event_hashes a)) mod ma_epoch_size a = 0)"

definition anchor_epoch :: "merkle_anchor \<Rightarrow> int" where
  "anchor_epoch a =
     (if ma_event_hashes a = [] then 0 else int (length (ma_event_hashes a)) div ma_epoch_size a)"

section \<open>Paths in the tree\<close>

text \<open>
  The sibling of position \<open>i\<close> in a layer, and the path an honest prover sends for it.  Every
  inner position of an even layer has its partner at the other index of the pair.
\<close>

definition partner :: "nat \<Rightarrow> nat" where
  "partner i = (if even i then Suc i else i - 1)"

function merkle_path :: "string list \<Rightarrow> nat \<Rightarrow> string list" where
  "merkle_path layer i =
     (if length layer > 1
      then even_layer layer ! partner i # merkle_path (pair_layer (even_layer layer)) (i div 2)
      else [])"
  by pat_completeness auto
termination
  by (relation "measure (\<lambda>(layer, i). length layer)") (auto simp: length_next_layer)

declare merkle_path.simps [simp del]

lemma nth_pair_layer:
  "2 * k + 1 < length xs \<Longrightarrow> pair_layer xs ! k = sha256_hex (xs ! (2 * k) @ xs ! (2 * k + 1))"
  by (induction xs arbitrary: k rule: pair_layer.induct) (auto simp: nth_Cons split: nat.splits)

lemma nth_even_layer: "i < length xs \<Longrightarrow> even_layer xs ! i = xs ! i"
  by (auto simp: even_layer_def nth_append)

lemma pair_index:
  assumes "i < length xs"
  shows "2 * (i div 2) + 1 < length (even_layer xs)"
  using assms by (simp add: length_even_layer) presburger

text \<open>One step up the tree: the parent of position \<open>i\<close> is the digest of the pair.\<close>

lemma parent_of:
  assumes "i < length xs"
  shows "pair_layer (even_layer xs) ! (i div 2) =
    proof_step (xs ! i) (int i) (even_layer xs ! partner i)"
proof -
  have "pair_layer (even_layer xs) ! (i div 2) =
      sha256_hex (even_layer xs ! (2 * (i div 2)) @ even_layer xs ! (2 * (i div 2) + 1))"
    by (rule nth_pair_layer [OF pair_index [OF assms]])
  moreover have "int i mod 2 = 0 \<longleftrightarrow> even i" by presburger
  ultimately show ?thesis
    using nth_even_layer [OF assms]
    by (auto simp: proof_step_def partner_def elim!: evenE oddE)
qed

lemma next_index: "i < length xs \<Longrightarrow> i div 2 < length (pair_layer (even_layer xs))"
  by (simp add: length_next_layer)

lemma climb_path: "i < length xs \<Longrightarrow> climb (xs ! i) (int i) (merkle_path xs i) = merkle_loop xs"
proof (induction xs i rule: merkle_path.induct)
  case (1 layer i)
  show ?case
  proof (cases "length layer > 1")
    case True
    have "climb (pair_layer (even_layer layer) ! (i div 2)) (int (i div 2))
        (merkle_path (pair_layer (even_layer layer)) (i div 2)) = merkle_loop (pair_layer (even_layer layer))"
      by (rule "1.IH" [OF True next_index [OF "1.prems"]])
    with True "1.prems" show ?thesis
      by (simp add: merkle_path.simps [of layer i] merkle_loop.simps [of layer] parent_of zdiv_int)
  next
    case False
    with "1.prems" have "i = 0" by simp
    with False show ?thesis by (simp add: merkle_path.simps [of layer 0] merkle_loop.simps [of layer])
  qed
qed

lemma merkle_loop_nonempty: "xs \<noteq> [] \<Longrightarrow> \<forall>x\<in>set xs. x \<noteq> [] \<Longrightarrow> merkle_loop xs \<noteq> []"
proof (induction xs rule: merkle_loop.induct)
  case (1 layer)
  have "\<forall>x\<in>set (pair_layer ys). x \<noteq> []" for ys by (induction ys rule: pair_layer.induct) auto
  moreover have "pair_layer (even_layer layer) \<noteq> []" if "length layer > 1"
    using that length_next_layer [of layer] by force
  ultimately show ?case using 1 by (subst merkle_loop.simps) auto
qed

section \<open>Soundness under collision freedom\<close>

text \<open>The texts hashed by the tree over a layer and by a proof from a position.\<close>

fun pair_texts :: "string list \<Rightarrow> string set" where
  "pair_texts (a # b # rest) = insert (a @ b) (pair_texts rest)"
| "pair_texts _ = {}"

function tree_texts :: "string list \<Rightarrow> string set" where
  "tree_texts layer =
     (if length layer > 1
      then pair_texts (even_layer layer) \<union> tree_texts (pair_layer (even_layer layer)) else {})"
  by pat_completeness auto
termination
  by (relation "measure length") (auto simp: length_next_layer)

declare tree_texts.simps [simp del]

fun climb_texts :: "string \<Rightarrow> int \<Rightarrow> string list \<Rightarrow> string set" where
  "climb_texts current index [] = {}"
| "climb_texts current index (sibling # rest) =
     insert (if index mod 2 = 0 then current @ sibling else sibling @ current)
       (climb_texts (proof_step current index sibling) (index div 2) rest)"

function depth :: "string list \<Rightarrow> nat" where
  "depth layer = (if length layer > 1 then Suc (depth (pair_layer (even_layer layer))) else 0)"
  by pat_completeness auto
termination
  by (relation "measure length") (auto simp: length_next_layer)

declare depth.simps [simp del]

lemma pair_text_in: "2 * k + 1 < length xs \<Longrightarrow> xs ! (2 * k) @ xs ! (2 * k + 1) \<in> pair_texts xs"
proof (induction xs arbitrary: k rule: pair_texts.induct)
  case (1 a b rest)
  then show ?case by (cases k) auto
qed auto

lemma pair_layer_length64: "x \<in> set (pair_layer xs) \<Longrightarrow> length x = 64"
  by (induction xs rule: pair_layer.induct) auto

lemma climb_sound:
  assumes "i < length xs" "\<forall>x\<in>set xs. length x = 64" "length cur = 64" "\<forall>s\<in>set sibs. length s = 64"
    and "length sibs = depth xs" "climb cur (int i) sibs = merkle_loop xs"
    and "inj_on sha256_hex (tree_texts xs \<union> climb_texts cur (int i) sibs)"
  shows "cur = xs ! i"
  using assms
proof (induction xs arbitrary: i cur sibs rule: depth.induct)
  case (1 layer)
  let ?next = "pair_layer (even_layer layer)"
  show ?case
  proof (cases "length layer > 1")
    case False
    with "1.prems"(1) have "i = 0" by simp
    with False "1.prems"(5,6) show ?thesis by (simp add: depth.simps [of layer] merkle_loop.simps [of layer])
  next
    case True
    with "1.prems"(5) obtain s rest where sibs: "sibs = s # rest" "length rest = depth ?next"
      by (cases sibs) (auto simp: depth.simps [of layer])
    let ?cur = "proof_step cur (int i) s"
    have texts: "tree_texts layer = pair_texts (even_layer layer) \<union> tree_texts ?next"
      using True by (simp add: tree_texts.simps [of layer])
    have "?cur = ?next ! (i div 2)"
    proof (rule "1.IH" [OF True next_index [OF "1.prems"(1)]])
      show "\<forall>x\<in>set ?next. length x = 64" using pair_layer_length64 by blast
      show "length ?cur = 64" by (simp add: proof_step_def)
      show "\<forall>s\<in>set rest. length s = 64" using "1.prems"(4) sibs(1) by simp
      show "length rest = depth ?next" by (rule sibs(2))
      show "climb ?cur (int (i div 2)) rest = merkle_loop ?next"
        using "1.prems"(6) True sibs(1) by (simp add: merkle_loop.simps [of layer] zdiv_int)
      show "inj_on sha256_hex (tree_texts ?next \<union> climb_texts ?cur (int (i div 2)) rest)"
        by (rule inj_on_subset [OF "1.prems"(7)]) (auto simp: texts sibs(1) zdiv_int)
    qed
    then have eq: "proof_step cur (int i) s = proof_step (layer ! i) (int i) (even_layer layer ! partner i)"
      using parent_of [OF "1.prems"(1)] by simp
    have lay: "length (layer ! i) = 64" using "1.prems"(1,2) by simp
    have idx: "2 * (i div 2) + 1 < length (even_layer layer)" by (rule pair_index [OF "1.prems"(1)])
    have mem: "even_layer layer ! (2 * (i div 2)) @ even_layer layer ! (2 * (i div 2) + 1) \<in> pair_texts (even_layer layer)"
      by (rule pair_text_in [OF idx])
    have im: "int i mod 2 = 0 \<longleftrightarrow> even i" by presburger
    let ?t = "if even i then cur @ s else s @ cur"
    let ?u = "if even i then layer ! i @ even_layer layer ! partner i else even_layer layer ! partner i @ layer ! i"
    have "?u \<in> tree_texts layer"
      using mem nth_even_layer [OF "1.prems"(1)] unfolding texts
      by (auto simp: partner_def elim!: evenE oddE)
    moreover have "?t \<in> climb_texts cur (int i) sibs" by (simp add: sibs(1) im)
    moreover have "sha256_hex ?t = sha256_hex ?u" using eq by (simp add: proof_step_def im)
    ultimately have tu: "?t = ?u" using "1.prems"(7) by (auto dest!: inj_onD)
    have sp: "length s = 64" using "1.prems"(4) sibs(1) by simp
    show ?thesis
    proof (cases "even i")
      case True
      with tu "1.prems"(3) lay show ?thesis by simp
    next
      case False
      then have "length (s @ cur) = length (even_layer layer ! partner i @ layer ! i)" using tu by simp
      with False tu sp "1.prems"(3) lay show ?thesis by (simp add: append_eq_append_conv)
    qed
  qed
qed

section \<open>Properties\<close>

text \<open>
  For a list of digests the proof built from the sibling path of a position verifies against
  the root computed by \<open>build_merkle_root\<close>, at every position.
\<close>

theorem merkle_proof_complete:
  assumes "i < length hashes" "\<forall>h\<in>set hashes. h \<noteq> []"
  shows "verify_proof \<lparr>mp_leaf_hash = hashes ! i, mp_siblings = merkle_path hashes i, mp_index = int i\<rparr>
    (build_merkle_root hashes)"
  using assms climb_path [OF assms(1)] merkle_loop_nonempty [of hashes]
  by (auto simp: verify_proof_def build_merkle_root_def)

theorem merkle_proof_complete_witness:
  "verify_proof \<lparr>mp_leaf_hash = ''b'', mp_siblings = merkle_path [''a'', ''b'', ''c''] 1, mp_index = 1\<rparr>
    (build_merkle_root [''a'', ''b'', ''c''])"
  using merkle_proof_complete [of 1 "[''a'', ''b'', ''c'']"] by simp

text \<open>
  C7: a proof of full depth over well-formed digests that verifies at a position of the tree
  proves the digest that stands there, unless two of the texts hashed along the way collide.
\<close>

theorem merkle_proof_sound:
  assumes "verify_proof p (build_merkle_root hashes)"
    and "0 \<le> mp_index p" "nat (mp_index p) < length hashes" "length (mp_siblings p) = depth hashes"
    and "\<forall>h\<in>set (mp_leaf_hash p # mp_siblings p @ hashes). length h = 64"
    and "inj_on sha256_hex (tree_texts hashes \<union> climb_texts (mp_leaf_hash p) (mp_index p) (mp_siblings p))"
  shows "mp_leaf_hash p = hashes ! nat (mp_index p)"
  using assms by (intro climb_sound [of _ _ _ "mp_siblings p"]) (auto simp: verify_proof_def build_merkle_root_def split: if_splits)

theorem merkle_proof_sound_witness:
  "replicate 64 (CHR ''b'') = [replicate 64 (CHR ''a''), replicate 64 (CHR ''b'')] ! 1"
proof -
  define a where "a = replicate 64 (CHR ''a'')"
  define b where "b = replicate 64 (CHR ''b'')"
  have len: "length a = 64" "length b = 64" by (simp_all add: a_def b_def)
  let ?p = "\<lparr>mp_leaf_hash = b, mp_siblings = [a], mp_index = 1\<rparr>"
  have "even_layer [a, b] = [a, b]" by (simp add: even_layer_def)
  then have "merkle_loop [a, b] = sha256_hex (a @ b)" "depth [a, b] = 1" "tree_texts [a, b] = {a @ b}"
    by (simp_all add: merkle_loop.simps [of "[_, _]"] merkle_loop.simps [of "[_]"] depth.simps [of "[_, _]"]
        depth.simps [of "[_]"] tree_texts.simps [of "[_, _]"] tree_texts.simps [of "[_]"])
  then have "b = [a, b] ! 1"
    using merkle_proof_sound [of ?p "[a, b]"] len
    by (simp add: verify_proof_def build_merkle_root_def proof_step_def)
  then show ?thesis unfolding a_def b_def .
qed

text \<open>
  An odd layer of at least three digests has the same root as the layer with its last digest
  repeated: the root does not commit to the number of leaves.
\<close>

theorem merkle_root_duplicate_tail:
  assumes "odd (length hashes)" "length hashes \<ge> 3"
  shows "build_merkle_root (hashes @ [last hashes]) = build_merkle_root hashes"
proof -
  have "even_layer (hashes @ [last hashes]) = even_layer hashes"
    using assms(1) by (simp add: even_layer_def odd_iff_mod_2_eq_one)
  with assms(2) show ?thesis
    by (auto simp: build_merkle_root_def merkle_loop.simps [of hashes] merkle_loop.simps [of "hashes @ [last hashes]"])
qed

theorem merkle_root_duplicate_tail_witness:
  "build_merkle_root [''a'', ''b'', ''c'', ''c''] = build_merkle_root [''a'', ''b'', ''c'']"
  using merkle_root_duplicate_tail [of "[''a'', ''b'', ''c'']"] by simp

end
