(* ===== verification/Datetime.thy ===== *)
theory Datetime
  imports Prelude
begin

text \<open>
  UTC \<open>datetime\<close> values of the standard library as microseconds since 1970-01-01T00:00:00Z:
  \<open>isoformat\<close> and \<open>fromisoformat\<close> on the Gregorian calendar, and the logical clock of
  \<^verbatim>\<open>services/event_log/clock.py\<close>.  Text without an offset denotes a naive \<open>datetime\<close>, which the
  modelled code never produces; it is read as an error here.
\<close>

section \<open>The calendar\<close>

definition days_from_civil :: "int \<Rightarrow> int \<Rightarrow> int \<Rightarrow> int" where
  "days_from_civil y m d =
     (let y' = (if m \<le> 2 then y - 1 else y);
          era = y' div 400;
          yoe = y' - era * 400;
          doy = (153 * (if m > 2 then m - 3 else m + 9) + 2) div 5 + d - 1;
          doe = yoe * 365 + yoe div 4 - yoe div 100 + doy
      in era * 146097 + doe - 719468)"

definition civil_from_days :: "int \<Rightarrow> int \<times> int \<times> int" where
  "civil_from_days z =
     (let z' = z + 719468;
          era = z' div 146097;
          doe = z' - era * 146097;
          yoe = (doe - doe div 1460 + doe div 36524 - doe div 146096) div 365;
          doy = doe - (365 * yoe + yoe div 4 - yoe div 100);
          mp = (5 * doy + 2) div 153;
          d = doy - (153 * mp + 2) div 5 + 1;
          m = (if mp < 10 then mp + 3 else mp - 9)
      in ((yoe + era * 400) + (if m \<le> 2 then 1 else 0), m, d))"

abbreviation day_us :: int where
  "day_us \<equiv> 86400000000"

definition utc :: "int \<Rightarrow> int \<Rightarrow> int \<Rightarrow> int" where
  "utc y m d = days_from_civil y m d * day_us"

definition time_text :: "int \<Rightarrow> string" where
  "time_text us =
     (let s = us div 1000000; f = us mod 1000000
      in zero_pad 2 (s div 3600) @ '':'' @ zero_pad 2 (s div 60 mod 60) @ '':'' @ zero_pad 2 (s mod 60) @
         (if f = 0 then [] else ''.'' @ zero_pad 6 f))"

definition isoformat :: "int \<Rightarrow> string" where
  "isoformat t =
     (case civil_from_days (t div day_us) of (y, m, d) \<Rightarrow>
        zero_pad 4 y @ ''-'' @ zero_pad 2 m @ ''-'' @ zero_pad 2 d @ ''T'' @ time_text (t mod day_us) @
        ''+00:00'')"

text \<open>Reading: fixed-width fields, an optional fraction of three or six digits, and an offset.\<close>

definition take_num :: "nat \<Rightarrow> string \<Rightarrow> (int \<times> string) option" where
  "take_num n s = (if length (take n s) = n \<and> list_all is_ascii_digit (take n s)
                   then Some (digits_val (take n s), drop n s) else None)"

definition take_char :: "char \<Rightarrow> string \<Rightarrow> string option" where
  "take_char c s = (case s of [] \<Rightarrow> None | x # r \<Rightarrow> if x = c then Some r else None)"

definition bindO :: "'a option \<Rightarrow> ('a \<Rightarrow> 'b option) \<Rightarrow> 'b option" where
  "bindO m f = (case m of None \<Rightarrow> None | Some x \<Rightarrow> f x)"

definition take_fraction :: "string \<Rightarrow> (int \<times> string) option" where
  "take_fraction s =
     (case take_char (CHR ''.'') s of
        None \<Rightarrow> Some (0, s)
      | Some r \<Rightarrow> (case take_num 6 r of
            Some x \<Rightarrow> Some x
          | None \<Rightarrow> bindO (take_num 3 r) (\<lambda>(ms, r'). Some (ms * 1000, r'))))"

definition take_offset :: "string \<Rightarrow> int option" where
  "take_offset s =
     (case s of [] \<Rightarrow> None
      | c # r \<Rightarrow>
          if s = ''Z'' then Some 0
          else if c = CHR ''+'' \<or> c = CHR ''-'' then
            bindO (take_num 2 r) (\<lambda>(h, r1). bindO (take_char (CHR '':'') r1) (\<lambda>r2.
            bindO (take_num 2 r2) (\<lambda>(m, r3).
              if r3 = [] \<and> h < 24 \<and> m < 60
              then Some ((if c = CHR ''+'' then 1 else -1) * (h * 60 + m) * 60000000) else None)))
          else None)"

definition month_days :: "int \<Rightarrow> int \<Rightarrow> int" where
  "month_days y m =
     (if m = 2 then (if y mod 4 = 0 \<and> (y mod 100 \<noteq> 0 \<or> y mod 400 = 0) then 29 else 28)
      else if m \<in> {4, 6, 9, 11} then 30 else 31)"

definition fromisoformat :: "string \<Rightarrow> int option" where
  "fromisoformat s =
     bindO (take_num 4 s) (\<lambda>(y, s). bindO (take_char (CHR ''-'') s) (\<lambda>s.
     bindO (take_num 2 s) (\<lambda>(m, s). bindO (take_char (CHR ''-'') s) (\<lambda>s.
     bindO (take_num 2 s) (\<lambda>(d, s). bindO (case s of [] \<Rightarrow> None | c # r \<Rightarrow> Some r) (\<lambda>s.
     bindO (take_num 2 s) (\<lambda>(hh, s). bindO (take_char (CHR '':'') s) (\<lambda>s.
     bindO (take_num 2 s) (\<lambda>(mm, s). bindO (take_char (CHR '':'') s) (\<lambda>s.
     bindO (take_num 2 s) (\<lambda>(ss, s). bindO (take_fraction s) (\<lambda>(us, s).
     bindO (take_offset s) (\<lambda>off.
       if 1 \<le> y \<and> 1 \<le> m \<and> m \<le> 12 \<and> 1 \<le> d \<and> d \<le> month_days y m \<and> hh < 24 \<and> mm < 60 \<and> ss < 60
       then Some (utc y m d + ((hh * 60 + mm) * 60 + ss) * 1000000 + us - off) else None)))))))))))))"

section \<open>The logical clock\<close>

record logical_clock =
  lc_tick :: int

definition clock_epoch :: int where
  "clock_epoch = utc 2026 1 1"

definition new_clock :: logical_clock where
  "new_clock = \<lparr>lc_tick = 0\<rparr>"

definition next_datetime :: "logical_clock \<Rightarrow> int \<times> logical_clock" where
  "next_datetime c = (clock_epoch + (lc_tick c + 1), c\<lparr>lc_tick := lc_tick c + 1\<rparr>)"

section \<open>Order of the texts\<close>

lemma clock_epoch_eq: "clock_epoch = 20454 * day_us"
  by (simp add: clock_epoch_def utc_def days_from_civil_def Let_def)

lemma civil_2026: "civil_from_days 20454 = (2026, 1, 1)"
  by code_simp

text \<open>The lexicographic order on equal-length blocks.\<close>

lemma string_less_same_prefix: "(p @ a < p @ b) \<longleftrightarrow> (a < (b::string))"
  by (induction p) auto

lemma string_less_block: "length a = length b \<Longrightarrow> a < b \<Longrightarrow> a @ x < b @ (y::string)"
  by (induction a b rule: list_induct2) auto

lemma digit_char_code: "0 \<le> d \<Longrightarrow> d < 10 \<Longrightarrow> code (digit_char d) = nat (48 + d)"
  by (auto elim!: digit_cases simp: digit_char_def)

lemma digit_char_less: "0 \<le> a \<Longrightarrow> a < b \<Longrightarrow> b < 10 \<Longrightarrow> digit_char a < digit_char b"
  by (simp add: less_char_def digit_char_code)

lemma zero_pad_Suc:
  assumes "0 \<le> n" "0 < w" "n < 10 ^ Suc w"
  shows "zero_pad (Suc w) n = zero_pad w (n div 10) @ [digit_char (n mod 10)]"
proof (cases "n < 10")
  case True
  have "show_digits 0 = ''0''" by (subst show_digits.simps) (simp add: digit_char_def)
  moreover have "replicate (w - 1) c @ [c] = replicate w c" for c :: char
    using assms(2) by (metis One_nat_def Suc_pred replicate_Suc replicate_append_same)
  ultimately have "zero_pad w 0 = replicate w (CHR ''0'')" by (simp add: zero_pad_def)
  moreover have "show_digits n = [digit_char n]" using True by (subst show_digits.simps) simp
  ultimately show ?thesis using True assms(1) by (simp add: zero_pad_def)
next
  case False
  then have "show_digits n = show_digits (n div 10) @ [digit_char (n mod 10)]"
    by (subst show_digits.simps) simp
  then show ?thesis by (simp add: zero_pad_def Let_def)
qed

lemma zero_pad_1: "0 \<le> n \<Longrightarrow> n < 10 \<Longrightarrow> zero_pad 1 n = [digit_char n]"
  by (subst zero_pad_def, subst show_digits.simps) simp

lemma div_mod_less_cases:
  fixes a b k :: int
  assumes "a < b" "0 < k"
  shows "a div k < b div k \<or> a div k = b div k \<and> a mod k < b mod k"
proof -
  have "a div k \<le> b div k" using assms by (simp add: zdiv_mono1)
  moreover have "a mod k < b mod k" if "a div k = b div k"
  proof -
    from that have "a div k * k = b div k * k" by simp
    with assms(1) div_mult_mod_eq [of a k] div_mult_mod_eq [of b k] show ?thesis by linarith
  qed
  ultimately show ?thesis by linarith
qed

lemma zero_pad_less:
  "0 < w \<Longrightarrow> 0 \<le> a \<Longrightarrow> a < b \<Longrightarrow> b < 10 ^ w \<Longrightarrow> zero_pad w a < zero_pad w b"
proof (induction w arbitrary: a b)
  case 0
  then show ?case by simp
next
  case (Suc w)
  show ?case
  proof (cases "w = 0")
    case True
    with Suc.prems show ?thesis
      using zero_pad_1 [of a] zero_pad_1 [of b] by (simp add: digit_char_less)
  next
    case False
    have pads: "zero_pad (Suc w) a = zero_pad w (a div 10) @ [digit_char (a mod 10)]"
      "zero_pad (Suc w) b = zero_pad w (b div 10) @ [digit_char (b mod 10)]"
      using Suc.prems False by (intro zero_pad_Suc; simp)+
    have w: "length (zero_pad w (a div 10)) = w" "length (zero_pad w (b div 10)) = w"
      using Suc.prems False by (intro zero_pad_length; simp)+
    show ?thesis
    proof (cases "a div 10 = b div 10")
      case True
      then have "a mod 10 < b mod 10" using div_mod_less_cases [OF Suc.prems(3), of 10] by simp
      then show ?thesis unfolding pads True by (simp add: string_less_same_prefix digit_char_less)
    next
      case ne: False
      then have "a div 10 < b div 10" using div_mod_less_cases [OF Suc.prems(3), of 10] by simp
      then have "zero_pad w (a div 10) < zero_pad w (b div 10)"
        using Suc.IH False Suc.prems by simp
      then show ?thesis unfolding pads using w by (intro string_less_block) auto
    qed
  qed
qed

lemma zero_pad_field_less:
  "0 < w \<Longrightarrow> 0 \<le> a \<Longrightarrow> a < b \<Longrightarrow> b < 10 ^ w \<Longrightarrow> zero_pad w a @ x < zero_pad w b @ y"
  by (rule string_less_block [OF _ zero_pad_less]) (auto simp: zero_pad_length)

definition hms :: "int \<Rightarrow> string" where
  "hms s = zero_pad 2 (s div 3600) @ '':'' @ zero_pad 2 (s div 60 mod 60) @ '':'' @ zero_pad 2 (s mod 60)"

lemma length_hms: "0 \<le> s \<Longrightarrow> s < 86400 \<Longrightarrow> length (hms s) = 8"
  by (simp add: hms_def zero_pad_length)

lemma hms_less:
  assumes "0 \<le> a" "a < b" "b < 86400"
  shows "hms a < hms b"
proof -
  have d: "x div 3600 = x div 60 div 60" for x :: int
    using zdiv_zmult2_eq [of 60 x 60] by simp
  consider (h) "a div 3600 < b div 3600" | (m) "a div 3600 = b div 3600" "a div 60 mod 60 < b div 60 mod 60"
    | (s) "a div 3600 = b div 3600" "a div 60 mod 60 = b div 60 mod 60" "a mod 60 < b mod 60"
    unfolding d
    using div_mod_less_cases [OF assms(2), of 60] div_mod_less_cases [of "a div 60" "b div 60" 60]
    by (metis zero_less_numeral)
  then show ?thesis
  proof cases
    case h
    with assms show ?thesis unfolding hms_def by (intro zero_pad_field_less) auto
  next
    case m
    then show ?thesis unfolding hms_def m(1)
      by (simp only: string_less_same_prefix) (intro zero_pad_field_less; simp)
  next
    case s
    then show ?thesis unfolding hms_def s(1,2)
      by (simp only: string_less_same_prefix) (intro zero_pad_less; simp)
  qed
qed

text \<open>
  Within one day the text order of \<open>isoformat\<close> is the order of time: the fraction is left out at
  zero microseconds, and the sign of the offset comes before the point.
\<close>

lemma time_text_less:
  assumes "0 \<le> a" "a < b" "b < day_us"
  shows "time_text a @ ''+00:00'' < time_text b @ ''+00:00''"
proof -
  have t: "time_text u = hms (u div 1000000) @ (if u mod 1000000 = 0 then [] else ''.'' @ zero_pad 6 (u mod 1000000))" for u
    by (simp add: time_text_def hms_def Let_def)
  have r: "0 \<le> a div 1000000" "b div 1000000 < 86400" using assms by auto
  consider "a div 1000000 < b div 1000000"
    | "a div 1000000 = b div 1000000" "a mod 1000000 < b mod 1000000"
    using div_mod_less_cases [OF assms(2), of 1000000] by auto
  then show ?thesis
  proof cases
    case 1
    with r show ?thesis unfolding t append_assoc
      by (intro string_less_block) (auto intro: hms_less simp: length_hms)
  next
    case 2
    have nz: "b mod 1000000 \<noteq> 0" using 2(2) by simp
    show ?thesis
    proof (cases "a mod 1000000 = 0")
      case True
      have "CHR ''+'' < CHR ''.''" by (simp add: less_char_def)
      with True nz show ?thesis unfolding t 2(1) append_assoc by (simp add: string_less_same_prefix)
    next
      case False
      have "zero_pad 6 (a mod 1000000) @ ''+00:00'' < zero_pad 6 (b mod 1000000) @ ''+00:00''"
        by (rule zero_pad_field_less) (use 2(2) in simp_all)
      with False nz show ?thesis unfolding t 2(1) append_assoc by (simp add: string_less_same_prefix)
    qed
  qed
qed

lemma isoformat_tick:
  assumes "0 \<le> t" "t < day_us"
  shows "isoformat (clock_epoch + t) = ''2026-01-01T'' @ time_text t @ ''+00:00''"
proof -
  have "(clock_epoch + t) div day_us = 20454" "(clock_epoch + t) mod day_us = t"
    using assms by (simp_all only: clock_epoch_eq div_mult_self3 mod_mult_self3)
      (simp_all add: div_pos_pos_trivial mod_pos_pos_trivial)
  moreover have "zero_pad 4 2026 = ''2026''" "zero_pad 2 1 = ''01''"
    by (simp_all add: zero_pad_def show_digits.simps digit_char_def)
  ultimately show ?thesis by (simp add: isoformat_def civil_2026)
qed

lemma isoformat_tick_less:
  assumes "0 \<le> a" "a < b" "b < day_us"
  shows "isoformat (clock_epoch + a) < isoformat (clock_epoch + b)"
  using assms time_text_less [OF assms]
  by (simp add: isoformat_tick string_less_same_prefix del: append_Cons append_Nil)

end
