(* ===== verification/Event_Store.thy ===== *)
theory Event_Store
  imports Sha256 Datetime
begin

text \<open>
  \<^verbatim>\<open>storage/event_store\<close>: the two append-only event stores, whose rows are chained by SHA-256, and
  \<^verbatim>\<open>storage/indexing\<close> and \<^verbatim>\<open>storage/checkpoint_store\<close>.  The interface the services use is the
  locale \<open>chained_store\<close>; both stores are interpretations of it.  The file of the JSON-lines store
  is the list of its non-empty lines, each as the value \<open>json.loads\<close> reads back: a written row is
  read back with its keys sorted.  Locks serialise the operations and are not modelled.
\<close>

section \<open>Rows\<close>

type_synonym row = "json dict"

definition event_dict :: "json \<Rightarrow> row result" where
  "event_dict event = (case event of JObj kvs \<Rightarrow> Return kvs
     | _ \<Rightarrow> Raise (TypeError ''unsupported event type''))"

definition hash_row :: "row \<Rightarrow> string" where
  "hash_row payload = sha256_hex (dumps compact (JObj payload))"

definition genesis :: string where
  "genesis = ''GENESIS''"

text \<open>The row written for an event after the row whose hash is \<open>prev\<close>.\<close>

definition chain_row :: "string \<Rightarrow> row \<Rightarrow> row" where
  "chain_row prev event =
     (let r = dset ''prev_hash'' (JStr prev) event
      in dset ''hash'' (JStr (hash_row (dpop ''hash'' r))) r)"

definition row_text :: "row \<Rightarrow> string \<Rightarrow> string" where
  "row_text r k = (case dget r k of None \<Rightarrow> [] | Some v \<Rightarrow> jstr v)"

text \<open>The loop both \<open>verify_chain\<close> methods run over the rows.\<close>

fun verify_rows :: "string \<Rightarrow> row list \<Rightarrow> bool" where
  "verify_rows prev [] = True"
| "verify_rows prev (r # rs) =
     (if row_text r ''prev_hash'' \<noteq> prev then False
      else (let expected = hash_row (dpop ''hash'' r) in
            if row_text r ''hash'' \<noteq> expected then False else verify_rows expected rs))"

text \<open>The filters of \<open>query\<close>: a row passes when none of the given conditions rejects it.\<close>

definition row_matches :: "string option \<Rightarrow> string option \<Rightarrow> int option \<Rightarrow> row \<Rightarrow> bool" where
  "row_matches uri actor since r =
     (if (case uri of Some u \<Rightarrow> row_text r ''object_uri'' \<noteq> u | None \<Rightarrow> False) then False
      else if (case actor of Some a \<Rightarrow> row_text r ''actor'' \<noteq> a | None \<Rightarrow> False) then False
      else (case since of None \<Rightarrow> True
            | Some t \<Rightarrow> (case fromisoformat (row_text r ''timestamp'') of
                 None \<Rightarrow> False | Some ts \<Rightarrow> \<not> ts < t)))"

section \<open>The store in memory\<close>

record memory_store =
  ms_rows :: "row list"
  ms_last_hash :: string

definition new_memory_store :: memory_store where
  "new_memory_store = \<lparr>ms_rows = [], ms_last_hash = genesis\<rparr>"

definition ms_append :: "json \<Rightarrow> memory_store \<Rightarrow> memory_store result" where
  "ms_append event st =
     bindR (event_dict event) (\<lambda>e.
       let r = chain_row (ms_last_hash st) e in
       Return (st\<lparr>ms_rows := ms_rows st @ [r], ms_last_hash := row_text r ''hash''\<rparr>))"

definition ms_query :: "string option \<Rightarrow> string option \<Rightarrow> int option \<Rightarrow> memory_store \<Rightarrow> row list" where
  "ms_query uri actor since st = filter (row_matches uri actor since) (ms_rows st)"

definition ms_all :: "memory_store \<Rightarrow> row list" where
  "ms_all st = ms_query None None None st"

definition ms_verify_chain :: "memory_store \<Rightarrow> bool" where
  "ms_verify_chain st = verify_rows genesis (ms_rows st)"

section \<open>The JSON-lines store\<close>

record jsonl_store =
  jl_lines :: "json list"
  jl_last_hash :: string

definition tail_hash_unlocked :: "json list \<Rightarrow> string" where
  "tail_hash_unlocked lines =
     (if lines = [] then genesis
      else (case last lines of
          JObj r \<Rightarrow>
            (case dget r ''hash'' of
               Some (JStr (c # cs)) \<Rightarrow> c # cs
             | _ \<Rightarrow>
                 (let payload = dpop ''hash'' r;
                      payload = (if has_key payload ''prev_hash'' then payload
                                 else dset ''prev_hash'' (JStr genesis) payload)
                  in hash_row payload))
        | _ \<Rightarrow> genesis))"

definition open_jsonl :: "json list \<Rightarrow> jsonl_store" where
  "open_jsonl lines = \<lparr>jl_lines = lines, jl_last_hash = tail_hash_unlocked lines\<rparr>"

definition jl_append :: "json \<Rightarrow> jsonl_store \<Rightarrow> jsonl_store result" where
  "jl_append event st =
     bindR (event_dict event) (\<lambda>e.
       let r = chain_row (tail_hash_unlocked (jl_lines st)) e in
       Return (st\<lparr>jl_lines := jl_lines st @ [sort_json (JObj r)], jl_last_hash := row_text r ''hash''\<rparr>))"

text \<open>A line that is not an object has no \<open>get\<close>: the filters and the chain check raise on it.\<close>

definition line_row :: "json \<Rightarrow> row result" where
  "line_row line = (case line of JObj r \<Rightarrow> Return r
     | _ \<Rightarrow> Raise (TypeError ''object has no attribute get''))"

definition jl_query ::
  "string option \<Rightarrow> string option \<Rightarrow> int option \<Rightarrow> jsonl_store \<Rightarrow> row list result" where
  "jl_query uri actor since st =
     foldR (\<lambda>out line. bindR (line_row line) (\<lambda>r.
        Return (if row_matches uri actor since r then out @ [r] else out))) [] (jl_lines st)"

definition jl_all :: "jsonl_store \<Rightarrow> row list result" where
  "jl_all st = jl_query None None None st"

definition jl_verify_chain :: "jsonl_store \<Rightarrow> bool result" where
  "jl_verify_chain st = bindR (jl_all st) (\<lambda>rows. Return (verify_rows genesis rows))"

section \<open>Event index\<close>

record event_index =
  ix_by_actor :: "string list dict"
  ix_by_uri :: "string list dict"
  ix_by_policy :: "string list dict"
  ix_ts_by_id :: "int dict"

definition new_index :: event_index where
  "new_index = \<lparr>ix_by_actor = [], ix_by_uri = [], ix_by_policy = [], ix_ts_by_id = []\<rparr>"

text \<open>\<open>d[k].add(x)\<close> on sets (kept as lists without duplicates) and \<open>d[k].append(x)\<close> on lists.\<close>

definition bucket_add :: "string \<Rightarrow> string \<Rightarrow> string list dict \<Rightarrow> string list dict" where
  "bucket_add k x d = dset k (let b = dget_or d k [] in if x \<in> set b then b else b @ [x]) d"

definition bucket_append :: "string \<Rightarrow> string \<Rightarrow> string list dict \<Rightarrow> string list dict" where
  "bucket_append k x d = dset k (dget_or d k [] @ [x]) d"

definition ix_add :: "json \<Rightarrow> event_index \<Rightarrow> event_index result" where
  "ix_add event ix =
     bindR (event_dict event) (\<lambda>r.
       case dget r ''event_id'' of None \<Rightarrow> Raise (KeyError ''event_id'')
       | Some v \<Rightarrow>
           (let event_id = jstr v;
                actor = row_text r ''actor'';
                uri = row_text r ''object_uri'';
                policy = row_text r ''policy_version'';
                ts = row_text r ''timestamp''
            in Return
              \<lparr>ix_by_actor = (if actor \<noteq> [] then bucket_add actor event_id (ix_by_actor ix) else ix_by_actor ix),
               ix_by_uri = (if uri \<noteq> [] then bucket_append uri event_id (ix_by_uri ix) else ix_by_uri ix),
               ix_by_policy = (if policy \<noteq> [] then bucket_add policy event_id (ix_by_policy ix) else ix_by_policy ix),
               ix_ts_by_id = (if ts \<noteq> [] then (case fromisoformat ts of None \<Rightarrow> ix_ts_by_id ix
                     | Some t \<Rightarrow> dset event_id t (ix_ts_by_id ix)) else ix_ts_by_id ix)\<rparr>))"

definition by_actor :: "event_index \<Rightarrow> string \<Rightarrow> string list" where
  "by_actor ix a = dget_or (ix_by_actor ix) a []"

definition by_uri :: "event_index \<Rightarrow> string \<Rightarrow> string list" where
  "by_uri ix u = dget_or (ix_by_uri ix) u []"

definition by_policy :: "event_index \<Rightarrow> string \<Rightarrow> string list" where
  "by_policy ix p = dget_or (ix_by_policy ix) p []"

definition ix_since :: "event_index \<Rightarrow> int \<Rightarrow> string list" where
  "ix_since ix t = map fst (filter (\<lambda>(i, ts). ts \<ge> t) (ix_ts_by_id ix))"

section \<open>Checkpoints\<close>

record checkpoint =
  ck_uri :: string
  ck_event_count :: int
  ck_hash_chain :: string
  ck_created_at :: string

type_synonym checkpoint_store = "checkpoint list dict"

text \<open>\<open>now\<close> is the text of the wall clock.\<close>

definition checkpoint_row :: "string \<Rightarrow> string \<Rightarrow> int \<Rightarrow> string \<Rightarrow> checkpoint" where
  "checkpoint_row now uri event_count hash_chain =
     \<lparr>ck_uri = uri, ck_event_count = event_count, ck_hash_chain = hash_chain, ck_created_at = now\<rparr>"

definition ck_put ::
  "string \<Rightarrow> string \<Rightarrow> int \<Rightarrow> string \<Rightarrow> checkpoint_store \<Rightarrow> checkpoint \<times> checkpoint_store" where
  "ck_put now uri event_count hash_chain rows =
     (let r = checkpoint_row now uri event_count hash_chain
      in (r, dset uri (dget_or rows uri [] @ [r]) rows))"

definition ck_latest :: "checkpoint_store \<Rightarrow> string \<Rightarrow> checkpoint option" where
  "ck_latest rows uri = (let rs = dget_or rows uri [] in if rs \<noteq> [] then Some (last rs) else None)"

definition ck_list :: "checkpoint_store \<Rightarrow> string \<Rightarrow> checkpoint list" where
  "ck_list rows uri = dget_or rows uri []"

section \<open>Chained rows\<close>

definition last_hash :: "string \<Rightarrow> row list \<Rightarrow> string" where
  "last_hash prev rs = (if rs = [] then prev else hash_row (dpop ''hash'' (last rs)))"

lemma last_hash_simps [simp]:
  "last_hash prev [] = prev" "last_hash prev (rs @ [r]) = hash_row (dpop ''hash'' r)"
  "last_hash prev (r # rs) = last_hash (hash_row (dpop ''hash'' r)) rs"
  by (simp_all add: last_hash_def)

lemma verify_rows_append:
  "verify_rows prev (rs @ ts) \<longleftrightarrow> verify_rows prev rs \<and> verify_rows (last_hash prev rs) ts"
  by (induction rs arbitrary: prev) (auto simp: Let_def)

lemma hash_row_nonempty [simp]: "hash_row r \<noteq> []" and length_hash_row [simp]: "length (hash_row r) = 64"
  by (simp_all add: hash_row_def)

lemma dpop_dset_same: "dpop k (dset k v d) = dpop k d"
  by (induction d) (auto simp: AList.delete_eq)

lemma chain_row_get:
  "dget (chain_row prev e) ''prev_hash'' = Some (JStr prev)"
  "dget (chain_row prev e) ''hash'' = Some (JStr (hash_row (dpop ''hash'' (chain_row prev e))))"
  "k \<noteq> ''prev_hash'' \<Longrightarrow> k \<noteq> ''hash'' \<Longrightarrow> dget (chain_row prev e) k = dget e k"
  by (simp_all add: chain_row_def Let_def dpop_dset_same)

lemma chain_row_text:
  "row_text (chain_row prev e) ''prev_hash'' = prev"
  "row_text (chain_row prev e) ''hash'' = hash_row (dpop ''hash'' (chain_row prev e))"
  by (simp_all add: row_text_def jstr_def chain_row_get)

lemma verify_chain_row: "verify_rows prev [chain_row prev e]"
  by (simp add: chain_row_text Let_def)

text \<open>The hash of a row does not depend on the order of its keys.\<close>

definition sorted_row :: "row \<Rightarrow> row" where
  "sorted_row r = sort_key fst (map (map_prod id sort_json) r)"

lemma sort_json_row: "sort_json (JObj r) = JObj (sorted_row r)"
  by (simp add: sorted_row_def)

lemma dpop_filter: "dpop k d = filter (\<lambda>kv. fst kv \<noteq> k) d"
  by (auto simp: AList.delete_eq intro!: filter_cong)

lemma dpop_sorted_row: "dpop k (sorted_row r) = sorted_row (dpop k r)"
  by (simp add: sorted_row_def dpop_filter filter_sort filter_map comp_def)

lemma hash_row_sorted: "hash_row (sorted_row r) = hash_row r"
proof -
  have "sort_json (JObj (sorted_row r)) = sort_json (JObj r)"
    using sort_json_idem [of "JObj r"] by (simp only: sort_json_row)
  then show ?thesis by (simp add: hash_row_def dumps_def)
qed

lemma dget_sorted_row: "distinct (dkeys r) \<Longrightarrow> dget (sorted_row r) k = map_option sort_json (dget r k)"
proof -
  assume d: "distinct (dkeys r)"
  have "map_of (map (map_prod id sort_json) r) k = map_option sort_json (map_of r k)"
    by (induction r) auto
  with d map_of_sort_key [of "map (map_prod id sort_json) r" k] show ?thesis by (simp add: sorted_row_def)
qed

section \<open>The interface of a chained store\<close>

text \<open>
  What a written row promises about its event: the link to the row before, its own hash, and the
  event's values, up to the order of keys inside them.
\<close>

definition linked :: "string \<Rightarrow> row \<Rightarrow> row \<Rightarrow> bool" where
  "linked prev e r \<longleftrightarrow>
     dget r ''prev_hash'' = Some (JStr prev) \<and> dget r ''hash'' = Some (JStr (hash_row (dpop ''hash'' r))) \<and>
     (\<forall>k. k \<notin> {''prev_hash'', ''hash''} \<longrightarrow> map_option sort_json (dget r k) = map_option sort_json (dget e k))"

lemma linked_chain_row: "linked prev e (chain_row prev e)"
  by (simp add: linked_def chain_row_get)

lemma distinct_chain_row: "distinct (dkeys e) \<Longrightarrow> distinct (dkeys (chain_row prev e))"
  by (simp add: chain_row_def Let_def distinct_update)

lemma linked_sorted_row:
  assumes "distinct (dkeys e)"
  shows "linked prev e (sorted_row (chain_row prev e))"
  unfolding linked_def
  by (simp add: dget_sorted_row [OF distinct_chain_row [OF assms]] chain_row_get dpop_sorted_row
      hash_row_sorted option.map_comp comp_def sort_json_idem)

lemma linked_verify: "linked prev e r \<Longrightarrow> verify_rows prev [r]"
  by (simp add: linked_def row_text_def jstr_def Let_def)

locale chained_store =
  fixes rows :: "'s \<Rightarrow> row list" and put :: "json \<Rightarrow> 's \<Rightarrow> 's result" and fresh :: 's
    and ok :: "'s \<Rightarrow> bool"
  assumes fresh_ok: "ok fresh" and rows_fresh: "rows fresh = []"
    and put_linked: "ok s \<Longrightarrow> distinct (dkeys e) \<Longrightarrow> \<exists>s' r. put (JObj e) s = Inr s' \<and> ok s' \<and>
      rows s' = rows s @ [r] \<and> linked (last_hash genesis (rows s)) e r"
begin

text \<open>The chain the store has after a sequence of events, from any valid store.\<close>

lemma put_all_from:
  assumes "ok s" "verify_rows genesis (rows s)" "\<forall>e\<in>set es. distinct (dkeys e)"
  shows "\<exists>s' rs. foldR (\<lambda>s e. put (JObj e) s) s es = Inr s' \<and> ok s' \<and> rows s' = rows s @ rs \<and>
    verify_rows genesis (rows s') \<and> length rs = length es \<and>
    (\<forall>i<length es. \<exists>prev. linked prev (es ! i) (rs ! i))"
  using assms
proof (induction es arbitrary: s)
  case Nil
  then show ?case by simp
next
  case (Cons e es)
  then obtain s1 r where s1: "put (JObj e) s = Inr s1" "ok s1" "rows s1 = rows s @ [r]"
    and l: "linked (last_hash genesis (rows s)) e r"
    using put_linked [of s e] by auto
  have "verify_rows genesis (rows s1)"
    using Cons.prems(2) linked_verify [OF l] by (simp add: s1(3) verify_rows_append del: verify_rows.simps)
  with Cons.IH [OF s1(2)] Cons.prems(3) obtain s' rs where s':
    "foldR (\<lambda>s e. put (JObj e) s) s1 es = Inr s'" "ok s'" "rows s' = rows s1 @ rs"
    "verify_rows genesis (rows s')" "length rs = length es" "\<forall>i<length es. \<exists>prev. linked prev (es ! i) (rs ! i)"
    by auto
  have "\<exists>prev. linked prev ((e # es) ! i) ((r # rs) ! i)" if "i < length (e # es)" for i
    using that s'(6) l by (cases i) auto
  with s' s1 show ?case
    by (intro exI [of _ s'] exI [of _ "r # rs"]) auto
qed

lemma put_all:
  assumes "\<forall>e\<in>set es. distinct (dkeys e)"
  shows "\<exists>s. foldR (\<lambda>s e. put (JObj e) s) fresh es = Inr s \<and> verify_rows genesis (rows s) \<and>
    length (rows s) = length es \<and> (\<forall>i<length es. \<exists>prev. linked prev (es ! i) (rows s ! i))"
  using put_all_from [OF fresh_ok _ assms] by (auto simp: rows_fresh)

end

text \<open>The store in memory keeps the hash of its last row.\<close>

definition ms_ok :: "memory_store \<Rightarrow> bool" where
  "ms_ok st = (ms_last_hash st = last_hash genesis (ms_rows st))"

interpretation memory: chained_store ms_rows ms_append new_memory_store ms_ok
proof
  show "ms_ok new_memory_store" "ms_rows new_memory_store = []"
    by (simp_all add: ms_ok_def new_memory_store_def)
  fix s and e :: row
  assume "ms_ok s" "distinct (dkeys e)"
  then show "\<exists>s' r. ms_append (JObj e) s = Inr s' \<and> ms_ok s' \<and> ms_rows s' = ms_rows s @ [r] \<and>
      linked (last_hash genesis (ms_rows s)) e r"
    using linked_chain_row
    by (auto simp: ms_append_def event_dict_def ms_ok_def Let_def chain_row_text)
qed

text \<open>The JSON-lines store reads the hash back from its last line.\<close>

definition jl_rows :: "jsonl_store \<Rightarrow> row list" where
  "jl_rows st = concat (map (\<lambda>v. case v of JObj r \<Rightarrow> [r] | _ \<Rightarrow> []) (jl_lines st))"

definition jl_ok :: "jsonl_store \<Rightarrow> bool" where
  "jl_ok st = (list_all (\<lambda>v. \<exists>r. v = JObj r) (jl_lines st) \<and>
     tail_hash_unlocked (jl_lines st) = last_hash genesis (jl_rows st))"

lemma tail_hash_snoc:
  assumes "dget r ''hash'' = Some (JStr h)" "h \<noteq> []"
  shows "tail_hash_unlocked (ls @ [JObj r]) = h"
  using assms by (cases h) (auto simp: tail_hash_unlocked_def)

interpretation jsonl: chained_store jl_rows jl_append "open_jsonl []" jl_ok
proof
  show "jl_ok (open_jsonl [])" "jl_rows (open_jsonl []) = []"
    by (simp_all add: jl_ok_def jl_rows_def open_jsonl_def tail_hash_unlocked_def)
  fix s and e :: row
  assume ok: "jl_ok s" and d: "distinct (dkeys e)"
  define r where "r = sorted_row (chain_row (tail_hash_unlocked (jl_lines s)) e)"
  have l: "linked (last_hash genesis (jl_rows s)) e r"
    using linked_sorted_row [OF d] ok by (simp add: r_def jl_ok_def)
  have tail: "tail_hash_unlocked (jl_lines s @ [JObj r]) = hash_row (dpop ''hash'' r)"
    using l by (intro tail_hash_snoc) (auto simp: linked_def)
  let ?s' = "s\<lparr>jl_lines := jl_lines s @ [JObj r],
      jl_last_hash := row_text (chain_row (tail_hash_unlocked (jl_lines s)) e) ''hash''\<rparr>"
  have rows: "jl_rows ?s' = jl_rows s @ [r]" by (simp add: jl_rows_def)
  have "jl_append (JObj e) s = Inr ?s'"
    by (simp add: jl_append_def event_dict_def Let_def r_def sort_json_row del: sort_json.simps)
  moreover have "jl_ok ?s'" using ok tail rows by (simp add: jl_ok_def)
  ultimately show "\<exists>s' r. jl_append (JObj e) s = Inr s' \<and> jl_ok s' \<and> jl_rows s' = jl_rows s @ [r] \<and>
      linked (last_hash genesis (jl_rows s)) e r"
    using rows l by blast
qed

lemma jl_query_rows:
  assumes "list_all (\<lambda>v. \<exists>r. v = JObj r) (jl_lines st)"
  shows "jl_query uri actor since st = Return (filter (row_matches uri actor since) (jl_rows st))"
proof -
  have "foldR (\<lambda>out line. bindR (line_row line) (\<lambda>r.
        Return (if row_matches uri actor since r then out @ [r] else out))) out ls =
      Return (out @ filter (row_matches uri actor since) (concat (map (\<lambda>v. case v of JObj r \<Rightarrow> [r] | _ \<Rightarrow> []) ls)))"
    if "list_all (\<lambda>v. \<exists>r. v = JObj r) ls" for ls out
    using that by (induction ls arbitrary: out) (auto simp: line_row_def)
  from this [OF assms] show ?thesis by (simp add: jl_query_def jl_rows_def)
qed

lemma row_matches_all [simp]: "row_matches None None None r"
  by (simp add: row_matches_def)

text \<open>The texts a chain hashes.\<close>

definition chain_texts :: "row list \<Rightarrow> string set" where
  "chain_texts rs = (\<lambda>r. dumps compact (JObj (dpop ''hash'' r))) ` set rs"

definition row_content :: "row \<Rightarrow> json" where
  "row_content r = sort_json (JObj (dpop ''hash'' r))"

lemma row_content_eq:
  assumes "hash_row (dpop ''hash'' r) = hash_row (dpop ''hash'' q)" "wf_json (JObj r)" "wf_json (JObj q)"
    and "inj_on sha256_hex (chain_texts (rs @ [r]) \<union> chain_texts (qs @ [q]))"
  shows "row_content r = row_content q"
proof -
  have "wf_json (JObj (dpop ''hash'' x))" if "wf_json (JObj x)" for x
    using that by (auto simp: dpop_filter list_all_iff distinct_map_filter)
  moreover have "dumps compact (JObj (dpop ''hash'' r)) = dumps compact (JObj (dpop ''hash'' q))"
    by (rule inj_onD [OF assms(4) assms(1) [unfolded hash_row_def]]) (auto simp: chain_texts_def)
  ultimately show ?thesis unfolding row_content_def using assms(2,3) by (intro dumps_inj) auto
qed

lemma row_content_prev:
  assumes "row_content r = row_content q" "distinct (dkeys r)" "distinct (dkeys q)"
    and "dget r ''prev_hash'' = Some (JStr a)" "dget q ''prev_hash'' = Some (JStr b)"
  shows "a = b"
proof -
  have d: "distinct (dkeys (dpop ''hash'' x))" if "distinct (dkeys x)" for x :: row
    using that by (simp add: distinct_delete)
  have "sorted_row (dpop ''hash'' r) = sorted_row (dpop ''hash'' q)"
    using assms(1) by (simp add: row_content_def sorted_row_def)
  then have "map_option sort_json (dget (dpop ''hash'' r) ''prev_hash'') =
      map_option sort_json (dget (dpop ''hash'' q) ''prev_hash'')"
    using dget_sorted_row [OF d [OF assms(2)], of "''prev_hash''"]
      dget_sorted_row [OF d [OF assms(3)], of "''prev_hash''"] by simp
  then show ?thesis using assms(4,5) by simp
qed

text \<open>A row as every store writes it: the two links are strings.\<close>

definition link_typed :: "row \<Rightarrow> bool" where
  "link_typed r = (wf_json (JObj r) \<and> (\<exists>p h. dget r ''prev_hash'' = Some (JStr p) \<and> dget r ''hash'' = Some (JStr h)))"

lemma genesis_short: "hash_row r \<noteq> genesis"
  using length_hash_row [of r] by (auto simp: genesis_def simp del: length_hash_row)

lemma chain_commits:
  assumes "verify_rows genesis rs" "verify_rows genesis qs" "last_hash genesis rs = last_hash genesis qs"
    and "\<forall>r\<in>set (rs @ qs). link_typed r" and "inj_on sha256_hex (chain_texts rs \<union> chain_texts qs)"
  shows "map row_content rs = map row_content qs"
  using assms
proof (induction rs arbitrary: qs rule: rev_induct)
  case Nil
  then show ?case using genesis_short by (cases qs rule: rev_cases) (auto, metis)
next
  case (snoc r rs)
  show ?case
  proof (cases qs rule: rev_cases)
    case Nil
    with snoc.prems(3) genesis_short show ?thesis by (metis last_hash_simps(1,2))
  next
    case (snoc qs' q)
    note q = this
    have typed: "link_typed r" "link_typed q" "\<forall>r\<in>set (rs @ qs'). link_typed r"
      using snoc.prems(4) q by auto
    have v: "verify_rows genesis rs" "row_text r ''prev_hash'' = last_hash genesis rs"
      "verify_rows genesis qs'" "row_text q ''prev_hash'' = last_hash genesis qs'"
      using snoc.prems(1,2) q by (auto simp: verify_rows_append Let_def split: if_splits)
    have rq: "row_content r = row_content q"
      using snoc.prems(3,5) typed q
      by (intro row_content_eq [of r q rs qs']) (auto simp: link_typed_def)
    obtain a b where ab: "dget r ''prev_hash'' = Some (JStr a)" "dget q ''prev_hash'' = Some (JStr b)"
      using typed by (auto simp: link_typed_def)
    have "a = b" using row_content_prev [OF rq _ _ ab] typed by (auto simp: link_typed_def)
    then have "last_hash genesis rs = last_hash genesis qs'"
      using v(2,4) ab by (simp add: row_text_def jstr_def)
    moreover have "inj_on sha256_hex (chain_texts rs \<union> chain_texts qs')"
      by (rule inj_on_subset [OF snoc.prems(5)]) (auto simp: chain_texts_def q)
    ultimately have "map row_content rs = map row_content qs'"
      using snoc.IH v(1,3) typed(3) by blast
    with rq q show ?thesis by simp
  qed
qed

section \<open>Properties\<close>

text \<open>
  C17: appending any events, each a dictionary, to a fresh store in memory or to a fresh JSON-lines
  file never fails, leaves one row per event that carries the event's values, and the chain check
  of the store accepts the result.
\<close>

theorem stores_append_verify:
  assumes "\<forall>e\<in>set es. distinct (dkeys e)"
  shows "(\<exists>s. foldR (\<lambda>s e. ms_append (JObj e) s) new_memory_store es = Return s \<and> ms_verify_chain s \<and>
      length (ms_all s) = length es \<and> (\<forall>i<length es. \<exists>prev. linked prev (es ! i) (ms_all s ! i))) \<and>
    (\<exists>s rs. foldR (\<lambda>s e. jl_append (JObj e) s) (open_jsonl []) es = Return s \<and> jl_verify_chain s = Return True \<and>
      jl_all s = Return rs \<and> length rs = length es \<and> (\<forall>i<length es. \<exists>prev. linked prev (es ! i) (rs ! i)))"
proof -
  obtain s where "foldR (\<lambda>s e. jl_append (JObj e) s) (open_jsonl []) es = Inr s" "jl_ok s"
    "verify_rows genesis (jl_rows s)" "length (jl_rows s) = length es"
    "\<forall>i<length es. \<exists>prev. linked prev (es ! i) (jl_rows s ! i)"
    using jsonl.put_all_from [OF jsonl.fresh_ok _ assms] by (auto simp: jsonl.rows_fresh)
  moreover from this have "jl_all s = Return (jl_rows s)"
    unfolding jl_all_def by (subst jl_query_rows) (auto simp: jl_ok_def)
  ultimately show ?thesis
    using memory.put_all [OF assms] by (auto simp: ms_verify_chain_def ms_all_def ms_query_def jl_verify_chain_def)
qed

theorem stores_append_verify_witness:
  "\<exists>s. foldR (\<lambda>s e. ms_append (JObj e) s) new_memory_store [[(''event_id'', JStr ''a'')], []] = Return s \<and>
     ms_verify_chain s \<and> length (ms_all s) = 2"
  using stores_append_verify [of "[[(''event_id'', JStr ''a'')], []]"] by auto

text \<open>
  C8: the hash of the last row commits to the whole log: two chains that both pass the chain
  check and end in the same hash have the same rows in the same order (up to key order), unless
  two of the hashed texts collide; so any edit, removal or reordering changes the last hash or
  fails the check.
\<close>

theorem log_tamper_evident:
  assumes "ms_verify_chain s" "ms_verify_chain t"
    and "last_hash genesis (ms_rows s) = last_hash genesis (ms_rows t)"
    and "\<forall>r\<in>set (ms_rows s @ ms_rows t). link_typed r"
    and "inj_on sha256_hex (chain_texts (ms_rows s) \<union> chain_texts (ms_rows t))"
  shows "map row_content (ms_rows s) = map row_content (ms_rows t)"
  using assms by (intro chain_commits) (auto simp: ms_verify_chain_def)

theorem log_tamper_evident_witness:
  "\<exists>s. ms_append (JObj [(''event_id'', JStr ''a'')]) new_memory_store = Return s \<and>
     map row_content (ms_rows s) = map row_content (ms_rows s)"
proof -
  define r where "r = chain_row genesis [(''event_id'', JStr ''a'')]"
  define s where "s = new_memory_store\<lparr>ms_rows := [r], ms_last_hash := row_text r ''hash''\<rparr>"
  have s: "ms_append (JObj [(''event_id'', JStr ''a'')]) new_memory_store = Return s"
    by (simp add: ms_append_def event_dict_def new_memory_store_def s_def r_def Let_def)
  have v: "ms_verify_chain s"
    using verify_chain_row [of genesis "[(''event_id'', JStr ''a'')]"] by (simp add: ms_verify_chain_def s_def r_def)
  have "wf_json (JObj r)" by (simp add: r_def chain_row_def Let_def)
  then have "\<forall>r\<in>set (ms_rows s @ ms_rows s). link_typed r"
    using chain_row_get by (auto simp: s_def link_typed_def r_def)
  moreover have "inj_on sha256_hex (chain_texts (ms_rows s) \<union> chain_texts (ms_rows s))"
    by (simp add: s_def chain_texts_def)
  ultimately show ?thesis using log_tamper_evident [OF v v refl] s by blast
qed

end
