(* ===== verification/Event_Log.thy ===== *)
theory Event_Log
  imports Event_Store "HOL-Library.Product_Lexorder"
begin

text \<open>
  The signed event log: the envelope of \<^verbatim>\<open>solis/shared/event_envelope.py\<close>, the HMAC signer of
  \<^verbatim>\<open>services/crypto_access\<close>, the payloads of \<^verbatim>\<open>services/event_log/signing.py\<close> and the log service.
  \<^verbatim>\<open>QSOEvent.model_dump\<close> and \<^verbatim>\<open>model_validate\<close> belong to pydantic: they are the arguments \<open>dump\<close>
  and \<open>validate\<close> of the operations that use them, and the store is the argument \<open>put\<close>.
\<close>

section \<open>Events and envelopes\<close>

definition SCHEMA_VERSION :: string where
  "SCHEMA_VERSION = ''1.0''"

record qso_event =
  qe_schema_version :: string
  qe_event_id :: string
  qe_timestamp :: int
  qe_actor :: string
  qe_object_uri :: string
  qe_delta :: "json dict"
  qe_signature :: string
  qe_policy_version :: string
  qe_node_id :: string

record envelope =
  en_event_id :: string
  en_timestamp :: string
  en_actor :: string
  en_object_uri :: string
  en_delta :: "json dict"
  en_signature :: string
  en_policy_version :: string
  en_node_id :: string
  en_schema_version :: string

definition required_event_fields :: "string list" where
  "required_event_fields =
     [''event_id'', ''timestamp'', ''actor'', ''object_uri'', ''delta'', ''signature'', ''policy_version'']"

definition envelope_dict :: "envelope \<Rightarrow> json dict" where
  "envelope_dict e =
     [(''schema_version'', JStr (en_schema_version e)), (''event_id'', JStr (en_event_id e)),
      (''timestamp'', JStr (en_timestamp e)), (''actor'', JStr (en_actor e)),
      (''object_uri'', JStr (en_object_uri e)), (''delta'', JObj (en_delta e)),
      (''signature'', JStr (en_signature e)), (''policy_version'', JStr (en_policy_version e)),
      (''node_id'', JStr (en_node_id e))]"

definition check_non_empty :: "json dict \<Rightarrow> unit \<Rightarrow> string \<Rightarrow> unit result" where
  "check_non_empty value u field =
     (case dget value field of
        None \<Rightarrow> Raise (KeyError field)
      | Some v \<Rightarrow> if strip (jstr v) = []
          then Raise (ValueError (''event envelope field '' @ field @ '' must be non-empty'')) else Return ())"

definition validate_event_envelope :: "json dict \<Rightarrow> bool \<Rightarrow> unit result" where
  "validate_event_envelope value allow_empty_signature =
     (case filter (\<lambda>f. \<not> has_key value f) required_event_fields of
        f # _ \<Rightarrow> Raise (ValueError (''event envelope missing required field '' @ f))
      | [] \<Rightarrow>
          (case dget value ''delta'' of
             Some (JObj _) \<Rightarrow>
               foldR (check_non_empty value) ()
                 ([''event_id'', ''timestamp'', ''actor'', ''object_uri'', ''policy_version''] @
                  (if allow_empty_signature then [] else [''signature'']))
           | _ \<Rightarrow> Raise (ValueError ''event envelope field delta must be object'')))"

text \<open>\<open>QSOEventEnvelope.new\<close> with a timestamp given; the code passes one wherever it signs.\<close>

definition new_envelope :: "envelope \<Rightarrow> envelope result" where
  "new_envelope e =
     bindR (validate_event_envelope (envelope_dict e) (strip (en_signature e) = [])) (\<lambda>_. Return e)"

definition field_str :: "json dict \<Rightarrow> string \<Rightarrow> string" where
  "field_str d k = (case dget d k of None \<Rightarrow> [] | Some v \<Rightarrow> jstr v)"

definition envelope_from_mapping :: "json dict \<Rightarrow> envelope result" where
  "envelope_from_mapping value =
     bindR (validate_event_envelope value False) (\<lambda>_.
       Return \<lparr>en_event_id = field_str value ''event_id'', en_timestamp = field_str value ''timestamp'',
         en_actor = field_str value ''actor'', en_object_uri = field_str value ''object_uri'',
         en_delta = (case dget value ''delta'' of Some (JObj d) \<Rightarrow> d | _ \<Rightarrow> []),
         en_signature = field_str value ''signature'',
         en_policy_version = field_str value ''policy_version'',
         en_node_id = jstr (dget_or value ''node_id'' (JStr ''local'')),
         en_schema_version = jstr (dget_or value ''schema_version'' (JStr SCHEMA_VERSION))\<rparr>)"

definition envelope_canonical_json :: "envelope \<Rightarrow> string" where
  "envelope_canonical_json e = canonical_json (JObj (envelope_dict e))"

definition signing_payload :: "envelope \<Rightarrow> string" where
  "signing_payload e = canonical_json (JObj (dpop ''signature'' (envelope_dict e)))"

section \<open>The signer\<close>

definition hmac_key :: "nat list \<Rightarrow> nat list" where
  "hmac_key k =
     (let k' = (if length k > 64 then concat (map (\<lambda>w. be_bytes 4 (unat w)) (sha256_words k)) else k)
      in k' @ replicate (64 - length k') 0)"

definition xor_byte :: "nat \<Rightarrow> nat \<Rightarrow> nat" where
  "xor_byte a b = unat (xor (word_of_nat a :: 8 word) (word_of_nat b))"

definition hmac_sha256_hex :: "nat list \<Rightarrow> nat list \<Rightarrow> string" where
  "hmac_sha256_hex secret msg =
     (let k = hmac_key secret;
          inner = concat (map (\<lambda>w. be_bytes 4 (unat w)) (sha256_words (map (xor_byte 54) k @ msg)))
      in concat (map (\<lambda>w. concat (map hex_byte (be_bytes 4 (unat w))))
           (sha256_words (map (xor_byte 92) k @ inner))))"

record crypto =
  cr_secret :: "nat list"

text \<open>\<open>env\<close> is the process environment.\<close>

definition make_crypto :: "(string \<Rightarrow> string option) \<Rightarrow> string option \<Rightarrow> crypto result" where
  "make_crypto env secret =
     bindR (case secret of Some s \<Rightarrow> Return s
       | None \<Rightarrow>
           (let e = lower (case env ''QSO_ENV'' of Some v \<Rightarrow> v | None \<Rightarrow> ''dev'');
                env_secret = (case env ''QSO_FABRIC_SECRET'' of Some v \<Rightarrow> v | None \<Rightarrow> [])
            in if env_secret \<noteq> [] then Return env_secret
               else if e \<in> {''dev'', ''local''} then Return ''qso-fabric-dev-secret''
               else Raise (ValueError ''QSO_FABRIC_SECRET is required unless QSO_ENV is dev/local'')))
       (\<lambda>s. Return \<lparr>cr_secret = utf8 s\<rparr>)"

definition sign :: "crypto \<Rightarrow> string \<Rightarrow> string" where
  "sign c payload = hmac_sha256_hex (cr_secret c) (utf8 payload)"

text \<open>\<open>compare_digest\<close> takes two strings only when both are ASCII.\<close>

definition verify :: "crypto \<Rightarrow> string \<Rightarrow> string \<Rightarrow> bool result" where
  "verify c payload signature =
     (if list_all (\<lambda>x. code x < 128) signature then Return (sign c payload = signature)
      else Raise (TypeError ''comparing strings with non-ASCII characters is not supported''))"

section \<open>Signing payloads\<close>

definition event_envelope :: "qso_event \<Rightarrow> envelope" where
  "event_envelope e =
     \<lparr>en_event_id = qe_event_id e, en_timestamp = isoformat (qe_timestamp e), en_actor = qe_actor e,
      en_object_uri = qe_object_uri e, en_delta = qe_delta e, en_signature = qe_signature e,
      en_policy_version = qe_policy_version e, en_node_id = qe_node_id e,
      en_schema_version = SCHEMA_VERSION\<rparr>"

definition qso_event_payload :: "qso_event \<Rightarrow> string result" where
  "qso_event_payload e = bindR (new_envelope (event_envelope e)) (\<lambda>env. Return (signing_payload env))"

record policy_mutation =
  pm_event_id :: string
  pm_timestamp :: int
  pm_actor :: string
  pm_node_id :: string
  pm_from_version :: string
  pm_to_version :: string
  pm_policy_delta :: "json dict"
  pm_signature :: string

definition policy_mutation_payload :: "policy_mutation \<Rightarrow> string" where
  "policy_mutation_payload e = dumps spaced (JObj
     [(''event_id'', JStr (pm_event_id e)), (''timestamp'', JStr (isoformat (pm_timestamp e))),
      (''actor'', JStr (pm_actor e)), (''node_id'', JStr (pm_node_id e)),
      (''from_version'', JStr (pm_from_version e)), (''to_version'', JStr (pm_to_version e)),
      (''policy_delta'', JObj (pm_policy_delta e))])"

section \<open>The log service\<close>

record 's event_log =
  el_events :: "qso_event list dict"
  el_rejected :: "qso_event list dict"
  el_crypto :: "crypto option"
  el_store :: "'s option"
  el_index :: "event_index option"

definition el_timeline :: "'s event_log \<Rightarrow> string \<Rightarrow> qso_event list" where
  "el_timeline l uri = dget_or (el_events l) uri []"

definition index_event :: "(qso_event \<Rightarrow> json) \<Rightarrow> qso_event \<Rightarrow> 's event_log \<Rightarrow> unit result \<times> 's event_log" where
  "index_event dump e l =
     (case el_index l of
        None \<Rightarrow> (Return (), l)
      | Some ix \<Rightarrow> (case ix_add (dump e) ix of
           Inl err \<Rightarrow> (Raise err, l) | Inr ix' \<Rightarrow> (Return (), l\<lparr>el_index := Some ix'\<rparr>)))"

text \<open>The event is in the log even when the store or the index raises.\<close>

definition el_append ::
  "(qso_event \<Rightarrow> json) \<Rightarrow> (json \<Rightarrow> 's \<Rightarrow> 's result) \<Rightarrow> qso_event \<Rightarrow> 's event_log \<Rightarrow> unit result \<times> 's event_log" where
  "el_append dump put e l =
     (let l1 = l\<lparr>el_events := dset (qe_object_uri e) (el_timeline l (qe_object_uri e) @ [e]) (el_events l)\<rparr> in
      case el_store l1 of
        None \<Rightarrow> index_event dump e l1
      | Some s \<Rightarrow> (case put (dump e) s of
           Inl err \<Rightarrow> (Raise err, l1)
         | Inr s' \<Rightarrow> index_event dump e (l1\<lparr>el_store := Some s'\<rparr>)))"

definition replay_key :: "qso_event \<Rightarrow> string \<times> string \<times> string" where
  "replay_key e = (isoformat (qe_timestamp e), qe_event_id e, qe_node_id e)"

definition reject_event :: "string \<Rightarrow> qso_event \<Rightarrow> 's event_log \<Rightarrow> 's event_log" where
  "reject_event uri e l = l\<lparr>el_rejected := dset uri (dget_or (el_rejected l) uri [] @ [e]) (el_rejected l)\<rparr>"

fun verify_events ::
  "string \<Rightarrow> bool \<Rightarrow> qso_event list \<Rightarrow> qso_event list \<Rightarrow> 's event_log \<Rightarrow> qso_event list result \<times> 's event_log" where
  "verify_events uri strict verified [] l = (Return verified, l)"
| "verify_events uri strict verified (e # es) l =
     (case el_crypto l of
        None \<Rightarrow> verify_events uri strict (verified @ [e]) es l
      | Some c \<Rightarrow>
          (case bindR (qso_event_payload e) (\<lambda>p. verify c p (qe_signature e)) of
             Inl err \<Rightarrow> (Raise err, l)
           | Inr is_valid \<Rightarrow>
               if is_valid then verify_events uri strict (verified @ [e]) es l
               else (let l' = reject_event uri e l in
                     if strict then (Raise (ValueError (''signature validation failed for event '' @ qe_event_id e)), l')
                     else verify_events uri strict verified es l')))"

definition el_replay :: "string \<Rightarrow> bool \<Rightarrow> 's event_log \<Rightarrow> qso_event list result \<times> 's event_log" where
  "el_replay uri strict l = verify_events uri strict [] (sort_key replay_key (el_timeline l uri)) l"

definition el_rejected_events :: "'s event_log \<Rightarrow> string \<Rightarrow> qso_event list" where
  "el_rejected_events l uri = dget_or (el_rejected l) uri []"

definition el_rollback :: "string \<Rightarrow> int \<Rightarrow> 's event_log \<Rightarrow> (qso_event list \<times> 's event_log) result" where
  "el_rollback uri keep_events l =
     (if keep_events < 0 then Raise (ValueError ''keep_events must be >= 0'')
      else (let l' = l\<lparr>el_events := dset uri (take (nat keep_events) (el_timeline l uri)) (el_events l)\<rparr>
            in Return (el_timeline l' uri, l')))"

record audit_query =
  aq_uri :: "string option"
  aq_actor :: "string option"
  aq_since :: "int option"

definition audit_matches :: "audit_query \<Rightarrow> qso_event \<Rightarrow> bool" where
  "audit_matches q e =
     (\<not> (case aq_actor q of Some a \<Rightarrow> a \<noteq> [] \<and> qe_actor e \<noteq> a | None \<Rightarrow> False) \<and>
      \<not> (case aq_since q of Some t \<Rightarrow> qe_timestamp e < t | None \<Rightarrow> False))"

definition el_audit :: "audit_query \<Rightarrow> 's event_log \<Rightarrow> qso_event list" where
  "el_audit q l =
     (let pool = (case aq_uri q of
          Some u \<Rightarrow> if u \<noteq> [] then el_timeline l u else concat (map snd (el_events l))
        | None \<Rightarrow> concat (map snd (el_events l)))
      in filter (audit_matches q) pool)"

text \<open>Start-up: the rows of the store that validate as events, in order; \<open>dump\<close> feeds the index.\<close>

definition bootstrap_row ::
  "(qso_event \<Rightarrow> json) \<Rightarrow> (row \<Rightarrow> qso_event option) \<Rightarrow> 's event_log \<Rightarrow> row \<Rightarrow> 's event_log result" where
  "bootstrap_row dump validate l r =
     (case validate r of
        None \<Rightarrow> Return l
      | Some e \<Rightarrow>
          (case index_event dump e
             (l\<lparr>el_events := dset (qe_object_uri e) (el_timeline l (qe_object_uri e) @ [e]) (el_events l)\<rparr>) of
             (Inl err, _) \<Rightarrow> Raise err | (Inr _, l') \<Rightarrow> Return l'))"

definition make_event_log ::
  "(qso_event \<Rightarrow> json) \<Rightarrow> (row \<Rightarrow> qso_event option) \<Rightarrow> ('s \<Rightarrow> row list result) \<Rightarrow>
   crypto option \<Rightarrow> 's option \<Rightarrow> event_index option \<Rightarrow> 's event_log result" where
  "make_event_log dump validate all_rows c store index =
     (let l = \<lparr>el_events = [], el_rejected = [], el_crypto = c, el_store = store, el_index = index\<rparr> in
      case store of
        None \<Rightarrow> Return l
      | Some s \<Rightarrow> (case all_rows s of
           Inl _ \<Rightarrow> Return l
         | Inr rows \<Rightarrow> foldR (bootstrap_row dump validate) l rows))"

section \<open>The contract of a signer\<close>

locale signer =
  fixes sign_of :: "'k \<Rightarrow> string \<Rightarrow> string" and check :: "'k \<Rightarrow> string \<Rightarrow> string \<Rightarrow> bool result"
  assumes check_sign: "check k p (sign_of k p) = Return True"
    and check_only: "check k p s = Return True \<Longrightarrow> s = sign_of k p"
begin

lemma check_iff: "check k p s = Return True \<longleftrightarrow> s = sign_of k p"
  using check_sign check_only by blast

end

lemma hex_digit_ascii: "n < 16 \<Longrightarrow> code (hex_digit n) < 128"
proof -
  assume "n < 16"
  then have "hex_digit n \<in> set ''0123456789abcdef''" unfolding hex_digit_def by (intro nth_mem) simp
  then show ?thesis by auto
qed

lemma sign_ascii: "list_all (\<lambda>x. code x < 128) (sign c p)"
  by (auto simp: sign_def hmac_sha256_hex_def Let_def list_all_iff hex_byte_def be_bytes_def hex_digit_ascii
      less_mult_imp_div_less)

lemma length_sign [simp]: "length (sign c p) = 64"
proof -
  have "length (concat (map hex_byte (be_bytes 4 n))) = 8" for n
    by (subst length_concat_const [where k = 2]) (auto simp: hex_byte_def be_bytes_def)
  then show ?thesis
    unfolding sign_def hmac_sha256_hex_def Let_def
    by (subst length_concat_const [where k = 8]) (auto simp: length_sha256_words)
qed

interpretation hmac: signer sign verify
  by standard (auto simp: verify_def sign_ascii split: if_splits)

section \<open>Signed events\<close>

lemma hex_digit_not_space: "n < 16 \<Longrightarrow> \<not> is_space (hex_digit n)"
proof -
  assume "n < 16"
  then have "hex_digit n \<in> set ''0123456789abcdef''" unfolding hex_digit_def by (intro nth_mem) simp
  then show ?thesis by (auto simp: is_space_def)
qed

lemma strip_sign: "strip (sign c p) \<noteq> []"
proof -
  have "list_all (\<lambda>x. \<not> is_space x) (sign c p)"
    by (auto simp: sign_def hmac_sha256_hex_def Let_def list_all_iff hex_byte_def be_bytes_def
        hex_digit_not_space less_mult_imp_div_less)
  moreover have "sign c p \<noteq> []" using length_sign [of c p] by (auto simp del: length_sign)
  ultimately show ?thesis by (simp add: strip_no_space)
qed

lemma strip_Nil [simp]: "strip [] = []"
  by (simp add: strip_def rstrip_def lstrip_def)

text \<open>The payload leaves the signature out, so signing does not change it.\<close>

lemma payload_of_signed:
  assumes "qso_event_payload (e\<lparr>qe_signature := []\<rparr>) = Inr p" "strip s \<noteq> []"
  shows "qso_event_payload (e\<lparr>qe_signature := s\<rparr>) = Inr p"
proof -
  define env0 where "env0 = event_envelope (e\<lparr>qe_signature := []\<rparr>)"
  define env where "env = event_envelope (e\<lparr>qe_signature := s\<rparr>)"
  have env: "env = env0\<lparr>en_signature := s\<rparr>" "en_signature env0 = []"
    by (simp_all add: env_def env0_def event_envelope_def)
  have get: "dget (envelope_dict env) f = dget (envelope_dict env0) f" if "f \<noteq> ''signature''" for f
    using that by (simp add: envelope_dict_def env(1))
  have fields: "check_non_empty (envelope_dict env) u f = check_non_empty (envelope_dict env0) u f"
    if "f \<noteq> ''signature''" for f u
    by (simp add: check_non_empty_def get [OF that])
  have sig: "check_non_empty (envelope_dict env) u ''signature'' = Return ()" for u
    using assms(2) by (simp add: check_non_empty_def envelope_dict_def env(1) jstr_def)
  have keys: "filter (\<lambda>f. \<not> has_key (envelope_dict x) f) required_event_fields = []" for x
    by (simp add: required_event_fields_def has_key_def envelope_dict_def)
  have delta: "dget (envelope_dict x) ''delta'' = Some (JObj (en_delta x))" for x
    by (simp add: envelope_dict_def)
  have v0: "validate_event_envelope (envelope_dict env0) True = Return ()" and p: "p = signing_payload env0"
    using assms(1) unfolding qso_event_payload_def new_envelope_def env0_def [symmetric] env(2)
    by (auto simp: bindR_eq_Return)
  have "validate_event_envelope (envelope_dict env) False = Return ()"
    using v0 unfolding validate_event_envelope_def keys delta
    by (simp add: foldR_append fields sig)
  moreover have "signing_payload env = signing_payload env0"
    by (simp add: signing_payload_def envelope_dict_def env(1))
  moreover have "en_signature env = s" by (simp add: env(1))
  ultimately show ?thesis
    using assms(2) unfolding qso_event_payload_def new_envelope_def env_def [symmetric] by (simp add: p)
qed

text \<open>Signing succeeds on an event whose required texts are not blank.\<close>

lemma payload_Return:
  assumes "\<forall>x\<in>{qe_event_id e, isoformat (qe_timestamp e), qe_actor e, qe_object_uri e, qe_policy_version e}.
      strip x \<noteq> []" "qe_signature e = []"
  shows "qso_event_payload e = Return (signing_payload (event_envelope e))"
  using assms by (simp add: qso_event_payload_def new_envelope_def event_envelope_def validate_event_envelope_def
      required_event_fields_def has_key_def envelope_dict_def check_non_empty_def jstr_def)

lemma strip_isoformat: "strip (isoformat us) \<noteq> []"
proof -
  have "CHR ''T'' \<in> set (isoformat us)"
    by (cases "civil_from_days (us div day_us)") (simp add: isoformat_def)
  moreover have "\<not> is_space (CHR ''T'')" by (simp add: is_space_def)
  ultimately show ?thesis by (auto simp: strip_Nil_iff)
qed

section \<open>Replay of well-signed logs\<close>

definition well_signed :: "crypto option \<Rightarrow> qso_event \<Rightarrow> bool" where
  "well_signed c e = (case c of None \<Rightarrow> True | Some k \<Rightarrow>
     (case qso_event_payload e of Inl _ \<Rightarrow> False | Inr p \<Rightarrow> qe_signature e = sign k p))"

lemma well_signed_check:
  "well_signed (Some k) e \<longleftrightarrow> bindR (qso_event_payload e) (\<lambda>p. verify k p (qe_signature e)) = Return True"
  by (auto simp: well_signed_def bindR_eq_Return hmac.check_iff split: sum.splits)

lemma verify_events_all:
  "\<forall>e\<in>set es. well_signed (el_crypto l) e \<Longrightarrow> verify_events uri strict v es l = (Return (v @ es), l)"
proof (induction es arbitrary: v)
  case (Cons e es)
  then show ?case
    by (cases "el_crypto l") (auto simp: well_signed_check)
qed simp

lemma verify_events_sound:
  "verify_events uri True v es l = (Return r, l') \<Longrightarrow> r = v @ es \<and> l' = l \<and> (\<forall>e\<in>set es. well_signed (el_crypto l) e)"
proof (induction es arbitrary: v)
  case (Cons e es)
  show ?case
  proof (cases "el_crypto l")
    case None
    with Cons.IH [of "v @ [e]"] Cons.prems show ?thesis by (auto simp: well_signed_def)
  next
    case (Some k)
    with Cons.prems have ok: "bindR (qso_event_payload e) (\<lambda>p. verify k p (qe_signature e)) = Return True"
      and rest: "verify_events uri True (v @ [e]) es l = (Return r, l')"
      by (auto simp: Let_def split: sum.splits if_splits)
    have "well_signed (el_crypto l) e" using ok by (simp only: Some well_signed_check)
    with Cons.IH [OF rest] show ?thesis by auto
  qed
qed simp

lemma sorted_keys_replay:
  "sorted (map replay_key es) \<Longrightarrow> sort_key replay_key es = es"
  by (induction es) (auto simp: insort_is_Cons)

section \<open>Properties\<close>

text \<open>
  A strict replay that returns, returns all the events of the object in timestamp order and
  each of them carries the signature the service computes for its own payload: one event with any
  other signature makes the replay raise.
\<close>

theorem strict_replay_authentic:
  assumes "el_replay uri True l = (Return es, l')"
  shows "es = sort_key replay_key (el_timeline l uri) \<and> l' = l \<and>
    (\<forall>e\<in>set (el_timeline l uri). well_signed (el_crypto l) e)"
  using verify_events_sound [OF assms [unfolded el_replay_def]] by auto

theorem strict_replay_authentic_witness:
  "\<exists>e l. qe_event_id e = ''e1'' \<and> el_timeline l ''u'' = [e] \<and> el_crypto l = Some \<lparr>cr_secret = [1, 2]\<rparr> \<and>
     el_replay ''u'' True (l :: unit event_log) = (Return [e], l) \<and> well_signed (el_crypto l) e"
proof -
  let ?k = "\<lparr>cr_secret = [1, 2]\<rparr>"
  let ?e0 = "\<lparr>qe_schema_version = SCHEMA_VERSION, qe_event_id = ''e1'', qe_timestamp = 0, qe_actor = ''a'',
    qe_object_uri = ''u'', qe_delta = [(''x'', JInt 1)], qe_signature = [], qe_policy_version = ''v1'',
    qe_node_id = ''n''\<rparr>"
  obtain p where p0: "qso_event_payload ?e0 = Return p"
    using payload_Return [of ?e0] by (simp add: strip_isoformat) (simp add: strip_Nil_iff is_space_def)
  define e where "e = ?e0\<lparr>qe_signature := sign ?k p\<rparr>"
  have p: "qso_event_payload e = Return p"
    unfolding e_def using p0 by (intro payload_of_signed [OF _ strip_sign]) simp
  define l :: "unit event_log" where "l = \<lparr>el_events = [(''u'', [e])], el_rejected = [], el_crypto = Some ?k,
    el_store = None, el_index = None\<rparr>"
  have "qe_signature e = sign ?k p" by (simp add: e_def)
  with p have "well_signed (Some ?k) e" by (simp add: well_signed_def)
  then have run: "el_replay ''u'' True l = (Return [e], l)"
    by (simp add: el_replay_def el_timeline_def l_def dget_or_def well_signed_check)
  from strict_replay_authentic [OF run] run show ?thesis
    by (intro exI [of _ e] exI [of _ l]) (auto simp: l_def el_timeline_def dget_or_def e_def)
qed

end
