(* ===== verification/Entanglement.thy ===== *)
theory Entanglement
  imports Json
begin

text \<open>
  \<^verbatim>\<open>services/entanglement_graph/service.py\<close> and \<^verbatim>\<open>core/entanglement/dag_validator.py\<close>: directed
  links between objects, the two cycle checks, and the bounded subscriber queues a patch is
  published to.  The recursion of \<open>_has_path\<close> carries fuel; one more than the number of linked
  nodes always suffices.  Publishing to a full queue in block mode suspends the publisher there.
\<close>

section \<open>Links and the depth-first search\<close>

datatype sync_mode = PUSH | PULL | BIDIRECTIONAL

fun sync_value :: "sync_mode \<Rightarrow> string" where
  "sync_value PUSH = ''push''"
| "sync_value PULL = ''pull''"
| "sync_value BIDIRECTIONAL = ''bidirectional''"

record entanglement_link =
  el_source :: string
  el_target :: string
  el_relationship :: string
  el_strength :: json
  el_sync_mode :: sync_mode
  el_latency_ms :: int
  el_bidirectional :: bool

type_synonym link_map = "entanglement_link list dict"

definition targets :: "link_map \<Rightarrow> string \<Rightarrow> string list" where
  "targets g n = map el_target (dget_or g n [])"

fun has_path :: "nat \<Rightarrow> link_map \<Rightarrow> string \<Rightarrow> string \<Rightarrow> string list \<Rightarrow> (bool \<times> string list) option"
  and any_path :: "nat \<Rightarrow> link_map \<Rightarrow> string list \<Rightarrow> string \<Rightarrow> string list \<Rightarrow> (bool \<times> string list) option" where
  "has_path 0 g src dst seen = None"
| "has_path (Suc n) g src dst seen =
     (if src = dst then Some (True, seen)
      else if src \<in> set seen then Some (False, seen)
      else any_path n g (targets g src) dst (src # seen))"
| "any_path n g [] dst seen = Some (False, seen)"
| "any_path n g (t # ts) dst seen =
     (case has_path n g t dst seen of
        None \<Rightarrow> None
      | Some (found, seen') \<Rightarrow> if found then Some (True, seen') else any_path n g ts dst seen')"

definition path_fuel :: "link_map \<Rightarrow> nat" where
  "path_fuel g = Suc (Suc (length g))"

text \<open>\<open>_has_path(src, dst)\<close>, with the fuel that suffices; \<open>True\<close> for lack of fuel never occurs.\<close>

definition path_exists :: "link_map \<Rightarrow> string \<Rightarrow> string \<Rightarrow> bool" where
  "path_exists g src dst = (case has_path (path_fuel g) g src dst [] of
     None \<Rightarrow> True | Some (found, _) \<Rightarrow> found)"

definition add_link :: "entanglement_link \<Rightarrow> link_map \<Rightarrow> link_map" where
  "add_link l g = dset (el_source l) (dget_or g (el_source l) [] @ [l]) g"

text \<open>The outcome and the links afterwards: a refused bidirectional link has already been stored.\<close>

definition entangle :: "entanglement_link \<Rightarrow> bool \<Rightarrow> link_map \<Rightarrow> unit result \<times> link_map" where
  "entangle l allow_cycle g =
     (if \<not> allow_cycle \<and> path_exists g (el_target l) (el_source l)
      then (Raise (ValueError (''entanglement link would create cycle: '' @ el_source l @ '' -> '' @ el_target l)), g)
      else
        (let g1 = add_link l g in
         if el_bidirectional l then
           (if \<not> allow_cycle
            then (Raise (ValueError ''bidirectional link rejected under DAG enforcement; use allow_cycle=True if explicitly required''), g1)
            else (Return (), add_link (l\<lparr>el_source := el_target l, el_target := el_source l,
                    el_bidirectional := False\<rparr>) g1))
         else (Return (), g1)))"

definition list_links :: "link_map \<Rightarrow> string \<Rightarrow> entanglement_link list" where
  "list_links g uri = dget_or g uri []"

section \<open>The work list of the DAG validator\<close>

type_synonym graph = "string list dict"

lemma unseen_keys_less:
  "node \<notin> seen \<Longrightarrow> node \<in> set (dkeys g) \<Longrightarrow>
     card (set (dkeys g) - insert node seen) < card (set (dkeys g) - seen)"
  by (intro psubset_card_mono) auto

lemma unseen_keys_same: "node \<notin> set (dkeys g) \<Longrightarrow> set (dkeys g) - insert node seen = set (dkeys g) - seen"
  by auto

lemma dget_or_none: "k \<notin> set (dkeys d) \<Longrightarrow> dget_or d k x = x"
  by (metis dget_or_def list.set_map map_of_eq_None_iff option.simps(4))

function dag_loop :: "graph \<Rightarrow> string \<Rightarrow> string set \<Rightarrow> string list \<Rightarrow> bool" where
  "dag_loop g source seen stack =
     (if stack = [] then False
      else
        (let node = last stack; rest = butlast stack in
         if node = source then True
         else if node \<in> seen then dag_loop g source seen rest
         else dag_loop g source (insert node seen) (rest @ dget_or g node [])))"
  by pat_completeness auto

termination
proof (relation "inv_image ({(a, b). a < b} <*lex*> {(a, b). a < b})
    (\<lambda>(g, source, seen, stack). (card (set (dkeys g) - seen), length stack))", goal_cases)
  case 1
  show ?case by (intro wf_inv_image wf_lex_prod wf_less)
next
  case (2 g source seen stack node rest)
  then show ?case by simp
next
  case (3 g source seen stack node rest)
  show ?case
  proof (cases "node \<in> set (dkeys g)")
    case True
    from unseen_keys_less [OF 3(5) True] show ?thesis by simp
  next
    case False
    from unseen_keys_same [OF this, of seen] dget_or_none [OF False, of "[]"] 3(1,3) show ?thesis by simp
  qed
qed

declare dag_loop.simps [simp del]

definition rejects_cycle :: "graph \<Rightarrow> string \<Rightarrow> string \<Rightarrow> bool" where
  "rejects_cycle g source target = dag_loop g source {} [target]"

section \<open>Subscribers\<close>

datatype backpressure = BLOCK | DROP_OLDEST | DROP_NEWEST

record subscriber =
  sb_id :: nat
  sb_maxsize :: nat
  sb_queue :: "json dict list"
  sb_mode :: backpressure

record graph_service =
  gr_links :: link_map
  gr_subscribers :: "subscriber list dict"
  gr_next_id :: nat

definition parse_mode :: "string \<Rightarrow> backpressure option" where
  "parse_mode s = (let m = lower s in
     if m = ''block'' then Some BLOCK else if m = ''drop_oldest'' then Some DROP_OLDEST
     else if m = ''drop_newest'' then Some DROP_NEWEST else None)"

definition register_subscriber ::
  "string \<Rightarrow> int \<Rightarrow> string \<Rightarrow> graph_service \<Rightarrow> (subscriber \<times> graph_service) result" where
  "register_subscriber uri queue_size mode s =
     (case parse_mode mode of
        None \<Rightarrow> Raise (ValueError (''unsupported backpressure mode: '' @ mode))
      | Some m \<Rightarrow>
          (let sub = \<lparr>sb_id = gr_next_id s, sb_maxsize = nat (max 1 queue_size), sb_queue = [], sb_mode = m\<rparr>
           in Return (sub, s\<lparr>gr_subscribers := dset uri (dget_or (gr_subscribers s) uri [] @ [sub]) (gr_subscribers s),
                             gr_next_id := Suc (gr_next_id s)\<rparr>)))"

fun remove_sub :: "nat \<Rightarrow> subscriber list \<Rightarrow> subscriber list" where
  "remove_sub i [] = []"
| "remove_sub i (x # xs) = (if sb_id x = i then xs else x # remove_sub i xs)"

definition unregister_subscriber :: "string \<Rightarrow> nat \<Rightarrow> graph_service \<Rightarrow> graph_service" where
  "unregister_subscriber uri i s =
     (let subs = dget_or (gr_subscribers s) uri [] in
      if subs = [] then s
      else (let subs' = remove_sub i subs in
            s\<lparr>gr_subscribers := (if subs' = [] then dpop uri (gr_subscribers s)
                                 else dset uri subs' (gr_subscribers s))\<rparr>))"

text \<open>\<open>None\<close>: the publisher waits at this subscriber.\<close>

definition enqueue :: "json dict \<Rightarrow> subscriber \<Rightarrow> subscriber option" where
  "enqueue payload sub =
     (let full = (length (sb_queue sub) \<ge> sb_maxsize sub) in
      case sb_mode sub of
        BLOCK \<Rightarrow> if full then None else Some (sub\<lparr>sb_queue := sb_queue sub @ [payload]\<rparr>)
      | DROP_NEWEST \<Rightarrow> Some (if full then sub else sub\<lparr>sb_queue := sb_queue sub @ [payload]\<rparr>)
      | DROP_OLDEST \<Rightarrow>
          (let q = (if full then tl (sb_queue sub) else sb_queue sub) in
           Some (if length q \<ge> sb_maxsize sub then sub\<lparr>sb_queue := q\<rparr> else sub\<lparr>sb_queue := q @ [payload]\<rparr>)))"

text \<open>Deliver one payload to every subscriber of a URI in order; \<open>False\<close> when one blocks.\<close>

fun deliver :: "json dict \<Rightarrow> subscriber list \<Rightarrow> bool \<times> subscriber list" where
  "deliver payload [] = (True, [])"
| "deliver payload (x # xs) =
     (case enqueue payload x of
        None \<Rightarrow> (False, x # xs)
      | Some y \<Rightarrow> (case deliver payload xs of (ok, ys) \<Rightarrow> (ok, y # ys)))"

definition deliver_to :: "string \<Rightarrow> json dict \<Rightarrow> graph_service \<Rightarrow> bool \<times> graph_service" where
  "deliver_to uri payload s =
     (case dget (gr_subscribers s) uri of
        None \<Rightarrow> (True, s)
      | Some subs \<Rightarrow>
          (case deliver payload subs of
             (ok, subs') \<Rightarrow> (ok, s\<lparr>gr_subscribers := dset uri subs' (gr_subscribers s)\<rparr>)))"

definition enrich :: "string \<Rightarrow> json dict \<Rightarrow> entanglement_link \<Rightarrow> json dict" where
  "enrich source_uri payload l =
     dupdate payload
       [(''entangled_from'', JStr source_uri), (''relationship'', JStr (el_relationship l)),
        (''strength'', el_strength l), (''sync_mode'', JStr (sync_value (el_sync_mode l))),
        (''latency_target_ms'', JInt (el_latency_ms l))]"

fun publish_links ::
  "string \<Rightarrow> json dict \<Rightarrow> entanglement_link list \<Rightarrow> graph_service \<Rightarrow> bool \<times> graph_service" where
  "publish_links src payload [] s = (True, s)"
| "publish_links src payload (l # ls) s =
     (case deliver_to (el_target l) (enrich src payload l) s of
        (ok, s') \<Rightarrow> if ok then publish_links src payload ls s' else (False, s'))"

definition publish_patch :: "string \<Rightarrow> json dict \<Rightarrow> graph_service \<Rightarrow> bool \<times> graph_service" where
  "publish_patch source_uri payload s =
     (case deliver_to source_uri payload s of
        (ok, s') \<Rightarrow> if ok then publish_links source_uri payload (dget_or (gr_links s') source_uri []) s'
                    else (False, s'))"

section \<open>Correctness of the depth-first search\<close>

definition link_edges :: "link_map \<Rightarrow> (string \<times> string) set" where
  "link_edges g = {(a, b). b \<in> set (targets g a)}"

lemma targets_edges: "b \<in> set (targets g a) \<longleftrightarrow> (a, b) \<in> link_edges g"
  by (simp add: link_edges_def)

lemma targets_no_key: "a \<notin> set (dkeys g) \<Longrightarrow> targets g a = []"
  by (simp add: targets_def dget_or_none del: set_map)

text \<open>Seen nodes only grow, and the search finds a path or leaves a closed set behind.\<close>

definition closed_part :: "link_map \<Rightarrow> string list \<Rightarrow> string list \<Rightarrow> bool" where
  "closed_part g seen seen' = (\<forall>x\<in>set seen' - set seen. set (targets g x) \<subseteq> set seen')"

lemma search_result:
  "has_path n g src dst seen = Some (b, seen') \<Longrightarrow> set seen \<subseteq> set seen' \<and>
     (if b then (src, dst) \<in> (link_edges g)\<^sup>*
      else src \<in> set seen' \<and> (dst \<in> set seen' \<longrightarrow> dst \<in> set seen) \<and> closed_part g seen seen')"
  "any_path n g ts dst seen = Some (b, seen') \<Longrightarrow> set seen \<subseteq> set seen' \<and>
     (if b then (\<exists>t\<in>set ts. (t, dst) \<in> (link_edges g)\<^sup>*)
      else set ts \<subseteq> set seen' \<and> (dst \<in> set seen' \<longrightarrow> dst \<in> set seen) \<and> closed_part g seen seen')"
proof (induction n g src dst seen and n g ts dst seen arbitrary: b seen' and b seen' rule: has_path_any_path.induct)
  case (2 n g src dst seen)
  show ?case
  proof (cases "src = dst \<or> src \<in> set seen")
    case True
    with "2.prems" show ?thesis by (auto simp: closed_part_def split: if_splits)
  next
    case False
    with "2.prems" have a: "any_path n g (targets g src) dst (src # seen) = Some (b, seen')" by simp
    from False have "src \<noteq> dst" "src \<notin> set seen" by auto
    from "2.IH" [OF this a] False show ?thesis
      by (auto simp: closed_part_def targets_edges split: if_splits intro: converse_rtrancl_into_rtrancl)
  qed
next
  case (4 n g t ts dst seen)
  from "4.prems" obtain found s1 where h: "has_path n g t dst seen = Some (found, s1)"
    by (auto split: option.splits)
  note first = "4.IH"(1) [OF h]
  show ?case
  proof (cases found)
    case True
    with h "4.prems" first show ?thesis by auto
  next
    case False
    with h "4.prems" have a: "any_path n g ts dst s1 = Some (b, seen')" by simp
    have "set s1 \<subseteq> set seen' \<and> (if b then (\<exists>t\<in>set ts. (t, dst) \<in> (link_edges g)\<^sup>*)
      else set ts \<subseteq> set seen' \<and> (dst \<in> set seen' \<longrightarrow> dst \<in> set s1) \<and> closed_part g s1 seen')"
      by (rule "4.IH"(2) [OF h refl]) (use False a in auto)
    with False first show ?thesis by (cases b) (simp, blast, simp add: closed_part_def, blast)
  qed
qed (auto simp: closed_part_def)

lemma search_returns:
  "card (set (dkeys g) - set seen) < n \<Longrightarrow> has_path n g src dst seen \<noteq> None"
  "ts = [] \<or> card (set (dkeys g) - set seen) < n \<Longrightarrow> any_path n g ts dst seen \<noteq> None"
proof (induction n g src dst seen and n g ts dst seen rule: has_path_any_path.induct)
  case (2 n g src dst seen)
  show ?case
  proof (cases "src = dst \<or> src \<in> set seen")
    case False
    have "targets g src = [] \<or> card (set (dkeys g) - set (src # seen)) < n"
    proof (cases "src \<in> set (dkeys g)")
      case True
      have "card (set (dkeys g) - insert src (set seen)) < card (set (dkeys g) - set seen)"
        using False True by (intro unseen_keys_less) auto
      with "2.prems" show ?thesis by simp
    next
      case no: False
      then show ?thesis by (simp add: targets_no_key)
    qed
    then show ?thesis using "2.IH" False by simp
  qed auto
next
  case (4 n g t ts dst seen)
  then have c: "card (set (dkeys g) - set seen) < n" by simp
  with "4.IH"(1) obtain found s1 where h: "has_path n g t dst seen = Some (found, s1)" by fastforce
  have "set seen \<subseteq> set s1" using search_result(1) [OF h] by blast
  then have "card (set (dkeys g) - set s1) \<le> card (set (dkeys g) - set seen)"
    by (intro card_mono) auto
  with c "4.IH"(2) h show ?case by auto
qed auto

lemma search_more_fuel:
  "has_path n g src dst seen = Some r \<Longrightarrow> has_path (n + m) g src dst seen = Some r"
  "any_path n g ts dst seen = Some r \<Longrightarrow> any_path (n + m) g ts dst seen = Some r"
proof (induction n g src dst seen and n g ts dst seen arbitrary: r and r rule: has_path_any_path.induct)
  case (4 n g t ts dst seen)
  then obtain found s1 where h: "has_path n g t dst seen = Some (found, s1)"
    by (auto split: option.splits)
  with 4 show ?case by (auto split: if_splits)
qed (auto split: if_splits)

lemma closed_not_reachable:
  assumes "(x, y) \<in> r\<^sup>*" "x \<in> S" "\<And>a b. a \<in> S \<Longrightarrow> (a, b) \<in> r \<Longrightarrow> b \<in> S"
  shows "y \<in> S"
  using assms by (induction rule: rtrancl_induct) auto

lemma path_fuel_enough: "\<exists>b s. has_path (path_fuel g) g src dst [] = Some (b, s)"
proof -
  have "card (set (dkeys g)) \<le> length g" by (metis card_length length_map)
  then have "card (set (dkeys g) - set []) < path_fuel g" by (simp add: path_fuel_def)
  then show ?thesis using search_returns(1) [of g "[]" "path_fuel g" src dst] by fastforce
qed

lemma path_exists_iff: "path_exists g src dst \<longleftrightarrow> (src, dst) \<in> (link_edges g)\<^sup>*"
proof -
  obtain b s where r: "has_path (path_fuel g) g src dst [] = Some (b, s)"
    using path_fuel_enough by blast
  have res: "if b then (src, dst) \<in> (link_edges g)\<^sup>*
      else src \<in> set s \<and> dst \<notin> set s \<and> (\<forall>x\<in>set s. set (targets g x) \<subseteq> set s)"
    using search_result(1) [OF r] by (simp add: closed_part_def split: if_splits)
  show ?thesis
  proof (cases b)
    case True
    with r res show ?thesis by (simp add: path_exists_def)
  next
    case False
    with res have "(src, dst) \<notin> (link_edges g)\<^sup>*"
      using closed_not_reachable [of src dst "link_edges g" "set s"] by (auto simp: link_edges_def)
    with r False show ?thesis by (simp add: path_exists_def)
  qed
qed

lemma targets_add:
  "targets (add_link l g) a = (if a = el_source l then targets g a @ [el_target l] else targets g a)"
  by (simp add: targets_def add_link_def dget_or_def)

lemma link_edges_add: "link_edges (add_link l g) = insert (el_source l, el_target l) (link_edges g)"
  by (auto simp: link_edges_def targets_add split: if_splits)

section \<open>Correctness of the work list\<close>

definition graph_edges :: "graph \<Rightarrow> (string \<times> string) set" where
  "graph_edges g = {(a, b). b \<in> set (dget_or g a [])}"

lemma leaves_set:
  assumes "(x, s) \<in> r\<^sup>*" "x \<in> S" "s \<notin> S" "\<And>a b. a \<in> S \<Longrightarrow> (a, b) \<in> r \<Longrightarrow> b \<in> S \<union> R"
  shows "\<exists>z\<in>R. (z, s) \<in> r\<^sup>*"
  using assms
proof (induction rule: converse_rtrancl_induct)
  case (step a b)
  then show ?case by blast
qed simp

lemma dag_loop_reachable:
  assumes "source \<notin> seen" "\<And>a b. a \<in> seen \<Longrightarrow> (a, b) \<in> graph_edges g \<Longrightarrow> b \<in> seen \<union> set stack"
  shows "dag_loop g source seen stack \<longleftrightarrow> (\<exists>x\<in>set stack. (x, source) \<in> (graph_edges g)\<^sup>*)"
  using assms
proof (induction g source seen stack rule: dag_loop.induct)
  case (1 g source seen stack)
  show ?case
  proof (cases "stack = []")
    case True
    then show ?thesis by (simp add: dag_loop.simps [of g source seen "[]"])
  next
    case ne: False
    define node where "node = last stack"
    define rest where "rest = butlast stack"
    have stack: "stack = rest @ [node]" using ne by (simp add: node_def rest_def)
    have eqn: "dag_loop g source seen stack = (if node = source then True
        else if node \<in> seen then dag_loop g source seen rest
        else dag_loop g source (insert node seen) (rest @ dget_or g node []))"
      using ne by (subst dag_loop.simps) (simp add: node_def rest_def Let_def)
    consider (hit) "node = source" | (old) "node \<noteq> source" "node \<in> seen" | (new) "node \<noteq> source" "node \<notin> seen" by blast
    then show ?thesis
    proof cases
      case hit
      have "dag_loop g source seen stack" using eqn hit by simp
      moreover have "node \<in> set stack" by (simp add: stack)
      ultimately show ?thesis using hit by blast
    next
      case old
      have inv: "b \<in> seen \<union> set rest" if "a \<in> seen" "(a, b) \<in> graph_edges g" for a b
        using "1.prems"(2) [OF that] old by (auto simp: stack)
      have "dag_loop g source seen rest \<longleftrightarrow> (\<exists>x\<in>set rest. (x, source) \<in> (graph_edges g)\<^sup>*)"
        using "1.IH"(1) [OF ne node_def rest_def old "1.prems"(1) inv] .
      moreover have "\<exists>z\<in>set rest. (z, source) \<in> (graph_edges g)\<^sup>*" if "(node, source) \<in> (graph_edges g)\<^sup>*"
        by (rule leaves_set [OF that old(2) "1.prems"(1) inv])
      ultimately show ?thesis using old unfolding eqn by (auto simp: stack)
    next
      case new
      let ?stack' = "rest @ dget_or g node []"
      have "b \<in> insert node seen \<union> set ?stack'" if "a \<in> insert node seen" "(a, b) \<in> graph_edges g" for a b
        using that "1.prems"(2) [of a b] by (auto simp: stack graph_edges_def)
      then have "dag_loop g source (insert node seen) ?stack' \<longleftrightarrow> (\<exists>x\<in>set ?stack'. (x, source) \<in> (graph_edges g)\<^sup>*)"
        using "1.IH"(2) [OF ne node_def rest_def new] "1.prems"(1) new(1) by blast
      moreover have "(node, source) \<in> (graph_edges g)\<^sup>* \<longleftrightarrow> (\<exists>x\<in>set (dget_or g node []). (x, source) \<in> (graph_edges g)\<^sup>*)"
        using new(1) by (auto simp: graph_edges_def elim: converse_rtranclE intro: converse_rtrancl_into_rtrancl)
      ultimately show ?thesis using new unfolding eqn by (auto simp: stack)
    qed
  qed
qed

section \<open>Queues\<close>

definition sub_ok :: "subscriber \<Rightarrow> bool" where
  "sub_ok b = (0 < sb_maxsize b \<and> length (sb_queue b) \<le> sb_maxsize b)"

definition bounded :: "graph_service \<Rightarrow> bool" where
  "bounded s = (\<forall>uri subs. dget (gr_subscribers s) uri = Some subs \<longrightarrow> list_all sub_ok subs)"

lemma enqueue_ok: "sub_ok b \<Longrightarrow> enqueue p b = Some b' \<Longrightarrow> sub_ok b'"
  by (auto simp: enqueue_def sub_ok_def Let_def split: backpressure.splits if_splits)

lemma deliver_ok: "list_all sub_ok bs \<Longrightarrow> deliver p bs = (ok, bs') \<Longrightarrow> list_all sub_ok bs'"
  by (induction p bs arbitrary: ok bs' rule: deliver.induct)
     (auto split: option.splits prod.splits dest: enqueue_ok)

lemma deliver_to_bounded:
  assumes "bounded s" "deliver_to uri p s = (ok, s')"
  shows "bounded s'"
proof (cases "dget (gr_subscribers s) uri")
  case (Some subs)
  obtain ok' subs' where d: "deliver p subs = (ok', subs')" by fastforce
  have "list_all sub_ok subs'" using deliver_ok [OF _ d] assms(1) Some by (auto simp: bounded_def)
  with assms d Some show ?thesis by (auto simp: deliver_to_def bounded_def split: if_splits)
qed (use assms in \<open>simp add: deliver_to_def\<close>)

lemma publish_links_bounded: "bounded s \<Longrightarrow> publish_links src p ls s = (ok, s') \<Longrightarrow> bounded s'"
  by (induction src p ls s arbitrary: ok s' rule: publish_links.induct)
     (auto split: prod.splits if_splits dest: deliver_to_bounded)

definition no_block :: "graph_service \<Rightarrow> bool" where
  "no_block s = (\<forall>uri subs. dget (gr_subscribers s) uri = Some subs \<longrightarrow> (\<forall>b\<in>set subs. sb_mode b \<noteq> BLOCK))"

lemma enqueue_no_block: "sb_mode b \<noteq> BLOCK \<Longrightarrow> \<exists>b'. enqueue p b = Some b' \<and> sb_mode b' = sb_mode b"
  by (cases "sb_mode b") (auto simp: enqueue_def Let_def)

lemma deliver_no_block:
  "\<forall>b\<in>set bs. sb_mode b \<noteq> BLOCK \<Longrightarrow> \<exists>bs'. deliver p bs = (True, bs') \<and> (\<forall>b\<in>set bs'. sb_mode b \<noteq> BLOCK)"
proof (induction bs)
  case (Cons b bs)
  then obtain b' bs' where "enqueue p b = Some b'" "sb_mode b' = sb_mode b" "deliver p bs = (True, bs')"
    "\<forall>b\<in>set bs'. sb_mode b \<noteq> BLOCK"
    using enqueue_no_block [of b p] by auto
  with Cons.prems show ?case by simp
qed simp

lemma deliver_to_no_block: "no_block s \<Longrightarrow> \<exists>s'. deliver_to uri p s = (True, s') \<and> no_block s'"
proof (cases "dget (gr_subscribers s) uri")
  case (Some subs)
  assume n: "no_block s"
  with Some have "\<forall>b\<in>set subs. sb_mode b \<noteq> BLOCK" by (auto simp: no_block_def)
  from deliver_no_block [OF this, of p] obtain bs' where "deliver p subs = (True, bs')"
    "\<forall>b\<in>set bs'. sb_mode b \<noteq> BLOCK" by blast
  with Some n show ?thesis by (auto simp: deliver_to_def no_block_def)
qed (simp add: deliver_to_def)

lemma publish_links_no_block: "no_block s \<Longrightarrow> \<exists>s'. publish_links src p ls s = (True, s')"
proof (induction ls arbitrary: s)
  case (Cons l ls)
  from deliver_to_no_block [OF Cons.prems] obtain s1 where "deliver_to (el_target l) (enrich src p l) s = (True, s1)" "no_block s1"
    by blast
  with Cons.IH [of s1] show ?case by auto
qed simp

section \<open>Properties\<close>

text \<open>
  C40: the recursive search for a path always returns, whatever cycles the links have: the fuel of the
  model, two more than the number of linked nodes, is enough, more fuel gives the same answer, and
  the answer says whether the target can be reached.
\<close>

theorem path_search_terminates:
  "\<exists>found seen. (\<forall>m. has_path (path_fuel g + m) g src dst [] = Some (found, seen)) \<and>
     found = ((src, dst) \<in> (link_edges g)\<^sup>*)"
proof -
  obtain found seen where r: "has_path (path_fuel g) g src dst [] = Some (found, seen)"
    using path_fuel_enough by blast
  have "has_path (path_fuel g + m) g src dst [] = Some (found, seen)" for m
    by (rule search_more_fuel(1) [OF r])
  moreover have "found = ((src, dst) \<in> (link_edges g)\<^sup>*)"
    using path_exists_iff [of g src dst] r by (simp add: path_exists_def)
  ultimately show ?thesis by blast
qed

text \<open>
  The DAG validator terminates on every graph, cyclic ones included, and rejects an edge
  exactly when its source is reachable from its target, that is when adding it closes a cycle.
\<close>

theorem rejects_cycle_iff: "rejects_cycle g source target \<longleftrightarrow> (target, source) \<in> (graph_edges g)\<^sup>*"
  unfolding rejects_cycle_def by (subst dag_loop_reachable) auto

text \<open>
  C18: with cycles disallowed, entangling keeps an acyclic link graph acyclic whatever the
  outcome; it succeeds exactly when the reverse path does not exist and the link is not
  bidirectional, and then adds exactly that edge.
\<close>

theorem entangle_keeps_dag:
  assumes "acyclic (link_edges g)"
  shows "acyclic (link_edges (snd (entangle l False g))) \<and>
    (fst (entangle l False g) = Return () \<longleftrightarrow>
       (el_target l, el_source l) \<notin> (link_edges g)\<^sup>* \<and> \<not> el_bidirectional l) \<and>
    (fst (entangle l False g) = Return () \<longrightarrow>
       link_edges (snd (entangle l False g)) = insert (el_source l, el_target l) (link_edges g))"
  using assms by (auto simp: entangle_def Let_def path_exists_iff link_edges_add acyclic_insert)

theorem entangle_keeps_dag_witness:
  "acyclic (link_edges (snd (entangle \<lparr>el_source = ''a'', el_target = ''b'', el_relationship = ''r'',
     el_strength = JInt 1, el_sync_mode = PUSH, el_latency_ms = 100, el_bidirectional = False\<rparr> False [])))"
proof -
  have "acyclic (link_edges [])" by (simp add: link_edges_def targets_def dget_or_def acyclic_def)
  from entangle_keeps_dag [OF this] show ?thesis by blast
qed

text \<open>
  A bidirectional link refused under DAG enforcement is stored all the same: the caller sees
  a ValueError and the link is in the graph.
\<close>

theorem entangle_refused_link_stored:
  assumes "el_bidirectional l" "(el_target l, el_source l) \<notin> (link_edges g)\<^sup>*"
  shows "(\<exists>m. fst (entangle l False g) = Raise (ValueError m)) \<and>
    list_links (snd (entangle l False g)) (el_source l) = list_links g (el_source l) @ [l]"
  using assms by (auto simp: entangle_def Let_def path_exists_iff list_links_def add_link_def dget_or_def)

theorem entangle_refused_link_stored_witness:
  "list_links (snd (entangle \<lparr>el_source = ''a'', el_target = ''b'', el_relationship = ''r'',
     el_strength = JInt 1, el_sync_mode = PUSH, el_latency_ms = 100, el_bidirectional = True\<rparr> False [])) ''a'' =
   [\<lparr>el_source = ''a'', el_target = ''b'', el_relationship = ''r'',
     el_strength = JInt 1, el_sync_mode = PUSH, el_latency_ms = 100, el_bidirectional = True\<rparr>]"
proof -
  have "link_edges [] = {}" by (simp add: link_edges_def targets_def dget_or_def)
  then show ?thesis
    using entangle_refused_link_stored [of "\<lparr>el_source = ''a'', el_target = ''b'', el_relationship = ''r'',
     el_strength = JInt 1, el_sync_mode = PUSH, el_latency_ms = 100, el_bidirectional = True\<rparr>" "[]"]
    by (simp add: list_links_def dget_or_def)
qed

text \<open>
  Publishing a patch keeps every subscriber queue within its bound, and when no subscriber
  is in block mode it always completes: full queues drop a payload, they never stop the publisher.
\<close>

theorem publish_bounded:
  assumes "bounded s"
  shows "bounded (snd (publish_patch src payload s)) \<and> (no_block s \<longrightarrow> fst (publish_patch src payload s))"
proof
  show "bounded (snd (publish_patch src payload s))"
  proof -
    obtain ok s1 where s1: "deliver_to src payload s = (ok, s1)" by fastforce
    obtain ok2 s2 where s2: "publish_links src payload (dget_or (gr_links s1) src []) s1 = (ok2, s2)" by fastforce
    have "bounded s1" by (rule deliver_to_bounded [OF assms s1])
    with publish_links_bounded [OF _ s2] s1 s2 show ?thesis by (simp add: publish_patch_def)
  qed
  show "no_block s \<longrightarrow> fst (publish_patch src payload s)"
  proof
    assume "no_block s"
    from deliver_to_no_block [OF this] obtain s1 where s1: "deliver_to src payload s = (True, s1)" "no_block s1"
      by blast
    from publish_links_no_block [OF s1(2)] obtain s2 where
      "publish_links src payload (dget_or (gr_links s1) src []) s1 = (True, s2)" by blast
    with s1 show "fst (publish_patch src payload s)" by (simp add: publish_patch_def)
  qed
qed

theorem publish_bounded_witness:
  "\<exists>sub s. register_subscriber ''u'' 1 ''drop_oldest'' \<lparr>gr_links = [], gr_subscribers = [], gr_next_id = 0\<rparr> = Return (sub, s) \<and>
     bounded (snd (publish_patch ''u'' [(''k'', JInt 1)] s)) \<and> fst (publish_patch ''u'' [(''k'', JInt 1)] s)"
proof -
  let ?sub = "\<lparr>sb_id = 0, sb_maxsize = 1, sb_queue = [], sb_mode = DROP_OLDEST\<rparr>"
  let ?s = "\<lparr>gr_links = [], gr_subscribers = [(''u'', [?sub])], gr_next_id = 1\<rparr>"
  have r: "register_subscriber ''u'' 1 ''drop_oldest'' \<lparr>gr_links = [], gr_subscribers = [], gr_next_id = 0\<rparr> = Return (?sub, ?s)"
    by (simp add: register_subscriber_def parse_mode_def lower_def lower_char_def Let_def dget_or_def)
  have "bounded ?s" "no_block ?s" by (auto simp: bounded_def no_block_def sub_ok_def)
  with publish_bounded [of ?s "''u''" "[(''k'', JInt 1)]"] r show ?thesis by blast
qed

end
