(* ===== verification/Identity_Kernel.thy ===== *)
theory Identity_Kernel
  imports Sha256
begin

text \<open>
  The identity kernel: \<^verbatim>\<open>core/identity/events.py\<close>, \<^verbatim>\<open>model.py\<close>, \<^verbatim>\<open>reducer.py\<close> and \<^verbatim>\<open>uri.py\<close>.
  A state is reduced from a timeline of signed events; every accepted event is appended to the
  state's own timeline, and the state carries the SHA-256 of its canonical JSON.  The dictionaries
  of credentials, entitlements and links keep their rows as dictionaries of JSON values, because
  the reducer adds and removes single keys of them.
\<close>

section \<open>Events\<close>

datatype identity_event_type =
    IDENTITY_CREATE | KEY_ROTATE | CREDENTIAL_ISSUE | CREDENTIAL_REVOKE | ENTITLEMENT_GRANT
  | ENTITLEMENT_REVOKE | LINK_ATTACH | LINK_REVOKE | MEASURE_VERIFY | IDENTITY_FREEZE
  | IDENTITY_ARCHIVE

fun type_value :: "identity_event_type \<Rightarrow> string" where
  "type_value IDENTITY_CREATE = ''IDENTITY_CREATE''"
| "type_value KEY_ROTATE = ''KEY_ROTATE''"
| "type_value CREDENTIAL_ISSUE = ''CREDENTIAL_ISSUE''"
| "type_value CREDENTIAL_REVOKE = ''CREDENTIAL_REVOKE''"
| "type_value ENTITLEMENT_GRANT = ''ENTITLEMENT_GRANT''"
| "type_value ENTITLEMENT_REVOKE = ''ENTITLEMENT_REVOKE''"
| "type_value LINK_ATTACH = ''LINK_ATTACH''"
| "type_value LINK_REVOKE = ''LINK_REVOKE''"
| "type_value MEASURE_VERIFY = ''MEASURE_VERIFY''"
| "type_value IDENTITY_FREEZE = ''IDENTITY_FREEZE''"
| "type_value IDENTITY_ARCHIVE = ''IDENTITY_ARCHIVE''"

definition canonical_event_sequence :: "identity_event_type list" where
  "canonical_event_sequence =
     [IDENTITY_CREATE, KEY_ROTATE, CREDENTIAL_ISSUE, CREDENTIAL_REVOKE, ENTITLEMENT_GRANT,
      ENTITLEMENT_REVOKE, LINK_ATTACH, LINK_REVOKE, MEASURE_VERIFY, IDENTITY_FREEZE,
      IDENTITY_ARCHIVE]"

fun event_schema :: "identity_event_type \<Rightarrow> string list" where
  "event_schema IDENTITY_CREATE = [''immutable_core'']"
| "event_schema KEY_ROTATE = [''key_ref'']"
| "event_schema CREDENTIAL_ISSUE = [''credential_id'']"
| "event_schema CREDENTIAL_REVOKE = [''credential_id'']"
| "event_schema ENTITLEMENT_GRANT = [''entitlement_id'']"
| "event_schema ENTITLEMENT_REVOKE = [''entitlement_id'']"
| "event_schema LINK_ATTACH = [''link_id'', ''target_uri'', ''relationship'']"
| "event_schema LINK_REVOKE = [''link_id'']"
| "event_schema MEASURE_VERIFY = [''measurement_id'']"
| "event_schema IDENTITY_FREEZE = []"
| "event_schema IDENTITY_ARCHIVE = []"

definition parse_identity_event_type :: "string \<Rightarrow> identity_event_type result" where
  "parse_identity_event_type v =
     (case filter (\<lambda>t. type_value t = v) canonical_event_sequence of
        t # _ \<Rightarrow> Return t
      | [] \<Rightarrow> Raise (ValueError (v @ '' is not a valid IdentityEventType'')))"

datatype lifecycle = ACTIVE | FROZEN | ARCHIVED

fun lifecycle_value :: "lifecycle \<Rightarrow> string" where
  "lifecycle_value ACTIVE = ''active''"
| "lifecycle_value FROZEN = ''frozen''"
| "lifecycle_value ARCHIVED = ''archived''"

datatype link_status = LINK_ACTIVE | LINK_INERT

fun link_value :: "link_status \<Rightarrow> json" where
  "link_value LINK_ACTIVE = JStr ''active''"
| "link_value LINK_INERT = JStr ''inert''"

definition link_relationships :: "string list" where
  "link_relationships =
     [''organization_membership'', ''device_binding'', ''credential_linkage'', ''role_assignment'',
      ''multisig_relationship'', ''guardian_relationship'', ''hardware_anchor_binding'']"

record identity_event =
  ie_event_id :: string
  ie_event_type :: identity_event_type
  ie_actor :: string
  ie_policy_version :: string
  ie_payload :: "json dict"
  ie_node_id :: string
  ie_timestamp :: "string option"

section \<open>State\<close>

record timeline_row =
  tr_sequence :: int
  tr_event :: identity_event

record revocation_state =
  rv_status :: lifecycle
  rv_reason :: json
  rv_at_event_id :: "string option"

record identity_state =
  is_uri :: string
  is_metadata :: "json dict"
  is_credential_refs :: "json dict dict"
  is_entitlements :: "json dict dict"
  is_key_refs :: "json list"
  is_links :: "json dict dict"
  is_measurements :: "json list"
  is_revocation :: revocation_state
  is_policy :: string
  is_timeline :: "timeline_row list"
  is_state_hash :: string

definition opt_str :: "string option \<Rightarrow> json" where
  "opt_str s = (case s of None \<Rightarrow> JNull | Some t \<Rightarrow> JStr t)"

definition serialize_identity_event :: "identity_event \<Rightarrow> json" where
  "serialize_identity_event e = JObj
     [(''event_id'', JStr (ie_event_id e)), (''event_type'', JStr (type_value (ie_event_type e))),
      (''actor'', JStr (ie_actor e)), (''policy_version'', JStr (ie_policy_version e)),
      (''payload'', JObj (ie_payload e)), (''node_id'', JStr (ie_node_id e)),
      (''timestamp'', opt_str (ie_timestamp e))]"

definition row_json :: "timeline_row \<Rightarrow> json" where
  "row_json r = (let e = tr_event r in JObj
     [(''sequence'', JInt (tr_sequence r)), (''event_id'', JStr (ie_event_id e)),
      (''event_type'', JStr (type_value (ie_event_type e))), (''actor'', JStr (ie_actor e)),
      (''policy_version'', JStr (ie_policy_version e)), (''node_id'', JStr (ie_node_id e)),
      (''timestamp'', opt_str (ie_timestamp e)), (''payload'', JObj (ie_payload e))])"

definition rows_json :: "json dict dict \<Rightarrow> json" where
  "rows_json d = JObj (map (\<lambda>(k, row). (k, JObj row)) d)"

text \<open>The dictionary of a state without its hash, which \<open>_state_hash\<close> pops.\<close>

definition state_payload :: "identity_state \<Rightarrow> json" where
  "state_payload s = JObj
     [(''identity_uri'', JStr (is_uri s)), (''metadata'', JObj (is_metadata s)),
      (''credential_refs'', rows_json (is_credential_refs s)),
      (''entitlements'', rows_json (is_entitlements s)), (''key_refs'', JArr (is_key_refs s)),
      (''entanglement_links'', rows_json (is_links s)), (''measurements'', JArr (is_measurements s)),
      (''revocation_state'', JObj
         [(''status'', JStr (lifecycle_value (rv_status (is_revocation s)))),
          (''reason'', rv_reason (is_revocation s)),
          (''at_event_id'', opt_str (rv_at_event_id (is_revocation s)))]),
      (''policy_version_pointer'', JStr (is_policy s)),
      (''timeline_log'', JArr (map row_json (is_timeline s)))]"

definition canonical_hash :: "json \<Rightarrow> string" where
  "canonical_hash v = sha256_hex (dumps compact v)"

definition state_hash_of :: "identity_state \<Rightarrow> string" where
  "state_hash_of s = canonical_hash (state_payload s)"

definition empty_identity_state :: "string \<Rightarrow> string \<Rightarrow> identity_state" where
  "empty_identity_state uri policy_version =
     (let state = \<lparr>is_uri = uri, is_metadata = [], is_credential_refs = [], is_entitlements = [],
          is_key_refs = [], is_links = [], is_measurements = [],
          is_revocation = \<lparr>rv_status = ACTIVE, rv_reason = JNull, rv_at_event_id = None\<rparr>,
          is_policy = policy_version, is_timeline = [], is_state_hash = []\<rparr>
      in state\<lparr>is_state_hash := state_hash_of state\<rparr>)"

section \<open>The reducer\<close>

definition require_payload_fields :: "identity_event \<Rightarrow> unit result" where
  "require_payload_fields e =
     (let missing = filter (\<lambda>f. \<not> has_key (ie_payload e) f) (event_schema (ie_event_type e)) in
      if missing \<noteq> []
      then Raise (ValueError (''missing required payload fields for '' @ type_value (ie_event_type e) @
             '': '' @ join '', '' missing))
      else Return ())"

definition is_created :: "identity_state \<Rightarrow> bool" where
  "is_created s = (is_metadata s \<noteq> [])"

definition validate_lifecycle_transition :: "identity_state \<Rightarrow> identity_event \<Rightarrow> unit result" where
  "validate_lifecycle_transition s e =
     (let lifecycle = rv_status (is_revocation s) in
      if lifecycle = ARCHIVED
      then Raise (ValueError ''identity is archived; no further events are allowed'')
      else if lifecycle = FROZEN \<and> ie_event_type e \<notin> {MEASURE_VERIFY, LINK_REVOKE, IDENTITY_ARCHIVE}
      then Raise (ValueError (''identity is frozen; event '' @ type_value (ie_event_type e) @ '' is not allowed''))
      else Return ())"

definition relationship_value :: "string \<Rightarrow> string result" where
  "relationship_value v =
     (if v \<in> set link_relationships then Return v
      else Raise (ValueError (v @ '' is not a valid IdentityLinkRelationship'')))"

text \<open>
  \<open>dict(v)\<close> of a JSON value: an object, or a list of pairs, whose keys have to be strings here.
\<close>

definition dict_item :: "json \<Rightarrow> (string \<times> json) result" where
  "dict_item v = (case v of
       JArr [JStr k, w] \<Rightarrow> Return (k, w)
     | JStr [a, b] \<Rightarrow> Return ([a], JStr [b])
     | _ \<Rightarrow> Raise (TypeError ''cannot convert dictionary update sequence element''))"

definition py_dict :: "json \<Rightarrow> json dict result" where
  "py_dict v = (case v of
       JObj kvs \<Rightarrow> Return kvs
     | JArr xs \<Rightarrow> bindR (mapR dict_item xs) (\<lambda>kvs. Return (dupdate [] kvs))
     | JStr [] \<Rightarrow> Return []
     | _ \<Rightarrow> Raise (TypeError ''object is not iterable''))"

definition payload_str :: "identity_event \<Rightarrow> string \<Rightarrow> string result" where
  "payload_str e k = (case dget (ie_payload e) k of None \<Rightarrow> Raise (KeyError k) | Some v \<Rightarrow> Return (jstr v))"

definition apply_create :: "identity_state \<Rightarrow> identity_event \<Rightarrow> identity_state result" where
  "apply_create s e =
     bindR (py_dict (dget_or (ie_payload e) ''immutable_core'' (JObj []))) (\<lambda>immutable_core.
       if immutable_core = [] then Raise (ValueError ''IDENTITY_CREATE requires non-empty immutable_core'')
       else Return (s\<lparr>is_metadata := dset ''created_event_id'' (JStr (ie_event_id e))
                       (dset ''created_by'' (JStr (ie_actor e)) immutable_core)\<rparr>))"

definition apply_key_rotate :: "identity_state \<Rightarrow> identity_event \<Rightarrow> identity_state result" where
  "apply_key_rotate s e =
     bindR (payload_str e ''key_ref'') (\<lambda>key_ref.
       Return (s\<lparr>is_key_refs := is_key_refs s @
         [JObj [(''key_ref'', JStr key_ref), (''rotated_by'', JStr (ie_actor e)),
                (''event_id'', JStr (ie_event_id e))]]\<rparr>))"

definition apply_credential_issue :: "identity_state \<Rightarrow> identity_event \<Rightarrow> identity_state result" where
  "apply_credential_issue s e =
     bindR (payload_str e ''credential_id'') (\<lambda>credential_id.
       Return (s\<lparr>is_credential_refs := dset credential_id
         [(''status'', link_value LINK_ACTIVE), (''issued_by'', JStr (ie_actor e)),
          (''issued_event_id'', JStr (ie_event_id e)), (''data'', JObj (ie_payload e))]
         (is_credential_refs s)\<rparr>))"

definition revocation_reason :: "identity_event \<Rightarrow> json" where
  "revocation_reason e = dget_or (ie_payload e) ''reason'' JNull"

definition apply_credential_revoke :: "identity_state \<Rightarrow> identity_event \<Rightarrow> identity_state result" where
  "apply_credential_revoke s e =
     bindR (payload_str e ''credential_id'') (\<lambda>credential_id.
       case dget (is_credential_refs s) credential_id of
         None \<Rightarrow> Raise (ValueError (''credential not found: '' @ credential_id))
       | Some current \<Rightarrow>
           Return (s\<lparr>is_credential_refs := dset credential_id
             (dset ''revocation_reason'' (revocation_reason e)
               (dset ''revoked_event_id'' (JStr (ie_event_id e))
                 (dset ''revoked_by'' (JStr (ie_actor e))
                   (dset ''status'' (link_value LINK_INERT) current))))
             (is_credential_refs s)\<rparr>))"

definition apply_entitlement_grant :: "identity_state \<Rightarrow> identity_event \<Rightarrow> identity_state result" where
  "apply_entitlement_grant s e =
     bindR (payload_str e ''entitlement_id'') (\<lambda>entitlement_id.
       Return (s\<lparr>is_entitlements := dset entitlement_id
         [(''status'', link_value LINK_ACTIVE), (''granted_by'', JStr (ie_actor e)),
          (''event_id'', JStr (ie_event_id e)), (''data'', JObj (ie_payload e))]
         (is_entitlements s)\<rparr>))"

definition apply_entitlement_revoke :: "identity_state \<Rightarrow> identity_event \<Rightarrow> identity_state result" where
  "apply_entitlement_revoke s e =
     bindR (payload_str e ''entitlement_id'') (\<lambda>entitlement_id.
       case dget (is_entitlements s) entitlement_id of
         None \<Rightarrow> Raise (ValueError (''entitlement not found: '' @ entitlement_id))
       | Some entitlement \<Rightarrow>
           Return (s\<lparr>is_entitlements := dset entitlement_id
             (dset ''revoked_event_id'' (JStr (ie_event_id e))
               (dset ''revoked_by'' (JStr (ie_actor e))
                 (dset ''status'' (link_value LINK_INERT) entitlement)))
             (is_entitlements s)\<rparr>))"

definition attached_link :: "json dict \<Rightarrow> string \<Rightarrow> string \<Rightarrow> string \<Rightarrow> identity_event \<Rightarrow> json dict" where
  "attached_link record_0 link_id target relationship e =
     dpop ''revocation_reason'' (dpop ''revoked_event_id'' (dpop ''revoked_by''
       (dupdate record_0
         [(''link_id'', JStr link_id), (''target_uri'', JStr target),
          (''relationship'', JStr relationship), (''status'', link_value LINK_ACTIVE),
          (''attached_by'', JStr (ie_actor e)), (''attach_event_id'', JStr (ie_event_id e)),
          (''data'', JObj (ie_payload e))])))"

definition apply_link_attach :: "identity_state \<Rightarrow> identity_event \<Rightarrow> identity_state result" where
  "apply_link_attach s e =
     bindR (payload_str e ''link_id'') (\<lambda>link_id.
     bindR (payload_str e ''target_uri'') (\<lambda>target.
     bindR (bindR (payload_str e ''relationship'') relationship_value) (\<lambda>relationship.
       Return (s\<lparr>is_links := dset link_id
         (attached_link (dget_or (is_links s) link_id []) link_id target relationship e)
         (is_links s)\<rparr>))))"

definition apply_link_revoke :: "identity_state \<Rightarrow> identity_event \<Rightarrow> identity_state result" where
  "apply_link_revoke s e =
     bindR (payload_str e ''link_id'') (\<lambda>link_id.
       case dget (is_links s) link_id of
         None \<Rightarrow> Raise (ValueError (''link not found: '' @ link_id))
       | Some link \<Rightarrow>
           Return (s\<lparr>is_links := dset link_id
             (dset ''revocation_reason'' (revocation_reason e)
               (dset ''revoked_event_id'' (JStr (ie_event_id e))
                 (dset ''revoked_by'' (JStr (ie_actor e))
                   (dset ''status'' (link_value LINK_INERT) link))))
             (is_links s)\<rparr>))"

definition apply_measure_verify :: "identity_state \<Rightarrow> identity_event \<Rightarrow> identity_state result" where
  "apply_measure_verify s e =
     bindR (payload_str e ''measurement_id'') (\<lambda>measurement_id.
       Return (s\<lparr>is_measurements := is_measurements s @
         [JObj [(''measurement_id'', JStr measurement_id),
                (''result'', JBool (truthy (dget_or (ie_payload e) ''result'' (JBool True)))),
                (''measured_by'', JStr (ie_actor e)), (''event_id'', JStr (ie_event_id e)),
                (''data'', JObj (ie_payload e))]]\<rparr>))"

definition set_lifecycle :: "lifecycle \<Rightarrow> identity_state \<Rightarrow> identity_event \<Rightarrow> identity_state" where
  "set_lifecycle l s e = s\<lparr>is_revocation :=
     \<lparr>rv_status = l, rv_reason = revocation_reason e, rv_at_event_id = Some (ie_event_id e)\<rparr>\<rparr>"

fun apply_body :: "identity_event_type \<Rightarrow> identity_state \<Rightarrow> identity_event \<Rightarrow> identity_state result" where
  "apply_body IDENTITY_CREATE s e = apply_create s e"
| "apply_body KEY_ROTATE s e = apply_key_rotate s e"
| "apply_body CREDENTIAL_ISSUE s e = apply_credential_issue s e"
| "apply_body CREDENTIAL_REVOKE s e = apply_credential_revoke s e"
| "apply_body ENTITLEMENT_GRANT s e = apply_entitlement_grant s e"
| "apply_body ENTITLEMENT_REVOKE s e = apply_entitlement_revoke s e"
| "apply_body LINK_ATTACH s e = apply_link_attach s e"
| "apply_body LINK_REVOKE s e = apply_link_revoke s e"
| "apply_body MEASURE_VERIFY s e = apply_measure_verify s e"
| "apply_body IDENTITY_FREEZE s e = Return (set_lifecycle FROZEN s e)"
| "apply_body IDENTITY_ARCHIVE s e = Return (set_lifecycle ARCHIVED s e)"

text \<open>The tail every branch shares: the timeline row, the policy pointer and the hash.\<close>

definition record_event :: "identity_state \<Rightarrow> identity_event \<Rightarrow> identity_state" where
  "record_event s e =
     (let s1 = s\<lparr>is_timeline := is_timeline s @
            [\<lparr>tr_sequence = int (length (is_timeline s)) + 1, tr_event = e\<rparr>],
          is_policy := ie_policy_version e\<rparr>
      in s1\<lparr>is_state_hash := state_hash_of s1\<rparr>)"

definition apply_identity_event :: "identity_state \<Rightarrow> identity_event \<Rightarrow> identity_state result" where
  "apply_identity_event s e =
     bindR (require_payload_fields e) (\<lambda>_.
       if \<not> is_created s \<and> ie_event_type e \<noteq> IDENTITY_CREATE
       then Raise (ValueError ''identity must begin with IDENTITY_CREATE'')
       else if is_created s \<and> ie_event_type e = IDENTITY_CREATE
       then Raise (ValueError ''IDENTITY_CREATE already applied'')
       else bindR (if ie_event_type e \<noteq> IDENTITY_CREATE then validate_lifecycle_transition s e
                   else Return ()) (\<lambda>_.
            bindR (apply_body (ie_event_type e) s e) (\<lambda>s'. Return (record_event s' e))))"

definition reduce_identity_timeline ::
  "string \<Rightarrow> identity_event list \<Rightarrow> string \<Rightarrow> identity_state result" where
  "reduce_identity_timeline uri events policy_version =
     foldR apply_identity_event (empty_identity_state uri policy_version) events"

section \<open>Identity URIs\<close>

definition slug_char :: "char \<Rightarrow> bool" where
  "slug_char c = (let n = code c in 65 \<le> n \<and> n \<le> 90 \<or> 97 \<le> n \<and> n \<le> 122 \<or> 48 \<le> n \<and> n \<le> 57
     \<or> c \<in> {CHR ''.'', CHR ''_'', CHR ''-''})"

definition uri_match :: "string \<Rightarrow> string \<Rightarrow> bool" where
  "uri_match p uri = (prefix p uri \<and> drop (length p) uri \<noteq> [] \<and> list_all slug_char (drop (length p) uri))"

definition is_identity_person_uri :: "string \<Rightarrow> bool" where
  "is_identity_person_uri uri = uri_match ''qso://identity.person.'' uri"

definition is_identity_device_uri :: "string \<Rightarrow> bool" where
  "is_identity_device_uri uri = uri_match ''qso://identity.device.'' uri"

definition is_identity_trust_root_uri :: "string \<Rightarrow> bool" where
  "is_identity_trust_root_uri uri = uri_match ''qso://identity.trustroot.'' uri"

definition validate_identity_person_uri :: "string \<Rightarrow> unit result" where
  "validate_identity_person_uri uri =
     (if is_identity_person_uri uri then Return ()
      else Raise (ValueError (''invalid identity person uri: '' @ uri)))"

section \<open>What the branches change\<close>

lemmas apply_defs = apply_create_def apply_key_rotate_def apply_credential_issue_def
  apply_credential_revoke_def apply_entitlement_grant_def apply_entitlement_revoke_def
  apply_link_attach_def apply_link_revoke_def apply_measure_verify_def set_lifecycle_def

lemma apply_body_frame:
  "apply_body t s e = Inr s' \<Longrightarrow> is_uri s' = is_uri s \<and> is_timeline s' = is_timeline s"
  by (cases t) (auto simp: apply_defs bindR_eq_Return split: option.splits if_splits)

lemma apply_body_created:
  "apply_body t s e = Inr s' \<Longrightarrow> is_created s' \<longleftrightarrow> t = IDENTITY_CREATE \<or> is_created s"
  by (cases t) (auto simp: apply_defs is_created_def bindR_eq_Return update_nonempty
      split: option.splits if_splits)

lemma apply_body_status:
  "apply_body t s e = Inr s' \<Longrightarrow> rv_status (is_revocation s') =
     (if t = IDENTITY_ARCHIVE then ARCHIVED else if t = IDENTITY_FREEZE then FROZEN
      else rv_status (is_revocation s))"
  by (cases t) (auto simp: apply_defs bindR_eq_Return split: option.splits if_splits)

lemma record_event_simps [simp]:
  "is_uri (record_event s e) = is_uri s"
  "is_timeline (record_event s e) =
     is_timeline s @ [\<lparr>tr_sequence = int (length (is_timeline s)) + 1, tr_event = e\<rparr>]"
  "is_policy (record_event s e) = ie_policy_version e"
  "is_revocation (record_event s e) = is_revocation s"
  "is_created (record_event s e) = is_created s"
  "is_links (record_event s e) = is_links s"
  by (simp_all add: record_event_def Let_def is_created_def)

lemma state_hash_update [simp]: "state_hash_of (s\<lparr>is_state_hash := h\<rparr>) = state_hash_of s"
  by (simp add: state_hash_of_def state_payload_def)

lemma record_event_hash [simp]: "is_state_hash (record_event s e) = state_hash_of (record_event s e)"
  by (simp add: record_event_def Let_def)

lemma apply_identity_event_Return:
  "apply_identity_event s e = Inr s' \<longleftrightarrow>
     require_payload_fields e = Inr () \<and> (is_created s \<longleftrightarrow> ie_event_type e \<noteq> IDENTITY_CREATE) \<and>
     (ie_event_type e \<noteq> IDENTITY_CREATE \<longrightarrow> validate_lifecycle_transition s e = Inr ()) \<and>
     (\<exists>b. apply_body (ie_event_type e) s e = Inr b \<and> s' = record_event b e)"
  by (auto simp: apply_identity_event_def bindR_eq_Return split: if_splits)

lemma empty_state_simps [simp]:
  "is_uri (empty_identity_state uri pv) = uri" "is_policy (empty_identity_state uri pv) = pv"
  "is_timeline (empty_identity_state uri pv) = []" "\<not> is_created (empty_identity_state uri pv)"
  "rv_status (is_revocation (empty_identity_state uri pv)) = ACTIVE"
  "is_links (empty_identity_state uri pv) = []"
  by (simp_all add: empty_identity_state_def Let_def is_created_def)

lemma empty_state_hash [simp]:
  "is_state_hash (empty_identity_state uri pv) = state_hash_of (empty_identity_state uri pv)"
  by (simp add: empty_identity_state_def Let_def state_hash_of_def state_payload_def)

section \<open>Reachable states\<close>

inductive reaches :: "string \<Rightarrow> string \<Rightarrow> identity_event list \<Rightarrow> identity_state \<Rightarrow> bool" for uri pv where
  start: "reaches uri pv [] (empty_identity_state uri pv)"
| step: "reaches uri pv es s \<Longrightarrow> apply_identity_event s e = Inr s' \<Longrightarrow> reaches uri pv (es @ [e]) s'"

inductive_cases reaches_NilE: "reaches uri pv [] s"
inductive_cases reaches_snocE: "reaches uri pv (es @ [e]) s"

lemma reduce_snoc:
  "reduce_identity_timeline uri (es @ [e]) pv =
     bindR (reduce_identity_timeline uri es pv) (\<lambda>s. apply_identity_event s e)"
  by (simp add: reduce_identity_timeline_def foldR_append)

lemma reduce_reaches: "reduce_identity_timeline uri es pv = Inr s \<longleftrightarrow> reaches uri pv es s"
proof
  show "reduce_identity_timeline uri es pv = Inr s \<Longrightarrow> reaches uri pv es s"
  proof (induction es arbitrary: s rule: rev_induct)
    case Nil
    then show ?case by (auto simp: reduce_identity_timeline_def intro: reaches.start)
  next
    case (snoc e es)
    then show ?case by (auto simp: reduce_snoc bindR_eq_Return intro: reaches.step)
  qed
  show "reaches uri pv es s \<Longrightarrow> reduce_identity_timeline uri es pv = Inr s"
    by (induction rule: reaches.induct)
       (auto simp: reduce_snoc, simp add: reduce_identity_timeline_def)
qed

lemma reaches_hash: "reaches uri pv es s \<Longrightarrow> is_state_hash s = state_hash_of s"
  by (induction rule: reaches.induct)
     (auto simp: apply_identity_event_Return)

lemma reaches_uri: "reaches uri pv es s \<Longrightarrow> is_uri s = uri"
  by (induction rule: reaches.induct)
     (auto simp: apply_identity_event_Return dest!: apply_body_frame)

lemma reaches_policy:
  "reaches uri pv es s \<Longrightarrow> is_policy s = (if es = [] then pv else ie_policy_version (last es))"
  by (induction rule: reaches.induct)
     (auto simp: apply_identity_event_Return)

lemma reaches_timeline:
  "reaches uri pv es s \<Longrightarrow> map tr_event (is_timeline s) = es \<and>
     map tr_sequence (is_timeline s) = map int [1..<Suc (length es)]"
proof (induction rule: reaches.induct)
  case start
  then show ?case by simp
next
  case (step es s e s')
  then have "length (is_timeline s) = length es" by (metis length_map)
  with step show ?case by (auto simp: apply_identity_event_Return dest!: apply_body_frame)
qed

lemma reaches_created: "reaches uri pv es s \<Longrightarrow> is_created s \<longleftrightarrow> es \<noteq> []"
  by (induction rule: reaches.induct)
     (auto simp: apply_identity_event_Return dest!: apply_body_created)

definition create_first :: "identity_event list \<Rightarrow> bool" where
  "create_first es = (case es of [] \<Rightarrow> True
     | e # rest \<Rightarrow> ie_event_type e = IDENTITY_CREATE \<and> (\<forall>x\<in>set rest. ie_event_type x \<noteq> IDENTITY_CREATE))"

lemma reaches_create_first: "reaches uri pv es s \<Longrightarrow> create_first es"
proof (induction rule: reaches.induct)
  case start
  then show ?case by (simp add: create_first_def)
next
  case (step es s e s')
  with reaches_created [OF step.hyps(1)] show ?case
    by (cases es) (auto simp: create_first_def apply_identity_event_Return)
qed

definition lifecycle_of :: "identity_event_type set \<Rightarrow> lifecycle" where
  "lifecycle_of ts = (if IDENTITY_ARCHIVE \<in> ts then ARCHIVED else if IDENTITY_FREEZE \<in> ts then FROZEN else ACTIVE)"

lemma validate_lifecycle_Return:
  "validate_lifecycle_transition s e = Inr () \<longleftrightarrow> rv_status (is_revocation s) \<noteq> ARCHIVED \<and>
     (rv_status (is_revocation s) = FROZEN \<longrightarrow> ie_event_type e \<in> {MEASURE_VERIFY, LINK_REVOKE, IDENTITY_ARCHIVE})"
  by (auto simp: validate_lifecycle_transition_def Let_def)

lemma reaches_status:
  "reaches uri pv es s \<Longrightarrow> rv_status (is_revocation s) = lifecycle_of (ie_event_type ` set es)"
proof (induction rule: reaches.induct)
  case start
  then show ?case by (simp add: lifecycle_of_def)
next
  case (step es s e s')
  then obtain b where b: "apply_body (ie_event_type e) s e = Inr b" "s' = record_event b e"
    and v: "ie_event_type e \<noteq> IDENTITY_CREATE \<longrightarrow> validate_lifecycle_transition s e = Inr ()"
    and c: "is_created s \<longleftrightarrow> ie_event_type e \<noteq> IDENTITY_CREATE"
    by (auto simp: apply_identity_event_Return)
  have "es = []" if "ie_event_type e = IDENTITY_CREATE"
    using that c reaches_created [OF step.hyps(1)] by simp
  with apply_body_status [OF b(1)] v step.IH b(2) show ?case
    by (auto simp: lifecycle_of_def validate_lifecycle_Return split: if_splits)
qed

lemma reaches_prefix: "reaches uri pv (es @ fs) s \<Longrightarrow> \<exists>t. reaches uri pv es t"
proof (induction fs arbitrary: s rule: rev_induct)
  case (snoc f fs)
  from snoc.prems have "reaches uri pv ((es @ fs) @ [f]) s" by simp
  then obtain t where "reaches uri pv (es @ fs) t" by (rule reaches_snocE) auto
  with snoc.IH show ?case by blast
qed auto

lemma reaches_after:
  assumes "reaches uri pv (es @ f # fs) s"
  obtains t where "reaches uri pv es t" "is_created t \<longleftrightarrow> ie_event_type f \<noteq> IDENTITY_CREATE"
    "ie_event_type f \<noteq> IDENTITY_CREATE \<longrightarrow> validate_lifecycle_transition t f = Inr ()"
proof -
  from assms have "reaches uri pv ((es @ [f]) @ fs) s" by simp
  then obtain t where "reaches uri pv (es @ [f]) t" by (blast dest: reaches_prefix)
  then show ?thesis by (rule reaches_snocE) (auto simp: apply_identity_event_Return intro: that)
qed

section \<open>Properties\<close>

text \<open>
  C4: the state reduced from a timeline records that timeline: its rows are the events numbered
  from one, the policy pointer is the last event's, the stored hash is the hash of the rest of
  the state, exactly the first event is a creation, and replaying the stored rows gives the same
  state again.
\<close>

theorem identity_timeline_faithful:
  assumes "reduce_identity_timeline uri es pv = Return s"
  shows "map tr_event (is_timeline s) = es \<and> map tr_sequence (is_timeline s) = map int [1..<Suc (length es)] \<and>
    is_uri s = uri \<and> is_policy s = (if es = [] then pv else ie_policy_version (last es)) \<and>
    is_state_hash s = state_hash_of s \<and> create_first es \<and>
    reduce_identity_timeline uri (map tr_event (is_timeline s)) pv = Return s"
proof -
  have r: "reaches uri pv es s" using assms by (simp add: reduce_reaches)
  from reaches_timeline [OF r] have "map tr_event (is_timeline s) = es" by blast
  then show ?thesis
    using assms reaches_timeline [OF r] reaches_uri [OF r] reaches_policy [OF r] reaches_hash [OF r]
      reaches_create_first [OF r] by simp
qed

definition sample_create :: identity_event where
  "sample_create = \<lparr>ie_event_id = ''e1'', ie_event_type = IDENTITY_CREATE, ie_actor = ''root'',
     ie_policy_version = ''v1'', ie_payload = [(''immutable_core'', JObj [(''k'', JInt 1)])],
     ie_node_id = ''local'', ie_timestamp = None\<rparr>"

definition sample_event :: "identity_event_type \<Rightarrow> identity_event" where
  "sample_event t = sample_create\<lparr>ie_event_id := ''e2'', ie_event_type := t\<rparr>"

lemma sample_create_ok: "\<exists>s. reaches uri pv [sample_create] s"
proof -
  have "\<exists>s. apply_identity_event (empty_identity_state uri pv) sample_create = Inr s"
    by (simp add: apply_identity_event_def sample_create_def require_payload_fields_def has_key_def
        apply_create_def py_dict_def dget_or_def Let_def)
  then show ?thesis using reaches.step [OF reaches.start, of uri pv sample_create] by auto
qed

theorem identity_timeline_faithful_witness:
  "\<exists>s. reduce_identity_timeline ''u'' [sample_create] ''v0'' = Return s \<and>
     map tr_event (is_timeline s) = [sample_create] \<and> is_policy s = ''v1''"
proof -
  obtain s where s: "reduce_identity_timeline ''u'' [sample_create] ''v0'' = Return s"
    using sample_create_ok by (auto simp: reduce_reaches)
  with identity_timeline_faithful [OF s] show ?thesis by (auto simp: sample_create_def)
qed

text \<open>
  C3: in every accepted timeline an archive event is the last one, and after a freeze only
  measurements, link revocations and the archive are accepted; the state's status is the one the
  events imply.
\<close>

theorem identity_lifecycle_safe:
  assumes "reduce_identity_timeline uri (es @ e # fs) pv = Return s"
  shows "(ie_event_type e = IDENTITY_ARCHIVE \<longrightarrow> fs = []) \<and>
    (ie_event_type e = IDENTITY_FREEZE \<longrightarrow>
       (\<forall>f\<in>set fs. ie_event_type f \<in> {MEASURE_VERIFY, LINK_REVOKE, IDENTITY_ARCHIVE})) \<and>
    rv_status (is_revocation s) = lifecycle_of (ie_event_type ` set (es @ e # fs))"
proof -
  have r: "reaches uri pv (es @ e # fs) s" using assms by (simp add: reduce_reaches)
  have after: "lifecycle_of (ie_event_type ` set (es @ e # gs)) \<noteq> ARCHIVED \<and>
      (lifecycle_of (ie_event_type ` set (es @ e # gs)) = FROZEN \<longrightarrow>
         ie_event_type f \<in> {MEASURE_VERIFY, LINK_REVOKE, IDENTITY_ARCHIVE})"
    if fs: "fs = gs @ f # hs" for gs f hs
  proof -
    from r fs have "reaches uri pv ((es @ e # gs) @ f # hs) s" by simp
    then obtain t where t: "reaches uri pv (es @ e # gs) t" "is_created t \<longleftrightarrow> ie_event_type f \<noteq> IDENTITY_CREATE"
      "ie_event_type f \<noteq> IDENTITY_CREATE \<longrightarrow> validate_lifecycle_transition t f = Inr ()"
      by (rule reaches_after)
    have "is_created t" using reaches_created [OF t(1)] by simp
    with t show ?thesis using reaches_status [OF t(1)] by (simp add: validate_lifecycle_Return)
  qed
  have "ie_event_type e = IDENTITY_ARCHIVE \<Longrightarrow> fs = []"
    using after [of "[]"] by (cases fs) (auto simp: lifecycle_of_def)
  moreover have "ie_event_type f \<in> {MEASURE_VERIFY, LINK_REVOKE, IDENTITY_ARCHIVE}"
    if "ie_event_type e = IDENTITY_FREEZE" "f \<in> set fs" for f
  proof -
    from that(2) obtain gs hs where "fs = gs @ f # hs" by (auto simp: in_set_conv_decomp)
    from after [OF this] that(1) show ?thesis by (auto simp: lifecycle_of_def split: if_splits)
  qed
  ultimately show ?thesis using reaches_status [OF r] by blast
qed

theorem identity_lifecycle_safe_witness:
  "\<exists>s. reduce_identity_timeline ''u'' [sample_create, sample_event IDENTITY_FREEZE] ''v0'' = Return s \<and>
     rv_status (is_revocation s) = FROZEN"
proof -
  obtain s where s: "reaches ''u'' ''v0'' [sample_create] s" using sample_create_ok by blast
  have "\<exists>s'. apply_identity_event s (sample_event IDENTITY_FREEZE) = Inr s'"
    using reaches_created [OF s] reaches_status [OF s]
    by (simp add: apply_identity_event_def sample_event_def require_payload_fields_def
        validate_lifecycle_transition_def lifecycle_of_def sample_create_def)
  then obtain s' where "reaches ''u'' ''v0'' ([sample_create] @ [sample_event IDENTITY_FREEZE]) s'"
    using reaches.step [OF s] by blast
  then have s': "reduce_identity_timeline ''u'' ([sample_create] @ sample_event IDENTITY_FREEZE # []) ''v0'' = Return s'"
    by (simp add: reduce_reaches)
  from identity_lifecycle_safe [OF s'] s' show ?thesis
    by (auto simp: lifecycle_of_def sample_event_def sample_create_def)
qed

text \<open>
  An accepted attach leaves the link active with no trace of an earlier revocation, an
  accepted revocation leaves it inert with the revoker and the reason, and neither touches any
  other link, credential, entitlement or key of the identity.
\<close>

theorem link_status_spec:
  assumes "apply_identity_event s e = Return s'"
    and "ie_event_type e = LINK_ATTACH \<or> ie_event_type e = LINK_REVOKE"
  shows "\<exists>l row. dget (ie_payload e) ''link_id'' = Some l \<and> dget (is_links s') (jstr l) = Some row \<and>
    (if ie_event_type e = LINK_ATTACH
     then dget row ''status'' = Some (JStr ''active'') \<and> dget row ''attached_by'' = Some (JStr (ie_actor e)) \<and>
          (\<forall>k\<in>{''revoked_by'', ''revoked_event_id'', ''revocation_reason''}. dget row k = None)
     else dget row ''status'' = Some (JStr ''inert'') \<and> dget row ''revoked_by'' = Some (JStr (ie_actor e)) \<and>
          dget row ''revocation_reason'' = Some (revocation_reason e) \<and> dget (is_links s) (jstr l) \<noteq> None) \<and>
    (\<forall>k. k \<noteq> jstr l \<longrightarrow> dget (is_links s') k = dget (is_links s) k) \<and>
    is_credential_refs s' = is_credential_refs s \<and> is_entitlements s' = is_entitlements s \<and>
    is_key_refs s' = is_key_refs s"
proof -
  from assms(1) obtain b where b: "apply_body (ie_event_type e) s e = Inr b" "s' = record_event b e"
    by (auto simp: apply_identity_event_Return)
  have rec: "is_links s' = is_links b" "is_credential_refs s' = is_credential_refs b"
    "is_entitlements s' = is_entitlements b" "is_key_refs s' = is_key_refs b"
    by (simp_all add: b(2) record_event_def Let_def)
  from assms(2) show ?thesis
  proof
    assume t: "ie_event_type e = LINK_ATTACH"
    with b(1) obtain l target rel where "dget (ie_payload e) ''link_id'' = Some l"
      and "b = s\<lparr>is_links := dset (jstr l)
         (attached_link (dget_or (is_links s) (jstr l) []) (jstr l) target rel e) (is_links s)\<rparr>"
      by (auto simp: apply_link_attach_def payload_str_def bindR_eq_Return split: option.splits)
    with t rec show ?thesis by (simp add: attached_link_def dupdate_def)
  next
    assume t: "ie_event_type e = LINK_REVOKE"
    with b(1) obtain l link where "dget (ie_payload e) ''link_id'' = Some l" "dget (is_links s) (jstr l) = Some link"
      and "b = s\<lparr>is_links := dset (jstr l)
             (dset ''revocation_reason'' (revocation_reason e)
               (dset ''revoked_event_id'' (JStr (ie_event_id e))
                 (dset ''revoked_by'' (JStr (ie_actor e))
                   (dset ''status'' (link_value LINK_INERT) link)))) (is_links s)\<rparr>"
      by (auto simp: apply_link_revoke_def payload_str_def bindR_eq_Return split: option.splits)
    with t rec show ?thesis by simp
  qed
qed

theorem link_status_spec_witness:
  "\<exists>s s' row. apply_identity_event s (sample_event LINK_ATTACH\<lparr>ie_payload :=
       [(''link_id'', JStr ''l''), (''target_uri'', JStr ''t''), (''relationship'', JStr ''device_binding'')]\<rparr>) = Return s' \<and>
     dget (is_links s') ''l'' = Some row \<and> dget row ''status'' = Some (JStr ''active'')"
proof -
  let ?e = "sample_event LINK_ATTACH\<lparr>ie_payload :=
       [(''link_id'', JStr ''l''), (''target_uri'', JStr ''t''), (''relationship'', JStr ''device_binding'')]\<rparr>"
  obtain s where s: "reaches ''u'' ''v0'' [sample_create] s" using sample_create_ok by blast
  have "\<exists>s'. apply_identity_event s ?e = Inr s'"
    using reaches_created [OF s] reaches_status [OF s]
    by (simp add: apply_identity_event_def sample_event_def require_payload_fields_def has_key_def
        validate_lifecycle_transition_def lifecycle_of_def sample_create_def apply_link_attach_def
        payload_str_def jstr_def relationship_value_def link_relationships_def)
  then obtain s' where s': "apply_identity_event s ?e = Return s'" by blast
  have "ie_event_type ?e = LINK_ATTACH \<or> ie_event_type ?e = LINK_REVOKE" by (simp add: sample_event_def)
  from link_status_spec [OF s' this] obtain l row where "dget (ie_payload ?e) ''link_id'' = Some l"
    "dget (is_links s') (jstr l) = Some row" "dget row ''status'' = Some (JStr ''active'')"
    by (auto simp: sample_event_def)
  moreover have "l = JStr ''l''" using \<open>dget (ie_payload ?e) ''link_id'' = Some l\<close> by simp
  ultimately have "dget (is_links s') ''l'' = Some row" by (simp add: jstr_def)
  with s' \<open>dget row ''status'' = Some (JStr ''active'')\<close> show ?thesis by blast
qed

lemma state_payload_get:
  "jget (state_payload s) ''identity_uri'' = Some (JStr (is_uri s))"
  "jget (state_payload s) ''policy_version_pointer'' = Some (JStr (is_policy s))"
  "jget (state_payload s) ''timeline_log'' = Some (JArr (map row_json (is_timeline s)))"
  by (simp_all add: state_payload_def jget_def)

lemma row_json_id: "jget (row_json r) ''event_id'' = Some (JStr (ie_event_id (tr_event r)))"
  by (simp add: row_json_def jget_def Let_def)

lemma rows_ids:
  assumes "map (sort_json \<circ> row_json) rs = map (sort_json \<circ> row_json) ts"
    and "\<forall>r\<in>set rs \<union> set ts. wf_json (row_json r)"
  shows "map (ie_event_id \<circ> tr_event) rs = map (ie_event_id \<circ> tr_event) ts"
  using assms
proof (induction rs ts rule: list_induct2')
  case (4 r rs t ts)
  then have "sort_json (JStr (ie_event_id (tr_event r))) = sort_json (JStr (ie_event_id (tr_event t)))"
    by (intro sort_json_eqD [of "row_json r" "row_json t", OF _ _ _ row_json_id row_json_id]) auto
  with 4 show ?case by simp
qed auto

text \<open>
  The state hash commits to the state: two reduced states with the same hash, whose
  serialised forms do not collide, agree on the identity, the policy pointer, the lifecycle status
  and the whole sequence of event ids, and their canonical forms are equal.
\<close>

theorem identity_state_hash_binds:
  assumes "reduce_identity_timeline u es p = Return s" "reduce_identity_timeline u' es' p' = Return s'"
    and "is_state_hash s = is_state_hash s'"
    and "wf_json (state_payload s)" "wf_json (state_payload s')"
    and "inj_on sha256_hex {dumps compact (state_payload s), dumps compact (state_payload s')}"
  shows "sort_json (state_payload s) = sort_json (state_payload s') \<and> u = u' \<and> is_policy s = is_policy s' \<and>
    map ie_event_id es = map ie_event_id es'"
proof -
  from assms(1,2) have r: "reaches u p es s" "reaches u' p' es' s'" by (simp_all add: reduce_reaches)
  have "sha256_hex (dumps compact (state_payload s)) = sha256_hex (dumps compact (state_payload s'))"
    using assms(3) reaches_hash [OF r(1)] reaches_hash [OF r(2)] by (simp add: state_hash_of_def canonical_hash_def)
  then have "dumps compact (state_payload s) = dumps compact (state_payload s')"
    using assms(6) by (auto dest: inj_onD)
  then have eq: "sort_json (state_payload s) = sort_json (state_payload s')"
    by (intro dumps_inj [OF _ assms(4,5)]) auto
  note get = sort_json_eqD [OF eq assms(4,5)]
  have "sort_json (JStr (is_uri s)) = sort_json (JStr (is_uri s'))"
    and "sort_json (JStr (is_policy s)) = sort_json (JStr (is_policy s'))"
    and rows: "sort_json (JArr (map row_json (is_timeline s))) = sort_json (JArr (map row_json (is_timeline s')))"
    by (rule get; rule state_payload_get)+
  moreover have "map (ie_event_id \<circ> tr_event) (is_timeline s) = map (ie_event_id \<circ> tr_event) (is_timeline s')"
  proof (rule rows_ids)
    show "map (sort_json \<circ> row_json) (is_timeline s) = map (sort_json \<circ> row_json) (is_timeline s')"
      using rows by simp
    show "\<forall>r\<in>set (is_timeline s) \<union> set (is_timeline s'). wf_json (row_json r)"
      using assms(4,5) by (auto simp: state_payload_def list_all_iff)
  qed
  then have "map ie_event_id es = map ie_event_id es'"
    using reaches_timeline [OF r(1)] reaches_timeline [OF r(2)] by (metis map_map)
  ultimately show ?thesis using eq reaches_uri [OF r(1)] reaches_uri [OF r(2)] by simp
qed

theorem identity_state_hash_binds_witness:
  "\<exists>s. reduce_identity_timeline ''u'' [] ''v0'' = Return s \<and> is_state_hash s = state_hash_of s \<and>
     sort_json (state_payload s) = sort_json (state_payload s)"
proof -
  have s: "reduce_identity_timeline ''u'' [] ''v0'' = Return (empty_identity_state ''u'' ''v0'')"
    by (simp add: reduce_identity_timeline_def)
  have "wf_json (state_payload (empty_identity_state ''u'' ''v0''))"
    by (simp add: state_payload_def empty_identity_state_def rows_json_def opt_str_def Let_def)
  from identity_state_hash_binds [OF s s refl this this] s show ?thesis by auto
qed

end
