(* ===== verification/State_Engine.thy ===== *)
theory State_Engine
  imports Event_Log Entanglement Identity_Kernel
begin

text \<open>
  \<^verbatim>\<open>services/registry\<close>, \<^verbatim>\<open>services/state_engine\<close> and \<^verbatim>\<open>services/identity_authority\<close>: objects whose
  state layer is the deep merge of the deltas in the event log.  Operations that change state
  return their outcome with the engine afterwards, because a call that raises may already have
  advanced the clock.  Fresh event ids and the wall clock are arguments; the event log runs
  without a store and an index here, so its append cannot fail.
\<close>

section \<open>Deep merge\<close>

fun deep_merge :: "json dict \<Rightarrow> json dict \<Rightarrow> json dict" where
  "deep_merge out [] = out"
| "deep_merge out ((k, v) # rest) =
     deep_merge
       (case v of
          JObj dv \<Rightarrow>
            (case dget out k of
               Some (JObj tv) \<Rightarrow> dset k (JObj (deep_merge tv dv)) out
             | _ \<Rightarrow> dset k v out)
        | _ \<Rightarrow> dset k v out)
       rest"

section \<open>Registry\<close>

record qso_object =
  ob_uri :: string
  ob_schema :: "json dict"
  ob_identity_layer :: "json dict"
  ob_state_layer :: "json dict"
  ob_timeline :: "qso_event list"
  ob_entanglement :: "entanglement_link list"
  ob_snapshot_layer :: "json dict"

type_synonym registry = "qso_object dict"

definition rg_create :: "qso_object \<Rightarrow> registry \<Rightarrow> (qso_object \<times> registry) result" where
  "rg_create obj r =
     (if has_key r (ob_uri obj) then Raise (ValueError (''QSO already exists: '' @ ob_uri obj))
      else Return (obj, dset (ob_uri obj) obj r))"

definition rg_read :: "string \<Rightarrow> registry \<Rightarrow> qso_object result" where
  "rg_read uri r = (case dget r uri of None \<Rightarrow> Raise (KeyError (''QSO not found: '' @ uri)) | Some obj \<Rightarrow> Return obj)"

definition rg_update :: "qso_object \<Rightarrow> registry \<Rightarrow> registry result" where
  "rg_update obj r =
     (if \<not> has_key r (ob_uri obj) then Raise (KeyError (''QSO not found: '' @ ob_uri obj))
      else Return (dset (ob_uri obj) obj r))"

definition rg_has :: "string \<Rightarrow> registry \<Rightarrow> bool" where
  "rg_has uri r = has_key r uri"

definition rg_list_uris :: "registry \<Rightarrow> string list" where
  "rg_list_uris r = sort (dkeys r)"

section \<open>The engine\<close>

text \<open>The policy resolver is the policy it returns at the time of the call.\<close>

record engine =
  eg_registry :: registry
  eg_log :: "unit event_log"
  eg_crypto :: crypto
  eg_clock :: logical_clock
  eg_policy :: "json dict option"

definition append_log :: "qso_event \<Rightarrow> unit event_log \<Rightarrow> unit event_log" where
  "append_log e l = snd (el_append (\<lambda>_. JNull) (\<lambda>_ s. Return s) e l)"

definition create_object ::
  "string \<Rightarrow> string \<Rightarrow> json dict \<Rightarrow> string \<Rightarrow> engine \<Rightarrow> qso_object result \<times> engine" where
  "create_object now uri schema actor g =
     (let obj = \<lparr>ob_uri = uri, ob_schema = schema,
            ob_identity_layer = [(''uri'', JStr uri), (''created_by'', JStr actor), (''created_at'', JStr now)],
            ob_state_layer = [], ob_timeline = [], ob_entanglement = [], ob_snapshot_layer = []\<rparr>
      in case rg_create obj (eg_registry g) of
           Inl err \<Rightarrow> (Raise err, g)
         | Inr (obj', r') \<Rightarrow> (Return obj', g\<lparr>eg_registry := r'\<rparr>))"

definition eg_read :: "string \<Rightarrow> engine \<Rightarrow> qso_object result" where
  "eg_read uri g = rg_read uri (eg_registry g)"

definition check_policy :: "json dict option \<Rightarrow> string \<Rightarrow> string \<Rightarrow> unit result" where
  "check_policy policy policy_version actor =
     (case policy of
        None \<Rightarrow> Return ()
      | Some p \<Rightarrow>
          (let expected = jstr (dget_or p ''version'' (JStr policy_version)) in
           if policy_version \<noteq> expected
           then Raise (ValueError (''policy version mismatch: event='' @ policy_version @ '', runtime='' @ expected))
           else (case dget p ''allowed_actors'' of
               Some (JArr allowed) \<Rightarrow>
                 if allowed \<noteq> [] \<and> JStr actor \<notin> set allowed
                 then Raise (ValueError (''actor not authorized by policy: '' @ actor)) else Return ()
             | _ \<Rightarrow> Return ())))"

definition patch ::
  "string \<Rightarrow> string \<Rightarrow> json dict \<Rightarrow> string \<Rightarrow> string \<Rightarrow> string \<Rightarrow> engine \<Rightarrow> qso_event result \<times> engine" where
  "patch event_id uri delta actor policy_version node_id g =
     (case bindR (check_policy (eg_policy g) policy_version actor) (\<lambda>_. rg_read uri (eg_registry g)) of
        Inl err \<Rightarrow> (Raise err, g)
      | Inr obj \<Rightarrow>
          (case next_datetime (eg_clock g) of (ts, clock) \<Rightarrow>
             let next_state = deep_merge (ob_state_layer obj) delta;
                 e0 = \<lparr>qe_schema_version = SCHEMA_VERSION, qe_event_id = event_id, qe_timestamp = ts,
                       qe_actor = actor, qe_object_uri = uri, qe_delta = delta, qe_signature = [],
                       qe_policy_version = policy_version, qe_node_id = node_id\<rparr>;
                 g1 = g\<lparr>eg_clock := clock\<rparr>
             in case qso_event_payload e0 of
                  Inl err \<Rightarrow> (Raise err, g1)
                | Inr payload \<Rightarrow>
                    let e = e0\<lparr>qe_signature := sign (eg_crypto g) payload\<rparr>;
                        obj' = obj\<lparr>ob_state_layer := next_state, ob_timeline := ob_timeline obj @ [e]\<rparr>
                    in case rg_update obj' (eg_registry g1) of
                         Inl err \<Rightarrow> (Raise err, g1)
                       | Inr r' \<Rightarrow> (Return e, g1\<lparr>eg_registry := r', eg_log := append_log e (eg_log g1)\<rparr>)))"

text \<open>The kernel events recorded in the log of an identity.\<close>

definition kernel_event :: "qso_event \<Rightarrow> identity_event list result" where
  "kernel_event e =
     (case dget (qe_delta e) ''identity_event'' of
        Some (JObj raw) \<Rightarrow>
          (let payload = (case dget_or raw ''payload'' (JObj []) of JObj p \<Rightarrow> p | _ \<Rightarrow> []);
               given = (\<lambda>k d. case dget_or raw k JNull of JNull \<Rightarrow> d | v \<Rightarrow> jstr v)
           in case dget_or raw ''event_type'' JNull of
                JNull \<Rightarrow> Raise (ValueError ''identity_event missing event_type'')
              | t \<Rightarrow> bindR (parse_identity_event_type (jstr t)) (\<lambda>ty.
                  Return [\<lparr>ie_event_id = given ''event_id'' (qe_event_id e), ie_event_type = ty,
                    ie_actor = jstr (dget_or raw ''actor'' (JStr (qe_actor e))),
                    ie_policy_version = jstr (dget_or raw ''policy_version'' (JStr (qe_policy_version e))),
                    ie_payload = payload,
                    ie_node_id = jstr (dget_or raw ''node_id'' (JStr (qe_node_id e))),
                    ie_timestamp = Some (given ''timestamp'' (isoformat (qe_timestamp e)))\<rparr>]))
      | _ \<Rightarrow> Return [])"

definition identity_kernel_events :: "string \<Rightarrow> bool \<Rightarrow> engine \<Rightarrow> identity_event list result \<times> engine" where
  "identity_kernel_events uri strict g =
     (case el_replay uri strict (eg_log g) of (res, l') \<Rightarrow>
        (bindR res (\<lambda>events. bindR (mapR kernel_event events) (\<lambda>ess. Return (concat ess))),
         g\<lparr>eg_log := l'\<rparr>))"

text \<open>The reduced state with its hash, as it is merged into the object.\<close>

definition identity_state_json :: "identity_state \<Rightarrow> json" where
  "identity_state_json s = (case state_payload s of JObj kvs \<Rightarrow> JObj (kvs @ [(''state_hash'', JStr (is_state_hash s))]) | v \<Rightarrow> v)"

definition eg_apply_identity_event ::
  "string \<Rightarrow> string \<Rightarrow> string \<Rightarrow> identity_event_type result \<Rightarrow> json dict \<Rightarrow> string \<Rightarrow> string \<Rightarrow> string \<Rightarrow>
   engine \<Rightarrow> qso_event result \<times> engine" where
  "eg_apply_identity_event id1 id2 uri event_type payload actor policy_version node_id g =
     (case bindR (validate_identity_person_uri uri) (\<lambda>_.
             if rg_has uri (eg_registry g) then event_type else Raise (KeyError (''identity not found: '' @ uri))) of
        Inl err \<Rightarrow> (Raise err, g)
      | Inr ty \<Rightarrow>
          (case next_datetime (eg_clock g) of (ts, clock) \<Rightarrow>
             let ke = \<lparr>ie_event_id = id1, ie_event_type = ty, ie_actor = actor,
                       ie_policy_version = policy_version, ie_payload = payload, ie_node_id = node_id,
                       ie_timestamp = Some (isoformat ts)\<rparr>
             in case identity_kernel_events uri True (g\<lparr>eg_clock := clock\<rparr>) of
                  (Inl err, g1) \<Rightarrow> (Raise err, g1)
                | (Inr prior, g1) \<Rightarrow>
                    (case reduce_identity_timeline uri (prior @ [ke]) policy_version of
                       Inl err \<Rightarrow> (Raise err, g1)
                     | Inr s \<Rightarrow>
                         patch id2 uri
                           [(''identity_event'', serialize_identity_event ke),
                            (''identity_runtime'', identity_state_json s)]
                           actor policy_version node_id g1)))"

definition eg_create_identity ::
  "string \<Rightarrow> string \<Rightarrow> string \<Rightarrow> string \<Rightarrow> json dict \<Rightarrow> string \<Rightarrow> string \<Rightarrow> string \<Rightarrow>
   engine \<Rightarrow> qso_event result \<times> engine" where
  "eg_create_identity now id1 id2 uri immutable_core actor policy_version node_id g =
     (case bindR (validate_identity_person_uri uri) (\<lambda>_.
             if rg_has uri (eg_registry g) then Raise (ValueError (''identity already exists: '' @ uri)) else Return ()) of
        Inl err \<Rightarrow> (Raise err, g)
      | Inr _ \<Rightarrow>
          (case create_object now uri [(''type'', JStr ''identity''), (''subtype'', JStr ''person'')] actor g of
             (Inl err, g1) \<Rightarrow> (Raise err, g1)
           | (Inr _, g1) \<Rightarrow>
               eg_apply_identity_event id1 id2 uri (Return IDENTITY_CREATE)
                 [(''immutable_core'', JObj immutable_core)] actor policy_version node_id g1))"

definition rebuild_identity_state :: "string \<Rightarrow> bool \<Rightarrow> engine \<Rightarrow> identity_state result \<times> engine" where
  "rebuild_identity_state uri strict g =
     (case validate_identity_person_uri uri of
        Inl err \<Rightarrow> (Raise err, g)
      | Inr _ \<Rightarrow>
          (case identity_kernel_events uri strict g of
             (Inl err, g1) \<Rightarrow> (Raise err, g1)
           | (Inr events, g1) \<Rightarrow>
               (case events of
                  [] \<Rightarrow> (Return (empty_identity_state uri ''v1''), g1)
                | e # _ \<Rightarrow> (reduce_identity_timeline uri events (ie_policy_version e), g1))))"

definition rebuild_from_log :: "string \<Rightarrow> bool \<Rightarrow> engine \<Rightarrow> json dict result \<times> engine" where
  "rebuild_from_log uri strict g =
     (case el_replay uri strict (eg_log g) of (res, l') \<Rightarrow>
        (bindR res (\<lambda>events. Return (foldl (\<lambda>state e. deep_merge state (qe_delta e)) [] events)),
         g\<lparr>eg_log := l'\<rparr>))"

section \<open>The identity authority\<close>

text \<open>Each operation is one identity event with the payload the service builds.\<close>

type_synonym authority_call = "string \<Rightarrow> string \<Rightarrow> string \<Rightarrow> string \<Rightarrow> string \<Rightarrow> engine \<Rightarrow> qso_event result \<times> engine"

definition authority_event ::
  "identity_event_type \<Rightarrow> json dict \<Rightarrow> string \<Rightarrow> authority_call" where
  "authority_event ty payload uri id1 id2 actor policy_version node_id g =
     eg_apply_identity_event id1 id2 uri (Return ty) payload actor policy_version node_id g"

definition issue_credential :: "string \<Rightarrow> string \<Rightarrow> json dict option \<Rightarrow> authority_call" where
  "issue_credential uri credential_id body =
     authority_event CREDENTIAL_ISSUE
       ((''credential_id'', JStr credential_id) #
        (case body of Some (kv # kvs) \<Rightarrow> [(''credential_body'', JObj (kv # kvs))] | _ \<Rightarrow> [])) uri"

definition revoke_credential :: "string \<Rightarrow> string \<Rightarrow> string \<Rightarrow> authority_call" where
  "revoke_credential uri credential_id reason =
     authority_event CREDENTIAL_REVOKE [(''credential_id'', JStr credential_id), (''reason'', JStr reason)] uri"

definition rotate_key :: "string \<Rightarrow> string \<Rightarrow> authority_call" where
  "rotate_key uri key_ref = authority_event KEY_ROTATE [(''key_ref'', JStr key_ref)] uri"

definition grant_entitlement :: "string \<Rightarrow> string \<Rightarrow> json dict option \<Rightarrow> authority_call" where
  "grant_entitlement uri entitlement_id body =
     authority_event ENTITLEMENT_GRANT
       ((''entitlement_id'', JStr entitlement_id) #
        (case body of Some (kv # kvs) \<Rightarrow> [(''entitlement_body'', JObj (kv # kvs))] | _ \<Rightarrow> [])) uri"

definition optional_reason :: "string option \<Rightarrow> json dict" where
  "optional_reason reason = (case reason of Some (c # cs) \<Rightarrow> [(''reason'', JStr (c # cs))] | _ \<Rightarrow> [])"

definition revoke_entitlement :: "string \<Rightarrow> string \<Rightarrow> string option \<Rightarrow> authority_call" where
  "revoke_entitlement uri entitlement_id reason =
     authority_event ENTITLEMENT_REVOKE
       ((''entitlement_id'', JStr entitlement_id) # optional_reason reason) uri"

definition attach_link :: "string \<Rightarrow> string \<Rightarrow> string \<Rightarrow> string \<Rightarrow> authority_call" where
  "attach_link uri link_id target_uri relationship =
     authority_event LINK_ATTACH
       [(''link_id'', JStr link_id), (''target_uri'', JStr target_uri), (''relationship'', JStr relationship)] uri"

definition revoke_link :: "string \<Rightarrow> string \<Rightarrow> string option \<Rightarrow> authority_call" where
  "revoke_link uri link_id reason =
     authority_event LINK_REVOKE ((''link_id'', JStr link_id) # optional_reason reason) uri"

definition freeze_identity :: "string \<Rightarrow> string \<Rightarrow> authority_call" where
  "freeze_identity uri reason = authority_event IDENTITY_FREEZE [(''reason'', JStr reason)] uri"

definition archive_identity :: "string \<Rightarrow> string \<Rightarrow> authority_call" where
  "archive_identity uri reason = authority_event IDENTITY_ARCHIVE [(''reason'', JStr reason)] uri"

section \<open>The invariant of the engine\<close>

definition merge_deltas :: "qso_event list \<Rightarrow> json dict" where
  "merge_deltas es = foldl (\<lambda>state e. deep_merge state (qe_delta e)) [] es"

definition ordered_until :: "int \<Rightarrow> qso_event list \<Rightarrow> bool" where
  "ordered_until t es = (sorted_wrt (\<lambda>a b. qe_timestamp a < qe_timestamp b) es \<and>
     (\<forall>e\<in>set es. clock_epoch < qe_timestamp e \<and> qe_timestamp e \<le> clock_epoch + t))"

fun object_ok :: "unit event_log \<Rightarrow> string \<Rightarrow> qso_object option \<Rightarrow> bool" where
  "object_ok l uri None = (el_timeline l uri = [])"
| "object_ok l uri (Some obj) = (ob_uri obj = uri \<and> ob_timeline obj = el_timeline l uri \<and>
     ob_state_layer obj = merge_deltas (el_timeline l uri))"

definition engine_ok :: "engine \<Rightarrow> bool" where
  "engine_ok g = (el_store (eg_log g) = None \<and> el_index (eg_log g) = None \<and>
     el_crypto (eg_log g) = Some (eg_crypto g) \<and> 0 \<le> lc_tick (eg_clock g) \<and>
     (\<forall>uri. object_ok (eg_log g) uri (dget (eg_registry g) uri)) \<and>
     (\<forall>uri. ordered_until (lc_tick (eg_clock g)) (el_timeline (eg_log g) uri) \<and>
        (\<forall>e\<in>set (el_timeline (eg_log g) uri). well_signed (Some (eg_crypto g)) e)))"

lemma append_log_simps:
  assumes "el_store l = None" "el_index l = None"
  shows "el_timeline (append_log e l) u =
      (if u = qe_object_uri e then el_timeline l u @ [e] else el_timeline l u)"
    and "el_store (append_log e l) = None" "el_index (append_log e l) = None"
    and "el_crypto (append_log e l) = el_crypto l"
  using assms by (simp_all add: append_log_def el_append_def index_event_def el_timeline_def Let_def dget_or_def)

lemma object_ok_append:
  assumes "el_store l = None" "el_index l = None" "u \<noteq> qe_object_uri e"
  shows "object_ok (append_log e l) u x = object_ok l u x"
  using assms by (cases x) (simp_all add: append_log_simps)

lemma ordered_until_mono: "ordered_until t es \<Longrightarrow> t \<le> t' \<Longrightarrow> ordered_until t' es"
  by (auto simp: ordered_until_def)

lemma engine_ok_clock: "engine_ok g \<Longrightarrow> engine_ok (g\<lparr>eg_clock := snd (next_datetime (eg_clock g))\<rparr>)"
  by (auto simp: engine_ok_def next_datetime_def intro: ordered_until_mono)

lemma engine_ok_create:
  assumes ok: "engine_ok g"
  shows "engine_ok (snd (create_object now uri schema actor g))"
proof (cases "dget (eg_registry g) uri")
  case None
  moreover have "object_ok (eg_log g) uri (dget (eg_registry g) uri)" using ok by (simp add: engine_ok_def)
  ultimately have "el_timeline (eg_log g) uri = []" by simp
  with None ok show ?thesis
    by (simp add: engine_ok_def create_object_def rg_create_def has_key_def Let_def merge_deltas_def)
next
  case (Some obj)
  with ok show ?thesis by (simp add: create_object_def rg_create_def has_key_def Let_def)
qed

lemma engine_ok_patch:
  assumes ok: "engine_ok g"
  shows "engine_ok (snd (patch event_id uri delta actor pv node g))"
proof -
  let ?g1 = "g\<lparr>eg_clock := snd (next_datetime (eg_clock g))\<rparr>"
  let ?ts = "fst (next_datetime (eg_clock g))"
  let ?e0 = "\<lparr>qe_schema_version = SCHEMA_VERSION, qe_event_id = event_id, qe_timestamp = ?ts,
     qe_actor = actor, qe_object_uri = uri, qe_delta = delta, qe_signature = [],
     qe_policy_version = pv, qe_node_id = node\<rparr>"
  show ?thesis
  proof (cases "bindR (check_policy (eg_policy g) pv actor) (\<lambda>_. rg_read uri (eg_registry g))")
    case (Inl err)
    then show ?thesis using ok by (simp add: patch_def)
  next
    case (Inr obj)
    then have obj: "dget (eg_registry g) uri = Some obj"
      by (auto simp: bindR_eq_Return rg_read_def split: option.splits)
    have u: "ob_uri obj = uri" using ok obj by (auto simp: engine_ok_def dest!: spec [of _ uri])
    show ?thesis
    proof (cases "qso_event_payload ?e0")
      case (Inl err)
      with Inr engine_ok_clock [OF ok] show ?thesis by (simp add: patch_def Let_def split_beta)
    next
      case (Inr payload)
      define e where "e = ?e0\<lparr>qe_signature := sign (eg_crypto g) payload\<rparr>"
      define obj' where "obj' = obj\<lparr>ob_state_layer := deep_merge (ob_state_layer obj) delta,
          ob_timeline := ob_timeline obj @ [e]\<rparr>"
      have res: "snd (patch event_id uri delta actor pv node g) =
          ?g1\<lparr>eg_registry := dset uri obj' (eg_registry g), eg_log := append_log e (eg_log g)\<rparr>"
        using Inr obj u \<open>bindR _ _ = Inr obj\<close>
        by (simp add: patch_def Let_def split_beta rg_update_def has_key_def obj'_def e_def)
      have signed: "well_signed (Some (eg_crypto g)) e"
        using payload_of_signed [OF _ strip_sign, of ?e0 payload "eg_crypto g" payload] Inr
        by (simp add: well_signed_def e_def)
      have st: "el_store (eg_log g) = None" "el_index (eg_log g) = None" using ok by (auto simp: engine_ok_def)
      have ord: "ordered_until (lc_tick (eg_clock g) + 1) (el_timeline (eg_log g) uri @ [e])"
        using ok by (auto simp: engine_ok_def ordered_until_def sorted_wrt_append e_def next_datetime_def
            dest!: spec [of _ uri])
      have layer: "ob_timeline obj = el_timeline (eg_log g) uri" "ob_state_layer obj = merge_deltas (el_timeline (eg_log g) uri)"
        using ok obj by (auto simp: engine_ok_def dest!: spec [of _ uri])
      show ?thesis
        unfolding res engine_ok_def
        using ok signed ord layer u
        by (auto simp: engine_ok_def append_log_simps [OF st] object_ok_append [OF st] next_datetime_def
            e_def obj'_def merge_deltas_def intro: ordered_until_mono)
    qed
  qed
qed

text \<open>The replay of a sound log returns it in its order and leaves it alone.\<close>

lemma replay_sorted:
  assumes "ordered_until t es" "t < day_us"
  shows "sorted (map replay_key es)"
proof -
  have "sorted_wrt (\<lambda>a b. replay_key a \<le> replay_key b) es"
  proof (rule sorted_wrt_mono_rel)
    show "sorted_wrt (\<lambda>a b. qe_timestamp a < qe_timestamp b) es" using assms(1) by (simp add: ordered_until_def)
    fix a b assume "a \<in> set es" "b \<in> set es" "qe_timestamp a < qe_timestamp b"
    then have "isoformat (clock_epoch + (qe_timestamp a - clock_epoch)) < isoformat (clock_epoch + (qe_timestamp b - clock_epoch))"
      using assms by (intro isoformat_tick_less) (auto simp: ordered_until_def)
    then show "replay_key a \<le> replay_key b" by (simp add: replay_key_def less_eq_prod_def)
  qed
  then show ?thesis by (simp add: sorted_wrt_map)
qed

lemma engine_replay:
  assumes "engine_ok g" "lc_tick (eg_clock g) < day_us"
  shows "el_replay uri strict (eg_log g) = (Return (el_timeline (eg_log g) uri), eg_log g)"
proof -
  have "sort_key replay_key (el_timeline (eg_log g) uri) = el_timeline (eg_log g) uri"
    using assms by (intro sorted_keys_replay replay_sorted) (auto simp: engine_ok_def)
  then show ?thesis
    using verify_events_all [of "el_timeline (eg_log g) uri" "eg_log g" uri strict "[]"] assms(1)
    by (simp add: el_replay_def engine_ok_def)
qed

lemma verify_events_frame:
  "verify_events uri strict v es l = (r, l') \<Longrightarrow> el_events l' = el_events l \<and> el_store l' = el_store l \<and>
     el_index l' = el_index l \<and> el_crypto l' = el_crypto l"
proof (induction es arbitrary: v l)
  case (Cons e es)
  show ?case
  proof (cases "el_crypto l")
    case None
    with Cons.IH [of "v @ [e]" l] Cons.prems show ?thesis by simp
  next
    case (Some c)
    show ?thesis
    proof (cases "bindR (qso_event_payload e) (\<lambda>p. verify c p (qe_signature e))")
      case (Inl err)
      with Some Cons.prems show ?thesis by simp
    next
      case (Inr valid)
      show ?thesis
      proof (cases valid)
        case True
        with Inr Some Cons.IH [of "v @ [e]" l] Cons.prems show ?thesis by simp
      next
        case False
        have "el_events (reject_event uri e l) = el_events l" "el_store (reject_event uri e l) = el_store l"
          "el_index (reject_event uri e l) = el_index l" "el_crypto (reject_event uri e l) = el_crypto l"
          by (simp_all add: reject_event_def)
        with False Inr Some Cons.IH [of v "reject_event uri e l"] Cons.prems show ?thesis
          by (cases strict) (auto simp: Let_def)
      qed
    qed
  qed
qed simp

lemma object_ok_events: "el_events l' = el_events l \<Longrightarrow> object_ok l' uri x = object_ok l uri x"
  by (cases x) (simp_all add: el_timeline_def)

lemma engine_ok_kernel:
  assumes "engine_ok g"
  shows "engine_ok (snd (identity_kernel_events uri strict g))"
proof -
  obtain r l' where r: "el_replay uri strict (eg_log g) = (r, l')" by fastforce
  note frame = verify_events_frame [OF r [unfolded el_replay_def]]
  with assms r show ?thesis
    by (simp add: identity_kernel_events_def engine_ok_def object_ok_events [of l' "eg_log g"] el_timeline_def)
qed

lemma engine_ok_identity:
  assumes ok: "engine_ok g"
  shows "engine_ok (snd (eg_apply_identity_event id1 id2 uri ty payload actor pv node g))"
proof -
  let ?g1 = "g\<lparr>eg_clock := snd (next_datetime (eg_clock g))\<rparr>"
  obtain r g2 where r: "identity_kernel_events uri True ?g1 = (r, g2)" by fastforce
  have g2: "engine_ok g2" using engine_ok_kernel [OF engine_ok_clock [OF ok], of uri True] r by simp
  show ?thesis
    using ok g2 engine_ok_patch [OF g2] r
    unfolding eg_apply_identity_event_def
    by (auto simp: Let_def split_beta split: sum.splits)
qed

lemma engine_ok_create_identity:
  assumes ok: "engine_ok g"
  shows "engine_ok (snd (eg_create_identity now id1 id2 uri core actor pv node g))"
proof -
  obtain r g1 where r: "create_object now uri [(''type'', JStr ''identity''), (''subtype'', JStr ''person'')] actor g = (r, g1)"
    by fastforce
  have g1: "engine_ok g1" using engine_ok_create [OF ok] r by (metis snd_conv)
  show ?thesis
    using ok g1 r engine_ok_identity [OF g1]
    unfolding eg_create_identity_def by (auto split: sum.splits)
qed

section \<open>Reachable engines\<close>

definition fresh_engine :: "crypto \<Rightarrow> engine" where
  "fresh_engine c = \<lparr>eg_registry = [], eg_log = \<lparr>el_events = [], el_rejected = [], el_crypto = Some c,
     el_store = None, el_index = None\<rparr>, eg_crypto = c, eg_clock = new_clock, eg_policy = None\<rparr>"

inductive engine_step :: "engine \<Rightarrow> engine \<Rightarrow> bool" where
  create: "engine_step g (snd (create_object now uri schema actor g))"
| patched: "engine_step g (snd (patch event_id uri delta actor pv node g))"
| identity: "engine_step g (snd (eg_apply_identity_event id1 id2 uri ty payload actor pv node g))"
| new_identity: "engine_step g (snd (eg_create_identity now id1 id2 uri core actor pv node g))"
| replayed: "engine_step g (snd (identity_kernel_events uri strict g))"
| policy: "engine_step g (g\<lparr>eg_policy := p\<rparr>)"

definition reachable :: "engine \<Rightarrow> bool" where
  "reachable g = (\<exists>c. engine_step\<^sup>*\<^sup>* (fresh_engine c) g)"

lemma engine_step_ok: "engine_step g g' \<Longrightarrow> engine_ok g \<Longrightarrow> engine_ok g'"
  by (induction rule: engine_step.induct)
     (simp_all add: engine_ok_create engine_ok_patch engine_ok_identity engine_ok_create_identity
       engine_ok_kernel, simp add: engine_ok_def)

lemma reachable_ok: "reachable g \<Longrightarrow> engine_ok g"
proof -
  have "engine_ok (fresh_engine c)" for c
    by (simp add: engine_ok_def fresh_engine_def el_timeline_def dget_or_def ordered_until_def new_clock_def)
  moreover have "engine_step\<^sup>*\<^sup>* g g' \<Longrightarrow> engine_ok g \<Longrightarrow> engine_ok g'" for g g'
    by (induction rule: rtranclp_induct) (auto dest: engine_step_ok)
  ultimately show "reachable g \<Longrightarrow> engine_ok g" unfolding reachable_def by blast
qed

lemma fresh_reachable: "reachable (fresh_engine c)"
  unfolding reachable_def by blast

lemma step_reachable: "reachable g \<Longrightarrow> engine_step g g' \<Longrightarrow> reachable g'"
  unfolding reachable_def by (blast intro: rtranclp.rtrancl_into_rtrancl)

section \<open>Properties\<close>

text \<open>
  C1: in every state the engine can reach within a day of clock ticks, rebuilding an object from
  its signed log gives exactly its live state layer, and changes nothing: the log is complete,
  verifies, and replays in the order it was written.
\<close>

theorem rebuild_matches_live:
  assumes "reachable g" "lc_tick (eg_clock g) < day_us" "dget (eg_registry g) uri = Some obj"
  shows "rebuild_from_log uri strict g = (Return (ob_state_layer obj), g) \<and>
    ob_timeline obj = el_timeline (eg_log g) uri"
proof -
  have ok: "engine_ok g" by (rule reachable_ok [OF assms(1)])
  have "object_ok (eg_log g) uri (dget (eg_registry g) uri)" using ok by (simp add: engine_ok_def)
  with assms(3) engine_replay [OF ok assms(2)] show ?thesis
    by (simp add: rebuild_from_log_def merge_deltas_def)
qed

definition sample_engine :: engine where
  "sample_engine = snd (create_object ''now'' ''qso://a'' [] ''root'' (fresh_engine \<lparr>cr_secret = [1]\<rparr>))"

lemma sample_reachable: "reachable sample_engine"
  unfolding sample_engine_def by (rule step_reachable [OF fresh_reachable engine_step.create])

lemma sample_patch:
  "\<exists>e g obj. patch ''e1'' ''qso://a'' [(''x'', JInt 1)] ''root'' ''v1'' ''local'' sample_engine = (Return e, g) \<and>
     dget (eg_registry g) ''qso://a'' = Some obj \<and> ob_state_layer obj = [(''x'', JInt 1)] \<and>
     lc_tick (eg_clock g) < day_us"
proof -
  have "strip s \<noteq> []" if "s \<in> {''e1'', ''root'', ''qso://a'', ''v1''}" for s
    using that by (auto simp: strip_Nil_iff is_space_def)
  then show ?thesis
    by (simp add: patch_def sample_engine_def create_object_def rg_create_def rg_read_def rg_update_def has_key_def
        fresh_engine_def new_clock_def Let_def check_policy_def next_datetime_def payload_Return strip_isoformat)
qed

theorem rebuild_matches_live_witness:
  "\<exists>e g. patch ''e1'' ''qso://a'' [(''x'', JInt 1)] ''root'' ''v1'' ''local'' sample_engine = (Return e, g) \<and>
     rebuild_from_log ''qso://a'' True g = (Return [(''x'', JInt 1)], g)"
proof -
  from sample_patch obtain e g obj where p: "patch ''e1'' ''qso://a'' [(''x'', JInt 1)] ''root'' ''v1'' ''local'' sample_engine = (Return e, g)"
    and g: "dget (eg_registry g) ''qso://a'' = Some obj" "ob_state_layer obj = [(''x'', JInt 1)]" "lc_tick (eg_clock g) < day_us"
    by blast
  have "engine_step sample_engine g"
    using engine_step.patched p by (metis snd_conv)
  then have r: "reachable g" by (rule step_reachable [OF sample_reachable])
  from rebuild_matches_live [OF r g(3,1)] p g(2) show ?thesis by auto
qed



end
