(* ===== verification/Py_Float.thy ===== *)
theory Py_Float
  imports Prelude Complex_Main
begin

text \<open>
  Python's \<open>float\<close>: IEEE binary64 with round-half-even.  A finite value is the rational it denotes,
  so the sign of a zero is not recorded; overflow gives an infinity and the undefined operations
  give NaN, as the hardware does.  \<open>sum\<close> adds from left to right, as the pinned Python 3.11 does.
  The lemmas say that rounding is monotone, exact on short dyadic numbers, and what follows for
  sums, products and means of values that are not negative.
\<close>

section \<open>Rounding\<close>

definition round_even :: "rat \<Rightarrow> int" where
  "round_even x =
     (let f = \<lfloor>x\<rfloor>; d = x - of_int f
      in if d < 1 / 2 then f else if 1 / 2 < d then f + 1 else if even f then f else f + 1)"

definition pow2 :: "int \<Rightarrow> rat" where
  "pow2 k = 2 powi k"

function bit_length :: "int \<Rightarrow> int" where
  "bit_length n = (if n \<le> 0 then 0 else 1 + bit_length (n div 2))"
  by pat_completeness auto
termination
  by (relation "measure nat") auto

declare bit_length.simps [simp del]

text \<open>\<open>\<lfloor>log\<^sub>2 x\<rfloor>\<close> of a positive rational, from the bit lengths of its numerator and denominator.\<close>

definition ilog2 :: "rat \<Rightarrow> int" where
  "ilog2 x =
     (case quotient_of x of (n, d) \<Rightarrow>
        let k = bit_length n - bit_length d in if pow2 k \<le> x then k else k - 1)"

text \<open>The exponent of the last bit a binary64 number of this size has.\<close>

definition last_bit :: "rat \<Rightarrow> int" where
  "last_bit x = max (ilog2 \<bar>x\<bar>) (- 1022) - 52"

definition fl :: "rat \<Rightarrow> rat" where
  "fl x = (if x = 0 then 0 else let e = last_bit x in of_int (round_even (x / pow2 e)) * pow2 e)"

section \<open>Values and operations\<close>

datatype pyfloat = Fin rat | PInf | MInf | NaN

definition rnd :: "rat \<Rightarrow> pyfloat" where
  "rnd x = (let y = fl x in if y \<ge> pow2 1024 then PInf else if y \<le> - pow2 1024 then MInf else Fin y)"

fun f_neg :: "pyfloat \<Rightarrow> pyfloat" where
  "f_neg (Fin x) = Fin (- x)"
| "f_neg PInf = MInf"
| "f_neg MInf = PInf"
| "f_neg NaN = NaN"

fun f_add :: "pyfloat \<Rightarrow> pyfloat \<Rightarrow> pyfloat" where
  "f_add (Fin x) (Fin y) = rnd (x + y)"
| "f_add NaN y = NaN"
| "f_add x NaN = NaN"
| "f_add PInf MInf = NaN"
| "f_add MInf PInf = NaN"
| "f_add PInf y = PInf"
| "f_add MInf y = MInf"
| "f_add (Fin x) y = y"

definition f_sub :: "pyfloat \<Rightarrow> pyfloat \<Rightarrow> pyfloat" where
  "f_sub x y = f_add x (f_neg y)"

definition inf_of :: "bool \<Rightarrow> pyfloat" where
  "inf_of positive = (if positive then PInf else MInf)"

fun f_sgn :: "pyfloat \<Rightarrow> int" where
  "f_sgn (Fin x) = (if x = 0 then 0 else if x > 0 then 1 else - 1)"
| "f_sgn PInf = 1"
| "f_sgn MInf = - 1"
| "f_sgn NaN = 0"

fun f_mul :: "pyfloat \<Rightarrow> pyfloat \<Rightarrow> pyfloat" where
  "f_mul (Fin x) (Fin y) = rnd (x * y)"
| "f_mul NaN y = NaN"
| "f_mul x NaN = NaN"
| "f_mul x y = (if f_sgn x = 0 \<or> f_sgn y = 0 then NaN else inf_of (f_sgn x = f_sgn y))"

text \<open>Division by a zero raises; so Python has no infinity out of a division of finite values but by overflow.\<close>

fun f_div :: "pyfloat \<Rightarrow> pyfloat \<Rightarrow> pyfloat result" where
  "f_div NaN (Fin y) = (if y = 0 then Raise (ZeroDivisionError ''float division by zero'') else Return NaN)"
| "f_div x (Fin y) =
     (if y = 0 then Raise (ZeroDivisionError ''float division by zero'')
      else Return (case x of Fin a \<Rightarrow> rnd (a / y) | _ \<Rightarrow> inf_of (f_sgn x = f_sgn (Fin y))))"
| "f_div (Fin x) NaN = Return NaN"
| "f_div (Fin x) y = Return (Fin 0)"
| "f_div x y = Return NaN"

fun f_less :: "pyfloat \<Rightarrow> pyfloat \<Rightarrow> bool" where
  "f_less (Fin x) (Fin y) = (x < y)"
| "f_less NaN y = False"
| "f_less x NaN = False"
| "f_less MInf y = (y \<noteq> MInf)"
| "f_less x PInf = (x \<noteq> PInf)"
| "f_less x y = False"

fun f_eq :: "pyfloat \<Rightarrow> pyfloat \<Rightarrow> bool" where
  "f_eq NaN y = False"
| "f_eq x y = (x = y)"

definition f_le :: "pyfloat \<Rightarrow> pyfloat \<Rightarrow> bool" where
  "f_le x y = (f_less x y \<or> f_eq x y)"

text \<open>\<open>max(a, b)\<close> and \<open>min(a, b)\<close> keep the first argument unless the second compares better.\<close>

definition f_max :: "pyfloat \<Rightarrow> pyfloat \<Rightarrow> pyfloat" where
  "f_max a b = (if f_less a b then b else a)"

definition f_min :: "pyfloat \<Rightarrow> pyfloat \<Rightarrow> pyfloat" where
  "f_min a b = (if f_less b a then b else a)"

definition f_max0 :: "pyfloat \<Rightarrow> pyfloat" where
  "f_max0 x = f_max (Fin 0) x"

definition f_sum :: "pyfloat list \<Rightarrow> pyfloat" where
  "f_sum xs = foldl f_add (Fin 0) xs"

text \<open>\<open>x / n\<close> and \<open>m / n\<close> for lengths: a positive length converts exactly, and dividing two is correctly rounded.\<close>

definition f_div_len :: "pyfloat \<Rightarrow> nat \<Rightarrow> pyfloat" where
  "f_div_len x n = (case x of Fin a \<Rightarrow> rnd (a / of_nat n) | _ \<Rightarrow> x)"

definition ratio :: "nat \<Rightarrow> nat \<Rightarrow> pyfloat" where
  "ratio m n = rnd (of_nat m / of_nat n)"

text \<open>
  \<open>math.sqrt\<close>: the root of a 105- or 106-bit integer, rounded to nearest; a root of a float is never
  half-way between two floats.
\<close>

function isqrt :: "int \<Rightarrow> int" where
  "isqrt n = (if n \<le> 0 then 0 else let s = 2 * isqrt (n div 4) in if (s + 1) * (s + 1) \<le> n then s + 1 else s)"
  by pat_completeness auto
termination
  by (relation "measure nat") auto

declare isqrt.simps [simp del]

definition sqrt_bits :: "rat \<Rightarrow> int \<Rightarrow> int" where
  "sqrt_bits x e =
     (let y = x / pow2 (2 * e); s = isqrt \<lfloor>y\<rfloor>
      in if of_int ((2 * s + 1) * (2 * s + 1)) < 4 * y then s + 1 else s)"

fun f_sqrt :: "pyfloat \<Rightarrow> pyfloat result" where
  "f_sqrt (Fin x) =
     (if x < 0 then Raise (ValueError ''math domain error'')
      else if x = 0 then Return (Fin 0)
      else let e = ilog2 x div 2 - 52 in Return (Fin (of_int (sqrt_bits x e) * pow2 e)))"
| "f_sqrt PInf = Return PInf"
| "f_sqrt MInf = Raise (ValueError ''math domain error'')"
| "f_sqrt NaN = Return NaN"

text \<open>A literal of the source; a quotient whose divisor the code has checked; a weighted sum as it is written.\<close>

definition lit :: "rat \<Rightarrow> pyfloat" where
  "lit x = rnd x"

definition f_quot :: "pyfloat \<Rightarrow> pyfloat \<Rightarrow> pyfloat" where
  "f_quot x y = (case f_div x y of Inr z \<Rightarrow> z | Inl _ \<Rightarrow> NaN)"

definition weighted :: "(pyfloat \<times> pyfloat) list \<Rightarrow> pyfloat" where
  "weighted ps =
     (case map (\<lambda>p. f_mul (fst p) (snd p)) ps of [] \<Rightarrow> Fin 0 | v # vs \<Rightarrow> foldl f_add v vs)"

section \<open>Texts\<close>

definition ten_pow :: "int \<Rightarrow> rat" where
  "ten_pow k = 10 powi k"

text \<open>\<open>float(s)\<close> of a string: white space, a sign, an infinity, a NaN, or digits with a point or an exponent.\<close>

definition digit_run :: "string \<Rightarrow> bool" where
  "digit_run s = (s = [] \<or> underscore_ok s)"

definition no_underscores :: "string \<Rightarrow> string" where
  "no_underscores s = filter (\<lambda>c. c \<noteq> CHR ''_'') s"

definition parse_exponent :: "string \<Rightarrow> int option" where
  "parse_exponent s =
     (case s of [] \<Rightarrow> Some 0
      | _ # r \<Rightarrow> (case split_sign r of (sg, ds) \<Rightarrow>
           if underscore_ok ds then Some (sg * digits_val (no_underscores ds)) else None))"

definition parse_decimal :: "string \<Rightarrow> rat option" where
  "parse_decimal s =
     (let m = takeWhile (\<lambda>c. c \<noteq> CHR ''e'' \<and> c \<noteq> CHR ''E'') s;
          ip = takeWhile (\<lambda>c. c \<noteq> CHR ''.'') m;
          fp = drop (length ip + 1) m
      in case parse_exponent (drop (length m) s) of
           None \<Rightarrow> None
         | Some e \<Rightarrow>
             if digit_run ip \<and> digit_run fp \<and> (ip \<noteq> [] \<or> fp \<noteq> [])
             then Some (of_int (digits_val (no_underscores (ip @ fp))) * ten_pow (e - int (length (no_underscores fp))))
             else None)"

definition parse_float :: "string \<Rightarrow> pyfloat result" where
  "parse_float s =
     (case split_sign (strip s) of (sg, t) \<Rightarrow>
        if lower t \<in> {''inf'', ''infinity''} then Return (inf_of (sg = 1))
        else if lower t = ''nan'' then Return NaN
        else (case parse_decimal t of
            Some x \<Rightarrow> Return (rnd (of_int sg * x))
          | None \<Rightarrow> Raise (ValueError (''could not convert string to float: '' @ s))))"

text \<open>
  \<open>repr(x)\<close>: the shortest digits that read back as \<open>x\<close>, with an exponent outside
  \<^verbatim>\<open>1e-4 <= x < 1e16\<close>.  The decimal point stands after digit \<open>k\<close>, where \<^verbatim>\<open>10^(k-1) <= x < 10^k\<close>.
\<close>

definition decimal_point :: "rat \<Rightarrow> int" where
  "decimal_point x =
     (let k = ilog2 x * 30103 div 100000
      in if x < ten_pow k then k else if x < ten_pow (k + 1) then k + 1 else k + 2)"

text \<open>The \<open>n\<close> digits nearest to \<open>x\<close>; seventeen always suffice.\<close>

fun shortest_digits :: "nat \<Rightarrow> nat \<Rightarrow> rat \<Rightarrow> int \<Rightarrow> int \<times> nat" where
  "shortest_digits 0 n x k = (round_even (x * ten_pow (int n - k)), n)"
| "shortest_digits (Suc i) n x k =
     (let q = round_even (x * ten_pow (int n - k))
      in if fl (of_int q * ten_pow (k - int n)) = x then (q, n) else shortest_digits i (n + 1) x k)"

definition place_point :: "string \<Rightarrow> int \<Rightarrow> string" where
  "place_point ds k =
     (let n = int (length ds); zeros = (\<lambda>j. replicate (nat j) (CHR ''0'')) in
      if k \<le> - 4 \<or> 16 < k
      then take 1 ds @ (if n = 1 then [] else CHR ''.'' # drop 1 ds) @ ''e'' @
           (if k - 1 < 0 then ''-'' else ''+'') @ zero_pad 2 \<bar>k - 1\<bar>
      else if k \<le> 0 then ''0.'' @ zeros (- k) @ ds
      else if n \<le> k then ds @ zeros (k - n) @ ''.0''
      else take (nat k) ds @ CHR ''.'' # drop (nat k) ds)"

definition repr_pos :: "rat \<Rightarrow> string" where
  "repr_pos x =
     (let k = decimal_point x in
      case shortest_digits 16 1 x k of (q, n) \<Rightarrow>
        if q = 10 ^ n then place_point ''1'' (k + 1) else place_point (show_digits q) k)"

fun repr_float :: "pyfloat \<Rightarrow> string" where
  "repr_float (Fin x) = (if x = 0 then ''0.0'' else if x < 0 then CHR ''-'' # repr_pos (- x) else repr_pos x)"
| "repr_float PInf = ''inf''"
| "repr_float MInf = ''-inf''"
| "repr_float NaN = ''nan''"

section \<open>Rounding to an integer\<close>

lemma round_even_int [simp]: "round_even (of_int k) = k"
  by (simp add: round_even_def)

lemma round_even_near: "\<bar>of_int (round_even x) - x\<bar> \<le> 1 / 2"
proof -
  have "of_int \<lfloor>x\<rfloor> \<le> x" "x < of_int \<lfloor>x\<rfloor> + 1" by linarith+
  then show ?thesis unfolding round_even_def Let_def by auto
qed

lemma round_even_between: "of_int \<lfloor>x\<rfloor> \<le> (of_int (round_even x) :: rat)" "round_even x \<le> \<lfloor>x\<rfloor> + 1"
  by (auto simp: round_even_def Let_def)

lemma round_even_mono:
  assumes "x \<le> y"
  shows "round_even x \<le> round_even y"
proof (cases "\<lfloor>x\<rfloor> = \<lfloor>y\<rfloor>")
  case True
  with assms show ?thesis by (auto simp: round_even_def Let_def)
next
  case False
  have "\<lfloor>x\<rfloor> \<le> \<lfloor>y\<rfloor>" by (rule floor_mono [OF assms])
  with False have "\<lfloor>x\<rfloor> + 1 \<le> \<lfloor>y\<rfloor>" by simp
  with round_even_between(2) [of x] round_even_between(1) [of y] show ?thesis by linarith
qed

lemma round_even_uminus: "round_even (- x) = - round_even x"
proof (cases "x = of_int \<lfloor>x\<rfloor>")
  case True
  then have "round_even (- x) = - \<lfloor>x\<rfloor>" using round_even_int [of "- \<lfloor>x\<rfloor>"] by simp
  moreover have "round_even x = \<lfloor>x\<rfloor>" using True round_even_int [of "\<lfloor>x\<rfloor>"] by simp
  ultimately show ?thesis by simp
next
  case False
  then have "\<lceil>x\<rceil> = \<lfloor>x\<rfloor> + 1" by (metis ceiling_altdef)
  then have f: "\<lfloor>- x\<rfloor> = - \<lfloor>x\<rfloor> - 1" by (simp add: floor_minus)
  show ?thesis unfolding round_even_def Let_def f by auto
qed

lemma round_even_le: "x \<le> of_int k \<Longrightarrow> round_even x \<le> k"
  using round_even_mono [of x "of_int k"] by simp

lemma round_even_ge: "of_int k \<le> x \<Longrightarrow> k \<le> round_even x"
  using round_even_mono [of "of_int k" x] by simp

section \<open>Powers of two\<close>

lemma pow2_pos [simp]: "0 < pow2 k"
  by (simp add: pow2_def)

lemma pow2_nonneg [simp]: "0 \<le> pow2 k"
  using pow2_pos [of k] by linarith

lemma abs_pow2 [simp]: "\<bar>pow2 k\<bar> = pow2 k"
  by (simp add: abs_of_nonneg)

lemma pow2_nonzero [simp]: "pow2 k \<noteq> 0"
  using pow2_pos [of k] by linarith

lemma pow2_add: "pow2 (a + b) = pow2 a * pow2 b"
  by (simp add: pow2_def power_int_add)

lemma pow2_nat: "0 \<le> k \<Longrightarrow> pow2 k = of_int (2 ^ nat k)"
  by (simp add: pow2_def power_int_def)

lemma pow2_less_iff [simp]: "pow2 a < pow2 b \<longleftrightarrow> a < b"
proof -
  have "pow2 a < pow2 b" if "a < b" for a b
  proof -
    have "pow2 b = pow2 a * pow2 (b - a)" using pow2_add [of a "b - a"] by simp
    moreover have "1 < pow2 (b - a)" using that by (simp add: pow2_nat)
    ultimately show ?thesis by simp
  qed
  from this [of a b] this [of b a] show ?thesis by (metis less_le_not_le linorder_neqE order_le_less)
qed

lemma pow2_le_iff [simp]: "pow2 a \<le> pow2 b \<longleftrightarrow> a \<le> b"
  using pow2_less_iff [of b a] by linarith

lemma pow2_1024: "pow2 1024 = 2 ^ 1024"
  by (simp add: pow2_def)

lemma pow2_one [simp]: "pow2 1 = 2"
  by (simp add: pow2_def)

lemma bit_length_bounds:
  "0 < n \<Longrightarrow> pow2 (bit_length n - 1) \<le> of_int n \<and> rat_of_int n < pow2 (bit_length n)"
proof (induction n rule: bit_length.induct)
  case (1 n)
  show ?case
  proof (cases "n = 1")
    case True
    then show ?thesis by (simp add: bit_length.simps pow2_def)
  next
    case False
    with 1(2) have "0 < n div 2" by auto
    with 1 have ih: "pow2 (bit_length (n div 2) - 1) \<le> of_int (n div 2)"
      "rat_of_int (n div 2) < pow2 (bit_length (n div 2))" by auto
    have b: "bit_length n = 1 + bit_length (n div 2)" using 1(2) by (subst bit_length.simps) simp
    have double: "pow2 (1 + k) = 2 * pow2 k" for k using pow2_add [of 1 k] by simp
    have nonneg: "0 \<le> bit_length m" for m
      by (induction m rule: bit_length.induct) (subst bit_length.simps, auto)
    have "pow2 (bit_length n - 1) = 2 * pow2 (bit_length (n div 2) - 1)"
      using double [of "bit_length (n div 2) - 1"] b by simp
    also have "\<dots> \<le> of_int (2 * (n div 2))" using ih(1) by simp
    also have "\<dots> \<le> rat_of_int n" unfolding of_int_le_iff by simp
    finally have lo: "pow2 (bit_length n - 1) \<le> of_int n" .
    have "pow2 (bit_length (n div 2)) = of_int (2 ^ nat (bit_length (n div 2)))" by (rule pow2_nat [OF nonneg])
    with ih(2) have "n div 2 + 1 \<le> 2 ^ nat (bit_length (n div 2))" by (simp only: of_int_less_iff)
    then have "n < 2 * 2 ^ nat (bit_length (n div 2))" by simp
    then have "rat_of_int n < of_int (2 * 2 ^ nat (bit_length (n div 2)))" by (simp only: of_int_less_iff)
    also have "\<dots> = pow2 (bit_length n)" using double nonneg b by (simp add: pow2_nat)
    finally show ?thesis using lo by simp
  qed
qed

lemma ilog2_bounds:
  assumes "0 < x"
  shows "pow2 (ilog2 x) \<le> x" "x < pow2 (ilog2 x + 1)"
proof -
  obtain n d where q: "quotient_of x = (n, d)" by (cases "quotient_of x")
  then have d: "0 < d" and x: "x = of_int n / of_int d"
    by (simp_all add: quotient_of_denom_pos quotient_of_div)
  with assms have n: "0 < n" by (simp add: zero_less_divide_iff)
  define a b where ab: "a = bit_length n" "b = bit_length d"
  note up = bit_length_bounds [THEN conjunct2] and lo = bit_length_bounds [THEN conjunct1]
  have dpos: "(0 :: rat) < of_int d" using d by simp
  have "pow2 (a - b - 1) * of_int d \<le> pow2 (a - b - 1) * pow2 b"
    using up [OF d] by (simp add: ab)
  also have "\<dots> = pow2 (a - 1)" by (simp flip: pow2_add)
  also have "\<dots> \<le> of_int n" using lo [OF n] by (simp add: ab)
  finally have lower: "pow2 (a - b - 1) \<le> x" using dpos by (simp add: x pos_le_divide_eq)
  have "rat_of_int n < pow2 (a - b + 1) * pow2 (b - 1)" using up [OF n] by (simp add: ab flip: pow2_add)
  also have "\<dots> \<le> pow2 (a - b + 1) * of_int d" using lo [OF d] by (simp add: ab)
  finally have upper: "x < pow2 (a - b + 1)" using dpos by (simp add: x pos_divide_less_eq)
  have i: "ilog2 x = (if pow2 (a - b) \<le> x then a - b else a - b - 1)"
    by (simp add: ilog2_def q ab Let_def)
  from lower upper show "pow2 (ilog2 x) \<le> x" "x < pow2 (ilog2 x + 1)" by (auto simp: i)
qed

lemma ilog2_le: "0 < x \<Longrightarrow> x < pow2 k \<Longrightarrow> ilog2 x < k"
  using ilog2_bounds(1) [of x] by (metis order_le_less_trans pow2_less_iff)

lemma ilog2_mono: "0 < x \<Longrightarrow> x \<le> y \<Longrightarrow> ilog2 x \<le> ilog2 y"
  using ilog2_le [of x "ilog2 y + 1"] ilog2_bounds(2) [of y] by force

section \<open>Rounding to a float\<close>

lemma fl_zero [simp]: "fl 0 = 0"
  by (simp add: fl_def)

lemma fl_uminus: "fl (- x) = - fl x"
  by (simp add: fl_def last_bit_def Let_def round_even_uminus)

lemma fl_le_pow2:
  assumes "0 < x" "x \<le> pow2 (last_bit x + 53)"
  shows "fl x \<le> pow2 (last_bit x + 53)"
proof -
  have "x / pow2 (last_bit x) \<le> of_int (2 ^ 53)"
    using assms(2) by (simp add: pos_divide_le_eq pow2_add pow2_nat mult.commute)
  then have "round_even (x / pow2 (last_bit x)) \<le> 2 ^ 53" by (rule round_even_le)
  then have "rat_of_int (round_even (x / pow2 (last_bit x))) \<le> of_int (2 ^ 53)" by (simp only: of_int_le_iff)
  then show ?thesis
    using assms(1) by (simp add: fl_def Let_def pow2_add pow2_nat mult.commute)
qed

lemma fl_ge_pow2:
  assumes "0 < x" "pow2 (last_bit x + 52) \<le> x"
  shows "pow2 (last_bit x + 52) \<le> fl x"
proof -
  have "of_int (2 ^ 52) \<le> x / pow2 (last_bit x)"
    using assms(2) by (simp add: pos_le_divide_eq pow2_add pow2_nat mult.commute)
  then have "2 ^ 52 \<le> round_even (x / pow2 (last_bit x))" by (rule round_even_ge)
  then have "of_int (2 ^ 52) \<le> rat_of_int (round_even (x / pow2 (last_bit x)))" by (simp only: of_int_le_iff)
  then show ?thesis
    using assms(1) by (simp add: fl_def Let_def pow2_add pow2_nat mult.commute)
qed

lemma fl_nonneg: "0 \<le> x \<Longrightarrow> 0 \<le> fl x"
  using round_even_ge [of 0 "x / pow2 (last_bit x)"] by (auto simp: fl_def Let_def intro!: mult_nonneg_nonneg)

lemma fl_mono_pos:
  assumes "0 < x" "x \<le> y"
  shows "fl x \<le> fl y"
proof -
  have y: "0 < y" using assms by simp
  have le: "last_bit x \<le> last_bit y"
    using ilog2_mono [OF assms] assms by (simp add: last_bit_def)
  show ?thesis
  proof (cases "last_bit x = last_bit y")
    case True
    have "x / pow2 (last_bit x) \<le> y / pow2 (last_bit x)" using assms(2) by (intro divide_right_mono) simp_all
    from round_even_mono [OF this] show ?thesis using True assms(1) y by (simp add: fl_def Let_def)
  next
    case False
    with le have lt: "last_bit x < last_bit y" by simp
    then have ly: "last_bit y = ilog2 y - 52" using y by (auto simp: last_bit_def)
    have "ilog2 x + 1 \<le> last_bit x + 53" using assms(1) by (simp add: last_bit_def)
    then have "x \<le> pow2 (last_bit x + 53)"
      using ilog2_bounds(2) [OF assms(1)] by (metis less_imp_le order_trans pow2_le_iff)
    then have "fl x \<le> pow2 (last_bit x + 53)" by (rule fl_le_pow2 [OF assms(1)])
    also have "\<dots> \<le> pow2 (last_bit y + 52)" using lt by simp
    also have "\<dots> \<le> fl y" by (rule fl_ge_pow2 [OF y]) (use ilog2_bounds(1) [OF y] ly in simp)
    finally show ?thesis .
  qed
qed

lemma fl_mono:
  assumes "x \<le> y"
  shows "fl x \<le> fl y"
proof -
  consider "0 < x" | "x \<le> 0" "0 \<le> y" | "y < 0" by linarith
  then show ?thesis
  proof cases
    case 1
    then show ?thesis using assms by (rule fl_mono_pos)
  next
    case 2
    then show ?thesis using fl_nonneg [of y] fl_nonneg [of "- x"] by (simp add: fl_uminus)
  next
    case 3
    then show ?thesis using fl_mono_pos [of "- y" "- x"] assms by (simp add: fl_uminus)
  qed
qed

text \<open>A number of at most 53 bits is its own rounding.\<close>

lemma fl_dyadic:
  assumes "x = of_int m * pow2 e" "\<bar>m\<bar> < 2 ^ 53" "- 1074 \<le> e"
  shows "fl x = x"
proof (cases "m = 0")
  case True
  with assms(1) show ?thesis by simp
next
  case False
  then have x: "x \<noteq> 0" using assms(1) by simp
  have "\<bar>x\<bar> = of_int \<bar>m\<bar> * pow2 e" using assms(1) by (simp add: abs_mult)
  also have "\<dots> < of_int (2 ^ 53) * pow2 e"
    using assms(2) by (intro mult_strict_right_mono) (simp_all only: of_int_less_iff pow2_pos)
  also have "\<dots> = pow2 (e + 53)" by (simp add: pow2_add pow2_nat mult.commute)
  finally have "ilog2 \<bar>x\<bar> < e + 53" using x by (intro ilog2_le) auto
  then have le: "last_bit x \<le> e" using assms(3) by (simp add: last_bit_def)
  define q where "q = last_bit x"
  define k where "k = nat (e - q)"
  have "pow2 e = 2 ^ k * pow2 q"
    using le pow2_add [of "e - q" q] by (simp add: pow2_nat q_def k_def)
  then have xq: "x = of_int (m * 2 ^ k) * pow2 q" using assms(1) by simp
  then have "x / pow2 q = of_int (m * 2 ^ k)" by (simp add: field_simps)
  then have "round_even (x / pow2 q) = m * 2 ^ k" by (simp only: round_even_int)
  with x have "fl x = of_int (m * 2 ^ k) * pow2 q" by (simp add: fl_def Let_def flip: q_def)
  then show ?thesis by (simp only: xq)
qed

lemma fl_int: "\<bar>m\<bar> < 2 ^ 53 \<Longrightarrow> fl (of_int m) = of_int m"
  by (rule fl_dyadic [of _ m 0]) (simp_all add: pow2_def)

lemma fl_nat: "n < 2 ^ 53 \<Longrightarrow> fl (of_nat n) = of_nat n"
  using fl_int [of "int n"] by simp

lemma fl_one [simp]: "fl 1 = 1"
  using fl_int [of 1] by simp

lemma fl_le_nat: "n < 2 ^ 53 \<Longrightarrow> x \<le> of_nat n \<Longrightarrow> fl x \<le> of_nat n"
  using fl_mono [of x "of_nat n"] by (simp add: fl_nat)

section \<open>Bounded values\<close>

text \<open>The finite floats between two rationals.\<close>

definition in_range :: "rat \<Rightarrow> rat \<Rightarrow> pyfloat \<Rightarrow> bool" where
  "in_range a b v = (\<exists>x. v = Fin x \<and> a \<le> x \<and> x \<le> b)"

named_theorems range_intros \<open>bounds of float operations\<close>

lemma in_rangeE: "in_range a b v \<Longrightarrow> (\<And>x. v = Fin x \<Longrightarrow> a \<le> x \<Longrightarrow> x \<le> b \<Longrightarrow> P) \<Longrightarrow> P"
  by (auto simp: in_range_def)

lemma in_range_Fin [simp]: "in_range a b (Fin x) \<longleftrightarrow> a \<le> x \<and> x \<le> b"
  by (simp add: in_range_def)

lemma in_range_weaken: "in_range a b v \<Longrightarrow> a' \<le> a \<Longrightarrow> b \<le> b' \<Longrightarrow> in_range a' b' v"
  by (auto simp: in_range_def)

lemma rnd_Fin: "\<bar>fl x\<bar> < pow2 1024 \<Longrightarrow> rnd x = Fin (fl x)"
  by (auto simp: rnd_def Let_def abs_less_iff)

lemma rnd_in_range:
  assumes "a \<le> x" "x \<le> b" "fl a = a" "fl b = b" "- pow2 53 \<le> a" "b \<le> pow2 53"
  shows "in_range a b (rnd x)"
proof -
  have *: "a \<le> fl x" "fl x \<le> b" using fl_mono [OF assms(1)] fl_mono [OF assms(2)] assms(3,4) by simp_all
  have "pow2 53 < pow2 1024" by simp
  with * assms(5,6) have "\<bar>fl x\<bar> < pow2 1024" unfolding abs_less_iff by linarith
  with * show ?thesis by (simp add: rnd_Fin)
qed

text \<open>A nonnegative value bounded by a count of ones stays bounded by the count.\<close>

lemma nat_le_pow2: "n < 2 ^ 53 \<Longrightarrow> rat_of_nat n \<le> pow2 53"
proof -
  assume "n < 2 ^ 53"
  then have "rat_of_nat n \<le> of_nat (2 ^ 53)" by (simp only: of_nat_le_iff less_imp_le)
  then show ?thesis by (simp add: pow2_nat)
qed

lemma rnd_in_range_nat: "0 \<le> x \<Longrightarrow> x \<le> of_nat n \<Longrightarrow> n < 2 ^ 53 \<Longrightarrow> in_range 0 (of_nat n) (rnd x)"
  by (rule rnd_in_range) (simp_all only: fl_nat fl_zero nat_le_pow2 neg_le_0_iff_le pow2_nonneg)

lemma f_add_in_range:
  "in_range 0 (of_nat m) u \<Longrightarrow> in_range 0 (of_nat n) v \<Longrightarrow> m + n < 2 ^ 53 \<Longrightarrow>
     in_range 0 (of_nat (m + n)) (f_add u v)"
  by (elim in_rangeE) (simp only: f_add.simps, intro rnd_in_range_nat, simp_all)

section \<open>Square roots\<close>

lemma isqrt_bounds: "0 \<le> n \<Longrightarrow> 0 \<le> isqrt n \<and> isqrt n * isqrt n \<le> n \<and> n < (isqrt n + 1) * (isqrt n + 1)"
proof (induction n rule: isqrt.induct)
  case (1 n)
  show ?case
  proof (cases "n = 0")
    case True
    then show ?thesis by (simp add: isqrt.simps)
  next
    case False
    with 1 have n: "0 < n" by simp
    define r where "r = isqrt (n div 4)"
    from 1 n have ih: "0 \<le> r" "r * r \<le> n div 4" "n div 4 < (r + 1) * (r + 1)" by (auto simp: r_def)
    have "n div 4 + 1 \<le> (r + 1) * (r + 1)" using ih(3) by simp
    then have "n < 4 * ((r + 1) * (r + 1))" by linarith
    then have up: "n < (2 * r + 2) * (2 * r + 2)" by (simp add: algebra_simps)
    have "4 * (r * r) \<le> n" using ih(2) by linarith
    then have lo: "2 * r * (2 * r) \<le> n" by simp
    have i: "isqrt n = (if (2 * r + 1) * (2 * r + 1) \<le> n then 2 * r + 1 else 2 * r)"
      using n by (subst isqrt.simps) (simp add: Let_def flip: r_def)
    show ?thesis unfolding i using ih(1) up lo by (auto simp: algebra_simps)
  qed
qed

definition is_float :: "pyfloat \<Rightarrow> bool" where
  "is_float v = (case v of Fin x \<Rightarrow> fl x = x | _ \<Rightarrow> True)"

definition nonneg :: "pyfloat \<Rightarrow> bool" where
  "nonneg v = (case v of Fin x \<Rightarrow> 0 \<le> x | PInf \<Rightarrow> True | _ \<Rightarrow> False)"

lemma nonneg_simps [simp]: "nonneg (Fin x) = (0 \<le> x)" "nonneg PInf" "\<not> nonneg MInf" "\<not> nonneg NaN"
  by (simp_all add: nonneg_def)

lemma is_float_simps [simp]: "is_float (Fin x) = (fl x = x)" "is_float PInf" "is_float MInf" "is_float NaN"
  by (simp_all add: is_float_def)

lemma sqrt_bits_range:
  assumes "0 < x" "e = ilog2 x div 2 - 52"
  shows "0 \<le> sqrt_bits x e" "sqrt_bits x e \<le> 2 ^ 53"
proof -
  define y where "y = x / pow2 (2 * e)"
  define s where "s = isqrt \<lfloor>y\<rfloor>"
  have y: "0 < y" using assms(1) by (simp add: y_def)
  have "ilog2 x + 1 \<le> 2 * e + 106" using assms(2) by presburger
  then have "x < pow2 (2 * e + 106)"
    using ilog2_bounds(2) [OF assms(1)] pow2_le_iff [of "ilog2 x + 1" "2 * e + 106"] by linarith
  then have "y < pow2 106" by (simp add: y_def pos_divide_less_eq pow2_add mult.commute)
  then have "y < of_int (2 ^ 106)" by (simp add: pow2_nat)
  then have f: "\<lfloor>y\<rfloor> < 2 ^ 106" by (simp only: floor_less_iff)
  have f0: "0 \<le> \<lfloor>y\<rfloor>" using y by simp
  from isqrt_bounds [OF f0] have s: "0 \<le> s" "s * s \<le> \<lfloor>y\<rfloor>" by (simp_all add: s_def)
  have "s < 2 ^ 53"
  proof (rule ccontr)
    assume "\<not> s < 2 ^ 53"
    then have "2 ^ 53 * 2 ^ 53 \<le> s * s" by (intro mult_mono) simp_all
    moreover have "(2 :: int) ^ 53 * 2 ^ 53 = 2 ^ 106" by (simp flip: power_add)
    ultimately show False using s(2) f by linarith
  qed
  then show "0 \<le> sqrt_bits x e" "sqrt_bits x e \<le> 2 ^ 53"
    using s(1) unfolding sqrt_bits_def y_def [symmetric] Let_def s_def [symmetric] by auto
qed

lemma fl_dyadic_le:
  assumes "x = of_int m * pow2 e" "0 \<le> m" "m \<le> 2 ^ 53" "- 1074 \<le> e"
  shows "fl x = x"
proof (cases "m = 2 ^ 53")
  case True
  have "x = of_int 1 * pow2 (e + 53)" using assms(1) True by (simp add: pow2_add pow2_nat)
  then show ?thesis by (rule fl_dyadic) (use assms in simp_all)
next
  case False
  then show ?thesis using assms by (intro fl_dyadic [OF assms(1)]) simp_all
qed

lemma ilog2_float: "0 < x \<Longrightarrow> fl x = x \<Longrightarrow> - 1074 \<le> ilog2 x"
proof -
  assume x: "0 < x" "fl x = x"
  define e where "e = last_bit x"
  have e: "- 1074 \<le> e" by (simp add: e_def last_bit_def)
  define m where "m = round_even (x / pow2 e)"
  have m: "x = of_int m * pow2 e" using x by (simp add: fl_def Let_def e_def m_def)
  have "0 < m"
  proof (rule ccontr)
    assume "\<not> 0 < m"
    then have "of_int m * pow2 e \<le> 0" by (simp add: mult_nonpos_nonneg)
    with m x(1) show False by simp
  qed
  then have "1 * pow2 e \<le> of_int m * pow2 e" by (intro mult_right_mono) simp_all
  also have "\<dots> < pow2 (ilog2 x + 1)" using m ilog2_bounds(2) [OF x(1)] by simp
  finally show ?thesis using e by simp
qed

text \<open>A root of a float is a float that is not negative.\<close>

lemma f_sqrt_float: "f_sqrt v = Return r \<Longrightarrow> is_float v \<Longrightarrow> r = NaN \<or> nonneg r \<and> is_float r"
proof (induction v rule: f_sqrt.induct)
  case (1 x)
  show ?case
  proof (cases "x = 0")
    case True
    then show ?thesis using 1 by auto
  next
    case False
    with 1 have x: "0 < x" "fl x = x" by (auto split: if_splits)
    define e where "e = ilog2 x div 2 - 52"
    from 1 x have r: "r = Fin (of_int (sqrt_bits x e) * pow2 e)" by (auto simp: Let_def e_def)
    have "- 1074 \<le> e" using ilog2_float [OF x] unfolding e_def by presburger
    then have "fl (of_int (sqrt_bits x e) * pow2 e) = of_int (sqrt_bits x e) * pow2 e"
      using sqrt_bits_range [OF x(1) e_def] by (intro fl_dyadic_le) simp_all
    with sqrt_bits_range [OF x(1) e_def] show ?thesis by (simp add: r)
  qed
qed auto

section \<open>Sums of values that are not negative\<close>

lemma fl_idem [simp]: "fl (fl x) = fl x"
proof -
  have *: "fl (fl x) = fl x" if x: "0 < x" for x
  proof -
    define e where "e = last_bit x"
    define m where "m = round_even (x / pow2 e)"
    have f: "fl x = of_int m * pow2 e" using x by (simp add: fl_def Let_def e_def m_def)
    have "ilog2 x + 1 \<le> e + 53" using x by (simp add: e_def last_bit_def)
    then have "x \<le> pow2 (e + 53)"
      using ilog2_bounds(2) [OF x] pow2_le_iff [of "ilog2 x + 1" "e + 53"] by linarith
    then have "x / pow2 e \<le> of_int (2 ^ 53)" by (simp add: pos_divide_le_eq pow2_add pow2_nat mult.commute)
    then have "m \<le> 2 ^ 53" unfolding m_def by (rule round_even_le)
    moreover have "0 \<le> m" unfolding m_def by (rule round_even_ge) (use x in simp)
    ultimately show ?thesis using fl_dyadic_le [OF f] by (simp add: e_def last_bit_def)
  qed
  consider "x = 0" | "0 < x" | "0 < - x" by linarith
  then show ?thesis using * [of x] * [of "- x"] by cases (auto simp: fl_uminus)
qed

lemma is_float_rnd [simp]: "is_float (rnd x)"
  by (simp add: rnd_def Let_def)

lemma nonneg_rnd: "0 \<le> x \<Longrightarrow> nonneg (rnd x)"
  using fl_nonneg [of x] pow2_pos [of 1024] by (auto simp: rnd_def Let_def)

lemma f_le_refl: "v \<noteq> NaN \<Longrightarrow> f_le v v"
  by (cases v) (auto simp: f_le_def)

lemma f_le_Fin [simp]: "f_le (Fin x) (Fin y) \<longleftrightarrow> x \<le> y"
  by (auto simp: f_le_def)

lemma f_le_trans: "f_le x y \<Longrightarrow> f_le y z \<Longrightarrow> f_le x z"
  by (cases x; cases y; cases z) (auto simp: f_le_def)

lemma rnd_ge: "fl x = x \<Longrightarrow> x \<le> y \<Longrightarrow> 0 \<le> x \<Longrightarrow> f_le (Fin x) (rnd y)"
  using fl_mono [of x y] pow2_pos [of 1024] by (auto simp: rnd_def Let_def f_le_def)

lemma f_add_nonneg:
  assumes "nonneg u" "nonneg v"
  shows "nonneg (f_add u v)" "is_float (f_add u v)"
  using assms by (cases u; cases v; auto simp: nonneg_rnd)+

lemma f_add_ge:
  assumes "nonneg u" "nonneg v" "is_float u" "is_float v"
  shows "f_le u (f_add u v)" "f_le v (f_add u v)"
  using assms by (cases u; cases v; auto intro: rnd_ge simp: f_le_def [of PInf] f_le_def [of _ PInf])+

lemma f_sum_snoc: "f_sum (xs @ [x]) = f_add (f_sum xs) x"
  by (simp add: f_sum_def)

lemma f_sum_Nil [simp]: "f_sum [] = Fin 0"
  by (simp add: f_sum_def)

lemma is_float_f_add [simp]: "is_float (f_add u v)"
  by (cases u; cases v; auto)

lemma is_float_f_sum [simp]: "is_float (f_sum vs)"
  by (cases vs rule: rev_cases) (simp_all add: f_sum_snoc)

lemma f_sum_nonneg: "\<forall>v\<in>set vs. nonneg v \<Longrightarrow> nonneg (f_sum vs) \<and> is_float (f_sum vs)"
  by (induction vs rule: rev_induct) (auto simp: f_sum_snoc f_add_nonneg)

lemma f_sum_ge:
  "\<forall>v\<in>set vs. nonneg v \<and> is_float v \<Longrightarrow> v \<in> set vs \<Longrightarrow> f_le v (f_sum vs)"
proof (induction vs rule: rev_induct)
  case (snoc w vs)
  have s: "nonneg (f_sum vs)" "is_float (f_sum vs)" using f_sum_nonneg [of vs] snoc.prems by auto
  from snoc.prems have w: "nonneg w" "is_float w" by auto
  from snoc show ?case
    using f_add_ge [OF s(1) w(1) s(2) w(2)] by (auto simp: f_sum_snoc intro: f_le_trans)
qed simp

section \<open>Values between zero and one\<close>

abbreviation unit_float :: "pyfloat \<Rightarrow> bool" where
  "unit_float v \<equiv> in_range 0 1 v"

lemma rnd_range0: "0 \<le> x \<Longrightarrow> x \<le> b \<Longrightarrow> fl b = b \<Longrightarrow> b \<le> pow2 53 \<Longrightarrow> in_range 0 b (rnd x)"
  by (rule rnd_in_range) simp_all

lemma rnd_unit: "0 \<le> x \<Longrightarrow> x \<le> 1 \<Longrightarrow> unit_float (rnd x)"
  by (rule rnd_range0) (simp_all add: pow2_nat)

lemma unit_cases: "unit_float v \<Longrightarrow> (\<And>x. v = Fin x \<Longrightarrow> 0 \<le> x \<Longrightarrow> x \<le> 1 \<Longrightarrow> P) \<Longrightarrow> P"
  by (erule in_rangeE)

lemma f_max0_Fin [simp]: "f_max0 (Fin x) = Fin (max 0 x)"
  by (simp add: f_max0_def f_max_def max_def)

lemma unit_max0: "unit_float v \<Longrightarrow> unit_float (f_max0 v)"
  by (auto elim!: unit_cases)

lemma unit_mul: "unit_float u \<Longrightarrow> unit_float v \<Longrightarrow> unit_float (f_mul u v)"
  by (auto elim!: unit_cases intro!: rnd_unit mult_le_one)

lemma unit_one_minus: "unit_float v \<Longrightarrow> unit_float (f_sub (Fin 1) v)"
  by (auto elim!: unit_cases intro!: rnd_unit simp: f_sub_def)

lemma unit_min1: "unit_float v \<Longrightarrow> unit_float (f_min (Fin 1) v)"
  by (auto elim!: unit_cases simp: f_min_def)

lemma range_mul: "in_range 0 b w \<Longrightarrow> unit_float v \<Longrightarrow> fl b = b \<Longrightarrow> b \<le> pow2 53 \<Longrightarrow> in_range 0 b (f_mul w v)"
  by (elim in_rangeE) (auto intro!: rnd_range0 intro: order_trans [OF mult_left_le])

lemma range_add:
  "in_range 0 a u \<Longrightarrow> in_range 0 b v \<Longrightarrow> a + b = c \<Longrightarrow> fl c = c \<Longrightarrow> c \<le> pow2 53 \<Longrightarrow> in_range 0 c (f_add u v)"
  by (elim in_rangeE) (auto intro!: rnd_range0 add_mono)

text \<open>Sums of fractions: bounded by their number, and monotone term by term.\<close>

lemma f_sum_mono:
  assumes "list_all2 (\<lambda>u v. \<exists>x y. u = Fin x \<and> v = Fin y \<and> 0 \<le> x \<and> x \<le> y \<and> y \<le> 1) us vs" "length vs < 2 ^ 53"
  shows "\<exists>x y. f_sum us = Fin x \<and> f_sum vs = Fin y \<and> 0 \<le> x \<and> x \<le> y \<and> y \<le> of_nat (length vs)"
proof -
  have *: "\<exists>x y. f_sum us = Fin x \<and> f_sum vs = Fin y \<and> 0 \<le> x \<and> x \<le> y \<and> y \<le> of_nat (length vs)"
    if "list_all2 (\<lambda>u v. \<exists>x y. u = Fin x \<and> v = Fin y \<and> 0 \<le> x \<and> x \<le> y \<and> y \<le> 1) us vs" "length vs < 2 ^ 53" for us vs
    using that
  proof (induction vs arbitrary: us rule: rev_induct)
    case (snoc v vs)
    from snoc.prems(1) obtain us' u where us: "us = us' @ [u]"
      and l2: "list_all2 (\<lambda>u v. \<exists>x y. u = Fin x \<and> v = Fin y \<and> 0 \<le> x \<and> x \<le> y \<and> y \<le> 1) us' vs"
      and uv: "\<exists>x y. u = Fin x \<and> v = Fin y \<and> 0 \<le> x \<and> x \<le> y \<and> y \<le> 1"
      by (auto simp: list_all2_append2 list_all2_Cons2)
    from snoc.prems(2) have len: "length vs < 2 ^ 53" by simp
    from snoc.IH [OF l2 len] uv obtain a b x y where
      ab: "f_sum us' = Fin a" "f_sum vs = Fin b" "0 \<le> a" "a \<le> b" "b \<le> of_nat (length vs)"
      and xy: "u = Fin x" "v = Fin y" "0 \<le> x" "x \<le> y" "y \<le> 1" by blast
    have n: "b + y \<le> of_nat (Suc (length vs))" using ab xy by simp
    have len': "Suc (length vs) < 2 ^ 53" using snoc.prems(2) by simp
    obtain p where p: "rnd (a + x) = Fin p" "0 \<le> p"
      using rnd_in_range_nat [of "a + x" "Suc (length vs)"] ab xy n len' by (auto elim!: in_rangeE)
    obtain q where q: "rnd (b + y) = Fin q" "q \<le> of_nat (Suc (length vs))"
      using rnd_in_range_nat [of "b + y" "Suc (length vs)"] ab xy n len' by (auto elim!: in_rangeE)
    have "fl (a + x) \<le> fl (b + y)" by (rule fl_mono) (use ab xy in simp)
    then have "p \<le> q" using p(1) q(1) by (auto simp: rnd_def Let_def split: if_splits)
    with p q ab xy show ?case by (simp add: us f_sum_snoc)
  qed simp
  show ?thesis by (rule * [OF assms])
qed

lemma f_sum_range:
  assumes "\<forall>v\<in>set vs. unit_float v" "length vs < 2 ^ 53"
  shows "in_range 0 (of_nat (length vs)) (f_sum vs)"
proof -
  have "list_all2 (\<lambda>u v. \<exists>x y. u = Fin x \<and> v = Fin y \<and> 0 \<le> x \<and> x \<le> y \<and> y \<le> 1) vs vs"
    using assms(1) by (intro list_all2_all_nthI) (auto elim!: unit_cases dest!: nth_mem)
  from f_sum_mono [OF this assms(2)] show ?thesis by (auto simp: in_range_def)
qed

lemma f_div_len_unit: "in_range 0 (of_nat n) v \<Longrightarrow> 0 < n \<Longrightarrow> unit_float (f_div_len v n)"
  by (auto elim!: in_rangeE simp: f_div_len_def intro!: rnd_unit divide_nonneg_nonneg divide_le_eq_1_pos [THEN iffD2])

lemma f_quot_unit: "0 \<le> x \<Longrightarrow> x \<le> y \<Longrightarrow> 0 < y \<Longrightarrow> unit_float (f_quot (Fin x) (Fin y))"
  by (auto simp: f_quot_def intro!: rnd_unit)

section \<open>Small values\<close>

lemma rnd_simps [simp]: "rnd 0 = Fin 0" "rnd 1 = Fin 1"
  by (simp_all add: rnd_def Let_def pow2_def)

lemma ilog2_one: "ilog2 1 = 0"
  using ilog2_bounds [of 1] pow2_le_iff [of "ilog2 1" 0] pow2_less_iff [of 0 "ilog2 1 + 1"] by (simp add: pow2_def)

lemma f_sqrt_one [simp]: "f_sqrt (Fin 1) = Return (Fin 1)"
proof -
  have y: "1 / pow2 (- 104) = of_int (2 ^ 104)" by (simp add: pow2_def power_int_def power_divide)
  have "isqrt (2 ^ 104) = 2 ^ 52" by (simp add: isqrt.simps)
  then have "sqrt_bits 1 (- 52) = 2 ^ 52" by (simp add: sqrt_bits_def Let_def y del: of_int_power)
  then show ?thesis by (simp add: ilog2_one Let_def pow2_def power_int_def power_divide)
qed

lemma f_sqrt_zero [simp]: "f_sqrt (Fin 0) = Return (Fin 0)"
  by simp

declare f_sqrt.simps [simp del]

end
