(* ===== verification/Fabric_Values.thy ===== *)
theory Fabric_Values
  imports Py_Float "HOL-Library.Multiset"
begin

text \<open>
  The dynamic values the quantum fabric exchanges: what \<open>to_json_dict\<close> builds and
  \<open>from_json_dict\<close> reads, with the conversions \<open>str\<close>, \<open>float\<close>, \<open>bool\<close>, \<open>list\<close> and \<open>dict\<close> the
  readers apply, the interface of a dictionary codec, and the ranking every scoring function ends
  with.  Dictionaries have string keys, as the values of a JSON document have.
\<close>

named_theorems codec_simps \<open>reading back what was written\<close>

section \<open>Values\<close>

datatype pyval =
    PNone
  | PBool bool
  | PInt int
  | PFloat pyfloat
  | PStr string
  | PList "pyval list"
  | PDict "(string \<times> pyval) list"

section \<open>Conversions\<close>

text \<open>\<open>repr\<close> of a string inside a container is written for strings that need no escapes.\<close>

primrec repr_val :: "pyval \<Rightarrow> string" where
  "repr_val PNone = ''None''"
| "repr_val (PBool b) = (if b then ''True'' else ''False'')"
| "repr_val (PInt n) = py_str n"
| "repr_val (PFloat x) = repr_float x"
| "repr_val (PStr s) = CHR 0x27 # s @ [CHR 0x27]"
| "repr_val (PList xs) = ''['' @ join '', '' (map repr_val xs) @ '']''"
| "repr_val (PDict kvs) =
     ''{'' @ join '', '' (map (\<lambda>kv. CHR 0x27 # fst kv @ [CHR 0x27] @ '': '' @ snd kv)
       (map (map_prod id repr_val) kvs)) @ ''}''"

definition to_str :: "pyval \<Rightarrow> string" where
  "to_str v = (case v of PStr s \<Rightarrow> s | _ \<Rightarrow> repr_val v)"

definition int_to_float :: "int \<Rightarrow> pyfloat result" where
  "int_to_float n = (case rnd (of_int n) of Fin x \<Rightarrow> Return (Fin x)
     | _ \<Rightarrow> Raise (OverflowError ''int too large to convert to float''))"

definition to_float :: "pyval \<Rightarrow> pyfloat result" where
  "to_float v = (case v of
       PFloat x \<Rightarrow> Return x
     | PInt n \<Rightarrow> int_to_float n
     | PBool b \<Rightarrow> Return (Fin (if b then 1 else 0))
     | PStr s \<Rightarrow> parse_float s
     | _ \<Rightarrow> Raise (TypeError ''float() argument must be a string or a real number''))"

definition to_bool :: "pyval \<Rightarrow> bool" where
  "to_bool v = (case v of PNone \<Rightarrow> False | PBool b \<Rightarrow> b | PInt n \<Rightarrow> n \<noteq> 0
     | PFloat x \<Rightarrow> x \<noteq> Fin 0 | PStr s \<Rightarrow> s \<noteq> [] | PList xs \<Rightarrow> xs \<noteq> [] | PDict d \<Rightarrow> d \<noteq> [])"

text \<open>Iterating over a value: a list, the characters of a string, the keys of a dictionary.\<close>

definition to_items :: "pyval \<Rightarrow> pyval list result" where
  "to_items v = (case v of
       PList xs \<Rightarrow> Return xs
     | PStr s \<Rightarrow> Return (map (\<lambda>c. PStr [c]) s)
     | PDict d \<Rightarrow> Return (map (\<lambda>kv. PStr (fst kv)) d)
     | _ \<Rightarrow> Raise (TypeError ''object is not iterable''))"

text \<open>\<open>dict(v)\<close>: a dictionary, or an iterable of pairs.\<close>

definition pair_of :: "pyval \<Rightarrow> (string \<times> pyval) result" where
  "pair_of v = bindR (to_items v) (\<lambda>xs. case xs of
       [PStr k, w] \<Rightarrow> Return (k, w)
     | [_, _] \<Rightarrow> Raise (TypeError ''key is not a string'')
     | _ \<Rightarrow> Raise (ValueError ''dictionary update sequence element has a wrong length''))"

definition to_dict :: "pyval \<Rightarrow> pyval dict result" where
  "to_dict v = (case v of
       PDict d \<Rightarrow> Return d
     | _ \<Rightarrow> bindR (to_items v) (\<lambda>xs. foldR (\<lambda>d x. bindR (pair_of x) (\<lambda>kv. Return (dset (fst kv) (snd kv) d))) [] xs))"

section \<open>Reading the fields of a dictionary\<close>

definition req_val :: "pyval dict \<Rightarrow> string \<Rightarrow> pyval result" where
  "req_val d k = (case dget d k of None \<Rightarrow> Raise (KeyError k) | Some v \<Rightarrow> Return v)"

definition req_str :: "pyval dict \<Rightarrow> string \<Rightarrow> string result" where
  "req_str d k = bindR (req_val d k) (\<lambda>v. Return (to_str v))"

definition req_dict :: "pyval dict \<Rightarrow> string \<Rightarrow> pyval dict result" where
  "req_dict d k = bindR (req_val d k) to_dict"

definition get_str :: "pyval dict \<Rightarrow> string \<Rightarrow> string \<Rightarrow> string result" where
  "get_str d k def = Return (to_str (dget_or d k (PStr def)))"

definition get_float :: "pyval dict \<Rightarrow> string \<Rightarrow> rat \<Rightarrow> pyfloat result" where
  "get_float d k def = to_float (dget_or d k (PFloat (Fin def)))"

definition get_bool :: "pyval dict \<Rightarrow> string \<Rightarrow> bool \<Rightarrow> bool result" where
  "get_bool d k def = Return (to_bool (dget_or d k (PBool def)))"

definition get_strs :: "pyval dict \<Rightarrow> string \<Rightarrow> string list result" where
  "get_strs d k = bindR (to_items (dget_or d k (PList []))) (\<lambda>xs. Return (map to_str xs))"

definition get_floats :: "pyval dict \<Rightarrow> string \<Rightarrow> rat list \<Rightarrow> pyfloat list result" where
  "get_floats d k def = bindR (to_items (dget_or d k (PList (map (\<lambda>x. PFloat (Fin x)) def)))) (mapR to_float)"

definition get_dict :: "pyval dict \<Rightarrow> string \<Rightarrow> pyval dict result" where
  "get_dict d k = to_dict (dget_or d k (PDict []))"

text \<open>\<open>str(raw) if raw is not None else None\<close>.\<close>

definition get_opt_str :: "pyval dict \<Rightarrow> string \<Rightarrow> string option result" where
  "get_opt_str d k = Return (case dget d k of None \<Rightarrow> None | Some PNone \<Rightarrow> None | Some v \<Rightarrow> Some (to_str v))"

definition PStrs :: "string list \<Rightarrow> pyval" where
  "PStrs xs = PList (map PStr xs)"

definition POpt :: "string option \<Rightarrow> pyval" where
  "POpt x = (case x of None \<Rightarrow> PNone | Some s \<Rightarrow> PStr s)"

lemma to_str_simps [simp, codec_simps]:
  "to_str (PStr s) = s" "to_str PNone = ''None''" "to_str (PInt n) = py_str n" "to_str (PFloat x) = repr_float x"
  by (simp_all add: to_str_def)

lemma to_float_simps [simp, codec_simps]: "to_float (PFloat x) = Return x"
  by (simp add: to_float_def)

lemma to_dict_simps [simp, codec_simps]: "to_dict (PDict d) = Return d"
  by (simp add: to_dict_def)

lemma to_bool_simps [simp, codec_simps]: "to_bool (PBool b) = b"
  by (simp add: to_bool_def)

lemma to_items_simps [simp, codec_simps]: "to_items (PList xs) = Return xs" "to_items (PStrs ss) = Return (map PStr ss)"
  by (simp_all add: to_items_def PStrs_def)

lemma mapR_Return: "(\<And>x. x \<in> set xs \<Longrightarrow> f x = Return (g x)) \<Longrightarrow> mapR f xs = Return (map g xs)"
  by (induction xs) auto

lemma req_simps [codec_simps]:
  "dget d k = Some v \<Longrightarrow> req_val d k = Return v"
  "dget d k = Some v \<Longrightarrow> req_str d k = Return (to_str v)"
  "dget d k = Some (PDict m) \<Longrightarrow> req_dict d k = Return m"
  by (simp_all add: req_val_def req_str_def req_dict_def)

lemma mapR_to_float [simp]: "mapR to_float (map PFloat fs) = Return fs"
  by (induction fs) auto

lemma get_simps [codec_simps]:
  "dget d k = Some v \<Longrightarrow> get_str d k s = Return (to_str v)"
  "dget d k = Some (PFloat x) \<Longrightarrow> get_float d k q = Return x"
  "dget d k = Some (PBool b) \<Longrightarrow> get_bool d k c = Return b"
  "dget d k = Some (PStrs ss) \<Longrightarrow> get_strs d k = Return ss"
  "dget d k = Some (PList (map PFloat fs)) \<Longrightarrow> get_floats d k qs = Return fs"
  "dget d k = Some (PDict m) \<Longrightarrow> get_dict d k = Return m"
  by (simp_all add: get_str_def get_float_def get_bool_def get_strs_def get_floats_def get_dict_def dget_or_def comp_def)

lemma get_opt_simps [codec_simps]: "dget d k = Some (POpt s) \<Longrightarrow> get_opt_str d k = Return s"
  by (cases s) (simp_all add: get_opt_str_def POpt_def)

section \<open>Indexes and loops\<close>

text \<open>A dictionary comprehension (the last of several equal keys wins), and \<open>setdefault(k, []).append(x)\<close>.\<close>

definition index_by :: "('a \<Rightarrow> string) \<Rightarrow> 'a list \<Rightarrow> 'a dict" where
  "index_by f xs = foldl (\<lambda>d x. dset (f x) x d) [] xs"

definition group_by :: "('a \<Rightarrow> string) \<Rightarrow> 'a list \<Rightarrow> 'a list dict" where
  "group_by f xs = foldl (\<lambda>d x. dset (f x) (dget_or d (f x) [] @ [x]) d) [] xs"

text \<open>The entries a loop with a \<open>seen\<close> set finds for its references.\<close>

fun first_found :: "string list \<Rightarrow> string list \<Rightarrow> 'a dict \<Rightarrow> 'a list" where
  "first_found seen [] index = []"
| "first_found seen (k # ks) index =
     (if k \<in> set seen then first_found seen ks index
      else (case dget index k of
          None \<Rightarrow> first_found (k # seen) ks index
        | Some v \<Rightarrow> v # first_found (k # seen) ks index))"

text \<open>\<open>[index[k] for k in refs if k in index]\<close>.\<close>

definition found_all :: "string list \<Rightarrow> 'a dict \<Rightarrow> 'a list" where
  "found_all ks index = concat (map (\<lambda>k. case dget index k of None \<Rightarrow> [] | Some v \<Rightarrow> [v]) ks)"

text \<open>The mean of the products of two clipped measures over the matching items, \<open>0.0\<close> when there is none.\<close>

definition support :: "('a \<Rightarrow> pyfloat) \<Rightarrow> ('a \<Rightarrow> pyfloat) \<Rightarrow> 'a list \<Rightarrow> pyfloat" where
  "support f g xs =
     (if xs = [] then Fin 0
      else f_div_len (f_sum (map (\<lambda>x. f_mul (f_max0 (f x)) (f_max0 (g x))) xs)) (length xs))"

definition mean_or_zero :: "pyfloat list \<Rightarrow> pyfloat" where
  "mean_or_zero xs = (if xs = [] then Fin 0 else f_div_len (f_sum xs) (length xs))"

text \<open>\<open>sorted(set(xs))\<close>, also of a union of sets.\<close>

definition sorted_set :: "string list \<Rightarrow> string list" where
  "sorted_set xs = sort (remdups xs)"

declare dget_or_dset [simp]

lemma group_by_filter: "dget_or (group_by f xs) k [] = filter (\<lambda>x. f x = k) xs"
proof (induction xs arbitrary: k rule: rev_induct)
  case (snoc x xs)
  have "group_by f (xs @ [x]) = dset (f x) (dget_or (group_by f xs) (f x) [] @ [x]) (group_by f xs)"
    by (simp add: group_by_def)
  with snoc show ?case by simp
qed (simp add: group_by_def dget_or_def)

lemma index_by_elem: "dget (index_by f xs) k = Some v \<Longrightarrow> v \<in> set xs \<and> f v = k"
proof (induction xs arbitrary: k rule: rev_induct)
  case (snoc x xs)
  have "index_by f (xs @ [x]) = dset (f x) x (index_by f xs)" by (simp add: index_by_def)
  with snoc show ?case by (auto simp: update_conv split: if_splits)
qed (simp add: index_by_def)

lemma mean_unit: "\<forall>v\<in>set vs. unit_float v \<Longrightarrow> length vs < 2 ^ 53 \<Longrightarrow> unit_float (mean_or_zero vs)"
  by (auto simp: mean_or_zero_def intro!: f_div_len_unit f_sum_range)

lemma support_mean: "support f g xs = mean_or_zero (map (\<lambda>x. f_mul (f_max0 (f x)) (f_max0 (g x))) xs)"
  by (simp add: support_def mean_or_zero_def)

section \<open>Ranking\<close>

text \<open>
  \<open>rows.sort(key=lambda row: (-float(row["score"]), str(row[ident])))\<close>.  Tuples compare at the
  first entries that differ.  The sort is stable; with no NaN among the scores the keys are totally
  preordered and every stable sort returns this list.
\<close>

definition row_score :: "pyval dict \<Rightarrow> pyfloat" where
  "row_score r = (case dget r ''score'' of Some (PFloat x) \<Rightarrow> x | _ \<Rightarrow> NaN)"

definition row_key :: "string \<Rightarrow> pyval dict \<Rightarrow> pyfloat \<times> string" where
  "row_key ident r = (f_neg (row_score r), to_str (dget_or r ident PNone))"

definition key_less :: "pyfloat \<times> string \<Rightarrow> pyfloat \<times> string \<Rightarrow> bool" where
  "key_less a b = (if f_eq (fst a) (fst b) then snd a < snd b else f_less (fst a) (fst b))"

fun rank_insert :: "string \<Rightarrow> pyval dict \<Rightarrow> pyval dict list \<Rightarrow> pyval dict list" where
  "rank_insert ident r [] = [r]"
| "rank_insert ident r (s # rows) =
     (if key_less (row_key ident r) (row_key ident s) then r # s # rows else s # rank_insert ident r rows)"

definition rank_rows :: "string \<Rightarrow> pyval dict list \<Rightarrow> pyval dict list" where
  "rank_rows ident rows = foldl (\<lambda>acc r. rank_insert ident r acc) [] rows"

definition ranked_before :: "string \<Rightarrow> pyval dict \<Rightarrow> pyval dict \<Rightarrow> bool" where
  "ranked_before ident r s \<longleftrightarrow> \<not> key_less (row_key ident s) (row_key ident r)"

lemma f_less_trans: "f_less x y \<Longrightarrow> f_less y z \<Longrightarrow> f_less x z"
  by (cases x; cases y; cases z) auto

lemma f_trichotomy: "x \<noteq> NaN \<Longrightarrow> y \<noteq> NaN \<Longrightarrow> f_less x y \<or> x = y \<or> f_less y x"
  by (cases x; cases y) auto

lemma f_less_irrefl [simp]: "\<not> f_less x x"
  by (cases x) auto

lemma f_eq_iff: "f_eq x y \<longleftrightarrow> x = y \<and> x \<noteq> NaN"
  by (cases x) auto

lemma f_neg_NaN [simp]: "f_neg x = NaN \<longleftrightarrow> x = NaN"
  by (cases x) auto

lemma ranked_before_trans:
  assumes "ranked_before ident r s" "ranked_before ident s t"
    and "row_score r \<noteq> NaN" "row_score s \<noteq> NaN" "row_score t \<noteq> NaN"
  shows "ranked_before ident r t"
proof -
  obtain a u b v c w where k: "row_key ident r = (a, u)" "row_key ident s = (b, v)" "row_key ident t = (c, w)"
    by (metis surj_pair)
  have n: "a \<noteq> NaN" "b \<noteq> NaN" "c \<noteq> NaN" using assms(3-5) k by (auto simp: row_key_def)
  from assms(1,2) n show ?thesis
    unfolding ranked_before_def key_less_def k f_eq_iff fst_conv snd_conv
    using f_trichotomy [of a b] f_trichotomy [of b c] f_trichotomy [of a c] f_less_trans f_less_irrefl
    by (metis linorder_not_less order_trans)
qed

lemma ranked_before_total:
  assumes "row_score r \<noteq> NaN" "row_score s \<noteq> NaN"
  shows "ranked_before ident r s \<or> ranked_before ident s r"
proof -
  obtain a u b v where k: "row_key ident r = (a, u)" "row_key ident s = (b, v)" by (metis surj_pair)
  have n: "a \<noteq> NaN" "b \<noteq> NaN" using assms k by (auto simp: row_key_def)
  from n show ?thesis
    unfolding ranked_before_def key_less_def k f_eq_iff fst_conv snd_conv
    using f_less_trans [of a b a] by (metis f_less_irrefl order_less_asym)
qed

lemma mset_rank_insert [simp]: "mset (rank_insert ident r rows) = add_mset r (mset rows)"
  by (induction rows) auto

lemma rank_insert_sorted:
  assumes "sorted_wrt (ranked_before ident) rows" "\<forall>s\<in>set (r # rows). row_score s \<noteq> NaN"
  shows "sorted_wrt (ranked_before ident) (rank_insert ident r rows)"
  using assms
proof (induction rows)
  case (Cons s rows)
  have set_ins: "set (rank_insert ident r rows) = insert r (set rows)"
    by (metis mset_rank_insert set_mset_add_mset_insert set_mset_mset)
  show ?case
  proof (cases "key_less (row_key ident r) (row_key ident s)")
    case True
    then have rs: "ranked_before ident r s"
      using ranked_before_total [of r s ident] Cons.prems(2) by (auto simp: ranked_before_def)
    moreover have "ranked_before ident r t" if "t \<in> set rows" for t
      using ranked_before_trans [OF rs, of t] Cons.prems that by auto
    ultimately show ?thesis using True Cons.prems by auto
  next
    case False
    then have "ranked_before ident s r" by (simp add: ranked_before_def)
    then show ?thesis using False Cons by (auto simp: set_ins)
  qed
qed simp

lemma rank_rows_snoc: "rank_rows ident (rows @ [r]) = rank_insert ident r (rank_rows ident rows)"
  by (simp add: rank_rows_def)

lemma mset_rank_rows [simp]: "mset (rank_rows ident rows) = mset rows"
  by (induction rows rule: rev_induct) (simp_all add: rank_rows_snoc rank_rows_def)

lemma set_rank_rows [simp]: "set (rank_rows ident rows) = set rows"
  by (metis mset_rank_rows set_mset_mset)

lemma rank_rows_sorted:
  "\<forall>r\<in>set rows. row_score r \<noteq> NaN \<Longrightarrow> sorted_wrt (ranked_before ident) (rank_rows ident rows)"
proof (induction rows rule: rev_induct)
  case (snoc r rows)
  then show ?case by (auto simp: rank_rows_snoc intro!: rank_insert_sorted)
qed (simp add: rank_rows_def)

text \<open>
  What a ranking promises: the rows carry exactly the given ids, and when every score is a number they
  stand by falling score, equal scores by id.
\<close>

definition ranking_of :: "string \<Rightarrow> string list \<Rightarrow> pyval dict list \<Rightarrow> bool" where
  "ranking_of ident ids rows \<longleftrightarrow>
     mset (map (\<lambda>r. to_str (dget_or r ident PNone)) rows) = mset ids \<and>
     ((\<forall>r\<in>set rows. row_score r \<noteq> NaN) \<longrightarrow> sorted_wrt (ranked_before ident) rows)"

lemma ranking_of_rank_rows:
  assumes "\<And>x. to_str (dget_or (row x) ident PNone) = f x" "mset xs = mset ys"
  shows "ranking_of ident (map f ys) (rank_rows ident (map row xs))"
proof -
  have "mset (map (\<lambda>r. to_str (dget_or r ident PNone)) (rank_rows ident (map row xs))) = mset (map f xs)"
    by (simp add: assms(1) image_mset.comp comp_def multiset.map_comp)
  then show ?thesis using assms(2) rank_rows_sorted [of "map row xs" ident] by (simp add: ranking_of_def)
qed

section \<open>The contract of a dictionary codec\<close>

text \<open>
  A value that is well formed reads back from its dictionary as itself, or as the same value with
  its unordered parts sorted (\<open>norm\<close>).
\<close>

locale codec =
  fixes to_json :: "'a \<Rightarrow> pyval dict" and from_json :: "pyval dict \<Rightarrow> 'a result"
    and wf :: "'a \<Rightarrow> bool" and norm :: "'a \<Rightarrow> 'a"
  assumes read_back: "wf x \<Longrightarrow> from_json (to_json x) = Return (norm x)"
    and wf_norm: "wf x \<Longrightarrow> wf (norm x)"
    and norm_written: "wf x \<Longrightarrow> to_json (norm x) = to_json x"
begin

lemma read_items:
  "\<forall>x\<in>set xs. wf x \<Longrightarrow> mapR (\<lambda>v. bindR (to_dict v) from_json) (map (\<lambda>x. PDict (to_json x)) xs) = Return (map norm xs)"
  by (induction xs) (auto simp: read_back)

lemma norm_idem: "wf x \<Longrightarrow> norm (norm x) = norm x"
  using read_back [of x] read_back [of "norm x"] by (simp add: norm_written wf_norm)

end

end
