(* ===== verification/Fabric_Repair.thy ===== *)
theory Fabric_Repair
  imports Fabric_Values
begin

text \<open>
  \<^verbatim>\<open>services/quantum/fabric/repair.py\<close> and \<^verbatim>\<open>projection.py\<close>: contradictions between patches, the
  repair operators proposed for them, and the future states projected from repairs, with the two
  functions that rank proposals without applying them.  Of the fabric only its id is used.
\<close>

section \<open>Contradictions and repairs\<close>

record contradiction_object =
  co_id :: string
  co_mismatch_type :: string
  co_affected_patch_ids :: "string list"
  co_affected_state_ids :: "string list"
  co_source_refs :: "string list"
  co_severity :: pyfloat
  co_obstruction_score :: pyfloat
  co_metadata :: "pyval dict"

definition contradiction_object_to_json :: "contradiction_object \<Rightarrow> pyval dict" where
  "contradiction_object_to_json x =
     [(''id'', PStr (co_id x)),
      (''mismatch_type'', PStr (co_mismatch_type x)),
      (''affected_patch_ids'', PStrs (co_affected_patch_ids x)),
      (''affected_state_ids'', PStrs (co_affected_state_ids x)),
      (''source_refs'', PStrs (co_source_refs x)),
      (''severity'', PFloat (co_severity x)),
      (''obstruction_score'', PFloat (co_obstruction_score x)),
      (''metadata'', PDict (co_metadata x))]"

definition contradiction_object_from_json :: "pyval dict \<Rightarrow> contradiction_object result" where
  "contradiction_object_from_json data =
     bindR (req_str data ''id'') (\<lambda>id.
     bindR (req_str data ''mismatch_type'') (\<lambda>mismatch_type.
     bindR (get_strs data ''affected_patch_ids'') (\<lambda>affected_patch_ids.
     bindR (get_strs data ''affected_state_ids'') (\<lambda>affected_state_ids.
     bindR (get_strs data ''source_refs'') (\<lambda>source_refs.
     bindR (get_float data ''severity'' 0) (\<lambda>severity.
     bindR (get_float data ''obstruction_score'' 0) (\<lambda>obstruction_score.
     bindR (get_dict data ''metadata'') (\<lambda>metadata.
     Return
       \<lparr>co_id = id,
        co_mismatch_type = mismatch_type,
        co_affected_patch_ids = affected_patch_ids,
        co_affected_state_ids = affected_state_ids,
        co_source_refs = source_refs,
        co_severity = severity,
        co_obstruction_score = obstruction_score,
        co_metadata = metadata\<rparr>))))))))"

interpretation contradiction_object_codec: codec contradiction_object_to_json contradiction_object_from_json "\<lambda>_. True" "\<lambda>x. x"
  by unfold_locales (simp_all add: contradiction_object_to_json_def contradiction_object_from_json_def codec_simps)

record repair_operator =
  ro_id :: string
  ro_contradiction_ids :: "string list"
  ro_operator_type :: string
  ro_affected_patch_ids :: "string list"
  ro_expected_obstruction_delta :: pyfloat
  ro_continuity_role_impact :: pyfloat
  ro_repair_cost :: pyfloat
  ro_confidence :: pyfloat
  ro_metadata :: "pyval dict"

definition repair_operator_to_json :: "repair_operator \<Rightarrow> pyval dict" where
  "repair_operator_to_json x =
     [(''id'', PStr (ro_id x)),
      (''contradiction_ids'', PStrs (ro_contradiction_ids x)),
      (''operator_type'', PStr (ro_operator_type x)),
      (''affected_patch_ids'', PStrs (ro_affected_patch_ids x)),
      (''expected_obstruction_delta'', PFloat (ro_expected_obstruction_delta x)),
      (''continuity_role_impact'', PFloat (ro_continuity_role_impact x)),
      (''repair_cost'', PFloat (ro_repair_cost x)),
      (''confidence'', PFloat (ro_confidence x)),
      (''metadata'', PDict (ro_metadata x))]"

definition repair_operator_from_json :: "pyval dict \<Rightarrow> repair_operator result" where
  "repair_operator_from_json data =
     bindR (req_str data ''id'') (\<lambda>id.
     bindR (get_strs data ''contradiction_ids'') (\<lambda>contradiction_ids.
     bindR (req_str data ''operator_type'') (\<lambda>operator_type.
     bindR (get_strs data ''affected_patch_ids'') (\<lambda>affected_patch_ids.
     bindR (get_float data ''expected_obstruction_delta'' 0) (\<lambda>expected_obstruction_delta.
     bindR (get_float data ''continuity_role_impact'' 0) (\<lambda>continuity_role_impact.
     bindR (get_float data ''repair_cost'' 0) (\<lambda>repair_cost.
     bindR (get_float data ''confidence'' 0) (\<lambda>confidence.
     bindR (get_dict data ''metadata'') (\<lambda>metadata.
     Return
       \<lparr>ro_id = id,
        ro_contradiction_ids = contradiction_ids,
        ro_operator_type = operator_type,
        ro_affected_patch_ids = affected_patch_ids,
        ro_expected_obstruction_delta = expected_obstruction_delta,
        ro_continuity_role_impact = continuity_role_impact,
        ro_repair_cost = repair_cost,
        ro_confidence = confidence,
        ro_metadata = metadata\<rparr>)))))))))"

interpretation repair_operator_codec: codec repair_operator_to_json repair_operator_from_json "\<lambda>_. True" "\<lambda>x. x"
  by unfold_locales (simp_all add: repair_operator_to_json_def repair_operator_from_json_def codec_simps)

record repair_scoring_weights =
  rw_obstruction_reduction :: pyfloat
  rw_continuity_role_impact :: pyfloat
  rw_confidence :: pyfloat
  rw_severity_coverage :: pyfloat
  rw_repair_cost :: pyfloat

definition default_repair_scoring_weights :: repair_scoring_weights where
  "default_repair_scoring_weights =
     \<lparr>rw_obstruction_reduction = lit (9 / 20),
      rw_continuity_role_impact = lit (1 / 5),
      rw_confidence = lit (3 / 20),
      rw_severity_coverage = lit (1 / 4),
      rw_repair_cost = lit (1 / 5)\<rparr>"

definition severity_coverage :: "repair_operator \<Rightarrow> contradiction_object dict \<Rightarrow> pyfloat \<Rightarrow> pyfloat" where
  "severity_coverage candidate contradiction_index total_severity =
     (if f_le total_severity (Fin 0) then Fin 0
      else f_quot (f_sum (map (\<lambda>c. f_max0 (co_severity c))
          (first_found [] (ro_contradiction_ids candidate) contradiction_index))) total_severity)"

definition repair_row ::
  "contradiction_object dict \<Rightarrow> pyfloat \<Rightarrow> repair_scoring_weights \<Rightarrow> repair_operator \<Rightarrow> pyval dict" where
  "repair_row contradiction_index total_severity w c =
     (let severity_cov = severity_coverage c contradiction_index total_severity;
          score = f_sub (weighted
              [(rw_obstruction_reduction w, f_max0 (ro_expected_obstruction_delta c)),
               (rw_continuity_role_impact w, ro_continuity_role_impact c),
               (rw_confidence w, ro_confidence c),
               (rw_severity_coverage w, severity_cov)])
            (f_mul (rw_repair_cost w) (f_max0 (ro_repair_cost c)))
      in [(''repair_id'', PStr (ro_id c)), (''score'', PFloat score),
          (''operator_type'', PStr (ro_operator_type c)),
          (''contradiction_ids'', PStrs (ro_contradiction_ids c)),
          (''expected_obstruction_delta'', PFloat (ro_expected_obstruction_delta c)),
          (''continuity_role_impact'', PFloat (ro_continuity_role_impact c)),
          (''repair_cost'', PFloat (ro_repair_cost c)), (''confidence'', PFloat (ro_confidence c)),
          (''severity_coverage'', PFloat severity_cov)])"

definition score_repair_candidates ::
  "string \<Rightarrow> contradiction_object list \<Rightarrow> repair_operator list \<Rightarrow> repair_scoring_weights option \<Rightarrow>
    string \<times> pyval dict list" where
  "score_repair_candidates fabric_id contradictions candidates weights =
     (let w = (case weights of None \<Rightarrow> default_repair_scoring_weights | Some w \<Rightarrow> w);
          contradiction_index = index_by co_id contradictions;
          total_severity = f_sum (map (\<lambda>c. f_max0 (co_severity c)) contradictions)
      in (fabric_id, rank_rows ''repair_id''
            (map (repair_row contradiction_index total_severity w) (sort_key ro_id candidates))))"

section \<open>Projections and future states\<close>

record projection_object =
  po_id :: string
  po_projection_type :: string
  po_source_fabric_id :: string
  po_projected_fabric_id :: string
  po_repair_ids :: "string list"
  po_horizon :: string
  po_expected_global_coherence :: pyfloat
  po_expected_obstruction_score :: pyfloat
  po_repair_history_refs :: "string list"
  po_metadata :: "pyval dict"

definition projection_object_to_json :: "projection_object \<Rightarrow> pyval dict" where
  "projection_object_to_json x =
     [(''id'', PStr (po_id x)),
      (''projection_type'', PStr (po_projection_type x)),
      (''source_fabric_id'', PStr (po_source_fabric_id x)),
      (''projected_fabric_id'', PStr (po_projected_fabric_id x)),
      (''repair_ids'', PStrs (po_repair_ids x)),
      (''horizon'', PStr (po_horizon x)),
      (''expected_global_coherence'', PFloat (po_expected_global_coherence x)),
      (''expected_obstruction_score'', PFloat (po_expected_obstruction_score x)),
      (''repair_history_refs'', PStrs (po_repair_history_refs x)),
      (''metadata'', PDict (po_metadata x))]"

definition projection_object_from_json :: "pyval dict \<Rightarrow> projection_object result" where
  "projection_object_from_json data =
     bindR (req_str data ''id'') (\<lambda>id.
     bindR (req_str data ''projection_type'') (\<lambda>projection_type.
     bindR (req_str data ''source_fabric_id'') (\<lambda>source_fabric_id.
     bindR (req_str data ''projected_fabric_id'') (\<lambda>projected_fabric_id.
     bindR (get_strs data ''repair_ids'') (\<lambda>repair_ids.
     bindR (get_str data ''horizon'' []) (\<lambda>horizon.
     bindR (get_float data ''expected_global_coherence'' 0) (\<lambda>expected_global_coherence.
     bindR (get_float data ''expected_obstruction_score'' 0) (\<lambda>expected_obstruction_score.
     bindR (get_strs data ''repair_history_refs'') (\<lambda>repair_history_refs.
     bindR (get_dict data ''metadata'') (\<lambda>metadata.
     Return
       \<lparr>po_id = id,
        po_projection_type = projection_type,
        po_source_fabric_id = source_fabric_id,
        po_projected_fabric_id = projected_fabric_id,
        po_repair_ids = repair_ids,
        po_horizon = horizon,
        po_expected_global_coherence = expected_global_coherence,
        po_expected_obstruction_score = expected_obstruction_score,
        po_repair_history_refs = repair_history_refs,
        po_metadata = metadata\<rparr>))))))))))"

interpretation projection_object_codec: codec projection_object_to_json projection_object_from_json "\<lambda>_. True" "\<lambda>x. x"
  by unfold_locales (simp_all add: projection_object_to_json_def projection_object_from_json_def codec_simps)

record future_state_candidate =
  fsc_id :: string
  fsc_projection :: projection_object
  fsc_supporting_repair_ids :: "string list"
  fsc_coherence_delta :: pyfloat
  fsc_obstruction_delta :: pyfloat
  fsc_repair_support :: pyfloat
  fsc_confidence :: pyfloat
  fsc_projection_cost :: pyfloat
  fsc_metadata :: "pyval dict"

definition future_state_candidate_to_json :: "future_state_candidate \<Rightarrow> pyval dict" where
  "future_state_candidate_to_json x =
     [(''id'', PStr (fsc_id x)),
      (''projection'', PDict (projection_object_to_json (fsc_projection x))),
      (''supporting_repair_ids'', PStrs (fsc_supporting_repair_ids x)),
      (''coherence_delta'', PFloat (fsc_coherence_delta x)),
      (''obstruction_delta'', PFloat (fsc_obstruction_delta x)),
      (''repair_support'', PFloat (fsc_repair_support x)),
      (''confidence'', PFloat (fsc_confidence x)),
      (''projection_cost'', PFloat (fsc_projection_cost x)),
      (''metadata'', PDict (fsc_metadata x))]"

definition future_state_candidate_from_json :: "pyval dict \<Rightarrow> future_state_candidate result" where
  "future_state_candidate_from_json data =
     bindR (req_str data ''id'') (\<lambda>id.
     bindR (bindR (req_dict data ''projection'') projection_object_from_json) (\<lambda>projection.
     bindR (get_strs data ''supporting_repair_ids'') (\<lambda>supporting_repair_ids.
     bindR (get_float data ''coherence_delta'' 0) (\<lambda>coherence_delta.
     bindR (get_float data ''obstruction_delta'' 0) (\<lambda>obstruction_delta.
     bindR (get_float data ''repair_support'' 0) (\<lambda>repair_support.
     bindR (get_float data ''confidence'' 0) (\<lambda>confidence.
     bindR (get_float data ''projection_cost'' 0) (\<lambda>projection_cost.
     bindR (get_dict data ''metadata'') (\<lambda>metadata.
     Return
       \<lparr>fsc_id = id,
        fsc_projection = projection,
        fsc_supporting_repair_ids = supporting_repair_ids,
        fsc_coherence_delta = coherence_delta,
        fsc_obstruction_delta = obstruction_delta,
        fsc_repair_support = repair_support,
        fsc_confidence = confidence,
        fsc_projection_cost = projection_cost,
        fsc_metadata = metadata\<rparr>)))))))))"

record future_state_scoring_weights =
  fw_expected_global_coherence :: pyfloat
  fw_obstruction_reduction :: pyfloat
  fw_repair_support :: pyfloat
  fw_confidence :: pyfloat
  fw_projection_cost :: pyfloat

definition default_future_state_scoring_weights :: future_state_scoring_weights where
  "default_future_state_scoring_weights =
     \<lparr>fw_expected_global_coherence = lit (7 / 20),
      fw_obstruction_reduction = lit (3 / 10),
      fw_repair_support = lit (1 / 5),
      fw_confidence = lit (3 / 20),
      fw_projection_cost = lit (1 / 5)\<rparr>"

text \<open>The nested projection is written and read by its own codec.\<close>

interpretation future_state_candidate_codec:
  codec future_state_candidate_to_json future_state_candidate_from_json "\<lambda>_. True" "\<lambda>x. x"
  by unfold_locales
    (simp_all add: future_state_candidate_to_json_def future_state_candidate_from_json_def codec_simps
      projection_object_codec.read_back)

definition repair_history_support :: "future_state_candidate \<Rightarrow> repair_operator dict \<Rightarrow> pyfloat" where
  "repair_history_support candidate repair_index =
     (if repair_index = [] then Fin 0
      else f_sum (map (\<lambda>r. f_mul (f_max0 (ro_expected_obstruction_delta r)) (f_max0 (ro_confidence r)))
        (first_found [] (fsc_supporting_repair_ids candidate @ po_repair_ids (fsc_projection candidate)) repair_index)))"

definition future_state_row ::
  "repair_operator dict \<Rightarrow> future_state_scoring_weights \<Rightarrow> future_state_candidate \<Rightarrow> pyval dict" where
  "future_state_row repair_index w c =
     (let p = fsc_projection c;
          repair_support = f_add (f_max0 (fsc_repair_support c)) (repair_history_support c repair_index);
          score = f_sub (weighted
              [(fw_expected_global_coherence w, f_max0 (po_expected_global_coherence p)),
               (fw_obstruction_reduction w, f_max0 (fsc_obstruction_delta c)),
               (fw_repair_support w, repair_support),
               (fw_confidence w, fsc_confidence c)])
            (f_mul (fw_projection_cost w) (f_max0 (fsc_projection_cost c)))
      in [(''candidate_id'', PStr (fsc_id c)), (''projection_id'', PStr (po_id p)), (''score'', PFloat score),
          (''projection_type'', PStr (po_projection_type p)),
          (''projected_fabric_id'', PStr (po_projected_fabric_id p)), (''horizon'', PStr (po_horizon p)),
          (''expected_global_coherence'', PFloat (po_expected_global_coherence p)),
          (''expected_obstruction_score'', PFloat (po_expected_obstruction_score p)),
          (''coherence_delta'', PFloat (fsc_coherence_delta c)),
          (''obstruction_delta'', PFloat (fsc_obstruction_delta c)),
          (''repair_support'', PFloat repair_support), (''confidence'', PFloat (fsc_confidence c)),
          (''projection_cost'', PFloat (fsc_projection_cost c)),
          (''supporting_repair_ids'', PStrs (fsc_supporting_repair_ids c)),
          (''repair_history_refs'', PStrs (po_repair_history_refs p))])"

definition score_future_state_candidates ::
  "string \<Rightarrow> future_state_candidate list \<Rightarrow> repair_operator list option \<Rightarrow> future_state_scoring_weights option \<Rightarrow>
    string \<times> pyval dict list" where
  "score_future_state_candidates fabric_id candidates repairs weights =
     (let w = (case weights of None \<Rightarrow> default_future_state_scoring_weights | Some w \<Rightarrow> w);
          repair_index = index_by ro_id (case repairs of None \<Rightarrow> [] | Some rs \<Rightarrow> rs)
      in (fabric_id, rank_rows ''candidate_id'' (map (future_state_row repair_index w) (sort_key fsc_id candidates))))"

end
