(* ===== verification/Fabric_Trust.thy ===== *)
theory Fabric_Trust
  imports Fabric_Values
begin

text \<open>
  \<^verbatim>\<open>services/quantum/fabric/trust.py\<close>, \<^verbatim>\<open>observation.py\<close>, \<^verbatim>\<open>correlation.py\<close> and \<^verbatim>\<open>algebra.py\<close>: evidence,
  trust vectors and propagation rules with the trust score they give; observations, correlations
  and reconciliations, ranked with the support of those trust scores.  Of the fabric only its id is
  used.
\<close>

section \<open>Trust\<close>

record trust_evidence =
  te_id :: string
  te_source_ref :: string
  te_target_ref :: string
  te_evidence_type :: string
  te_trust_delta :: pyfloat
  te_confidence :: pyfloat
  te_weight :: pyfloat
  te_metadata :: "pyval dict"

definition trust_evidence_to_json :: "trust_evidence \<Rightarrow> pyval dict" where
  "trust_evidence_to_json x =
     [(''id'', PStr (te_id x)),
      (''source_ref'', PStr (te_source_ref x)),
      (''target_ref'', PStr (te_target_ref x)),
      (''evidence_type'', PStr (te_evidence_type x)),
      (''trust_delta'', PFloat (te_trust_delta x)),
      (''confidence'', PFloat (te_confidence x)),
      (''weight'', PFloat (te_weight x)),
      (''metadata'', PDict (te_metadata x))]"

definition trust_evidence_from_json :: "pyval dict \<Rightarrow> trust_evidence result" where
  "trust_evidence_from_json data =
     bindR (req_str data ''id'') (\<lambda>id.
     bindR (req_str data ''source_ref'') (\<lambda>source_ref.
     bindR (req_str data ''target_ref'') (\<lambda>target_ref.
     bindR (req_str data ''evidence_type'') (\<lambda>evidence_type.
     bindR (get_float data ''trust_delta'' 0) (\<lambda>trust_delta.
     bindR (get_float data ''confidence'' 0) (\<lambda>confidence.
     bindR (get_float data ''weight'' 1) (\<lambda>weight.
     bindR (get_dict data ''metadata'') (\<lambda>metadata.
     Return
       \<lparr>te_id = id,
        te_source_ref = source_ref,
        te_target_ref = target_ref,
        te_evidence_type = evidence_type,
        te_trust_delta = trust_delta,
        te_confidence = confidence,
        te_weight = weight,
        te_metadata = metadata\<rparr>))))))))"

interpretation trust_evidence_codec: codec trust_evidence_to_json trust_evidence_from_json "\<lambda>_. True" "\<lambda>x. x"
  by unfold_locales (simp_all add: trust_evidence_to_json_def trust_evidence_from_json_def codec_simps)

record trust_vector =
  tv_id :: string
  tv_target_ref :: string
  tv_dimensions :: "pyfloat dict"
  tv_evidence_ids :: "string list"
  tv_metadata :: "pyval dict"

definition trust_vector_to_json :: "trust_vector \<Rightarrow> pyval dict" where
  "trust_vector_to_json x =
     [(''id'', PStr (tv_id x)),
      (''target_ref'', PStr (tv_target_ref x)),
      (''dimensions'', PDict (map (map_prod id PFloat) (sort_key fst (tv_dimensions x)))),
      (''evidence_ids'', PStrs (tv_evidence_ids x)),
      (''metadata'', PDict (tv_metadata x))]"

text \<open>\<open>{str(key): float(value) for ...}\<close>.\<close>

definition read_dimensions :: "pyval dict \<Rightarrow> pyfloat dict result" where
  "read_dimensions d = mapR (\<lambda>kv. bindR (to_float (snd kv)) (\<lambda>x. Return (fst kv, x))) d"

definition trust_vector_from_json :: "pyval dict \<Rightarrow> trust_vector result" where
  "trust_vector_from_json data =
     bindR (req_str data ''id'') (\<lambda>id.
     bindR (req_str data ''target_ref'') (\<lambda>target_ref.
     bindR (bindR (get_dict data ''dimensions'') read_dimensions) (\<lambda>dimensions.
     bindR (get_strs data ''evidence_ids'') (\<lambda>evidence_ids.
     bindR (get_dict data ''metadata'') (\<lambda>metadata.
     Return
       \<lparr>tv_id = id,
        tv_target_ref = target_ref,
        tv_dimensions = dimensions,
        tv_evidence_ids = evidence_ids,
        tv_metadata = metadata\<rparr>)))))"

lemma read_dimensions_back: "read_dimensions (map (map_prod id PFloat) d) = Return d"
  unfolding read_dimensions_def by (induction d) auto

lemma sort_key_idem': "distinct (dkeys d) \<Longrightarrow> sort_key fst (sort_key fst d) = sort_key fst d" for d :: "'a dict"
  by (rule sort_key_id_if_sorted) simp

text \<open>A vector is written with its dimensions sorted by name.\<close>

interpretation trust_vector_codec:
  codec trust_vector_to_json trust_vector_from_json "\<lambda>x. distinct (dkeys (tv_dimensions x))"
    "\<lambda>x. x\<lparr>tv_dimensions := sort_key fst (tv_dimensions x)\<rparr>"
  by unfold_locales
    (simp_all add: trust_vector_to_json_def trust_vector_from_json_def codec_simps read_dimensions_back
      sort_key_idem' distinct_map)

record trust_propagation_rule =
  tpr_id :: string
  tpr_rule_type :: string
  tpr_source_refs :: "string list"
  tpr_target_ref :: string
  tpr_propagation_weight :: pyfloat
  tpr_decay :: pyfloat
  tpr_metadata :: "pyval dict"

definition trust_propagation_rule_to_json :: "trust_propagation_rule \<Rightarrow> pyval dict" where
  "trust_propagation_rule_to_json x =
     [(''id'', PStr (tpr_id x)),
      (''rule_type'', PStr (tpr_rule_type x)),
      (''source_refs'', PStrs (tpr_source_refs x)),
      (''target_ref'', PStr (tpr_target_ref x)),
      (''propagation_weight'', PFloat (tpr_propagation_weight x)),
      (''decay'', PFloat (tpr_decay x)),
      (''metadata'', PDict (tpr_metadata x))]"

definition trust_propagation_rule_from_json :: "pyval dict \<Rightarrow> trust_propagation_rule result" where
  "trust_propagation_rule_from_json data =
     bindR (req_str data ''id'') (\<lambda>id.
     bindR (req_str data ''rule_type'') (\<lambda>rule_type.
     bindR (get_strs data ''source_refs'') (\<lambda>source_refs.
     bindR (req_str data ''target_ref'') (\<lambda>target_ref.
     bindR (get_float data ''propagation_weight'' 0) (\<lambda>propagation_weight.
     bindR (get_float data ''decay'' 0) (\<lambda>decay.
     bindR (get_dict data ''metadata'') (\<lambda>metadata.
     Return
       \<lparr>tpr_id = id,
        tpr_rule_type = rule_type,
        tpr_source_refs = source_refs,
        tpr_target_ref = target_ref,
        tpr_propagation_weight = propagation_weight,
        tpr_decay = decay,
        tpr_metadata = metadata\<rparr>)))))))"

interpretation trust_propagation_rule_codec: codec trust_propagation_rule_to_json trust_propagation_rule_from_json "\<lambda>_. True" "\<lambda>x. x"
  by unfold_locales (simp_all add: trust_propagation_rule_to_json_def trust_propagation_rule_from_json_def codec_simps)

record trust_score =
  ts_id :: string
  ts_target_ref :: string
  ts_score :: pyfloat
  ts_confidence :: pyfloat
  ts_evidence_ids :: "string list"
  ts_vector_id :: "string option"
  ts_metadata :: "pyval dict"

definition trust_score_to_json :: "trust_score \<Rightarrow> pyval dict" where
  "trust_score_to_json x =
     [(''id'', PStr (ts_id x)),
      (''target_ref'', PStr (ts_target_ref x)),
      (''score'', PFloat (ts_score x)),
      (''confidence'', PFloat (ts_confidence x)),
      (''evidence_ids'', PStrs (ts_evidence_ids x)),
      (''vector_id'', POpt (ts_vector_id x)),
      (''metadata'', PDict (ts_metadata x))]"

definition trust_score_from_json :: "pyval dict \<Rightarrow> trust_score result" where
  "trust_score_from_json data =
     bindR (req_str data ''id'') (\<lambda>id.
     bindR (req_str data ''target_ref'') (\<lambda>target_ref.
     bindR (get_float data ''score'' 0) (\<lambda>score.
     bindR (get_float data ''confidence'' 0) (\<lambda>confidence.
     bindR (get_strs data ''evidence_ids'') (\<lambda>evidence_ids.
     bindR (get_opt_str data ''vector_id'') (\<lambda>vector_id.
     bindR (get_dict data ''metadata'') (\<lambda>metadata.
     Return
       \<lparr>ts_id = id,
        ts_target_ref = target_ref,
        ts_score = score,
        ts_confidence = confidence,
        ts_evidence_ids = evidence_ids,
        ts_vector_id = vector_id,
        ts_metadata = metadata\<rparr>)))))))"

interpretation trust_score_codec: codec trust_score_to_json trust_score_from_json "\<lambda>_. True" "\<lambda>x. x"
  by unfold_locales (simp_all add: trust_score_to_json_def trust_score_from_json_def codec_simps)

record trust_scoring_weights =
  tw_vector_score :: pyfloat
  tw_evidence_score :: pyfloat
  tw_propagation_score :: pyfloat
  tw_confidence :: pyfloat

definition default_trust_scoring_weights :: trust_scoring_weights where
  "default_trust_scoring_weights =
     \<lparr>tw_vector_score = lit (9 / 20),
      tw_evidence_score = lit (7 / 20),
      tw_propagation_score = lit (1 / 5),
      tw_confidence = lit (3 / 20)\<rparr>"

definition vector_score :: "trust_vector option \<Rightarrow> pyfloat" where
  "vector_score v = (case v of None \<Rightarrow> Fin 0 | Some v \<Rightarrow> mean_or_zero (map snd (tv_dimensions v)))"

definition evidence_score :: "trust_evidence list \<Rightarrow> pyfloat" where
  "evidence_score es =
     (if es = [] then Fin 0
      else (let total_weight = f_sum (map (\<lambda>e. f_max0 (te_weight e)) es) in
        if f_le total_weight (Fin 0) then Fin 0
        else f_quot (f_sum (map (\<lambda>e. f_mul (f_mul (te_trust_delta e) (te_confidence e)) (f_max0 (te_weight e))) es))
               total_weight))"

definition rule_score :: "trust_vector dict \<Rightarrow> trust_propagation_rule \<Rightarrow> pyfloat" where
  "rule_score vector_by_target r =
     (let source_score = mean_or_zero (map (\<lambda>s. vector_score (dget vector_by_target s)) (tpr_source_refs r))
      in f_mul (f_mul source_score (f_max0 (tpr_propagation_weight r)))
           (f_sub (Fin 1) (f_max0 (tpr_decay r))))"

definition propagation_score :: "trust_propagation_rule list \<Rightarrow> trust_vector dict \<Rightarrow> pyfloat" where
  "propagation_score rs vector_by_target = mean_or_zero (map (rule_score vector_by_target) rs)"

definition trust_confidence ::
  "trust_evidence list \<Rightarrow> trust_vector option \<Rightarrow> trust_propagation_rule list \<Rightarrow> pyfloat" where
  "trust_confidence es v rs =
     mean_or_zero (map (\<lambda>e. f_max0 (te_confidence e)) es @
       (case v of None \<Rightarrow> [] | Some v \<Rightarrow> [if tv_dimensions v \<noteq> [] then Fin 1 else Fin 0]) @
       map (\<lambda>r. f_max0 (f_min (Fin 1) (tpr_propagation_weight r))) rs)"

definition target_score ::
  "trust_evidence list dict \<Rightarrow> trust_propagation_rule list dict \<Rightarrow> trust_vector dict \<Rightarrow> trust_scoring_weights \<Rightarrow>
    string \<Rightarrow> trust_score" where
  "target_score evidence_by_target rules_by_target vector_by_target w target_ref =
     (let v = dget vector_by_target target_ref;
          es = dget_or evidence_by_target target_ref [];
          rs = dget_or rules_by_target target_ref [];
          vs = vector_score v; ev = evidence_score es; ps = propagation_score rs vector_by_target;
          confidence = trust_confidence es v rs
      in \<lparr>ts_id = ''trust.score.'' @ target_ref, ts_target_ref = target_ref,
          ts_score = weighted [(tw_vector_score w, vs), (tw_evidence_score w, ev),
            (tw_propagation_score w, ps), (tw_confidence w, confidence)],
          ts_confidence = confidence, ts_evidence_ids = map te_id (sort_key te_id es),
          ts_vector_id = map_option tv_id v,
          ts_metadata = [(''vector_score'', PFloat vs), (''evidence_score'', PFloat ev),
            (''propagation_score'', PFloat ps)]\<rparr>)"

definition trust_targets :: "trust_vector list \<Rightarrow> trust_evidence list \<Rightarrow> trust_propagation_rule list \<Rightarrow> string list" where
  "trust_targets vectors evidence rules =
     sorted_set (dkeys (index_by tv_target_ref vectors) @ dkeys (group_by te_target_ref evidence) @
       dkeys (group_by tpr_target_ref rules))"

definition score_trust ::
  "string \<Rightarrow> trust_vector list \<Rightarrow> trust_evidence list \<Rightarrow> trust_propagation_rule list option \<Rightarrow>
    trust_scoring_weights option \<Rightarrow> string \<times> pyval dict list" where
  "score_trust fabric_id vectors evidence propagation_rules weights =
     (let w = (case weights of None \<Rightarrow> default_trust_scoring_weights | Some w \<Rightarrow> w);
          rules = (case propagation_rules of None \<Rightarrow> [] | Some rs \<Rightarrow> rs)
      in (fabric_id, rank_rows ''target_ref''
           (map (\<lambda>t. trust_score_to_json (target_score (group_by te_target_ref evidence)
                  (group_by tpr_target_ref rules) (index_by tv_target_ref vectors) w t))
              (trust_targets vectors evidence rules))))"

section \<open>Observations\<close>

record observation_object =
  oo_id :: string
  oo_observer_ref :: string
  oo_target_ref :: string
  oo_observation_type :: string
  oo_signal :: string
  oo_magnitude :: pyfloat
  oo_confidence :: pyfloat
  oo_source_refs :: "string list"
  oo_metadata :: "pyval dict"

definition observation_object_to_json :: "observation_object \<Rightarrow> pyval dict" where
  "observation_object_to_json x =
     [(''id'', PStr (oo_id x)),
      (''observer_ref'', PStr (oo_observer_ref x)),
      (''target_ref'', PStr (oo_target_ref x)),
      (''observation_type'', PStr (oo_observation_type x)),
      (''signal'', PStr (oo_signal x)),
      (''magnitude'', PFloat (oo_magnitude x)),
      (''confidence'', PFloat (oo_confidence x)),
      (''source_refs'', PStrs (oo_source_refs x)),
      (''metadata'', PDict (oo_metadata x))]"

definition observation_object_from_json :: "pyval dict \<Rightarrow> observation_object result" where
  "observation_object_from_json data =
     bindR (req_str data ''id'') (\<lambda>id.
     bindR (req_str data ''observer_ref'') (\<lambda>observer_ref.
     bindR (req_str data ''target_ref'') (\<lambda>target_ref.
     bindR (req_str data ''observation_type'') (\<lambda>observation_type.
     bindR (req_str data ''signal'') (\<lambda>signal.
     bindR (get_float data ''magnitude'' 0) (\<lambda>magnitude.
     bindR (get_float data ''confidence'' 0) (\<lambda>confidence.
     bindR (get_strs data ''source_refs'') (\<lambda>source_refs.
     bindR (get_dict data ''metadata'') (\<lambda>metadata.
     Return
       \<lparr>oo_id = id,
        oo_observer_ref = observer_ref,
        oo_target_ref = target_ref,
        oo_observation_type = observation_type,
        oo_signal = signal,
        oo_magnitude = magnitude,
        oo_confidence = confidence,
        oo_source_refs = source_refs,
        oo_metadata = metadata\<rparr>)))))))))"

interpretation observation_object_codec: codec observation_object_to_json observation_object_from_json "\<lambda>_. True" "\<lambda>x. x"
  by unfold_locales (simp_all add: observation_object_to_json_def observation_object_from_json_def codec_simps)

record observation_frame =
  obf_id :: string
  obf_fabric_id :: string
  obf_observation_ids :: "string list"
  obf_horizon :: string
  obf_context_refs :: "string list"
  obf_metadata :: "pyval dict"

definition observation_frame_to_json :: "observation_frame \<Rightarrow> pyval dict" where
  "observation_frame_to_json x =
     [(''id'', PStr (obf_id x)),
      (''fabric_id'', PStr (obf_fabric_id x)),
      (''observation_ids'', PStrs (obf_observation_ids x)),
      (''horizon'', PStr (obf_horizon x)),
      (''context_refs'', PStrs (obf_context_refs x)),
      (''metadata'', PDict (obf_metadata x))]"

definition observation_frame_from_json :: "pyval dict \<Rightarrow> observation_frame result" where
  "observation_frame_from_json data =
     bindR (req_str data ''id'') (\<lambda>id.
     bindR (req_str data ''fabric_id'') (\<lambda>fabric_id.
     bindR (get_strs data ''observation_ids'') (\<lambda>observation_ids.
     bindR (get_str data ''horizon'' []) (\<lambda>horizon.
     bindR (get_strs data ''context_refs'') (\<lambda>context_refs.
     bindR (get_dict data ''metadata'') (\<lambda>metadata.
     Return
       \<lparr>obf_id = id,
        obf_fabric_id = fabric_id,
        obf_observation_ids = observation_ids,
        obf_horizon = horizon,
        obf_context_refs = context_refs,
        obf_metadata = metadata\<rparr>))))))"

interpretation observation_frame_codec: codec observation_frame_to_json observation_frame_from_json "\<lambda>_. True" "\<lambda>x. x"
  by unfold_locales (simp_all add: observation_frame_to_json_def observation_frame_from_json_def codec_simps)

record observation_score =
  obs_id :: string
  obs_observation_id :: string
  obs_target_ref :: string
  obs_score :: pyfloat
  obs_relevance :: pyfloat
  obs_confidence :: pyfloat
  obs_trust_support :: pyfloat
  obs_metadata :: "pyval dict"

definition observation_score_to_json :: "observation_score \<Rightarrow> pyval dict" where
  "observation_score_to_json x =
     [(''id'', PStr (obs_id x)),
      (''observation_id'', PStr (obs_observation_id x)),
      (''target_ref'', PStr (obs_target_ref x)),
      (''score'', PFloat (obs_score x)),
      (''relevance'', PFloat (obs_relevance x)),
      (''confidence'', PFloat (obs_confidence x)),
      (''trust_support'', PFloat (obs_trust_support x)),
      (''metadata'', PDict (obs_metadata x))]"

definition observation_score_from_json :: "pyval dict \<Rightarrow> observation_score result" where
  "observation_score_from_json data =
     bindR (req_str data ''id'') (\<lambda>id.
     bindR (req_str data ''observation_id'') (\<lambda>observation_id.
     bindR (req_str data ''target_ref'') (\<lambda>target_ref.
     bindR (get_float data ''score'' 0) (\<lambda>score.
     bindR (get_float data ''relevance'' 0) (\<lambda>relevance.
     bindR (get_float data ''confidence'' 0) (\<lambda>confidence.
     bindR (get_float data ''trust_support'' 0) (\<lambda>trust_support.
     bindR (get_dict data ''metadata'') (\<lambda>metadata.
     Return
       \<lparr>obs_id = id,
        obs_observation_id = observation_id,
        obs_target_ref = target_ref,
        obs_score = score,
        obs_relevance = relevance,
        obs_confidence = confidence,
        obs_trust_support = trust_support,
        obs_metadata = metadata\<rparr>))))))))"

interpretation observation_score_codec: codec observation_score_to_json observation_score_from_json "\<lambda>_. True" "\<lambda>x. x"
  by unfold_locales (simp_all add: observation_score_to_json_def observation_score_from_json_def codec_simps)

record observation_scoring_weights =
  ow_magnitude :: pyfloat
  ow_confidence :: pyfloat
  ow_trust_support :: pyfloat
  ow_source_support :: pyfloat

definition default_observation_scoring_weights :: observation_scoring_weights where
  "default_observation_scoring_weights =
     \<lparr>ow_magnitude = lit (7 / 20),
      ow_confidence = lit (1 / 4),
      ow_trust_support = lit (1 / 4),
      ow_source_support = lit (3 / 20)\<rparr>"

definition trust_product :: "trust_score \<Rightarrow> pyfloat" where
  "trust_product t = f_mul (f_max0 (ts_score t)) (f_max0 (ts_confidence t))"

definition observation_trust_support :: "observation_object \<Rightarrow> trust_score dict \<Rightarrow> pyfloat" where
  "observation_trust_support o' trust_index =
     (case dget trust_index (oo_target_ref o') of None \<Rightarrow> Fin 0 | Some t \<Rightarrow> trust_product t)"

definition score_observation ::
  "trust_score dict \<Rightarrow> observation_scoring_weights \<Rightarrow> observation_object \<Rightarrow> observation_score" where
  "score_observation trust_index w o' =
     (let trust_support = observation_trust_support o' trust_index;
          refs = oo_source_refs o';
          source_support = ratio (length (remdups refs)) (max 1 (if length refs \<noteq> 0 then length refs else 1));
          magnitude = f_max0 (oo_magnitude o'); confidence = f_max0 (oo_confidence o')
      in \<lparr>obs_id = ''observation.score.'' @ oo_id o', obs_observation_id = oo_id o',
          obs_target_ref = oo_target_ref o',
          obs_score = weighted [(ow_magnitude w, magnitude), (ow_confidence w, confidence),
            (ow_trust_support w, trust_support), (ow_source_support w, source_support)],
          obs_relevance = f_mul magnitude confidence, obs_confidence = oo_confidence o',
          obs_trust_support = trust_support,
          obs_metadata = [(''observation_type'', PStr (oo_observation_type o')), (''signal'', PStr (oo_signal o')),
            (''source_support'', PFloat source_support)]\<rparr>)"

definition in_frame :: "observation_frame option \<Rightarrow> observation_object \<Rightarrow> bool" where
  "in_frame frame o' =
     (case frame of None \<Rightarrow> True
      | Some f \<Rightarrow> obf_observation_ids f = [] \<or> oo_id o' \<in> set (obf_observation_ids f))"

definition score_observations ::
  "string \<Rightarrow> observation_object list \<Rightarrow> observation_frame option \<Rightarrow> trust_score list option \<Rightarrow>
    observation_scoring_weights option \<Rightarrow> string \<times> string option \<times> pyval dict list" where
  "score_observations fabric_id observations frame trust_scores weights =
     (let w = (case weights of None \<Rightarrow> default_observation_scoring_weights | Some w \<Rightarrow> w);
          trust_index = index_by ts_target_ref (case trust_scores of None \<Rightarrow> [] | Some ts \<Rightarrow> ts)
      in (fabric_id, map_option obf_id frame,
          rank_rows ''observation_id'' (map (\<lambda>o'. observation_score_to_json (score_observation trust_index w o'))
            (filter (in_frame frame) (sort_key oo_id observations)))))"

section \<open>Correlations\<close>

record correlation_object =
  cro_id :: string
  cro_correlation_type :: string
  cro_left_ref :: string
  cro_right_ref :: string
  cro_strength :: pyfloat
  cro_confidence :: pyfloat
  cro_source_refs :: "string list"
  cro_metadata :: "pyval dict"

definition correlation_object_to_json :: "correlation_object \<Rightarrow> pyval dict" where
  "correlation_object_to_json x =
     [(''id'', PStr (cro_id x)),
      (''correlation_type'', PStr (cro_correlation_type x)),
      (''left_ref'', PStr (cro_left_ref x)),
      (''right_ref'', PStr (cro_right_ref x)),
      (''strength'', PFloat (cro_strength x)),
      (''confidence'', PFloat (cro_confidence x)),
      (''source_refs'', PStrs (cro_source_refs x)),
      (''metadata'', PDict (cro_metadata x))]"

definition correlation_object_from_json :: "pyval dict \<Rightarrow> correlation_object result" where
  "correlation_object_from_json data =
     bindR (req_str data ''id'') (\<lambda>id.
     bindR (req_str data ''correlation_type'') (\<lambda>correlation_type.
     bindR (req_str data ''left_ref'') (\<lambda>left_ref.
     bindR (req_str data ''right_ref'') (\<lambda>right_ref.
     bindR (get_float data ''strength'' 0) (\<lambda>strength.
     bindR (get_float data ''confidence'' 0) (\<lambda>confidence.
     bindR (get_strs data ''source_refs'') (\<lambda>source_refs.
     bindR (get_dict data ''metadata'') (\<lambda>metadata.
     Return
       \<lparr>cro_id = id,
        cro_correlation_type = correlation_type,
        cro_left_ref = left_ref,
        cro_right_ref = right_ref,
        cro_strength = strength,
        cro_confidence = confidence,
        cro_source_refs = source_refs,
        cro_metadata = metadata\<rparr>))))))))"

interpretation correlation_object_codec: codec correlation_object_to_json correlation_object_from_json "\<lambda>_. True" "\<lambda>x. x"
  by unfold_locales (simp_all add: correlation_object_to_json_def correlation_object_from_json_def codec_simps)

record correlation_metric =
  crm_id :: string
  crm_correlation_id :: string
  crm_metric_type :: string
  crm_value :: pyfloat
  crm_confidence :: pyfloat
  crm_source_refs :: "string list"
  crm_metadata :: "pyval dict"

definition correlation_metric_to_json :: "correlation_metric \<Rightarrow> pyval dict" where
  "correlation_metric_to_json x =
     [(''id'', PStr (crm_id x)),
      (''correlation_id'', PStr (crm_correlation_id x)),
      (''metric_type'', PStr (crm_metric_type x)),
      (''value'', PFloat (crm_value x)),
      (''confidence'', PFloat (crm_confidence x)),
      (''source_refs'', PStrs (crm_source_refs x)),
      (''metadata'', PDict (crm_metadata x))]"

definition correlation_metric_from_json :: "pyval dict \<Rightarrow> correlation_metric result" where
  "correlation_metric_from_json data =
     bindR (req_str data ''id'') (\<lambda>id.
     bindR (req_str data ''correlation_id'') (\<lambda>correlation_id.
     bindR (req_str data ''metric_type'') (\<lambda>metric_type.
     bindR (get_float data ''value'' 0) (\<lambda>value.
     bindR (get_float data ''confidence'' 0) (\<lambda>confidence.
     bindR (get_strs data ''source_refs'') (\<lambda>source_refs.
     bindR (get_dict data ''metadata'') (\<lambda>metadata.
     Return
       \<lparr>crm_id = id,
        crm_correlation_id = correlation_id,
        crm_metric_type = metric_type,
        crm_value = value,
        crm_confidence = confidence,
        crm_source_refs = source_refs,
        crm_metadata = metadata\<rparr>)))))))"

interpretation correlation_metric_codec: codec correlation_metric_to_json correlation_metric_from_json "\<lambda>_. True" "\<lambda>x. x"
  by unfold_locales (simp_all add: correlation_metric_to_json_def correlation_metric_from_json_def codec_simps)

record correlation_cluster =
  crc_id :: string
  crc_correlation_ids :: "string list"
  crc_member_refs :: "string list"
  crc_centroid_ref :: "string option"
  crc_cohesion_score :: pyfloat
  crc_metadata :: "pyval dict"

definition correlation_cluster_to_json :: "correlation_cluster \<Rightarrow> pyval dict" where
  "correlation_cluster_to_json x =
     [(''id'', PStr (crc_id x)),
      (''correlation_ids'', PStrs (crc_correlation_ids x)),
      (''member_refs'', PStrs (crc_member_refs x)),
      (''centroid_ref'', POpt (crc_centroid_ref x)),
      (''cohesion_score'', PFloat (crc_cohesion_score x)),
      (''metadata'', PDict (crc_metadata x))]"

definition correlation_cluster_from_json :: "pyval dict \<Rightarrow> correlation_cluster result" where
  "correlation_cluster_from_json data =
     bindR (req_str data ''id'') (\<lambda>id.
     bindR (get_strs data ''correlation_ids'') (\<lambda>correlation_ids.
     bindR (get_strs data ''member_refs'') (\<lambda>member_refs.
     bindR (get_opt_str data ''centroid_ref'') (\<lambda>centroid_ref.
     bindR (get_float data ''cohesion_score'' 0) (\<lambda>cohesion_score.
     bindR (get_dict data ''metadata'') (\<lambda>metadata.
     Return
       \<lparr>crc_id = id,
        crc_correlation_ids = correlation_ids,
        crc_member_refs = member_refs,
        crc_centroid_ref = centroid_ref,
        crc_cohesion_score = cohesion_score,
        crc_metadata = metadata\<rparr>))))))"

interpretation correlation_cluster_codec: codec correlation_cluster_to_json correlation_cluster_from_json "\<lambda>_. True" "\<lambda>x. x"
  by unfold_locales (simp_all add: correlation_cluster_to_json_def correlation_cluster_from_json_def codec_simps)

record correlation_scoring_weights =
  cw_strength :: pyfloat
  cw_confidence :: pyfloat
  cw_trust_support :: pyfloat
  cw_observation_support :: pyfloat
  cw_source_support :: pyfloat

definition default_correlation_scoring_weights :: correlation_scoring_weights where
  "default_correlation_scoring_weights =
     \<lparr>cw_strength = lit (7 / 20),
      cw_confidence = lit (1 / 4),
      cw_trust_support = lit (1 / 5),
      cw_observation_support = lit (3 / 20),
      cw_source_support = lit (1 / 20)\<rparr>"

definition correlation_trust_support :: "correlation_object \<Rightarrow> trust_score dict \<Rightarrow> pyfloat" where
  "correlation_trust_support c trust_index =
     f_sum (map trust_product (first_found [] [cro_left_ref c, cro_right_ref c] trust_index))"

definition correlation_observation_support ::
  "correlation_object \<Rightarrow> observation_object list dict \<Rightarrow> pyfloat" where
  "correlation_observation_support c observation_index =
     support oo_magnitude oo_confidence
       (dget_or observation_index (cro_left_ref c) [] @ dget_or observation_index (cro_right_ref c) [])"

definition source_support :: "string list \<Rightarrow> pyfloat" where
  "source_support refs = (if refs = [] then Fin 0 else ratio (length (remdups refs)) (length refs))"

definition correlation_row ::
  "observation_object list dict \<Rightarrow> trust_score dict \<Rightarrow> correlation_scoring_weights \<Rightarrow> correlation_object \<Rightarrow>
    pyval dict" where
  "correlation_row observation_index trust_index w c =
     (let trust_sup = correlation_trust_support c trust_index;
          observation_sup = correlation_observation_support c observation_index;
          source_sup = source_support (cro_source_refs c);
          score = weighted [(cw_strength w, f_max0 (cro_strength c)), (cw_confidence w, f_max0 (cro_confidence c)),
            (cw_trust_support w, trust_sup), (cw_observation_support w, observation_sup),
            (cw_source_support w, source_sup)]
      in [(''correlation_id'', PStr (cro_id c)), (''score'', PFloat score),
          (''correlation_type'', PStr (cro_correlation_type c)),
          (''left_ref'', PStr (cro_left_ref c)), (''right_ref'', PStr (cro_right_ref c)),
          (''strength'', PFloat (cro_strength c)), (''confidence'', PFloat (cro_confidence c)),
          (''trust_support'', PFloat trust_sup), (''observation_support'', PFloat observation_sup),
          (''source_support'', PFloat source_sup), (''source_refs'', PStrs (cro_source_refs c))])"

definition score_correlations ::
  "string \<Rightarrow> correlation_object list \<Rightarrow> observation_object list option \<Rightarrow> trust_score list option \<Rightarrow>
    correlation_scoring_weights option \<Rightarrow> string \<times> pyval dict list" where
  "score_correlations fabric_id correlations observations trust_scores weights =
     (let w = (case weights of None \<Rightarrow> default_correlation_scoring_weights | Some w \<Rightarrow> w);
          observation_index = group_by oo_target_ref (case observations of None \<Rightarrow> [] | Some os \<Rightarrow> os);
          trust_index = index_by ts_target_ref (case trust_scores of None \<Rightarrow> [] | Some ts \<Rightarrow> ts)
      in (fabric_id, rank_rows ''correlation_id''
           (map (correlation_row observation_index trust_index w) (sort_key cro_id correlations))))"

section \<open>Reconciliations\<close>

record state_transform =
  stf_id :: string
  stf_transform_type :: string
  stf_source_state_ids :: "string list"
  stf_target_state_ids :: "string list"
  stf_expected_coherence_delta :: pyfloat
  stf_expected_obstruction_delta :: pyfloat
  stf_confidence :: pyfloat
  stf_cost :: pyfloat
  stf_metadata :: "pyval dict"

definition state_transform_to_json :: "state_transform \<Rightarrow> pyval dict" where
  "state_transform_to_json x =
     [(''id'', PStr (stf_id x)),
      (''transform_type'', PStr (stf_transform_type x)),
      (''source_state_ids'', PStrs (stf_source_state_ids x)),
      (''target_state_ids'', PStrs (stf_target_state_ids x)),
      (''expected_coherence_delta'', PFloat (stf_expected_coherence_delta x)),
      (''expected_obstruction_delta'', PFloat (stf_expected_obstruction_delta x)),
      (''confidence'', PFloat (stf_confidence x)),
      (''cost'', PFloat (stf_cost x)),
      (''metadata'', PDict (stf_metadata x))]"

definition state_transform_from_json :: "pyval dict \<Rightarrow> state_transform result" where
  "state_transform_from_json data =
     bindR (req_str data ''id'') (\<lambda>id.
     bindR (req_str data ''transform_type'') (\<lambda>transform_type.
     bindR (get_strs data ''source_state_ids'') (\<lambda>source_state_ids.
     bindR (get_strs data ''target_state_ids'') (\<lambda>target_state_ids.
     bindR (get_float data ''expected_coherence_delta'' 0) (\<lambda>expected_coherence_delta.
     bindR (get_float data ''expected_obstruction_delta'' 0) (\<lambda>expected_obstruction_delta.
     bindR (get_float data ''confidence'' 0) (\<lambda>confidence.
     bindR (get_float data ''cost'' 0) (\<lambda>cost.
     bindR (get_dict data ''metadata'') (\<lambda>metadata.
     Return
       \<lparr>stf_id = id,
        stf_transform_type = transform_type,
        stf_source_state_ids = source_state_ids,
        stf_target_state_ids = target_state_ids,
        stf_expected_coherence_delta = expected_coherence_delta,
        stf_expected_obstruction_delta = expected_obstruction_delta,
        stf_confidence = confidence,
        stf_cost = cost,
        stf_metadata = metadata\<rparr>)))))))))"

interpretation state_transform_codec: codec state_transform_to_json state_transform_from_json "\<lambda>_. True" "\<lambda>x. x"
  by unfold_locales (simp_all add: state_transform_to_json_def state_transform_from_json_def codec_simps)

record state_merge =
  smg_id :: string
  smg_left_state_id :: string
  smg_right_state_id :: string
  smg_merged_state_id :: string
  smg_transform_id :: string
  smg_metadata :: "pyval dict"

definition state_merge_to_json :: "state_merge \<Rightarrow> pyval dict" where
  "state_merge_to_json x =
     [(''id'', PStr (smg_id x)),
      (''left_state_id'', PStr (smg_left_state_id x)),
      (''right_state_id'', PStr (smg_right_state_id x)),
      (''merged_state_id'', PStr (smg_merged_state_id x)),
      (''transform_id'', PStr (smg_transform_id x)),
      (''metadata'', PDict (smg_metadata x))]"

definition state_merge_from_json :: "pyval dict \<Rightarrow> state_merge result" where
  "state_merge_from_json data =
     bindR (req_str data ''id'') (\<lambda>id.
     bindR (req_str data ''left_state_id'') (\<lambda>left_state_id.
     bindR (req_str data ''right_state_id'') (\<lambda>right_state_id.
     bindR (req_str data ''merged_state_id'') (\<lambda>merged_state_id.
     bindR (req_str data ''transform_id'') (\<lambda>transform_id.
     bindR (get_dict data ''metadata'') (\<lambda>metadata.
     Return
       \<lparr>smg_id = id,
        smg_left_state_id = left_state_id,
        smg_right_state_id = right_state_id,
        smg_merged_state_id = merged_state_id,
        smg_transform_id = transform_id,
        smg_metadata = metadata\<rparr>))))))"

interpretation state_merge_codec: codec state_merge_to_json state_merge_from_json "\<lambda>_. True" "\<lambda>x. x"
  by unfold_locales (simp_all add: state_merge_to_json_def state_merge_from_json_def codec_simps)

record state_split =
  ssp_id :: string
  ssp_source_state_id :: string
  ssp_split_state_ids :: "string list"
  ssp_transform_id :: string
  ssp_metadata :: "pyval dict"

definition state_split_to_json :: "state_split \<Rightarrow> pyval dict" where
  "state_split_to_json x =
     [(''id'', PStr (ssp_id x)),
      (''source_state_id'', PStr (ssp_source_state_id x)),
      (''split_state_ids'', PStrs (ssp_split_state_ids x)),
      (''transform_id'', PStr (ssp_transform_id x)),
      (''metadata'', PDict (ssp_metadata x))]"

definition state_split_from_json :: "pyval dict \<Rightarrow> state_split result" where
  "state_split_from_json data =
     bindR (req_str data ''id'') (\<lambda>id.
     bindR (req_str data ''source_state_id'') (\<lambda>source_state_id.
     bindR (get_strs data ''split_state_ids'') (\<lambda>split_state_ids.
     bindR (req_str data ''transform_id'') (\<lambda>transform_id.
     bindR (get_dict data ''metadata'') (\<lambda>metadata.
     Return
       \<lparr>ssp_id = id,
        ssp_source_state_id = source_state_id,
        ssp_split_state_ids = split_state_ids,
        ssp_transform_id = transform_id,
        ssp_metadata = metadata\<rparr>)))))"

interpretation state_split_codec: codec state_split_to_json state_split_from_json "\<lambda>_. True" "\<lambda>x. x"
  by unfold_locales (simp_all add: state_split_to_json_def state_split_from_json_def codec_simps)

record state_branch =
  sbr_id :: string
  sbr_source_state_id :: string
  sbr_branch_state_id :: string
  sbr_branch_type :: string
  sbr_transform_id :: string
  sbr_metadata :: "pyval dict"

definition state_branch_to_json :: "state_branch \<Rightarrow> pyval dict" where
  "state_branch_to_json x =
     [(''id'', PStr (sbr_id x)),
      (''source_state_id'', PStr (sbr_source_state_id x)),
      (''branch_state_id'', PStr (sbr_branch_state_id x)),
      (''branch_type'', PStr (sbr_branch_type x)),
      (''transform_id'', PStr (sbr_transform_id x)),
      (''metadata'', PDict (sbr_metadata x))]"

definition state_branch_from_json :: "pyval dict \<Rightarrow> state_branch result" where
  "state_branch_from_json data =
     bindR (req_str data ''id'') (\<lambda>id.
     bindR (req_str data ''source_state_id'') (\<lambda>source_state_id.
     bindR (req_str data ''branch_state_id'') (\<lambda>branch_state_id.
     bindR (req_str data ''branch_type'') (\<lambda>branch_type.
     bindR (req_str data ''transform_id'') (\<lambda>transform_id.
     bindR (get_dict data ''metadata'') (\<lambda>metadata.
     Return
       \<lparr>sbr_id = id,
        sbr_source_state_id = source_state_id,
        sbr_branch_state_id = branch_state_id,
        sbr_branch_type = branch_type,
        sbr_transform_id = transform_id,
        sbr_metadata = metadata\<rparr>))))))"

interpretation state_branch_codec: codec state_branch_to_json state_branch_from_json "\<lambda>_. True" "\<lambda>x. x"
  by unfold_locales (simp_all add: state_branch_to_json_def state_branch_from_json_def codec_simps)

record state_reconciliation =
  srec_id :: string
  srec_transform_ids :: "string list"
  srec_source_state_ids :: "string list"
  srec_reconciled_state_id :: string
  srec_expected_coherence_delta :: pyfloat
  srec_expected_obstruction_delta :: pyfloat
  srec_trust_refs :: "string list"
  srec_confidence :: pyfloat
  srec_cost :: pyfloat
  srec_metadata :: "pyval dict"

definition state_reconciliation_to_json :: "state_reconciliation \<Rightarrow> pyval dict" where
  "state_reconciliation_to_json x =
     [(''id'', PStr (srec_id x)),
      (''transform_ids'', PStrs (srec_transform_ids x)),
      (''source_state_ids'', PStrs (srec_source_state_ids x)),
      (''reconciled_state_id'', PStr (srec_reconciled_state_id x)),
      (''expected_coherence_delta'', PFloat (srec_expected_coherence_delta x)),
      (''expected_obstruction_delta'', PFloat (srec_expected_obstruction_delta x)),
      (''trust_refs'', PStrs (srec_trust_refs x)),
      (''confidence'', PFloat (srec_confidence x)),
      (''cost'', PFloat (srec_cost x)),
      (''metadata'', PDict (srec_metadata x))]"

definition state_reconciliation_from_json :: "pyval dict \<Rightarrow> state_reconciliation result" where
  "state_reconciliation_from_json data =
     bindR (req_str data ''id'') (\<lambda>id.
     bindR (get_strs data ''transform_ids'') (\<lambda>transform_ids.
     bindR (get_strs data ''source_state_ids'') (\<lambda>source_state_ids.
     bindR (req_str data ''reconciled_state_id'') (\<lambda>reconciled_state_id.
     bindR (get_float data ''expected_coherence_delta'' 0) (\<lambda>expected_coherence_delta.
     bindR (get_float data ''expected_obstruction_delta'' 0) (\<lambda>expected_obstruction_delta.
     bindR (get_strs data ''trust_refs'') (\<lambda>trust_refs.
     bindR (get_float data ''confidence'' 0) (\<lambda>confidence.
     bindR (get_float data ''cost'' 0) (\<lambda>cost.
     bindR (get_dict data ''metadata'') (\<lambda>metadata.
     Return
       \<lparr>srec_id = id,
        srec_transform_ids = transform_ids,
        srec_source_state_ids = source_state_ids,
        srec_reconciled_state_id = reconciled_state_id,
        srec_expected_coherence_delta = expected_coherence_delta,
        srec_expected_obstruction_delta = expected_obstruction_delta,
        srec_trust_refs = trust_refs,
        srec_confidence = confidence,
        srec_cost = cost,
        srec_metadata = metadata\<rparr>))))))))))"

interpretation state_reconciliation_codec: codec state_reconciliation_to_json state_reconciliation_from_json "\<lambda>_. True" "\<lambda>x. x"
  by unfold_locales (simp_all add: state_reconciliation_to_json_def state_reconciliation_from_json_def codec_simps)

record reconciliation_scoring_weights =
  ew_coherence_delta :: pyfloat
  ew_obstruction_delta :: pyfloat
  ew_trust_support :: pyfloat
  ew_confidence :: pyfloat
  ew_cost :: pyfloat

definition default_reconciliation_scoring_weights :: reconciliation_scoring_weights where
  "default_reconciliation_scoring_weights =
     \<lparr>ew_coherence_delta = lit (3 / 10),
      ew_obstruction_delta = lit (3 / 10),
      ew_trust_support = lit (1 / 5),
      ew_confidence = lit (3 / 20),
      ew_cost = lit (1 / 5)\<rparr>"

record transform_support =
  tsu_coherence_delta :: pyfloat
  tsu_obstruction_delta :: pyfloat
  tsu_confidence :: pyfloat

definition transform_support_of :: "state_reconciliation \<Rightarrow> state_transform dict \<Rightarrow> transform_support" where
  "transform_support_of r transform_index =
     (let ts = first_found [] (srec_transform_ids r) transform_index
      in \<lparr>tsu_coherence_delta = f_sum (map (\<lambda>t. f_max0 (stf_expected_coherence_delta t)) ts),
          tsu_obstruction_delta = f_sum (map (\<lambda>t. f_max0 (stf_expected_obstruction_delta t)) ts),
          tsu_confidence = mean_or_zero (map (\<lambda>t. f_max0 (stf_confidence t)) ts)\<rparr>)"

definition reconciliation_trust_support :: "state_reconciliation \<Rightarrow> trust_score dict \<Rightarrow> pyfloat" where
  "reconciliation_trust_support r trust_index =
     (if srec_trust_refs r = [] then Fin 0
      else f_sum (map trust_product (first_found [] (srec_trust_refs r) trust_index)))"

definition combined_confidence :: "state_reconciliation \<Rightarrow> pyfloat \<Rightarrow> pyfloat \<Rightarrow> pyfloat" where
  "combined_confidence r transform_confidence trust_sup =
     mean_or_zero (f_max0 (srec_confidence r) #
       (if f_less (Fin 0) transform_confidence then [transform_confidence] else []) @
       (if f_less (Fin 0) trust_sup then [f_min (Fin 1) trust_sup] else []))"

definition reconciliation_row ::
  "state_transform dict \<Rightarrow> trust_score dict \<Rightarrow> reconciliation_scoring_weights \<Rightarrow> state_reconciliation \<Rightarrow>
    pyval dict" where
  "reconciliation_row transform_index trust_index w r =
     (let ts = transform_support_of r transform_index;
          trust_sup = reconciliation_trust_support r trust_index;
          coherence_delta = f_add (f_max0 (srec_expected_coherence_delta r)) (tsu_coherence_delta ts);
          obstruction_delta = f_add (f_max0 (srec_expected_obstruction_delta r)) (tsu_obstruction_delta ts);
          confidence = combined_confidence r (tsu_confidence ts) trust_sup;
          score = f_sub (weighted [(ew_coherence_delta w, coherence_delta),
              (ew_obstruction_delta w, obstruction_delta), (ew_trust_support w, trust_sup),
              (ew_confidence w, confidence)])
            (f_mul (ew_cost w) (f_max0 (srec_cost r)))
      in [(''reconciliation_id'', PStr (srec_id r)), (''score'', PFloat score),
          (''reconciled_state_id'', PStr (srec_reconciled_state_id r)),
          (''transform_ids'', PStrs (srec_transform_ids r)), (''source_state_ids'', PStrs (srec_source_state_ids r)),
          (''expected_coherence_delta'', PFloat (srec_expected_coherence_delta r)),
          (''expected_obstruction_delta'', PFloat (srec_expected_obstruction_delta r)),
          (''trust_support'', PFloat trust_sup), (''confidence'', PFloat confidence),
          (''cost'', PFloat (srec_cost r))])"

definition score_reconciliation ::
  "string \<Rightarrow> state_reconciliation list \<Rightarrow> state_transform list option \<Rightarrow> trust_score list option \<Rightarrow>
    reconciliation_scoring_weights option \<Rightarrow> string \<times> pyval dict list" where
  "score_reconciliation fabric_id reconciliations transforms trust_scores weights =
     (let w = (case weights of None \<Rightarrow> default_reconciliation_scoring_weights | Some w \<Rightarrow> w);
          transform_index = index_by stf_id (case transforms of None \<Rightarrow> [] | Some ts \<Rightarrow> ts);
          trust_index = index_by ts_id (case trust_scores of None \<Rightarrow> [] | Some ts \<Rightarrow> ts)
      in (fabric_id, rank_rows ''reconciliation_id''
           (map (reconciliation_row transform_index trust_index w) (sort_key srec_id reconciliations))))"

section \<open>Scores of fractions\<close>

text \<open>Inputs between zero and one, fewer of them than a float can count exactly.\<close>

definition unit_vector :: "trust_vector \<Rightarrow> bool" where
  "unit_vector v \<longleftrightarrow> (\<forall>x\<in>set (map snd (tv_dimensions v)). unit_float x) \<and> length (tv_dimensions v) < 2 ^ 53"

definition unit_evidence :: "trust_evidence \<Rightarrow> bool" where
  "unit_evidence e \<longleftrightarrow> unit_float (te_trust_delta e) \<and> unit_float (te_confidence e) \<and> unit_float (te_weight e) \<and>
     is_float (te_weight e)"

definition unit_rule :: "trust_propagation_rule \<Rightarrow> bool" where
  "unit_rule r \<longleftrightarrow> unit_float (tpr_propagation_weight r) \<and> unit_float (tpr_decay r) \<and>
     length (tpr_source_refs r) < 2 ^ 53"

definition unit_inputs :: "trust_vector list \<Rightarrow> trust_evidence list \<Rightarrow> trust_propagation_rule list \<Rightarrow> bool" where
  "unit_inputs vectors evidence rules \<longleftrightarrow>
     list_all unit_vector vectors \<and> list_all unit_evidence evidence \<and> list_all unit_rule rules \<and>
     length evidence + length rules + 1 < 2 ^ 53"

lemma vector_score_unit: "(\<And>x. v = Some x \<Longrightarrow> unit_vector x) \<Longrightarrow> unit_float (vector_score v)"
  by (cases v) (auto simp: vector_score_def unit_vector_def intro!: mean_unit)

lemma evidence_term:
  assumes "unit_evidence e"
  shows "\<exists>x y. f_mul (f_mul (te_trust_delta e) (te_confidence e)) (f_max0 (te_weight e)) = Fin x \<and>
    f_max0 (te_weight e) = Fin y \<and> 0 \<le> x \<and> x \<le> y \<and> y \<le> 1"
proof -
  from assms obtain w where w: "te_weight e = Fin w" "0 \<le> w" "w \<le> 1" "fl w = w"
    by (auto simp: unit_evidence_def elim!: unit_cases)
  have "unit_float (f_mul (te_trust_delta e) (te_confidence e))" using assms by (simp add: unit_evidence_def unit_mul)
  then obtain p where p: "f_mul (te_trust_delta e) (te_confidence e) = Fin p" "0 \<le> p" "p \<le> 1" by (auto elim: unit_cases)
  have "w \<le> pow2 53" using w(3) by (simp add: pow2_nat)
  then have "in_range 0 w (rnd (p * w))" using p w by (intro rnd_range0) (simp_all add: mult_left_le_one_le)
  then show ?thesis using p w by (auto elim!: in_rangeE)
qed

lemma evidence_score_unit:
  assumes "list_all unit_evidence es" "length es < 2 ^ 53"
  shows "unit_float (evidence_score es)"
proof (cases "es = []")
  case False
  let ?t = "map (\<lambda>e. f_mul (f_mul (te_trust_delta e) (te_confidence e)) (f_max0 (te_weight e))) es"
  let ?w = "map (\<lambda>e. f_max0 (te_weight e)) es"
  have "list_all2 (\<lambda>u v. \<exists>x y. u = Fin x \<and> v = Fin y \<and> 0 \<le> x \<and> x \<le> y \<and> y \<le> 1) ?t ?w"
    unfolding list_all2_map1 list_all2_map2
    by (rule list.rel_refl_strong, rule evidence_term) (use assms(1) in \<open>simp add: list_all_iff\<close>)
  from f_sum_mono [OF this] assms(2) obtain x y where s: "f_sum ?t = Fin x" "f_sum ?w = Fin y" "0 \<le> x" "x \<le> y" by auto
  show ?thesis
    using s f_quot_unit [of x y] False by (simp add: evidence_score_def Let_def)
qed (simp add: evidence_score_def)

lemma rule_score_unit:
  assumes "unit_rule r" "\<And>k x. dget vs k = Some x \<Longrightarrow> unit_vector x"
  shows "unit_float (rule_score vs r)"
  using assms unfolding rule_score_def Let_def unit_rule_def
  by (auto intro!: unit_mul unit_one_minus unit_max0 mean_unit vector_score_unit)

lemma propagation_score_unit:
  assumes "list_all unit_rule rs" "length rs < 2 ^ 53" "\<And>k x. dget vs k = Some x \<Longrightarrow> unit_vector x"
  shows "unit_float (propagation_score rs vs)"
  using assms unfolding propagation_score_def by (auto simp: list_all_iff intro!: mean_unit rule_score_unit)

lemma trust_confidence_unit:
  assumes "list_all unit_evidence es" "list_all unit_rule rs" "length es + length rs + 1 < 2 ^ 53"
  shows "unit_float (trust_confidence es v rs)"
  using assms unfolding trust_confidence_def
  by (auto simp: list_all_iff unit_evidence_def unit_rule_def split: option.splits intro!: mean_unit unit_max0 unit_min1)

lemma fl_1024: "m < 2 ^ 53 \<Longrightarrow> fl (of_nat m / 1024) = of_nat m / 1024"
  by (rule fl_dyadic [of _ "int m" "- 10"]) (simp_all add: pow2_def power_int_def power_divide)

lemma fl_1024s:
  "fl (461 / 1024) = 461 / 1024"
  "fl (359 / 1024) = 359 / 1024"
  "fl (205 / 1024) = 205 / 1024"
  "fl (154 / 1024) = 154 / 1024"
  "fl (820 / 1024) = 820 / 1024"
  "fl (1025 / 1024) = 1025 / 1024"
  "fl (1179 / 1024) = 1179 / 1024"
  by - (rule fl_1024 [of 461, unfolded of_nat_numeral], simp, 
  rule fl_1024 [of 359, unfolded of_nat_numeral], simp, 
  rule fl_1024 [of 205, unfolded of_nat_numeral], simp, 
  rule fl_1024 [of 154, unfolded of_nat_numeral], simp, 
  rule fl_1024 [of 820, unfolded of_nat_numeral], simp, 
  rule fl_1024 [of 1025, unfolded of_nat_numeral], simp, 
  rule fl_1024 [of 1179, unfolded of_nat_numeral], simp)

text \<open>The default weights are a little below \<open>461/1024\<close>, \<open>359/1024\<close>, \<open>205/1024\<close> and \<open>154/1024\<close>.\<close>

lemma default_weights_range:
  "in_range 0 (461 / 1024) (tw_vector_score default_trust_scoring_weights)"
  "in_range 0 (359 / 1024) (tw_evidence_score default_trust_scoring_weights)"
  "in_range 0 (205 / 1024) (tw_propagation_score default_trust_scoring_weights)"
  "in_range 0 (154 / 1024) (tw_confidence default_trust_scoring_weights)"
  unfolding default_trust_scoring_weights_def lit_def trust_scoring_weights.simps
  by - (rule rnd_range0 [OF _ _ fl_1024s(1)] rnd_range0 [OF _ _ fl_1024s(2)] rnd_range0 [OF _ _ fl_1024s(3)]
      rnd_range0 [OF _ _ fl_1024s(4)]; simp add: pow2_nat)+

lemma weighted_range:
  assumes "unit_float a" "unit_float b" "unit_float c" "unit_float d"
  shows "in_range 0 (1179 / 1024) (weighted
    [(tw_vector_score default_trust_scoring_weights, a), (tw_evidence_score default_trust_scoring_weights, b),
     (tw_propagation_score default_trust_scoring_weights, c), (tw_confidence default_trust_scoring_weights, d)])"
proof -
  let ?w = default_trust_scoring_weights
  have small: "461 / 1024 \<le> pow2 53" "359 / 1024 \<le> pow2 53" "205 / 1024 \<le> pow2 53" "154 / 1024 \<le> pow2 53"
    "820 / 1024 \<le> pow2 53" "1025 / 1024 \<le> pow2 53" "1179 / 1024 \<le> pow2 53"
    by (simp_all add: pow2_nat)
  note p = range_mul [OF default_weights_range(1) assms(1) fl_1024s(1) small(1)]
    range_mul [OF default_weights_range(2) assms(2) fl_1024s(2) small(2)]
    range_mul [OF default_weights_range(3) assms(3) fl_1024s(3) small(3)]
    range_mul [OF default_weights_range(4) assms(4) fl_1024s(4) small(4)]
  have "in_range 0 (820 / 1024) (f_add (f_mul (tw_vector_score ?w) a) (f_mul (tw_evidence_score ?w) b))"
    by (rule range_add [OF p(1,2) _ fl_1024s(5) small(5)]) simp
  from range_add [OF this p(3) _ fl_1024s(6) small(6)]
  have "in_range 0 (1025 / 1024) (f_add (f_add (f_mul (tw_vector_score ?w) a) (f_mul (tw_evidence_score ?w) b))
      (f_mul (tw_propagation_score ?w) c))" by simp
  from range_add [OF this p(4) _ fl_1024s(7) small(7)] show ?thesis by (simp add: weighted_def)
qed

section \<open>Properties\<close>

text \<open>
  When every trust input lies between zero and one, so do the vector, evidence and propagation
  parts and the confidence of each target, whatever the rounding of the float sums; and with the
  default weights, which sum to 1.15, the score of a target lies between zero and 1179/1024.
\<close>

theorem trust_scores_bounded:
  assumes "unit_inputs vectors evidence rules"
  shows "let t = target_score (group_by te_target_ref evidence) (group_by tpr_target_ref rules)
        (index_by tv_target_ref vectors) default_trust_scoring_weights target
    in in_range 0 (1179 / 1024) (ts_score t) \<and> unit_float (ts_confidence t) \<and>
       list_all (\<lambda>kv. case snd kv of PFloat x \<Rightarrow> unit_float x | _ \<Rightarrow> False) (ts_metadata t)"
proof -
  let ?es = "filter (\<lambda>e. te_target_ref e = target) evidence"
  let ?rs = "filter (\<lambda>r. tpr_target_ref r = target) rules"
  let ?vs = "index_by tv_target_ref vectors"
  have vec: "unit_vector x" if "dget ?vs k = Some x" for k x
    using index_by_elem [OF that] assms by (auto simp: unit_inputs_def list_all_iff)
  have len: "length ?es + length ?rs + 1 < 2 ^ 53"
    using length_filter_le [of "\<lambda>e. te_target_ref e = target" evidence]
      length_filter_le [of "\<lambda>r. tpr_target_ref r = target" rules] assms unfolding unit_inputs_def by linarith
  have es: "list_all unit_evidence ?es" and rs: "list_all unit_rule ?rs"
    using assms by (auto simp: unit_inputs_def list_all_iff)
  have u: "unit_float (vector_score (dget ?vs target))" "unit_float (evidence_score ?es)"
    "unit_float (propagation_score ?rs ?vs)" "unit_float (trust_confidence ?es (dget ?vs target) ?rs)"
    using vec len es rs by (auto intro!: vector_score_unit evidence_score_unit propagation_score_unit trust_confidence_unit)
  then show ?thesis
    using weighted_range [OF u] by (simp add: target_score_def group_by_filter Let_def)
qed

theorem trust_scores_bounded_witness:
  "let t = target_score (group_by te_target_ref [\<lparr>te_id = ''e'', te_source_ref = ''s'', te_target_ref = ''t'',
        te_evidence_type = ''audit'', te_trust_delta = Fin (1 / 2), te_confidence = Fin 1, te_weight = Fin 1, te_metadata = []\<rparr>])
      (group_by tpr_target_ref []) (index_by tv_target_ref []) default_trust_scoring_weights ''t''
   in in_range 0 (1179 / 1024) (ts_score t) \<and> ts_evidence_ids t = [''e'']"
proof -
  let ?e = "\<lparr>te_id = ''e'', te_source_ref = ''s'', te_target_ref = ''t'',
        te_evidence_type = ''audit'', te_trust_delta = Fin (1 / 2), te_confidence = Fin 1, te_weight = Fin 1, te_metadata = []\<rparr>"
  have "unit_inputs [] [?e] []" by (simp add: unit_inputs_def unit_evidence_def)
  from trust_scores_bounded [OF this, of "''t''"] show ?thesis
    by (simp add: Let_def target_score_def group_by_def dget_or_def)
qed

end
