(* ===== verification/Fabric_Stability.thy ===== *)
theory Fabric_Stability
  imports Fabric_Repair Fabric_Trust
begin

text \<open>
  \<^verbatim>\<open>services/quantum/fabric/stability.py\<close> and \<^verbatim>\<open>training.py\<close>: regions of a fabric ranked by their
  stability, from signals, thresholds and the support of the other records, and training examples
  ranked by theirs.  Of the fabric only its id is used.
\<close>

section \<open>Stability\<close>

record stability_signal =
  sgn_id :: string
  sgn_region_ref :: string
  sgn_signal_type :: string
  sgn_magnitude :: pyfloat
  sgn_confidence :: pyfloat
  sgn_source_refs :: "string list"
  sgn_metadata :: "pyval dict"

definition stability_signal_to_json :: "stability_signal \<Rightarrow> pyval dict" where
  "stability_signal_to_json x =
     [(''id'', PStr (sgn_id x)),
      (''region_ref'', PStr (sgn_region_ref x)),
      (''signal_type'', PStr (sgn_signal_type x)),
      (''magnitude'', PFloat (sgn_magnitude x)),
      (''confidence'', PFloat (sgn_confidence x)),
      (''source_refs'', PStrs (sgn_source_refs x)),
      (''metadata'', PDict (sgn_metadata x))]"

definition stability_signal_from_json :: "pyval dict \<Rightarrow> stability_signal result" where
  "stability_signal_from_json data =
     bindR (req_str data ''id'') (\<lambda>id.
     bindR (req_str data ''region_ref'') (\<lambda>region_ref.
     bindR (req_str data ''signal_type'') (\<lambda>signal_type.
     bindR (get_float data ''magnitude'' 0) (\<lambda>magnitude.
     bindR (get_float data ''confidence'' 0) (\<lambda>confidence.
     bindR (get_strs data ''source_refs'') (\<lambda>source_refs.
     bindR (get_dict data ''metadata'') (\<lambda>metadata.
     Return
       \<lparr>sgn_id = id,
        sgn_region_ref = region_ref,
        sgn_signal_type = signal_type,
        sgn_magnitude = magnitude,
        sgn_confidence = confidence,
        sgn_source_refs = source_refs,
        sgn_metadata = metadata\<rparr>)))))))"

interpretation stability_signal_codec: codec stability_signal_to_json stability_signal_from_json "\<lambda>_. True" "\<lambda>x. x"
  by unfold_locales (simp_all add: stability_signal_to_json_def stability_signal_from_json_def codec_simps)

record stability_threshold =
  sth_id :: string
  sth_region_ref :: string
  sth_minimum_score :: pyfloat
  sth_warning_score :: pyfloat
  sth_metadata :: "pyval dict"

definition stability_threshold_to_json :: "stability_threshold \<Rightarrow> pyval dict" where
  "stability_threshold_to_json x =
     [(''id'', PStr (sth_id x)),
      (''region_ref'', PStr (sth_region_ref x)),
      (''minimum_score'', PFloat (sth_minimum_score x)),
      (''warning_score'', PFloat (sth_warning_score x)),
      (''metadata'', PDict (sth_metadata x))]"

definition stability_threshold_from_json :: "pyval dict \<Rightarrow> stability_threshold result" where
  "stability_threshold_from_json data =
     bindR (req_str data ''id'') (\<lambda>id.
     bindR (req_str data ''region_ref'') (\<lambda>region_ref.
     bindR (get_float data ''minimum_score'' 0) (\<lambda>minimum_score.
     bindR (get_float data ''warning_score'' 0) (\<lambda>warning_score.
     bindR (get_dict data ''metadata'') (\<lambda>metadata.
     Return
       \<lparr>sth_id = id,
        sth_region_ref = region_ref,
        sth_minimum_score = minimum_score,
        sth_warning_score = warning_score,
        sth_metadata = metadata\<rparr>)))))"

interpretation stability_threshold_codec: codec stability_threshold_to_json stability_threshold_from_json "\<lambda>_. True" "\<lambda>x. x"
  by unfold_locales (simp_all add: stability_threshold_to_json_def stability_threshold_from_json_def codec_simps)

record manifold_stability_score =
  mss_id :: string
  mss_region_ref :: string
  mss_score :: pyfloat
  mss_stable :: bool
  mss_warning :: bool
  mss_threshold_id :: "string option"
  mss_confidence :: pyfloat
  mss_metadata :: "pyval dict"

definition manifold_stability_score_to_json :: "manifold_stability_score \<Rightarrow> pyval dict" where
  "manifold_stability_score_to_json x =
     [(''id'', PStr (mss_id x)),
      (''region_ref'', PStr (mss_region_ref x)),
      (''score'', PFloat (mss_score x)),
      (''stable'', PBool (mss_stable x)),
      (''warning'', PBool (mss_warning x)),
      (''threshold_id'', POpt (mss_threshold_id x)),
      (''confidence'', PFloat (mss_confidence x)),
      (''metadata'', PDict (mss_metadata x))]"

definition manifold_stability_score_from_json :: "pyval dict \<Rightarrow> manifold_stability_score result" where
  "manifold_stability_score_from_json data =
     bindR (req_str data ''id'') (\<lambda>id.
     bindR (req_str data ''region_ref'') (\<lambda>region_ref.
     bindR (get_float data ''score'' 0) (\<lambda>score.
     bindR (get_bool data ''stable'' False) (\<lambda>stable.
     bindR (get_bool data ''warning'' False) (\<lambda>warning.
     bindR (get_opt_str data ''threshold_id'') (\<lambda>threshold_id.
     bindR (get_float data ''confidence'' 0) (\<lambda>confidence.
     bindR (get_dict data ''metadata'') (\<lambda>metadata.
     Return
       \<lparr>mss_id = id,
        mss_region_ref = region_ref,
        mss_score = score,
        mss_stable = stable,
        mss_warning = warning,
        mss_threshold_id = threshold_id,
        mss_confidence = confidence,
        mss_metadata = metadata\<rparr>))))))))"

interpretation manifold_stability_score_codec: codec manifold_stability_score_to_json manifold_stability_score_from_json "\<lambda>_. True" "\<lambda>x. x"
  by unfold_locales (simp_all add: manifold_stability_score_to_json_def manifold_stability_score_from_json_def codec_simps)

record stability_scoring_weights =
  sw_signal :: pyfloat
  sw_correlation :: pyfloat
  sw_observation :: pyfloat
  sw_trust :: pyfloat
  sw_repair :: pyfloat
  sw_projection :: pyfloat
  sw_instability_penalty :: pyfloat

definition default_stability_scoring_weights :: stability_scoring_weights where
  "default_stability_scoring_weights =
     \<lparr>sw_signal = lit (3 / 10),
      sw_correlation = lit (1 / 5),
      sw_observation = lit (3 / 20),
      sw_trust = lit (1 / 5),
      sw_repair = lit (1 / 10),
      sw_projection = lit (3 / 20),
      sw_instability_penalty = lit (1 / 4)\<rparr>"

definition region_refs_from_correlations :: "correlation_object list \<Rightarrow> string list" where
  "region_refs_from_correlations cs = concat (map (\<lambda>c. [cro_left_ref c, cro_right_ref c]) cs)"

definition signal_score :: "string \<Rightarrow> stability_signal list \<Rightarrow> pyfloat \<times> pyfloat" where
  "signal_score region_ref signals =
     (let matching = filter (\<lambda>s. sgn_region_ref s = region_ref) signals
      in (support sgn_magnitude sgn_confidence matching,
          mean_or_zero (map (\<lambda>s. f_max0 (sgn_confidence s)) matching)))"

definition correlation_support :: "string \<Rightarrow> correlation_object list \<Rightarrow> pyfloat" where
  "correlation_support region_ref cs =
     support cro_strength cro_confidence
       (filter (\<lambda>c. cro_left_ref c = region_ref \<or> cro_right_ref c = region_ref) cs)"

definition observation_support :: "string \<Rightarrow> observation_object list \<Rightarrow> pyfloat" where
  "observation_support region_ref os =
     support oo_magnitude oo_confidence (filter (\<lambda>o'. oo_target_ref o' = region_ref) os)"

definition trust_support :: "string \<Rightarrow> trust_score list \<Rightarrow> pyfloat" where
  "trust_support region_ref ts =
     support ts_score ts_confidence (filter (\<lambda>t. ts_target_ref t = region_ref) ts)"

definition repair_support :: "string \<Rightarrow> repair_operator list \<Rightarrow> pyfloat" where
  "repair_support region_ref rs =
     support ro_expected_obstruction_delta ro_confidence
       (filter (\<lambda>r. region_ref \<in> set (ro_affected_patch_ids r)) rs)"

definition projection_support :: "string \<Rightarrow> future_state_candidate list \<Rightarrow> pyfloat" where
  "projection_support region_ref ps =
     support (\<lambda>c. po_expected_global_coherence (fsc_projection c)) fsc_confidence
       (filter (\<lambda>c. po_projected_fabric_id (fsc_projection c) = region_ref \<or>
                    po_source_fabric_id (fsc_projection c) = region_ref) ps)"

definition unstable_signal :: "string \<Rightarrow> stability_signal \<Rightarrow> bool" where
  "unstable_signal region_ref s \<longleftrightarrow>
     sgn_region_ref s = region_ref \<and>
     lower (sgn_signal_type s) \<in> {''instability'', ''entropy'', ''backpressure''}"

definition instability_penalty :: "string \<Rightarrow> stability_signal list \<Rightarrow> pyfloat" where
  "instability_penalty region_ref signals =
     support sgn_magnitude sgn_confidence (filter (unstable_signal region_ref) signals)"

text \<open>The optional arguments of \<open>score_manifold_stability\<close>; an absent one is an empty list.\<close>

record stability_context =
  sc_correlations :: "correlation_object list"
  sc_observations :: "observation_object list"
  sc_trust_scores :: "trust_score list"
  sc_repair_candidates :: "repair_operator list"
  sc_projection_candidates :: "future_state_candidate list"

definition stability_regions ::
  "stability_signal list \<Rightarrow> stability_threshold list \<Rightarrow> stability_context \<Rightarrow> string list" where
  "stability_regions signals thresholds ctx =
     sorted_set (dkeys (index_by sth_region_ref thresholds) @ map sgn_region_ref signals @
       region_refs_from_correlations (sc_correlations ctx) @ map oo_target_ref (sc_observations ctx) @
       map ts_target_ref (sc_trust_scores ctx))"

definition stability_value ::
  "stability_scoring_weights \<Rightarrow> stability_signal list \<Rightarrow> stability_context \<Rightarrow> string \<Rightarrow> pyfloat" where
  "stability_value w signals ctx region_ref =
     f_sub (weighted
        [(sw_signal w, fst (signal_score region_ref signals)),
         (sw_correlation w, correlation_support region_ref (sc_correlations ctx)),
         (sw_observation w, observation_support region_ref (sc_observations ctx)),
         (sw_trust w, trust_support region_ref (sc_trust_scores ctx)),
         (sw_repair w, repair_support region_ref (sc_repair_candidates ctx)),
         (sw_projection w, projection_support region_ref (sc_projection_candidates ctx))])
       (f_mul (sw_instability_penalty w) (instability_penalty region_ref signals))"

definition region_stability ::
  "stability_scoring_weights \<Rightarrow> stability_signal list \<Rightarrow> stability_threshold dict \<Rightarrow> stability_context \<Rightarrow> string \<Rightarrow>
    manifold_stability_score" where
  "region_stability w signals threshold_index ctx region_ref =
     (let score = stability_value w signals ctx region_ref;
          threshold = dget threshold_index region_ref;
          minimum_score = (case threshold of None \<Rightarrow> Fin 0 | Some t \<Rightarrow> sth_minimum_score t);
          warning_score = (case threshold of None \<Rightarrow> minimum_score | Some t \<Rightarrow> sth_warning_score t)
      in \<lparr>mss_id = ''stability.score.'' @ region_ref, mss_region_ref = region_ref, mss_score = score,
          mss_stable = f_le minimum_score score, mss_warning = f_less score warning_score,
          mss_threshold_id = map_option sth_id threshold, mss_confidence = snd (signal_score region_ref signals),
          mss_metadata =
            [(''signal_score'', PFloat (fst (signal_score region_ref signals))),
             (''correlation_support'', PFloat (correlation_support region_ref (sc_correlations ctx))),
             (''observation_support'', PFloat (observation_support region_ref (sc_observations ctx))),
             (''trust_support'', PFloat (trust_support region_ref (sc_trust_scores ctx))),
             (''repair_support'', PFloat (repair_support region_ref (sc_repair_candidates ctx))),
             (''projection_support'', PFloat (projection_support region_ref (sc_projection_candidates ctx))),
             (''instability_penalty'', PFloat (instability_penalty region_ref signals))]\<rparr>)"

definition score_manifold_stability ::
  "string \<Rightarrow> stability_signal list \<Rightarrow> stability_threshold list \<Rightarrow> stability_context \<Rightarrow>
    stability_scoring_weights option \<Rightarrow> string \<times> pyval dict list" where
  "score_manifold_stability fabric_id signals thresholds ctx weights =
     (let w = (case weights of None \<Rightarrow> default_stability_scoring_weights | Some w \<Rightarrow> w)
      in (fabric_id, rank_rows ''region_ref''
           (map (\<lambda>r. manifold_stability_score_to_json
                  (region_stability w signals (index_by sth_region_ref thresholds) ctx r))
              (stability_regions signals thresholds ctx))))"

section \<open>Training examples\<close>

record model_observation =
  mo_id :: string
  mo_model_ref :: string
  mo_input_ref :: string
  mo_output_ref :: string
  mo_observation_type :: string
  mo_magnitude :: pyfloat
  mo_confidence :: pyfloat
  mo_source_refs :: "string list"
  mo_metadata :: "pyval dict"

definition model_observation_to_json :: "model_observation \<Rightarrow> pyval dict" where
  "model_observation_to_json x =
     [(''id'', PStr (mo_id x)),
      (''model_ref'', PStr (mo_model_ref x)),
      (''input_ref'', PStr (mo_input_ref x)),
      (''output_ref'', PStr (mo_output_ref x)),
      (''observation_type'', PStr (mo_observation_type x)),
      (''magnitude'', PFloat (mo_magnitude x)),
      (''confidence'', PFloat (mo_confidence x)),
      (''source_refs'', PStrs (mo_source_refs x)),
      (''metadata'', PDict (mo_metadata x))]"

definition model_observation_from_json :: "pyval dict \<Rightarrow> model_observation result" where
  "model_observation_from_json data =
     bindR (req_str data ''id'') (\<lambda>id.
     bindR (req_str data ''model_ref'') (\<lambda>model_ref.
     bindR (req_str data ''input_ref'') (\<lambda>input_ref.
     bindR (req_str data ''output_ref'') (\<lambda>output_ref.
     bindR (req_str data ''observation_type'') (\<lambda>observation_type.
     bindR (get_float data ''magnitude'' 0) (\<lambda>magnitude.
     bindR (get_float data ''confidence'' 0) (\<lambda>confidence.
     bindR (get_strs data ''source_refs'') (\<lambda>source_refs.
     bindR (get_dict data ''metadata'') (\<lambda>metadata.
     Return
       \<lparr>mo_id = id,
        mo_model_ref = model_ref,
        mo_input_ref = input_ref,
        mo_output_ref = output_ref,
        mo_observation_type = observation_type,
        mo_magnitude = magnitude,
        mo_confidence = confidence,
        mo_source_refs = source_refs,
        mo_metadata = metadata\<rparr>)))))))))"

interpretation model_observation_codec: codec model_observation_to_json model_observation_from_json "\<lambda>_. True" "\<lambda>x. x"
  by unfold_locales (simp_all add: model_observation_to_json_def model_observation_from_json_def codec_simps)

record model_correction =
  mc_id :: string
  mc_observation_ids :: "string list"
  mc_correction_type :: string
  mc_target_ref :: string
  mc_corrected_output :: string
  mc_improvement_score :: pyfloat
  mc_confidence :: pyfloat
  mc_source_refs :: "string list"
  mc_metadata :: "pyval dict"

definition model_correction_to_json :: "model_correction \<Rightarrow> pyval dict" where
  "model_correction_to_json x =
     [(''id'', PStr (mc_id x)),
      (''observation_ids'', PStrs (mc_observation_ids x)),
      (''correction_type'', PStr (mc_correction_type x)),
      (''target_ref'', PStr (mc_target_ref x)),
      (''corrected_output'', PStr (mc_corrected_output x)),
      (''improvement_score'', PFloat (mc_improvement_score x)),
      (''confidence'', PFloat (mc_confidence x)),
      (''source_refs'', PStrs (mc_source_refs x)),
      (''metadata'', PDict (mc_metadata x))]"

definition model_correction_from_json :: "pyval dict \<Rightarrow> model_correction result" where
  "model_correction_from_json data =
     bindR (req_str data ''id'') (\<lambda>id.
     bindR (get_strs data ''observation_ids'') (\<lambda>observation_ids.
     bindR (req_str data ''correction_type'') (\<lambda>correction_type.
     bindR (req_str data ''target_ref'') (\<lambda>target_ref.
     bindR (get_str data ''corrected_output'' []) (\<lambda>corrected_output.
     bindR (get_float data ''improvement_score'' 0) (\<lambda>improvement_score.
     bindR (get_float data ''confidence'' 0) (\<lambda>confidence.
     bindR (get_strs data ''source_refs'') (\<lambda>source_refs.
     bindR (get_dict data ''metadata'') (\<lambda>metadata.
     Return
       \<lparr>mc_id = id,
        mc_observation_ids = observation_ids,
        mc_correction_type = correction_type,
        mc_target_ref = target_ref,
        mc_corrected_output = corrected_output,
        mc_improvement_score = improvement_score,
        mc_confidence = confidence,
        mc_source_refs = source_refs,
        mc_metadata = metadata\<rparr>)))))))))"

interpretation model_correction_codec: codec model_correction_to_json model_correction_from_json "\<lambda>_. True" "\<lambda>x. x"
  by unfold_locales (simp_all add: model_correction_to_json_def model_correction_from_json_def codec_simps)

record training_signal =
  tsg_id :: string
  tsg_example_id :: string
  tsg_signal_type :: string
  tsg_magnitude :: pyfloat
  tsg_confidence :: pyfloat
  tsg_source_refs :: "string list"
  tsg_metadata :: "pyval dict"

definition training_signal_to_json :: "training_signal \<Rightarrow> pyval dict" where
  "training_signal_to_json x =
     [(''id'', PStr (tsg_id x)),
      (''example_id'', PStr (tsg_example_id x)),
      (''signal_type'', PStr (tsg_signal_type x)),
      (''magnitude'', PFloat (tsg_magnitude x)),
      (''confidence'', PFloat (tsg_confidence x)),
      (''source_refs'', PStrs (tsg_source_refs x)),
      (''metadata'', PDict (tsg_metadata x))]"

definition training_signal_from_json :: "pyval dict \<Rightarrow> training_signal result" where
  "training_signal_from_json data =
     bindR (req_str data ''id'') (\<lambda>id.
     bindR (req_str data ''example_id'') (\<lambda>example_id.
     bindR (req_str data ''signal_type'') (\<lambda>signal_type.
     bindR (get_float data ''magnitude'' 0) (\<lambda>magnitude.
     bindR (get_float data ''confidence'' 0) (\<lambda>confidence.
     bindR (get_strs data ''source_refs'') (\<lambda>source_refs.
     bindR (get_dict data ''metadata'') (\<lambda>metadata.
     Return
       \<lparr>tsg_id = id,
        tsg_example_id = example_id,
        tsg_signal_type = signal_type,
        tsg_magnitude = magnitude,
        tsg_confidence = confidence,
        tsg_source_refs = source_refs,
        tsg_metadata = metadata\<rparr>)))))))"

interpretation training_signal_codec: codec training_signal_to_json training_signal_from_json "\<lambda>_. True" "\<lambda>x. x"
  by unfold_locales (simp_all add: training_signal_to_json_def training_signal_from_json_def codec_simps)

record training_example =
  tex_id :: string
  tex_input_text :: string
  tex_output_text :: string
  tex_correction_id :: "string option"
  tex_observation_ids :: "string list"
  tex_trust_refs :: "string list"
  tex_stability_refs :: "string list"
  tex_repair_refs :: "string list"
  tex_projection_refs :: "string list"
  tex_provenance_refs :: "string list"
  tex_metadata :: "pyval dict"

definition training_example_to_json :: "training_example \<Rightarrow> pyval dict" where
  "training_example_to_json x =
     [(''id'', PStr (tex_id x)),
      (''input_text'', PStr (tex_input_text x)),
      (''output_text'', PStr (tex_output_text x)),
      (''correction_id'', POpt (tex_correction_id x)),
      (''observation_ids'', PStrs (tex_observation_ids x)),
      (''trust_refs'', PStrs (tex_trust_refs x)),
      (''stability_refs'', PStrs (tex_stability_refs x)),
      (''repair_refs'', PStrs (tex_repair_refs x)),
      (''projection_refs'', PStrs (tex_projection_refs x)),
      (''provenance_refs'', PStrs (tex_provenance_refs x)),
      (''metadata'', PDict (tex_metadata x))]"

definition training_example_from_json :: "pyval dict \<Rightarrow> training_example result" where
  "training_example_from_json data =
     bindR (req_str data ''id'') (\<lambda>id.
     bindR (get_str data ''input_text'' []) (\<lambda>input_text.
     bindR (get_str data ''output_text'' []) (\<lambda>output_text.
     bindR (get_opt_str data ''correction_id'') (\<lambda>correction_id.
     bindR (get_strs data ''observation_ids'') (\<lambda>observation_ids.
     bindR (get_strs data ''trust_refs'') (\<lambda>trust_refs.
     bindR (get_strs data ''stability_refs'') (\<lambda>stability_refs.
     bindR (get_strs data ''repair_refs'') (\<lambda>repair_refs.
     bindR (get_strs data ''projection_refs'') (\<lambda>projection_refs.
     bindR (get_strs data ''provenance_refs'') (\<lambda>provenance_refs.
     bindR (get_dict data ''metadata'') (\<lambda>metadata.
     Return
       \<lparr>tex_id = id,
        tex_input_text = input_text,
        tex_output_text = output_text,
        tex_correction_id = correction_id,
        tex_observation_ids = observation_ids,
        tex_trust_refs = trust_refs,
        tex_stability_refs = stability_refs,
        tex_repair_refs = repair_refs,
        tex_projection_refs = projection_refs,
        tex_provenance_refs = provenance_refs,
        tex_metadata = metadata\<rparr>)))))))))))"

interpretation training_example_codec: codec training_example_to_json training_example_from_json "\<lambda>_. True" "\<lambda>x. x"
  by unfold_locales (simp_all add: training_example_to_json_def training_example_from_json_def codec_simps)

record training_trace =
  ttr_id :: string
  ttr_fabric_id :: string
  ttr_model_ref :: string
  ttr_example_ids :: "string list"
  ttr_objective :: string
  ttr_dataset_kind :: string
  ttr_provenance_refs :: "string list"
  ttr_metadata :: "pyval dict"

definition training_trace_to_json :: "training_trace \<Rightarrow> pyval dict" where
  "training_trace_to_json x =
     [(''id'', PStr (ttr_id x)),
      (''fabric_id'', PStr (ttr_fabric_id x)),
      (''model_ref'', PStr (ttr_model_ref x)),
      (''example_ids'', PStrs (ttr_example_ids x)),
      (''objective'', PStr (ttr_objective x)),
      (''dataset_kind'', PStr (ttr_dataset_kind x)),
      (''provenance_refs'', PStrs (ttr_provenance_refs x)),
      (''metadata'', PDict (ttr_metadata x))]"

definition training_trace_from_json :: "pyval dict \<Rightarrow> training_trace result" where
  "training_trace_from_json data =
     bindR (req_str data ''id'') (\<lambda>id.
     bindR (req_str data ''fabric_id'') (\<lambda>fabric_id.
     bindR (req_str data ''model_ref'') (\<lambda>model_ref.
     bindR (get_strs data ''example_ids'') (\<lambda>example_ids.
     bindR (get_str data ''objective'' []) (\<lambda>objective.
     bindR (get_str data ''dataset_kind'' []) (\<lambda>dataset_kind.
     bindR (get_strs data ''provenance_refs'') (\<lambda>provenance_refs.
     bindR (get_dict data ''metadata'') (\<lambda>metadata.
     Return
       \<lparr>ttr_id = id,
        ttr_fabric_id = fabric_id,
        ttr_model_ref = model_ref,
        ttr_example_ids = example_ids,
        ttr_objective = objective,
        ttr_dataset_kind = dataset_kind,
        ttr_provenance_refs = provenance_refs,
        ttr_metadata = metadata\<rparr>))))))))"

interpretation training_trace_codec: codec training_trace_to_json training_trace_from_json "\<lambda>_. True" "\<lambda>x. x"
  by unfold_locales (simp_all add: training_trace_to_json_def training_trace_from_json_def codec_simps)

record training_example_score =
  txs_id :: string
  txs_example_id :: string
  txs_score :: pyfloat
  txs_dataset_kind :: string
  txs_training_signal :: pyfloat
  txs_correction_support :: pyfloat
  txs_trust_support :: pyfloat
  txs_stability_support :: pyfloat
  txs_repair_support :: pyfloat
  txs_projection_support :: pyfloat
  txs_provenance_support :: pyfloat
  txs_metadata :: "pyval dict"

definition training_example_score_to_json :: "training_example_score \<Rightarrow> pyval dict" where
  "training_example_score_to_json x =
     [(''id'', PStr (txs_id x)),
      (''example_id'', PStr (txs_example_id x)),
      (''score'', PFloat (txs_score x)),
      (''dataset_kind'', PStr (txs_dataset_kind x)),
      (''training_signal'', PFloat (txs_training_signal x)),
      (''correction_support'', PFloat (txs_correction_support x)),
      (''trust_support'', PFloat (txs_trust_support x)),
      (''stability_support'', PFloat (txs_stability_support x)),
      (''repair_support'', PFloat (txs_repair_support x)),
      (''projection_support'', PFloat (txs_projection_support x)),
      (''provenance_support'', PFloat (txs_provenance_support x)),
      (''metadata'', PDict (txs_metadata x))]"

definition training_example_score_from_json :: "pyval dict \<Rightarrow> training_example_score result" where
  "training_example_score_from_json data =
     bindR (req_str data ''id'') (\<lambda>id.
     bindR (req_str data ''example_id'') (\<lambda>example_id.
     bindR (get_float data ''score'' 0) (\<lambda>score.
     bindR (get_str data ''dataset_kind'' []) (\<lambda>dataset_kind.
     bindR (get_float data ''training_signal'' 0) (\<lambda>training_signal.
     bindR (get_float data ''correction_support'' 0) (\<lambda>correction_support.
     bindR (get_float data ''trust_support'' 0) (\<lambda>trust_support.
     bindR (get_float data ''stability_support'' 0) (\<lambda>stability_support.
     bindR (get_float data ''repair_support'' 0) (\<lambda>repair_support.
     bindR (get_float data ''projection_support'' 0) (\<lambda>projection_support.
     bindR (get_float data ''provenance_support'' 0) (\<lambda>provenance_support.
     bindR (get_dict data ''metadata'') (\<lambda>metadata.
     Return
       \<lparr>txs_id = id,
        txs_example_id = example_id,
        txs_score = score,
        txs_dataset_kind = dataset_kind,
        txs_training_signal = training_signal,
        txs_correction_support = correction_support,
        txs_trust_support = trust_support,
        txs_stability_support = stability_support,
        txs_repair_support = repair_support,
        txs_projection_support = projection_support,
        txs_provenance_support = provenance_support,
        txs_metadata = metadata\<rparr>))))))))))))"

interpretation training_example_score_codec: codec training_example_score_to_json training_example_score_from_json "\<lambda>_. True" "\<lambda>x. x"
  by unfold_locales (simp_all add: training_example_score_to_json_def training_example_score_from_json_def codec_simps)

record training_scoring_weights =
  xw_training_signal :: pyfloat
  xw_correction_support :: pyfloat
  xw_trust_support :: pyfloat
  xw_stability_support :: pyfloat
  xw_repair_support :: pyfloat
  xw_projection_support :: pyfloat
  xw_provenance_support :: pyfloat

definition default_training_scoring_weights :: training_scoring_weights where
  "default_training_scoring_weights =
     \<lparr>xw_training_signal = lit (1 / 4),
      xw_correction_support = lit (1 / 5),
      xw_trust_support = lit (3 / 20),
      xw_stability_support = lit (3 / 20),
      xw_repair_support = lit (1 / 10),
      xw_projection_support = lit (1 / 10),
      xw_provenance_support = lit (1 / 20)\<rparr>"

definition training_signal_of :: "string \<Rightarrow> training_signal list dict \<Rightarrow> pyfloat" where
  "training_signal_of example_id signals_by_example =
     support tsg_magnitude tsg_confidence (dget_or signals_by_example example_id [])"

definition find_correction :: "string option \<Rightarrow> model_correction dict \<Rightarrow> model_correction option" where
  "find_correction correction_id correction_index =
     (case correction_id of None \<Rightarrow> None | Some c \<Rightarrow> dget correction_index c)"

definition correction_support :: "training_example \<Rightarrow> model_correction dict \<Rightarrow> pyfloat" where
  "correction_support e correction_index =
     (case find_correction (tex_correction_id e) correction_index of
        None \<Rightarrow> Fin 0
      | Some c \<Rightarrow> f_mul (f_max0 (mc_improvement_score c)) (f_max0 (mc_confidence c)))"

definition example_trust_support :: "training_example \<Rightarrow> trust_score dict \<Rightarrow> pyfloat" where
  "example_trust_support e trust_index = support ts_score ts_confidence (found_all (tex_trust_refs e) trust_index)"

definition example_stability_support :: "training_example \<Rightarrow> manifold_stability_score dict \<Rightarrow> pyfloat" where
  "example_stability_support e stability_index =
     support mss_score mss_confidence (found_all (tex_stability_refs e) stability_index)"

definition example_repair_support :: "training_example \<Rightarrow> repair_operator dict \<Rightarrow> pyfloat" where
  "example_repair_support e repair_index =
     support ro_expected_obstruction_delta ro_confidence (found_all (tex_repair_refs e) repair_index)"

definition example_projection_support :: "training_example \<Rightarrow> future_state_candidate dict \<Rightarrow> pyfloat" where
  "example_projection_support e projection_index =
     support fsc_repair_support fsc_confidence (found_all (tex_projection_refs e) projection_index)"

definition provenance_support :: "training_example \<Rightarrow> pyfloat" where
  "provenance_support e = f_min (Fin 1) (ratio (length (remdups (tex_provenance_refs e))) 3)"

definition example_observation_support :: "training_example \<Rightarrow> model_observation dict \<Rightarrow> pyfloat" where
  "example_observation_support e observation_index =
     support mo_magnitude mo_confidence (found_all (tex_observation_ids e) observation_index)"

text \<open>The row looks the correction up under the empty id when the example names none.\<close>

definition export_row :: "training_example \<Rightarrow> model_correction dict \<Rightarrow> pyval dict" where
  "export_row e correction_index =
     [(''input'', PStr (tex_input_text e)), (''output'', PStr (tex_output_text e)),
      (''correction'', POpt (map_option mc_corrected_output
         (dget correction_index (case tex_correction_id e of None \<Rightarrow> [] | Some c \<Rightarrow> c)))),
      (''trust_refs'', PStrs (tex_trust_refs e)), (''stability_refs'', PStrs (tex_stability_refs e)),
      (''repair_refs'', PStrs (tex_repair_refs e)), (''projection_refs'', PStrs (tex_projection_refs e)),
      (''provenance_refs'', PStrs (tex_provenance_refs e))]"

record training_context =
  tc_observations :: "model_observation list"
  tc_corrections :: "model_correction list"
  tc_signals :: "training_signal list"
  tc_trust_scores :: "trust_score list"
  tc_stability_scores :: "manifold_stability_score list"
  tc_repair_candidates :: "repair_operator list"
  tc_projection_candidates :: "future_state_candidate list"

definition score_example ::
  "training_scoring_weights \<Rightarrow> training_trace option \<Rightarrow> training_context \<Rightarrow> training_example \<Rightarrow>
    training_example_score" where
  "score_example w trace ctx e =
     (let signal = training_signal_of (tex_id e) (group_by tsg_example_id (tc_signals ctx));
          correction = correction_support e (index_by mc_id (tc_corrections ctx));
          trust = example_trust_support e (index_by ts_id (tc_trust_scores ctx));
          stability = example_stability_support e (index_by mss_id (tc_stability_scores ctx));
          repair = example_repair_support e (index_by ro_id (tc_repair_candidates ctx));
          projection = example_projection_support e (index_by fsc_id (tc_projection_candidates ctx));
          provenance = provenance_support e
      in \<lparr>txs_id = ''training.score.'' @ tex_id e, txs_example_id = tex_id e,
          txs_score = weighted [(xw_training_signal w, signal), (xw_correction_support w, correction),
            (xw_trust_support w, trust), (xw_stability_support w, stability), (xw_repair_support w, repair),
            (xw_projection_support w, projection), (xw_provenance_support w, provenance)],
          txs_dataset_kind = (case trace of Some t \<Rightarrow> ttr_dataset_kind t
            | None \<Rightarrow> to_str (dget_or (tex_metadata e) ''dataset_kind'' (PStr []))),
          txs_training_signal = signal, txs_correction_support = correction, txs_trust_support = trust,
          txs_stability_support = stability, txs_repair_support = repair, txs_projection_support = projection,
          txs_provenance_support = provenance,
          txs_metadata =
            [(''observation_support'', PFloat (example_observation_support e (index_by mo_id (tc_observations ctx)))),
             (''export_row'', PDict (export_row e (index_by mc_id (tc_corrections ctx))))]\<rparr>)"

definition in_trace :: "training_trace option \<Rightarrow> training_example \<Rightarrow> bool" where
  "in_trace trace e =
     (case trace of None \<Rightarrow> True | Some t \<Rightarrow> ttr_example_ids t = [] \<or> tex_id e \<in> set (ttr_example_ids t))"

definition score_training_examples ::
  "string \<Rightarrow> training_example list \<Rightarrow> training_trace option \<Rightarrow> training_context \<Rightarrow>
    training_scoring_weights option \<Rightarrow> string \<times> string option \<times> pyval dict list" where
  "score_training_examples fabric_id examples trace ctx weights =
     (let w = (case weights of None \<Rightarrow> default_training_scoring_weights | Some w \<Rightarrow> w)
      in (fabric_id, map_option ttr_id trace,
          rank_rows ''example_id'' (map (\<lambda>e. training_example_score_to_json (score_example w trace ctx e))
            (filter (in_trace trace) (sort_key tex_id examples)))))"

end
