(* ===== verification/Fabric_State.thy ===== *)
theory Fabric_State
  imports Fabric_Values
begin

text \<open>
  \<^verbatim>\<open>services/quantum/fabric\<close>: state vectors, patches, restriction maps, overlaps and the fabric that
  holds them, with their dictionary forms.  The functions of the platform's C math library behind
  \<open>abs(complex)\<close>, \<open>x ** 2\<close> and \<open>math.exp\<close> are a parameter: they are not code of the repository and
  no two libraries round them alike.  \<open>math.sqrt\<close> is correctly rounded everywhere and is defined.
\<close>

section \<open>Complex numbers and the math library\<close>

record cplx =
  cx_re :: pyfloat
  cx_im :: pyfloat

record libm =
  lm_hypot :: "pyfloat \<Rightarrow> pyfloat \<Rightarrow> pyfloat result"
  lm_square :: "pyfloat \<Rightarrow> pyfloat result"
  lm_exp :: "pyfloat \<Rightarrow> pyfloat result"

definition cx_add :: "cplx \<Rightarrow> cplx \<Rightarrow> cplx" where
  "cx_add a b = \<lparr>cx_re = f_add (cx_re a) (cx_re b), cx_im = f_add (cx_im a) (cx_im b)\<rparr>"

definition cx_sub :: "cplx \<Rightarrow> cplx \<Rightarrow> cplx" where
  "cx_sub a b = \<lparr>cx_re = f_sub (cx_re a) (cx_re b), cx_im = f_sub (cx_im a) (cx_im b)\<rparr>"

definition cx_mul :: "cplx \<Rightarrow> cplx \<Rightarrow> cplx" where
  "cx_mul a b =
     \<lparr>cx_re = f_sub (f_mul (cx_re a) (cx_re b)) (f_mul (cx_im a) (cx_im b)),
      cx_im = f_add (f_mul (cx_re a) (cx_im b)) (f_mul (cx_im a) (cx_re b))\<rparr>"

definition cx_conj :: "cplx \<Rightarrow> cplx" where
  "cx_conj a = \<lparr>cx_re = cx_re a, cx_im = f_neg (cx_im a)\<rparr>"

definition cx_sum :: "cplx list \<Rightarrow> cplx" where
  "cx_sum zs = foldl cx_add \<lparr>cx_re = Fin 0, cx_im = Fin 0\<rparr> zs"

text \<open>\<open>z / norm\<close>: the division of complex numbers, by \<open>norm + 0j\<close>.\<close>

definition cx_div_real :: "cplx \<Rightarrow> pyfloat \<Rightarrow> cplx" where
  "cx_div_real a nrm =
     (let ratio = f_quot (Fin 0) nrm; denom = f_add nrm (f_mul (Fin 0) ratio)
      in \<lparr>cx_re = f_quot (f_add (cx_re a) (f_mul (cx_im a) ratio)) denom,
          cx_im = f_quot (f_sub (cx_im a) (f_mul (cx_re a) ratio)) denom\<rparr>)"

definition abs_squared :: "libm \<Rightarrow> cplx \<Rightarrow> pyfloat result" where
  "abs_squared m z = bindR (lm_hypot m (cx_re z) (cx_im z)) (lm_square m)"

text \<open>\<open>complex(r, i)\<close> of two JSON values: strings are refused when there are two arguments.\<close>

definition to_number :: "pyval \<Rightarrow> pyfloat result" where
  "to_number v = (case v of
       PFloat x \<Rightarrow> Return x
     | PInt n \<Rightarrow> int_to_float n
     | PBool b \<Rightarrow> Return (Fin (if b then 1 else 0))
     | _ \<Rightarrow> Raise (TypeError ''complex() argument must be a number''))"

definition to_complex :: "pyval \<times> pyval \<Rightarrow> cplx result" where
  "to_complex p = bindR (to_number (fst p)) (\<lambda>r. bindR (to_number (snd p)) (\<lambda>i. Return \<lparr>cx_re = r, cx_im = i\<rparr>))"

section \<open>State vectors\<close>

record quantum_state =
  qs_id :: string
  qs_vector :: "cplx list"
  qs_phase :: pyfloat
  qs_uncertainty :: pyfloat
  qs_metadata :: "pyval dict"

definition CONTINUITY_METADATA_KEYS :: "string list" where
  "CONTINUITY_METADATA_KEYS =
     [''parent_state_id'', ''child_fabric_uri'', ''continuity_role'', ''retrieval_weight'',
      ''projection_horizon'', ''provenance_refs'', ''contradiction_refs'', ''repair_history_refs'']"

definition coerce_vector :: "cplx list \<Rightarrow> cplx list result" where
  "coerce_vector v = (if v = [] then Raise (ValueError ''state vector cannot be empty'') else Return v)"

definition qs_dimension :: "quantum_state \<Rightarrow> nat" where
  "qs_dimension s = length (qs_vector s)"

definition vector_norm :: "libm \<Rightarrow> cplx list \<Rightarrow> pyfloat result" where
  "vector_norm m v = bindR (mapR (abs_squared m) v) (\<lambda>sq. f_sqrt (f_sum sq))"

definition normalize :: "libm \<Rightarrow> quantum_state \<Rightarrow> quantum_state result" where
  "normalize m s =
     bindR (vector_norm m (qs_vector s)) (\<lambda>norm.
       if f_eq norm (Fin 0) then Raise (ValueError ''QuantumStateObject vector cannot be zero.'')
       else Return (s\<lparr>qs_vector := map (\<lambda>z. cx_div_real z norm) (qs_vector s)\<rparr>))"

text \<open>The constructor: the vector is copied and normalized.\<close>

definition make_state :: "libm \<Rightarrow> quantum_state \<Rightarrow> quantum_state result" where
  "make_state m s = bindR (coerce_vector (qs_vector s)) (\<lambda>v. normalize m (s\<lparr>qs_vector := v\<rparr>))"

definition distance_to :: "libm \<Rightarrow> quantum_state \<Rightarrow> quantum_state \<Rightarrow> pyfloat result" where
  "distance_to m s t =
     (if qs_dimension s \<noteq> qs_dimension t
      then Raise (ValueError ''Cannot compare states with different dimensions.'')
      else vector_norm m (map (\<lambda>(l, r). cx_sub l r) (zip (qs_vector s) (qs_vector t))))"

definition fidelity_with :: "libm \<Rightarrow> quantum_state \<Rightarrow> quantum_state \<Rightarrow> pyfloat result" where
  "fidelity_with m s t =
     (if qs_dimension s \<noteq> qs_dimension t
      then Raise (ValueError ''Cannot compare states with different dimensions.'')
      else abs_squared m (cx_sum (map (\<lambda>(l, r). cx_mul (cx_conj l) r) (zip (qs_vector s) (qs_vector t)))))"

definition continuity_metadata :: "quantum_state \<Rightarrow> pyval dict" where
  "continuity_metadata s =
     concat (map (\<lambda>k. case dget (qs_metadata s) k of None \<Rightarrow> [] | Some v \<Rightarrow> [(k, v)]) CONTINUITY_METADATA_KEYS)"

definition continuity_value :: "quantum_state \<Rightarrow> string \<Rightarrow> pyval \<Rightarrow> pyval result" where
  "continuity_value s k d =
     (if k \<notin> set CONTINUITY_METADATA_KEYS then Raise (KeyError (''unknown continuity metadata key: '' @ k))
      else Return (dget_or (qs_metadata s) k d))"

definition metadata_str :: "quantum_state \<Rightarrow> string \<Rightarrow> string option" where
  "metadata_str s k =
     (case dget_or (qs_metadata s) k PNone of PNone \<Rightarrow> None | v \<Rightarrow> Some (to_str v))"

definition qs_parent_state_id :: "quantum_state \<Rightarrow> string option" where
  "qs_parent_state_id s = metadata_str s ''parent_state_id''"

definition qs_child_fabric_uri :: "quantum_state \<Rightarrow> string option" where
  "qs_child_fabric_uri s = metadata_str s ''child_fabric_uri''"

definition qs_continuity_role :: "quantum_state \<Rightarrow> string option" where
  "qs_continuity_role s = metadata_str s ''continuity_role''"

text \<open>A weight that is not a number counts as one; an integer too large for a float still raises.\<close>

definition qs_retrieval_weight :: "quantum_state \<Rightarrow> pyfloat result" where
  "qs_retrieval_weight s =
     (case to_float (dget_or (qs_metadata s) ''retrieval_weight'' (PFloat (Fin 1))) of
        Inr x \<Rightarrow> Return x
      | Inl (TypeError _) \<Rightarrow> Return (Fin 1)
      | Inl (ValueError _) \<Rightarrow> Return (Fin 1)
      | Inl err \<Rightarrow> Raise err)"

definition state_to_json :: "quantum_state \<Rightarrow> pyval dict" where
  "state_to_json s =
     [(''id'', PStr (qs_id s)),
      (''vector_real'', PList (map (\<lambda>z. PFloat (cx_re z)) (qs_vector s))),
      (''vector_imag'', PList (map (\<lambda>z. PFloat (cx_im z)) (qs_vector s))),
      (''phase'', PFloat (qs_phase s)), (''uncertainty'', PFloat (qs_uncertainty s)),
      (''metadata'', PDict (qs_metadata s))]"

definition state_from_json :: "libm \<Rightarrow> pyval dict \<Rightarrow> quantum_state result" where
  "state_from_json m data =
     bindR (bindR (req_val data ''vector_real'') to_items) (\<lambda>real.
     bindR (bindR (req_val data ''vector_imag'') to_items) (\<lambda>imag.
     if length real \<noteq> length imag
     then Raise (ValueError ''vector_real and vector_imag must have the same length'')
     else
       bindR (mapR to_complex (zip real imag)) (\<lambda>vector.
       bindR (req_str data ''id'') (\<lambda>id.
       bindR (get_float data ''phase'' 0) (\<lambda>phase.
       bindR (get_float data ''uncertainty'' 0) (\<lambda>uncertainty.
       bindR (get_dict data ''metadata'') (\<lambda>metadata.
         make_state m \<lparr>qs_id = id, qs_vector = vector, qs_phase = phase, qs_uncertainty = uncertainty,
           qs_metadata = metadata\<rparr>)))))))"

section \<open>Patches\<close>

record patch =
  pt_id :: string
  pt_domain :: string
  pt_basis :: "string list"
  pt_state :: quantum_state
  pt_metadata :: "pyval dict"

definition make_patch :: "patch \<Rightarrow> patch result" where
  "make_patch p =
     (if pt_basis p \<noteq> [] \<and> length (pt_basis p) \<noteq> qs_dimension (pt_state p)
      then Raise (ValueError ''basis length must match state dimension'') else Return p)"

definition patch_to_json :: "patch \<Rightarrow> pyval dict" where
  "patch_to_json p =
     [(''id'', PStr (pt_id p)), (''domain'', PStr (pt_domain p)), (''basis'', PStrs (pt_basis p)),
      (''state'', PDict (state_to_json (pt_state p))), (''metadata'', PDict (pt_metadata p))]"

definition patch_from_json :: "libm \<Rightarrow> pyval dict \<Rightarrow> patch result" where
  "patch_from_json m data =
     bindR (req_str data ''id'') (\<lambda>id.
     bindR (req_str data ''domain'') (\<lambda>domain.
     bindR (get_strs data ''basis'') (\<lambda>basis.
     bindR (bindR (req_dict data ''state'') (state_from_json m)) (\<lambda>state.
     bindR (get_dict data ''metadata'') (\<lambda>metadata.
       make_patch \<lparr>pt_id = id, pt_domain = domain, pt_basis = basis, pt_state = state, pt_metadata = metadata\<rparr>)))))"

section \<open>Restriction maps\<close>

record restriction_map =
  rm_id :: string
  rm_source_patch :: string
  rm_target_patch :: string
  rm_projection :: "cplx list list"
  rm_validation_rule :: string
  rm_metadata :: "pyval dict"

definition coerce_matrix :: "cplx list list \<Rightarrow> cplx list list result" where
  "coerce_matrix rows =
     (case rows of
        [] \<Rightarrow> Raise (ValueError ''projection matrix cannot be empty'')
      | row # _ \<Rightarrow>
          if length row = 0 then Raise (ValueError ''projection matrix cannot have empty rows'')
          else if list_ex (\<lambda>r. length r \<noteq> length row) rows
          then Raise (ValueError ''projection matrix rows must have equal width'')
          else Return rows)"

definition make_restriction :: "restriction_map \<Rightarrow> restriction_map result" where
  "make_restriction r = bindR (coerce_matrix (rm_projection r)) (\<lambda>rows. Return (r\<lparr>rm_projection := rows\<rparr>))"

definition output_dimension :: "restriction_map \<Rightarrow> nat" where
  "output_dimension r = length (rm_projection r)"

definition input_dimension :: "restriction_map \<Rightarrow> nat" where
  "input_dimension r = (case rm_projection r of [] \<Rightarrow> 0 | row # _ \<Rightarrow> length row)"

definition apply_restriction ::
  "libm \<Rightarrow> restriction_map \<Rightarrow> quantum_state \<Rightarrow> string option \<Rightarrow> quantum_state result" where
  "apply_restriction m r s target_state_id =
     (if qs_dimension s \<noteq> input_dimension r then Raise (ValueError ''restriction map input dimension mismatch'')
      else make_state m
        \<lparr>qs_id = (case target_state_id of Some t \<Rightarrow> (if t = [] then qs_id s @ ''@'' @ rm_id r else t)
           | None \<Rightarrow> qs_id s @ ''@'' @ rm_id r),
         qs_vector = map (\<lambda>row. cx_sum (map (\<lambda>(w, z). cx_mul w z) (zip row (qs_vector s)))) (rm_projection r),
         qs_phase = qs_phase s, qs_uncertainty = qs_uncertainty s,
         qs_metadata = [(''source_state_id'', PStr (qs_id s)), (''restriction_map'', PStr (rm_id r))]\<rparr>)"

definition restriction_to_json :: "restriction_map \<Rightarrow> pyval dict" where
  "restriction_to_json r =
     [(''id'', PStr (rm_id r)), (''source_patch'', PStr (rm_source_patch r)),
      (''target_patch'', PStr (rm_target_patch r)),
      (''projection_real'', PList (map (\<lambda>row. PList (map (\<lambda>z. PFloat (cx_re z)) row)) (rm_projection r))),
      (''projection_imag'', PList (map (\<lambda>row. PList (map (\<lambda>z. PFloat (cx_im z)) row)) (rm_projection r))),
      (''validation_rule'', PStr (rm_validation_rule r)), (''metadata'', PDict (rm_metadata r))]"

text \<open>\<open>len(row)\<close> comes before the row is iterated; a row that is not a list, a string or a dictionary has no length.\<close>

definition read_row :: "pyval \<times> pyval \<Rightarrow> cplx list result" where
  "read_row p =
     bindR (to_items (fst p)) (\<lambda>real_row. bindR (to_items (snd p)) (\<lambda>imag_row.
       if length real_row \<noteq> length imag_row
       then Raise (ValueError ''projection_real and projection_imag row widths must match'')
       else mapR to_complex (zip real_row imag_row)))"

definition restriction_from_json :: "pyval dict \<Rightarrow> restriction_map result" where
  "restriction_from_json data =
     bindR (bindR (req_val data ''projection_real'') to_items) (\<lambda>real.
     bindR (bindR (req_val data ''projection_imag'') to_items) (\<lambda>imag.
     if length real \<noteq> length imag
     then Raise (ValueError ''projection_real and projection_imag must have the same row count'')
     else
       bindR (mapR read_row (zip real imag)) (\<lambda>projection.
       bindR (req_str data ''id'') (\<lambda>id.
       bindR (req_str data ''source_patch'') (\<lambda>source_patch.
       bindR (req_str data ''target_patch'') (\<lambda>target_patch.
       bindR (get_str data ''validation_rule'' ''dimension_match'') (\<lambda>validation_rule.
       bindR (get_dict data ''metadata'') (\<lambda>metadata.
         make_restriction \<lparr>rm_id = id, rm_source_patch = source_patch, rm_target_patch = target_patch,
           rm_projection = projection, rm_validation_rule = validation_rule, rm_metadata = metadata\<rparr>))))))))"

section \<open>Overlaps\<close>

record overlap =
  ov_id :: string
  ov_patch_a :: string
  ov_patch_b :: string
  ov_shared_domain :: "string list"
  ov_restriction_a :: restriction_map
  ov_restriction_b :: restriction_map
  ov_metadata :: "pyval dict"

definition make_overlap :: "overlap \<Rightarrow> overlap result" where
  "make_overlap o' =
     (if output_dimension (ov_restriction_a o') \<noteq> output_dimension (ov_restriction_b o')
      then Raise (ValueError ''overlap restrictions must project into the same dimension'') else Return o')"

definition restricted_states ::
  "libm \<Rightarrow> overlap \<Rightarrow> patch \<Rightarrow> patch \<Rightarrow> (quantum_state \<times> quantum_state) result" where
  "restricted_states m o' a b =
     (if pt_id a \<noteq> ov_patch_a o' \<or> pt_id b \<noteq> ov_patch_b o'
      then Raise (ValueError ''overlap patch ids do not match supplied patches'')
      else bindR (apply_restriction m (ov_restriction_a o') (pt_state a) None) (\<lambda>l.
           bindR (apply_restriction m (ov_restriction_b o') (pt_state b) None) (\<lambda>r. Return (l, r))))"

definition mismatch :: "libm \<Rightarrow> overlap \<Rightarrow> patch \<Rightarrow> patch \<Rightarrow> pyfloat result" where
  "mismatch m o' a b = bindR (restricted_states m o' a b) (\<lambda>(l, r). distance_to m l r)"

definition fidelity :: "libm \<Rightarrow> overlap \<Rightarrow> patch \<Rightarrow> patch \<Rightarrow> pyfloat result" where
  "fidelity m o' a b = bindR (restricted_states m o' a b) (\<lambda>(l, r). fidelity_with m l r)"

definition coherence :: "libm \<Rightarrow> overlap \<Rightarrow> patch \<Rightarrow> patch \<Rightarrow> pyfloat result" where
  "coherence m o' a b = bindR (mismatch m o' a b) (\<lambda>d. lm_exp m (f_neg d))"

definition overlap_to_json :: "overlap \<Rightarrow> pyval dict" where
  "overlap_to_json o' =
     [(''id'', PStr (ov_id o')), (''patch_a'', PStr (ov_patch_a o')), (''patch_b'', PStr (ov_patch_b o')),
      (''shared_domain'', PStrs (ov_shared_domain o')),
      (''restriction_a'', PDict (restriction_to_json (ov_restriction_a o'))),
      (''restriction_b'', PDict (restriction_to_json (ov_restriction_b o'))),
      (''metadata'', PDict (ov_metadata o'))]"

definition overlap_from_json :: "pyval dict \<Rightarrow> overlap result" where
  "overlap_from_json data =
     bindR (req_str data ''id'') (\<lambda>id.
     bindR (req_str data ''patch_a'') (\<lambda>patch_a.
     bindR (req_str data ''patch_b'') (\<lambda>patch_b.
     bindR (get_strs data ''shared_domain'') (\<lambda>shared_domain.
     bindR (bindR (req_dict data ''restriction_a'') restriction_from_json) (\<lambda>restriction_a.
     bindR (bindR (req_dict data ''restriction_b'') restriction_from_json) (\<lambda>restriction_b.
     bindR (get_dict data ''metadata'') (\<lambda>metadata.
       make_overlap \<lparr>ov_id = id, ov_patch_a = patch_a, ov_patch_b = patch_b, ov_shared_domain = shared_domain,
         ov_restriction_a = restriction_a, ov_restriction_b = restriction_b, ov_metadata = metadata\<rparr>)))))))"

section \<open>The fabric\<close>

record fabric =
  fb_id :: string
  fb_patches :: "patch dict"
  fb_overlaps :: "overlap dict"
  fb_metadata :: "pyval dict"

definition empty_fabric :: "string \<Rightarrow> pyval dict \<Rightarrow> fabric" where
  "empty_fabric i metadata = \<lparr>fb_id = i, fb_patches = [], fb_overlaps = [], fb_metadata = metadata\<rparr>"

definition add_patch :: "patch \<Rightarrow> fabric \<Rightarrow> fabric result" where
  "add_patch p f =
     (if has_key (fb_patches f) (pt_id p) then Raise (ValueError (''patch already exists: '' @ pt_id p))
      else Return (f\<lparr>fb_patches := dset (pt_id p) p (fb_patches f)\<rparr>))"

definition add_overlap :: "overlap \<Rightarrow> fabric \<Rightarrow> fabric result" where
  "add_overlap o' f =
     (if has_key (fb_overlaps f) (ov_id o') then Raise (ValueError (''overlap already exists: '' @ ov_id o'))
      else if \<not> has_key (fb_patches f) (ov_patch_a o') \<or> \<not> has_key (fb_patches f) (ov_patch_b o')
      then Raise (KeyError ''overlap references unknown patch'')
      else Return (f\<lparr>fb_overlaps := dset (ov_id o') o' (fb_overlaps f)\<rparr>))"

definition get_patch :: "fabric \<Rightarrow> string \<Rightarrow> patch result" where
  "get_patch f k = (case dget (fb_patches f) k of None \<Rightarrow> Raise (KeyError k) | Some p \<Rightarrow> Return p)"

text \<open>\<open>graph.setdefault(a, []).append(b)\<close>.\<close>

definition link_to :: "string \<Rightarrow> string \<Rightarrow> string list dict \<Rightarrow> string list dict" where
  "link_to a b g = dset a (dget_or g a [] @ [b]) g"

definition adjacency :: "fabric \<Rightarrow> string list dict" where
  "adjacency f =
     map (map_prod id sorted_set)
       (foldl (\<lambda>g o'. link_to (ov_patch_b o') (ov_patch_a o') (link_to (ov_patch_a o') (ov_patch_b o') g))
         (map (\<lambda>k. (k, [])) (dkeys (fb_patches f))) (map snd (fb_overlaps f)))"

definition fabric_to_json :: "fabric \<Rightarrow> pyval dict" where
  "fabric_to_json f =
     [(''id'', PStr (fb_id f)),
      (''patches'', PDict (map (map_prod id (\<lambda>p. PDict (patch_to_json p))) (sort_key fst (fb_patches f)))),
      (''overlaps'', PDict (map (map_prod id (\<lambda>o'. PDict (overlap_to_json o'))) (sort_key fst (fb_overlaps f)))),
      (''metadata'', PDict (fb_metadata f))]"

definition fabric_from_json :: "libm \<Rightarrow> pyval dict \<Rightarrow> fabric result" where
  "fabric_from_json m data =
     bindR (req_str data ''id'') (\<lambda>id.
     bindR (get_dict data ''metadata'') (\<lambda>metadata.
     bindR (get_dict data ''patches'') (\<lambda>patches.
     bindR (foldR (\<lambda>f v. bindR (bindR (to_dict v) (patch_from_json m)) (\<lambda>p. add_patch p f))
       (empty_fabric id metadata) (map snd patches)) (\<lambda>f.
     bindR (get_dict data ''overlaps'') (\<lambda>overlaps.
       foldR (\<lambda>f v. bindR (bindR (to_dict v) overlap_from_json) (\<lambda>o'. add_overlap o' f)) f (map snd overlaps))))))"

section \<open>The invariant of a fabric\<close>

text \<open>Patches and overlaps stand under their own ids, and overlaps join known patches.\<close>

definition overlap_known :: "string set \<Rightarrow> string \<times> overlap \<Rightarrow> bool" where
  "overlap_known ks kv \<longleftrightarrow>
     ov_id (snd kv) = fst kv \<and> ov_patch_a (snd kv) \<in> ks \<and> ov_patch_b (snd kv) \<in> ks"

definition fabric_ok :: "fabric \<Rightarrow> bool" where
  "fabric_ok f \<longleftrightarrow>
     distinct (dkeys (fb_patches f)) \<and> distinct (dkeys (fb_overlaps f)) \<and>
     list_all (\<lambda>kv. pt_id (snd kv) = fst kv) (fb_patches f) \<and>
     list_all (overlap_known (set (dkeys (fb_patches f)))) (fb_overlaps f)"

lemma overlap_known_mono: "list_all (overlap_known ks) os \<Longrightarrow> ks \<subseteq> ks' \<Longrightarrow> list_all (overlap_known ks') os"
  by (auto simp: list_all_iff overlap_known_def)

lemma dset_absent: "k \<notin> set (dkeys d) \<Longrightarrow> dset k v d = d @ [(k, v)]"
  by (induction d) auto

lemma fabric_ok_empty [simp]: "fabric_ok (empty_fabric i m)"
  by (simp add: fabric_ok_def empty_fabric_def)

lemma fabric_ok_add_patch:
  assumes "fabric_ok f" "add_patch p f = Return f'"
  shows "fabric_ok f'"
proof -
  from assms(2) have "pt_id p \<notin> set (dkeys (fb_patches f))"
    and f': "f' = f\<lparr>fb_patches := fb_patches f @ [(pt_id p, p)]\<rparr>"
    unfolding add_patch_def has_key_iff by (simp_all add: dset_absent split: if_splits)
  moreover have "list_all (overlap_known (set (dkeys (fb_patches f')))) (fb_overlaps f)"
    by (rule overlap_known_mono) (use assms(1) f' in \<open>auto simp: fabric_ok_def\<close>)
  ultimately show ?thesis using assms(1) by (simp add: fabric_ok_def)
qed

lemma fabric_ok_add_overlap:
  assumes "fabric_ok f" "add_overlap o' f = Return f'"
  shows "fabric_ok f'"
proof -
  from assms(2) have "ov_id o' \<notin> set (dkeys (fb_overlaps f))"
    and "ov_patch_a o' \<in> set (dkeys (fb_patches f))" "ov_patch_b o' \<in> set (dkeys (fb_patches f))"
    and f': "f' = f\<lparr>fb_overlaps := fb_overlaps f @ [(ov_id o', o')]\<rparr>"
    unfolding add_overlap_def has_key_iff by (simp_all add: dset_absent split: if_splits)
  then show ?thesis using assms(1) by (simp add: fabric_ok_def overlap_known_def)
qed

lemma fabric_ok_from_json: "fabric_from_json m data = Return f \<Longrightarrow> fabric_ok f"
  unfolding fabric_from_json_def
  by (auto elim!: bindR_ReturnE foldR_invariant [where P = fabric_ok] intro: fabric_ok_add_patch fabric_ok_add_overlap)

end
