(* ===== verification/Fabric_Gluing.thy ===== *)
theory Fabric_Gluing
  imports Fabric_State
begin

text \<open>
  \<^verbatim>\<open>services/quantum/fabric/gluing.py\<close>, \<^verbatim>\<open>recall.py\<close> and \<^verbatim>\<open>runtime.py\<close>: the coherence report of a
  fabric, the ranking of its patches against a query state, and the execution of a serialized
  fabric.
\<close>

section \<open>The coherence report\<close>

record pair_report =
  pr_overlap_id :: string
  pr_patch_a :: string
  pr_patch_b :: string
  pr_shared_domain :: "string list"
  pr_mismatch :: pyfloat
  pr_fidelity :: pyfloat
  pr_coherence :: pyfloat

record fabric_report =
  fr_fabric_id :: string
  fr_patch_count :: nat
  fr_overlap_count :: nat
  fr_total_mismatch :: pyfloat
  fr_global_coherence :: pyfloat
  fr_healthy :: bool
  fr_obstruction_score :: pyfloat
  fr_adjacency :: "string list dict"
  fr_pairs :: "pair_report list"

definition pair_of_overlap :: "libm \<Rightarrow> fabric \<Rightarrow> string \<times> overlap \<Rightarrow> pair_report result" where
  "pair_of_overlap m f kv =
     (case kv of (overlap_id, o') \<Rightarrow>
        bindR (get_patch f (ov_patch_a o')) (\<lambda>a.
        bindR (get_patch f (ov_patch_b o')) (\<lambda>b.
        bindR (mismatch m o' a b) (\<lambda>d.
        bindR (fidelity m o' a b) (\<lambda>fid.
        bindR (lm_exp m (f_neg d)) (\<lambda>c.
          Return \<lparr>pr_overlap_id = overlap_id, pr_patch_a = pt_id a, pr_patch_b = pt_id b,
            pr_shared_domain = ov_shared_domain o', pr_mismatch = d, pr_fidelity = fid, pr_coherence = c\<rparr>))))))"

definition analyze :: "libm \<Rightarrow> pyfloat \<Rightarrow> fabric \<Rightarrow> fabric_report result" where
  "analyze m coherence_threshold f =
     bindR (mapR (pair_of_overlap m f) (sort_key fst (fb_overlaps f))) (\<lambda>pairs.
     let total_mismatch = f_sum (map pr_mismatch pairs) in
     bindR (lm_exp m (f_neg total_mismatch)) (\<lambda>global_coherence.
       Return \<lparr>fr_fabric_id = fb_id f, fr_patch_count = length (fb_patches f),
         fr_overlap_count = length (fb_overlaps f), fr_total_mismatch = total_mismatch,
         fr_global_coherence = global_coherence, fr_healthy = f_le coherence_threshold global_coherence,
         fr_obstruction_score = total_mismatch, fr_adjacency = adjacency f, fr_pairs = pairs\<rparr>))"

section \<open>Coherent recall\<close>

record recall_scoring_weights =
  lw_local_similarity :: pyfloat
  lw_overlap_agreement :: pyfloat
  lw_global_coherence :: pyfloat
  lw_continuity_role :: pyfloat
  lw_obstruction :: pyfloat
  lw_traversal_depth :: pyfloat

definition default_recall_scoring_weights :: recall_scoring_weights where
  "default_recall_scoring_weights =
     \<lparr>lw_local_similarity = lit (9 / 20), lw_overlap_agreement = lit (1 / 4), lw_global_coherence = lit (3 / 20),
      lw_continuity_role = lit (1 / 10), lw_obstruction = lit (1 / 5), lw_traversal_depth = lit (1 / 20)\<rparr>"

definition CONTINUITY_ROLE_WEIGHTS :: "pyfloat dict" where
  "CONTINUITY_ROLE_WEIGHTS =
     [(''intent'', Fin 1), (''memory'', Fin 1), (''task'', lit (9 / 10)), (''system'', lit (9 / 10)),
      (''projection'', lit (4 / 5)), (''repair'', lit (3 / 4)), (''contradiction'', lit (9 / 20))]"

definition continuity_role_weight :: "patch \<Rightarrow> pyfloat result" where
  "continuity_role_weight p =
     (let role = lower (strip (case qs_continuity_role (pt_state p) of None \<Rightarrow> [] | Some r \<Rightarrow> r));
          base = dget_or CONTINUITY_ROLE_WEIGHTS role (lit (7 / 10))
      in bindR (qs_retrieval_weight (pt_state p)) (\<lambda>w. Return (f_mul base w)))"

text \<open>The pairs of each patch: a pair of a patch with itself is listed twice, an empty id is skipped.\<close>

definition add_pair :: "string \<Rightarrow> pair_report \<Rightarrow> pair_report list dict \<Rightarrow> pair_report list dict" where
  "add_pair patch_id p out = (if patch_id = [] then out else dset patch_id (dget_or out patch_id [] @ [p]) out)"

definition pair_reports_by_patch :: "pair_report list \<Rightarrow> pair_report list dict" where
  "pair_reports_by_patch ps = foldl (\<lambda>out p. add_pair (pr_patch_b p) p (add_pair (pr_patch_a p) p out)) [] ps"

definition sum_pair_value :: "(pair_report \<Rightarrow> pyfloat) \<Rightarrow> pair_report list \<Rightarrow> pyfloat" where
  "sum_pair_value key pairs = f_sum (map key pairs)"

definition average_pair_value :: "(pair_report \<Rightarrow> pyfloat) \<Rightarrow> pyfloat \<Rightarrow> pair_report list \<Rightarrow> pyfloat" where
  "average_pair_value key dflt pairs =
     (if pairs = [] then dflt else f_div_len (sum_pair_value key pairs) (length pairs))"

definition local_similarity :: "libm \<Rightarrow> quantum_state \<Rightarrow> patch \<Rightarrow> pyfloat result" where
  "local_similarity m query p =
     (if qs_dimension query \<noteq> qs_dimension (pt_state p) then Return (Fin 0) else fidelity_with m query (pt_state p))"

text \<open>\<open>int(v)\<close> of a metadata value: floats are cut towards zero.\<close>

definition to_int :: "pyval \<Rightarrow> int result" where
  "to_int v = (case v of
       PInt n \<Rightarrow> Return n
     | PBool b \<Rightarrow> Return (if b then 1 else 0)
     | PFloat (Fin x) \<Rightarrow> Return (if x < 0 then \<lceil>x\<rceil> else \<lfloor>x\<rfloor>)
     | PFloat NaN \<Rightarrow> Raise (ValueError ''cannot convert float NaN to integer'')
     | PFloat _ \<Rightarrow> Raise (OverflowError ''cannot convert float infinity to integer'')
     | PStr s \<Rightarrow> py_int s
     | _ \<Rightarrow> Raise (TypeError ''int() argument must be a string or a real number''))"

definition traversal_depth :: "int dict \<Rightarrow> string \<Rightarrow> patch \<Rightarrow> int result" where
  "traversal_depth depths patch_id p =
     bindR (case dget depths patch_id of
         Some n \<Rightarrow> Return n
       | None \<Rightarrow> to_int (dget_or (qs_metadata (pt_state p)) ''traversal_depth'' (PInt 0)))
       (\<lambda>n. Return (max 0 n))"

record recall_row =
  rr_patch_id :: string
  rr_state_id :: string
  rr_domain :: string
  rr_score :: pyfloat
  rr_local_similarity :: pyfloat
  rr_overlap_agreement :: pyfloat
  rr_global_coherence :: pyfloat
  rr_obstruction_score :: pyfloat
  rr_continuity_role :: "string option"
  rr_continuity_role_weight :: pyfloat
  rr_retrieval_weight :: pyfloat
  rr_traversal_depth :: int
  rr_child_fabric_uri :: "string option"

definition recall_patch ::
  "libm \<Rightarrow> recall_scoring_weights \<Rightarrow> fabric_report \<Rightarrow> int dict \<Rightarrow> quantum_state \<Rightarrow> string \<times> patch \<Rightarrow>
    recall_row result" where
  "recall_patch m w report depths query kv =
     (let patch_id = fst kv; p = snd kv in
     bindR (local_similarity m query p) (\<lambda>similarity.
     let pairs = dget_or (pair_reports_by_patch (fr_pairs report)) patch_id [];
         agreement = average_pair_value pr_coherence (Fin 1) pairs;
         obstruction = sum_pair_value pr_mismatch pairs in
     bindR (continuity_role_weight p) (\<lambda>role_weight.
     bindR (traversal_depth depths patch_id p) (\<lambda>depth.
     bindR (int_to_float depth) (\<lambda>depth_float.
     bindR (qs_retrieval_weight (pt_state p)) (\<lambda>retrieval.
       Return \<lparr>rr_patch_id = patch_id, rr_state_id = qs_id (pt_state p), rr_domain = pt_domain p,
         rr_score = f_sub (f_sub (weighted
             [(lw_local_similarity w, similarity), (lw_overlap_agreement w, agreement),
              (lw_global_coherence w, fr_global_coherence report), (lw_continuity_role w, role_weight)])
           (f_mul (lw_obstruction w) obstruction)) (f_mul (lw_traversal_depth w) depth_float),
         rr_local_similarity = similarity, rr_overlap_agreement = agreement,
         rr_global_coherence = fr_global_coherence report, rr_obstruction_score = obstruction,
         rr_continuity_role = qs_continuity_role (pt_state p), rr_continuity_role_weight = role_weight,
         rr_retrieval_weight = retrieval, rr_traversal_depth = depth,
         rr_child_fabric_uri = qs_child_fabric_uri (pt_state p)\<rparr>))))))"

definition recall_row_json :: "recall_row \<Rightarrow> pyval dict" where
  "recall_row_json r =
     [(''patch_id'', PStr (rr_patch_id r)), (''state_id'', PStr (rr_state_id r)), (''domain'', PStr (rr_domain r)),
      (''score'', PFloat (rr_score r)), (''local_similarity'', PFloat (rr_local_similarity r)),
      (''overlap_agreement'', PFloat (rr_overlap_agreement r)),
      (''global_coherence'', PFloat (rr_global_coherence r)),
      (''obstruction_score'', PFloat (rr_obstruction_score r)),
      (''continuity_role'', POpt (rr_continuity_role r)),
      (''continuity_role_weight'', PFloat (rr_continuity_role_weight r)),
      (''retrieval_weight'', PFloat (rr_retrieval_weight r)), (''traversal_depth'', PInt (rr_traversal_depth r)),
      (''child_fabric_uri'', POpt (rr_child_fabric_uri r))]"

record recall_report =
  re_fabric_id :: string
  re_query_state_id :: string
  re_global_coherence :: pyfloat
  re_obstruction_score :: pyfloat
  re_results :: "pyval dict list"

definition score_coherent_recall ::
  "libm \<Rightarrow> fabric \<Rightarrow> quantum_state \<Rightarrow> pyfloat \<Rightarrow> int dict option \<Rightarrow> recall_scoring_weights option \<Rightarrow>
    recall_report result" where
  "score_coherent_recall m f query coherence_threshold depths weights =
     (let w = (case weights of None \<Rightarrow> default_recall_scoring_weights | Some w \<Rightarrow> w);
          ds = (case depths of None \<Rightarrow> [] | Some d \<Rightarrow> d)
      in bindR (analyze m coherence_threshold f) (\<lambda>report.
         bindR (mapR (recall_patch m w report ds query) (sort_key fst (fb_patches f))) (\<lambda>rows.
           Return \<lparr>re_fabric_id = fb_id f, re_query_state_id = qs_id query,
             re_global_coherence = fr_global_coherence report, re_obstruction_score = fr_obstruction_score report,
             re_results = rank_rows ''patch_id'' (map recall_row_json rows)\<rparr>)))"

section \<open>Executing a serialized fabric\<close>

definition raw_fabric :: "pyval dict \<Rightarrow> pyval dict result" where
  "raw_fabric payload =
     (case dget payload ''fabric_payload'' of
        Some v \<Rightarrow> to_dict v
      | None \<Rightarrow>
          bindR (get_dict payload ''patches'') (\<lambda>patches.
          bindR (get_dict payload ''overlaps'') (\<lambda>overlaps.
          bindR (get_dict payload ''metadata'') (\<lambda>metadata.
            Return [(''id'', PStr (to_str (dget_or payload ''fabric_id'' (dget_or payload ''uri'' (PStr ''fabric.runtime''))))),
              (''patches'', PDict patches), (''overlaps'', PDict overlaps), (''metadata'', PDict metadata)]))))"

definition execute_fabric_payload :: "libm \<Rightarrow> pyval dict \<Rightarrow> pyfloat \<Rightarrow> fabric_report result" where
  "execute_fabric_payload m payload coherence_threshold =
     bindR (raw_fabric payload) (\<lambda>raw.
     bindR (fabric_from_json m raw) (\<lambda>f. analyze m coherence_threshold f))"

section \<open>Adjacency\<close>

lemma dget_or_map: "dget_or (map (map_prod id h) g) k d = (if k \<in> set (dkeys g) then h (dget_or g k d) else d)"
  by (induction g) (auto simp: dget_or_def)

definition joins :: "overlap \<Rightarrow> string \<Rightarrow> string \<Rightarrow> bool" where
  "joins o' a b \<longleftrightarrow> ov_patch_a o' = a \<and> ov_patch_b o' = b \<or> ov_patch_a o' = b \<and> ov_patch_b o' = a"

abbreviation link_both :: "string list dict \<Rightarrow> overlap \<Rightarrow> string list dict" where
  "link_both g o' \<equiv> link_to (ov_patch_b o') (ov_patch_a o') (link_to (ov_patch_a o') (ov_patch_b o') g)"

lemma link_both_fold:
  "set (dget_or (foldl link_both g os) a []) = set (dget_or g a []) \<union> {b. \<exists>o'\<in>set os. joins o' a b}"
  by (induction os arbitrary: g) (auto simp: link_to_def joins_def)

lemma dkeys_link_both_fold:
  "\<forall>o'\<in>set os. ov_patch_a o' \<in> set (dkeys g) \<and> ov_patch_b o' \<in> set (dkeys g) \<Longrightarrow>
     dkeys (foldl link_both g os) = dkeys g"
proof (induction os arbitrary: g)
  case (Cons o' os)
  then have k: "dkeys (link_both g o') = dkeys g" by (simp add: link_to_def dkeys_dset)
  have "dkeys (foldl link_both (link_both g o') os) = dkeys (link_both g o')"
    by (rule Cons.IH) (use Cons.prems in \<open>simp only: k list.set_intros ball_simps\<close>, auto)
  with k show ?case by simp
qed simp

lemma adjacency_keys: "fabric_ok f \<Longrightarrow> dkeys (adjacency f) = dkeys (fb_patches f)"
  unfolding adjacency_def
  by (subst map_map) (auto simp: comp_def dkeys_link_both_fold fabric_ok_def list_all_iff overlap_known_def)

lemma adjacency_iff:
  assumes "fabric_ok f"
  shows "b \<in> set (dget_or (adjacency f) a []) \<longleftrightarrow> (\<exists>o'\<in>set (map snd (fb_overlaps f)). joins o' a b)"
proof -
  let ?g = "foldl link_both (map (\<lambda>k. (k, [])) (dkeys (fb_patches f))) (map snd (fb_overlaps f))"
  have k: "dkeys ?g = dkeys (fb_patches f)"
    using assms by (subst dkeys_link_both_fold) (auto simp: comp_def fabric_ok_def list_all_iff overlap_known_def)
  have no_links: "set (dget_or (map (\<lambda>k. (k, [])) ks) a []) = {}" for ks :: "string list"
    by (induction ks) (auto simp: dget_or_def)
  then have s: "set (dget_or ?g a []) = {b. \<exists>o'\<in>set (map snd (fb_overlaps f)). joins o' a b}"
    by (simp only: link_both_fold no_links Un_empty_left)
  have known: "a \<in> set (dkeys (fb_patches f))" if "o' \<in> set (map snd (fb_overlaps f))" "joins o' a b" for o'
    using that assms by (auto simp: fabric_ok_def list_all_iff overlap_known_def joins_def)
  have "set (dget_or (adjacency f) a []) = (if a \<in> set (dkeys (fb_patches f)) then set (dget_or ?g a []) else {})"
    unfolding adjacency_def dget_or_map k by (simp add: sorted_set_def)
  with s known show ?thesis by auto
qed

section \<open>Mismatch and coherence\<close>

lemma vector_norm_nonneg: "vector_norm m v = Return d \<Longrightarrow> d = NaN \<or> nonneg d \<and> is_float d"
  unfolding vector_norm_def by (elim bindR_ReturnE) (erule f_sqrt_float, simp)

lemma mismatch_nonneg: "mismatch m o' a b = Return d \<Longrightarrow> d = NaN \<or> nonneg d \<and> is_float d"
  unfolding mismatch_def distance_to_def
  by (elim bindR_ReturnE) (auto split: prod.splits if_splits dest: vector_norm_nonneg)

lemma pair_of_overlap_Return:
  assumes "pair_of_overlap m f kv = Return p"
  shows "pr_overlap_id p = fst kv" "pr_mismatch p = NaN \<or> nonneg (pr_mismatch p) \<and> is_float (pr_mismatch p)"
    "lm_exp m (f_neg (pr_mismatch p)) = Return (pr_coherence p)"
  using assms unfolding pair_of_overlap_def
  by (auto split: prod.splits elim!: bindR_ReturnE dest: mismatch_nonneg)

text \<open>What C promises of \<open>exp\<close>: no result above one or below zero for an argument that is not positive.\<close>

definition exp_law :: "(pyfloat \<Rightarrow> pyfloat result) \<Rightarrow> bool" where
  "exp_law e \<longleftrightarrow> (\<forall>x r. nonneg x \<longrightarrow> e (f_neg x) = Return r \<longrightarrow> in_range 0 1 r) \<and> e (Fin 0) = Return (Fin 1)"

lemma coherence_range: "exp_law e \<Longrightarrow> nonneg d \<Longrightarrow> e (f_neg d) = Return c \<Longrightarrow> in_range 0 1 c"
  by (auto simp: exp_law_def)

lemma f_sum_NaN: "f_sum vs \<noteq> NaN \<Longrightarrow> v \<in> set vs \<Longrightarrow> v \<noteq> NaN"
proof (induction vs rule: rev_induct)
  case (snoc w vs)
  then have "f_sum vs \<noteq> NaN" "w \<noteq> NaN"
    by (cases "f_sum vs"; auto simp: f_sum_snoc)+
  with snoc show ?case by auto
qed simp

lemma analyze_Return:
  assumes "analyze m thr f = Return r"
  obtains pairs where "mapR (pair_of_overlap m f) (sort_key fst (fb_overlaps f)) = Return pairs"
    "fr_pairs r = pairs" "fr_total_mismatch r = f_sum (map pr_mismatch pairs)"
    "lm_exp m (f_neg (fr_total_mismatch r)) = Return (fr_global_coherence r)"
    "fr_healthy r = f_le thr (fr_global_coherence r)" "fr_adjacency r = adjacency f"
  using assms unfolding analyze_def by (auto simp: Let_def elim!: bindR_ReturnE)

section \<open>A sample fabric\<close>

text \<open>Two patches with the same one-dimensional state, joined by identity restrictions.\<close>

definition sample_libm :: libm where
  "sample_libm =
     \<lparr>lm_hypot = \<lambda>a b. Return (f_max a (f_neg a)), lm_square = \<lambda>x. Return (f_mul x x),
      lm_exp = \<lambda>x. Return (if x = Fin 0 then Fin 1 else if f_less x (Fin 0) then Fin (1 / 2) else PInf)\<rparr>"

definition one_val :: pyval where
  "one_val = PFloat (Fin 1)"

definition zero_val :: pyval where
  "zero_val = PFloat (Fin 0)"

definition sample_patch :: "string \<Rightarrow> pyval" where
  "sample_patch k = PDict [(''id'', PStr k), (''domain'', PStr ''d''),
     (''state'', PDict [(''id'', PStr (k @ ''.s'')), (''vector_real'', PList [one_val]), (''vector_imag'', PList [zero_val])])]"

definition sample_restriction :: "string \<Rightarrow> pyval" where
  "sample_restriction k = PDict [(''id'', PStr ''r''), (''source_patch'', PStr k), (''target_patch'', PStr ''t''),
     (''projection_real'', PList [PList [one_val]]), (''projection_imag'', PList [PList [zero_val]])]"

definition sample_fabric_data :: "pyval dict" where
  "sample_fabric_data = [(''id'', PStr ''f''),
     (''patches'', PDict [(''a'', sample_patch ''a''), (''b'', sample_patch ''b'')]),
     (''overlaps'', PDict [(''o'', PDict [(''id'', PStr ''o''), (''patch_a'', PStr ''a''), (''patch_b'', PStr ''b''),
        (''restriction_a'', sample_restriction ''a''), (''restriction_b'', sample_restriction ''b'')])])]"

lemma sample_exp_law: "exp_law (lm_exp sample_libm)"
proof -
  have "in_range 0 1 r" if "nonneg x" "lm_exp sample_libm (f_neg x) = Return r" for x r
    using that by (cases x) (auto simp: sample_libm_def split: if_splits)
  then show ?thesis by (simp add: exp_law_def sample_libm_def)
qed

lemmas fabric_reading =
  fabric_from_json_def patch_from_json_def state_from_json_def overlap_from_json_def restriction_from_json_def
  make_patch_def make_state_def make_overlap_def make_restriction_def coerce_vector_def coerce_matrix_def
  normalize_def vector_norm_def abs_squared_def cx_div_real_def to_complex_def to_number_def read_row_def
  req_val_def req_str_def req_dict_def get_str_def get_float_def get_strs_def get_dict_def dget_or_def
  to_items_def to_dict_def qs_dimension_def output_dimension_def add_patch_def add_overlap_def has_key_def
  f_quot_def f_sub_def f_max_def f_sum_def f_eq_iff

lemmas gluing_run =
  analyze_def pair_of_overlap_def get_patch_def mismatch_def fidelity_def restricted_states_def
  apply_restriction_def input_dimension_def distance_to_def fidelity_with_def cx_sum_def cx_mul_def cx_sub_def
  cx_add_def cx_conj_def

lemma sample_fabric_loads: "\<exists>f. fabric_from_json sample_libm sample_fabric_data = Return f \<and> dkeys (fb_patches f) = [''a'', ''b'']"
  by (simp add: fabric_reading sample_fabric_data_def sample_patch_def sample_restriction_def one_val_def zero_val_def
      sample_libm_def empty_fabric_def)

lemma sample_fabric_run:
  "\<exists>f r. fabric_from_json sample_libm sample_fabric_data = Return f \<and>
     analyze sample_libm (Fin (1 / 2)) f = Return r \<and> fr_obstruction_score r = Fin 0 \<and> dkeys (fb_overlaps f) = [''o'']"
  by (simp add: fabric_reading gluing_run sample_fabric_data_def sample_patch_def sample_restriction_def one_val_def
      zero_val_def sample_libm_def empty_fabric_def Let_def)

section \<open>Properties\<close>

text \<open>
  Every fabric that loads from its serialized form is well formed: patches and overlaps stand
  under their own ids, overlaps join known patches, and the adjacency it reports lists exactly its
  patches and links two of them, in both directions, exactly when some overlap joins them.
\<close>

theorem loaded_fabric_adjacency:
  assumes "fabric_from_json m data = Return f"
  shows "fabric_ok f \<and> dkeys (adjacency f) = dkeys (fb_patches f) \<and>
    (\<forall>a b. (b \<in> set (dget_or (adjacency f) a [])) = (\<exists>o'\<in>set (map snd (fb_overlaps f)). joins o' a b) \<and>
           (b \<in> set (dget_or (adjacency f) a [])) = (a \<in> set (dget_or (adjacency f) b [])))"
proof -
  have ok: "fabric_ok f" by (rule fabric_ok_from_json [OF assms])
  show ?thesis
    unfolding adjacency_iff [OF ok] adjacency_keys [OF ok] using ok by (auto simp: joins_def)
qed

theorem loaded_fabric_adjacency_witness:
  "\<exists>f. fabric_from_json sample_libm sample_fabric_data = Return f \<and> dkeys (adjacency f) = [''a'', ''b'']"
  using sample_fabric_loads loaded_fabric_adjacency [of sample_libm sample_fabric_data] by metis

text \<open>
  C19: a coherence report lists every overlap once, in the order of the overlap ids; its obstruction
  is at least the mismatch of each pair; and unless that obstruction is undefined, the global
  coherence and the coherence of each pair lie between zero and one, a fabric without overlaps being
  fully coherent.  The one assumption is the range of the C library's \<open>exp\<close>.
\<close>

theorem gluing_report_sound:
  assumes "exp_law (lm_exp m)" "analyze m thr f = Return r" "fr_obstruction_score r \<noteq> NaN"
  shows "map pr_overlap_id (fr_pairs r) = sort (dkeys (fb_overlaps f)) \<and>
    in_range 0 1 (fr_global_coherence r) \<and> fr_healthy r = f_le thr (fr_global_coherence r) \<and>
    (fb_overlaps f = [] \<longrightarrow> fr_global_coherence r = Fin 1) \<and>
    (\<forall>p\<in>set (fr_pairs r). in_range 0 1 (pr_coherence p) \<and> f_le (pr_mismatch p) (fr_obstruction_score r))"
proof -
  from assms(2) have obs: "fr_obstruction_score r = fr_total_mismatch r"
    unfolding analyze_def by (auto simp: Let_def elim!: bindR_ReturnE)
  from analyze_Return [OF assms(2)] obtain pairs where
    run: "mapR (pair_of_overlap m f) (sort_key fst (fb_overlaps f)) = Return pairs"
    and r: "fr_pairs r = pairs" "fr_total_mismatch r = f_sum (map pr_mismatch pairs)"
    "lm_exp m (f_neg (fr_total_mismatch r)) = Return (fr_global_coherence r)"
    "fr_healthy r = f_le thr (fr_global_coherence r)" by metis
  have ids: "map pr_overlap_id pairs = map fst (sort_key fst (fb_overlaps f))"
    by (rule mapR_keys [OF run pair_of_overlap_Return(1)])
  have each: "\<exists>kv. pair_of_overlap m f kv = Return p" if "p \<in> set pairs" for p
    using mapR_elem [OF run that] by blast
  have defined: "pr_mismatch p \<noteq> NaN" if "p \<in> set pairs" for p
    by (rule f_sum_NaN [of "map pr_mismatch pairs"]) (use assms(3) obs r(2) that in auto)
  have nn: "nonneg (pr_mismatch p) \<and> is_float (pr_mismatch p)" if "p \<in> set pairs" for p
    using each [OF that] pair_of_overlap_Return(2) defined [OF that] by blast
  have tot: "nonneg (fr_total_mismatch r)" using f_sum_nonneg [of "map pr_mismatch pairs"] nn r(2) by auto
  have coh: "in_range 0 1 (pr_coherence p)" if "p \<in> set pairs" for p
    using each [OF that] pair_of_overlap_Return(3) coherence_range [OF assms(1)] nn [OF that] by blast
  have le: "f_le (pr_mismatch p) (fr_obstruction_score r)" if "p \<in> set pairs" for p
    unfolding obs r(2) by (rule f_sum_ge) (use nn that in auto)
  have empty: "fr_global_coherence r = Fin 1" if "fb_overlaps f = []"
    using run r(2,3) that assms(1) by (auto simp: exp_law_def)
  have "in_range 0 1 (fr_global_coherence r)" by (rule coherence_range [OF assms(1) tot r(3)])
  moreover have "map pr_overlap_id (fr_pairs r) = sort (dkeys (fb_overlaps f))"
    by (simp only: r(1) ids keys_sort_key)
  ultimately show ?thesis unfolding r(1) using r(4) empty coh le by blast
qed

theorem gluing_report_sound_witness:
  "\<exists>r. execute_fabric_payload sample_libm [(''fabric_payload'', PDict sample_fabric_data)] (Fin (1 / 2)) = Return r \<and>
     map pr_overlap_id (fr_pairs r) = [''o''] \<and> in_range 0 1 (fr_global_coherence r)"
proof -
  obtain f r where f: "fabric_from_json sample_libm sample_fabric_data = Return f"
    and r: "analyze sample_libm (Fin (1 / 2)) f = Return r" "fr_obstruction_score r = Fin 0" "dkeys (fb_overlaps f) = [''o'']"
    using sample_fabric_run by (elim exE conjE) (rule that)
  from gluing_report_sound [OF sample_exp_law r(1)] r(2,3) f r(1) show ?thesis
    by (simp add: execute_fabric_payload_def raw_fabric_def)
qed

end
