(* ===== verification/Fabric_Scene.thy ===== *)
theory Fabric_Scene
  imports Fabric_State
begin

text \<open>
  \<^verbatim>\<open>services/quantum/fabric/cognition.py\<close> and \<^verbatim>\<open>render_projection.py\<close>: cognitive states, fields,
  surfaces, traces and paths with their dictionary forms, and the scene a fabric and its cognition
  are projected into.
\<close>

section \<open>Cognition\<close>

record cognitive_state =
  cgs_id :: string
  cgs_state_ref :: string
  cgs_cognitive_role :: string
  cgs_activation :: pyfloat
  cgs_confidence :: pyfloat
  cgs_source_refs :: "string list"
  cgs_metadata :: "pyval dict"

definition cognitive_state_to_json :: "cognitive_state \<Rightarrow> pyval dict" where
  "cognitive_state_to_json x =
     [(''id'', PStr (cgs_id x)),
      (''state_ref'', PStr (cgs_state_ref x)),
      (''cognitive_role'', PStr (cgs_cognitive_role x)),
      (''activation'', PFloat (cgs_activation x)),
      (''confidence'', PFloat (cgs_confidence x)),
      (''source_refs'', PStrs (cgs_source_refs x)),
      (''metadata'', PDict (cgs_metadata x))]"

definition cognitive_state_from_json :: "pyval dict \<Rightarrow> cognitive_state result" where
  "cognitive_state_from_json data =
     bindR (req_str data ''id'') (\<lambda>id.
     bindR (req_str data ''state_ref'') (\<lambda>state_ref.
     bindR (req_str data ''cognitive_role'') (\<lambda>cognitive_role.
     bindR (get_float data ''activation'' 0) (\<lambda>activation.
     bindR (get_float data ''confidence'' 0) (\<lambda>confidence.
     bindR (get_strs data ''source_refs'') (\<lambda>source_refs.
     bindR (get_dict data ''metadata'') (\<lambda>metadata.
     Return
       \<lparr>cgs_id = id,
        cgs_state_ref = state_ref,
        cgs_cognitive_role = cognitive_role,
        cgs_activation = activation,
        cgs_confidence = confidence,
        cgs_source_refs = source_refs,
        cgs_metadata = metadata\<rparr>)))))))"

interpretation cognitive_state_codec: codec cognitive_state_to_json cognitive_state_from_json "\<lambda>_. True" "\<lambda>x. x"
  by unfold_locales (simp_all add: cognitive_state_to_json_def cognitive_state_from_json_def codec_simps)

record attention_field =
  af_id :: string
  af_target_ref :: string
  af_intensity :: pyfloat
  af_focus :: pyfloat
  af_radius :: pyfloat
  af_source_refs :: "string list"
  af_metadata :: "pyval dict"

definition attention_field_to_json :: "attention_field \<Rightarrow> pyval dict" where
  "attention_field_to_json x =
     [(''id'', PStr (af_id x)),
      (''target_ref'', PStr (af_target_ref x)),
      (''intensity'', PFloat (af_intensity x)),
      (''focus'', PFloat (af_focus x)),
      (''radius'', PFloat (af_radius x)),
      (''source_refs'', PStrs (af_source_refs x)),
      (''metadata'', PDict (af_metadata x))]"

definition attention_field_from_json :: "pyval dict \<Rightarrow> attention_field result" where
  "attention_field_from_json data =
     bindR (req_str data ''id'') (\<lambda>id.
     bindR (req_str data ''target_ref'') (\<lambda>target_ref.
     bindR (get_float data ''intensity'' 0) (\<lambda>intensity.
     bindR (get_float data ''focus'' 0) (\<lambda>focus.
     bindR (get_float data ''radius'' 1) (\<lambda>radius.
     bindR (get_strs data ''source_refs'') (\<lambda>source_refs.
     bindR (get_dict data ''metadata'') (\<lambda>metadata.
     Return
       \<lparr>af_id = id,
        af_target_ref = target_ref,
        af_intensity = intensity,
        af_focus = focus,
        af_radius = radius,
        af_source_refs = source_refs,
        af_metadata = metadata\<rparr>)))))))"

interpretation attention_field_codec: codec attention_field_to_json attention_field_from_json "\<lambda>_. True" "\<lambda>x. x"
  by unfold_locales (simp_all add: attention_field_to_json_def attention_field_from_json_def codec_simps)

record intent_surface =
  isf_id :: string
  isf_intent_ref :: string
  isf_priority :: pyfloat
  isf_confidence :: pyfloat
  isf_stability :: pyfloat
  isf_target_refs :: "string list"
  isf_metadata :: "pyval dict"

definition intent_surface_to_json :: "intent_surface \<Rightarrow> pyval dict" where
  "intent_surface_to_json x =
     [(''id'', PStr (isf_id x)),
      (''intent_ref'', PStr (isf_intent_ref x)),
      (''priority'', PFloat (isf_priority x)),
      (''confidence'', PFloat (isf_confidence x)),
      (''stability'', PFloat (isf_stability x)),
      (''target_refs'', PStrs (isf_target_refs x)),
      (''metadata'', PDict (isf_metadata x))]"

definition intent_surface_from_json :: "pyval dict \<Rightarrow> intent_surface result" where
  "intent_surface_from_json data =
     bindR (req_str data ''id'') (\<lambda>id.
     bindR (req_str data ''intent_ref'') (\<lambda>intent_ref.
     bindR (get_float data ''priority'' 0) (\<lambda>priority.
     bindR (get_float data ''confidence'' 0) (\<lambda>confidence.
     bindR (get_float data ''stability'' 0) (\<lambda>stability.
     bindR (get_strs data ''target_refs'') (\<lambda>target_refs.
     bindR (get_dict data ''metadata'') (\<lambda>metadata.
     Return
       \<lparr>isf_id = id,
        isf_intent_ref = intent_ref,
        isf_priority = priority,
        isf_confidence = confidence,
        isf_stability = stability,
        isf_target_refs = target_refs,
        isf_metadata = metadata\<rparr>)))))))"

interpretation intent_surface_codec: codec intent_surface_to_json intent_surface_from_json "\<lambda>_. True" "\<lambda>x. x"
  by unfold_locales (simp_all add: intent_surface_to_json_def intent_surface_from_json_def codec_simps)

record memory_trace =
  mt_id :: string
  mt_memory_ref :: string
  mt_patch_refs :: "string list"
  mt_strength :: pyfloat
  mt_recency :: pyfloat
  mt_source_refs :: "string list"
  mt_metadata :: "pyval dict"

definition memory_trace_to_json :: "memory_trace \<Rightarrow> pyval dict" where
  "memory_trace_to_json x =
     [(''id'', PStr (mt_id x)),
      (''memory_ref'', PStr (mt_memory_ref x)),
      (''patch_refs'', PStrs (mt_patch_refs x)),
      (''strength'', PFloat (mt_strength x)),
      (''recency'', PFloat (mt_recency x)),
      (''source_refs'', PStrs (mt_source_refs x)),
      (''metadata'', PDict (mt_metadata x))]"

definition memory_trace_from_json :: "pyval dict \<Rightarrow> memory_trace result" where
  "memory_trace_from_json data =
     bindR (req_str data ''id'') (\<lambda>id.
     bindR (req_str data ''memory_ref'') (\<lambda>memory_ref.
     bindR (get_strs data ''patch_refs'') (\<lambda>patch_refs.
     bindR (get_float data ''strength'' 0) (\<lambda>strength.
     bindR (get_float data ''recency'' 0) (\<lambda>recency.
     bindR (get_strs data ''source_refs'') (\<lambda>source_refs.
     bindR (get_dict data ''metadata'') (\<lambda>metadata.
     Return
       \<lparr>mt_id = id,
        mt_memory_ref = memory_ref,
        mt_patch_refs = patch_refs,
        mt_strength = strength,
        mt_recency = recency,
        mt_source_refs = source_refs,
        mt_metadata = metadata\<rparr>)))))))"

interpretation memory_trace_codec: codec memory_trace_to_json memory_trace_from_json "\<lambda>_. True" "\<lambda>x. x"
  by unfold_locales (simp_all add: memory_trace_to_json_def memory_trace_from_json_def codec_simps)

record reasoning_path =
  rp_id :: string
  rp_path_refs :: "string list"
  rp_path_type :: string
  rp_confidence :: pyfloat
  rp_cost :: pyfloat
  rp_metadata :: "pyval dict"

definition reasoning_path_to_json :: "reasoning_path \<Rightarrow> pyval dict" where
  "reasoning_path_to_json x =
     [(''id'', PStr (rp_id x)),
      (''path_refs'', PStrs (rp_path_refs x)),
      (''path_type'', PStr (rp_path_type x)),
      (''confidence'', PFloat (rp_confidence x)),
      (''cost'', PFloat (rp_cost x)),
      (''metadata'', PDict (rp_metadata x))]"

definition reasoning_path_from_json :: "pyval dict \<Rightarrow> reasoning_path result" where
  "reasoning_path_from_json data =
     bindR (req_str data ''id'') (\<lambda>id.
     bindR (get_strs data ''path_refs'') (\<lambda>path_refs.
     bindR (req_str data ''path_type'') (\<lambda>path_type.
     bindR (get_float data ''confidence'' 0) (\<lambda>confidence.
     bindR (get_float data ''cost'' 0) (\<lambda>cost.
     bindR (get_dict data ''metadata'') (\<lambda>metadata.
     Return
       \<lparr>rp_id = id,
        rp_path_refs = path_refs,
        rp_path_type = path_type,
        rp_confidence = confidence,
        rp_cost = cost,
        rp_metadata = metadata\<rparr>))))))"

interpretation reasoning_path_codec: codec reasoning_path_to_json reasoning_path_from_json "\<lambda>_. True" "\<lambda>x. x"
  by unfold_locales (simp_all add: reasoning_path_to_json_def reasoning_path_from_json_def codec_simps)

record uncertainty_field =
  uf_id :: string
  uf_target_ref :: string
  uf_uncertainty :: pyfloat
  uf_entropy :: pyfloat
  uf_source_refs :: "string list"
  uf_metadata :: "pyval dict"

definition uncertainty_field_to_json :: "uncertainty_field \<Rightarrow> pyval dict" where
  "uncertainty_field_to_json x =
     [(''id'', PStr (uf_id x)),
      (''target_ref'', PStr (uf_target_ref x)),
      (''uncertainty'', PFloat (uf_uncertainty x)),
      (''entropy'', PFloat (uf_entropy x)),
      (''source_refs'', PStrs (uf_source_refs x)),
      (''metadata'', PDict (uf_metadata x))]"

definition uncertainty_field_from_json :: "pyval dict \<Rightarrow> uncertainty_field result" where
  "uncertainty_field_from_json data =
     bindR (req_str data ''id'') (\<lambda>id.
     bindR (req_str data ''target_ref'') (\<lambda>target_ref.
     bindR (get_float data ''uncertainty'' 0) (\<lambda>uncertainty.
     bindR (get_float data ''entropy'' 0) (\<lambda>entropy.
     bindR (get_strs data ''source_refs'') (\<lambda>source_refs.
     bindR (get_dict data ''metadata'') (\<lambda>metadata.
     Return
       \<lparr>uf_id = id,
        uf_target_ref = target_ref,
        uf_uncertainty = uncertainty,
        uf_entropy = entropy,
        uf_source_refs = source_refs,
        uf_metadata = metadata\<rparr>))))))"

interpretation uncertainty_field_codec: codec uncertainty_field_to_json uncertainty_field_from_json "\<lambda>_. True" "\<lambda>x. x"
  by unfold_locales (simp_all add: uncertainty_field_to_json_def uncertainty_field_from_json_def codec_simps)

section \<open>Scenes\<close>

record render_scene_object =
  rso_id :: string
  rso_ref :: string
  rso_object_type :: string
  rso_label :: string
  rso_position :: "pyfloat list"
  rso_scale :: pyfloat
  rso_intensity :: pyfloat
  rso_confidence :: pyfloat
  rso_metadata :: "pyval dict"

definition render_scene_object_to_json :: "render_scene_object \<Rightarrow> pyval dict" where
  "render_scene_object_to_json x =
     [(''id'', PStr (rso_id x)),
      (''ref'', PStr (rso_ref x)),
      (''object_type'', PStr (rso_object_type x)),
      (''label'', PStr (rso_label x)),
      (''position'', PList (map PFloat (rso_position x))),
      (''scale'', PFloat (rso_scale x)),
      (''intensity'', PFloat (rso_intensity x)),
      (''confidence'', PFloat (rso_confidence x)),
      (''metadata'', PDict (rso_metadata x))]"

definition render_scene_object_from_json :: "pyval dict \<Rightarrow> render_scene_object result" where
  "render_scene_object_from_json data =
     bindR (req_str data ''id'') (\<lambda>id.
     bindR (req_str data ''ref'') (\<lambda>ref.
     bindR (req_str data ''object_type'') (\<lambda>object_type.
     bindR (get_str data ''label'' []) (\<lambda>label.
     bindR (get_floats data ''position'' [0, 0, 0]) (\<lambda>position.
     bindR (get_float data ''scale'' 1) (\<lambda>scale.
     bindR (get_float data ''intensity'' 0) (\<lambda>intensity.
     bindR (get_float data ''confidence'' 0) (\<lambda>confidence.
     bindR (get_dict data ''metadata'') (\<lambda>metadata.
     Return
       \<lparr>rso_id = id,
        rso_ref = ref,
        rso_object_type = object_type,
        rso_label = label,
        rso_position = position,
        rso_scale = scale,
        rso_intensity = intensity,
        rso_confidence = confidence,
        rso_metadata = metadata\<rparr>)))))))))"

interpretation render_scene_object_codec: codec render_scene_object_to_json render_scene_object_from_json "\<lambda>_. True" "\<lambda>x. x"
  by unfold_locales (simp_all add: render_scene_object_to_json_def render_scene_object_from_json_def codec_simps)

record render_scene_edge =
  rse_id :: string
  rse_source_ref :: string
  rse_target_ref :: string
  rse_relationship :: string
  rse_strength :: pyfloat
  rse_confidence :: pyfloat
  rse_metadata :: "pyval dict"

definition render_scene_edge_to_json :: "render_scene_edge \<Rightarrow> pyval dict" where
  "render_scene_edge_to_json x =
     [(''id'', PStr (rse_id x)),
      (''source_ref'', PStr (rse_source_ref x)),
      (''target_ref'', PStr (rse_target_ref x)),
      (''relationship'', PStr (rse_relationship x)),
      (''strength'', PFloat (rse_strength x)),
      (''confidence'', PFloat (rse_confidence x)),
      (''metadata'', PDict (rse_metadata x))]"

definition render_scene_edge_from_json :: "pyval dict \<Rightarrow> render_scene_edge result" where
  "render_scene_edge_from_json data =
     bindR (req_str data ''id'') (\<lambda>id.
     bindR (req_str data ''source_ref'') (\<lambda>source_ref.
     bindR (req_str data ''target_ref'') (\<lambda>target_ref.
     bindR (req_str data ''relationship'') (\<lambda>relationship.
     bindR (get_float data ''strength'' 0) (\<lambda>strength.
     bindR (get_float data ''confidence'' 0) (\<lambda>confidence.
     bindR (get_dict data ''metadata'') (\<lambda>metadata.
     Return
       \<lparr>rse_id = id,
        rse_source_ref = source_ref,
        rse_target_ref = target_ref,
        rse_relationship = relationship,
        rse_strength = strength,
        rse_confidence = confidence,
        rse_metadata = metadata\<rparr>)))))))"

interpretation render_scene_edge_codec: codec render_scene_edge_to_json render_scene_edge_from_json "\<lambda>_. True" "\<lambda>x. x"
  by unfold_locales (simp_all add: render_scene_edge_to_json_def render_scene_edge_from_json_def codec_simps)

record render_scene_field =
  rsf_id :: string
  rsf_target_ref :: string
  rsf_field_type :: string
  rsf_magnitude :: pyfloat
  rsf_radius :: pyfloat
  rsf_confidence :: pyfloat
  rsf_metadata :: "pyval dict"

definition render_scene_field_to_json :: "render_scene_field \<Rightarrow> pyval dict" where
  "render_scene_field_to_json x =
     [(''id'', PStr (rsf_id x)),
      (''target_ref'', PStr (rsf_target_ref x)),
      (''field_type'', PStr (rsf_field_type x)),
      (''magnitude'', PFloat (rsf_magnitude x)),
      (''radius'', PFloat (rsf_radius x)),
      (''confidence'', PFloat (rsf_confidence x)),
      (''metadata'', PDict (rsf_metadata x))]"

definition render_scene_field_from_json :: "pyval dict \<Rightarrow> render_scene_field result" where
  "render_scene_field_from_json data =
     bindR (req_str data ''id'') (\<lambda>id.
     bindR (req_str data ''target_ref'') (\<lambda>target_ref.
     bindR (req_str data ''field_type'') (\<lambda>field_type.
     bindR (get_float data ''magnitude'' 0) (\<lambda>magnitude.
     bindR (get_float data ''radius'' 1) (\<lambda>radius.
     bindR (get_float data ''confidence'' 0) (\<lambda>confidence.
     bindR (get_dict data ''metadata'') (\<lambda>metadata.
     Return
       \<lparr>rsf_id = id,
        rsf_target_ref = target_ref,
        rsf_field_type = field_type,
        rsf_magnitude = magnitude,
        rsf_radius = radius,
        rsf_confidence = confidence,
        rsf_metadata = metadata\<rparr>)))))))"

interpretation render_scene_field_codec: codec render_scene_field_to_json render_scene_field_from_json "\<lambda>_. True" "\<lambda>x. x"
  by unfold_locales (simp_all add: render_scene_field_to_json_def render_scene_field_from_json_def codec_simps)

record cognitive_scene_projection =
  csp_scene_id :: string
  csp_fabric_id :: string
  csp_objects :: "render_scene_object list"
  csp_edges :: "render_scene_edge list"
  csp_fields :: "render_scene_field list"
  csp_camera_hints :: "pyval dict"
  csp_interaction_hints :: "pyval dict"
  csp_metadata :: "pyval dict"

definition cognitive_scene_projection_to_json :: "cognitive_scene_projection \<Rightarrow> pyval dict" where
  "cognitive_scene_projection_to_json x =
     [(''scene_id'', PStr (csp_scene_id x)),
      (''fabric_id'', PStr (csp_fabric_id x)),
      (''objects'', PList (map (\<lambda>y. PDict (render_scene_object_to_json y)) (sort_key rso_id (csp_objects x)))),
      (''edges'', PList (map (\<lambda>y. PDict (render_scene_edge_to_json y)) (sort_key rse_id (csp_edges x)))),
      (''fields'', PList (map (\<lambda>y. PDict (render_scene_field_to_json y)) (sort_key rsf_id (csp_fields x)))),
      (''camera_hints'', PDict (csp_camera_hints x)),
      (''interaction_hints'', PDict (csp_interaction_hints x)),
      (''metadata'', PDict (csp_metadata x))]"

definition cognitive_scene_projection_from_json :: "pyval dict \<Rightarrow> cognitive_scene_projection result" where
  "cognitive_scene_projection_from_json data =
     bindR (req_str data ''scene_id'') (\<lambda>scene_id.
     bindR (req_str data ''fabric_id'') (\<lambda>fabric_id.
     bindR (bindR (to_items (dget_or data ''objects'' (PList []))) (mapR (\<lambda>v. bindR (to_dict v) render_scene_object_from_json))) (\<lambda>objects.
     bindR (bindR (to_items (dget_or data ''edges'' (PList []))) (mapR (\<lambda>v. bindR (to_dict v) render_scene_edge_from_json))) (\<lambda>edges.
     bindR (bindR (to_items (dget_or data ''fields'' (PList []))) (mapR (\<lambda>v. bindR (to_dict v) render_scene_field_from_json))) (\<lambda>fields.
     bindR (get_dict data ''camera_hints'') (\<lambda>camera_hints.
     bindR (get_dict data ''interaction_hints'') (\<lambda>interaction_hints.
     bindR (get_dict data ''metadata'') (\<lambda>metadata.
     Return
       \<lparr>csp_scene_id = scene_id,
        csp_fabric_id = fabric_id,
        csp_objects = objects,
        csp_edges = edges,
        csp_fields = fields,
        csp_camera_hints = camera_hints,
        csp_interaction_hints = interaction_hints,
        csp_metadata = metadata\<rparr>))))))))"

lemma sort_key_twice [simp]: "sort_key f (sort_key f xs) = sort_key f xs"
  by (rule sort_key_id_if_sorted) simp

text \<open>A scene is written with its objects, edges and fields in the order of their ids.\<close>

interpretation cognitive_scene_projection_codec:
  codec cognitive_scene_projection_to_json cognitive_scene_projection_from_json "\<lambda>_. True"
    "\<lambda>x. x\<lparr>csp_objects := sort_key rso_id (csp_objects x), csp_edges := sort_key rse_id (csp_edges x),
           csp_fields := sort_key rsf_id (csp_fields x)\<rparr>"
  by unfold_locales
    (simp_all add: cognitive_scene_projection_to_json_def cognitive_scene_projection_from_json_def codec_simps
      dget_or_def render_scene_object_codec.read_items render_scene_edge_codec.read_items
      render_scene_field_codec.read_items)

section \<open>Projection\<close>

definition f_nat :: "nat \<Rightarrow> pyfloat" where
  "f_nat n = rnd (of_nat n)"

definition patch_object :: "nat \<Rightarrow> patch \<Rightarrow> render_scene_object" where
  "patch_object index p =
     \<lparr>rso_id = ''render.object.'' @ pt_id p, rso_ref = pt_id p, rso_object_type = ''patch'', rso_label = pt_domain p,
      rso_position = [f_mul (f_nat index) (Fin 2), Fin 0, Fin 0], rso_scale = Fin 1, rso_intensity = Fin (1 / 2),
      rso_confidence = Fin 1,
      rso_metadata = [(''domain'', PStr (pt_domain p)), (''state_ref'', PStr (qs_id (pt_state p)))]\<rparr>"

definition fabric_objects :: "fabric \<Rightarrow> render_scene_object list" where
  "fabric_objects f =
     sort_key rso_id (map (\<lambda>(i, p). patch_object i p) (enumerate 0 (map snd (sort_key fst (fb_patches f)))))"

definition cognitive_object :: "nat \<Rightarrow> cognitive_state \<Rightarrow> render_scene_object" where
  "cognitive_object index s =
     \<lparr>rso_id = ''render.object.'' @ cgs_id s, rso_ref = cgs_state_ref s, rso_object_type = ''cognitive_state'',
      rso_label = cgs_cognitive_role s, rso_position = [f_mul (f_nat index) (Fin 2), Fin (3 / 2), Fin 0],
      rso_scale = f_add (Fin 1) (f_max0 (cgs_activation s)),
      rso_intensity = f_mul (f_max0 (cgs_activation s)) (f_max0 (cgs_confidence s)),
      rso_confidence = cgs_confidence s,
      rso_metadata = [(''cognitive_state_id'', PStr (cgs_id s)), (''source_refs'', PStrs (cgs_source_refs s))]\<rparr>"

definition cognitive_objects :: "cognitive_state list \<Rightarrow> nat \<Rightarrow> render_scene_object list" where
  "cognitive_objects states start_index = map (\<lambda>(i, s). cognitive_object i s) (enumerate start_index states)"

text \<open>Consecutive pairs: \<open>zip(xs, xs[1:])\<close>.\<close>

definition steps_of :: "'a list \<Rightarrow> ('a \<times> 'a) list" where
  "steps_of xs = zip xs (drop 1 xs)"

definition intent_edges :: "intent_surface list \<Rightarrow> render_scene_edge list" where
  "intent_edges intents =
     concat (map (\<lambda>x. map (\<lambda>target.
        \<lparr>rse_id = ''render.edge.'' @ isf_id x @ ''.'' @ target, rse_source_ref = isf_intent_ref x,
         rse_target_ref = target, rse_relationship = ''intent_surface'',
         rse_strength = f_mul (f_max0 (isf_priority x)) (f_max0 (isf_stability x)),
         rse_confidence = isf_confidence x, rse_metadata = [(''intent_surface_id'', PStr (isf_id x))]\<rparr>)
       (sort (isf_target_refs x))) intents)"

definition memory_edges :: "memory_trace list \<Rightarrow> render_scene_edge list" where
  "memory_edges memories =
     concat (map (\<lambda>x. map (\<lambda>(left, right).
        \<lparr>rse_id = ''render.edge.'' @ mt_id x @ ''.'' @ left @ ''.'' @ right, rse_source_ref = left,
         rse_target_ref = right, rse_relationship = ''memory_trace'',
         rse_strength = f_mul (f_max0 (mt_strength x)) (f_max0 (mt_recency x)), rse_confidence = mt_strength x,
         rse_metadata = [(''memory_ref'', PStr (mt_memory_ref x)), (''source_refs'', PStrs (mt_source_refs x))]\<rparr>)
       (steps_of (mt_patch_refs x))) memories)"

definition reasoning_edges :: "reasoning_path list \<Rightarrow> render_scene_edge list" where
  "reasoning_edges paths =
     concat (map (\<lambda>x. map (\<lambda>(left, right).
        \<lparr>rse_id = ''render.edge.'' @ rp_id x @ ''.'' @ left @ ''.'' @ right, rse_source_ref = left,
         rse_target_ref = right, rse_relationship = ''reasoning_path.'' @ rp_path_type x,
         rse_strength = f_quot (f_max0 (rp_confidence x)) (f_add (Fin 1) (f_max0 (rp_cost x))),
         rse_confidence = rp_confidence x,
         rse_metadata = [(''reasoning_path_id'', PStr (rp_id x)), (''cost'', PFloat (rp_cost x))]\<rparr>)
       (steps_of (rp_path_refs x))) paths)"

definition attention_render_fields :: "attention_field list \<Rightarrow> render_scene_field list" where
  "attention_render_fields attention =
     map (\<lambda>x. \<lparr>rsf_id = ''render.field.'' @ af_id x, rsf_target_ref = af_target_ref x, rsf_field_type = ''attention'',
       rsf_magnitude = f_mul (f_max0 (af_intensity x)) (f_max0 (af_focus x)), rsf_radius = af_radius x,
       rsf_confidence = af_focus x, rsf_metadata = [(''source_refs'', PStrs (af_source_refs x))]\<rparr>) attention"

definition intent_render_fields :: "intent_surface list \<Rightarrow> render_scene_field list" where
  "intent_render_fields intents =
     map (\<lambda>x. \<lparr>rsf_id = ''render.field.'' @ isf_id x, rsf_target_ref = isf_intent_ref x, rsf_field_type = ''intent'',
       rsf_magnitude = f_mul (f_max0 (isf_priority x)) (f_max0 (isf_confidence x)),
       rsf_radius = f_add (Fin 1) (f_max0 (isf_stability x)), rsf_confidence = isf_confidence x,
       rsf_metadata = [(''target_refs'', PStrs (isf_target_refs x))]\<rparr>) intents"

definition uncertainty_render_fields :: "uncertainty_field list \<Rightarrow> render_scene_field list" where
  "uncertainty_render_fields uncertainties =
     map (\<lambda>x. \<lparr>rsf_id = ''render.field.'' @ uf_id x, rsf_target_ref = uf_target_ref x,
       rsf_field_type = ''uncertainty'',
       rsf_magnitude = f_add (f_max0 (uf_uncertainty x)) (f_max0 (uf_entropy x)),
       rsf_radius = f_add (Fin 1) (f_max0 (uf_entropy x)),
       rsf_confidence = f_sub (Fin 1) (f_max0 (uf_uncertainty x)),
       rsf_metadata = [(''source_refs'', PStrs (uf_source_refs x))]\<rparr>) uncertainties"

text \<open>\<open>max\<close> by the product of activation and confidence, then by id, keeps the first of equal states.\<close>

definition state_key :: "cognitive_state \<Rightarrow> pyfloat \<times> string" where
  "state_key s = (f_mul (cgs_activation s) (cgs_confidence s), cgs_id s)"

fun strongest :: "cognitive_state \<Rightarrow> cognitive_state list \<Rightarrow> cognitive_state" where
  "strongest best [] = best"
| "strongest best (s # ss) = strongest (if key_less (state_key best) (state_key s) then s else best) ss"

definition camera_target :: "fabric \<Rightarrow> cognitive_state list \<Rightarrow> string option" where
  "camera_target f states =
     (case states of
        s # ss \<Rightarrow> Some (cgs_state_ref (strongest s ss))
      | [] \<Rightarrow> (case sort (dkeys (fb_patches f)) of [] \<Rightarrow> None | k # _ \<Rightarrow> Some k))"

record cognition =
  cg_states :: "cognitive_state list"
  cg_attention :: "attention_field list"
  cg_intents :: "intent_surface list"
  cg_memories :: "memory_trace list"
  cg_paths :: "reasoning_path list"
  cg_uncertainties :: "uncertainty_field list"

definition cognitive_scene :: "fabric \<Rightarrow> cognition \<Rightarrow> string option \<Rightarrow> cognitive_scene_projection" where
  "cognitive_scene f c scene_id =
     (let states = sort_key cgs_id (cg_states c); attention = sort_key af_id (cg_attention c);
          intents = sort_key isf_id (cg_intents c); memories = sort_key mt_id (cg_memories c);
          paths = sort_key rp_id (cg_paths c); uncertainties = sort_key uf_id (cg_uncertainties c);
          patch_objects = fabric_objects f;
          objects = patch_objects @ cognitive_objects states (length patch_objects);
          edges = intent_edges intents @ memory_edges memories @ reasoning_edges paths;
          fields = attention_render_fields attention @ intent_render_fields intents @
            uncertainty_render_fields uncertainties
      in \<lparr>csp_scene_id = (case scene_id of None \<Rightarrow> ''scene.'' @ fb_id f
            | Some i \<Rightarrow> (if i = [] then ''scene.'' @ fb_id f else i)),
          csp_fabric_id = fb_id f, csp_objects = objects, csp_edges = edges, csp_fields = fields,
          csp_camera_hints = [(''target_ref'', POpt (camera_target f states)),
            (''layout'', PStr ''deterministic_line''), (''units'', PStr ''fabric_space'')],
          csp_interaction_hints = [(''selectable_refs'', PStrs (sorted_set (map rso_ref objects))),
            (''edge_relationships'', PStrs (sorted_set (map rse_relationship edges))),
            (''field_types'', PStrs (sorted_set (map rsf_field_type fields)))],
          csp_metadata = [(''object_count'', PInt (int (length objects))), (''edge_count'', PInt (int (length edges))),
            (''field_count'', PInt (int (length fields)))]\<rparr>)"

definition project_cognitive_scene :: "fabric \<Rightarrow> cognition \<Rightarrow> string option \<Rightarrow> pyval dict" where
  "project_cognitive_scene f c scene_id = cognitive_scene_projection_to_json (cognitive_scene f c scene_id)"

section \<open>Placement\<close>

lemma f_nat_double:
  assumes "n < 2 ^ 52"
  shows "f_mul (f_nat n) (Fin 2) = Fin (2 * of_nat n)"
proof -
  have *: "rnd (of_nat k) = Fin (of_nat k)" if "k < 2 ^ 53" for k :: nat
  proof -
    have "rat_of_nat k \<le> pow2 53" by (rule nat_le_pow2 [OF that])
    also have "pow2 53 < pow2 1024" by simp
    finally have "\<bar>fl (rat_of_nat k)\<bar> < pow2 1024" by (simp add: fl_nat [OF that])
    then show ?thesis by (simp add: rnd_Fin fl_nat [OF that])
  qed
  from assms have "n < 2 ^ 53" "2 * n < 2 ^ 53" by simp_all
  with * [of n] * [of "2 * n"] show ?thesis by (simp add: f_nat_def mult.commute)
qed

lemma distinct_map_sort_key: "distinct (map h (sort_key k xs)) \<longleftrightarrow> distinct (map h xs)"
  by (metis mset_map mset_sort mset_eq_imp_distinct_iff)

lemma length_fabric_objects [simp]: "length (fabric_objects f) = length (fb_patches f)"
  by (simp add: fabric_objects_def)

text \<open>The first coordinates of objects numbered from \<open>i\<close>.\<close>

lemma numbered_positions:
  assumes "i + length xs \<le> 2 ^ 52" "\<And>j x. rso_position (mk j x) = f_mul (f_nat j) (Fin 2) # rest"
  shows "map rso_position (map (\<lambda>(j, x). mk j x) (enumerate i xs)) = map (\<lambda>j. Fin (2 * of_nat j) # rest) [i..<i + length xs]"
  using assms(1)
proof (induction xs arbitrary: i)
  case (Cons x xs)
  from Cons.prems have "i < 2 ^ 52" by simp
  with Cons.IH [of "Suc i"] Cons.prems show ?case
    by (simp add: assms(2) f_nat_double upt_rec del: upt_Suc)
qed simp

lemma distinct_numbered: "distinct (map (\<lambda>j. Fin (2 * rat_of_nat j) # rest) [i..<n])"
  by (simp add: distinct_map inj_on_def)

section \<open>Properties\<close>

text \<open>The objects of a scene before they are sorted.\<close>

lemma scene_objects:
  "csp_objects (cognitive_scene f c scene_id) =
     fabric_objects f @ cognitive_objects (sort_key cgs_id (cg_states c)) (length (fb_patches f))"
  by (simp add: cognitive_scene_def Let_def)

lemma fabric_object_refs: "mset (map rso_ref (fabric_objects f)) = mset (map (\<lambda>kv. pt_id (snd kv)) (fb_patches f))"
proof -
  define patches where "patches = map snd (sort_key fst (fb_patches f))"
  have refs: "map rso_ref (map (\<lambda>(i, p). patch_object i p) (enumerate i ps)) = map pt_id ps" for i ps
    by (induction ps arbitrary: i) (simp_all add: patch_object_def)
  have "mset (map rso_ref (fabric_objects f)) = mset (map pt_id patches)"
    unfolding fabric_objects_def patches_def [symmetric] refs [of 0, symmetric] by (simp only: mset_map mset_sort)
  then show ?thesis by (simp add: patches_def comp_def)
qed

lemma cognitive_object_refs: "map rso_ref (cognitive_objects ss i) = map cgs_state_ref ss"
  unfolding cognitive_objects_def by (induction ss arbitrary: i) (simp_all add: cognitive_object_def)

lemma scene_refs:
  "mset (map rso_ref (csp_objects (cognitive_scene f c scene_id))) =
     mset (map (\<lambda>kv. pt_id (snd kv)) (fb_patches f)) + mset (map cgs_state_ref (cg_states c))"
  unfolding scene_objects map_append mset_append fabric_object_refs cognitive_object_refs by simp

text \<open>Patches stand on one line, cognitive states on another, each at an abscissa of its own.\<close>

lemma scene_positions:
  assumes "length (fb_patches f) + length (cg_states c) \<le> 2 ^ 52"
  shows "distinct (map rso_position (csp_objects (cognitive_scene f c scene_id)))"
proof -
  define n where "n = length (fb_patches f)"
  define states where "states = sort_key cgs_id (cg_states c)"
  define patches where "patches = map snd (sort_key fst (fb_patches f))"
  have pos1: "map rso_position (map (\<lambda>(i, p). patch_object i p) (enumerate 0 patches)) =
      map (\<lambda>j. Fin (2 * of_nat j) # [Fin 0, Fin 0]) [0..<n]"
    using numbered_positions [of 0 patches patch_object "[Fin 0, Fin 0]"] assms
    by (simp add: patch_object_def patches_def n_def)
  have pos2: "map rso_position (cognitive_objects states n) =
      map (\<lambda>j. Fin (2 * of_nat j) # [Fin (3 / 2), Fin 0]) [n..<n + length states]"
    unfolding cognitive_objects_def using assms
    by (intro numbered_positions) (simp_all add: cognitive_object_def states_def n_def)
  have "distinct (map rso_position (fabric_objects f))"
    unfolding fabric_objects_def distinct_map_sort_key patches_def [symmetric] pos1 by (rule distinct_numbered)
  moreover have "distinct (map rso_position (cognitive_objects states n))"
    unfolding pos2 by (rule distinct_numbered)
  moreover have "set (map rso_position (fabric_objects f)) = set (map (\<lambda>j. Fin (2 * of_nat j) # [Fin 0, Fin 0]) [0..<n])"
    unfolding pos1 [symmetric] by (simp add: fabric_objects_def patches_def image_image)
  ultimately show ?thesis
    unfolding scene_objects map_append distinct_append n_def [symmetric] states_def [symmetric] pos2 by auto
qed

lemma scene_selectable:
  "get_strs (csp_interaction_hints (cognitive_scene f c scene_id)) ''selectable_refs'' =
     Return (sorted_set (map rso_ref (csp_objects (cognitive_scene f c scene_id))))"
proof -
  define sc where "sc = cognitive_scene f c scene_id"
  have "csp_interaction_hints sc = (''selectable_refs'', PStrs (sorted_set (map rso_ref (csp_objects sc)))) # drop 1 (csp_interaction_hints sc)"
    by (simp add: sc_def cognitive_scene_def Let_def)
  then have "dget (csp_interaction_hints sc) ''selectable_refs'' = Some (PStrs (sorted_set (map rso_ref (csp_objects sc))))"
    by (metis map_of_Cons_code(2))
  then show ?thesis by (simp add: codec_simps sc_def [symmetric])
qed

text \<open>
  The objects of a projected scene, read back from the dictionary it returns, are the scene's
  patches and cognitive states, one object each; no two of them share a position (below \<open>2 ^ 52\<close>
  objects); and every object's reference is among the selectable ones.
\<close>

theorem scene_objects_apart:
  assumes "length (fb_patches f) + length (cg_states c) \<le> 2 ^ 52"
  shows "\<exists>scene. cognitive_scene_projection_from_json (project_cognitive_scene f c scene_id) = Return scene \<and>
    length (csp_objects scene) = length (fb_patches f) + length (cg_states c) \<and>
    distinct (map rso_position (csp_objects scene)) \<and>
    mset (map rso_ref (csp_objects scene)) =
      mset (map (\<lambda>kv. pt_id (snd kv)) (fb_patches f)) + mset (map cgs_state_ref (cg_states c)) \<and>
    get_strs (csp_interaction_hints scene) ''selectable_refs'' = Return (sorted_set (map rso_ref (csp_objects scene)))"
proof -
  define sc where "sc = cognitive_scene f c scene_id"
  let ?norm = "sc\<lparr>csp_objects := sort_key rso_id (csp_objects sc), csp_edges := sort_key rse_id (csp_edges sc),
    csp_fields := sort_key rsf_id (csp_fields sc)\<rparr>"
  have read: "cognitive_scene_projection_from_json (project_cognitive_scene f c scene_id) = Return ?norm"
    unfolding project_cognitive_scene_def sc_def by (rule cognitive_scene_projection_codec.read_back) simp
  have hints: "get_strs (csp_interaction_hints sc) ''selectable_refs'' =
      Return (sorted_set (map rso_ref (sort_key rso_id (csp_objects sc))))"
    unfolding sc_def scene_selectable by (simp add: sorted_set_def sorted_list_of_set_sort_remdups [symmetric])
  have len: "length (csp_objects sc) = length (fb_patches f) + length (cg_states c)"
    by (simp add: sc_def scene_objects cognitive_objects_def)
  have refs: "mset (map rso_ref (sort_key rso_id (csp_objects sc))) =
      mset (map (\<lambda>kv. pt_id (snd kv)) (fb_patches f)) + mset (map cgs_state_ref (cg_states c))"
    using scene_refs [of f c scene_id] by (simp only: mset_map mset_sort sc_def)
  have sel: "csp_objects ?norm = sort_key rso_id (csp_objects sc)"
    "csp_interaction_hints ?norm = csp_interaction_hints sc" by simp_all
  have dist: "distinct (map rso_position (csp_objects sc))" unfolding sc_def by (rule scene_positions [OF assms])
  show ?thesis
    by (rule exI [of _ ?norm], unfold sel) (simp only: read len dist hints refs distinct_map_sort_key length_sort simp_thms)
qed

theorem scene_objects_apart_witness:
  "\<exists>scene. cognitive_scene_projection_from_json (project_cognitive_scene (empty_fabric ''f'' [])
      \<lparr>cg_states = [\<lparr>cgs_id = ''s'', cgs_state_ref = ''r'', cgs_cognitive_role = ''focus'', cgs_activation = Fin 1,
        cgs_confidence = Fin 1, cgs_source_refs = [], cgs_metadata = []\<rparr>],
       cg_attention = [], cg_intents = [], cg_memories = [], cg_paths = [], cg_uncertainties = []\<rparr> None) = Return scene \<and>
     mset (map rso_ref (csp_objects scene)) = {#''r''#}"
proof -
  let ?c = "\<lparr>cg_states = [\<lparr>cgs_id = ''s'', cgs_state_ref = ''r'', cgs_cognitive_role = ''focus'', cgs_activation = Fin 1,
        cgs_confidence = Fin 1, cgs_source_refs = [], cgs_metadata = []\<rparr>],
       cg_attention = [], cg_intents = [], cg_memories = [], cg_paths = [], cg_uncertainties = []\<rparr>"
  have "length (fb_patches (empty_fabric ''f'' [])) + length (cg_states ?c) \<le> 2 ^ 52" by (simp add: empty_fabric_def)
  from scene_objects_apart [OF this, of None] show ?thesis by (auto simp: empty_fabric_def)
qed

end
