(* ===== verification/Value_Json.thy ===== *)
theory Value_Json
  imports Fabric_Values Sha256
begin

text \<open>
  The dynamic values as JSON: what \<^verbatim>\<open>json.dumps\<close> writes and \<^verbatim>\<open>json.loads\<close> reads, their hash
  (\<^verbatim>\<open>solis/shared/hashing.py\<close>), \<open>round(x, k)\<close>, and the string functions the quantum services use.
\<close>

section \<open>JSON of a value\<close>

definition json_float :: "pyfloat \<Rightarrow> string" where
  "json_float x = (case x of NaN \<Rightarrow> ''NaN'' | PInf \<Rightarrow> ''Infinity'' | MInf \<Rightarrow> ''-Infinity'' | Fin _ \<Rightarrow> repr_float x)"

primrec json_of :: "pyval \<Rightarrow> json" where
  "json_of PNone = JNull"
| "json_of (PBool b) = JBool b"
| "json_of (PInt n) = JInt n"
| "json_of (PFloat x) = JFloat (json_float x)"
| "json_of (PStr s) = JStr s"
| "json_of (PList xs) = JArr (map json_of xs)"
| "json_of (PDict kvs) = JObj (map (map_prod id json_of) kvs)"

definition json_row :: "pyval dict \<Rightarrow> json dict" where
  "json_row d = map (map_prod id json_of) d"

text \<open>Python reads the text of a float back as that float.\<close>

primrec val_of :: "json \<Rightarrow> pyval" where
  "val_of JNull = PNone"
| "val_of (JBool b) = PBool b"
| "val_of (JInt n) = PInt n"
| "val_of (JFloat t) = PFloat (case parse_float t of Inr x \<Rightarrow> x | Inl _ \<Rightarrow> NaN)"
| "val_of (JStr s) = PStr s"
| "val_of (JArr xs) = PList (map val_of xs)"
| "val_of (JObj kvs) = PDict (map (map_prod id val_of) kvs)"

definition val_row :: "json dict \<Rightarrow> pyval dict" where
  "val_row d = map (map_prod id val_of) d"

definition hash_val :: "pyval \<Rightarrow> string" where
  "hash_val v = sha256_hex_obj (json_of v)"

lemma length_hash_val [simp]: "length (hash_val v) = 64"
  by (simp add: hash_val_def sha256_hex_obj_def sha256_hex_text_def)

section \<open>Numbers and strings\<close>

text \<open>\<open>round(x, k)\<close>: the decimal nearest to the exact value, ties to even, and the float nearest to it.\<close>

definition round_dec :: "nat \<Rightarrow> pyfloat \<Rightarrow> pyfloat" where
  "round_dec k x = (case x of Fin q \<Rightarrow> rnd (of_int (round_even (q * 10 ^ k)) / 10 ^ k) | _ \<Rightarrow> x)"

text \<open>\<open>f"{x:.kf}"\<close>: the decimal with \<open>k\<close> places nearest to the exact value, ties to even.\<close>

definition format_f :: "nat \<Rightarrow> pyfloat \<Rightarrow> string" where
  "format_f k x = (case x of
       Fin q \<Rightarrow> (let n = round_even (\<bar>q\<bar> * 10 ^ k)
                in (if q < 0 then ''-'' else []) @ show_digits (n div 10 ^ k) @ ''.'' @ zero_pad k (n mod 10 ^ k))
     | _ \<Rightarrow> repr_float x)"

text \<open>\<open>s.replace(old, new)\<close> for a non-empty \<open>old\<close>.\<close>

function py_replace :: "string \<Rightarrow> string \<Rightarrow> string \<Rightarrow> string" where
  "py_replace old new s =
     (if old = [] \<or> s = [] then s
      else if take (length old) s = old then new @ py_replace old new (drop (length old) s)
      else hd s # py_replace old new (tl s))"
  by pat_completeness auto
termination
  by (relation "measure (\<lambda>(old, new, s). length s)") auto

declare py_replace.simps [simp del]

end
