(* ===== verification/Transport_Models.thy ===== *)
theory Transport_Models
  imports Value_Json Event_Log
begin

text \<open>
  \<^verbatim>\<open>services/transport/models.py\<close>, \<^verbatim>\<open>policy_engine.py\<close> and \<^verbatim>\<open>state_store.py\<close>: requests, responses
  and the transport state, the policy that says which workload may use which mode, and the file that
  keeps the state.  Times and identifiers the code draws from the clock and from \<open>uuid\<close> are
  arguments.  A body is the text whose UTF-8 encoding it holds.  The state file is the value
  \<open>json.loads\<close> reads from it, since a written float is read back exactly.
\<close>

section \<open>Numbers\<close>

definition round6 :: "pyfloat \<Rightarrow> pyfloat" where
  "round6 x = round_dec 6 x"

text \<open>\<open>statistics.mean\<close> of a non-empty list: the exact mean, rounded once.\<close>

definition finite_value :: "pyfloat \<Rightarrow> rat option" where
  "finite_value x = (case x of Fin q \<Rightarrow> Some q | _ \<Rightarrow> None)"

definition f_mean :: "pyfloat list \<Rightarrow> pyfloat" where
  "f_mean xs =
     (let specials = filter (\<lambda>x. finite_value x = None) xs in
      if specials \<noteq> [] then f_sum specials
      else rnd (sum_list (List.map_filter finite_value xs) / of_nat (length xs)))"

section \<open>Requests, responses and states\<close>

datatype transport_mode = DIRECT | VPN | TOR

definition mode_value :: "transport_mode \<Rightarrow> string" where
  "mode_value m = (case m of DIRECT \<Rightarrow> ''direct'' | VPN \<Rightarrow> ''vpn'' | TOR \<Rightarrow> ''tor'')"

definition parse_transport_mode :: "string \<Rightarrow> transport_mode result" where
  "parse_transport_mode s =
     (if s = ''direct'' then Return DIRECT else if s = ''vpn'' then Return VPN else if s = ''tor'' then Return TOR
      else Raise (ValueError (s @ '' is not a valid TransportMode'')))"

record transport_request =
  tq_method :: string
  tq_url :: string
  tq_headers :: "string dict"
  tq_body :: string
  tq_timeout :: pyfloat
  tq_metadata :: "pyval dict"

definition request_from_inputs ::
  "string \<Rightarrow> string \<Rightarrow> pyval dict option \<Rightarrow> string option \<Rightarrow> pyval \<Rightarrow> pyval dict option \<Rightarrow> transport_request result" where
  "request_from_inputs method url headers body timeout_seconds metadata =
     bindR (to_float timeout_seconds) (\<lambda>timeout.
       Return \<lparr>tq_method = upper method, tq_url = url,
         tq_headers = map (map_prod id to_str) (case headers of None \<Rightarrow> [] | Some h \<Rightarrow> h),
         tq_body = (case body of None \<Rightarrow> [] | Some b \<Rightarrow> b), tq_timeout = timeout,
         tq_metadata = (case metadata of None \<Rightarrow> [] | Some d \<Rightarrow> d)\<rparr>)"

record transport_response =
  tp_status_code :: int
  tp_headers :: "string dict"
  tp_body :: string
  tp_elapsed_ms :: pyfloat
  tp_mode :: transport_mode
  tp_adapter :: string
  tp_exit_fingerprint :: string
  tp_error :: string

definition response_ok :: "transport_response \<Rightarrow> bool" where
  "response_ok r \<longleftrightarrow> 200 \<le> tp_status_code r \<and> tp_status_code r < 400 \<and> tp_error r = []"

definition body_text :: "transport_response \<Rightarrow> string" where
  "body_text r = tp_body r"

record transport_state =
  ts_mode :: transport_mode
  ts_node_id :: string
  ts_latency_ms :: pyfloat
  ts_throughput_mbps :: pyfloat
  ts_risk_profile :: string
  ts_policy_version :: string
  ts_health_status :: string
  ts_exit_fingerprint :: string
  ts_updated_at :: string

definition default_transport_state :: "string \<Rightarrow> transport_state" where
  "default_transport_state now =
     \<lparr>ts_mode = DIRECT, ts_node_id = ''local'', ts_latency_ms = Fin 0, ts_throughput_mbps = Fin 0,
      ts_risk_profile = ''balanced'', ts_policy_version = ''v1'', ts_health_status = ''unknown'',
      ts_exit_fingerprint = [], ts_updated_at = now\<rparr>"

definition transport_state_from_dict :: "string \<Rightarrow> pyval dict \<Rightarrow> transport_state result" where
  "transport_state_from_dict now payload =
     (let mode_raw = lower (strip (to_str (dget_or payload ''mode'' (PStr (mode_value DIRECT)))));
          mode = (case parse_transport_mode mode_raw of Inr m \<Rightarrow> m | Inl _ \<Rightarrow> DIRECT) in
     bindR (get_str payload ''node_id'' ''local'') (\<lambda>node_id.
     bindR (get_float payload ''latency_ms'' 0) (\<lambda>latency_ms.
     bindR (get_float payload ''throughput_mbps'' 0) (\<lambda>throughput_mbps.
     bindR (get_str payload ''risk_profile'' ''balanced'') (\<lambda>risk_profile.
     bindR (get_str payload ''policy_version'' ''v1'') (\<lambda>policy_version.
     bindR (get_str payload ''health_status'' ''unknown'') (\<lambda>health_status.
     bindR (get_str payload ''exit_fingerprint'' []) (\<lambda>exit_fingerprint.
     bindR (get_str payload ''updated_at'' now) (\<lambda>updated_at.
       Return \<lparr>ts_mode = mode, ts_node_id = node_id, ts_latency_ms = latency_ms,
         ts_throughput_mbps = throughput_mbps, ts_risk_profile = risk_profile, ts_policy_version = policy_version,
         ts_health_status = health_status, ts_exit_fingerprint = exit_fingerprint, ts_updated_at = updated_at\<rparr>)))))))))"

definition transport_state_to_dict :: "transport_state \<Rightarrow> pyval dict" where
  "transport_state_to_dict s =
     [(''mode'', PStr (mode_value (ts_mode s))), (''node_id'', PStr (ts_node_id s)),
      (''latency_ms'', PFloat (round6 (ts_latency_ms s))), (''throughput_mbps'', PFloat (round6 (ts_throughput_mbps s))),
      (''risk_profile'', PStr (ts_risk_profile s)), (''policy_version'', PStr (ts_policy_version s)),
      (''health_status'', PStr (ts_health_status s)), (''exit_fingerprint'', PStr (ts_exit_fingerprint s)),
      (''updated_at'', PStr (ts_updated_at s))]"

section \<open>The policy\<close>

definition DEFAULT_TRANSPORT_POLICY :: "pyval dict" where
  "DEFAULT_TRANSPORT_POLICY =
     [(''research'', PStrs [''direct'', ''vpn'', ''tor'']), (''model_training'', PStrs [''direct'', ''vpn'']),
      (''market_execution'', PStrs [''direct'', ''vpn'']), (''identity_binding'', PStrs [''direct'']),
      (''transport_control'', PStrs [''direct'', ''vpn'', ''tor''])]"

record policy_engine =
  pe_policy :: "string list dict"
  pe_version :: string

definition read_modes :: "pyval \<Rightarrow> string list" where
  "read_modes allowed =
     (let modes = (case allowed of
            PList xs \<Rightarrow> map (lower \<circ> strip) (filter (\<lambda>s. strip s \<noteq> []) (map to_str xs))
          | _ \<Rightarrow> [])
      in sorted_set (if modes = [] then [mode_value DIRECT] else modes))"

definition policy_from_mapping :: "pyval dict option \<Rightarrow> string \<Rightarrow> policy_engine" where
  "policy_from_mapping payload default_version =
     (let raw = (case payload of None \<Rightarrow> [] | Some d \<Rightarrow> d);
          raw_policy = (case dget_or raw ''policy'' (PDict raw) of PDict d \<Rightarrow> d | _ \<Rightarrow> DEFAULT_TRANSPORT_POLICY);
          normalized = foldl (\<lambda>acc kv. dset (fst kv) (read_modes (snd kv)) acc) [] raw_policy;
          normalized = (if has_key normalized ''transport_control'' then normalized
            else dset ''transport_control'' [mode_value DIRECT, mode_value VPN, mode_value TOR] normalized);
          raw_version = strip (to_str (dget_or raw ''version'' (PStr default_version)))
      in \<lparr>pe_policy = normalized, pe_version = (if raw_version = [] then default_version else raw_version)\<rparr>)"

definition allows :: "policy_engine \<Rightarrow> string \<Rightarrow> string \<Rightarrow> bool" where
  "allows p workload_type mode =
     (let workload = (if strip workload_type = [] then ''research'' else strip workload_type);
          allowed = (case dget (pe_policy p) workload of
              Some ms \<Rightarrow> ms
            | None \<Rightarrow> dget_or (pe_policy p) ''model_training'' [mode_value DIRECT])
      in lower (strip mode) \<in> set allowed)"

definition quoted :: "string \<Rightarrow> string" where
  "quoted s = CHR 0x27 # s @ [CHR 0x27]"

definition enforce :: "policy_engine \<Rightarrow> string \<Rightarrow> string \<Rightarrow> unit result" where
  "enforce p workload_type mode =
     (if allows p workload_type mode then Return ()
      else Raise (PermissionError (''transport mode '' @ quoted mode @ '' is not allowed for workload '' @ quoted workload_type)))"

definition allowed_modes :: "policy_engine \<Rightarrow> string \<Rightarrow> string list" where
  "allowed_modes p workload_type = dget_or (pe_policy p) workload_type []"

definition export_policy :: "policy_engine \<Rightarrow> pyval dict" where
  "export_policy p =
     [(''version'', PStr (pe_version p)), (''policy'', PDict (map (map_prod id PStrs) (pe_policy p)))]"

section \<open>The state file\<close>

text \<open>The file is absent or holds a JSON value.\<close>

type_synonym state_file = "pyval option"

definition write_state :: "transport_state \<Rightarrow> state_file" where
  "write_state s = Some (PDict (transport_state_to_dict s))"

definition read_state :: "string \<Rightarrow> state_file \<Rightarrow> transport_state option result" where
  "read_state now f = (case f of
       None \<Rightarrow> Return None
     | Some (PDict payload) \<Rightarrow> bindR (transport_state_from_dict now payload) (\<lambda>s. Return (Some s))
     | Some _ \<Rightarrow> Return (Some (default_transport_state now)))"

definition open_state_store :: "string \<Rightarrow> state_file \<Rightarrow> state_file" where
  "open_state_store now f = (case f of None \<Rightarrow> write_state (default_transport_state now) | Some _ \<Rightarrow> f)"

definition get_state :: "string \<Rightarrow> state_file \<Rightarrow> (transport_state \<times> state_file) result" where
  "get_state now f = bindR (read_state now f) (\<lambda>s.
     case s of Some s \<Rightarrow> Return (s, f)
     | None \<Rightarrow> Return (default_transport_state now, write_state (default_transport_state now)))"

definition mutate_state ::
  "string \<Rightarrow> (transport_state \<Rightarrow> transport_state) \<Rightarrow> state_file \<Rightarrow> (transport_state \<times> state_file) result" where
  "mutate_state now mutator f = bindR (read_state now f) (\<lambda>s.
     let next = mutator (case s of Some s \<Rightarrow> s | None \<Rightarrow> default_transport_state now)
     in Return (next, write_state next))"

definition store_set_mode ::
  "string \<Rightarrow> string \<Rightarrow> string \<Rightarrow> string option \<Rightarrow> state_file \<Rightarrow> (transport_state \<times> state_file) result" where
  "store_set_mode now mode policy_version node_id f =
     bindR (parse_transport_mode (lower mode)) (\<lambda>m.
       mutate_state now (\<lambda>s. s\<lparr>ts_mode := m, ts_policy_version := policy_version,
         ts_node_id := (case node_id of None \<Rightarrow> ts_node_id s | Some n \<Rightarrow> if n = [] then ts_node_id s else n),
         ts_health_status := ''switching'', ts_updated_at := now\<rparr>) f)"

definition update_metrics ::
  "string \<Rightarrow> pyfloat \<Rightarrow> pyfloat \<Rightarrow> string \<Rightarrow> string \<Rightarrow> state_file \<Rightarrow> (transport_state \<times> state_file) result" where
  "update_metrics now latency_ms throughput_mbps health_status exit_fingerprint f =
     mutate_state now (\<lambda>s. s\<lparr>ts_latency_ms := latency_ms, ts_throughput_mbps := throughput_mbps,
       ts_health_status := health_status,
       ts_exit_fingerprint := (if exit_fingerprint = [] then ts_exit_fingerprint s else exit_fingerprint),
       ts_updated_at := now\<rparr>) f"

definition update_policy_version ::
  "string \<Rightarrow> string \<Rightarrow> state_file \<Rightarrow> (transport_state \<times> state_file) result" where
  "update_policy_version now policy_version f =
     mutate_state now (\<lambda>s. s\<lparr>ts_policy_version := policy_version, ts_updated_at := now\<rparr>) f"

definition store_as_dict :: "string \<Rightarrow> state_file \<Rightarrow> (pyval dict \<times> state_file) result" where
  "store_as_dict now f = bindR (get_state now f) (\<lambda>(s, f). Return (transport_state_to_dict s, f))"

definition bootstrap_transport_state :: "string \<Rightarrow> pyval dict option \<Rightarrow> state_file result" where
  "bootstrap_transport_state now payload =
     bindR (transport_state_from_dict now (case payload of None \<Rightarrow> [] | Some d \<Rightarrow> d)) (\<lambda>s. Return (write_state s))"

end
