(* ===== verification/Transport_Audit.thy ===== *)
theory Transport_Audit
  imports Transport_Models
begin

text \<open>
  \<^verbatim>\<open>services/transport/audit_logger.py\<close> and \<^verbatim>\<open>replay_engine.py\<close>: the signed, hash-chained audit log
  and its replay.  The file is the list of its non-empty lines, each as the value \<open>json.loads\<close> reads
  back, with the keys of a written row sorted.  Locks serialise the operations and are not modelled.
\<close>

section \<open>The log\<close>

type_synonym audit_row = "json dict"

definition audit_genesis :: string where
  "audit_genesis = ''GENESIS''"

definition hash_audit_event :: "audit_row \<Rightarrow> string" where
  "hash_audit_event event = sha256_hex (canonical_json (JObj (dpop ''hash'' event)))"

text \<open>A line that is not an object has no \<open>get\<close>.\<close>

definition audit_line :: "json \<Rightarrow> audit_row result" where
  "audit_line line = (case line of JObj r \<Rightarrow> Return r
     | _ \<Rightarrow> Raise (TypeError ''object has no attribute get''))"

definition row_str :: "audit_row \<Rightarrow> string \<Rightarrow> string" where
  "row_str r k = jstr (dget_or r k (JStr []))"

definition tail_hash :: "json list \<Rightarrow> string result" where
  "tail_hash lines =
     (if lines = [] then Return audit_genesis
      else bindR (audit_line (last lines)) (\<lambda>r.
        Return (if row_str r ''hash'' \<noteq> [] then row_str r ''hash'' else hash_audit_event r)))"

record audit_logger =
  au_lines :: "json list"
  au_last_hash :: string
  au_crypto :: "crypto option"

definition open_audit_logger :: "json list \<Rightarrow> crypto option \<Rightarrow> audit_logger result" where
  "open_audit_logger lines c =
     bindR (tail_hash lines) (\<lambda>h. Return \<lparr>au_lines = lines, au_last_hash = h, au_crypto = c\<rparr>)"

record audit_entry =
  en_event_id :: string
  en_ts :: string
  en_actor :: string
  en_kind :: string
  en_object_uri :: string
  en_payload :: "json dict"
  en_policy_version :: string

definition audit_event :: "audit_entry \<Rightarrow> string \<Rightarrow> audit_row" where
  "audit_event e prev =
     [(''schema_version'', JStr ''1.0''), (''event_id'', JStr (en_event_id e)), (''ts'', JStr (en_ts e)),
      (''actor'', JStr (en_actor e)), (''kind'', JStr (en_kind e)), (''object_uri'', JStr (en_object_uri e)),
      (''payload'', JObj (en_payload e)), (''policy_version'', JStr (en_policy_version e)), (''prev_hash'', JStr prev)]"

definition sign_event :: "crypto option \<Rightarrow> audit_row \<Rightarrow> audit_row" where
  "sign_event c event =
     (case c of None \<Rightarrow> event
      | Some c \<Rightarrow> dset ''signature'' (JStr (sign c (canonical_json (JObj (dpop ''signature'' event))))) event)"

definition audit_log :: "audit_entry \<Rightarrow> audit_logger \<Rightarrow> (audit_row \<times> audit_logger) result" where
  "audit_log e l =
     bindR (tail_hash (au_lines l)) (\<lambda>prev.
       let event = sign_event (au_crypto l) (audit_event e prev);
           event = dset ''hash'' (JStr (hash_audit_event event)) event
       in Return (event, l\<lparr>au_lines := au_lines l @ [sort_json (JObj event)], au_last_hash := row_str event ''hash''\<rparr>))"

definition audit_rows :: "audit_logger \<Rightarrow> json list" where
  "audit_rows l = au_lines l"

definition check_signature :: "bool \<Rightarrow> crypto option \<Rightarrow> audit_row \<Rightarrow> bool result" where
  "check_signature verify_signature c r =
     (case c of
        Some c \<Rightarrow>
          if verify_signature then
            (let signature = row_str r ''signature'' in
             if signature = [] then Return False
             else verify c (canonical_json (JObj (dpop ''hash'' (dpop ''signature'' r)))) signature)
          else Return True
      | None \<Rightarrow> Return True)"

fun verify_audit :: "bool \<Rightarrow> crypto option \<Rightarrow> string \<Rightarrow> json list \<Rightarrow> bool result" where
  "verify_audit verify_signature c prev_hash [] = Return True"
| "verify_audit verify_signature c prev_hash (line # lines) =
     bindR (audit_line line) (\<lambda>r.
       if row_str r ''prev_hash'' \<noteq> prev_hash then Return False
       else let expected_hash = hash_audit_event (dpop ''hash'' r) in
         if row_str r ''hash'' \<noteq> expected_hash then Return False
         else bindR (check_signature verify_signature c r) (\<lambda>ok.
           if \<not> ok then Return False else verify_audit verify_signature c expected_hash lines))"

definition verify_chain :: "bool \<Rightarrow> audit_logger \<Rightarrow> bool result" where
  "verify_chain verify_signature l = verify_audit verify_signature (au_crypto l) audit_genesis (audit_rows l)"

section \<open>The replay of a log\<close>

record replay_result =
  rp_total_events :: nat
  rp_modes_seen :: "string list"
  rp_hash_chain_ok :: bool

record replay_state =
  rs_total :: nat
  rs_modes :: "string list"
  rs_ok :: bool
  rs_prev :: string

definition row_mode :: "audit_row \<Rightarrow> string option" where
  "row_mode r =
     (case dget_or r ''payload'' (JObj []) of
        JObj p \<Rightarrow> (case dget p ''mode'' of Some (JStr m) \<Rightarrow> if m = [] then None else Some m | _ \<Rightarrow> None)
      | _ \<Rightarrow> None)"

definition see_mode :: "string option \<Rightarrow> string list \<Rightarrow> string list" where
  "see_mode mode modes = (case mode of None \<Rightarrow> modes | Some m \<Rightarrow> if m \<in> set modes then modes else modes @ [m])"

definition replay_line :: "replay_state \<Rightarrow> json \<Rightarrow> replay_state result" where
  "replay_line st line =
     bindR (audit_line line) (\<lambda>event.
       let expected = hash_audit_event (dpop ''hash'' event) in
       Return \<lparr>rs_total = rs_total st + 1, rs_modes = see_mode (row_mode event) (rs_modes st),
         rs_ok = (rs_ok st \<and> row_str event ''prev_hash'' = rs_prev st \<and> row_str event ''hash'' = expected),
         rs_prev = jstr (dget_or event ''hash'' (JStr expected))\<rparr>)"

text \<open>\<open>None\<close> is a log file that does not exist.\<close>

definition replay_audit :: "json list option \<Rightarrow> replay_result result" where
  "replay_audit file =
     (case file of
        None \<Rightarrow> Return \<lparr>rp_total_events = 0, rp_modes_seen = [], rp_hash_chain_ok = True\<rparr>
      | Some lines \<Rightarrow>
          bindR (foldR replay_line \<lparr>rs_total = 0, rs_modes = [], rs_ok = True, rs_prev = audit_genesis\<rparr> lines) (\<lambda>st.
            Return \<lparr>rp_total_events = rs_total st, rp_modes_seen = sort (rs_modes st), rp_hash_chain_ok = rs_ok st\<rparr>))"

section \<open>Written rows\<close>

lemma canonical_sorted: "canonical_json (sort_json v) = canonical_json v"
  by (simp add: canonical_json_def dumps_def sort_json_idem)

lemma canonical_sorted_row: "canonical_json (JObj (sorted_row r)) = canonical_json (JObj r)"
  using canonical_sorted [of "JObj r"] by (simp only: sort_json_row)

lemma hash_audit_event_sorted: "hash_audit_event (sorted_row r) = hash_audit_event r"
  by (simp add: hash_audit_event_def dpop_sorted_row canonical_sorted_row)

lemma hash_audit_event_dpop [simp]: "hash_audit_event (dpop ''hash'' r) = hash_audit_event r"
  by (simp add: hash_audit_event_def dpop_filter)

lemma hash_audit_event_dset [simp]: "hash_audit_event (dset ''hash'' v r) = hash_audit_event r"
  by (simp add: hash_audit_event_def dpop_dset_same)

lemma hash_audit_event_nonempty [simp]: "hash_audit_event r \<noteq> []"
  by (simp add: hash_audit_event_def)

text \<open>The row \<^verbatim>\<open>log\<close> appends, as it is read back.\<close>

definition written_row :: "crypto option \<Rightarrow> audit_entry \<Rightarrow> string \<Rightarrow> audit_row" where
  "written_row c e prev =
     (let event = sign_event c (audit_event e prev) in sorted_row (dset ''hash'' (JStr (hash_audit_event event)) event))"

lemma audit_log_written:
  "tail_hash (au_lines l) = Return prev \<Longrightarrow>
     \<exists>event h. audit_log e l =
       Return (event, l\<lparr>au_lines := au_lines l @ [JObj (written_row (au_crypto l) e prev)], au_last_hash := h\<rparr>)"
  unfolding audit_log_def written_row_def Let_def sort_json_row [symmetric] by (simp del: sort_json.simps) (rule exI, rule refl)

lemma dset_keys_fresh: "k \<notin> set (dkeys d) \<Longrightarrow> dkeys (dset k v d) = dkeys d @ [k]"
  by (induction d) auto

lemma sign_event_keys:
  "distinct (dkeys (sign_event c (audit_event e prev)))"
  "set (dkeys (sign_event c (audit_event e prev))) \<subseteq>
     {''schema_version'', ''event_id'', ''ts'', ''actor'', ''kind'', ''object_uri'', ''payload'', ''policy_version'',
      ''prev_hash'', ''signature''}"
  by (cases c; simp add: sign_event_def audit_event_def dset_keys_fresh)+

lemma written_row_get:
  "k \<noteq> ''hash'' \<Longrightarrow> k \<noteq> ''signature'' \<Longrightarrow> dget (written_row c e prev) k = map_option sort_json (dget (audit_event e prev) k)"
  "dget (written_row c e prev) ''hash'' = Some (JStr (hash_audit_event (written_row c e prev)))"
  "dget (written_row (Some cr) e prev) ''signature'' = Some (JStr (sign cr (canonical_json (JObj (audit_event e prev)))))"
proof -
  let ?s = "sign_event c (audit_event e prev)"
  have d: "distinct (dkeys (dset ''hash'' v (sign_event c (audit_event e prev))))" for v c
    using sign_event_keys [of c e prev] by (simp add: distinct_update)
  have "dget ?s k = dget (audit_event e prev) k" if "k \<noteq> ''signature''" for k
    using that by (cases c) (simp_all add: sign_event_def)
  then show "k \<noteq> ''hash'' \<Longrightarrow> k \<noteq> ''signature'' \<Longrightarrow>
      dget (written_row c e prev) k = map_option sort_json (dget (audit_event e prev) k)"
    by (simp add: written_row_def Let_def dget_sorted_row [OF d])
  show "dget (written_row c e prev) ''hash'' = Some (JStr (hash_audit_event (written_row c e prev)))"
    by (simp add: written_row_def Let_def dget_sorted_row [OF d] hash_audit_event_sorted)
  have "dpop ''signature'' (audit_event e prev) = audit_event e prev"
    by (simp add: audit_event_def)
  then show "dget (written_row (Some cr) e prev) ''signature'' =
      Some (JStr (sign cr (canonical_json (JObj (audit_event e prev)))))"
    unfolding written_row_def Let_def dget_sorted_row [OF d] by (simp add: sign_event_def)
qed

lemma written_row_signed_text:
  "canonical_json (JObj (dpop ''hash'' (dpop ''signature'' (written_row c e prev)))) =
     canonical_json (JObj (audit_event e prev))"
proof -
  have "dpop ''hash'' (dpop ''signature'' (dset ''hash'' v (sign_event c (audit_event e prev)))) = audit_event e prev" for v
    by (cases c) (simp_all add: sign_event_def audit_event_def dpop_filter)
  then show ?thesis
    by (simp add: written_row_def Let_def dpop_sorted_row canonical_sorted_row)
qed

lemma verify_sign: "verify c p (sign c p) = Return True"
  by (rule hmac.check_sign)

lemma written_row_verifies: "verify_audit v c prev [JObj (written_row c e prev)] = Return True"
proof -
  have "row_str (written_row c e prev) ''prev_hash'' = prev"
    "row_str (written_row c e prev) ''hash'' = hash_audit_event (written_row c e prev)"
    by (simp_all add: row_str_def dget_or_def jstr_def written_row_get) (simp add: audit_event_def)
  moreover have "check_signature v c (written_row c e prev) = Return True"
  proof (cases c)
    case (Some cr)
    have "sign cr p \<noteq> []" for p using length_sign [of cr p] by force
    with Some show ?thesis
      using written_row_signed_text [of c e prev] written_row_get(3) [of cr e prev]
      by (simp add: check_signature_def row_str_def dget_or_def jstr_def Let_def verify_sign)
  qed (simp add: check_signature_def)
  ultimately show ?thesis by (simp add: audit_line_def Let_def)
qed

section \<open>Chains\<close>

definition audit_end :: "string \<Rightarrow> json list \<Rightarrow> string" where
  "audit_end prev lines =
     (if lines = [] then prev else case last lines of JObj r \<Rightarrow> hash_audit_event r | _ \<Rightarrow> [])"

lemma verify_audit_append:
  "verify_audit v c prev ls = Return True \<Longrightarrow>
     verify_audit v c prev (ls @ ms) = verify_audit v c (audit_end prev ls) ms"
proof (induction ls arbitrary: prev)
  case (Cons line ls)
  then obtain r where r: "line = JObj r" "row_str r ''prev_hash'' = prev" "row_str r ''hash'' = hash_audit_event r"
    "check_signature v c r = Return True" "verify_audit v c (hash_audit_event r) ls = Return True"
    by (cases line) (auto simp: audit_line_def Let_def bindR_eq_Return split: if_splits)
  then have "verify_audit v c prev ((line # ls) @ ms) = verify_audit v c (hash_audit_event r) (ls @ ms)"
    by (simp add: audit_line_def Let_def)
  also have "\<dots> = verify_audit v c (audit_end (hash_audit_event r) ls) ms"
    by (rule Cons.IH [OF r(5)])
  also have "audit_end (hash_audit_event r) ls = audit_end prev (line # ls)"
    by (simp add: audit_end_def r(1))
  finally show ?case .
qed (simp add: audit_end_def)

lemma verify_audit_prefix: "verify_audit v c prev (ls @ ms) = Return True \<Longrightarrow> verify_audit v c prev ls = Return True"
  by (induction ls arbitrary: prev) (auto simp: Let_def bindR_eq_Return split: if_splits)

lemma tail_hash_verified:
  assumes "verify_audit v c audit_genesis ls = Return True"
  shows "tail_hash ls = Return (audit_end audit_genesis ls)"
proof (cases ls rule: rev_cases)
  case (snoc ls' line)
  from assms have "verify_audit v c (audit_end audit_genesis ls') [line] = Return True"
    unfolding snoc using verify_audit_append verify_audit_prefix by metis
  then show ?thesis
    by (cases line) (auto simp: snoc tail_hash_def audit_end_def audit_line_def Let_def split: if_splits)
qed (simp add: tail_hash_def audit_end_def)

text \<open>The chain of a log that only \<^verbatim>\<open>log\<close> has written.\<close>

definition audit_ok :: "audit_logger \<Rightarrow> bool" where
  "audit_ok l \<longleftrightarrow> verify_audit True (au_crypto l) audit_genesis (au_lines l) = Return True"

lemma audit_log_ok:
  assumes "audit_ok l"
  shows "\<exists>event h r. audit_log e l = Return (event, l\<lparr>au_lines := au_lines l @ [JObj r], au_last_hash := h\<rparr>) \<and>
    r = written_row (au_crypto l) e (audit_end audit_genesis (au_lines l)) \<and>
    audit_ok (l\<lparr>au_lines := au_lines l @ [JObj r], au_last_hash := h\<rparr>)"
proof -
  have "tail_hash (au_lines l) = Return (audit_end audit_genesis (au_lines l))"
    by (rule tail_hash_verified [OF assms [unfolded audit_ok_def]])
  from audit_log_written [OF this, of e] obtain event h where
    "audit_log e l = Return (event, l\<lparr>au_lines := au_lines l @
       [JObj (written_row (au_crypto l) e (audit_end audit_genesis (au_lines l)))], au_last_hash := h\<rparr>)" by blast
  with assms show ?thesis
    by (auto simp: audit_ok_def verify_audit_append written_row_verifies simp del: verify_audit.simps)
qed

text \<open>Dropping the check of the signatures only accepts more.\<close>

lemma verify_audit_weaken:
  "verify_audit v c prev ls = Return True \<Longrightarrow> verify_audit False c' prev ls = Return True"
  by (induction ls arbitrary: prev)
    (auto simp: Let_def bindR_eq_Return check_signature_def split: if_splits option.splits)

section \<open>Replay and verification agree\<close>

lemma replay_lines:
  assumes "foldR replay_line st lines = Return st'"
  shows "rs_total st' = rs_total st + length lines \<and>
    (rs_ok st' \<longleftrightarrow> rs_ok st \<and> verify_audit False c (rs_prev st) lines = Return True) \<and>
    set (rs_modes st') = set (rs_modes st) \<union> {m. \<exists>r. JObj r \<in> set lines \<and> row_mode r = Some m} \<and>
    (distinct (rs_modes st) \<longrightarrow> distinct (rs_modes st'))"
  using assms
proof (induction lines arbitrary: st)
  case Nil
  then show ?case by simp
next
  case (Cons line lines)
  then obtain st1 where st1: "replay_line st line = Return st1" "foldR replay_line st1 lines = Return st'"
    by (auto elim: bindR_ReturnE)
  from st1(1) obtain r where line: "line = JObj r"
    by (cases line) (auto simp: replay_line_def audit_line_def)
  let ?e = "hash_audit_event r"
  from st1(1) have v: "rs_total st1 = rs_total st + 1" "rs_modes st1 = see_mode (row_mode r) (rs_modes st)"
    "rs_ok st1 \<longleftrightarrow> rs_ok st \<and> row_str r ''prev_hash'' = rs_prev st \<and> row_str r ''hash'' = ?e"
    "rs_prev st1 = jstr (dget_or r ''hash'' (JStr ?e))"
    by (auto simp: line replay_line_def audit_line_def Let_def)
  have prev: "rs_prev st1 = ?e" if "row_str r ''hash'' = ?e"
    using that v(4) by (cases "dget r ''hash''") (auto simp: row_str_def dget_or_def jstr_def)
  note ih = Cons.IH [OF st1(2)]
  have "rs_ok st' \<longleftrightarrow> rs_ok st \<and> verify_audit False c (rs_prev st) (line # lines) = Return True"
    using ih v(3) prev by (auto simp: line audit_line_def Let_def check_signature_def split: option.split)
  moreover have "set (rs_modes st') = set (rs_modes st) \<union> {m. \<exists>r. JObj r \<in> set (line # lines) \<and> row_mode r = Some m}"
    using ih v(2) by (auto simp: line see_mode_def split: option.splits if_splits)
  moreover have "distinct (rs_modes st) \<longrightarrow> distinct (rs_modes st')"
    using ih v(2) by (auto simp: see_mode_def split: option.splits)
  ultimately show ?case using ih v(1) by simp
qed

lemma replay_of_verified:
  assumes "verify_audit False None audit_genesis lines = Return True" "\<forall>line\<in>set lines. \<exists>r. line = JObj r"
  shows "\<exists>r. replay_audit (Some lines) = Return r \<and> rp_hash_chain_ok r \<and> rp_total_events r = length lines"
proof -
  have "\<exists>st'. foldR replay_line st lines = Return st'" for st
    using assms(2)
  proof (induction lines arbitrary: st)
    case (Cons line lines)
    then obtain r where "line = JObj r" by auto
    with Cons show ?case by (simp add: replay_line_def audit_line_def Let_def)
  qed simp
  then obtain st' where st': "foldR replay_line \<lparr>rs_total = 0, rs_modes = [], rs_ok = True, rs_prev = audit_genesis\<rparr> lines = Return st'"
    by blast
  from replay_lines [OF st', of None] assms(1) show ?thesis by (simp add: replay_audit_def st')
qed

section \<open>Properties\<close>

text \<open>
  The replay engine and the audit logger, written apart, judge a log alike: when the replay of a
  log file returns, it counts its lines, reports the modes of its rows in order and without
  repetition, and accepts the chain exactly when the chain check of the logger does.
\<close>

theorem replay_agrees:
  assumes "replay_audit (Some lines) = Return r"
  shows "rp_hash_chain_ok r = (verify_chain False \<lparr>au_lines = lines, au_last_hash = h, au_crypto = c\<rparr> = Return True) \<and>
    rp_total_events r = length lines \<and> sorted_wrt (<) (rp_modes_seen r) \<and>
    set (rp_modes_seen r) = {m. \<exists>row. JObj row \<in> set lines \<and> row_mode row = Some m}"
proof -
  from assms obtain st' where
    st': "foldR replay_line \<lparr>rs_total = 0, rs_modes = [], rs_ok = True, rs_prev = audit_genesis\<rparr> lines = Return st'"
    and r: "r = \<lparr>rp_total_events = rs_total st', rp_modes_seen = sort (rs_modes st'), rp_hash_chain_ok = rs_ok st'\<rparr>"
    by (auto simp: replay_audit_def elim: bindR_ReturnE)
  from replay_lines [OF st', of c] show ?thesis
    by (simp add: r verify_chain_def audit_rows_def strict_sorted_iff)
qed

theorem replay_agrees_witness:
  "verify_chain False \<lparr>au_lines = [JObj []], au_last_hash = [], au_crypto = None\<rparr> \<noteq> Return True"
proof -
  have "\<exists>r. replay_audit (Some [JObj []]) = Return r \<and> \<not> rp_hash_chain_ok r"
    by (simp add: replay_audit_def replay_line_def audit_line_def row_str_def dget_or_def jstr_def audit_genesis_def Let_def)
  then show ?thesis using replay_agrees [of "[JObj []]" _ "[]" None] by blast
qed

end
