(* ===== verification/Transport_Monitors.thy ===== *)
theory Transport_Monitors
  imports Transport_Models
begin

text \<open>
  \<^verbatim>\<open>services/transport/health_monitor.py\<close>, \<^verbatim>\<open>metrics_collector.py\<close>, \<^verbatim>\<open>circuit_registry.py\<close>,
  \<^verbatim>\<open>exit_classifier.py\<close> and \<^verbatim>\<open>dashboard/websocket_stream.py\<close>: what the transport measures and
  whom it tells.
\<close>

section \<open>Health\<close>

text \<open>\<open>deque(maxlen=n).append(x)\<close>.\<close>

definition push_window :: "nat \<Rightarrow> 'a \<Rightarrow> 'a list \<Rightarrow> 'a list" where
  "push_window n x xs = (let ys = xs @ [x] in drop (length ys - n) ys)"

record health_monitor =
  hm_window :: nat
  hm_latency :: "transport_mode \<Rightarrow> pyfloat list"
  hm_throughput :: "transport_mode \<Rightarrow> pyfloat list"
  hm_errors :: "transport_mode \<Rightarrow> nat list"

definition new_health_monitor :: "nat \<Rightarrow> health_monitor" where
  "new_health_monitor n = \<lparr>hm_window = n, hm_latency = (\<lambda>_. []), hm_throughput = (\<lambda>_. []), hm_errors = (\<lambda>_. [])\<rparr>"

record health_snapshot =
  hs_mode :: transport_mode
  hs_samples :: nat
  hs_avg_latency_ms :: pyfloat
  hs_avg_throughput_mbps :: pyfloat
  hs_error_rate :: pyfloat
  hs_health_status :: string

definition health_snapshot_to_dict :: "health_snapshot \<Rightarrow> pyval dict" where
  "health_snapshot_to_dict s =
     [(''mode'', PStr (mode_value (hs_mode s))), (''samples'', PInt (int (hs_samples s))),
      (''avg_latency_ms'', PFloat (round6 (hs_avg_latency_ms s))),
      (''avg_throughput_mbps'', PFloat (round6 (hs_avg_throughput_mbps s))),
      (''error_rate'', PFloat (round6 (hs_error_rate s))), (''health_status'', PStr (hs_health_status s))]"

definition snapshot_mode :: "health_monitor \<Rightarrow> transport_mode \<Rightarrow> health_snapshot" where
  "snapshot_mode h mode =
     (let lat = hm_latency h mode; thr = hm_throughput h mode; err = hm_errors h mode;
          sample_count = length lat;
          avg_latency = (if lat \<noteq> [] then f_mean lat else Fin 0);
          avg_throughput = (if thr \<noteq> [] then f_mean thr else Fin 0);
          error_rate = (if err \<noteq> [] then ratio (sum_list err) (length err) else Fin 0)
      in \<lparr>hs_mode = mode, hs_samples = sample_count, hs_avg_latency_ms = avg_latency,
          hs_avg_throughput_mbps = avg_throughput, hs_error_rate = error_rate,
          hs_health_status =
            (if sample_count = 0 then ''unknown''
             else if f_le (Fin (1 / 4)) error_rate then ''degraded''
             else if f_less (Fin 400) avg_latency then ''slow'' else ''healthy'')\<rparr>)"

text \<open>The throughput of a response: at least one byte, at least a millisecond.\<close>

definition response_mbps :: "transport_response \<Rightarrow> pyfloat" where
  "response_mbps r =
     (let body_bytes = max (length (utf8 (tp_body r))) 1;
          seconds = f_max (f_quot (tp_elapsed_ms r) (Fin 1000)) (lit (1 / 1000))
      in f_quot (f_mul (rnd (of_nat body_bytes)) (Fin 8)) (f_mul seconds (Fin 1000000)))"

definition record_health :: "transport_response \<Rightarrow> health_monitor \<Rightarrow> health_snapshot \<times> health_monitor" where
  "record_health r h =
     (let mode = tp_mode r; n = hm_window h;
          h' = h\<lparr>hm_latency := (hm_latency h)(mode := push_window n (tp_elapsed_ms r) (hm_latency h mode)),
                 hm_throughput := (hm_throughput h)(mode := push_window n (response_mbps r) (hm_throughput h mode)),
                 hm_errors := (hm_errors h)(mode := push_window n (if response_ok r then 0 else 1) (hm_errors h mode))\<rparr>
      in (snapshot_mode h' mode, h'))"

definition all_snapshots :: "health_monitor \<Rightarrow> pyval dict" where
  "all_snapshots h =
     map (\<lambda>m. (mode_value m, PDict (health_snapshot_to_dict (snapshot_mode h m)))) [DIRECT, VPN, TOR]"

section \<open>Metrics per workload and mode\<close>

record metric_row =
  mt_latency_ms :: "pyfloat list"
  mt_throughput_mbps :: "pyfloat list"
  mt_error_flags :: "nat list"

definition metric_key :: "string \<Rightarrow> transport_mode \<Rightarrow> string" where
  "metric_key workload_type mode = workload_type @ '':'' @ mode_value mode"

definition record_metrics :: "string \<Rightarrow> transport_response \<Rightarrow> metric_row dict \<Rightarrow> metric_row dict" where
  "record_metrics workload_type r rows =
     (let key = metric_key workload_type (tp_mode r);
          row = dget_or rows key \<lparr>mt_latency_ms = [], mt_throughput_mbps = [], mt_error_flags = []\<rparr>
      in dset key \<lparr>mt_latency_ms = mt_latency_ms row @ [tp_elapsed_ms r],
           mt_throughput_mbps = mt_throughput_mbps row @ [response_mbps r],
           mt_error_flags = mt_error_flags row @ [if response_ok r then 0 else 1]\<rparr> rows)"

definition metrics_summary :: "metric_row dict \<Rightarrow> pyval dict" where
  "metrics_summary rows =
     map (\<lambda>(key, row). (key, PDict
        [(''samples'', PInt (int (length (mt_latency_ms row)))),
         (''avg_latency_ms'', PFloat (round6 (f_mean (mt_latency_ms row)))),
         (''avg_throughput_mbps'', PFloat (round6 (f_mean (mt_throughput_mbps row)))),
         (''error_rate'', PFloat (round6 (ratio (sum_list (mt_error_flags row)) (length (mt_latency_ms row)))))]))
       (filter (\<lambda>kr. length (mt_latency_ms (snd kr)) \<noteq> 0) rows)"

section \<open>Circuits\<close>

record circuit =
  ci_circuit_id :: string
  ci_mode :: string
  ci_exit_fingerprint :: string
  ci_created_at :: string
  ci_latency_samples :: "pyfloat list"
  ci_error_count :: int

definition register_circuit :: "string \<Rightarrow> string \<Rightarrow> string \<Rightarrow> string \<Rightarrow> circuit dict \<Rightarrow> circuit dict" where
  "register_circuit circuit_id now mode exit_fingerprint cs =
     dset circuit_id \<lparr>ci_circuit_id = circuit_id, ci_mode = mode, ci_exit_fingerprint = exit_fingerprint,
       ci_created_at = now, ci_latency_samples = [], ci_error_count = 0\<rparr> cs"

definition record_sample :: "string \<Rightarrow> pyfloat \<Rightarrow> bool \<Rightarrow> circuit dict \<Rightarrow> circuit dict" where
  "record_sample circuit_id latency_ms is_ok cs =
     (case dget cs circuit_id of None \<Rightarrow> cs
      | Some c \<Rightarrow> dset circuit_id (c\<lparr>ci_latency_samples := ci_latency_samples c @ [latency_ms],
          ci_error_count := (if is_ok then ci_error_count c else ci_error_count c + 1)\<rparr>) cs)"

definition list_circuits :: "circuit dict \<Rightarrow> circuit list" where
  "list_circuits cs = map snd (sort_key fst cs)"

definition read_circuit :: "circuit dict \<Rightarrow> string \<Rightarrow> circuit option" where
  "read_circuit cs circuit_id = dget cs circuit_id"

section \<open>Exit nodes\<close>

definition HIGH_RISK_COUNTRIES :: "string list" where
  "HIGH_RISK_COUNTRIES = [''RU'', ''IR'', ''KP'', ''SY'']"

definition ELEVATED_RISK_ASNS :: "string list" where
  "ELEVATED_RISK_ASNS = [''AS12389'', ''AS14061'', ''AS202425'']"

record exit_profile =
  ep_exit_ip :: string
  ep_country_code :: string
  ep_asn :: string
  ep_abuse_score :: pyfloat
  ep_risk_score :: int
  ep_risk_category :: string

definition classify_exit :: "string \<Rightarrow> string \<Rightarrow> string \<Rightarrow> pyfloat \<Rightarrow> exit_profile" where
  "classify_exit exit_ip country_code asn abuse_score =
     (let country = strip (upper country_code); normalized_asn = strip (upper asn);
          score = (if country \<in> set HIGH_RISK_COUNTRIES then 3 else 0)
            + (if normalized_asn \<in> set ELEVATED_RISK_ASNS then 2 else 0)
            + (if f_le (lit (4 / 5)) abuse_score then 3 else if f_le (Fin (1 / 2)) abuse_score then 2
               else if f_less (Fin 0) abuse_score then 1 else 0)
      in \<lparr>ep_exit_ip = exit_ip, ep_country_code = country, ep_asn = normalized_asn, ep_abuse_score = abuse_score,
          ep_risk_score = score,
          ep_risk_category = (if score \<ge> 6 then ''high'' else if score \<ge> 3 then ''medium'' else ''low'')\<rparr>)"

definition exit_profile_dict :: "exit_profile \<Rightarrow> pyval dict" where
  "exit_profile_dict p =
     [(''exit_ip'', PStr (ep_exit_ip p)), (''country_code'', PStr (ep_country_code p)), (''asn'', PStr (ep_asn p)),
      (''abuse_score'', PFloat (ep_abuse_score p)), (''risk_score'', PInt (ep_risk_score p)),
      (''risk_category'', PStr (ep_risk_category p))]"

section \<open>Live subscribers\<close>

text \<open>A subscriber is its queue; queues are told apart by an identifier.\<close>

record stream_subscriber =
  su_id :: nat
  su_queue :: "pyval dict list"

record websocket_stream =
  ws_queue_size :: nat
  ws_subscribers :: "stream_subscriber list"
  ws_next :: nat

definition new_stream :: "int \<Rightarrow> websocket_stream" where
  "new_stream queue_size = \<lparr>ws_queue_size = nat (max 1 queue_size), ws_subscribers = [], ws_next = 0\<rparr>"

definition subscribe :: "websocket_stream \<Rightarrow> nat \<times> websocket_stream" where
  "subscribe w =
     (ws_next w, w\<lparr>ws_subscribers := ws_subscribers w @ [\<lparr>su_id = ws_next w, su_queue = []\<rparr>], ws_next := ws_next w + 1\<rparr>)"

definition unsubscribe :: "nat \<Rightarrow> websocket_stream \<Rightarrow> websocket_stream" where
  "unsubscribe i w = w\<lparr>ws_subscribers := filter (\<lambda>x. su_id x \<noteq> i) (ws_subscribers w)\<rparr>"

text \<open>\<open>put_nowait\<close> and \<open>get_nowait\<close>; \<open>None\<close> is \<open>QueueFull\<close> or \<open>QueueEmpty\<close>.\<close>

definition put_nowait :: "nat \<Rightarrow> pyval dict \<Rightarrow> stream_subscriber \<Rightarrow> stream_subscriber option" where
  "put_nowait n payload x =
     (if length (su_queue x) \<ge> n then None else Some (x\<lparr>su_queue := su_queue x @ [payload]\<rparr>))"

definition get_nowait :: "stream_subscriber \<Rightarrow> (pyval dict \<times> stream_subscriber) option" where
  "get_nowait x = (case su_queue x of [] \<Rightarrow> None | p # ps \<Rightarrow> Some (p, x\<lparr>su_queue := ps\<rparr>))"

text \<open>One subscriber of \<open>publish\<close>: the flag says that it is stale.\<close>

definition offer :: "nat \<Rightarrow> pyval dict \<Rightarrow> stream_subscriber \<Rightarrow> stream_subscriber \<times> bool" where
  "offer n payload x =
     (case put_nowait n payload x of
        Some x' \<Rightarrow> (x', False)
      | None \<Rightarrow>
          (case get_nowait x of
             None \<Rightarrow> (x, True)
           | Some (_, x1) \<Rightarrow> (case put_nowait n payload x1 of Some x2 \<Rightarrow> (x2, False) | None \<Rightarrow> (x1, True))))"

definition publish :: "pyval dict \<Rightarrow> websocket_stream \<Rightarrow> websocket_stream" where
  "publish payload w =
     (let offered = map (offer (ws_queue_size w) payload) (ws_subscribers w);
          w' = w\<lparr>ws_subscribers := map fst offered\<rparr>
      in foldl (\<lambda>w i. unsubscribe i w) w' (map (su_id \<circ> fst) (filter snd offered)))"

text \<open>One turn of \<open>stream\<close>; nothing when the queue is empty, where the code waits.\<close>

definition next_payload :: "nat \<Rightarrow> websocket_stream \<Rightarrow> (pyval dict \<times> websocket_stream) option" where
  "next_payload i w =
     (case find (\<lambda>x. su_id x = i) (ws_subscribers w) of
        None \<Rightarrow> None
      | Some x \<Rightarrow> (case get_nowait x of None \<Rightarrow> None
          | Some (p, x') \<Rightarrow> Some (p, w\<lparr>ws_subscribers := map (\<lambda>y. if su_id y = i then x' else y) (ws_subscribers w)\<rparr>)))"

section \<open>Windows\<close>

lemma push_window_bound: "length xs \<le> n \<Longrightarrow> length (push_window n x xs) \<le> n"
  by (simp add: push_window_def)

text \<open>After a sequence of pushes a window holds the last \<open>n\<close> of the values.\<close>

lemma push_window_last:
  "foldl (\<lambda>w x. push_window n x w) [] xs = drop (length xs - n) xs"
proof (induction xs rule: rev_induct)
  case (snoc x xs)
  show ?case
  proof (cases "length xs \<le> n")
    case True
    with snoc show ?thesis by (simp add: push_window_def)
  next
    case False
    then have "drop (Suc (length xs) - n) (xs @ [x]) = drop 1 (drop (length xs - n) xs) @ drop (1 - n) [x]"
      by (simp add: Suc_diff_le)
    with False snoc show ?thesis by (simp add: push_window_def)
  qed
qed (simp add: push_window_def)

section \<open>Streams\<close>

definition stream_ok :: "websocket_stream \<Rightarrow> bool" where
  "stream_ok w \<longleftrightarrow> ws_queue_size w \<ge> 1 \<and> (\<forall>x\<in>set (ws_subscribers w). length (su_queue x) \<le> ws_queue_size w)"

lemma offer_window:
  assumes "n \<ge> 1" "length (su_queue x) \<le> n"
  shows "offer n payload x = (x\<lparr>su_queue := push_window n payload (su_queue x)\<rparr>, False)"
proof (cases "length (su_queue x) < n")
  case True
  then show ?thesis by (simp add: offer_def put_nowait_def push_window_def)
next
  case False
  then obtain p ps where "su_queue x = p # ps" "length ps + 1 = n"
    using assms by (cases "su_queue x") auto
  then show ?thesis by (simp add: offer_def put_nowait_def get_nowait_def push_window_def)
qed

lemma publish_window:
  assumes "stream_ok w"
  shows "publish payload w =
    w\<lparr>ws_subscribers := map (\<lambda>x. x\<lparr>su_queue := push_window (ws_queue_size w) payload (su_queue x)\<rparr>) (ws_subscribers w)\<rparr>"
proof -
  have "map (offer (ws_queue_size w) payload) (ws_subscribers w) =
      map (\<lambda>x. (x\<lparr>su_queue := push_window (ws_queue_size w) payload (su_queue x)\<rparr>, False)) (ws_subscribers w)"
    using assms by (auto simp: stream_ok_def offer_window)
  then show ?thesis by (simp add: publish_def Let_def comp_def)
qed

lemma stream_ok_publish: "stream_ok w \<Longrightarrow> stream_ok (publish payload w)"
  by (auto simp: publish_window stream_ok_def push_window_bound)

lemma stream_ok_changes:
  "stream_ok (new_stream n)" "stream_ok w \<Longrightarrow> stream_ok (snd (subscribe w))" "stream_ok w \<Longrightarrow> stream_ok (unsubscribe i w)"
  by (auto simp: stream_ok_def new_stream_def subscribe_def unsubscribe_def)

lemma push_window_append:
  "length q \<le> n \<Longrightarrow> push_window n x (drop (length (q @ ps) - n) (q @ ps)) = drop (length (q @ ps @ [x]) - n) (q @ ps @ [x])"
proof -
  define v where "v = q @ ps"
  have "push_window n x (drop (length v - n) v) = drop (length (v @ [x]) - n) (v @ [x])"
    using push_window_last [of n v] push_window_last [of n "v @ [x]"] by simp
  then show ?thesis by (simp add: v_def)
qed

lemma publish_all:
  assumes "stream_ok w"
  shows "stream_ok (foldl (\<lambda>w p. publish p w) w ps) \<and>
    foldl (\<lambda>w p. publish p w) w ps =
      w\<lparr>ws_subscribers := map (\<lambda>x. x\<lparr>su_queue := drop (length (su_queue x @ ps) - ws_queue_size w) (su_queue x @ ps)\<rparr>)
        (ws_subscribers w)\<rparr>"
proof (induction ps rule: rev_induct)
  case Nil
  have "map (\<lambda>x. x\<lparr>su_queue := drop (length (su_queue x) - ws_queue_size w) (su_queue x)\<rparr>) (ws_subscribers w) = ws_subscribers w"
    using assms by (intro map_idI) (auto simp: stream_ok_def)
  with assms show ?case by simp
next
  case (snoc p ps)
  then have ok: "stream_ok (foldl (\<lambda>w p. publish p w) w ps)" by (rule conjunct1)
  have q: "length (su_queue x) \<le> ws_queue_size w" if "x \<in> set (ws_subscribers w)" for x
    using assms that by (simp add: stream_ok_def)
  let ?sub = "\<lambda>ps x. x\<lparr>su_queue := drop (length (su_queue x @ ps) - ws_queue_size w) (su_queue x @ ps)\<rparr>"
  have "publish p (foldl (\<lambda>w p. publish p w) w ps) = w\<lparr>ws_subscribers := map (?sub (ps @ [p])) (ws_subscribers w)\<rparr>"
    unfolding publish_window [OF ok] using snoc push_window_append [OF q] by (simp add: comp_def)
  with stream_ok_publish [OF ok, of p] show ?case by (simp only: foldl_append foldl.simps)
qed

section \<open>Properties\<close>

text \<open>
  Publishing any sequence of payloads to a stream reached by opening, subscribing, unsubscribing
  and publishing loses no subscriber, and leaves in the queue of each the latest payloads, as many as
  the queue holds, in the order they were published: a slow reader loses the oldest ones only.
\<close>

theorem stream_keeps_latest:
  assumes "stream_ok w"
  shows "map su_id (ws_subscribers (foldl (\<lambda>w p. publish p w) w ps)) = map su_id (ws_subscribers w) \<and>
    map su_queue (ws_subscribers (foldl (\<lambda>w p. publish p w) w ps)) =
      map (\<lambda>x. drop (length (su_queue x @ ps) - ws_queue_size w) (su_queue x @ ps)) (ws_subscribers w) \<and>
    stream_ok (foldl (\<lambda>w p. publish p w) w ps)"
  using publish_all [OF assms, of ps] by (auto simp: comp_def)

theorem stream_keeps_latest_witness:
  "map su_queue (ws_subscribers (publish [(''a'', PNone)] (publish [] (snd (subscribe (new_stream 1)))))) = [[[(''a'', PNone)]]]"
  using stream_keeps_latest [of "snd (subscribe (new_stream 1))" "[[], [(''a'', PNone)]]", OF stream_ok_changes(2) [OF stream_ok_changes(1)]]
  by (simp add: subscribe_def new_stream_def)

end
