(* ===== verification/Transport_Manager.thy ===== *)
theory Transport_Manager
  imports Transport_Audit Transport_Monitors
begin

text \<open>
  \<^verbatim>\<open>services/transport/adapters\<close>, \<^verbatim>\<open>tpm_identity.py\<close>, \<^verbatim>\<open>transport_manager.py\<close> and
  \<^verbatim>\<open>dashboard/visualization_api.py\<close>: the three ways to send a request, and the manager that checks the
  policy, sends, measures and audits.  What a call takes from outside - times, identifiers, the host
  and the network behind \<^verbatim>\<open>urllib\<close> - is a record of its arguments.
\<close>

section \<open>The outside of a call\<close>

record wire_request =
  wq_url :: string
  wq_data :: "string option"
  wq_headers :: "string dict"
  wq_method :: string
  wq_proxy :: "string option"

record wire_response =
  wp_status :: int
  wp_headers :: "string dict"
  wp_body :: string

record world =
  wd_state_now :: string
  wd_circuit_now :: string
  wd_event_now :: string
  wd_circuit_id :: string
  wd_event_id :: string
  wd_elapsed_ms :: pyfloat
  wd_request :: "wire_request \<Rightarrow> unit result"
  wd_open :: "wire_request \<Rightarrow> wire_response result"
  wd_platform :: "string list"
  wd_env :: "string \<Rightarrow> string option"

text \<open>\<open>str(exc)\<close> of an exception out of the network.\<close>

definition exc_text :: "py_error \<Rightarrow> string" where
  "exc_text e = (case e of
       KeyError k \<Rightarrow> quoted k
     | FixedOverflowError n \<Rightarrow> ''fixed64 overflow: '' @ py_str n
     | ValueError s \<Rightarrow> s | TypeError s \<Rightarrow> s | IndexError s \<Rightarrow> s | ZeroDivisionError s \<Rightarrow> s | OverflowError s \<Rightarrow> s
     | OSError s \<Rightarrow> s | PermissionError s \<Rightarrow> s | FixedParseError s \<Rightarrow> s | SyntaxError s \<Rightarrow> s | CompileError s \<Rightarrow> s)"

section \<open>Adapters\<close>

type_synonym adapter = "world \<Rightarrow> transport_request \<Rightarrow> transport_response result"

definition is_mock :: "transport_request \<Rightarrow> bool" where
  "is_mock q = (take 7 (tq_url q) = ''mock://'')"

definition mock_response ::
  "world \<Rightarrow> transport_request \<Rightarrow> transport_mode \<Rightarrow> string \<Rightarrow> string \<Rightarrow> transport_response" where
  "mock_response wd q mode adapter exit_fingerprint =
     (let digest = take 16 (sha256_hex (tq_method q @ tq_url q));
          body = [(''ok'', JBool True), (''method'', JStr (tq_method q)), (''url'', JStr (tq_url q)),
            (''adapter'', JStr adapter), (''mode'', JStr (mode_value mode)), (''digest'', JStr digest),
            (''metadata'', JObj (json_row (tq_metadata q)))]
      in \<lparr>tp_status_code = 200, tp_headers = [(''content-type'', ''application/json'')],
          tp_body = dumps spaced (JObj body), tp_elapsed_ms = wd_elapsed_ms wd, tp_mode = mode, tp_adapter = adapter,
          tp_exit_fingerprint = exit_fingerprint, tp_error = []\<rparr>)"

definition wire_of :: "transport_request \<Rightarrow> string dict \<Rightarrow> string option \<Rightarrow> wire_request" where
  "wire_of q headers proxy =
     \<lparr>wq_url = tq_url q, wq_data = (if tq_body q = [] then None else Some (tq_body q)), wq_headers = headers,
      wq_method = tq_method q, wq_proxy = proxy\<rparr>"

definition lower_headers :: "string dict \<Rightarrow> string dict" where
  "lower_headers hs = foldl (\<lambda>acc kv. dset (lower (fst kv)) (snd kv) acc) [] hs"

definition wire_reply ::
  "world \<Rightarrow> wire_response \<Rightarrow> string dict \<Rightarrow> transport_mode \<Rightarrow> string \<Rightarrow> string \<Rightarrow> transport_response" where
  "wire_reply wd p headers mode adapter exit_fingerprint =
     \<lparr>tp_status_code = wp_status p, tp_headers = headers, tp_body = wp_body p, tp_elapsed_ms = wd_elapsed_ms wd,
      tp_mode = mode, tp_adapter = adapter, tp_exit_fingerprint = exit_fingerprint, tp_error = []\<rparr>"

definition direct_send :: adapter where
  "direct_send wd q =
     (if is_mock q then Return (mock_response wd q DIRECT ''direct'' [])
      else let req = wire_of q (tq_headers q) None in
        bindR (wd_request wd req) (\<lambda>_. bindR (wd_open wd req) (\<lambda>p.
          Return (wire_reply wd p (lower_headers (wp_headers p)) DIRECT ''direct'' []))))"

definition vpn_send :: "string option \<Rightarrow> adapter" where
  "vpn_send interface wd q =
     (let interface = (case interface of None \<Rightarrow> ''system-default'' | Some i \<Rightarrow> if i = [] then ''system-default'' else i) in
      if is_mock q then
        (let mocked = mock_response wd q VPN ''vpn'' []
         in Return (mocked\<lparr>tp_headers := dset ''x-qso-vpn-interface'' interface (tp_headers mocked)\<rparr>))
      else let req = wire_of q (dset ''X-QSO-VPN-Interface'' interface (tq_headers q)) None in
        bindR (wd_request wd req) (\<lambda>_. bindR (wd_open wd req) (\<lambda>p.
          Return (wire_reply wd p (dset ''x-qso-vpn-interface'' interface (lower_headers (wp_headers p))) VPN ''vpn'' []))))"

definition exit_fingerprint_of :: "string \<Rightarrow> int \<Rightarrow> string \<Rightarrow> string" where
  "exit_fingerprint_of socks_host socks_port url =
     take 24 (sha256_hex (socks_host @ '':'' @ py_str socks_port @ '':'' @ url))"

definition tor_send :: "string \<Rightarrow> int \<Rightarrow> adapter" where
  "tor_send socks_host socks_port wd q =
     (let fingerprint = exit_fingerprint_of socks_host socks_port (tq_url q) in
      if is_mock q then Return (mock_response wd q TOR ''tor'' fingerprint)
      else let req = wire_of q (tq_headers q) (Some (''socks5h://'' @ socks_host @ '':'' @ py_str socks_port)) in
        bindR (wd_request wd req) (\<lambda>_. case wd_open wd req of
            Inr p \<Rightarrow> Return (wire_reply wd p (lower_headers (wp_headers p)) TOR ''tor'' fingerprint)
          | Inl e \<Rightarrow> Return \<lparr>tp_status_code = 599, tp_headers = [], tp_body = [], tp_elapsed_ms = wd_elapsed_ms wd,
              tp_mode = TOR, tp_adapter = ''tor'', tp_exit_fingerprint = fingerprint, tp_error = exc_text e\<rparr>))"

text \<open>What the manager relies on: a response carries the mode of its adapter, and a mock request is answered.\<close>

locale transport_adapter =
  fixes respond :: adapter and own_mode :: transport_mode
  assumes responds_in_mode: "respond wd q = Return r \<Longrightarrow> tp_mode r = own_mode"
    and answers_mock: "is_mock q \<Longrightarrow> \<exists>r. respond wd q = Return r \<and> response_ok r"

interpretation direct: transport_adapter direct_send DIRECT
  by unfold_locales
    (auto simp: direct_send_def mock_response_def wire_reply_def response_ok_def Let_def bindR_eq_Return split: if_splits)

interpretation vpn: transport_adapter "vpn_send i" VPN
  by unfold_locales
    (auto simp: vpn_send_def mock_response_def wire_reply_def response_ok_def Let_def bindR_eq_Return split: if_splits)

interpretation tor: transport_adapter "tor_send h p" TOR
  by unfold_locales
    (auto simp: tor_send_def mock_response_def wire_reply_def response_ok_def Let_def bindR_eq_Return split: if_splits sum.splits)

definition default_adapters :: "adapter dict" where
  "default_adapters =
     [(mode_value DIRECT, direct_send), (mode_value VPN, vpn_send None), (mode_value TOR, tor_send ''127.0.0.1'' 9050)]"

section \<open>The host\<close>

text \<open>\<open>wd_platform\<close> is node, system, machine and processor.\<close>

definition derive_identity :: "world \<Rightarrow> string" where
  "derive_identity wd =
     (let seed = (case wd_env wd ''QSO_HARDWARE_IDENTITY_SEED'' of None \<Rightarrow> [] | Some s \<Rightarrow> s)
      in sha256_hex (join ''|'' (wd_platform wd @ [seed])))"

section \<open>The manager\<close>

record transport_manager =
  tm_policy :: policy_engine
  tm_state :: state_file
  tm_audit :: audit_logger
  tm_health :: health_monitor
  tm_metrics :: "metric_row dict"
  tm_circuits :: "circuit dict"
  tm_adapters :: "adapter dict"
  tm_crypto :: "crypto option"

definition make_manager ::
  "policy_engine \<Rightarrow> state_file \<Rightarrow> audit_logger \<Rightarrow> adapter dict option \<Rightarrow> crypto option \<Rightarrow> transport_manager" where
  "make_manager p f a adapters c =
     \<lparr>tm_policy = p, tm_state = f, tm_audit = a, tm_health = new_health_monitor 200, tm_metrics = [], tm_circuits = [],
      tm_adapters = dupdate default_adapters (case adapters of None \<Rightarrow> [] | Some d \<Rightarrow> d), tm_crypto = c\<rparr>"

definition OBJECT_URI :: string where
  "OBJECT_URI = ''qso://infra.transport''"

definition payload_hash :: "json dict \<Rightarrow> string" where
  "payload_hash payload = sha256_hex (canonical_json (JObj payload))"

definition log_entry :: "world \<Rightarrow> string \<Rightarrow> string \<Rightarrow> string \<Rightarrow> json dict \<Rightarrow> audit_entry" where
  "log_entry wd actor event_kind policy_version payload =
     \<lparr>en_event_id = wd_event_id wd, en_ts = wd_event_now wd, en_actor = actor, en_kind = event_kind,
      en_object_uri = OBJECT_URI, en_payload = payload, en_policy_version = policy_version\<rparr>"

record switch_report =
  sw_state :: "pyval dict"
  sw_audit_event :: audit_row
  sw_circuit_id :: string

definition switch_payload :: "world \<Rightarrow> transport_mode \<Rightarrow> string \<Rightarrow> json dict" where
  "switch_payload wd m node_id =
     [(''mode'', JStr (mode_value m)), (''node_id'', JStr node_id), (''circuit_id'', JStr (wd_circuit_id wd)),
      (''hardware_identity_hash'', JStr (derive_identity wd))]"

definition manager_set_mode ::
  "world \<Rightarrow> string \<Rightarrow> string \<Rightarrow> string \<Rightarrow> string \<Rightarrow> string \<Rightarrow> transport_manager \<Rightarrow>
    switch_report result \<times> transport_manager" where
  "manager_set_mode wd mode actor policy_version node_id workload_type t =
     (case bindR (parse_transport_mode (lower (strip mode))) (\<lambda>m.
           bindR (enforce (tm_policy t) workload_type (mode_value m)) (\<lambda>_.
           bindR (store_set_mode (wd_state_now wd) (mode_value m) policy_version (Some node_id) (tm_state t)) (\<lambda>(s, f).
             Return (m, s, f)))) of
        Inl err \<Rightarrow> (Raise err, t)
      | Inr (m, s, f) \<Rightarrow>
          (let circuit_id = wd_circuit_id wd;
               t1 = t\<lparr>tm_state := f,
                 tm_circuits := register_circuit circuit_id (wd_circuit_now wd) (mode_value m) [] (tm_circuits t)\<rparr>
           in case audit_log (log_entry wd actor ''transport_mode_switch'' policy_version (switch_payload wd m node_id))
                (tm_audit t1) of
                Inl err \<Rightarrow> (Raise err, t1)
              | Inr (event, a) \<Rightarrow>
                  (Return \<lparr>sw_state = transport_state_to_dict s, sw_audit_event = event, sw_circuit_id = circuit_id\<rparr>,
                   t1\<lparr>tm_audit := a\<rparr>)))"

record send_report =
  sd_response :: transport_response
  sd_state :: "pyval dict"
  sd_health :: "pyval dict"
  sd_audit_event :: audit_row
  sd_circuit_id :: string
  sd_exit_profile :: "pyval dict"

definition request_hash :: "transport_request \<Rightarrow> string" where
  "request_hash q =
     payload_hash [(''method'', JStr (tq_method q)), (''url'', JStr (tq_url q)),
       (''headers'', JObj (map (map_prod id JStr) (tq_headers q))), (''body'', JStr (tq_body q))]"

definition response_hash :: "transport_response \<Rightarrow> string" where
  "response_hash r =
     payload_hash [(''status_code'', JInt (tp_status_code r)), (''headers'', JObj (map (map_prod id JStr) (tp_headers r))),
       (''body'', JStr (tp_body r)), (''error'', JStr (tp_error r))]"

text \<open>\<open>float(metadata.get("tor_abuse_score", 0.0) or 0.0)\<close>.\<close>

definition abuse_score_of :: "transport_request \<Rightarrow> pyfloat result" where
  "abuse_score_of q =
     (let v = dget_or (tq_metadata q) ''tor_abuse_score'' (PFloat (Fin 0))
      in if to_bool v then to_float v else Return (Fin 0))"

definition exit_profile_of :: "transport_mode \<Rightarrow> transport_request \<Rightarrow> transport_response \<Rightarrow> pyval dict result" where
  "exit_profile_of mode q r =
     (if mode \<noteq> TOR then Return []
      else bindR (abuse_score_of q) (\<lambda>score.
        Return (exit_profile_dict (classify_exit (dget_or (tp_headers r) ''x-tor-exit-ip'' ''unknown'')
          (dget_or (tp_headers r) ''x-tor-country'' []) (dget_or (tp_headers r) ''x-tor-asn'' []) score))))"

definition send_payload ::
  "world \<Rightarrow> transport_mode \<Rightarrow> string \<Rightarrow> transport_request \<Rightarrow> transport_response \<Rightarrow> health_snapshot \<Rightarrow> pyval dict \<Rightarrow>
    json dict" where
  "send_payload wd mode workload_type q r health exit_profile =
     [(''mode'', JStr (mode_value mode)), (''workload_type'', JStr workload_type),
      (''status_code'', JInt (tp_status_code r)), (''ok'', JBool (response_ok r)),
      (''request_hash'', JStr (request_hash q)), (''response_hash'', JStr (response_hash r)),
      (''latency_ms'', JFloat (json_float (round6 (tp_elapsed_ms r)))),
      (''throughput_mbps'', JFloat (json_float (round6 (hs_avg_throughput_mbps health)))),
      (''exit_fingerprint'', JStr (tp_exit_fingerprint r)), (''circuit_id'', JStr (wd_circuit_id wd)),
      (''exit_profile'', JObj (json_row exit_profile)), (''hardware_identity_hash'', JStr (derive_identity wd))]"

text \<open>What a response changes before it is audited: health, metrics and circuits.\<close>

definition measured :: "world \<Rightarrow> transport_mode \<Rightarrow> string \<Rightarrow> transport_response \<Rightarrow> transport_manager \<Rightarrow> transport_manager" where
  "measured wd mode workload_type r t =
     t\<lparr>tm_health := snd (record_health r (tm_health t)),
       tm_metrics := record_metrics workload_type r (tm_metrics t),
       tm_circuits := record_sample (wd_circuit_id wd) (tp_elapsed_ms r) (response_ok r)
         (register_circuit (wd_circuit_id wd) (wd_circuit_now wd) (mode_value mode) (tp_exit_fingerprint r) (tm_circuits t))\<rparr>"

definition manager_send ::
  "world \<Rightarrow> string \<Rightarrow> transport_request \<Rightarrow> string \<Rightarrow> string \<Rightarrow> transport_manager \<Rightarrow> send_report result \<times> transport_manager" where
  "manager_send wd workload_type q actor policy_version t =
     (case get_state (wd_state_now wd) (tm_state t) of
        Inl err \<Rightarrow> (Raise err, t)
      | Inr (s, f) \<Rightarrow>
          (let mode = ts_mode s; t1 = t\<lparr>tm_state := f\<rparr> in
           case bindR (enforce (tm_policy t1) workload_type (mode_value mode)) (\<lambda>_.
               case dget (tm_adapters t1) (mode_value mode) of
                 None \<Rightarrow> Raise (KeyError (''transport adapter not configured for mode: '' @ mode_value mode))
               | Some send \<Rightarrow> send wd q) of
             Inl err \<Rightarrow> (Raise err, t1)
           | Inr r \<Rightarrow>
               (let health = fst (record_health r (tm_health t1)); t2 = measured wd mode workload_type r t1 in
                case update_metrics (wd_state_now wd) (hs_avg_latency_ms health) (hs_avg_throughput_mbps health)
                    (hs_health_status health) (tp_exit_fingerprint r) (tm_state t2) of
                  Inl err \<Rightarrow> (Raise err, t2)
                | Inr (s', f') \<Rightarrow>
                    (let t3 = t2\<lparr>tm_state := f'\<rparr> in
                     case bindR (exit_profile_of mode q r) (\<lambda>profile.
                         bindR (audit_log (log_entry wd actor ''transport_send'' policy_version
                             (send_payload wd mode workload_type q r health profile)) (tm_audit t3)) (\<lambda>(event, a).
                           Return (profile, event, a))) of
                       Inl err \<Rightarrow> (Raise err, t3)
                     | Inr (profile, event, a) \<Rightarrow>
                         (Return \<lparr>sd_response = r, sd_state = transport_state_to_dict s',
                            sd_health = health_snapshot_to_dict health, sd_audit_event = event,
                            sd_circuit_id = wd_circuit_id wd, sd_exit_profile = profile\<rparr>,
                          t3\<lparr>tm_audit := a\<rparr>)))))"

definition manager_status :: "world \<Rightarrow> transport_manager \<Rightarrow> pyval dict result \<times> transport_manager" where
  "manager_status wd t =
     (case store_as_dict (wd_state_now wd) (tm_state t) of
        Inl err \<Rightarrow> (Raise err, t)
      | Inr (d, f) \<Rightarrow> (Return (dset ''hardware_identity_hash'' (PStr (derive_identity wd)) d), t\<lparr>tm_state := f\<rparr>))"

definition manager_health :: "transport_manager \<Rightarrow> pyval dict" where
  "manager_health t = all_snapshots (tm_health t)"

definition manager_policy :: "transport_manager \<Rightarrow> pyval dict" where
  "manager_policy t = export_policy (tm_policy t)"

definition manager_metrics :: "transport_manager \<Rightarrow> pyval dict" where
  "manager_metrics t = metrics_summary (tm_metrics t)"

definition verify_audit_chain :: "transport_manager \<Rightarrow> bool result" where
  "verify_audit_chain t = verify_chain (tm_crypto t \<noteq> None) (tm_audit t)"

text \<open>The dashboard: the mesh of the node and its transport.\<close>

definition mesh_payload :: "world \<Rightarrow> transport_manager \<Rightarrow> (pyval dict list \<times> pyval dict list) result \<times> transport_manager" where
  "mesh_payload wd t =
     (case manager_status wd t of
        (Inl err, t') \<Rightarrow> (Raise err, t')
      | (Inr state, t') \<Rightarrow>
          (let mode = to_str (dget_or state ''mode'' (PStr ''direct''));
               node = dget_or state ''node_id'' (PStr ''local'')
           in (Return ([[(''id'', node), (''kind'', PStr ''qso-node''), (''mode'', PStr mode)],
                        [(''id'', PStr (''transport-'' @ mode)), (''kind'', PStr ''transport''), (''mode'', PStr mode)]],
                       [[(''source'', node), (''target'', PStr (''transport-'' @ mode)), (''label'', PStr ''active_transport'')]]),
               t')))"

record transport_view =
  tv_transport :: "pyval dict"
  tv_health :: "pyval dict"
  tv_policy :: "pyval dict"
  tv_metrics :: "pyval dict"
  tv_circuits :: "circuit list"

definition dashboard_snapshot :: "world \<Rightarrow> circuit dict \<Rightarrow> transport_manager \<Rightarrow> transport_view result \<times> transport_manager" where
  "dashboard_snapshot wd circuits t =
     (case manager_status wd t of
        (Inl err, t') \<Rightarrow> (Raise err, t')
      | (Inr state, t') \<Rightarrow>
          (Return \<lparr>tv_transport = state, tv_health = manager_health t', tv_policy = manager_policy t',
             tv_metrics = manager_metrics t', tv_circuits = list_circuits circuits\<rparr>, t'))"

section \<open>The state file\<close>

text \<open>A state as the file keeps it: its two measures rounded.\<close>

definition stored :: "transport_state \<Rightarrow> transport_state" where
  "stored s = s\<lparr>ts_latency_ms := round6 (ts_latency_ms s), ts_throughput_mbps := round6 (ts_throughput_mbps s)\<rparr>"

lemma strip_mode [simp]: "strip (mode_value m) = mode_value m" "lower (mode_value m) = mode_value m"
  by (cases m; simp add: mode_value_def strip_def lstrip_def rstrip_def is_space_def lower_def lower_char_def)+

lemma parse_transport_mode_value [simp]: "parse_transport_mode (mode_value m) = Return m"
  by (cases m) (simp_all add: parse_transport_mode_def mode_value_def)

lemma mode_value_inj [simp]: "mode_value m = mode_value m' \<longleftrightarrow> m = m'"
  by (cases m; cases m') (simp_all add: mode_value_def)

lemma read_written: "read_state now (write_state s) = Return (Some (stored s))"
  by (cases s) (simp add: read_state_def write_state_def transport_state_from_dict_def transport_state_to_dict_def
      stored_def get_str_def get_float_def dget_or_def Let_def)

text \<open>A state file the store can read: absent, or readable as a state.\<close>

definition readable :: "state_file \<Rightarrow> bool" where
  "readable f \<longleftrightarrow> (\<forall>now. \<exists>s. read_state now f = Return s)"

lemma readable_written [simp]: "readable (write_state s)"
  by (simp add: readable_def read_written)

lemma mutate_state_Return:
  "mutate_state now g f = Return (s, f') \<Longrightarrow> f' = write_state s"
  by (auto simp: mutate_state_def Let_def)

lemma mutate_readable:
  assumes "readable f"
  shows "\<exists>s. mutate_state now g f = Return (g s, write_state (g s))"
proof -
  obtain s where "read_state now f = Return s" using assms by (auto simp: readable_def)
  then show ?thesis by (simp add: mutate_state_def Let_def) (rule exI, rule conjI, rule refl, rule refl)
qed

lemma get_readable:
  assumes "readable f" "get_state now f = Return (s, f')"
  shows "readable f'"
  using assms by (auto simp: get_state_def bindR_eq_Return split: option.splits)

section \<open>Reachable managers\<close>

text \<open>Every operation of the manager that can change it, whatever it is given and however it ends.\<close>

inductive tm_step :: "transport_manager \<Rightarrow> transport_manager \<Rightarrow> bool" where
  set_mode: "manager_set_mode wd mode actor pv node wl t = (res, t') \<Longrightarrow> tm_step t t'"
| send: "manager_send wd wl q actor pv t = (res', t') \<Longrightarrow> tm_step t t'"
| status: "manager_status wd t = (res'', t') \<Longrightarrow> tm_step t t'"

inductive tm_reachable :: "transport_manager \<Rightarrow> transport_manager \<Rightarrow> bool" for t0 where
  start: "tm_reachable t0 t0"
| step: "tm_reachable t0 t \<Longrightarrow> tm_step t t' \<Longrightarrow> tm_reachable t0 t'"

text \<open>A row the policy accounts for: it names a mode, and a send names a workload that may use it.\<close>

definition governed :: "policy_engine \<Rightarrow> json \<Rightarrow> bool" where
  "governed p line \<longleftrightarrow>
     (\<exists>r payload m. line = JObj r \<and> dget r ''payload'' = Some (JObj payload) \<and>
        dget payload ''mode'' = Some (JStr (mode_value m)) \<and>
        (dget r ''kind'' = Some (JStr ''transport_send'') \<longrightarrow>
           (\<exists>w. dget payload ''workload_type'' = Some (JStr w) \<and> allows p w (mode_value m))))"

definition manager_ok :: "transport_manager \<Rightarrow> bool" where
  "manager_ok t \<longleftrightarrow> audit_ok (tm_audit t) \<and> (\<forall>line\<in>set (au_lines (tm_audit t)). governed (tm_policy t) line)"

text \<open>What an operation keeps and adds: the policy stays, and the log grows by at most one governed row.\<close>

definition grows :: "transport_manager \<Rightarrow> transport_manager \<Rightarrow> bool" where
  "grows t t' \<longleftrightarrow> tm_policy t' = tm_policy t \<and>
     (tm_audit t' = tm_audit t \<or>
      (\<exists>e r h. r = written_row (au_crypto (tm_audit t)) e (audit_end audit_genesis (au_lines (tm_audit t))) \<and>
         tm_audit t' = (tm_audit t)\<lparr>au_lines := au_lines (tm_audit t) @ [JObj r], au_last_hash := h\<rparr> \<and>
         audit_ok (tm_audit t') \<and> governed (tm_policy t) (JObj r)))"

lemma grows_ok: "manager_ok t \<Longrightarrow> grows t t' \<Longrightarrow> manager_ok t'"
  by (auto simp: manager_ok_def grows_def)

lemma grows_refl: "tm_policy t' = tm_policy t \<Longrightarrow> tm_audit t' = tm_audit t \<Longrightarrow> grows t t'"
  by (simp add: grows_def)

lemma written_payload:
  "dget (written_row c e prev) ''payload'' = Some (sort_json (JObj (en_payload e)))"
  "dget (written_row c e prev) ''kind'' = Some (JStr (en_kind e))"
  by (simp_all add: written_row_get audit_event_def del: sort_json.simps) simp

lemma governed_written:
  assumes "distinct (dkeys (en_payload e))" "dget (en_payload e) ''mode'' = Some (JStr (mode_value m))"
    and "en_kind e = ''transport_send'' \<longrightarrow>
      (\<exists>w. dget (en_payload e) ''workload_type'' = Some (JStr w) \<and> allows p w (mode_value m))"
  shows "governed p (JObj (written_row c e prev))"
proof -
  have s: "sort_json (JObj (en_payload e)) = JObj (sorted_row (en_payload e))" by (rule sort_json_row)
  then have p: "dget (written_row c e prev) ''payload'' = Some (JObj (sorted_row (en_payload e)))"
    by (simp only: written_payload s)
  have m: "dget (sorted_row (en_payload e)) ''mode'' = Some (JStr (mode_value m))"
    by (simp add: dget_sorted_row [OF assms(1)] assms(2) del: map_of_eq_Some_iff)
  have w: "\<exists>w. dget (sorted_row (en_payload e)) ''workload_type'' = Some (JStr w) \<and> allows p w (mode_value m)"
    if "dget (written_row c e prev) ''kind'' = Some (JStr ''transport_send'')"
    using assms(3) that by (auto simp: dget_sorted_row [OF assms(1)] written_payload simp del: map_of_eq_Some_iff)
  show ?thesis unfolding governed_def using p m w by blast
qed

lemma grows_log:
  assumes "manager_ok t" "tm_policy t' = tm_policy t" "tm_audit t' = a"
    and "audit_log e (tm_audit t) = Return (event, a)"
    and "\<And>c prev. governed (tm_policy t) (JObj (written_row c e prev))"
  shows "grows t t'"
proof -
  have "audit_ok (tm_audit t)" using assms(1) by (simp add: manager_ok_def)
  from audit_log_ok [OF this, of e] obtain h r where
    l: "audit_log e (tm_audit t) = Return (event, (tm_audit t)\<lparr>au_lines := au_lines (tm_audit t) @ [JObj r], au_last_hash := h\<rparr>)"
    and r: "r = written_row (au_crypto (tm_audit t)) e (audit_end audit_genesis (au_lines (tm_audit t)))"
    and ok: "audit_ok ((tm_audit t)\<lparr>au_lines := au_lines (tm_audit t) @ [JObj r], au_last_hash := h\<rparr>)"
    using assms(4) by auto
  from l assms(4) have a: "a = (tm_audit t)\<lparr>au_lines := au_lines (tm_audit t) @ [JObj r], au_last_hash := h\<rparr>" by simp
  have g: "governed (tm_policy t) (JObj r)" unfolding r by (rule assms(5))
  show ?thesis unfolding grows_def assms(2,3) using a r ok g by blast
qed

lemma payload_keys:
  "distinct (dkeys (switch_payload wd m n))" "distinct (dkeys (send_payload wd m wl q r h x))"
  "dget (switch_payload wd m n) ''mode'' = Some (JStr (mode_value m))"
  "dget (send_payload wd m wl q r h x) ''mode'' = Some (JStr (mode_value m))"
  "dget (send_payload wd m wl q r h x) ''workload_type'' = Some (JStr wl)"
  by (simp_all add: switch_payload_def send_payload_def)

text \<open>How the two operations that log can end.\<close>

lemma manager_set_mode_cases:
  assumes "manager_set_mode wd mode actor pv node wl t = (res, t')"
  obtains (quiet) "tm_policy t' = tm_policy t" "tm_audit t' = tm_audit t"
    | (logged) m event a where "tm_policy t' = tm_policy t" "tm_audit t' = a"
      "audit_log (log_entry wd actor ''transport_mode_switch'' pv (switch_payload wd m node)) (tm_audit t) = Return (event, a)"
  using assms unfolding manager_set_mode_def Let_def by (auto split: sum.splits prod.splits)

lemma manager_send_cases:
  assumes "manager_send wd wl q actor pv t = (res, t')"
  obtains (quiet) "tm_policy t' = tm_policy t" "tm_audit t' = tm_audit t"
    | (logged) m r h x event a where "tm_policy t' = tm_policy t" "tm_audit t' = a" "allows (tm_policy t) wl (mode_value m)"
      "audit_log (log_entry wd actor ''transport_send'' pv (send_payload wd m wl q r h x)) (tm_audit t) = Return (event, a)"
  using assms unfolding manager_send_def Let_def
  by (auto simp: measured_def enforce_def bindR_eq_Return split: sum.splits prod.splits if_splits)

lemma log_entry_simps [simp]:
  "en_payload (log_entry wd actor k pv p) = p" "en_kind (log_entry wd actor k pv p) = k"
  by (simp_all add: log_entry_def)

lemma set_mode_grows:
  assumes "manager_ok t" "manager_set_mode wd mode actor pv node wl t = (res, t')"
  shows "grows t t'"
  using assms(2)
proof (cases rule: manager_set_mode_cases)
  case (logged m event a)
  show ?thesis
    by (rule grows_log [OF assms(1) logged]) (rule governed_written [where m = m], simp_all add: payload_keys)
qed (rule grows_refl)

lemma send_grows:
  assumes "manager_ok t" "manager_send wd wl q actor pv t = (res, t')"
  shows "grows t t'"
  using assms(2)
proof (cases rule: manager_send_cases)
  case (logged m r h x event a)
  show ?thesis
    by (rule grows_log [OF assms(1) logged(1,2,4)])
      (rule governed_written [where m = m], simp_all add: payload_keys logged(3))
qed (rule grows_refl)

lemma status_grows: "manager_status wd t = (res, t') \<Longrightarrow> grows t t'"
  unfolding manager_status_def by (auto split: sum.splits prod.splits intro: grows_refl)

lemma tm_reachable_ok:
  assumes "tm_reachable t0 t" "manager_ok t0"
  shows "manager_ok t \<and> tm_policy t = tm_policy t0"
  using assms
proof (induction rule: tm_reachable.induct)
  case (step t t')
  then have ok: "manager_ok t" "tm_policy t = tm_policy t0" by auto
  from step.hyps(2) have "grows t t'"
    by (cases rule: tm_step.cases) (auto intro: set_mode_grows send_grows status_grows ok)
  with ok grows_ok show ?case by (auto simp: grows_def)
qed simp

section \<open>What a reachable manager can do\<close>

lemma get_written [simp]: "get_state now (write_state s) = Return (stored s, write_state s)"
  by (simp add: get_state_def read_written)

lemma stored_mode [simp]: "ts_mode (stored s) = ts_mode s"
  by (simp add: stored_def)

lemma update_metrics_written: "\<exists>s'. update_metrics now l h st x (write_state s) = Return (s', write_state s')"
proof -
  obtain s0 where "mutate_state now (\<lambda>s. s\<lparr>ts_latency_ms := l, ts_throughput_mbps := h, ts_health_status := st,
      ts_exit_fingerprint := (if x = [] then ts_exit_fingerprint s else x), ts_updated_at := now\<rparr>) (write_state s) =
    Return (s0, write_state s0)"
    using mutate_readable [OF readable_written] by blast
  then show ?thesis unfolding update_metrics_def by (rule exI)
qed

lemma store_set_mode_readable:
  assumes "readable f"
  shows "\<exists>s. store_set_mode now (mode_value m) pv node f = Return (s, write_state s) \<and> ts_mode s = m"
proof -
  obtain s0 where "read_state now f = Return s0" using assms by (auto simp: readable_def)
  then show ?thesis by (auto simp: store_set_mode_def mutate_state_def Let_def)
qed

text \<open>Adapters, key and readable state file are kept by every step.\<close>

definition kept :: "transport_manager \<Rightarrow> transport_manager \<Rightarrow> bool" where
  "kept t t' \<longleftrightarrow> tm_adapters t' = tm_adapters t \<and> tm_crypto t' = tm_crypto t \<and>
     au_crypto (tm_audit t') = au_crypto (tm_audit t) \<and> (readable (tm_state t) \<longrightarrow> readable (tm_state t'))"

lemma audit_log_crypto: "audit_log e a = Return (event, a') \<Longrightarrow> au_crypto a' = au_crypto a"
  by (auto simp: audit_log_def Let_def)

lemma readable_mutated:
  "mutate_state now g f = Return (s, f') \<Longrightarrow> readable f'"
  using mutate_state_Return by fastforce

lemma set_mode_kept: "manager_set_mode wd mode actor pv node wl t = (res, t') \<Longrightarrow> kept t t'"
  unfolding manager_set_mode_def Let_def kept_def
  by (auto simp: bindR_eq_Return store_set_mode_def split: sum.splits prod.splits
      dest: audit_log_crypto intro: readable_mutated)

lemma send_kept: "manager_send wd wl q actor pv t = (res, t') \<Longrightarrow> kept t t'"
  unfolding manager_send_def Let_def kept_def
  by (auto simp: bindR_eq_Return measured_def update_metrics_def split: sum.splits prod.splits
      dest: audit_log_crypto get_readable intro: readable_mutated)

lemma status_kept: "manager_status wd t = (res, t') \<Longrightarrow> kept t t'"
  unfolding manager_status_def store_as_dict_def kept_def
  by (auto simp: bindR_eq_Return split: sum.splits prod.splits dest: get_readable)

lemma tm_reachable_kept: "tm_reachable t0 t \<Longrightarrow> kept t0 t"
proof (induction rule: tm_reachable.induct)
  case (step t t')
  from step.hyps(2) have "kept t t'"
    by (cases rule: tm_step.cases) (auto intro: set_mode_kept send_kept status_kept)
  with step.IH show ?case by (auto simp: kept_def)
qed (simp add: kept_def)

lemma fresh_manager_ok:
  assumes "open_audit_logger [] c' = Return a"
  shows "manager_ok (make_manager p f a adapters c)" "au_lines a = []" "au_crypto a = c'"
  using assms by (auto simp: open_audit_logger_def tail_hash_def manager_ok_def make_manager_def audit_ok_def)

lemma default_answers:
  assumes "is_mock q"
  shows "\<exists>send r. dget default_adapters (mode_value m) = Some send \<and> send wd q = Return r \<and> response_ok r \<and> tp_mode r = m"
proof (cases m)
  case DIRECT
  obtain r where "direct_send wd q = Return r" "response_ok r" using direct.answers_mock [OF assms] by blast
  with direct.responds_in_mode DIRECT show ?thesis by (auto simp: default_adapters_def)
next
  case VPN
  obtain r where "vpn_send None wd q = Return r" "response_ok r" using vpn.answers_mock [OF assms] by blast
  with vpn.responds_in_mode VPN show ?thesis by (auto simp: default_adapters_def)
next
  case TOR
  obtain r where "tor_send ''127.0.0.1'' 9050 wd q = Return r" "response_ok r" using tor.answers_mock [OF assms] by blast
  with tor.responds_in_mode TOR show ?thesis by (auto simp: default_adapters_def)
qed

text \<open>A switch of mode that the policy allows goes through.\<close>

lemma set_mode_runs:
  assumes "manager_ok t" "readable (tm_state t)" "allows (tm_policy t) wl (mode_value m)"
  shows "\<exists>rep t' s. manager_set_mode wd (mode_value m) actor pv node wl t = (Return rep, t') \<and>
    tm_state t' = write_state s \<and> ts_mode s = m \<and> length (au_lines (tm_audit t')) = length (au_lines (tm_audit t)) + 1"
proof -
  obtain s where s: "store_set_mode (wd_state_now wd) (mode_value m) pv (Some node) (tm_state t) = Return (s, write_state s)"
    "ts_mode s = m" using store_set_mode_readable [OF assms(2)] by blast
  have "audit_ok (tm_audit t)" using assms(1) by (simp add: manager_ok_def)
  from audit_log_ok [OF this] obtain event h r where
    "audit_log (log_entry wd actor ''transport_mode_switch'' pv (switch_payload wd m node)) (tm_audit t) =
       Return (event, (tm_audit t)\<lparr>au_lines := au_lines (tm_audit t) @ [JObj r], au_last_hash := h\<rparr>)" by blast
  with s assms(3) show ?thesis by (simp add: manager_set_mode_def enforce_def Let_def) (rule exI, rule conjI, rule refl, rule s(2))
qed

text \<open>A send whose adapter answers goes through, provided the Tor score is a number.\<close>

lemma send_runs:
  assumes "manager_ok t" "tm_state t = write_state s" "ts_mode s = m" "allows (tm_policy t) wl (mode_value m)"
    and "dget (tm_adapters t) (mode_value m) = Some send" "send wd q = Return r"
    and "m = TOR \<longrightarrow> (\<exists>x. abuse_score_of q = Return x)"
  shows "\<exists>rep t'. manager_send wd wl q actor pv t = (Return rep, t') \<and> sd_response rep = r \<and>
    length (au_lines (tm_audit t')) = length (au_lines (tm_audit t)) + 1"
proof -
  let ?h = "fst (record_health r (tm_health t))"
  obtain s' where s': "update_metrics (wd_state_now wd) (hs_avg_latency_ms ?h) (hs_avg_throughput_mbps ?h)
      (hs_health_status ?h) (tp_exit_fingerprint r) (write_state s) = Return (s', write_state s')"
    using update_metrics_written by blast
  have "\<exists>profile. exit_profile_of m q r = Return profile"
    using assms(7) by (cases "m = TOR") (auto simp: exit_profile_of_def)
  then obtain profile where profile: "exit_profile_of m q r = Return profile" by blast
  have "audit_ok (tm_audit t)" using assms(1) by (simp add: manager_ok_def)
  from audit_log_ok [OF this] obtain event h row where
    "audit_log (log_entry wd actor ''transport_send'' pv (send_payload wd m wl q r ?h profile)) (tm_audit t) =
       Return (event, (tm_audit t)\<lparr>au_lines := au_lines (tm_audit t) @ [JObj row], au_last_hash := h\<rparr>)" by blast
  with s' profile assms(2-6) show ?thesis
    by (simp add: manager_send_def enforce_def Let_def measured_def)
qed

section \<open>Properties\<close>

text \<open>
  C5: whatever sequence of mode switches, sends and status reads a manager with a fresh audit log has
  run, and however each of them ended, its audit chain with all signatures verifies, the replay of
  the log accepts the chain and counts every row, every row names a mode, and every send the log
  records was allowed by the policy for its workload and mode.
\<close>

theorem transport_log_governed:
  assumes "open_audit_logger [] c = Return a" "tm_reachable (make_manager p f a adapters c) t"
  shows "verify_audit_chain t = Return True \<and> (\<forall>line\<in>set (au_lines (tm_audit t)). governed p line) \<and>
    (\<exists>r. replay_audit (Some (au_lines (tm_audit t))) = Return r \<and> rp_hash_chain_ok r \<and>
         rp_total_events r = length (au_lines (tm_audit t)))"
proof -
  have t: "manager_ok t" "tm_policy t = p"
    using tm_reachable_ok [OF assms(2)] fresh_manager_ok [OF assms(1)] by (auto simp: make_manager_def)
  have v: "verify_audit True (au_crypto (tm_audit t)) audit_genesis (au_lines (tm_audit t)) = Return True"
    using t(1) by (simp add: manager_ok_def audit_ok_def)
  then have "verify_audit False None audit_genesis (au_lines (tm_audit t)) = Return True"
    by (rule verify_audit_weaken)
  moreover have "\<forall>line\<in>set (au_lines (tm_audit t)). \<exists>r. line = JObj r"
    using t by (auto simp: manager_ok_def governed_def)
  ultimately have "\<exists>r. replay_audit (Some (au_lines (tm_audit t))) = Return r \<and> rp_hash_chain_ok r \<and>
         rp_total_events r = length (au_lines (tm_audit t))"
    by (rule replay_of_verified)
  with t v show ?thesis
    by (cases "tm_crypto t") (auto simp: verify_audit_chain_def verify_chain_def audit_rows_def manager_ok_def
        intro: verify_audit_weaken)
qed

definition sample_world :: world where
  "sample_world =
     \<lparr>wd_state_now = ''s'', wd_circuit_now = ''c'', wd_event_now = ''e'', wd_circuit_id = ''ci'', wd_event_id = ''ei'',
      wd_elapsed_ms = Fin 1, wd_request = (\<lambda>_. Return ()), wd_open = (\<lambda>_. Raise (OSError ''down'')),
      wd_platform = [''host''], wd_env = (\<lambda>_. None)\<rparr>"

definition sample_request :: transport_request where
  "sample_request = \<lparr>tq_method = ''GET'', tq_url = ''mock://x'', tq_headers = [], tq_body = [], tq_timeout = Fin 10,
     tq_metadata = [(''tor_abuse_score'', PList [PNone])]\<rparr>"

definition sample_manager :: transport_manager where
  "sample_manager =
     make_manager (policy_from_mapping (Some [(''research'', PStrs [''tor'']), (''transport_control'', PStrs [''tor''])]) ''v1'')
       None \<lparr>au_lines = [], au_last_hash = audit_genesis, au_crypto = None\<rparr> None None"

lemma sample_logger: "open_audit_logger [] None = Return \<lparr>au_lines = [], au_last_hash = audit_genesis, au_crypto = None\<rparr>"
  by (simp add: open_audit_logger_def tail_hash_def)

lemma sample_policy:
  "allows (policy_from_mapping (Some [(''research'', PStrs [''tor'']), (''transport_control'', PStrs [''tor''])]) ''v1'')
     ''research'' (mode_value TOR)"
  "allows (policy_from_mapping (Some [(''research'', PStrs [''tor'']), (''transport_control'', PStrs [''tor''])]) ''v1'')
     ''transport_control'' (mode_value TOR)"
  by (simp_all add: allows_def policy_from_mapping_def read_modes_def PStrs_def dget_or_def has_key_def sorted_set_def
      strip_def lstrip_def rstrip_def is_space_def lower_def lower_char_def mode_value_def)

lemma sample_score: "\<exists>err. abuse_score_of sample_request = Raise err"
  by (simp add: abuse_score_of_def sample_request_def dget_or_def to_bool_def to_float_def)

theorem transport_log_governed_witness:
  "verify_audit_chain (snd (manager_send sample_world ''research'' sample_request ''me'' ''v1'' sample_manager)) = Return True"
proof -
  let ?t = "snd (manager_send sample_world ''research'' sample_request ''me'' ''v1'' sample_manager)"
  have "tm_step sample_manager ?t" by (rule tm_step.send) (rule prod.collapse [symmetric])
  then have "tm_reachable sample_manager ?t" by (rule tm_reachable.step [OF tm_reachable.start])
  from transport_log_governed [OF sample_logger this [unfolded sample_manager_def]] show ?thesis
    by (simp only: sample_manager_def)
qed

text \<open>
  A manager with a fresh log, a readable state file and the built-in adapters never gets stuck:
  after any sequence of its operations, a switch to a mode that the policy allows succeeds, a send of
  a mock request for a workload that may use the mode then succeeds over the adapter of that mode,
  and the log has one row more for each of the two.  A Tor send also needs a score that is a number.
\<close>

theorem transport_delivers:
  assumes "open_audit_logger [] c' = Return a" "readable f" "tm_reachable (make_manager p f a None c) t"
    and "allows p control (mode_value m)" "allows p wl (mode_value m)" "is_mock q"
    and "m = TOR \<longrightarrow> (\<exists>x. abuse_score_of q = Return x)"
  shows "\<exists>switched t1 sent t2. manager_set_mode wd (mode_value m) actor pv node control t = (Return switched, t1) \<and>
    manager_send wd' wl q actor pv t1 = (Return sent, t2) \<and>
    tp_mode (sd_response sent) = m \<and> response_ok (sd_response sent) \<and>
    length (au_lines (tm_audit t2)) = length (au_lines (tm_audit t)) + 2"
proof -
  have ok: "manager_ok t" "tm_policy t = p"
    using tm_reachable_ok [OF assms(3) fresh_manager_ok(1) [OF assms(1)]] by (auto simp: make_manager_def)
  have k: "tm_adapters t = default_adapters" "readable (tm_state t)"
    using tm_reachable_kept [OF assms(3)] assms(2) by (auto simp: kept_def make_manager_def dupdate_def)
  obtain switched t1 s where t1: "manager_set_mode wd (mode_value m) actor pv node control t = (Return switched, t1)"
    "tm_state t1 = write_state s" "ts_mode s = m" "length (au_lines (tm_audit t1)) = length (au_lines (tm_audit t)) + 1"
    using set_mode_runs [OF ok(1) k(2)] ok(2) assms(4) by blast
  have g: "manager_ok t1" "tm_policy t1 = p" "tm_adapters t1 = default_adapters"
    using set_mode_grows [OF ok(1) t1(1)] set_mode_kept [OF t1(1)] ok k(1)
    by (auto simp: grows_ok grows_def kept_def intro: grows_ok)
  obtain send r where r: "dget default_adapters (mode_value m) = Some send" "send wd' q = Return r" "response_ok r" "tp_mode r = m"
    using default_answers [OF assms(6)] by blast
  have pre: "allows (tm_policy t1) wl (mode_value m)" "dget (tm_adapters t1) (mode_value m) = Some send"
    by (simp_all add: g(2,3) r(1) assms(5))
  obtain sent t2 where "manager_send wd' wl q actor pv t1 = (Return sent, t2)" "sd_response sent = r"
    "length (au_lines (tm_audit t2)) = length (au_lines (tm_audit t1)) + 1"
    using send_runs [OF g(1) t1(2,3) pre r(2) assms(7)] by blast
  with t1(1,4) r(3,4) show ?thesis by auto
qed

theorem transport_delivers_witness:
  "\<exists>switched t1 sent t2.
     manager_set_mode sample_world (mode_value TOR) ''me'' ''v1'' ''n'' ''transport_control'' sample_manager = (Return switched, t1) \<and>
     manager_send sample_world ''research'' (sample_request\<lparr>tq_metadata := []\<rparr>) ''me'' ''v1'' t1 = (Return sent, t2) \<and>
     tp_mode (sd_response sent) = TOR \<and> length (au_lines (tm_audit t2)) = 2"
proof -
  let ?q = "sample_request\<lparr>tq_metadata := []\<rparr>"
  have "is_mock ?q" "TOR = TOR \<longrightarrow> (\<exists>x. abuse_score_of ?q = Return x)"
    by (simp_all add: is_mock_def sample_request_def abuse_score_of_def dget_or_def to_bool_def)
  moreover have "readable None" by (simp add: readable_def read_state_def)
  moreover have "au_lines (tm_audit sample_manager) = []" by (simp add: sample_manager_def make_manager_def)
  ultimately show ?thesis
    using transport_delivers [OF sample_logger _ tm_reachable.start sample_policy(2,1), where f = None and q = ?q and c = None
        and wd = sample_world and wd' = sample_world and actor = "''me''" and pv = "''v1''" and node = "''n''",
        folded sample_manager_def] by auto
qed

text \<open>
  A Tor send whose request carries a score that is not a number has gone out - the adapter has
  answered, and health, metrics and circuits have counted the response - when the manager raises, and
  the audit log has no row of it: the traffic is not audited.
\<close>

theorem tor_send_unaudited:
  assumes "tm_state t = write_state s" "ts_mode s = TOR" "allows (tm_policy t) wl (mode_value TOR)"
    and "dget (tm_adapters t) (mode_value TOR) = Some send" "send wd q = Return r" "abuse_score_of q = Raise err"
  shows "\<exists>t'. manager_send wd wl q actor pv t = (Raise err, t') \<and> tm_audit t' = tm_audit t \<and>
    tm_metrics t' = record_metrics wl r (tm_metrics t) \<and> tm_health t' = snd (record_health r (tm_health t)) \<and>
    read_circuit (tm_circuits t') (wd_circuit_id wd) \<noteq> None"
proof -
  let ?h = "fst (record_health r (tm_health t))"
  obtain s' where s': "update_metrics (wd_state_now wd) (hs_avg_latency_ms ?h) (hs_avg_throughput_mbps ?h)
      (hs_health_status ?h) (tp_exit_fingerprint r) (write_state s) = Return (s', write_state s')"
    using update_metrics_written by blast
  have "exit_profile_of TOR q r = Raise err" by (simp add: exit_profile_of_def assms(6))
  with s' assms show ?thesis
    by (simp add: manager_send_def enforce_def Let_def measured_def record_sample_def register_circuit_def read_circuit_def)
qed

theorem tor_send_unaudited_witness:
  "\<exists>err t'. manager_send sample_world ''research'' sample_request ''me'' ''v1''
      (sample_manager\<lparr>tm_state := write_state ((default_transport_state ''s'')\<lparr>ts_mode := TOR\<rparr>)\<rparr>) = (Raise err, t') \<and>
     au_lines (tm_audit t') = []"
proof -
  let ?s = "(default_transport_state ''s'')\<lparr>ts_mode := TOR\<rparr>"
  let ?t = "sample_manager\<lparr>tm_state := write_state ?s\<rparr>"
  have 1: "tm_state ?t = write_state ?s" "ts_mode ?s = TOR" by simp_all
  have 2: "allows (tm_policy ?t) ''research'' (mode_value TOR)"
    using sample_policy(1) by (simp add: sample_manager_def make_manager_def)
  obtain send r where 3: "dget default_adapters (mode_value TOR) = Some send" "send sample_world sample_request = Return r"
    using default_answers [of sample_request TOR sample_world] by (auto simp: is_mock_def sample_request_def)
  have 4: "dget (tm_adapters ?t) (mode_value TOR) = Some send"
    using 3(1) by (simp add: sample_manager_def make_manager_def dupdate_def)
  obtain err where 5: "abuse_score_of sample_request = Raise err"
    using sample_score by blast
  from tor_send_unaudited [OF 1 2 4 3(2) 5] show ?thesis
    by (fastforce simp: sample_manager_def make_manager_def)
qed

end
