(* ===== verification/Quantum_Lisp.thy ===== *)
theory Quantum_Lisp
  imports Value_Json
begin

text \<open>
  \<^verbatim>\<open>services/quantum_lisp/parser.py\<close>, \<^verbatim>\<open>models.py\<close> and \<^verbatim>\<open>compiler.py\<close>: the tokenizer and reader of
  Quantum LISP, and its compiler to a descriptive intermediate representation.  The reader recurses
  like the code; the depth limit of the Python interpreter is not modelled.
\<close>

section \<open>Tokens\<close>

definition newline :: char where
  "newline = CHR 0x0A"

definition backslash :: char where
  "backslash = CHR 0x5C"

definition dquote :: char where
  "dquote = CHR 0x22"

text \<open>The body of a string after its opening quote, and what follows its closing quote.\<close>

fun scan_string :: "string \<Rightarrow> (string \<times> string) option" where
  "scan_string [] = None"
| "scan_string [c] = (if c = dquote then Some ([], []) else None)"
| "scan_string (c # d # cs) =
     (if c = backslash then map_option (map_prod ((#) d) id) (scan_string cs)
      else if c = dquote then Some ([], d # cs)
      else map_option (map_prod ((#) c) id) (scan_string (d # cs)))"

definition word_char :: "char \<Rightarrow> bool" where
  "word_char c \<longleftrightarrow> \<not> is_space c \<and> c \<notin> {CHR ''('', CHR '')'', CHR '';''}"

lemma scan_string_shorter: "scan_string s = Some (v, rest) \<Longrightarrow> length rest < length s"
  by (induction s arbitrary: v rest rule: scan_string.induct) (fastforce split: if_splits)+

function tokens :: "string \<Rightarrow> string list result" where
  "tokens [] = Return []"
| "tokens (c # cs) =
     (if c = CHR '';'' then tokens (dropWhile (\<lambda>d. d \<noteq> newline) cs)
      else if is_space c then tokens cs
      else if c \<in> {CHR ''('', CHR '')''} then bindR (tokens cs) (\<lambda>ts. Return ([c] # ts))
      else if c = dquote then
        (case scan_string cs of
           None \<Rightarrow> Raise (SyntaxError ''unterminated string'')
         | Some (v, rest) \<Rightarrow> bindR (tokens rest) (\<lambda>ts. Return ((dquote # v @ [dquote]) # ts)))
      else bindR (tokens (dropWhile word_char cs)) (\<lambda>ts. Return ((c # takeWhile word_char cs) # ts)))"
  by pat_completeness auto
termination
  by (relation "measure length") (auto dest: scan_string_shorter intro: le_imp_less_Suc length_dropWhile_le)

section \<open>Reading\<close>

definition atom :: "string \<Rightarrow> pyval" where
  "atom token =
     (if token \<noteq> [] \<and> hd token = dquote \<and> last token = dquote then PStr (butlast (tl token))
      else if CHR ''.'' \<notin> set token
      then (case py_int token of Inr n \<Rightarrow> PInt n | Inl _ \<Rightarrow> PStr token)
      else (case parse_float token of Inr x \<Rightarrow> PFloat x | Inl _ \<Rightarrow> PStr token))"

function read_expr :: "string list \<Rightarrow> (pyval \<times> string list) result"
  and read_items :: "string list \<Rightarrow> (pyval list \<times> string list) result" where
  "read_expr [] = Raise (SyntaxError ''unexpected end of source'')"
| "read_expr (t # ts) =
     (if t = ''('' then bindR (read_items ts) (\<lambda>p. Return (PList (fst p), snd p))
      else if t = '')'' then Raise (SyntaxError ''unexpected closing paren'')
      else Return (atom t, ts))"
| "read_items [] = Raise (SyntaxError ''missing closing paren'')"
| "read_items (t # ts) =
     (if t = '')'' then Return ([], ts)
      else bindR (read_expr (t # ts)) (\<lambda>p. bindR (read_items (snd p)) (\<lambda>q. Return (fst p # fst q, snd q))))"
  by pat_completeness auto
termination
proof (relation "measure (\<lambda>x. case x of Inl ts \<Rightarrow> 2 * length ts | Inr ts \<Rightarrow> 2 * length ts + 1)", goal_cases)
  case (4 t ts p)
  have short: "(\<forall>p. read_expr us = Inr p \<longrightarrow> length (snd p) < length us)" if "read_expr_read_items_dom (Inl us)" for us
    using that
  proof (induction us rule: read_expr_read_items.pinduct(1)
      [where Q = "\<lambda>us. \<forall>q. read_items us = Inr q \<longrightarrow> length (snd q) < length us"])
    case 1
    then show ?case by (simp add: read_expr.psimps)
  next
    case (2 t ts)
    then show ?case by (fastforce simp: read_expr.psimps bindR_eq_Return split: if_splits)
  next
    case 3
    then show ?case by (simp add: read_items.psimps)
  next
    case (4 t ts)
    then show ?case by (fastforce simp: read_items.psimps bindR_eq_Return split: if_splits)
  qed
  from short [OF 4(3)] 4(2) have "length (snd p) < length (t # ts)" by blast
  then show ?case by simp
qed auto

lemma read_shorter:
  "read_expr ts = Inr p \<Longrightarrow> length (snd p) < length ts"
  "read_items ts = Inr q \<Longrightarrow> length (snd q) < length ts"
proof (induction ts and ts arbitrary: p and q rule: read_expr_read_items.induct)
  case (2 t ts)
  then show ?case by (fastforce simp: bindR_eq_Return split: if_splits)
next
  case (4 t ts)
  then show ?case by (fastforce simp: bindR_eq_Return split: if_splits simp del: read_expr.simps)
qed auto

function parse_forms :: "string list \<Rightarrow> pyval list list result" where
  "parse_forms ts =
     (if ts = [] then Return []
      else bindR (read_expr ts) (\<lambda>p.
        case fst p of
          PList form \<Rightarrow> bindR (parse_forms (snd p)) (\<lambda>forms. Return (form # forms))
        | _ \<Rightarrow> Raise (SyntaxError ''top-level forms must be lists'')))"
  by pat_completeness auto
termination
  by (relation "measure length") (auto dest: read_shorter(1))

declare parse_forms.simps [simp del]

record lisp_program =
  lp_source :: string
  lp_forms :: "pyval list list"
  lp_source_hash :: string
  lp_ast_hash :: string

definition parse_quantum_lisp :: "string \<Rightarrow> lisp_program result" where
  "parse_quantum_lisp source =
     bindR (tokens source) (\<lambda>ts. bindR (parse_forms ts) (\<lambda>forms.
       Return \<lparr>lp_source = source, lp_forms = forms,
         lp_source_hash = hash_val (PDict [(''source'', PStr source)]),
         lp_ast_hash = hash_val (PDict [(''forms'', PList (map PList forms))])\<rparr>))"

definition program_to_json :: "lisp_program \<Rightarrow> pyval dict" where
  "program_to_json p =
     [(''source'', PStr (lp_source p)), (''forms'', PList (map PList (lp_forms p))),
      (''source_hash'', PStr (lp_source_hash p)), (''ast_hash'', PStr (lp_ast_hash p))]"

section \<open>The compiler\<close>

definition ALLOWED_FORMS :: "string list" where
  "ALLOWED_FORMS = [''defintent'', ''observe'', ''hypothesis'', ''entangle'', ''contradict'', ''repair'', ''project'',
     ''trust'', ''algebra'', ''reason'']"

definition FORBIDDEN_FORMS :: "string list" where
  "FORBIDDEN_FORMS = [''commit'', ''measure-state'', ''clone-state'', ''postselect'']"

definition ALLOWED_BACKENDS :: "string list" where
  "ALLOWED_BACKENDS = [''qiskit'', ''pennylane'', ''cirq'', ''itensor'', ''fabric_gluing'']"

text \<open>The name of an option: a string that starts with a colon.\<close>

definition option_name :: "pyval \<Rightarrow> string option" where
  "option_name v = (case v of PStr (c # cs) \<Rightarrow> if c = CHR '':'' then Some cs else None | _ \<Rightarrow> None)"

fun pairs_loop :: "pyval list \<Rightarrow> pyval dict \<Rightarrow> pyval list \<Rightarrow> (pyval list \<times> pyval dict) result" where
  "pairs_loop positional options [] = Return (positional, options)"
| "pairs_loop positional options [item] =
     (case option_name item of
        Some k \<Rightarrow> Raise (CompileError (''missing value for option :'' @ k))
      | None \<Rightarrow> Return (positional @ [item], options))"
| "pairs_loop positional options (item # v # rest) =
     (case option_name item of
        Some k \<Rightarrow> pairs_loop positional (dset k v options) rest
      | None \<Rightarrow> pairs_loop (positional @ [item]) options (v # rest))"

definition pairs :: "pyval list \<Rightarrow> (pyval list \<times> pyval dict) result" where
  "pairs items = pairs_loop [] [] items"

definition as_list :: "pyval \<Rightarrow> string list" where
  "as_list v = (case v of PNone \<Rightarrow> [] | PList xs \<Rightarrow> map to_str xs | _ \<Rightarrow> [to_str v])"

record lisp_form =
  lf_op :: string
  lf_args :: "pyval list"
  lf_options :: "pyval dict"

definition form_to_json :: "lisp_form \<Rightarrow> pyval" where
  "form_to_json f =
     PDict [(''op'', PStr (lf_op f)), (''args'', PList (lf_args f)), (''options'', PDict (lf_options f))]"

text \<open>The backends a form asks for, each once.\<close>

definition requested :: "lisp_form \<Rightarrow> string list" where
  "requested f =
     (if lf_op f = ''project'' then remdups (as_list (dget_or (lf_options f) ''using'' PNone)) else [])"

definition compile_form :: "pyval list \<Rightarrow> lisp_form result" where
  "compile_form raw =
     (case raw of
        [] \<Rightarrow> Raise (CompileError ''empty form'')
      | head # rest \<Rightarrow>
          (let op = lower (strip (to_str head)) in
           if op \<in> set FORBIDDEN_FORMS
           then Raise (CompileError (op @ '' is outside the descriptive Quantum LISP boundary''))
           else if op \<notin> set ALLOWED_FORMS then Raise (CompileError (''unknown Quantum LISP form: '' @ op))
           else bindR (pairs rest) (\<lambda>p.
             let f = \<lparr>lf_op = op, lf_args = fst p, lf_options = snd p\<rparr>;
                 unknown = filter (\<lambda>b. b \<notin> set ALLOWED_BACKENDS) (requested f)
             in if unknown \<noteq> [] then Raise (CompileError (''unknown backend target(s): '' @ join '', '' (sort unknown)))
                else Return f)))"

record reasoning_ir =
  ir_version :: string
  ir_source_hash :: string
  ir_ast_hash :: string
  ir_hash :: string
  ir_declared_effects :: "string list"
  ir_backend_targets :: "string list"
  ir_forms :: "lisp_form list"
  ir_lineage :: "pyval dict"

definition ir_payload :: "reasoning_ir \<Rightarrow> pyval dict" where
  "ir_payload ir =
     [(''version'', PStr (ir_version ir)), (''source_hash'', PStr (ir_source_hash ir)), (''ast_hash'', PStr (ir_ast_hash ir)),
      (''declared_effects'', PStrs (ir_declared_effects ir)), (''backend_targets'', PStrs (ir_backend_targets ir)),
      (''forms'', PList (map form_to_json (ir_forms ir))), (''lineage'', PDict (ir_lineage ir))]"

definition ir_to_json :: "reasoning_ir \<Rightarrow> pyval dict" where
  "ir_to_json ir =
     [(''version'', PStr (ir_version ir)), (''source_hash'', PStr (ir_source_hash ir)), (''ast_hash'', PStr (ir_ast_hash ir)),
      (''ir_hash'', PStr (ir_hash ir)), (''declared_effects'', PStrs (ir_declared_effects ir)),
      (''backend_targets'', PStrs (ir_backend_targets ir)), (''forms'', PList (map form_to_json (ir_forms ir))),
      (''lineage'', PDict (ir_lineage ir))]"

definition compiler_version :: string where
  "compiler_version = ''1.0''"

definition targets_of :: "lisp_form list \<Rightarrow> string list" where
  "targets_of forms =
     (let backends = concat (map requested forms)
      in sorted_set (if backends = [] then [''fabric_gluing''] else backends))"

text \<open>The representation before it is hashed.\<close>

definition assemble_ir :: "lisp_program \<Rightarrow> lisp_form list \<Rightarrow> pyval dict \<Rightarrow> reasoning_ir" where
  "assemble_ir program forms metadata =
     \<lparr>ir_version = compiler_version, ir_source_hash = lp_source_hash program, ir_ast_hash = lp_ast_hash program,
      ir_hash = [], ir_declared_effects = sort [''read'', ''analyze'', ''propose''],
      ir_backend_targets = targets_of forms, ir_forms = forms,
      ir_lineage = [(''compiler'', PStr ''qso.quantum_lisp''), (''compiler_version'', PStr compiler_version),
        (''metadata'', PDict metadata)]\<rparr>"

definition compile_lisp :: "string \<Rightarrow> pyval dict \<Rightarrow> reasoning_ir result" where
  "compile_lisp source metadata =
     bindR (parse_quantum_lisp source) (\<lambda>program.
     bindR (mapR compile_form (lp_forms program)) (\<lambda>forms.
       if forms = [] then Raise (CompileError ''program contains no forms'')
       else let ir = assemble_ir program forms metadata in Return (ir\<lparr>ir_hash := hash_val (PDict (ir_payload ir))\<rparr>)))"

section \<open>Reading back what is written\<close>

text \<open>A form written out: integers in decimal, strings between quotes, lists between parentheses.\<close>

definition escape_lisp :: "string \<Rightarrow> string" where
  "escape_lisp s = concat (map (\<lambda>c. if c = backslash \<or> c = dquote then [backslash, c] else [c]) s)"

fun printable :: "pyval \<Rightarrow> bool" where
  "printable (PInt n) = True"
| "printable (PStr s) = True"
| "printable (PList xs) = (\<forall>x\<in>set xs. printable x)"
| "printable v = False"

primrec lisp_tokens :: "pyval \<Rightarrow> string list" where
  "lisp_tokens PNone = []"
| "lisp_tokens (PBool b) = []"
| "lisp_tokens (PInt n) = [py_str n]"
| "lisp_tokens (PFloat x) = []"
| "lisp_tokens (PStr s) = [dquote # s @ [dquote]]"
| "lisp_tokens (PList xs) = ''('' # concat (map lisp_tokens xs) @ ['')'']"
| "lisp_tokens (PDict d) = []"

text \<open>The text of a token: a string token is written with its escapes; every token is followed by a blank.\<close>

definition token_text :: "string \<Rightarrow> string" where
  "token_text t =
     (if t \<noteq> [] \<and> hd t = dquote then dquote # escape_lisp (butlast (tl t)) @ [dquote] else t) @ '' ''"

definition lisp_text :: "pyval list list \<Rightarrow> string" where
  "lisp_text forms = concat (map token_text (concat (map (\<lambda>f. lisp_tokens (PList f)) forms)))"

lemma scan_escaped: "scan_string (escape_lisp s @ dquote # rest) = Some (s, rest)"
proof (induction s)
  case Nil
  then show ?case by (cases rest) (simp_all add: escape_lisp_def dquote_def backslash_def)
next
  case (Cons c s)
  have "scan_string (d # escape_lisp s @ dquote # rest) = map_option (map_prod ((#) d) id) (scan_string (escape_lisp s @ dquote # rest))"
    if "d \<noteq> backslash" "d \<noteq> dquote" for d
    using that by (cases "escape_lisp s @ dquote # rest") auto
  with Cons show ?case by (auto simp: escape_lisp_def)
qed

definition plain_token :: "string \<Rightarrow> bool" where
  "plain_token t \<longleftrightarrow> t \<in> {''('', '')''} \<or> (\<exists>s. t = dquote # s @ [dquote]) \<or>
     (t \<noteq> [] \<and> hd t \<noteq> dquote \<and> list_all word_char t)"

lemma tokens_token_text:
  assumes "plain_token t"
  shows "tokens (token_text t @ rest) = bindR (tokens rest) (\<lambda>ts. Return (t # ts))"
proof -
  have sp: "tokens ('' '' @ rest) = tokens rest" by (simp add: is_space_def)
  consider "t = ''('' \<or> t = '')''" | s where "t = dquote # s @ [dquote]"
    | "t \<noteq> []" "hd t \<noteq> dquote" "list_all word_char t"
    using assms by (auto simp: plain_token_def)
  then show ?thesis
  proof cases
    case 1
    then show ?thesis using sp by (auto simp: token_text_def dquote_def is_space_def)
  next
    case 2
    then show ?thesis using sp scan_escaped [of s "'' '' @ rest"] by (simp add: token_text_def dquote_def is_space_def)
  next
    case 3
    then obtain c cs where t: "t = c # cs" "word_char c" "c \<noteq> dquote" "list_all word_char cs" by (cases t) auto
    have "takeWhile word_char (cs @ '' '' @ rest) = cs" "dropWhile word_char (cs @ '' '' @ rest) = '' '' @ rest"
      using t(4) by (simp_all add: list_all_iff takeWhile_append dropWhile_append word_char_def is_space_def)
    with t sp show ?thesis by (auto simp: token_text_def word_char_def)
  qed
qed

lemma tokens_texts:
  "list_all plain_token ts \<Longrightarrow> tokens (concat (map token_text ts)) = Return ts"
  by (induction ts) (simp_all add: tokens_token_text del: tokens.simps(2))

lemma py_str_chars: "c \<in> set (py_str n) \<Longrightarrow> c = CHR ''-'' \<or> is_ascii_digit c"
  using show_digits_ascii [of n] show_digits_ascii [of "- n"]
  by (auto simp: py_str_def list_all_iff split: if_splits)

lemma ascii_digit_word: "is_ascii_digit c \<Longrightarrow> word_char c \<and> c \<noteq> dquote \<and> c \<noteq> CHR ''.''"
  by (auto simp: is_ascii_digit_def word_char_def is_space_def dquote_def)

lemma py_str_word: "c \<in> set (py_str n) \<Longrightarrow> word_char c \<and> c \<noteq> dquote \<and> c \<noteq> CHR ''.''"
  using py_str_chars [of c n] ascii_digit_word [of c] by (auto simp: word_char_def is_space_def dquote_def)

lemma plain_int: "plain_token (py_str n)"
proof -
  have "hd (py_str n) \<noteq> dquote" using py_str_word [of "hd (py_str n)" n] by simp
  then show ?thesis using py_str_word [of _ n] by (auto simp: plain_token_def list_all_iff)
qed

lemma plain_tokens: "printable v \<Longrightarrow> list_all plain_token (lisp_tokens v)"
  by (induction v) (auto simp: plain_int list_all_iff, auto simp: plain_token_def)

lemma atom_int [simp]: "atom (py_str n) = PInt n"
proof -
  have "hd (py_str n) \<noteq> dquote" using py_str_word [of "hd (py_str n)" n] by simp
  moreover have "CHR ''.'' \<notin> set (py_str n)" using py_str_word [of "CHR ''.''" n] by auto
  ultimately show ?thesis by (simp add: atom_def py_int_py_str)
qed

lemma atom_str [simp]: "atom (dquote # s @ [dquote]) = PStr s"
  by (simp add: atom_def)

lemma int_not_paren: "py_str n \<noteq> ''(''" "py_str n \<noteq> '')''"
  using py_str_word [of "CHR ''(''" n] py_str_word [of "CHR '')''" n] by (auto simp: word_char_def)

lemma first_token: "printable v \<Longrightarrow> \<exists>t us. lisp_tokens v = t # us \<and> t \<noteq> '')''"
  by (cases v) (auto simp: int_not_paren dquote_def)

lemma read_tokens: "printable v \<Longrightarrow> read_expr (lisp_tokens v @ ts) = Return (v, ts)"
proof (induction v arbitrary: ts)
  case (PList xs)
  have "read_items (concat (map lisp_tokens ys) @ '')'' # us) = Return (ys, us)" if "set ys \<subseteq> set xs" for ys us
    using that
  proof (induction ys)
    case (Cons y ys)
    then have y: "y \<in> set xs" "printable y" using PList.prems by auto
    obtain t ws where t: "lisp_tokens y = t # ws" "t \<noteq> '')''" using first_token [OF y(2)] by blast
    have "read_expr (t # ws @ concat (map lisp_tokens ys) @ '')'' # us) = Return (y, concat (map lisp_tokens ys) @ '')'' # us)"
      using PList.IH [OF y(1,2)] t(1) by simp
    with Cons t show ?case by (simp del: read_expr.simps)
  qed simp
  from this [of xs] show ?case by simp
next
  case (PInt n)
  show ?case using int_not_paren [of n] by simp
next
  case (PStr s)
  have "(dquote # s @ [dquote]) \<noteq> ''(''" "(dquote # s @ [dquote]) \<noteq> '')''" by (simp_all add: dquote_def)
  then show ?case by (simp only: lisp_tokens.simps append.simps read_expr.simps if_False atom_str)
qed simp_all

lemma parse_lisp_forms:
  "\<forall>f\<in>set forms. printable (PList f) \<Longrightarrow>
     parse_forms (concat (map (\<lambda>f. lisp_tokens (PList f)) forms)) = Return forms"
proof (induction forms)
  case (Cons f forms)
  have "read_expr (lisp_tokens (PList f) @ concat (map (\<lambda>f. lisp_tokens (PList f)) forms)) =
      Return (PList f, concat (map (\<lambda>f. lisp_tokens (PList f)) forms))"
    by (rule read_tokens) (use Cons.prems in simp)
  with Cons show ?case by (subst parse_forms.simps) (simp del: read_expr.simps lisp_tokens.simps, simp)
qed (simp add: parse_forms.simps)

section \<open>What the compiler lets through\<close>

lemma compile_form_ok:
  assumes "compile_form raw = Return f"
  shows "lf_op f \<in> set ALLOWED_FORMS \<and> lf_op f \<notin> set FORBIDDEN_FORMS \<and> set (requested f) \<subseteq> set ALLOWED_BACKENDS"
  using assms unfolding compile_form_def
  by (auto simp: Let_def filter_empty_conv split: list.splits if_splits elim!: bindR_ReturnE)

lemma compile_forms_ok:
  "mapR compile_form raws = Return forms \<Longrightarrow> f \<in> set forms \<Longrightarrow>
     lf_op f \<in> set ALLOWED_FORMS \<and> lf_op f \<notin> set FORBIDDEN_FORMS \<and> set (requested f) \<subseteq> set ALLOWED_BACKENDS"
  using mapR_elem [of compile_form raws forms f] compile_form_ok by blast

section \<open>Properties\<close>

text \<open>
  C38: the reader undoes the printer: a program written out from forms - nested lists of integers and
  of strings, whatever characters the strings have - parses to exactly those forms, and the program
  records its source and a hash of its text.
\<close>

theorem lisp_text_roundtrip:
  assumes "\<forall>f\<in>set forms. printable (PList f)"
  shows "\<exists>p. parse_quantum_lisp (lisp_text forms) = Return p \<and> lp_forms p = forms \<and> lp_source p = lisp_text forms \<and>
    lp_source_hash p = hash_val (PDict [(''source'', PStr (lisp_text forms))])"
proof -
  have "list_all plain_token (concat (map (\<lambda>f. lisp_tokens (PList f)) forms))"
  proof -
    have "list_all plain_token (lisp_tokens (PList f))" if "f \<in> set forms" for f
      by (rule plain_tokens) (use assms that in blast)
    then show ?thesis by (simp add: list_all_iff del: lisp_tokens.simps)
  qed
  then have "tokens (lisp_text forms) = Return (concat (map (\<lambda>f. lisp_tokens (PList f)) forms))"
    unfolding lisp_text_def by (rule tokens_texts)
  with parse_lisp_forms [OF assms] show ?thesis by (simp add: parse_quantum_lisp_def)
qed

theorem lisp_text_roundtrip_witness:
  "\<exists>p. parse_quantum_lisp (lisp_text [[PStr ''observe'', PList [PInt (-3), PStr [dquote]]]]) = Return p \<and>
     lp_forms p = [[PStr ''observe'', PList [PInt (-3), PStr [dquote]]]]"
  using lisp_text_roundtrip [of "[[PStr ''observe'', PList [PInt (-3), PStr [dquote]]]]"] by auto

text \<open>
  C39: what compiles stays inside the descriptive boundary: at least one form, every form one of the
  allowed and none of the forbidden ones, every backend that is targeted allowed and every backend a
  form requests targeted, no effect but reading, analysing and proposing, and the hash of the
  representation is that of its contents.
\<close>

theorem compile_boundary:
  assumes "compile_lisp source metadata = Return ir"
  shows "ir_forms ir \<noteq> [] \<and>
    (\<forall>f\<in>set (ir_forms ir). lf_op f \<in> set ALLOWED_FORMS \<and> lf_op f \<notin> set FORBIDDEN_FORMS \<and>
       set (requested f) \<subseteq> set (ir_backend_targets ir)) \<and>
    ir_backend_targets ir \<noteq> [] \<and> set (ir_backend_targets ir) \<subseteq> set ALLOWED_BACKENDS \<and>
    ir_declared_effects ir = [''analyze'', ''propose'', ''read''] \<and> ir_hash ir = hash_val (PDict (ir_payload ir))"
proof -
  obtain program forms where p: "mapR compile_form (lp_forms program) = Return forms" "forms \<noteq> []"
    and ir: "ir = (assemble_ir program forms metadata)
      \<lparr>ir_hash := hash_val (PDict (ir_payload (assemble_ir program forms metadata)))\<rparr>"
    using assms unfolding compile_lisp_def Let_def by (elim bindR_ReturnE) (auto split: if_splits)
  have s: "set (targets_of forms) = (if concat (map requested forms) = [] then {''fabric_gluing''} else set (concat (map requested forms)))"
    by (simp add: targets_of_def sorted_set_def Let_def)
  have c: "set (concat (map requested forms)) \<subseteq> set ALLOWED_BACKENDS" "''fabric_gluing'' \<in> set ALLOWED_BACKENDS"
    using compile_forms_ok [OF p(1)] by (fastforce, simp add: ALLOWED_BACKENDS_def)
  have t: "set (targets_of forms) \<subseteq> set ALLOWED_BACKENDS" "set (targets_of forms) \<noteq> {}"
    using s c by auto
  have r: "set (requested f) \<subseteq> set (targets_of forms)" if "f \<in> set forms" for f
    using s that by auto
  have "sort [''read'', ''analyze'', ''propose''] = [''analyze'', ''propose'', ''read'']" by simp
  then show ?thesis
    using t r p(2) compile_forms_ok [OF p(1)] by (simp add: ir assemble_ir_def ir_payload_def)
qed

theorem compile_boundary_witness:
  "\<exists>ir. compile_lisp ''(project x :using cirq)'' [] = Return ir \<and> ir_backend_targets ir \<noteq> []"
proof -
  have "\<exists>ir. compile_lisp ''(project x :using cirq)'' [] = Return ir"
    by (simp add: compile_lisp_def parse_quantum_lisp_def parse_forms.simps compile_form_def Let_def atom_def py_int_def
        split_sign_def strip_def lstrip_def rstrip_def is_space_def word_char_def dquote_def is_ascii_digit_def lower_def
        lower_char_def FORBIDDEN_FORMS_def ALLOWED_FORMS_def ALLOWED_BACKENDS_def pairs_def option_name_def requested_def
        as_list_def targets_of_def assemble_ir_def dget_or_def)
  then show ?thesis using compile_boundary [of "''(project x :using cirq)''" "[]"] by blast
qed

end
