(* ===== verification/Governance.thy ===== *)
theory Governance
  imports Value_Json
begin

text \<open>
  \<^verbatim>\<open>solis/governance/rbac.py\<close>, \<^verbatim>\<open>decision.py\<close> and \<^verbatim>\<open>signatures.py\<close>, with
  \<^verbatim>\<open>solis/schemas/versioning.py\<close>: who may do what, and decisions of the governor that are hashed,
  signed and checked.  A decision arrives with fields of the declared types, which pydantic parses;
  its declared constraints and its validators are written out.  The timestamp is the text pydantic
  renders it to.
\<close>

section \<open>Versions\<close>

abbreviation schema_version_v1 :: string where
  "schema_version_v1 \<equiv> ''1.0''"

definition parse_semver :: "string \<Rightarrow> (int \<times> int) result" where
  "parse_semver version =
     (case split_char (CHR ''.'') (strip version) of
        [a, b] \<Rightarrow>
          bindR (py_int a) (\<lambda>major. bindR (py_int b) (\<lambda>minor.
            if major < 0 \<or> minor < 0
            then Raise (ValueError (''version components must be non-negative, got '' @ CHR 0x27 # version @ [CHR 0x27]))
            else Return (major, minor)))
      | _ \<Rightarrow> Raise (ValueError (''version must be major.minor, got '' @ CHR 0x27 # version @ [CHR 0x27])))"

definition is_backward_compatible :: "string \<Rightarrow> string \<Rightarrow> bool result" where
  "is_backward_compatible current candidate =
     bindR (parse_semver current) (\<lambda>(cmaj, cmin). bindR (parse_semver candidate) (\<lambda>(dmaj, dmin).
       Return (cmaj = dmaj \<and> cmin \<le> dmin)))"

text \<open>A policy version is the letter v and digits.\<close>

definition policy_version_of :: "string \<Rightarrow> string result" where
  "policy_version_of value =
     (let text = strip value in
      if startswith text ''v'' \<and> py_isdigit (drop 1 text) then Return text
      else Raise (ValueError ''policy_version must match v<integer>''))"

section \<open>Roles\<close>

definition KNOWN_ROLES :: "string list" where
  "KNOWN_ROLES = [''dev'', ''whale'', ''operator'', ''system'']"

record rbac_decision =
  rb_action :: string
  rb_actor :: string
  rb_role :: string
  rb_allowed :: bool
  rb_reason_code :: string

record rbac_policy =
  rp_action_roles :: "string list dict"
  rp_strict_unmapped_actions :: bool

definition default_rbac_policy :: rbac_policy where
  "default_rbac_policy = \<lparr>rp_action_roles =
     [(''strategy.submit'', [''dev'']),
      (''strategy.shadow.run'', [''dev'', ''operator'']),
      (''proposal.approve'', [''whale'']),
      (''allocation.weights.set'', [''whale'']),
      (''allocation.ceiling.set'', [''whale'']),
      (''fund.pause'', [''whale'', ''operator'']),
      (''fund.resume'', [''whale'', ''operator'']),
      (''policy.propose'', [''dev'', ''whale'']),
      (''policy.activate'', [''whale'']),
      (''execution.operate'', [''operator'']),
      (''execution.read'', [''dev'', ''whale'', ''operator'']),
      (''identity.mutate'', [''operator'']),
      (''archive.operate'', [''operator'']),
      (''policy.read'', [''dev'', ''whale'', ''operator''])],
     rp_strict_unmapped_actions = True\<rparr>"

definition allowed_roles_for :: "rbac_policy \<Rightarrow> string \<Rightarrow> string list" where
  "allowed_roles_for p action = dget_or (rp_action_roles p) action []"

text \<open>The role an explicit argument names, when it names a known one.\<close>

definition explicit_role_of :: "string option \<Rightarrow> string option" where
  "explicit_role_of explicit =
     (case explicit of None \<Rightarrow> None
      | Some r \<Rightarrow> if r \<noteq> [] \<and> lower (strip r) \<in> set KNOWN_ROLES then Some (lower (strip r)) else None)"

definition actor_prefix_role :: "string \<Rightarrow> string option" where
  "actor_prefix_role actor_text =
     (let p = strip (before_infix ''://'' actor_text) in
      if has_infix ''://'' actor_text \<and> p \<in> set KNOWN_ROLES then Some p else None)"

definition extract_actor_role :: "string \<Rightarrow> string option \<Rightarrow> string \<Rightarrow> string" where
  "extract_actor_role actor explicit default_role =
     (case explicit_role_of explicit of
        Some r \<Rightarrow> r
      | None \<Rightarrow>
          (let actor_text = lower (strip actor) in
           case actor_prefix_role actor_text of
             Some r \<Rightarrow> r
           | None \<Rightarrow>
               if startswith actor_text ''solis.'' \<or> startswith actor_text ''system://'' then ''system''
               else if default_role \<in> set KNOWN_ROLES then default_role
               else ''operator''))"

definition new_rbac_authorizer :: "rbac_policy option \<Rightarrow> rbac_policy" where
  "new_rbac_authorizer p = (case p of None \<Rightarrow> default_rbac_policy | Some q \<Rightarrow> q)"

definition authorize :: "rbac_policy \<Rightarrow> string \<Rightarrow> string \<Rightarrow> string option \<Rightarrow> string \<Rightarrow> rbac_decision" where
  "authorize p action actor explicit default_role =
     (let role = extract_actor_role actor explicit default_role;
          decide = (\<lambda>ok why. \<lparr>rb_action = action, rb_actor = actor, rb_role = role, rb_allowed = ok, rb_reason_code = why\<rparr>);
          roles = allowed_roles_for p action in
      if role = ''system'' then decide True ''SYSTEM_ACTOR_ALLOW''
      else if roles = [] then
        (if rp_strict_unmapped_actions p then decide False ''ACTION_UNMAPPED_DENY'' else decide True ''ACTION_UNMAPPED_ALLOW'')
      else if role \<in> set roles then decide True ''ROLE_ALLOWED''
      else decide False ''ROLE_NOT_ALLOWED'')"

section \<open>Decisions\<close>

datatype governor_decision_kind = Rejected_Decision | Approved_Shadow | Approved_Execute

definition decision_kind_value :: "governor_decision_kind \<Rightarrow> string" where
  "decision_kind_value k = (case k of Rejected_Decision \<Rightarrow> ''REJECTED''
     | Approved_Shadow \<Rightarrow> ''APPROVED_SHADOW'' | Approved_Execute \<Rightarrow> ''APPROVED_EXECUTE'')"

record invariant_trace_row =
  it_name :: string
  it_status :: string
  it_detail :: string

record governor_decision =
  gv_schema_version :: string
  gv_decision_id :: string
  gv_decision_ts :: string
  gv_intent_id :: string
  gv_decision :: governor_decision_kind
  gv_reason_codes :: "string list"
  gv_invariant_trace :: "invariant_trace_row list"
  gv_policy_version :: string
  gv_actor :: string
  gv_signature :: string
  gv_decision_hash :: "string option"

definition trace_row_ok :: "invariant_trace_row \<Rightarrow> bool" where
  "trace_row_ok r = (it_name r \<noteq> [] \<and> it_status r \<in> {''PASS'', ''FAIL'', ''SKIP''} \<and> it_detail r \<noteq> [])"

text \<open>A decision with fields of the declared types: their constraints, then the validators.\<close>

definition validate_governor_decision :: "governor_decision \<Rightarrow> governor_decision result" where
  "validate_governor_decision d =
     (if gv_decision_id d = [] \<or> gv_intent_id d = [] \<or> gv_actor d = [] \<or> length (gv_policy_version d) < 2 \<or>
         \<not> list_all trace_row_ok (gv_invariant_trace d)
      then Raise (ValueError ''validation error'')
      else bindR (parse_semver (gv_schema_version d)) (\<lambda>_.
           bindR (policy_version_of (gv_policy_version d)) (\<lambda>v.
             if gv_decision d = Rejected_Decision \<and> gv_reason_codes d = []
             then Raise (ValueError ''REJECTED decisions must include reason_codes'')
             else Return (d\<lparr>gv_policy_version := v\<rparr>))))"

definition trace_row_json :: "invariant_trace_row \<Rightarrow> json" where
  "trace_row_json r = JObj [(''name'', JStr (it_name r)), (''status'', JStr (it_status r)), (''detail'', JStr (it_detail r))]"

text \<open>\<^verbatim>\<open>model_dump\<close> of every field but the signature and the hash, and of every field.\<close>

definition decision_fields :: "governor_decision \<Rightarrow> json dict" where
  "decision_fields d =
     [(''schema_version'', JStr (gv_schema_version d)), (''decision_id'', JStr (gv_decision_id d)),
      (''decision_ts'', JStr (gv_decision_ts d)), (''intent_id'', JStr (gv_intent_id d)),
      (''decision'', JStr (decision_kind_value (gv_decision d))),
      (''reason_codes'', JArr (map JStr (gv_reason_codes d))),
      (''invariant_trace'', JArr (map trace_row_json (gv_invariant_trace d))),
      (''policy_version'', JStr (gv_policy_version d)), (''actor'', JStr (gv_actor d))]"

definition decision_dump :: "governor_decision \<Rightarrow> json dict" where
  "decision_dump d = decision_fields d @
     [(''signature'', JStr (gv_signature d)),
      (''decision_hash'', case gv_decision_hash d of None \<Rightarrow> JNull | Some h \<Rightarrow> JStr h)]"

definition decision_payload :: "governor_decision \<Rightarrow> json" where
  "decision_payload d = sort_json (JObj (decision_fields d))"

definition decision_payload_text :: "governor_decision \<Rightarrow> string" where
  "decision_payload_text d = canonical_json (decision_payload d)"

definition compute_decision_hash :: "governor_decision \<Rightarrow> string" where
  "compute_decision_hash d = sha256_hex_text (decision_payload_text d)"

definition sign_decision :: "(string \<Rightarrow> string) \<Rightarrow> governor_decision \<Rightarrow> governor_decision" where
  "sign_decision signer d =
     d\<lparr>gv_decision_hash := Some (compute_decision_hash d), gv_signature := signer (decision_payload_text d)\<rparr>"

section \<open>Signed decisions\<close>

definition enforce_signed_governor_decision ::
    "(string \<Rightarrow> string \<Rightarrow> bool) option \<Rightarrow> governor_decision \<Rightarrow> governor_decision result" where
  "enforce_signed_governor_decision verifier d =
     (let signature = strip (gv_signature d); expected = compute_decision_hash d in
      if signature = [] then Raise (ValueError ''unsigned governance decision rejected'')
      else if gv_decision_hash d \<noteq> None \<and> gv_decision_hash d \<noteq> Some expected
      then Raise (ValueError ''governance decision hash mismatch'')
      else if (case verifier of None \<Rightarrow> False | Some v \<Rightarrow> \<not> v (decision_payload_text d) signature)
      then Raise (ValueError ''governance signature verification failed'')
      else Return (d\<lparr>gv_decision_hash := Some expected\<rparr>))"

definition decision_replay_record ::
    "(string \<Rightarrow> string \<Rightarrow> bool) option \<Rightarrow> governor_decision \<Rightarrow> json dict result" where
  "decision_replay_record verifier d =
     bindR (enforce_signed_governor_decision verifier d) (\<lambda>signed.
       Return (dset ''signature_metadata'' (JObj
         [(''signature_present'', JBool (strip (gv_signature signed) \<noteq> [])),
          (''signature_length'', JInt (int (length (gv_signature signed)))),
          (''decision_hash'', case gv_decision_hash signed of None \<Rightarrow> JNull | Some h \<Rightarrow> JStr h)])
         (decision_dump signed)))"

section \<open>What a signature binds\<close>

lemma decision_kind_value_inject [simp]: "decision_kind_value k = decision_kind_value k' \<longleftrightarrow> k = k'"
  by (cases k; cases k') (simp_all add: decision_kind_value_def)

lemma wf_trace_row [simp]: "wf_json (trace_row_json r)"
  by (simp add: trace_row_json_def)

lemma wf_decision_fields: "wf_json (JObj (decision_fields d))"
  by (simp add: decision_fields_def comp_def list_all_iff)

lemma sort_trace_row_inject [simp]: "sort_json (trace_row_json r) = sort_json (trace_row_json r') \<longleftrightarrow> r = r'"
  by (cases r; cases r') (auto simp: trace_row_json_def)

lemma map_sort_trace_inject:
  "map (sort_json \<circ> trace_row_json) xs = map (sort_json \<circ> trace_row_json) ys \<longleftrightarrow> xs = ys"
  by (rule inj_map_eq_map) (auto simp: inj_def)

lemma map_sort_str: "map (sort_json \<circ> JStr) xs = map (sort_json \<circ> JStr) ys \<longleftrightarrow> xs = ys"
  by (rule inj_map_eq_map) (auto simp: inj_def)

text \<open>The signed text determines every field of the decision but the signature and the hash.\<close>

lemma decision_payload_text_inj:
  assumes "decision_payload_text d = decision_payload_text e"
  shows "d\<lparr>gv_signature := gv_signature e, gv_decision_hash := gv_decision_hash e\<rparr> = e"
proof -
  have eq: "sort_json (JObj (decision_fields d)) = sort_json (JObj (decision_fields e))"
    using assms dumps_inj [OF good_styles(2) wf_sort_json [OF wf_decision_fields] wf_sort_json [OF wf_decision_fields]]
    by (simp only: decision_payload_text_def decision_payload_def canonical_json_def sort_json_idem)
  have field: "map_option sort_json (dget (decision_fields d) k) = map_option sort_json (dget (decision_fields e) k)" for k
    using arg_cong [OF eq, of "\<lambda>v. jget v k"]
    by (simp only: jget_sort_json [OF wf_decision_fields]) (simp add: jget_def)
  show ?thesis
    using field [of "''schema_version''"] field [of "''decision_id''"] field [of "''decision_ts''"]
      field [of "''intent_id''"] field [of "''decision''"] field [of "''reason_codes''"]
      field [of "''invariant_trace''"] field [of "''policy_version''"] field [of "''actor''"]
    by (cases d; cases e) (simp add: decision_fields_def map_sort_trace_inject map_sort_str)
qed

lemma enforce_cases:
  "enforce_signed_governor_decision verifier d = Return s \<longleftrightarrow>
     strip (gv_signature d) \<noteq> [] \<and> gv_decision_hash d \<in> {None, Some (compute_decision_hash d)} \<and>
     (\<forall>v. verifier = Some v \<longrightarrow> v (decision_payload_text d) (strip (gv_signature d))) \<and>
     s = d\<lparr>gv_decision_hash := Some (compute_decision_hash d)\<rparr>"
  by (cases verifier) (auto simp: enforce_signed_governor_decision_def Let_def)

section \<open>Properties\<close>

text \<open>
  C33: when the verifier accepts only texts of decisions the governor has issued, an accepted
  decision is one of the issued ones in every field but the signature and the hash it carries; the
  hash it leaves with is the one of its own content; and enforcing it again changes nothing.
\<close>

theorem governor_decision_authentic:
  assumes "\<And>t sig. verify t sig \<Longrightarrow> t \<in> decision_payload_text ` issued"
    and "enforce_signed_governor_decision (Some verify) d = Return s"
  shows "\<exists>e\<in>issued. s = e\<lparr>gv_signature := gv_signature d, gv_decision_hash := Some (compute_decision_hash e)\<rparr> \<and>
    enforce_signed_governor_decision (Some verify) s = Return s"
proof -
  have same: "decision_payload_text (d\<lparr>gv_decision_hash := h\<rparr>) = decision_payload_text d" for h
    by (simp add: decision_payload_text_def decision_payload_def decision_fields_def)
  from assms(2) have s: "s = d\<lparr>gv_decision_hash := Some (compute_decision_hash d)\<rparr>"
    and ok: "verify (decision_payload_text d) (strip (gv_signature d))" "strip (gv_signature d) \<noteq> []"
    by (simp_all add: enforce_cases)
  from assms(1) [OF ok(1)] obtain e where e: "e \<in> issued" "decision_payload_text d = decision_payload_text e" by auto
  have "d = e\<lparr>gv_signature := gv_signature d, gv_decision_hash := gv_decision_hash d\<rparr>"
    using decision_payload_text_inj [OF e(2)[symmetric]] by (cases d; cases e) simp
  then have "s = e\<lparr>gv_signature := gv_signature d, gv_decision_hash := Some (compute_decision_hash e)\<rparr>"
    unfolding s compute_decision_hash_def e(2) by (cases d; cases e) simp
  moreover have "enforce_signed_governor_decision (Some verify) s = Return s"
    using ok by (simp add: s enforce_cases compute_decision_hash_def same)
  ultimately show ?thesis using e(1) by blast
qed

definition sample_decision :: governor_decision where
  "sample_decision = \<lparr>gv_schema_version = ''1.0'', gv_decision_id = ''d1'', gv_decision_ts = ''2026-01-01T00:00:00Z'',
     gv_intent_id = ''i1'', gv_decision = Approved_Shadow, gv_reason_codes = [], gv_invariant_trace = [],
     gv_policy_version = ''v1'', gv_actor = ''whale://w'', gv_signature = [], gv_decision_hash = None\<rparr>"

theorem governor_decision_authentic_witness:
  "enforce_signed_governor_decision (Some (\<lambda>t s. t = decision_payload_text sample_decision \<and> s = ''sig''))
     (sign_decision (\<lambda>t. ''sig'') sample_decision) =
   Return (sample_decision\<lparr>gv_signature := ''sig'', gv_decision_hash := Some (compute_decision_hash sample_decision)\<rparr>)"
proof -
  let ?v = "\<lambda>t s. t = decision_payload_text sample_decision \<and> s = ''sig''"
  let ?d = "sign_decision (\<lambda>t. ''sig'') sample_decision"
  have same: "decision_payload_text ?d = decision_payload_text sample_decision"
    by (simp add: sign_decision_def decision_payload_text_def decision_payload_def decision_fields_def)
  have strip: "strip (gv_signature ?d) = ''sig''"
    by (simp add: sign_decision_def strip_no_space is_space_def)
  have "gv_decision_hash ?d = Some (compute_decision_hash ?d)"
    using same by (simp add: compute_decision_hash_def) (simp add: sign_decision_def compute_decision_hash_def)
  then obtain s where s: "enforce_signed_governor_decision (Some ?v) ?d = Return s"
    unfolding enforce_cases using same strip by auto
  have "\<exists>e\<in>{sample_decision}. s = e\<lparr>gv_signature := gv_signature ?d, gv_decision_hash := Some (compute_decision_hash e)\<rparr> \<and>
      enforce_signed_governor_decision (Some ?v) s = Return s"
    by (rule governor_decision_authentic [OF _ s]) simp
  with s show ?thesis by (simp add: sign_decision_def)
qed

text \<open>
  An actor that neither carries nor is given the system role may do exactly what the table of
  the default policy lists for its role: an action outside the table is refused, and no such actor
  may both submit a strategy and approve a proposal, or both operate an execution and activate a policy.
\<close>

theorem rbac_separation:
  assumes "explicit_role_of explicit \<noteq> Some ''system''" "default_role \<noteq> ''system''"
    and "\<not> startswith (lower (strip actor)) ''solis.''"
    and "strip (before_infix ''://'' (lower (strip actor))) \<noteq> ''system''"
  defines "may \<equiv> \<lambda>action. rb_allowed (authorize default_rbac_policy action actor explicit default_role)"
  shows "(\<forall>action. may action \<longleftrightarrow>
      extract_actor_role actor explicit default_role \<in> set (allowed_roles_for default_rbac_policy action)) \<and>
    \<not> (may ''strategy.submit'' \<and> may ''proposal.approve'') \<and>
    \<not> (may ''execution.operate'' \<and> may ''policy.activate'')"
proof -
  let ?role = "extract_actor_role actor explicit default_role"
  have "before_infix ''://'' t = ''system''" if "prefix ''system://'' t" for t
    using that by (auto simp: prefix_def)
  then have "\<not> startswith (lower (strip actor)) ''system://''" using assms(4) by (auto simp: strip_no_space is_space_def)
  then have role: "?role \<noteq> ''system''"
    using assms(1-4) by (auto simp: extract_actor_role_def actor_prefix_role_def Let_def split: option.splits)
  then have "may action \<longleftrightarrow> ?role \<in> set (allowed_roles_for default_rbac_policy action)" for action
    by (simp add: may_def authorize_def Let_def) (simp add: default_rbac_policy_def)
  then show ?thesis by (simp add: allowed_roles_for_def default_rbac_policy_def dget_or_def)
qed

theorem rbac_separation_witness:
  "rb_allowed (authorize default_rbac_policy ''strategy.submit'' ''dev://alice'' None ''operator'') \<and>
   \<not> rb_allowed (authorize default_rbac_policy ''proposal.approve'' ''dev://alice'' None ''operator'')"
proof -
  have start: "explicit_role_of None \<noteq> Some ''system''" "''operator'' \<noteq> ''system''"
    "\<not> startswith (lower (strip ''dev://alice'')) ''solis.''"
    "strip (before_infix ''://'' (lower (strip ''dev://alice''))) \<noteq> ''system''" by code_simp+
  have "rb_allowed (authorize default_rbac_policy ''strategy.submit'' ''dev://alice'' None ''operator'')" by code_simp
  with rbac_separation [OF start] show ?thesis by blast
qed

end
