(* ===== verification/Governance_Limits.thy ===== *)
theory Governance_Limits
  imports Governance
begin

text \<open>
  \<^verbatim>\<open>solis/governance/invariants.py\<close> and \<^verbatim>\<open>solis/execution/intent.py\<close>: the limits a transition must
  keep, and the intents a strategy may submit.  Reading an intent out of a raw mapping (coercion of
  the fields to their declared types) is pydantic's and is a parameter; what the class declares on
  top of it is written out.
\<close>

section \<open>Reading a transition\<close>

definition round_to_int :: "pyfloat \<Rightarrow> int result" where
  "round_to_int x = (case x of
       Fin q \<Rightarrow> Return (round_even q)
     | NaN \<Rightarrow> Raise (ValueError ''cannot convert float NaN to integer'')
     | _ \<Rightarrow> Raise (OverflowError ''cannot convert float infinity to integer''))"

definition limit_int :: "pyval option \<Rightarrow> int \<Rightarrow> int result" where
  "limit_int value dflt = (case value of
       None \<Rightarrow> Return dflt
     | Some PNone \<Rightarrow> Return dflt
     | Some (PBool b) \<Rightarrow> Return (of_bool b)
     | Some (PInt n) \<Rightarrow> Return n
     | Some (PFloat x) \<Rightarrow> round_to_int x
     | Some v \<Rightarrow> (let text = strip (to_str v) in
                 if text = [] then Return dflt else bindR (parse_float text) round_to_int))"

definition limit_float :: "pyval option \<Rightarrow> pyfloat \<Rightarrow> pyfloat result" where
  "limit_float value dflt = (case value of
       None \<Rightarrow> Return dflt
     | Some PNone \<Rightarrow> Return dflt
     | Some (PBool b) \<Rightarrow> Return (Fin (if b then 1 else 0))
     | Some (PInt n) \<Rightarrow> int_to_float n
     | Some (PFloat x) \<Rightarrow> Return x
     | Some v \<Rightarrow> (let text = strip (to_str v) in if text = [] then Return dflt else parse_float text))"

definition limit_bool :: "pyval option \<Rightarrow> bool \<Rightarrow> bool" where
  "limit_bool value dflt = (case value of
       None \<Rightarrow> dflt
     | Some PNone \<Rightarrow> dflt
     | Some (PBool b) \<Rightarrow> b
     | Some (PInt n) \<Rightarrow> n \<noteq> 0
     | Some (PFloat x) \<Rightarrow> x \<noteq> Fin 0
     | Some v \<Rightarrow> (let text = lower (strip (to_str v)) in
                 if text \<in> {''true'', ''1'', ''yes'', ''on''} then True
                 else if text \<in> {''false'', ''0'', ''no'', ''off''} then False
                 else dflt))"

record limits_context =
  lc_gross :: int
  lc_net :: int
  lc_single_name :: int
  lc_turnover :: int
  lc_liquidity :: pyfloat
  lc_volatility :: pyfloat
  lc_uncertainty :: pyfloat
  lc_kill_switch :: bool
  lc_pause_switch :: bool
  lc_venue_healthy :: bool

record limits =
  lm_gross :: int
  lm_net :: int
  lm_single_name :: int
  lm_turnover :: int
  lm_liquidity :: pyfloat
  lm_volatility :: pyfloat
  lm_uncertainty :: pyfloat

definition default_limits :: limits where
  "default_limits = \<lparr>lm_gross = 20000, lm_net = 10000, lm_single_name = 5000, lm_turnover = 15000,
     lm_liquidity = lit (5 / 100), lm_volatility = Fin 1, lm_uncertainty = Fin 1\<rparr>"

text \<open>\<open>proposed.get(k, current.get(j))\<close>: the fallback counts only when the key is absent.\<close>

definition either_get :: "pyval dict \<Rightarrow> string \<Rightarrow> pyval dict \<Rightarrow> string \<Rightarrow> pyval option" where
  "either_get d k e j = (case dget d k of Some v \<Rightarrow> Some v | None \<Rightarrow> dget e j)"

definition governance_context_from_transition :: "pyval dict \<Rightarrow> pyval dict \<Rightarrow> limits_context result" where
  "governance_context_from_transition current proposed =
     bindR (limit_int (dget current ''gross_exposure_bps'') 0) (\<lambda>gross.
     bindR (limit_int (dget current ''net_exposure_bps'') 0) (\<lambda>net.
     bindR (limit_int (dget current ''single_name_exposure_bps'') 0) (\<lambda>single.
     bindR (limit_int (dget current ''turnover_bps_in_horizon'') 0) (\<lambda>turnover.
     bindR (limit_int (either_get proposed ''requested_exposure_delta_bps'' proposed ''exposure_delta_bps'') 0) (\<lambda>delta.
     bindR (limit_int (dget proposed ''gross_exposure_bps'') (gross + \<bar>delta\<bar>)) (\<lambda>p_gross.
     bindR (limit_int (dget proposed ''net_exposure_bps'') (net + delta)) (\<lambda>p_net.
     bindR (limit_int (dget proposed ''single_name_exposure_bps'') \<bar>single + delta\<bar>) (\<lambda>p_single.
     bindR (limit_int (dget proposed ''turnover_bps_in_horizon'') (turnover + \<bar>delta\<bar>)) (\<lambda>p_turnover.
     bindR (limit_float (either_get proposed ''liquidity_score'' current ''liquidity_score'') (Fin 1)) (\<lambda>liq.
     bindR (limit_float (either_get proposed ''volatility_score'' current ''volatility_score'') (Fin 0)) (\<lambda>vol.
     bindR (limit_float (either_get proposed ''regime_uncertainty'' current ''regime_uncertainty'') (Fin 0)) (\<lambda>unc.
       Return \<lparr>lc_gross = p_gross, lc_net = p_net, lc_single_name = p_single, lc_turnover = p_turnover,
         lc_liquidity = liq, lc_volatility = vol, lc_uncertainty = unc,
         lc_kill_switch = limit_bool (either_get proposed ''kill_switch_active'' current ''kill_switch_active'') False,
         lc_pause_switch = limit_bool (either_get proposed ''pause_switch_active'' current ''pause_switch_active'') False,
         lc_venue_healthy = limit_bool (either_get proposed ''venue_healthy'' current ''venue_healthy'') True\<rparr>))))))))))))"

section \<open>Checking the limits\<close>

record limit_result =
  lr_name :: string
  lr_passed :: bool
  lr_reason_code :: string
  lr_detail :: string

definition limit_ok :: "string \<Rightarrow> limit_result" where
  "limit_ok name = \<lparr>lr_name = name, lr_passed = True, lr_reason_code = ''OK'', lr_detail = []\<rparr>"

definition limit_fail :: "string \<Rightarrow> string \<Rightarrow> string \<Rightarrow> limit_result" where
  "limit_fail name reason detail = \<lparr>lr_name = name, lr_passed = False, lr_reason_code = reason, lr_detail = detail\<rparr>"

definition limit_row :: "string \<Rightarrow> bool \<Rightarrow> string \<Rightarrow> string \<Rightarrow> limit_result" where
  "limit_row name broken reason detail = (if broken then limit_fail name reason detail else limit_ok name)"

definition evaluate_governance_invariants :: "limits_context \<Rightarrow> limits \<Rightarrow> limit_result list" where
  "evaluate_governance_invariants c m =
     [limit_row ''kill_switch'' (lc_kill_switch c) ''KILL_SWITCH_ACTIVE'' [],
      limit_row ''pause_switch'' (lc_pause_switch c) ''PAUSE_SWITCH_ACTIVE'' [],
      limit_row ''venue_health'' (\<not> lc_venue_healthy c) ''VENUE_UNHEALTHY'' [],
      limit_row ''gross_exposure'' (lc_gross c > lm_gross m) ''GROSS_EXPOSURE_LIMIT_EXCEEDED''
        (py_str (lc_gross c) @ ''>'' @ py_str (lm_gross m)),
      limit_row ''net_exposure'' (\<bar>lc_net c\<bar> > lm_net m) ''NET_EXPOSURE_LIMIT_EXCEEDED''
        (py_str \<bar>lc_net c\<bar> @ ''>'' @ py_str (lm_net m)),
      limit_row ''single_name_exposure'' (lc_single_name c > lm_single_name m) ''SINGLE_NAME_EXPOSURE_LIMIT_EXCEEDED''
        (py_str (lc_single_name c) @ ''>'' @ py_str (lm_single_name m)),
      limit_row ''turnover'' (lc_turnover c > lm_turnover m) ''TURNOVER_LIMIT_EXCEEDED''
        (py_str (lc_turnover c) @ ''>'' @ py_str (lm_turnover m)),
      limit_row ''liquidity'' (f_less (lc_liquidity c) (lm_liquidity m)) ''LIQUIDITY_BELOW_MINIMUM''
        (format_f 6 (lc_liquidity c) @ ''<'' @ format_f 6 (lm_liquidity m)),
      limit_row ''volatility'' (f_less (lm_volatility m) (lc_volatility c)) ''VOLATILITY_ABOVE_MAX''
        (format_f 6 (lc_volatility c) @ ''>'' @ format_f 6 (lm_volatility m)),
      limit_row ''regime_uncertainty'' (f_less (lm_uncertainty m) (lc_uncertainty c)) ''REGIME_UNCERTAINTY_ABOVE_MAX''
        (format_f 6 (lc_uncertainty c) @ ''>'' @ format_f 6 (lm_uncertainty m))]"

section \<open>Execution intents\<close>

definition FORBIDDEN_ORDER_FIELDS :: "string list" where
  "FORBIDDEN_ORDER_FIELDS = [''qty'', ''quantity'', ''notional'', ''limit_price'', ''stop_price'', ''order_type'',
     ''side'', ''time_in_force'', ''client_order_id'', ''venue'', ''broker_order_id'']"

record execution_intent =
  ei_schema_version :: string
  ei_intent_id :: string
  ei_strategy_id :: string
  ei_as_of_ts :: string
  ei_symbol_set :: "string list"
  ei_requested_exposure_delta_bps :: int
  ei_horizon_ms :: int
  ei_confidence :: pyfloat
  ei_model_version :: string
  ei_features_commit_hash :: string
  ei_compiler_version :: "string option"
  ei_policy_version :: "string option"
  ei_risk_hints :: "string list"

definition symbol_step :: "string list \<Rightarrow> string \<Rightarrow> string list result" where
  "symbol_step normalized raw =
     (let symbol = upper (strip raw) in
      if symbol = [] then Raise (ValueError ''symbol_set cannot contain empty symbols'')
      else if symbol \<in> set normalized then Return normalized
      else Return (normalized @ [symbol]))"

definition normalize_symbols :: "string list \<Rightarrow> string list result" where
  "normalize_symbols symbols = foldR symbol_step [] symbols"

definition is_hex :: "char \<Rightarrow> bool" where
  "is_hex c = (c \<in> set ''0123456789abcdef'')"

definition commit_hash_of :: "string \<Rightarrow> string result" where
  "commit_hash_of value =
     (let text = lower (strip value) in
      if length text \<noteq> 40 \<and> length text \<noteq> 64 then Raise (ValueError ''features_commit_hash must be 40 or 64 hex chars'')
      else if \<not> list_all is_hex text then Raise (ValueError ''features_commit_hash must be lowercase hexadecimal'')
      else Return text)"

definition optionally :: "('a \<Rightarrow> 'b result) \<Rightarrow> 'a option \<Rightarrow> 'b option result" where
  "optionally f v = (case v of None \<Rightarrow> Return None | Some x \<Rightarrow> bindR (f x) (\<lambda>y. Return (Some y)))"

text \<open>The constraints of the fields, then their validators.\<close>

definition check_intent :: "execution_intent \<Rightarrow> execution_intent result" where
  "check_intent i =
     (if ei_intent_id i = [] \<or> ei_strategy_id i = [] \<or> ei_symbol_set i = [] \<or> ei_model_version i = [] \<or>
         ei_requested_exposure_delta_bps i < - 10000 \<or> 10000 < ei_requested_exposure_delta_bps i \<or>
         ei_horizon_ms i \<le> 0 \<or> \<not> (f_le (Fin 0) (ei_confidence i) \<and> f_le (ei_confidence i) (Fin 1)) \<or>
         length (ei_features_commit_hash i) < 40 \<or> 64 < length (ei_features_commit_hash i)
      then Raise (ValueError ''validation error'')
      else bindR (parse_semver (ei_schema_version i)) (\<lambda>_.
           bindR (normalize_symbols (ei_symbol_set i)) (\<lambda>symbols.
           bindR (commit_hash_of (ei_features_commit_hash i)) (\<lambda>commit.
           bindR (optionally parse_semver (ei_compiler_version i)) (\<lambda>_.
           bindR (optionally policy_version_of (ei_policy_version i)) (\<lambda>policy.
             Return (i\<lparr>ei_symbol_set := symbols, ei_features_commit_hash := commit, ei_policy_version := policy\<rparr>)))))))"

definition validate_execution_intent ::
    "(pyval dict \<Rightarrow> execution_intent result) \<Rightarrow> pyval dict \<Rightarrow> execution_intent result" where
  "validate_execution_intent parse raw =
     (let overlapping = sort (filter (\<lambda>k. k \<in> set FORBIDDEN_ORDER_FIELDS) (dkeys raw)) in
      if overlapping \<noteq> []
      then Raise (ValueError (''execution intent cannot contain direct order fields: '' @ join '','' overlapping))
      else bindR (parse raw) check_intent)"

section \<open>Normal forms of text\<close>

lemma upper_char_cases:
  obtains (lower) "97 \<le> code c \<and> code c \<le> 122 \<or> 224 \<le> code c \<and> code c \<le> 254 \<and> code c \<noteq> 247" "upper_char c = [char_of (code c - 32)]"
  | (sharp) "code c = 223" "upper_char c = ''SS''"
  | (same) "upper_char c = [c]"
  by (cases "97 \<le> code c \<and> code c \<le> 122 \<or> 224 \<le> code c \<and> code c \<le> 254 \<and> code c \<noteq> 247"; cases "code c = 223")
     (simp_all add: upper_char_def Let_def)

lemma upper_char_idem: "concat (map upper_char (upper_char c)) = upper_char c"
proof (cases c rule: upper_char_cases)
  case lower
  then have "code (char_of (code c - 32) :: char) = code c - 32" by auto
  with lower show ?thesis by (auto simp: upper_char_def Let_def)
next
  case sharp
  then show ?thesis by (simp add: upper_char_def)
next
  case same
  then show ?thesis by simp
qed

lemma upper_idem: "upper (upper s) = upper s"
  unfolding upper_def by (induction s) (simp_all add: upper_char_idem)

lemma upper_char_no_space: "\<not> is_space c \<Longrightarrow> upper_char c \<noteq> [] \<and> list_all (\<lambda>c. \<not> is_space c) (upper_char c)"
proof (cases c rule: upper_char_cases)
  case lower
  then have "code (char_of (code c - 32) :: char) = code c - 32" by auto
  with lower show ?thesis by (auto simp: is_space_def)
next
  case sharp
  then show ?thesis by (simp add: is_space_def)
qed simp

lemma tight_upper: "tight s \<Longrightarrow> tight (upper s)"
proof (cases s)
  case (Cons x xs)
  assume s: "tight s"
  have y: "s = butlast s @ [last s]" using Cons by (simp del: last.simps butlast.simps)
  have ends: "\<not> is_space x" "\<not> is_space (last s)" using s Cons by (auto simp: tight_def)
  have "upper s = upper_char x @ upper xs" using Cons by (simp add: upper_def)
  then have "\<not> is_space (hd (upper s))"
    using upper_char_no_space [OF ends(1)] by (cases "upper_char x") auto
  moreover have "upper s = upper (butlast s) @ upper_char (last s)" by (subst y) (simp add: upper_def)
  then have "\<not> is_space (last (upper s))"
    using upper_char_no_space [OF ends(2)] by (cases "upper_char (last s)" rule: rev_cases) auto
  ultimately show ?thesis by (simp add: tight_def)
qed (simp add: upper_def tight_def)

section \<open>Normal forms of intents\<close>

definition clean_symbol :: "string \<Rightarrow> bool" where
  "clean_symbol s = (upper s = s \<and> tight s \<and> s \<noteq> [])"

lemma symbol_step_result:
  "symbol_step acc x = Return ys \<Longrightarrow> distinct acc \<and> list_all clean_symbol acc \<Longrightarrow> distinct ys \<and> list_all clean_symbol ys"
  by (auto simp: symbol_step_def Let_def clean_symbol_def upper_idem tight_upper tight_strip split: if_splits)

lemma normalize_symbols_clean: "normalize_symbols xs = Return ys \<Longrightarrow> distinct ys \<and> list_all clean_symbol ys"
  unfolding normalize_symbols_def by (erule foldR_invariant) (simp_all add: symbol_step_result)

lemma symbol_step_clean: "clean_symbol s \<Longrightarrow> s \<notin> set acc \<Longrightarrow> symbol_step acc s = Return (acc @ [s])"
  by (simp add: symbol_step_def clean_symbol_def strip_id)

lemma normalize_symbols_fixed:
  assumes "distinct ys" "list_all clean_symbol ys"
  shows "normalize_symbols ys = Return ys"
proof -
  have "foldR symbol_step acc ys = Return (acc @ ys)" if "set acc \<inter> set ys = {}" for acc
    using that assms by (induction ys arbitrary: acc) (auto simp: symbol_step_clean)
  from this [of "[]"] show ?thesis by (simp add: normalize_symbols_def)
qed

lemma policy_version_fixed: "policy_version_of v = Return w \<Longrightarrow> policy_version_of w = Return w"
  by (auto simp: policy_version_of_def Let_def strip_idem split: if_splits)

lemma hex_char: "is_hex c \<Longrightarrow> \<not> is_space c \<and> lower_char c = c"
proof -
  have "list_all (\<lambda>c. \<not> is_space c \<and> lower_char c = c) ''0123456789abcdef''" by code_simp
  then show "is_hex c \<Longrightarrow> \<not> is_space c \<and> lower_char c = c" by (simp only: list_all_iff is_hex_def) blast
qed

lemma hex_clean: "list_all is_hex s \<Longrightarrow> strip s = s \<and> lower s = s"
  using hex_char by (auto simp: lower_def list_all_iff intro!: strip_no_space map_idI)

lemma commit_hash_fixed: "commit_hash_of v = Return w \<Longrightarrow> commit_hash_of w = Return w \<and> length w \<in> {40, 64} \<and> list_all is_hex w"
  using hex_clean by (auto simp: commit_hash_of_def Let_def split: if_splits)

lemma normalize_symbols_nonempty: "normalize_symbols xs = Return ys \<Longrightarrow> xs \<noteq> [] \<Longrightarrow> ys \<noteq> []"
proof (cases xs)
  case (Cons x zs)
  assume "normalize_symbols xs = Return ys"
  with Cons obtain acc where acc: "symbol_step [] x = Return acc" "foldR symbol_step acc zs = Return ys"
    by (auto simp: normalize_symbols_def elim!: bindR_ReturnE)
  then have "acc \<noteq> []" by (auto simp: symbol_step_def Let_def split: if_splits)
  with acc(2) show ?thesis
    by (rule foldR_invariant) (auto simp: symbol_step_def Let_def split: if_splits)
qed simp

lemma optionally_fixed:
  "optionally f v = Return w \<Longrightarrow> (\<And>x y. f x = Return y \<Longrightarrow> f y = Return y) \<Longrightarrow> optionally f w = Return w"
  by (cases v) (auto simp: optionally_def elim!: bindR_ReturnE)

section \<open>Properties\<close>

lemma limit_row_passed [simp]: "lr_passed (limit_row name broken reason detail) \<longleftrightarrow> \<not> broken"
  by (simp add: limit_row_def limit_ok_def limit_fail_def)

lemma limits_passed_iff:
  "list_all lr_passed (evaluate_governance_invariants c m) \<longleftrightarrow>
     \<not> lc_kill_switch c \<and> \<not> lc_pause_switch c \<and> lc_venue_healthy c \<and> lc_gross c \<le> lm_gross m \<and>
     \<bar>lc_net c\<bar> \<le> lm_net m \<and> lc_single_name c \<le> lm_single_name m \<and> lc_turnover c \<le> lm_turnover m \<and>
     \<not> f_less (lc_liquidity c) (lm_liquidity m) \<and> \<not> f_less (lm_volatility m) (lc_volatility c) \<and>
     \<not> f_less (lm_uncertainty m) (lc_uncertainty c)"
  by (auto simp: evaluate_governance_invariants_def)

lemmas limit_reads = governance_context_from_transition_def limit_int_def either_get_def

text \<open>
  C34: a transition that requests a change of exposure and states no exposure of its own passes the
  governance invariants exactly when the switches are off, the venue is healthy, the exposures the
  change leads to are within the limits -- on both sides of zero for the net and the single name --
  and no score is on the wrong side of its limit.
\<close>

theorem governance_limits_exact:
  assumes "dget current ''gross_exposure_bps'' = Some (PInt gross)" "dget current ''net_exposure_bps'' = Some (PInt net)"
    "dget current ''single_name_exposure_bps'' = Some (PInt single)" "dget current ''turnover_bps_in_horizon'' = Some (PInt turnover)"
    and "dget proposed ''requested_exposure_delta_bps'' = Some (PInt delta)"
    and "list_all (\<lambda>k. dget proposed k = None)
      [''gross_exposure_bps'', ''net_exposure_bps'', ''single_name_exposure_bps'', ''turnover_bps_in_horizon'']"
    and "governance_context_from_transition current proposed = Return c"
  shows "list_all lr_passed (evaluate_governance_invariants c m) \<longleftrightarrow>
    gross + \<bar>delta\<bar> \<le> lm_gross m \<and> - lm_net m \<le> net + delta \<and> net + delta \<le> lm_net m \<and>
    - lm_single_name m \<le> single + delta \<and> single + delta \<le> lm_single_name m \<and> turnover + \<bar>delta\<bar> \<le> lm_turnover m \<and>
    \<not> lc_kill_switch c \<and> \<not> lc_pause_switch c \<and> lc_venue_healthy c \<and>
    \<not> f_less (lc_liquidity c) (lm_liquidity m) \<and> \<not> f_less (lm_volatility m) (lc_volatility c) \<and>
    \<not> f_less (lm_uncertainty m) (lc_uncertainty c)"
proof -
  have "lc_gross c = gross + \<bar>delta\<bar>" "lc_net c = net + delta" "lc_single_name c = \<bar>single + delta\<bar>"
    "lc_turnover c = turnover + \<bar>delta\<bar>"
    using assms by (auto simp: limit_reads elim!: bindR_ReturnE)
  then show ?thesis unfolding limits_passed_iff by (auto simp: abs_le_iff)
qed

theorem governance_limits_exact_witness:
  "\<exists>c. governance_context_from_transition
      [(''gross_exposure_bps'', PInt 19000), (''net_exposure_bps'', PInt 500), (''single_name_exposure_bps'', PInt 0),
       (''turnover_bps_in_horizon'', PInt 0)] [(''requested_exposure_delta_bps'', PInt (- 2000))] = Return c \<and>
    \<not> list_all lr_passed (evaluate_governance_invariants c default_limits)"
proof -
  let ?cur = "[(''gross_exposure_bps'', PInt 19000), (''net_exposure_bps'', PInt 500), (''single_name_exposure_bps'', PInt 0),
       (''turnover_bps_in_horizon'', PInt 0)]"
  let ?pro = "[(''requested_exposure_delta_bps'', PInt (- 2000))]"
  obtain c where c: "governance_context_from_transition ?cur ?pro = Return c"
    by (simp add: limit_reads limit_float_def)
  have "list_all lr_passed (evaluate_governance_invariants c default_limits) \<longrightarrow> 19000 + \<bar>- 2000\<bar> \<le> lm_gross default_limits"
    using governance_limits_exact [OF _ _ _ _ _ _ c, of 19000 500 0 0 "- 2000" default_limits] by simp
  with c show ?thesis by (auto simp: default_limits_def)
qed

text \<open>
  C37: whatever pydantic reads out of a mapping, an intent that is accepted comes from a mapping
  without any order field; its symbols are distinct, stripped, upper-case and not empty; its change
  of exposure is within ten thousand basis points; its commit hash is 40 or 64 lower-case hexadecimal
  digits; and checking it again accepts it unchanged.
\<close>

theorem intent_without_order_authority:
  assumes "validate_execution_intent parse raw = Return i"
  shows "set (dkeys raw) \<inter> set FORBIDDEN_ORDER_FIELDS = {} \<and>
    distinct (ei_symbol_set i) \<and> list_all clean_symbol (ei_symbol_set i) \<and> ei_symbol_set i \<noteq> [] \<and>
    \<bar>ei_requested_exposure_delta_bps i\<bar> \<le> 10000 \<and>
    length (ei_features_commit_hash i) \<in> {40, 64} \<and> list_all is_hex (ei_features_commit_hash i) \<and>
    check_intent i = Return i"
proof -
  from assms obtain j where keys: "filter (\<lambda>k. k \<in> set FORBIDDEN_ORDER_FIELDS) (dkeys raw) = []"
    and j: "check_intent j = Return i"
    by (auto simp: validate_execution_intent_def Let_def simp: sort_Nil_iff split: if_splits elim!: bindR_ReturnE)
  have order: "set (dkeys raw) \<inter> set FORBIDDEN_ORDER_FIELDS = {}"
    using keys unfolding filter_empty_conv by blast
  from j obtain symbols commit policy where
      i: "i = j\<lparr>ei_symbol_set := symbols, ei_features_commit_hash := commit, ei_policy_version := policy\<rparr>"
    and parts: "normalize_symbols (ei_symbol_set j) = Return symbols" "commit_hash_of (ei_features_commit_hash j) = Return commit"
      "optionally policy_version_of (ei_policy_version j) = Return policy"
    and sem: "\<exists>v. parse_semver (ei_schema_version j) = Return v" "\<exists>v. optionally parse_semver (ei_compiler_version j) = Return v"
    and fields: "ei_intent_id j \<noteq> []" "ei_strategy_id j \<noteq> []" "ei_symbol_set j \<noteq> []" "ei_model_version j \<noteq> []"
      "- 10000 \<le> ei_requested_exposure_delta_bps j" "ei_requested_exposure_delta_bps j \<le> 10000" "0 < ei_horizon_ms j"
      "f_le (Fin 0) (ei_confidence j)" "f_le (ei_confidence j) (Fin 1)"
    by (auto simp: check_intent_def split: if_splits elim!: bindR_ReturnE)
  have clean: "distinct symbols" "list_all clean_symbol symbols" "symbols \<noteq> []"
    using normalize_symbols_clean [OF parts(1)] normalize_symbols_nonempty [OF parts(1) fields(3)] by auto
  have again: "normalize_symbols symbols = Return symbols" "commit_hash_of commit = Return commit"
      "optionally policy_version_of policy = Return policy" "length commit \<in> {40, 64}" "list_all is_hex commit"
    using normalize_symbols_fixed [OF clean(1,2)] commit_hash_fixed [OF parts(2)]
      optionally_fixed [OF parts(3) policy_version_fixed] by auto
  have "check_intent i = Return i"
    using again sem fields clean(3) by (auto simp: check_intent_def i)
  with order clean again fields show ?thesis by (simp add: i)
qed

definition sample_intent :: execution_intent where
  "sample_intent = \<lparr>ei_schema_version = ''1.0'', ei_intent_id = ''i'', ei_strategy_id = ''s'', ei_as_of_ts = [],
     ei_symbol_set = ['' btc '', ''BTC''], ei_requested_exposure_delta_bps = 10, ei_horizon_ms = 1, ei_confidence = Fin 1,
     ei_model_version = ''m'', ei_features_commit_hash = replicate 40 (CHR ''A''), ei_compiler_version = None,
     ei_policy_version = None, ei_risk_hints = []\<rparr>"

theorem intent_without_order_authority_witness:
  "\<exists>i. validate_execution_intent (\<lambda>raw. Return sample_intent) [(''intent_id'', PStr ''i'')] = Return i \<and>
    ei_symbol_set i = [''BTC''] \<and> check_intent i = Return i"
proof -
  have "case validate_execution_intent (\<lambda>raw. Return sample_intent) [(''intent_id'', PStr ''i'')] of
      Inr i \<Rightarrow> ei_symbol_set i = [''BTC''] | Inl _ \<Rightarrow> False" by code_simp
  then obtain i where i: "validate_execution_intent (\<lambda>raw. Return sample_intent) [(''intent_id'', PStr ''i'')] = Return i"
      "ei_symbol_set i = [''BTC'']" by (auto split: sum.splits)
  from intent_without_order_authority [OF i(1)] have "check_intent i = Return i" by blast
  with i show ?thesis by blast
qed

end
