(* ===== verification/Agent_Dsl.thy ===== *)
theory Agent_Dsl
  imports Value_Json Datetime
begin

text \<open>
  \<^verbatim>\<open>solis/agent/dsl\<close> with \<^verbatim>\<open>solis/strategy_dsl/compiler.py\<close>, \<^verbatim>\<open>solis/agent/runtime/execution_graph.py\<close>
  and \<^verbatim>\<open>instance_state.py\<close>, \<^verbatim>\<open>solis/agent/marketplace\<close> (template registry and versions) and
  \<^verbatim>\<open>solis/agent/sandbox\<close> (clock and replay): agents written as text, the graphs they compile to, and
  the registry of compiled templates.
\<close>

section \<open>Lines of a text\<close>

definition is_line_break :: "char \<Rightarrow> bool" where
  "is_line_break c = (code c \<in> {10, 11, 12, 13, 28, 29, 30, 133})"

text \<open>\<open>str.splitlines()\<close>; a carriage return and a line feed are one break.\<close>

function py_splitlines :: "string \<Rightarrow> string list" where
  "py_splitlines [] = []"
| "py_splitlines (c # cs) =
     (if is_line_break c
      then [] # py_splitlines (if code c = 13 \<and> cs \<noteq> [] \<and> code (hd cs) = 10 then tl cs else cs)
      else (case py_splitlines cs of [] \<Rightarrow> [[c]] | l # ls \<Rightarrow> (c # l) # ls))"
  by pat_completeness auto
termination
  by (relation "measure length") auto

section \<open>Agents as text\<close>

record allocation_rule =
  al_asset :: string
  al_percent :: string

record risk_config =
  rk_max_drawdown :: string
  rk_collapse_threshold :: string
  rk_no_margin :: bool

record agent_ast =
  ag_name :: string
  ag_version :: string
  ag_assets :: "string list"
  ag_allocation :: "allocation_rule list"
  ag_rebalance_interval :: string
  ag_risk :: risk_config

definition dsl_lines :: "string \<Rightarrow> string list" where
  "dsl_lines text = filter (\<lambda>l. l \<noteq> []) (map strip (py_splitlines text))"

definition extract_line_start :: "string list \<Rightarrow> string \<Rightarrow> string result" where
  "extract_line_start lines p =
     (case filter (\<lambda>l. startswith l p) lines of
        l # _ \<Rightarrow> Return l
      | [] \<Rightarrow> Raise (ValueError (''dsl: missing line '' @ CHR 0x27 # p @ ''...'' @ CHR 0x27 # '' '')))"

definition extract_after :: "string list \<Rightarrow> string \<Rightarrow> string result" where
  "extract_after lines p =
     bindR (extract_line_start lines (p @ '' '')) (\<lambda>target. Return (strip (removeprefix target (p @ '' ''))))"

text \<open>The lines after the header up to one that starts with a stop token; the header may recur.\<close>

fun block_items :: "string \<Rightarrow> string list \<Rightarrow> bool \<Rightarrow> string list \<Rightarrow> string list" where
  "block_items header stops inside [] = []"
| "block_items header stops inside (l # ls) =
     (if l = header then block_items header stops True ls
      else if \<not> inside then block_items header stops inside ls
      else if list_ex (startswith l) stops then []
      else l # block_items header stops inside ls)"

definition extract_block_items :: "string list \<Rightarrow> string \<Rightarrow> string list \<Rightarrow> string list result" where
  "extract_block_items lines header stops =
     (case block_items header stops False lines of
        [] \<Rightarrow> Raise (ValueError (''dsl: block '' @ CHR 0x27 # header @ CHR 0x27 # '' empty or missing''))
      | items \<Rightarrow> Return items)"

definition two_words :: "string \<Rightarrow> string \<Rightarrow> (string \<times> string) result" where
  "two_words what row = (case py_words row of [a, b] \<Rightarrow> Return (a, b)
     | _ \<Rightarrow> Raise (ValueError (''dsl: invalid '' @ what @ '' row: '' @ row)))"

definition risk_fields :: "string list" where
  "risk_fields = [''collapse_threshold'', ''max_drawdown'', ''no_margin'']"

definition parse_agent_dsl :: "string \<Rightarrow> agent_ast result" where
  "parse_agent_dsl text =
     (let lines = dsl_lines text in
      if lines = [] \<or> \<not> startswith (hd lines) ''agent '' then Raise (ValueError ''dsl: missing agent declaration'')
      else case py_words (hd lines) of
        _ # name # _ \<Rightarrow>
          bindR (extract_after lines ''version'') (\<lambda>version.
          bindR (extract_block_items lines ''assets:'' [''allocation:'', ''rebalance'', ''risk:'']) (\<lambda>assets.
          bindR (extract_block_items lines ''allocation:'' [''rebalance'', ''risk:'']) (\<lambda>alloc_lines.
          bindR (mapR (\<lambda>row. bindR (two_words ''allocation'' row) (\<lambda>(a, p). Return \<lparr>al_asset = a, al_percent = p\<rparr>)) alloc_lines) (\<lambda>allocation.
          bindR (extract_line_start lines ''rebalance interval '') (\<lambda>rebalance_row.
          bindR (extract_block_items lines ''risk:'' [''}'']) (\<lambda>risk_lines.
          bindR (foldR (\<lambda>m row. bindR (two_words ''risk'' row) (\<lambda>(k, v). Return (dset k v m))) [] risk_lines) (\<lambda>risk_map.
            let missing = filter (\<lambda>k. \<not> has_key risk_map k) risk_fields in
            if missing \<noteq> [] then Raise (ValueError (''dsl: missing risk fields: '' @ join '','' missing))
            else Return \<lparr>ag_name = name, ag_version = version, ag_assets = assets, ag_allocation = allocation,
              ag_rebalance_interval = strip (removeprefix rebalance_row ''rebalance interval ''),
              ag_risk = \<lparr>rk_max_drawdown = dget_or risk_map ''max_drawdown'' [],
                rk_collapse_threshold = dget_or risk_map ''collapse_threshold'' [],
                rk_no_margin = (lower (dget_or risk_map ''no_margin'' []) = ''true'')\<rparr>\<rparr>)))))))
      | _ \<Rightarrow> Raise (IndexError ''list index out of range''))"

section \<open>Execution graphs\<close>

record graph_node =
  gn_node_id :: string
  gn_op :: string
  gn_payload :: "string dict"

record execution_graph =
  eg_nodes :: "graph_node list"
  eg_edges :: "(string \<times> string) list"

definition alloc_node :: "nat \<Rightarrow> allocation_rule \<Rightarrow> graph_node" where
  "alloc_node i r = \<lparr>gn_node_id = ''alloc_'' @ zero_pad 3 (int i), gn_op = ''allocate'',
     gn_payload = [(''asset'', al_asset r), (''percent'', al_percent r)]\<rparr>"

text \<open>The loop over the allocation: the nodes and edges so far and the node before.\<close>

definition alloc_step ::
    "graph_node list \<times> (string \<times> string) list \<times> string \<Rightarrow> nat \<times> allocation_rule \<Rightarrow>
     graph_node list \<times> (string \<times> string) list \<times> string" where
  "alloc_step = (\<lambda>(nodes, edges, prev) (i, r).
     (let n = alloc_node i r in (nodes @ [n], edges @ [(prev, gn_node_id n)], gn_node_id n)))"

definition node_json :: "graph_node \<Rightarrow> json" where
  "node_json n = JObj [(''node_id'', JStr (gn_node_id n)), (''op'', JStr (gn_op n)),
     (''payload'', JObj (map (map_prod id JStr) (sort_key fst (gn_payload n))))]"

definition graph_json :: "execution_graph \<Rightarrow> json" where
  "graph_json g = JObj [(''nodes'', JArr (map node_json (eg_nodes g))),
     (''edges'', JArr (map (\<lambda>(a, b). JArr [JStr a, JStr b]) (eg_edges g)))]"

definition compile_to_graph :: "agent_ast \<Rightarrow> execution_graph \<times> string" where
  "compile_to_graph ast =
     (let start = \<lparr>gn_node_id = ''start'', gn_op = ''start'',
            gn_payload = [(''agent'', ag_name ast), (''version'', ag_version ast)]\<rparr>;
          risk = \<lparr>gn_node_id = ''risk_guard'', gn_op = ''risk_guard'',
            gn_payload = [(''max_drawdown'', rk_max_drawdown (ag_risk ast)),
              (''collapse_threshold'', rk_collapse_threshold (ag_risk ast)),
              (''no_margin'', lower (py_bool_str (rk_no_margin (ag_risk ast))))]\<rparr>;
          finish = \<lparr>gn_node_id = ''end'', gn_op = ''end'', gn_payload = [(''rebalance_interval'', ag_rebalance_interval ast)]\<rparr>
      in case foldl alloc_step ([start], [], ''start'') (enumerate 1 (ag_allocation ast)) of
        (nodes, edges, prev) \<Rightarrow>
          (let graph = \<lparr>eg_nodes = nodes @ [risk, finish],
                 eg_edges = edges @ [(prev, ''risk_guard''), (''risk_guard'', ''end'')]\<rparr>
           in (graph, sha256_hex_obj (graph_json graph))))"

definition compile_dsl :: "string \<Rightarrow> (execution_graph \<times> string) result" where
  "compile_dsl text = bindR (parse_agent_dsl text) (\<lambda>ast. Return (compile_to_graph ast))"

section \<open>Templates and instances\<close>

record template_record =
  tr_template_id :: string
  tr_version :: string
  tr_graph_hash :: string
  tr_owner_uri :: string

type_synonym template_registry = "template_record dict"

definition template_key :: "string \<Rightarrow> string \<Rightarrow> string" where
  "template_key template_id version = template_id @ '':'' @ version"

definition register_template :: "template_registry \<Rightarrow> template_record \<Rightarrow> template_registry result" where
  "register_template ts r =
     (let key = template_key (tr_template_id r) (tr_version r) in
      if has_key ts key then Raise (ValueError ''template version already exists'') else Return (dset key r ts))"

definition get_template :: "template_registry \<Rightarrow> string \<Rightarrow> string \<Rightarrow> template_record result" where
  "get_template ts template_id version =
     (case dget ts (template_key template_id version) of
        None \<Rightarrow> Raise (KeyError (template_key template_id version))
      | Some r \<Rightarrow> Return r)"

definition bump_version :: "string \<Rightarrow> string result" where
  "bump_version version =
     (let parts = split_char (CHR ''.'') version in
      if length parts \<noteq> 3 \<or> \<not> list_all py_isdigit parts then Raise (ValueError ''version must be semver-like: X.Y.Z'')
      else bindR (mapR py_int parts) (\<lambda>ns.
        Return (join ''.'' (map py_str [ns ! 0, ns ! 1, ns ! 2 + 1]))))"

record agent_instance_state =
  ai_instance_id :: string
  ai_template_id :: string
  ai_owner_uri :: string
  ai_graph_hash :: string
  ai_events :: "string dict list"

definition append_instance_event :: "agent_instance_state \<Rightarrow> string \<Rightarrow> string \<Rightarrow> agent_instance_state" where
  "append_instance_event s event_id action =
     s\<lparr>ai_events := ai_events s @ [[(''event_id'', event_id), (''action'', action)]]\<rparr>"

section \<open>Sandbox\<close>

record deterministic_clock =
  dc_start :: int
  dc_step_seconds :: int
  dc_tick_count :: int

definition deterministic_clock_now :: "deterministic_clock \<Rightarrow> int" where
  "deterministic_clock_now c = dc_start c + dc_tick_count c * dc_step_seconds c * 1000000"

definition deterministic_clock_tick :: "deterministic_clock \<Rightarrow> int \<times> deterministic_clock" where
  "deterministic_clock_tick c =
     (let c' = c\<lparr>dc_tick_count := dc_tick_count c + 1\<rparr> in (deterministic_clock_now c', c'))"

definition state_hash :: "pyval dict \<Rightarrow> string" where
  "state_hash state = hash_val (PDict state)"

definition replay_events ::
    "pyval dict \<Rightarrow> pyval dict list \<Rightarrow> (pyval dict \<Rightarrow> pyval dict \<Rightarrow> pyval dict) \<Rightarrow> pyval dict \<times> string" where
  "replay_events initial events reducer =
     (let state = foldl reducer initial events in (state, state_hash state))"

section \<open>The compiled graph is a chain\<close>

definition alloc_nodes :: "nat \<Rightarrow> allocation_rule list \<Rightarrow> graph_node list" where
  "alloc_nodes i rs = map (\<lambda>(j, r). alloc_node j r) (enumerate i rs)"

lemma alloc_nodes_simps [simp]:
  "alloc_nodes i [] = []" "alloc_nodes i (r # rs) = alloc_node i r # alloc_nodes (Suc i) rs"
  by (simp_all add: alloc_nodes_def)

definition chain_edges :: "string list \<Rightarrow> (string \<times> string) list" where
  "chain_edges ids = zip ids (tl ids)"

lemma chain_edges_Cons [simp]: "chain_edges (a # b # ids) = (a, b) # chain_edges (b # ids)"
  by (simp add: chain_edges_def)

lemma chain_edges_single [simp]: "chain_edges [a] = []"
  by (simp add: chain_edges_def)

lemma alloc_fold:
  "foldl alloc_step (ns, es, prev) (enumerate i rs) =
     (ns @ alloc_nodes i rs, es @ chain_edges (prev # map gn_node_id (alloc_nodes i rs)),
      last (prev # map gn_node_id (alloc_nodes i rs)))"
  by (induction rs arbitrary: ns es prev i) (simp_all add: alloc_step_def Let_def)

lemma chain_edges_snoc: "ids \<noteq> [] \<Longrightarrow> chain_edges (ids @ [x]) = chain_edges ids @ [(last ids, x)]"
  by (induction ids rule: induct_list012) simp_all

lemma alloc_id_inj: "gn_node_id (alloc_node i r) = gn_node_id (alloc_node j q) \<longleftrightarrow> i = j"
proof -
  have "i = j" if "zero_pad 3 (int i) = zero_pad 3 (int j)"
    using arg_cong [OF that, of digits_val] by (simp add: zero_pad_val)
  then show ?thesis unfolding alloc_node_def graph_node.simps same_append_eq by blast
qed

lemma alloc_ids_from: "x \<in> set (alloc_nodes i rs) \<Longrightarrow> \<exists>j r. i \<le> j \<and> x = alloc_node j r"
proof (induction rs arbitrary: i)
  case (Cons r rs)
  then show ?case using Suc_leD by fastforce
qed simp

lemma distinct_alloc_ids: "distinct (map gn_node_id (alloc_nodes i rs))"
proof (induction rs arbitrary: i)
  case (Cons r rs)
  have "gn_node_id (alloc_node i r) \<notin> gn_node_id ` set (alloc_nodes (Suc i) rs)"
    using alloc_ids_from [of _ "Suc i" rs] alloc_id_inj by fastforce
  with Cons show ?case by simp
qed simp

definition graph_ids :: "execution_graph \<Rightarrow> string list" where
  "graph_ids g = map gn_node_id (eg_nodes g)"

lemma compile_nodes:
  "eg_nodes (fst (compile_to_graph ast)) =
     \<lparr>gn_node_id = ''start'', gn_op = ''start'', gn_payload = [(''agent'', ag_name ast), (''version'', ag_version ast)]\<rparr> #
     alloc_nodes 1 (ag_allocation ast) @
     [\<lparr>gn_node_id = ''risk_guard'', gn_op = ''risk_guard'',
        gn_payload = [(''max_drawdown'', rk_max_drawdown (ag_risk ast)),
          (''collapse_threshold'', rk_collapse_threshold (ag_risk ast)),
          (''no_margin'', lower (py_bool_str (rk_no_margin (ag_risk ast))))]\<rparr>,
      \<lparr>gn_node_id = ''end'', gn_op = ''end'', gn_payload = [(''rebalance_interval'', ag_rebalance_interval ast)]\<rparr>]"
  by (simp add: compile_to_graph_def Let_def alloc_fold)

lemma compile_chain: "eg_edges (fst (compile_to_graph ast)) = chain_edges (graph_ids (fst (compile_to_graph ast)))"
proof -
  let ?ids = "''start'' # map gn_node_id (alloc_nodes 1 (ag_allocation ast))"
  have "eg_edges (fst (compile_to_graph ast)) = chain_edges ?ids @ [(last ?ids, ''risk_guard''), (''risk_guard'', ''end'')]"
    by (simp add: compile_to_graph_def Let_def alloc_fold)
  also have "\<dots> = chain_edges ((?ids @ [''risk_guard'']) @ [''end''])"
    by (subst chain_edges_snoc, simp, subst chain_edges_snoc) simp_all
  finally show ?thesis by (simp add: graph_ids_def compile_nodes)
qed

lemma compile_ids_distinct: "distinct (graph_ids (fst (compile_to_graph ast)))"
proof -
  have other: "x \<notin> gn_node_id ` set (alloc_nodes i rs)" if "take 2 x \<noteq> ''al''" for x i rs
  proof
    assume "x \<in> gn_node_id ` set (alloc_nodes i rs)"
    then obtain j r where "x = gn_node_id (alloc_node j r)" by (auto dest: alloc_ids_from)
    with that show False by (simp add: alloc_node_def)
  qed
  show ?thesis using distinct_alloc_ids [of 1 "ag_allocation ast"]
    by (simp add: graph_ids_def compile_nodes other)
qed

lemma bool_text: "lower (py_bool_str True) = ''true''" "lower (py_bool_str False) = ''false''"
  by code_simp+

section \<open>Properties\<close>

text \<open>
  The graph an agent's text compiles to is one chain through nodes with distinct names, from the
  start over the allocations in the order they are written to the risk guard and the end, so nothing
  reaches the end but through the risk guard; the guard holds the three risk fields of the text; and
  the hash is the one of the graph.
\<close>

theorem compiled_agent_guarded:
  assumes "compile_dsl text = Return (g, h)"
  shows "\<exists>ast. parse_agent_dsl text = Return ast \<and>
    distinct (graph_ids g) \<and> eg_edges g = zip (graph_ids g) (tl (graph_ids g)) \<and>
    map gn_op (eg_nodes g) = ''start'' # map (\<lambda>_. ''allocate'') (ag_allocation ast) @ [''risk_guard'', ''end''] \<and>
    map gn_payload (butlast (butlast (tl (eg_nodes g)))) =
      map (\<lambda>r. [(''asset'', al_asset r), (''percent'', al_percent r)]) (ag_allocation ast) \<and>
    gn_payload (last (butlast (eg_nodes g))) =
      [(''max_drawdown'', rk_max_drawdown (ag_risk ast)), (''collapse_threshold'', rk_collapse_threshold (ag_risk ast)),
       (''no_margin'', if rk_no_margin (ag_risk ast) then ''true'' else ''false'')] \<and>
    h = sha256_hex_obj (graph_json g)"
proof -
  from assms obtain ast where ast: "parse_agent_dsl text = Return ast" "compile_to_graph ast = (g, h)"
    by (auto simp: compile_dsl_def elim!: bindR_ReturnE)
  then have g: "g = fst (compile_to_graph ast)" by simp
  have ops: "map gn_op (alloc_nodes i rs) = map (\<lambda>_. ''allocate'') rs"
    "map gn_payload (alloc_nodes i rs) = map (\<lambda>r. [(''asset'', al_asset r), (''percent'', al_percent r)]) rs" for i rs
    by (induction rs arbitrary: i) (simp_all add: alloc_node_def)
  have bool: "lower (py_bool_str b) = (if b then ''true'' else ''false'')" for b
    using bool_text by (cases b) simp_all
  have hash: "h = sha256_hex_obj (graph_json g)" using ast(2) by (auto simp: compile_to_graph_def Let_def split: prod.splits)
  show ?thesis
    using ast(1) compile_ids_distinct [of ast] compile_chain [of ast] hash
    by (auto simp: g compile_nodes chain_edges_def ops bool butlast_append intro!: exI [of _ ast])
qed

definition sample_agent :: string where
  "sample_agent = join [CHR 0x0A]
     [''agent Rebalancer {'', ''  version 1.2.0'', ''  assets:'', ''    BTC'', ''    ETH'', ''  allocation:'', ''    BTC 60%'',
      ''    ETH 40%'', ''  rebalance interval 24h'', ''  risk:'', ''    max_drawdown 15%'', ''    collapse_threshold 0.7'',
      ''    no_margin True'', ''}'']"

theorem compiled_agent_guarded_witness:
  "\<exists>g h. compile_dsl sample_agent = Return (g, h) \<and> distinct (graph_ids g) \<and>
    eg_edges g = [(''start'', ''alloc_001''), (''alloc_001'', ''alloc_002''), (''alloc_002'', ''risk_guard''), (''risk_guard'', ''end'')]"
proof -
  have "case parse_agent_dsl sample_agent of Inr ast \<Rightarrow>
      map gn_node_id (alloc_nodes 1 (ag_allocation ast)) = [''alloc_001'', ''alloc_002''] | Inl _ \<Rightarrow> False" by code_simp
  then obtain ast where ast: "parse_agent_dsl sample_agent = Return ast"
      "map gn_node_id (alloc_nodes 1 (ag_allocation ast)) = [''alloc_001'', ''alloc_002'']" by (auto split: sum.splits)
  define g h where "g = fst (compile_to_graph ast)" and "h = snd (compile_to_graph ast)"
  have c: "compile_dsl sample_agent = Return (g, h)" by (simp add: compile_dsl_def ast(1) g_def h_def)
  have "graph_ids g = [''start'', ''alloc_001'', ''alloc_002'', ''risk_guard'', ''end'']"
    using ast(2) by (simp add: g_def graph_ids_def compile_nodes)
  with c compiled_agent_guarded [OF c] show ?thesis by auto
qed

text \<open>A registered template stays what it was: registering never replaces a record.\<close>

lemma register_keeps:
  "register_template ts r = Return ts' \<Longrightarrow> get_template ts i v = Return q \<Longrightarrow> get_template ts' i v = Return q"
  by (auto simp: register_template_def get_template_def has_key_def Let_def split: if_splits option.splits)

end
