(* ===== verification/Stellar_Projector.thy ===== *)
theory Stellar_Projector
  imports Policy_Guard Value_Json
begin

text \<open>
  \<^verbatim>\<open>solis/projectors\<close>, \<^verbatim>\<open>solis/entanglement/stellar_relationships.py\<close>, \<^verbatim>\<open>solis/gdml/solis_policy_sync.py\<close>
  and \<^verbatim>\<open>solis_reward_adapter.py\<close>: the next state of a star from a change of its metrics, computed in
  fixed point between a reading from and a writing to floats; how unstable a state is; what an event
  of the chain does to a star; and what a policy does to it.
\<close>

section \<open>Floats and fixed-point numbers\<close>

text \<open>\<open>format(x, ".18g")\<close>: eighteen significant digits without trailing zeros.\<close>

definition place_digits :: "string \<Rightarrow> int \<Rightarrow> string" where
  "place_digits ds k =
     (let n = int (length ds); zeros = (\<lambda>j. replicate (nat j) (CHR ''0'')) in
      if k - 1 < - 4 \<or> 18 \<le> k - 1
      then take 1 ds @ (if n = 1 then [] else CHR ''.'' # drop 1 ds) @ ''e'' @
           (if k - 1 < 0 then ''-'' else ''+'') @ zero_pad 2 \<bar>k - 1\<bar>
      else if k \<le> 0 then ''0.'' @ zeros (- k) @ ds
      else if n \<le> k then ds @ zeros (k - n)
      else take (nat k) ds @ CHR ''.'' # drop (nat k) ds)"

definition format_g18_pos :: "rat \<Rightarrow> string" where
  "format_g18_pos x =
     (let k = decimal_point x; q = round_even (x * ten_pow (18 - k)) in
      if q = 10 ^ 18 then place_digits ''1'' (k + 1) else place_digits (rstrip_char (CHR ''0'') (show_digits q)) k)"

definition format_g18 :: "pyfloat \<Rightarrow> string" where
  "format_g18 x = (case x of
       Fin q \<Rightarrow> if q = 0 then ''0'' else if q < 0 then CHR ''-'' # format_g18_pos (- q) else format_g18_pos q
     | _ \<Rightarrow> repr_float x)"

definition float_to_fixed_str :: "pyfloat \<Rightarrow> string" where
  "float_to_fixed_str x = (case x of
       PInf \<Rightarrow> ''Infinity'' | MInf \<Rightarrow> ''-Infinity'' | NaN \<Rightarrow> ''NaN''
     | Fin _ \<Rightarrow>
         (case decimal_parts (format_g18 x) of
            None \<Rightarrow> format_g18 x
          | Some d \<Rightarrow>
              (let t = decimal_format_f d;
                   t' = (if CHR ''.'' \<in> set t then rstrip_char (CHR ''.'') (rstrip_char (CHR ''0'') t) else t)
               in if t' = [] \<or> t' = ''-0'' then ''0'' else t')))"

text \<open>\<open>_as_fixed\<close> of the projector, and of the services, which take anything else for zero.\<close>

definition as_fixed :: "pyval \<Rightarrow> fixed64 result" where
  "as_fixed v = (case v of
       PInt n \<Rightarrow> from_int n
     | PBool b \<Rightarrow> from_int (of_bool b)
     | PFloat x \<Rightarrow> from_str (float_to_fixed_str x)
     | PStr s \<Rightarrow> from_str s
     | _ \<Rightarrow> Raise (TypeError ''unsupported fixed-point value type''))"

definition service_as_fixed :: "pyval \<Rightarrow> fixed64 result" where
  "service_as_fixed v = (case v of
       PInt n \<Rightarrow> from_int n
     | PBool b \<Rightarrow> from_int (of_bool b)
     | PFloat x \<Rightarrow> from_str (format_g18 x)
     | PStr s \<Rightarrow> from_str s
     | _ \<Rightarrow> Return fx_zero)"

definition fixed_to_float :: "fixed64 \<Rightarrow> pyfloat result" where
  "fixed_to_float x = bindR (Fixed_Math.to_str 18 x) parse_float"

definition as_projection_float :: "pyval \<Rightarrow> pyfloat result" where
  "as_projection_float v = bindR (as_fixed v) fixed_to_float"

definition service_projection_float :: "pyval \<Rightarrow> pyfloat result" where
  "service_projection_float v = bindR (service_as_fixed v) fixed_to_float"

section \<open>Stellar states\<close>

record stellar_state =
  st_star_id :: string
  st_chain_id :: string
  st_mass :: pyfloat
  st_luminosity :: pyfloat
  st_core_temp :: pyfloat
  st_magnetic_field :: pyfloat
  st_entropy_index :: pyfloat
  st_fusion_rate :: pyfloat
  st_collapse_probability :: pyfloat

definition zero_float :: pyval where
  "zero_float = PFloat (Fin 0)"

definition stellar_from_mapping :: "pyval dict \<Rightarrow> stellar_state result" where
  "stellar_from_mapping data =
     (let get = (\<lambda>k. as_projection_float (dget_or data k zero_float)) in
      bindR (get ''mass'') (\<lambda>mass. bindR (get ''luminosity'') (\<lambda>luminosity.
      bindR (get ''core_temp'') (\<lambda>core_temp. bindR (get ''magnetic_field'') (\<lambda>magnetic.
      bindR (get ''entropy_index'') (\<lambda>entropy. bindR (get ''fusion_rate'') (\<lambda>fusion.
      bindR (get ''collapse_probability'') (\<lambda>collapse.
        Return \<lparr>st_star_id = to_str (dget_or data ''star_id'' (PStr [])), st_chain_id = to_str (dget_or data ''chain_id'' (PStr [])),
          st_mass = mass, st_luminosity = luminosity, st_core_temp = core_temp, st_magnetic_field = magnetic,
          st_entropy_index = entropy, st_fusion_rate = fusion, st_collapse_probability = collapse\<rparr>))))))))"

definition stellar_as_dict :: "stellar_state \<Rightarrow> pyval dict" where
  "stellar_as_dict s =
     [(''star_id'', PStr (st_star_id s)), (''chain_id'', PStr (st_chain_id s)), (''mass'', PFloat (st_mass s)),
      (''luminosity'', PFloat (st_luminosity s)), (''core_temp'', PFloat (st_core_temp s)),
      (''magnetic_field'', PFloat (st_magnetic_field s)), (''entropy_index'', PFloat (st_entropy_index s)),
      (''fusion_rate'', PFloat (st_fusion_rate s)), (''collapse_probability'', PFloat (st_collapse_probability s))]"

section \<open>Projection\<close>

definition fixed_epsilon :: "fixed64 result" where
  "fixed_epsilon = from_str ''0.000000001''"

definition max_fixed :: "fixed64 \<Rightarrow> fixed64 \<Rightarrow> fixed64" where
  "max_fixed a b = (if a \<ge> b then a else b)"

definition sum_projection_fixed :: "pyfloat \<Rightarrow> pyval \<Rightarrow> fixed64 result" where
  "sum_projection_fixed a b = bindR (as_fixed (PFloat a)) (\<lambda>x. bindR (as_fixed b) (fx_add x))"

definition fusion_coefficient_fixed :: "fixed64 \<Rightarrow> fixed64 \<Rightarrow> fixed64 result" where
  "fusion_coefficient_fixed mass entropy =
     bindR (bindR (fx_add fx_one (max_fixed entropy fx_zero)) (fx_div fx_one)) (\<lambda>entropy_damping.
     bindR (bindR (fx_add mass fx_one) (fx_div mass)) (\<lambda>mass_boost.
     bindR (from_int 10) (\<lambda>ten.
     bindR (bindR (fx_div mass_boost ten) (fx_add fx_one)) (fx_mul entropy_damping))))"

text \<open>The fixed-point part of the projection: mass, luminosity, entropy, magnetic field, core temperature, fusion, collapse.\<close>

definition project_fixed ::
    "stellar_state \<Rightarrow> pyval dict \<Rightarrow>
     (fixed64 \<times> fixed64 \<times> fixed64 \<times> fixed64 \<times> fixed64 \<times> fixed64 \<times> fixed64) result" where
  "project_fixed state delta =
     bindR (sum_projection_fixed (st_mass state) (dget_or delta ''mass'' zero_float)) (\<lambda>mass0.
     bindR (sum_projection_fixed (st_luminosity state) (dget_or delta ''luminosity'' zero_float)) (\<lambda>luminosity.
     bindR (sum_projection_fixed (st_entropy_index state) (dget_or delta ''entropy_index'' zero_float)) (\<lambda>entropy0.
     bindR (sum_projection_fixed (st_magnetic_field state) (dget_or delta ''magnetic_field'' zero_float)) (\<lambda>magnetic.
     bindR fixed_epsilon (\<lambda>epsilon.
     let mass = max_fixed mass0 epsilon; entropy = max_fixed entropy0 fx_zero in
     bindR (fusion_coefficient_fixed mass entropy) (\<lambda>coefficient.
     bindR (fx_mul mass coefficient) (\<lambda>core_temp.
     bindR (fx_div luminosity mass) (\<lambda>fusion.
     bindR (collapse_probability_v1 entropy magnetic fusion) (\<lambda>collapse.
       Return (mass, luminosity, entropy, magnetic, core_temp, fusion, collapse))))))))))"

definition project_stellar_v1 :: "stellar_state \<Rightarrow> pyval dict \<Rightarrow> stellar_state result" where
  "project_stellar_v1 state delta =
     bindR (project_fixed state delta) (\<lambda>(mass, luminosity, entropy, magnetic, core_temp, fusion, collapse).
     bindR (fixed_to_float mass) (\<lambda>mass. bindR (fixed_to_float luminosity) (\<lambda>luminosity.
     bindR (fixed_to_float entropy) (\<lambda>entropy. bindR (fixed_to_float magnetic) (\<lambda>magnetic.
     bindR (fixed_to_float core_temp) (\<lambda>core_temp. bindR (fixed_to_float fusion) (\<lambda>fusion.
     bindR (fixed_to_float collapse) (\<lambda>collapse.
       Return (state\<lparr>st_mass := mass, st_luminosity := luminosity, st_core_temp := core_temp, st_magnetic_field := magnetic,
         st_entropy_index := entropy, st_fusion_rate := fusion, st_collapse_probability := collapse\<rparr>)))))))))"

definition fusion_coefficient :: "pyval \<Rightarrow> pyval \<Rightarrow> pyfloat result" where
  "fusion_coefficient mass entropy =
     bindR (as_fixed mass) (\<lambda>m. bindR (as_fixed entropy) (\<lambda>e. bindR (fusion_coefficient_fixed m e) fixed_to_float))"

definition compute_collapse_probability :: "pyval \<Rightarrow> pyval \<Rightarrow> pyval \<Rightarrow> pyfloat result" where
  "compute_collapse_probability entropy magnetic fusion =
     bindR (as_fixed entropy) (\<lambda>e. bindR (as_fixed magnetic) (\<lambda>m. bindR (as_fixed fusion) (\<lambda>f.
       bindR (collapse_probability_v1 e m f) fixed_to_float)))"

section \<open>Instability\<close>

record instability_assessment =
  ia_instability_index :: pyfloat
  ia_drift_velocity :: pyfloat
  ia_phase :: string
  ia_cascade_risk :: pyfloat
  ia_collapse_imminent :: bool

definition clamp_float :: "pyfloat \<Rightarrow> pyfloat" where
  "clamp_float x = (if f_less x (Fin 0) then Fin 0 else if f_less (Fin 1) x then Fin 1 else x)"

definition assess_instability :: "stellar_state \<Rightarrow> stellar_state option \<Rightarrow> instability_assessment" where
  "assess_instability current previous =
     (let entropy_component = f_mul (f_max (st_entropy_index current) (Fin 0)) (lit (1 / 2));
          magnetic_component = f_mul (f_sub (Fin 1) (st_magnetic_field current)) (lit (2 / 10));
          collapse_component = f_mul (st_collapse_probability current) (lit (3 / 10));
          instability = clamp_float (f_add (f_add entropy_component magnetic_component) collapse_component);
          drift = (case previous of None \<Rightarrow> Fin 0
            | Some p \<Rightarrow> f_sub (st_collapse_probability current) (st_collapse_probability p))
      in \<lparr>ia_instability_index = instability, ia_drift_velocity = drift,
          ia_phase = (if f_le (lit (75 / 100)) instability then ''critical''
            else if f_le (lit (40 / 100)) instability then ''warning'' else ''stable''),
          ia_cascade_risk = clamp_float (f_add instability (f_max drift (Fin 0))),
          ia_collapse_imminent = f_le (lit (9 / 10)) (st_collapse_probability current)\<rparr>)"

section \<open>Relationships, policies and rewards\<close>

record relationship_effect =
  re_event_type :: string
  re_magnitude :: pyfloat
  re_delta :: "pyfloat dict"
  re_inverse_delta :: "pyfloat dict"

definition forward_delta :: "string \<Rightarrow> pyfloat \<Rightarrow> pyfloat dict result" where
  "forward_delta event_key magnitude =
     (if event_key = ''validator_slashing'' then Return [(''magnetic_field'', f_mul (f_neg (lit (8 / 100))) magnitude)]
      else if event_key = ''governance_vote_spike'' then Return [(''entropy_index'', f_mul (lit (5 / 100)) magnitude)]
      else if event_key = ''contract_congestion'' then Return
        [(''luminosity'', f_mul (lit (12 / 100)) magnitude), (''entropy_index'', f_mul (lit (1 / 100)) magnitude),
         (''core_temp_spike'', f_mul (Fin 45) magnitude)]
      else if event_key = ''token_mint'' then Return [(''mass'', f_mul (lit (20 / 100)) magnitude)]
      else Raise (ValueError (''unsupported entanglement event type: '' @ event_key)))"

definition invert_delta :: "pyfloat dict \<Rightarrow> pyfloat dict" where
  "invert_delta d = map (map_prod id f_neg) d"

definition relationship_delta :: "string \<Rightarrow> pyfloat \<Rightarrow> bool \<Rightarrow> relationship_effect result" where
  "relationship_delta event_type magnitude reverse =
     (let event_key = lower (strip event_type) in
      if f_less magnitude (Fin 0) then Raise (ValueError ''magnitude must be >= 0'')
      else bindR (forward_delta event_key magnitude) (\<lambda>forward.
        let inverse = invert_delta forward in
        Return \<lparr>re_event_type = event_key, re_magnitude = magnitude,
          re_delta = (if reverse then inverse else forward), re_inverse_delta = (if reverse then forward else inverse)\<rparr>))"

definition apply_policy :: "stellar_state \<Rightarrow> pyval dict \<Rightarrow> stellar_state result" where
  "apply_policy s policy =
     bindR (case dget policy ''fusion_adjustment'' of None \<Rightarrow> Return s
       | Some v \<Rightarrow> bindR (to_float v) (\<lambda>factor. Return (s\<lparr>st_fusion_rate := f_mul (st_fusion_rate s) factor\<rparr>))) (\<lambda>s.
     bindR (case dget policy ''entropy_threshold'' of None \<Rightarrow> Return s
       | Some v \<Rightarrow> bindR (to_float v) (\<lambda>threshold. Return (s\<lparr>st_entropy_index := f_min (st_entropy_index s) threshold\<rparr>))) (\<lambda>s.
     case dget policy ''magnetic_floor'' of None \<Rightarrow> Return s
       | Some v \<Rightarrow> bindR (to_float v) (\<lambda>floor. Return (s\<lparr>st_magnetic_field := f_max (st_magnetic_field s) floor\<rparr>))))"

definition compute_reward :: "pyval dict \<Rightarrow> pyfloat result" where
  "compute_reward state =
     (let get = (\<lambda>k. to_float (dget_or state k zero_float)) in
      bindR (get ''collapse_probability'') (\<lambda>collapse. bindR (get ''fusion_rate'') (\<lambda>efficiency.
      bindR (get ''entropy_index'') (\<lambda>penalty.
        Return (f_sub (f_add (f_mul (lit (5 / 10)) (f_sub (Fin 1) collapse)) (f_mul (lit (4 / 10)) efficiency))
          (f_mul (lit (3 / 10)) penalty))))))"

section \<open>Reading back what \<open>to_str\<close> prints\<close>

lemma digits_val_append: "digits_val (a @ b) = digits_val a * 10 ^ length b + digits_val b"
proof (induction b rule: rev_induct)
  case (snoc c b)
  have "digits_val (a @ b @ [c]) = 10 * digits_val (a @ b) + digit_val c" using digits_val_snoc [of "a @ b" c] by simp
  with snoc show ?case by (simp add: digits_val_snoc algebra_simps)
qed (simp add: digits_val_def)

lemma parse_float_decimal_text:
  assumes "0 \<le> i" "0 \<le> f" "f < 10 ^ w" "0 < w"
  shows "parse_float (decimal_text False w i f) = Return (rnd (of_int (i * 10 ^ w + f) / 10 ^ w))"
proof -
  define a where "a = show_digits i"
  define z where "z = zero_pad w f"
  have a: "a \<noteq> []" "list_all is_ascii_digit a" "digits_val a = i"
    using assms(1) by (simp_all add: a_def show_digits_ascii show_digits_val)
  have z: "z \<noteq> []" "list_all is_ascii_digit z" "digits_val z = f" "length z = w"
    using assms by (simp_all add: z_def zero_pad_ascii zero_pad_val zero_pad_length)
  let ?t = "a @ CHR ''.'' # z"
  have tx: "decimal_text False w i f = ?t" using assms(1) by (simp add: decimal_text_def py_str_nonneg a_def z_def)
  have dot: "CHR ''.'' \<notin> set a" and es: "CHR ''e'' \<notin> set ?t" "CHR ''E'' \<notin> set ?t"
    using a(2) z(2) by (auto simp: list_all_iff dest: ascii_digit_not_special)
  have "list_all (\<lambda>c. \<not> is_space c) ?t"
    using a(2) z(2) by (auto simp: list_all_iff ascii_digit_not_space point_not_space)
  then have strip: "strip ?t = ?t" by (rule strip_no_space)
  have sgn: "split_sign ?t = (1, ?t)"
    using a by (cases a) (auto simp: split_sign_def dest: ascii_digit_not_special)
  have low: "lower ?t = ?t"
    using lower_ascii [OF a(2)] lower_ascii [OF z(2)] by (simp add: lower_def lower_char_point)
  have m: "takeWhile (\<lambda>c. c \<noteq> CHR ''e'' \<and> c \<noteq> CHR ''E'') ?t = ?t"
    using es by (intro takeWhile_eq_all_conv [THEN iffD2]) auto
  have ip: "takeWhile (\<lambda>c. c \<noteq> CHR ''.'') ?t = a" using dot by (rule takeWhile_sep)
  have clean: "no_underscores (a @ z) = a @ z" "no_underscores z = z"
    using filter_no_underscore [of "a @ z"] filter_no_underscore [of z] a(2) z(2) by (simp_all add: no_underscores_def)
  have "parse_decimal ?t = Some (of_int (i * 10 ^ w + f) * ten_pow (- int w))"
    using a z clean
    by (simp add: parse_decimal_def Let_def m ip parse_exponent_def digit_run_def underscore_ok_digits digits_val_append)
  moreover have "ten_pow (- int w) = 1 / 10 ^ w" by (simp add: ten_pow_def power_int_minus field_simps)
  moreover have "?t \<noteq> ''inf''" "?t \<noteq> ''infinity''" "?t \<noteq> ''nan''"
    using a by (cases a; auto dest: ascii_digit_not_special simp: is_ascii_digit_def)+
  ultimately show ?thesis unfolding tx by (simp add: parse_float_def strip sgn low)
qed

text \<open>The decimal with eighteen places a non-negative number is printed as.\<close>

definition dec18 :: "fixed64 \<Rightarrow> rat" where
  "dec18 x = of_int (fx_raw x div SCALE * 10 ^ 18 + rhe (fx_raw x mod SCALE * 10 ^ 18) SCALE) / 10 ^ 18"

lemma fraction_bounds: "0 \<le> rhe (m mod SCALE * 10 ^ 18) SCALE" "rhe (m mod SCALE * 10 ^ 18) SCALE \<le> 10 ^ 18"
proof -
  have "0 \<le> m mod SCALE" "m mod SCALE \<le> SCALE" by simp_all
  then show "0 \<le> rhe (m mod SCALE * 10 ^ 18) SCALE" "rhe (m mod SCALE * 10 ^ 18) SCALE \<le> 10 ^ 18"
    by (intro rhe_nonneg rhe_le; simp)+
qed

lemma fixed_to_float_nonneg:
  assumes "0 \<le> fx_raw x"
  shows "fixed_to_float x = Return (rnd (dec18 x))"
proof -
  define i where "i = fx_raw x div SCALE"
  define f where "f = rhe (fx_raw x mod SCALE * 10 ^ 18) SCALE"
  have i: "0 \<le> i" using assms by (simp add: i_def pos_imp_zdiv_nonneg_iff)
  have f: "0 \<le> f" "f \<le> 10 ^ 18" unfolding f_def by (rule fraction_bounds)+
  have printed: "Fixed_Math.to_str 18 x = Return (if f \<ge> 10 ^ 18 then decimal_text False 18 (i + 1) (f - 10 ^ 18) else decimal_text False 18 i f)"
    using to_str_eq [of 18 x] assms by (simp add: Let_def decimal_text_def i_def f_def del: SCALE_eq)
  show ?thesis
  proof (cases "f \<ge> 10 ^ 18")
    case True
    with f have "f = 10 ^ 18" by simp
    then show ?thesis
      using parse_float_decimal_text [of "i + 1" 0 18] i printed
      by (simp add: fixed_to_float_def dec18_def i_def f_def algebra_simps del: SCALE_eq)
  next
    case False
    then show ?thesis
      using parse_float_decimal_text [of i f 18] i f printed
      by (simp add: fixed_to_float_def dec18_def i_def f_def del: SCALE_eq)
  qed
qed

lemma dec18_unit:
  assumes "0 \<le> fx_raw x" "fx_raw x \<le> SCALE"
  shows "0 \<le> dec18 x" "dec18 x \<le> 1"
proof -
  show "0 \<le> dec18 x"
    using fraction_bounds(1) [of "fx_raw x"] assms(1) by (simp add: dec18_def pos_imp_zdiv_nonneg_iff del: SCALE_eq)
  show "dec18 x \<le> 1"
  proof (cases "fx_raw x = SCALE")
    case True
    have "SCALE div SCALE = 1" by simp
    with True show ?thesis by (simp add: dec18_def del: SCALE_eq)
  next
    case False
    with assms have "fx_raw x div SCALE = 0" by (intro div_pos_pos_trivial) auto
    moreover have "rat_of_int (rhe (fx_raw x mod SCALE * 10 ^ 18) SCALE) \<le> of_int (10 ^ 18)"
      using fraction_bounds(2) [of "fx_raw x"] by (simp only: of_int_le_iff)
    ultimately show ?thesis by (simp add: dec18_def del: SCALE_eq)
  qed
qed

lemma dec18_nonneg: "0 \<le> fx_raw x \<Longrightarrow> 0 \<le> dec18 x"
  using fraction_bounds(1) [of "fx_raw x"] by (simp add: dec18_def pos_imp_zdiv_nonneg_iff del: SCALE_eq)

lemma dec18_pos:
  assumes "18446744074 \<le> fx_raw x"
  shows "pow2 (- 60) \<le> dec18 x"
proof -
  have raw: "0 \<le> fx_raw x div SCALE" using assms by (simp add: pos_imp_zdiv_nonneg_iff)
  have "10 ^ 9 \<le> fx_raw x div SCALE * 10 ^ 18 + rhe (fx_raw x mod SCALE * 10 ^ 18) SCALE"
  proof (cases "fx_raw x div SCALE = 0")
    case True
    then have "fx_raw x mod SCALE = fx_raw x" by (metis add_0 mult_zero_left div_mult_mod_eq)
    then show ?thesis using assms True by (intro add_increasing) (auto intro: rhe_ge)
  next
    case False
    with raw have "1 * 10 ^ 18 \<le> fx_raw x div SCALE * 10 ^ 18" by (intro mult_right_mono) auto
    moreover have "(10 :: int) ^ 9 \<le> 1 * 10 ^ 18" by simp
    ultimately have "10 ^ 9 \<le> fx_raw x div SCALE * 10 ^ 18" by (rule order_trans [rotated])
    then show ?thesis using fraction_bounds(1) [of "fx_raw x"] by (rule add_increasing2 [rotated])
  qed
  then have "rat_of_int (10 ^ 9) \<le> of_int (fx_raw x div SCALE * 10 ^ 18 + rhe (fx_raw x mod SCALE * 10 ^ 18) SCALE)"
    by (simp only: of_int_le_iff)
  then have "1 / 10 ^ 9 \<le> dec18 x" by (simp add: dec18_def field_simps del: SCALE_eq)
  moreover have "pow2 (- 60) \<le> 1 / 10 ^ 9" by (simp add: pow2_def power_int_minus)
  ultimately show ?thesis by linarith
qed

lemma fixed_epsilon_eq: "fixed_epsilon = Return (Fixed64 18446744074)"
  by code_simp

text \<open>The fixed-point part keeps mass above the epsilon, entropy non-negative and collapse a probability.\<close>

lemma project_fixed_bounds:
  assumes "project_fixed s d = Return (mass, luminosity, entropy, magnetic, core_temp, fusion, collapse)"
  shows "18446744074 \<le> fx_raw mass" "0 \<le> fx_raw entropy" "0 \<le> fx_raw collapse" "fx_raw collapse \<le> SCALE"
    "collapse_probability_v1 entropy magnetic fusion = Return collapse"
proof -
  obtain mass0 entropy0 where parts: "mass = max_fixed mass0 (Fixed64 18446744074)" "entropy = max_fixed entropy0 fx_zero"
    and c: "collapse_probability_v1 entropy magnetic fusion = Return collapse"
    using assms by (auto simp: project_fixed_def fixed_epsilon_eq Let_def elim!: bindR_ReturnE)
  show "18446744074 \<le> fx_raw mass" "0 \<le> fx_raw entropy"
    by (auto simp: parts max_fixed_def fx_le_raw fx_zero_def)
  show "0 \<le> fx_raw collapse" "fx_raw collapse \<le> SCALE"
    using c by (auto simp: collapse_probability_v1_def clamp01_def fx_less_raw fx_zero_def fx_one_def elim!: bindR_ReturnE)
  show "collapse_probability_v1 entropy magnetic fusion = Return collapse" by (rule c)
qed

section \<open>Properties\<close>

text \<open>
  Whatever the state and the change, a projection that returns gives a star of the same name
  with a positive mass, a non-negative entropy and a collapse probability between zero and one, as
  floats, after the rounding of the fixed-point results to eighteen decimals and to a float.
\<close>

theorem projection_physical:
  assumes "project_stellar_v1 s d = Return t"
  shows "st_star_id t = st_star_id s \<and> st_chain_id t = st_chain_id s \<and> f_less (Fin 0) (st_mass t) \<and>
    f_le (Fin 0) (st_entropy_index t) \<and> unit_float (st_collapse_probability t)"
proof -
  obtain mass luminosity entropy magnetic core_temp fusion collapse where
      fixed: "project_fixed s d = Return (mass, luminosity, entropy, magnetic, core_temp, fusion, collapse)"
    and floats: "fixed_to_float mass = Return (st_mass t)" "fixed_to_float entropy = Return (st_entropy_index t)"
      "fixed_to_float collapse = Return (st_collapse_probability t)"
    and names: "st_star_id t = st_star_id s" "st_chain_id t = st_chain_id s"
    using assms by (auto simp: project_stellar_v1_def elim!: bindR_ReturnE)
  note b = project_fixed_bounds [OF fixed]
  have rounded: "st_mass t = rnd (dec18 mass)" "st_entropy_index t = rnd (dec18 entropy)"
      "st_collapse_probability t = rnd (dec18 collapse)"
    using floats fixed_to_float_nonneg b by auto
  have "f_le (Fin (pow2 (- 60))) (st_mass t)"
    unfolding rounded using dec18_pos [OF b(1)] fl_dyadic [of "pow2 (- 60)" 1 "- 60"] by (intro rnd_ge) auto
  then have "f_less (Fin 0) (st_mass t)"
    using pow2_pos [of "- 60"] by (cases "st_mass t") (auto simp: f_le_def simp del: pow2_pos)
  moreover have "f_le (Fin 0) (st_entropy_index t)"
    unfolding rounded using dec18_nonneg [OF b(2)] by (intro rnd_ge) auto
  moreover have "unit_float (st_collapse_probability t)"
    unfolding rounded using dec18_unit [OF b(3,4)] by (intro rnd_unit)
  ultimately show ?thesis using names by blast
qed

definition sample_star_state :: stellar_state where
  "sample_star_state = \<lparr>st_star_id = ''a'', st_chain_id = ''b'', st_mass = Fin 1, st_luminosity = Fin 1, st_core_temp = Fin 1,
     st_magnetic_field = Fin 1, st_entropy_index = Fin (1 / 2), st_fusion_rate = Fin 1, st_collapse_probability = Fin 0\<rparr>"

lemma project_stellar_total:
  assumes "project_fixed s d = Return (mass, luminosity, entropy, magnetic, core_temp, fusion, collapse)"
    and "list_all (\<lambda>x. 0 \<le> fx_raw x) [mass, luminosity, entropy, magnetic, core_temp, fusion, collapse]"
  shows "\<exists>t. project_stellar_v1 s d = Return t \<and> st_collapse_probability t = rnd (dec18 collapse)"
  using assms by (simp add: project_stellar_v1_def fixed_to_float_nonneg)

theorem projection_physical_witness:
  "\<exists>t. project_stellar_v1 sample_star_state [(''magnetic_field'', PFloat (Fin (- 1 / 2)))] = Return t \<and>
    st_collapse_probability t = rnd (1 / 4) \<and> f_less (Fin 0) (st_mass t)"
proof -
  have "case project_fixed sample_star_state [(''magnetic_field'', PFloat (Fin (- 1 / 2)))] of
      Inr (a, b, c, d, e, f, g) \<Rightarrow> list_all (\<lambda>x. 0 \<le> fx_raw x) [a, b, c, d, e, f, g] \<and> dec18 g = 1 / 4
    | Inl _ \<Rightarrow> False" by code_simp
  then obtain a b c d e f g where
      run: "project_fixed sample_star_state [(''magnetic_field'', PFloat (Fin (- 1 / 2)))] = Return (a, b, c, d, e, f, g)"
    and signs: "list_all (\<lambda>x. 0 \<le> fx_raw x) [a, b, c, d, e, f, g]" "dec18 g = 1 / 4"
    by (auto split: sum.splits)
  from project_stellar_total [OF run signs(1)] obtain t where
      t: "project_stellar_v1 sample_star_state [(''magnetic_field'', PFloat (Fin (- 1 / 2)))] = Return t"
      "st_collapse_probability t = rnd (1 / 4)" using signs(2) by auto
  from t projection_physical [OF t(1)] show ?thesis by blast
qed

end
