(* ===== verification/Solis_Gates.thy ===== *)
theory Solis_Gates
  imports Merkle Stellar_Projector Agent_Dsl
begin

text \<open>
  \<^verbatim>\<open>solis/integration/gates.py\<close> and \<^verbatim>\<open>solis/identity/zk\<close>: the three locks a transition passes before
  it is committed, and the proof of a collapse probability with its verifier.
\<close>

section \<open>Gates\<close>

record gate_result =
  gt_gate :: string
  gt_passed :: bool
  gt_detail :: string

record replay_evidence =
  rv_node_id :: string
  rv_state_hash :: string
  rv_merkle_root :: string
  rv_anchor_payload_hash :: string

definition gate_of :: "string \<Rightarrow> bool \<Rightarrow> string \<Rightarrow> gate_result" where
  "gate_of gate passed detail = \<lparr>gt_gate = gate, gt_passed = passed, gt_detail = detail\<rparr>"

definition anchor_payload_hash :: "string \<Rightarrow> int \<Rightarrow> int \<Rightarrow> string" where
  "anchor_payload_hash root_hash epoch event_count =
     hash_val (PDict [(''epoch'', PInt epoch), (''root'', PStr root_hash), (''event_count'', PInt event_count)])"

text \<open>A set that does not have exactly one element.\<close>

definition several :: "string list \<Rightarrow> bool" where
  "several xs = (length (remdups xs) \<noteq> 1)"

definition gate1_deterministic_replay_lock ::
    "pyval dict \<Rightarrow> pyval dict list \<Rightarrow> (pyval dict \<Rightarrow> pyval dict \<Rightarrow> pyval dict) \<Rightarrow> string list \<Rightarrow> gate_result" where
  "gate1_deterministic_replay_lock initial events reducer node_ids =
     (if events = [] then gate_of ''gate1'' False ''no_events''
      else
        (let nodes = (if node_ids = [] then [''node-a'', ''node-b'', ''node-c''] else node_ids);
             leaves = map (\<lambda>e. hash_leaf (hash_val (PDict e))) events;
             r1 = merkle_root leaves; r2 = merkle_root leaves;
             evidence = map (\<lambda>node. \<lparr>rv_node_id = node, rv_state_hash = snd (replay_events initial events reducer),
               rv_merkle_root = r1, rv_anchor_payload_hash = anchor_payload_hash r1 1 (int (length events))\<rparr>) nodes
         in if r1 \<noteq> r2 then gate_of ''gate1'' False ''merkle_root_mismatch''
            else if several (map rv_state_hash evidence) then gate_of ''gate1'' False ''state_hash_mismatch''
            else if several (map rv_merkle_root evidence) then gate_of ''gate1'' False ''merkle_root_mismatch''
            else if several (map rv_anchor_payload_hash evidence) then gate_of ''gate1'' False ''anchor_payload_hash_mismatch''
            else gate_of ''gate1'' True ''ok''))"

definition failure :: "bool \<Rightarrow> string \<Rightarrow> string list" where
  "failure b name = (if b then [name] else [])"

definition gate2_invariant_enforcement_lock :: "string list \<Rightarrow> bool \<Rightarrow> bool \<Rightarrow> bool \<Rightarrow> gate_result" where
  "gate2_invariant_enforcement_lock failed_invariants event_emitted anchor_emitted replay_verified =
     (let failures = sorted_set failed_invariants @ failure (\<not> event_emitted) ''missing_event_emission'' @
            failure (\<not> anchor_emitted) ''missing_anchor_emission'' @ failure (\<not> replay_verified) ''replay_not_verified''
      in if failures \<noteq> [] then gate_of ''gate2'' False (join '','' (sorted_set failures))
         else gate_of ''gate2'' True ''ok'')"

definition gate3_zk_compatibility_lock :: "bool \<Rightarrow> bool \<Rightarrow> bool \<Rightarrow> gate_result" where
  "gate3_zk_compatibility_lock formula_equal proof_verified fixed_point_only =
     (let failures = failure (\<not> formula_equal) ''formula_mismatch'' @ failure (\<not> proof_verified) ''proof_not_verified'' @
            failure (\<not> fixed_point_only) ''non_fixed_point_math''
      in if failures \<noteq> [] then gate_of ''gate3'' False (join '','' failures) else gate_of ''gate3'' True ''ok'')"

text \<open>The reducer of the admission check: the items of the delta over the state.\<close>

definition admission_reducer :: "pyval dict \<Rightarrow> pyval dict \<Rightarrow> pyval dict" where
  "admission_reducer state event =
     (case dget_or event ''delta'' (PDict []) of PDict d \<Rightarrow> dupdate state d | _ \<Rightarrow> state)"

section \<open>Proofs of a collapse probability\<close>

record collapse_proof =
  zp_proof_hash :: string
  zp_entropy :: string
  zp_magnetic :: string
  zp_fusion :: string
  zp_collapse_probability :: string
  zp_threshold :: string
  zp_statement_ok :: bool

definition collapse_statement :: "fixed64 \<Rightarrow> fixed64 \<Rightarrow> fixed64 \<Rightarrow> fixed64 \<Rightarrow> fixed64 \<Rightarrow> json" where
  "collapse_statement entropy magnetic fusion collapse threshold = JObj
     [(''entropy'', JInt (to_raw entropy)), (''magnetic'', JInt (to_raw magnetic)), (''fusion'', JInt (to_raw fusion)),
      (''collapse_probability'', JInt (to_raw collapse)), (''threshold'', JInt (to_raw threshold)),
      (''statement_ok'', JBool (collapse \<le> threshold))]"

definition generate_collapse_proof :: "fixed64 \<Rightarrow> fixed64 \<Rightarrow> fixed64 \<Rightarrow> fixed64 \<Rightarrow> collapse_proof result" where
  "generate_collapse_proof entropy magnetic fusion threshold =
     bindR (collapse_probability_v1 entropy magnetic fusion) (\<lambda>collapse.
     bindR (Fixed_Math.to_str 18 entropy) (\<lambda>e. bindR (Fixed_Math.to_str 18 magnetic) (\<lambda>m.
     bindR (Fixed_Math.to_str 18 fusion) (\<lambda>f. bindR (Fixed_Math.to_str 18 collapse) (\<lambda>c.
     bindR (Fixed_Math.to_str 18 threshold) (\<lambda>t.
       Return \<lparr>zp_proof_hash = sha256_hex_obj (collapse_statement entropy magnetic fusion collapse threshold),
         zp_entropy = e, zp_magnetic = m, zp_fusion = f, zp_collapse_probability = c, zp_threshold = t,
         zp_statement_ok = (collapse \<le> threshold)\<rparr>))))))"

definition verify_collapse_proof :: "collapse_proof \<Rightarrow> bool result" where
  "verify_collapse_proof p =
     bindR (from_str (zp_entropy p)) (\<lambda>entropy. bindR (from_str (zp_magnetic p)) (\<lambda>magnetic.
     bindR (from_str (zp_fusion p)) (\<lambda>fusion. bindR (from_str (zp_threshold p)) (\<lambda>threshold.
     bindR (collapse_probability_v1 entropy magnetic fusion) (\<lambda>collapse.
       Return (zp_proof_hash p = sha256_hex_obj (collapse_statement entropy magnetic fusion collapse threshold)))))))"

section \<open>Lemmas\<close>

lemma remdups_const: "xs \<noteq> [] \<Longrightarrow> remdups (map (\<lambda>_. c) xs) = [c]"
proof (induction xs)
  case (Cons x xs)
  then show ?case by (cases xs) auto
qed simp

lemma several_const: "xs \<noteq> [] \<Longrightarrow> \<not> several (map (\<lambda>_. c) xs)"
  by (simp add: several_def remdups_const)

lemma gate_of_simps [simp]:
  "gt_passed (gate_of g b d) = b" "gt_gate (gate_of g b d) = g" "gt_detail (gate_of g b d) = d"
  by (simp_all add: gate_of_def)

lemma gate1_result:
  "gate1_deterministic_replay_lock initial events reducer nodes =
     (if events = [] then gate_of ''gate1'' False ''no_events'' else gate_of ''gate1'' True ''ok'')"
  by (simp add: gate1_deterministic_replay_lock_def Let_def comp_def several_const)

lemma sorted_set_Nil_iff: "sorted_set xs = [] \<longleftrightarrow> xs = []"
  by (simp add: sorted_set_def sort_Nil_iff)

lemma failure_Nil [simp]: "failure b n = [] \<longleftrightarrow> \<not> b"
  by (simp add: failure_def)

lemma gate2_passed:
  "gt_passed (gate2_invariant_enforcement_lock failed e a r) \<longleftrightarrow> failed = [] \<and> e \<and> a \<and> r"
  by (simp add: gate2_invariant_enforcement_lock_def Let_def sorted_set_Nil_iff)

lemma gate3_passed: "gt_passed (gate3_zk_compatibility_lock f p x) \<longleftrightarrow> f \<and> p \<and> x"
  by (simp add: gate3_zk_compatibility_lock_def Let_def)

lemma wf_statement: "wf_json (collapse_statement e m f c t)"
  by (simp add: collapse_statement_def)

text \<open>The statement that is hashed determines the four numbers it is about.\<close>

lemma statement_inj:
  assumes "canonical_json (collapse_statement e m f c t) = canonical_json (collapse_statement e' m' f' c' t')"
  shows "e = e' \<and> m = m' \<and> f = f' \<and> t = t'"
proof -
  have eq: "sort_json (collapse_statement e m f c t) = sort_json (collapse_statement e' m' f' c' t')"
    using dumps_inj [OF good_styles(2) wf_statement wf_statement assms [unfolded canonical_json_def]] .
  have same: "sort_json x = sort_json y"
    if "jget (collapse_statement e m f c t) k = Some x" "jget (collapse_statement e' m' f' c' t') k = Some y" for k x y
    using sort_json_eqD [OF eq wf_statement wf_statement that] .
  have raw: "x = y" if "fx_raw x = fx_raw y" for x y using that by (cases x; cases y) simp
  note field = collapse_statement_def jget_def to_raw_def
  have "fx_raw e = fx_raw e'" using same [of "''entropy''" "JInt (fx_raw e)" "JInt (fx_raw e')"] by (simp add: field)
  moreover have "fx_raw m = fx_raw m'" using same [of "''magnetic''" "JInt (fx_raw m)" "JInt (fx_raw m')"] by (simp add: field)
  moreover have "fx_raw f = fx_raw f'" using same [of "''fusion''" "JInt (fx_raw f)" "JInt (fx_raw f')"] by (simp add: field)
  moreover have "fx_raw t = fx_raw t'" using same [of "''threshold''" "JInt (fx_raw t)" "JInt (fx_raw t')"] by (simp add: field)
  ultimately show ?thesis using raw by blast
qed

section \<open>Properties\<close>

text \<open>
  What the three locks decide.  The replay lock lets every non-empty list of events pass
  whatever the reducer does, since it compares replays of one function with each other; the
  invariant lock passes exactly when nothing failed and event, anchor and replay are there; the
  proof lock exactly when the formula agrees, the proof is verified and the arithmetic is fixed-point.
\<close>

theorem gate_locks_exact:
  "gt_passed (gate1_deterministic_replay_lock initial events reducer nodes) = (events \<noteq> []) \<and>
   gt_passed (gate2_invariant_enforcement_lock failed event_emitted anchor_emitted replay_verified) =
     (failed = [] \<and> event_emitted \<and> anchor_emitted \<and> replay_verified) \<and>
   gt_passed (gate3_zk_compatibility_lock formula_equal proof_verified fixed_point_only) =
     (formula_equal \<and> proof_verified \<and> fixed_point_only)"
  by (simp add: gate1_result gate2_passed gate3_passed)

text \<open>
  A proof is accepted by the verifier exactly when the eighteen decimals it carries read back as
  the numbers it was made of -- a number with finer bits fails -- provided SHA-256 does not collide
  on the two statements.
\<close>

theorem collapse_proof_verified_iff:
  assumes "generate_collapse_proof e m f t = Return p"
    and "from_str (zp_entropy p) = Return e'" "from_str (zp_magnetic p) = Return m'"
      "from_str (zp_fusion p) = Return f'" "from_str (zp_threshold p) = Return t'"
    and "collapse_probability_v1 e m f = Return c" "collapse_probability_v1 e' m' f' = Return c'"
    and "sha256_hex_obj (collapse_statement e m f c t) = sha256_hex_obj (collapse_statement e' m' f' c' t') \<Longrightarrow>
      canonical_json (collapse_statement e m f c t) = canonical_json (collapse_statement e' m' f' c' t')"
  shows "verify_collapse_proof p = Return (e = e' \<and> m = m' \<and> f = f' \<and> t = t')"
proof -
  have "zp_proof_hash p = sha256_hex_obj (collapse_statement e m f c t)"
    using assms(1,6) by (auto simp: generate_collapse_proof_def elim!: bindR_ReturnE)
  moreover have "verify_collapse_proof p = Return (zp_proof_hash p = sha256_hex_obj (collapse_statement e' m' f' c' t'))"
    using assms(2-5,7) by (simp add: verify_collapse_proof_def)
  moreover have "sha256_hex_obj (collapse_statement e m f c t) = sha256_hex_obj (collapse_statement e' m' f' c' t') \<longleftrightarrow>
      e = e' \<and> m = m' \<and> f = f' \<and> t = t'"
    using assms(6-8) statement_inj by auto
  ultimately show ?thesis by simp
qed

theorem collapse_proof_verified_iff_witness:
  "\<exists>p. generate_collapse_proof fx_one fx_one fx_one fx_one = Return p \<and> verify_collapse_proof p = Return True"
proof -
  have one: "Fixed_Math.to_str 18 fx_one = Return ''1.000000000000000000''" "from_str ''1.000000000000000000'' = Return fx_one"
    "Fixed_Math.to_str 18 fx_zero = Return ''0.000000000000000000''"
    "collapse_probability_v1 fx_one fx_one fx_one = Return fx_zero" by code_simp+
  then obtain p where p: "generate_collapse_proof fx_one fx_one fx_one fx_one = Return p"
      "zp_entropy p = ''1.000000000000000000''" "zp_magnetic p = ''1.000000000000000000''"
      "zp_fusion p = ''1.000000000000000000''" "zp_threshold p = ''1.000000000000000000''"
    by (simp add: generate_collapse_proof_def)
  have "verify_collapse_proof p = Return (fx_one = fx_one \<and> fx_one = fx_one \<and> fx_one = fx_one \<and> fx_one = fx_one)"
    by (rule collapse_proof_verified_iff [OF p(1)]) (simp_all add: p one)
  with p(1) show ?thesis by simp
qed

end
