(* ===== verification/State_Result.thy ===== *)
theory State_Result
  imports Prelude
begin

text \<open>
  Operations that may raise and that change a state on the way: a function from the state to a result
  and the state it leaves behind, whether it returns or raises.
\<close>

named_theorems keeps_intros \<open>an operation keeps an invariant of the state\<close>

type_synonym ('s, 'a) op = "'s \<Rightarrow> 'a result \<times> 's"

definition returnS :: "'a \<Rightarrow> ('s, 'a) op" where
  "returnS x = (\<lambda>s. (Return x, s))"

definition raiseS :: "py_error \<Rightarrow> ('s, 'a) op" where
  "raiseS e = (\<lambda>s. (Raise e, s))"

definition liftS :: "'a result \<Rightarrow> ('s, 'a) op" where
  "liftS r = (\<lambda>s. (r, s))"

definition readS :: "('s \<Rightarrow> 'a result) \<Rightarrow> ('s, 'a) op" where
  "readS f = (\<lambda>s. (f s, s))"

definition writeS :: "('s \<Rightarrow> 's) \<Rightarrow> ('s, unit) op" where
  "writeS f = (\<lambda>s. (Return (), f s))"

definition bindS :: "('s, 'a) op \<Rightarrow> ('a \<Rightarrow> ('s, 'b) op) \<Rightarrow> ('s, 'b) op" where
  "bindS m f = (\<lambda>s. case m s of (Inl e, t) \<Rightarrow> (Raise e, t) | (Inr x, t) \<Rightarrow> f x t)"

definition thenS :: "('s, 'a) op \<Rightarrow> ('s, 'b) op \<Rightarrow> ('s, 'b) op" where
  "thenS m n = bindS m (\<lambda>_. n)"

definition requireS :: "bool \<Rightarrow> py_error \<Rightarrow> ('s, unit) op" where
  "requireS b e = (if b then returnS () else raiseS e)"

text \<open>A \<open>for\<close> loop, a comprehension and a loop that carries a value.\<close>

fun eachS :: "('a \<Rightarrow> ('s, unit) op) \<Rightarrow> 'a list \<Rightarrow> ('s, unit) op" where
  "eachS f [] = returnS ()"
| "eachS f (x # xs) = thenS (f x) (eachS f xs)"

fun mapS :: "('a \<Rightarrow> ('s, 'b) op) \<Rightarrow> 'a list \<Rightarrow> ('s, 'b list) op" where
  "mapS f [] = returnS []"
| "mapS f (x # xs) = bindS (f x) (\<lambda>y. bindS (mapS f xs) (\<lambda>ys. returnS (y # ys)))"

text \<open>\<open>try\<close> around an operation; exceptions other than \<open>ValueError\<close> pass.\<close>

definition ignoring_value_errors :: "('s, unit) op \<Rightarrow> ('s, unit) op" where
  "ignoring_value_errors m = (\<lambda>s. case m s of (Inl (ValueError w), t) \<Rightarrow> (Return (), t) | rt \<Rightarrow> rt)"

lemmas op_defs = returnS_def raiseS_def liftS_def readS_def writeS_def bindS_def thenS_def requireS_def

lemma bindS_Return:
  "bindS m f s = (Inr y, u) \<longleftrightarrow> (\<exists>x t. m s = (Inr x, t) \<and> f x t = (Inr y, u))"
  by (auto simp: bindS_def split: sum.splits prod.splits)

lemma thenS_Return:
  "thenS m n s = (Inr y, u) \<longleftrightarrow> (\<exists>x t. m s = (Inr x, t) \<and> n t = (Inr y, u))"
  by (simp add: thenS_def bindS_Return)

lemma bindS_cases:
  assumes "bindS m f s = (r, t)"
  obtains (raised) e where "m s = (Inl e, t)" "r = Inl e"
  | (returned) x u where "m s = (Inr x, u)" "f x u = (r, t)"
  using assms by (auto simp: bindS_def split: sum.splits prod.splits)

lemma thenS_cases:
  assumes "thenS m n s = (r, t)"
  obtains (raised) e where "m s = (Inl e, t)" "r = Inl e"
  | (returned) x u where "m s = (Inr x, u)" "n u = (r, t)"
  using assms unfolding thenS_def by (rule bindS_cases)

lemma returnS_Return [simp]: "returnS x s = (r, t) \<longleftrightarrow> r = Return x \<and> t = s"
  by (auto simp: returnS_def)

lemma liftS_Return [simp]: "liftS m s = (r, t) \<longleftrightarrow> m = r \<and> t = s"
  by (auto simp: liftS_def)

lemma readS_Return [simp]: "readS f s = (r, t) \<longleftrightarrow> f s = r \<and> t = s"
  by (auto simp: readS_def)

lemma requireS_Return [simp]: "requireS b e s = (Inr x, t) \<longleftrightarrow> b \<and> t = s"
  by (auto simp: requireS_def returnS_def raiseS_def)

section \<open>Comprehensions\<close>

lemma mapR_drop: "mapR f xs = Inr ys \<Longrightarrow> mapR f (drop n xs) = Inr (drop n ys)"
  by (induction xs arbitrary: ys n) (auto simp: drop_Cons' elim!: bindR_ReturnE)

lemma mapR_nth: "mapR f xs = Inr ys \<Longrightarrow> i < length xs \<Longrightarrow> f (xs ! i) = Inr (ys ! i)"
  using mapR_list_all2 list_all2_nthD by fastforce

section \<open>Keeping an invariant\<close>

definition keeps :: "('s \<Rightarrow> bool) \<Rightarrow> ('s, 'a) op \<Rightarrow> bool" where
  "keeps P m = (\<forall>s. P s \<longrightarrow> P (snd (m s)))"

lemma keepsD: "keeps P m \<Longrightarrow> P s \<Longrightarrow> P (snd (m s))"
  by (simp add: keeps_def)

lemma keeps_result: "keeps P m \<Longrightarrow> P s \<Longrightarrow> m s = (r, t) \<Longrightarrow> P t"
  by (metis keepsD snd_conv)

lemma keeps_simple [keeps_intros]:
  "keeps P (returnS x)" "keeps P (raiseS e)" "keeps P (liftS r)" "keeps P (readS f)" "keeps P (requireS b e)"
  by (auto simp: keeps_def op_defs)

lemma keeps_bindS [keeps_intros]: "keeps P m \<Longrightarrow> (\<And>x. keeps P (f x)) \<Longrightarrow> keeps P (bindS m f)"
  unfolding keeps_def bindS_def by (auto split: sum.splits prod.splits)

lemma keeps_thenS [keeps_intros]: "keeps P m \<Longrightarrow> keeps P n \<Longrightarrow> keeps P (thenS m n)"
  unfolding thenS_def by (intro keeps_bindS)

lemma keeps_if [keeps_intros]: "keeps P m \<Longrightarrow> keeps P n \<Longrightarrow> keeps P (if b then m else n)"
  by simp

lemma keeps_option [keeps_intros]:
  "keeps P m \<Longrightarrow> (\<And>x. keeps P (f x)) \<Longrightarrow> keeps P (case v of None \<Rightarrow> m | Some x \<Rightarrow> f x)"
  by (cases v) auto

lemma keeps_let [keeps_intros]: "(\<And>x. keeps P (f x)) \<Longrightarrow> keeps P (let x = v in f x)"
  by simp

lemma keeps_eachS [keeps_intros]: "(\<And>x. keeps P (f x)) \<Longrightarrow> keeps P (eachS f xs)"
  by (induction xs) (auto intro: keeps_intros)

lemma keeps_mapS [keeps_intros]: "(\<And>x. keeps P (f x)) \<Longrightarrow> keeps P (mapS f xs)"
  by (induction xs) (auto intro!: keeps_intros)

lemma keeps_ignoring [keeps_intros]: "keeps P m \<Longrightarrow> keeps P (ignoring_value_errors m)"
  unfolding keeps_def ignoring_value_errors_def
  by (auto split: sum.splits prod.splits py_error.splits)

lemma keeps_writeS: "(\<And>s. P s \<Longrightarrow> P (f s)) \<Longrightarrow> keeps P (writeS f)"
  by (simp add: keeps_def writeS_def)

section \<open>What an operation ensures, returning or raising\<close>

definition ensures :: "('s \<Rightarrow> bool) \<Rightarrow> ('s, 'a) op \<Rightarrow> ('a result \<Rightarrow> 's \<Rightarrow> bool) \<Rightarrow> bool" where
  "ensures P m Q = (\<forall>s. P s \<longrightarrow> (case m s of (r, t) \<Rightarrow> Q r t))"

lemma ensuresI: "(\<And>s r t. P s \<Longrightarrow> m s = (r, t) \<Longrightarrow> Q r t) \<Longrightarrow> ensures P m Q"
  by (simp add: ensures_def split: prod.splits)

lemma ensuresD: "ensures P m Q \<Longrightarrow> P s \<Longrightarrow> case m s of (r, t) \<Rightarrow> Q r t"
  by (simp add: ensures_def)

text \<open>A step that keeps the precondition: what it returns is known, and it may raise.\<close>

lemma ensures_bindS:
  assumes "keeps P m" "\<And>e t. P t \<Longrightarrow> Q (Inl e) t" "\<And>x s u. P s \<Longrightarrow> m s = (Inr x, u) \<Longrightarrow> ensures P (f x) Q"
  shows "ensures P (bindS m f) Q"
proof (rule ensuresI)
  fix s r t assume s: "P s" and run: "bindS m f s = (r, t)"
  from run show "Q r t"
  proof (cases rule: bindS_cases)
    case (raised e)
    then show ?thesis using assms(2) keeps_result [OF assms(1) s raised(1)] by simp
  next
    case (returned x u)
    from ensuresD [OF assms(3) [OF s returned(1)] keeps_result [OF assms(1) s returned(1)]] returned(2) show ?thesis by simp
  qed
qed

lemma ensures_thenS:
  assumes "keeps P m" "\<And>e t. P t \<Longrightarrow> Q (Inl e) t" "\<And>x s u. P s \<Longrightarrow> m s = (Inr x, u) \<Longrightarrow> ensures P n Q"
  shows "ensures P (thenS m n) Q"
  unfolding thenS_def by (rule ensures_bindS) (use assms in auto)

lemma ensures_returnS: "(\<And>s. P s \<Longrightarrow> Q (Inr x) s) \<Longrightarrow> ensures P (returnS x) Q"
  by (simp add: ensures_def returnS_def)

text \<open>A loop whose steps always return and each establish something that later steps keep.\<close>

lemma eachS_establishes:
  assumes "\<And>x s. P s \<Longrightarrow> \<exists>t. f x s = (Inr (), t) \<and> P t \<and> R s t \<and> Q x t"
    and "\<And>s. R s s" "\<And>s t u. R s t \<Longrightarrow> R t u \<Longrightarrow> R s u" "\<And>x s t. R s t \<Longrightarrow> Q x s \<Longrightarrow> Q x t"
  shows "P s \<Longrightarrow> \<exists>t. eachS f xs s = (Inr (), t) \<and> P t \<and> R s t \<and> (\<forall>x\<in>set xs. Q x t)"
proof (induction xs arbitrary: s)
  case Nil
  then show ?case using assms(2) by auto
next
  case (Cons x xs)
  obtain t where t: "f x s = (Inr (), t)" "P t" "R s t" "Q x t" using assms(1) [OF Cons.prems] by blast
  obtain u where u: "eachS f xs t = (Inr (), u)" "P u" "R t u" "\<forall>x\<in>set xs. Q x u" using Cons.IH [OF t(2)] by blast
  have "eachS f (x # xs) s = (Inr (), u)" using t(1) u(1) by (simp add: thenS_def bindS_def)
  then show ?case using u t(3,4) assms(3) [OF t(3) u(3)] assms(4) [OF u(3)] by auto
qed

end
