(* ===== verification/Json_Parser.thy ===== *)
theory Json_Parser
  imports Value_Json
begin

text \<open>
  \<^verbatim>\<open>json.loads\<close>: the recursive scanner of the standard library, with fuel for its recursion, and the
  round trip with \<^verbatim>\<open>json.dumps\<close>.  The decoder's positions in error messages are not kept, and an
  escape of a character beyond U+00FF, which no string here holds, is refused.
\<close>

section \<open>Tokens\<close>

definition is_json_space :: "char \<Rightarrow> bool" where
  "is_json_space c = (code c \<in> {32, 9, 10, 13})"

definition skip_ws :: "string \<Rightarrow> string" where
  "skip_ws s = dropWhile is_json_space s"

definition hex_value :: "char \<Rightarrow> nat option" where
  "hex_value c = (let n = code c in
     if 48 \<le> n \<and> n \<le> 57 then Some (n - 48) else if 97 \<le> n \<and> n \<le> 102 then Some (n - 87)
     else if 65 \<le> n \<and> n \<le> 70 then Some (n - 55) else None)"

text \<open>The character of a short escape.\<close>

definition short_escape :: "char \<Rightarrow> char option" where
  "short_escape c =
     (if c \<in> {CHR 0x22, CHR 0x5C, CHR ''/''} then Some c
      else if c = CHR ''b'' then Some (CHR 0x08) else if c = CHR ''f'' then Some (CHR 0x0C)
      else if c = CHR ''n'' then Some (CHR 0x0A) else if c = CHR ''r'' then Some (CHR 0x0D)
      else if c = CHR ''t'' then Some (CHR 0x09) else None)"

text \<open>The rest of a string after its opening quote: its characters and what follows the closing quote.\<close>

definition cons_fst :: "'a \<Rightarrow> ('a list \<times> 'b) option \<Rightarrow> ('a list \<times> 'b) option" where
  "cons_fst c r = map_option (map_prod (Cons c) id) r"

fun scan_str :: "string \<Rightarrow> (string \<times> string) option" where
  "scan_str [] = None"
| "scan_str (c # cs) =
     (if c = CHR 0x22 then Some ([], cs)
      else if c = CHR 0x5C then
        (case cs of
           e # ds \<Rightarrow>
             (if e = CHR ''u'' then
                (case ds of
                   h1 # h2 # h3 # h4 # r \<Rightarrow>
                     (case (hex_value h1, hex_value h2, hex_value h3, hex_value h4) of
                        (Some 0, Some 0, Some a, Some b) \<Rightarrow> cons_fst (char_of (16 * a + b)) (scan_str r)
                      | _ \<Rightarrow> None)
                 | _ \<Rightarrow> None)
              else (case short_escape e of Some d \<Rightarrow> cons_fst d (scan_str ds) | None \<Rightarrow> None))
         | [] \<Rightarrow> None)
      else if code c < 32 then None
      else cons_fst c (scan_str cs))"

text \<open>A number: an integer unless it has a fraction or an exponent.\<close>

definition int_token :: "string \<Rightarrow> string" where
  "int_token s = (case s of c # _ \<Rightarrow> if c = CHR ''0'' then [c] else takeWhile is_ascii_digit s | [] \<Rightarrow> [])"

definition frac_token :: "string \<Rightarrow> string" where
  "frac_token s = (case s of c # cs \<Rightarrow>
       (let ds = takeWhile is_ascii_digit cs in if c = CHR ''.'' \<and> ds \<noteq> [] then c # ds else [])
     | [] \<Rightarrow> [])"

definition exp_token :: "string \<Rightarrow> string" where
  "exp_token s = (case s of c # cs \<Rightarrow>
       (if c \<noteq> CHR ''e'' \<and> c \<noteq> CHR ''E'' then []
        else
          (let sg = (case cs of d # _ \<Rightarrow> if d = CHR ''-'' \<or> d = CHR ''+'' then [d] else [] | [] \<Rightarrow> []);
               ds = takeWhile is_ascii_digit (drop (length sg) cs)
           in if ds \<noteq> [] then c # sg @ ds else []))
     | [] \<Rightarrow> [])"

definition number_token :: "string \<Rightarrow> (string \<times> bool) option" where
  "number_token s =
     (let sg = (if startswith s ''-'' then ''-'' else []); i = int_token (drop (length sg) s);
          f = frac_token (drop (length sg + length i) s); e = exp_token (drop (length sg + length i + length f) s)
      in if i = [] then None else Some (sg @ i @ f @ e, f = [] \<and> e = []))"

definition parse_number :: "string \<Rightarrow> (json \<times> string) option" where
  "parse_number s = (case number_token s of
       None \<Rightarrow> None
     | Some (t, is_int) \<Rightarrow>
         (case if is_int then map_sum id JInt (py_int t) else map_sum id (\<lambda>x. JFloat (json_float x)) (parse_float t) of
            Inr v \<Rightarrow> Some (v, drop (length t) s)
          | Inl _ \<Rightarrow> None))"

definition json_words :: "(string \<times> json) list" where
  "json_words = [(''null'', JNull), (''true'', JBool True), (''false'', JBool False), (''NaN'', JFloat ''NaN''),
     (''Infinity'', JFloat ''Infinity''), (''-Infinity'', JFloat ''-Infinity'')]"

definition parse_word :: "string \<Rightarrow> (json \<times> string) option" where
  "parse_word s = (case filter (\<lambda>wv. startswith s (fst wv)) json_words of
       (w, v) # _ \<Rightarrow> Some (v, drop (length w) s)
     | [] \<Rightarrow> parse_number s)"

section \<open>Values\<close>

fun parse_value :: "nat \<Rightarrow> string \<Rightarrow> (json \<times> string) option"
and parse_elems :: "nat \<Rightarrow> string \<Rightarrow> (json list \<times> string) option"
and parse_members :: "nat \<Rightarrow> json dict \<Rightarrow> string \<Rightarrow> (json dict \<times> string) option" where
  "parse_value 0 s = None"
| "parse_value (Suc n) s = (case s of
       [] \<Rightarrow> None
     | c # cs \<Rightarrow>
         (if c = CHR 0x22 then map_option (map_prod JStr id) (scan_str cs)
          else if c = CHR ''['' then
            (if startswith (skip_ws cs) '']'' then Some (JArr [], tl (skip_ws cs))
             else map_option (map_prod JArr id) (parse_elems n (skip_ws cs)))
          else if c = CHR ''{'' then
            (if startswith (skip_ws cs) ''}'' then Some (JObj [], tl (skip_ws cs))
             else map_option (map_prod JObj id) (parse_members n [] (skip_ws cs)))
          else parse_word s))"
| "parse_elems 0 s = None"
| "parse_elems (Suc n) s = (case parse_value n s of
       None \<Rightarrow> None
     | Some (v, r) \<Rightarrow>
         (case skip_ws r of
            c # q \<Rightarrow> if c = CHR '']'' then Some ([v], q)
              else if c = CHR '','' then cons_fst v (parse_elems n (skip_ws q)) else None
          | [] \<Rightarrow> None))"
| "parse_members 0 acc s = None"
| "parse_members (Suc n) acc s =
     (if \<not> startswith s [CHR 0x22] then None
      else case scan_str (tl s) of
        None \<Rightarrow> None
      | Some (k, r) \<Rightarrow>
          (if \<not> startswith (skip_ws r) '':'' then None
           else case parse_value n (skip_ws (tl (skip_ws r))) of
             None \<Rightarrow> None
           | Some (v, q) \<Rightarrow>
               (case skip_ws q of
                  c # p \<Rightarrow> if c = CHR ''}'' then Some (dset k v acc, p)
                    else if c = CHR '','' then parse_members n (dset k v acc) (skip_ws p) else None
                | [] \<Rightarrow> None)))"

text \<open>Every call reads a character or is the first call on its text, so this fuel is enough.\<close>

definition json_fuel :: "string \<Rightarrow> nat" where
  "json_fuel s = 2 * length s + 1"

definition json_loads :: "string \<Rightarrow> json result" where
  "json_loads s = (case parse_value (json_fuel s) (skip_ws s) of
       Some (v, r) \<Rightarrow> if skip_ws r = [] then Return v else Raise (ValueError ''Extra data'')
     | None \<Rightarrow> Raise (ValueError ''Expecting value''))"

section \<open>Reading back what is printed\<close>

text \<open>What may follow a value in a text: the end, or a character no number goes on with.\<close>

definition ends :: "string \<Rightarrow> bool" where
  "ends r = (r = [] \<or> hd r \<in> {CHR '','', CHR '']'', CHR ''}''})"

lemma hex_value_digit: "n < 16 \<Longrightarrow> hex_value (hex_digit n) = Some n"
proof -
  have "list_all (\<lambda>n. hex_value (hex_digit n) = Some n) [0..<16]" by code_simp
  then show "n < 16 \<Longrightarrow> hex_value (hex_digit n) = Some n" by (simp add: list_all_iff)
qed

lemma code_char [simp]: "char_of (code c) = c"
  by (rule char_of_char)

lemma short_escape_back:
  assumes "code c \<in> {34, 92, 8, 12, 10, 13, 9}"
  shows "short_escape (if code c = 34 \<or> code c = 92 then c else if code c = 8 then CHR ''b''
      else if code c = 12 then CHR ''f'' else if code c = 10 then CHR ''n''
      else if code c = 13 then CHR ''r'' else CHR ''t'') = Some c"
proof -
  have chars: "code c = 34 \<Longrightarrow> c = CHR 0x22" "code c = 92 \<Longrightarrow> c = CHR 0x5C" "code c = 8 \<Longrightarrow> c = CHR 0x08"
    "code c = 12 \<Longrightarrow> c = CHR 0x0C" "code c = 10 \<Longrightarrow> c = CHR 0x0A" "code c = 13 \<Longrightarrow> c = CHR 0x0D"
    "code c = 9 \<Longrightarrow> c = CHR 0x09"
    using code_inject [of c "CHR 0x22"] code_inject [of c "CHR 0x5C"] code_inject [of c "CHR 0x08"]
      code_inject [of c "CHR 0x0C"] code_inject [of c "CHR 0x0A"] code_inject [of c "CHR 0x0D"] code_inject [of c "CHR 0x09"]
    by simp_all
  from assms consider "code c = 34" | "code c = 92" | "code c = 8" | "code c = 12" | "code c = 10" | "code c = 13" | "code c = 9"
    by auto
  then show ?thesis by cases (frule chars, simp add: short_escape_def)+
qed

lemma scan_str_escaped: "scan_str (escape_char a c @ r) = cons_fst c (scan_str r)"
proof (cases a c rule: escape_char_cases)
  case plain
  have "length (escape_char a c) \<noteq> 1" if "code c < 32"
    using that by (simp add: escape_char_def Let_def unicode_escape_def)
  with plain show ?thesis by auto
next
  case (short e)
  from short_escape_back [OF short(4)] short(3) have "short_escape e = Some c" by simp
  with short(1,2) show ?thesis by simp
next
  case unicode
  have "code c < 16 * 16" using code_less [of c] by simp
  then have "code c div 16 < 16" by (rule less_mult_imp_div_less)
  moreover have "code c mod 16 < 16" by simp
  ultimately have "hex_value (hex_digit (code c div 16)) = Some (code c div 16)"
    "hex_value (hex_digit (code c mod 16)) = Some (code c mod 16)" by (simp_all add: hex_value_digit)
  moreover have "hex_value (CHR ''0'') = Some 0" by code_simp
  ultimately show ?thesis unfolding unicode by (simp add: unicode_escape_def)
qed

lemma scan_quoted: "scan_str (tl (quote a s) @ r) = Some (s, r)"
proof -
  have "scan_str (concat (map (escape_char a) s) @ CHR 0x22 # r) = Some (s, r)"
    by (induction s) (simp_all add: scan_str_escaped cons_fst_def del: scan_str.simps(2), simp)
  then show ?thesis by (simp add: quote_def)
qed

section \<open>Numbers\<close>

lemma ends_hd: "ends (c # r) \<longleftrightarrow> c \<in> {CHR '','', CHR '']'', CHR ''}''}"
  by (simp add: ends_def)

lemma ends_not:
  assumes "ends r"
  shows "takeWhile is_ascii_digit (u @ r) = takeWhile is_ascii_digit u"
    and "int_token (u @ r) = int_token u" "frac_token (u @ r) = frac_token u" "exp_token (u @ r) = exp_token u"
proof -
  have r: "r = [] \<or> (\<exists>c q. r = c # q \<and> c \<in> {CHR '','', CHR '']'', CHR ''}''} \<and> \<not> is_ascii_digit c)"
    using assms by (cases r) (auto simp: ends_def is_ascii_digit_def)
  show digits: "takeWhile is_ascii_digit (u @ r) = takeWhile is_ascii_digit u" for u
    using r by (induction u) auto
  show "int_token (u @ r) = int_token u"
    using r digits [of u] by (cases u) (auto simp: int_token_def)
  show "frac_token (u @ r) = frac_token u"
    using r digits [of "tl u"] by (cases u) (auto simp: frac_token_def)
  show "exp_token (u @ r) = exp_token u"
  proof (cases u)
    case Nil
    then show ?thesis using r by (auto simp: exp_token_def)
  next
    case (Cons c cs)
    have "(case cs @ r of d # _ \<Rightarrow> if d = CHR ''-'' \<or> d = CHR ''+'' then [d] else [] | [] \<Rightarrow> []) =
        (case cs of d # _ \<Rightarrow> if d = CHR ''-'' \<or> d = CHR ''+'' then [d] else [] | [] \<Rightarrow> [])"
      using r by (cases cs) auto
    moreover have "takeWhile is_ascii_digit (drop k cs @ r) = takeWhile is_ascii_digit (drop k cs)" for k by (rule digits)
    moreover have "length (case cs of d # _ \<Rightarrow> if d = CHR ''-'' \<or> d = CHR ''+'' then [d] else [] | [] \<Rightarrow> []) \<le> length cs"
      by (cases cs) auto
    ultimately show ?thesis using Cons by (simp add: exp_token_def Let_def)
  qed
qed

lemma token_lengths:
  "length (int_token s) \<le> length s" "length (frac_token s) \<le> length s"
  by (auto simp: int_token_def frac_token_def Let_def length_takeWhile_le split: list.splits)

lemma number_token_ends:
  assumes "ends r"
  shows "number_token (u @ r) = number_token u"
proof -
  let ?sg = "if startswith u ''-'' then ''-'' else []"
  have sg: "(if startswith (u @ r) ''-'' then ''-'' else []) = ?sg"
    using assms by (cases u; cases r) (auto simp: ends_def)
  have l: "length ?sg \<le> length u" by (cases u) auto
  let ?i = "int_token (drop (length ?sg) u)"
  have i: "length ?i \<le> length u - length ?sg" using token_lengths(1) [of "drop (length ?sg) u"] by simp
  let ?f = "frac_token (drop (length ?sg + length ?i) u)"
  have f: "length ?f \<le> length u - (length ?sg + length ?i)"
    using token_lengths(2) [of "drop (length ?sg + length ?i) u"] by simp
  have drops: "drop k (u @ r) = drop k u @ r" if "k \<le> length u" for k using that by simp
  show ?thesis
    unfolding number_token_def sg Let_def
    using l i f by (simp only: drops ends_not [OF assms] le_add1 le_trans)
qed

lemma exp_token_length: "length (exp_token s) \<le> length s"
proof (cases s)
  case (Cons c cs)
  let ?sg = "case cs of d # _ \<Rightarrow> if d = CHR ''-'' \<or> d = CHR ''+'' then [d] else [] | [] \<Rightarrow> []"
  have "length ?sg \<le> length cs" by (cases cs) auto
  moreover have "length (takeWhile is_ascii_digit (drop (length ?sg) cs)) \<le> length cs - length ?sg"
    using length_takeWhile_le [of is_ascii_digit "drop (length ?sg) cs"] by simp
  ultimately show ?thesis using Cons by (auto simp: exp_token_def Let_def)
qed (simp add: exp_token_def)

lemma number_token_length:
  assumes "number_token s = Some (t, b)"
  shows "length t \<le> length s"
proof -
  let ?sg = "if startswith s ''-'' then ''-'' else []"
  let ?i = "int_token (drop (length ?sg) s)"
  let ?f = "frac_token (drop (length ?sg + length ?i) s)"
  let ?e = "exp_token (drop (length ?sg + length ?i + length ?f) s)"
  have "length ?sg \<le> length s" by (cases s) auto
  moreover have "length ?i \<le> length s - length ?sg" using token_lengths(1) [of "drop (length ?sg) s"] by simp
  moreover have "length ?f \<le> length s - (length ?sg + length ?i)"
    using token_lengths(2) [of "drop (length ?sg + length ?i) s"] by simp
  moreover have "length ?e \<le> length s - (length ?sg + length ?i + length ?f)"
    using exp_token_length [of "drop (length ?sg + length ?i + length ?f) s"] by simp
  moreover have "t = ?sg @ ?i @ ?f @ ?e"
    using assms by (simp add: number_token_def Let_def split: if_splits)
  ultimately show ?thesis by simp
qed

lemma parse_number_ends:
  assumes "ends r" "parse_number t = Some (v, q)"
  shows "parse_number (t @ r) = Some (v, q @ r)"
proof -
  obtain u b where u: "number_token t = Some (u, b)"
    using assms(2) by (auto simp: parse_number_def split: option.splits)
  have "drop (length u) (t @ r) = drop (length u) t @ r" using number_token_length [OF u] by simp
  then show ?thesis
    using assms(2) u
    by (cases "if b then map_sum id JInt (py_int u) else map_sum id (\<lambda>x. JFloat (json_float x)) (parse_float u)")
      (simp_all add: parse_number_def number_token_ends [OF assms(1)] del: drop_append)
qed

lemma prefix_ends:
  assumes "ends r" "\<forall>c\<in>set w. c \<notin> {CHR '','', CHR '']'', CHR ''}''}"
  shows "startswith (t @ r) w \<longleftrightarrow> startswith t w"
proof -
  have "us = []" if us: "w = t @ us" "startswith r us" for us
    using assms us by (cases us; cases r) (auto simp: ends_def)
  then show ?thesis by (auto simp: prefix_append)
qed

lemma parse_word_ends:
  assumes "ends r" "parse_word t = Some (v, q)"
  shows "parse_word (t @ r) = Some (v, q @ r)"
proof -
  have chars: "\<forall>wv\<in>set json_words. \<forall>c\<in>set (fst wv). c \<notin> {CHR '','', CHR '']'', CHR ''}''}"
    by (simp add: json_words_def)
  have eq: "filter (\<lambda>wv. startswith (t @ r) (fst wv)) json_words = filter (\<lambda>wv. startswith t (fst wv)) json_words"
    by (rule filter_cong) (use prefix_ends [OF assms(1)] chars in auto)
  show ?thesis
  proof (cases "filter (\<lambda>wv. startswith t (fst wv)) json_words")
    case Nil
    with assms eq show ?thesis by (simp add: parse_word_def parse_number_ends)
  next
    case (Cons wv rest)
    then have "wv \<in> set (filter (\<lambda>wv. startswith t (fst wv)) json_words)" by simp
    then have "startswith t (fst wv)" by simp
    then have "length (fst wv) \<le> length t" by (rule prefix_length_le)
    with Cons assms(2) eq show ?thesis by (simp add: parse_word_def split_def)
  qed
qed

lemma show_digits_hd: "0 < n \<Longrightarrow> hd (show_digits n) \<noteq> CHR ''0''"
proof (induction n rule: show_digits.induct)
  case (1 n)
  show ?case
  proof (cases "n < 10")
    case True
    with 1 digit_char_props [of n] digit_char_props [of 0] show ?thesis
      by (subst show_digits.simps) (auto simp: digit_char_def)
  next
    case False
    with 1 have "hd (show_digits (n div 10)) \<noteq> CHR ''0''" by simp
    with False show ?thesis by (subst show_digits.simps) simp
  qed
qed

lemma number_token_nat:
  assumes "0 \<le> n"
  shows "int_token (show_digits n) = show_digits n"
proof -
  have "takeWhile is_ascii_digit (show_digits n) = show_digits n"
    using show_digits_ascii [OF assms] by (simp add: takeWhile_eq_all_conv list_all_iff)
  moreover obtain d ds where "show_digits n = d # ds" by (cases "show_digits n") auto
  moreover have "show_digits 0 = ''0''" by (subst show_digits.simps) (simp add: digit_char_def)
  ultimately show ?thesis
    using show_digits_hd [of n] assms by (cases "n = 0") (auto simp: int_token_def)
qed

lemma number_token_py_str: "number_token (py_str n) = Some (py_str n, True)"
proof -
  have "\<not> startswith (show_digits n) ''-''" if "0 \<le> n" for n
    using show_digits_ascii [OF that] by (cases "show_digits n") (auto simp: is_ascii_digit_def)
  then show ?thesis
    using number_token_nat [of n] number_token_nat [of "- n"]
    by (auto simp: number_token_def py_str_def frac_token_def exp_token_def)
qed

lemma parse_word_py_str: "parse_word (py_str n) = Some (JInt n, [])"
proof -
  have "\<forall>c\<in>set (py_str n). num_char c" using py_str_num [of n] by (simp add: list_all_iff)
  then have "\<not> startswith (py_str n) w" if "\<exists>c\<in>set w. \<not> num_char c" for w
    using that set_mono_prefix by blast
  moreover have "\<forall>wv\<in>set json_words. \<exists>c\<in>set (fst wv). \<not> num_char c"
    by (simp add: json_words_def num_char_def is_ascii_digit_def)
  ultimately have "filter (\<lambda>wv. startswith (py_str n) (fst wv)) json_words = []"
    by (simp add: filter_empty_conv)
  then show ?thesis
    by (simp add: parse_word_def parse_number_def number_token_py_str py_int_py_str)
qed

section \<open>The round trip\<close>

text \<open>Every float of a value is a text that reads back as itself, as the \<^verbatim>\<open>repr\<close> of a finite float is.\<close>

primrec canonical_floats :: "json \<Rightarrow> bool" where
  "canonical_floats JNull = True"
| "canonical_floats (JBool b) = True"
| "canonical_floats (JInt n) = True"
| "canonical_floats (JFloat t) = (parse_word t = Some (JFloat t, []))"
| "canonical_floats (JStr s) = True"
| "canonical_floats (JArr xs) = list_all id (map canonical_floats xs)"
| "canonical_floats (JObj kvs) = list_all snd (map (map_prod id canonical_floats) kvs)"

definition plain_style :: "json_style \<Rightarrow> bool" where
  "plain_style st = (js_item st \<in> {'','', '', ''} \<and> js_key st \<in> {'':'', '': ''})"

lemma plain_styles [simp]: "plain_style compact" "plain_style compact_utf8" "plain_style spaced"
  by (simp_all add: plain_style_def compact_def compact_utf8_def spaced_def)

text \<open>A text a value starts with.\<close>

definition opens :: "string \<Rightarrow> bool" where
  "opens s = (s \<noteq> [] \<and> \<not> is_json_space (hd s) \<and> hd s \<noteq> CHR '']'')"

lemma opens_append [simp]: "opens s \<Longrightarrow> opens (s @ r)"
  by (simp add: opens_def)

lemma skip_opens [simp]: "opens s \<Longrightarrow> skip_ws s = s"
  by (cases s) (simp_all add: opens_def skip_ws_def)

lemma skip_space [simp]: "skip_ws (CHR '' '' # s) = skip_ws s"
  by (simp add: skip_ws_def is_json_space_def)

lemma num_text_head:
  assumes "t \<noteq> []" "list_all num_char t"
  shows "opens t" and "hd t \<noteq> CHR 0x22" "hd t \<noteq> CHR ''[''" "hd t \<noteq> CHR ''{''"
  using assms by (cases t; auto simp: opens_def num_char_def is_ascii_digit_def is_json_space_def)+

lemma opens_quote [simp]: "opens (quote a s)"
  by (simp add: opens_def is_json_space_def)

lemma opens_print: "wf_json v \<Longrightarrow> opens (print_json st v)"
  by (cases v) (auto simp: num_text_head py_str_num float_text_def, simp_all add: opens_def is_json_space_def)

lemma parse_token:
  assumes "t \<noteq> []" "hd t \<noteq> CHR 0x22" "hd t \<noteq> CHR ''[''" "hd t \<noteq> CHR ''{''"
    and "parse_word t = Some (v, [])" "ends r" "0 < n"
  shows "parse_value n (t @ r) = Some (v, r)"
  using assms parse_word_ends [OF assms(6,5)] by (cases n; cases t) auto

lemma skip_structural [simp]:
  "skip_ws (CHR '','' # s) = CHR '','' # s" "skip_ws (CHR '']'' # s) = CHR '']'' # s"
  "skip_ws (CHR ''}'' # s) = CHR ''}'' # s" "skip_ws (CHR '':'' # s) = CHR '':'' # s"
  by (simp_all add: skip_ws_def is_json_space_def)

lemma skip_separator:
  assumes "plain_style st"
  shows "\<exists>q. js_item st = CHR '','' # q \<and> (\<forall>s. skip_ws (q @ s) = skip_ws s)"
    and "\<exists>q. js_key st = CHR '':'' # q \<and> (\<forall>s. skip_ws (q @ s) = skip_ws s)"
  using assms by (auto simp: plain_style_def)

definition reads :: "json_style \<Rightarrow> json \<Rightarrow> bool" where
  "reads st v = (\<forall>n r. ends r \<longrightarrow> 2 * length (print_json st v) < n \<longrightarrow>
     parse_value n (print_json st v @ r) = Some (v, r))"

lemma readsD: "reads st v \<Longrightarrow> ends r \<Longrightarrow> 2 * length (print_json st v) < n \<Longrightarrow>
    parse_value n (print_json st v @ r) = Some (v, r)"
  by (simp add: reads_def)

lemma opens_join: "xs \<noteq> [] \<Longrightarrow> \<forall>x\<in>set xs. opens (p x) \<Longrightarrow> opens (join sep (map p xs))"
  by (cases xs; cases "tl xs") auto

lemma parse_elems_join:
  assumes st: "plain_style st" and "xs \<noteq> []" "\<forall>x\<in>set xs. wf_json x \<and> reads st x"
    and "2 * length (join (js_item st) (map (print_json st) xs)) + 1 < n"
  shows "parse_elems n (join (js_item st) (map (print_json st) xs) @ CHR '']'' # r) = Some (xs, r)"
  using assms(2-)
proof (induction xs arbitrary: n)
  case (Cons x xs)
  obtain m where n: "n = Suc m" using Cons.prems(3) by (cases n) auto
  obtain q where q: "js_item st = CHR '','' # q" "\<And>s. skip_ws (q @ s) = skip_ws s"
    using skip_separator(1) [OF st] by blast
  show ?case
  proof (cases xs)
    case Nil
    have "parse_value m (print_json st x @ CHR '']'' # r) = Some (x, CHR '']'' # r)"
      by (rule readsD) (use Cons.prems Nil n in \<open>auto simp: ends_def\<close>)
    with Nil n show ?thesis by simp
  next
    case (Cons y ys)
    let ?t = "join (js_item st) (map (print_json st) xs) @ CHR '']'' # r"
    have "parse_value m (print_json st x @ CHR '','' # q @ ?t) = Some (x, CHR '','' # q @ ?t)"
      by (rule readsD) (use Cons.prems \<open>xs = y # ys\<close> n in \<open>auto simp: ends_def\<close>)
    moreover have "parse_elems m ?t = Some (xs, r)"
      by (rule Cons.IH) (use Cons.prems \<open>xs = y # ys\<close> n q in auto)
    moreover have "opens ?t"
      by (rule opens_append, rule opens_join) (use Cons.prems \<open>xs = y # ys\<close> in \<open>auto simp: opens_print\<close>)
    ultimately show ?thesis using \<open>xs = y # ys\<close> n q by (simp add: cons_fst_def)
  qed
qed simp

lemma parse_members_join:
  assumes st: "plain_style st" and "kvs \<noteq> []" "\<forall>kv\<in>set kvs. wf_json (snd kv) \<and> reads st (snd kv)"
    and "distinct (dkeys acc @ dkeys kvs)"
    and "2 * length (join (js_item st)
      (map (\<lambda>kv. quote (js_ascii st) (fst kv) @ js_key st @ print_json st (snd kv)) kvs)) + 1 < n"
  shows "parse_members n acc (join (js_item st)
      (map (\<lambda>kv. quote (js_ascii st) (fst kv) @ js_key st @ print_json st (snd kv)) kvs) @ CHR ''}'' # r)
    = Some (acc @ kvs, r)"
  using assms(2-)
proof (induction kvs arbitrary: n acc)
  case (Cons kv kvs)
  let ?p = "\<lambda>kv. quote (js_ascii st) (fst kv) @ js_key st @ print_json st (snd kv)"
  obtain k v where kv: "kv = (k, v)" by (cases kv)
  obtain m where n: "n = Suc m" using Cons.prems(4) by (cases n) auto
  obtain q where q: "js_item st = CHR '','' # q" "\<And>s. skip_ws (q @ s) = skip_ws s"
    using skip_separator(1) [OF st] by blast
  obtain p where p: "js_key st = CHR '':'' # p" "\<And>s. skip_ws (p @ s) = skip_ws s"
    using skip_separator(2) [OF st] by blast
  have set: "dset k v acc = acc @ [(k, v)]" using Cons.prems(3) kv by (intro dset_new) simp
  have wf: "wf_json v" using Cons.prems(2) kv by simp
  have head: "startswith (quote (js_ascii st) k @ u) [CHR 0x22]"
    "scan_str (tl (quote (js_ascii st) k @ u)) = Some (k, u)" for u
    using scan_quoted [of "js_ascii st" k u] by (simp_all add: quote_def)
  have opv: "opens (print_json st v @ u)" for u using wf by (simp add: opens_print)
  show ?case
  proof (cases kvs)
    case Nil
    have "parse_value m (print_json st v @ CHR ''}'' # r) = Some (v, CHR ''}'' # r)"
      by (rule readsD) (use Cons.prems Nil n kv in \<open>auto simp: ends_def\<close>)
    with Nil n kv head opv p set show ?thesis by simp
  next
    case (Cons y ys)
    let ?t = "join (js_item st) (map ?p kvs) @ CHR ''}'' # r"
    have "parse_value m (print_json st v @ CHR '','' # q @ ?t) = Some (v, CHR '','' # q @ ?t)"
      by (rule readsD) (use Cons.prems \<open>kvs = y # ys\<close> n kv in \<open>auto simp: ends_def\<close>)
    moreover have "parse_members m (dset k v acc) ?t = Some (dset k v acc @ kvs, r)"
      by (rule Cons.IH) (use Cons.prems \<open>kvs = y # ys\<close> n q kv set in auto)
    moreover have "opens ?t"
      by (rule opens_append, rule opens_join) (use \<open>kvs = y # ys\<close> in auto)
    ultimately show ?thesis using \<open>kvs = y # ys\<close> n kv head opv p q set by simp
  qed
qed simp

lemma not_starts: "u \<noteq> [] \<Longrightarrow> hd u \<noteq> c \<Longrightarrow> \<not> startswith (u @ r) [c]"
  by (cases u) auto

lemma print_reads:
  assumes st: "plain_style st"
  shows "wf_json v \<Longrightarrow> canonical_floats v \<Longrightarrow> reads st v"
proof (induction v)
  case (JInt i)
  show ?case
    unfolding reads_def using num_text_head [OF py_str_nonempty py_str_num(1), of i]
    by (simp add: parse_token parse_word_py_str)
next
  case (JFloat t)
  then show ?case
    unfolding reads_def using num_text_head [of t] by (simp add: parse_token float_text_def)
next
  case (JStr s)
  show ?case
    unfolding reads_def
  proof (intro allI impI)
    fix n r assume "2 * length (print_json st (JStr s)) < n"
    then obtain m where "n = Suc m" by (cases n) auto
    then show "parse_value n (print_json st (JStr s) @ r) = Some (JStr s, r)"
      using scan_quoted [of "js_ascii st" s r] by (simp add: quote_def)
  qed
next
  case (JArr xs)
  show ?case
    unfolding reads_def
  proof (intro allI impI)
    fix n r assume len: "2 * length (print_json st (JArr xs)) < n"
    then obtain m where n: "n = Suc m" by (cases n) auto
    show "parse_value n (print_json st (JArr xs) @ r) = Some (JArr xs, r)"
    proof (cases "xs = []")
      case False
      let ?t = "join (js_item st) (map (print_json st) xs)"
      have all: "\<forall>x\<in>set xs. wf_json x \<and> reads st x" using JArr by (auto simp: list_all_iff)
      then have "opens ?t" by (intro opens_join False) (auto simp: opens_print)
      then have o: "opens (?t @ CHR '']'' # r)" and nb: "\<not> startswith (?t @ CHR '']'' # r) '']''"
        using not_starts [of ?t] by (simp_all only: opens_append, simp add: opens_def)
      have "parse_elems m (?t @ CHR '']'' # r) = Some (xs, r)"
        by (rule parse_elems_join [OF st False all]) (use len n in simp)
      with n o nb show ?thesis by simp
    qed (simp add: n)
  qed
next
  case (JObj kvs)
  show ?case
    unfolding reads_def
  proof (intro allI impI)
    fix n r assume len: "2 * length (print_json st (JObj kvs)) < n"
    then obtain m where n: "n = Suc m" by (cases n) auto
    show "parse_value n (print_json st (JObj kvs) @ r) = Some (JObj kvs, r)"
    proof (cases "kvs = []")
      case False
      let ?t = "join (js_item st)
        (map (\<lambda>kv. quote (js_ascii st) (fst kv) @ js_key st @ print_json st (snd kv)) kvs)"
      have all: "\<forall>kv\<in>set kvs. wf_json (snd kv) \<and> reads st (snd kv)"
        using JObj by (fastforce simp: list_all_iff snds.simps)
      have "opens ?t" by (intro opens_join False) auto
      moreover have "hd ?t = CHR 0x22" using False by (cases kvs; cases "tl kvs") auto
      ultimately have o: "opens (?t @ CHR ''}'' # r)" and nb: "\<not> startswith (?t @ CHR ''}'' # r) ''}''"
        by (simp_all add: not_starts opens_def)
      have "parse_members m [] (?t @ CHR ''}'' # r) = Some ([] @ kvs, r)"
        by (rule parse_members_join [OF st False all]) (use JObj.prems len n in \<open>simp_all add: o_def\<close>)
      with n o nb show ?thesis by (simp add: o_def)
    qed (simp add: n)
  qed
next
  case JNull
  have "parse_word ''null'' = Some (JNull, [])" by (simp add: parse_word_def json_words_def)
  from parse_token [OF _ _ _ _ this] show ?case by (simp add: reads_def)
next
  case (JBool b)
  have "parse_word (if b then ''true'' else ''false'') = Some (JBool b, [])"
    by (simp add: parse_word_def json_words_def)
  from parse_token [OF _ _ _ _ this] show ?case by (simp add: reads_def split: if_splits)
qed

lemma canonical_sort_json: "canonical_floats v \<Longrightarrow> canonical_floats (sort_json v)"
proof (induction v)
  case (JObj kvs)
  then show ?case by (fastforce simp: list_all_iff snds.simps)
qed (auto simp: list_all_iff)

theorem json_round_trip:
  assumes "wf_json v" "canonical_floats v" "plain_style st"
  shows "json_loads (dumps st v) = Return (sort_json v)"
proof -
  let ?t = "dumps st v"
  have "opens ?t" using assms(1) by (simp add: dumps_def opens_print wf_sort_json)
  moreover have "parse_value (json_fuel ?t) (?t @ []) = Some (sort_json v, [])"
    unfolding dumps_def json_fuel_def
    by (rule readsD [OF print_reads [OF assms(3)]])
      (simp_all add: assms wf_sort_json canonical_sort_json ends_def)
  ultimately show ?thesis by (simp add: json_loads_def skip_ws_def [of "[]"])
qed

theorem json_round_trip_witness:
  "json_loads (dumps compact (JObj [(''s'', JInt 7), (''k'', JStr ''memory''), (''t'', JStr ''created'')])) =
     Return (JObj [(''k'', JStr ''memory''), (''s'', JInt 7), (''t'', JStr ''created'')])"
  using json_round_trip [of "JObj [(''s'', JInt 7), (''k'', JStr ''memory''), (''t'', JStr ''created'')]" compact]
  by (simp add: sort_key_def)

end
