(* ===== verification/Cursor_Tokens.thy ===== *)
theory Cursor_Tokens
  imports Json_Parser Event_Store
begin

text \<open>
  The cursors of \<^verbatim>\<open>api/mcp_tools/qso_tools.py\<close>: tokens that name a position in the timeline of one object
  or of every object below a prefix, as URL-safe base64 of canonical JSON, and their resolution.  The
  decoder is the one of the standard library, which skips characters outside its alphabet.  A text
  decoded from UTF-8 is refused when it holds a character beyond U+00FF.
\<close>

section \<open>Base64\<close>

text \<open>\<^verbatim>\<open>base64.urlsafe_b64encode\<close> without its padding.\<close>

definition b64_digit :: "nat \<Rightarrow> char" where
  "b64_digit n = (if n < 26 then char_of (65 + n) else if n < 52 then char_of (71 + n)
     else if n < 62 then char_of (n - 4) else if n = 62 then CHR ''-'' else CHR ''_'')"

fun b64_encode :: "nat list \<Rightarrow> string" where
  "b64_encode (a # b # c # rest) =
     [b64_digit (a div 4), b64_digit (a mod 4 * 16 + b div 16), b64_digit (b mod 16 * 4 + c div 64), b64_digit (c mod 64)] @
     b64_encode rest"
| "b64_encode [a, b] = [b64_digit (a div 4), b64_digit (a mod 4 * 16 + b div 16), b64_digit (b mod 16 * 4)]"
| "b64_encode [a] = [b64_digit (a div 4), b64_digit (a mod 4 * 16)]"
| "b64_encode [] = []"

text \<open>\<^verbatim>\<open>base64.urlsafe_b64decode\<close>: the characters of both alphabets.\<close>

definition b64_value :: "char \<Rightarrow> nat option" where
  "b64_value c = (let n = code c in
     if 65 \<le> n \<and> n \<le> 90 then Some (n - 65) else if 97 \<le> n \<and> n \<le> 122 then Some (n - 71)
     else if 48 \<le> n \<and> n \<le> 57 then Some (n + 4)
     else if c = CHR ''-'' \<or> c = CHR ''+'' then Some 62 else if c = CHR ''_'' \<or> c = CHR ''/'' then Some 63 else None)"

text \<open>The scan: the position in the group of four, the bits left over and the padding seen.\<close>

fun b64_scan :: "nat \<Rightarrow> nat \<Rightarrow> nat \<Rightarrow> string \<Rightarrow> nat list result" where
  "b64_scan quad left pads [] = (if quad = 0 then Return [] else Raise (ValueError ''Incorrect padding''))"
| "b64_scan quad left pads (c # cs) =
     (if c = CHR ''='' then
        (if 2 \<le> quad then (if 4 \<le> quad + Suc pads then Return [] else b64_scan quad left (Suc pads) cs)
         else b64_scan quad left pads cs)
      else case b64_value c of
        None \<Rightarrow> b64_scan quad left pads cs
      | Some v \<Rightarrow>
          (if quad = 0 then b64_scan 1 v 0 cs
           else if quad = 1 then bindR (b64_scan 2 (v mod 16) 0 cs) (\<lambda>bs. Return ((left * 4 + v div 16) # bs))
           else if quad = 2 then bindR (b64_scan 3 (v mod 4) 0 cs) (\<lambda>bs. Return ((left * 16 + v div 4) # bs))
           else bindR (b64_scan 0 0 0 cs) (\<lambda>bs. Return ((left * 64 + v) # bs))))"

definition b64_padding :: "string \<Rightarrow> string" where
  "b64_padding s = replicate ((4 - length s mod 4) mod 4) (CHR ''='')"

text \<open>Decoded as UTF-8.\<close>

fun utf8_decode :: "nat list \<Rightarrow> string option" where
  "utf8_decode [] = Some []"
| "utf8_decode [a] = (if a < 128 then Some [char_of a] else None)"
| "utf8_decode (a # b # bs) =
     (if a < 128 then map_option (Cons (char_of a)) (utf8_decode (b # bs))
      else if (a = 194 \<or> a = 195) \<and> 128 \<le> b \<and> b < 192
      then map_option (Cons (char_of ((a - 192) * 64 + (b - 128)))) (utf8_decode bs) else None)"

section \<open>Tokens\<close>

definition encode_cursor :: "json dict \<Rightarrow> string" where
  "encode_cursor payload = b64_encode (utf8 (dumps compact (JObj payload)))"

text \<open>Python's equality with \<open>1\<close>, which a true and the float one have as well.\<close>

definition is_one :: "json option \<Rightarrow> bool" where
  "is_one v = (v \<in> {Some (JInt 1), Some (JBool True), Some (JFloat ''1.0'')})"

definition decode_cursor :: "string \<Rightarrow> json dict result" where
  "decode_cursor token =
     (if token = [] then Raise (ValueError ''cursor token must be non-empty'')
      else if \<exists>c\<in>set token. 127 < code c
      then Raise (ValueError ''string argument should contain only ASCII characters'')
      else case b64_scan 0 0 0 (token @ b64_padding token) of
        Inl e \<Rightarrow> Raise (ValueError ''invalid cursor token encoding'')
      | Inr raw \<Rightarrow>
          (case (case utf8_decode raw of Some s \<Rightarrow> json_loads s | None \<Rightarrow> Raise (ValueError ''utf-8'')) of
             Inl e \<Rightarrow> Raise (ValueError ''invalid cursor token payload'')
           | Inr (JObj payload) \<Rightarrow>
               if is_one (dget payload ''v'') then Return payload
               else Raise (ValueError ''unsupported cursor token version'')
           | Inr _ \<Rightarrow> Raise (ValueError ''cursor token payload must be an object'')))"

definition single_cursor_token :: "string \<Rightarrow> int \<Rightarrow> string result" where
  "single_cursor_token uri next_event_index =
     (if next_event_index < 0 then Raise (ValueError ''next_event_index must be >= 0'')
      else Return (encode_cursor [(''v'', JInt 1), (''kind'', JStr ''uri''), (''uri'', JStr uri),
        (''next_event_index'', JInt next_event_index)]))"

definition prefix_cursor_token :: "string \<Rightarrow> int dict \<Rightarrow> string result" where
  "prefix_cursor_token uri_prefix next_by_uri =
     (if \<exists>p\<in>set next_by_uri. snd p < 0 then Raise (ValueError ''invalid prefix cursor index'')
      else Return (encode_cursor [(''v'', JInt 1), (''kind'', JStr ''prefix''), (''prefix'', JStr uri_prefix),
        (''next_by_uri'', JObj (map (\<lambda>(uri, i). (uri, JInt i)) next_by_uri))]))"

section \<open>Resolution\<close>

text \<open>An \<open>isinstance(v, int)\<close> field, which a truth value passes too.\<close>

definition int_value :: "json \<Rightarrow> int option" where
  "int_value v = (case v of JInt i \<Rightarrow> Some i | JBool b \<Rightarrow> Some (of_bool b) | _ \<Rightarrow> None)"

lemma int_value_simps [simp]: "int_value (JInt i) = Some i" "int_value (JBool b) = Some (of_bool b)"
  "int_value (JStr s) = None" "int_value JNull = None"
  by (simp_all add: int_value_def)

definition int_field :: "json dict \<Rightarrow> string \<Rightarrow> int option" where
  "int_field p k = (case dget p k of Some v \<Rightarrow> int_value v | None \<Rightarrow> None)"

datatype cursor_arg = Cursor_Index int | Cursor_Token string | Cursor_Other

definition resolve_single_cursor :: "string \<Rightarrow> cursor_arg \<Rightarrow> nat \<Rightarrow> int result" where
  "resolve_single_cursor uri cursor replayed_len =
     bindR (case cursor of
         Cursor_Index i \<Rightarrow> Return i
       | Cursor_Token token \<Rightarrow> bindR (decode_cursor token) (\<lambda>p.
           if dget p ''kind'' \<noteq> Some (JStr ''uri'') then Raise (ValueError ''cursor token kind mismatch, expected uri'')
           else if dget p ''uri'' \<noteq> Some (JStr uri) then Raise (ValueError ''cursor token uri mismatch'')
           else (case int_field p ''next_event_index'' of
               Some i \<Rightarrow> Return i
             | None \<Rightarrow> Raise (ValueError ''cursor token missing valid next_event_index'')))
       | Cursor_Other \<Rightarrow> Raise (ValueError ''cursor must be int, str token, or None''))
     (\<lambda>start.
       if start < 0 then Raise (ValueError ''cursor must be >= 0'')
       else if start > int replayed_len then Raise (ValueError (''cursor out of range for uri '' @ uri))
       else Return start)"

text \<open>The entries of a prefix cursor, put over the map one by one.\<close>

fun merge_token_map :: "string \<Rightarrow> json dict \<Rightarrow> int dict \<Rightarrow> int dict result" where
  "merge_token_map uri_prefix [] next_by_uri = Return next_by_uri"
| "merge_token_map uri_prefix ((uri, raw_index) # rest) next_by_uri =
     (if \<not> startswith uri uri_prefix then Raise (ValueError (''prefix cursor contains uri outside prefix: '' @ uri))
      else case int_value raw_index of
        None \<Rightarrow> Raise (ValueError (''prefix cursor has invalid event index for uri '' @ uri))
      | Some i \<Rightarrow>
          (if i < 0 then Raise (ValueError (''prefix cursor has invalid event index for uri '' @ uri))
           else merge_token_map uri_prefix rest (dset uri i next_by_uri)))"

definition resolve_prefix_cursor :: "string \<Rightarrow> string option \<Rightarrow> string list \<Rightarrow> int dict result" where
  "resolve_prefix_cursor uri_prefix cursor discovered_uris =
     (let next_by_uri = map (\<lambda>uri. (uri, 0)) discovered_uris in
      case cursor of
        None \<Rightarrow> Return next_by_uri
      | Some token \<Rightarrow> bindR (decode_cursor token) (\<lambda>p.
          if dget p ''kind'' \<noteq> Some (JStr ''prefix'') then Raise (ValueError ''cursor token kind mismatch, expected prefix'')
          else if dget p ''prefix'' \<noteq> Some (JStr uri_prefix) then Raise (ValueError ''cursor token prefix mismatch'')
          else (case dget p ''next_by_uri'' of
              Some (JObj token_map) \<Rightarrow> merge_token_map uri_prefix token_map next_by_uri
            | _ \<Rightarrow> Raise (ValueError ''prefix cursor token missing next_by_uri map''))))"

section \<open>Decoding what is encoded\<close>

lemma b64_digit_code:
  "n < 64 \<Longrightarrow> code (b64_digit n) = (if n < 26 then 65 + n else if n < 52 then 71 + n
     else if n < 62 then n - 4 else if n = 62 then 45 else 95)"
  by (simp add: b64_digit_def)

lemma b64_digit_value:
  assumes "n < 64"
  shows "b64_value (b64_digit n) = Some n" and "b64_digit n \<noteq> CHR ''=''" and "code (b64_digit n) < 128"
proof -
  show ascii: "code (b64_digit n) < 128" using assms by (auto simp: b64_digit_code split: nat_diff_split)
  have "n = 62 \<or> n = 63" if "\<not> n < 62" using that assms by linarith
  then show v: "b64_value (b64_digit n) = Some n"
    using b64_digit_code [OF assms] by (cases "n < 62") (auto simp: b64_value_def Let_def b64_digit_def [of 62] b64_digit_def [of 63])
  show "b64_digit n \<noteq> CHR ''=''"
  proof
    assume "b64_digit n = CHR ''=''"
    with v show False by (simp add: b64_value_def)
  qed
qed

text \<open>One digit of each position.\<close>

lemma b64_scan_digit:
  assumes "v < 64"
  shows "b64_scan 0 left pads (b64_digit v # cs) = b64_scan 1 v 0 cs"
    and "b64_scan 1 left pads (b64_digit v # cs) =
      bindR (b64_scan 2 (v mod 16) 0 cs) (\<lambda>bs. Return ((left * 4 + v div 16) # bs))"
    and "b64_scan 2 left pads (b64_digit v # cs) =
      bindR (b64_scan 3 (v mod 4) 0 cs) (\<lambda>bs. Return ((left * 16 + v div 4) # bs))"
    and "b64_scan 3 left pads (b64_digit v # cs) = bindR (b64_scan 0 0 0 cs) (\<lambda>bs. Return ((left * 64 + v) # bs))"
  using b64_digit_value [OF assms] by simp_all

lemma byte_bounds:
  fixes a b :: nat
  assumes "a < 256" "b < 256"
  shows "a div 4 < 64" "a mod 4 * 16 + b div 16 < 64" "a mod 16 * 4 + b div 64 < 64" "a mod 4 * 16 < 64"
    "a mod 16 * 4 < 64" "a mod 64 < 64"
proof -
  have "a div 4 < 64" "b div 16 < 16" "b div 64 < 4" "a mod 4 < 4" "a mod 16 < 16" "a mod 64 < 64"
    using assms by (simp_all add: less_mult_imp_div_less)
  then show "a div 4 < 64" "a mod 4 * 16 + b div 16 < 64" "a mod 16 * 4 + b div 64 < 64" "a mod 4 * 16 < 64"
    "a mod 16 * 4 < 64" "a mod 64 < 64" by linarith+
qed

lemma byte_parts:
  fixes a b c :: nat
  assumes "b < 256" "c < 256"
  shows "a div 4 * 4 + (a mod 4 * 16 + b div 16) div 16 = a"
    "(a mod 4 * 16 + b div 16) mod 16 * 16 + (b mod 16 * 4 + c div 64) div 4 = b"
proof -
  have b: "b div 16 < 16" "c div 64 < 4" using assms by (simp_all add: less_mult_imp_div_less)
  then have "(a mod 4 * 16 + b div 16) div 16 = a mod 4" "(a mod 4 * 16 + b div 16) mod 16 = b div 16"
    "(b mod 16 * 4 + c div 64) div 4 = b mod 16" by simp_all
  then show "a div 4 * 4 + (a mod 4 * 16 + b div 16) div 16 = a"
    "(a mod 4 * 16 + b div 16) mod 16 * 16 + (b mod 16 * 4 + c div 64) div 4 = b" by (simp_all only: div_mult_mod_eq)
qed

lemma last_byte_parts:
  fixes b c :: nat
  assumes "c < 256"
  shows "(b mod 16 * 4 + c div 64) mod 4 * 64 + c mod 64 = c"
proof -
  have "c div 64 < 4" using assms by (simp add: less_mult_imp_div_less)
  then have "(b mod 16 * 4 + c div 64) mod 4 = c div 64" by simp
  then show ?thesis by (simp only: div_mult_mod_eq)
qed

text \<open>A whole group of four, and the ends with padding.\<close>

lemma b64_scan_group:
  assumes "u < 64" "v < 64" "w < 64" "x < 64"
  shows "b64_scan 0 left pads (b64_digit u # b64_digit v # b64_digit w # b64_digit x # cs) =
      bindR (b64_scan 0 0 0 cs) (\<lambda>bs. Return ((u * 4 + v div 16) # (v mod 16 * 16 + w div 4) # (w mod 4 * 64 + x) # bs))"
    and "b64_scan 0 left pads (b64_digit u # b64_digit v # b64_digit w # ''='') =
      Return [u * 4 + v div 16, v mod 16 * 16 + w div 4]"
    and "b64_scan 0 left pads (b64_digit u # b64_digit v # ''=='') = Return [u * 4 + v div 16]"
proof -
  have ends: "b64_scan 3 k 0 ''='' = Return []" "b64_scan 2 k 0 ''=='' = Return []" for k by simp_all
  note digits = b64_scan_digit(1) [OF assms(1)] b64_scan_digit(2) [OF assms(2)] b64_scan_digit(3) [OF assms(3)]
    b64_scan_digit(4) [OF assms(4)]
  show "b64_scan 0 left pads (b64_digit u # b64_digit v # b64_digit w # b64_digit x # cs) =
      bindR (b64_scan 0 0 0 cs) (\<lambda>bs. Return ((u * 4 + v div 16) # (v mod 16 * 16 + w div 4) # (w mod 4 * 64 + x) # bs))"
    unfolding digits by (cases "b64_scan 0 0 0 cs") simp_all
  show "b64_scan 0 left pads (b64_digit u # b64_digit v # b64_digit w # ''='') =
      Return [u * 4 + v div 16, v mod 16 * 16 + w div 4]"
    "b64_scan 0 left pads (b64_digit u # b64_digit v # ''=='') = Return [u * 4 + v div 16]"
    unfolding digits ends by simp_all
qed

lemma b64_scan_encode:
  "\<forall>b\<in>set bs. b < 256 \<Longrightarrow> b64_scan 0 left pads (b64_encode bs @ b64_padding (b64_encode bs)) = Return bs"
proof (induction bs arbitrary: left pads rule: b64_encode.induct)
  case (1 a b c rest)
  then have small: "a < 256" "b < 256" "c < 256" by simp_all
  have p: "b64_padding (b64_encode (a # b # c # rest)) = b64_padding (b64_encode rest)" by (simp add: b64_padding_def)
  have ih: "b64_scan 0 0 0 (b64_encode rest @ b64_padding (b64_encode rest)) = Return rest"
    using 1 by simp
  have "b64_scan 0 left pads (b64_encode (a # b # c # rest) @ b64_padding (b64_encode rest)) =
      bindR (b64_scan 0 0 0 (b64_encode rest @ b64_padding (b64_encode rest))) (\<lambda>bs. Return
        ((a div 4 * 4 + (a mod 4 * 16 + b div 16) div 16) #
         ((a mod 4 * 16 + b div 16) mod 16 * 16 + (b mod 16 * 4 + c div 64) div 4) #
         ((b mod 16 * 4 + c div 64) mod 4 * 64 + c mod 64) # bs))"
    unfolding b64_encode.simps append_Cons append_Nil
    by (rule b64_scan_group(1))
      (rule byte_bounds(1) byte_bounds(2) byte_bounds(3) byte_bounds(6); rule small)+
  then show ?case
    unfolding p ih byte_parts [OF small(2,3)] last_byte_parts [OF small(3)] by simp
next
  case (2 a b)
  then have small: "a < 256" "b < 256" "0 < (256::nat)" by simp_all
  have p: "b64_padding (b64_encode [a, b]) = ''=''" by (simp add: b64_padding_def)
  have "b64_scan 0 left pads (b64_encode [a, b] @ ''='') =
      Return [a div 4 * 4 + (a mod 4 * 16 + b div 16) div 16,
        (a mod 4 * 16 + b div 16) mod 16 * 16 + (b mod 16 * 4) div 4]"
    unfolding b64_encode.simps append_Cons append_Nil
    by (rule b64_scan_group(2))
      (rule byte_bounds(1) byte_bounds(2) byte_bounds(5) zero_less_numeral; rule small)+
  then show ?case using byte_parts [OF small(2,3), of a] by (simp only: p div_0 add_0_right)
next
  case (3 a)
  then have small: "a < 256" "0 < (256::nat)" by simp_all
  have p: "b64_padding (b64_encode [a]) = ''==''" by (simp add: b64_padding_def numeral_2_eq_2)
  have "b64_scan 0 left pads (b64_encode [a] @ ''=='') = Return [a div 4 * 4 + (a mod 4 * 16) div 16]"
    unfolding b64_encode.simps append_Cons append_Nil
    by (rule b64_scan_group(3)) (rule byte_bounds(1) byte_bounds(4) zero_less_numeral; rule small)+
  then show ?case using byte_parts(1) [OF small(2,2), of a] by (simp only: p div_0 add_0_right)
qed (simp add: b64_padding_def)

lemma utf8_bytes: "\<forall>b\<in>set (utf8 s). b < 256"
proof -
  have "\<forall>b\<in>set (utf8_char c). b < 256" for c 
  proof -
    have "code c div 64 < 4" using code_less [of c] by (simp add: less_mult_imp_div_less del: code_less)
    moreover have "code c mod 64 < 64" by simp
    ultimately show ?thesis using code_less [of c] by (auto simp: utf8_char_def Let_def)
  qed
  then show ?thesis by (auto simp: utf8_def)
qed

lemma utf8_Cons: "utf8 (c # s) = utf8_char c @ utf8 s"
  by (simp add: utf8_def)

lemma utf8_decode_utf8: "utf8_decode (utf8 s) = Some s"
proof (induction s)
  case (Cons c s)
  show ?case
  proof (cases "code c < 128")
    case True
    with Cons show ?thesis by (cases "utf8 s") (simp_all add: utf8_Cons utf8_char_def)
  next
    case False
    have "code c div 64 < 4" using code_less [of c] by (simp add: less_mult_imp_div_less del: code_less)
    moreover have "2 \<le> code c div 64" using False by (simp add: less_eq_div_iff_mult_less_eq)
    ultimately have "code c div 64 = 2 \<or> code c div 64 = 3" by linarith
    moreover have "64 * (code c div 64) + code c mod 64 = code c" by simp
    moreover have "code c mod 64 < 64" by simp
    ultimately have "192 + code c div 64 = 194 \<or> 192 + code c div 64 = 195"
      "char_of ((192 + code c div 64 - 192) * 64 + (128 + code c mod 64 - 128)) = c" by (auto simp: mult.commute)
    with False Cons show ?thesis by (simp add: utf8_Cons utf8_char_def Let_def)
  qed
qed (simp add: utf8_def)

lemma utf8_nonempty: "s \<noteq> [] \<Longrightarrow> utf8 s \<noteq> []"
  by (cases s) (auto simp: utf8_def utf8_char_def Let_def)

lemma b64_encode_ascii: "\<forall>b\<in>set bs. b < 256 \<Longrightarrow> \<forall>c\<in>set (b64_encode bs). code c < 128"
proof (induction bs rule: b64_encode.induct)
  case (1 a b c rest)
  then have "a < 256" "b < 256" "c < 256" by simp_all
  note small = b64_digit_value(3) [OF byte_bounds(1) [OF this(1,2)]] b64_digit_value(3) [OF byte_bounds(2) [OF this(1,2)]]
    b64_digit_value(3) [OF byte_bounds(3) [OF this(2,3)]] b64_digit_value(3) [OF byte_bounds(6) [OF this(3,3)]]
  have "\<forall>c\<in>set (b64_encode rest). code c < 128" using 1 by simp
  then show ?case by (simp add: small)
next
  case (2 a b)
  then have "a < 256" "b < 256" by simp_all
  note small = b64_digit_value(3) [OF byte_bounds(1) [OF this(1,2)]] b64_digit_value(3) [OF byte_bounds(2) [OF this(1,2)]]
    b64_digit_value(3) [OF byte_bounds(5) [OF this(2,2)]]
  show ?case by (simp add: small)
next
  case (3 a)
  then have "a < 256" by simp
  note small = b64_digit_value(3) [OF byte_bounds(1) [OF this this]] b64_digit_value(3) [OF byte_bounds(4) [OF this this]]
  show ?case by (simp add: small)
qed simp

lemma b64_encode_Nil: "b64_encode bs = [] \<longleftrightarrow> bs = []"
  by (cases bs rule: b64_encode.cases) auto

text \<open>A token decodes to the payload it was made of, with its keys in order.\<close>

theorem cursor_round_trip:
  assumes "wf_json (JObj p)" "canonical_floats (JObj p)" "is_one (dget p ''v'')"
  shows "decode_cursor (encode_cursor p) = Return (sorted_row p)"
proof -
  let ?t = "dumps compact (JObj p)"
  have ne: "b64_encode (utf8 ?t) \<noteq> []"
    using utf8_nonempty [of ?t] by (simp add: b64_encode_Nil dumps_def)
  have "distinct (dkeys p)" using assms(1) by simp
  then have "is_one (dget (sorted_row p) ''v'')"
    using assms(3) by (auto simp: dget_sorted_row is_one_def)
  moreover have "json_loads ?t = Return (JObj (sorted_row p))"
    using json_round_trip [OF assms(1,2) plain_styles(1)] by (simp only: sort_json_row)
  moreover have "\<not> (\<exists>c\<in>set (b64_encode (utf8 ?t)). 127 < code c)"
    using b64_encode_ascii [OF utf8_bytes, of ?t] by fastforce
  ultimately show ?thesis
    using ne
    by (simp add: decode_cursor_def encode_cursor_def b64_scan_encode [OF utf8_bytes] utf8_decode_utf8 del: sort_json.simps)
qed

section \<open>Resuming from a token\<close>

lemma resolve_own_token:
  assumes "single_cursor_token uri i = Return t" "i \<le> int n"
  shows "resolve_single_cursor uri (Cursor_Token t) n = Return i"
proof -
  let ?p = "[(''v'', JInt 1), (''kind'', JStr ''uri''), (''uri'', JStr uri), (''next_event_index'', JInt i)]"
  have t: "t = encode_cursor ?p" and i: "0 \<le> i" using assms(1) by (auto simp: single_cursor_token_def split: if_splits)
  have "decode_cursor t = Return (sorted_row ?p)" unfolding t by (rule cursor_round_trip) (simp_all add: is_one_def)
  moreover have "dget (sorted_row ?p) k = map_option sort_json (dget ?p k)" for k by (rule dget_sorted_row) simp
  ultimately show ?thesis
    using i assms(2) by (simp add: resolve_single_cursor_def int_field_def int_value_def)
qed

lemma merge_token_map_ints:
  assumes "distinct (dkeys m)" "\<forall>(uri, i)\<in>set m. startswith uri pre \<and> 0 \<le> i"
  shows "\<exists>r. merge_token_map pre (map (\<lambda>(uri, i). (uri, JInt i)) m) base = Return r \<and>
    (distinct (dkeys base) \<longrightarrow> distinct (dkeys r)) \<and> (\<forall>uri. dget r uri = (case dget m uri of Some i \<Rightarrow> Some i | None \<Rightarrow> dget base uri))"
  using assms
proof (induction m arbitrary: base)
  case (Cons kv m)
  obtain u i where kv: "kv = (u, i)" by (cases kv)
  obtain r where r: "merge_token_map pre (map (\<lambda>(uri, i). (uri, JInt i)) m) (dset u i base) = Return r"
    "distinct (dkeys (dset u i base)) \<longrightarrow> distinct (dkeys r)" "\<forall>uri. dget r uri = (case dget m uri of Some i \<Rightarrow> Some i | None \<Rightarrow> dget (dset u i base) uri)"
    using Cons.IH [of "dset u i base"] Cons.prems by auto
  have "dget m u = None" using Cons.prems(1) kv by (simp add: map_of_eq_None_iff)
  with Cons.prems kv r show ?case
    by (intro exI [of _ r]) (auto simp: int_value_def update_conv distinct_dset split: option.splits)
qed simp

lemma sort_key_map_values: "map (\<lambda>(k, v). (k, f v)) (sort_key fst m) = sort_key fst (map (\<lambda>(k, v). (k, f v)) m)"
  using map_values_sort [of f m] by (simp add: map_prod_def split_def)

lemma sort_int_object:
  "sort_json (JObj (map (\<lambda>(uri, i). (uri, JInt i)) m)) = JObj (map (\<lambda>(uri, i). (uri, JInt i)) (sort_key fst m))"
proof -
  have "sort_json (JObj (map (\<lambda>(uri, i). (uri, JInt i)) m)) = JObj (sort_key fst (map (\<lambda>(uri, i). (uri, JInt i)) m))"
    by (simp add: map_prod_def split_def comp_def)
  then show ?thesis by (simp only: sort_key_map_values)
qed

theorem prefix_cursor_resumes:
  assumes "prefix_cursor_token pre m = Return t" "distinct (dkeys m)" "\<forall>uri\<in>set (dkeys m). startswith uri pre"
  shows "\<exists>r. resolve_prefix_cursor pre (Some t) uris = Return r \<and> (distinct uris \<longrightarrow> distinct (dkeys r)) \<and>
    (\<forall>uri. dget r uri = (case dget m uri of Some i \<Rightarrow> Some i | None \<Rightarrow> if uri \<in> set uris then Some 0 else None))"
proof -
  let ?o = "map (\<lambda>(uri, i). (uri, JInt i))"
  let ?p = "[(''v'', JInt 1), (''kind'', JStr ''prefix''), (''prefix'', JStr pre), (''next_by_uri'', JObj (?o m))]"
  have t: "t = encode_cursor ?p" and nonneg: "\<forall>(uri, i)\<in>set m. 0 \<le> i"
    using assms(1) by (auto simp: prefix_cursor_token_def not_less split: if_splits)
  have keys: "map fst (?o m) = dkeys m" for m :: "int dict" by (simp add: split_def comp_def)
  have wf: "wf_json (JObj ?p)" "canonical_floats (JObj ?p)"
    using assms(2) keys [of m] by (auto simp: list_all_iff simp del: map_map)
  have dec: "decode_cursor t = Return (sorted_row ?p)"
    unfolding t by (rule cursor_round_trip [OF wf]) (simp add: is_one_def)
  have get: "dget (sorted_row ?p) k = map_option sort_json (dget ?p k)" for k by (rule dget_sorted_row) simp
  have o: "sort_json (JObj (?o m)) = JObj (?o (sort_key fst m))" by (rule sort_int_object)
  let ?base = "map (\<lambda>uri. (uri, 0 :: int)) uris"
  have m: "distinct (dkeys (sort_key fst m))" "\<forall>(uri, i)\<in>set (sort_key fst m). startswith uri pre \<and> 0 \<le> i"
    using assms(2,3) nonneg by (force simp: keys_sort_key distinct_sort)+
  obtain r where r: "merge_token_map pre (?o (sort_key fst m)) ?base = Return r"
    "distinct (dkeys ?base) \<longrightarrow> distinct (dkeys r)" "\<forall>uri. dget r uri = (case dget (sort_key fst m) uri of Some i \<Rightarrow> Some i | None \<Rightarrow> dget ?base uri)"
    using merge_token_map_ints [OF m, of ?base] by blast
  have "dget ?base uri = (if uri \<in> set uris then Some 0 else None)" for uri :: string
    by (induction uris) auto
  with r(3) map_of_sort_key [OF assms(2)]
  have "\<forall>uri. dget r uri = (case dget m uri of Some i \<Rightarrow> Some i | None \<Rightarrow> if uri \<in> set uris then Some 0 else None)"
    by (simp split: option.split)
  moreover have "resolve_prefix_cursor pre (Some t) uris = Return r"
    using r(1) by (simp add: resolve_prefix_cursor_def dec get o del: sort_json.simps) simp
  moreover have "distinct uris \<longrightarrow> distinct (dkeys r)" using r(2) by (simp add: comp_def)
  ultimately show ?thesis by blast
qed

end
