(* ===== verification/Qso_Tools.thy ===== *)
theory Qso_Tools
  imports State_Engine State_Result Cursor_Tokens
begin

text \<open>
  \<^verbatim>\<open>api/mcp_tools/qso_tools.py\<close> over the services of \<^verbatim>\<open>services/runtime.py\<close>, and the bridge of
  \<^verbatim>\<open>solis/services\<close> that forwards to it: objects, patches that are streamed and checkpointed,
  timelines, links, and the editing of scene graphs.  Event ids, wall clock and the text of a
  timestamp come from outside.  The stream of a patch is published in a task of its own; a publisher
  that waits for a subscriber does not hold up the patch.
\<close>

section \<open>The runtime\<close>

record fabric =
  fr_engine :: engine
  fr_graph :: graph_service
  fr_checkpoints :: checkpoint_store
  fr_calls :: nat

record fabric_env =
  fe_uuid :: "nat \<Rightarrow> string"
  fe_now :: "nat \<Rightarrow> string"
  fe_stamp :: "int \<Rightarrow> string"

definition new_fabric :: "crypto \<Rightarrow> fabric" where
  "new_fabric c = \<lparr>fr_engine = fresh_engine c,
     fr_graph = \<lparr>gr_links = [], gr_subscribers = [], gr_next_id = 0\<rparr>, fr_checkpoints = [], fr_calls = 0\<rparr>"

text \<open>An operation of the engine, and a number for the next value from outside.\<close>

definition on_engine :: "(engine \<Rightarrow> 'a result \<times> engine) \<Rightarrow> (fabric, 'a) op" where
  "on_engine f = (\<lambda>s. case f (fr_engine s) of (r, g) \<Rightarrow> (r, s\<lparr>fr_engine := g\<rparr>))"

definition next_call :: "(fabric, nat) op" where
  "next_call = (\<lambda>s. (Return (fr_calls s), s\<lparr>fr_calls := Suc (fr_calls s)\<rparr>))"

section \<open>Events as JSON\<close>

definition event_json :: "fabric_env \<Rightarrow> qso_event \<Rightarrow> json dict" where
  "event_json env e =
     [(''schema_version'', JStr (qe_schema_version e)), (''event_id'', JStr (qe_event_id e)),
      (''timestamp'', JStr (fe_stamp env (qe_timestamp e))), (''actor'', JStr (qe_actor e)),
      (''object_uri'', JStr (qe_object_uri e)), (''delta'', JObj (qe_delta e)),
      (''signature'', JStr (qe_signature e)), (''policy_version'', JStr (qe_policy_version e)),
      (''node_id'', JStr (qe_node_id e))]"

definition checkpoint_hash :: "json dict list \<Rightarrow> string" where
  "checkpoint_hash events = sha256_hex (dumps spaced (JArr (map JObj events)))"

definition event_payload ::
    "string \<Rightarrow> json dict \<Rightarrow> json dict \<Rightarrow> int \<Rightarrow> string \<Rightarrow> json dict result" where
  "event_payload uri event delta event_index source =
     bindR (single_cursor_token uri (event_index + 1)) (\<lambda>token.
       Return [(''uri'', JStr uri), (''event'', JObj event), (''delta'', JObj delta), (''event_index'', JInt event_index),
         (''source'', JStr source), (''cursor_token'', JStr token)])"

section \<open>Operations\<close>

definition qso_create_by :: "fabric_env \<Rightarrow> string \<Rightarrow> json dict \<Rightarrow> string \<Rightarrow> (fabric, qso_object) op" where
  "qso_create_by env uri schema actor =
     bindS next_call (\<lambda>n. on_engine (create_object (fe_now env n) uri schema actor))"

definition qso_create :: "fabric_env \<Rightarrow> string \<Rightarrow> json dict \<Rightarrow> (fabric, qso_object) op" where
  "qso_create env uri schema = qso_create_by env uri schema ''system''"

definition qso_read :: "string \<Rightarrow> (fabric, qso_object) op" where
  "qso_read uri = readS (\<lambda>s. eg_read uri (fr_engine s))"

definition qso_has :: "string \<Rightarrow> (fabric, bool) op" where
  "qso_has uri = readS (\<lambda>s. Return (rg_has uri (eg_registry (fr_engine s))))"

definition qso_sign :: "string \<Rightarrow> (fabric, string) op" where
  "qso_sign payload = readS (\<lambda>s. Return (sign (eg_crypto (fr_engine s)) payload))"

definition engine_patch ::
    "fabric_env \<Rightarrow> string \<Rightarrow> json dict \<Rightarrow> string \<Rightarrow> string \<Rightarrow> string \<Rightarrow> (fabric, qso_event) op" where
  "engine_patch env uri delta actor policy_version node_id =
     bindS next_call (\<lambda>n. on_engine (patch (fe_uuid env n) uri delta actor policy_version node_id))"

definition timeline_rows :: "fabric_env \<Rightarrow> string \<Rightarrow> fabric \<Rightarrow> json dict list" where
  "timeline_rows env uri s = map (event_json env) (el_timeline (eg_log (fr_engine s)) uri)"

definition dispatch_stream :: "string \<Rightarrow> json dict \<Rightarrow> (fabric, unit) op" where
  "dispatch_stream uri payload =
     writeS (\<lambda>s. s\<lparr>fr_graph := snd (publish_patch uri payload (fr_graph s))\<rparr>)"

definition put_checkpoint :: "fabric_env \<Rightarrow> string \<Rightarrow> nat \<Rightarrow> (fabric, unit) op" where
  "put_checkpoint env uri n =
     writeS (\<lambda>s. let rows = timeline_rows env uri s in
       s\<lparr>fr_checkpoints := snd (ck_put (fe_now env n) uri (int (length rows)) (checkpoint_hash rows) (fr_checkpoints s))\<rparr>)"

text \<open>What \<open>qso_patch\<close> does once the engine has taken the patch.\<close>

definition announce_patch :: "fabric_env \<Rightarrow> string \<Rightarrow> json dict \<Rightarrow> qso_event \<Rightarrow> (fabric, qso_event) op" where
  "announce_patch env uri delta event =
     bindS (readS (\<lambda>s. Return (int (length (el_timeline (eg_log (fr_engine s)) uri)) - 1))) (\<lambda>event_index.
     bindS (liftS (event_payload uri (event_json env event) delta event_index ''live'')) (\<lambda>payload.
     thenS (dispatch_stream uri payload)
     (bindS next_call (\<lambda>n.
      thenS (put_checkpoint env uri n) (returnS event)))))"

definition qso_patch ::
    "fabric_env \<Rightarrow> string \<Rightarrow> json dict \<Rightarrow> string \<Rightarrow> string \<Rightarrow> string \<Rightarrow> (fabric, qso_event) op" where
  "qso_patch env uri delta actor policy_version node_id =
     bindS (engine_patch env uri delta actor policy_version node_id) (announce_patch env uri delta)"

definition qso_timeline :: "string \<Rightarrow> bool \<Rightarrow> (fabric, qso_event list) op" where
  "qso_timeline uri strict = on_engine (\<lambda>g. case el_replay uri strict (eg_log g) of (r, l) \<Rightarrow> (r, g\<lparr>eg_log := l\<rparr>))"

definition qso_entangle_link :: "entanglement_link \<Rightarrow> bool \<Rightarrow> (fabric, entanglement_link) op" where
  "qso_entangle_link link allow_cycle =
     (\<lambda>s. case entangle link allow_cycle (gr_links (fr_graph s)) of
        (r, g) \<Rightarrow> (bindR r (\<lambda>_. Return link), s\<lparr>fr_graph := (fr_graph s)\<lparr>gr_links := g\<rparr>\<rparr>))"

text \<open>\<open>qso_entangle\<close> as the Solis bridge calls it: the other arguments at their defaults.\<close>

definition default_link :: "string \<Rightarrow> string \<Rightarrow> string \<Rightarrow> entanglement_link" where
  "default_link uri_a uri_b relationship =
     \<lparr>el_source = uri_a, el_target = uri_b, el_relationship = relationship, el_strength = JFloat ''1.0'',
      el_sync_mode = PUSH, el_latency_ms = 100, el_bidirectional = False\<rparr>"

definition qso_entangle :: "string \<Rightarrow> string \<Rightarrow> string \<Rightarrow> (fabric, entanglement_link) op" where
  "qso_entangle uri_a uri_b relationship = qso_entangle_link (default_link uri_a uri_b relationship) False"

definition ensure_object :: "fabric_env \<Rightarrow> string \<Rightarrow> json dict \<Rightarrow> string \<Rightarrow> (fabric, unit) op" where
  "ensure_object env uri schema actor =
     bindS (qso_has uri) (\<lambda>known.
       if known then returnS () else bindS (qso_create_by env uri schema actor) (\<lambda>_. returnS ()))"

definition upsert_transport_qso ::
    "fabric_env \<Rightarrow> string \<Rightarrow> json dict \<Rightarrow> string \<Rightarrow> string \<Rightarrow> string \<Rightarrow> (fabric, qso_event) op" where
  "upsert_transport_qso env uri new_state actor policy_version node_id =
     thenS (ensure_object env uri
       [(''$id'', JStr ''qso://infra.transport''), (''type'', JStr ''transport''),
        (''schema_ref'', JStr ''api/schemas/transport.schema.json'')] actor)
     (engine_patch env uri new_state actor policy_version node_id)"

definition qso_quantum_create ::
    "fabric_env \<Rightarrow> string \<Rightarrow> json dict \<Rightarrow> string \<Rightarrow> string \<Rightarrow> string \<Rightarrow> (fabric, qso_event \<times> qso_object) op" where
  "qso_quantum_create env uri payload actor policy_version node_id =
     thenS (requireS (startswith uri ''qso://quantum.'') (ValueError ''quantum uri must start with qso://quantum.''))
     (thenS (ensure_object env uri
        [(''$id'', JStr ''qso://quantum.network.object''), (''type'', JStr ''quantum_network_object''),
         (''schema_ref'', JStr ''api/schemas/quantum_network_object.schema.json'')] actor)
     (bindS (engine_patch env uri payload actor policy_version node_id) (\<lambda>event.
      bindS (qso_read uri) (\<lambda>obj. returnS (event, obj)))))"

section \<open>Subscriptions\<close>

text \<open>The events a subscription replays: from the cursor on, each with its index.\<close>

definition replay_payloads ::
    "fabric_env \<Rightarrow> string \<Rightarrow> cursor_arg option \<Rightarrow> qso_event list \<Rightarrow> json dict list result" where
  "replay_payloads env uri cursor replayed =
     bindR (case cursor of None \<Rightarrow> Return 0 | Some c \<Rightarrow> resolve_single_cursor uri c (length replayed)) (\<lambda>start.
       mapR (\<lambda>(i, e). bindR (event_payload uri (event_json env e) (qe_delta e) (int i) ''replay'') (\<lambda>p.
           Return (p @ [(''subscription'', JObj [(''kind'', JStr ''uri''), (''uri'', JStr uri)])])))
         (enumerate (nat start) (drop (nat start) replayed)))"

text \<open>The payloads of the queue a subscription passes on: those the replay has not covered.\<close>

definition fresh_payload :: "nat \<Rightarrow> json dict \<Rightarrow> bool" where
  "fresh_payload replay_cutoff payload = (case int_field payload ''event_index'' of
     Some i \<Rightarrow> \<not> i < int replay_cutoff | None \<Rightarrow> True)"

definition live_payload :: "string \<Rightarrow> json dict \<Rightarrow> json dict result" where
  "live_payload uri payload =
     bindR (case int_field payload ''event_index'' of
         Some i \<Rightarrow> if \<not> has_key payload ''cursor_token'' \<and> i \<ge> 0
           then bindR (single_cursor_token (jstr (dget_or payload ''uri'' (JStr uri))) (i + 1)) (\<lambda>t.
             Return (dset ''cursor_token'' (JStr t) payload))
           else Return payload
       | None \<Rightarrow> Return payload)
     (\<lambda>p. Return (dset ''subscription'' (JObj [(''kind'', JStr ''uri''), (''uri'', JStr uri)]) p))"

section \<open>Scene graphs\<close>

definition last_segment :: "char \<Rightarrow> string \<Rightarrow> string" where
  "last_segment c s = rev (takeWhile (\<lambda>x. x \<noteq> c) (rev s))"

definition scene_node_prefix :: "string \<Rightarrow> string" where
  "scene_node_prefix world_uri = rstrip_char (CHR ''/'') world_uri @ ''/node/''"

type_synonym scene = "json dict dict"

definition scene_node :: "qso_object \<Rightarrow> json dict" where
  "scene_node obj = (let state = ob_state_layer obj in
     if has_key state ''id'' then state else dset ''id'' (JStr (last_segment (CHR ''/'') (ob_uri obj))) state)"

definition scene_nodes :: "string \<Rightarrow> engine \<Rightarrow> scene" where
  "scene_nodes world_uri g =
     concat (map (\<lambda>uri. case dget (eg_registry g) uri of Some obj \<Rightarrow> [(uri, scene_node obj)] | None \<Rightarrow> [])
       (filter (\<lambda>uri. startswith uri (scene_node_prefix world_uri)) (rg_list_uris (eg_registry g))))"

text \<open>The parent a node names.\<close>

definition parent_of :: "scene \<Rightarrow> string \<Rightarrow> string option" where
  "parent_of nodes uri = (case dget nodes uri of
       Some state \<Rightarrow> (case dget state ''parent'' of
           Some (JStr p) \<Rightarrow> if strip p \<noteq> [] then Some (strip p) else None
         | _ \<Rightarrow> None)
     | None \<Rightarrow> None)"

text \<open>The walk up the parents from \<open>cur\<close>; it ends since every step visits a node not seen before.\<close>

function parent_walk :: "scene \<Rightarrow> string \<Rightarrow> string set \<Rightarrow> string option \<Rightarrow> bool" where
  "parent_walk nodes node_uri seen None = False"
| "parent_walk nodes node_uri seen (Some cur) =
     (if \<not> has_key nodes cur \<or> cur \<in> seen then False
      else if cur = node_uri then True
      else parent_walk nodes node_uri (insert cur seen) (parent_of nodes cur))"
  by pat_completeness auto
termination
proof (relation "measure (\<lambda>(nodes, _, seen, _). card (set (dkeys nodes) - seen))")
  fix nodes :: scene and cur node_uri :: string and seen
  assume "\<not> (\<not> has_key nodes cur \<or> cur \<in> seen)"
  then show "((nodes, node_uri, insert cur seen, parent_of nodes cur), nodes, node_uri, seen, Some cur)
      \<in> measure (\<lambda>(nodes, _, seen, _). card (set (dkeys nodes) - seen))"
    using unseen_keys_less [of cur seen nodes] by (simp add: has_key_iff)
qed simp

definition would_create_parent_cycle :: "string \<Rightarrow> string \<Rightarrow> scene \<Rightarrow> bool" where
  "would_create_parent_cycle node_uri parent_uri nodes = parent_walk nodes node_uri {} (Some parent_uri)"

definition qso_scene_reparent ::
    "fabric_env \<Rightarrow> string \<Rightarrow> string option \<Rightarrow> string \<Rightarrow> string \<Rightarrow> string \<Rightarrow> (fabric, qso_event \<times> qso_object) op" where
  "qso_scene_reparent env node_arg parent_arg actor policy_version node_id =
     (let node_uri = strip node_arg;
          new_parent = (case parent_arg of None \<Rightarrow> None | Some p \<Rightarrow> if strip p = [] then None else Some (strip p));
          world_uri = before_infix ''/node/'' node_uri in
      thenS (requireS (node_uri \<noteq> []) (ValueError ''node_uri is required''))
      (thenS (requireS (has_infix ''/node/'' node_uri) (ValueError ''node_uri must be a scene node URI containing /node/''))
      (bindS (readS (\<lambda>s. Return (scene_nodes world_uri (fr_engine s)))) (\<lambda>nodes.
       thenS (requireS (has_key nodes node_uri) (ValueError (''node not found in world: '' @ node_uri)))
       (thenS (case new_parent of None \<Rightarrow> returnS ()
          | Some p \<Rightarrow>
              thenS (requireS (p \<noteq> node_uri) (ValueError ''node cannot be parent of itself''))
              (thenS (requireS (has_key nodes p) (ValueError (''parent node not found in world: '' @ p)))
              (requireS (\<not> would_create_parent_cycle node_uri p nodes)
                (ValueError (''reparent would create parent cycle: '' @ node_uri @ '' -> '' @ p)))))
       (bindS (qso_patch env node_uri [(''parent'', case new_parent of None \<Rightarrow> JNull | Some p \<Rightarrow> JStr p)]
           actor policy_version node_id) (\<lambda>event.
        bindS (qso_read node_uri) (\<lambda>obj. returnS (event, obj)))))))))"

section \<open>The engine behind the tools stays reachable\<close>

definition live :: "fabric \<Rightarrow> bool" where
  "live s = reachable (fr_engine s)"

lemma keeps_on_engine: "(\<And>g. engine_step g (snd (f g))) \<Longrightarrow> keeps live (on_engine f)"
  unfolding keeps_def live_def on_engine_def by (auto split: prod.splits) (metis snd_conv step_reachable)

lemma engine_step_replay: "engine_step g (snd (case el_replay uri strict (eg_log g) of (r, l) \<Rightarrow> (r, g\<lparr>eg_log := l\<rparr>)))"
  using engine_step.replayed [of g uri strict] by (simp add: identity_kernel_events_def split: prod.splits)

lemma live_tools [keeps_intros]:
  "keeps live next_call" "keeps live (qso_create_by env uri schema actor)" "keeps live (qso_create env uri schema)"
  "keeps live (qso_read uri)" "keeps live (qso_has uri)" "keeps live (qso_sign p)"
  "keeps live (engine_patch env uri delta actor pv node)" "keeps live (dispatch_stream uri payload)"
  "keeps live (put_checkpoint env uri n)" "keeps live (qso_timeline uri strict)"
  "keeps live (qso_entangle_link link b)" "keeps live (qso_entangle a b' r)"
proof -
  show calls: "keeps live next_call" by (simp add: keeps_def live_def next_call_def)
  show create: "keeps live (qso_create_by env uri schema actor)" for env uri schema actor
    unfolding qso_create_by_def by (intro keeps_bindS calls keeps_on_engine engine_step.create)
  show "keeps live (qso_create env uri schema)" unfolding qso_create_def by (rule create)
  show "keeps live (engine_patch env uri delta actor pv node)"
    unfolding engine_patch_def by (intro keeps_bindS calls keeps_on_engine engine_step.patched)
  show "keeps live (qso_timeline uri strict)"
    unfolding qso_timeline_def by (intro keeps_on_engine engine_step_replay)
qed (auto simp: keeps_def live_def op_defs qso_read_def qso_has_def qso_sign_def dispatch_stream_def put_checkpoint_def Let_def
    qso_entangle_def qso_entangle_link_def split: prod.splits)

lemma live_patch [keeps_intros]: "keeps live (qso_patch env uri delta actor pv node)"
  unfolding qso_patch_def announce_patch_def by (intro keeps_intros)

lemma live_ensure [keeps_intros]: "keeps live (ensure_object env uri schema actor)"
  unfolding ensure_object_def by (intro keeps_intros)

lemma live_new: "live (new_fabric c)"
  by (simp add: live_def new_fabric_def fresh_reachable)

section \<open>Parents form a forest\<close>

definition parent_edges :: "scene \<Rightarrow> (string \<times> string) set" where
  "parent_edges nodes = {(u, p). parent_of nodes u = Some p \<and> has_key nodes p}"

lemma parent_edges_iff [simp]: "(u, p) \<in> parent_edges nodes \<longleftrightarrow> parent_of nodes u = Some p \<and> has_key nodes p"
  by (simp add: parent_edges_def)

text \<open>A node has one parent, so in a graph without cycles the walk meets all its ancestors.\<close>

lemma parent_walk_reaches:
  assumes "acyclic (parent_edges nodes)"
  shows "\<not> parent_walk nodes target seen (Some cur) \<Longrightarrow> has_key nodes cur \<Longrightarrow>
    \<forall>x\<in>seen. (x, cur) \<in> (parent_edges nodes)\<^sup>+ \<Longrightarrow> (cur, target) \<notin> (parent_edges nodes)\<^sup>*"
proof (induction "card (set (dkeys nodes) - seen)" arbitrary: seen cur rule: less_induct)
  case less
  have fresh: "cur \<notin> seen" using less.prems(3) assms by (auto simp: acyclic_def)
  with less.prems have walk: "cur \<noteq> target" "\<not> parent_walk nodes target (insert cur seen) (parent_of nodes cur)"
    by (auto split: if_splits)
  show ?case
  proof
    assume "(cur, target) \<in> (parent_edges nodes)\<^sup>*"
    with walk(1) obtain q where q: "parent_of nodes cur = Some q" "has_key nodes q" "(q, target) \<in> (parent_edges nodes)\<^sup>*"
      by (auto elim: converse_rtranclE)
    have "\<forall>x\<in>insert cur seen. (x, q) \<in> (parent_edges nodes)\<^sup>+"
      using less.prems(3) q by (auto intro: trancl_into_trancl)
    moreover have "card (set (dkeys nodes) - insert cur seen) < card (set (dkeys nodes) - seen)"
      using unseen_keys_less [OF fresh] less.prems(2) by (simp add: has_key_iff)
    ultimately have "(q, target) \<notin> (parent_edges nodes)\<^sup>*"
      using less.hyps [of "insert cur seen" q] walk(2) q by simp
    with q(3) show False by contradiction
  qed
qed

lemma dget_found: "map_of (concat (map (\<lambda>k. case f k of Some v \<Rightarrow> [(k, g v)] | None \<Rightarrow> []) ks)) u =
    (if u \<in> set ks then map_option g (f u) else None)"
  by (induction ks) (auto split: option.splits)

lemma dget_scene_nodes:
  "dget (scene_nodes world g) u =
     (if startswith u (scene_node_prefix world) then map_option scene_node (dget (eg_registry g) u) else None)"
proof -
  have "dget (eg_registry g) u = None" if "u \<notin> set (rg_list_uris (eg_registry g))"
    using that by (simp add: rg_list_uris_def map_of_eq_None_iff)
  then show ?thesis unfolding scene_nodes_def dget_found by auto
qed

text \<open>What a patch does to the registry.\<close>

lemma patch_registry:
  assumes "reachable g" "patch event_id uri delta actor pv node g = (Inr e, g')"
  shows "\<exists>obj obj'. dget (eg_registry g) uri = Some obj \<and> eg_registry g' = dset uri obj' (eg_registry g) \<and>
    ob_uri obj' = uri \<and> ob_state_layer obj' = deep_merge (ob_state_layer obj) delta"
proof -
  have ok: "engine_ok g" by (rule reachable_ok [OF assms(1)])
  from assms(2) obtain obj where obj: "dget (eg_registry g) uri = Some obj" "check_policy (eg_policy g) pv actor = Return ()"
    by (auto simp: patch_def Let_def split_beta bindR_eq_Return rg_read_def split: sum.splits option.splits)
  have u: "ob_uri obj = uri" using ok obj by (metis engine_ok_def object_ok.simps(2))
  show ?thesis using assms(2) obj u
    by (auto simp: patch_def Let_def split_beta rg_read_def rg_update_def has_key_def split: sum.splits)
qed

lemma on_engine_Return: "on_engine f s = (Inr x, t) \<longleftrightarrow> (\<exists>g. f (fr_engine s) = (Inr x, g) \<and> t = s\<lparr>fr_engine := g\<rparr>)"
  by (auto simp: on_engine_def split: prod.splits)

lemma next_call_Return: "next_call s = (Inr n, t) \<longleftrightarrow> n = fr_calls s \<and> t = s\<lparr>fr_calls := Suc n\<rparr>"
  by (auto simp: next_call_def)

lemma engine_patch_Return:
  "engine_patch env uri delta actor pv node s = (Inr e, t) \<longleftrightarrow>
     (\<exists>g. patch (fe_uuid env (fr_calls s)) uri delta actor pv node (fr_engine s) = (Inr e, g) \<and>
        t = s\<lparr>fr_calls := Suc (fr_calls s), fr_engine := g\<rparr>)"
  by (simp add: engine_patch_def bindS_Return next_call_Return on_engine_Return)

lemma qso_patch_engine:
  assumes "qso_patch env uri delta actor pv node s = (Inr e, t)"
  shows "patch (fe_uuid env (fr_calls s)) uri delta actor pv node (fr_engine s) = (Inr e, fr_engine t)"
  using assms
  by (auto simp: qso_patch_def announce_patch_def bindS_Return thenS_Return engine_patch_Return next_call_Return dispatch_stream_def
      put_checkpoint_def writeS_def Let_def)

lemma parent_of_scene:
  "parent_of (scene_nodes world g) u =
     (if startswith u (scene_node_prefix world) then
        (case dget (eg_registry g) u of
           Some obj \<Rightarrow> (case dget (ob_state_layer obj) ''parent'' of
               Some (JStr p) \<Rightarrow> if strip p \<noteq> [] then Some (strip p) else None
             | _ \<Rightarrow> None)
         | None \<Rightarrow> None)
      else None)"
  by (simp add: parent_of_def dget_scene_nodes scene_node_def Let_def split: option.splits)

lemma deep_merge_scalar: "(\<And>d. v \<noteq> JObj d) \<Longrightarrow> deep_merge out [(k, v)] = dset k v out"
  by (cases v) auto

section \<open>Properties\<close>

text \<open>
  C32: when the parents of a world's nodes form a forest, a reparenting that succeeds leaves a
  forest, in which the node hangs under the parent asked for.
\<close>

theorem reparent_keeps_forest:
  assumes "live s" "acyclic (parent_edges (scene_nodes world (fr_engine s)))"
    and "world = before_infix ''/node/'' (strip node_arg)"
    and "qso_scene_reparent env node_arg parent_arg actor pv node s = (Inr x, t)"
  shows "acyclic (parent_edges (scene_nodes world (fr_engine t))) \<and>
    parent_of (scene_nodes world (fr_engine t)) (strip node_arg) =
      (case parent_arg of None \<Rightarrow> None | Some p \<Rightarrow> if strip p = [] then None else Some (strip p))"
proof -
  define u where "u = strip node_arg"
  define np where "np = (case parent_arg of None \<Rightarrow> None | Some p \<Rightarrow> if strip p = [] then None else Some (strip p))"
  define v where "v = (case np of None \<Rightarrow> JNull | Some p \<Rightarrow> JStr p)"
  let ?old = "scene_nodes world (fr_engine s)" and ?new = "scene_nodes world (fr_engine t)"
  from assms(4) obtain e where known: "has_key ?old u"
    and parent: "\<And>p. np = Some p \<Longrightarrow> p \<noteq> u \<and> has_key ?old p \<and> \<not> would_create_parent_cycle u p ?old"
    and patched: "qso_patch env u [(''parent'', v)] actor pv node s = (Inr e, t)"
    unfolding qso_scene_reparent_def Let_def u_def [symmetric] np_def [symmetric] v_def [symmetric] assms(3) [folded u_def, symmetric]
    by (cases np) (auto simp: bindS_Return thenS_Return qso_read_def)
  obtain obj obj' where reg: "dget (eg_registry (fr_engine s)) u = Some obj"
      "eg_registry (fr_engine t) = dset u obj' (eg_registry (fr_engine s))" "ob_state_layer obj' = dset ''parent'' v (ob_state_layer obj)"
    using patch_registry [OF _ qso_patch_engine [OF patched]] assms(1)
    by (auto simp: live_def deep_merge_scalar v_def split: option.splits)
  have in_world: "startswith u (scene_node_prefix world)"
    using known by (auto simp: has_key_def dget_scene_nodes split: if_splits)
  have key: "has_key ?new w = has_key ?old w" for w
    using reg by (auto simp: has_key_def dget_scene_nodes)
  have at: "parent_of ?new u = np"
    using reg in_world by (auto simp: parent_of_scene v_def np_def strip_idem split: option.splits)
  have off: "parent_of ?new w = parent_of ?old w" if "w \<noteq> u" for w
    using reg that by (simp add: parent_of_scene)
  have "acyclic (parent_edges ?new)"
  proof (cases np)
    case None
    then have "parent_edges ?new \<subseteq> parent_edges ?old" using at off key by (auto, metis option.distinct(1))
    with assms(2) show ?thesis by (rule acyclic_subset)
  next
    case (Some p)
    have "parent_edges ?new \<subseteq> insert (u, p) (parent_edges ?old)"
      using at off key Some by (auto, metis option.inject)+
    moreover have "(p, u) \<notin> (parent_edges ?old)\<^sup>*"
      using parent_walk_reaches [OF assms(2), of u "{}" p] parent [OF Some] unfolding would_create_parent_cycle_def by blast
    ultimately show ?thesis using assms(2) by (meson acyclic_insert acyclic_subset)
  qed
  with at show ?thesis by (simp add: u_def np_def)
qed

definition sample_env :: fabric_env where
  "sample_env = \<lparr>fe_uuid = (\<lambda>n. ''e'' @ py_str (int n)), fe_now = (\<lambda>n. ''now''), fe_stamp = isoformat\<rparr>"

abbreviation sample_node :: string where
  "sample_node \<equiv> ''qso://w/node/a''"

definition sample_fabric :: fabric where
  "sample_fabric = snd (qso_create sample_env sample_node [] (new_fabric \<lparr>cr_secret = [1]\<rparr>))"

lemma sample_fabric_live: "live sample_fabric"
  unfolding sample_fabric_def using keepsD [of live, OF live_tools(3) live_new] .

lemma sample_fabric_eq:
  "sample_fabric = \<lparr>fr_engine = (fresh_engine \<lparr>cr_secret = [1]\<rparr>)\<lparr>eg_registry := [(sample_node,
       \<lparr>ob_uri = sample_node, ob_schema = [], ob_identity_layer = [(''uri'', JStr sample_node), (''created_by'', JStr ''system''),
          (''created_at'', JStr ''now'')],
        ob_state_layer = [], ob_timeline = [], ob_entanglement = [], ob_snapshot_layer = []\<rparr>)]\<rparr>,
     fr_graph = \<lparr>gr_links = [], gr_subscribers = [], gr_next_id = 0\<rparr>, fr_checkpoints = [], fr_calls = 1\<rparr>"
  by (simp add: sample_fabric_def qso_create_def qso_create_by_def bindS_def next_call_def on_engine_def new_fabric_def
      create_object_def rg_create_def has_key_def fresh_engine_def sample_env_def Let_def)

text \<open>A patch of an object by an event with non-empty fields is accepted when no policy is set.\<close>

lemma patch_accepted:
  assumes "reachable g" "eg_policy g = None" "dget (eg_registry g) uri = Some obj"
    and "\<forall>x\<in>{event_id, actor, uri, pv}. strip x \<noteq> []"
  shows "\<exists>e g'. patch event_id uri delta actor pv node g = (Inr e, g')"
proof -
  have "ob_uri obj = uri" using reachable_ok [OF assms(1)] assms(3) by (metis engine_ok_def object_ok.simps(2))
  with assms(2-4) show ?thesis
    by (simp add: patch_def rg_read_def rg_update_def has_key_def Let_def check_policy_def next_datetime_def
        payload_Return strip_isoformat split_beta)
qed

lemma qso_patch_accepted:
  assumes "live s" "eg_policy (fr_engine s) = None" "dget (eg_registry (fr_engine s)) uri = Some obj"
    and "\<forall>x\<in>{fe_uuid env (fr_calls s), actor, uri, pv}. strip x \<noteq> []"
  shows "\<exists>e t. qso_patch env uri delta actor pv node s = (Inr e, t)"
proof -
  have "\<exists>e g. patch (fe_uuid env (fr_calls s)) uri delta actor pv node (fr_engine s) = (Inr e, g)"
    by (rule patch_accepted) (use assms in \<open>auto simp: live_def\<close>)
  then obtain e g where g: "patch (fe_uuid env (fr_calls s)) uri delta actor pv node (fr_engine s) = (Inr e, g)" by blast
  let ?s = "s\<lparr>fr_calls := Suc (fr_calls s), fr_engine := g\<rparr>"
  have "engine_patch env uri delta actor pv node s = (Inr e, ?s)" using g by (simp add: engine_patch_Return)
  then show ?thesis
    by (simp add: qso_patch_def announce_patch_def bindS_def thenS_def event_payload_def single_cursor_token_def dispatch_stream_def
        next_call_def put_checkpoint_def writeS_def readS_def liftS_def returnS_def Let_def)
qed

theorem reparent_keeps_forest_witness:
  "\<exists>x t. qso_scene_reparent sample_env sample_node None ''root'' ''v1'' ''local'' sample_fabric = (Inr x, t) \<and>
    acyclic (parent_edges (scene_nodes ''qso://w'' (fr_engine t)))"
proof -
  have names: "strip sample_node = sample_node" "has_infix ''/node/'' sample_node" "before_infix ''/node/'' sample_node = ''qso://w''"
    "startswith sample_node (scene_node_prefix ''qso://w'')" by code_simp+
  have nodes: "has_key (scene_nodes ''qso://w'' (fr_engine sample_fabric)) sample_node"
    using names(4) by (simp add: has_key_def dget_scene_nodes sample_fabric_eq)
  have fields: "\<forall>x\<in>{fe_uuid sample_env (fr_calls sample_fabric), ''root'', sample_node, ''v1''}. strip x \<noteq> []"
    by (simp add: sample_env_def strip_Nil_iff is_space_def)
  have "\<exists>e t. qso_patch sample_env sample_node [(''parent'', JNull)] ''root'' ''v1'' ''local'' sample_fabric = (Inr e, t)"
    by (rule qso_patch_accepted [OF sample_fabric_live _ _ fields]) (simp_all add: sample_fabric_eq fresh_engine_def)
  then obtain e t where p: "qso_patch sample_env sample_node [(''parent'', JNull)] ''root'' ''v1'' ''local'' sample_fabric = (Inr e, t)"
    by blast
  obtain obj where obj: "dget (eg_registry (fr_engine t)) sample_node = Some obj"
    using patch_registry [OF _ qso_patch_engine [OF p]] sample_fabric_live by (auto simp: live_def)
  have run: "qso_scene_reparent sample_env sample_node None ''root'' ''v1'' ''local'' sample_fabric = (Inr (e, obj), t)"
    using p obj nodes
    by (simp add: qso_scene_reparent_def Let_def names bindS_Return thenS_Return qso_read_def eg_read_def rg_read_def)
  have "parent_edges (scene_nodes ''qso://w'' (fr_engine sample_fabric)) = {}"
    by (auto simp: parent_of_scene sample_fabric_eq split: if_splits)
  then have "acyclic (parent_edges (scene_nodes ''qso://w'' (fr_engine sample_fabric)))" by (simp add: acyclic_def)
  from reparent_keeps_forest [OF sample_fabric_live this _ run] names(1,3) run show ?thesis by auto
qed



text \<open>
  A subscription taken up again with the token of a payload gets exactly the payloads that
  followed it.
\<close>

theorem cursor_resumes_subscription:
  assumes "replay_payloads env uri None events = Return qs" "i < length qs"
    and "dget (qs ! i) ''cursor_token'' = Some (JStr t)"
  shows "replay_payloads env uri (Some (Cursor_Token t)) events = Return (drop (Suc i) qs)"
proof -
  let ?f = "\<lambda>(i, e). bindR (event_payload uri (event_json env e) (qe_delta e) (int i) ''replay'') (\<lambda>p.
           Return (p @ [(''subscription'', JObj [(''kind'', JStr ''uri''), (''uri'', JStr uri)])]))"
  have qs: "mapR ?f (enumerate 0 events) = Return qs" using assms(1) by (simp add: replay_payloads_def)
  then have len: "length events = length qs" using mapR_length [OF qs] by simp
  have "?f (i, events ! i) = Return (qs ! i)"
    using mapR_nth [OF qs, of i] assms(2) len by (simp add: nth_enumerate_eq)
  then have "single_cursor_token uri (int i + 1) = Return t"
    using assms(3) by (auto simp: event_payload_def eq_commute [of _ "qs ! i"] elim!: bindR_ReturnE)
  then have "resolve_single_cursor uri (Cursor_Token t) (length events) = Return (int i + 1)"
    by (rule resolve_own_token) (use assms(2) len in simp)
  moreover have "enumerate (Suc i) (drop (Suc i) events) = drop (Suc i) (enumerate 0 events)"
    by (rule nth_equalityI) (simp_all add: nth_enumerate_eq)
  moreover have "nat (int i + 1) = Suc i" by simp
  ultimately show ?thesis using mapR_drop [OF qs, of "Suc i"] by (simp add: replay_payloads_def)
qed

definition plain_event :: "string \<Rightarrow> qso_event" where
  "plain_event i = \<lparr>qe_schema_version = SCHEMA_VERSION, qe_event_id = i, qe_timestamp = 0, qe_actor = ''a'', qe_object_uri = ''u'',
     qe_delta = [], qe_signature = [], qe_policy_version = ''v1'', qe_node_id = ''n''\<rparr>"

theorem cursor_resumes_subscription_witness:
  "\<exists>p q t. replay_payloads sample_env ''u'' None [plain_event ''1'', plain_event ''2''] = Return [p, q] \<and>
    replay_payloads sample_env ''u'' (Some (Cursor_Token t)) [plain_event ''1'', plain_event ''2''] = Return [q]"
proof -
  let ?es = "[plain_event ''1'', plain_event ''2'']"
  obtain p q where r: "replay_payloads sample_env ''u'' None ?es = Return [p, q]"
    and "\<exists>t. dget p ''cursor_token'' = Some (JStr t)"
    by (simp add: replay_payloads_def event_payload_def single_cursor_token_def)
  then obtain t where "dget ([p, q] ! 0) ''cursor_token'' = Some (JStr t)" by auto
  from cursor_resumes_subscription [OF r _ this] r show ?thesis by auto
qed

end
