(* ===== verification/Gate_Audit.thy ===== *)
theory Gate_Audit
  imports Solis_Gates Qso_Tools
begin

text \<open>
  \<^verbatim>\<open>solis/services/gate_audit.py\<close> and \<^verbatim>\<open>gate_health_rollup.py\<close> with \<^verbatim>\<open>solis/config.py\<close>: every decision
  of a gate becomes a patch of an object of its own, followed by a recount of all decisions of its
  scope from their signed timelines.
\<close>

section \<open>Configuration\<close>

record solis_config =
  sc_policy_version :: string
  sc_node_id :: string
  sc_anchor_interval :: int
  sc_collapse_warning_threshold :: pyfloat
  sc_cascade_threshold :: pyfloat
  sc_signal_window :: int
  sc_runtime_gate_enabled :: bool
  sc_runtime_gate_nodes :: "string list"
  sc_require_zk_proof :: bool

definition default_solis_config :: solis_config where
  "default_solis_config = \<lparr>sc_policy_version = ''v1'', sc_node_id = ''solis'', sc_anchor_interval = 10000,
     sc_collapse_warning_threshold = lit (72 / 100), sc_cascade_threshold = lit (78 / 100), sc_signal_window = 5,
     sc_runtime_gate_enabled = True, sc_runtime_gate_nodes = [''node-a'', ''node-b'', ''node-c''], sc_require_zk_proof = False\<rparr>"

text \<open>A patch with the policy version and node of the configuration; values are JSON.\<close>

definition solis_patch ::
    "fabric_env \<Rightarrow> solis_config \<Rightarrow> string \<Rightarrow> pyval dict \<Rightarrow> string \<Rightarrow> (fabric, qso_event) op" where
  "solis_patch env cfg uri payload actor =
     qso_patch env uri (json_row payload) actor (sc_policy_version cfg) (sc_node_id cfg)"

definition solis_ensure :: "fabric_env \<Rightarrow> string \<Rightarrow> json dict \<Rightarrow> (fabric, unit) op" where
  "solis_ensure env uri schema = bindS (qso_has uri) (\<lambda>known.
     if known then returnS () else bindS (qso_create env uri schema) (\<lambda>_. returnS ()))"

section \<open>Recounting the decisions of a scope\<close>

type_synonym pass_counter = "(nat \<times> nat) dict"

definition count_decision :: "string \<Rightarrow> bool \<Rightarrow> pass_counter \<Rightarrow> pass_counter" where
  "count_decision key passed counter =
     (case dget_or counter key (0, 0) of (p, f) \<Rightarrow> dset key (if passed then (Suc p, f) else (p, Suc f)) counter)"

definition rate :: "nat \<Rightarrow> nat \<Rightarrow> pyfloat" where
  "rate part whole = (if whole = 0 then Fin 0 else round_dec 12 (ratio part whole))"

definition ordered_breakdown :: "string \<Rightarrow> pass_counter \<Rightarrow> pyval" where
  "ordered_breakdown label counter = PList (map (\<lambda>key.
     case dget_or counter key (0, 0) of (p, f) \<Rightarrow> PDict
       [(label, PStr key), (''pass_count'', PInt (int p)), (''fail_count'', PInt (int f)), (''total_count'', PInt (int (p + f))),
        (''pass_rate'', PFloat (rate p (p + f))), (''fail_rate'', PFloat (rate f (p + f)))]) (sorted_keys counter))"

record gate_tally =
  ga_pass :: nat
  ga_fail :: nat
  ga_gates :: pass_counter
  ga_stages :: pass_counter

definition field_text :: "json dict \<Rightarrow> string \<Rightarrow> string" where
  "field_text delta key = strip (jstr (dget_or delta key (JStr [])))"

definition or_unknown :: "string \<Rightarrow> string" where
  "or_unknown s = (if s = [] then ''unknown'' else s)"

definition tally_event :: "string \<Rightarrow> gate_tally \<Rightarrow> qso_event \<Rightarrow> gate_tally" where
  "tally_event scope t e =
     (let delta = qe_delta e in
      if field_text delta ''scope'' \<noteq> scope then t
      else
        (let passed = truthy (dget_or delta ''passed'' (JBool False)) in
         \<lparr>ga_pass = (if passed then Suc (ga_pass t) else ga_pass t), ga_fail = (if passed then ga_fail t else Suc (ga_fail t)),
          ga_gates = count_decision (or_unknown (field_text delta ''gate'')) passed (ga_gates t),
          ga_stages = count_decision (or_unknown (field_text delta ''stage'')) passed (ga_stages t)\<rparr>))"

definition empty_tally :: gate_tally where
  "empty_tally = \<lparr>ga_pass = 0, ga_fail = 0, ga_gates = [], ga_stages = []\<rparr>"

definition gate_prefix :: "string \<Rightarrow> string" where
  "gate_prefix scope = ''qso://solis.gate.'' @ scope @ ''.''"

definition decision_uris :: "string \<Rightarrow> fabric \<Rightarrow> string list" where
  "decision_uris source_prefix s =
     sort (filter (\<lambda>uri. startswith uri source_prefix) (rg_list_uris (eg_registry (fr_engine s))))"

definition rollup_payload :: "string \<Rightarrow> string list \<Rightarrow> gate_tally \<Rightarrow> pyval dict" where
  "rollup_payload scope uris t =
     (let whole = ga_pass t + ga_fail t in
      [(''scope'', PStr scope), (''source_prefix'', PStr (gate_prefix scope)), (''decision_uri_count'', PInt (int (length uris))),
       (''decision_event_count'', PInt (int whole)), (''pass_count'', PInt (int (ga_pass t))), (''fail_count'', PInt (int (ga_fail t))),
       (''pass_rate'', PFloat (rate (ga_pass t) whole)), (''fail_rate'', PFloat (rate (ga_fail t) whole)),
       (''ordered_gate_decision_uris'', PStrs uris), (''by_gate'', ordered_breakdown ''gate'' (ga_gates t)),
       (''by_stage'', ordered_breakdown ''stage'' (ga_stages t))])"

definition emit_gate_health_rollup :: "fabric_env \<Rightarrow> solis_config \<Rightarrow> string \<Rightarrow> string \<Rightarrow> (fabric, string) op" where
  "emit_gate_health_rollup env cfg scope actor =
     (let health_uri = ''qso://solis.gate.health.'' @ scope in
      bindS (readS (\<lambda>s. Return (decision_uris (gate_prefix scope) s))) (\<lambda>uris.
      bindS (mapS (\<lambda>uri. qso_timeline uri True) uris) (\<lambda>timelines.
      thenS (solis_ensure env health_uri [(''type'', JStr ''solis_gate_health''), (''scope'', JStr scope)])
      (bindS (solis_patch env cfg health_uri
          (rollup_payload scope uris (foldl (tally_event scope) empty_tally (concat timelines))) actor) (\<lambda>_.
        returnS health_uri)))))"

section \<open>Recording a decision\<close>

definition gate_decision_uri :: "string \<Rightarrow> string \<Rightarrow> string \<Rightarrow> string \<Rightarrow> string" where
  "gate_decision_uri scope stage target_uri gate =
     gate_prefix scope @ take 24 (hash_val (PDict [(''scope'', PStr scope), (''stage'', PStr stage),
       (''target_uri'', PStr target_uri), (''gate'', PStr gate)]))"

definition emit_gate_decision ::
    "fabric_env \<Rightarrow> solis_config \<Rightarrow> string \<Rightarrow> string \<Rightarrow> string \<Rightarrow> gate_result \<Rightarrow> pyval dict \<Rightarrow> (fabric, string) op" where
  "emit_gate_decision env cfg scope stage target_uri gate context_items =
     (let uri = gate_decision_uri scope stage target_uri (gt_gate gate) in
      thenS (solis_ensure env uri [(''type'', JStr ''solis_gate_decision'')])
      (bindS (solis_patch env cfg uri
          [(''scope'', PStr scope), (''stage'', PStr stage), (''target_uri'', PStr target_uri), (''gate'', PStr (gt_gate gate)),
           (''passed'', PBool (gt_passed gate)), (''detail'', PStr (gt_detail gate)),
           (''context_hash'', PStr (hash_val (PDict context_items)))] ''solis.gate'') (\<lambda>_.
       thenS (bindS (emit_gate_health_rollup env cfg scope ''solis.gate.health'') (\<lambda>_. returnS ()))
       (returnS uri))))"

section \<open>What the services leave alone\<close>

text \<open>
  An invariant of the fabric that creating and patching a free URI keeps, as the services see it: they
  reach the fabric only through these operations, so whatever they do to free URIs keeps it as well.
\<close>

locale object_invariant =
  fixes P :: "fabric \<Rightarrow> bool" and free :: "string \<Rightarrow> bool"
  assumes keeps_create: "free uri \<Longrightarrow> keeps P (qso_create env uri schema)"
    and keeps_patch: "free uri \<Longrightarrow> keeps P (qso_patch env uri delta actor pv node)"
    and keeps_timeline: "keeps P (qso_timeline uri strict)"
    and keeps_entangle: "keeps P (qso_entangle a b relationship)"

context object_invariant
begin

lemma keeps_reads: "keeps P (qso_has uri)" "keeps P (qso_read uri)" "keeps P (qso_sign payload)"
  unfolding qso_has_def qso_read_def qso_sign_def by (intro keeps_intros)+

lemma keeps_solis:
  assumes "free uri"
  shows "keeps P (solis_patch env cfg uri payload actor)" "keeps P (solis_ensure env uri schema)"
  unfolding solis_patch_def solis_ensure_def
  by (intro keeps_intros keeps_reads keeps_create keeps_patch assms)+

lemma keeps_rollup:
  assumes "free (''qso://solis.gate.health.'' @ scope)"
  shows "keeps P (emit_gate_health_rollup env cfg scope actor)"
  unfolding emit_gate_health_rollup_def Let_def by (intro keeps_intros keeps_timeline keeps_solis assms)

lemma keeps_decision:
  assumes "\<And>rest. free (''qso://solis.gate.'' @ rest)"
  shows "keeps P (emit_gate_decision env cfg scope stage target gate ctx)"
proof -
  have "free (gate_prefix scope @ rest)" for rest using assms [of "scope @ ''.'' @ rest"] by (simp add: gate_prefix_def)
  moreover have "free (''qso://solis.gate.health.'' @ scope)" using assms [of "''health.'' @ scope"] by simp
  ultimately show ?thesis
    unfolding emit_gate_decision_def gate_decision_uri_def Let_def by (intro keeps_intros keeps_solis keeps_rollup)
qed

end

interpretation live: object_invariant live "\<lambda>_. True"
  by unfold_locales (intro keeps_intros)+

text \<open>The state of one object, which every operation on another URI leaves as it is.\<close>

definition state_at :: "string \<Rightarrow> fabric \<Rightarrow> json dict option" where
  "state_at uri s = map_option ob_state_layer (dget (eg_registry (fr_engine s)) uri)"

text \<open>A reachable fabric in which the object has the given state.\<close>

definition holds :: "string \<Rightarrow> json dict option \<Rightarrow> fabric \<Rightarrow> bool" where
  "holds uri X s = (live s \<and> state_at uri s = X)"

lemma create_elsewhere:
  "u \<noteq> uri \<Longrightarrow> dget (eg_registry (snd (create_object now u schema actor g))) uri = dget (eg_registry g) uri"
  by (auto simp: create_object_def rg_create_def Let_def split: sum.splits if_splits)

lemma patch_elsewhere:
  assumes "reachable g" "u \<noteq> uri"
  shows "dget (eg_registry (snd (patch event_id u delta actor pv node g))) uri = dget (eg_registry g) uri"
proof (cases "patch event_id u delta actor pv node g")
  case (Pair r g')
  show ?thesis
  proof (cases r)
    case (Inl e)
    with Pair show ?thesis by (auto simp: patch_def Let_def split_beta split: sum.splits)
  next
    case (Inr e)
    with patch_registry [OF assms(1)] Pair assms(2) show ?thesis by fastforce
  qed
qed

lemma keeps_holds:
  assumes "keeps live m" "\<And>s. live s \<Longrightarrow> state_at uri (snd (m s)) = state_at uri s"
  shows "keeps (holds uri X) m"
  using assms by (simp add: keeps_def holds_def)

lemma state_at_engine_patch:
  assumes "live s" "u \<noteq> uri"
  shows "state_at uri (snd (engine_patch env u delta actor pv node s)) = state_at uri s"
  using patch_elsewhere [of "fr_engine s" u uri] assms
  by (simp add: state_at_def live_def engine_patch_def bindS_def next_call_def on_engine_def split: prod.splits) (metis snd_conv)

lemma holds_silent [keeps_intros]:
  "keeps (holds uri X) (dispatch_stream u payload)" "keeps (holds uri X) next_call" "keeps (holds uri X) (put_checkpoint env u n)"
  by (intro keeps_holds live_tools;
      simp add: dispatch_stream_def next_call_def put_checkpoint_def writeS_def state_at_def Let_def)+

lemma holds_patch: "u \<noteq> uri \<Longrightarrow> keeps (holds uri X) (qso_patch env u delta actor pv node)"
  unfolding qso_patch_def announce_patch_def by (intro keeps_intros keeps_holds live_tools state_at_engine_patch)

interpretation elsewhere: object_invariant "holds uri X" "\<lambda>u. u \<noteq> uri" for uri X
proof unfold_locales
  show "keeps (holds uri X) (qso_create env u schema)" if "u \<noteq> uri" for env u schema
    using that by (intro keeps_holds live_tools)
      (simp add: state_at_def qso_create_def qso_create_by_def bindS_def next_call_def on_engine_def create_elsewhere split: prod.splits;
       metis create_elsewhere snd_conv)
  show "keeps (holds uri X) (qso_timeline u strict)" for u strict
    by (intro keeps_holds live_tools) (simp add: state_at_def qso_timeline_def on_engine_def split: prod.splits)
  show "keeps (holds uri X) (qso_entangle a b relationship)" for a b relationship
    by (intro keeps_holds live_tools) (simp add: state_at_def qso_entangle_def qso_entangle_link_def split: prod.splits)
qed (rule holds_patch)

text \<open>A patch of the object itself: the state is merged, or the patch raised and left it.\<close>

lemma state_at_patched:
  assumes "live s" "state_at uri s = Some before"
  shows "case qso_patch env uri delta actor pv node s of (r, t) \<Rightarrow>
    state_at uri t = Some (deep_merge before delta) \<or> (\<exists>e. r = Inl e) \<and> state_at uri t = Some before"
proof -
  obtain r t where run: "qso_patch env uri delta actor pv node s = (r, t)" by (cases "qso_patch env uri delta actor pv node s") auto
  obtain q u where step: "engine_patch env uri delta actor pv node s = (q, u)" by (cases "engine_patch env uri delta actor pv node s") auto
  have "live u" using keeps_result [OF live_tools(7) assms(1) step] .
  have silent: "keeps (holds uri X) (announce_patch env uri delta event)" for X event
    unfolding announce_patch_def by (intro keeps_intros)
  show ?thesis
  proof (cases q)
    case (Inl e)
    then have "state_at uri u = state_at uri s"
      using step by (auto simp: engine_patch_def bindS_def next_call_def on_engine_def state_at_def patch_def Let_def split_beta
          split: sum.splits prod.splits)
    moreover have "r = Inl e" "t = u" using run step Inl by (auto simp: qso_patch_def bindS_def)
    ultimately show ?thesis using run assms(2) by simp
  next
    case (Inr event)
    have "state_at uri u = Some (deep_merge before delta)"
    proof -
      obtain g where g: "patch (fe_uuid env (fr_calls s)) uri delta actor pv node (fr_engine s) = (Inr event, g)" "fr_engine u = g"
        using step Inr by (auto simp: engine_patch_Return)
      show ?thesis using patch_registry [OF _ g(1)] assms g(2) by (auto simp: live_def state_at_def)
    qed
    with \<open>live u\<close> have merged: "holds uri (Some (deep_merge before delta)) u" by (simp add: holds_def)
    have "announce_patch env uri delta event u = (r, t)"
      using run step Inr by (simp add: qso_patch_def bindS_def)
    then have "holds uri (Some (deep_merge before delta)) t" by (rule keeps_result [OF silent merged])
    with run show ?thesis by (simp add: holds_def)
  qed
qed

text \<open>Without a policy of the runtime, objects can be created and patched.\<close>

definition open_fabric :: "fabric \<Rightarrow> bool" where
  "open_fabric s \<longleftrightarrow> live s \<and> eg_policy (fr_engine s) = None"

lemma keeps_open:
  assumes "keeps live m" "\<And>s. eg_policy (fr_engine (snd (m s))) = eg_policy (fr_engine s)"
  shows "keeps open_fabric m"
  using assms by (simp add: keeps_def open_fabric_def)

lemma patch_policy: "eg_policy (snd (patch event_id uri delta actor pv node g)) = eg_policy g"
  by (simp add: patch_def Let_def split_beta split: sum.splits)

lemma open_kept:
  "keeps open_fabric (qso_create env uri schema)" "keeps open_fabric (qso_patch env uri delta actor pv node)"
proof -
  show "keeps open_fabric (qso_create env uri schema)"
    by (rule keeps_open, rule live_tools)
      (simp add: qso_create_def qso_create_by_def bindS_def next_call_def on_engine_def create_object_def rg_create_def Let_def)
  have "keeps open_fabric (engine_patch env uri delta actor pv node)"
    by (rule keeps_open, rule live_tools)
      (simp add: engine_patch_def bindS_def next_call_def on_engine_def split_def patch_policy split: sum.splits)
  moreover have "keeps open_fabric (announce_patch env uri delta event)" for event
    unfolding announce_patch_def
    by (intro keeps_intros; (rule keeps_open, rule live_tools, simp add: dispatch_stream_def next_call_def put_checkpoint_def
        writeS_def Let_def)?)
  ultimately show "keeps open_fabric (qso_patch env uri delta actor pv node)"
    unfolding qso_patch_def by (rule keeps_bindS)
qed

lemma ensure_accepted:
  assumes "open_fabric s"
  obtains t x where "solis_ensure env uri schema s = (Inr (), t)" "open_fabric t" "state_at uri t = Some x"
proof (cases "has_key (eg_registry (fr_engine s)) uri")
  case True
  with that [of s] assms show ?thesis
    by (auto simp: solis_ensure_def qso_has_def bindS_def readS_def returnS_def rg_has_def state_at_def has_key_def)
next
  case False
  then obtain obj t where t: "qso_create env uri schema s = (Inr obj, t)" "state_at uri t = Some (ob_state_layer obj)"
    by (simp add: qso_create_def qso_create_by_def bindS_def next_call_def on_engine_def create_object_def rg_create_def
        state_at_def Let_def)
  then have "open_fabric t" using keeps_result [OF open_kept(1) assms] by blast
  with t False that [of t] show ?thesis
    by (simp add: solis_ensure_def qso_has_def bindS_def readS_def returnS_def rg_has_def)
qed

lemma solis_patch_accepted:
  assumes "open_fabric s" "state_at uri s = Some x"
    and "\<forall>y\<in>{fe_uuid env (fr_calls s), actor, uri, sc_policy_version cfg}. strip y \<noteq> []"
  obtains e t where "solis_patch env cfg uri payload actor s = (Inr e, t)" "open_fabric t"
    "state_at uri t = Some (deep_merge x (json_row payload))"
proof -
  have "\<exists>obj. dget (eg_registry (fr_engine s)) uri = Some obj" using assms(2) by (auto simp: state_at_def)
  then obtain e t where t: "qso_patch env uri (json_row payload) actor (sc_policy_version cfg) (sc_node_id cfg) s = (Inr e, t)"
    using qso_patch_accepted assms(1,3) unfolding open_fabric_def by blast
  moreover have "open_fabric t" using keeps_result [OF open_kept(2) assms(1) t] .
  moreover have "state_at uri t = Some (deep_merge x (json_row payload))"
    using state_at_patched [OF _ assms(2), of "json_row payload" env actor "sc_policy_version cfg" "sc_node_id cfg"] assms(1) t
    by (auto simp: open_fabric_def)
  ultimately show ?thesis using that unfolding solis_patch_def by blast
qed

text \<open>The two breakdowns of a tally count what the totals count.\<close>

definition counted :: "pass_counter \<Rightarrow> nat \<times> nat" where
  "counted c = (sum_list (map (\<lambda>kv. fst (snd kv)) c), sum_list (map (\<lambda>kv. snd (snd kv)) c))"

lemma sum_dset:
  "distinct (dkeys d) \<Longrightarrow> sum_list (map (\<lambda>kv. g (snd kv)) (dset k v d)) + (case dget d k of Some w \<Rightarrow> g w | None \<Rightarrow> 0) =
     sum_list (map (\<lambda>kv. g (snd kv)) d) + (g v :: nat)"
  by (induction d) (auto split: option.splits simp: map_of_eq_None_iff image_iff)

lemma counted_decision:
  assumes "distinct (dkeys c)"
  shows "counted (count_decision key passed c) =
      (if passed then (Suc (fst (counted c)), snd (counted c)) else (fst (counted c), Suc (snd (counted c))))"
    and "distinct (dkeys (count_decision key passed c))"
proof -
  obtain p f where pf: "dget_or c key (0, 0) = (p, f)" by (cases "dget_or c key (0, 0)")
  have w: "(case dget c key of Some w \<Rightarrow> g w | None \<Rightarrow> 0) = g (p, f)" if "g (0, 0) = 0" for g :: "nat \<times> nat \<Rightarrow> nat"
    using pf that by (auto simp: dget_or_def split: option.splits)
  show "counted (count_decision key passed c) =
      (if passed then (Suc (fst (counted c)), snd (counted c)) else (fst (counted c), Suc (snd (counted c))))"
    using sum_dset [OF assms, of fst key "if passed then (Suc p, f) else (p, Suc f)"]
      sum_dset [OF assms, of snd key "if passed then (Suc p, f) else (p, Suc f)"]
    unfolding w [of fst, simplified] w [of snd, simplified]
    by (auto simp: counted_def count_decision_def pf split: if_splits)
  show "distinct (dkeys (count_decision key passed c))"
    using assms by (simp add: count_decision_def pf distinct_dset)
qed

definition in_scope :: "string \<Rightarrow> qso_event \<Rightarrow> bool" where
  "in_scope scope e = (field_text (qe_delta e) ''scope'' = scope)"

section \<open>Properties\<close>

text \<open>
  The recount behind a health report is consistent: passed and failed decisions add up to the
  events of the scope, the passed ones are those that say so, and the breakdowns by gate and by stage
  each add up to the same two numbers.
\<close>

theorem gate_tally_consistent:
  "let t = foldl (tally_event scope) empty_tally es; scoped = filter (in_scope scope) es in
     ga_pass t + ga_fail t = length scoped \<and>
     ga_pass t = length (filter (\<lambda>e. truthy (dget_or (qe_delta e) ''passed'' (JBool False))) scoped) \<and>
     counted (ga_gates t) = (ga_pass t, ga_fail t) \<and> counted (ga_stages t) = (ga_pass t, ga_fail t)"
proof -
  define ok where "ok t es = (ga_pass t + ga_fail t = length (filter (in_scope scope) es) \<and>
    ga_pass t = length (filter (\<lambda>e. truthy (dget_or (qe_delta e) ''passed'' (JBool False))) (filter (in_scope scope) es)) \<and>
    distinct (dkeys (ga_gates t)) \<and> distinct (dkeys (ga_stages t)) \<and>
    counted (ga_gates t) = (ga_pass t, ga_fail t) \<and> counted (ga_stages t) = (ga_pass t, ga_fail t))" for t :: gate_tally and es
  have "ok (foldl (tally_event scope) empty_tally es) es"
  proof (induction es rule: rev_induct)
    case Nil
    show ?case by (simp add: ok_def empty_tally_def counted_def)
  next
    case (snoc e es)
    then show ?case
      by (auto simp: ok_def tally_event_def in_scope_def Let_def counted_decision)
  qed
  then show ?thesis by (simp add: ok_def Let_def)
qed

end
