(* ===== verification/Star_Service.thy ===== *)
theory Star_Service
  imports Gate_Audit
begin

text \<open>
  \<^verbatim>\<open>solis/services/solis_star_service.py\<close>: stars as objects of the fabric.  A change of a star is
  projected, judged by the policy guard, passed through the gates, committed as a patch, recorded as
  a stellar event, anchored in a Merkle tree every so many events, and rewarded.
\<close>

section \<open>The service\<close>

record star_world =
  sw_fabric :: fabric
  sw_anchor :: merkle_anchor

record star_env =
  se_env :: fabric_env
  se_config :: solis_config
  se_guard :: policy_guard

definition on_fabric :: "(fabric, 'a) op \<Rightarrow> (star_world, 'a) op" where
  "on_fabric m = (\<lambda>s. case m (sw_fabric s) of (r, f) \<Rightarrow> (r, s\<lparr>sw_fabric := f\<rparr>))"

definition world_patch :: "star_env \<Rightarrow> string \<Rightarrow> pyval dict \<Rightarrow> string \<Rightarrow> (star_world, qso_event) op" where
  "world_patch se uri payload actor = on_fabric (solis_patch (se_env se) (se_config se) uri payload actor)"

definition world_ensure :: "star_env \<Rightarrow> string \<Rightarrow> json dict \<Rightarrow> (star_world, unit) op" where
  "world_ensure se uri schema = on_fabric (solis_ensure (se_env se) uri schema)"

text \<open>\<open>qso.read(uri).get("state_layer", {})\<close>.\<close>

definition read_state_layer :: "string \<Rightarrow> (star_world, pyval dict) op" where
  "read_state_layer uri = on_fabric (bindS (qso_read uri) (\<lambda>obj. returnS (val_row (ob_state_layer obj))))"

definition star_prefix :: string where
  "star_prefix = ''qso://solis.star.''"

definition star_uri :: "string \<Rightarrow> string" where
  "star_uri star_id = star_prefix @ star_id"

definition resolve_star_uri :: "string \<Rightarrow> string" where
  "resolve_star_uri star_uri_or_id =
     (let value = strip star_uri_or_id in if startswith value star_prefix then value else star_uri value)"

section \<open>Schemas\<close>

definition jobj :: "(string \<times> json) list \<Rightarrow> json" where
  "jobj kvs = JObj kvs"

definition version_rule :: json where
  "version_rule = jobj [(''type'', JStr ''string''), (''pattern'', JStr (''^[0-9]+'' @ CHR 0x5C # ''.[0-9]+$''))]"

definition filled_rule :: json where
  "filled_rule = jobj [(''type'', JStr ''string''), (''minLength'', JInt 1)]"

definition typed_rule :: "string \<Rightarrow> json" where
  "typed_rule t = jobj [(''type'', JStr t)]"

definition star_schema :: "json dict" where
  "star_schema =
     [(''$schema'', JStr ''https://json-schema.org/draft/2020-12/schema''), (''$id'', JStr ''star.schema.json''),
      (''title'', JStr ''Solis Star''), (''type'', JStr ''object''),
      (''required'', JArr (map JStr [''schema_version'', ''star_id'', ''chain_id'', ''mass'', ''luminosity'', ''core_temp'',
        ''magnetic_field'', ''entropy_index'', ''fusion_rate''])),
      (''properties'', jobj
        [(''schema_version'', version_rule), (''star_id'', filled_rule), (''chain_id'', filled_rule),
         (''mass'', typed_rule ''number''), (''luminosity'', typed_rule ''number''), (''core_temp'', typed_rule ''number''),
         (''magnetic_field'', typed_rule ''number''), (''entropy_index'', typed_rule ''number''),
         (''fusion_rate'', typed_rule ''number''),
         (''collapse_probability'', jobj [(''type'', JStr ''number''), (''minimum'', JInt 0), (''maximum'', JInt 1)])]),
      (''additionalProperties'', JBool False)]"

definition stellar_event_schema :: "json dict" where
  "stellar_event_schema =
     [(''$schema'', JStr ''https://json-schema.org/draft/2020-12/schema''), (''$id'', JStr ''stellar_event.schema.json''),
      (''title'', JStr ''Solis Stellar Event''), (''type'', JStr ''object''),
      (''required'', JArr (map JStr [''schema_version'', ''event_id'', ''timestamp'', ''actor'', ''object_uri'', ''delta'',
        ''signature'', ''policy_version''])),
      (''properties'', jobj
        [(''schema_version'', version_rule), (''event_id'', filled_rule),
         (''timestamp'', jobj [(''type'', JStr ''string''), (''format'', JStr ''date-time'')]),
         (''actor'', filled_rule), (''object_uri'', filled_rule), (''delta'', typed_rule ''object''),
         (''stellar_projection'', typed_rule ''object''), (''relationship'', typed_rule ''object''),
         (''signature'', typed_rule ''string''), (''policy_version'', typed_rule ''string''),
         (''merkle_root'', typed_rule ''string''),
         (''anchor_epoch'', jobj [(''type'', JStr ''integer''), (''minimum'', JInt 0)])]),
      (''additionalProperties'', JBool False)]"

definition is_number :: "pyval \<Rightarrow> bool" where
  "is_number v = (case v of PInt _ \<Rightarrow> True | PFloat _ \<Rightarrow> True | PBool _ \<Rightarrow> True | _ \<Rightarrow> False)"

definition has_type :: "string \<Rightarrow> pyval \<Rightarrow> bool" where
  "has_type expected v =
     (if expected = ''string'' then (case v of PStr _ \<Rightarrow> True | _ \<Rightarrow> False)
      else if expected = ''number'' then is_number v
      else if expected = ''integer'' then (case v of PInt _ \<Rightarrow> True | PBool _ \<Rightarrow> True | _ \<Rightarrow> False)
      else if expected = ''object'' then (case v of PDict _ \<Rightarrow> True | _ \<Rightarrow> False)
      else if expected = ''boolean'' then (case v of PBool _ \<Rightarrow> True | _ \<Rightarrow> False)
      else if expected = ''array'' then (case v of PList _ \<Rightarrow> True | _ \<Rightarrow> False)
      else True)"

text \<open>A number against a bound of the schema, compared exactly.\<close>

definition exact_value :: "pyval \<Rightarrow> pyfloat" where
  "exact_value v = (case v of PInt n \<Rightarrow> Fin (of_int n) | PBool b \<Rightarrow> Fin (of_bool b) | PFloat x \<Rightarrow> x | _ \<Rightarrow> NaN)"

definition rule_bound :: "json \<Rightarrow> string \<Rightarrow> pyfloat option" where
  "rule_bound rules k = (case jget rules k of Some (JInt n) \<Rightarrow> Some (Fin (of_int n)) | _ \<Rightarrow> None)"

definition validate_field :: "string \<Rightarrow> string \<Rightarrow> pyval \<Rightarrow> json \<Rightarrow> unit result" where
  "validate_field name field v rules =
     (let complain = (\<lambda>what. Raise (ValueError (name @ '': field '' @ CHR 0x27 # field @ CHR 0x27 # what)));
          expected = (case jget rules ''type'' of Some (JStr t) \<Rightarrow> t | _ \<Rightarrow> []) in
      if \<not> has_type expected v then complain ('' must be '' @ expected)
      else if is_number v \<and> (case rule_bound rules ''minimum'' of Some b \<Rightarrow> f_less (exact_value v) b | None \<Rightarrow> False)
      then complain '' below minimum''
      else if is_number v \<and> (case rule_bound rules ''maximum'' of Some b \<Rightarrow> f_less b (exact_value v) | None \<Rightarrow> False)
      then complain '' above maximum''
      else Return ())"

definition required_fields :: "json dict \<Rightarrow> string list" where
  "required_fields schema = (case dget_or schema ''required'' (JArr []) of JArr ks \<Rightarrow> map jstr ks | _ \<Rightarrow> [])"

definition validate_schema :: "pyval dict \<Rightarrow> json dict \<Rightarrow> string \<Rightarrow> unit result" where
  "validate_schema payload schema name =
     (if dget schema ''type'' \<noteq> Some (JStr ''object'') then Raise (ValueError (name @ '': only object schemas are supported''))
      else case filter (\<lambda>k. \<not> has_key payload k) (required_fields schema) of
        k # _ \<Rightarrow> Raise (ValueError (name @ '': missing required field '' @ CHR 0x27 # k @ [CHR 0x27]))
      | [] \<Rightarrow>
          (let properties = dget_or schema ''properties'' (JObj []);
               additional_ok = truthy (dget_or schema ''additionalProperties'' (JBool True)) in
           foldR (\<lambda>_ kv. case jget properties (fst kv) of
               None \<Rightarrow> if additional_ok then Return ()
                 else Raise (ValueError (name @ '': unknown field '' @ CHR 0x27 # fst kv @ [CHR 0x27]))
             | Some rules \<Rightarrow> validate_field name (fst kv) (snd kv) rules) () payload))"

section \<open>Gates\<close>

definition emit_gate :: "star_env \<Rightarrow> string \<Rightarrow> string \<Rightarrow> string \<Rightarrow> gate_result \<Rightarrow> pyval dict \<Rightarrow> (star_world, unit) op" where
  "emit_gate se scope stage target_uri gate ctx =
     bindS (on_fabric (emit_gate_decision (se_env se) (se_config se) scope stage target_uri gate ctx)) (\<lambda>_. returnS ())"

text \<open>A gate's decision is recorded before it is acted upon.\<close>

definition pass_gate ::
    "star_env \<Rightarrow> string \<Rightarrow> string \<Rightarrow> string \<Rightarrow> gate_result \<Rightarrow> pyval dict \<Rightarrow> string \<Rightarrow> (star_world, unit) op" where
  "pass_gate se scope stage target_uri gate ctx what =
     thenS (emit_gate se scope stage target_uri gate ctx)
     (requireS (gt_passed gate) (ValueError (''runtime_gate: '' @ what @ '' rejected ('' @ gt_detail gate @ '')'')))"

definition star_zk_gate :: "star_env \<Rightarrow> pyval dict \<Rightarrow> guard_decision \<Rightarrow> gate_result result" where
  "star_zk_gate se projected decision =
     bindR (service_as_fixed (dget_or projected ''entropy_index'' zero_float)) (\<lambda>entropy.
     bindR (service_as_fixed (dget_or projected ''magnetic_field'' (PFloat (Fin 1)))) (\<lambda>magnetic.
     bindR (service_as_fixed (dget_or projected ''fusion_rate'' zero_float)) (\<lambda>fusion.
     bindR (generate_collapse_proof entropy magnetic fusion fx_one) (\<lambda>proof_data.
     bindR (verify_collapse_proof proof_data) (\<lambda>proof_verified.
     bindR (service_as_fixed (dget_or projected ''collapse_probability'' zero_float)) (\<lambda>declared.
     bindR (bindR (fx_sub declared (gd_computed_collapse decision)) fx_abs) (\<lambda>gap.
       Return (gate3_zk_compatibility_lock (gap \<le> pg_tolerance (se_guard se))
         (if sc_require_zk_proof (se_config se) then proof_verified else True) True))))))))"

definition star_pre_commit_gates ::
    "star_env \<Rightarrow> string \<Rightarrow> pyval dict \<Rightarrow> pyval dict \<Rightarrow> pyval dict \<Rightarrow> guard_decision \<Rightarrow> (star_world, gate_result) op" where
  "star_pre_commit_gates se target_uri current projected input_delta decision =
     (if \<not> sc_runtime_gate_enabled (se_config se) then returnS (gate_of ''gate1'' True ''disabled'')
      else
        (let gate1 = gate1_deterministic_replay_lock current
               [[(''delta'', PDict projected), (''input_delta'', PDict input_delta),
                 (''policy_version'', PStr (sc_policy_version (se_config se)))]]
               admission_reducer (sc_runtime_gate_nodes (se_config se));
             failed = filter (\<lambda>c. c \<noteq> ''OK'') (gd_reason_codes decision)
         in thenS (pass_gate se ''star'' ''precommit'' target_uri gate1
               [(''phase'', PStr ''gate1''), (''input_delta'', PDict input_delta)] ''gate1'')
            (thenS (pass_gate se ''star'' ''precommit'' target_uri
               (gate2_invariant_enforcement_lock failed True True (gt_passed gate1))
               [(''phase'', PStr ''gate2''), (''failed_invariants'', PStrs failed)] ''gate2'')
            (bindS (liftS (star_zk_gate se projected decision)) (\<lambda>gate3.
             thenS (pass_gate se ''star'' ''precommit'' target_uri gate3
               [(''phase'', PStr ''gate3''), (''require_zk_proof'', PBool (sc_require_zk_proof (se_config se)))] ''gate3'')
             (returnS gate1))))))"

definition anchor_required :: "merkle_anchor \<Rightarrow> bool" where
  "anchor_required a = (ma_event_hashes a \<noteq> [] \<and> int (length (ma_event_hashes a)) mod ma_epoch_size a = 0)"

definition star_post_commit_gates :: "star_env \<Rightarrow> string \<Rightarrow> gate_result \<Rightarrow> pyval dict \<Rightarrow> (star_world, unit) op" where
  "star_post_commit_gates se target_uri pre_gate1 stellar_event =
     (if \<not> sc_runtime_gate_enabled (se_config se) then returnS ()
      else bindS (readS (\<lambda>s. Return (anchor_required (sw_anchor s)))) (\<lambda>required.
        pass_gate se ''star'' ''postcommit'' target_uri
          (gate2_invariant_enforcement_lock [] (to_bool (dget_or stellar_event ''event_id'' PNone))
             (\<not> required \<or> has_key stellar_event ''merkle_root'' \<and> has_key stellar_event ''anchor_epoch'')
             (gt_passed pre_gate1))
          [(''phase'', PStr ''gate2''), (''event_id'', PStr (to_str (dget_or stellar_event ''event_id'' (PStr []))))]
          ''post-commit gate2''))"

section \<open>Stellar events, anchors and rewards\<close>

definition relationship_row :: "relationship_effect \<Rightarrow> pyval" where
  "relationship_row r = PDict
     [(''event_type'', PStr (re_event_type r)), (''magnitude'', PFloat (re_magnitude r)),
      (''delta'', PDict (map (map_prod id PFloat) (re_delta r))),
      (''inverse_delta'', PDict (map (map_prod id PFloat) (re_inverse_delta r)))]"

definition optional_relationship :: "relationship_effect option \<Rightarrow> pyval dict" where
  "optional_relationship r = (case r of None \<Rightarrow> [] | Some e \<Rightarrow> [(''relationship'', relationship_row e)])"

definition emit_anchor_event :: "star_env \<Rightarrow> string \<Rightarrow> (star_world, string \<times> int) op" where
  "emit_anchor_event se actor =
     bindS (readS (\<lambda>s. Return (sw_anchor s))) (\<lambda>a.
     let epoch = anchor_epoch a; merkle = anchor_root a; uri = ''qso://solis.anchor.'' @ py_str epoch in
     bindS (on_fabric (qso_sign merkle)) (\<lambda>signature.
     thenS (world_ensure se uri [(''type'', JStr ''solis_merkle_anchor'')])
     (bindS (world_patch se uri
        [(''epoch'', PInt epoch), (''root'', PStr merkle), (''signature'', PStr signature),
         (''event_count'', PInt (int (length (ma_event_hashes a))))] actor) (\<lambda>_.
      returnS (merkle, epoch)))))"

text \<open>What the Merkle tree holds of a stellar event.\<close>

definition hash_material :: "string \<Rightarrow> string \<Rightarrow> pyval dict \<Rightarrow> pyval dict \<Rightarrow> string \<Rightarrow> relationship_effect option \<Rightarrow> string" where
  "hash_material actor object_uri input_delta projected policy_version relationship =
     dumps Json.compact (json_of (PDict
       ([(''schema_version'', PStr SCHEMA_VERSION), (''object_uri'', PStr object_uri), (''actor'', PStr actor),
         (''delta'', PDict input_delta), (''stellar_projection'', PDict projected), (''policy_version'', PStr policy_version)] @
        optional_relationship relationship)))"

definition stellar_event_payload ::
    "star_env \<Rightarrow> string \<Rightarrow> qso_event \<Rightarrow> pyval dict \<Rightarrow> pyval dict \<Rightarrow> relationship_effect option \<Rightarrow> pyval dict" where
  "stellar_event_payload se object_uri event input_delta projected relationship =
     [(''schema_version'', PStr SCHEMA_VERSION), (''event_id'', PStr (qe_event_id event)),
      (''timestamp'', PStr (fe_stamp (se_env se) (qe_timestamp event))), (''actor'', PStr (qe_actor event)),
      (''object_uri'', PStr object_uri), (''delta'', PDict input_delta), (''stellar_projection'', PDict projected),
      (''signature'', PStr (qe_signature event)), (''policy_version'', PStr (qe_policy_version event))] @
     optional_relationship relationship"

definition stellar_event_uri :: "string \<Rightarrow> qso_event \<Rightarrow> string" where
  "stellar_event_uri object_uri event =
     ''qso://solis.stellar_event.'' @ last_segment (CHR ''.'') object_uri @ ''.'' @ qe_event_id event"

definition store_stellar_event :: "star_env \<Rightarrow> string \<Rightarrow> pyval dict \<Rightarrow> (star_world, qso_event) op" where
  "store_stellar_event se event_uri payload =
     thenS (world_ensure se event_uri stellar_event_schema)
     (thenS (liftS (validate_schema payload stellar_event_schema ''stellar_event''))
     (world_patch se event_uri payload ''solis.eventlog''))"

text \<open>The leaf of the event, and an anchor when the epoch is full.\<close>

definition anchor_stellar_event :: "star_env \<Rightarrow> string \<Rightarrow> pyval dict \<Rightarrow> (star_world, pyval dict) op" where
  "anchor_stellar_event se serialized payload =
     thenS (writeS (\<lambda>s. s\<lparr>sw_anchor := anchor_append serialized (sw_anchor s)\<rparr>))
     (bindS (readS (\<lambda>s. Return (should_anchor (sw_anchor s)))) (\<lambda>due.
      if due then bindS (emit_anchor_event se ''solis.anchor'') (\<lambda>(merkle, epoch).
        returnS (payload @ [(''merkle_root'', PStr merkle), (''anchor_epoch'', PInt epoch)]))
      else returnS payload))"

definition emit_stellar_event ::
    "star_env \<Rightarrow> string \<Rightarrow> qso_event \<Rightarrow> pyval dict \<Rightarrow> pyval dict \<Rightarrow> relationship_effect option \<Rightarrow> (star_world, pyval dict) op" where
  "emit_stellar_event se object_uri event input_delta projected relationship =
     (let payload = stellar_event_payload se object_uri event input_delta projected relationship in
      bindS (store_stellar_event se (stellar_event_uri object_uri event) payload) (\<lambda>_.
        anchor_stellar_event se
          (hash_material (qe_actor event) object_uri input_delta projected (qe_policy_version event) relationship) payload))"

definition emit_reward_signal :: "star_env \<Rightarrow> string \<Rightarrow> pyval dict \<Rightarrow> (star_world, unit) op" where
  "emit_reward_signal se uri state =
     (let signal_uri = ''qso://solis.signal.reward.'' @ last_segment (CHR ''.'') uri;
          get = (\<lambda>k. liftS (to_float (dget_or state k zero_float))) in
      thenS (world_ensure se signal_uri [(''type'', JStr ''solis_reward_signal'')])
      (bindS (liftS (compute_reward state)) (\<lambda>reward.
       bindS (get ''collapse_probability'') (\<lambda>collapse. bindS (get ''fusion_rate'') (\<lambda>fusion.
       bindS (get ''entropy_index'') (\<lambda>entropy.
       bindS (world_patch se signal_uri
         [(''star_uri'', PStr uri), (''metric'', PStr ''reward''), (''value'', PFloat reward),
          (''collapse_probability'', PFloat collapse), (''fusion_rate'', PFloat fusion), (''entropy_index'', PFloat entropy)]
         ''solis.reward'') (\<lambda>_. returnS ())))))))"

section \<open>Changes of a star\<close>

definition guard_value_of :: "pyval \<Rightarrow> guard_value" where
  "guard_value_of v = (case v of
       PInt n \<Rightarrow> GInt n | PBool b \<Rightarrow> GInt (of_bool b) | PFloat x \<Rightarrow> GFloat (format_g18 x) | PStr s \<Rightarrow> GStr s
     | PNone \<Rightarrow> GOther ''NoneType'' | PList _ \<Rightarrow> GOther ''list'' | PDict _ \<Rightarrow> GOther ''dict'')"

definition guard_row :: "pyval dict \<Rightarrow> guard_value dict" where
  "guard_row d = map (map_prod id guard_value_of) d"

definition projection_fields :: "string list" where
  "projection_fields = [''mass'', ''luminosity'', ''entropy_index'', ''magnetic_field'', ''core_temp_spike'']"

definition projection_delta :: "pyval dict \<Rightarrow> pyval dict result" where
  "projection_delta delta =
     mapR (\<lambda>(k, v). bindR (service_projection_float v) (\<lambda>x. Return (k, PFloat x)))
       (filter (\<lambda>kv. fst kv \<in> set projection_fields) delta)"

definition merge_numeric_delta :: "pyval dict \<Rightarrow> pyfloat dict \<Rightarrow> pyval dict result" where
  "merge_numeric_delta a b =
     foldR (\<lambda>merged (k, v).
       bindR (service_as_fixed (dget_or merged k zero_float)) (\<lambda>lhs. bindR (service_as_fixed (PFloat v)) (\<lambda>rhs.
       bindR (fx_add lhs rhs) (\<lambda>x. bindR (fixed_to_float x) (\<lambda>f. Return (dset k (PFloat f) merged)))))) a b"

definition relationship_effect_of :: "pyval dict option \<Rightarrow> relationship_effect option result" where
  "relationship_effect_of event = (case event of
       None \<Rightarrow> Return None
     | Some ev \<Rightarrow>
         (let event_type = strip (to_str (dget_or ev ''event_type'' (PStr []))) in
          if ev = [] \<or> event_type = [] then Return None
          else bindR (service_projection_float (dget_or ev ''magnitude'' (PFloat (Fin 1)))) (\<lambda>magnitude.
               bindR (relationship_delta event_type magnitude (to_bool (dget_or ev ''reverse'' (PBool False)))) (\<lambda>e.
                 Return (Some e)))))"

text \<open>The pure part of \<open>patch_star\<close>: the projected payload and the effect of the relationship.\<close>

definition project_patch ::
    "stellar_state \<Rightarrow> pyval dict \<Rightarrow> pyval dict \<Rightarrow> pyval dict option \<Rightarrow>
     (pyval dict \<times> relationship_effect option) result" where
  "project_patch current state_layer delta relationship_event =
     bindR (projection_delta delta) (\<lambda>d0.
     bindR (relationship_effect_of relationship_event) (\<lambda>relationship.
     bindR (case relationship of None \<Rightarrow> Return d0 | Some r \<Rightarrow> merge_numeric_delta d0 (re_delta r)) (\<lambda>d1.
     bindR (service_projection_float (dget_or d1 ''core_temp_spike'' zero_float)) (\<lambda>spike.
     bindR (project_stellar_v1 current (dpop ''core_temp_spike'' d1)) (\<lambda>projected.
       let projected = (if spike \<noteq> Fin 0
             then projected\<lparr>st_core_temp := f_max (f_add (st_core_temp projected) spike) (Fin 0)\<rparr> else projected)
       in Return (stellar_as_dict projected @
            [(''schema_version'', PStr (to_str (dget_or state_layer ''schema_version'' (PStr SCHEMA_VERSION))))], relationship))))))"

text \<open>The verdict of the guard on a transition, as a decision or the exception of a rejection.\<close>

definition guard_transition :: "star_env \<Rightarrow> stellar_state \<Rightarrow> pyval dict \<Rightarrow> guard_decision result" where
  "guard_transition se current payload =
     bindR (evaluate_transition (se_guard se) (guard_row (stellar_as_dict current)) (guard_row payload)) (\<lambda>decision.
       if \<not> gd_allowed decision
       then Raise (ValueError (''policy_guard: transition rejected ('' @ join '','' (gd_reason_codes decision) @ '')''))
       else Return decision)"

record star_outcome =
  so_uri :: string
  so_stellar_event :: "pyval dict"
  so_state :: "pyval dict"

text \<open>What follows the patch of the star: the stellar event, the post-commit gate, the reward.\<close>

definition record_star ::
    "star_env \<Rightarrow> string \<Rightarrow> pyval dict \<Rightarrow> pyval dict \<Rightarrow> relationship_effect option \<Rightarrow> gate_result \<Rightarrow> qso_event \<Rightarrow>
     (star_world, star_outcome) op" where
  "record_star se uri payload input_delta relationship gate1 event =
     bindS (emit_stellar_event se uri event input_delta payload relationship) (\<lambda>stellar_event.
     thenS (star_post_commit_gates se uri gate1 stellar_event)
     (thenS (emit_reward_signal se uri payload)
     (returnS \<lparr>so_uri = uri, so_stellar_event = stellar_event, so_state = payload\<rparr>)))"

definition commit_star ::
    "star_env \<Rightarrow> string \<Rightarrow> pyval dict \<Rightarrow> pyval dict \<Rightarrow> relationship_effect option \<Rightarrow> gate_result \<Rightarrow> string \<Rightarrow>
     (star_world, star_outcome) op" where
  "commit_star se uri payload input_delta relationship gate1 actor =
     bindS (world_patch se uri payload actor) (record_star se uri payload input_delta relationship gate1)"

definition patch_star ::
    "star_env \<Rightarrow> string \<Rightarrow> pyval dict \<Rightarrow> string \<Rightarrow> pyval dict option \<Rightarrow> (star_world, star_outcome) op" where
  "patch_star se star_uri_or_id delta actor relationship_event =
     (let uri = resolve_star_uri star_uri_or_id in
      bindS (read_state_layer uri) (\<lambda>state_layer.
      bindS (liftS (stellar_from_mapping state_layer)) (\<lambda>current.
      bindS (liftS (project_patch current state_layer delta relationship_event)) (\<lambda>(payload, relationship).
      bindS (liftS (guard_transition se current payload)) (\<lambda>decision.
      bindS (star_pre_commit_gates se uri (stellar_as_dict current) payload delta decision) (\<lambda>gate1.
      thenS (liftS (validate_schema payload star_schema ''star''))
      (commit_star se uri payload delta relationship gate1 actor)))))))"

definition apply_policy_event :: "star_env \<Rightarrow> string \<Rightarrow> pyval dict \<Rightarrow> string \<Rightarrow> (star_world, star_outcome) op" where
  "apply_policy_event se star_uri_or_id policy actor =
     (let uri = resolve_star_uri star_uri_or_id in
      bindS (read_state_layer uri) (\<lambda>state_layer.
      bindS (liftS (stellar_from_mapping state_layer)) (\<lambda>current.
      bindS (liftS (apply_policy current policy)) (\<lambda>next_state.
      let payload = stellar_as_dict next_state @
            [(''schema_version'', PStr (to_str (dget_or state_layer ''schema_version'' (PStr SCHEMA_VERSION))))];
          input_delta = [(''policy'', PDict policy)] in
      bindS (liftS (guard_transition se current payload)) (\<lambda>decision.
      bindS (star_pre_commit_gates se uri (stellar_as_dict current) payload input_delta decision) (\<lambda>gate1.
      commit_star se uri payload input_delta None gate1 actor))))))"

definition apply_relationship :: "star_env \<Rightarrow> string \<Rightarrow> string \<Rightarrow> pyval \<Rightarrow> bool \<Rightarrow> string \<Rightarrow> (star_world, star_outcome) op" where
  "apply_relationship se star_uri_or_id event_type magnitude reverse actor =
     patch_star se star_uri_or_id [] actor
       (Some [(''event_type'', PStr event_type), (''magnitude'', magnitude), (''reverse'', PBool reverse)])"

definition base_star_state :: "string \<Rightarrow> string \<Rightarrow> pyval dict" where
  "base_star_state star_id chain_id =
     [(''schema_version'', PStr SCHEMA_VERSION), (''star_id'', PStr star_id), (''chain_id'', PStr chain_id),
      (''mass'', PFloat (Fin 1)), (''luminosity'', PFloat (Fin 1)), (''core_temp'', PFloat (Fin 1)),
      (''magnetic_field'', PFloat (Fin 1)), (''entropy_index'', PFloat (lit (5 / 100))), (''fusion_rate'', PFloat (Fin 1)),
      (''collapse_probability'', PFloat (Fin 0))]"

definition create_star :: "star_env \<Rightarrow> string \<Rightarrow> string \<Rightarrow> pyval dict \<Rightarrow> string \<Rightarrow> (star_world, qso_object) op" where
  "create_star se star_id chain_id initial_state actor =
     (let uri = star_uri star_id in
      thenS (world_ensure se uri star_schema)
      (bindS (liftS (foldR (\<lambda>base (k, v). bindR (service_projection_float v) (\<lambda>x. Return (dset k (PFloat x) base)))
          (base_star_state star_id chain_id) initial_state)) (\<lambda>base_state.
       thenS (liftS (validate_schema base_state star_schema ''star''))
       (bindS (world_patch se uri base_state actor) (\<lambda>event.
        bindS (emit_stellar_event se uri event [(''create'', PBool True)] base_state None) (\<lambda>_.
        on_fabric (qso_read uri)))))))"

definition get_star :: "string \<Rightarrow> (star_world, qso_object) op" where
  "get_star star_uri_or_id = on_fabric (qso_read (resolve_star_uri star_uri_or_id))"

definition star_timeline :: "string \<Rightarrow> bool \<Rightarrow> (star_world, qso_event list) op" where
  "star_timeline star_uri_or_id strict = on_fabric (qso_timeline (resolve_star_uri star_uri_or_id) strict)"

end
