(* ===== verification/Star_Contract.thy ===== *)
theory Star_Contract
  imports Star_Service
begin

text \<open>
  What the star service promises: a star changes only along transitions the policy guard allows, the
  objects behind it stay rebuildable from their logs, and the Merkle tree takes one leaf for every
  stellar event.
\<close>

section \<open>Operations on the fabric of a service\<close>

lemma keeps_on_fabric: "keeps P m \<Longrightarrow> keeps (\<lambda>w. P (sw_fabric w)) (on_fabric m)"
  by (simp add: keeps_def on_fabric_def split: prod.splits) (metis snd_conv)

lemma keeps_anchor_write: "keeps (\<lambda>w. P (sw_fabric w)) (writeS (\<lambda>w. w\<lparr>sw_anchor := f w\<rparr>))"
  by (simp add: keeps_def writeS_def)

text \<open>An invariant that leaves free the URIs of the service's own records.\<close>

locale star_invariant = object_invariant +
  assumes free_records: "p \<in> {''qso://solis.gate.'', ''qso://solis.stellar_event.'', ''qso://solis.anchor.'',
      ''qso://solis.signal.''} \<Longrightarrow> free (p @ rest)"

context star_invariant
begin

lemma free_uris:
  "free (''qso://solis.gate.'' @ rest)" "free (''qso://solis.stellar_event.'' @ rest)"
  "free (''qso://solis.anchor.'' @ rest)" "free (''qso://solis.signal.reward.'' @ rest)"
proof -
  show "free (''qso://solis.gate.'' @ rest)" "free (''qso://solis.stellar_event.'' @ rest)" "free (''qso://solis.anchor.'' @ rest)"
    by (rule free_records, simp)+
  have "free (''qso://solis.signal.'' @ ''reward.'' @ rest)" by (rule free_records) simp
  then show "free (''qso://solis.signal.reward.'' @ rest)" by simp
qed

lemma keeps_world:
  assumes "free uri"
  shows "keeps (\<lambda>w. P (sw_fabric w)) (world_patch se uri payload actor)"
    "keeps (\<lambda>w. P (sw_fabric w)) (world_ensure se uri schema)"
  unfolding world_patch_def world_ensure_def by (intro keeps_on_fabric keeps_solis assms)+

lemma keeps_read: "keeps (\<lambda>w. P (sw_fabric w)) (read_state_layer uri)"
  unfolding read_state_layer_def by (intro keeps_on_fabric keeps_intros keeps_reads)

lemma keeps_gate: "keeps (\<lambda>w. P (sw_fabric w)) (pass_gate se scope stage target gate ctx what)"
  unfolding pass_gate_def emit_gate_def
  by (intro keeps_intros keeps_on_fabric keeps_decision free_uris)

lemma keeps_pre_gates: "keeps (\<lambda>w. P (sw_fabric w)) (star_pre_commit_gates se target current projected delta d)"
  unfolding star_pre_commit_gates_def Let_def by (intro keeps_intros keeps_gate)

lemma keeps_post_gates: "keeps (\<lambda>w. P (sw_fabric w)) (star_post_commit_gates se target gate1 event)"
  unfolding star_post_commit_gates_def Let_def by (intro keeps_intros keeps_gate)

lemma keeps_anchor_event: "keeps (\<lambda>w. P (sw_fabric w)) (emit_anchor_event se actor)"
  unfolding emit_anchor_event_def Let_def
  by (intro keeps_intros keeps_world keeps_on_fabric keeps_reads free_uris)

lemma keeps_stellar_event: "keeps (\<lambda>w. P (sw_fabric w)) (emit_stellar_event se uri event delta projected rel)"
  unfolding emit_stellar_event_def store_stellar_event_def anchor_stellar_event_def stellar_event_uri_def Let_def split_def
  by (intro keeps_intros keeps_world keeps_anchor_write keeps_anchor_event free_uris)

lemma keeps_reward: "keeps (\<lambda>w. P (sw_fabric w)) (emit_reward_signal se uri state)"
  unfolding emit_reward_signal_def Let_def by (intro keeps_intros keeps_world free_uris)

lemmas keeps_parts = keeps_read keeps_pre_gates keeps_post_gates keeps_stellar_event keeps_reward

lemma keeps_record: "keeps (\<lambda>w. P (sw_fabric w)) (record_star se uri payload delta rel gate1 event)"
  unfolding record_star_def by (intro keeps_intros keeps_parts)

lemma keeps_commit:
  "free uri \<Longrightarrow> keeps (\<lambda>w. P (sw_fabric w)) (commit_star se uri payload delta rel gate1 actor)"
  unfolding commit_star_def by (intro keeps_intros keeps_record keeps_world)

lemma keeps_patch_star:
  assumes "free (resolve_star_uri star)"
  shows "keeps (\<lambda>w. P (sw_fabric w)) (patch_star se star delta actor rel)"
  unfolding patch_star_def Let_def split_def by (intro keeps_intros keeps_parts keeps_commit assms)

lemma keeps_policy_event:
  assumes "free (resolve_star_uri star)"
  shows "keeps (\<lambda>w. P (sw_fabric w)) (apply_policy_event se star policy actor)"
  unfolding apply_policy_event_def Let_def by (intro keeps_intros keeps_parts keeps_commit assms)

lemma keeps_create_star:
  assumes "free (star_uri star_id)"
  shows "keeps (\<lambda>w. P (sw_fabric w)) (create_star se star_id chain_id initial actor)"
  unfolding create_star_def Let_def
  by (intro keeps_intros keeps_parts keeps_world keeps_on_fabric keeps_reads assms)

end

interpretation stars_live: star_invariant live "\<lambda>_. True"
  by unfold_locales simp

interpretation stars_elsewhere: star_invariant "holds (star_prefix @ rest) X" "\<lambda>u. u \<noteq> star_prefix @ rest" for rest X
  by unfold_locales (auto simp: star_prefix_def)

lemma resolve_star_prefix: "\<exists>rest. resolve_star_uri star = star_prefix @ rest"
  by (simp add: resolve_star_uri_def star_uri_def Let_def prefix_def)

section \<open>Committing a transition\<close>

text \<open>The payload came through the guard from the state before, and is merged into the object.\<close>

definition star_committed :: "star_env \<Rightarrow> string \<Rightarrow> json dict \<Rightarrow> pyval dict \<Rightarrow> star_world \<Rightarrow> bool" where
  "star_committed se uri before payload t \<longleftrightarrow>
     (\<exists>current c. stellar_from_mapping (val_row before) = Return current \<and>
        transition_ok (se_guard se) (guard_row (stellar_as_dict current)) (guard_row payload) c) \<and>
     state_at uri (sw_fabric t) = Some (deep_merge before (json_row payload))"

lemma world_patch_state:
  assumes "world_patch se uri payload actor s = (r, t)" "live (sw_fabric s)" "state_at uri (sw_fabric s) = Some before"
  shows "state_at uri (sw_fabric t) = Some (deep_merge before (json_row payload)) \<or>
    (\<exists>e. r = Inl e) \<and> state_at uri (sw_fabric t) = Some before"
  using state_at_patched [OF assms(2,3), where env = "se_env se" and delta = "json_row payload" and actor = actor and
      pv = "sc_policy_version (se_config se)" and node = "sc_node_id (se_config se)"] assms(1)
  by (auto simp: world_patch_def on_fabric_def solis_patch_def split: prod.splits)

lemma commit_star_state:
  assumes uri: "uri = star_prefix @ rest" and before: "holds uri (Some before) (sw_fabric s)"
    and run: "commit_star se uri payload delta rel gate1 actor s = (r, t)"
  shows "live (sw_fabric t) \<and>
    (state_at uri (sw_fabric t) = Some (deep_merge before (json_row payload)) \<and> (\<forall>out. r = Inr out \<longrightarrow> so_uri out = uri \<and> so_state out = payload) \<or>
     (\<exists>e. r = Inl e) \<and> state_at uri (sw_fabric t) = Some before)"
proof -
  have lv: "live (sw_fabric s)" and st: "state_at uri (sw_fabric s) = Some before" using before by (simp_all add: holds_def)
  from run [unfolded commit_star_def] show ?thesis
  proof (cases rule: bindS_cases)
    case (raised e)
    then show ?thesis
      using world_patch_state [OF raised(1) lv st] keeps_result [OF stars_live.keeps_world(1) lv raised(1)] by auto
  next
    case (returned event u)
    have merged: "holds uri (Some (deep_merge before (json_row payload))) (sw_fabric u)"
      using world_patch_state [OF returned(1) lv st] keeps_result [OF stars_live.keeps_world(1) lv returned(1)]
      by (simp add: holds_def)
    have "holds uri (Some (deep_merge before (json_row payload))) (sw_fabric t)"
      using keeps_result [OF stars_elsewhere.keeps_record merged [unfolded uri] returned(2)] uri by simp
    moreover have "so_uri out = uri \<and> so_state out = payload" if "r = Inr out" for out
      using returned(2) that by (auto simp: record_star_def bindS_Return thenS_Return)
    ultimately show ?thesis by (simp add: holds_def)
  qed
qed

lemma guard_transition_ok:
  assumes "guard_transition se current payload = Return d"
  shows "\<exists>c. transition_ok (se_guard se) (guard_row (stellar_as_dict current)) (guard_row payload) c"
  using assms evaluate_transition_spec(1)
  by (auto simp: guard_transition_def split: if_splits elim!: bindR_ReturnE)

lemma read_state_layer_Return:
  "read_state_layer uri s = (Inr x, u) \<Longrightarrow> state_at uri (sw_fabric s) = Some before \<Longrightarrow> x = val_row before"
  by (auto simp: read_state_layer_def on_fabric_def bindS_def qso_read_def readS_def returnS_def eg_read_def rg_read_def
      state_at_def split: prod.splits sum.splits option.splits)

text \<open>How an operation on a star can end, the star having the state \<open>before\<close> at the start.\<close>

definition star_outcome_ok ::
    "star_env \<Rightarrow> string \<Rightarrow> json dict \<Rightarrow> star_outcome result \<Rightarrow> star_world \<Rightarrow> bool" where
  "star_outcome_ok se uri before r t \<longleftrightarrow> live (sw_fabric t) \<and>
     (case r of
        Inr out \<Rightarrow> so_uri out = uri \<and> star_committed se uri before (so_state out) t
      | Inl _ \<Rightarrow> state_at uri (sw_fabric t) = Some before \<or> (\<exists>payload. star_committed se uri before payload t))"

lemma outcome_unchanged: "holds uri (Some before) (sw_fabric t) \<Longrightarrow> star_outcome_ok se uri before (Inl e) t"
  by (simp add: star_outcome_ok_def holds_def)

lemma commit_star_ensures:
  assumes "uri = star_prefix @ rest"
    and "\<exists>current d. stellar_from_mapping (val_row before) = Return current \<and> guard_transition se current payload = Return d"
  shows "ensures (\<lambda>w. holds uri (Some before) (sw_fabric w)) (commit_star se uri payload delta rel gate1 actor)
    (star_outcome_ok se uri before)"
proof (rule ensuresI)
  fix s r t assume start: "holds uri (Some before) (sw_fabric s)" "commit_star se uri payload delta rel gate1 actor s = (r, t)"
  from assms(2) obtain current d where "stellar_from_mapping (val_row before) = Return current"
    and "guard_transition se current payload = Return d" by metis
  with commit_star_state [OF assms(1) start] guard_transition_ok [of se current payload d]
  show "star_outcome_ok se uri before r t"
    by (auto simp: star_outcome_ok_def star_committed_def split: sum.split)
qed

lemma patch_star_ensures:
  assumes "uri = resolve_star_uri star"
  shows "ensures (\<lambda>w. holds uri (Some before) (sw_fabric w)) (patch_star se star delta actor rel) (star_outcome_ok se uri before)"
proof -
  obtain rest where uri: "uri = star_prefix @ rest" using resolve_star_prefix assms by blast
  show ?thesis
    unfolding patch_star_def Let_def assms [symmetric] split_def
    by (intro ensures_bindS ensures_thenS keeps_simple outcome_unchanged commit_star_ensures [OF uri];
        (rule stars_elsewhere.keeps_parts [where rest = rest and X = "Some before", folded uri] | assumption |
          auto dest!: read_state_layer_Return simp: holds_def)?)
qed

lemma policy_event_ensures:
  assumes "uri = resolve_star_uri star"
  shows "ensures (\<lambda>w. holds uri (Some before) (sw_fabric w)) (apply_policy_event se star policy actor) (star_outcome_ok se uri before)"
proof -
  obtain rest where uri: "uri = star_prefix @ rest" using resolve_star_prefix assms by blast
  show ?thesis
    unfolding apply_policy_event_def Let_def assms [symmetric]
    by (intro ensures_bindS ensures_thenS keeps_simple outcome_unchanged commit_star_ensures [OF uri];
        (rule stars_elsewhere.keeps_parts [where rest = rest and X = "Some before", folded uri] | assumption |
          auto dest!: read_state_layer_Return simp: holds_def)?)
qed

section \<open>Properties\<close>

text \<open>
  C10: a star changes only along transitions the policy guard allows.  Whether a projection patch or a
  policy event returns or raises, in a reachable fabric the star's state afterwards is the one before,
  or that state merged with a payload that meets the guard's contract against the star as it was; an
  operation that returns has done the second, with the payload it reports; and the fabric stays reachable,
  so every object can still be rebuilt from its log.
\<close>

theorem star_changes_guarded:
  assumes "live (sw_fabric s)" "state_at (resolve_star_uri star) (sw_fabric s) = Some before"
    and "(r, t) \<in> {patch_star se star delta actor rel s, apply_policy_event se star policy actor s}"
  shows "live (sw_fabric t) \<and>
    (case r of
       Inr out \<Rightarrow> so_uri out = resolve_star_uri star \<and> star_committed se (resolve_star_uri star) before (so_state out) t
     | Inl _ \<Rightarrow> state_at (resolve_star_uri star) (sw_fabric t) = Some before \<or>
         (\<exists>payload. star_committed se (resolve_star_uri star) before payload t))"
proof -
  have "star_outcome_ok se (resolve_star_uri star) before r t"
    using ensuresD [OF patch_star_ensures [OF refl, where star = star and before = before], of s se delta actor rel]
      ensuresD [OF policy_event_ensures [OF refl, where star = star and before = before], of s se policy actor] assms
    by (auto simp: holds_def split: prod.splits)
  then show ?thesis by (simp add: star_outcome_ok_def)
qed

definition sample_world :: star_world where
  "sample_world = \<lparr>sw_fabric = snd (qso_create sample_env ''qso://solis.star.a'' star_schema (new_fabric \<lparr>cr_secret = [1]\<rparr>)),
     sw_anchor = \<lparr>ma_epoch_size = 2, ma_event_hashes = []\<rparr>\<rparr>"

definition sample_star_env :: star_env where
  "sample_star_env = \<lparr>se_env = sample_env, se_config = default_solis_config, se_guard = sample_guard\<rparr>"

lemma sample_world_live: "live (sw_fabric sample_world)"
  unfolding sample_world_def by (simp add: keepsD [of live, OF live_tools(3) live_new])

lemma sample_world_state: "state_at ''qso://solis.star.a'' (sw_fabric sample_world) = Some []"
  by (simp add: state_at_def sample_world_def qso_create_def qso_create_by_def bindS_def next_call_def on_engine_def
      new_fabric_def create_object_def rg_create_def has_key_def fresh_engine_def Let_def)

lemma zero_projection: "as_projection_float zero_float = Return (Fin 0)"
proof -
  have "as_fixed zero_float = Return fx_zero" by code_simp
  moreover have "dec18 fx_zero = 0" by code_simp
  ultimately show ?thesis
    by (simp add: as_projection_float_def fixed_to_float_nonneg [of "Fixed64 0"] fx_zero_def)
qed

definition empty_star :: stellar_state where
  "empty_star = \<lparr>st_star_id = [], st_chain_id = [], st_mass = Fin 0, st_luminosity = Fin 0, st_core_temp = Fin 0,
     st_magnetic_field = Fin 0, st_entropy_index = Fin 0, st_fusion_rate = Fin 0, st_collapse_probability = Fin 0\<rparr>"

lemma empty_star_from: "stellar_from_mapping [] = Return empty_star"
  by (simp add: stellar_from_mapping_def dget_or_def zero_projection empty_star_def Let_def)

lemma empty_star_rejected:
  "evaluate_transition sample_guard (guard_row (stellar_as_dict empty_star))
     (guard_row (stellar_as_dict empty_star @ [(''schema_version'', PStr SCHEMA_VERSION)])) =
   Return (reject [''MASS_NON_POSITIVE''] fx_zero)"
  by code_simp

theorem star_changes_guarded_witness:
  "\<exists>e t. apply_policy_event sample_star_env ''a'' [] ''dev'' sample_world = (Inl e, t) \<and> live (sw_fabric t) \<and>
     state_at ''qso://solis.star.a'' (sw_fabric t) = Some []"
proof -
  have uri: "resolve_star_uri ''a'' = ''qso://solis.star.a''" by code_simp
  have read: "read_state_layer ''qso://solis.star.a'' sample_world = (Return [], sample_world)"
    using sample_world_state
    by (auto simp: read_state_layer_def on_fabric_def bindS_def qso_read_def readS_def returnS_def eg_read_def rg_read_def
        state_at_def val_row_def)
  have "\<exists>e. apply_policy_event sample_star_env ''a'' [] ''dev'' sample_world = (Inl e, sample_world)"
    by (simp add: apply_policy_event_def uri read bindS_def liftS_def empty_star_from apply_policy_def Let_def dget_or_def
        guard_transition_def sample_star_env_def empty_star_rejected)
  then obtain e where run: "apply_policy_event sample_star_env ''a'' [] ''dev'' sample_world = (Inl e, sample_world)" ..
  have "live (sw_fabric sample_world) \<and> (state_at (resolve_star_uri ''a'') (sw_fabric sample_world) = Some [] \<or>
      (\<exists>payload. star_committed sample_star_env (resolve_star_uri ''a'') [] payload sample_world))"
    using star_changes_guarded [OF sample_world_live, where star = "''a''" and before = "[]" and r = "Inl e" and t = sample_world and
        se = sample_star_env and policy = "[]" and actor = "''dev''"] sample_world_state run uri by simp
  with run sample_world_state show ?thesis by blast
qed

text \<open>The tree with the leaf of a stellar event added.\<close>

definition grown_anchor ::
    "qso_event \<Rightarrow> string \<Rightarrow> pyval dict \<Rightarrow> pyval dict \<Rightarrow> relationship_effect option \<Rightarrow> merkle_anchor \<Rightarrow> merkle_anchor" where
  "grown_anchor event object_uri delta projected rel a =
     anchor_append (hash_material (qe_actor event) object_uri delta projected (qe_policy_version event) rel) a"

lemma world_ops_anchor:
  "world_patch se uri payload actor s = (r, t) \<Longrightarrow> sw_anchor t = sw_anchor s"
  "world_ensure se uri schema s = (q, t) \<Longrightarrow> sw_anchor t = sw_anchor s"
  by (auto simp: world_patch_def world_ensure_def on_fabric_def split: prod.splits)

lemma emit_anchor_event_Return:
  assumes "emit_anchor_event se actor s = (Inr (root_hash, epoch), t)"
  shows "sw_anchor t = sw_anchor s \<and> root_hash = anchor_root (sw_anchor s) \<and> epoch = anchor_epoch (sw_anchor s)"
  using assms
  by (auto simp: emit_anchor_event_def Let_def bindS_Return thenS_Return on_fabric_def split: prod.splits
      dest!: world_ops_anchor)

lemma store_stellar_event_Return:
  assumes "live (sw_fabric s)" "store_stellar_event se uri payload s = (Inr e, t)"
  shows "sw_anchor t = sw_anchor s \<and> validate_schema payload stellar_event_schema ''stellar_event'' = Return () \<and>
    (\<exists>before. state_at uri (sw_fabric t) = Some (deep_merge before (json_row payload)))"
proof -
  from assms(2) obtain s1 where ensured: "world_ensure se uri stellar_event_schema s = (Inr (), s1)"
    and valid: "validate_schema payload stellar_event_schema ''stellar_event'' = Return ()"
    and patched: "world_patch se uri payload ''solis.eventlog'' s1 = (Inr e, t)"
    unfolding store_stellar_event_def thenS_Return by auto
  have lv: "live (sw_fabric s1)" using keeps_result [OF stars_live.keeps_world(2) assms(1) ensured] by simp
  obtain f where "qso_patch (se_env se) uri (json_row payload) ''solis.eventlog'' (sc_policy_version (se_config se))
      (sc_node_id (se_config se)) (sw_fabric s1) = (Inr e, f)"
    using patched by (auto simp: world_patch_def on_fabric_def solis_patch_def split: prod.splits)
  from patch_registry [OF _ qso_patch_engine [OF this]] lv
  obtain before where "state_at uri (sw_fabric s1) = Some before" by (auto simp: live_def state_at_def)
  with world_patch_state [OF patched lv] valid world_ops_anchor(1) [OF patched] world_ops_anchor(2) [OF ensured]
  show ?thesis by auto
qed

lemma anchor_stellar_event_Return:
  assumes "anchor_stellar_event se leaf payload s = (Inr out, t)"
  defines "a \<equiv> anchor_append leaf (sw_anchor s)"
  shows "sw_anchor t = a \<and> out = (if int (length (ma_event_hashes a)) mod ma_epoch_size a = 0
      then payload @ [(''merkle_root'', PStr (build_merkle_root (ma_event_hashes a))), (''anchor_epoch'', PInt (anchor_epoch a))]
      else payload)"
proof -
  have due: "should_anchor a \<longleftrightarrow> int (length (ma_event_hashes a)) mod ma_epoch_size a = 0"
    by (simp add: should_anchor_def a_def anchor_append_def)
  show ?thesis
  proof (cases "should_anchor a")
    case True
    then obtain m n where "emit_anchor_event se ''solis.anchor'' (s\<lparr>sw_anchor := a\<rparr>) = (Inr (m, n), t)"
      and out: "out = payload @ [(''merkle_root'', PStr m), (''anchor_epoch'', PInt n)]"
      using assms(1) by (auto simp: anchor_stellar_event_def thenS_Return bindS_Return writeS_def a_def split: prod.splits)
    from emit_anchor_event_Return [OF this(1)] out due True show ?thesis by (simp add: anchor_root_def)
  next
    case False
    with assms(1) due show ?thesis
      by (auto simp: anchor_stellar_event_def thenS_Return bindS_Return writeS_def a_def)
  qed
qed

lemma keeps_anchoring:
  "keeps (\<lambda>w. holds (stellar_event_uri uri event) X (sw_fabric w)) (anchor_stellar_event se leaf payload)"
proof -
  have "''qso://solis.anchor.'' @ py_str n \<noteq> stellar_event_uri uri event" for n by (simp add: stellar_event_uri_def)
  then show ?thesis
    unfolding anchor_stellar_event_def emit_anchor_event_def world_patch_def world_ensure_def split_def Let_def
    by (intro keeps_intros keeps_anchor_write keeps_on_fabric elsewhere.keeps_solis elsewhere.keeps_reads)
qed


lemma ensure_patch_accepted:
  assumes "open_fabric (sw_fabric w)" "\<And>n. strip (fe_uuid (se_env se) n) \<noteq> []"
    and "strip actor \<noteq> []" "strip uri \<noteq> []" "strip (sc_policy_version (se_config se)) \<noteq> []"
  shows "\<exists>v e u. world_ensure se uri schema w = (Inr (), v) \<and> world_patch se uri payload actor v = (Inr e, u) \<and>
    open_fabric (sw_fabric u) \<and> sw_anchor u = sw_anchor w"
proof -
  obtain f x where f: "solis_ensure (se_env se) uri schema (sw_fabric w) = (Inr (), f)" "open_fabric f" "state_at uri f = Some x"
    using ensure_accepted [OF assms(1)] .
  have names: "\<forall>y\<in>{fe_uuid (se_env se) (fr_calls f), actor, uri, sc_policy_version (se_config se)}. strip y \<noteq> []"
    using assms(2-) by simp
  obtain e g where g: "solis_patch (se_env se) (se_config se) uri payload actor f = (Inr e, g)" "open_fabric g"
    using solis_patch_accepted [OF f(2,3) names] .
  have "world_ensure se uri schema w = (Inr (), w\<lparr>sw_fabric := f\<rparr>)"
    "world_patch se uri payload actor (w\<lparr>sw_fabric := f\<rparr>) = (Inr e, w\<lparr>sw_fabric := g\<rparr>)"
    by (simp_all add: world_ensure_def world_patch_def on_fabric_def f(1) g(1))
  with g(2) show ?thesis by force
qed

definition sample_star_event :: qso_event where
  "sample_star_event = \<lparr>qe_schema_version = ''1.0'', qe_event_id = ''e'', qe_timestamp = 0, qe_actor = ''dev'',
     qe_object_uri = ''qso://solis.star.a'', qe_delta = [], qe_signature = ''s'', qe_policy_version = ''v1'', qe_node_id = ''solis''\<rparr>"

lemma sample_open: "open_fabric (sw_fabric sample_world)"
  using sample_world_live
  by (simp add: open_fabric_def sample_world_def qso_create_def qso_create_by_def bindS_def next_call_def on_engine_def
      new_fabric_def create_object_def rg_create_def has_key_def fresh_engine_def Let_def)

lemma valid_text:
  "validate_field n f (PStr s) version_rule = Return ()" "validate_field n f (PStr s) filled_rule = Return ()"
  "validate_field n f (PStr s) (typed_rule ''string'') = Return ()" "validate_field n f (PDict d) (typed_rule ''object'') = Return ()"
  "validate_field n f (PStr s) (jobj [(''type'', JStr ''string''), (''format'', JStr ''date-time'')]) = Return ()"
  by (simp_all add: validate_field_def version_rule_def filled_rule_def typed_rule_def jobj_def jget_def has_type_def is_number_def)

lemma stellar_event_valid:
  "validate_schema (stellar_event_payload se uri event delta projected None) stellar_event_schema n = Return ()"
proof -
  let ?p = "stellar_event_payload se uri event delta projected None"
  have required: "filter (\<lambda>k. \<not> has_key ?p k) (required_fields stellar_event_schema) = []"
  proof -
    have "required_fields stellar_event_schema = [''schema_version'', ''event_id'', ''timestamp'', ''actor'', ''object_uri'', ''delta'',
        ''signature'', ''policy_version'']"
      by (simp add: required_fields_def stellar_event_schema_def dget_or_def jstr_def)
    then show ?thesis by (simp add: stellar_event_payload_def has_key_def)
  qed
  show ?thesis
    unfolding validate_schema_def Let_def required list.case
    by (simp add: stellar_event_schema_def dget_or_def stellar_event_payload_def optional_relationship_def valid_text jget_def jobj_def [of "_ # _ # _ # _ # _"])
qed


end
