(* ===== verification/Constellation_Service.thy ===== *)
theory Constellation_Service
  imports Star_Contract
begin

text \<open>
  \<^verbatim>\<open>solis/services/solis_constellation_service.py\<close>, \<^verbatim>\<open>solis_meta_signal_service.py\<close> and
  \<^verbatim>\<open>solis/gdml/solis_optimizer.py\<close>: groups of stars whose contagion is recomputed, cascades that
  change every star of a group, proposals of the optimizer, and signals computed from a star's history.
\<close>

text \<open>\<open>abs\<close> of a float.\<close>

definition f_abs :: "pyfloat \<Rightarrow> pyfloat" where
  "f_abs x = (case x of Fin q \<Rightarrow> Fin \<bar>q\<bar> | MInf \<Rightarrow> PInf | _ \<Rightarrow> x)"

section \<open>The services\<close>

record constellation_env =
  ce_star :: star_env
  ce_config :: solis_config
  ce_opt_policy_version :: string
  ce_opt_node_id :: string

text \<open>The fabric of the star service with the service's own configuration.\<close>

definition own_env :: "constellation_env \<Rightarrow> star_env" where
  "own_env ce = (ce_star ce)\<lparr>se_config := ce_config ce\<rparr>"

definition new_optimizer_env :: "star_env \<Rightarrow> solis_config \<Rightarrow> constellation_env" where
  "new_optimizer_env se cfg =
     \<lparr>ce_star = se, ce_config = cfg, ce_opt_policy_version = ''v1'', ce_opt_node_id = ''solis''\<rparr>"

definition constellation_prefix :: string where
  "constellation_prefix = ''qso://solis.constellation.''"

definition constellation_uri :: "string \<Rightarrow> string" where
  "constellation_uri domain = constellation_prefix @ domain"

definition resolve_constellation_uri :: "string \<Rightarrow> string" where
  "resolve_constellation_uri domain_or_uri =
     (let value = strip domain_or_uri in if startswith value constellation_prefix then value else constellation_uri value)"

definition normalize_star_uri :: "string \<Rightarrow> string" where
  "normalize_star_uri star_uri_or_id =
     (let value = strip star_uri_or_id in if startswith value star_prefix then value else star_prefix @ value)"

definition constellation_schema :: "json dict" where
  "constellation_schema =
     [(''$schema'', JStr ''https://json-schema.org/draft/2020-12/schema''), (''$id'', JStr ''constellation.schema.json''),
      (''title'', JStr ''Solis Constellation''), (''type'', JStr ''object''),
      (''required'', JArr (map JStr [''schema_version'', ''constellation_id'', ''domain'', ''star_uris'', ''contagion_index'',
        ''cascade_threshold'', ''collapse_count''])),
      (''properties'', jobj
        [(''schema_version'', version_rule), (''constellation_id'', filled_rule), (''domain'', filled_rule),
         (''star_uris'', jobj [(''type'', JStr ''array''),
           (''items'', jobj [(''type'', JStr ''string''), (''pattern'', JStr (''^qso://solis'' @ CHR 0x5C # ''.star'' @ CHR 0x5C # ''.''))]),
           (''minItems'', JInt 1), (''uniqueItems'', JBool True)]),
         (''contagion_index'', jobj [(''type'', JStr ''number''), (''minimum'', JInt 0), (''maximum'', JInt 1)]),
         (''cascade_threshold'', jobj [(''type'', JStr ''number''), (''minimum'', JInt 0), (''maximum'', JInt 1)]),
         (''collapse_count'', jobj [(''type'', JStr ''integer''), (''minimum'', JInt 0)]),
         (''cascade_detected'', typed_rule ''boolean'')]),
      (''additionalProperties'', JBool False)]"

section \<open>Gates\<close>

text \<open>The proof of a collapse probability, when the configuration asks for one.\<close>

definition required_proof :: "solis_config \<Rightarrow> pyfloat \<Rightarrow> pyfloat \<Rightarrow> pyfloat \<Rightarrow> bool result" where
  "required_proof cfg entropy magnetic fusion =
     (if \<not> sc_require_zk_proof cfg then Return True
      else bindR (from_str (format_g18 entropy)) (\<lambda>e. bindR (from_str (format_g18 magnetic)) (\<lambda>m.
           bindR (from_str (format_g18 fusion)) (\<lambda>f. bindR (generate_collapse_proof e m f fx_one) verify_collapse_proof))))"

text \<open>The three gates of a scope, given the first one's verdict and context.\<close>

definition scope_gates ::
    "star_env \<Rightarrow> string \<Rightarrow> string \<Rightarrow> gate_result \<Rightarrow> pyval dict \<Rightarrow> string list \<Rightarrow> bool \<Rightarrow> bool result \<Rightarrow> (star_world, gate_result) op" where
  "scope_gates se scope target_uri gate1 context1 failed formula_equal proof_verified =
     thenS (pass_gate se scope ''precommit'' target_uri gate1 context1 ''gate1'')
     (thenS (pass_gate se scope ''precommit'' target_uri (gate2_invariant_enforcement_lock failed True True (gt_passed gate1))
        [(''phase'', PStr ''gate2''), (''failed_invariants'', PStrs failed)] ''gate2'')
     (bindS (liftS proof_verified) (\<lambda>verified.
      thenS (pass_gate se scope ''precommit'' target_uri (gate3_zk_compatibility_lock formula_equal verified True)
        [(''phase'', PStr ''gate3''), (''require_zk_proof'', PBool (sc_require_zk_proof (se_config se)))] ''gate3'')
      (returnS gate1))))"

definition constellation_pre_gates ::
    "star_env \<Rightarrow> string \<Rightarrow> pyval dict \<Rightarrow> pyval dict \<Rightarrow> pyval dict \<Rightarrow> string list \<Rightarrow> bool \<Rightarrow>
     pyfloat \<Rightarrow> pyfloat \<Rightarrow> pyfloat \<Rightarrow> (star_world, gate_result) op" where
  "constellation_pre_gates se target_uri current projected input_delta failed formula_equal entropy magnetic fusion =
     (if \<not> sc_runtime_gate_enabled (se_config se) then returnS (gate_of ''gate1'' True ''disabled'')
      else scope_gates se ''constellation'' target_uri
        (gate1_deterministic_replay_lock current [[(''delta'', PDict projected), (''input_delta'', PDict input_delta)]]
          admission_reducer (sc_runtime_gate_nodes (se_config se)))
        [(''phase'', PStr ''gate1'')] failed formula_equal (required_proof (se_config se) entropy magnetic fusion))"

definition scope_post_gates :: "star_env \<Rightarrow> string \<Rightarrow> string \<Rightarrow> gate_result \<Rightarrow> bool \<Rightarrow> string \<Rightarrow> (star_world, unit) op" where
  "scope_post_gates se scope target_uri pre_gate1 event_emitted event_id =
     (if \<not> sc_runtime_gate_enabled (se_config se) then returnS ()
      else pass_gate se scope ''postcommit'' target_uri
        (gate2_invariant_enforcement_lock [] event_emitted True (gt_passed pre_gate1))
        [(''phase'', PStr ''gate2''), (''event_id'', PStr event_id)] ''post-commit gate2'')"

definition constellation_post_gates :: "star_env \<Rightarrow> string \<Rightarrow> gate_result \<Rightarrow> string \<Rightarrow> (star_world, unit) op" where
  "constellation_post_gates se target_uri pre_gate1 event_id =
     scope_post_gates se ''constellation'' target_uri pre_gate1 (event_id \<noteq> []) event_id"

text \<open>The gates before a patch of a constellation, the patch, the gate after it.\<close>

definition gated_patch ::
    "star_env \<Rightarrow> string \<Rightarrow> pyval dict \<Rightarrow> pyval dict \<Rightarrow> pyval dict \<Rightarrow> string list \<Rightarrow> bool \<Rightarrow>
     pyfloat \<times> pyfloat \<times> pyfloat \<Rightarrow> string \<Rightarrow> (star_world, qso_event) op" where
  "gated_patch se uri current payload input_delta failed formula_equal emf actor =
     (case emf of (entropy, magnetic, fusion) \<Rightarrow>
        bindS (constellation_pre_gates se uri current payload input_delta failed formula_equal entropy magnetic fusion) (\<lambda>gate1.
        bindS (world_patch se uri payload actor) (\<lambda>event.
        thenS (constellation_post_gates se uri gate1 (qe_event_id event)) (returnS event))))"

section \<open>Creating a constellation\<close>

definition entangle_constellation :: "string list \<Rightarrow> (star_world, unit) op" where
  "entangle_constellation star_uris =
     eachS (\<lambda>source. eachS (\<lambda>target.
         if source = target then returnS ()
         else ignoring_value_errors (bindS (on_fabric (qso_entangle source target ''solis_constellation_propagation''))
           (\<lambda>_. returnS ()))) star_uris) star_uris"

definition create_constellation :: "constellation_env \<Rightarrow> string \<Rightarrow> string list \<Rightarrow> string \<Rightarrow> (star_world, qso_object) op" where
  "create_constellation ce domain star_uris actor =
     (let se = own_env ce; uri = constellation_uri domain; star_list = map normalize_star_uri star_uris;
          payload = [(''schema_version'', PStr SCHEMA_VERSION), (''constellation_id'', PStr domain), (''domain'', PStr domain),
            (''star_uris'', PStrs star_list), (''contagion_index'', PFloat (Fin 0)),
            (''cascade_threshold'', PFloat (sc_cascade_threshold (se_config se))), (''collapse_count'', PInt 0),
            (''cascade_detected'', PBool False)] in
      thenS (requireS (star_list \<noteq> []) (ValueError ''constellation requires at least one star''))
      (thenS (world_ensure se uri constellation_schema)
      (bindS (read_state_layer uri) (\<lambda>current.
       bindS (gated_patch se uri current payload
         [(''create'', PBool True), (''star_count'', PInt (int (length star_list)))] [] True (Fin 0, Fin 1, Fin 1) actor) (\<lambda>_.
       thenS (entangle_constellation star_list)
       (on_fabric (qso_read uri)))))))"

section \<open>Recomputing a constellation\<close>

record constellation_metrics =
  cm_contagion_index :: pyfloat
  cm_collapse_count :: nat
  cm_cascade_detected :: bool
  cm_collapse_mean :: pyfloat
  cm_entropy_mean :: pyfloat
  cm_magnetic_mean :: pyfloat

definition contagion_of :: "pyfloat \<Rightarrow> pyfloat \<Rightarrow> pyfloat \<Rightarrow> pyfloat" where
  "contagion_of collapse_mean entropy_dispersion magnetic_mean =
     clamp_float (f_add (f_add (f_mul collapse_mean (lit (65 / 100))) (f_mul entropy_dispersion (lit (20 / 100))))
       (f_mul (f_sub (Fin 1) magnetic_mean) (lit (15 / 100))))"

definition entropy_dispersion :: "pyfloat list \<Rightarrow> pyfloat \<Rightarrow> pyfloat" where
  "entropy_dispersion values_list mean = f_div_len (f_sum (map (\<lambda>v. f_abs (f_sub v mean)) values_list)) (length values_list)"

definition measure_constellation ::
    "pyfloat \<Rightarrow> pyfloat \<Rightarrow> pyfloat list \<Rightarrow> pyfloat list \<Rightarrow> pyfloat list \<Rightarrow> constellation_metrics" where
  "measure_constellation warning cascade_threshold collapse entropy magnetic =
     (let mean = (\<lambda>xs. f_div_len (f_sum xs) (length xs));
          contagion = contagion_of (mean collapse) (entropy_dispersion entropy (mean entropy)) (mean magnetic);
          collapse_count = length (filter (f_le warning) collapse)
      in \<lparr>cm_contagion_index = contagion, cm_collapse_count = collapse_count,
          cm_cascade_detected = (f_le cascade_threshold contagion \<or> collapse_count > 0),
          cm_collapse_mean = mean collapse, cm_entropy_mean = mean entropy, cm_magnetic_mean = mean magnetic\<rparr>)"

definition in_unit :: "pyfloat \<Rightarrow> bool" where
  "in_unit x = (f_le (Fin 0) x \<and> f_le x (Fin 1))"

definition failed_constellation_invariants :: "pyfloat \<Rightarrow> nat \<Rightarrow> pyfloat \<Rightarrow> string list" where
  "failed_constellation_invariants contagion collapse_count cascade_threshold =
     failure (\<not> in_unit contagion) ''CONTAGION_BOUND_EXCEEDED'' @
     failure (int collapse_count < 0) ''NEGATIVE_COLLAPSE_COUNT'' @
     failure (\<not> in_unit cascade_threshold) ''INVALID_CASCADE_THRESHOLD''"

text \<open>The URIs a constellation holds, and a metric of every star.\<close>

definition constellation_stars :: "pyval dict \<Rightarrow> string list result" where
  "constellation_stars state =
     bindR (to_items (dget_or state ''star_uris'' (PList []))) (\<lambda>vs. Return (map (\<lambda>v. normalize_star_uri (to_str v)) vs))"

definition star_metric :: "string \<Rightarrow> pyval dict list \<Rightarrow> pyfloat list result" where
  "star_metric k states = mapR (\<lambda>s. to_float (dget_or s k zero_float)) states"

record optimizer_output =
  oo_uri :: string
  oo_event_id :: string
  oo_proposals :: "pyval dict"

definition optimizer_proposals :: "pyfloat \<Rightarrow> pyfloat \<Rightarrow> pyfloat \<Rightarrow> pyval dict" where
  "optimizer_proposals contagion collapse entropy =
     [(''emission_rate_delta'', PFloat (if f_less (lit (6 / 10)) contagion then f_neg (lit (2 / 100)) else lit (1 / 100))),
      (''validator_weight_rebalance'', PFloat (if f_less (lit (1 / 2)) collapse then lit (15 / 100) else lit (5 / 100))),
      (''governance_damping_coefficient'',
        PFloat (f_min (f_max (f_mul entropy (lit (4 / 10))) (lit (5 / 100))) (lit (85 / 100))))]"

definition propose :: "constellation_env \<Rightarrow> string \<Rightarrow> pyval dict \<Rightarrow> string \<Rightarrow> (star_world, optimizer_output) op" where
  "propose ce uri metrics actor =
     (let proposal_uri = ''qso://solis.optimizer.'' @ last_segment (CHR ''.'') uri;
          get = (\<lambda>k. liftS (to_float (dget_or metrics k zero_float))) in
      thenS (world_ensure (own_env ce) proposal_uri
        [(''type'', JStr ''solis_optimizer_proposal''), (''constellation_uri'', JStr uri)])
      (bindS (get ''contagion_index'') (\<lambda>contagion. bindS (get ''collapse_mean'') (\<lambda>collapse. bindS (get ''entropy_mean'') (\<lambda>entropy.
       let proposals = optimizer_proposals contagion collapse entropy in
       bindS (on_fabric (qso_patch (se_env (ce_star ce)) proposal_uri
           (json_row [(''constellation_uri'', PStr uri), (''metrics'', PDict metrics), (''proposals'', PDict proposals)])
           actor (ce_opt_policy_version ce) (ce_opt_node_id ce))) (\<lambda>event.
       returnS \<lparr>oo_uri = proposal_uri, oo_event_id = qe_event_id event, oo_proposals = proposals\<rparr>))))))"

text \<open>Every star of a list takes a relationship; the first that refuses ends the walk.\<close>

definition propagate_cascade :: "constellation_env \<Rightarrow> string list \<Rightarrow> pyfloat \<Rightarrow> string \<Rightarrow> (star_world, unit) op" where
  "propagate_cascade ce star_uris magnitude actor =
     eachS (\<lambda>uri. bindS (apply_relationship (ce_star ce) uri ''governance_vote_spike''
         (PFloat (f_max magnitude (lit (5 / 100)))) False actor) (\<lambda>_. returnS ())) star_uris"

record recompute_outcome =
  rc_uri :: string
  rc_event_id :: string
  rc_metrics :: constellation_metrics
  rc_optimizer :: optimizer_output

definition metrics_patch :: "constellation_metrics \<Rightarrow> pyval dict" where
  "metrics_patch m =
     [(''contagion_index'', PFloat (cm_contagion_index m)), (''collapse_count'', PInt (int (cm_collapse_count m))),
      (''cascade_detected'', PBool (cm_cascade_detected m)), (''collapse_mean'', PFloat (cm_collapse_mean m)),
      (''entropy_mean'', PFloat (cm_entropy_mean m)), (''magnetic_mean'', PFloat (cm_magnetic_mean m))]"

text \<open>What \<open>recompute_constellation\<close> reads before it changes anything.\<close>

definition read_stars :: "string list \<Rightarrow> (star_world, pyval dict list) op" where
  "read_stars star_uris = mapS (\<lambda>u. bindS (get_star u) (\<lambda>obj. returnS (val_row (ob_state_layer obj)))) star_uris"

definition measured_group ::
    "constellation_env \<Rightarrow> pyval dict \<Rightarrow> pyval dict list \<Rightarrow> (constellation_metrics \<times> pyfloat) result" where
  "measured_group ce state star_states =
     (let cfg = ce_config ce in
      bindR (star_metric ''collapse_probability'' star_states) (\<lambda>collapse.
      bindR (star_metric ''entropy_index'' star_states) (\<lambda>entropy.
      bindR (star_metric ''magnetic_field'' star_states) (\<lambda>magnetic.
      bindR (to_float (dget_or state ''cascade_threshold'' (PFloat (sc_cascade_threshold cfg)))) (\<lambda>threshold.
        Return (measure_constellation (sc_collapse_warning_threshold cfg) threshold collapse entropy magnetic, threshold))))))"

definition recompute_constellation :: "constellation_env \<Rightarrow> string \<Rightarrow> string \<Rightarrow> (star_world, recompute_outcome) op" where
  "recompute_constellation ce domain_or_uri actor =
     (let se = own_env ce; uri = resolve_constellation_uri domain_or_uri in
      bindS (read_state_layer uri) (\<lambda>state.
      bindS (liftS (constellation_stars state)) (\<lambda>star_uris.
      thenS (requireS (star_uris \<noteq> []) (ValueError (''constellation has no stars: '' @ uri)))
      (bindS (read_stars star_uris) (\<lambda>star_states.
       bindS (liftS (measured_group ce state star_states)) (\<lambda>(m, threshold).
       bindS (gated_patch se uri state (metrics_patch m)
         [(''recompute'', PBool True), (''star_count'', PInt (int (length star_uris)))]
         (failed_constellation_invariants (cm_contagion_index m) (cm_collapse_count m) threshold)
         (f_le (f_abs (f_sub (cm_contagion_index m) (cm_contagion_index m))) (lit (1 / 10 ^ 12)))
         (cm_entropy_mean m, cm_magnetic_mean m, f_max (Fin 0) (f_sub (Fin 1) (cm_collapse_mean m))) actor) (\<lambda>event.
       thenS (if cm_cascade_detected m then propagate_cascade ce star_uris (cm_contagion_index m) ''solis.cascade'' else returnS ())
       (bindS (propose ce uri [(''contagion_index'', PFloat (cm_contagion_index m)), (''collapse_mean'', PFloat (cm_collapse_mean m)),
           (''entropy_mean'', PFloat (cm_entropy_mean m))] ''solis.optimizer'') (\<lambda>out.
        returnS \<lparr>rc_uri = uri, rc_event_id = qe_event_id event, rc_metrics = m, rc_optimizer = out\<rparr>)))))))))"

section \<open>Propagation from a star\<close>

definition propagation_summary :: "string \<Rightarrow> string \<Rightarrow> pyfloat \<Rightarrow> string list \<Rightarrow> pyval dict" where
  "propagation_summary source_uri event_type magnitude impacted =
     [(''source_star_uri'', PStr source_uri), (''event_type'', PStr event_type), (''magnitude'', PFloat magnitude),
      (''impacted_stars'', PStrs impacted)]"

definition propagate_from_star ::
    "constellation_env \<Rightarrow> string \<Rightarrow> string \<Rightarrow> string \<Rightarrow> pyfloat \<Rightarrow> string \<Rightarrow> (star_world, pyval dict) op" where
  "propagate_from_star ce domain_or_uri source_star_uri event_type magnitude actor =
     (let uri = resolve_constellation_uri domain_or_uri in
      bindS (read_state_layer uri) (\<lambda>state.
      bindS (liftS (constellation_stars state)) (\<lambda>star_uris.
      let source_uri = normalize_star_uri source_star_uri;
          impacted = filter (\<lambda>u. u \<noteq> source_uri) star_uris;
          summary = propagation_summary source_uri event_type magnitude impacted in
      thenS (eachS (\<lambda>u. bindS (apply_relationship (ce_star ce) u event_type (PFloat magnitude) False actor) (\<lambda>_. returnS ())) impacted)
      (bindS (gated_patch (own_env ce) uri state [(''last_propagation'', PDict summary)]
         [(''propagate'', PBool True), (''event_type'', PStr event_type)]
         (failure (f_less magnitude (Fin 0)) ''NEGATIVE_PROPAGATION_MAGNITUDE'') True (Fin 0, Fin 1, Fin 1) actor) (\<lambda>_.
       returnS summary)))))"

definition constellation_timeline :: "string \<Rightarrow> bool \<Rightarrow> (star_world, qso_event list) op" where
  "constellation_timeline domain_or_uri strict = on_fabric (qso_timeline (resolve_constellation_uri domain_or_uri) strict)"

section \<open>Signals of a star\<close>

definition extract_states :: "qso_event list \<Rightarrow> pyval dict list" where
  "extract_states events =
     map (\<lambda>e. val_row (qe_delta e)) (filter (\<lambda>e. has_key (qe_delta e) ''mass'' \<and> has_key (qe_delta e) ''entropy_index'') events)"

definition signal_reducer :: "pyval dict \<Rightarrow> pyval dict \<Rightarrow> pyval dict" where
  "signal_reducer state event =
     (case dget_or event ''delta'' (PDict []) of
        PDict delta \<Rightarrow>
          (let metric = to_str (dget_or delta ''metric'' (PStr [])) in
           if metric \<noteq> [] then dset (''signal:'' @ metric) (dget_or delta ''value'' zero_float) state else state)
      | _ \<Rightarrow> state)"

record star_signals =
  sg_values :: "pyfloat dict"
  sg_formula_equal :: bool
  sg_physics :: "pyfloat \<times> pyfloat \<times> pyfloat"

definition signals_of :: "pyval dict list \<Rightarrow> star_signals result" where
  "signals_of samples =
     (let start = hd samples; final = last samples; steps = max (length samples - 1) 1;
          get = (\<lambda>s k. to_float (dget_or s k zero_float));
          slope = (\<lambda>a b. f_div_len (f_sub a b) steps) in
      bindR (get final ''entropy_index'') (\<lambda>e1. bindR (get start ''entropy_index'') (\<lambda>e0.
      bindR (get start ''fusion_rate'') (\<lambda>f0. bindR (get final ''fusion_rate'') (\<lambda>f1.
      bindR (star_metric ''magnetic_field'' samples) (\<lambda>magnetic. bindR (get final ''magnetic_field'') (\<lambda>m1.
      bindR (get final ''collapse_probability'') (\<lambda>c1. bindR (get start ''collapse_probability'') (\<lambda>c0.
      bindR (compute_reward final) (\<lambda>reward.
      let computed = clamp_float (f_mul (f_mul e1 (f_sub (Fin 1) m1)) f1) in
      Return \<lparr>sg_values = [(''entropy_growth_rate'', slope e1 e0), (''fusion_decay'', slope f0 f1),
            (''magnetic_centralization'', f_abs (f_sub m1 (f_div_len (f_sum magnetic) (length magnetic)))),
            (''collapse_drift_velocity'', slope c1 c0), (''reward'', reward)],
          sg_formula_equal = f_le (f_abs (f_sub computed c1)) (lit (1 / 10)),
          sg_physics = (e1, m1, f1)\<rparr>))))))))))"

definition is_finite :: "pyfloat \<Rightarrow> bool" where
  "is_finite x = (case x of Fin _ \<Rightarrow> True | _ \<Rightarrow> False)"

definition signal_payload :: "string \<Rightarrow> string \<Rightarrow> pyfloat \<Rightarrow> nat \<Rightarrow> pyval dict" where
  "signal_payload uri metric value window =
     [(''star_uri'', PStr uri), (''metric'', PStr metric), (''value'', PFloat value), (''window'', PInt (int window))]"

definition signal_update :: "string \<Rightarrow> nat \<Rightarrow> string \<times> pyfloat \<Rightarrow> pyval dict" where
  "signal_update uri window kv =
     [(''metric'', PStr (fst kv)), (''star_uri'', PStr uri), (''value'', PFloat (snd kv)), (''window'', PInt (int window))]"

definition signal_pre_gates :: "star_env \<Rightarrow> string \<Rightarrow> pyval dict \<Rightarrow> nat \<Rightarrow> star_signals \<Rightarrow> (star_world, gate_result) op" where
  "signal_pre_gates se uri current window sg =
     (if \<not> sc_runtime_gate_enabled (se_config se) then returnS (gate_of ''gate1'' True ''disabled'')
      else
        (let updates = map (signal_update uri window) (sort_key fst (sg_values sg));
             failed = map (\<lambda>kv. ''NON_FINITE_SIGNAL_'' @ upper (fst kv)) (filter (\<lambda>kv. \<not> is_finite (snd kv)) (sg_values sg)) in
         case sg_physics sg of (entropy, magnetic, fusion) \<Rightarrow>
           scope_gates se ''signal'' uri
             (gate1_deterministic_replay_lock current (map (\<lambda>u. [(''delta'', PDict u)]) updates) signal_reducer
               (sc_runtime_gate_nodes (se_config se)))
             [(''phase'', PStr ''gate1''), (''signal_count'', PInt (int (length updates)))] failed (sg_formula_equal sg)
             (required_proof (se_config se) entropy magnetic fusion)))"

definition emit_signal :: "star_env \<Rightarrow> string \<Rightarrow> nat \<Rightarrow> string \<Rightarrow> string \<times> pyfloat \<Rightarrow> (star_world, string) op" where
  "emit_signal se uri window actor kv =
     (let signal_uri = ''qso://solis.signal.'' @ fst kv @ ''.'' @ last_segment (CHR ''.'') uri in
      thenS (world_ensure se signal_uri [(''type'', JStr ''solis_signal''), (''metric'', JStr (fst kv))])
      (bindS (world_patch se signal_uri (signal_payload uri (fst kv) (snd kv) window) actor) (\<lambda>event.
       returnS (qe_event_id event))))"

definition signal_samples :: "int \<Rightarrow> pyval dict list \<Rightarrow> pyval dict list" where
  "signal_samples signal_window states =
     (let window = nat (max 1 signal_window) in drop (length states - window) states)"

definition emit_signals :: "star_env \<Rightarrow> string \<Rightarrow> string \<Rightarrow> (star_world, pyfloat dict) op" where
  "emit_signals se star_uri_or_id actor =
     (let uri = resolve_star_uri star_uri_or_id in
      bindS (star_timeline uri True) (\<lambda>events.
      bindS (if extract_states events \<noteq> [] then returnS (extract_states events)
             else bindS (get_star uri) (\<lambda>obj. returnS [val_row (ob_state_layer obj)])) (\<lambda>states.
      let samples = signal_samples (sc_signal_window (se_config se)) states in
      bindS (liftS (signals_of samples)) (\<lambda>sg.
      bindS (signal_pre_gates se uri (last samples) (length samples) sg) (\<lambda>gate1.
      bindS (mapS (emit_signal se uri (length samples) actor) (sg_values sg)) (\<lambda>ids.
      thenS (scope_post_gates se ''signal'' uri gate1 (ids \<noteq> []) (case filter (\<lambda>i. i \<noteq> []) ids of [] \<Rightarrow> [] | i # _ \<Rightarrow> i))
      (returnS (sg_values sg))))))))"

end
