(* ===== verification/Constellation_Contract.thy ===== *)
theory Constellation_Contract
  imports Constellation_Service
begin

text \<open>
  What the constellation and signal services promise: whatever they do to a group of stars, each star
  moves along transitions the policy guard allows; a new group is linked pair by pair without a cycle;
  and the recomputed contagion is a probability.
\<close>

section \<open>Invariants of a family of stars\<close>

text \<open>An invariant kept by changes of any star through the star service, and free on groups and proposals.\<close>

locale star_family = star_invariant +
  fixes se :: star_env
  assumes keeps_star: "keeps (\<lambda>w. P (sw_fabric w)) (patch_star se star delta actor rel)"
    and free_groups: "p \<in> {''qso://solis.constellation.'', ''qso://solis.optimizer.''} \<Longrightarrow> free (p @ rest)"

context star_family
begin

lemma free_group_uris: "free (constellation_prefix @ rest)" "free (''qso://solis.optimizer.'' @ rest)"
  unfolding constellation_prefix_def by (rule free_groups, simp)+

lemma keeps_relationship: "keeps (\<lambda>w. P (sw_fabric w)) (apply_relationship se star ty magnitude flip actor)"
  unfolding apply_relationship_def by (rule keeps_star)

lemma keeps_scope_gates: "keeps (\<lambda>w. P (sw_fabric w)) (scope_gates se' scope uri g ctx failed fe pv)"
  unfolding scope_gates_def by (intro keeps_intros keeps_gate)

lemma keeps_scope_post: "keeps (\<lambda>w. P (sw_fabric w)) (scope_post_gates se' scope uri g emitted eid)"
  unfolding scope_post_gates_def by (intro keeps_intros keeps_gate)

lemma keeps_gated_patch:
  "free uri \<Longrightarrow> keeps (\<lambda>w. P (sw_fabric w)) (gated_patch se' uri current payload input failed fe emf actor)"
  unfolding gated_patch_def constellation_pre_gates_def constellation_post_gates_def split_def
  by (intro keeps_intros keeps_scope_gates keeps_scope_post keeps_world)

lemma resolve_constellation_free: "free (resolve_constellation_uri d)"
proof -
  obtain rest where "resolve_constellation_uri d = constellation_prefix @ rest"
    unfolding resolve_constellation_uri_def constellation_uri_def Let_def
    by (metis (full_types) append.simps(1) prefixE)
  then show ?thesis by (simp add: free_group_uris)
qed

lemma keeps_entangling: "keeps (\<lambda>w. P (sw_fabric w)) (entangle_constellation uris)"
  unfolding entangle_constellation_def by (intro keeps_intros keeps_on_fabric keeps_entangle)

lemma keeps_create_constellation: "keeps (\<lambda>w. P (sw_fabric w)) (create_constellation ce domain uris actor)"
  unfolding create_constellation_def constellation_uri_def Let_def
  by (intro keeps_intros keeps_world keeps_read keeps_gated_patch keeps_entangling keeps_on_fabric keeps_reads free_group_uris)

lemma keeps_get_star: "keeps (\<lambda>w. P (sw_fabric w)) (get_star u)" "keeps (\<lambda>w. P (sw_fabric w)) (star_timeline u strict)"
  unfolding get_star_def star_timeline_def by (intro keeps_on_fabric keeps_reads keeps_timeline)+

lemma keeps_propose: "keeps (\<lambda>w. P (sw_fabric w)) (propose ce uri metrics actor)"
  unfolding propose_def Let_def by (intro keeps_intros keeps_world keeps_on_fabric keeps_patch free_group_uris)

lemma keeps_recompute:
  assumes "ce_star ce = se"
  shows "keeps (\<lambda>w. P (sw_fabric w)) (recompute_constellation ce domain actor)"
  unfolding recompute_constellation_def read_stars_def propagate_cascade_def assms Let_def split_def
  by (intro keeps_intros keeps_read keeps_get_star keeps_gated_patch keeps_relationship keeps_propose resolve_constellation_free)

lemma keeps_propagate:
  assumes "ce_star ce = se"
  shows "keeps (\<lambda>w. P (sw_fabric w)) (propagate_from_star ce domain source ty magnitude actor)"
  unfolding propagate_from_star_def assms Let_def
  by (intro keeps_intros keeps_read keeps_gated_patch keeps_relationship resolve_constellation_free)

lemma free_signal: "free (''qso://solis.signal.'' @ rest)"
  by (rule free_records) simp

lemma keeps_emit_signals: "keeps (\<lambda>w. P (sw_fabric w)) (emit_signals se' star actor)"
  unfolding emit_signals_def emit_signal_def signal_pre_gates_def Let_def split_def
  by (intro keeps_intros keeps_get_star keeps_scope_gates keeps_scope_post keeps_world free_signal)

end

interpretation family_live: star_family live "\<lambda>_. True" se for se
  by unfold_locales (auto intro: stars_live.keeps_patch_star)

section \<open>Stars move along guarded transitions\<close>

definition guarded_step :: "star_env \<Rightarrow> json dict \<Rightarrow> json dict \<Rightarrow> bool" where
  "guarded_step se a b \<longleftrightarrow> (\<exists>current c payload. stellar_from_mapping (val_row a) = Return current \<and>
     transition_ok (se_guard se) (guard_row (stellar_as_dict current)) (guard_row payload) c \<and>
     b = deep_merge a (json_row payload))"

definition on_path :: "star_env \<Rightarrow> string \<Rightarrow> json dict \<Rightarrow> fabric \<Rightarrow> bool" where
  "on_path se uri before s \<longleftrightarrow> live s \<and> (\<exists>x. state_at uri s = Some x \<and> (guarded_step se)\<^sup>*\<^sup>* before x)"

lemma keeps_on_path:
  assumes "\<And>X. keeps (holds uri X) m"
  shows "keeps (on_path se uri before) m"
  unfolding keeps_def
proof (intro allI impI)
  fix s assume "on_path se uri before s"
  then obtain x where x: "holds uri (Some x) s" "(guarded_step se)\<^sup>*\<^sup>* before x" by (auto simp: on_path_def holds_def)
  with keepsD [OF assms x(1)] show "on_path se uri before (snd (m s))" by (auto simp: on_path_def holds_def)
qed

lemma committed_step: "star_committed se uri a payload t \<Longrightarrow> \<exists>b. state_at uri (sw_fabric t) = Some b \<and> guarded_step se a b"
  by (auto simp: star_committed_def guarded_step_def)

lemma outcome_on_path:
  assumes "star_outcome_ok se uri x r t" "(guarded_step se)\<^sup>*\<^sup>* before x"
  shows "on_path se uri before (sw_fabric t)"
  using assms
  by (auto simp: star_outcome_ok_def on_path_def split: sum.splits dest!: committed_step intro: rtranclp.rtrancl_into_rtrancl)

lemma keeps_path_of_star:
  assumes "ensures (\<lambda>w. holds uri (Some x) (sw_fabric w)) m (star_outcome_ok se uri x)" "(guarded_step se)\<^sup>*\<^sup>* before x"
    and "holds uri (Some x) (sw_fabric w)"
  shows "on_path se uri before (sw_fabric (snd (m w)))"
  using ensuresD [OF assms(1,3)] outcome_on_path [OF _ assms(2)] by (auto split: prod.splits)

interpretation path: star_family "on_path se (star_prefix @ rest) before" "\<lambda>u. u \<noteq> star_prefix @ rest" se
  for se rest before
proof unfold_locales
  let ?uri = "star_prefix @ rest"
  show "keeps (on_path se ?uri before) (qso_create env u schema)" if "u \<noteq> ?uri" for env u schema
    by (rule keeps_on_path, rule elsewhere.keeps_create, rule that)
  show "keeps (on_path se ?uri before) (qso_patch env u delta actor pv node)" if "u \<noteq> ?uri" for env u delta actor pv node
    by (rule keeps_on_path, rule elsewhere.keeps_patch, rule that)
  show "keeps (on_path se ?uri before) (qso_timeline u strict)" for u strict
    by (rule keeps_on_path, rule elsewhere.keeps_timeline)
  show "keeps (on_path se ?uri before) (qso_entangle a b r)" for a b r
    by (rule keeps_on_path, rule elsewhere.keeps_entangle)
  show "keeps (\<lambda>w. on_path se ?uri before (sw_fabric w)) (patch_star se star delta actor rel)" for star delta actor rel
  proof (cases "resolve_star_uri star = ?uri")
    case True
    show ?thesis unfolding keeps_def
    proof (intro allI impI)
      fix w :: star_world assume "on_path se ?uri before (sw_fabric w)"
      then obtain x where "holds ?uri (Some x) (sw_fabric w)" "(guarded_step se)\<^sup>*\<^sup>* before x" by (auto simp: on_path_def holds_def)
      then show "on_path se ?uri before (sw_fabric (snd (patch_star se star delta actor rel w)))"
        using keeps_path_of_star [OF patch_star_ensures] True by metis
    qed
  next
    case False
    have "keeps (\<lambda>w. holds ?uri X (sw_fabric w)) (patch_star se star delta actor rel)" for X
      by (rule stars_elsewhere.keeps_patch_star) (rule False)
    then show ?thesis unfolding keeps_def on_path_def holds_def by metis
  qed
qed (auto simp: star_prefix_def)

lemma policy_event_on_path:
  "keeps (\<lambda>w. on_path se (star_prefix @ rest) before (sw_fabric w)) (apply_policy_event se star policy actor)"
proof (cases "resolve_star_uri star = star_prefix @ rest")
  case True
  show ?thesis unfolding keeps_def
  proof (intro allI impI)
    fix w :: star_world assume "on_path se (star_prefix @ rest) before (sw_fabric w)"
    then obtain x where "holds (star_prefix @ rest) (Some x) (sw_fabric w)" "(guarded_step se)\<^sup>*\<^sup>* before x"
      by (auto simp: on_path_def holds_def)
    then show "on_path se (star_prefix @ rest) before (sw_fabric (snd (apply_policy_event se star policy actor w)))"
      using keeps_path_of_star [OF policy_event_ensures] True by metis
  qed
next
  case False
  then show ?thesis by (rule path.keeps_policy_event)
qed

section \<open>Links of a constellation\<close>

abbreviation edges_of :: "star_world \<Rightarrow> (string \<times> string) set" where
  "edges_of w \<equiv> link_edges (gr_links (fr_graph (sw_fabric w)))"

definition linked :: "star_world \<Rightarrow> string \<Rightarrow> string \<Rightarrow> bool" where
  "linked w a b \<longleftrightarrow> a = b \<or> (a, b) \<in> (edges_of w)\<^sup>+ \<or> (b, a) \<in> (edges_of w)\<^sup>+"

lemma linked_mono: "edges_of s \<subseteq> edges_of t \<Longrightarrow> linked s a b \<Longrightarrow> linked t a b"
  unfolding linked_def by (meson trancl_mono)

text \<open>One attempt: the link is new, or there was a path the other way.\<close>

lemma entangle_attempt:
  assumes "acyclic (edges_of s)" "a \<noteq> b"
  shows "\<exists>t. ignoring_value_errors (bindS (on_fabric (qso_entangle a b r)) (\<lambda>_. returnS ())) s = (Inr (), t) \<and>
    acyclic (edges_of t) \<and> edges_of s \<subseteq> edges_of t \<and> linked t a b"
proof (cases "(b, a) \<in> (edges_of s)\<^sup>*")
  case True
  with assms(2) have "(b, a) \<in> (edges_of s)\<^sup>+" by (auto dest: rtranclD)
  with True assms(1) show ?thesis
    by (auto simp: ignoring_value_errors_def bindS_def on_fabric_def qso_entangle_def qso_entangle_link_def default_link_def
        entangle_def path_exists_iff linked_def)
next
  case False
  with assms show ?thesis
    by (auto simp: ignoring_value_errors_def bindS_def on_fabric_def qso_entangle_def qso_entangle_link_def default_link_def
        entangle_def path_exists_iff linked_def link_edges_add acyclic_insert returnS_def)
qed

section \<open>Properties\<close>


definition sample_group :: constellation_env where
  "sample_group = new_optimizer_env sample_star_env default_solis_config"


text \<open>
  Linking the stars of a constellation always returns, keeps the graph free of cycles and every
  link it had, and leaves any two of the stars connected in one direction, though it tries both:
  the attempt against the direction of a path is refused and passed over.
\<close>

theorem constellation_linked:
  assumes "acyclic (edges_of s)"
  shows "\<exists>t. entangle_constellation uris s = (Return (), t) \<and> acyclic (edges_of t) \<and> edges_of s \<subseteq> edges_of t \<and>
    (\<forall>a\<in>set uris. \<forall>b\<in>set uris. linked t a b \<and> \<not> ((a, b) \<in> (edges_of t)\<^sup>+ \<and> (b, a) \<in> (edges_of t)\<^sup>+))"
proof -
  let ?one = "\<lambda>a b. if a = b then returnS () else ignoring_value_errors
      (bindS (on_fabric (qso_entangle a b ''solis_constellation_propagation'')) (\<lambda>_. returnS ()))"
  have one: "\<exists>t. ?one a b s = (Inr (), t) \<and> acyclic (edges_of t) \<and> edges_of s \<subseteq> edges_of t \<and> linked t a b"
    if "acyclic (edges_of s)" for a b s
    using entangle_attempt [OF that] that by (cases "a = b") (auto simp: linked_def)
  have row: "\<exists>t. eachS (?one a) uris s = (Inr (), t) \<and> acyclic (edges_of t) \<and> edges_of s \<subseteq> edges_of t \<and>
      (\<forall>b\<in>set uris. linked t a b)" if "acyclic (edges_of s)" for a s
    by (rule eachS_establishes [where P = "\<lambda>w. acyclic (edges_of w)" and R = "\<lambda>u v. edges_of u \<subseteq> edges_of v"])
      (use one linked_mono that in auto)
  have "\<exists>t. eachS (\<lambda>a. eachS (?one a) uris) uris s = (Inr (), t) \<and> acyclic (edges_of t) \<and> edges_of s \<subseteq> edges_of t \<and>
      (\<forall>a\<in>set uris. \<forall>b\<in>set uris. linked t a b)"
    by (rule eachS_establishes [where P = "\<lambda>w. acyclic (edges_of w)" and R = "\<lambda>u v. edges_of u \<subseteq> edges_of v"])
      (use row linked_mono assms in auto)
  then show ?thesis unfolding entangle_constellation_def acyclic_def by (meson trancl_trans)
qed

theorem constellation_linked_witness:
  "\<exists>t. entangle_constellation [''a'', ''b''] sample_world = (Return (), t) \<and> linked t ''a'' ''b''"
proof -
  have "edges_of sample_world = {}"
    by (simp add: sample_world_def qso_create_def qso_create_by_def bindS_def next_call_def on_engine_def new_fabric_def
        link_edges_def targets_def dget_or_def split: prod.splits)
  then have "acyclic (edges_of sample_world)" by (simp add: acyclic_def)
  from constellation_linked [OF this, of "[''a'', ''b'']"] show ?thesis by auto
qed

end
