(* ===== verification/Prefix_Stream.thy ===== *)
theory Prefix_Stream
  imports Qso_Tools
begin

text \<open>
  \<^verbatim>\<open>QSOMCPTools.qso_subscribe_prefix\<close>: the merged replay of every object below a prefix, the token each
  payload carries and the merge of the live payloads, with the proof that a stream taken up again with
  the token of a payload goes on with exactly the payloads that followed it.
\<close>

section \<open>Rows\<close>

text \<open>A row: its place in the merged order, timestamp, event id, node, object and index, and its event.\<close>

type_synonym prefix_row = "((string \<times> string \<times> string) \<times> string \<times> nat) \<times> qso_event"

abbreviation row_uri :: "prefix_row \<Rightarrow> string" where
  "row_uri r \<equiv> fst (snd (fst r))"

abbreviation row_index :: "prefix_row \<Rightarrow> nat" where
  "row_index r \<equiv> snd (snd (fst r))"

definition uri_rows :: "int dict \<Rightarrow> string \<Rightarrow> qso_event list \<Rightarrow> prefix_row list result" where
  "uri_rows next_by_uri uri events =
     (let start = dget_or next_by_uri uri 0 in
      if start > int (length events) then Raise (ValueError (''cursor out of range for uri '' @ uri))
      else Return (map (\<lambda>(i, e). ((replay_key e, uri, i), e)) (enumerate (nat start) (drop (nat start) events))))"

fun prefix_payloads :: "fabric_env \<Rightarrow> string \<Rightarrow> int dict \<Rightarrow> prefix_row list \<Rightarrow> json dict list result" where
  "prefix_payloads env uri_prefix next_by_uri [] = Return []"
| "prefix_payloads env uri_prefix next_by_uri (((key, uri, i), e) # rows) =
     (let next_by_uri' = dset uri (int i + 1) next_by_uri in
      bindR (event_payload uri (event_json env e) (qe_delta e) (int i) ''replay'') (\<lambda>payload.
      bindR (prefix_cursor_token uri_prefix next_by_uri') (\<lambda>token.
      bindR (prefix_payloads env uri_prefix next_by_uri' rows) (\<lambda>payloads.
        Return (dset ''subscription'' (JObj [(''kind'', JStr ''prefix''), (''uri_prefix'', JStr uri_prefix)])
          (dset ''cursor_token'' (JStr token)
            (dset ''uri_cursor_token'' (dget_or payload ''cursor_token'' JNull) payload)) # payloads)))))"

section \<open>The subscription\<close>

definition prefix_uris :: "string \<Rightarrow> fabric \<Rightarrow> string list" where
  "prefix_uris uri_prefix s = filter (\<lambda>uri. startswith uri uri_prefix) (rg_list_uris (eg_registry (fr_engine s)))"

definition qso_subscribe_prefix ::
    "fabric_env \<Rightarrow> string \<Rightarrow> string option \<Rightarrow> bool \<Rightarrow> (fabric, json dict list) op" where
  "qso_subscribe_prefix env uri_prefix cursor strict =
     bindS (readS (\<lambda>s. Return (prefix_uris uri_prefix s))) (\<lambda>uris.
     bindS (liftS (resolve_prefix_cursor uri_prefix cursor uris)) (\<lambda>next_by_uri.
     bindS (mapS (\<lambda>uri. bindS (qso_timeline uri strict) (\<lambda>events. liftS (uri_rows next_by_uri uri events))) uris) (\<lambda>rows.
     liftS (prefix_payloads env uri_prefix next_by_uri (sort_key fst (concat rows))))))"

text \<open>A payload of the live streams, with the positions moved on.\<close>

definition merge_live ::
    "string \<Rightarrow> int dict \<Rightarrow> json dict \<Rightarrow> (json dict \<times> int dict) result" where
  "merge_live uri_prefix next_by_uri payload =
     (let event_uri = jstr (dget_or payload ''uri'' (JStr []));
          next_by_uri' = (case int_field payload ''event_index'' of
              Some i \<Rightarrow> if event_uri \<noteq> [] \<and> 0 \<le> i
                then dset event_uri (max (dget_or next_by_uri event_uri 0) (i + 1)) next_by_uri else next_by_uri
            | None \<Rightarrow> next_by_uri);
          merged = (case dget payload ''cursor_token'' of
              Some t \<Rightarrow> dset ''uri_cursor_token'' t payload | None \<Rightarrow> payload) in
      bindR (prefix_cursor_token uri_prefix next_by_uri') (\<lambda>token.
        Return (dset ''subscription'' (JObj [(''kind'', JStr ''prefix''), (''uri_prefix'', JStr uri_prefix)])
          (dset ''cursor_token'' (JStr token) merged), next_by_uri')))"

text \<open>The token of the end of every timeline below a prefix.\<close>

definition prefix_tail_cursor :: "string \<Rightarrow> bool \<Rightarrow> (fabric, string) op" where
  "prefix_tail_cursor uri_prefix strict =
     bindS (readS (\<lambda>s. Return (prefix_uris uri_prefix s))) (\<lambda>uris.
     bindS (mapS (\<lambda>uri. bindS (qso_timeline uri strict) (\<lambda>events. returnS (uri, int (length events)))) uris) (\<lambda>lengths.
     liftS (prefix_cursor_token uri_prefix lengths)))"

section \<open>Tokens depend on the positions alone\<close>

definition same_positions :: "int dict \<Rightarrow> int dict \<Rightarrow> bool" where
  "same_positions m n = (distinct (dkeys m) \<and> distinct (dkeys n) \<and> (\<forall>uri. dget m uri = dget n uri))"

lemma same_positions_set: "same_positions m n \<Longrightarrow> set m = set n"
  unfolding same_positions_def using map_of_inject_set [of m n] by blast

lemma sort_same:
  assumes "same_positions m n"
  shows "sort_key fst m = sort_key fst n"
proof (rule map_sorted_distinct_set_unique)
  have "inj_on fst (set m)" using assms by (simp add: same_positions_def distinct_map)
  then show "inj_on fst (set (sort_key fst m) \<union> set (sort_key fst n))"
    using same_positions_set [OF assms] by (simp del: sort_key_simps)
qed (use assms same_positions_set [OF assms] in
  \<open>simp_all add: same_positions_def keys_sort_key distinct_sort del: sort_key_simps\<close>)

lemma same_token:
  assumes "same_positions m n"
  shows "prefix_cursor_token pre m = prefix_cursor_token pre n"
  using sort_same [OF assms] same_positions_set [OF assms] sort_int_object [of m] sort_int_object [of n]
  by (simp add: prefix_cursor_token_def encode_cursor_def dumps_def del: sort_key_simps)

lemma same_positions_dset: "same_positions m n \<Longrightarrow> same_positions (dset u i m) (dset u i n)"
  by (simp add: same_positions_def distinct_dset update_conv)

lemma same_payloads: "same_positions m n \<Longrightarrow> prefix_payloads env pre m rows = prefix_payloads env pre n rows"
proof (induction rows arbitrary: m n)
  case (Cons r rows)
  obtain key uri i e where r: "r = ((key, uri, i), e)" by (cases r) auto
  have s: "same_positions (dset uri (int i + 1) m) (dset uri (int i + 1) n)"
    by (rule same_positions_dset [OF Cons.prems])
  show ?case unfolding r prefix_payloads.simps Let_def using same_token [OF s] Cons.IH [OF s] by simp
qed simp

section \<open>The positions after some rows\<close>

abbreviation advance :: "int dict \<Rightarrow> prefix_row list \<Rightarrow> int dict" where
  "advance next_by_uri rows \<equiv> foldl (\<lambda>m r. dset (row_uri r) (int (row_index r) + 1) m) next_by_uri rows"

definition behind :: "int dict \<Rightarrow> prefix_row \<Rightarrow> bool" where
  "behind m r = (dget_or m (row_uri r) 0 \<le> int (row_index r))"

definition in_order :: "prefix_row list \<Rightarrow> bool" where
  "in_order = sorted_wrt (\<lambda>a b. row_uri a = row_uri b \<longrightarrow> row_index a < row_index b)"

lemma behind_next:
  assumes "in_order (r # rows)" "\<forall>q\<in>set (r # rows). behind m q"
  shows "\<forall>q\<in>set rows. behind (dset (row_uri r) (int (row_index r) + 1) m) q"
  using assms by (fastforce simp: in_order_def behind_def dget_or_dset)

lemma advance_grows:
  "in_order rows \<Longrightarrow> \<forall>q\<in>set rows. behind m q \<Longrightarrow> dget_or m u 0 \<le> dget_or (advance m (take k rows)) u 0"
proof (induction rows arbitrary: m k)
  case (Cons r rows)
  show ?case
  proof (cases k)
    case (Suc j)
    let ?m = "dset (row_uri r) (int (row_index r) + 1) m"
    have "dget_or m u 0 \<le> dget_or ?m u 0"
      using Cons.prems(2) by (auto simp: dget_or_dset behind_def)
    also have "\<dots> \<le> dget_or (advance ?m (take j rows)) u 0"
      by (rule Cons.IH) (use Cons.prems behind_next [OF Cons.prems] in \<open>simp_all add: in_order_def\<close>)
    finally show ?thesis by (simp add: Suc)
  qed simp
qed simp

text \<open>What is still behind the positions after some rows is what follows them.\<close>

lemma behind_after:
  "in_order rows \<Longrightarrow> \<forall>q\<in>set rows. behind m q \<Longrightarrow> filter (behind (advance m (take k rows))) rows = drop k rows"
proof (induction rows arbitrary: m k)
  case (Cons r rows)
  show ?case
  proof (cases k)
    case 0
    with Cons.prems show ?thesis by (simp add: filter_id_conv)
  next
    case (Suc j)
    let ?m = "dset (row_uri r) (int (row_index r) + 1) m"
    have io: "in_order rows" using Cons.prems(1) by (simp add: in_order_def)
    have b: "\<forall>q\<in>set rows. behind ?m q" by (rule behind_next [OF Cons.prems])
    have "dget_or ?m (row_uri r) 0 \<le> dget_or (advance ?m (take j rows)) (row_uri r) 0"
      by (rule advance_grows [OF io b])
    then have "\<not> behind (advance ?m (take j rows)) r" by (simp add: behind_def dget_or_dset)
    with Suc Cons.IH [OF io b] show ?thesis by simp
  qed
qed simp

lemma advance_bounded:
  "\<forall>q\<in>set rows. int (row_index q) + 1 \<le> f (row_uri q) \<Longrightarrow> dget_or m u 0 \<le> f u \<Longrightarrow>
     dget_or (advance m (take k rows)) u 0 \<le> f u"
proof (induction rows arbitrary: m k)
  case (Cons r rows)
  then show ?case by (cases k) (auto simp: dget_or_dset)
qed simp

section \<open>The rows of a subscription\<close>

definition timelines :: "bool \<Rightarrow> fabric \<Rightarrow> string \<Rightarrow> qso_event list result" where
  "timelines strict s uri = fst (el_replay uri strict (eg_log (fr_engine s)))"

definition prefix_rows :: "int dict \<Rightarrow> (string \<Rightarrow> qso_event list result) \<Rightarrow> string list \<Rightarrow> prefix_row list list result" where
  "prefix_rows m T uris = mapR (\<lambda>uri. bindR (T uri) (uri_rows m uri)) uris"

definition event_rows :: "string \<Rightarrow> qso_event list \<Rightarrow> prefix_row list" where
  "event_rows uri es = map (\<lambda>(i, e). ((replay_key e, uri, i), e)) (enumerate 0 es)"

definition all_rows :: "(string \<Rightarrow> qso_event list result) \<Rightarrow> string list \<Rightarrow> prefix_row list" where
  "all_rows T uris = concat (map (\<lambda>uri. case T uri of Inr es \<Rightarrow> event_rows uri es | Inl _ \<Rightarrow> []) uris)"

abbreviation nonneg_positions :: "int dict \<Rightarrow> bool" where
  "nonneg_positions m \<equiv> \<forall>uri. 0 \<le> dget_or m uri 0"

lemma event_rows_elem:
  "r \<in> set (event_rows uri es) \<Longrightarrow>
     row_index r < length es \<and> r = ((replay_key (es ! row_index r), uri, row_index r), es ! row_index r)"
  by (auto simp: event_rows_def in_set_enumerate_eq)

lemma distinct_event_rows: "distinct (event_rows uri es)"
proof -
  have "map row_index (event_rows uri es) = [0..<length es]"
    by (simp add: event_rows_def comp_def split_def)
  then show ?thesis by (metis distinct_map distinct_upt)
qed

lemma all_rows_elem:
  assumes "r \<in> set (all_rows T uris)"
  shows "\<exists>es. T (row_uri r) = Return es \<and> row_uri r \<in> set uris \<and> row_index r < length es \<and>
    r = ((replay_key (es ! row_index r), row_uri r, row_index r), es ! row_index r)"
proof -
  from assms obtain uri where u: "uri \<in> set uris" and "r \<in> set (case T uri of Inr es \<Rightarrow> event_rows uri es | Inl _ \<Rightarrow> [])"
    by (auto simp: all_rows_def)
  then obtain es where "T uri = Return es" "r \<in> set (event_rows uri es)" by (cases "T uri") auto
  with u event_rows_elem [of r uri es] show ?thesis by (metis fst_conv snd_conv)
qed

lemma distinct_all_rows: "distinct uris \<Longrightarrow> distinct (all_rows T uris)"
proof (induction uris)
  case (Cons u uris)
  have "set (case T u of Inr es \<Rightarrow> event_rows u es | Inl _ \<Rightarrow> []) \<inter> set (all_rows T uris) = {}"
  proof -
    have "row_uri r \<noteq> u" if "r \<in> set (all_rows T uris)" for r
      using all_rows_elem [OF that] Cons.prems by auto
    moreover have "row_uri r = u" if "r \<in> set (case T u of Inr es \<Rightarrow> event_rows u es | Inl _ \<Rightarrow> [])" for r
    proof (cases "T u")
      case (Inr es)
      with that have "r \<in> set (event_rows u es)" by simp
      from event_rows_elem [OF this] show ?thesis by (metis fst_conv snd_conv)
    qed (use that in simp)
    ultimately show ?thesis by blast
  qed
  with Cons show ?case by (auto simp: all_rows_def distinct_event_rows split: sum.splits)
qed (simp add: all_rows_def)

text \<open>The merged rows stand in the order of each object's events.\<close>

lemma merged_in_order:
  assumes "distinct uris" and sorted: "\<And>uri es. T uri = Return es \<Longrightarrow> sorted (map replay_key es)"
  shows "in_order (sort_key fst (all_rows T uris))"
proof -
  let ?L = "sort_key fst (all_rows T uris)"
  have "distinct ?L" using distinct_all_rows [OF assms(1)] by simp
  moreover have "sorted (map fst ?L)" by simp
  ultimately have strict: "fst (?L ! i) \<le> fst (?L ! j) \<and> ?L ! i \<noteq> ?L ! j" if "i < j" "j < length ?L" for i j
    using that sorted_nth_mono [of "map fst ?L" i j] by (simp add: nth_eq_iff_index_eq)
  have lex: "(k, u, j) < (l, u, i)" if "k \<le> l" "j < i" for k l :: "string \<times> string \<times> string" and u :: string and i j :: nat
    using that by (auto simp: le_less)
  have step: "row_index a < row_index b"
    if "fst a \<le> fst b" "a \<noteq> b" "row_uri a = row_uri b" "a \<in> set ?L" "b \<in> set ?L" for a b
  proof (rule ccontr)
    assume le: "\<not> row_index a < row_index b"
    from that(4) obtain es where es: "T (row_uri a) = Return es" "row_index a < length es"
      "a = ((replay_key (es ! row_index a), row_uri a, row_index a), es ! row_index a)"
      using all_rows_elem [of a T uris] by auto
    from that(5) that(3) es(1) have b: "b = ((replay_key (es ! row_index b), row_uri a, row_index b), es ! row_index b)"
      using all_rows_elem [of b T uris] by auto
    have "replay_key (es ! row_index b) \<le> replay_key (es ! row_index a)"
      using sorted_nth_mono [OF sorted [OF es(1)], of "row_index b" "row_index a"] le es(2) by simp
    moreover have "row_index a \<noteq> row_index b" using that(2) es(3) b by metis
    ultimately have "(replay_key (es ! row_index b), row_uri a, row_index b) < (replay_key (es ! row_index a), row_uri a, row_index a)"
      by (intro lex) (use le in simp_all)
    moreover have "fst b = (replay_key (es ! row_index b), row_uri a, row_index b)"
      "fst a = (replay_key (es ! row_index a), row_uri a, row_index a)"
      using b es(3) by (metis fst_conv)+
    ultimately have "fst b < fst a" by metis
    with that(1) show False by simp
  qed
  show ?thesis
    unfolding in_order_def sorted_wrt_iff_nth_less
  proof (intro allI impI)
    fix i j assume ij: "i < j" "j < length ?L" and "row_uri (?L ! i) = row_uri (?L ! j)"
    moreover have "?L ! i \<in> set ?L" "?L ! j \<in> set ?L" using ij by (simp_all del: set_sort)
    ultimately show "row_index (?L ! i) < row_index (?L ! j)" using strict [OF ij] step by blast
  qed
qed

lemma uri_rows_Return:
  assumes "uri_rows m uri es = Return rs" "nonneg_positions m"
  shows "rs = filter (behind m) (event_rows uri es)"
    and "dget_or m uri 0 \<le> int (length es)"
proof -
  let ?n = "nat (dget_or m uri 0)" and ?g = "\<lambda>(i, e). ((replay_key e, uri, i), e)"
  have n: "?n \<le> length es" and rs: "rs = map ?g (enumerate ?n (drop ?n es))"
    using assms(1) by (auto simp: uri_rows_def Let_def split: if_splits)
  have split: "enumerate 0 es = enumerate 0 (take ?n es) @ enumerate ?n (drop ?n es)"
    by (rule nth_equalityI) (use n in \<open>auto simp: nth_append nth_enumerate_eq\<close>)
  have "\<forall>r\<in>set (map ?g (enumerate 0 (take ?n es))). \<not> behind m r"
    by (auto simp: behind_def in_set_enumerate_eq)
  moreover have "\<forall>r\<in>set (map ?g (enumerate ?n (drop ?n es))). behind m r"
    by (auto simp: behind_def in_set_enumerate_eq)
  ultimately show "rs = filter (behind m) (event_rows uri es)"
    unfolding event_rows_def split rs by (simp del: filter_map add: filter_id_conv [THEN iffD2] filter_empty_conv [THEN iffD2])
  show "dget_or m uri 0 \<le> int (length es)"
    using assms(1) by (auto simp: uri_rows_def Let_def split: if_splits)
qed

lemma prefix_rows_concat:
  assumes "prefix_rows m T uris = Return rows" "nonneg_positions m"
  shows "concat rows = filter (behind m) (all_rows T uris)"
    and "\<forall>uri\<in>set uris. \<exists>es. T uri = Return es \<and> dget_or m uri 0 \<le> int (length es)"
  using assms(1)
proof (induction uris arbitrary: rows)
  case (Cons u uris)
  case 1
  then obtain es rs rows' where "T u = Return es" "uri_rows m u es = Return rs" "prefix_rows m T uris = Return rows'" "rows = rs # rows'"
    by (auto simp: prefix_rows_def elim!: bindR_ReturnE)
  with Cons.IH(1) uri_rows_Return(1) [of m u es rs] assms(2) show ?case by (simp add: all_rows_def)
next
  case (Cons u uris)
  case 2
  then obtain es rs rows' where "T u = Return es" "uri_rows m u es = Return rs" "prefix_rows m T uris = Return rows'"
    by (auto simp: prefix_rows_def elim!: bindR_ReturnE)
  with Cons.IH(2) uri_rows_Return(2) [of m u es rs] assms(2) show ?case by auto
qed (simp_all add: prefix_rows_def all_rows_def)

lemma prefix_rows_exist:
  assumes "\<forall>uri\<in>set uris. \<exists>es. T uri = Return es \<and> dget_or m uri 0 \<le> int (length es)"
  shows "\<exists>rows. prefix_rows m T uris = Return rows"
  using assms by (induction uris) (auto simp: prefix_rows_def uri_rows_def Let_def)

lemma merged_rows:
  assumes "prefix_rows m T uris = Return rows" "nonneg_positions m"
  shows "sort_key fst (concat rows) = filter (behind m) (sort_key fst (all_rows T uris))"
  by (simp add: prefix_rows_concat(1) [OF assms] filter_sort)

section \<open>The payloads of the rest\<close>

lemma prefix_payloads_length: "prefix_payloads env pre m rows = Return ps \<Longrightarrow> length ps = length rows"
proof (induction rows arbitrary: m ps)
  case (Cons r rows)
  obtain key uri i e where "r = ((key, uri, i), e)" by (cases r) auto
  with Cons show ?case by (auto simp: Let_def elim!: bindR_ReturnE)
qed simp

lemma prefix_payloads_drop:
  "prefix_payloads env pre m rows = Return ps \<Longrightarrow> prefix_payloads env pre (advance m (take k rows)) (drop k rows) = Return (drop k ps)"
proof (induction rows arbitrary: m ps k)
  case (Cons r rows)
  obtain key uri i e where "r = ((key, uri, i), e)" by (cases r) auto
  with Cons show ?case by (cases k) (auto simp: Let_def elim!: bindR_ReturnE)
qed simp

lemma prefix_payloads_token:
  "prefix_payloads env pre m rows = Return ps \<Longrightarrow> k < length ps \<Longrightarrow>
     \<exists>t. dget (ps ! k) ''cursor_token'' = Some (JStr t) \<and> prefix_cursor_token pre (advance m (take (Suc k) rows)) = Return t"
proof (induction rows arbitrary: m ps k)
  case (Cons r rows)
  obtain key uri i e where "r = ((key, uri, i), e)" by (cases r) auto
  with Cons show ?case by (cases k) (auto simp: Let_def update_conv elim!: bindR_ReturnE)
qed simp

section \<open>A reachable registry\<close>

definition registry_ok :: "engine \<Rightarrow> bool" where
  "registry_ok g = distinct (dkeys (eg_registry g))"

lemma registry_ok_updates [simp]:
  "registry_ok (g\<lparr>eg_clock := c\<rparr>) = registry_ok g" "registry_ok (g\<lparr>eg_log := l\<rparr>) = registry_ok g"
  "registry_ok (g\<lparr>eg_policy := p\<rparr>) = registry_ok g"
  by (simp_all add: registry_ok_def)

lemma registry_ok_create: "registry_ok g \<Longrightarrow> registry_ok (snd (create_object now uri schema actor g))"
  by (auto simp: registry_ok_def create_object_def rg_create_def Let_def distinct_dset)

lemma registry_ok_patch: "registry_ok g \<Longrightarrow> registry_ok (snd (patch event_id uri delta actor pv node g))"
  by (auto simp: registry_ok_def patch_def rg_update_def Let_def distinct_dset split: sum.splits prod.splits)

lemma registry_ok_kernel: "registry_ok (snd (identity_kernel_events uri strict g)) = registry_ok g"
  by (simp add: identity_kernel_events_def split: prod.splits)

lemma registry_ok_identity:
  assumes "registry_ok g"
  shows "registry_ok (snd (eg_apply_identity_event id1 id2 uri ty payload actor pv node g))"
  unfolding eg_apply_identity_event_def Let_def
  using assms registry_ok_kernel [of uri True] registry_ok_patch
  by (auto split: sum.splits prod.splits) (metis registry_ok_updates(1) snd_conv)+

lemma registry_ok_new_identity:
  assumes "registry_ok g"
  shows "registry_ok (snd (eg_create_identity now id1 id2 uri core actor pv node g))"
  unfolding eg_create_identity_def
  using assms registry_ok_create [OF assms] registry_ok_identity
  by (auto split: sum.splits prod.splits) (metis snd_conv)+

lemma reachable_registry_ok: "reachable g \<Longrightarrow> registry_ok g"
proof -
  have step: "engine_step g g' \<Longrightarrow> registry_ok g \<Longrightarrow> registry_ok g'" for g g'
    by (induction rule: engine_step.induct)
      (simp_all add: registry_ok_create registry_ok_patch registry_ok_kernel registry_ok_identity registry_ok_new_identity)
  have "engine_step\<^sup>*\<^sup>* g g' \<Longrightarrow> registry_ok g \<Longrightarrow> registry_ok g'" for g g'
    by (induction rule: rtranclp_induct) (auto dest: step)
  moreover have "registry_ok (fresh_engine c)" for c by (simp add: registry_ok_def fresh_engine_def)
  ultimately show "reachable g \<Longrightarrow> registry_ok g" unfolding reachable_def by blast
qed

lemma prefix_uris_distinct: "live s \<Longrightarrow> distinct (prefix_uris pre s)"
  using reachable_registry_ok by (simp add: live_def registry_ok_def prefix_uris_def rg_list_uris_def distinct_sort)

section \<open>The timelines a subscription reads\<close>

lemma verify_events_sorted:
  "verify_events uri strict verified es l = (Return out, l') \<Longrightarrow> sorted (map replay_key (verified @ es)) \<Longrightarrow>
     sorted (map replay_key out)"
proof (induction es arbitrary: verified l)
  case (Cons e es)
  have "sorted (map replay_key (verified @ es))" "sorted (map replay_key ((verified @ [e]) @ es))"
    using Cons.prems(2) by (auto simp: sorted_append)
  with Cons show ?case by (auto simp: Let_def split: option.splits sum.splits if_splits)
qed simp

lemma timelines_sorted: "timelines strict s uri = Return es \<Longrightarrow> sorted (map replay_key es)"
  unfolding timelines_def el_replay_def
  using verify_events_sorted [of uri strict "[]" _ _ es] by (metis append_Nil fst_eqD sorted_sort_key surj_pair)

text \<open>Replaying only files rejected events, which no replay reads.\<close>

definition same_log :: "fabric \<Rightarrow> fabric \<Rightarrow> bool" where
  "same_log s t = (eg_registry (fr_engine t) = eg_registry (fr_engine s) \<and>
     el_events (eg_log (fr_engine t)) = el_events (eg_log (fr_engine s)) \<and>
     el_crypto (eg_log (fr_engine t)) = el_crypto (eg_log (fr_engine s)))"

lemma verify_events_log:
  "el_events (snd (verify_events uri strict verified es l)) = el_events l \<and>
   el_crypto (snd (verify_events uri strict verified es l)) = el_crypto l"
  using verify_events_frame by (metis surjective_pairing)

lemma verify_events_same:
  "el_crypto l = el_crypto l' \<Longrightarrow> fst (verify_events uri strict verified es l) = fst (verify_events uri strict verified es l')"
proof (induction es arbitrary: verified l l')
  case (Cons e es)
  have "el_crypto (reject_event uri e l) = el_crypto l" for l :: "unit event_log" by (simp add: reject_event_def)
  then have "fst (verify_events uri strict verified es (reject_event uri e l)) =
      fst (verify_events uri strict verified es (reject_event uri e l'))"
    by (intro Cons.IH) (simp add: Cons.prems reject_event_def)
  with Cons show ?case by (auto simp: Let_def split: option.splits sum.splits)
qed simp

lemma same_log_timelines: "same_log s t \<Longrightarrow> timelines strict t = timelines strict s"
  unfolding timelines_def same_log_def el_replay_def el_timeline_def using verify_events_same by fastforce

lemma same_log_uris: "same_log s t \<Longrightarrow> prefix_uris pre t = prefix_uris pre s"
  by (simp add: same_log_def prefix_uris_def)

lemma same_log_refl [simp]: "same_log s s" and same_log_trans: "same_log s t \<Longrightarrow> same_log t u \<Longrightarrow> same_log s u"
  by (auto simp: same_log_def)

lemma qso_timeline_result: "fst (qso_timeline uri strict s) = timelines strict s uri"
    "same_log s (snd (qso_timeline uri strict s))"
  using verify_events_log [of uri strict "[]" "sort_key replay_key (el_timeline (eg_log (fr_engine s)) uri)" "eg_log (fr_engine s)"]
  by (cases "el_replay uri strict (eg_log (fr_engine s))";
      simp add: qso_timeline_def on_engine_def timelines_def same_log_def el_replay_def)+

lemma prefix_rows_result:
  fixes s :: fabric
  assumes "T = timelines strict s"
  shows "fst (mapS (\<lambda>uri. bindS (qso_timeline uri strict) (\<lambda>events. liftS (uri_rows m uri events))) uris s) =
      prefix_rows m T uris \<and>
    same_log s (snd (mapS (\<lambda>uri. bindS (qso_timeline uri strict) (\<lambda>events. liftS (uri_rows m uri events))) uris s))"
  using assms
proof (induction uris arbitrary: s)
  case (Cons u uris)
  obtain r t where q: "qso_timeline u strict s = (r, t)" by fastforce
  then have r: "r = T u" and t: "same_log s t" using qso_timeline_result [where uri = u and strict = strict and s = s] Cons.prems by simp_all
  have "T = timelines strict t" using same_log_timelines [OF t] Cons.prems by simp
  note rest = Cons.IH [OF this]
  obtain r' t' where m: "mapS (\<lambda>uri. bindS (qso_timeline uri strict) (\<lambda>events. liftS (uri_rows m uri events))) uris t = (r', t')"
    by fastforce
  have "same_log s t'" and r': "r' = prefix_rows m T uris" using rest m same_log_trans [OF t] by auto
  then show ?case
    using q m r t by (auto simp: prefix_rows_def bindS_def liftS_def returnS_def split: sum.split)
qed (simp add: prefix_rows_def returnS_def)

lemma subscribe_result:
  "fst (qso_subscribe_prefix env pre cursor strict s) =
     bindR (resolve_prefix_cursor pre cursor (prefix_uris pre s)) (\<lambda>m.
     bindR (prefix_rows m (timelines strict s) (prefix_uris pre s)) (\<lambda>rows.
       prefix_payloads env pre m (sort_key fst (concat rows))))"
  "same_log s (snd (qso_subscribe_prefix env pre cursor strict s))"
proof -
  let ?go = "\<lambda>m. mapS (\<lambda>uri. bindS (qso_timeline uri strict) (\<lambda>events. liftS (uri_rows m uri events))) (prefix_uris pre s)"
  have "fst (qso_subscribe_prefix env pre cursor strict s) =
     bindR (resolve_prefix_cursor pre cursor (prefix_uris pre s)) (\<lambda>m.
     bindR (prefix_rows m (timelines strict s) (prefix_uris pre s)) (\<lambda>rows.
       prefix_payloads env pre m (sort_key fst (concat rows)))) \<and>
    same_log s (snd (qso_subscribe_prefix env pre cursor strict s))"
  proof (cases "resolve_prefix_cursor pre cursor (prefix_uris pre s)")
    case (Inr m)
    obtain r t where go: "?go m s = (r, t)" by fastforce
    then have "r = prefix_rows m (timelines strict s) (prefix_uris pre s)" "same_log s t"
      using prefix_rows_result [OF refl, where strict = strict and s = s and m = m and uris = "prefix_uris pre s"] by simp_all
    with go Inr show ?thesis
      by (cases "prefix_rows m (timelines strict s) (prefix_uris pre s)") (simp_all add: qso_subscribe_prefix_def bindS_def readS_def liftS_def)
  qed (simp add: qso_subscribe_prefix_def bindS_def readS_def liftS_def)
  then show "fst (qso_subscribe_prefix env pre cursor strict s) =
     bindR (resolve_prefix_cursor pre cursor (prefix_uris pre s)) (\<lambda>m.
     bindR (prefix_rows m (timelines strict s) (prefix_uris pre s)) (\<lambda>rows.
       prefix_payloads env pre m (sort_key fst (concat rows))))"
    "same_log s (snd (qso_subscribe_prefix env pre cursor strict s))" by blast+
qed

lemma resolve_prefix_facts:
  assumes "resolve_prefix_cursor pre cursor uris = Return m" "distinct uris" "\<forall>uri\<in>set uris. startswith uri pre"
  shows "distinct (dkeys m) \<and> nonneg_positions m \<and> set uris \<subseteq> set (dkeys m) \<and> (\<forall>uri\<in>set (dkeys m). startswith uri pre)"
proof -
  define ok where "ok m \<longleftrightarrow> distinct (dkeys m) \<and> nonneg_positions m \<and> set uris \<subseteq> set (dkeys m) \<and> (\<forall>uri\<in>set (dkeys m). startswith uri pre)" for m
  have merged: "merge_token_map pre tm base = Return m \<Longrightarrow> ok base \<Longrightarrow> ok m" for tm base
  proof (induction tm arbitrary: base)
    case (Cons kv tm)
    obtain u v where kv: "kv = (u, v)" by (cases kv)
    with Cons.prems obtain i where i: "startswith u pre" "0 \<le> i" "merge_token_map pre tm (dset u i base) = Return m"
      by (auto simp: not_less split: if_splits option.splits)
    have "ok (dset u i base)"
      using Cons.prems(2) i(1,2) by (auto simp: ok_def distinct_dset dkeys_dset dget_or_dset)
    with Cons.IH i(3) show ?case by blast
  qed simp
  let ?base = "map (\<lambda>uri. (uri, 0 :: int)) uris"
  have "dget ?base uri = (if uri \<in> set uris then Some 0 else None)" for uri by (induction uris) auto
  then have base: "ok ?base" using assms(2,3) by (simp add: ok_def comp_def dget_or_def)
  have "ok m"
    using assms(1) base merged
    by (auto simp: resolve_prefix_cursor_def Let_def split: option.splits if_splits json.splits elim!: bindR_ReturnE)
  then show ?thesis by (simp add: ok_def)
qed

section \<open>Taking a subscription up again\<close>

lemma advance_keys:
  "distinct (dkeys m) \<Longrightarrow> distinct (dkeys (advance m rows)) \<and> set (dkeys (advance m rows)) = set (dkeys m) \<union> row_uri ` set rows"
proof (induction rows arbitrary: m)
  case (Cons r rows)
  have "distinct (dkeys (dset (row_uri r) (int (row_index r) + 1) m))" using Cons.prems by (rule distinct_dset)
  from Cons.IH [OF this] show ?case by (auto simp: dkeys_dset)
qed simp

text \<open>
  C16: a prefix subscription taken up again with the token of a payload gets exactly the payloads that
  followed it, whichever objects and cursor the first one had.
\<close>

theorem prefix_stream_resumes:
  assumes "live s" and run: "qso_subscribe_prefix env pre cursor strict s = (Inr ps, s')"
    and i: "i < length ps" and tok: "dget (ps ! i) ''cursor_token'' = Some (JStr t)"
  shows "fst (qso_subscribe_prefix env pre (Some t) strict s') = Return (drop (Suc i) ps)"
proof -
  let ?uris = "prefix_uris pre s" and ?T = "timelines strict s"
  have "bindR (resolve_prefix_cursor pre cursor ?uris) (\<lambda>m. bindR (prefix_rows m ?T ?uris) (\<lambda>rows.
      prefix_payloads env pre m (sort_key fst (concat rows)))) = Return ps"
    using subscribe_result(1) [of env pre cursor strict s] run by simp
  then obtain m rows where m: "resolve_prefix_cursor pre cursor ?uris = Return m"
    and rows: "prefix_rows m ?T ?uris = Return rows"
    and ps: "prefix_payloads env pre m (sort_key fst (concat rows)) = Return ps"
    by (auto elim!: bindR_ReturnE)
  have same: "same_log s s'" using subscribe_result(2) [of s env pre cursor strict] run by simp
  have uris: "distinct ?uris" "\<forall>uri\<in>set ?uris. startswith uri pre"
    using prefix_uris_distinct [OF assms(1)] by (simp_all add: prefix_uris_def)
  have facts: "distinct (dkeys m)" "nonneg_positions m" "set ?uris \<subseteq> set (dkeys m)" "\<forall>uri\<in>set (dkeys m). startswith uri pre"
    using resolve_prefix_facts [OF m uris] by blast+
  let ?S = "sort_key fst (all_rows ?T ?uris)" and ?L = "sort_key fst (concat rows)"
  let ?n = "advance m (take (Suc i) ?L)"
  have L: "?L = filter (behind m) ?S" by (rule merged_rows [OF rows facts(2)])
  have S: "in_order ?S" by (rule merged_in_order [OF uris(1) timelines_sorted])
  then have order: "in_order ?L" unfolding L in_order_def by (rule sorted_wrt_filter)
  have behind: "\<forall>q\<in>set ?L. behind m q" unfolding L by simp
  have grow: "dget_or m u 0 \<le> dget_or ?n u 0" for u by (rule advance_grows [OF order behind])
  have elem: "row_uri q \<in> set ?uris \<and> (\<exists>es. ?T (row_uri q) = Return es \<and> row_index q < length es)" if "q \<in> set ?L" for q
    using that all_rows_elem [of q ?T ?uris] unfolding L by fastforce
  have token: "prefix_cursor_token pre ?n = Return t"
    using prefix_payloads_token [OF ps i] tok by auto
  have keys: "distinct (dkeys ?n)" "set (dkeys ?n) = set (dkeys m) \<union> row_uri ` set (take (Suc i) ?L)"
    using advance_keys [OF facts(1)] by blast+
  have "\<forall>uri\<in>set (dkeys ?n). startswith uri pre"
    unfolding keys(2) using facts(4) uris(2) elem by (auto dest: in_set_takeD)
  from prefix_cursor_resumes [OF token keys(1) this, of ?uris] obtain r where
    r: "resolve_prefix_cursor pre (Some t) ?uris = Return r" "distinct (dkeys r)"
    "\<forall>uri. dget r uri = (case dget ?n uri of Some i \<Rightarrow> Some i | None \<Rightarrow> if uri \<in> set ?uris then Some 0 else None)"
    using uris(1) by blast
  have n: "dget ?n uri \<noteq> None" if "uri \<in> set ?uris" for uri
    using that facts(3) keys(2) by (auto simp: map_of_eq_None_iff)
  have "dget r uri = dget ?n uri" for uri using r(3) n [of uri] by (cases "dget ?n uri") auto
  with r(2) keys(1) have rn: "same_positions r ?n" by (simp add: same_positions_def)
  then have ro: "dget_or r = dget_or ?n" by (auto simp: same_positions_def dget_or_def fun_eq_iff)
  have nn: "nonneg_positions r" unfolding ro using grow facts(2) by (meson order_trans)
  have "\<exists>es. ?T uri = Return es \<and> dget_or r uri 0 \<le> int (length es)" if "uri \<in> set ?uris" for uri
  proof -
    from that obtain es where es: "?T uri = Return es" "dget_or m uri 0 \<le> int (length es)"
      using prefix_rows_concat(2) [OF rows facts(2)] by blast
    let ?f = "\<lambda>u. case ?T u of Inr es \<Rightarrow> int (length es) | Inl _ \<Rightarrow> 0"
    have "dget_or ?n uri 0 \<le> ?f uri"
      by (rule advance_bounded) (use elem es in fastforce)+
    with es(1) show ?thesis by (simp add: ro)
  qed
  then obtain rows' where rows': "prefix_rows r ?T ?uris = Return rows'" using prefix_rows_exist by blast
  have "behind r = behind ?n" by (simp add: behind_def ro fun_eq_iff)
  then have "sort_key fst (concat rows') = filter (behind ?n) ?S" using merged_rows [OF rows' nn] by simp
  also have "\<dots> = filter (behind ?n) (filter (behind m) ?S)"
    using order_trans [OF grow] by (auto simp: behind_def intro!: filter_cong)
  also have "\<dots> = filter (behind ?n) ?L" by (simp only: L)
  also have "\<dots> = drop (Suc i) ?L" by (rule behind_after [OF order behind])
  finally have rest: "sort_key fst (concat rows') = drop (Suc i) ?L" .
  have "prefix_payloads env pre r (drop (Suc i) ?L) = Return (drop (Suc i) ps)"
    using same_payloads [OF rn] prefix_payloads_drop [OF ps] by simp
  with r(1) rows' rest show ?thesis
    unfolding subscribe_result(1) same_log_timelines [OF same] same_log_uris [OF same] by simp
qed

lemma prefix_payloads_exist:
  "\<forall>p\<in>set m. 0 \<le> snd p \<Longrightarrow> \<exists>ps. prefix_payloads env pre m rows = Return ps"
proof (induction rows arbitrary: m)
  case (Cons r rows)
  obtain key uri i e where r: "r = ((key, uri, i), e)" by (cases r) auto
  have nn: "\<forall>p\<in>set (dset uri (int i + 1) m). 0 \<le> snd p"
    using Cons.prems by (induction m) auto
  then obtain t where "prefix_cursor_token pre (dset uri (int i + 1) m) = Return t"
    by (fastforce simp: prefix_cursor_token_def)
  with Cons.IH [OF nn] r show ?case by (auto simp: Let_def event_payload_def single_cursor_token_def)
qed simp

text \<open>A first subscription to a running fabric returns the payload of every event below the prefix.\<close>

lemma subscribe_returns:
  assumes "live s" "lc_tick (eg_clock (fr_engine s)) < day_us"
  shows "\<exists>ps s'. qso_subscribe_prefix env pre None strict s = (Inr ps, s') \<and>
    length ps = length (all_rows (timelines strict s) (prefix_uris pre s))"
proof -
  let ?m = "map (\<lambda>uri. (uri, 0 :: int)) (prefix_uris pre s)" and ?T = "timelines strict s"
  have "dget_or (map (\<lambda>uri. (uri, 0 :: int)) us) uri 0 = 0" for us and uri :: string
    by (induction us) (auto simp: dget_or_def)
  then have zero: "dget_or ?m uri 0 = 0" for uri by blast
  have T: "\<exists>es. ?T uri = Return es" for uri
    using engine_replay [OF reachable_ok assms(2)] assms(1) by (auto simp: timelines_def live_def)
  then obtain rows where rows: "prefix_rows ?m ?T (prefix_uris pre s) = Return rows"
    using prefix_rows_exist [of "prefix_uris pre s" ?T ?m] by (force simp: zero)
  obtain ps where ps: "prefix_payloads env pre ?m (sort_key fst (concat rows)) = Return ps"
    using prefix_payloads_exist [of ?m env pre "sort_key fst (concat rows)"] by auto
  have "filter (behind ?m) xs = xs" for xs by (simp add: behind_def zero)
  then have "length ps = length (all_rows ?T (prefix_uris pre s))"
    using prefix_payloads_length [OF ps] prefix_rows_concat(1) [OF rows] zero by simp
  moreover have "fst (qso_subscribe_prefix env pre None strict s) = Return ps"
    using subscribe_result(1) [of env pre None strict s] rows ps by (simp add: resolve_prefix_cursor_def)
  ultimately show ?thesis by (metis prod.collapse)
qed

theorem prefix_stream_resumes_witness:
  "\<exists>s p s' t. qso_subscribe_prefix sample_env ''qso://w/'' None True s = (Inr [p], s') \<and>
     fst (qso_subscribe_prefix sample_env ''qso://w/'' (Some t) True s') = Return []"
proof -
  have fields: "\<forall>x\<in>{fe_uuid sample_env (fr_calls sample_fabric), ''root'', sample_node, ''v1''}. strip x \<noteq> []"
    by (simp add: sample_env_def strip_Nil_iff is_space_def)
  have "\<exists>e s. qso_patch sample_env sample_node [] ''root'' ''v1'' ''local'' sample_fabric = (Inr e, s)"
    by (rule qso_patch_accepted [OF sample_fabric_live _ _ fields]) (simp_all add: sample_fabric_eq fresh_engine_def)
  then obtain e s where p: "qso_patch sample_env sample_node [] ''root'' ''v1'' ''local'' sample_fabric = (Inr e, s)" by blast
  have live: "live s" using keepsD [OF live_patch sample_fabric_live] p by (metis snd_conv)
  have eng: "patch (fe_uuid sample_env (fr_calls sample_fabric)) sample_node [] ''root'' ''v1'' ''local'' (fr_engine sample_fabric) =
      (Inr e, fr_engine s)"
    by (rule qso_patch_engine [OF p])
  have "lc_tick (eg_clock g) = 1 \<and> dkeys (eg_registry g) = [sample_node] \<and>
      eg_log g = append_log e (eg_log (fr_engine sample_fabric)) \<and> qe_object_uri e = sample_node"
    if "patch (fe_uuid sample_env (fr_calls sample_fabric)) sample_node [] ''root'' ''v1'' ''local'' (fr_engine sample_fabric) =
      (Inr e, g)" for g
    using that by (auto simp: patch_def sample_fabric_eq fresh_engine_def Let_def check_policy_def rg_read_def rg_update_def
      has_key_def next_datetime_def new_clock_def split: sum.splits)
  from this [OF eng] have after: "lc_tick (eg_clock (fr_engine s)) = 1" "dkeys (eg_registry (fr_engine s)) = [sample_node]"
    "eg_log (fr_engine s) = append_log e (eg_log (fr_engine sample_fabric))" "qe_object_uri e = sample_node" by blast+
  have u: "prefix_uris ''qso://w/'' s = [sample_node]" by (simp add: prefix_uris_def rg_list_uris_def after(2))
  have "el_timeline (eg_log (fr_engine s)) sample_node = [e]"
    unfolding after(3) by (subst append_log_simps(1)) (simp_all add: after(4) sample_fabric_eq fresh_engine_def el_timeline_def dget_or_def)
  moreover have day: "lc_tick (eg_clock (fr_engine s)) < day_us" by (simp add: after(1))
  ultimately have T: "timelines True s sample_node = Return [e]"
    using engine_replay [OF reachable_ok day, of sample_node True] live by (simp add: timelines_def live_def)
  obtain ps s' where run: "qso_subscribe_prefix sample_env ''qso://w/'' None True s = (Inr ps, s')" and "length ps = 1"
    using subscribe_returns [OF live day, of sample_env "''qso://w/''" True] by (auto simp: u all_rows_def T event_rows_def)
  then obtain q where q: "ps = [q]" by (auto simp: length_Suc_conv)
  obtain m rows where "prefix_payloads sample_env ''qso://w/'' m rows = Return ps"
    using subscribe_result(1) [of sample_env "''qso://w/''" None True s] run by (auto elim!: bindR_ReturnE dest: sym)
  then obtain t where "dget (ps ! 0) ''cursor_token'' = Some (JStr t)"
    using prefix_payloads_token [of sample_env "''qso://w/''" m rows ps 0] q by auto
  from prefix_stream_resumes [OF live run _ this] run q show ?thesis by auto
qed

end
