(* ===== verification/Qff_Snapshot.thy ===== *)
theory Qff_Snapshot
  imports Qso_Tools
begin

text \<open>
  Snapshots: \<^verbatim>\<open>qff/serializer\<close>, \<^verbatim>\<open>qff/deserializer\<close>, \<^verbatim>\<open>services/snapshot_exporter\<close>,
  \<^verbatim>\<open>storage/snapshot_store\<close> and the export and import of \<^verbatim>\<open>api/mcp_tools/qso_tools.py\<close>.  The archive
  formats belong to \<^verbatim>\<open>gzip\<close> and \<^verbatim>\<open>tarfile\<close>: a codec packs named files into bytes and unpacks them
  again, and the properties assume that it gets back what it packed.  A label is a file name without a
  slash.
\<close>

section \<open>The container\<close>

type_synonym entry = "string \<times> nat list"

record archive_codec =
  pack :: "entry list \<Rightarrow> nat list"
  unpack :: "nat list \<Rightarrow> entry list result"

definition faithful_codec :: "archive_codec \<Rightarrow> bool" where
  "faithful_codec cd = (\<forall>es. unpack cd (pack cd es) = Return es)"

text \<open>The entries by name: a later file of a name replaces an earlier one.\<close>

definition by_name :: "entry list \<Rightarrow> nat list dict" where
  "by_name es = foldl (\<lambda>d (n, content). dset n content d) [] es"

record qff_payload =
  qf_header :: json
  qf_state :: json
  qf_entanglement :: json
  qf_signature :: string

definition qff_serialize :: "archive_codec \<Rightarrow> qff_payload \<Rightarrow> nat list" where
  "qff_serialize cd p =
     (let state_bytes = utf8 (dumps spaced (qf_state p));
          ent_map = utf8 (dumps spaced (qf_entanglement p));
          header = utf8 (dumps spaced (qf_header p)) in
      pack cd [(''header.json'', header), (''state_index.bin'', state_bytes), (''entanglement.map'', ent_map),
        (''crypto.sig'', utf8 (qf_signature p)), (''footer.bin'', utf8 ''QFFv1''), (''tensor_blocks/.keep'', []),
        (''wave_blocks/.keep'', [])])"

definition decode_text :: "nat list \<Rightarrow> string result" where
  "decode_text bs = (case utf8_decode bs of Some s \<Rightarrow> Return s | None \<Rightarrow> Raise (ValueError ''codec can't decode bytes''))"

definition load_entry :: "nat list dict \<Rightarrow> string \<Rightarrow> json result" where
  "load_entry d name = bindR (decode_text (dget_or d name [])) json_loads"

definition required_entries :: "string list" where
  "required_entries = [''header.json'', ''state_index.bin'', ''entanglement.map'', ''crypto.sig'']"

definition qff_deserialize :: "archive_codec \<Rightarrow> nat list \<Rightarrow> qff_payload result" where
  "qff_deserialize cd blob =
     bindR (unpack cd blob) (\<lambda>es.
       let d = by_name es; missing = filter (\<lambda>n. \<not> has_key d n) required_entries in
       if missing \<noteq> []
       then Raise (ValueError (''invalid QFF snapshot, missing required entries: '' @ join '', '' (sort missing)))
       else bindR (load_entry d ''header.json'') (\<lambda>header.
         bindR (load_entry d ''state_index.bin'') (\<lambda>state.
         bindR (load_entry d ''entanglement.map'') (\<lambda>ent.
         bindR (decode_text (dget_or d ''crypto.sig'' [])) (\<lambda>signature.
           Return \<lparr>qf_header = header, qf_state = state, qf_entanglement = ent, qf_signature = signature\<rparr>)))))"

section \<open>The exporter\<close>

definition snapshot_checkpoint :: "string \<Rightarrow> int \<Rightarrow> json \<Rightarrow> string" where
  "snapshot_checkpoint uri event_count state =
     sha256_hex (dumps spaced (JObj [(''uri'', JStr uri), (''event_count'', JInt event_count), (''state'', state)]))"

definition snapshot_sign_payload :: "string \<Rightarrow> json \<Rightarrow> json \<Rightarrow> string \<Rightarrow> string" where
  "snapshot_sign_payload uri state entanglement checkpoint =
     dumps spaced (JObj [(''uri'', JStr uri), (''state'', state), (''entanglement'', entanglement),
       (''event_hash_checkpoint'', JStr checkpoint)])"

text \<open>\<^verbatim>\<open>SnapshotManifest.model_dump\<close>; the export time is the text of the wall clock.\<close>

definition snapshot_header :: "string \<Rightarrow> int \<Rightarrow> string \<Rightarrow> string \<Rightarrow> string \<Rightarrow> string \<Rightarrow> json" where
  "snapshot_header uri event_count exported_at policy_version runtime_version checkpoint = JObj
     [(''uri'', JStr uri), (''event_count'', JInt event_count), (''exported_at'', JStr exported_at),
      (''compression'', JStr ''gzip''), (''encrypted'', JBool False), (''policy_version'', JStr policy_version),
      (''runtime_version'', JStr runtime_version), (''event_hash_checkpoint'', JStr checkpoint)]"

definition default_runtime_version :: string where
  "default_runtime_version = ''qso-fabric/0.1.0''"

definition export_payload ::
    "crypto \<Rightarrow> string \<Rightarrow> json dict \<Rightarrow> json list \<Rightarrow> int \<Rightarrow> string \<Rightarrow> string \<Rightarrow> string \<Rightarrow> qff_payload" where
  "export_payload c uri state entanglement event_count policy_version runtime_version exported_at =
     (let checkpoint = snapshot_checkpoint uri event_count (JObj state) in
      \<lparr>qf_header = snapshot_header uri event_count exported_at policy_version runtime_version checkpoint,
       qf_state = JObj state, qf_entanglement = JArr entanglement,
       qf_signature = sign c (snapshot_sign_payload uri (JObj state) (JArr entanglement) checkpoint)\<rparr>)"

definition export_snapshot ::
    "archive_codec \<Rightarrow> crypto \<Rightarrow> string \<Rightarrow> json dict \<Rightarrow> json list \<Rightarrow> int \<Rightarrow> string \<Rightarrow> string \<Rightarrow> string \<Rightarrow> nat list" where
  "export_snapshot cd c uri state entanglement event_count policy_version runtime_version exported_at =
     qff_serialize cd (export_payload c uri state entanglement event_count policy_version runtime_version exported_at)"

text \<open>\<open>int(v)\<close> of a JSON value, with the two exceptions the importer turns into its own.\<close>

definition int_of_json :: "json \<Rightarrow> int result" where
  "int_of_json v = (case v of
       JInt i \<Rightarrow> Return i
     | JBool b \<Rightarrow> Return (of_bool b)
     | JStr s \<Rightarrow> py_int s
     | JFloat t \<Rightarrow> bindR (parse_float t) (\<lambda>x. case x of
           Fin q \<Rightarrow> Return (if q < 0 then - \<lfloor>- q\<rfloor> else \<lfloor>q\<rfloor>)
         | NaN \<Rightarrow> Raise (ValueError ''cannot convert float NaN to integer'')
         | _ \<Rightarrow> Raise (OverflowError ''cannot convert float infinity to integer''))
     | _ \<Rightarrow> Raise (TypeError ''int() argument must be a string, a bytes-like object or a real number''))"

definition header_event_count :: "json \<Rightarrow> int result" where
  "header_event_count header = (case int_of_json (jget_or header ''event_count'' (JInt 0)) of
       Inl (ValueError w) \<Rightarrow> Raise (ValueError ''invalid snapshot event_count'')
     | Inl (TypeError w) \<Rightarrow> Raise (ValueError ''invalid snapshot event_count'')
     | r \<Rightarrow> r)"

definition import_snapshot :: "archive_codec \<Rightarrow> crypto \<Rightarrow> bool \<Rightarrow> nat list \<Rightarrow> qff_payload result" where
  "import_snapshot cd c verify_signature blob =
     bindR (qff_deserialize cd blob) (\<lambda>parsed.
       case qf_header parsed of
         JObj header \<Rightarrow>
           (let uri = jstr (dget_or header ''uri'' (JStr [])) in
            bindR (header_event_count (JObj header)) (\<lambda>event_count.
            let checkpoint = jstr (dget_or header ''event_hash_checkpoint'' (JStr [])) in
            if checkpoint \<noteq> snapshot_checkpoint uri event_count (qf_state parsed)
            then Raise (ValueError ''snapshot checkpoint hash mismatch'')
            else if verify_signature
            then bindR (verify c (snapshot_sign_payload uri (qf_state parsed) (qf_entanglement parsed) checkpoint)
                (qf_signature parsed)) (\<lambda>ok.
              if ok then Return parsed else Raise (ValueError ''snapshot signature validation failed''))
            else Return parsed))
       | _ \<Rightarrow> Raise (ValueError ''invalid snapshot header''))"

section \<open>Stores\<close>

type_synonym blob_store = "nat list dict dict"

text \<open>\<open>label or now\<close>.\<close>

definition snapshot_tag :: "string option \<Rightarrow> string \<Rightarrow> string" where
  "snapshot_tag label now = (case label of Some (c # cs) \<Rightarrow> c # cs | _ \<Rightarrow> now)"

definition ss_put :: "string \<Rightarrow> nat list \<Rightarrow> string \<Rightarrow> blob_store \<Rightarrow> blob_store" where
  "ss_put uri blob tag st = dset uri (dset tag blob (dget_or st uri [])) st"

definition ss_get :: "string \<Rightarrow> string \<Rightarrow> blob_store \<Rightarrow> nat list result" where
  "ss_get uri label st = (case dget (dget_or st uri []) label of
       Some b \<Rightarrow> Return b | None \<Rightarrow> Raise (KeyError (''snapshot not found: '' @ uri @ ''@'' @ label)))"

definition ss_list :: "string \<Rightarrow> blob_store \<Rightarrow> string list" where
  "ss_list uri st = sort (dkeys (dget_or st uri []))"

text \<open>The file store: the files by directory and name, the index of the labels and the saved index.\<close>

record file_store =
  fs_blobs :: blob_store
  fs_files :: "((string \<times> string) \<times> nat list) list"
  fs_index :: "string list dict"
  fs_saved :: json

definition uri_slug :: "string \<Rightarrow> string" where
  "uri_slug uri = b64_encode (utf8 uri)"

definition index_json :: "string list dict \<Rightarrow> json" where
  "index_json ix = JObj (map (\<lambda>(uri, labels). (uri, JArr (map JStr labels))) ix)"

definition fs_put :: "string \<Rightarrow> nat list \<Rightarrow> string \<Rightarrow> file_store \<Rightarrow> file_store" where
  "fs_put uri blob tag st =
     (let st1 = st\<lparr>fs_blobs := ss_put uri blob tag (fs_blobs st),
            fs_files := AList.update (uri_slug uri, tag @ ''.qff'') blob (fs_files st)\<rparr>;
          labels = dget_or (fs_index st1) uri [] in
      if tag \<in> set labels then st1\<lparr>fs_index := dset uri labels (fs_index st1)\<rparr>
      else (let ix = dset uri (sort (labels @ [tag])) (fs_index st1) in
        st1\<lparr>fs_index := ix, fs_saved := sort_json (index_json ix)\<rparr>))"

definition fs_get :: "string \<Rightarrow> string \<Rightarrow> file_store \<Rightarrow> nat list result" where
  "fs_get uri label st = (case map_of (fs_files st) (uri_slug uri, label @ ''.qff'') of
       Some b \<Rightarrow> Return b | None \<Rightarrow> ss_get uri label (fs_blobs st))"

definition fs_list :: "string \<Rightarrow> file_store \<Rightarrow> string list" where
  "fs_list uri st = (let labels = sort (dget_or (fs_index st) uri []) in
     if labels \<noteq> [] then labels else ss_list uri (fs_blobs st))"

definition load_index :: "json \<Rightarrow> string list dict" where
  "load_index data = (case data of
       JObj kvs \<Rightarrow> concat (map (\<lambda>(uri, labels). case labels of
           JArr xs \<Rightarrow> [(uri, sort (map jstr xs))] | _ \<Rightarrow> []) kvs)
     | _ \<Rightarrow> [])"

definition open_file_store :: "((string \<times> string) \<times> nat list) list \<Rightarrow> json option \<Rightarrow> file_store" where
  "open_file_store files saved =
     \<lparr>fs_blobs = [], fs_files = files, fs_index = (case saved of None \<Rightarrow> [] | Some data \<Rightarrow> load_index data),
      fs_saved = (case saved of None \<Rightarrow> JNull | Some data \<Rightarrow> data)\<rparr>"

section \<open>The contract of a snapshot store\<close>

text \<open>A read gets the last blob put under its object and label; the labels of an object include it.\<close>

locale snapshot_store =
  fixes put :: "string \<Rightarrow> nat list \<Rightarrow> string \<Rightarrow> 's \<Rightarrow> 's"
    and get :: "string \<Rightarrow> string \<Rightarrow> 's \<Rightarrow> nat list result"
    and labels :: "string \<Rightarrow> 's \<Rightarrow> string list"
  assumes get_put: "get uri tag (put uri blob tag s) = Return blob"
    and get_put_other: "uri \<noteq> uri' \<or> tag \<noteq> tag' \<Longrightarrow> get uri' tag' (put uri blob tag s) = get uri' tag' s"
    and labels_put: "tag \<in> set (labels uri (put uri blob tag s))"
    and labels_sorted: "sorted (labels uri s)"
begin

definition put_all :: "(string \<times> nat list \<times> string) list \<Rightarrow> 's \<Rightarrow> 's" where
  "put_all ps s = foldl (\<lambda>s (uri, blob, tag). put uri blob tag s) s ps"

lemma put_all_snoc: "put_all (ps @ [(uri, blob, tag)]) s = put uri blob tag (put_all ps s)"
  by (simp add: put_all_def)

lemma get_last_put:
  assumes "\<forall>(u, b, t)\<in>set later. u \<noteq> uri \<or> t \<noteq> tag"
  shows "get uri tag (put_all (earlier @ (uri, blob, tag) # later) s) = Return blob"
  using assms
proof (induction later rule: rev_induct)
  case Nil
  then show ?case by (simp add: put_all_snoc get_put)
next
  case (snoc p later)
  obtain u b t where p: "p = (u, b, t)" by (cases p)
  have "put_all (earlier @ (uri, blob, tag) # later @ [p]) s = put u b t (put_all (earlier @ (uri, blob, tag) # later) s)"
    using put_all_snoc [of "earlier @ (uri, blob, tag) # later" u b t s] by (simp add: p)
  with snoc p show ?case by (simp add: get_put_other)
qed

end

interpretation memory: snapshot_store ss_put ss_get ss_list
  by unfold_locales (auto simp: ss_put_def ss_get_def ss_list_def dget_or_dset update_conv dkeys_dset)

text \<open>Different objects have different directories.\<close>

lemma uri_slug_inject [simp]: "uri_slug u = uri_slug v \<longleftrightarrow> u = v"
proof
  have decoded: "b64_scan 0 0 0 (uri_slug w @ b64_padding (uri_slug w)) = Return (utf8 w)" for w
    unfolding uri_slug_def by (rule b64_scan_encode [OF utf8_bytes])
  assume "uri_slug u = uri_slug v"
  then have "utf8 u = utf8 v" using decoded by (metis sum.inject(2))
  then show "u = v" using utf8_decode_utf8 by (metis option.inject)
qed simp

lemma fs_index_put: "dget_or (fs_index (fs_put uri blob tag st)) u [] =
    (let old = dget_or (fs_index st) u [] in if u = uri \<and> tag \<notin> set old then sort (old @ [tag]) else old)"
  by (simp add: fs_put_def Let_def dget_or_dset)

lemma fs_blobs_put: "fs_blobs (fs_put uri blob tag st) = ss_put uri blob tag (fs_blobs st)"
  and fs_files_put: "fs_files (fs_put uri blob tag st) = AList.update (uri_slug uri, tag @ ''.qff'') blob (fs_files st)"
  by (simp_all add: fs_put_def Let_def)

interpretation files: snapshot_store fs_put fs_get fs_list
proof unfold_locales
  fix uri uri' tag tag' blob and s :: file_store
  show "fs_get uri tag (fs_put uri blob tag s) = Return blob"
    by (simp add: fs_get_def fs_files_put update_conv)
  show "fs_get uri' tag' (fs_put uri blob tag s) = fs_get uri' tag' s" if "uri \<noteq> uri' \<or> tag \<noteq> tag'"
    using that memory.get_put_other [of uri uri' tag tag' blob "fs_blobs s"]
    by (auto simp: fs_get_def fs_files_put fs_blobs_put update_conv split: option.split)
  show "tag \<in> set (fs_list uri (fs_put uri blob tag s))"
    using fs_index_put [of uri blob tag s uri] memory.labels_put [of tag uri blob "fs_blobs s"]
    by (auto simp: fs_list_def fs_blobs_put Let_def)
  show "sorted (fs_list uri s)" by (simp add: fs_list_def Let_def memory.labels_sorted)
qed

section \<open>A store opened again\<close>

definition fs_ok :: "file_store \<Rightarrow> bool" where
  "fs_ok st = ((fs_index st = [] \<and> fs_saved st = JNull \<or> fs_saved st = sort_json (index_json (fs_index st))) \<and>
     distinct (dkeys (fs_index st)) \<and> (\<forall>uri. sorted (dget_or (fs_index st) uri [])) \<and>
     (\<forall>uri label b. ss_get uri label (fs_blobs st) = Return b \<longrightarrow>
        map_of (fs_files st) (uri_slug uri, label @ ''.qff'') = Some b \<and> label \<in> set (dget_or (fs_index st) uri [])))"

lemma fs_ok_new: "fs_ok (open_file_store [] None)"
  by (simp add: fs_ok_def open_file_store_def ss_get_def dget_or_def)

lemma fs_ok_put:
  assumes "fs_ok st"
  shows "fs_ok (fs_put uri blob tag st)"
proof -
  have get: "ss_get u l (ss_put uri blob tag (fs_blobs st)) = (if u = uri \<and> l = tag then Return blob else ss_get u l (fs_blobs st))" for u l
    using memory.get_put [of uri tag blob "fs_blobs st"] memory.get_put_other [of uri u tag l blob "fs_blobs st"] by auto
  have saved: "fs_saved (fs_put uri blob tag st) = sort_json (index_json (fs_index (fs_put uri blob tag st)))"
  proof (cases "tag \<in> set (dget_or (fs_index st) uri [])")
    case True
    then have k: "dget (fs_index st) uri = Some (dget_or (fs_index st) uri [])" and "fs_index st \<noteq> []"
      by (cases "dget (fs_index st) uri"; auto simp: dget_or_def)+
    with assms True show ?thesis by (simp add: fs_put_def Let_def dset_same fs_ok_def)
  qed (simp add: fs_put_def Let_def)
  have "distinct (dkeys (fs_index (fs_put uri blob tag st)))"
    using assms by (simp add: fs_ok_def fs_put_def Let_def distinct_dset)
  with assms saved show ?thesis
    by (auto simp: fs_ok_def fs_index_put fs_blobs_put fs_files_put get update_conv Let_def sorted_append)
qed

lemma sort_index_json:
  "sort_json (index_json ix) = JObj (map (\<lambda>(uri, labels). (uri, JArr (map JStr labels))) (sort_key fst ix))"
proof -
  have "sort_json (index_json ix) = JObj (sort_key fst (map (\<lambda>(uri, labels). (uri, JArr (map JStr labels))) ix))"
    by (simp add: index_json_def map_prod_def split_def comp_def)
  then show ?thesis by (simp only: sort_key_map_values)
qed

lemma load_saved:
  assumes "distinct (dkeys ix)" "\<forall>uri. sorted (dget_or ix uri [])"
  shows "dget_or (load_index (sort_json (index_json ix))) uri [] = dget_or ix uri []"
proof -
  have "load_index (sort_json (index_json ix)) = map (\<lambda>(uri, labels). (uri, sort labels)) (sort_key fst ix)"
    unfolding sort_index_json load_index_def
    by (simp add: split_def comp_def jstr_def concat_map_singleton del: sort_key_simps)
  moreover have "dget (map (\<lambda>(uri, labels). (uri, sort labels)) d) uri = map_option sort (dget d uri)" for d :: "string list dict"
    by (induction d) auto
  ultimately have "dget (load_index (sort_json (index_json ix))) uri = map_option sort (dget ix uri)"
    by (simp add: map_of_sort_key [OF assms(1)])
  moreover have "sort (dget_or ix uri []) = dget_or ix uri []" using assms(2) by (simp add: sorted_sort_id)
  ultimately show ?thesis by (cases "dget ix uri") (simp_all add: dget_or_def)
qed

lemma ss_get_None: "\<forall>b. ss_get uri label st \<noteq> Return b \<Longrightarrow> dget (dget_or st uri []) label = None"
  by (cases "dget (dget_or st uri []) label") (auto simp: ss_get_def)

definition reopen :: "file_store \<Rightarrow> file_store" where
  "reopen st = open_file_store (fs_files st) (if fs_saved st = JNull then None else Some (fs_saved st))"

lemma reopen_index:
  assumes "fs_ok st"
  shows "dget_or (fs_index (reopen st)) uri [] = dget_or (fs_index st) uri []"
proof -
  have nn: "sort_json (index_json ix) \<noteq> JNull" for ix by (simp add: sort_index_json)
  consider "fs_index st = []" "fs_saved st = JNull" | "fs_saved st = sort_json (index_json (fs_index st))"
    using assms by (auto simp: fs_ok_def)
  then show ?thesis
  proof cases
    case 2
    with assms nn [of "fs_index st"] load_saved [of "fs_index st" uri] show ?thesis
      by (simp add: reopen_def open_file_store_def fs_ok_def)
  qed (simp add: reopen_def open_file_store_def)
qed

text \<open>
  A file store opened again after any puts answers every read and every listing as the store that
  wrote the files did.
\<close>

theorem file_store_reopens:
  assumes "fs_ok st"
  shows "fs_get uri label (reopen (files.put_all ps st)) = fs_get uri label (files.put_all ps st) \<and>
    fs_list uri (reopen (files.put_all ps st)) = fs_list uri (files.put_all ps st)"
proof -
  let ?s = "files.put_all ps st"
  have ok: "fs_ok ?s"
    using assms by (induction ps rule: rev_induct) (auto simp: files.put_all_snoc fs_ok_put, simp add: files.put_all_def)
  have files: "fs_files (reopen ?s) = fs_files ?s" "fs_blobs (reopen ?s) = []" by (simp_all add: reopen_def open_file_store_def)
  have "fs_get uri label (reopen ?s) = fs_get uri label ?s"
  proof (cases "map_of (fs_files ?s) (uri_slug uri, label @ ''.qff'')")
    case None
    with ok have none: "ss_get uri label (fs_blobs ?s) \<noteq> Return b" for b by (auto simp: fs_ok_def)
    then have "dget (dget_or (fs_blobs ?s) uri []) label = None" using ss_get_None by blast
    with None show ?thesis by (simp add: fs_get_def files ss_get_def dget_or_def)
  qed (simp add: fs_get_def files)
  have "ss_list uri (fs_blobs ?s) = []" if none: "dget_or (fs_index ?s) uri [] = []"
  proof -
    have "ss_get uri label (fs_blobs ?s) \<noteq> Return b" for label b using ok none by (fastforce simp: fs_ok_def)
    then have "dget (dget_or (fs_blobs ?s) uri []) label = None" for label using ss_get_None by blast
    from this [of "fst (hd (dget_or (fs_blobs ?s) uri []))"] show ?thesis
      by (cases "dget_or (fs_blobs ?s) uri []") (auto simp: ss_list_def split: if_splits)
  qed
  moreover have "ss_list uri [] = []" by (simp add: ss_list_def dget_or_def)
  ultimately have "fs_list uri (reopen ?s) = fs_list uri ?s"
    using reopen_index [OF ok, of uri] by (cases "dget_or (fs_index ?s) uri []") (simp_all add: fs_list_def files Let_def)
  moreover note \<open>fs_get uri label (reopen ?s) = fs_get uri label ?s\<close>
  ultimately show ?thesis by blast
qed

theorem file_store_reopens_witness:
  "fs_get ''qso://a'' ''l'' (reopen (files.put_all [(''qso://a'', [1, 2], ''l'')] (open_file_store [] None))) = Return [1, 2]"
  using file_store_reopens [OF fs_ok_new, of "''qso://a''" "''l''" "[(''qso://a'', [1, 2], ''l'')]"]
    files.get_last_put [of "[]" "''qso://a''" "''l''" "[]" "[1, 2]" "open_file_store [] None"] by simp

section \<open>What is exported is what is imported\<close>

lemma load_entry_dumps:
  assumes "wf_json v" "canonical_floats v" "dget d name = Some (utf8 (dumps spaced v))"
  shows "load_entry d name = Return (sort_json v)"
  using assms by (simp add: load_entry_def dget_or_def decode_text_def utf8_decode_utf8 json_round_trip)

lemma deserialize_serialize:
  assumes "faithful_codec cd"
    and "\<forall>v\<in>{qf_header p, qf_state p, qf_entanglement p}. wf_json v \<and> canonical_floats v"
  shows "qff_deserialize cd (qff_serialize cd p) =
    Return \<lparr>qf_header = sort_json (qf_header p), qf_state = sort_json (qf_state p),
      qf_entanglement = sort_json (qf_entanglement p), qf_signature = qf_signature p\<rparr>"
proof -
  let ?d = "[(''header.json'', utf8 (dumps spaced (qf_header p))), (''state_index.bin'', utf8 (dumps spaced (qf_state p))),
    (''entanglement.map'', utf8 (dumps spaced (qf_entanglement p))), (''crypto.sig'', utf8 (qf_signature p)),
    (''footer.bin'', utf8 ''QFFv1''), (''tensor_blocks/.keep'', []), (''wave_blocks/.keep'', [])]"
  have "load_entry ?d ''header.json'' = Return (sort_json (qf_header p))"
    "load_entry ?d ''state_index.bin'' = Return (sort_json (qf_state p))"
    "load_entry ?d ''entanglement.map'' = Return (sort_json (qf_entanglement p))"
    by (rule load_entry_dumps; use assms(2) in simp)+
  moreover have "decode_text (dget_or ?d ''crypto.sig'' []) = Return (qf_signature p)"
    by (simp add: dget_or_def decode_text_def utf8_decode_utf8)
  moreover have "by_name ?d = ?d" by (simp add: by_name_def)
  moreover have "filter (\<lambda>n. \<not> has_key ?d n) required_entries = []" by (simp add: required_entries_def has_key_def)
  ultimately show ?thesis
    using assms(1) by (simp add: qff_deserialize_def qff_serialize_def faithful_codec_def Let_def del: dumps_def)
qed

lemma dumps_nested:
  "dumps st (JObj (as @ (k, sort_json v) # bs)) = dumps st (JObj (as @ (k, v) # bs))"
  by (simp add: dumps_def sort_json_idem)

lemma checkpoint_sorted [simp]: "snapshot_checkpoint uri n (sort_json state) = snapshot_checkpoint uri n state"
  using dumps_nested [of spaced "[(''uri'', JStr uri), (''event_count'', JInt n)]" "''state''" state "[]"]
  by (simp add: snapshot_checkpoint_def)

lemma sign_payload_sorted [simp]:
  "snapshot_sign_payload uri (sort_json state) (sort_json ent) cp = snapshot_sign_payload uri state ent cp"
  using dumps_nested [of spaced "[(''uri'', JStr uri)]" "''state''" state
      "[(''entanglement'', sort_json ent), (''event_hash_checkpoint'', JStr cp)]"]
    dumps_nested [of spaced "[(''uri'', JStr uri), (''state'', state)]" "''entanglement''" ent "[(''event_hash_checkpoint'', JStr cp)]"]
  by (simp add: snapshot_sign_payload_def)

lemma import_export:
  assumes "faithful_codec cd" "wf_json (JObj state)" "canonical_floats (JObj state)"
    and "wf_json (JArr entanglement)" "canonical_floats (JArr entanglement)"
  shows "import_snapshot cd c check (export_snapshot cd c uri state entanglement n pv rv now) =
    Return \<lparr>qf_header = sort_json (snapshot_header uri n now pv rv (snapshot_checkpoint uri n (JObj state))),
      qf_state = sort_json (JObj state), qf_entanglement = sort_json (JArr entanglement),
      qf_signature = sign c (snapshot_sign_payload uri (JObj state) (JArr entanglement) (snapshot_checkpoint uri n (JObj state)))\<rparr>"
proof -
  let ?cp = "snapshot_checkpoint uri n (JObj state)"
  let ?h = "snapshot_header uri n now pv rv ?cp"
  let ?fields = "[(''uri'', JStr uri), (''event_count'', JInt n), (''exported_at'', JStr now),
      (''compression'', JStr ''gzip''), (''encrypted'', JBool False), (''policy_version'', JStr pv),
      (''runtime_version'', JStr rv), (''event_hash_checkpoint'', JStr ?cp)]"
  have h: "?h = JObj ?fields" by (simp add: snapshot_header_def)
  have "wf_json ?h" "canonical_floats ?h" by (simp_all add: h)
  with assms have "qff_deserialize cd (export_snapshot cd c uri state entanglement n pv rv now) =
      Return \<lparr>qf_header = sort_json ?h, qf_state = sort_json (JObj state), qf_entanglement = sort_json (JArr entanglement),
        qf_signature = sign c (snapshot_sign_payload uri (JObj state) (JArr entanglement) ?cp)\<rparr>"
    unfolding export_snapshot_def
    by (subst deserialize_serialize) (simp_all add: export_payload_def Let_def del: sort_json.simps wf_json.simps canonical_floats.simps)
  moreover have "sort_json ?h = JObj (sorted_row ?fields)" by (simp only: h sort_json_row)
  moreover have "dget (sorted_row ?fields) k = map_option sort_json (dget ?fields k)" for k
    by (rule dget_sorted_row) simp
  ultimately show ?thesis
    by (simp add: import_snapshot_def Let_def header_event_count_def jget_or_def jget_def int_of_json_def dget_or_def jstr_def
        hmac.check_sign del: sort_json.simps add: sort_json.simps(1-5))
qed

text \<open>
  C15: importing an exported snapshot, under the key it was signed with and a codec that unpacks what
  it packed, succeeds and gives back its state and links.
\<close>

theorem snapshot_round_trip:
  assumes "faithful_codec cd" "wf_json (JObj state)" "canonical_floats (JObj state)"
    and "wf_json (JArr entanglement)" "canonical_floats (JArr entanglement)"
  shows "import_snapshot cd c check (export_snapshot cd c uri state entanglement n pv rv now) =
    Return \<lparr>qf_header = sort_json (snapshot_header uri n now pv rv (snapshot_checkpoint uri n (JObj state))),
      qf_state = sort_json (JObj state), qf_entanglement = sort_json (JArr entanglement),
      qf_signature = sign c (snapshot_sign_payload uri (JObj state) (JArr entanglement) (snapshot_checkpoint uri n (JObj state)))\<rparr>"
  using assms by (rule import_export)

text \<open>A codec of archives: never empty, made of bytes, and read back as packed.\<close>

definition byte_codec :: "archive_codec \<Rightarrow> bool" where
  "byte_codec cd = (faithful_codec cd \<and> (\<forall>es. pack cd es \<noteq> [] \<and> (\<forall>b\<in>set (pack cd es). b < 256)))"

text \<open>A codec that writes the files as a JSON list.\<close>

definition entry_json :: "entry \<Rightarrow> json" where
  "entry_json e = JArr [JStr (fst e), JArr (map (\<lambda>b. JInt (int b)) (snd e))]"

definition json_entry :: "json \<Rightarrow> entry result" where
  "json_entry v = (case v of
       JArr [JStr name, JArr bs] \<Rightarrow> Return (name, map (\<lambda>b. case b of JInt i \<Rightarrow> nat i | _ \<Rightarrow> 0) bs)
     | _ \<Rightarrow> Raise (OSError ''not an entry''))"

definition json_codec :: archive_codec where
  "json_codec = \<lparr>pack = (\<lambda>es. utf8 (dumps Json.compact (JArr (map entry_json es)))),
     unpack = (\<lambda>bs. bindR (decode_text bs) (\<lambda>t. bindR (json_loads t) (\<lambda>v. case v of
       JArr xs \<Rightarrow> mapR json_entry xs | _ \<Rightarrow> Raise (OSError ''not a list''))))\<rparr>"

lemma json_codec_bytes: "byte_codec json_codec"
proof -
  have plain: "sort_json (entry_json e) = entry_json e" "wf_json (entry_json e)" "canonical_floats (entry_json e)"
    "json_entry (entry_json e) = Return e" for e
    by (simp_all add: entry_json_def json_entry_def list_all_iff comp_def)
  have "json_loads (dumps Json.compact (JArr (map entry_json es))) = Return (JArr (map entry_json es))" for es
    using json_round_trip [of "JArr (map entry_json es)" Json.compact] by (simp add: plain list_all_iff comp_def)
  moreover have "mapR json_entry (map entry_json es) = Return es" for es by (induction es) (simp_all add: plain)
  ultimately have "faithful_codec json_codec"
    by (simp add: faithful_codec_def json_codec_def decode_text_def utf8_decode_utf8)
  moreover have "pack json_codec es \<noteq> []" for es
    using utf8_nonempty [of "dumps Json.compact (JArr (map entry_json es))"] by (simp add: json_codec_def dumps_def)
  ultimately show ?thesis by (simp add: byte_codec_def json_codec_def utf8_bytes)
qed

lemma json_codec_faithful: "faithful_codec json_codec"
  using json_codec_bytes by (simp add: byte_codec_def)

theorem snapshot_round_trip_witness:
  "\<exists>p. import_snapshot json_codec \<lparr>cr_secret = [1]\<rparr> True
      (export_snapshot json_codec \<lparr>cr_secret = [1]\<rparr> ''qso://a'' [(''x'', JInt 1)] [] 2 ''v1'' default_runtime_version ''now'') = Return p \<and>
    qf_state p = JObj [(''x'', JInt 1)]"
  using snapshot_round_trip [OF json_codec_faithful, of "[(''x'', JInt 1)]" "[]" "\<lparr>cr_secret = [1]\<rparr>" True "''qso://a''" 2 "''v1''"
      default_runtime_version "''now''"] by simp

text \<open>
  A snapshot that is accepted is the exported one its signature was made for, in its object, state,
  links and checkpoint, unless two payloads with one HMAC are known.
\<close>

theorem snapshot_tamper_evident:
  assumes "import_snapshot cd c True blob = Return p" "qf_header p = JObj header" "wf_json (qf_state p)" "wf_json (qf_entanglement p)"
    and "wf_json (JObj state)" "wf_json (JArr entanglement)"
    and "qf_signature p = sign c (snapshot_sign_payload uri (JObj state) (JArr entanglement) checkpoint)"
  shows "(\<exists>a b. a \<noteq> b \<and> sign c a = sign c b) \<or>
    (jstr (dget_or header ''uri'' (JStr [])) = uri \<and> sort_json (qf_state p) = sort_json (JObj state) \<and>
     sort_json (qf_entanglement p) = sort_json (JArr entanglement) \<and>
     jstr (dget_or header ''event_hash_checkpoint'' (JStr [])) = checkpoint)"
proof -
  let ?u = "jstr (dget_or header ''uri'' (JStr []))" and ?cp = "jstr (dget_or header ''event_hash_checkpoint'' (JStr []))"
  let ?mine = "snapshot_sign_payload ?u (qf_state p) (qf_entanglement p) ?cp"
    and ?theirs = "snapshot_sign_payload uri (JObj state) (JArr entanglement) checkpoint"
  have "verify c ?mine (qf_signature p) = Return True"
    using assms(1,2) by (auto simp: import_snapshot_def Let_def elim!: bindR_ReturnE split: json.splits if_splits)
  then have same: "sign c ?mine = sign c ?theirs" using assms(7) by (simp add: hmac.check_iff)
  show ?thesis
  proof (cases "?mine = ?theirs")
    case True
    let ?o = "\<lambda>u s e k. JObj [(''uri'', JStr u), (''state'', s), (''entanglement'', e), (''event_hash_checkpoint'', JStr k)]"
    have eq: "sort_json (?o ?u (qf_state p) (qf_entanglement p) ?cp) = sort_json (?o uri (JObj state) (JArr entanglement) checkpoint)"
      using True assms(3-6) unfolding snapshot_sign_payload_def
      by (intro dumps_inj [where st = spaced]) (simp_all del: sort_json.simps)
    have wf: "wf_json (?o ?u (qf_state p) (qf_entanglement p) ?cp)" "wf_json (?o uri (JObj state) (JArr entanglement) checkpoint)"
      using assms(3-6) by simp_all
    have "sort_json (JStr ?u) = sort_json (JStr uri)" "sort_json (JStr ?cp) = sort_json (JStr checkpoint)"
      by (rule sort_json_eqD [OF eq wf, of "''uri''"] sort_json_eqD [OF eq wf, of "''event_hash_checkpoint''"]; simp add: jget_def)+
    moreover have "sort_json (qf_state p) = sort_json (JObj state)"
      by (rule sort_json_eqD [OF eq wf, of "''state''"]) (simp_all add: jget_def)
    moreover have "sort_json (qf_entanglement p) = sort_json (JArr entanglement)"
      by (rule sort_json_eqD [OF eq wf, of "''entanglement''"]) (simp_all add: jget_def)
    ultimately show ?thesis by (simp del: sort_json.simps add: sort_json.simps(1-5))
  qed (use same in blast)
qed

theorem snapshot_tamper_evident_witness:
  "\<exists>p header. import_snapshot json_codec \<lparr>cr_secret = [1]\<rparr> True
      (export_snapshot json_codec \<lparr>cr_secret = [1]\<rparr> ''qso://a'' [(''x'', JInt 1)] [] 2 ''v1'' default_runtime_version ''now'') = Return p \<and>
    qf_header p = JObj header \<and>
    ((\<exists>a b. a \<noteq> b \<and> sign \<lparr>cr_secret = [1]\<rparr> a = sign \<lparr>cr_secret = [1]\<rparr> b) \<or> jstr (dget_or header ''uri'' (JStr [])) = ''qso://a'')"
proof -
  let ?k = "\<lparr>cr_secret = [1]\<rparr>" and ?s = "[(''x'', JInt 1)]"
  let ?cp = "snapshot_checkpoint ''qso://a'' 2 (JObj ?s)"
  obtain p where p: "import_snapshot json_codec ?k True
      (export_snapshot json_codec ?k ''qso://a'' ?s [] 2 ''v1'' default_runtime_version ''now'') = Return p"
    "qf_header p = sort_json (snapshot_header ''qso://a'' 2 ''now'' ''v1'' default_runtime_version ?cp)"
    "qf_state p = JObj ?s" "qf_entanglement p = JArr []" "qf_signature p = sign ?k (snapshot_sign_payload ''qso://a'' (JObj ?s) (JArr []) ?cp)"
    by (rule that [OF import_export [OF json_codec_faithful]]) simp_all
  then obtain header where h: "qf_header p = JObj header" by (simp add: snapshot_header_def)
  have "(\<exists>a b. a \<noteq> b \<and> sign ?k a = sign ?k b) \<or> jstr (dget_or header ''uri'' (JStr [])) = ''qso://a''"
    using snapshot_tamper_evident [OF p(1) h, of ?s "[]" "''qso://a''" ?cp] p(3-5) by auto
  with p(1) h show ?thesis by blast
qed

section \<open>Export and import of objects\<close>

record snapshot_world =
  sw_fabric :: fabric
  sw_blobs :: blob_store

definition with_fabric :: "(fabric, 'a) op \<Rightarrow> (snapshot_world, 'a) op" where
  "with_fabric m = (\<lambda>w. case m (sw_fabric w) of (r, s) \<Rightarrow> (r, w\<lparr>sw_fabric := s\<rparr>))"

definition keep_blob :: "fabric_env \<Rightarrow> string \<Rightarrow> nat list \<Rightarrow> string option \<Rightarrow> (snapshot_world, unit) op" where
  "keep_blob env uri blob label = bindS (with_fabric next_call) (\<lambda>n.
     writeS (\<lambda>w. w\<lparr>sw_blobs := ss_put uri blob (snapshot_tag label (fe_now env n)) (sw_blobs w)\<rparr>))"

text \<open>\<^verbatim>\<open>EntanglementLink.model_dump\<close>; \<^verbatim>\<open>EntanglementLink(**raw)\<close> is pydantic's.\<close>

definition link_json :: "entanglement_link \<Rightarrow> json" where
  "link_json l = JObj
     [(''source_uri'', JStr (el_source l)), (''target_uri'', JStr (el_target l)), (''relationship'', JStr (el_relationship l)),
      (''strength'', el_strength l), (''sync_mode'', JStr (sync_value (el_sync_mode l))),
      (''latency_target_ms'', JInt (el_latency_ms l)), (''bidirectional'', JBool (el_bidirectional l))]"

definition qso_export_snapshot :: "fabric_env \<Rightarrow> archive_codec \<Rightarrow> string \<Rightarrow> (snapshot_world, nat list) op" where
  "qso_export_snapshot env cd uri =
     bindS (with_fabric (qso_read uri)) (\<lambda>obj.
     bindS (with_fabric next_call) (\<lambda>n.
     bindS (readS (\<lambda>w. let s = sw_fabric w in
         Return (export_snapshot cd (eg_crypto (fr_engine s)) uri (ob_state_layer obj)
           (map link_json (list_links (gr_links (fr_graph s)) uri)) (int (length (el_timeline (eg_log (fr_engine s)) uri)))
           ''v1'' default_runtime_version (fe_now env n)))) (\<lambda>blob.
     thenS (keep_blob env uri blob None) (returnS blob))))"

text \<open>What a \<open>for\<close> loop meets in a JSON value; only a list of objects makes links.\<close>

definition link_rows :: "json \<Rightarrow> json list result" where
  "link_rows v = (case v of JArr xs \<Rightarrow> Return xs | JObj [] \<Rightarrow> Return [] | JStr [] \<Rightarrow> Return []
     | _ \<Rightarrow> Raise (TypeError ''argument after ** must be a mapping''))"

definition import_links :: "(json \<Rightarrow> entanglement_link result) \<Rightarrow> json \<Rightarrow> (fabric, unit) op" where
  "import_links validate_link raw =
     bindS (liftS (link_rows raw)) (eachS (\<lambda>v.
       bindS (liftS (validate_link v)) (\<lambda>l. bindS (qso_entangle_link l False) (\<lambda>_. returnS ()))))"

definition state_delta :: "json \<Rightarrow> json dict result" where
  "state_delta v = (case v of JObj kvs \<Rightarrow> Return kvs | _ \<Rightarrow> Raise (TypeError ''delta must be a dict''))"

text \<open>A header whose \<open>uri\<close> is missing or is not a string is refused.\<close>

definition header_uri :: "json dict \<Rightarrow> string result" where
  "header_uri header = (case dget header ''uri'' of
       Some (JStr uri) \<Rightarrow> Return uri
     | Some _ \<Rightarrow> Raise (ValueError ''uri must be a string'')
     | None \<Rightarrow> Raise (KeyError ''uri''))"

definition qso_import_snapshot ::
    "fabric_env \<Rightarrow> archive_codec \<Rightarrow> (json \<Rightarrow> entanglement_link result) \<Rightarrow> nat list \<Rightarrow> (snapshot_world, qff_payload) op" where
  "qso_import_snapshot env cd validate_link qff =
     bindS (readS (\<lambda>w. import_snapshot cd (eg_crypto (fr_engine (sw_fabric w))) True qff)) (\<lambda>parsed.
     bindS (liftS (py_dict (qf_header parsed))) (\<lambda>header.
     bindS (liftS (header_uri header)) (\<lambda>uri.
     thenS (keep_blob env uri qff (Some (''import_'' @ jstr (dget_or header ''event_count'' (JInt 0)))))
     (thenS (with_fabric (ensure_object env uri [(''imported'', JBool True)] ''system''))
     (bindS (liftS (state_delta (qf_state parsed))) (\<lambda>delta.
      bindS (with_fabric (engine_patch env uri delta ''snapshot-import'' (jstr (dget_or header ''policy_version'' (JStr ''v1'')))
          ''snapshot-import'')) (\<lambda>_.
      thenS (with_fabric (import_links validate_link (qf_entanglement parsed))) (returnS parsed))))))))"

section \<open>An import restores the object\<close>

lemma deep_merge_fresh:
  "distinct (dkeys out @ dkeys d) \<Longrightarrow> deep_merge out d = out @ d"
proof (induction d arbitrary: out)
  case (Cons kv d)
  obtain k v where kv: "kv = (k, v)" by (cases kv)
  have k: "k \<notin> set (dkeys out)" using Cons.prems kv by auto
  then have "dget out k = None" by (simp add: map_of_eq_None_iff)
  moreover have "deep_merge (out @ [(k, v)]) d = (out @ [(k, v)]) @ d"
    by (rule Cons.IH) (use Cons.prems kv in auto)
  ultimately show ?case using kv by (cases v) (simp_all add: dset_new [OF k])
qed simp

lemma with_fabric_Return: "with_fabric m w = (Inr x, w') \<longleftrightarrow> (\<exists>s. m (sw_fabric w) = (Inr x, s) \<and> w' = w\<lparr>sw_fabric := s\<rparr>)"
  by (auto simp: with_fabric_def split: prod.splits)

lemma import_links_engine: "keeps (\<lambda>s. fr_engine s = g) (import_links validate_link raw)"
proof -
  have "keeps (\<lambda>s. fr_engine s = g) (qso_entangle_link l False)" for l
    by (simp add: keeps_def qso_entangle_link_def split: prod.split)
  then show ?thesis unfolding import_links_def by (intro keeps_intros)
qed

text \<open>
  A snapshot imported where its object is unknown makes the object with exactly the state of the
  snapshot, and keeps the blob under the label of its event count.
\<close>

theorem import_restores_state:
  assumes "live (sw_fabric w)" and run: "qso_import_snapshot env cd validate_link qff w = (Inr p, w')"
    and header: "qf_header p = JObj header" "dget header ''uri'' = Some (JStr uri)"
    and fresh: "\<not> has_key (eg_registry (fr_engine (sw_fabric w))) uri" and wf: "wf_json (qf_state p)"
  shows "\<exists>obj. dget (eg_registry (fr_engine (sw_fabric w'))) uri = Some obj \<and> JObj (ob_state_layer obj) = qf_state p \<and>
    ss_get uri (''import_'' @ jstr (dget_or header ''event_count'' (JInt 0))) (sw_blobs w') = Return qff"
proof -
  let ?label = "''import_'' @ jstr (dget_or header ''event_count'' (JInt 0))"
  obtain n s1 s2 s3 s4 d e where n: "next_call (sw_fabric w) = (Inr n, s1)"
    and ens: "ensure_object env uri [(''imported'', JBool True)] ''system'' s1 = (Inr (), s2)"
    and d: "state_delta (qf_state p) = Return d"
    and pt: "engine_patch env uri d ''snapshot-import'' (jstr (dget_or header ''policy_version'' (JStr ''v1''))) ''snapshot-import'' s2
      = (Inr e, s3)"
    and links: "import_links validate_link (qf_entanglement p) s3 = (Inr (), s4)"
    and w': "w' = w\<lparr>sw_fabric := s4, sw_blobs := ss_put uri qff ?label (sw_blobs w)\<rparr>"
    using run header
    by (auto simp: qso_import_snapshot_def keep_blob_def bindS_Return thenS_Return with_fabric_Return writeS_def header_uri_def
        snapshot_tag_def py_dict_def)
  have live1: "live s1" using keepsD [OF live_tools(1) assms(1)] n by (metis snd_conv)
  have reg1: "eg_registry (fr_engine s1) = eg_registry (fr_engine (sw_fabric w))"
    using n by (auto simp: next_call_def)
  have live2: "live s2" using keepsD [OF live_ensure live1] ens by (metis snd_conv)
  obtain obj where obj: "dget (eg_registry (fr_engine s2)) uri = Some obj" "ob_state_layer obj = []"
    using ens fresh by (auto simp: ensure_object_def bindS_Return qso_has_def rg_has_def reg1 qso_create_by_def next_call_def
        on_engine_def create_object_def rg_create_def Let_def split: prod.splits if_splits)
  have "patch (fe_uuid env (fr_calls s2)) uri d ''snapshot-import'' (jstr (dget_or header ''policy_version'' (JStr ''v1''))) ''snapshot-import''
      (fr_engine s2) = (Inr e, fr_engine s3)"
    using pt by (auto simp: engine_patch_Return)
  then obtain obj' where obj': "eg_registry (fr_engine s3) = dset uri obj' (eg_registry (fr_engine s2))"
    "ob_state_layer obj' = deep_merge [] d"
    using patch_registry [of "fr_engine s2"] live2 obj by (fastforce simp: live_def)
  have st: "qf_state p = JObj d" using d by (auto simp: state_delta_def split: json.splits)
  then have "deep_merge [] d = d" using deep_merge_fresh [of "[]" d] wf by simp
  moreover have "fr_engine s4 = fr_engine s3"
    using keepsD [OF import_links_engine [of "fr_engine s3" validate_link "qf_entanglement p"], of s3] links by simp
  ultimately show ?thesis
    using obj' st w' memory.get_put [of uri ?label qff "sw_blobs w"] by (simp add: update_conv)
qed

abbreviation sample_key :: crypto where
  "sample_key \<equiv> \<lparr>cr_secret = [1]\<rparr>"

definition sample_blob :: "nat list" where
  "sample_blob = export_snapshot json_codec sample_key ''qso://a'' [(''x'', JInt 1)] [] 2 ''v1'' default_runtime_version ''now''"

definition empty_world :: snapshot_world where
  "empty_world = \<lparr>sw_fabric = new_fabric sample_key, sw_blobs = []\<rparr>"

theorem import_restores_state_witness:
  "\<exists>p w' obj. qso_import_snapshot sample_env json_codec (\<lambda>_. Raise (ValueError [])) sample_blob empty_world = (Inr p, w') \<and>
    dget (eg_registry (fr_engine (sw_fabric w'))) ''qso://a'' = Some obj \<and> ob_state_layer obj = [(''x'', JInt 1)]"
proof -
  let ?h = "[(''uri'', JStr ''qso://a''), (''event_count'', JInt 2), (''exported_at'', JStr ''now''),
      (''compression'', JStr ''gzip''), (''encrypted'', JBool False), (''policy_version'', JStr ''v1''),
      (''runtime_version'', JStr default_runtime_version),
      (''event_hash_checkpoint'', JStr (snapshot_checkpoint ''qso://a'' 2 (JObj [(''x'', JInt 1)])))]"
  obtain p where p: "import_snapshot json_codec sample_key True sample_blob = Return p"
    "qf_header p = sort_json (snapshot_header ''qso://a'' 2 ''now'' ''v1'' default_runtime_version
      (snapshot_checkpoint ''qso://a'' 2 (JObj [(''x'', JInt 1)])))"
    "qf_state p = JObj [(''x'', JInt 1)]" "qf_entanglement p = JArr []"
    by (rule that [unfolded sample_blob_def, OF import_export [OF json_codec_faithful]]) simp_all
  have h: "qf_header p = JObj (sorted_row ?h)" unfolding p(2) snapshot_header_def by (rule sort_json_row)
  have get: "dget (sorted_row ?h) k = map_option sort_json (dget ?h k)" for k by (rule dget_sorted_row) simp
  let ?obj = "\<lparr>ob_uri = ''qso://a'', ob_schema = [(''imported'', JBool True)],
      ob_identity_layer = [(''uri'', JStr ''qso://a''), (''created_by'', JStr ''system''), (''created_at'', JStr ''now'')],
      ob_state_layer = [], ob_timeline = [], ob_entanglement = [], ob_snapshot_layer = []\<rparr>"
  obtain s1 where s1: "next_call (new_fabric sample_key) = (Inr 0, s1)" "fr_engine s1 = fresh_engine sample_key" "fr_calls s1 = 1"
    by (simp add: next_call_def new_fabric_def)
  have live1: "live s1" using keepsD [OF live_tools(1) live_new] s1(1) by (metis snd_conv)
  obtain s2 where s2: "ensure_object sample_env ''qso://a'' [(''imported'', JBool True)] ''system'' s1 = (Inr (), s2)"
    "dget (eg_registry (fr_engine s2)) ''qso://a'' = Some ?obj" "eg_policy (fr_engine s2) = None" "fr_calls s2 = 2"
    using s1 by (simp add: ensure_object_def bindS_def qso_has_def readS_def returnS_def rg_has_def has_key_def qso_create_by_def
        next_call_def on_engine_def create_object_def rg_create_def Let_def fresh_engine_def sample_env_def)
  have live2: "live s2" using keepsD [OF live_ensure live1] s2(1) by (metis snd_conv)
  have "\<exists>e g. patch (fe_uuid sample_env 2) ''qso://a'' [(''x'', JInt 1)] ''snapshot-import'' ''v1'' ''snapshot-import'' (fr_engine s2) = (Inr e, g)"
    by (rule patch_accepted) (use live2 s2 in \<open>auto simp: live_def sample_env_def strip_Nil_iff is_space_def\<close>)
  then obtain e s3 where s3: "engine_patch sample_env ''qso://a'' [(''x'', JInt 1)] ''snapshot-import'' ''v1'' ''snapshot-import'' s2 = (Inr e, s3)"
    using s2(4) by (auto simp: engine_patch_Return)
  have run: "\<exists>w'. qso_import_snapshot sample_env json_codec (\<lambda>_. Raise (ValueError [])) sample_blob empty_world = (Inr p, w')"
    using p(1,3,4) h s1(1) s2(1) s3
    by (simp add: qso_import_snapshot_def empty_world_def bindS_Return thenS_Return with_fabric_Return keep_blob_def writeS_def
        header_uri_def py_dict_def get dget_or_def state_delta_def jstr_def import_links_def link_rows_def new_fabric_def fresh_engine_def)
  then obtain w' where run: "qso_import_snapshot sample_env json_codec (\<lambda>_. Raise (ValueError [])) sample_blob empty_world = (Inr p, w')"
    by blast
  have "live (sw_fabric empty_world)" by (simp add: empty_world_def live_new)
  from import_restores_state [OF this run h, of "''qso://a''"] run p(3) show ?thesis
    by (auto simp: get empty_world_def new_fabric_def fresh_engine_def has_key_def)
qed

end
