(* ===== verification/Identity_Verifier.thy ===== *)
theory Identity_Verifier
  imports Qff_Snapshot Prefix_Stream Transport_Manager
begin

text \<open>
  \<^verbatim>\<open>services/identity_verifier/service.py\<close>: the export of an identity as a signed bundle and its
  verification in six steps.  A bundle is a JSON object; the raw bytes a caller in the same process may put
  into it are the argument \<open>direct\<close>.  \<^verbatim>\<open>QSOEvent.model_validate\<close> is the argument \<open>validate\<close>, and the
  archive formats are the codec of \<^verbatim>\<open>Qff_Snapshot\<close>.
\<close>

section \<open>Bytes and manifests\<close>

text \<open>\<^verbatim>\<open>base64.b64encode\<close> and \<^verbatim>\<open>b64decode\<close>: the standard alphabet, with padding.\<close>

definition std_char :: "char \<Rightarrow> char" where
  "std_char c = (if c = CHR ''-'' then CHR ''+'' else if c = CHR ''_'' then CHR ''/'' else c)"

definition b64_std_encode :: "nat list \<Rightarrow> string" where
  "b64_std_encode bs = (let s = map std_char (b64_encode bs) in s @ b64_padding s)"

definition b64_std_decode :: "string \<Rightarrow> nat list result" where
  "b64_std_decode s = b64_scan 0 0 0 (filter (\<lambda>c. c \<noteq> CHR ''-'' \<and> c \<noteq> CHR ''_'') s)"

definition sha256_hex_bytes :: "nat list \<Rightarrow> string" where
  "sha256_hex_bytes bs = concat (map (\<lambda>w. concat (map hex_byte (be_bytes 4 (unat w)))) (sha256_words bs))"

definition snapshot_bytes :: "nat list option \<Rightarrow> json dict \<Rightarrow> nat list result" where
  "snapshot_bytes direct bundle = (case direct of
       Some b \<Rightarrow> Return b
     | None \<Rightarrow>
         (case dget bundle ''identity_snapshot_qff_b64'' of
            Some (JStr (c # cs)) \<Rightarrow>
              (if \<exists>x\<in>set (c # cs). 127 < code x then Raise (ValueError ''invalid identity_snapshot_qff_b64 payload'')
               else case b64_std_decode (c # cs) of
                 Inl e \<Rightarrow> Raise (ValueError ''invalid identity_snapshot_qff_b64 payload'')
               | Inr b \<Rightarrow> Return b)
          | _ \<Rightarrow> Raise (ValueError ''identity snapshot payload missing'')))"

definition snapshot_entries :: "archive_codec \<Rightarrow> nat list \<Rightarrow> nat list dict result" where
  "snapshot_entries cd snapshot_qff = (case unpack cd snapshot_qff of
       Inl e \<Rightarrow> Raise (ValueError ''snapshot is not valid'')
     | Inr es \<Rightarrow> (let d = by_name es in
         if d = [] then Raise (ValueError ''snapshot has no file entries'') else Return d))"

definition block_manifest :: "archive_codec \<Rightarrow> nat list \<Rightarrow> json dict result" where
  "block_manifest cd snapshot_qff = bindR (snapshot_entries cd snapshot_qff) (\<lambda>d.
     Return (sort_key fst (map (\<lambda>(name, content). (name, JStr (sha256_hex_bytes content))) d)))"

definition credential_manifest :: "identity_state \<Rightarrow> json dict" where
  "credential_manifest s =
     map (\<lambda>(k, record). (k, JStr (jstr (dget_or record ''status'' (JStr ''unknown''))))) (is_credential_refs s)"

text \<open>Equality of dictionaries does not see the order of their keys.\<close>

definition same_dict :: "json dict \<Rightarrow> json dict \<Rightarrow> bool" where
  "same_dict a b = list_all (\<lambda>k. dget a k = dget b k) (dkeys a @ dkeys b)"

section \<open>Bundles\<close>

definition bundle_signing_payload :: "json dict \<Rightarrow> string" where
  "bundle_signing_payload bundle =
     (let get = (\<lambda>k. (k, dget_or bundle k JNull)); list = (\<lambda>k. (k, dget_or bundle k (JArr []))) in
      dumps Json.compact (JObj [get ''identity_uri'', get ''policy_version'', get ''declared_state_hash'', get ''snapshot_hash'',
        get ''block_manifest'', get ''credential_manifest'', list ''trust_roots'', list ''timeline'']))"

definition sign_bundle :: "crypto \<Rightarrow> json dict \<Rightarrow> json dict" where
  "sign_bundle c bundle = dset ''transfer_sig'' (JStr (sign c (bundle_signing_payload bundle))) bundle"

definition timeline_events :: "(json \<Rightarrow> qso_event result) \<Rightarrow> json option \<Rightarrow> qso_event list result" where
  "timeline_events validate raw = (case raw of
       Some (JArr rows) \<Rightarrow> bindR (mapR validate rows) (\<lambda>es. Return (sort_key replay_key es))
     | _ \<Rightarrow> Raise (ValueError ''bundle.timeline missing or invalid''))"

definition bundle_kernel_event :: "qso_event \<Rightarrow> identity_event result" where
  "bundle_kernel_event event = (case dget (qe_delta event) ''identity_event'' of
       Some (JObj raw) \<Rightarrow>
         (let payload = (case dget_or raw ''payload'' (JObj []) of JObj p \<Rightarrow> p | _ \<Rightarrow> []);
              given = (\<lambda>k d. jstr (dget_or raw k (JStr d))) in
          bindR (parse_identity_event_type (given ''event_type'' [])) (\<lambda>ty.
          Return \<lparr>ie_event_id = given ''event_id'' (qe_event_id event), ie_event_type = ty,
            ie_actor = given ''actor'' (qe_actor event), ie_policy_version = given ''policy_version'' (qe_policy_version event),
            ie_payload = payload, ie_node_id = given ''node_id'' (qe_node_id event),
            ie_timestamp = Some (given ''timestamp'' (isoformat (qe_timestamp event)))\<rparr>))
     | _ \<Rightarrow> Raise (ValueError (''timeline event missing identity_event payload: '' @ qe_event_id event)))"

definition kernel_events_from_timeline :: "qso_event list \<Rightarrow> identity_event list result" where
  "kernel_events_from_timeline events = bindR (mapR bundle_kernel_event events) (\<lambda>out.
     if out = [] then Raise (ValueError ''bundle timeline contains no identity events'') else Return out)"

section \<open>Verification\<close>

type_synonym verify_step = "json dict"

record verdict =
  vd_accepted :: bool
  vd_reason :: string
  vd_failed_step :: "string option"
  vd_identity_uri :: string
  vd_policy_version :: string
  vd_strict_archival :: "bool option"
  vd_steps :: "verify_step list"

definition verify_fail :: "string \<Rightarrow> py_error \<Rightarrow> verify_step list \<Rightarrow> verdict" where
  "verify_fail name e steps =
     \<lparr>vd_accepted = False, vd_reason = exc_text e, vd_failed_step = Some name, vd_identity_uri = [], vd_policy_version = [],
      vd_strict_archival = None, vd_steps = steps @ [[(''step'', JStr name), (''ok'', JBool False), (''reason'', JStr (exc_text e))]]\<rparr>"

definition passed :: "string \<Rightarrow> json dict \<Rightarrow> verify_step" where
  "passed name extra = [(''step'', JStr name), (''ok'', JBool True)] @ extra"

text \<open>A step that fails ends the verification.\<close>

definition staged :: "string \<Rightarrow> 'a result \<Rightarrow> verify_step list \<Rightarrow> ('a \<Rightarrow> verdict) \<Rightarrow> verdict" where
  "staged name r steps k = (case r of Inl e \<Rightarrow> verify_fail name e steps | Inr x \<Rightarrow> k x)"

definition check_identity_uri :: "json dict \<Rightarrow> string result" where
  "check_identity_uri bundle = (let uri = jstr (dget_or bundle ''identity_uri'' (JStr [])) in
     bindR (validate_identity_person_uri uri) (\<lambda>_. Return uri))"

definition check_blocks :: "archive_codec \<Rightarrow> nat list option \<Rightarrow> json dict \<Rightarrow> nat list result" where
  "check_blocks cd direct bundle =
     bindR (snapshot_bytes direct bundle) (\<lambda>snapshot_qff.
     bindR (block_manifest cd snapshot_qff) (\<lambda>actual.
       case dget bundle ''block_manifest'' of
         Some (JObj expected) \<Rightarrow>
           if same_dict actual expected then Return snapshot_qff else Raise (ValueError ''block hash manifest mismatch'')
       | _ \<Rightarrow> Raise (ValueError ''bundle.block_manifest missing or invalid'')))"

definition check_event :: "crypto \<Rightarrow> qso_event \<Rightarrow> unit result" where
  "check_event c event = bindR (qso_event_payload event) (\<lambda>p. bindR (verify c p (qe_signature event)) (\<lambda>ok.
     if ok then Return () else Raise (ValueError (''event signature validation failed for '' @ qe_event_id event))))"

definition check_signatures ::
    "archive_codec \<Rightarrow> crypto \<Rightarrow> (json \<Rightarrow> qso_event result) \<Rightarrow> nat list \<Rightarrow> json dict \<Rightarrow> (qff_payload \<times> qso_event list) result" where
  "check_signatures cd c validate snapshot_qff bundle =
     (let transfer_sig = jstr (dget_or bundle ''transfer_sig'' (JStr [])) in
      if transfer_sig = [] then Raise (ValueError ''bundle.transfer_sig missing'')
      else bindR (verify c (bundle_signing_payload bundle) transfer_sig) (\<lambda>ok.
        if \<not> ok then Raise (ValueError ''bundle transfer signature validation failed'')
        else bindR (import_snapshot cd c True snapshot_qff) (\<lambda>parsed.
          bindR (timeline_events validate (dget bundle ''timeline'')) (\<lambda>events.
          bindR (mapR (check_event c) events) (\<lambda>_. Return (parsed, events))))))"

definition check_policy_version :: "qff_payload \<Rightarrow> qso_event list \<Rightarrow> json dict \<Rightarrow> string result" where
  "check_policy_version parsed events bundle =
     (let version = jstr (dget_or bundle ''policy_version'' (JStr [])) in
      if version = [] then Raise (ValueError ''bundle.policy_version missing'')
      else let snapshot_version = jstr (jget_or (qf_header parsed) ''policy_version'' (JStr [])) in
        if snapshot_version \<noteq> version
        then Raise (ValueError (''policy version mismatch: snapshot='' @ snapshot_version @ '', bundle='' @ version))
        else (case filter (\<lambda>e. qe_policy_version e \<noteq> version) events of
            e # _ \<Rightarrow> Raise (ValueError (''timeline event policy mismatch: '' @ qe_event_id e @ ''='' @ qe_policy_version e @
              '', expected='' @ version))
          | [] \<Rightarrow> Return version))"

definition check_revocation :: "bool \<Rightarrow> string \<Rightarrow> string \<Rightarrow> qso_event list \<Rightarrow> identity_state result" where
  "check_revocation reject_archived uri version events =
     bindR (kernel_events_from_timeline events) (\<lambda>identity_events.
     bindR (reduce_identity_timeline uri identity_events version) (\<lambda>replayed.
       if reject_archived \<and> rv_status (is_revocation replayed) = ARCHIVED
       then Raise (ValueError ''identity archived and rejected by verifier policy'') else Return replayed))"

definition check_state_hash :: "qff_payload \<Rightarrow> identity_state \<Rightarrow> json dict \<Rightarrow> (string \<times> string) result" where
  "check_state_hash parsed replayed bundle =
     (let declared = jstr (dget_or bundle ''declared_state_hash'' (JStr [])) in
      if declared = [] then Raise (ValueError ''bundle.declared_state_hash missing'')
      else case qf_state parsed of
        JObj state \<Rightarrow>
          (case dget_or state ''identity_runtime'' (JObj []) of
             JObj runtime \<Rightarrow>
               (let snapshot_hash = jstr (dget_or runtime ''state_hash'' (JStr [])) in
                if snapshot_hash \<noteq> declared
                then Raise (ValueError (''declared hash mismatch with snapshot state: declared='' @ declared @ '', snapshot='' @ snapshot_hash))
                else if is_state_hash replayed \<noteq> declared
                then Raise (ValueError (''computed hash mismatch: declared='' @ declared @ '', computed='' @ is_state_hash replayed))
                else Return (declared, is_state_hash replayed))
           | _ \<Rightarrow> Raise (TypeError ''object has no attribute get''))
      | _ \<Rightarrow> Raise (TypeError ''object has no attribute get''))"

definition verify_bundle ::
    "archive_codec \<Rightarrow> crypto \<Rightarrow> (json \<Rightarrow> qso_event result) \<Rightarrow> bool \<Rightarrow> bool \<Rightarrow> nat list option \<Rightarrow> json dict \<Rightarrow> verdict" where
  "verify_bundle cd c validate strict_archival reject_archived direct bundle =
     staged ''bundle.identity_uri'' (check_identity_uri bundle) [] (\<lambda>uri.
     staged ''validate_block_hashes'' (check_blocks cd direct bundle) [] (\<lambda>snapshot_qff.
     let steps1 = [passed ''validate_block_hashes'' []] in
     staged ''validate_signatures'' (check_signatures cd c validate snapshot_qff bundle) steps1 (\<lambda>(parsed, events).
     let steps2 = steps1 @ [passed ''validate_signatures'' []] in
     staged ''validate_policy_version'' (check_policy_version parsed events bundle) steps2 (\<lambda>version.
     let steps3 = steps2 @ [passed ''validate_policy_version'' [(''policy_version'', JStr version)]] in
     staged ''validate_revocation_status'' (check_revocation reject_archived uri version events) steps3 (\<lambda>replayed.
     let steps4 = steps3 @ [passed ''validate_revocation_status''
           [(''status'', JStr (lifecycle_value (rv_status (is_revocation replayed))))], passed ''deterministic_replay'' []] in
     staged ''compare_state_hash'' (check_state_hash parsed replayed bundle) steps4 (\<lambda>(declared, computed).
       \<lparr>vd_accepted = True, vd_reason = ''verification_passed'', vd_failed_step = None, vd_identity_uri = uri,
        vd_policy_version = version, vd_strict_archival = Some strict_archival,
        vd_steps = steps4 @ [passed ''compare_state_hash''
          [(''declared_state_hash'', JStr declared), (''computed_state_hash'', JStr computed)]]\<rparr>))))))"

definition verify_bundle_or_raise ::
    "archive_codec \<Rightarrow> crypto \<Rightarrow> (json \<Rightarrow> qso_event result) \<Rightarrow> bool \<Rightarrow> bool \<Rightarrow> nat list option \<Rightarrow> json dict \<Rightarrow> verdict result" where
  "verify_bundle_or_raise cd c validate strict_archival reject_archived direct bundle =
     (let v = verify_bundle cd c validate strict_archival reject_archived direct bundle in
      if vd_accepted v then Return v else Raise (ValueError (vd_reason v)))"

section \<open>Export\<close>

definition make_bundle ::
    "archive_codec \<Rightarrow> crypto \<Rightarrow> string \<Rightarrow> string \<Rightarrow> json list \<Rightarrow> json list \<Rightarrow> identity_state \<Rightarrow> nat list \<Rightarrow> json dict result" where
  "make_bundle cd c uri policy_version trust_roots timeline s snapshot_qff =
     bindR (block_manifest cd snapshot_qff) (\<lambda>blocks.
     Return (sign_bundle c
       [(''identity_uri'', JStr uri), (''policy_version'', JStr policy_version), (''declared_state_hash'', JStr (is_state_hash s)),
        (''snapshot_hash'', JStr (sha256_hex_bytes snapshot_qff)),
        (''identity_snapshot_qff_b64'', JStr (b64_std_encode snapshot_qff)), (''block_manifest'', JObj blocks),
        (''credential_manifest'', JObj (credential_manifest s)), (''trust_roots'', JArr trust_roots),
        (''timeline'', JArr timeline)]))"

definition export_bundle ::
    "fabric_env \<Rightarrow> archive_codec \<Rightarrow> string \<Rightarrow> string list \<Rightarrow> bool \<Rightarrow> (fabric, json dict) op" where
  "export_bundle env cd uri trust_roots strict =
     thenS (liftS (validate_identity_person_uri uri))
     (bindS (qso_read uri) (\<lambda>obj.
      bindS (qso_timeline uri strict) (\<lambda>events.
      bindS (on_engine (rebuild_identity_state uri strict)) (\<lambda>s.
      bindS next_call (\<lambda>n.
      readS (\<lambda>w. let c = eg_crypto (fr_engine w) in
        make_bundle cd c uri (is_policy s) (map JStr trust_roots) (map (\<lambda>e. JObj (event_json env e)) events) s
          (export_snapshot cd c uri (ob_state_layer obj) (map link_json (ob_entanglement obj))
            (int (length (el_timeline (eg_log (fr_engine w)) uri))) (is_policy s) default_runtime_version (fe_now env n))))))))"

section \<open>What acceptance means\<close>

lemma staged_accepted:
  "vd_accepted (staged name r steps k) \<longleftrightarrow> (\<exists>x. r = Return x \<and> vd_accepted (k x))"
  by (cases r) (simp_all add: staged_def verify_fail_def)


section \<open>What verification does not look at\<close>

lemma signing_payload_signed [simp]:
  "bundle_signing_payload (dset ''transfer_sig'' v bundle) = bundle_signing_payload bundle"
  by (simp add: bundle_signing_payload_def dget_or_dset)

lemma dget_signed: "dget (sign_bundle c bundle) k =
    (if k = ''transfer_sig'' then Some (JStr (sign c (bundle_signing_payload bundle))) else dget bundle k)"
  by (simp add: sign_bundle_def update_conv)

lemma verify_signed:
  "verify c (bundle_signing_payload (sign_bundle c bundle)) (jstr (dget_or (sign_bundle c bundle) ''transfer_sig'' (JStr []))) = Return True"
  by (simp add: sign_bundle_def dget_or_dset jstr_def hmac.check_sign)

lemma signed_sig_nonempty: "jstr (dget_or (sign_bundle c bundle) ''transfer_sig'' (JStr [])) \<noteq> []"
  using length_sign [of c "bundle_signing_payload bundle"]
  by (auto simp: sign_bundle_def dget_or_dset jstr_def simp del: length_sign)

text \<open>The checks of a signed bundle depend on its fields but the listed snapshot hash.\<close>

lemma verify_signed_cong:
  assumes "\<And>k. k \<noteq> ''snapshot_hash'' \<Longrightarrow> dget a k = dget b k"
  shows "verify_bundle cd c validate sa ra direct (sign_bundle c a) = verify_bundle cd c validate sa ra direct (sign_bundle c b)"
proof -
  let ?a = "sign_bundle c a" and ?b = "sign_bundle c b"
  have get: "dget ?a k = dget ?b k" and get_or: "dget_or ?a k d = dget_or ?b k d"
    if "k \<notin> {''snapshot_hash'', ''transfer_sig''}" for k d
    using assms [of k] that by (simp_all add: dget_signed dget_or_def)
  have "check_identity_uri ?a = check_identity_uri ?b" by (simp add: check_identity_uri_def get_or)
  moreover have "check_blocks cd direct ?a = check_blocks cd direct ?b" 
    by (cases direct) (simp_all add: check_blocks_def snapshot_bytes_def get)
  moreover have "check_signatures cd c validate qff ?a = check_signatures cd c validate qff ?b" for qff
    using verify_signed [of c a] verify_signed [of c b] signed_sig_nonempty [of c a] signed_sig_nonempty [of c b]
    by (simp add: check_signatures_def Let_def get)
  moreover have "check_policy_version p es ?a = check_policy_version p es ?b" for p es
    by (simp add: check_policy_version_def get_or)
  moreover have "check_state_hash p s ?a = check_state_hash p s ?b" for p s by (simp add: check_state_hash_def get_or)
  ultimately show ?thesis by (simp add: verify_bundle_def)
qed

text \<open>
  The snapshot hash of a bundle is signed but never compared with the snapshot: a bundle signed with
  any other hash is accepted exactly when the bundle itself is.
\<close>

theorem snapshot_hash_unchecked:
  "verify_bundle cd c validate sa ra direct (sign_bundle c (dset ''snapshot_hash'' hash bundle)) =
    verify_bundle cd c validate sa ra direct (sign_bundle c bundle)"
  by (rule verify_signed_cong) (simp add: update_conv)

section \<open>An exported bundle is accepted\<close>

lemma b64_scan_std: "b64_scan q l p (map std_char s @ t) = b64_scan q l p (s @ t)"
proof -
  have v: "b64_value (std_char c) = b64_value c" "std_char c = CHR ''='' \<longleftrightarrow> c = CHR ''=''" for c
    by (auto simp: std_char_def b64_value_def)
  show ?thesis by (induction s arbitrary: q l p) (auto simp: v split: option.split)
qed

lemma b64_std_round_trip:
  assumes "\<forall>b\<in>set bs. b < 256"
  shows "b64_std_decode (b64_std_encode bs) = Return bs" and "\<forall>c\<in>set (b64_std_encode bs). \<not> 127 < code c"
    and "b64_std_encode bs = [] \<Longrightarrow> bs = []"
proof -
  have std: "std_char c \<noteq> CHR ''-'' \<and> std_char c \<noteq> CHR ''_''" "code c < 128 \<Longrightarrow> code (std_char c) < 128" for c
    by (auto simp: std_char_def)
  have pad: "c = CHR ''=''" if "c \<in> set (b64_padding s)" for c s using that by (auto simp: b64_padding_def)
  have "filter (\<lambda>c. c \<noteq> CHR ''-'' \<and> c \<noteq> CHR ''_'') (b64_std_encode bs) = b64_std_encode bs"
    unfolding filter_id_conv b64_std_encode_def Let_def using std(1) pad by fastforce
  moreover have "b64_padding (map std_char s) = b64_padding s" for s by (simp add: b64_padding_def)
  ultimately show "b64_std_decode (b64_std_encode bs) = Return bs"
    using b64_scan_encode [OF assms, of 0 0] by (simp add: b64_std_decode_def b64_std_encode_def Let_def b64_scan_std)
  show "\<forall>c\<in>set (b64_std_encode bs). \<not> 127 < code c"
    using b64_encode_ascii [OF assms] std(2) pad by (fastforce simp: b64_std_encode_def Let_def)
  show "b64_std_encode bs = [] \<Longrightarrow> bs = []" by (simp add: b64_std_encode_def Let_def b64_encode_Nil)
qed

lemma block_manifest_exported:
  assumes "faithful_codec cd"
  shows "\<exists>blocks. block_manifest cd (export_snapshot cd c uri st links n pv rv now) = Return blocks"
  using assms
  by (simp add: block_manifest_def snapshot_entries_def export_snapshot_def qff_serialize_def faithful_codec_def by_name_def Let_def)

lemma header_policy:
  "jget_or (sort_json (snapshot_header uri n now pv rv cp)) ''policy_version'' (JStr []) = JStr pv"
proof -
  let ?fields = "[(''uri'', JStr uri), (''event_count'', JInt n), (''exported_at'', JStr now),
      (''compression'', JStr ''gzip''), (''encrypted'', JBool False), (''policy_version'', JStr pv),
      (''runtime_version'', JStr rv), (''event_hash_checkpoint'', JStr cp)]"
  have "sort_json (snapshot_header uri n now pv rv cp) = JObj (sorted_row ?fields)"
    unfolding snapshot_header_def by (rule sort_json_row)
  moreover have "dget (sorted_row ?fields) ''policy_version'' = map_option sort_json (dget ?fields ''policy_version'')"
    by (rule dget_sorted_row) simp
  ultimately show ?thesis by (simp add: jget_or_def jget_def del: sort_json.simps add: sort_json.simps(5))
qed

lemma timeline_events_exported:
  assumes "\<forall>e\<in>set es. validate (row e) = Return e" "sorted (map replay_key es)"
  shows "timeline_events validate (Some (JArr (map row es))) = Return es"
proof -
  have "mapR validate (map row es) = Return es" using assms(1) by (induction es) simp_all
  moreover have "sort_key replay_key es = es" by (rule sorted_keys_replay [OF assms(2)])
  ultimately show ?thesis by (simp add: timeline_events_def)
qed

lemma check_state_hash_exported:
  assumes "wf_json (JObj st)" "dget st ''identity_runtime'' = Some (JObj rt)" "dget rt ''state_hash'' = Some (JStr h)"
    and "qf_state parsed = sort_json (JObj st)" "is_state_hash s = h" "h \<noteq> []" "dget b ''declared_state_hash'' = Some (JStr h)"
  shows "check_state_hash parsed s b = Return (h, h)"
proof -
  have d: "distinct (dkeys st)" using assms(1) by simp
  have "wf_json (JObj rt)"
    using assms(1,2) map_of_SomeD [OF assms(2)] by (fastforce simp: list_all_iff simp del: wf_json.simps(6,7) dest: wf_json.simps(7) [THEN iffD1])
  then have "distinct (dkeys rt)" by simp
  with assms(3) have "dget (sorted_row rt) ''state_hash'' = Some (JStr h)" by (simp add: dget_sorted_row)
  moreover have "dget (sorted_row st) ''identity_runtime'' = Some (JObj (sorted_row rt))"
    using dget_sorted_row [OF d, of "''identity_runtime''"] assms(2) by (simp only: sort_json_row option.map)
  moreover have "qf_state parsed = JObj (sorted_row st)" using assms(4) by (simp only: sort_json_row)
  ultimately show ?thesis using assms(5-7) by (simp add: check_state_hash_def dget_or_def jstr_def)
qed

lemma made_bundle_accepted:
  assumes cd: "byte_codec cd" and st: "wf_json (JObj st)" "canonical_floats (JObj st)"
    and links: "wf_json (JArr links)" "canonical_floats (JArr links)"
    and qff: "qff = export_snapshot cd c uri st links n pv rv now"
    and made: "make_bundle cd c uri pv roots (map row es) s qff = Return b"
    and uri: "is_identity_person_uri uri" and pv: "pv \<noteq> []"
    and events: "\<forall>e\<in>set es. validate (row e) = Return e" "sorted (map replay_key es)"
      "\<forall>e\<in>set es. well_signed (Some c) e \<and> qe_policy_version e = pv"
    and kes: "kernel_events_from_timeline es = Return kes" "reduce_identity_timeline uri kes pv = Return s"
    and current: "dget st ''identity_runtime'' = Some (JObj rt)" "dget rt ''state_hash'' = Some (JStr (is_state_hash s))"
    and alive: "ra \<longrightarrow> rv_status (is_revocation s) \<noteq> ARCHIVED"
  shows "vd_accepted (verify_bundle cd c validate sa ra None b)"
proof -
  have faithful: "faithful_codec cd" and bytes: "\<forall>x\<in>set qff. x < 256" and ne: "qff \<noteq> []"
    using cd by (auto simp: byte_codec_def qff export_snapshot_def qff_serialize_def Let_def)
  obtain blocks where blocks: "block_manifest cd qff = Return blocks"
    using block_manifest_exported [OF faithful] qff by blast
  let ?fields = "[(''identity_uri'', JStr uri), (''policy_version'', JStr pv), (''declared_state_hash'', JStr (is_state_hash s)),
        (''snapshot_hash'', JStr (sha256_hex_bytes qff)), (''identity_snapshot_qff_b64'', JStr (b64_std_encode qff)),
        (''block_manifest'', JObj blocks), (''credential_manifest'', JObj (credential_manifest s)), (''trust_roots'', JArr roots),
        (''timeline'', JArr (map row es))]"
  have b: "b = sign_bundle c ?fields" using made blocks by (simp add: make_bundle_def)
  have get: "dget b k = dget ?fields k" if "k \<noteq> ''transfer_sig''" for k using that by (simp add: b dget_signed)
  have "check_identity_uri b = Return uri"
    using get [of "''identity_uri''"] uri by (simp add: check_identity_uri_def dget_or_def jstr_def validate_identity_person_uri_def)
  moreover have "check_blocks cd None b = Return qff"
  proof -
    obtain x xs where s: "b64_std_encode qff = x # xs" using b64_std_round_trip(3) [OF bytes] ne by (cases "b64_std_encode qff") auto
    have "snapshot_bytes None b = Return qff"
      using get [of "''identity_snapshot_qff_b64''"] b64_std_round_trip(1,2) [OF bytes] by (simp add: snapshot_bytes_def s)
    then show ?thesis using blocks get [of "''block_manifest''"] by (simp add: check_blocks_def same_dict_def list_all_iff)
  qed
  moreover obtain parsed where parsed: "import_snapshot cd c True qff = Return parsed" "qf_state parsed = sort_json (JObj st)"
    "qf_header parsed = sort_json (snapshot_header uri n now pv rv (snapshot_checkpoint uri n (JObj st)))"
    by (rule that [unfolded qff, OF import_export [OF faithful st links]]) simp_all
  have "mapR (check_event c) es = Return (map (\<lambda>_. ()) es)"
  proof -
    have "check_event c e = Return ()" if "e \<in> set es" for e
      using events(3) that by (auto simp: check_event_def well_signed_check elim!: bindR_ReturnE)
    then show ?thesis by (induction es) simp_all
  qed
  then have "check_signatures cd c validate qff b = Return (parsed, es)"
    using verify_signed [of c ?fields] signed_sig_nonempty [of c ?fields] parsed(1) timeline_events_exported [OF events(1,2)]
      get [of "''timeline''"]
    by (simp add: check_signatures_def b [symmetric])
  moreover have "check_policy_version parsed es b = Return pv"
    using events(3) get [of "''policy_version''"] pv
    by (simp add: check_policy_version_def dget_or_def jstr_def parsed(3) header_policy filter_empty_conv [THEN iffD2])
  moreover have "check_revocation ra uri pv es = Return s" using kes alive by (simp add: check_revocation_def)
  moreover have "is_state_hash s \<noteq> []"
    using kes(2) by (simp add: reduce_reaches reaches_hash state_hash_of_def canonical_hash_def)
  then have "check_state_hash parsed s b = Return (is_state_hash s, is_state_hash s)"
    by (intro check_state_hash_exported [OF st(1) current parsed(2) refl]) (simp_all add: get)
  ultimately show ?thesis by (simp add: verify_bundle_def staged_def Let_def)
qed

text \<open>An event whose delta records a kernel event, as the state engine writes them.\<close>

definition records :: "qso_event \<Rightarrow> identity_event \<Rightarrow> bool" where
  "records e ke = (dget (qe_delta e) ''identity_event'' = Some (serialize_identity_event ke) \<and> ie_timestamp ke \<noteq> None)"

lemma parse_type_value: "parse_identity_event_type (type_value ty) = Return ty"
  by (cases ty) (simp_all add: parse_identity_event_type_def canonical_event_sequence_def)

lemma records_events:
  assumes "records e ke"
  shows "kernel_event e = Return [ke]" "bundle_kernel_event e = Return ke"
  using assms
  by (cases ke; auto simp: records_def kernel_event_def bundle_kernel_event_def serialize_identity_event_def opt_str_def
      dget_or_def jstr_def parse_type_value Let_def)+

lemma records_timeline:
  assumes "list_all2 records es kes" "kes \<noteq> []"
  shows "mapR kernel_event es = Return (map (\<lambda>k. [k]) kes)" "kernel_events_from_timeline es = Return kes"
proof -
  show "mapR kernel_event es = Return (map (\<lambda>k. [k]) kes)"
    using assms(1) by (induction rule: list_all2_induct) (simp_all add: records_events)
  have "mapR bundle_kernel_event es = Return kes"
    using assms(1) by (induction rule: list_all2_induct) (simp_all add: records_events)
  with assms(2) show "kernel_events_from_timeline es = Return kes" by (simp add: kernel_events_from_timeline_def)
qed

text \<open>What the export reads of an identity with a recorded log.\<close>

lemma export_reads:
  assumes "live w" "lc_tick (eg_clock (fr_engine w)) < day_us" "is_identity_person_uri uri"
    and "es = el_timeline (eg_log (fr_engine w)) uri" "list_all2 records es kes" "kes \<noteq> []"
    and "\<forall>k\<in>set kes. ie_policy_version k = pv" "reduce_identity_timeline uri kes pv = Return s"
  shows "el_replay uri True (eg_log (fr_engine w)) = (Return es, eg_log (fr_engine w))"
    and "rebuild_identity_state uri True (fr_engine w) = (Return s, fr_engine w)"
proof -
  let ?g = "fr_engine w"
  have ok: "engine_ok ?g" using assms(1) by (simp add: live_def reachable_ok)
  show replay: "el_replay uri True (eg_log ?g) = (Return es, eg_log ?g)"
    unfolding assms(4) by (rule engine_replay [OF ok assms(2)])
  have kernel: "identity_kernel_events uri True ?g = (Return kes, ?g)"
    using replay records_timeline(1) [OF assms(5,6)] by (simp add: identity_kernel_events_def concat_map_singleton)
  have "ie_policy_version (hd kes) = pv" using assms(6,7) by (cases kes) auto
  then show "rebuild_identity_state uri True ?g = (Return s, ?g)"
    using kernel assms(8,3,6) by (cases kes) (simp_all add: rebuild_identity_state_def validate_identity_person_uri_def)
qed

lemma export_bundle_eq:
  assumes "is_identity_person_uri uri" "dget (eg_registry (fr_engine w)) uri = Some obj"
    and "el_replay uri True (eg_log (fr_engine w)) = (Return es, eg_log (fr_engine w))"
    and "rebuild_identity_state uri True (fr_engine w) = (Return s, fr_engine w)"
  shows "export_bundle env cd uri roots True w =
    (make_bundle cd (eg_crypto (fr_engine w)) uri (is_policy s) (map JStr roots) (map (\<lambda>e. JObj (event_json env e)) es) s
      (export_snapshot cd (eg_crypto (fr_engine w)) uri (ob_state_layer obj) (map link_json (ob_entanglement obj))
        (int (length (el_timeline (eg_log (fr_engine w)) uri))) (is_policy s) default_runtime_version (fe_now env (fr_calls w))),
     w\<lparr>fr_calls := Suc (fr_calls w)\<rparr>)"
  using assms
  by (simp add: export_bundle_def thenS_def bindS_def liftS_def readS_def validate_identity_person_uri_def qso_read_def eg_read_def
      rg_read_def qso_timeline_def on_engine_def next_call_def Let_def)

lemma exported_accepted:
  assumes w: "live w" "lc_tick (eg_clock (fr_engine w)) < day_us" and cd: "byte_codec cd"
    and run: "export_bundle env cd uri roots True w = (Inr b, w')"
    and obj: "dget (eg_registry (fr_engine w)) uri = Some obj"
    and links: "\<forall>l\<in>set (ob_entanglement obj). wf_json (el_strength l) \<and> canonical_floats (el_strength l)"
    and layer: "wf_json (JObj (ob_state_layer obj))" "canonical_floats (JObj (ob_state_layer obj))"
    and es: "es = el_timeline (eg_log (fr_engine w)) uri" "list_all2 records es kes" "kes \<noteq> []"
    and policy: "\<forall>e\<in>set es. qe_policy_version e = pv" "\<forall>k\<in>set kes. ie_policy_version k = pv" "pv \<noteq> []"
    and validate: "\<forall>e\<in>set es. validate (JObj (event_json env e)) = Return e"
    and s: "reduce_identity_timeline uri kes pv = Return s" "ra \<longrightarrow> rv_status (is_revocation s) \<noteq> ARCHIVED"
    and current: "dget (ob_state_layer obj) ''identity_runtime'' = Some (JObj rt)" "dget rt ''state_hash'' = Some (JStr (is_state_hash s))"
  shows "vd_accepted (verify_bundle cd (eg_crypto (fr_engine w)) validate sa ra None b)"
proof -
  let ?g = "fr_engine w"
  have uri: "is_identity_person_uri uri"
    using run by (auto simp: export_bundle_def thenS_Return validate_identity_person_uri_def split: if_splits)
  note reads = export_reads [OF w uri es policy(2) s(1)]
  have is_pv: "is_policy s = pv"
    using reaches_policy [of uri pv kes s] s(1) es(3) policy(2) by (simp add: reduce_reaches)
  have sorted: "sorted (map replay_key es)" using timelines_sorted [of True w uri es] reads(1) by (simp add: timelines_def)
  have "engine_ok ?g" using w(1) by (simp add: live_def reachable_ok)
  then have signed: "\<forall>e\<in>set es. well_signed (Some (eg_crypto ?g)) e" unfolding es(1) engine_ok_def by blast
  have lj: "wf_json (JArr (map link_json (ob_entanglement obj)))" "canonical_floats (JArr (map link_json (ob_entanglement obj)))"
    using links by (auto simp: link_json_def list_all_iff)
  have "make_bundle cd (eg_crypto ?g) uri (is_policy s) (map JStr roots) (map (\<lambda>e. JObj (event_json env e)) es) s
      (export_snapshot cd (eg_crypto ?g) uri (ob_state_layer obj) (map link_json (ob_entanglement obj))
        (int (length (el_timeline (eg_log ?g) uri))) (is_policy s) default_runtime_version (fe_now env (fr_calls w))) = Return b"
    using run export_bundle_eq [OF uri obj reads] by simp
  then show ?thesis
    unfolding is_pv
    by (intro made_bundle_accepted [OF cd layer lj refl _ uri policy(3) validate sorted _ records_timeline(2) [OF es(2,3)] s(1) current s(2)])
      (use signed policy(1) in auto)
qed


section \<open>A sample\<close>

definition sample_person :: string where
  "sample_person = ''qso://identity.person.a''"

definition sample_kernel :: identity_event where
  "sample_kernel = sample_create\<lparr>ie_timestamp := Some ''t''\<rparr>"

definition sample_person_delta :: "identity_state \<Rightarrow> json dict" where
  "sample_person_delta s = [(''identity_event'', serialize_identity_event sample_kernel),
     (''identity_runtime'', JObj [(''state_hash'', JStr (is_state_hash s))])]"

lemma sample_reduces: "\<exists>s. reduce_identity_timeline sample_person [sample_kernel] ''v1'' = Return s \<and> rv_status (is_revocation s) = ACTIVE"
proof -
  have "\<exists>s. apply_identity_event (empty_identity_state sample_person ''v1'') sample_kernel = Inr s \<and> rv_status (is_revocation s) = ACTIVE"
    by (simp add: apply_identity_event_def sample_kernel_def sample_create_def require_payload_fields_def has_key_def
        apply_create_def py_dict_def dget_or_def Let_def)
  then show ?thesis by (auto simp: reduce_identity_timeline_def)
qed

text \<open>A running fabric with one identity whose log holds its creation.\<close>

lemma sample_identity:
  obtains w obj e s where "live w" "lc_tick (eg_clock (fr_engine w)) < day_us" "eg_crypto (fr_engine w) = sample_key"
    "dget (eg_registry (fr_engine w)) sample_person = Some obj" "ob_entanglement obj = []"
    "ob_state_layer obj = sample_person_delta s"
    "el_timeline (eg_log (fr_engine w)) sample_person = [e]" "qe_delta e = sample_person_delta s" "qe_policy_version e = ''v1''"
    "reduce_identity_timeline sample_person [sample_kernel] ''v1'' = Return s" "rv_status (is_revocation s) = ACTIVE"
proof -
  obtain s where s: "reduce_identity_timeline sample_person [sample_kernel] ''v1'' = Return s" "rv_status (is_revocation s) = ACTIVE"
    using sample_reduces by blast
  let ?w0 = "new_fabric sample_key" and ?d = "sample_person_delta s"
  obtain o1 w1 where w1: "qso_create sample_env sample_person [] ?w0 = (Inr o1, w1)"
    and reg: "dget (eg_registry (fr_engine w1)) sample_person = Some o1" "ob_state_layer o1 = []" "ob_entanglement o1 = []" "ob_uri o1 = sample_person"
    and eng: "eg_policy (fr_engine w1) = None" "eg_log (fr_engine w1) = eg_log (fresh_engine sample_key)"
      "eg_crypto (fr_engine w1) = sample_key" "lc_tick (eg_clock (fr_engine w1)) = 0" "fr_calls w1 = 1"
    by (simp add: qso_create_def qso_create_by_def bindS_def next_call_def on_engine_def new_fabric_def create_object_def rg_create_def
        has_key_def fresh_engine_def Let_def new_clock_def)
  have live1: "live w1" using keepsD [OF live_tools(3) live_new] w1 by (metis snd_conv)
  have "\<exists>e g. patch (fe_uuid sample_env 1) sample_person ?d ''root'' ''v1'' ''local'' (fr_engine w1) = (Inr e, g)"
    by (rule patch_accepted) (use live1 reg eng in \<open>auto simp: live_def sample_env_def sample_person_def strip_Nil_iff is_space_def\<close>)
  then obtain e g where p: "patch (fe_uuid sample_env 1) sample_person ?d ''root'' ''v1'' ''local'' (fr_engine w1) = (Inr e, g)" by blast
  then obtain w where w: "engine_patch sample_env sample_person ?d ''root'' ''v1'' ''local'' w1 = (Inr e, w)" "fr_engine w = g"
    using eng(5) by (auto simp: engine_patch_Return)
  have live: "live w" using keepsD [OF live_tools(7) live1] w(1) by (metis snd_conv)
  obtain obj where obj: "eg_registry g = dset sample_person obj (eg_registry (fr_engine w1))" "ob_entanglement obj = []"
    "ob_state_layer obj = deep_merge [] ?d" "eg_crypto g = sample_key" "lc_tick (eg_clock g) = 1"
    "eg_log g = append_log e (eg_log (fr_engine w1))" "qe_object_uri e = sample_person" "qe_delta e = ?d" "qe_policy_version e = ''v1''"
    using p reg eng
    by (auto simp: patch_def Let_def check_policy_def rg_read_def rg_update_def has_key_def next_datetime_def split: sum.splits)
  have "el_timeline (eg_log g) sample_person = [e]"
    unfolding obj(6) by (subst append_log_simps(1)) (simp_all add: obj(7) eng(2) fresh_engine_def el_timeline_def dget_or_def)
  moreover have "deep_merge [] ?d = ?d"
    using deep_merge_fresh [of "[]" ?d] by (simp add: sample_person_delta_def)
  ultimately show thesis
    using that [of w obj s e] live w(2) obj s by (simp add: update_conv)
qed

lemma sample_export:
  obtains w obj e s b w' where "live w" "lc_tick (eg_clock (fr_engine w)) < day_us" "eg_crypto (fr_engine w) = sample_key"
    "export_bundle sample_env json_codec sample_person [] True w = (Inr b, w')"
    "dget (eg_registry (fr_engine w)) sample_person = Some obj" "ob_entanglement obj = []"
    "wf_json (JObj (ob_state_layer obj))" "canonical_floats (JObj (ob_state_layer obj))"
    "[e] = el_timeline (eg_log (fr_engine w)) sample_person" "list_all2 records [e] [sample_kernel]" "qe_policy_version e = ''v1''"
    "ie_policy_version sample_kernel = ''v1''"
    "reduce_identity_timeline sample_person [sample_kernel] ''v1'' = Return s" "rv_status (is_revocation s) = ACTIVE"
    "dget (ob_state_layer obj) ''identity_runtime'' = Some (JObj [(''state_hash'', JStr (is_state_hash s))])"
proof -
  obtain w obj e s where w: "live w" "lc_tick (eg_clock (fr_engine w)) < day_us" "eg_crypto (fr_engine w) = sample_key"
    and obj: "dget (eg_registry (fr_engine w)) sample_person = Some obj" "ob_entanglement obj = []" "ob_state_layer obj = sample_person_delta s"
    and e: "[e] = el_timeline (eg_log (fr_engine w)) sample_person" "qe_delta e = sample_person_delta s" "qe_policy_version e = ''v1''"
    and s: "reduce_identity_timeline sample_person [sample_kernel] ''v1'' = Return s" "rv_status (is_revocation s) = ACTIVE"
    using sample_identity by metis
  have uri: "is_identity_person_uri sample_person" by code_simp
  have rec: "list_all2 records [e] [sample_kernel]"
    using e(2) by (simp add: records_def sample_person_delta_def sample_kernel_def)
  have pol: "ie_policy_version sample_kernel = ''v1''" by (simp add: sample_kernel_def sample_create_def)
  then have "\<forall>k\<in>set [sample_kernel]. ie_policy_version k = ''v1''" by simp
  note reads = export_reads [OF w(1,2) uri e(1) rec _ this s(1), simplified]
  obtain blocks where "block_manifest json_codec (export_snapshot json_codec sample_key sample_person (ob_state_layer obj)
      (map link_json (ob_entanglement obj)) (int (length (el_timeline (eg_log (fr_engine w)) sample_person))) (is_policy s)
      default_runtime_version (fe_now sample_env (fr_calls w))) = Return blocks"
    using block_manifest_exported [OF json_codec_faithful] by blast
  then obtain b w' where run: "export_bundle sample_env json_codec sample_person [] True w = (Inr b, w')"
    using export_bundle_eq [OF uri obj(1) reads, of sample_env json_codec "[]"] w(3) by (simp add: make_bundle_def)
  have "wf_json (JObj (sample_person_delta s))" "canonical_floats (JObj (sample_person_delta s))"
    "dget (sample_person_delta s) ''identity_runtime'' = Some (JObj [(''state_hash'', JStr (is_state_hash s))])"
    by (simp_all add: sample_person_delta_def serialize_identity_event_def sample_kernel_def sample_create_def opt_str_def)
  with that [OF w run obj(1,2) _ _ e(1) rec e(3) pol s] obj(3) show thesis by simp
qed

lemma sample_accepted: "\<exists>b e. vd_accepted (verify_bundle json_codec sample_key (\<lambda>_. Return e) True True None b)"
proof -
  obtain w obj e s b w' where *: "live w" "lc_tick (eg_clock (fr_engine w)) < day_us" "eg_crypto (fr_engine w) = sample_key"
    "export_bundle sample_env json_codec sample_person [] True w = (Inr b, w')"
    "dget (eg_registry (fr_engine w)) sample_person = Some obj" "ob_entanglement obj = []"
    "wf_json (JObj (ob_state_layer obj))" "canonical_floats (JObj (ob_state_layer obj))"
    "[e] = el_timeline (eg_log (fr_engine w)) sample_person" "list_all2 records [e] [sample_kernel]" "qe_policy_version e = ''v1''"
    "ie_policy_version sample_kernel = ''v1''"
    "reduce_identity_timeline sample_person [sample_kernel] ''v1'' = Return s" "rv_status (is_revocation s) = ACTIVE"
    "dget (ob_state_layer obj) ''identity_runtime'' = Some (JObj [(''state_hash'', JStr (is_state_hash s))])"
    using sample_export by metis
  have "vd_accepted (verify_bundle json_codec (eg_crypto (fr_engine w)) (\<lambda>_. Return e) True True None b)"
    by (rule exported_accepted [OF *(1,2) json_codec_bytes *(4,5) _ *(7,8,9,10) _ _ _ _ _ *(13) _ *(15)]) (simp_all add: *(3,6,11,12,14))
  with *(3) show ?thesis by auto
qed



end
