(* ===== verification/Quantum_Simulator.thy ===== *)
theory Quantum_Simulator
  imports Fabric_Gluing Value_Json "HOL-Library.Product_Lexorder"
begin

text \<open>
  \<^verbatim>\<open>services/quantum/simulators/statevector.py\<close> with the jobs of \<^verbatim>\<open>services/quantum/models.py\<close>: the
  built-in simulator of circuits of up to twelve qubits.  The array of amplitudes is a list updated in
  place, entry by entry, in the order of the loops.  What the C math library computes for
  \<open>cmath.exp(1j * math.pi / 4)\<close> and \<open>math.log2\<close> is a parameter, as \<open>abs\<close> and \<open>x ** 2\<close> are.
\<close>

section \<open>Jobs\<close>

record quantum_job =
  qj_uri :: string
  qj_backend :: string
  qj_qubit_count :: int
  qj_circuit_spec :: "pyval dict"
  qj_measurement_schema :: "pyval dict"
  qj_policy_version :: string
  qj_metadata :: "pyval dict"

record sim_lib =
  sl_math :: libm
  sl_exp_i_pi_4 :: cplx
  sl_log2 :: "pyfloat \<Rightarrow> pyfloat"

section \<open>Gates\<close>

type_synonym gate_matrix = "cplx \<times> cplx \<times> cplx \<times> cplx"

definition cx_real :: "pyfloat \<Rightarrow> cplx" where
  "cx_real x = \<lparr>cx_re = x, cx_im = Fin 0\<rparr>"

definition index_error :: py_error where
  "index_error = IndexError ''list index out of range''"

text \<open>One step of the inner loop: the amplitudes at \<open>zero_idx\<close> and \<open>zero_idx + stride\<close> are read, then written.\<close>

definition mix_pair :: "nat \<Rightarrow> gate_matrix \<Rightarrow> cplx list \<Rightarrow> nat \<Rightarrow> cplx list result" where
  "mix_pair stride m state zero_idx =
     (let one_idx = zero_idx + stride in
      if one_idx < length state
      then (case m of (m0, m1, m2, m3) \<Rightarrow>
        let a0 = state ! zero_idx; a1 = state ! one_idx in
        Return (state[zero_idx := cx_add (cx_mul m0 a0) (cx_mul m1 a1),
                      one_idx := cx_add (cx_mul m2 a0) (cx_mul m3 a1)]))
      else Raise index_error)"

text \<open>\<open>range(0, len(state), period)\<close> with \<open>range(stride)\<close> inside.\<close>

definition zero_indices :: "nat \<Rightarrow> nat \<Rightarrow> nat list" where
  "zero_indices len stride =
     (let period = 2 * stride
      in concat (map (\<lambda>k. map (\<lambda>offset. k * period + offset) [0..<stride])
           [0..<(len + period - 1) div period]))"

definition apply_single_qubit_gate :: "cplx list \<Rightarrow> nat \<Rightarrow> gate_matrix \<Rightarrow> cplx list result" where
  "apply_single_qubit_gate state target m =
     foldR (mix_pair (2 ^ target) m) state (zero_indices (length state) (2 ^ target))"

definition same_qubit :: py_error where
  "same_qubit = ValueError ''control and target must differ''"

text \<open>\<open>basis | (1 << target)\<close> sets a bit.\<close>

definition swap_step :: "nat \<Rightarrow> nat \<Rightarrow> cplx list \<Rightarrow> nat \<Rightarrow> cplx list result" where
  "swap_step control target state basis =
     (if bit basis control \<and> \<not> bit basis target
      then (let partner = set_bit target basis in
        if partner < length state
        then Return (state[basis := state ! partner, partner := state ! basis])
        else Raise index_error)
      else Return state)"

definition apply_controlled_x :: "cplx list \<Rightarrow> nat \<Rightarrow> nat \<Rightarrow> cplx list result" where
  "apply_controlled_x state control target =
     (if control = target then Raise same_qubit
      else foldR (swap_step control target) state [0..<length state])"

definition apply_controlled_z :: "cplx list \<Rightarrow> nat \<Rightarrow> nat \<Rightarrow> cplx list result" where
  "apply_controlled_z state control target =
     (if control = target then Raise same_qubit
      else Return (map (\<lambda>(basis, a). if bit basis control \<and> bit basis target then cx_mul a (cx_real (Fin (- 1))) else a)
        (enumerate 0 state)))"

definition inv_sqrt2 :: pyfloat where
  "inv_sqrt2 = (case f_sqrt (Fin 2) of Inr r \<Rightarrow> f_quot (Fin 1) r | Inl _ \<Rightarrow> NaN)"

definition single_qubit_matrix :: "sim_lib \<Rightarrow> string \<Rightarrow> gate_matrix result" where
  "single_qubit_matrix l name =
     (let one = cx_real (Fin 1); zero = cx_real (Fin 0); h = cx_real inv_sqrt2
      in if name = ''i'' then Return (one, zero, zero, one)
      else if name = ''x'' then Return (zero, one, one, zero)
      else if name = ''y'' then Return (zero, \<lparr>cx_re = Fin 0, cx_im = Fin (- 1)\<rparr>, \<lparr>cx_re = Fin 0, cx_im = Fin 1\<rparr>, zero)
      else if name = ''z'' then Return (one, zero, zero, cx_real (Fin (- 1)))
      else if name = ''h'' then Return (h, h, h, cx_real (f_neg inv_sqrt2))
      else if name = ''s'' then Return (one, zero, zero, \<lparr>cx_re = Fin 0, cx_im = Fin 1\<rparr>)
      else if name = ''t'' then Return (one, zero, zero, sl_exp_i_pi_4 l)
      else Raise (ValueError (''unsupported gate: '' @ name)))"

definition normalize_gate_name :: "pyval \<Rightarrow> string" where
  "normalize_gate_name raw = filter (\<lambda>c. c \<noteq> CHR ''-'') (lower (strip (to_str raw)))"

definition qubit_index :: "pyval \<Rightarrow> string \<Rightarrow> nat result" where
  "qubit_index raw field =
     bindR (to_int raw) (\<lambda>value.
       if value < 0 then Raise (ValueError (field @ '' must be >= 0'')) else Return (nat value))"

section \<open>Running the gates of a circuit\<close>

type_synonym sim_state = "cplx list \<times> (nat \<times> nat) set"

definition ordered_pair :: "nat \<Rightarrow> nat \<Rightarrow> nat \<times> nat" where
  "ordered_pair a b = (if a \<le> b then (a, b) else (b, a))"

definition two_qubit_gate ::
    "(cplx list \<Rightarrow> nat \<Rightarrow> nat \<Rightarrow> cplx list result) \<Rightarrow> sim_state \<Rightarrow> pyval dict \<Rightarrow> sim_state result" where
  "two_qubit_gate apply_gate s gate =
     bindR (qubit_index (dget_or gate ''control'' PNone) ''control'') (\<lambda>control.
     bindR (qubit_index (dget_or gate ''target'' PNone) ''target'') (\<lambda>target.
     bindR (apply_gate (fst s) control target) (\<lambda>state.
       Return (state, insert (ordered_pair control target) (snd s)))))"

definition run_gate :: "sim_lib \<Rightarrow> sim_state \<Rightarrow> pyval \<Rightarrow> sim_state result" where
  "run_gate l s raw = (case raw of
       PDict gate \<Rightarrow>
         (let name = normalize_gate_name (dget_or gate ''name'' (PStr [])) in
          if name \<in> {''cx'', ''cnot''} then two_qubit_gate apply_controlled_x s gate
          else if name = ''cz'' then two_qubit_gate apply_controlled_z s gate
          else
            bindR (qubit_index (dget_or gate ''target'' PNone) ''target'') (\<lambda>target.
            bindR (single_qubit_matrix l name) (\<lambda>m.
            bindR (apply_single_qubit_gate (fst s) target m) (\<lambda>state. Return (state, snd s)))))
     | _ \<Rightarrow> Raise (TypeError ''gate entries must be objects''))"

text \<open>The state \<open>|0...0>\<close>.\<close>

definition basis_state :: "nat \<Rightarrow> nat \<Rightarrow> cplx list" where
  "basis_state n k = (replicate (2 ^ n) (cx_real (Fin 0)))[k := cx_real (Fin 1)]"

definition circuit_gates :: "quantum_job \<Rightarrow> pyval list result" where
  "circuit_gates job = to_items (dget_or (qj_circuit_spec job) ''gates'' (PList []))"

definition run_circuit :: "sim_lib \<Rightarrow> nat \<Rightarrow> pyval list \<Rightarrow> sim_state result" where
  "run_circuit l n gates = foldR (run_gate l) (basis_state n 0, {}) gates"

section \<open>Measurement\<close>

definition floor_float :: "pyfloat \<Rightarrow> int result" where
  "floor_float x = (case x of Fin q \<Rightarrow> Return \<lfloor>q\<rfloor>
     | NaN \<Rightarrow> Raise (ValueError ''cannot convert float NaN to integer'')
     | _ \<Rightarrow> Raise (OverflowError ''cannot convert float infinity to integer''))"

type_synonym share_key = "pyfloat \<times> pyfloat"

definition share_above :: "share_key \<Rightarrow> share_key \<Rightarrow> bool" where
  "share_above a b \<longleftrightarrow> f_less (fst b) (fst a) \<or> f_eq (fst a) (fst b) \<and> f_less (snd b) (snd a)"

text \<open>\<open>sorted(..., reverse=True)\<close>: falling keys, equal keys in the order they came.\<close>

fun insert_share :: "(nat \<Rightarrow> share_key) \<Rightarrow> nat \<Rightarrow> nat list \<Rightarrow> nat list" where
  "insert_share key i [] = [i]"
| "insert_share key i (j # js) = (if share_above (key i) (key j) then i # j # js else j # insert_share key i js)"

definition share_order :: "(nat \<Rightarrow> share_key) \<Rightarrow> nat \<Rightarrow> nat list" where
  "share_order key n = foldl (\<lambda>acc i. insert_share key i acc) [] [0..<n]"

text \<open>\<open>xs[:k]\<close>.\<close>

definition py_take :: "int \<Rightarrow> 'a list \<Rightarrow> 'a list" where
  "py_take k xs = take (nat (if k < 0 then int (length xs) + k else k)) xs"

definition add_one :: "int list \<Rightarrow> nat \<Rightarrow> int list" where
  "add_one counts i = counts[i := counts ! i + 1]"

definition share_counts :: "pyfloat list \<Rightarrow> int \<Rightarrow> int list result" where
  "share_counts probabilities shots =
     bindR (int_to_float shots) (\<lambda>total.
       let scaled = map (\<lambda>p. f_mul p total) probabilities in
       bindR (mapR floor_float scaled) (\<lambda>counts.
         let remainder = shots - sum_list counts;
             key = (\<lambda>idx. (f_sub (scaled ! idx) (rnd (of_int (counts ! idx))), probabilities ! idx))
         in Return (foldl add_one counts (py_take remainder (share_order key (length probabilities))))))"

definition measurement_counts :: "pyfloat list \<Rightarrow> int \<Rightarrow> (nat \<times> int) list result" where
  "measurement_counts probabilities shots =
     bindR (share_counts probabilities shots) (\<lambda>counts. Return (filter (\<lambda>(idx, count). count > 0) (enumerate 0 counts)))"

fun binary :: "nat \<Rightarrow> string" where
  "binary n = (if n < 2 then [if n = 1 then CHR ''1'' else CHR ''0'']
     else binary (n div 2) @ [if odd n then CHR ''1'' else CHR ''0''])"

declare binary.simps [simp del]

definition bitstring :: "nat \<Rightarrow> nat \<Rightarrow> string" where
  "bitstring index qubit_count =
     (let digits = binary index in replicate (qubit_count - length digits) (CHR ''0'') @ digits)"

text \<open>\<open>max(range(n), key=...)\<close>: the first of the greatest.\<close>

definition most_likely :: "pyfloat list \<Rightarrow> nat" where
  "most_likely probabilities =
     foldl (\<lambda>best i. if f_less (probabilities ! best) (probabilities ! i) then i else best) 0 [1..<length probabilities]"

section \<open>Entropies\<close>

type_synonym density = "cplx \<times> cplx \<times> cplx \<times> cplx"

definition density_step :: "cplx list \<Rightarrow> nat \<Rightarrow> density \<Rightarrow> nat \<Rightarrow> density" where
  "density_step state qubit rho basis =
     (if bit basis qubit then rho
      else (let a0 = state ! basis; a1 = state ! (set_bit qubit basis) in
        case rho of (r00, r01, r10, r11) \<Rightarrow>
          (cx_add r00 (cx_mul a0 (cx_conj a0)), cx_add r01 (cx_mul a0 (cx_conj a1)),
           cx_add r10 (cx_mul a1 (cx_conj a0)), cx_add r11 (cx_mul a1 (cx_conj a1)))))"

definition density_matrix_for_qubit :: "cplx list \<Rightarrow> nat \<Rightarrow> density" where
  "density_matrix_for_qubit state qubit =
     (let zero = cx_real (Fin 0) in foldl (density_step state qubit) (zero, zero, zero, zero) [0..<length state])"

definition clip_unit :: "pyfloat \<Rightarrow> pyfloat" where
  "clip_unit x = f_max (Fin 0) (f_min (Fin 1) x)"

definition entropy_from_density_matrix :: "sim_lib \<Rightarrow> density \<Rightarrow> pyfloat result" where
  "entropy_from_density_matrix l rho = (case rho of (r00, r01, r10, r11) \<Rightarrow>
     (let tr = f_add (cx_re r00) (cx_re r11);
          determinant = cx_re (cx_sub (cx_mul r00 r11) (cx_mul r01 r10));
          discriminant = f_max0 (f_sub (f_mul tr tr) (f_mul (Fin 4) determinant))
      in bindR (f_sqrt discriminant) (\<lambda>rt.
        Return (foldl (\<lambda>entropy v. if f_less (lit (1 / 10 ^ 12)) v then f_sub entropy (f_mul v (sl_log2 l v)) else entropy)
          (Fin 0) [clip_unit (f_quot (f_add tr rt) (Fin 2)), clip_unit (f_quot (f_sub tr rt) (Fin 2))]))))"

section \<open>The result of a simulation\<close>

definition qubit_entropies :: "sim_lib \<Rightarrow> cplx list \<Rightarrow> nat \<Rightarrow> pyfloat list result" where
  "qubit_entropies l state n =
     mapR (\<lambda>qubit. bindR (entropy_from_density_matrix l (density_matrix_for_qubit state qubit)) (\<lambda>e. Return (round_dec 8 e)))
       [0..<n]"

definition entangled_row :: "pyfloat list \<Rightarrow> nat \<times> nat \<Rightarrow> pyval result" where
  "entangled_row entropies pair = (case pair of (left, right) \<Rightarrow>
     if left < length entropies \<and> right < length entropies
     then Return (PDict [(''source'', PInt (int left)), (''target'', PInt (int right)),
       (''relationship'', PStr ''entangled_gate_path''),
       (''score'', PFloat (round_dec 8 (f_quot (f_add (entropies ! left) (entropies ! right)) (Fin 2))))])
     else Raise index_error)"

definition amplitude_rows :: "sim_lib \<Rightarrow> nat \<Rightarrow> cplx list \<Rightarrow> pyval list result" where
  "amplitude_rows l n state =
     bindR (mapR (\<lambda>a. lm_hypot (sl_math l) (cx_re a) (cx_im a)) state) (\<lambda>sizes.
       Return (map (\<lambda>(idx, a, _). PDict [(''basis'', PStr (bitstring idx n)),
           (''real'', PFloat (round_dec 8 (cx_re a))), (''imag'', PFloat (round_dec 8 (cx_im a)))])
         (filter (\<lambda>(idx, a, mag). f_less (lit (1 / 10 ^ 9)) mag) (enumerate 0 (zip state sizes)))))"

definition measurement_json ::
    "sim_lib \<Rightarrow> quantum_job \<Rightarrow> nat \<Rightarrow> sim_state \<Rightarrow> pyval dict result" where
  "measurement_json l job n s =
     bindR (mapR (abs_squared (sl_math l)) (fst s)) (\<lambda>probabilities.
     bindR (to_int (dget_or (qj_measurement_schema job) ''shots'' (PInt 1024))) (\<lambda>shots.
     bindR (measurement_counts probabilities shots) (\<lambda>counts.
     bindR (qubit_entropies l (fst s) n) (\<lambda>entropies.
     bindR (mapR (entangled_row entropies) (sorted_list_of_set (snd s))) (\<lambda>logical_graph.
     bindR (amplitude_rows l n (fst s)) (\<lambda>amplitudes.
       Return [(''counts'', PDict (map (\<lambda>(idx, v). (bitstring idx n, PInt v)) counts)), (''shots'', PInt shots),
         (''most_likely_bitstring'', PStr (bitstring (most_likely probabilities) n)),
         (''qubit_entropies'', PList (map (\<lambda>(q, e). PDict [(''qubit'', PInt (int q)), (''entropy'', PFloat e)])
            (enumerate 0 entropies))),
         (''logical_entanglement_graph'', PList logical_graph), (''nonzero_amplitudes'', PList amplitudes)]))))))"

definition simulate_quantum_job :: "sim_lib \<Rightarrow> quantum_job \<Rightarrow> pyval dict result" where
  "simulate_quantum_job l job =
     (if qj_qubit_count job < 1 then Raise (ValueError ''qubit_count must be >= 1'')
      else if qj_qubit_count job > 12 then Raise (ValueError ''builtin simulator caps qubit_count at 12'')
      else
        (let n = nat (qj_qubit_count job) in
         bindR (circuit_gates job) (\<lambda>gates.
         bindR (run_circuit l n gates) (\<lambda>s.
         bindR (measurement_json l job n s) (\<lambda>measurement_results.
           let execution_proof = [(''engine'', PStr ''builtin_statevector_fallback''), (''gate_count'', PInt (int (length gates))),
                 (''circuit_hash'', PStr (hash_val (PDict (qj_circuit_spec job))))]
           in Return [(''measurement_results'', PDict measurement_results),
             (''noise_profile'', PDict [(''model'', PStr ''ideal_statevector''), (''backend'', PStr ''builtin'')]),
             (''execution_proof'', PDict execution_proof),
             (''verification_hash'', PStr (hash_val (PDict [(''uri'', PStr (qj_uri job)), (''backend'', PStr (qj_backend job)),
                (''measurement_results'', PDict measurement_results), (''execution_proof'', PDict execution_proof)])))])))))"

section \<open>Bits\<close>

lemma set_bit_less: "b < 2 ^ n \<Longrightarrow> t < n \<Longrightarrow> set_bit t b < (2::nat) ^ n"
  by (metis take_bit_nat_eq_self_iff take_bit_set_bit_eq not_le)

lemma flip_bit_less: "b < 2 ^ n \<Longrightarrow> t < n \<Longrightarrow> flip_bit t b < (2::nat) ^ n"
  by (metis take_bit_nat_eq_self_iff take_bit_flip_bit_eq not_le)

lemma bit_flip_other: "t \<noteq> c \<Longrightarrow> bit (flip_bit t b) c \<longleftrightarrow> bit (b::nat) c"
  by (simp add: bit_simps)

lemma bit_flip_same: "bit (flip_bit t b) t \<longleftrightarrow> \<not> bit (b::nat) t"
  by (simp add: bit_simps)

lemma flip_flip: "flip_bit t (flip_bit t b) = (b::nat)"
  by (rule bit_eqI) (auto simp: bit_simps)

lemma set_bit_off: "\<not> bit (b::nat) t \<Longrightarrow> set_bit t b = b + 2 ^ t"
  by (simp add: set_bit_eq)

lemma flip_bit_set: "\<not> bit (b::nat) t \<Longrightarrow> flip_bit t b = set_bit t b"
  by (rule bit_eqI) (auto simp: bit_simps)

lemma set_bit_greater: "\<not> bit (b::nat) t \<Longrightarrow> b < set_bit t b"
  by (simp add: set_bit_off)

section \<open>The controlled gate as a permutation\<close>

definition cx_index :: "nat \<Rightarrow> nat \<Rightarrow> nat \<Rightarrow> nat" where
  "cx_index control target b = (if bit b control then flip_bit target b else b)"

lemma cx_index_involution: "control \<noteq> target \<Longrightarrow> cx_index control target (cx_index control target b) = b"
  by (simp add: cx_index_def bit_flip_other flip_flip)

lemma cx_index_less: "b < 2 ^ n \<Longrightarrow> target < n \<Longrightarrow> cx_index control target b < 2 ^ n"
  by (simp add: cx_index_def flip_bit_less)

lemma set_bit_flip: "bit (b::nat) t \<Longrightarrow> \<not> bit (flip_bit t b) t \<and> set_bit t (flip_bit t b) = b"
  by (auto intro: bit_eqI simp: bit_simps)

lemma swap_step_Return:
  assumes "length state = 2 ^ n" "k < 2 ^ n" "target < n"
  shows "\<exists>state'. swap_step control target state k = Return state' \<and> length state' = 2 ^ n \<and>
    (\<forall>b<2 ^ n. state' ! b =
      (if bit k control \<and> \<not> bit k target \<and> (b = k \<or> b = set_bit target k) then state ! flip_bit target b else state ! b))"
proof (cases "bit k control \<and> \<not> bit k target")
  case True
  have "set_bit target k < length state" using assms set_bit_less by simp
  moreover have "flip_bit target k = set_bit target k" "flip_bit target (set_bit target k) = k"
    using True flip_bit_set flip_flip by metis+
  moreover have "k \<noteq> set_bit target k" using set_bit_greater [of k target] True by simp
  ultimately show ?thesis using assms True by (auto simp: swap_step_def Let_def nth_list_update)
next
  case False
  then show ?thesis using assms by (auto simp: swap_step_def)
qed

text \<open>After the first \<open>k\<close> turns of the loop the pairs whose smaller index is below \<open>k\<close> are swapped.\<close>

lemma swap_loop:
  assumes "length state = 2 ^ n" "target < n" "control \<noteq> target" "k \<le> 2 ^ n"
  shows "\<exists>state'. foldR (swap_step control target) state [0..<k] = Return state' \<and> length state' = 2 ^ n \<and>
    (\<forall>b<2 ^ n. state' ! b =
      (if bit b control \<and> (if bit b target then flip_bit target b < k else b < k) then state ! flip_bit target b else state ! b))"
  using assms(4)
proof (induction k)
  case 0
  then show ?case using assms(1) by simp
next
  case (Suc k)
  let ?done = "\<lambda>b. if bit b target then flip_bit target b < k else b < k"
  obtain s1 where s1: "foldR (swap_step control target) state [0..<k] = Return s1" "length s1 = 2 ^ n"
      "\<forall>b<2 ^ n. s1 ! b = (if bit b control \<and> ?done b then state ! flip_bit target b else state ! b)"
    using Suc by auto
  obtain s2 where s2: "swap_step control target s1 k = Return s2" "length s2 = 2 ^ n"
      "\<forall>b<2 ^ n. s2 ! b =
        (if bit k control \<and> \<not> bit k target \<and> (b = k \<or> b = set_bit target k) then s1 ! flip_bit target b else s1 ! b)"
    using swap_step_Return [OF s1(2) _ assms(2), of k control] Suc.prems by auto
  have "s2 ! b = (if bit b control \<and> (if bit b target then flip_bit target b < Suc k else b < Suc k)
      then state ! flip_bit target b else state ! b)" if b: "b < 2 ^ n" for b
  proof -
    let ?f = "flip_bit target b"
    have f: "?f < 2 ^ n" "bit ?f control = bit b control" "bit ?f target = (\<not> bit b target)" "flip_bit target ?f = b"
      using flip_bit_less [OF b assms(2)] bit_flip_other assms(3) bit_flip_same flip_flip by auto
    have set_iff: "\<not> bit k target \<Longrightarrow> b = set_bit target k \<longleftrightarrow> bit b target \<and> ?f = k"
      using flip_bit_set flip_flip bit_flip_same by metis
    have at_b: "s1 ! b = (if bit b control \<and> ?done b then state ! ?f else state ! b)"
      and at_f: "s1 ! ?f = (if bit b control \<and> ?done ?f then state ! b else state ! ?f)"
      using s1(3) b f by auto
    show ?thesis
    proof (cases "bit k control \<and> \<not> bit k target \<and> (b = k \<or> b = set_bit target k)")
      case True
      then have "s2 ! b = s1 ! ?f" using s2(3) b by simp
      then show ?thesis using True at_f f set_iff by (auto split: if_splits)
    next
      case False
      then have "s2 ! b = s1 ! b" using s2(3) b by auto
      then show ?thesis using False at_b f set_iff by (auto simp: less_Suc_eq)
    qed
  qed
  then show ?case using s1(1) s2(1,2) by (auto simp: foldR_append)
qed

lemma apply_controlled_x_nth:
  assumes "length state = 2 ^ n" "target < n" "control \<noteq> target"
  shows "\<exists>state'. apply_controlled_x state control target = Return state' \<and> length state' = 2 ^ n \<and>
    (\<forall>b<2 ^ n. state' ! b = state ! cx_index control target b)"
proof -
  obtain s where s: "foldR (swap_step control target) state [0..<2 ^ n] = Return s" "length s = 2 ^ n"
      "\<forall>b<2 ^ n. s ! b = (if bit b control \<and> (if bit b target then flip_bit target b < 2 ^ n else b < 2 ^ n)
        then state ! flip_bit target b else state ! b)"
    using swap_loop [OF assms, of "2 ^ n"] by auto
  have "s ! b = state ! cx_index control target b" if "b < 2 ^ n" for b
    using s(3) that flip_bit_less [OF that assms(2)] by (auto simp: cx_index_def)
  then show ?thesis using s(1,2) assms by (auto simp: apply_controlled_x_def)
qed

section \<open>A gate on one qubit\<close>

lemma bit_off_iff: "\<not> bit (b::nat) t \<longleftrightarrow> b mod 2 ^ Suc t < 2 ^ t"
proof -
  have "b mod 2 ^ Suc t = b mod 2 ^ t + 2 ^ t * (b div 2 ^ t mod 2)"
    by (metis mod_mult2_eq power_Suc2 add.commute)
  moreover have "b mod 2 ^ t < 2 ^ t" by simp
  ultimately show ?thesis by (cases "odd (b div 2 ^ t)") (auto simp: bit_iff_odd odd_iff_mod_2_eq_one even_iff_mod_2_eq_zero)
qed

lemma ceil_multiple: "0 < p \<Longrightarrow> (q * p + p - 1) div p = (q::nat)"
proof -
  assume "0 < p"
  then have "q * p + p - 1 = (p - 1) + q * p" "p - 1 < p" by simp_all
  then show ?thesis by (simp only: div_mult_self1) simp
qed

lemma set_zero_indices:
  assumes "target < n"
  shows "set (zero_indices (2 ^ n) (2 ^ target)) = {b. b < 2 ^ n \<and> \<not> bit b target}" (is "?L = ?R")
proof -
  define s :: nat where "s = 2 ^ target"
  define q :: nat where "q = 2 ^ (n - Suc target)"
  have s: "0 < s" by (simp add: s_def)
  have n: "(2::nat) ^ n = q * (2 * s)"
    unfolding q_def s_def using assms by (simp flip: power_add power_Suc)
  have count: "(2 ^ n + 2 * s - 1) div (2 * s) = q"
    unfolding n by (rule ceil_multiple) (use s in simp)
  have L: "?L = {k * (2 * s) + r |k r. k < q \<and> r < s}"
    unfolding zero_indices_def Let_def s_def [symmetric] count
    by auto (metis le_add_diff_inverse less_diff_conv2)
  have bit: "\<not> bit b target \<longleftrightarrow> b mod (2 * s) < s" for b
    using bit_off_iff [of b target] by (simp add: s_def)
  show ?thesis
  proof (intro set_eqI iffI)
    fix b assume "b \<in> ?L"
    then obtain k r where b: "b = k * (2 * s) + r" "k < q" "r < s" using L by auto
    have "(Suc k) * (2 * s) \<le> q * (2 * s)" using b(2) by (intro mult_le_mono1) simp
    then show "b \<in> ?R" using b by (auto simp: bit n)
  next
    fix b assume b: "b \<in> ?R"
    then have "b div (2 * s) < q" using s by (simp add: n less_mult_imp_div_less)
    moreover have "b mod (2 * s) < s" using b bit by auto
    moreover have "b = b div (2 * s) * (2 * s) + b mod (2 * s)" by (rule div_mult_mod_eq [symmetric])
    ultimately show "b \<in> ?L" unfolding L by blast
  qed
qed

lemma distinct_zero_indices: "0 < stride \<Longrightarrow> distinct (zero_indices len stride)"
proof -
  assume s: "0 < stride"
  have "distinct (concat (map (\<lambda>k. map (\<lambda>offset. k * (2 * stride) + offset) [0..<stride]) [0..<m]))" for m
  proof (induction m)
    case (Suc m)
    have "\<not> x < stride + k * (2 * stride)" if "k < m" "m * (2 * stride) \<le> x" for k x
    proof -
      have "Suc k * (2 * stride) \<le> m * (2 * stride)" using that(1) by (intro mult_le_mono1) simp
      then show ?thesis using that(2) by simp
    qed
    then show ?case using Suc by (auto simp: distinct_map inj_on_def)
  qed simp
  then show ?thesis by (simp add: zero_indices_def Let_def)
qed

text \<open>The butterflies of a list of distinct lower indices, none of them an upper index of another.\<close>

lemma mix_pairs:
  assumes "\<And>z. z \<in> set zs \<Longrightarrow> z + stride < length state" "distinct zs" "0 < stride"
    and "\<And>z. z \<in> set zs \<Longrightarrow> z + stride \<notin> set zs"
  shows "\<exists>state'. foldR (mix_pair stride (m0, m1, m2, m3)) state zs = Return state' \<and> length state' = length state \<and>
    (\<forall>b<length state. state' ! b =
      (if b \<in> set zs then cx_add (cx_mul m0 (state ! b)) (cx_mul m1 (state ! (b + stride)))
       else if stride \<le> b \<and> b - stride \<in> set zs
       then cx_add (cx_mul m2 (state ! (b - stride))) (cx_mul m3 (state ! b)) else state ! b))"
  using assms
proof (induction zs arbitrary: state)
  case (Cons z zs)
  let ?mid = "state[z := cx_add (cx_mul m0 (state ! z)) (cx_mul m1 (state ! (z + stride))),
    z + stride := cx_add (cx_mul m2 (state ! z)) (cx_mul m3 (state ! (z + stride)))]"
  have step: "mix_pair stride (m0, m1, m2, m3) state z = Return ?mid"
    using Cons.prems(1) by (simp add: mix_pair_def Let_def)
  have zs: "\<And>y. y \<in> set zs \<Longrightarrow> y + stride < length ?mid" "distinct zs" "\<And>y. y \<in> set zs \<Longrightarrow> y + stride \<notin> set zs"
    "\<And>y. y \<in> set zs \<Longrightarrow> y + stride \<noteq> z \<and> y \<noteq> z \<and> z + stride \<noteq> y"
    using Cons.prems by auto
  obtain t where t: "foldR (mix_pair stride (m0, m1, m2, m3)) ?mid zs = Return t" "length t = length ?mid"
    "\<forall>b<length ?mid. t ! b =
      (if b \<in> set zs then cx_add (cx_mul m0 (?mid ! b)) (cx_mul m1 (?mid ! (b + stride)))
       else if stride \<le> b \<and> b - stride \<in> set zs
       then cx_add (cx_mul m2 (?mid ! (b - stride))) (cx_mul m3 (?mid ! b)) else ?mid ! b)"
    using Cons.IH [of ?mid] zs(1,2,3) assms(3) by blast
  have "t ! b =
      (if b \<in> set (z # zs) then cx_add (cx_mul m0 (state ! b)) (cx_mul m1 (state ! (b + stride)))
       else if stride \<le> b \<and> b - stride \<in> set (z # zs)
       then cx_add (cx_mul m2 (state ! (b - stride))) (cx_mul m3 (state ! b)) else state ! b)" if b: "b < length state" for b
  proof -
    have tb: "t ! b = (if b \<in> set zs then cx_add (cx_mul m0 (?mid ! b)) (cx_mul m1 (?mid ! (b + stride)))
       else if stride \<le> b \<and> b - stride \<in> set zs
       then cx_add (cx_mul m2 (?mid ! (b - stride))) (cx_mul m3 (?mid ! b)) else ?mid ! b)"
      using t(3) b by simp
    have ne: "?mid ! c = state ! c" if "c \<noteq> z" "c \<noteq> z + stride" for c using that by simp
    have at_z: "?mid ! z = cx_add (cx_mul m0 (state ! z)) (cx_mul m1 (state ! (z + stride)))"
      and at_one: "?mid ! (z + stride) = cx_add (cx_mul m2 (state ! z)) (cx_mul m3 (state ! (z + stride)))"
      using Cons.prems(1) [of z] assms(3) by simp_all
    consider "b = z" | "b = z + stride" | "b \<noteq> z" "b \<noteq> z + stride" by blast
    then show ?thesis
    proof cases
      case 1
      then have "b \<notin> set zs" "\<not> (stride \<le> b \<and> b - stride \<in> set zs)" using Cons.prems(2) zs(4) by fastforce+
      then show ?thesis using 1 tb at_z by auto
    next
      case 2
      then have "b \<notin> set (z # zs)" "b - stride \<notin> set zs" using Cons.prems(2,4) assms(3) by auto
      then show ?thesis using 2 tb at_one by simp
    next
      case 3
      have up: "b \<in> set zs \<Longrightarrow> ?mid ! (b + stride) = state ! (b + stride)" using zs(4) [of b] 3 by (intro ne) auto
      have down: "stride \<le> b \<Longrightarrow> b - stride \<in> set zs \<Longrightarrow> ?mid ! (b - stride) = state ! (b - stride)"
        using zs(4) [of "b - stride"] 3 by (intro ne) auto
      show ?thesis using tb ne [OF 3] up down 3 by (auto simp del: nth_list_update_eq)
    qed
  qed
  then show ?case using step t(1,2) by simp
qed simp

lemma apply_single_qubit_gate_nth:
  assumes "length state = 2 ^ n" "target < n"
  shows "\<exists>state'. apply_single_qubit_gate state target (m0, m1, m2, m3) = Return state' \<and> length state' = 2 ^ n \<and>
    (\<forall>b<2 ^ n. state' ! b =
      (if bit b target then cx_add (cx_mul m2 (state ! flip_bit target b)) (cx_mul m3 (state ! b))
       else cx_add (cx_mul m0 (state ! b)) (cx_mul m1 (state ! flip_bit target b))))"
proof -
  let ?zs = "zero_indices (2 ^ n) (2 ^ target)"
  have zs: "set ?zs = {b. b < 2 ^ n \<and> \<not> bit b target}" by (rule set_zero_indices [OF assms(2)])
  have up: "z + 2 ^ target = set_bit target z" if "z \<in> set ?zs" for z using that zs set_bit_off by auto
  have upper: "2 ^ target \<le> b \<and> b - 2 ^ target \<in> set ?zs \<longleftrightarrow> bit b target" if b: "b < 2 ^ n" for b
  proof
    assume "2 ^ target \<le> b \<and> b - 2 ^ target \<in> set ?zs"
    then have "b = set_bit target (b - 2 ^ target)" using up [of "b - 2 ^ target"] by simp
    then show "bit b target" by (metis bit_set_bit_iff possible_bit_nat)
  next
    assume t: "bit b target"
    then have "\<not> bit (flip_bit target b) target" "b = flip_bit target b + 2 ^ target"
      using set_bit_flip [OF t] set_bit_off by metis+
    then show "2 ^ target \<le> b \<and> b - 2 ^ target \<in> set ?zs"
      using zs flip_bit_less [OF b assms(2)] by (metis (mono_tags) add_diff_cancel_right' le_add2 mem_Collect_eq)
  qed
  have other: "b - 2 ^ target = flip_bit target b" if "bit b target" for b :: nat
    using set_bit_flip [OF that] set_bit_off by (metis add_diff_cancel_right')
  have lower: "b + 2 ^ target = flip_bit target b" if "\<not> bit b target" for b :: nat
    using set_bit_off [OF that] flip_bit_set [OF that] by simp
  have in_range: "z + 2 ^ target < length state" if "z \<in> set ?zs" for z
    using that zs up [OF that] set_bit_less [OF _ assms(2)] assms(1) by auto
  have apart: "z + 2 ^ target \<notin> set ?zs" if "z \<in> set ?zs" for z
    using zs up [OF that] by (auto simp: bit_simps)
  have "distinct ?zs" by (rule distinct_zero_indices) simp
  note distinct = this
  have "\<exists>t. foldR (mix_pair (2 ^ target) (m0, m1, m2, m3)) state ?zs = Return t \<and> length t = length state \<and>
    (\<forall>b<length state. t ! b =
      (if b \<in> set ?zs then cx_add (cx_mul m0 (state ! b)) (cx_mul m1 (state ! (b + 2 ^ target)))
       else if 2 ^ target \<le> b \<and> b - 2 ^ target \<in> set ?zs
       then cx_add (cx_mul m2 (state ! (b - 2 ^ target))) (cx_mul m3 (state ! b)) else state ! b))"
    by (rule mix_pairs [OF in_range distinct _ apart]) simp_all
  then obtain t where t: "foldR (mix_pair (2 ^ target) (m0, m1, m2, m3)) state ?zs = Return t" "length t = length state"
    "\<forall>b<length state. t ! b =
      (if b \<in> set ?zs then cx_add (cx_mul m0 (state ! b)) (cx_mul m1 (state ! (b + 2 ^ target)))
       else if 2 ^ target \<le> b \<and> b - 2 ^ target \<in> set ?zs
       then cx_add (cx_mul m2 (state ! (b - 2 ^ target))) (cx_mul m3 (state ! b)) else state ! b)"
    by blast
  have "t ! b = (if bit b target then cx_add (cx_mul m2 (state ! flip_bit target b)) (cx_mul m3 (state ! b))
       else cx_add (cx_mul m0 (state ! b)) (cx_mul m1 (state ! flip_bit target b)))" if b: "b < 2 ^ n" for b
  proof -
    have tb: "t ! b = (if b \<in> set ?zs then cx_add (cx_mul m0 (state ! b)) (cx_mul m1 (state ! (b + 2 ^ target)))
       else if 2 ^ target \<le> b \<and> b - 2 ^ target \<in> set ?zs
       then cx_add (cx_mul m2 (state ! (b - 2 ^ target))) (cx_mul m3 (state ! b)) else state ! b)"
      using t(3) b assms(1) by simp
    have "b \<in> set ?zs \<longleftrightarrow> \<not> bit b target" using zs b by simp
    then show ?thesis unfolding tb upper [OF b] using other [of b] lower [of b] by (cases "bit b target") simp_all
  qed
  then show ?thesis using t(1,2) assms by (auto simp: apply_single_qubit_gate_def)
qed

section \<open>Properties of the gates\<close>

text \<open>
  C21: on the amplitudes of \<open>n\<close> qubits the loops that update the array in place do what the gates
  mean: a gate on one qubit maps every pair of amplitudes that differ in that qubit by its matrix, and
  the controlled gate moves every amplitude to the index with the target flipped where the control is
  set, and nothing else; applying it twice gives back the amplitudes it began with.
\<close>

theorem gates_act_pointwise:
  assumes "length state = 2 ^ n" "target < n" "control \<noteq> target"
  shows "\<exists>mixed moved.
    apply_single_qubit_gate state target (m0, m1, m2, m3) = Return mixed \<and>
    (\<forall>b<2 ^ n. mixed ! b =
      (if bit b target then cx_add (cx_mul m2 (state ! flip_bit target b)) (cx_mul m3 (state ! b))
       else cx_add (cx_mul m0 (state ! b)) (cx_mul m1 (state ! flip_bit target b)))) \<and>
    apply_controlled_x state control target = Return moved \<and>
    (\<forall>b<2 ^ n. moved ! b = state ! (if bit b control then flip_bit target b else b)) \<and>
    apply_controlled_x moved control target = Return state"
proof -
  obtain mixed where mixed: "apply_single_qubit_gate state target (m0, m1, m2, m3) = Return mixed"
    "\<forall>b<2 ^ n. mixed ! b =
      (if bit b target then cx_add (cx_mul m2 (state ! flip_bit target b)) (cx_mul m3 (state ! b))
       else cx_add (cx_mul m0 (state ! b)) (cx_mul m1 (state ! flip_bit target b)))"
    using apply_single_qubit_gate_nth [OF assms(1,2)] by blast
  obtain moved where moved: "apply_controlled_x state control target = Return moved" "length moved = 2 ^ n"
    "\<forall>b<2 ^ n. moved ! b = state ! cx_index control target b"
    using apply_controlled_x_nth [OF assms] by blast
  obtain again where again: "apply_controlled_x moved control target = Return again" "length again = 2 ^ n"
    "\<forall>b<2 ^ n. again ! b = moved ! cx_index control target b"
    using apply_controlled_x_nth [OF moved(2) assms(2,3)] by blast
  have "again = state"
    by (rule nth_equalityI)
      (use again(2,3) moved(3) assms cx_index_less cx_index_involution in auto)
  then show ?thesis using mixed moved again(1) by (auto simp: cx_index_def)
qed

theorem gates_act_pointwise_witness:
  "\<exists>moved. apply_controlled_x (basis_state 2 1) 0 1 = Return moved \<and> moved ! 3 = cx_real (Fin 1) \<and>
    apply_controlled_x moved 0 1 = Return (basis_state 2 1)"
proof -
  have "length (basis_state 2 1) = 2 ^ 2" "(1::nat) < 2" "(0::nat) \<noteq> 1" by (simp_all add: basis_state_def)
  from gates_act_pointwise [OF this] obtain moved where
    "apply_controlled_x (basis_state 2 1) 0 1 = Return moved"
    "\<forall>b<2 ^ 2. moved ! b = basis_state 2 1 ! (if bit b 0 then flip_bit 1 b else b)"
    "apply_controlled_x moved 0 1 = Return (basis_state 2 1)" by blast
  moreover have "basis_state 2 1 ! (if bit (3::nat) 0 then flip_bit 1 3 else 3) = cx_real (Fin 1)"
    by code_simp
  ultimately show ?thesis by auto
qed

section \<open>Shares of the shots\<close>

lemma rnd_small_int: "\<bar>m\<bar> < 2 ^ 53 \<Longrightarrow> rnd (of_int m) = Fin (of_int m)"
proof -
  assume m: "\<bar>m\<bar> < 2 ^ 53"
  then have "\<bar>of_int m :: rat\<bar> < of_int (2 ^ 53)" by (simp only: of_int_abs [symmetric] of_int_less_iff)
  also have "\<dots> = pow2 53" by (simp add: pow2_def)
  also have "\<dots> < pow2 1024" by simp
  finally show ?thesis using m by (simp add: rnd_Fin fl_int)
qed

lemma mset_insert_share: "mset (insert_share key i js) = add_mset i (mset js)"
  by (induction js) auto

lemma mset_share_order: "mset (share_order key n) = mset [0..<n]"
  unfolding share_order_def by (induction n) (auto simp: mset_insert_share)

lemma share_order_facts:
  "distinct (share_order key n)" "set (share_order key n) = {..<n}" "length (share_order key n) = n"
proof -
  note m = mset_share_order [of key n]
  show "distinct (share_order key n)" by (metis m distinct_upt mset_eq_imp_distinct_iff)
  show "set (share_order key n) = {..<n}" by (metis m mset_eq_setD set_upt lessThan_atLeast0)
  show "length (share_order key n) = n" by (metis m mset_eq_length length_upt diff_zero)
qed

lemma sum_list_set: "j < length cs \<Longrightarrow> sum_list (cs[j := v]) = sum_list cs + v - (cs ! j :: int)"
  by (induction cs arbitrary: j) (auto split: nat.splits)

lemma add_ones:
  "distinct is \<Longrightarrow> set is \<subseteq> {..<length cs} \<Longrightarrow>
    length (foldl add_one cs is) = length cs \<and> sum_list (foldl add_one cs is) = sum_list cs + int (length is) \<and>
    (\<forall>i<length cs. foldl add_one cs is ! i = cs ! i + (if i \<in> set is then 1 else 0))"
proof (induction "is" arbitrary: cs)
  case (Cons j js)
  have j: "j < length cs" using Cons.prems by simp
  then have sum: "sum_list (add_one cs j) = sum_list cs + 1" by (simp add: add_one_def sum_list_set)
  have "set js \<subseteq> {..<length (add_one cs j)}" using Cons.prems by (simp add: add_one_def)
  then show ?case using Cons.IH [of "add_one cs j"] Cons.prems sum j by (auto simp: add_one_def nth_list_update)
qed simp

lemma sum_positive: "\<forall>c\<in>set cs. 0 \<le> c \<Longrightarrow>
    sum_list (map snd (filter (\<lambda>(i, c). c > 0) (enumerate k cs))) = sum_list (cs :: int list)"
  by (induction cs arbitrary: k) auto

lemma within_one_nonneg:
  assumes "length cs = length fs" "\<And>i. i < length fs \<Longrightarrow> cs ! i = fs ! i \<or> cs ! i = fs ! i + 1"
    and "\<forall>c\<in>set fs. 0 \<le> (c :: int)"
  shows "\<forall>c\<in>set cs. 0 \<le> c"
proof
  fix c assume "c \<in> set cs"
  then obtain i where "i < length cs" "c = cs ! i" by (metis in_set_conv_nth)
  then show "0 \<le> c" using assms(2) [of i] assms(1,3) nth_mem [of i fs] by fastforce
qed

text \<open>
  C30: the counts of a measurement share the shots out completely: when the whole parts of the
  probabilities times the shots leave between none and one shot per basis state over, the counts add
  up to the shots, name each basis state once, are positive, and each is the whole part of its share
  or one more.
\<close>

theorem measurement_shares_shots:
  assumes "int_to_float shots = Return amount" "mapR floor_float (map (\<lambda>p. f_mul p amount) probabilities) = Return floors"
    and "\<forall>c\<in>set floors. 0 \<le> c" "sum_list floors \<le> shots" "shots \<le> sum_list floors + int (length probabilities)"
  shows "\<exists>counts. measurement_counts probabilities shots = Return counts \<and> sum_list (map snd counts) = shots \<and>
    distinct (map fst counts) \<and>
    (\<forall>(i, c)\<in>set counts. i < length probabilities \<and> 0 < c \<and> (c = floors ! i \<or> c = floors ! i + 1))"
proof -
  let ?key = "\<lambda>idx. (f_sub (map (\<lambda>p. f_mul p amount) probabilities ! idx) (rnd (of_int (floors ! idx))), probabilities ! idx)"
  let ?picked = "py_take (shots - sum_list floors) (share_order ?key (length probabilities))"
  let ?cs = "foldl add_one floors ?picked"
  have len: "length floors = length probabilities" using mapR_length [OF assms(2)] by simp
  have picked: "?picked = take (nat (shots - sum_list floors)) (share_order ?key (length probabilities))"
    using assms(4) by (simp add: py_take_def)
  have "distinct ?picked" "set ?picked \<subseteq> {..<length floors}" "length ?picked = nat (shots - sum_list floors)"
  proof -
    show "distinct ?picked" unfolding picked by (intro distinct_take share_order_facts)
    have "set ?picked \<subseteq> set (share_order ?key (length probabilities))" unfolding picked by (rule set_take_subset)
    then show "set ?picked \<subseteq> {..<length floors}" using len by (simp only: share_order_facts)
    show "length ?picked = nat (shots - sum_list floors)"
      unfolding picked length_take share_order_facts using assms(5) by simp
  qed
  note ones = add_ones [OF this(1,2)] and this(3)
  then have cs: "length ?cs = length floors" "sum_list ?cs = shots"
      "\<And>i. i < length floors \<Longrightarrow> ?cs ! i = floors ! i \<or> ?cs ! i = floors ! i + 1"
    using assms(4) by auto
  have nonneg: "\<forall>c\<in>set ?cs. 0 \<le> c" by (rule within_one_nonneg [OF cs(1,3) assms(3)])
  let ?counts = "filter (\<lambda>(i, c). c > 0) (enumerate 0 ?cs)"
  have "measurement_counts probabilities shots = Return ?counts"
    using assms(1,2) by (simp add: measurement_counts_def share_counts_def Let_def)
  moreover have "sum_list (map snd ?counts) = shots" using sum_positive [OF nonneg, of 0] cs(2) by simp
  moreover have "distinct (map fst ?counts)" by (rule distinct_map_filter) simp
  moreover have "\<forall>(i, c)\<in>set ?counts. i < length probabilities \<and> 0 < c \<and> (c = floors ! i \<or> c = floors ! i + 1)"
  proof (clarify, intro conjI)
    fix i c assume "(i, c) \<in> set ?counts"
    then have i: "i < length ?cs" "c = ?cs ! i" and c: "0 < c" by (simp_all add: in_set_enumerate_eq)
    show "i < length probabilities" using i(1) cs(1) len by simp
    show "0 < c" by (rule c)
    show "c = floors ! i \<or> c = floors ! i + 1" unfolding i(2) using i(1) cs(1) by (intro cs(3)) simp
  qed
  ultimately show ?thesis by (intro exI [of _ ?counts] conjI)
qed

theorem measurement_shares_shots_witness:
  "\<exists>counts. measurement_counts [Fin (1 / 2), Fin (1 / 2)] 5 = Return counts \<and> sum_list (map snd counts) = 5"
proof -
  have five: "rnd 5 = Fin 5" using rnd_small_int [of 5] by simp
  then have a: "int_to_float 5 = Return (Fin 5)" by (simp add: int_to_float_def)
  have "fl (5 / 2) = 5 / 2" by (rule fl_dyadic [of _ 5 "- 1"]) (simp_all add: pow2_def)
  then have "rnd (5 / 2) = Fin (5 / 2)" using rnd_Fin [of "5 / 2"] pow2_le_iff [of 3 1024] by (simp add: pow2_def)
  then have b: "mapR floor_float (map (\<lambda>p. f_mul p (Fin 5)) [Fin (1 / 2), Fin (1 / 2)]) = Return [2, 2]"
    by (simp add: floor_float_def floor_eq_iff)
  show ?thesis using measurement_shares_shots [OF a b] by auto
qed

section \<open>Classical circuits\<close>

text \<open>Circuits of negations and controlled negations, and what they compute on the basis states.\<close>

datatype classical_gate = Flip nat | Flip_If nat nat

definition gate_json :: "classical_gate \<Rightarrow> pyval" where
  "gate_json g = (case g of
       Flip t \<Rightarrow> PDict [(''name'', PStr ''x''), (''target'', PInt (int t))]
     | Flip_If c t \<Rightarrow> PDict [(''name'', PStr ''cnot''), (''control'', PInt (int c)), (''target'', PInt (int t))])"

definition gate_fits :: "nat \<Rightarrow> classical_gate \<Rightarrow> bool" where
  "gate_fits n g = (case g of Flip t \<Rightarrow> t < n | Flip_If c t \<Rightarrow> c < n \<and> t < n \<and> c \<noteq> t)"

definition classical_step :: "nat \<Rightarrow> classical_gate \<Rightarrow> nat" where
  "classical_step b g = (case g of Flip t \<Rightarrow> flip_bit t b | Flip_If c t \<Rightarrow> if bit b c then flip_bit t b else b)"

lemma basis_state_nth: "b < 2 ^ n \<Longrightarrow> basis_state n k ! b = cx_real (Fin (if b = k then 1 else 0))"
  by (simp add: basis_state_def nth_list_update)

lemma length_basis_state [simp]: "length (basis_state n k) = 2 ^ n"
  by (simp add: basis_state_def)

lemma gate_names:
  "normalize_gate_name (PStr ''x'') = ''x''" "normalize_gate_name (PStr ''cnot'') = ''cnot''"
  by code_simp+

lemma mix_units:
  "cx_add (cx_mul (cx_real (Fin 0)) (cx_real (Fin (if p then 1 else 0)))) (cx_mul (cx_real (Fin 1)) (cx_real (Fin (if q then 1 else 0))))
     = cx_real (Fin (if q then 1 else 0))"
  "cx_add (cx_mul (cx_real (Fin 1)) (cx_real (Fin (if q then 1 else 0)))) (cx_mul (cx_real (Fin 0)) (cx_real (Fin (if p then 1 else 0))))
     = cx_real (Fin (if q then 1 else 0))"
  by (simp_all add: cx_add_def cx_mul_def cx_real_def f_sub_def)

lemma flip_index: "k < 2 ^ n \<Longrightarrow> b < 2 ^ n \<Longrightarrow> flip_bit t b = k \<longleftrightarrow> b = flip_bit t (k::nat)"
  using flip_flip by metis

lemma run_flip:
  assumes "t < n" "k < 2 ^ n"
  shows "run_gate l (basis_state n k, E) (gate_json (Flip t)) = Return (basis_state n (flip_bit t k), E)"
proof -
  let ?zero = "cx_real (Fin 0)" and ?one = "cx_real (Fin 1)"
  obtain s where s: "apply_single_qubit_gate (basis_state n k) t (?zero, ?one, ?one, ?zero) = Return s" "length s = 2 ^ n"
    "\<forall>b<2 ^ n. s ! b =
      (if bit b t then cx_add (cx_mul ?one (basis_state n k ! flip_bit t b)) (cx_mul ?zero (basis_state n k ! b))
       else cx_add (cx_mul ?zero (basis_state n k ! b)) (cx_mul ?one (basis_state n k ! flip_bit t b)))"
    using apply_single_qubit_gate_nth [OF length_basis_state assms(1)] by blast
  have "s = basis_state n (flip_bit t k)"
  proof (rule nth_equalityI)
    fix b assume "b < length s"
    then have b: "b < 2 ^ n" "flip_bit t b < 2 ^ n" using s(2) flip_bit_less [OF _ assms(1)] by simp_all
    have "s ! b = basis_state n k ! flip_bit t b"
      using s(3) b by (auto simp: basis_state_nth mix_units)
    then show "s ! b = basis_state n (flip_bit t k) ! b"
      using b flip_index [OF assms(2) b(1)] by (simp add: basis_state_nth)
  qed (simp add: s(2))
  then show ?thesis
    using s(1) by (simp add: run_gate_def gate_json_def gate_names qubit_index_def to_int_def single_qubit_matrix_def
      Let_def dget_or_def)
qed

lemma run_flip_if:
  assumes "c < n" "t < n" "c \<noteq> t" "k < 2 ^ n"
  shows "run_gate l (basis_state n k, E) (gate_json (Flip_If c t)) =
    Return (basis_state n (classical_step k (Flip_If c t)), insert (ordered_pair c t) E)"
proof -
  obtain s where s: "apply_controlled_x (basis_state n k) c t = Return s" "length s = 2 ^ n"
    "\<forall>b<2 ^ n. s ! b = basis_state n k ! cx_index c t b"
    using apply_controlled_x_nth [OF length_basis_state assms(2,3)] by blast
  have "s = basis_state n (cx_index c t k)"
  proof (rule nth_equalityI)
    fix b assume "b < length s"
    then have b: "b < 2 ^ n" using s(2) by simp
    have "cx_index c t b = k \<longleftrightarrow> b = cx_index c t k" using cx_index_involution [OF assms(3)] by metis
    then show "s ! b = basis_state n (cx_index c t k) ! b"
      using s(3) b cx_index_less [OF b assms(2)] by (simp add: basis_state_nth)
  qed (simp add: s(2))
  then show ?thesis
    using s(1) by (simp add: run_gate_def gate_json_def gate_names two_qubit_gate_def qubit_index_def to_int_def
      Let_def dget_or_def classical_step_def cx_index_def)
qed

lemma classical_step_less: "gate_fits n g \<Longrightarrow> k < 2 ^ n \<Longrightarrow> classical_step k g < 2 ^ n"
  by (cases g) (auto simp: classical_step_def gate_fits_def flip_bit_less)

definition pair_fits :: "nat \<Rightarrow> nat \<times> nat \<Rightarrow> bool" where
  "pair_fits n p \<longleftrightarrow> fst p < n \<and> snd p < n"

lemma run_classical:
  "\<forall>g\<in>set gs. gate_fits n g \<Longrightarrow> k < 2 ^ n \<Longrightarrow> finite E \<Longrightarrow> Ball E (pair_fits n) \<Longrightarrow>
    \<exists>E'. foldR (run_gate l) (basis_state n k, E) (map gate_json gs) = Return (basis_state n (foldl classical_step k gs), E') \<and>
      finite E' \<and> Ball E' (pair_fits n) \<and> foldl classical_step k gs < 2 ^ n"
proof (induction gs arbitrary: k E)
  case (Cons g gs)
  have k: "classical_step k g < 2 ^ n" using Cons.prems by (simp add: classical_step_less)
  show ?case
  proof (cases g)
    case (Flip t)
    then have "run_gate l (basis_state n k, E) (gate_json g) = Return (basis_state n (classical_step k g), E)"
      using run_flip Cons.prems by (simp add: gate_fits_def classical_step_def)
    then show ?thesis using Cons.IH [OF _ k Cons.prems(3,4)] Cons.prems(1) by simp
  next
    case (Flip_If c t)
    then have "run_gate l (basis_state n k, E) (gate_json g) =
        Return (basis_state n (classical_step k g), insert (ordered_pair c t) E)"
      using run_flip_if Cons.prems by (simp add: gate_fits_def)
    moreover have "pair_fits n (ordered_pair c t)"
      using Flip_If Cons.prems(1) by (simp add: gate_fits_def pair_fits_def ordered_pair_def)
    ultimately show ?thesis
      using Cons.IH [OF _ k, of "insert (ordered_pair c t) E"] Cons.prems by simp
  qed
qed simp

lemma binary_small: "binary 0 = [CHR ''0'']" "binary (Suc 0) = [CHR ''1'']"
  by (simp_all add: binary.simps [of 0] binary.simps [of "Suc 0"])

lemma length_binary: "0 < n \<Longrightarrow> b < 2 ^ n \<Longrightarrow> length (binary b) \<le> n"
proof (induction b arbitrary: n rule: binary.induct)
  case (1 b)
  show ?case
  proof (cases "b < 2")
    case False
    then have "n \<noteq> 1" using 1(3) by auto
    then obtain m where m: "n = Suc m" "0 < m" using 1(2) by (cases n) auto
    then have "length (binary (b div 2)) \<le> m" using 1(1) [OF False, of m] 1(3) by simp
    then show ?thesis using False m by (simp add: binary.simps [of b])
  qed (use 1(2) in \<open>simp add: binary.simps [of b]\<close>)
qed

lemma binary_nth:
  "k < length (binary b) \<Longrightarrow> binary b ! (length (binary b) - 1 - k) = (if bit b k then CHR ''1'' else CHR ''0'')"
proof (induction b arbitrary: k rule: binary.induct)
  case (1 b)
  show ?case
  proof (cases "b < 2")
    case True
    then have "b = 0 \<or> b = Suc 0" by (simp add: less_2_cases_iff)
    then show ?thesis using 1(2) by (auto simp: binary_small bit_0)
  next
    case False
    then have b: "binary b = binary (b div 2) @ [if odd b then CHR ''1'' else CHR ''0'']" by (simp add: binary.simps [of b])
    show ?thesis
    proof (cases k)
      case 0
      then show ?thesis by (simp add: b bit_0)
    next
      case (Suc j)
      then have "j < length (binary (b div 2))" using 1(2) b by simp
      moreover from this have "length (binary (b div 2)) - Suc j < length (binary (b div 2))" by simp
      ultimately show ?thesis using 1(1) [OF False, of j] Suc by (simp add: b nth_append bit_Suc)
    qed
  qed
qed

lemma binary_high: "length (binary b) \<le> k \<Longrightarrow> \<not> bit b k"
proof (induction b arbitrary: k rule: binary.induct)
  case (1 b)
  show ?case
  proof (cases "b < 2")
    case True
    then have "b = 0 \<or> b = Suc 0" "0 < k" using 1(2) by (auto simp: less_2_cases_iff binary_small)
    then have "b < 2 ^ k" using one_less_power [of "2::nat" k] by auto
    then show ?thesis by (simp add: bit_iff_odd)
  next
    case False
    then obtain j where "k = Suc j" "length (binary (b div 2)) \<le> j"
      using 1(2) by (cases k) (auto simp: binary.simps [of b])
    then show ?thesis using 1(1) [OF False] by (simp add: bit_Suc)
  qed
qed

text \<open>The text of a basis state has a character per qubit, the highest qubit first.\<close>

lemma bitstring_bits:
  assumes "0 < n" "b < 2 ^ n"
  shows "length (bitstring b n) = n"
    and "k < n \<Longrightarrow> bitstring b n ! (n - 1 - k) = (if bit b k then CHR ''1'' else CHR ''0'')"
proof -
  have len: "length (binary b) \<le> n" by (rule length_binary [OF assms])
  then show "length (bitstring b n) = n" by (simp add: bitstring_def Let_def)
  show "bitstring b n ! (n - 1 - k) = (if bit b k then CHR ''1'' else CHR ''0'')" if k: "k < n"
  proof (cases "k < length (binary b)")
    case True
    then have "\<not> n - 1 - k < n - length (binary b)" "n - 1 - k - (n - length (binary b)) = length (binary b) - 1 - k"
      using len k by simp_all
    then show ?thesis using True len k binary_nth [OF True] by (simp add: bitstring_def Let_def nth_append)
  next
    case False
    then have "n - 1 - k < n - length (binary b)" using k by linarith
    then show ?thesis using False len k binary_high [of b k] by (simp add: bitstring_def Let_def nth_append)
  qed
qed

definition unit_lib :: "sim_lib \<Rightarrow> bool" where
  "unit_lib l \<longleftrightarrow> (\<forall>x\<in>{Fin 0, Fin 1}. lm_hypot (sl_math l) x (Fin 0) = Return x \<and> lm_square (sl_math l) x = Return x)"

definition indicator :: "nat \<Rightarrow> nat \<Rightarrow> pyfloat list" where
  "indicator n b = map (\<lambda>i. Fin (if i = b then 1 else 0)) [0..<2 ^ n]"

lemma mapR_map: "(\<And>x. x \<in> set xs \<Longrightarrow> f x = Return (g x)) \<Longrightarrow> mapR f xs = Return (map g xs)"
  by (induction xs) auto

lemma basis_state_map: "basis_state n b = map (\<lambda>i. cx_real (Fin (if i = b then 1 else 0))) [0..<2 ^ n]"
  by (rule nth_equalityI) (auto simp: basis_state_nth)

lemma basis_probabilities:
  "unit_lib l \<Longrightarrow> mapR (abs_squared (sl_math l)) (basis_state n b) = Return (indicator n b)"
  unfolding basis_state_map indicator_def
  by (subst mapR_map [where g = cx_re]) (auto simp: abs_squared_def cx_real_def unit_lib_def)

lemma amplitude_rows_basis: "unit_lib l \<Longrightarrow> \<exists>rows. amplitude_rows l n (basis_state n b) = Return rows"
proof -
  assume "unit_lib l"
  then have "mapR (\<lambda>a. lm_hypot (sl_math l) (cx_re a) (cx_im a)) (basis_state n b) = Return (map cx_re (basis_state n b))"
    unfolding basis_state_map by (intro mapR_map) (auto simp: cx_real_def unit_lib_def)
  then show ?thesis by (simp add: amplitude_rows_def)
qed

lemma sum_indicator: "sum_list (map (\<lambda>i. if i = b then s else 0) [0..<k]) = (if b < k then s else 0 :: int)"
  by (induction k) auto

lemma filter_indicator: "0 < s \<Longrightarrow> b < k \<Longrightarrow>
    filter (\<lambda>(idx, c). c > 0) (enumerate 0 (map (\<lambda>i. if i = b then s else 0) [0..<k])) = [(b, s :: int)]"
proof -
  assume s: "0 < s" and "b < k"
  have "filter (\<lambda>(idx, c). c > 0) (enumerate 0 (map (\<lambda>i. if i = b then s else 0) [0..<k])) = (if b < k then [(b, s)] else [])"
    by (induction k) (use s in \<open>auto simp: enumerate_append_eq\<close>)
  with \<open>b < k\<close> show ?thesis by simp
qed

lemma counts_indicator:
  assumes "b < 2 ^ n" "0 < s" "s < 2 ^ 53"
  shows "measurement_counts (indicator n b) s = Return [(b, s)]"
proof -
  have s: "rnd (of_int s) = Fin (of_int s)" using assms(2,3) by (intro rnd_small_int) simp
  have scaled: "map (\<lambda>p. f_mul p (Fin (of_int s))) (indicator n b) =
      map (\<lambda>i. Fin (if i = b then of_int s else 0)) [0..<2 ^ n]"
    by (auto simp: indicator_def s)
  have "mapR floor_float (map (\<lambda>p. f_mul p (Fin (of_int s))) (indicator n b)) =
      Return (map (\<lambda>i. if i = b then s else 0) [0..<2 ^ n])"
  proof -
    have "mapR floor_float (map (\<lambda>i. Fin (if i = b then of_int s else 0)) is) = Return (map (\<lambda>i. if i = b then s else 0) is)" for "is"
      by (induction "is") (auto simp: floor_float_def)
    then show ?thesis unfolding scaled .
  qed
  then have "share_counts (indicator n b) s = Return (map (\<lambda>i. if i = b then s else 0) [0..<2 ^ n])"
    using assms(1) by (simp add: share_counts_def int_to_float_def s Let_def sum_indicator py_take_def)
  then show ?thesis using filter_indicator [OF assms(2,1)] by (simp add: measurement_counts_def)
qed

lemma most_likely_indicator: "b < 2 ^ n \<Longrightarrow> most_likely (indicator n b) = b"
proof -
  assume b: "b < 2 ^ n"
  have "k \<le> 2 ^ n \<Longrightarrow> foldl (\<lambda>best i. if f_less (indicator n b ! best) (indicator n b ! i) then i else best) 0 [1..<k] =
      (if b < k then b else 0)" for k
  proof (induction k)
    case (Suc k)
    show ?case
    proof (cases "k = 0")
      case False
      then show ?thesis using Suc b by (auto simp: indicator_def less_Suc_eq)
    qed simp
  qed simp
  from this [of "2 ^ n"] b show ?thesis by (simp add: most_likely_def indicator_def)
qed

lemma f_sqrt_max0: "\<exists>r. f_sqrt (f_max0 x) = Return r"
  by (cases x) (auto simp: f_max0_def f_max_def f_sqrt.simps Let_def)

lemma entropies_total: "\<exists>es. qubit_entropies l state n = Return es \<and> length es = n"
proof -
  have "\<exists>e. entropy_from_density_matrix l rho = Return e" for rho
  proof -
    obtain r00 r01 r10 r11 where rho: "rho = (r00, r01, r10, r11)" by (cases rho)
    let ?tr = "f_add (cx_re r00) (cx_re r11)" and ?d = "cx_re (cx_sub (cx_mul r00 r11) (cx_mul r01 r10))"
    obtain r where "f_sqrt (f_max0 (f_sub (f_mul ?tr ?tr) (f_mul (Fin 4) ?d))) = Return r" using f_sqrt_max0 by blast
    then show ?thesis by (simp add: entropy_from_density_matrix_def rho Let_def)
  qed
  then obtain e where e: "\<And>rho. entropy_from_density_matrix l rho = Return (e rho)" by metis
  have "qubit_entropies l state n = Return (map (\<lambda>q. round_dec 8 (e (density_matrix_for_qubit state q))) [0..<n])"
    unfolding qubit_entropies_def by (rule mapR_map) (simp add: e)
  then show ?thesis by simp
qed

lemma entangled_rows_total:
  "length es = n \<Longrightarrow> Ball (set ps) (pair_fits n) \<Longrightarrow> \<exists>rows. mapR (entangled_row es) ps = Return rows"
  by (induction ps) (auto simp: entangled_row_def pair_fits_def)

section \<open>Classical circuits are simulated exactly\<close>

definition classical_job :: "quantum_job \<Rightarrow> nat \<Rightarrow> classical_gate list \<Rightarrow> int \<Rightarrow> bool" where
  "classical_job job n gs shots \<longleftrightarrow>
     qj_qubit_count job = int n \<and> qj_circuit_spec job = [(''gates'', PList (map gate_json gs))] \<and>
     dget (qj_measurement_schema job) ''shots'' = Some (PInt shots)"

lemma simulate_classical:
  assumes "unit_lib l" "classical_job job n gs shots" "1 \<le> n" "n \<le> 12" "0 < shots" "shots < 2 ^ 53"
    and "\<forall>g\<in>set gs. gate_fits n g"
  shows "\<exists>payload results. simulate_quantum_job l job = Return payload \<and>
    dget payload ''measurement_results'' = Some (PDict results) \<and>
    dget results ''counts'' = Some (PDict [(bitstring (foldl classical_step 0 gs) n, PInt shots)]) \<and>
    dget results ''most_likely_bitstring'' = Some (PStr (bitstring (foldl classical_step 0 gs) n))"
proof -
  let ?b = "foldl classical_step 0 gs"
  have job: "qj_qubit_count job = int n" "circuit_gates job = Return (map gate_json gs)"
      "dget_or (qj_measurement_schema job) ''shots'' (PInt 1024) = PInt shots"
    using assms(2) by (simp_all add: classical_job_def circuit_gates_def dget_or_def to_items_def)
  obtain E where run: "run_circuit l n (map gate_json gs) = Return (basis_state n ?b, E)" "finite E" "Ball E (pair_fits n)"
      "?b < 2 ^ n"
    using run_classical [OF assms(7), of 0 "{}" l] by (auto simp: run_circuit_def)
  obtain es where es: "qubit_entropies l (basis_state n ?b) n = Return es" "length es = n" using entropies_total by blast
  obtain rows where rows: "mapR (entangled_row es) (sorted_list_of_set E) = Return rows"
    using entangled_rows_total [OF es(2), of "sorted_list_of_set E"] run(2,3) by auto
  obtain amplitudes where amp: "amplitude_rows l n (basis_state n ?b) = Return amplitudes"
    using amplitude_rows_basis [OF assms(1)] by blast
  have shots: "to_int (PInt shots) = Return shots" by (simp add: to_int_def)
  obtain results where results: "measurement_json l job n (basis_state n ?b, E) = Return results"
      "dget results ''counts'' = Some (PDict [(bitstring ?b n, PInt shots)])"
      "dget results ''most_likely_bitstring'' = Some (PStr (bitstring ?b n))"
    using es(1) rows amp counts_indicator [OF run(4) assms(5,6)] most_likely_indicator [OF run(4)]
    by (simp add: measurement_json_def basis_probabilities [OF assms(1)] job(3) shots)
  moreover obtain payload where "simulate_quantum_job l job = Return payload"
      "dget payload ''measurement_results'' = Some (PDict results)"
    using assms(3,4) run(1) results(1) by (simp add: simulate_quantum_job_def job Let_def)
  ultimately show ?thesis by blast
qed

text \<open>
  C20: the simulator computes with classical bits what the circuit computes: a circuit of negations and
  controlled negations on up to twelve qubits always returns, all its shots fall on the one bit string
  the gates lead to, the highest qubit first, and that string is the most likely one.  The functions of
  the math library need only be exact at zero and one.
\<close>

theorem classical_circuits_exact:
  assumes "unit_lib l" "classical_job job n gs shots" "1 \<le> n" "n \<le> 12" "0 < shots" "shots < 2 ^ 53"
    and "\<forall>g\<in>set gs. gate_fits n g"
  shows "\<exists>payload results s. simulate_quantum_job l job = Return payload \<and>
    dget payload ''measurement_results'' = Some (PDict results) \<and>
    dget results ''counts'' = Some (PDict [(s, PInt shots)]) \<and> dget results ''most_likely_bitstring'' = Some (PStr s) \<and>
    length s = n \<and>
    (\<forall>k<n. s ! (n - 1 - k) = (if bit (foldl classical_step 0 gs) k then CHR ''1'' else CHR ''0''))"
proof -
  have "foldl classical_step 0 gs < 2 ^ n" using run_classical [OF assms(7), of 0 "{}" l] by auto
  then show ?thesis using simulate_classical [OF assms] bitstring_bits [of n "foldl classical_step 0 gs"] assms(3) by fastforce
qed

definition sample_sim_lib :: sim_lib where
  "sample_sim_lib = \<lparr>sl_math = sample_libm, sl_exp_i_pi_4 = cx_real (Fin 1), sl_log2 = (\<lambda>x. Fin 0)\<rparr>"

lemma sample_unit_lib: "unit_lib sample_sim_lib"
  by (auto simp: unit_lib_def sample_sim_lib_def sample_libm_def f_max_def)

theorem classical_circuits_exact_witness:
  "\<exists>payload results s. simulate_quantum_job sample_sim_lib
      \<lparr>qj_uri = ''u'', qj_backend = ''itensor'', qj_qubit_count = 2,
       qj_circuit_spec = [(''gates'', PList (map gate_json [Flip 0, Flip_If 0 1]))],
       qj_measurement_schema = [(''shots'', PInt 100)], qj_policy_version = ''v1'', qj_metadata = []\<rparr> = Return payload \<and>
    dget payload ''measurement_results'' = Some (PDict results) \<and> dget results ''counts'' = Some (PDict [(s, PInt 100)]) \<and>
    s ! 1 = CHR ''1'' \<and> s ! 0 = CHR ''1''"
proof -
  let ?job = "\<lparr>qj_uri = ''u'', qj_backend = ''itensor'', qj_qubit_count = 2,
       qj_circuit_spec = [(''gates'', PList (map gate_json [Flip 0, Flip_If 0 1]))],
       qj_measurement_schema = [(''shots'', PInt 100)], qj_policy_version = ''v1'', qj_metadata = []\<rparr>"
  have job: "classical_job ?job 2 [Flip 0, Flip_If 0 1] 100" by (simp add: classical_job_def)
  have b: "foldl classical_step 0 [Flip 0, Flip_If 0 1] = 3" by code_simp
  have bits: "bit (3::nat) 0" "bit (3::nat) 1" by code_simp+
  obtain payload results s where "simulate_quantum_job sample_sim_lib ?job = Return payload"
      "dget payload ''measurement_results'' = Some (PDict results)" "dget results ''counts'' = Some (PDict [(s, PInt 100)])"
      "\<forall>k<2. s ! (2 - 1 - k) = (if bit (foldl classical_step 0 [Flip 0, Flip_If 0 1]) k then CHR ''1'' else CHR ''0'')"
    using classical_circuits_exact [OF sample_unit_lib job] by (auto simp: gate_fits_def)
  moreover from this(4) have "s ! 1 = CHR ''1''" "s ! 0 = CHR ''1''"
    unfolding b using bits by (auto dest: spec [of _ 0] spec [of _ 1])
  ultimately show ?thesis by blast
qed

end
