(* ===== verification/Quantum_Manager.thy ===== *)
theory Quantum_Manager
  imports Quantum_Simulator Qso_Tools
begin

text \<open>
  \<^verbatim>\<open>services/quantum\<close>: the backends, the manager that executes quantum objects and records the result
  as a patch, the replay engine and the response filter.  The packages qiskit, cirq and pennylane and
  the external ITensor runner are parameters: a package is absent (\<open>None\<close>) where its import fails, the
  runner is a function from its path and input to an exit code and its two outputs.
\<close>

section \<open>Results\<close>

record quantum_result =
  qr_backend :: string
  qr_status :: string
  qr_measurement_results :: "pyval dict"
  qr_noise_profile :: "pyval dict"
  qr_execution_proof :: "pyval dict"
  qr_verification_hash :: string

section \<open>The packages\<close>

text \<open>The calls that build a circuit of a package, in their order.\<close>

datatype circuit_op = Op_H int | Op_X int | Op_Z int | Op_CX int int

record quantum_env =
  qn_lib :: sim_lib
  qn_qiskit :: "(int \<Rightarrow> circuit_op list \<Rightarrow> int \<Rightarrow> pyval dict result) option"
  qn_cirq :: "(int \<Rightarrow> circuit_op list \<Rightarrow> int \<Rightarrow> pyval dict result) option"
  qn_pennylane :: "(int \<Rightarrow> circuit_op list \<Rightarrow> pyfloat list result) option"
  qn_runner :: "string \<Rightarrow> string \<Rightarrow> int \<times> string \<times> string"
  qn_runner_path :: string

definition gate_field :: "pyval dict \<Rightarrow> string \<Rightarrow> int result" where
  "gate_field gate k = bindR (req_val gate k) to_int"

text \<open>A gate a package is not told of is left out.\<close>

definition read_gate :: "pyval \<Rightarrow> circuit_op list result" where
  "read_gate raw = (case raw of
       PDict gate \<Rightarrow>
         (let name = lower (strip (to_str (dget_or gate ''name'' (PStr [])))) in
          if name = ''h'' then bindR (gate_field gate ''target'') (\<lambda>t. Return [Op_H t])
          else if name = ''x'' then bindR (gate_field gate ''target'') (\<lambda>t. Return [Op_X t])
          else if name = ''z'' then bindR (gate_field gate ''target'') (\<lambda>t. Return [Op_Z t])
          else if name \<in> {''cnot'', ''cx''} then
            bindR (gate_field gate ''control'') (\<lambda>c. bindR (gate_field gate ''target'') (\<lambda>t. Return [Op_CX c t]))
          else Return [])
     | _ \<Rightarrow> Raise (AttributeError ''object has no attribute get''))"

definition circuit_ops :: "quantum_job \<Rightarrow> circuit_op list result" where
  "circuit_ops job =
     bindR (circuit_gates job) (\<lambda>gates. bindR (mapR read_gate gates) (\<lambda>ops. Return (concat ops)))"

definition job_shots :: "quantum_job \<Rightarrow> int result" where
  "job_shots job = to_int (dget_or (qj_measurement_schema job) ''shots'' (PInt 1024))"

text \<open>\<open>qubits[i]\<close> on the list of line qubits: a negative index counts from the end.\<close>

definition line_qubit :: "int \<Rightarrow> int \<Rightarrow> int result" where
  "line_qubit n i =
     (if 0 \<le> i \<and> i < n then Return i else if i < 0 \<and> 0 \<le> n + i then Return (n + i) else Raise index_error)"

definition line_op :: "int \<Rightarrow> circuit_op \<Rightarrow> circuit_op result" where
  "line_op n g = (case g of
       Op_H t \<Rightarrow> bindR (line_qubit n t) (\<lambda>t'. Return (Op_H t'))
     | Op_X t \<Rightarrow> bindR (line_qubit n t) (\<lambda>t'. Return (Op_X t'))
     | Op_Z t \<Rightarrow> bindR (line_qubit n t) (\<lambda>t'. Return (Op_Z t'))
     | Op_CX c t \<Rightarrow> bindR (line_qubit n c) (\<lambda>c'. bindR (line_qubit n t) (\<lambda>t'. Return (Op_CX c' t'))))"

section \<open>The backends\<close>

definition make_result ::
    "string \<Rightarrow> pyval dict \<Rightarrow> pyval dict \<Rightarrow> pyval dict \<Rightarrow> quantum_result" where
  "make_result name measurement noise proof =
     \<lparr>qr_backend = name, qr_status = ''completed'', qr_measurement_results = measurement, qr_noise_profile = noise,
      qr_execution_proof = proof,
      qr_verification_hash = hash_val (PDict [(''measurement'', PDict measurement), (''proof'', PDict proof)])\<rparr>"

definition circuit_hash :: "quantum_job \<Rightarrow> pyval" where
  "circuit_hash job = PStr (hash_val (PDict (qj_circuit_spec job)))"

text \<open>Without its package a backend answers with a part of the hash of the job.\<close>

definition fallback :: "string \<Rightarrow> quantum_job \<Rightarrow> quantum_result" where
  "fallback name job =
     (let seed_hash = hash_val (PDict [(''backend'', PStr name), (''uri'', PStr (qj_uri job)),
            (''circuit'', PDict (qj_circuit_spec job))])
      in make_result name
        [(''bitstring'', PStr (py_take (min (qj_qubit_count job) 32) seed_hash)), (''shots'', PInt 1024)]
        [(''model'', PStr ''depolarizing''), (''p'', PFloat (lit (1 / 1000)))]
        [(''backend'', PStr name), (''job_uri'', PStr (qj_uri job)), (''seed'', PStr (take 24 seed_hash)),
         (name @ ''_available'', PBool False)])"

definition qiskit_execute :: "quantum_env \<Rightarrow> string \<Rightarrow> quantum_job \<Rightarrow> quantum_result result" where
  "qiskit_execute q name job = (case qn_qiskit q of
       None \<Rightarrow> Return (fallback name job)
     | Some sample \<Rightarrow>
         bindR (circuit_ops job) (\<lambda>ops.
         bindR (job_shots job) (\<lambda>shots.
         bindR (sample (qj_qubit_count job) ops shots) (\<lambda>counts.
           Return (make_result name [(''counts'', PDict counts), (''shots'', PInt shots)]
             [(''model'', PStr ''ideal_statevector_sampler'')]
             [(''backend'', PStr name), (''job_uri'', PStr (qj_uri job)), (''engine'', PStr ''qiskit_statevector_sampler''),
              (''circuit_hash'', circuit_hash job)])))))"

definition cirq_execute :: "quantum_env \<Rightarrow> quantum_job \<Rightarrow> quantum_result result" where
  "cirq_execute q job = (case qn_cirq q of
       None \<Rightarrow> Return (fallback ''cirq'' job)
     | Some sample \<Rightarrow>
         bindR (circuit_ops job) (\<lambda>raw_ops.
         bindR (mapR (line_op (qj_qubit_count job)) raw_ops) (\<lambda>ops.
         bindR (job_shots job) (\<lambda>shots.
         bindR (sample (qj_qubit_count job) ops shots) (\<lambda>counts.
           Return (make_result ''cirq'' [(''counts'', PDict counts), (''shots'', PInt shots)]
             [(''model'', PStr ''ideal_cirq_simulator'')]
             [(''backend'', PStr ''cirq''), (''job_uri'', PStr (qj_uri job)), (''engine'', PStr ''cirq_simulator''),
              (''circuit_hash'', circuit_hash job)]))))))"

definition payload_dict :: "pyval dict \<Rightarrow> string \<Rightarrow> pyval dict result" where
  "payload_dict payload k = bindR (req_val payload k) to_dict"

definition pennylane_execute :: "quantum_env \<Rightarrow> quantum_job \<Rightarrow> quantum_result result" where
  "pennylane_execute q job = (case qn_pennylane q of
       None \<Rightarrow>
         bindR (simulate_quantum_job (qn_lib q) job) (\<lambda>payload.
         bindR (payload_dict payload ''execution_proof'') (\<lambda>proof.
         bindR (payload_dict payload ''measurement_results'') (\<lambda>measurement.
         bindR (payload_dict payload ''noise_profile'') (\<lambda>noise.
           Return (make_result ''pennylane'' measurement noise
             (dupdate proof [(''requested_backend'', PStr ''pennylane''), (''pennylane_available'', PBool False),
                (''reason'', PStr ''pennylane_import_unavailable'')]))))))
     | Some expectations_of \<Rightarrow>
         bindR (circuit_ops job) (\<lambda>ops.
         bindR (expectations_of (qj_qubit_count job) ops) (\<lambda>expectations.
         bindR (circuit_gates job) (\<lambda>gates.
           Return (make_result ''pennylane''
             [(''expectation_z'', PList (map (\<lambda>x. PFloat (round_dec 8 x)) expectations)),
              (''shots'', dget_or (qj_measurement_schema job) ''shots'' (PInt 0))]
             [(''model'', PStr ''ideal_default_qubit''), (''backend'', PStr ''pennylane'')]
             [(''engine'', PStr ''pennylane_default_qubit''), (''gate_count'', PInt (int (length gates))),
              (''circuit_hash'', circuit_hash job), (''pennylane_available'', PBool True)])))))"

text \<open>The external runner reads the job as JSON and answers with JSON.\<close>

definition runner_input :: "quantum_job \<Rightarrow> string" where
  "runner_input job = dumps spaced (json_of (PDict [(''job'', PDict
     [(''uri'', PStr (qj_uri job)), (''backend'', PStr (qj_backend job)), (''qubit_count'', PInt (qj_qubit_count job)),
      (''circuit_spec'', PDict (qj_circuit_spec job)), (''measurement_schema'', PDict (qj_measurement_schema job)),
      (''policy_version'', PStr (qj_policy_version job)), (''metadata'', PDict (qj_metadata job))])]))"

definition run_external :: "quantum_env \<Rightarrow> quantum_job \<Rightarrow> pyval dict result" where
  "run_external q job =
     (case qn_runner q (qn_runner_path q) (runner_input job) of (returncode, stdout, stderr) \<Rightarrow>
       if returncode \<noteq> 0
       then Raise (RuntimeError (''ITensor runner failed with exit code '' @ py_str returncode @ '': '' @ strip stderr))
       else (case json_loads stdout of
           Inl _ \<Rightarrow> Raise (RuntimeError ''ITensor runner returned invalid JSON'')
         | Inr (JObj payload) \<Rightarrow> Return (val_row payload)
         | Inr _ \<Rightarrow> Raise (RuntimeError ''ITensor runner returned a non-object payload'')))"

definition itensor_payload :: "quantum_env \<Rightarrow> quantum_job \<Rightarrow> pyval dict result" where
  "itensor_payload q job =
     (if qn_runner_path q \<noteq> [] then run_external q job
      else
        bindR (simulate_quantum_job (qn_lib q) job) (\<lambda>payload.
        bindR (payload_dict payload ''execution_proof'') (\<lambda>proof.
          Return (dset ''execution_proof'' (PDict (dupdate proof
            [(''requested_backend'', PStr ''itensor''), (''itensor_runner_configured'', PBool False)])) payload))))"

definition itensor_execute :: "quantum_env \<Rightarrow> quantum_job \<Rightarrow> quantum_result result" where
  "itensor_execute q job =
     bindR (itensor_payload q job) (\<lambda>payload.
     bindR (get_dict payload ''measurement_results'') (\<lambda>measurement.
     bindR (get_dict payload ''noise_profile'') (\<lambda>noise.
     bindR (get_dict payload ''execution_proof'') (\<lambda>proof.
       Return \<lparr>qr_backend = ''itensor'', qr_status = to_str (dget_or payload ''status'' (PStr ''completed'')),
         qr_measurement_results = measurement, qr_noise_profile = noise, qr_execution_proof = proof,
         qr_verification_hash = to_str (dget_or payload ''verification_hash'' (PStr (hash_val (PDict
           [(''uri'', PStr (qj_uri job)), (''measurement_results'', PDict measurement), (''execution_proof'', PDict proof)]))))\<rparr>))))"

text \<open>The table of backends, by name.\<close>

definition backends :: "(quantum_env \<Rightarrow> quantum_job \<Rightarrow> quantum_result result) dict" where
  "backends =
     [(''qiskit'', \<lambda>q. qiskit_execute q ''qiskit''), (''cirq'', cirq_execute), (''pennylane'', pennylane_execute),
      (''photonic'', \<lambda>q. qiskit_execute q ''photonic''), (''remote_grpc'', \<lambda>q. qiskit_execute q ''remote_grpc''),
      (''itensor'', itensor_execute)]"

section \<open>The manager\<close>

definition pair_report_json :: "pair_report \<Rightarrow> pyval" where
  "pair_report_json p = PDict [(''overlap_id'', PStr (pr_overlap_id p)), (''patch_a'', PStr (pr_patch_a p)),
     (''patch_b'', PStr (pr_patch_b p)), (''shared_domain'', PStrs (pr_shared_domain p)),
     (''mismatch'', PFloat (pr_mismatch p)), (''fidelity'', PFloat (pr_fidelity p)), (''coherence'', PFloat (pr_coherence p))]"

definition fabric_report_json :: "fabric_report \<Rightarrow> pyval dict" where
  "fabric_report_json r =
     [(''fabric_id'', PStr (fr_fabric_id r)), (''patch_count'', PInt (int (fr_patch_count r))),
      (''overlap_count'', PInt (int (fr_overlap_count r))), (''total_overlap_mismatch'', PFloat (fr_total_mismatch r)),
      (''global_coherence'', PFloat (fr_global_coherence r)), (''healthy'', PBool (fr_healthy r)),
      (''obstruction_score'', PFloat (fr_obstruction_score r)),
      (''adjacency'', PDict (map (map_prod id PStrs) (fr_adjacency r))), (''pairs'', PList (map pair_report_json (fr_pairs r)))]"

definition execution_patch ::
    "fabric_env \<Rightarrow> string \<Rightarrow> pyval dict \<Rightarrow> string \<Rightarrow> string \<Rightarrow> string \<Rightarrow> (Qso_Tools.fabric, qso_event) op" where
  "execution_patch env uri execution actor policy_version node_id =
     engine_patch env uri (json_row [(''execution'', PDict execution)]) actor policy_version node_id"

definition state_hash :: "string \<Rightarrow> string \<Rightarrow> pyval dict \<Rightarrow> pyval" where
  "state_hash uri k v = PStr (hash_val (PDict [(''uri'', PStr uri), (k, PDict v)]))"

definition fabric_execution :: "string \<Rightarrow> fabric_report \<Rightarrow> pyval dict" where
  "fabric_execution uri r =
     [(''backend'', PStr ''fabric_gluing''), (''status'', PStr ''completed''),
      (''measurement_results'', PDict [(''global_coherence'', PFloat (fr_global_coherence r)),
         (''obstruction_score'', PFloat (fr_obstruction_score r)), (''healthy'', PBool (fr_healthy r))]),
      (''noise_profile'', PDict [(''model'', PStr ''deterministic_fabric_analysis'')]),
      (''execution_proof'', PDict [(''engine'', PStr ''fabric_gluing''), (''fabric_id'', PStr (fr_fabric_id r)),
         (''patch_count'', PInt (int (fr_patch_count r))), (''overlap_count'', PInt (int (fr_overlap_count r)))]),
      (''verification_hash'', state_hash uri ''fabric_result'' (fabric_report_json r)),
      (''state_hash'', state_hash uri ''fabric'' (fabric_report_json r)),
      (''fabric_report'', PDict (fabric_report_json r))]"

definition job_of :: "string \<Rightarrow> string \<Rightarrow> string \<Rightarrow> pyval dict \<Rightarrow> quantum_job result" where
  "job_of uri backend policy_version payload =
     bindR (to_int (dget_or payload ''qubit_count'' (PInt 1))) (\<lambda>n.
     bindR (get_dict payload ''circuit_spec'') (\<lambda>circuit.
     bindR (get_dict payload ''measurement_schema'') (\<lambda>schema.
     bindR (get_dict payload ''metadata'') (\<lambda>metadata.
       Return \<lparr>qj_uri = uri, qj_backend = backend, qj_qubit_count = n, qj_circuit_spec = circuit,
         qj_measurement_schema = schema, qj_policy_version = policy_version, qj_metadata = metadata\<rparr>))))"

definition backend_execution :: "string \<Rightarrow> quantum_result \<Rightarrow> pyval dict" where
  "backend_execution uri r =
     [(''backend'', PStr (qr_backend r)), (''status'', PStr (qr_status r)),
      (''measurement_results'', PDict (qr_measurement_results r)), (''noise_profile'', PDict (qr_noise_profile r)),
      (''execution_proof'', PDict (qr_execution_proof r)), (''verification_hash'', PStr (qr_verification_hash r)),
      (''state_hash'', state_hash uri ''result'' (qr_measurement_results r))]"

definition is_fabric_payload :: "pyval dict \<Rightarrow> bool" where
  "is_fabric_payload payload \<longleftrightarrow>
     lower (strip (to_str (dget_or payload ''object_kind'' (PStr [])))) = ''fabric'' \<or> has_key payload ''fabric_payload''"

text \<open>What is patched into the object.\<close>

definition execution_of :: "quantum_env \<Rightarrow> string \<Rightarrow> string \<Rightarrow> pyval dict \<Rightarrow> pyval dict result" where
  "execution_of q uri policy_version payload =
     (if is_fabric_payload payload then
        bindR (get_float payload ''coherence_threshold'' (fl (4 / 5))) (\<lambda>threshold.
        bindR (execute_fabric_payload (sl_math (qn_lib q)) payload threshold) (\<lambda>report.
          Return (fabric_execution uri report)))
      else
        (let backend_name = to_str (dget_or payload ''backend'' (PStr ''qiskit'')) in
         case dget backends backend_name of
           None \<Rightarrow> Raise (ValueError (''unknown quantum backend: '' @ backend_name))
         | Some execute \<Rightarrow>
             bindR (job_of uri backend_name policy_version payload) (\<lambda>job.
             bindR (execute q job) (\<lambda>r. Return (backend_execution uri r)))))"

definition without_key :: "string \<Rightarrow> 'v dict \<Rightarrow> 'v dict" where
  "without_key k d = filter (\<lambda>kv. fst kv \<noteq> k) d"

definition qso_quantum_execute ::
    "fabric_env \<Rightarrow> quantum_env \<Rightarrow> string \<Rightarrow> string \<Rightarrow> string \<Rightarrow> string \<Rightarrow>
      (Qso_Tools.fabric, qso_event \<times> pyval dict) op" where
  "qso_quantum_execute env q uri actor policy_version node_id =
     bindS (qso_read uri) (\<lambda>obj.
     bindS (liftS (execution_of q uri policy_version (val_row (ob_state_layer obj)))) (\<lambda>execution.
     bindS (execution_patch env uri execution actor policy_version node_id) (\<lambda>event.
       returnS (event, without_key ''state_hash'' execution))))"

definition summarize_quantum_result :: "quantum_result \<Rightarrow> pyval dict" where
  "summarize_quantum_result r =
     [(''backend'', PStr (qr_backend r)), (''status'', PStr (qr_status r)), (''verification_hash'', PStr (qr_verification_hash r))]"

section \<open>Replay\<close>

text \<open>The engine of its own replays the deltas key by key, without merging the values below them.\<close>

definition qso_quantum_replay ::
    "string \<Rightarrow> bool \<Rightarrow> (Qso_Tools.fabric, qso_event list \<times> json dict) op" where
  "qso_quantum_replay uri strict =
     bindS (qso_timeline uri strict) (\<lambda>events. returnS (events, foldl (\<lambda>state e. dupdate state (qe_delta e)) [] events))"

section \<open>The response filter\<close>

record response_filter =
  qf_backend :: string
  qf_uri_prefix :: string
  qf_max_qubits :: int

definition new_response_filter :: "string \<Rightarrow> string \<Rightarrow> int \<Rightarrow> response_filter" where
  "new_response_filter backend uri_prefix max_qubits =
     \<lparr>qf_backend = backend, qf_uri_prefix = rstrip_char (CHR ''/'') uri_prefix, qf_max_qubits = max 2 max_qubits\<rparr>"

definition canonical_message :: "pyval \<Rightarrow> pyval list" where
  "canonical_message raw = (case raw of
       PDict m \<Rightarrow> [PDict (map (\<lambda>k. (k, PStr (to_str (dget_or m k (PStr []))))) [''author'', ''role'', ''content''])]
     | _ \<Rightarrow> [])"

definition canonicalize_payload :: "pyval dict \<Rightarrow> string \<Rightarrow> pyval list \<times> pyval dict" where
  "canonicalize_payload payload conversation_id =
     (let messages = (case dget_or payload ''messages'' (PList []) of PList xs \<Rightarrow> concat (map canonical_message xs) | _ \<Rightarrow> [])
      in (messages, [(''uri'', PStr (to_str (dget_or payload ''uri'' (PStr [])))), (''conversation_id'', PStr conversation_id),
        (''messages'', PList messages)]))"

definition filter_seed :: "string \<Rightarrow> string \<Rightarrow> pyval dict \<Rightarrow> string" where
  "filter_seed phase conversation_id canonical =
     hash_val (PDict [(''phase'', PStr phase), (''conversation_id'', PStr conversation_id), (''payload'', PDict canonical)])"

definition one_gate :: "string \<Rightarrow> nat \<Rightarrow> pyval" where
  "one_gate name target = PDict [(''name'', PStr name), (''target'', PInt (int target))]"

definition controlled_gate :: "string \<Rightarrow> nat \<Rightarrow> nat \<Rightarrow> pyval" where
  "controlled_gate name control target =
     PDict [(''name'', PStr name), (''control'', PInt (int control)), (''target'', PInt (int target))]"

text \<open>\<open>int(ch, 16) % 2 == 1\<close> for a digit of a hash.\<close>

definition odd_digit :: "char \<Rightarrow> bool" where
  "odd_digit c = (case hex_value c of Some v \<Rightarrow> odd v | None \<Rightarrow> False)"

definition filter_gates :: "nat \<Rightarrow> string \<Rightarrow> pyval list" where
  "filter_gates n seed =
     [one_gate ''h'' 0, controlled_gate ''cnot'' 0 1] @
     concat (map (\<lambda>i. [one_gate ''h'' i, controlled_gate ''cz'' (i - 1) i]) [2..<n]) @
     concat (map (\<lambda>(i, c). if odd_digit c then [one_gate ''x'' (i mod n)] else []) (enumerate 0 (take (2 * n) seed)))"

definition filter_qubits :: "response_filter \<Rightarrow> nat \<Rightarrow> int" where
  "filter_qubits f message_count = min (qf_max_qubits f) (max 2 (min (4 + int message_count) 8))"

definition build_job :: "response_filter \<Rightarrow> string \<Rightarrow> string \<Rightarrow> pyval list \<times> pyval dict \<Rightarrow> quantum_job" where
  "build_job f seed conversation_id canonical = (case canonical of (messages, payload) \<Rightarrow>
     (let n = filter_qubits f (length messages)
      in \<lparr>qj_uri = qf_uri_prefix f @ ''/'' @ take 24 seed, qj_backend = qf_backend f, qj_qubit_count = n,
          qj_circuit_spec = [(''gates'', PList (filter_gates (nat n) seed))],
          qj_measurement_schema = [(''shots'', PInt 512)], qj_policy_version = ''v1'',
          qj_metadata = [(''conversation_id'', PStr conversation_id), (''message_count'', PInt (int (length messages))),
            (''payload_hash'', PStr (hash_val (PDict payload)))]\<rparr>))"

definition ensure_quantum_object :: "fabric_env \<Rightarrow> quantum_job \<Rightarrow> (Qso_Tools.fabric, unit) op" where
  "ensure_quantum_object env job =
     (let payload = json_row [(''backend'', PStr (qj_backend job)), (''qubit_count'', PInt (qj_qubit_count job)),
            (''circuit_spec'', PDict (qj_circuit_spec job)), (''measurement_schema'', PDict (qj_measurement_schema job)),
            (''metadata'', PDict (qj_metadata job))];
          actor = ''qso.quantum.filter''
      in bindS (qso_has (qj_uri job)) (\<lambda>known.
        if known then bindS (qso_patch env (qj_uri job) payload actor ''v1'' ''local'') (\<lambda>_. returnS ())
        else bindS (qso_quantum_create env (qj_uri job) payload actor ''v1'' ''local'') (\<lambda>_. returnS ())))"

definition filter_payload ::
    "fabric_env \<Rightarrow> quantum_env \<Rightarrow> response_filter \<Rightarrow> pyval dict \<Rightarrow> string \<Rightarrow> string \<Rightarrow> (Qso_Tools.fabric, pyval dict) op" where
  "filter_payload env q f payload conversation_id phase =
     (let canonical = canonicalize_payload payload conversation_id;
          seed = filter_seed phase conversation_id (snd canonical);
          job = build_job f seed conversation_id canonical
      in thenS (ensure_quantum_object env job)
        (bindS (qso_quantum_execute env q (qj_uri job) ''qso.quantum.filter'' ''v1'' ''local'') (\<lambda>(event, execution).
          returnS [(''uri'', PStr (qj_uri job)), (''backend'', PStr (qf_backend f)), (''phase'', PStr phase),
            (''seed'', PStr seed), (''qubit_count'', PInt (qj_qubit_count job)), (''result'', PDict execution)])))"

section \<open>Every circuit of the filter runs\<close>

definition has_size :: "nat \<Rightarrow> sim_state \<Rightarrow> bool" where
  "has_size n s \<longleftrightarrow> length (fst s) = 2 ^ n"

definition gate_runs :: "sim_lib \<Rightarrow> nat \<Rightarrow> pyval \<Rightarrow> bool" where
  "gate_runs l n g \<longleftrightarrow> (\<forall>s. has_size n s \<longrightarrow> (\<exists>s'. run_gate l s g = Return s' \<and> has_size n s'))"

lemma circuit_runs:
  "\<forall>g\<in>set gates. gate_runs l n g \<Longrightarrow> has_size n s \<Longrightarrow> \<exists>s'. foldR (run_gate l) s gates = Return s' \<and> has_size n s'"
proof (induction gates arbitrary: s)
  case (Cons g gates)
  have "gate_runs l n g" using Cons.prems(1) by simp
  then obtain s' where "run_gate l s g = Return s'" "has_size n s'" using Cons.prems(2) unfolding gate_runs_def by blast
  then show ?case using Cons by simp
qed simp

lemma normal_names:
  "normalize_gate_name (PStr ''h'') = ''h''" "normalize_gate_name (PStr ''cz'') = ''cz''"
  by code_simp+

lemma one_gate_runs:
  assumes "t < n" "name \<in> {''h'', ''x''}"
  shows "gate_runs l n (one_gate name t)"
proof -
  obtain m where "single_qubit_matrix l name = Return m" "normalize_gate_name (PStr name) = name"
    using assms(2) by (auto simp: single_qubit_matrix_def Let_def gate_names normal_names)
  moreover have "\<exists>state'. apply_single_qubit_gate state t m = Return state' \<and> length state' = 2 ^ n"
    if "length state = 2 ^ n" for state m
    using apply_single_qubit_gate_nth [OF that assms(1)] by (cases m) blast
  moreover have "run_gate l s (one_gate name t) =
      bindR (apply_single_qubit_gate (fst s) t m) (\<lambda>state. Return (state, snd s))" for s
    using assms(2) calculation(1,2) by (auto simp: run_gate_def one_gate_def qubit_index_def to_int_def dget_or_def Let_def)
  ultimately show ?thesis unfolding gate_runs_def has_size_def by (metis bindR_Return fst_conv)
qed

lemma controlled_gate_runs:
  assumes "t < n" "c \<noteq> t" "name \<in> {''cnot'', ''cz''}"
  shows "gate_runs l n (controlled_gate name c t)"
proof -
  define g where "g = (\<lambda>state. if name = ''cnot'' then apply_controlled_x state c t else apply_controlled_z state c t)"
  have g: "\<exists>state'. g state = Return state' \<and> length state' = 2 ^ n" if "length state = 2 ^ n" for state
    using apply_controlled_x_nth [OF that assms(1,2)] that assms(2) unfolding g_def
    by (cases "name = ''cnot''") (auto simp: apply_controlled_z_def)
  have run: "run_gate l s (controlled_gate name c t) =
      bindR (g (fst s)) (\<lambda>state. Return (state, insert (ordered_pair c t) (snd s)))" for s
    using assms(3) by (auto simp: g_def run_gate_def controlled_gate_def two_qubit_gate_def qubit_index_def to_int_def
        dget_or_def Let_def gate_names normal_names)
  show ?thesis unfolding gate_runs_def has_size_def
  proof (intro allI impI)
    fix s :: sim_state assume "length (fst s) = 2 ^ n"
    then obtain state' where "g (fst s) = Return state'" "length state' = 2 ^ n" using g by blast
    then show "\<exists>s'. run_gate l s (controlled_gate name c t) = Return s' \<and> length (fst s') = 2 ^ n" by (simp add: run)
  qed
qed

lemma filter_gates_run:
  assumes "2 \<le> n"
  shows "\<forall>g\<in>set (filter_gates n seed). gate_runs l n g"
proof -
  have "gate_runs l n (one_gate ''h'' i) \<and> gate_runs l n (controlled_gate ''cz'' (i - 1) i)" if "i \<in> {2..<n}" for i
    using that by (auto intro!: one_gate_runs controlled_gate_runs)
  moreover have "gate_runs l n (one_gate ''x'' (i mod n))" for i
    using assms by (auto intro!: one_gate_runs)
  moreover have "gate_runs l n (one_gate ''h'' 0)" "gate_runs l n (controlled_gate ''cnot'' 0 1)"
    using assms by (auto intro!: one_gate_runs controlled_gate_runs)
  ultimately show ?thesis by (auto simp: filter_gates_def split: if_splits)
qed

lemma filter_qubits_range: "2 \<le> filter_qubits (new_response_filter b p m) k \<and> filter_qubits (new_response_filter b p m) k \<le> 8"
  by (simp add: filter_qubits_def new_response_filter_def)

section \<open>Properties\<close>

text \<open>
  Whatever conversation the response filter is given and whatever qubit limit it was made with,
  the job it builds is one the simulator accepts: between two and eight qubits, and every gate of the
  circuit names qubits the state has, so the run returns a state of that many qubits.
\<close>

theorem filter_jobs_run:
  "let f = new_response_filter backend uri_prefix max_qubits;
       job = build_job f seed conversation (canonicalize_payload payload conversation);
       n = nat (qj_qubit_count job)
   in 2 \<le> n \<and> n \<le> 8 \<and> (\<exists>gates s. circuit_gates job = Return gates \<and> run_circuit l n gates = Return s \<and> length (fst s) = 2 ^ n)"
proof -
  obtain messages row where c: "canonicalize_payload payload conversation = (messages, row)" by (metis surj_pair)
  let ?f = "new_response_filter backend uri_prefix max_qubits"
  let ?n = "nat (filter_qubits ?f (length messages))"
  have n: "2 \<le> ?n" "?n \<le> 8" using filter_qubits_range [of backend uri_prefix max_qubits "length messages"] by linarith+
  have "has_size ?n (basis_state ?n 0, {})" by (simp add: has_size_def)
  then obtain s where "foldR (run_gate l) (basis_state ?n 0, {}) (filter_gates ?n seed) = Return s" "has_size ?n s"
    using circuit_runs [OF filter_gates_run [OF n(1)]] by blast
  then show ?thesis
    using n by (cases s) (simp add: c build_job_def circuit_gates_def dget_or_def to_items_def run_circuit_def has_size_def Let_def)
qed

section \<open>Replaying and repeating executions\<close>

lemma deep_merge_other: "k \<notin> set (dkeys d) \<Longrightarrow> dget (deep_merge out d) k = dget out k"
  by (induction out d rule: deep_merge.induct) (auto simp: update_conv split: json.splits option.splits)

lemma deep_merge_at:
  assumes "distinct (dkeys d)" "dget d k = Some v"
  shows "dget (deep_merge out d) k = (case (v, dget out k) of
     (JObj dv, Some (JObj tv)) \<Rightarrow> Some (JObj (deep_merge tv dv)) | _ \<Rightarrow> Some v)"
  using assms
proof (induction out d rule: deep_merge.induct)
  case (2 out k' v' rest)
  let ?out = "case v' of JObj dv \<Rightarrow> (case dget out k' of Some (JObj tv) \<Rightarrow> dset k' (JObj (deep_merge tv dv)) out | _ \<Rightarrow> dset k' v' out)
      | _ \<Rightarrow> dset k' v' out"
  have step: "dget (deep_merge out ((k', v') # rest)) k = dget (deep_merge ?out rest) k" by simp
  show ?case
  proof (cases "k' = k")
    case True
    then have "dget (deep_merge ?out rest) k = dget ?out k" using 2(3) by (intro deep_merge_other) auto
    moreover have "v' = v" using 2(4) True by simp
    ultimately show ?thesis using step True by (auto simp: update_conv split: json.splits option.splits)
  next
    case False
    have "dget ?out k = dget out k" using False by (auto simp: update_conv split: json.splits option.splits)
    moreover have "dget rest k = Some v" using 2(4) False by simp
    ultimately show ?thesis using 2(2) 2(3) step by simp
  qed
qed simp

lemma flat_merge: "\<forall>(k, v)\<in>set d. \<forall>dv. v \<noteq> JObj dv \<Longrightarrow> deep_merge out d = dupdate out d"
proof (induction d arbitrary: out)
  case (Cons kv d)
  obtain k v where kv: "kv = (k, v)" by (cases kv)
  have "\<forall>dv. v \<noteq> JObj dv" using Cons.prems kv by auto
  then have "deep_merge out (kv # d) = deep_merge (dset k v out) d" by (cases v) (auto simp: kv)
  also have "\<dots> = dupdate (dset k v out) d" using Cons by auto
  finally show ?case by (simp add: dupdate_def kv)
qed (simp add: dupdate_def)

lemma verify_events_subset:
  "verify_events uri strict v es l = (Return r, l') \<Longrightarrow> set r \<subseteq> set v \<union> set es"
  by (induction es arbitrary: v l) (fastforce split: option.splits sum.splits if_splits simp: Let_def)+

lemma el_replay_subset: "el_replay uri strict l = (Return r, l') \<Longrightarrow> set r \<subseteq> set (el_timeline l uri)"
  unfolding el_replay_def by (drule verify_events_subset) simp

text \<open>A delta whose values hold no objects, so that nothing is merged below its keys.\<close>

definition flat_delta :: "json dict \<Rightarrow> bool" where
  "flat_delta d \<longleftrightarrow> (\<forall>(k, v)\<in>set d. case v of JObj _ \<Rightarrow> False | _ \<Rightarrow> True)"

lemma replay_flat:
  "\<forall>e\<in>set es. flat_delta (qe_delta e) \<Longrightarrow>
    foldl (\<lambda>state e. dupdate state (qe_delta e)) st es = foldl (\<lambda>state e. deep_merge state (qe_delta e)) st es"
proof (induction es arbitrary: st)
  case (Cons e es)
  have "deep_merge st (qe_delta e) = dupdate st (qe_delta e)"
    using Cons.prems by (intro flat_merge) (force simp: flat_delta_def)
  then show ?case using Cons by simp
qed simp

text \<open>
  The replay of a quantum object and the rebuild of the state engine, written apart, return the
  same state, raise the same error and leave the same log whenever the deltas of the object hold no
  nested objects.
\<close>

theorem quantum_replay_agrees:
  assumes "\<forall>e\<in>set (el_timeline (eg_log (fr_engine s)) uri). flat_delta (qe_delta e)"
    and "qso_quantum_replay uri strict s = (r, t)" "rebuild_from_log uri strict (fr_engine s) = (r', g)"
  shows "bindR r (\<lambda>(events, state). Return state) = r' \<and> fr_engine t = g"
proof -
  obtain re l' where el: "el_replay uri strict (eg_log (fr_engine s)) = (re, l')" by (metis surj_pair)
  then have t: "qso_timeline uri strict s = (re, s\<lparr>fr_engine := (fr_engine s)\<lparr>eg_log := l'\<rparr>\<rparr>)"
    by (simp add: qso_timeline_def on_engine_def)
  show ?thesis
  proof (cases re)
    case (Inl e)
    then show ?thesis using assms(2,3) t el
      by (auto simp: qso_quantum_replay_def rebuild_from_log_def bindS_def)
  next
    case (Inr es)
    then have "\<forall>e\<in>set es. flat_delta (qe_delta e)" using el_replay_subset assms(1) el by blast
    then show ?thesis using assms(2,3) t el Inr
      by (auto simp: qso_quantum_replay_def rebuild_from_log_def bindS_def replay_flat)
  qed
qed

theorem quantum_replay_agrees_witness:
  "\<exists>r t r' g. qso_quantum_replay sample_node True sample_fabric = (r, t) \<and>
    rebuild_from_log sample_node True (fr_engine sample_fabric) = (r', g) \<and> bindR r (\<lambda>(events, state). Return state) = r'"
proof -
  obtain r t r' g where runs: "qso_quantum_replay sample_node True sample_fabric = (r, t)"
      "rebuild_from_log sample_node True (fr_engine sample_fabric) = (r', g)" by (metis surj_pair)
  have "\<forall>e\<in>set (el_timeline (eg_log (fr_engine sample_fabric)) sample_node). flat_delta (qe_delta e)"
    by (simp add: sample_fabric_eq fresh_engine_def el_timeline_def dget_or_def)
  from quantum_replay_agrees [OF this runs] runs show ?thesis by blast
qed

text \<open>Where deltas nest, they differ: the replay forgets what the second delta leaves out.\<close>

lemma quantum_replay_forgets:
  "foldl dupdate [] [[(''x'', JObj [(''a'', JInt 1)])], [(''x'', JObj [(''b'', JInt 2)])]] = [(''x'', JObj [(''b'', JInt 2)])]"
  "foldl deep_merge [] [[(''x'', JObj [(''a'', JInt 1)])], [(''x'', JObj [(''b'', JInt 2)])]] =
     [(''x'', JObj [(''a'', JInt 1), (''b'', JInt 2)])]"
  by (simp_all add: dupdate_def)

section \<open>An execution that is repeated\<close>

fun jpath :: "string list \<Rightarrow> json dict \<Rightarrow> json option" where
  "jpath [] d = Some (JObj d)"
| "jpath (k # ks) d = (if ks = [] then dget d k else case dget d k of Some (JObj e) \<Rightarrow> jpath ks e | _ \<Rightarrow> None)"

definition counts_path :: "string \<Rightarrow> string list" where
  "counts_path bits = [''execution'', ''measurement_results'', ''counts'', bits]"

lemma json_row_simps: "dkeys (json_row d) = dkeys d" "dget (json_row d) k = map_option json_of (dget d k)"
  by (induction d) (auto simp: json_row_def)

lemma json_of_dict: "json_of (PDict d) = JObj (json_row d)"
  by (simp add: json_row_def)

lemma merged_counts_stay:
  assumes "jpath (counts_path bits) st = Some v"
    and "dget execution ''measurement_results'' = Some (PDict results)" "dget results ''counts'' = Some (PDict counts)"
    and "distinct (dkeys execution)" "distinct (dkeys results)" "bits \<notin> set (dkeys counts)"
  shows "jpath (counts_path bits) (deep_merge st (json_row [(''execution'', PDict execution)])) = Some v"
proof -
  obtain ex m c where old: "dget st ''execution'' = Some (JObj ex)" "dget ex ''measurement_results'' = Some (JObj m)"
      "dget m ''counts'' = Some (JObj c)" "dget c bits = Some v"
    using assms(1) by (auto simp: counts_path_def split: option.splits json.splits)
  have "dget (deep_merge st (json_row [(''execution'', PDict execution)])) ''execution'' =
      Some (JObj (deep_merge ex (json_row execution)))"
    by (subst deep_merge_at [where v = "JObj (json_row execution)"]) (simp_all add: json_row_simps json_of_dict old del: json_of.simps)
  moreover have "dget (deep_merge ex (json_row execution)) ''measurement_results'' = Some (JObj (deep_merge m (json_row results)))"
    by (subst deep_merge_at [where v = "JObj (json_row results)"]) (simp_all add: json_row_simps json_of_dict old assms(2,4) del: json_of.simps)
  moreover have "dget (deep_merge m (json_row results)) ''counts'' = Some (JObj (deep_merge c (json_row counts)))"
    by (subst deep_merge_at [where v = "JObj (json_row counts)"]) (simp_all add: json_row_simps json_of_dict old assms(3,5) del: json_of.simps)
  moreover have "dget (deep_merge c (json_row counts)) bits = Some v"
    using assms(6) old(4) by (simp add: deep_merge_other json_row_simps)
  ultimately show ?thesis by (simp add: counts_path_def)
qed

lemma execution_distinct: "execution_of q uri pv payload = Return execution \<Longrightarrow> distinct (dkeys execution)"
  by (auto simp: execution_of_def Let_def fabric_execution_def backend_execution_def bindR_eq_Return split: if_splits option.splits)

lemma without_key_other: "k' \<noteq> k \<Longrightarrow> dget (without_key k d) k' = dget d k'"
  by (induction d) (auto simp: without_key_def)

lemma execute_Return:
  assumes "live s" "qso_quantum_execute env q uri actor pv node s = (Inr (e, res), t)"
  shows "\<exists>obj obj' execution. dget (eg_registry (fr_engine s)) uri = Some obj \<and>
    execution_of q uri pv (val_row (ob_state_layer obj)) = Return execution \<and> res = without_key ''state_hash'' execution \<and>
    dget (eg_registry (fr_engine t)) uri = Some obj' \<and>
    ob_state_layer obj' = deep_merge (ob_state_layer obj) (json_row [(''execution'', PDict execution)])"
proof -
  obtain obj execution where run: "dget (eg_registry (fr_engine s)) uri = Some obj"
      "execution_of q uri pv (val_row (ob_state_layer obj)) = Return execution" "res = without_key ''state_hash'' execution"
      "execution_patch env uri execution actor pv node s = (Inr e, t)"
    using assms(2) by (auto simp: qso_quantum_execute_def bindS_Return qso_read_def eg_read_def rg_read_def split: option.splits)
  then obtain g where g: "patch (fe_uuid env (fr_calls s)) uri (json_row [(''execution'', PDict execution)]) actor pv node (fr_engine s)
      = (Inr e, g)" "fr_engine t = g"
    by (auto simp: execution_patch_def engine_patch_Return)
  obtain obj0 obj' where "dget (eg_registry (fr_engine s)) uri = Some obj0" "eg_registry g = dset uri obj' (eg_registry (fr_engine s))"
      "ob_state_layer obj' = deep_merge (ob_state_layer obj0) (json_row [(''execution'', PDict execution)])"
    using patch_registry [OF _ g(1)] assms(1) unfolding live_def by blast
  then show ?thesis using run g(2) by (intro exI [of _ obj] exI [of _ obj'] exI [of _ execution]) (auto simp: update_conv)
qed

text \<open>
  An execution is merged into the object, not put in the place of the last one: a bit string the
  object has a count for and the new result has none for keeps its old count, so the counts of an
  object that is executed again need not add up to the shots of any run.
\<close>

theorem stale_counts_stay:
  assumes "live s" "qso_quantum_execute env q uri actor pv node s = (Inr (e, res), t)"
    and "dget (eg_registry (fr_engine s)) uri = Some obj" "jpath (counts_path bits) (ob_state_layer obj) = Some v"
    and "dget res ''measurement_results'' = Some (PDict results)" "distinct (dkeys results)"
    and "dget results ''counts'' = Some (PDict counts)" "bits \<notin> set (dkeys counts)"
  shows "\<exists>obj'. dget (eg_registry (fr_engine t)) uri = Some obj' \<and> jpath (counts_path bits) (ob_state_layer obj') = Some v"
proof -
  obtain obj' execution where run: "execution_of q uri pv (val_row (ob_state_layer obj)) = Return execution"
      "res = without_key ''state_hash'' execution" "dget (eg_registry (fr_engine t)) uri = Some obj'"
      "ob_state_layer obj' = deep_merge (ob_state_layer obj) (json_row [(''execution'', PDict execution)])"
    using execute_Return [OF assms(1,2)] assms(3) by auto
  have "dget execution ''measurement_results'' = Some (PDict results)"
    using assms(5) run(2) without_key_other [of "''measurement_results''" "''state_hash''" execution] by simp
  from merged_counts_stay [OF assms(4) this assms(7) execution_distinct [OF run(1)] assms(6,8)] run(3,4) show ?thesis by auto
qed

definition sample_counts :: "json dict" where
  "sample_counts = [(''execution'', JObj [(''measurement_results'', JObj [(''counts'', JObj [(''1'', JInt 5)])])])]"

definition sample_quantum_env :: quantum_env where
  "sample_quantum_env = \<lparr>qn_lib = sample_sim_lib, qn_qiskit = Some (\<lambda>n ops shots. Return [(''0'', PInt shots)]), qn_cirq = None,
     qn_pennylane = None, qn_runner = (\<lambda>path input. (1, [], [])), qn_runner_path = []\<rparr>"

text \<open>A live fabric whose object has the given state, and that it takes further patches.\<close>

lemma filled_fields: "strip a \<noteq> [] \<Longrightarrow> \<forall>x\<in>{fe_uuid sample_env n, a, sample_node, ''v1''}. strip x \<noteq> []"
  by (simp add: sample_env_def strip_Nil_iff is_space_def)

lemma sample_takes:
  assumes "live s" "eg_policy (fr_engine s) = None" "dget (eg_registry (fr_engine s)) sample_node = Some obj" "strip actor \<noteq> []"
  shows "\<exists>e t. engine_patch sample_env sample_node delta actor ''v1'' ''local'' s = (Inr e, t)"
  using patch_accepted [OF _ assms(2,3) filled_fields [OF assms(4)]] assms(1) unfolding live_def engine_patch_Return by blast

lemma sample_object:
  assumes "deep_merge [] d = d"
  obtains s obj where "live s" "eg_policy (fr_engine s) = None" "dget (eg_registry (fr_engine s)) sample_node = Some obj"
    "ob_state_layer obj = d"
proof -
  have root: "strip ''root'' \<noteq> []" by code_simp
  obtain o1 where o1: "dget (eg_registry (fr_engine sample_fabric)) sample_node = Some o1" "ob_state_layer o1 = []"
    by (simp add: sample_fabric_eq)
  have first: "reachable (fr_engine sample_fabric)" "eg_policy (fr_engine sample_fabric) = None"
    using sample_fabric_live by (simp_all add: live_def) (simp add: sample_fabric_eq fresh_engine_def)
  obtain e g where g: "patch (fe_uuid sample_env 1) sample_node d ''root'' ''v1'' ''local'' (fr_engine sample_fabric) = (Inr e, g)"
    using patch_accepted [OF first o1(1) filled_fields [OF root]] by blast
  define s where "s = sample_fabric\<lparr>fr_calls := 2, fr_engine := g\<rparr>"
  have "engine_patch sample_env sample_node d ''root'' ''v1'' ''local'' sample_fabric = (Inr e, s)"
    using g by (simp add: engine_patch_Return s_def) (simp add: sample_fabric_eq)
  then have "live s" using keepsD [OF live_tools(7) sample_fabric_live] by (metis snd_conv)
  moreover have "eg_policy (fr_engine s) = None"
    using g first(2) unfolding s_def by (auto simp: patch_def Let_def split_beta split: sum.splits)
  moreover obtain o2 where "eg_registry g = dset sample_node o2 (eg_registry (fr_engine sample_fabric))"
      "ob_state_layer o2 = deep_merge [] d"
    using patch_registry [OF first(1) g] o1 by auto
  ultimately show thesis using assms by (intro that [of s o2]) (simp_all add: s_def update_conv)
qed

theorem stale_counts_stay_witness:
  "\<exists>s e res t obj'. qso_quantum_execute sample_env sample_quantum_env sample_node ''quantum-manager'' ''v1'' ''local'' s = (Inr (e, res), t) \<and>
    dget res ''measurement_results'' = Some (PDict [(''counts'', PDict [(''0'', PInt 1024)]), (''shots'', PInt 1024)]) \<and>
    dget (eg_registry (fr_engine t)) sample_node = Some obj' \<and>
    jpath (counts_path ''1'') (ob_state_layer obj') = Some (JInt 5)"
proof -
  have actor: "strip ''quantum-manager'' \<noteq> []" by code_simp
  obtain s obj where live: "live s" "eg_policy (fr_engine s) = None"
      and obj: "dget (eg_registry (fr_engine s)) sample_node = Some obj" "ob_state_layer obj = sample_counts"
    by (rule sample_object [of sample_counts]) (simp add: sample_counts_def)
  have old: "jpath (counts_path ''1'') (ob_state_layer obj) = Some (JInt 5)"
    by (simp add: obj(2) counts_path_def sample_counts_def)
  obtain execution where ex: "execution_of sample_quantum_env sample_node ''v1'' (val_row (ob_state_layer obj)) = Return execution"
      "dget (without_key ''state_hash'' execution) ''measurement_results'' =
        Some (PDict [(''counts'', PDict [(''0'', PInt 1024)]), (''shots'', PInt 1024)])"
  proof -
    define payload where "payload = val_row (ob_state_layer obj)"
    have p: "payload = [(''execution'', PDict [(''measurement_results'', PDict [(''counts'', PDict [(''1'', PInt 5)])])])]"
      by (simp add: payload_def obj(2) sample_counts_def val_row_def)
    have kind: "\<not> is_fabric_payload payload" by (simp add: p is_fabric_payload_def has_key_def dget_or_def) code_simp
    have "execution_of sample_quantum_env sample_node ''v1'' payload = Return (backend_execution sample_node
        (make_result ''qiskit'' [(''counts'', PDict [(''0'', PInt 1024)]), (''shots'', PInt 1024)]
           [(''model'', PStr ''ideal_statevector_sampler'')]
           [(''backend'', PStr ''qiskit''), (''job_uri'', PStr sample_node), (''engine'', PStr ''qiskit_statevector_sampler''),
            (''circuit_hash'', PStr (hash_val (PDict [])))]))"
      using kind by (simp add: execution_of_def p Let_def dget_or_def backends_def job_of_def to_int_def get_dict_def to_dict_def
        qiskit_execute_def sample_quantum_env_def circuit_ops_def circuit_gates_def to_items_def job_shots_def circuit_hash_def)
    from that [OF this [unfolded payload_def]] show ?thesis
      by (simp add: without_key_def backend_execution_def make_result_def)
  qed
  obtain e2 t2 where "engine_patch sample_env sample_node (json_row [(''execution'', PDict execution)]) ''quantum-manager'' ''v1'' ''local'' s
      = (Inr e2, t2)"
    using sample_takes [OF live obj(1) actor] by blast
  then have run: "qso_quantum_execute sample_env sample_quantum_env sample_node ''quantum-manager'' ''v1'' ''local'' s =
      (Inr (e2, without_key ''state_hash'' execution), t2)"
    using ex(1) obj(1)
    by (simp add: qso_quantum_execute_def bindS_Return qso_read_def eg_read_def rg_read_def execution_patch_def)
  obtain obj' where "dget (eg_registry (fr_engine t2)) sample_node = Some obj'"
      "jpath (counts_path ''1'') (ob_state_layer obj') = Some (JInt 5)"
    using stale_counts_stay [OF live(1) run obj(1) old ex(2)] by auto
  with run ex(2) show ?thesis by blast
qed

end
