(* ===== verification/Lisp_Reasoning.thy ===== *)
theory Lisp_Reasoning
  imports Quantum_Manager Quantum_Lisp Fabric_Scene
begin

text \<open>
  \<^verbatim>\<open>services/quantum_lisp/manager.py\<close>: the analysis of a compiled program.  Its forms become the
  patches of a fabric whose coherence is reported, its backends run a small circuit, and what comes
  out are descriptions and proposals, recorded as one patch of the program's object.
\<close>

section \<open>The fabric of a program\<close>

definition REASONING_FORMS :: "string list" where
  "REASONING_FORMS = [''defintent'', ''observe'', ''hypothesis'', ''repair'', ''project'', ''trust'', ''algebra'', ''reason'']"

definition assert_basis :: "string list" where
  "assert_basis = [''|assert>'', ''|context>'']"

definition plain_state :: "string \<Rightarrow> cplx list \<Rightarrow> pyval dict \<Rightarrow> quantum_state" where
  "plain_state i vector metadata =
     \<lparr>qs_id = i, qs_vector = vector, qs_phase = Fin 0, qs_uncertainty = Fin 0, qs_metadata = metadata\<rparr>"

definition form_patch :: "libm \<Rightarrow> nat \<Rightarrow> nat \<times> lisp_form \<Rightarrow> Fabric_State.patch result" where
  "form_patch m n x = (case x of (idx, form) \<Rightarrow>
     (let op = lf_op form; phase = ratio (idx + 1) (max 1 n); suffix = op @ ''.'' @ py_str (int idx);
          metadata = [(''form'', form_to_json form)]
      in bindR (make_state m
          ((plain_state (''state.'' @ suffix)
             [cx_real (Fin 1), \<lparr>cx_re = phase, cx_im = f_sub (Fin 1) phase\<rparr>] metadata)
           \<lparr>qs_phase := phase,
            qs_uncertainty := round_dec 8 (f_sub (Fin 1) (f_min (lit (95 / 100)) (f_add (lit (55 / 100)) (f_quot phase (Fin 3)))))\<rparr>))
        (\<lambda>state. make_patch \<lparr>pt_id = ''patch.'' @ suffix, pt_domain = ''qlisp.'' @ op, pt_basis = assert_basis,
           pt_state = state, pt_metadata = metadata\<rparr>)))"

text \<open>A single patch gets a context to be compared with.\<close>

definition context_patch :: "libm \<Rightarrow> string \<Rightarrow> Fabric_State.patch result" where
  "context_patch m twin =
     bindR (make_state m (plain_state (py_replace ''patch.'' ''state.'' twin) [cx_real (Fin 1), cx_real (lit (1 / 5))]
        [(''synthetic_context'', PBool True)])) (\<lambda>state.
       make_patch \<lparr>pt_id = twin, pt_domain = ''qlisp.context'', pt_basis = assert_basis, pt_state = state, pt_metadata = []\<rparr>)"

definition identity_restriction :: "string \<Rightarrow> string \<Rightarrow> restriction_map result" where
  "identity_restriction restriction_id source_patch =
     make_restriction \<lparr>rm_id = restriction_id, rm_source_patch = source_patch,
       rm_target_patch = py_replace ''restrict.'' ''overlap.'' restriction_id,
       rm_projection = [[cx_real (Fin 1), cx_real (Fin 0)], [cx_real (Fin 0), cx_real (Fin 1)]],
       rm_validation_rule = ''dimension_match'', rm_metadata = []\<rparr>"

definition continuity_overlap :: "nat \<times> string \<times> string \<Rightarrow> overlap result" where
  "continuity_overlap x = (case x of (idx, left, right) \<Rightarrow>
     (let i = py_str (int idx) in
      bindR (identity_restriction (''restrict.'' @ i @ ''.a'') left) (\<lambda>a.
      bindR (identity_restriction (''restrict.'' @ i @ ''.b'') right) (\<lambda>b.
        make_overlap \<lparr>ov_id = ''overlap.qlisp.'' @ i, ov_patch_a = left, ov_patch_b = right,
          ov_shared_domain = [''reasoning.step.'' @ i], ov_restriction_a = a, ov_restriction_b = b,
          ov_metadata = [(''kind'', PStr ''reasoning_continuity'')]\<rparr>))))"

definition short_hash :: "reasoning_ir \<Rightarrow> string" where
  "short_hash ir = take 12 (ir_hash ir)"

definition reasoning_forms :: "reasoning_ir \<Rightarrow> (nat \<times> lisp_form) list" where
  "reasoning_forms ir = filter (\<lambda>(idx, form). lf_op form \<in> set REASONING_FORMS) (enumerate 0 (ir_forms ir))"

definition fabric_from_ir :: "libm \<Rightarrow> reasoning_ir \<Rightarrow> Fabric_State.fabric result" where
  "fabric_from_ir m ir =
     bindR (foldR (\<lambda>(f, ids) x. bindR (form_patch m (length (ir_forms ir)) x) (\<lambda>p.
          bindR (add_patch p f) (\<lambda>f'. Return (f', ids @ [pt_id p]))))
        (empty_fabric (''qlisp.fabric.'' @ short_hash ir) [(''ir_hash'', PStr (ir_hash ir))], []) (reasoning_forms ir)) (\<lambda>(f, ids).
     bindR (case ids of
         [only] \<Rightarrow> bindR (context_patch m (only @ ''.context'')) (\<lambda>p.
           bindR (add_patch p f) (\<lambda>f'. Return (f', ids @ [only @ ''.context''])))
       | _ \<Rightarrow> Return (f, ids)) (\<lambda>(f, ids).
     foldR (\<lambda>f x. bindR (continuity_overlap x) (\<lambda>o'. add_overlap o' f)) f (enumerate 0 (zip ids (tl ids)))))"

section \<open>Backends\<close>

definition projection_circuit :: "reasoning_ir \<Rightarrow> pyval dict" where
  "projection_circuit ir =
     (let gate_count = max 1 (min 6 (length (ir_forms ir)))
      in [(''gates'', PList ([one_gate ''h'' 0] @ (if gate_count > 1 then [controlled_gate ''cnot'' 0 1] else []) @
            map (\<lambda>idx. one_gate (if odd idx then ''z'' else ''x'') (idx mod 2)) [2..<gate_count])),
          (''source'', PStr ''quantum_lisp_projection'')])"

definition reasoning_job :: "reasoning_ir \<Rightarrow> string \<Rightarrow> quantum_job" where
  "reasoning_job ir backend_name =
     \<lparr>qj_uri = ''qso://quantum.state/qlisp_'' @ short_hash ir @ ''_'' @ backend_name, qj_backend = backend_name,
      qj_qubit_count = 2, qj_circuit_spec = projection_circuit ir, qj_measurement_schema = [(''shots'', PInt 128)],
      qj_policy_version = ''v1'', qj_metadata = [(''ir_hash'', PStr (ir_hash ir))]\<rparr>"

definition backend_report :: "quantum_env \<Rightarrow> reasoning_ir \<Rightarrow> string \<Rightarrow> pyval dict result" where
  "backend_report q ir backend_name =
     (if backend_name = ''fabric_gluing'' then
        Return [(''backend'', PStr backend_name), (''status'', PStr ''completed''), (''role'', PStr ''local_to_global_gluing'')]
      else case dget backends backend_name of
        None \<Rightarrow> Return [(''backend'', PStr backend_name), (''status'', PStr ''unavailable''),
          (''reason'', PStr ''backend_not_registered'')]
      | Some execute \<Rightarrow> bindR (execute q (reasoning_job ir backend_name)) (\<lambda>r.
          Return [(''backend'', PStr (qr_backend r)), (''status'', PStr (qr_status r)),
            (''measurement_results'', PDict (qr_measurement_results r)), (''noise_profile'', PDict (qr_noise_profile r)),
            (''execution_proof'', PDict (qr_execution_proof r)), (''verification_hash'', PStr (qr_verification_hash r))]))"

definition report_completed :: "pyval dict \<Rightarrow> bool" where
  "report_completed report \<longleftrightarrow> dget report ''status'' = Some (PStr ''completed'')"

section \<open>The report\<close>

definition unavailable :: "pyval dict list \<Rightarrow> nat" where
  "unavailable reports = length (filter (\<lambda>r. \<not> report_completed r) reports)"

definition path_ref :: "nat \<times> lisp_form \<Rightarrow> string" where
  "path_ref x = (case x of (idx, form) \<Rightarrow> ''form.'' @ py_str (int idx) @ ''.'' @ lf_op form)"

definition reasoning_paths :: "reasoning_ir \<Rightarrow> fabric_report \<Rightarrow> pyval dict list \<Rightarrow> reasoning_path list result" where
  "reasoning_paths ir report reports =
     (let backend_penalty = f_mul (rnd (of_nat (unavailable reports))) (lit (5 / 100));
          confidence = clip_unit (f_sub (fr_global_coherence report) backend_penalty)
      in bindR (f_sqrt (f_max0 (fr_obstruction_score report))) (\<lambda>cost.
        Return [\<lparr>rp_id = ''reasoning.path.'' @ short_hash ir, rp_path_refs = map path_ref (enumerate 0 (ir_forms ir)),
          rp_path_type = ''quantum_lisp_descriptive'', rp_confidence = round_dec 8 confidence, rp_cost = round_dec 8 cost,
          rp_metadata = [(''backend_targets'', PStrs (ir_backend_targets ir))]\<rparr>]))"

definition uncertainty_fields :: "fabric_report \<Rightarrow> pyval dict list \<Rightarrow> uncertainty_field list" where
  "uncertainty_fields report reports =
     (let backend_entropy = f_sum (replicate (unavailable reports) (lit (1 / 10)));
          uncertainty = clip_unit (f_add (f_sub (Fin 1) (fr_global_coherence report)) backend_entropy)
      in [\<lparr>uf_id = ''uncertainty.'' @ fr_fabric_id report, uf_target_ref = fr_fabric_id report,
           uf_uncertainty = round_dec 8 uncertainty, uf_entropy = round_dec 8 (f_add (fr_obstruction_score report) backend_entropy),
           uf_source_refs = map (\<lambda>r. to_str (dget_or r ''backend'' PNone)) reports,
           uf_metadata = [(''model'', PStr ''fabric_obstruction_plus_backend_availability'')]\<rparr>])"

definition repair_proposals :: "reasoning_ir \<Rightarrow> fabric_report \<Rightarrow> pyval dict list" where
  "repair_proposals ir report =
     (if fr_healthy report then []
      else [[(''id'', PStr (''repair.'' @ short_hash ir @ ''.reconcile'')), (''operator'', PStr ''reconcile''),
             (''reason'', PStr ''global_coherence_below_threshold''), (''applies'', PBool False)]])"

definition projection_candidates :: "reasoning_ir \<Rightarrow> pyval dict list \<Rightarrow> pyval dict list" where
  "projection_candidates ir reports =
     map (\<lambda>(idx, report). [(''id'', PStr (''projection.'' @ short_hash ir @ ''.'' @ py_str (int idx))),
         (''backend'', dget_or report ''backend'' PNone), (''supported'', PBool (report_completed report)),
         (''applies'', PBool False)])
       (enumerate 0 reports)"

definition evaluate :: "quantum_env \<Rightarrow> reasoning_ir \<Rightarrow> pyval dict result" where
  "evaluate q ir =
     bindR (fabric_from_ir (sl_math (qn_lib q)) ir) (\<lambda>f.
     bindR (analyze (sl_math (qn_lib q)) (lit (4 / 5)) f) (\<lambda>fabric_report.
     bindR (mapR (backend_report q ir) (ir_backend_targets ir)) (\<lambda>reports.
     bindR (reasoning_paths ir fabric_report reports) (\<lambda>paths.
       let report = [(''engine'', PStr ''qso.quantum_lisp''), (''status'', PStr ''completed''),
             (''ir_hash'', PStr (ir_hash ir)), (''fabric_report'', PDict (fabric_report_json fabric_report)),
             (''backend_reports'', PList (map PDict reports)),
             (''reasoning_paths'', PList (map (\<lambda>p. PDict (reasoning_path_to_json p)) paths)),
             (''uncertainty_fields'', PList (map (\<lambda>u. PDict (uncertainty_field_to_json u)) (uncertainty_fields fabric_report reports))),
             (''repair_proposals'', PList (map PDict (repair_proposals ir fabric_report))),
             (''projection_candidates'', PList (map PDict (projection_candidates ir reports)))]
       in Return (report @ [(''verification_hash'', PStr (hash_val (PDict report)))])))))"

section \<open>Operations\<close>

definition qso_quantum_lisp_compile :: "string \<Rightarrow> pyval dict option \<Rightarrow> pyval dict result" where
  "qso_quantum_lisp_compile source metadata =
     bindR (compile_lisp source (case metadata of Some d \<Rightarrow> d | None \<Rightarrow> [])) (\<lambda>ir. Return (ir_to_json ir))"

definition analysis_delta :: "string \<Rightarrow> reasoning_ir \<Rightarrow> pyval dict \<Rightarrow> pyval dict" where
  "analysis_delta uri ir report =
     [(''object_kind'', PStr ''reasoning_trace''), (''compiled_ir'', PDict (ir_to_json ir)), (''reasoning_report'', PDict report),
      (''verification_hash'', PStr (hash_val (PDict [(''uri'', PStr uri), (''compiled_ir'', PDict (ir_to_json ir)),
         (''reasoning_report'', PDict report)])))]"

definition compile_object :: "pyval dict \<Rightarrow> reasoning_ir result" where
  "compile_object payload =
     (let source = to_str (dget_or payload ''source'' (PStr [])) in
      if strip source = [] then Raise (ValueError ''quantum_lisp_program requires source'')
      else bindR (get_dict payload ''metadata'') (\<lambda>metadata. compile_lisp source metadata))"

definition qso_quantum_lisp_analyze ::
    "fabric_env \<Rightarrow> quantum_env \<Rightarrow> string \<Rightarrow> string \<Rightarrow> string \<Rightarrow> string \<Rightarrow>
      (Qso_Tools.fabric, qso_event \<times> pyval dict) op" where
  "qso_quantum_lisp_analyze env q uri actor policy_version node_id =
     bindS (qso_read uri) (\<lambda>obj.
     bindS (liftS (compile_object (val_row (ob_state_layer obj)))) (\<lambda>ir.
     bindS (liftS (evaluate q ir)) (\<lambda>report.
     bindS (engine_patch env uri (json_row (analysis_delta uri ir report)) actor policy_version node_id) (\<lambda>event.
       returnS (event, report)))))"

definition qso_quantum_lisp_replay :: "string \<Rightarrow> bool \<Rightarrow> (Qso_Tools.fabric, json dict) op" where
  "qso_quantum_lisp_replay uri strict = on_engine (rebuild_from_log uri strict)"

section \<open>Properties\<close>

lemma round_dec_unit: "unit_float x \<Longrightarrow> unit_float (round_dec k x)"
proof (erule unit_cases)
  fix q :: rat assume x: "x = Fin q" "0 \<le> q" "q \<le> 1"
  have "round_even (of_int 0) \<le> round_even (q * 10 ^ k)" "round_even (q * 10 ^ k) \<le> round_even (of_int (10 ^ k))"
    using x by (auto intro!: round_even_mono)
  then have "0 \<le> round_even (q * 10 ^ k)" "round_even (q * 10 ^ k) \<le> 10 ^ k" by (simp_all only: round_even_int)
  then have "0 \<le> (of_int (round_even (q * 10 ^ k)) :: rat)" "(of_int (round_even (q * 10 ^ k)) :: rat) \<le> of_int (10 ^ k)"
    by (simp_all only: of_int_le_iff of_int_0_le_iff)
  then show ?thesis by (auto simp: round_dec_def x divide_le_eq intro!: rnd_unit)
qed

lemma clip_unit_range: "unit_float (clip_unit x)"
  by (cases x) (auto simp: clip_unit_def f_max_def f_min_def)

definition proposal :: "pyval dict \<Rightarrow> bool" where
  "proposal p \<longleftrightarrow> dget p ''applies'' = Some (PBool False)"

lemma evaluate_report:
  assumes "evaluate q ir = Return report"
  shows "dget report ''ir_hash'' = Some (PStr (ir_hash ir)) \<and>
    (\<exists>repairs candidates. dget report ''repair_proposals'' = Some (PList (map PDict repairs)) \<and>
      dget report ''projection_candidates'' = Some (PList (map PDict candidates)) \<and>
      (\<forall>p\<in>set (repairs @ candidates). proposal p)) \<and>
    (\<exists>path u. dget report ''reasoning_paths'' = Some (PList [PDict (reasoning_path_to_json path)]) \<and> unit_float (rp_confidence path) \<and>
      dget report ''uncertainty_fields'' = Some (PList [PDict (uncertainty_field_to_json u)]) \<and> unit_float (uf_uncertainty u))"
proof -
  obtain f r reports paths where run: "mapR (backend_report q ir) (ir_backend_targets ir) = Return reports"
      "reasoning_paths ir r reports = Return paths"
    and report: "report = (let report = [(''engine'', PStr ''qso.quantum_lisp''), (''status'', PStr ''completed''),
             (''ir_hash'', PStr (ir_hash ir)), (''fabric_report'', PDict (fabric_report_json r)),
             (''backend_reports'', PList (map PDict reports)),
             (''reasoning_paths'', PList (map (\<lambda>p. PDict (reasoning_path_to_json p)) paths)),
             (''uncertainty_fields'', PList (map (\<lambda>u. PDict (uncertainty_field_to_json u)) (uncertainty_fields r reports))),
             (''repair_proposals'', PList (map PDict (repair_proposals ir r))),
             (''projection_candidates'', PList (map PDict (projection_candidates ir reports)))]
       in report @ [(''verification_hash'', PStr (hash_val (PDict report)))])"
    using assms unfolding evaluate_def by (auto simp: Let_def elim!: bindR_ReturnE)
  have "\<forall>p\<in>set (repair_proposals ir r @ projection_candidates ir reports). proposal p"
    by (auto simp: repair_proposals_def projection_candidates_def proposal_def split: if_splits)
  moreover obtain path where "paths = [path]" "unit_float (rp_confidence path)"
    using run(2) by (auto simp: reasoning_paths_def Let_def round_dec_unit clip_unit_range elim!: bindR_ReturnE)
  moreover obtain u where "uncertainty_fields r reports = [u]" "unit_float (uf_uncertainty u)"
    by (simp add: uncertainty_fields_def Let_def round_dec_unit clip_unit_range)
  ultimately show ?thesis unfolding report by (simp add: Let_def) blast
qed

text \<open>
  C31: an analysis of a program describes and proposes and does no more: it changes no object but the
  program's own, into which the compiled program and the report are merged; the report is of that
  program, none of its repair proposals and projection candidates is applied, and its confidence and
  its uncertainty lie between zero and one.
\<close>

theorem lisp_analysis_proposes:
  assumes "live s" "qso_quantum_lisp_analyze env q uri actor pv node s = (Inr (e, report), t)"
  shows "\<exists>obj obj' ir repairs candidates path u.
    dget (eg_registry (fr_engine s)) uri = Some obj \<and> compile_object (val_row (ob_state_layer obj)) = Return ir \<and>
    eg_registry (fr_engine t) = dset uri obj' (eg_registry (fr_engine s)) \<and>
    ob_state_layer obj' = deep_merge (ob_state_layer obj) (json_row (analysis_delta uri ir report)) \<and>
    dget report ''ir_hash'' = Some (PStr (ir_hash ir)) \<and>
    dget report ''repair_proposals'' = Some (PList (map PDict repairs)) \<and>
    dget report ''projection_candidates'' = Some (PList (map PDict candidates)) \<and> (\<forall>p\<in>set (repairs @ candidates). proposal p) \<and>
    dget report ''reasoning_paths'' = Some (PList [PDict (reasoning_path_to_json path)]) \<and> unit_float (rp_confidence path) \<and>
    dget report ''uncertainty_fields'' = Some (PList [PDict (uncertainty_field_to_json u)]) \<and> unit_float (uf_uncertainty u)"
proof -
  obtain obj ir where obj: "dget (eg_registry (fr_engine s)) uri = Some obj" "compile_object (val_row (ob_state_layer obj)) = Return ir"
    and report: "evaluate q ir = Return report"
    and run: "engine_patch env uri (json_row (analysis_delta uri ir report)) actor pv node s = (Inr e, t)"
    using assms(2) by (auto simp: qso_quantum_lisp_analyze_def bindS_Return qso_read_def eg_read_def rg_read_def split: option.splits)
  obtain obj' where "eg_registry (fr_engine t) = dset uri obj' (eg_registry (fr_engine s))"
      "ob_state_layer obj' = deep_merge (ob_state_layer obj) (json_row (analysis_delta uri ir report))"
    using run patch_registry [of "fr_engine s"] assms(1) obj(1) by (fastforce simp: engine_patch_Return live_def)
  then show ?thesis using obj evaluate_report [OF report] by blast
qed

definition sample_program :: "json dict" where
  "sample_program = [(''source'', JStr ''(entangle a b)'')]"

theorem lisp_analysis_proposes_witness:
  "\<exists>s e report t candidates.
    qso_quantum_lisp_analyze sample_env sample_quantum_env sample_node ''quantum-lisp'' ''v1'' ''local'' s = (Inr (e, report), t) \<and>
    dget report ''projection_candidates'' = Some (PList (map PDict candidates)) \<and> (\<forall>p\<in>set candidates. proposal p)"
proof -
  have actor: "strip ''quantum-lisp'' \<noteq> []" by code_simp
  obtain s obj where live: "live s" "eg_policy (fr_engine s) = None"
      and obj: "dget (eg_registry (fr_engine s)) sample_node = Some obj" "ob_state_layer obj = sample_program"
    by (rule sample_object [of sample_program]) (simp add: sample_program_def)
  have blank: "strip ''(entangle a b)'' \<noteq> []" by code_simp
  obtain ir where "compile_lisp ''(entangle a b)'' [] = Return ir" and forms: "map lf_op (ir_forms ir) = [''entangle'']"
      and targets: "ir_backend_targets ir = [''fabric_gluing'']"
    by (simp add: compile_lisp_def parse_quantum_lisp_def parse_forms.simps compile_form_def Let_def atom_def py_int_def
        split_sign_def strip_def lstrip_def rstrip_def is_space_def word_char_def dquote_def is_ascii_digit_def lower_def
        lower_char_def FORBIDDEN_FORMS_def ALLOWED_FORMS_def ALLOWED_BACKENDS_def pairs_def option_name_def requested_def
        as_list_def targets_of_def assemble_ir_def dget_or_def sorted_set_def)
  then have ir: "compile_object (val_row (ob_state_layer obj)) = Return ir"
    using blank by (simp add: compile_object_def obj(2) sample_program_def val_row_def dget_or_def get_dict_def to_dict_def)
  have "\<exists>report. evaluate sample_quantum_env ir = Return report"
  proof -
    obtain f where f: "ir_forms ir = [f]" "lf_op f = ''entangle''" using forms by (cases "ir_forms ir") auto
    have none: "reasoning_forms ir = []" by (simp add: reasoning_forms_def f REASONING_FORMS_def)
    have "fabric_from_ir m ir = Return (empty_fabric (''qlisp.fabric.'' @ short_hash ir) [(''ir_hash'', PStr (ir_hash ir))])" for m
      by (simp add: fabric_from_ir_def none)
    moreover have "lm_exp (sl_math (qn_lib sample_quantum_env)) (Fin 0) = Return (Fin 1)"
      by (simp add: sample_quantum_env_def sample_sim_lib_def sample_libm_def)
    ultimately show ?thesis
      by (simp add: evaluate_def analyze_def empty_fabric_def Let_def targets backend_report_def reasoning_paths_def)
  qed
  then obtain report where report: "evaluate sample_quantum_env ir = Return report" by blast
  obtain e t where "engine_patch sample_env sample_node (json_row (analysis_delta sample_node ir report)) ''quantum-lisp'' ''v1'' ''local'' s
      = (Inr e, t)"
    using sample_takes [OF live obj(1) actor] by blast
  then have run: "qso_quantum_lisp_analyze sample_env sample_quantum_env sample_node ''quantum-lisp'' ''v1'' ''local'' s =
      (Inr (e, report), t)"
    using obj(1) ir report by (simp add: qso_quantum_lisp_analyze_def bindS_Return qso_read_def eg_read_def rg_read_def)
  obtain candidates where "dget report ''projection_candidates'' = Some (PList (map PDict candidates))"
      "\<forall>p\<in>set candidates. proposal p"
    using lisp_analysis_proposes [OF live(1) run] by auto
  with run show ?thesis by blast
qed

end
