(* ===== verification/Scene_Projector.thy ===== *)
theory Scene_Projector
  imports Fabric_Gluing Value_Json Qso_Tools
begin

unbundle bit_operations_syntax

text \<open>
  \<^verbatim>\<open>qso_vr_visualization\<close>: the projector of a world's scene graph into world matrices and what a
  viewpoint sees of it, the integrity check of the graph, the compiler of patches into render deltas
  and the interest filter; and the tools of \<^verbatim>\<open>api/mcp_tools/qso_tools.py\<close> that serve them.
\<close>

section \<open>Vectors and matrices\<close>

type_synonym vec3 = "pyfloat \<times> pyfloat \<times> pyfloat"

type_synonym quat = "pyfloat \<times> pyfloat \<times> pyfloat \<times> pyfloat"

type_synonym matrix4 = "pyfloat list"

definition number_like :: "pyval \<Rightarrow> bool" where
  "number_like v = (case v of PInt _ \<Rightarrow> True | PFloat _ \<Rightarrow> True | PBool _ \<Rightarrow> True | _ \<Rightarrow> False)"

definition is_vec3 :: "pyval \<Rightarrow> bool" where
  "is_vec3 v = (case v of PList xs \<Rightarrow> length xs = 3 \<and> list_all number_like xs | _ \<Rightarrow> False)"

definition list_of_val :: "pyval \<Rightarrow> pyval list" where
  "list_of_val v = (case v of PList xs \<Rightarrow> xs | _ \<Rightarrow> [])"

definition read_vec3 :: "pyval \<Rightarrow> vec3 result" where
  "read_vec3 v =
     bindR (mapR to_float (list_of_val v)) (\<lambda>xs. case xs of
         [x, y, z] \<Rightarrow> Return (x, y, z) | _ \<Rightarrow> Raise (IndexError ''list index out of range''))"

definition vec3_or :: "pyval \<Rightarrow> vec3 \<Rightarrow> vec3 result" where
  "vec3_or v def = (if is_vec3 v then read_vec3 v else Return def)"

definition dot4 :: "pyfloat \<Rightarrow> pyfloat \<Rightarrow> pyfloat \<Rightarrow> pyfloat \<Rightarrow> pyfloat" where
  "dot4 a b c d = f_add (f_add (f_add a b) c) d"

definition quat_or :: "pyval \<Rightarrow> quat \<Rightarrow> quat result" where
  "quat_or v def = (case v of
       PList xs \<Rightarrow>
         if length xs = 4 \<and> list_all number_like xs then
           bindR (mapR to_float xs) (\<lambda>fs. case fs of
               [x, y, z, w] \<Rightarrow>
                 bindR (f_sqrt (dot4 (f_mul x x) (f_mul y y) (f_mul z z) (f_mul w w))) (\<lambda>len.
                   Return (if f_less (lit (1 / 10 ^ 9)) len
                     then (f_quot x len, f_quot y len, f_quot z len, f_quot w len) else def))
             | _ \<Rightarrow> Return def)
         else Return def
     | _ \<Rightarrow> Return def)"

definition half :: pyfloat where
  "half = Fin (1 / 2)"

definition cube :: "pyfloat \<Rightarrow> vec3" where
  "cube x = (x, x, x)"

definition aabb :: "pyval \<Rightarrow> (vec3 \<times> vec3) result" where
  "aabb v = (case v of
       PDict d \<Rightarrow>
         bindR (vec3_or (dget_or d ''min'' PNone) (cube (f_neg half))) (\<lambda>lo.
         bindR (vec3_or (dget_or d ''max'' PNone) (cube half)) (\<lambda>hi. Return (lo, hi)))
     | _ \<Rightarrow> Return (cube (f_neg half), cube half))"

definition identity4 :: matrix4 where
  "identity4 = map Fin [1, 0, 0, 0, 0, 1, 0, 0, 0, 0, 1, 0, 0, 0, 0, 1]"

definition mul4 :: "matrix4 \<Rightarrow> matrix4 \<Rightarrow> matrix4" where
  "mul4 a b = concat (map (\<lambda>r. map (\<lambda>c.
       dot4 (f_mul (a ! (4 * r)) (b ! c)) (f_mul (a ! (4 * r + 1)) (b ! (c + 4)))
         (f_mul (a ! (4 * r + 2)) (b ! (c + 8))) (f_mul (a ! (4 * r + 3)) (b ! (c + 12)))) [0..<4]) [0..<4])"

definition transform_point :: "matrix4 \<Rightarrow> vec3 \<Rightarrow> vec3" where
  "transform_point m p = (case p of (x, y, z) \<Rightarrow>
     (dot4 (f_mul (m ! 0) x) (f_mul (m ! 1) y) (f_mul (m ! 2) z) (m ! 3),
      dot4 (f_mul (m ! 4) x) (f_mul (m ! 5) y) (f_mul (m ! 6) z) (m ! 7),
      dot4 (f_mul (m ! 8) x) (f_mul (m ! 9) y) (f_mul (m ! 10) z) (m ! 11)))"

definition trs :: "vec3 \<Rightarrow> quat \<Rightarrow> vec3 \<Rightarrow> matrix4" where
  "trs pos rot scl = (case (pos, rot, scl) of ((px, py, pz), (x, y, z, w), (sx, sy, sz)) \<Rightarrow>
     let xx = f_mul x x; yy = f_mul y y; zz = f_mul z z; xy = f_mul x y; xz = f_mul x z; yz = f_mul y z;
         wx = f_mul w x; wy = f_mul w y; wz = f_mul w z;
         one_minus = (\<lambda>a b. f_sub (Fin 1) (f_mul (Fin 2) (f_add a b)));
         plus = (\<lambda>a b. f_mul (Fin 2) (f_add a b)); minus = (\<lambda>a b. f_mul (Fin 2) (f_sub a b))
     in [f_mul (one_minus yy zz) sx, f_mul (minus xy wz) sy, f_mul (plus xz wy) sz, px,
         f_mul (plus xy wz) sx, f_mul (one_minus xx zz) sy, f_mul (minus yz wx) sz, py,
         f_mul (minus xz wy) sx, f_mul (plus yz wx) sy, f_mul (one_minus xx yy) sz, pz,
         Fin 0, Fin 0, Fin 0, Fin 1])"

definition round_matrix :: "matrix4 \<Rightarrow> matrix4" where
  "round_matrix m = map (round_dec 6) m"

section \<open>Nodes\<close>

record render_node =
  rn_uri :: string
  rn_node_id :: string
  rn_parent :: "string option"
  rn_pos :: vec3
  rn_rot :: quat
  rn_scl :: vec3
  rn_bounds_min :: vec3
  rn_bounds_max :: vec3
  rn_layer_mask :: int
  rn_mesh_uri :: "string option"
  rn_material_uri :: "string option"

definition node_transform :: "pyval dict \<Rightarrow> (vec3 \<times> quat \<times> vec3) result" where
  "node_transform state = (case dget_or state ''transform'' PNone of
       PDict t \<Rightarrow>
         bindR (vec3_or (dget_or t ''pos'' (dget_or t ''position'' PNone)) (cube (Fin 0))) (\<lambda>pos.
         bindR (quat_or (dget_or t ''rot'' (dget_or t ''rotation'' PNone)) (Fin 0, Fin 0, Fin 0, Fin 1)) (\<lambda>rot.
         bindR (vec3_or (dget_or t ''scl'' (dget_or t ''scale'' PNone)) (cube (Fin 1))) (\<lambda>scl.
           Return (pos, rot, scl))))
     | _ \<Rightarrow> Return (cube (Fin 0), (Fin 0, Fin 0, Fin 0, Fin 1), cube (Fin 1)))"

definition node_parent :: "pyval dict \<Rightarrow> string option" where
  "node_parent state = (case dget_or state ''parent'' PNone of
       PStr p \<Rightarrow> if strip p \<noteq> [] then Some (strip p) else None | _ \<Rightarrow> None)"

text \<open>Whatever \<open>int\<close> raises, the mask is one.\<close>

definition node_layer_mask :: "pyval dict \<Rightarrow> int" where
  "node_layer_mask state =
     (let mask = (case to_int (dget_or state ''layer_mask'' (PInt 1)) of Inr n \<Rightarrow> n | Inl _ \<Rightarrow> 1)
      in if mask < 0 then 0 else mask)"

definition component_uri :: "pyval dict \<Rightarrow> string \<Rightarrow> string option" where
  "component_uri state part = (case dget_or state ''components'' PNone of
       PDict components \<Rightarrow> (case dget_or components part PNone of
           PDict c \<Rightarrow> (case dget_or c ''uri'' PNone of PStr u \<Rightarrow> Some u | _ \<Rightarrow> None)
         | _ \<Rightarrow> None)
     | _ \<Rightarrow> None)"

definition parse_node :: "string \<Rightarrow> pyval dict \<Rightarrow> render_node result" where
  "parse_node uri state =
     bindR (node_transform state) (\<lambda>(pos, rot, scl).
     bindR (aabb (dget_or state ''bounds'' PNone)) (\<lambda>(lo, hi).
       Return \<lparr>rn_uri = uri, rn_node_id = to_str (dget_or state ''id'' (PStr (last_segment (CHR ''/'') uri))),
         rn_parent = node_parent state, rn_pos = pos, rn_rot = rot, rn_scl = scl, rn_bounds_min = lo, rn_bounds_max = hi,
         rn_layer_mask = node_layer_mask state, rn_mesh_uri = component_uri state ''mesh'',
         rn_material_uri = component_uri state ''material''\<rparr>))"

type_synonym node_world = "render_node dict"

definition nodes_for_world :: "string \<Rightarrow> scene \<Rightarrow> node_world result" where
  "nodes_for_world world_uri nodes_by_uri =
     mapR (\<lambda>uri. bindR (parse_node uri (val_row (dget_or nodes_by_uri uri []))) (\<lambda>n. Return (uri, n)))
       (filter (\<lambda>uri. startswith uri (scene_node_prefix world_uri)) (sort (dkeys nodes_by_uri)))"

definition parent_in :: "node_world \<Rightarrow> string \<Rightarrow> string option" where
  "parent_in w uri = (case dget w uri of Some n \<Rightarrow>
       (case rn_parent n of Some p \<Rightarrow> if has_key w p then Some p else None | None \<Rightarrow> None) | None \<Rightarrow> None)"

section \<open>Integrity\<close>

definition parent_issues :: "node_world \<Rightarrow> pyval list" where
  "parent_issues w = concat (map (\<lambda>(uri, n).
     case rn_parent n of None \<Rightarrow> []
     | Some p \<Rightarrow>
         if p = uri then [PDict [(''type'', PStr ''self_parent''), (''uri'', PStr uri)]]
         else if \<not> has_key w p then [PDict [(''type'', PStr ''missing_parent''), (''uri'', PStr uri), (''parent'', PStr p)]]
         else []) (sort_key fst w))"

definition id_issues :: "node_world \<Rightarrow> pyval list" where
  "id_issues w =
     (let by_id = group_by snd (map (\<lambda>(uri, n). (uri, rn_node_id n)) (sort_key fst w)) in
      concat (map (\<lambda>node_id. let uris = map fst (dget_or by_id node_id []) in
          if length uris > 1
          then [PDict [(''type'', PStr ''duplicate_node_id''), (''node_id'', PStr node_id), (''uris'', PStrs uris)]] else [])
        (sort (dkeys by_id))))"

datatype colour = Grey | Black

record cycle_search =
  cy_colour :: "colour dict"
  cy_keys :: "string list list"
  cy_issues :: "pyval list"

text \<open>\<open>path[start:] + [p]\<close> for the first place of \<open>p\<close> in the path.\<close>

definition found_cycle :: "string list \<Rightarrow> string \<Rightarrow> cycle_search \<Rightarrow> cycle_search" where
  "found_cycle path p s =
     (let cycle = (if p \<in> set path then dropWhile (\<lambda>x. x \<noteq> p) path else path) @ [p];
          key = sorted_set cycle
      in if key \<in> set (cy_keys s) then s
         else s\<lparr>cy_keys := cy_keys s @ [key],
           cy_issues := cy_issues s @ [PDict [(''type'', PStr ''parent_cycle''), (''cycle_uris'', PStrs cycle)]]\<rparr>)"

text \<open>
  The search follows the parents from a node: grey while it is on the path, black when it is done.
  Every call colours a node that had no colour.
\<close>

function visit_node :: "node_world \<Rightarrow> string list \<Rightarrow> string \<Rightarrow> cycle_search \<Rightarrow> cycle_search" where
  "visit_node w path uri s =
     (if \<not> has_key w uri \<or> has_key (cy_colour s) uri then s
      else
        (let s1 = s\<lparr>cy_colour := dset uri Grey (cy_colour s)\<rparr>; path1 = path @ [uri];
             s2 = (case parent_in w uri of
                 None \<Rightarrow> s1
               | Some p \<Rightarrow> (case dget (cy_colour s1) p of
                     None \<Rightarrow> visit_node w path1 p s1
                   | Some Grey \<Rightarrow> found_cycle path1 p s1
                   | Some Black \<Rightarrow> s1))
         in s2\<lparr>cy_colour := dset uri Black (cy_colour s2)\<rparr>))"
  by pat_completeness auto
termination
proof (relation "measure (\<lambda>(w, _, _, s). card (set (dkeys w) - set (dkeys (cy_colour s))))")
  fix w :: node_world and path uri s x xa x2
  assume a: "\<not> (\<not> has_key w uri \<or> has_key (cy_colour s) uri)" "x = s\<lparr>cy_colour := dset uri Grey (cy_colour s)\<rparr>"
  then have "uri \<in> set (dkeys w) - set (dkeys (cy_colour s))" by (simp add: has_key_iff)
  moreover have "set (dkeys (cy_colour x)) = insert uri (set (dkeys (cy_colour s)))" using a(2) by (auto simp: dkeys_dset)
  ultimately have "set (dkeys w) - set (dkeys (cy_colour x)) \<subset> set (dkeys w) - set (dkeys (cy_colour s))" by blast
  then show "((w, xa, x2, x), w, path, uri, s) \<in> measure (\<lambda>(w, _, _, s). card (set (dkeys w) - set (dkeys (cy_colour s))))"
    by (simp add: psubset_card_mono)
qed auto

declare visit_node.simps [simp del]

definition cycle_search_of :: "node_world \<Rightarrow> cycle_search" where
  "cycle_search_of w =
     foldl (\<lambda>s uri. if has_key (cy_colour s) uri then s else visit_node w [] uri s)
       \<lparr>cy_colour = [], cy_keys = [], cy_issues = []\<rparr> (sort (dkeys w))"

definition integrity_issues :: "node_world \<Rightarrow> pyval list" where
  "integrity_issues w = parent_issues w @ id_issues w @ cy_issues (cycle_search_of w)"

definition scene_validate :: "string \<Rightarrow> scene \<Rightarrow> pyval dict result" where
  "scene_validate world_uri nodes_by_uri =
     bindR (nodes_for_world world_uri nodes_by_uri) (\<lambda>w. let issues = integrity_issues w in
       Return [(''world_uri'', PStr world_uri), (''node_count'', PInt (int (length w))), (''ok'', PBool (issues = [])),
         (''issues'', PList issues)])"

section \<open>World matrices\<close>

definition scene_children :: "node_world \<Rightarrow> string \<Rightarrow> string list" where
  "scene_children w uri = sort (map fst (filter (\<lambda>(_, n). rn_parent n = Some uri) w))"

definition scene_roots :: "node_world \<Rightarrow> string list" where
  "scene_roots w = sort (map fst (filter (\<lambda>(uri, n). case rn_parent n of None \<Rightarrow> True | Some p \<Rightarrow> \<not> has_key w p) w))"

definition local_matrix :: "node_world \<Rightarrow> string \<Rightarrow> matrix4" where
  "local_matrix w uri = (case dget w uri of Some n \<Rightarrow> trs (rn_pos n) (rn_rot n) (rn_scl n) | None \<Rightarrow> [])"

text \<open>
  The walk down from a node; the lineage stops it on a cycle.  It is only called with nodes of the
  world, so the test that the node is one never fails.
\<close>

function walk_scene :: "node_world \<Rightarrow> string set \<Rightarrow> matrix4 \<Rightarrow> string \<Rightarrow> matrix4 dict \<Rightarrow> matrix4 dict"
  and walk_children :: "node_world \<Rightarrow> string set \<Rightarrow> matrix4 \<Rightarrow> string list \<Rightarrow> matrix4 dict \<Rightarrow> matrix4 dict" where
  "walk_scene w lineage parent_world uri mats =
     (if uri \<in> lineage \<or> \<not> has_key w uri then mats
      else
        (let current_world = mul4 parent_world (local_matrix w uri)
         in walk_children w (insert uri lineage) current_world (scene_children w uri) (dset uri current_world mats)))"
| "walk_children w lineage parent_world [] mats = mats"
| "walk_children w lineage parent_world (u # us) mats =
     walk_children w lineage parent_world us (walk_scene w lineage parent_world u mats)"
  by pat_completeness auto
termination
proof (relation "inv_image (less_than <*lex*> less_than)
    (\<lambda>x. case x of Inl (w, lineage, _, _, _) \<Rightarrow> (card (set (dkeys w) - lineage), 0)
       | Inr (w, lineage, _, us, _) \<Rightarrow> (card (set (dkeys w) - lineage), Suc (length us)))")
  fix w :: node_world and lineage parent_world uri mats x
  assume "\<not> (uri \<in> lineage \<or> \<not> has_key w uri)"
  then have "set (dkeys w) - insert uri lineage \<subset> set (dkeys w) - lineage" by (auto simp: has_key_iff)
  then have "card (set (dkeys w) - insert uri lineage) < card (set (dkeys w) - lineage)" by (simp add: psubset_card_mono)
  then show "(Inr (w, insert uri lineage, x, scene_children w uri, dset uri x mats), Inl (w, lineage, parent_world, uri, mats))
      \<in> inv_image (less_than <*lex*> less_than)
        (\<lambda>x. case x of Inl (w, lineage, _, _, _) \<Rightarrow> (card (set (dkeys w) - lineage), 0)
          | Inr (w, lineage, _, us, _) \<Rightarrow> (card (set (dkeys w) - lineage), Suc (length us)))"
    by simp
qed auto

declare walk_scene.simps [simp del]

definition world_matrices :: "node_world \<Rightarrow> matrix4 dict" where
  "world_matrices w =
     foldl (\<lambda>mats uri. if has_key mats uri then mats else walk_scene w {} identity4 uri mats)
       (foldl (\<lambda>mats uri. walk_scene w {} identity4 uri mats) [] (scene_roots w)) (sort (dkeys w))"

section \<open>What a viewpoint sees\<close>

record view_filter =
  vf_center :: vec3
  vf_radius :: pyfloat
  vf_max_distance :: pyfloat
  vf_layer_mask :: "int option"
  vf_focus_uris :: "string list"
  vf_allow_prefixes :: "string list"
  vf_deny_prefixes :: "string list"

text \<open>A distance that does not read as a number, or is not positive, is no limit.\<close>

definition limit_of :: "pyval \<Rightarrow> pyfloat" where
  "limit_of v = (case to_float v of Inl _ \<Rightarrow> PInf | Inr x \<Rightarrow> if f_le x (Fin 0) then PInf else x)"

definition strings_in :: "pyval \<Rightarrow> string list" where
  "strings_in v = concat (map (\<lambda>x. case x of PStr s \<Rightarrow> [s] | _ \<Rightarrow> []) (list_of_val v))"

definition viewpoint_filters :: "pyval \<Rightarrow> view_filter option result" where
  "viewpoint_filters viewpoint = (case viewpoint of
       PDict d \<Rightarrow>
         bindR (vec3_or (dget_or d ''center'' PNone) (cube (Fin 0))) (\<lambda>center.
           Return (Some \<lparr>vf_center = center, vf_radius = limit_of (dget_or d ''radius'' (PFloat PInf)),
             vf_max_distance = limit_of (dget_or d ''max_distance'' (PFloat PInf)),
             vf_layer_mask = (case dget_or d ''layer_mask'' PNone of PNone \<Rightarrow> None
               | v \<Rightarrow> (case to_int v of Inr n \<Rightarrow> Some n | Inl _ \<Rightarrow> None)),
             vf_focus_uris = strings_in (dget_or d ''focus_uris'' PNone),
             vf_allow_prefixes = strings_in (dget_or d ''allow_prefixes'' PNone),
             vf_deny_prefixes = strings_in (dget_or d ''deny_prefixes'' PNone)\<rparr>))
     | _ \<Rightarrow> Return None)"

definition scale_abs :: "pyfloat \<Rightarrow> pyfloat" where
  "scale_abs x = (if f_less x (Fin 0) then f_neg x else x)"

definition distance3 :: "vec3 \<Rightarrow> vec3 \<Rightarrow> pyfloat result" where
  "distance3 a b = (case (a, b) of ((ax, ay, az), (bx, by', bz)) \<Rightarrow>
     (let dx = f_sub ax bx; dy = f_sub ay by'; dz = f_sub az bz
      in f_sqrt (f_add (f_add (f_mul dx dx) (f_mul dy dy)) (f_mul dz dz))))"

definition world_bounds :: "render_node \<Rightarrow> matrix4 \<Rightarrow> (vec3 \<times> pyfloat) result" where
  "world_bounds n w = (case (rn_bounds_min n, rn_bounds_max n, rn_scl n) of ((lx, ly, lz), (hx, hy, hz), (sx, sy, sz)) \<Rightarrow>
     (let mid = (\<lambda>l h. f_mul (f_add l h) half); ext = (\<lambda>l h. f_mul (f_sub h l) half)
      in bindR (f_sqrt (f_add (f_add (f_mul (ext lx hx) (ext lx hx)) (f_mul (ext ly hy) (ext ly hy)))
           (f_mul (ext lz hz) (ext lz hz)))) (\<lambda>local_radius.
         Return (transform_point w (mid lx hx, mid ly hy, mid lz hz),
           f_mul local_radius (f_max (f_max (f_max (scale_abs sx) (scale_abs sy)) (scale_abs sz)) (lit (1 / 10 ^ 6)))))))"

definition finite_limit :: "pyfloat \<Rightarrow> bool" where
  "finite_limit x = (case x of Fin _ \<Rightarrow> True | _ \<Rightarrow> False)"

definition beyond :: "pyfloat \<Rightarrow> pyfloat \<Rightarrow> pyfloat \<Rightarrow> bool" where
  "beyond limit away radius \<longleftrightarrow> finite_limit limit \<and> f_less (f_add limit radius) away"

definition node_relevant :: "string \<Rightarrow> render_node \<Rightarrow> vec3 \<Rightarrow> pyfloat \<Rightarrow> view_filter option \<Rightarrow> bool result" where
  "node_relevant uri n center radius vf = (case vf of
       None \<Rightarrow> Return True
     | Some f \<Rightarrow>
         if (case vf_layer_mask f of Some m \<Rightarrow> (rn_layer_mask n AND m) = 0 | None \<Rightarrow> False) then Return False
         else if vf_focus_uris f \<noteq> [] \<and> uri \<notin> set (vf_focus_uris f) then Return False
         else if vf_allow_prefixes f \<noteq> [] \<and> \<not> list_ex (startswith uri) (vf_allow_prefixes f) then Return False
         else if list_ex (startswith uri) (vf_deny_prefixes f) then Return False
         else bindR (distance3 center (vf_center f)) (\<lambda>away.
           Return (\<not> beyond (vf_radius f) away radius \<and> \<not> beyond (vf_max_distance f) away radius)))"

definition vec_json :: "vec3 \<Rightarrow> pyval" where
  "vec_json v = (case v of (x, y, z) \<Rightarrow> PList (map (\<lambda>c. PFloat (round_dec 6 c)) [x, y, z]))"

definition visible_json :: "string \<Rightarrow> render_node \<Rightarrow> matrix4 \<Rightarrow> vec3 \<Rightarrow> pyfloat \<Rightarrow> pyval dict" where
  "visible_json uri n m center radius =
     [(''uri'', PStr uri), (''node_id'', PStr (rn_node_id n)), (''world_matrix'', PList (map PFloat (round_matrix m))),
      (''mesh'', POpt (rn_mesh_uri n)), (''material'', POpt (rn_material_uri n)), (''layer_mask'', PInt (rn_layer_mask n)),
      (''world_bounds'', PDict [(''center'', vec_json center), (''radius'', PFloat (round_dec 6 radius))])]"

definition visible_row :: "node_world \<Rightarrow> matrix4 dict \<Rightarrow> view_filter option \<Rightarrow> string \<Rightarrow> pyval dict list result" where
  "visible_row w mats vf uri = (case (dget w uri, dget mats uri) of
       (Some n, Some m) \<Rightarrow>
         bindR (world_bounds n m) (\<lambda>(center, radius).
         bindR (node_relevant uri n center radius vf) (\<lambda>relevant.
           Return (if relevant then [visible_json uri n m center radius] else [])))
     | _ \<Rightarrow> Raise (KeyError uri))"

definition scene_project :: "string \<Rightarrow> scene \<Rightarrow> pyval \<Rightarrow> int \<Rightarrow> pyval dict result" where
  "scene_project world_uri nodes_by_uri viewpoint frame =
     bindR (nodes_for_world world_uri nodes_by_uri) (\<lambda>w.
     bindR (viewpoint_filters viewpoint) (\<lambda>vf.
     bindR (mapR (visible_row w (world_matrices w) vf) (sort (dkeys w))) (\<lambda>rows.
       let visible = concat rows; issues = integrity_issues w in
       Return [(''projection'', PStr ''scene.render_v1''), (''world_uri'', PStr world_uri), (''frame'', PInt frame),
         (''matrix_order'', PStr ''row_major''), (''visible'', PList (map PDict visible)),
         (''stats'', PDict [(''total_nodes'', PInt (int (length w))), (''visible'', PInt (int (length visible))),
            (''culled'', PInt (int (length (filter (\<lambda>r. r = []) rows))))]),
         (''integrity'', PDict [(''ok'', PBool (issues = [])), (''issues'', PList issues)])])))"

section \<open>Render deltas\<close>

definition read_floats :: "pyval \<Rightarrow> pyval result" where
  "read_floats v = bindR (mapR to_float (list_of_val v)) (\<lambda>xs. Return (PList (map PFloat xs)))"

text \<open>The first of the objects, by id, that has a position.\<close>

fun object_position :: "pyval dict \<Rightarrow> string list \<Rightarrow> pyval option result" where
  "object_position objects [] = Return None"
| "object_position objects (k # ks) = (case dget objects k of
       Some (PDict object) \<Rightarrow>
         (let p = dget_or object ''position'' PNone in
          if is_vec3 p then bindR (read_floats p) (\<lambda>v. Return (Some v)) else object_position objects ks)
     | _ \<Rightarrow> object_position objects ks)"

definition extract_position :: "pyval dict \<Rightarrow> pyval option result" where
  "extract_position delta =
     (let direct = dget_or delta ''position'' PNone;
          nested = (case dget_or delta ''transform'' PNone of PDict t \<Rightarrow> dget_or t ''position'' PNone | _ \<Rightarrow> PNone) in
      if is_vec3 direct then bindR (read_floats direct) (\<lambda>v. Return (Some v))
      else if is_vec3 nested then bindR (read_floats nested) (\<lambda>v. Return (Some v))
      else (case dget_or delta ''objects'' PNone of
          PDict objects \<Rightarrow> object_position objects (sort (dkeys objects)) | _ \<Rightarrow> Return None))"

definition build_render_delta :: "pyval dict \<Rightarrow> pyval dict result" where
  "build_render_delta delta =
     (let object_ops = (case dget delta ''objects'' of
            Some (PDict objects) \<Rightarrow>
              map (\<lambda>k. PDict [(''id'', PStr k), (''patch'', dget_or objects k PNone)]) (sort (dkeys objects))
          | _ \<Rightarrow> []);
          global_patch = filter (\<lambda>kv. fst kv \<noteq> ''objects'') delta
      in bindR (extract_position delta) (\<lambda>position.
        Return ([(''objects'', PList object_ops), (''global'', PDict global_patch)] @
          (case position of Some p \<Rightarrow> [(''spatial'', PDict [(''position'', p)])] | None \<Rightarrow> []))))"

definition copied_keys :: "pyval dict \<Rightarrow> string list \<Rightarrow> pyval dict" where
  "copied_keys d ks = concat (map (\<lambda>k. case dget d k of Some v \<Rightarrow> [(k, v)] | None \<Rightarrow> []) ks)"

definition payload_meta :: "pyval dict \<Rightarrow> pyval dict" where
  "payload_meta payload =
     (case dget_or payload ''event'' PNone of
        PDict ev \<Rightarrow> map (\<lambda>k. (k, dget_or ev k PNone)) [''timestamp'', ''actor'', ''policy_version'']
      | _ \<Rightarrow> []) @
     copied_keys payload [''entangled_from'', ''relationship'', ''strength'', ''sync_mode'', ''latency_target_ms'']"

text \<open>\<open>str(payload.get("uri") or fallback_uri or "")\<close>.\<close>

definition payload_uri :: "pyval dict \<Rightarrow> string \<Rightarrow> string" where
  "payload_uri payload fallback_uri =
     (let v = dget_or payload ''uri'' PNone in if to_bool v then to_str v else fallback_uri)"

definition compile_projection :: "pyval dict \<Rightarrow> string \<Rightarrow> pyval dict option result" where
  "compile_projection payload fallback_uri =
     (let uri = payload_uri payload fallback_uri in
      if uri = [] then Return None
      else case dget_or payload ''delta'' (PDict []) of
        PDict delta \<Rightarrow> bindR (build_render_delta delta) (\<lambda>render_delta.
          Return (Some ([(''uri'', PStr uri), (''event_index'', dget_or payload ''event_index'' PNone),
            (''source'', dget_or payload ''source'' (PStr ''live'')), (''render_delta'', PDict render_delta),
            (''meta'', PDict (payload_meta payload))] @ copied_keys payload [''cursor_token'', ''uri_cursor_token''])))
      | _ \<Rightarrow> Return None)"

section \<open>Interest\<close>

definition projection_position :: "pyval dict \<Rightarrow> vec3 option result" where
  "projection_position projection = (case dget_or projection ''render_delta'' PNone of
       PDict rd \<Rightarrow> (case dget_or rd ''spatial'' PNone of
           PDict sp \<Rightarrow> (let p = dget_or sp ''position'' PNone in
             if is_vec3 p then bindR (read_vec3 p) (\<lambda>v. Return (Some v)) else Return None)
         | _ \<Rightarrow> Return None)
     | _ \<Rightarrow> Return None)"

text \<open>A radius that is no number, or not positive, is the default.\<close>

definition interest_radius :: "pyfloat \<Rightarrow> pyval \<Rightarrow> pyfloat result" where
  "interest_radius default_radius v =
     (if number_like v \<and> \<not> f_le (case v of PInt n \<Rightarrow> Fin (of_int n) | PBool b \<Rightarrow> Fin (of_bool b) | PFloat x \<Rightarrow> x | _ \<Rightarrow> NaN) (Fin 0)
      then to_float v else Return default_radius)"

definition within_radius :: "pyfloat \<Rightarrow> vec3 \<Rightarrow> vec3 \<Rightarrow> bool" where
  "within_radius radius a b = (case (a, b) of ((ax, ay, az), (bx, by', bz)) \<Rightarrow>
     (let dx = f_sub ax bx; dy = f_sub ay by'; dz = f_sub az bz
      in f_le (f_add (f_add (f_mul dx dx) (f_mul dy dy)) (f_mul dz dz)) (f_mul radius radius)))"

definition prefix_hits :: "string \<Rightarrow> pyval \<Rightarrow> bool" where
  "prefix_hits uri v \<longleftrightarrow> list_ex (\<lambda>p. startswith uri (to_str p)) (list_of_val v)"

definition interest_relevant :: "pyfloat \<Rightarrow> string \<Rightarrow> pyval dict \<Rightarrow> pyval dict option \<Rightarrow> bool result" where
  "interest_relevant default_radius uri projection viewpoint = (case viewpoint of
       None \<Rightarrow> Return True
     | Some d \<Rightarrow>
         (let focus = list_of_val (dget_or d ''focus_uris'' PNone); allow = dget_or d ''allow_prefixes'' PNone;
              deny = dget_or d ''deny_prefixes'' PNone; center = dget_or d ''center'' PNone in
          if focus \<noteq> [] \<and> PStr uri \<notin> set focus then Return False
          else if list_of_val allow \<noteq> [] \<and> \<not> prefix_hits uri allow then Return False
          else if prefix_hits uri deny then Return False
          else if \<not> is_vec3 center then Return True
          else bindR (read_vec3 center) (\<lambda>c.
            bindR (projection_position projection) (\<lambda>position.
            case position of
              None \<Rightarrow> Return True
            | Some p \<Rightarrow> bindR (interest_radius default_radius (dget_or d ''radius'' (PFloat default_radius))) (\<lambda>radius.
                Return (within_radius radius p c))))))"

section \<open>The tools\<close>

record scene_tools =
  sx_fabric :: Qso_Tools.fabric
  sx_frames :: "int dict"

definition on_scene_fabric :: "(Qso_Tools.fabric, 'a) op \<Rightarrow> (scene_tools, 'a) op" where
  "on_scene_fabric m = (\<lambda>s. case m (sx_fabric s) of (r, f) \<Rightarrow> (r, s\<lparr>sx_fabric := f\<rparr>))"

definition next_scene_frame :: "string \<Rightarrow> (scene_tools, int) op" where
  "next_scene_frame world_uri =
     (\<lambda>s. let w = rstrip_char (CHR ''/'') world_uri; nxt = dget_or (sx_frames s) w 0 + 1
          in (Return nxt, s\<lparr>sx_frames := dset w nxt (sx_frames s)\<rparr>))"

definition qso_scene_render_v1 :: "string \<Rightarrow> pyval \<Rightarrow> (scene_tools, pyval dict) op" where
  "qso_scene_render_v1 world_uri viewpoint =
     bindS (readS (\<lambda>s. Return (scene_nodes world_uri (fr_engine (sx_fabric s))))) (\<lambda>nodes.
     bindS (next_scene_frame world_uri) (\<lambda>frame.
       liftS (scene_project world_uri nodes viewpoint frame)))"

definition qso_scene_validate :: "string \<Rightarrow> (scene_tools, pyval dict) op" where
  "qso_scene_validate world_uri =
     (let world = rstrip_char (CHR ''/'') world_uri in
      readS (\<lambda>s. scene_validate world (scene_nodes world (fr_engine (sx_fabric s)))))"

text \<open>What a scene subscription yields: a snapshot, then a projection for every patch of a node.\<close>

definition scene_subscription :: "string \<Rightarrow> pyval" where
  "scene_subscription world = PDict [(''kind'', PStr ''scene_render_v1''), (''world_uri'', PStr world)]"

definition scene_snapshot :: "string \<Rightarrow> pyval \<Rightarrow> (scene_tools, pyval dict) op" where
  "scene_snapshot world_uri viewpoint =
     (let world = rstrip_char (CHR ''/'') world_uri in
      bindS (qso_scene_render_v1 world viewpoint) (\<lambda>snapshot.
        returnS (dset ''subscription'' (scene_subscription world) (dset ''source'' (PStr ''snapshot'') snapshot))))"

definition scene_update :: "string \<Rightarrow> pyval \<Rightarrow> pyval dict \<Rightarrow> (scene_tools, pyval dict) op" where
  "scene_update world_uri viewpoint event =
     (let world = rstrip_char (CHR ''/'') world_uri in
      bindS (qso_scene_render_v1 world viewpoint) (\<lambda>proj.
        let p = dset ''cursor_token'' (dget_or event ''cursor_token'' PNone)
              (dset ''changed_uri'' (PStr (to_str (dget_or event ''uri'' (PStr []))))
              (dset ''source'' (PStr (to_str (dget_or event ''source'' (PStr ''live'')))) proj));
            q = (case dget event ''uri_cursor_token'' of Some t \<Rightarrow> dset ''uri_cursor_token'' t p | None \<Rightarrow> p)
        in returnS (dset ''subscription'' (scene_subscription world) q)))"

text \<open>The payloads of a projection subscription that reach its consumer.\<close>

definition project_payload ::
    "pyfloat \<Rightarrow> string \<Rightarrow> pyval dict option \<Rightarrow> pyval dict \<Rightarrow> pyval dict list result" where
  "project_payload radius uri viewpoint payload =
     bindR (compile_projection payload uri) (\<lambda>proj. case proj of
         None \<Rightarrow> Return []
       | Some p \<Rightarrow> bindR (interest_relevant radius (to_str (dget_or p ''uri'' (PStr uri))) p viewpoint) (\<lambda>relevant.
           Return (if relevant then [p] else [])))"

definition projection_replay ::
    "fabric_env \<Rightarrow> pyfloat \<Rightarrow> string \<Rightarrow> pyval dict option \<Rightarrow> cursor_arg option \<Rightarrow> qso_event list \<Rightarrow> pyval dict list result" where
  "projection_replay env radius uri viewpoint cursor replayed =
     bindR (replay_payloads env uri cursor replayed) (\<lambda>payloads.
     bindR (mapR (\<lambda>p. project_payload radius uri viewpoint (val_row p)) payloads) (\<lambda>rows. Return (concat rows)))"

definition projection_live ::
    "pyfloat \<Rightarrow> string \<Rightarrow> pyval dict option \<Rightarrow> nat \<Rightarrow> json dict list \<Rightarrow> pyval dict list result" where
  "projection_live radius uri viewpoint replay_cutoff queued =
     bindR (mapR (\<lambda>p. project_payload radius uri viewpoint (val_row p)) (filter (fresh_payload replay_cutoff) queued))
       (\<lambda>rows. Return (concat rows))"

section \<open>The integrity check finds the cycles\<close>

definition scene_edges :: "node_world \<Rightarrow> (string \<times> string) set" where
  "scene_edges w = {(u, p). parent_in w u = Some p}"

lemma scene_edges_iff [simp]: "(u, p) \<in> scene_edges w \<longleftrightarrow> parent_in w u = Some p"
  by (simp add: scene_edges_def)

lemma parent_in_known: "parent_in w u = Some p \<Longrightarrow> has_key w u \<and> has_key w p"
  by (auto simp: parent_in_def has_key_def split: option.splits if_splits)

definition coloured :: "colour \<Rightarrow> cycle_search \<Rightarrow> string set" where
  "coloured c s = {u. dget (cy_colour s) u = Some c}"

definition edges_from :: "node_world \<Rightarrow> string set \<Rightarrow> (string \<times> string) set" where
  "edges_from w B = {(u, p). parent_in w u = Some p \<and> u \<in> B}"

text \<open>The finished nodes lead to finished nodes only, and along no cycle, as long as none was found.\<close>

definition search_ok :: "node_world \<Rightarrow> string list \<Rightarrow> cycle_search \<Rightarrow> bool" where
  "search_ok w path s \<longleftrightarrow>
     coloured Grey s = set path \<and> (cy_keys s = [] \<longleftrightarrow> cy_issues s = []) \<and>
     (cy_issues s \<noteq> [] \<longrightarrow> \<not> acyclic (scene_edges w)) \<and>
     (cy_issues s = [] \<longrightarrow> (\<forall>u\<in>coloured Black s. \<forall>p. parent_in w u = Some p \<longrightarrow> p \<in> coloured Black s) \<and>
        acyclic (edges_from w (coloured Black s)))"

abbreviation parent_chain :: "node_world \<Rightarrow> string list \<Rightarrow> bool" where
  "parent_chain w \<equiv> successively (\<lambda>a b. parent_in w a = Some b)"

lemma chain_hd_reaches: "parent_chain w (path @ [u]) \<Longrightarrow> (hd (path @ [u]), u) \<in> (scene_edges w)\<^sup>*"
proof (induction path)
  case (Cons a path)
  have "parent_in w a = Some (hd (path @ [u]))" "parent_chain w (path @ [u])" using Cons.prems by (cases path; simp)+
  then show ?case using Cons.IH by (simp add: converse_rtrancl_into_rtrancl)
qed simp

lemma chain_reaches: "parent_chain w (path @ [u]) \<Longrightarrow> p \<in> set (path @ [u]) \<Longrightarrow> (p, u) \<in> (scene_edges w)\<^sup>*"
proof (induction path)
  case (Cons a path)
  have rest: "parent_chain w (path @ [u])" using Cons.prems(1) by (cases path) simp_all
  show ?case
  proof (cases "p = a")
    case True
    define b where "b = hd (path @ [u])"
    have b: "parent_in w a = Some b" using Cons.prems(1) by (cases path) (auto simp: b_def)
    have "(b, u) \<in> (scene_edges w)\<^sup>*" unfolding b_def by (rule chain_hd_reaches [OF rest])
    then show ?thesis using True b by (meson converse_rtrancl_into_rtrancl scene_edges_iff)
  next
    case False
    then show ?thesis using Cons.IH [OF rest] Cons.prems(2) by simp
  qed
qed simp

lemma acyclic_finish:
  assumes "acyclic (edges_from w B)" "\<forall>u\<in>B. \<forall>p. parent_in w u = Some p \<longrightarrow> p \<in> B" "u \<notin> B"
    and "\<forall>p. parent_in w u = Some p \<longrightarrow> p \<in> B"
  shows "acyclic (edges_from w (insert u B))"
proof (cases "parent_in w u")
  case None
  then have "edges_from w (insert u B) = edges_from w B" by (auto simp: edges_from_def)
  then show ?thesis using assms(1) by simp
next
  case (Some p)
  then have e: "edges_from w (insert u B) = insert (u, p) (edges_from w B)" by (auto simp: edges_from_def)
  have "x \<in> B" if "(p, x) \<in> (edges_from w B)\<^sup>*" for x
    using that by induction (use assms(2,4) Some in \<open>auto simp: edges_from_def\<close>)
  then have "(p, u) \<notin> (edges_from w B)\<^sup>*" using assms(3) by blast
  then show ?thesis unfolding e using assms(1) by (simp add: acyclic_insert)
qed

lemma coloured_dset:
  "coloured c (s\<lparr>cy_colour := dset u c' (cy_colour s)\<rparr>) = (if c = c' then insert u (coloured c s) else coloured c s - {u})"
  by (auto simp: coloured_def)

lemma found_cycle_facts:
  assumes "cy_keys s = [] \<longleftrightarrow> cy_issues s = []"
  shows "cy_issues (found_cycle path p s) \<noteq> []" "cy_keys (found_cycle path p s) \<noteq> []"
    "cy_colour (found_cycle path p s) = cy_colour s"
  using assms by (auto simp: found_cycle_def Let_def)

text \<open>A node whose parent, if it has one, is finished is finished itself.\<close>

lemma finish_ok:
  assumes "search_ok w (path @ [u]) s" "u \<notin> set path"
    and "cy_issues s = [] \<Longrightarrow> \<forall>p. parent_in w u = Some p \<longrightarrow> p \<in> coloured Black s"
  shows "search_ok w path (s\<lparr>cy_colour := dset u Black (cy_colour s)\<rparr>)"
proof -
  have grey: "coloured Grey s = insert u (set path)" using assms(1) by (simp add: search_ok_def)
  then have "u \<in> coloured Grey s" by simp
  then have "u \<notin> coloured Black s" by (simp add: coloured_def)
  have closed: "\<forall>v\<in>insert u (coloured Black s). \<forall>p. parent_in w v = Some p \<longrightarrow> p \<in> insert u (coloured Black s)"
    if "cy_issues s = []" using that assms(1,3) by (auto simp: search_ok_def)
  show ?thesis
  proof -
    let ?t = "s\<lparr>cy_colour := dset u Black (cy_colour s)\<rparr>"
    have "coloured Grey ?t = set path" using grey assms(2) by (auto simp: coloured_dset)
    moreover have black: "coloured Black ?t = insert u (coloured Black s)" by (simp add: coloured_dset)
    moreover have "acyclic (edges_from w (insert u (coloured Black s)))" if i: "cy_issues s = []"
      by (rule acyclic_finish) (use assms(1,3) i \<open>u \<notin> coloured Black s\<close> in \<open>auto simp: search_ok_def\<close>)
    moreover have "cy_issues ?t = cy_issues s" "cy_keys ?t = cy_keys s" by simp_all
    ultimately show ?thesis using assms(1) closed unfolding search_ok_def black by metis
  qed
qed

lemma visit_node_ok:
  assumes "search_ok w path s" "has_key w uri" "\<not> has_key (cy_colour s) uri" "parent_chain w (path @ [uri])"
  shows "search_ok w path (visit_node w path uri s) \<and> coloured Black s \<subseteq> coloured Black (visit_node w path uri s) \<and>
    uri \<in> coloured Black (visit_node w path uri s)"
  using assms
proof (induction w path uri s rule: visit_node.induct)
  case (1 w path uri s)
  define s1 where "s1 = s\<lparr>cy_colour := dset uri Grey (cy_colour s)\<rparr>"
  have uncoloured: "uri \<notin> coloured c s" for c using 1(4) by (auto simp: coloured_def has_key_def)
  have new: "uri \<notin> set path" using uncoloured [of Grey] 1(2) by (auto simp: search_ok_def)
  have blacks: "coloured Black s1 = coloured Black s" using uncoloured [of Black] by (simp add: s1_def coloured_dset)
  have ok1: "search_ok w (path @ [uri]) s1"
    using 1(2) blacks by (auto simp: search_ok_def s1_def coloured_dset)
  define s2 where "s2 = (case parent_in w uri of None \<Rightarrow> s1
      | Some p \<Rightarrow> (case dget (cy_colour s1) p of None \<Rightarrow> visit_node w (path @ [uri]) p s1
          | Some Grey \<Rightarrow> found_cycle (path @ [uri]) p s1 | Some Black \<Rightarrow> s1))"
  have visit: "visit_node w path uri s = s2\<lparr>cy_colour := dset uri Black (cy_colour s2)\<rparr>"
    unfolding visit_node.simps [of w path uri s] s2_def s1_def using 1(3,4) by (simp add: Let_def)
  have step: "search_ok w (path @ [uri]) s2 \<and> coloured Black s \<subseteq> coloured Black s2 \<and>
      (cy_issues s2 = [] \<longrightarrow> (\<forall>p. parent_in w uri = Some p \<longrightarrow> p \<in> coloured Black s2))"
  proof (cases "parent_in w uri")
    case None
    then show ?thesis using ok1 blacks by (simp add: s2_def)
  next
    case (Some p)
    show ?thesis
    proof (cases "dget (cy_colour s1) p")
      case None
      have chain: "parent_chain w ((path @ [uri]) @ [p])" using 1(5) Some by (simp add: successively_append_iff)
      have "search_ok w (path @ [uri]) (visit_node w (path @ [uri]) p s1) \<and>
          coloured Black s1 \<subseteq> coloured Black (visit_node w (path @ [uri]) p s1) \<and>
          p \<in> coloured Black (visit_node w (path @ [uri]) p s1)"
        by (rule 1(1) [OF _ s1_def refl Some None ok1 _ _ chain])
          (use 1(3,4) parent_in_known [OF Some] None in \<open>auto simp: has_key_def\<close>)
      then show ?thesis using Some None blacks by (simp add: s2_def)
    next
      case (Some c)
      show ?thesis
      proof (cases c)
        case Black
        then show ?thesis using \<open>parent_in w uri = Some p\<close> Some ok1 blacks by (simp add: s2_def coloured_def)
      next
        case Grey
        have "p \<in> set (path @ [uri])" using ok1 Some Grey by (auto simp: search_ok_def coloured_def)
        then have "(p, p) \<in> (scene_edges w)\<^sup>+"
          using chain_reaches [OF 1(5)] \<open>parent_in w uri = Some p\<close> by (metis rtrancl_into_trancl1 scene_edges_iff)
        then have "\<not> acyclic (scene_edges w)" by (auto simp: acyclic_def)
        then show ?thesis
          using found_cycle_facts [of s1 "path @ [uri]" p] ok1 \<open>parent_in w uri = Some p\<close> Some Grey blacks
          by (auto simp: s2_def search_ok_def coloured_def)
      qed
    qed
  qed
  show ?case unfolding visit using step finish_ok [of w path uri s2] new by (auto simp: coloured_dset)
qed

lemma search_loop:
  assumes "search_ok w [] s" "\<forall>u\<in>set us. has_key w u" "\<forall>u. has_key (cy_colour s) u \<longrightarrow> u \<in> coloured Black s"
  defines "step \<equiv> \<lambda>s uri. if has_key (cy_colour s) uri then s else visit_node w [] uri s"
  shows "search_ok w [] (foldl step s us) \<and> coloured Black s \<union> set us \<subseteq> coloured Black (foldl step s us)"
  using assms(1-3)
proof (induction us arbitrary: s)
  case (Cons u us)
  have next_ok: "search_ok w [] (step s u) \<and> coloured Black s \<subseteq> coloured Black (step s u) \<and> u \<in> coloured Black (step s u)"
  proof (cases "has_key (cy_colour s) u")
    case False
    then show ?thesis using visit_node_ok [OF Cons.prems(1), of u] Cons.prems(2) by (simp add: step_def)
  qed (use Cons.prems in \<open>simp add: step_def\<close>)
  have "\<forall>v. has_key (cy_colour (step s u)) v \<longrightarrow> v \<in> coloured Black (step s u)"
  proof (intro allI impI)
    fix v assume "has_key (cy_colour (step s u)) v"
    then obtain c where c: "dget (cy_colour (step s u)) v = Some c" by (auto simp: has_key_def)
    moreover have "v \<notin> coloured Grey (step s u)" using next_ok by (simp add: search_ok_def)
    ultimately show "v \<in> coloured Black (step s u)" by (cases c) (auto simp: coloured_def)
  qed
  then show ?case using Cons.IH [of "step s u"] Cons.prems(2) next_ok by auto
qed (auto simp: step_def)

lemma no_cycle_issue_iff: "cy_issues (cycle_search_of w) = [] \<longleftrightarrow> acyclic (scene_edges w)"
proof -
  let ?s = "cycle_search_of w"
  have "search_ok w [] \<lparr>cy_colour = [], cy_keys = [], cy_issues = []\<rparr>"
    by (simp add: search_ok_def coloured_def edges_from_def acyclic_def)
  then have ok: "search_ok w [] ?s" and all: "set (dkeys w) \<subseteq> coloured Black ?s"
    using search_loop [of w "\<lparr>cy_colour = [], cy_keys = [], cy_issues = []\<rparr>" "sort (dkeys w)"]
    by (auto simp: cycle_search_of_def has_key_iff has_key_def coloured_def)
  have "edges_from w (coloured Black ?s) = scene_edges w"
    using all parent_in_known by (fastforce simp: edges_from_def scene_edges_def has_key_iff)
  then show ?thesis using ok by (auto simp: search_ok_def)
qed

lemma parent_issues_iff:
  assumes "distinct (dkeys w)"
  shows "parent_issues w = [] \<longleftrightarrow>
    (\<forall>(uri, n)\<in>set w. \<forall>p. rn_parent n = Some p \<longrightarrow> p \<noteq> uri \<and> has_key w p)"
  by (auto simp: parent_issues_def split: option.splits if_splits)

lemma dkeys_group_by: "set (dkeys (group_by f xs)) = f ` set xs"
proof (induction xs rule: rev_induct)
  case (snoc x xs)
  then show ?case by (auto simp: group_by_def dkeys_dset)
qed (simp add: group_by_def)

lemma distinct_iff_filter:
  "distinct (map f xs) \<longleftrightarrow> (\<forall>k\<in>f ` set xs. length (filter (\<lambda>x. f x = k) xs) \<le> 1)"
proof (induction xs)
  case (Cons x xs)
  have "length (filter (\<lambda>y. f y = f x) xs) = 0 \<longleftrightarrow> f x \<notin> f ` set xs"
    by (simp add: filter_empty_conv image_iff) metis
  then show ?case using Cons by (auto simp: Suc_le_eq)
qed simp

lemma group_issues:
  "concat (map (\<lambda>k. if length (dget_or (group_by f xs) k []) > 1 then [g k] else []) (sort (dkeys (group_by f xs)))) = [] \<longleftrightarrow>
     distinct (map f xs)"
proof -
  have "(concat (map (\<lambda>k. if length (dget_or (group_by f xs) k []) > 1 then [g k] else []) ks) = []) =
      (\<forall>k\<in>set ks. length (filter (\<lambda>x. f x = k) xs) \<le> 1)" for ks
    by (induction ks) (auto simp: group_by_filter)
  then show ?thesis unfolding distinct_iff_filter set_sort dkeys_group_by [symmetric] by (simp only: set_sort)
qed

lemma id_issues_iff: "id_issues w = [] \<longleftrightarrow> distinct (map (rn_node_id \<circ> snd) w)"
proof -
  let ?ids = "map (\<lambda>(uri, n). (uri, rn_node_id n)) (sort_key fst w)"
  have "id_issues w = [] \<longleftrightarrow> distinct (map snd ?ids)"
    unfolding id_issues_def Let_def length_map by (rule group_issues)
  also have "map snd ?ids = map (rn_node_id \<circ> snd) (sort_key fst w)" by auto
  also have "distinct (map (rn_node_id \<circ> snd) (sort_key fst w)) \<longleftrightarrow> distinct (map (rn_node_id \<circ> snd) w)"
    by (rule mset_eq_imp_distinct_iff) simp
  finally show ?thesis .
qed

section \<open>World matrices multiply down the tree\<close>

text \<open>The matrix of a node in the world, read off its parents: what the walk is to compute.\<close>

inductive world_matrix :: "node_world \<Rightarrow> string \<Rightarrow> matrix4 \<Rightarrow> bool" for w where
  root: "has_key w u \<Longrightarrow> parent_in w u = None \<Longrightarrow> world_matrix w u (mul4 identity4 (local_matrix w u))"
| child: "parent_in w u = Some p \<Longrightarrow> world_matrix w p m \<Longrightarrow> world_matrix w u (mul4 m (local_matrix w u))"

definition above_matrix :: "node_world \<Rightarrow> matrix4 \<Rightarrow> string \<Rightarrow> bool" where
  "above_matrix w m u \<longleftrightarrow>
     (case parent_in w u of None \<Rightarrow> m = identity4 | Some p \<Rightarrow> world_matrix w p m)"

definition matrices_ok :: "node_world \<Rightarrow> matrix4 dict \<Rightarrow> bool" where
  "matrices_ok w mats \<longleftrightarrow> (\<forall>u m. dget mats u = Some m \<longrightarrow> world_matrix w u m)"

lemma above_world: "has_key w u \<Longrightarrow> above_matrix w m u \<Longrightarrow> world_matrix w u (mul4 m (local_matrix w u))"
  by (auto simp: above_matrix_def split: option.splits intro: world_matrix.intros)

lemma children_parent:
  assumes "distinct (dkeys w)" "has_key w u"
  shows "c \<in> set (scene_children w u) \<longleftrightarrow> parent_in w c = Some u"
proof -
  have "c \<in> set (scene_children w u) \<longleftrightarrow> (\<exists>n. (c, n) \<in> set w \<and> rn_parent n = Some u)"
    by (force simp: scene_children_def)
  also have "\<dots> \<longleftrightarrow> (\<exists>n. dget w c = Some n \<and> rn_parent n = Some u)" using assms(1) by (simp add: map_of_eq_Some_iff)
  also have "\<dots> \<longleftrightarrow> parent_in w c = Some u" using assms(2) by (auto simp: parent_in_def split: option.splits)
  finally show ?thesis .
qed

lemma walk_sound:
  shows "distinct (dkeys w) \<Longrightarrow> matrices_ok w mats \<Longrightarrow> above_matrix w pw u \<Longrightarrow> matrices_ok w (walk_scene w lineage pw u mats)"
    and "distinct (dkeys w) \<Longrightarrow> matrices_ok w mats \<Longrightarrow> \<forall>u\<in>set us. above_matrix w pw u \<Longrightarrow> matrices_ok w (walk_children w lineage pw us mats)"
proof (induction w lineage pw u mats and w lineage pw us mats rule: walk_scene_walk_children.induct)
  case (1 w lineage pw u mats)
  show ?case
  proof (cases "u \<in> lineage \<or> \<not> has_key w u")
    case False
    then have here: "world_matrix w u (mul4 pw (local_matrix w u))" using above_world 1(4) by blast
    have "\<forall>c\<in>set (scene_children w u). above_matrix w (mul4 pw (local_matrix w u)) c"
    proof
      fix c assume "c \<in> set (scene_children w u)"
      then have "parent_in w c = Some u" using children_parent [OF 1(2), of u c] False by simp
      then show "above_matrix w (mul4 pw (local_matrix w u)) c" using here by (simp add: above_matrix_def)
    qed
    moreover have "matrices_ok w (dset u (mul4 pw (local_matrix w u)) mats)"
      using 1(3) here by (auto simp: matrices_ok_def)
    ultimately show ?thesis
      unfolding walk_scene.simps [of w lineage pw u] Let_def using 1(1) [OF False refl 1(2)] False by simp
  qed (use 1 in \<open>subst walk_scene.simps, simp\<close>)
qed auto

lemma walk_keys:
  shows "set (dkeys mats) \<subseteq> set (dkeys (walk_scene w lineage pw u mats))"
    and "set (dkeys mats) \<subseteq> set (dkeys (walk_children w lineage pw us mats))"
proof (induction w lineage pw u mats and w lineage pw us mats rule: walk_scene_walk_children.induct)
  case (1 w lineage pw u mats)
  have "set (dkeys mats) \<subseteq> set (dkeys (dset u v mats))" for v by (auto simp: dkeys_dset)
  then show ?case using 1 by (subst walk_scene.simps) (simp add: Let_def, blast)
qed auto

text \<open>Without cycles the walk from a node reaches everything below it.\<close>

lemma walk_reaches:
  shows "distinct (dkeys w) \<Longrightarrow> acyclic (scene_edges w) \<Longrightarrow> has_key w u \<Longrightarrow>
      \<forall>v\<in>lineage. (v, u) \<notin> (scene_edges w)\<^sup>* \<Longrightarrow> (x, u) \<in> (scene_edges w)\<^sup>* \<Longrightarrow> has_key (walk_scene w lineage pw u mats) x"
    and "distinct (dkeys w) \<Longrightarrow> acyclic (scene_edges w) \<Longrightarrow>
      \<forall>u\<in>set us. has_key w u \<and> (\<forall>v\<in>lineage. (v, u) \<notin> (scene_edges w)\<^sup>*) \<Longrightarrow> u \<in> set us \<Longrightarrow>
      (x, u) \<in> (scene_edges w)\<^sup>* \<Longrightarrow> has_key (walk_children w lineage pw us mats) x"
proof (induction w lineage pw u mats and w lineage pw us mats arbitrary: x and x u rule: walk_scene_walk_children.induct)
  case (1 w lineage pw u mats)
  then have u: "\<not> (u \<in> lineage \<or> \<not> has_key w u)" by blast
  let ?m = "mul4 pw (local_matrix w u)"
  have walk: "walk_scene w lineage pw u mats = walk_children w (insert u lineage) ?m (scene_children w u) (dset u ?m mats)"
    using u by (subst walk_scene.simps) (simp add: Let_def)
  show ?case
  proof (cases "x = u")
    case True
    have "u \<in> set (dkeys (dset u ?m mats))" by (simp add: dkeys_dset)
    then show ?thesis using walk_keys(2) True unfolding walk has_key_iff by blast
  next
    case False
    then obtain c where c: "(x, c) \<in> (scene_edges w)\<^sup>*" "parent_in w c = Some u"
      using 1(6) by (metis rtranclE scene_edges_iff)
    have "has_key w c' \<and> (\<forall>v\<in>insert u lineage. (v, c') \<notin> (scene_edges w)\<^sup>*)" if "c' \<in> set (scene_children w u)" for c'
    proof -
      have p: "parent_in w c' = Some u" using that children_parent [OF 1(2), of u c'] u by simp
      then have e: "(c', u) \<in> scene_edges w" by simp
      have "(u, c') \<notin> (scene_edges w)\<^sup>*" using 1(3) e by (meson acyclic_def rtrancl_into_trancl1)
      moreover have "(v, c') \<notin> (scene_edges w)\<^sup>*" if "v \<in> lineage" for v
        using 1(5) that e by (meson rtrancl.rtrancl_into_rtrancl)
      ultimately show ?thesis using parent_in_known [OF p] by blast
    qed
    then have kids: "\<forall>c\<in>set (scene_children w u). has_key w c \<and> (\<forall>v\<in>insert u lineage. (v, c) \<notin> (scene_edges w)\<^sup>*)" by blast
    have "c \<in> set (scene_children w u)" using c(2) children_parent [OF 1(2), of u c] u by simp
    from 1(1) [OF u refl 1(2,3) kids this c(1)] show ?thesis unfolding walk .
  qed
next
  case (3 w lineage pw c us mats)
  show ?case
  proof (cases "u = c")
    case True
    then have "has_key (walk_scene w lineage pw c mats) x" using 3(1) [OF 3(3,4)] 3(5,7) by simp
    then have "x \<in> set (dkeys (walk_children w lineage pw us (walk_scene w lineage pw c mats)))"
      unfolding has_key_iff by (rule subsetD [OF walk_keys(2)])
    then show ?thesis by (simp add: has_key_iff)
  next
    case False
    then show ?thesis using 3(2) [OF 3(3,4)] 3(5-7) by simp
  qed
qed auto

text \<open>Every node of an acyclic world is below a root.\<close>

lemma below_root:
  assumes "distinct (dkeys w)" "acyclic (scene_edges w)" "has_key w u"
  shows "\<exists>r. r \<in> set (scene_roots w) \<and> (u, r) \<in> (scene_edges w)\<^sup>*"
proof -
  have "scene_edges w \<subseteq> set (dkeys w) \<times> set (dkeys w)"
    using parent_in_known by (auto simp: scene_edges_def has_key_iff)
  then have "finite (scene_edges w)" by (rule finite_subset) simp
  then have wf: "wf ((scene_edges w)\<inverse>)" using assms(2) by (rule finite_acyclic_wf_converse)
  show ?thesis using assms(3)
  proof (induction u rule: wf_induct_rule [OF wf])
    case (1 u)
    show ?case
    proof (cases "parent_in w u")
      case None
      then have "u \<in> set (scene_roots w)"
        using 1(2) by (force simp: scene_roots_def parent_in_def has_key_def dest: map_of_SomeD split: option.splits if_splits)
      then show ?thesis by blast
    next
      case (Some p)
      then obtain r where "r \<in> set (scene_roots w)" "(p, r) \<in> (scene_edges w)\<^sup>*"
        using 1(1) [of p] parent_in_known by force
      then show ?thesis using Some by (meson converse_rtrancl_into_rtrancl scene_edges_iff)
    qed
  qed
qed

lemma scene_root: "distinct (dkeys w) \<Longrightarrow> r \<in> set (scene_roots w) \<Longrightarrow> has_key w r \<and> parent_in w r = None"
proof -
  assume d: "distinct (dkeys w)" and "r \<in> set (scene_roots w)"
  then obtain n where "(r, n) \<in> set w" and n: "case rn_parent n of None \<Rightarrow> True | Some p \<Rightarrow> \<not> has_key w p"
    by (auto simp: scene_roots_def)
  then have "dget w r = Some n" using d by simp
  then show ?thesis using n by (auto simp: parent_in_def has_key_def split: option.splits)
qed

lemma nodes_for_world_keys:
  assumes "nodes_for_world world_uri nodes_by_uri = Return w" "distinct (dkeys nodes_by_uri)"
  shows "distinct (dkeys w)"
proof -
  have keys: "mapR (\<lambda>uri. bindR (f uri) (\<lambda>n. Return (uri, n))) us = Return v \<Longrightarrow> dkeys v = us"
    for f :: "string \<Rightarrow> render_node result" and us v
  proof (induction us arbitrary: v)
    case (Cons u us)
    then show ?case by (cases "f u") (auto split: sum.splits)
  qed simp
  show ?thesis using keys [OF assms(1) [unfolded nodes_for_world_def]] assms(2) by simp
qed

lemma walk_roots:
  assumes "distinct (dkeys w)" "matrices_ok w mats" "set rs \<subseteq> set (scene_roots w)"
  shows "matrices_ok w (foldl (\<lambda>mats uri. walk_scene w {} identity4 uri mats) mats rs)"
  using assms(2,3)
proof (induction rs arbitrary: mats)
  case (Cons r rs)
  have "above_matrix w identity4 r" using scene_root [OF assms(1)] Cons.prems(2) by (simp add: above_matrix_def)
  then show ?case using Cons.IH walk_sound(1) [OF assms(1) Cons.prems(1)] Cons.prems(2) by simp
qed simp

lemma walk_roots_keep: "x \<in> set (dkeys mats) \<Longrightarrow>
    x \<in> set (dkeys (foldl (\<lambda>mats uri. walk_scene w {} identity4 uri mats) mats rs))"
proof (induction rs arbitrary: mats)
  case (Cons r rs)
  have "x \<in> set (dkeys (walk_scene w {} identity4 r mats))" using walk_keys(1) Cons.prems by (rule subsetD)
  then show ?case using Cons.IH by simp
qed simp

lemma walk_roots_reach:
  assumes "distinct (dkeys w)" "acyclic (scene_edges w)" "set rs \<subseteq> set (scene_roots w)"
    and "r \<in> set rs" "(x, r) \<in> (scene_edges w)\<^sup>*"
  shows "has_key (foldl (\<lambda>mats uri. walk_scene w {} identity4 uri mats) mats rs) x"
  using assms(3,4)
proof (induction rs arbitrary: mats)
  case (Cons r' rs)
  show ?case
  proof (cases "r = r'")
    case True
    have "has_key w r" using scene_root [OF assms(1)] Cons.prems by auto
    then have "has_key (walk_scene w {} identity4 r mats) x" by (intro walk_reaches(1) assms) simp_all
    then show ?thesis using walk_roots_keep True by (simp add: has_key_iff)
  qed (use Cons in simp)
qed simp

lemma nothing_left: "set us \<subseteq> set (dkeys mats) \<Longrightarrow>
    foldl (\<lambda>mats uri. if has_key mats uri then mats else walk_scene w {} identity4 uri mats) mats us = mats"
  by (induction us) (auto simp: has_key_iff)

lemma matrices_of_world:
  assumes "distinct (dkeys w)" "acyclic (scene_edges w)" "has_key w u"
  shows "\<exists>m. dget (world_matrices w) u = Some m \<and> world_matrix w u m"
proof -
  let ?mats = "foldl (\<lambda>mats uri. walk_scene w {} identity4 uri mats) [] (scene_roots w)"
  have reach: "has_key ?mats x" if "has_key w x" for x
    using below_root [OF assms(1,2) that] walk_roots_reach [OF assms(1,2) subset_refl] by blast
  then have "world_matrices w = ?mats"
    unfolding world_matrices_def by (intro nothing_left) (auto simp: has_key_iff)
  moreover have "matrices_ok w ?mats" by (rule walk_roots [OF assms(1)]) (simp_all add: matrices_ok_def)
  ultimately show ?thesis using reach [OF assms(3)] by (auto simp: matrices_ok_def has_key_def)
qed

lemma world_matrix_unique: "world_matrix w u m \<Longrightarrow> world_matrix w u m' \<Longrightarrow> m = m'"
proof (induction arbitrary: m' rule: world_matrix.induct)
  case (root u)
  then show ?case by (auto elim: world_matrix.cases)
next
  case (child u p m)
  from child.prems child.hyps(1) obtain m2 where "m' = mul4 m2 (local_matrix w u)" "world_matrix w p m2"
    by (auto elim: world_matrix.cases)
  then show ?case using child.IH by simp
qed

text \<open>
  C23: the integrity check of a scene world says ok exactly when no node names itself or an unknown
  node as its parent, no two nodes carry the same id and the parents form no cycle; the depth-first
  search with its colours and its deduplicated cycles decides acyclicity.
\<close>

theorem scene_validate_ok_iff:
  assumes "nodes_for_world world_uri nodes_by_uri = Return w" "distinct (dkeys nodes_by_uri)"
  shows "\<exists>r. scene_validate world_uri nodes_by_uri = Return r \<and>
    dget r ''ok'' = Some (PBool ((\<forall>(uri, n)\<in>set w. \<forall>p. rn_parent n = Some p \<longrightarrow> p \<noteq> uri \<and> has_key w p) \<and>
      distinct (map (rn_node_id \<circ> snd) w) \<and> acyclic (scene_edges w)))"
proof -
  have "integrity_issues w = [] \<longleftrightarrow> (\<forall>(uri, n)\<in>set w. \<forall>p. rn_parent n = Some p \<longrightarrow> p \<noteq> uri \<and> has_key w p) \<and>
      distinct (map (rn_node_id \<circ> snd) w) \<and> acyclic (scene_edges w)"
    using parent_issues_iff [OF nodes_for_world_keys [OF assms]]
    by (simp add: integrity_issues_def id_issues_iff no_cycle_issue_iff)
  then show ?thesis by (simp add: scene_validate_def assms(1) Let_def)
qed

text \<open>
  C24: in a world whose parents form no cycle the projector finds for every node the one matrix that
  is its own local matrix multiplied under its parent's world matrix, up to a root, whatever the
  order the walk takes.
\<close>

theorem world_matrices_compose:
  assumes "nodes_for_world world_uri nodes_by_uri = Return w" "distinct (dkeys nodes_by_uri)"
    and "acyclic (scene_edges w)" "has_key w u"
  shows "\<exists>m. dget (world_matrices w) u = Some m \<and> world_matrix w u m \<and> (\<forall>m'. world_matrix w u m' \<longrightarrow> m' = m)"
  using matrices_of_world [OF nodes_for_world_keys [OF assms(1,2)] assms(3,4)] world_matrix_unique by blast

text \<open>A room and the lamp in it.\<close>

definition sample_nodes :: scene where
  "sample_nodes = [(''q/node/room'', []), (''q/node/lamp'', [(''parent'', JStr ''q/node/room'')])]"

definition sample_scene :: node_world where
  "sample_scene = (case nodes_for_world ''q'' sample_nodes of Inr w \<Rightarrow> w | Inl _ \<Rightarrow> [])"

lemma sample_world_read: "nodes_for_world ''q'' sample_nodes = Return sample_scene" "dkeys sample_scene = [''q/node/lamp'', ''q/node/room'']"
  by code_simp+

lemma sample_world_parents:
  "parent_in sample_scene u = (if u = ''q/node/lamp'' then Some ''q/node/room'' else None)"
proof (cases "u \<in> set (dkeys sample_scene)")
  case True
  have "parent_in sample_scene ''q/node/lamp'' = Some ''q/node/room''" "parent_in sample_scene ''q/node/room'' = None"
    by code_simp+
  then show ?thesis using True by (auto simp: sample_world_read)
next
  case False
  then have "dget sample_scene u = None" by (simp add: map_of_eq_None_iff)
  then show ?thesis using False by (auto simp: parent_in_def sample_world_read)
qed

lemma sample_world_acyclic: "acyclic (scene_edges sample_scene)"
proof -
  have "scene_edges sample_scene = {(''q/node/lamp'', ''q/node/room'')}"
    by (auto simp: scene_edges_def sample_world_parents split: if_splits)
  then show ?thesis by (simp add: acyclic_insert) (simp add: acyclic_def)
qed

theorem scene_validate_ok_iff_witness: "\<exists>r. scene_validate ''q'' sample_nodes = Return r \<and> dget r ''ok'' = Some (PBool True)"
proof -
  have "distinct (map (rn_node_id \<circ> snd) sample_scene)" by code_simp
  moreover have "\<forall>(uri, n)\<in>set sample_scene. \<forall>p. rn_parent n = Some p \<longrightarrow> p \<noteq> uri \<and> has_key sample_scene p"
  proof -
    have "list_all (\<lambda>(uri, n). case rn_parent n of None \<Rightarrow> True | Some p \<Rightarrow> p \<noteq> uri \<and> has_key sample_scene p) sample_scene"
      by code_simp
    then show ?thesis by (fastforce simp: list_all_iff)
  qed
  ultimately show ?thesis
    using scene_validate_ok_iff [OF sample_world_read(1)] sample_world_acyclic by (simp add: sample_nodes_def)
qed

theorem world_matrices_compose_witness:
  "\<exists>m. dget (world_matrices sample_scene) ''q/node/lamp'' = Some m \<and> world_matrix sample_scene ''q/node/lamp'' m"
proof -
  have "has_key sample_scene ''q/node/lamp''" by (simp add: has_key_iff sample_world_read)
  then show ?thesis
    using world_matrices_compose [OF sample_world_read(1) _ sample_world_acyclic] by (auto simp: sample_nodes_def)
qed

end
