(* ===== verification/Policy_Sync.thy ===== *)
theory Policy_Sync
  imports Qso_Tools Fabric_Values
begin

text \<open>
  \<^verbatim>\<open>gdml\<close> with the helpers of \<^verbatim>\<open>meta\<close> that call it: the policy the state engine asks on every patch,
  its publication as a signed mutation and a logged event, its rollback, the rewards of the nodes and
  the optimizer that publishes from them.  The resolver of the engine is the current policy, so
  publishing sets both.
\<close>

section \<open>State\<close>

definition POLICY_URI :: string where
  "POLICY_URI = ''qso://policy.global''"

record gdml =
  gd_fabric :: Qso_Tools.fabric
  gd_policy :: "json dict"
  gd_history :: "policy_mutation list"
  gd_rewards :: "pyfloat list dict"
  gd_nodes :: "pyval dict dict"

definition initial_policy :: "json dict" where
  "initial_policy = [(''version'', JStr ''v1''), (''mode'', JStr ''balanced'')]"

definition set_resolver :: "json dict \<Rightarrow> Qso_Tools.fabric \<Rightarrow> Qso_Tools.fabric" where
  "set_resolver policy f = f\<lparr>fr_engine := (fr_engine f)\<lparr>eg_policy := Some policy\<rparr>\<rparr>"

definition new_gdml :: "crypto \<Rightarrow> gdml" where
  "new_gdml c = \<lparr>gd_fabric = set_resolver initial_policy (new_fabric c), gd_policy = initial_policy,
     gd_history = [], gd_rewards = [], gd_nodes = []\<rparr>"

definition with_runtime :: "(Qso_Tools.fabric, 'a) op \<Rightarrow> (gdml, 'a) op" where
  "with_runtime m = (\<lambda>s. case m (gd_fabric s) of (r, f) \<Rightarrow> (r, s\<lparr>gd_fabric := f\<rparr>))"

section \<open>Versions\<close>

definition version_num :: "string \<Rightarrow> int" where
  "version_num version =
     (if startswith version ''v'' then (case py_int (drop 1 version) of Inr n \<Rightarrow> n | Inl _ \<Rightarrow> -1) else -1)"

definition version_of :: "string \<Rightarrow> json dict \<Rightarrow> string" where
  "version_of def policy = jstr (dget_or policy ''version'' (JStr def))"

section \<open>Publishing\<close>

definition clock_tick :: "engine \<Rightarrow> int result \<times> engine" where
  "clock_tick g = (case next_datetime (eg_clock g) of (ts, clock) \<Rightarrow> (Return ts, g\<lparr>eg_clock := clock\<rparr>))"

definition policy_mutation_of ::
    "crypto \<Rightarrow> string \<Rightarrow> int \<Rightarrow> string \<Rightarrow> string \<Rightarrow> string \<Rightarrow> string \<Rightarrow> json dict \<Rightarrow> policy_mutation" where
  "policy_mutation_of c event_id ts actor node_id from_version to_version policy =
     (let m = \<lparr>pm_event_id = event_id, pm_timestamp = ts, pm_actor = actor, pm_node_id = node_id,
            pm_from_version = from_version, pm_to_version = to_version, pm_policy_delta = policy, pm_signature = []\<rparr>
      in m\<lparr>pm_signature := sign c (policy_mutation_payload m)\<rparr>)"

definition adopt_policy :: "policy_mutation \<Rightarrow> json dict \<Rightarrow> gdml \<Rightarrow> gdml" where
  "adopt_policy m policy s =
     s\<lparr>gd_history := gd_history s @ [m], gd_policy := policy, gd_fabric := set_resolver policy (gd_fabric s)\<rparr>"

text \<open>The event is dated and named as the mutation is; its position in the log is where it takes effect.\<close>

definition policy_event :: "policy_mutation \<Rightarrow> nat \<Rightarrow> qso_event" where
  "policy_event m activation_index =
     \<lparr>qe_schema_version = SCHEMA_VERSION, qe_event_id = pm_event_id m, qe_timestamp = pm_timestamp m,
      qe_actor = pm_actor m, qe_object_uri = POLICY_URI,
      qe_delta = [(''event_type'', JStr ''policy_mutation''), (''from_version'', JStr (pm_from_version m)),
        (''to_version'', JStr (pm_to_version m)), (''policy'', JObj (pm_policy_delta m)),
        (''node_id'', JStr (pm_node_id m)), (''activation_index'', JInt (int activation_index)),
        (''effective_after_event'', JInt (int activation_index))],
      qe_signature = [], qe_policy_version = pm_to_version m, qe_node_id = pm_node_id m\<rparr>"

definition log_policy :: "policy_mutation \<Rightarrow> engine \<Rightarrow> unit result \<times> engine" where
  "log_policy m g =
     (let e = policy_event m (length (el_timeline (eg_log g) POLICY_URI) + 1)
      in case qso_event_payload e of
           Inl err \<Rightarrow> (Raise err, g)
         | Inr payload \<Rightarrow>
             (Return (), g\<lparr>eg_log := append_log (e\<lparr>qe_signature := sign (eg_crypto g) payload\<rparr>) (eg_log g)\<rparr>))"

definition publish_policy :: "fabric_env \<Rightarrow> json dict \<Rightarrow> string \<Rightarrow> string \<Rightarrow> (gdml, json dict) op" where
  "publish_policy env policy actor node_id =
     bindS (readS (\<lambda>s. Return (version_of ''v1'' (gd_policy s)))) (\<lambda>from_version.
     let to_version = version_of from_version policy in
     thenS (requireS (version_num from_version < version_num to_version)
         (ValueError (''policy version must be monotonic: '' @ from_version @ '' -> '' @ to_version)))
     (bindS (with_runtime next_call) (\<lambda>call.
      bindS (with_runtime (on_engine clock_tick)) (\<lambda>ts.
      bindS (readS (\<lambda>s. Return (policy_mutation_of (eg_crypto (fr_engine (gd_fabric s))) (fe_uuid env call) ts actor node_id
          from_version to_version policy))) (\<lambda>m.
        thenS (writeS (adopt_policy m policy))
          (thenS (with_runtime (on_engine (log_policy m))) (readS (\<lambda>s. Return (gd_policy s)))))))))"

definition rollback :: "fabric_env \<Rightarrow> string \<Rightarrow> string \<Rightarrow> string \<Rightarrow> (gdml, json dict) op" where
  "rollback env target_version actor node_id =
     bindS (readS (\<lambda>s. Return (filter (\<lambda>m. pm_to_version m = target_version) (gd_history s)))) (\<lambda>candidates.
       if candidates = [] then raiseS (ValueError (''target policy version not found: '' @ target_version))
       else publish_policy env (pm_policy_delta (last candidates)) actor node_id)"

definition current_policy :: "gdml \<Rightarrow> json dict" where
  "current_policy s = gd_policy s"

text \<open>The authority and the tools forward to the two.\<close>

definition authority_publish_policy :: "fabric_env \<Rightarrow> json dict \<Rightarrow> string \<Rightarrow> string \<Rightarrow> (gdml, json dict) op" where
  "authority_publish_policy env policy actor node_id = publish_policy env policy actor node_id"

definition qso_publish_policy :: "fabric_env \<Rightarrow> json dict \<Rightarrow> string \<Rightarrow> string \<Rightarrow> (gdml, json dict) op" where
  "qso_publish_policy env policy actor node_id = publish_policy env policy actor node_id"

definition propose_policy :: "string \<Rightarrow> gdml \<Rightarrow> json dict result" where
  "propose_policy mode s =
     (let current = current_policy s; version = version_of ''v1'' current; tail = drop 1 version in
      bindR (if startswith version ''v'' \<and> py_isdigit tail then bindR (py_int tail) (\<lambda>n. Return (n + 1)) else Return 2)
        (\<lambda>next_num. Return (dset ''mode'' (JStr mode) (dset ''version'' (JStr (''v'' @ py_str next_num)) current))))"

section \<open>Rewards\<close>

definition ingest_reward :: "string \<Rightarrow> pyfloat \<Rightarrow> (gdml, unit) op" where
  "ingest_reward node_id reward =
     writeS (\<lambda>s. s\<lparr>gd_rewards := dset node_id (dget_or (gd_rewards s) node_id [] @ [reward]) (gd_rewards s)\<rparr>)"

definition aggregate_rewards_of :: "pyfloat list dict \<Rightarrow> pyfloat dict" where
  "aggregate_rewards_of rewards =
     map (\<lambda>(node_id, rs). (node_id, if rs \<noteq> [] then f_div_len (f_sum rs) (length rs) else Fin 0)) rewards"

text \<open>\<open>max(rewards, key=rewards.get)\<close>: the first of the greatest.\<close>

definition best_node :: "pyfloat dict \<Rightarrow> string \<times> pyfloat" where
  "best_node rewards = foldl (\<lambda>best kv. if f_less (snd best) (snd kv) then kv else best) (hd rewards) (tl rewards)"

definition recommend_from :: "pyfloat dict \<Rightarrow> pyval dict" where
  "recommend_from rewards =
     (if rewards = [] then
        [(''best_node'', PStr ''none''), (''tuning_parameter'', PFloat (Fin 1)), (''hint'', PStr ''no-data'')]
      else (case best_node rewards of (node, reward) \<Rightarrow>
        [(''best_node'', PStr node), (''best_reward'', PFloat (round_dec 4 reward)),
         (''tuning_parameter'', PFloat (f_max (lit (1 / 10)) (f_min (Fin 2) (f_add (Fin 1) (f_quot reward (Fin 10)))))),
         (''hint'', PStr ''broadcast_policy_from_best_node'')]))"

definition optimized_policy :: "pyval dict \<Rightarrow> json dict" where
  "optimized_policy recommendation =
     [(''version'', JStr ''v2''), (''mode'', JStr ''reward-optimized''),
      (''leader'', JStr (to_str (dget_or recommendation ''best_node'' PNone)))]"

definition global_optimize :: "fabric_env \<Rightarrow> (gdml, pyval dict) op" where
  "global_optimize env =
     bindS (readS (\<lambda>s. Return (recommend_from (aggregate_rewards_of (gd_rewards s))))) (\<lambda>recommendation.
       thenS (publish_policy env (optimized_policy recommendation) ''gdml-optimizer'' ''gdml-core'') (returnS recommendation))"

definition register_node :: "string \<Rightarrow> pyval dict \<Rightarrow> (gdml, unit) op" where
  "register_node node_id metadata = writeS (\<lambda>s. s\<lparr>gd_nodes := dset node_id metadata (gd_nodes s)\<rparr>)"

section \<open>What the policies keep\<close>

text \<open>The mutations of a history that starts at a version: signed, and each one above the one before.\<close>

fun climbs :: "crypto \<Rightarrow> string \<Rightarrow> policy_mutation list \<Rightarrow> bool" where
  "climbs c v [] \<longleftrightarrow> True"
| "climbs c v (m # ms) \<longleftrightarrow> pm_from_version m = v \<and> version_num v < version_num (pm_to_version m) \<and>
     version_of v (pm_policy_delta m) = pm_to_version m \<and>
     verify c (policy_mutation_payload m) (pm_signature m) = Return True \<and> climbs c (pm_to_version m) ms"

definition version_after :: "string \<Rightarrow> policy_mutation list \<Rightarrow> string" where
  "version_after v ms = foldl (\<lambda>_ m. pm_to_version m) v ms"

definition gdml_ok :: "gdml \<Rightarrow> bool" where
  "gdml_ok s \<longleftrightarrow> eg_policy (fr_engine (gd_fabric s)) = Some (gd_policy s) \<and>
     climbs (eg_crypto (fr_engine (gd_fabric s))) ''v1'' (gd_history s) \<and>
     dget (gd_policy s) ''version'' \<noteq> None \<and> version_of ''v1'' (gd_policy s) = version_after ''v1'' (gd_history s)"

lemma climbs_append: "climbs c v (ms @ ns) \<longleftrightarrow> climbs c v ms \<and> climbs c (version_after v ms) ns"
  by (induction ms arbitrary: v) (auto simp: version_after_def)

lemma version_after_Cons [simp]: "version_after v (m # ms) = version_after (pm_to_version m) ms"
  by (simp add: version_after_def)

lemma climbs_up: "climbs c v ms \<Longrightarrow> version_num v \<le> version_num (version_after v ms)"
proof (induction ms arbitrary: v)
  case (Cons m ms)
  then have "version_num (pm_to_version m) \<le> version_num (version_after (pm_to_version m) ms)" by simp
  then show ?case using Cons.prems by simp
qed (simp add: version_after_def)

lemma climbs_below: "climbs c v ms \<Longrightarrow> m \<in> set ms \<Longrightarrow>
    version_num v < version_num (pm_to_version m) \<and> version_num (pm_to_version m) \<le> version_num (version_after v ms)"
proof (induction ms arbitrary: v)
  case (Cons n ms)
  show ?case
  proof (cases "m = n")
    case True
    then show ?thesis using climbs_up [of c "pm_to_version n" ms] Cons.prems by simp
  next
    case False
    then have "version_num (pm_to_version n) < version_num (pm_to_version m)"
        "version_num (pm_to_version m) \<le> version_num (version_after (pm_to_version n) ms)"
      using Cons.IH [of "pm_to_version n"] Cons.prems by auto
    then show ?thesis using Cons.prems by simp
  qed
qed simp

lemma version_key: "version_of v policy \<noteq> v \<Longrightarrow> dget policy ''version'' \<noteq> None"
  by (auto simp: version_of_def dget_or_def jstr_def split: option.splits)

lemma version_fixed: "dget policy ''version'' \<noteq> None \<Longrightarrow> version_of v policy = version_of w policy"
  by (auto simp: version_of_def dget_or_def split: option.splits)

lemma climbs_delta: "climbs c v ms \<Longrightarrow> m \<in> set ms \<Longrightarrow> version_of w (pm_policy_delta m) = pm_to_version m"
proof (induction ms arbitrary: v)
  case (Cons n ms)
  show ?case
  proof (cases "m = n")
    case True
    then have "version_of v (pm_policy_delta m) \<noteq> v" using Cons.prems by auto
    then show ?thesis using version_fixed [OF version_key, of v _ w v] True Cons.prems by simp
  next
    case False
    then show ?thesis using Cons by auto
  qed
qed simp

lemma climbs_sorted: "climbs c v ms \<Longrightarrow> sorted_wrt (\<lambda>m n. version_num (pm_to_version m) < version_num (pm_to_version n)) ms"
  by (induction ms arbitrary: v) (auto dest: climbs_below)

lemma climbs_signed: "climbs c v ms \<Longrightarrow> m \<in> set ms \<Longrightarrow> verify c (policy_mutation_payload m) (pm_signature m) = Return True"
  by (induction ms arbitrary: v) auto

section \<open>Every operation keeps it\<close>

lemma publish_cases:
  assumes "publish_policy env policy actor node_id s = (r, t)"
  obtains (refused) w where "r = Raise (ValueError w)" "t = s"
      "version_num (version_of (version_of ''v1'' (gd_policy s)) policy) \<le> version_num (version_of ''v1'' (gd_policy s))"
  | (published) m where "version_num (version_of ''v1'' (gd_policy s)) < version_num (version_of (version_of ''v1'' (gd_policy s)) policy)"
      "pm_from_version m = version_of ''v1'' (gd_policy s)" "pm_to_version m = version_of (version_of ''v1'' (gd_policy s)) policy"
      "pm_policy_delta m = policy" "pm_signature m = sign (eg_crypto (fr_engine (gd_fabric s))) (policy_mutation_payload m)"
      "gd_policy t = policy" "gd_history t = gd_history s @ [m]"
      "eg_policy (fr_engine (gd_fabric t)) = Some policy" "eg_crypto (fr_engine (gd_fabric t)) = eg_crypto (fr_engine (gd_fabric s))"
      "gd_rewards t = gd_rewards s"
proof (cases "version_num (version_of ''v1'' (gd_policy s)) < version_num (version_of (version_of ''v1'' (gd_policy s)) policy)")
  case False
  then show ?thesis using assms refused by (auto simp: publish_policy_def op_defs Let_def)
next
  case True
  define m where "m = policy_mutation_of (eg_crypto (fr_engine (gd_fabric s))) (fe_uuid env (fr_calls (gd_fabric s)))
     (fst (next_datetime (eg_clock (fr_engine (gd_fabric s))))) actor node_id (version_of ''v1'' (gd_policy s))
     (version_of (version_of ''v1'' (gd_policy s)) policy) policy"
  have facts: "pm_from_version m = version_of ''v1'' (gd_policy s)" "pm_to_version m = version_of (version_of ''v1'' (gd_policy s)) policy"
      "pm_policy_delta m = policy" "pm_signature m = sign (eg_crypto (fr_engine (gd_fabric s))) (policy_mutation_payload m)"
    by (simp_all add: m_def policy_mutation_of_def Let_def policy_mutation_payload_def)
  have "gd_policy t = policy \<and> gd_history t = gd_history s @ [m] \<and> eg_policy (fr_engine (gd_fabric t)) = Some policy \<and>
      eg_crypto (fr_engine (gd_fabric t)) = eg_crypto (fr_engine (gd_fabric s)) \<and> gd_rewards t = gd_rewards s"
    using assms True unfolding m_def
    by (auto simp: publish_policy_def op_defs Let_def with_runtime_def next_call_def on_engine_def clock_tick_def adopt_policy_def
        set_resolver_def log_policy_def split: sum.splits prod.splits)
  with published [OF True facts] show ?thesis by blast
qed

lemma publish_ok: "gdml_ok s \<Longrightarrow> gdml_ok (snd (publish_policy env policy actor node_id s))"
proof -
  assume ok: "gdml_ok s"
  obtain r t where run: "publish_policy env policy actor node_id s = (r, t)" by fastforce
  then show ?thesis
  proof (cases rule: publish_cases)
    case (published m)
    have "version_of (version_of ''v1'' (gd_policy s)) policy \<noteq> version_of ''v1'' (gd_policy s)" using published(1) by auto
    then have key: "dget policy ''version'' \<noteq> None" by (rule version_key)
    have "climbs (eg_crypto (fr_engine (gd_fabric t))) ''v1'' (gd_history t)"
      using ok published hmac.check_sign by (simp add: gdml_ok_def climbs_append)
    then show ?thesis
      using run published key version_fixed [OF key] by (simp add: gdml_ok_def version_after_def)
  qed (use ok run in simp)
qed

lemma rollback_ok: "gdml_ok s \<Longrightarrow> gdml_ok (snd (rollback env target actor node_id s))"
  using publish_ok by (auto simp: rollback_def bindS_def readS_def raiseS_def)

lemma optimize_ok: "gdml_ok s \<Longrightarrow> gdml_ok (snd (global_optimize env s))"
proof -
  assume ok: "gdml_ok s"
  obtain r t where run: "publish_policy env (optimized_policy (recommend_from (aggregate_rewards_of (gd_rewards s)))) ''gdml-optimizer'' ''gdml-core'' s = (r, t)"
    by fastforce
  have "gdml_ok t" using publish_ok [OF ok] run by (metis snd_conv)
  then show ?thesis using run by (cases r) (simp_all add: global_optimize_def op_defs)
qed

inductive gdml_step :: "gdml \<Rightarrow> gdml \<Rightarrow> bool" where
  published: "gdml_step s (snd (publish_policy env policy actor node_id s))"
| rolled_back: "gdml_step s (snd (rollback env target actor node_id s))"
| optimized: "gdml_step s (snd (global_optimize env s))"
| rewarded: "gdml_step s (snd (ingest_reward node reward s))"
| registered: "gdml_step s (snd (register_node node metadata s))"
| elsewhere: "eg_policy (fr_engine f) = eg_policy (fr_engine (gd_fabric s)) \<Longrightarrow>
    eg_crypto (fr_engine f) = eg_crypto (fr_engine (gd_fabric s)) \<Longrightarrow> gdml_step s (s\<lparr>gd_fabric := f\<rparr>)"

definition gdml_reachable :: "gdml \<Rightarrow> bool" where
  "gdml_reachable s \<longleftrightarrow> (\<exists>c. gdml_step\<^sup>*\<^sup>* (new_gdml c) s)"

lemma gdml_step_ok: "gdml_step s t \<Longrightarrow> gdml_ok s \<Longrightarrow> gdml_ok t"
proof (induction rule: gdml_step.induct)
  case (rewarded s node reward)
  then show ?case by (simp add: ingest_reward_def writeS_def gdml_ok_def)
next
  case (registered s node metadata)
  then show ?case by (simp add: register_node_def writeS_def gdml_ok_def)
next
  case (elsewhere f s)
  then show ?case by (simp add: gdml_ok_def)
qed (simp_all add: publish_ok rollback_ok optimize_ok)

lemma new_gdml_ok: "gdml_ok (new_gdml c)"
  by (simp add: gdml_ok_def new_gdml_def set_resolver_def version_after_def version_of_def dget_or_def jstr_def initial_policy_def)

lemma gdml_steps_ok: "gdml_step\<^sup>*\<^sup>* s t \<Longrightarrow> gdml_ok s \<Longrightarrow> gdml_ok t"
  by (induction rule: rtranclp_induct) (auto intro: gdml_step_ok)

lemma gdml_reachable_ok: "gdml_reachable s \<Longrightarrow> gdml_ok s"
  unfolding gdml_reachable_def using gdml_steps_ok new_gdml_ok by blast


lemma old_policy_refused:
  assumes "gdml_ok s" "m \<in> set (gd_history s)"
  shows "\<exists>w. publish_policy env (pm_policy_delta m) actor node_id s = (Raise (ValueError w), s)"
proof -
  have c: "climbs (eg_crypto (fr_engine (gd_fabric s))) ''v1'' (gd_history s)" using assms(1) by (simp add: gdml_ok_def)
  have "version_of (version_of ''v1'' (gd_policy s)) (pm_policy_delta m) = pm_to_version m" by (rule climbs_delta [OF c assms(2)])
  moreover have "version_num (pm_to_version m) \<le> version_num (version_of ''v1'' (gd_policy s))"
    using climbs_below [OF c assms(2)] assms(1) by (simp add: gdml_ok_def)
  ultimately show ?thesis by (simp add: publish_policy_def op_defs Let_def)
qed

text \<open>
  C35: a rollback never rolls back: the policies of the history have versions up to the current one
  and publishing wants a greater one, so whatever the target the rollback raises and changes nothing.
\<close>

theorem rollback_always_refused:
  assumes "gdml_reachable s"
  shows "\<exists>w. rollback env target actor node_id s = (Raise (ValueError w), s)"
proof (cases "filter (\<lambda>m. pm_to_version m = target) (gd_history s) = []")
  case False
  then have "last (filter (\<lambda>m. pm_to_version m = target) (gd_history s)) \<in> set (gd_history s)"
    using last_in_set [OF False] by simp
  then show ?thesis
    using old_policy_refused [OF gdml_reachable_ok [OF assms], of _ env actor node_id] False
    by (simp add: rollback_def bindS_def readS_def)
qed (simp add: rollback_def op_defs)

lemma refused_below:
  "gdml_ok s \<Longrightarrow> version_num (version_of (version_of ''v1'' (gd_policy s)) policy) \<le> version_num (version_of ''v1'' (gd_policy s)) \<Longrightarrow>
    \<exists>w. publish_policy env policy actor node_id s = (Raise (ValueError w), s)"
  by (simp add: publish_policy_def op_defs Let_def)

definition current_num :: "gdml \<Rightarrow> int" where
  "current_num s = version_num (version_of ''v1'' (gd_policy s))"

lemma publish_up: "gdml_ok s \<Longrightarrow> current_num s \<le> current_num (snd (publish_policy env policy actor node_id s))"
proof -
  assume ok: "gdml_ok s"
  obtain r t where run: "publish_policy env policy actor node_id s = (r, t)" by fastforce
  then show ?thesis
  proof (cases rule: publish_cases)
    case (published m)
    have "gdml_ok t" using publish_ok [OF ok] run by (metis snd_conv)
    then have "version_of ''v1'' (gd_policy t) = pm_to_version m" using published by (simp add: gdml_ok_def version_after_def)
    then show ?thesis using published run by (simp add: current_num_def)
  qed (use run in simp)
qed

lemma gdml_step_up: "gdml_step s t \<Longrightarrow> gdml_ok s \<Longrightarrow> current_num s \<le> current_num t"
proof (induction rule: gdml_step.induct)
  case (rolled_back s env target actor node_id)
  then show ?case using publish_up by (auto simp: rollback_def bindS_def readS_def raiseS_def)
next
  case (optimized s env)
  obtain r t where run: "publish_policy env (optimized_policy (recommend_from (aggregate_rewards_of (gd_rewards s)))) ''gdml-optimizer'' ''gdml-core'' s = (r, t)"
    by fastforce
  then have "current_num s \<le> current_num t" using publish_up [OF optimized] by (metis snd_conv)
  then show ?case using run by (cases r) (simp_all add: global_optimize_def op_defs)
next
  case (published s env policy actor node_id)
  then show ?case by (rule publish_up)
qed (simp_all add: current_num_def ingest_reward_def register_node_def writeS_def)

lemma gdml_steps_up: "gdml_step\<^sup>*\<^sup>* s t \<Longrightarrow> gdml_ok s \<Longrightarrow> current_num s \<le> current_num t"
proof (induction rule: rtranclp_induct)
  case (step t u)
  then show ?case using gdml_step_up [OF step(2)] gdml_steps_ok [OF step(1)] by force
qed simp

lemma v2_num: "version_num ''v2'' = 2"
  by code_simp

lemma optimized_version: "version_of v (optimized_policy r) = ''v2''"
  by (simp add: version_of_def dget_or_def jstr_def optimized_policy_def)

lemma optimize_returns:
  assumes "gdml_ok s" "global_optimize env s = (Return r, t)"
  shows "current_num t = 2"
proof -
  let ?p = "optimized_policy (recommend_from (aggregate_rewards_of (gd_rewards s)))"
  obtain q where run: "publish_policy env ?p ''gdml-optimizer'' ''gdml-core'' s = (Return q, t)"
    using assms(2) by (auto simp: global_optimize_def op_defs split: prod.splits sum.splits)
  then show ?thesis by (cases rule: publish_cases) (simp_all add: current_num_def optimized_version v2_num)
qed

text \<open>
  The optimizer publishes at most once in the life of a runtime: its policy is always called v2, so
  after it has returned once, and after any publication of a version from two up, it raises and
  changes nothing.
\<close>

theorem optimizer_publishes_once:
  assumes "gdml_reachable s" "global_optimize env s = (Return r, t)" "gdml_step\<^sup>*\<^sup>* t u"
  shows "\<exists>w. global_optimize env' u = (Raise (ValueError w), u)"
proof -
  have ok: "gdml_ok s" by (rule gdml_reachable_ok [OF assms(1)])
  have "gdml_ok t" using optimize_ok [OF ok] assms(2) by (metis snd_conv)
  then have u: "gdml_ok u" "2 \<le> current_num u"
    using gdml_steps_ok gdml_steps_up [OF assms(3)] optimize_returns [OF ok assms(2)] assms(3) by auto
  let ?p = "optimized_policy (recommend_from (aggregate_rewards_of (gd_rewards u)))"
  obtain w where "publish_policy env' ?p ''gdml-optimizer'' ''gdml-core'' u = (Raise (ValueError w), u)"
    using refused_below [OF u(1), of ?p env' "''gdml-optimizer''" "''gdml-core''"] u(2) by (auto simp: current_num_def v2_num optimized_version)
  then show ?thesis by (simp add: global_optimize_def op_defs)
qed

section \<open>The policy is asked and the publication recorded\<close>

text \<open>
  In every state the engine refuses a patch that does not carry the version of the policy that was
  published last, or that is by an actor the policy does not list, and is left as it was.
\<close>

theorem published_policy_enforced:
  assumes "gdml_reachable s"
    and "pv \<noteq> version_of ''v1'' (gd_policy s) \<or>
      (\<exists>allowed. dget (gd_policy s) ''allowed_actors'' = Some (JArr allowed) \<and> allowed \<noteq> [] \<and> JStr actor \<notin> set allowed)"
  shows "\<exists>w. State_Engine.patch event_id uri delta actor pv node (fr_engine (gd_fabric s)) = (Raise (ValueError w), fr_engine (gd_fabric s))"
proof -
  have ok: "gdml_ok s" by (rule gdml_reachable_ok [OF assms(1)])
  then have "eg_policy (fr_engine (gd_fabric s)) = Some (gd_policy s)" by (simp add: gdml_ok_def)
  moreover have "jstr (dget_or (gd_policy s) ''version'' (JStr pv)) = version_of ''v1'' (gd_policy s)"
    using ok version_fixed [of "gd_policy s" pv "''v1''"] by (simp add: gdml_ok_def version_of_def)
  ultimately have "\<exists>w. check_policy (eg_policy (fr_engine (gd_fabric s))) pv actor = Raise (ValueError w)"
    using assms(2) by (auto simp: check_policy_def Let_def)
  then obtain w where "check_policy (eg_policy (fr_engine (gd_fabric s))) pv actor = Raise (ValueError w)" by blast
  then show ?thesis by (simp add: patch_def)
qed

lemma log_policy_cases:
  assumes "log_policy m g = (r, g')"
  obtains (raised) err where "r = Raise err" "g' = g"
  | (logged) e where "r = Return ()" "g' = g\<lparr>eg_log := append_log e (eg_log g)\<rparr>" "qe_object_uri e = POLICY_URI"
      "well_signed (Some (eg_crypto g)) e" "qe_policy_version e = pm_to_version m"
      "dget (qe_delta e) ''policy'' = Some (JObj (pm_policy_delta m))"
      "dget (qe_delta e) ''activation_index'' = Some (JInt (int (length (el_timeline (eg_log g) POLICY_URI) + 1)))"
proof (cases "qso_event_payload (policy_event m (length (el_timeline (eg_log g) POLICY_URI) + 1))")
  case (Inl err)
  then show ?thesis using assms raised [of err] by (simp add: log_policy_def Let_def)
next
  case (Inr payload)
  let ?plain = "policy_event m (length (el_timeline (eg_log g) POLICY_URI) + 1)"
  let ?e = "?plain\<lparr>qe_signature := sign (eg_crypto g) payload\<rparr>"
  have "?plain = ?plain\<lparr>qe_signature := []\<rparr>" by (simp add: policy_event_def)
  then have "qso_event_payload ?e = Inr payload" using payload_of_signed [OF _ strip_sign] Inr by metis
  then have "well_signed (Some (eg_crypto g)) ?e" by (simp add: well_signed_def)
  then show ?thesis using logged [of ?e] assms Inr by (simp add: log_policy_def Let_def policy_event_def)
qed

text \<open>A version that is accepted: the policy is adopted, then its event is made and logged.\<close>

lemma publish_run:
  assumes "version_num (version_of ''v1'' (gd_policy s)) < version_num (version_of (version_of ''v1'' (gd_policy s)) policy)"
  obtains m u where "pm_actor m = actor" "pm_event_id m = fe_uuid env (fr_calls (gd_fabric s))"
    "pm_to_version m = version_of ''v1'' policy" "pm_policy_delta m = policy"
    "gd_policy u = policy" "eg_log (fr_engine (gd_fabric u)) = eg_log (fr_engine (gd_fabric s))"
    "eg_crypto (fr_engine (gd_fabric u)) = eg_crypto (fr_engine (gd_fabric s))"
    "publish_policy env policy actor node_id s = (case log_policy m (fr_engine (gd_fabric u)) of (r, g) \<Rightarrow>
       (bindR r (\<lambda>_. Return policy), u\<lparr>gd_fabric := (gd_fabric u)\<lparr>fr_engine := g\<rparr>\<rparr>))"
proof -
  define f where "f = (gd_fabric s)\<lparr>fr_calls := Suc (fr_calls (gd_fabric s)),
     fr_engine := (fr_engine (gd_fabric s))\<lparr>eg_clock := snd (next_datetime (eg_clock (fr_engine (gd_fabric s))))\<rparr>\<rparr>"
  define m where "m = policy_mutation_of (eg_crypto (fr_engine (gd_fabric s))) (fe_uuid env (fr_calls (gd_fabric s)))
     (fst (next_datetime (eg_clock (fr_engine (gd_fabric s))))) actor node_id (version_of ''v1'' (gd_policy s))
     (version_of (version_of ''v1'' (gd_policy s)) policy) policy"
  define u where "u = adopt_policy m policy (s\<lparr>gd_fabric := f\<rparr>)"
  obtain r g where log: "log_policy m (fr_engine (gd_fabric u)) = (r, g)" by fastforce
  have "version_of (version_of ''v1'' (gd_policy s)) policy \<noteq> version_of ''v1'' (gd_policy s)" using assms by auto
  then have "version_of (version_of ''v1'' (gd_policy s)) policy = version_of ''v1'' policy"
    using version_fixed [OF version_key] by metis
  moreover have "publish_policy env policy actor node_id s =
      (bindR r (\<lambda>_. Return policy), u\<lparr>gd_fabric := (gd_fabric u)\<lparr>fr_engine := g\<rparr>\<rparr>)"
    using assms log unfolding u_def m_def f_def
    by (cases r) (simp_all add: publish_policy_def op_defs Let_def with_runtime_def next_call_def on_engine_def clock_tick_def split_beta
        adopt_policy_def set_resolver_def)
  ultimately show thesis
    using that [of m u] log by (simp add: u_def f_def m_def adopt_policy_def set_resolver_def policy_mutation_of_def Let_def)
qed

abbreviation policy_log :: "gdml \<Rightarrow> qso_event list" where
  "policy_log s \<equiv> el_timeline (eg_log (fr_engine (gd_fabric s))) POLICY_URI"

definition plain_log :: "gdml \<Rightarrow> bool" where
  "plain_log s \<longleftrightarrow> el_store (eg_log (fr_engine (gd_fabric s))) = None \<and> el_index (eg_log (fr_engine (gd_fabric s))) = None"


text \<open>The last case happens: a publication without an actor is in force, but in no log.\<close>

lemma anonymous_policy_in_force:
  assumes "strip actor = []" "strip (fe_uuid env (fr_calls (gd_fabric s))) \<noteq> []"
    and "version_num (version_of ''v1'' (gd_policy s)) < version_num (version_of (version_of ''v1'' (gd_policy s)) policy)"
  shows "\<exists>w t. publish_policy env policy actor node_id s = (Raise (ValueError w), t) \<and> gd_policy t = policy"
proof -
  have "\<exists>w. qso_event_payload (policy_event m n) = Raise (ValueError w)"
    if "pm_actor m = actor" "pm_event_id m = fe_uuid env (fr_calls (gd_fabric s))" for m n
    using assms(1,2) that by (simp add: qso_event_payload_def new_envelope_def event_envelope_def validate_event_envelope_def
        policy_event_def required_event_fields_def has_key_def envelope_dict_def check_non_empty_def jstr_def strip_isoformat)
  then have logs: "\<exists>w. log_policy m g = (Raise (ValueError w), g)"
    if "pm_actor m = actor" "pm_event_id m = fe_uuid env (fr_calls (gd_fabric s))" for m g
    using that unfolding log_policy_def Let_def by (metis (no_types, lifting) sum.simps(5))
  obtain m u where m: "pm_actor m = actor" "pm_event_id m = fe_uuid env (fr_calls (gd_fabric s))" and u: "gd_policy u = policy"
    and run: "publish_policy env policy actor node_id s = (case log_policy m (fr_engine (gd_fabric u)) of (r, g) \<Rightarrow>
       (bindR r (\<lambda>_. Return policy), u\<lparr>gd_fabric := (gd_fabric u)\<lparr>fr_engine := g\<rparr>\<rparr>))"
    by (rule publish_run [OF assms(3), where actor = actor and env = env and node_id = node_id]) blast
  from logs [OF m, of "fr_engine (gd_fabric u)"] run u show ?thesis by auto
qed

section \<open>A sample\<close>

lemma publish_accepted:
  assumes "version_num (version_of ''v1'' (gd_policy s)) < version_num (version_of (version_of ''v1'' (gd_policy s)) policy)"
    and "\<forall>x\<in>{fe_uuid env (fr_calls (gd_fabric s)), actor, version_of ''v1'' policy}. strip x \<noteq> []"
  shows "\<exists>t. publish_policy env policy actor node_id s = (Return policy, t)"
proof -
  obtain m u where m: "pm_actor m = actor" "pm_event_id m = fe_uuid env (fr_calls (gd_fabric s))" "pm_to_version m = version_of ''v1'' policy"
    and run: "publish_policy env policy actor node_id s = (case log_policy m (fr_engine (gd_fabric u)) of (r, g) \<Rightarrow>
       (bindR r (\<lambda>_. Return policy), u\<lparr>gd_fabric := (gd_fabric u)\<lparr>fr_engine := g\<rparr>\<rparr>))"
    by (rule publish_run [OF assms(1), where actor = actor and env = env and node_id = node_id]) blast
  have "strip POLICY_URI \<noteq> []" by code_simp
  then have "\<exists>p. qso_event_payload (policy_event m n) = Return p" for n
    using assms(2) m by (subst payload_Return) (auto simp: policy_event_def strip_isoformat)
  then have "\<exists>g'. log_policy m g = (Return (), g')" for g
    unfolding log_policy_def Let_def by (metis (no_types, lifting) sum.simps(6))
  then obtain g where "log_policy m (fr_engine (gd_fabric u)) = (Return (), g)" by blast
  then show ?thesis by (simp add: run)
qed

definition sample_gdml :: gdml where
  "sample_gdml = new_gdml \<lparr>cr_secret = [1]\<rparr>"

definition sample_policy :: "json dict" where
  "sample_policy = [(''version'', JStr ''v3''), (''allowed_actors'', JArr [JStr ''root''])]"

lemma sample_gdml_reachable: "gdml_reachable sample_gdml"
  unfolding gdml_reachable_def sample_gdml_def by blast

lemma sample_gdml_facts: "version_of ''v1'' (gd_policy sample_gdml) = ''v1''" "fr_calls (gd_fabric sample_gdml) = 0" "gd_rewards sample_gdml = []"
    "plain_log sample_gdml" "gd_history sample_gdml = []"
  by (simp_all add: sample_gdml_def new_gdml_def initial_policy_def version_of_def dget_or_def jstr_def set_resolver_def
      new_fabric_def plain_log_def fresh_engine_def)

lemma sample_version: "version_of v sample_policy = ''v3''" "version_num ''v3'' = 3" "version_num ''v1'' = 1"
  by (simp add: sample_policy_def version_of_def dget_or_def jstr_def) code_simp+

lemma sample_published: "\<exists>t. publish_policy sample_env sample_policy ''root'' ''local'' sample_gdml = (Return sample_policy, t)"
  by (rule publish_accepted) (auto simp: sample_gdml_facts sample_version sample_env_def strip_Nil_iff is_space_def)

lemma sample_step: "publish_policy sample_env sample_policy ''root'' ''local'' sample_gdml = (r, t) \<Longrightarrow> gdml_reachable t"
  using gdml_step.published [of sample_gdml sample_env sample_policy "''root''" "''local''"] sample_gdml_reachable
  unfolding gdml_reachable_def by (metis rtranclp.rtrancl_into_rtrancl snd_conv)


theorem rollback_always_refused_witness:
  "\<exists>s m w. gd_history s = [m] \<and> pm_to_version m = ''v3'' \<and> rollback sample_env ''v3'' ''root'' ''local'' s = (Raise (ValueError w), s)"
proof -
  obtain t where run: "publish_policy sample_env sample_policy ''root'' ''local'' sample_gdml = (Return sample_policy, t)"
    using sample_published by blast
  then have r: "gdml_reachable t" by (rule sample_step)
  from run show ?thesis
  proof (cases rule: publish_cases)
    case (published m)
    then show ?thesis
      using rollback_always_refused [OF r, of sample_env "''v3''" "''root''" "''local''"] by (auto simp: sample_gdml_facts sample_version)
  qed simp
qed

theorem optimizer_publishes_once_witness:
  "\<exists>r t w. global_optimize sample_env sample_gdml = (Return r, t) \<and> global_optimize sample_env t = (Raise (ValueError w), t)"
proof -
  let ?p = "optimized_policy (recommend_from (aggregate_rewards_of (gd_rewards sample_gdml)))"
  have "\<exists>t. publish_policy sample_env ?p ''gdml-optimizer'' ''gdml-core'' sample_gdml = (Return ?p, t)"
    by (rule publish_accepted)
      (auto simp: sample_gdml_facts optimized_version v2_num sample_version sample_env_def strip_Nil_iff is_space_def)
  then obtain t where "global_optimize sample_env sample_gdml =
      (Return (recommend_from (aggregate_rewards_of (gd_rewards sample_gdml))), t)"
    by (auto simp: global_optimize_def op_defs)
  with optimizer_publishes_once [OF sample_gdml_reachable this rtranclp.rtrancl_refl, of sample_env] show ?thesis by blast
qed

theorem published_policy_enforced_witness:
  "\<exists>(s :: gdml) w g. gd_policy s = sample_policy \<and> g = fr_engine (gd_fabric s) \<and>
     State_Engine.patch ''e'' ''qso://a'' [] ''mallory'' ''v3'' ''local'' g = (Raise (ValueError w), g)"
proof -
  obtain t where run: "publish_policy sample_env sample_policy ''root'' ''local'' sample_gdml = (Return sample_policy, t)"
    using sample_published by blast
  then have r: "gdml_reachable t" by (rule sample_step)
  from run have p: "gd_policy t = sample_policy" by (cases rule: publish_cases) simp_all
  have "\<exists>w. State_Engine.patch ''e'' ''qso://a'' [] ''mallory'' ''v3'' ''local'' (fr_engine (gd_fabric t)) =
      (Raise (ValueError w), fr_engine (gd_fabric t))"
    by (rule published_policy_enforced [OF r]) (simp add: p sample_policy_def)
  then show ?thesis using p by blast
qed


end
