(* ===== verification/Global_Meta.thy ===== *)
theory Global_Meta
  imports Policy_Sync Quantum_Simulator
begin

text \<open>
  \<^verbatim>\<open>qso_global_meta\<close>: votes of nodes on policies and the decision among them, the rewards the nodes
  report with their mean, the hints made from it, and the engine and service that put them together.
  A set of voters is a list without repetitions.  The sorts by score are those of scores that compare: a
  NaN among them leaves the order to the sorting algorithm.
\<close>

section \<open>Consensus\<close>

record policy_proposal =
  pp_version :: string
  pp_body :: "pyval dict"
  pp_digest :: string

record consensus =
  cs_proposals :: "policy_proposal dict"
  cs_votes :: "string list dict"
  cs_last :: "pyval dict"

definition new_consensus :: consensus where
  "new_consensus = \<lparr>cs_proposals = [], cs_votes = [],
     cs_last = [(''accepted'', PBool False), (''reason'', PStr ''no_decision_yet''), (''chosen'', PNone)]\<rparr>"

definition proposal_of :: "pyval dict \<Rightarrow> policy_proposal" where
  "proposal_of policy = \<lparr>pp_version = to_str (dget_or policy ''version'' (PStr ''v1'')), pp_body = policy,
     pp_digest = hash_val (PDict policy)\<rparr>"

definition vote :: "string \<Rightarrow> string \<Rightarrow> (consensus, unit) op" where
  "vote node_id digest = (\<lambda>c.
     if has_key (cs_proposals c) digest
     then (Return (), c\<lparr>cs_votes := dset digest (List.insert node_id (dget_or (cs_votes c) digest [])) (cs_votes c)\<rparr>)
     else (Raise (KeyError (''unknown proposal digest: '' @ digest)), c))"

definition propose_body :: "string \<Rightarrow> pyval dict \<Rightarrow> (consensus, policy_proposal) op" where
  "propose_body node_id policy =
     (let p = proposal_of policy in
      thenS (writeS (\<lambda>c. if has_key (cs_proposals c) (pp_digest p) then c
          else c\<lparr>cs_proposals := dset (pp_digest p) p (cs_proposals c)\<rparr>))
        (thenS (vote node_id (pp_digest p)) (returnS p)))"

definition observe_vote_packet :: "pyval dict \<Rightarrow> (consensus, unit) op" where
  "observe_vote_packet packet =
     bindS (liftS (req_val packet ''node_id'')) (\<lambda>n.
     bindS (liftS (req_val packet ''proposal_digest'')) (\<lambda>d. vote (to_str n) (to_str d)))"

text \<open>Most votes first, equal ones by digest.\<close>

definition tally :: "consensus \<Rightarrow> (string \<times> nat) list" where
  "tally c = sort_key (\<lambda>(d, n). (- int n, d)) (map (\<lambda>(d, voters). (d, length voters)) (cs_votes c))"

definition chosen_json :: "policy_proposal \<Rightarrow> nat \<Rightarrow> pyval" where
  "chosen_json p votes = PDict [(''digest'', PStr (pp_digest p)), (''version'', PStr (pp_version p)),
     (''votes'', PInt (int votes)), (''body'', PDict (pp_body p))]"

definition vote_fraction :: "nat \<Rightarrow> int \<Rightarrow> pyfloat result" where
  "vote_fraction votes total_nodes =
     bindR (int_to_float total_nodes) (\<lambda>whole. Return (f_quot (rnd (of_nat votes)) whole))"

definition record_decision :: "pyval dict \<Rightarrow> (consensus, pyval dict) op" where
  "record_decision d = thenS (writeS (\<lambda>c. c\<lparr>cs_last := d\<rparr>)) (returnS d)"

definition accept_json :: "policy_proposal \<Rightarrow> nat \<Rightarrow> (string \<times> nat) list \<Rightarrow> pyval dict" where
  "accept_json p votes rows =
     [(''accepted'', PBool True), (''reason'', PStr ''ok''), (''chosen'', chosen_json p votes),
      (''tally'', PList (map (\<lambda>(d, n). PDict [(''digest'', PStr d), (''votes'', PInt (int n))]) rows))]"

definition decide :: "int option \<Rightarrow> pyfloat \<Rightarrow> (consensus, pyval dict) op" where
  "decide total_nodes quorum =
     bindS (readS (\<lambda>c. Return (tally c))) (\<lambda>rows. case rows of
       [] \<Rightarrow> record_decision [(''accepted'', PBool False), (''reason'', PStr ''no_votes''), (''chosen'', PNone)]
     | (best_digest, best_votes) # _ \<Rightarrow>
         bindS (readS (\<lambda>c. case dget (cs_proposals c) best_digest of
             Some p \<Rightarrow> Return p | None \<Rightarrow> Raise (KeyError best_digest))) (\<lambda>chosen.
         case total_nodes of
           None \<Rightarrow> record_decision (accept_json chosen best_votes rows)
         | Some n \<Rightarrow>
             if n \<le> 0 then raiseS (ValueError ''total_nodes must be > 0'')
             else bindS (liftS (vote_fraction best_votes n)) (\<lambda>frac.
               if f_less frac quorum
               then record_decision [(''accepted'', PBool False), (''reason'', PStr ''quorum_not_met''),
                 (''quorum'', PFloat quorum), (''vote_fraction'', PFloat frac), (''chosen'', chosen_json chosen best_votes)]
               else record_decision (accept_json chosen best_votes rows))))"

section \<open>Learning\<close>

type_synonym learning = "pyfloat dict dict"

definition unit_clip :: "pyfloat \<Rightarrow> pyfloat" where
  "unit_clip x = f_max (Fin 0) (f_min (Fin 1) x)"

text \<open>A value that does not read as a number is passed over.\<close>

definition take_rewards :: "pyval dict \<Rightarrow> pyfloat dict \<Rightarrow> pyfloat dict" where
  "take_rewards rewards state =
     foldl (\<lambda>st (uri, r). case to_float r of Inr x \<Rightarrow> dset uri x st | Inl _ \<Rightarrow> st) state rewards"

definition take_penalties :: "pyval dict \<Rightarrow> pyfloat dict \<Rightarrow> pyfloat dict" where
  "take_penalties penalties state =
     foldl (\<lambda>st (uri, p). case to_float p of
         Inr x \<Rightarrow> dset uri (unit_clip (f_sub (dget_or st uri (Fin 0)) x)) st | Inl _ \<Rightarrow> st) state penalties"

definition rows_of :: "pyval dict \<Rightarrow> string \<Rightarrow> pyval dict" where
  "rows_of signals k = (case dget_or signals k PNone of PDict d \<Rightarrow> d | _ \<Rightarrow> [])"

definition learn :: "string \<Rightarrow> pyval dict \<Rightarrow> (learning, pyfloat dict) op" where
  "learn node_id signals = (\<lambda>nodes.
     let state = take_penalties (rows_of signals ''penalties_by_uri'')
           (take_rewards (rows_of signals ''rewards_by_uri'') (dget_or nodes node_id []))
     in (Return state, dset node_id state nodes))"

definition add_reward :: "(pyfloat \<times> nat) dict \<Rightarrow> string \<times> pyfloat \<Rightarrow> (pyfloat \<times> nat) dict" where
  "add_reward acc kv = (case dget_or acc (fst kv) (Fin 0, 0) of (tot, k) \<Rightarrow>
     dset (fst kv) (f_add tot (snd kv), k + 1) acc)"

definition mean_rewards :: "learning \<Rightarrow> pyfloat dict" where
  "mean_rewards nodes =
     map (\<lambda>(uri, tot, k). (uri, round_dec 6 (f_div_len tot (max 1 k))))
       (foldl add_reward [] (concat (map snd nodes)))"

definition policy_hint :: "learning \<Rightarrow> pyval dict" where
  "policy_hint nodes =
     (let agg = mean_rewards nodes in
      if agg = [] then [(''mode'', PStr ''balanced''), (''reason'', PStr ''no_rewards'')]
      else (let m = f_div_len (f_sum (map snd agg)) (length agg) in
        [(''mode'', PStr (if f_less m (Fin (1 / 2)) then ''stability'' else ''balanced'')), (''reason'', PStr ''mean_reward''),
         (''mean_reward'', PFloat (round_dec 6 m))]))"

definition best_uri :: "learning \<Rightarrow> string option" where
  "best_uri nodes =
     (let agg = sort_key fst (mean_rewards nodes) in if agg = [] then None else Some (fst (best_node agg)))"

section \<open>Hints\<close>

record hint =
  hn_uri :: string
  hn_patch :: "pyval dict"
  hn_reason :: string
  hn_score :: pyfloat

definition tuning :: "string \<Rightarrow> string \<times> pyval" where
  "tuning mode = (''tuning'', PDict [(''mode'', PStr mode)])"

definition hint_for :: "string \<times> pyfloat \<Rightarrow> hint" where
  "hint_for kv = (case kv of (uri, r) \<Rightarrow>
     if f_less r (lit (35 / 100)) then
       \<lparr>hn_uri = uri, hn_patch = [(''stabilize'', PBool True), tuning ''stability''],
        hn_reason = ''low_reward_stabilize'', hn_score = f_sub (Fin 1) r\<rparr>
     else if f_less (Fin (3 / 4)) r then
       \<lparr>hn_uri = uri, hn_patch = [tuning ''balanced'', (''optimize'', PBool True)],
        hn_reason = ''high_reward_optimize'', hn_score = r\<rparr>
     else \<lparr>hn_uri = uri, hn_patch = [tuning ''balanced''], hn_reason = ''mid_reward_hold'', hn_score = Fin (1 / 2)\<rparr>)"

definition hint_before :: "hint \<Rightarrow> hint \<Rightarrow> bool" where
  "hint_before a b \<longleftrightarrow> f_less (hn_score b) (hn_score a) \<or>
     f_eq (hn_score a) (hn_score b) \<and> (hn_uri a < hn_uri b \<or> hn_uri a = hn_uri b \<and> hn_reason a < hn_reason b)"

fun insert_hint :: "hint \<Rightarrow> hint list \<Rightarrow> hint list" where
  "insert_hint h [] = [h]"
| "insert_hint h (k # ks) = (if hint_before h k then h # k # ks else k # insert_hint h ks)"

definition hint_json :: "hint \<Rightarrow> pyval dict" where
  "hint_json h = [(''uri'', PStr (hn_uri h)), (''patch'', PDict (hn_patch h)), (''reason'', PStr (hn_reason h)),
     (''score'', PFloat (round_dec 6 (hn_score h)))]"

definition recommend_hints :: "int \<Rightarrow> pyfloat dict \<Rightarrow> pyval dict list" where
  "recommend_hints top_k rewards =
     map hint_json (py_take top_k (foldl (\<lambda>acc kv. insert_hint (hint_for kv) acc) [] rewards))"

text \<open>The greatest reward, equal ones by name.\<close>

definition target_before :: "string \<times> pyfloat \<Rightarrow> string \<times> pyfloat \<Rightarrow> bool" where
  "target_before a b \<longleftrightarrow> f_less (snd b) (snd a) \<or> f_eq (snd a) (snd b) \<and> fst a < fst b"

definition best_target :: "pyfloat dict \<Rightarrow> (string \<times> pyfloat) option" where
  "best_target rewards =
     (if rewards = [] then None
      else Some (foldl (\<lambda>best kv. if target_before kv best then kv else best) (hd rewards) (tl rewards)))"

section \<open>The engine and the service\<close>

record meta_engine =
  me_consensus :: consensus
  me_learning :: learning
  me_policies :: "pyval dict dict"
  me_last_sync :: "pyval dict"

definition new_meta_engine :: meta_engine where
  "new_meta_engine = \<lparr>me_consensus = new_consensus, me_learning = [], me_policies = [], me_last_sync = [(''status'', PStr ''idle'')]\<rparr>"

definition on_consensus :: "(consensus, 'a) op \<Rightarrow> (meta_engine, 'a) op" where
  "on_consensus m = (\<lambda>s. case m (me_consensus s) of (r, c) \<Rightarrow> (r, s\<lparr>me_consensus := c\<rparr>))"

definition ingest_policy :: "string \<Rightarrow> pyval dict \<Rightarrow> (meta_engine, pyval dict) op" where
  "ingest_policy node_id policy =
     thenS (writeS (\<lambda>s. s\<lparr>me_policies := dset node_id policy (me_policies s)\<rparr>))
       (bindS (on_consensus (propose_body node_id policy)) (\<lambda>p.
         returnS [(''node_id'', PStr node_id), (''proposal_digest'', PStr (pp_digest p)), (''version'', PStr (pp_version p))]))"

definition ingest_learning :: "string \<Rightarrow> pyval dict \<Rightarrow> (meta_engine, pyval dict) op" where
  "ingest_learning node_id signals = (\<lambda>s. case learn node_id signals (me_learning s) of (r, l) \<Rightarrow>
     (bindR r (\<lambda>st. Return [(''node_id'', PStr node_id), (''uris'', PInt (int (length st)))]), s\<lparr>me_learning := l\<rparr>))"

definition float_rows :: "pyfloat dict \<Rightarrow> pyval" where
  "float_rows d = PDict (map (map_prod id PFloat) d)"

definition meta_sync :: "int option \<Rightarrow> pyfloat \<Rightarrow> (meta_engine, pyval dict) op" where
  "meta_sync total_nodes quorum =
     bindS (on_consensus (decide total_nodes quorum)) (\<lambda>decision.
     bindS (readS (\<lambda>s. let rewards = mean_rewards (me_learning s) in Return
         [(''status'', PStr ''ok''), (''consensus'', PDict decision),
          (''learning'', PDict [(''policy_hint'', PDict (policy_hint (me_learning s))), (''rewards_by_uri'', float_rows rewards)]),
          (''optimizer'', PDict [(''recommendations'', PList (map PDict (recommend_hints 10 rewards)))])])) (\<lambda>out.
       thenS (writeS (\<lambda>s. s\<lparr>me_last_sync := out\<rparr>)) (returnS out)))"

definition meta_snapshot :: "meta_engine \<Rightarrow> pyval dict" where
  "meta_snapshot s =
     [(''policies_by_node'', PDict (map (map_prod id PDict) (me_policies s))),
      (''learning'', PDict [(''nodes'', PDict (map (\<lambda>(n, d). (n, PDict [(''rewards_by_uri'', float_rows d)])) (me_learning s)))]),
      (''consensus'', PDict (cs_last (me_consensus s))), (''last_sync'', PDict (me_last_sync s))]"

definition meta_suggest :: "meta_engine \<Rightarrow> pyval dict" where
  "meta_suggest s =
     (let snap = meta_snapshot s in
      if dget_or (me_last_sync s) ''status'' PNone = PStr ''ok'' then me_last_sync s
      else [(''status'', PStr ''idle''), (''consensus'', dget_or snap ''consensus'' PNone),
            (''learning'', dget_or snap ''learning'' PNone)])"

definition default_quorum :: pyfloat where
  "default_quorum = lit (51 / 100)"

definition sync_from_runtime :: "gdml \<Rightarrow> string \<Rightarrow> (meta_engine, pyval dict) op" where
  "sync_from_runtime g node_id =
     thenS (ingest_policy node_id (val_row (current_policy g))) (meta_sync None default_quorum)"

section \<open>Rewards by node and the bridge\<close>

type_synonym node_rewards = "pyfloat dict dict"

definition submit_reward :: "string \<Rightarrow> string \<Rightarrow> pyfloat \<Rightarrow> node_rewards \<Rightarrow> node_rewards" where
  "submit_reward node_id uri reward rs = dset node_id (dset uri reward (dget_or rs node_id [])) rs"

definition global_score :: "string \<Rightarrow> node_rewards \<Rightarrow> pyfloat" where
  "global_score uri rs =
     (let vs = concat (map (\<lambda>(n, d). case dget d uri of Some r \<Rightarrow> [r] | None \<Rightarrow> []) rs)
      in if vs = [] then Fin 0 else f_div_len (f_sum vs) (length vs))"

definition report_local_performance :: "pyval dict \<Rightarrow> (node_rewards, pyval dict) op" where
  "report_local_performance metrics =
     bindS (liftS (to_float (dget_or metrics ''reward_signal'' (PFloat (Fin 0))))) (\<lambda>reward.
       let node_id = to_str (dget_or metrics ''node_id'' (PStr ''local''));
           uri = to_str (dget_or metrics ''uri'' (PStr ''qso://meta.local''))
       in thenS (writeS (submit_reward node_id uri reward))
         (returnS [(''node_id'', PStr node_id), (''uri'', PStr uri), (''reward'', PFloat reward)]))"

text \<open>The nodes of a registry and the policies reported for them.\<close>

definition register_meta_node :: "string \<Rightarrow> pyval \<Rightarrow> pyval \<Rightarrow> pyval dict dict \<Rightarrow> pyval dict dict" where
  "register_meta_node node_id address capabilities nodes =
     dset node_id [(''address'', address), (''capabilities'', capabilities)] nodes"

definition active_nodes :: "pyval dict dict \<Rightarrow> string list" where
  "active_nodes nodes = dkeys nodes"

definition adaptive_sync :: "pyval dict \<Rightarrow> pyval dict dict \<Rightarrow> pyval dict dict" where
  "adaptive_sync policies held =
     foldl (\<lambda>acc (node_id, v). case v of PDict policy \<Rightarrow> dset node_id policy acc | _ \<Rightarrow> acc) held policies"

text \<open>The bridge over a registry of nodes and the engine.\<close>

definition synchronize_global_meta :: "pyval dict dict \<Rightarrow> (meta_engine, pyval dict) op" where
  "synchronize_global_meta nodes =
     (let active = active_nodes nodes in
     thenS (eachS (\<lambda>n. thenS (ingest_policy n [(''version'', PStr ''v1''), (''mode'', PStr ''balanced'')]) (returnS ())) active)
       (bindS (meta_sync (if active \<noteq> [] then Some (int (length active)) else None) default_quorum) (\<lambda>decision.
         returnS [(''nodes'', PStrs active), (''sync'', PDict decision)])))"

section \<open>The decision\<close>

definition consensus_ok :: "consensus \<Rightarrow> bool" where
  "consensus_ok c \<longleftrightarrow>
     (\<forall>d p. dget (cs_proposals c) d = Some p \<longrightarrow> pp_digest p = d \<and> hash_val (PDict (pp_body p)) = d) \<and>
     (\<forall>d voters. dget (cs_votes c) d = Some voters \<longrightarrow> has_key (cs_proposals c) d \<and> distinct voters \<and> voters \<noteq> []) \<and>
     distinct (dkeys (cs_votes c))"

inductive consensus_step :: "consensus \<Rightarrow> consensus \<Rightarrow> bool" where
  proposed: "consensus_step c (snd (propose_body node_id policy c))"
| voted: "consensus_step c (snd (vote node_id digest c))"
| received: "consensus_step c (snd (observe_vote_packet packet c))"
| decided: "consensus_step c (snd (decide total_nodes quorum c))"

definition consensus_reachable :: "consensus \<Rightarrow> bool" where
  "consensus_reachable c \<longleftrightarrow> consensus_step\<^sup>*\<^sup>* new_consensus c"

lemma keeps_vote: "keeps consensus_ok (vote node_id digest)"
proof -
  have "consensus_ok (c\<lparr>cs_votes := dset digest (List.insert node_id (dget_or (cs_votes c) digest [])) (cs_votes c)\<rparr>)"
    if "consensus_ok c" "has_key (cs_proposals c) digest" for c
  proof -
    have "distinct (List.insert node_id (dget_or (cs_votes c) digest []))"
      using that(1) by (auto simp: consensus_ok_def dget_or_def intro!: distinct_insert split: option.splits)
    moreover have "List.insert node_id vs \<noteq> []" for vs by (cases vs) (auto simp: List.insert_def)
    ultimately show ?thesis using that by (auto simp: consensus_ok_def dkeys_dset)
  qed
  then show ?thesis by (auto simp: keeps_def vote_def)
qed

lemma keeps_propose_body: "keeps consensus_ok (propose_body node_id policy)"
proof -
  have "keeps consensus_ok (writeS (\<lambda>c. if has_key (cs_proposals c) (pp_digest (proposal_of policy)) then c
      else c\<lparr>cs_proposals := dset (pp_digest (proposal_of policy)) (proposal_of policy) (cs_proposals c)\<rparr>))"
    by (auto simp: keeps_def writeS_def consensus_ok_def proposal_of_def has_key_def)
  then show ?thesis unfolding propose_body_def Let_def by (intro keeps_intros keeps_vote)
qed

lemma keeps_packet: "keeps consensus_ok (observe_vote_packet packet)"
  unfolding observe_vote_packet_def by (intro keeps_intros keeps_vote)

lemma keeps_record_decision: "keeps consensus_ok (record_decision d)"
proof -
  have "keeps consensus_ok (writeS (\<lambda>c. c\<lparr>cs_last := d\<rparr>))" by (simp add: keeps_def writeS_def consensus_ok_def)
  then show ?thesis unfolding record_decision_def by (intro keeps_intros)
qed

lemma keeps_decide: "keeps consensus_ok (decide total_nodes quorum)"
proof -
  have rows: "keeps consensus_ok (case rows of [] \<Rightarrow> m | (d, n) # xs \<Rightarrow> f d n xs)"
    if "keeps consensus_ok m" "\<And>d n xs. keeps consensus_ok (f d n xs)"
    for rows :: "(string \<times> nat) list" and m :: "(consensus, pyval dict) op" and f
    using that by (auto split: list.splits)
  show ?thesis unfolding decide_def by (intro keeps_intros keeps_record_decision rows)
qed

lemma consensus_reachable_ok: "consensus_reachable c \<Longrightarrow> consensus_ok c"
  unfolding consensus_reachable_def
proof (induction rule: rtranclp_induct)
  case (step c d)
  from step(2,3) show ?case
    by (induction rule: consensus_step.induct) (simp_all add: keepsD keeps_vote keeps_propose_body keeps_packet keeps_decide)
qed (simp add: consensus_ok_def new_consensus_def)

lemma tally_first:
  assumes "tally c = (d, n) # rows" "distinct (dkeys (cs_votes c))"
  obtains voters where "dget (cs_votes c) d = Some voters" "n = length voters"
    "\<And>d' vs. dget (cs_votes c) d' = Some vs \<Longrightarrow> length vs < n \<or> length vs = n \<and> d \<le> d'"
proof -
  let ?items = "map (\<lambda>(d, voters). (d, length voters)) (cs_votes c)" and ?key = "\<lambda>(d :: string, n :: nat). (- int n, d)"
  have items: "set (tally c) = set ?items" by (simp add: tally_def)
  have "(d, n) \<in> set ?items" using assms(1) items by (metis list.set_intros(1))
  then obtain voters where v: "(d, voters) \<in> set (cs_votes c)" "n = length voters" by auto
  then have get: "dget (cs_votes c) d = Some voters" using assms(2) by simp
  have "sorted (map ?key (tally c))" unfolding tally_def by (rule sorted_sort_key)
  then have least: "?key (d, n) \<le> ?key x" if "x \<in> set (tally c)" for x using that assms(1) by auto
  have "length vs < n \<or> length vs = n \<and> d \<le> d'" if "dget (cs_votes c) d' = Some vs" for d' vs
  proof -
    have "(d', vs) \<in> set (cs_votes c)" using that by (rule map_of_SomeD)
    then have "(d', length vs) \<in> set (tally c)" unfolding items by force
    from least [OF this] show ?thesis by (auto simp: less_eq_prod_def)
  qed
  then show thesis by (rule that [OF get v(2)])
qed

lemma record_decision_result: "record_decision d c = (Return d, c\<lparr>cs_last := d\<rparr>)"
  by (simp add: record_decision_def op_defs)

lemma decide_accepts:
  assumes "decide total_nodes quorum c = (Return r, t)" "dget r ''accepted'' = Some (PBool True)"
  obtains d n rows p where "tally c = (d, n) # rows" "dget (cs_proposals c) d = Some p" "r = accept_json p n (tally c)"
    "\<And>k. total_nodes = Some k \<Longrightarrow> 0 < k \<and> (\<exists>frac. vote_fraction n k = Return frac \<and> \<not> f_less frac quorum)"
proof (cases "tally c")
  case (Cons row rows)
  obtain d n where row: "row = (d, n)" by fastforce
  show thesis
  proof (cases "dget (cs_proposals c) d")
    case (Some p)
    have run: "(case total_nodes of None \<Rightarrow> record_decision (accept_json p n (tally c))
         | Some k \<Rightarrow> if k \<le> 0 then raiseS (ValueError ''total_nodes must be > 0'')
             else bindS (liftS (vote_fraction n k)) (\<lambda>frac.
               if f_less frac quorum
               then record_decision [(''accepted'', PBool False), (''reason'', PStr ''quorum_not_met''),
                 (''quorum'', PFloat quorum), (''vote_fraction'', PFloat frac), (''chosen'', chosen_json p n)]
               else record_decision (accept_json p n (tally c)))) c = (Return r, t)"
      using assms(1) Cons row Some by (simp add: decide_def bindS_def readS_def)
    show thesis
    proof (cases total_nodes)
      case None
      then show thesis using run that [of d n rows p] Cons row Some by (simp add: record_decision_result)
    next
      case (Some k)
      then have k: "0 < k" using run by (auto simp: raiseS_def split: if_splits)
      then obtain frac where frac: "vote_fraction n k = Return frac"
        using run Some by (auto simp: bindS_Return)
      have "\<not> f_less frac quorum \<and> r = accept_json p n (tally c)"
        using run Some k frac assms(2) by (auto simp: bindS_def liftS_def record_decision_result split: if_splits)
      then show thesis using that [of d n rows p] Cons row \<open>dget (cs_proposals c) d = Some p\<close> Some k frac by auto
    qed
  qed (use assms Cons row in \<open>simp add: decide_def op_defs\<close>)
qed (use assms in \<open>auto simp: decide_def bindS_def readS_def record_decision_result\<close>)

text \<open>
  C28: a policy the consensus accepts is the body its digest was made of, no proposal has more voters
  and none with as many a smaller digest, every voter counts once for it, and when the number of nodes
  is given its share of them is not below the quorum.
\<close>

theorem consensus_accepts_most_voted:
  assumes "consensus_reachable c" "decide total_nodes quorum c = (Return r, t)" "dget r ''accepted'' = Some (PBool True)"
  shows "\<exists>d p voters. dget (cs_votes c) d = Some voters \<and> distinct voters \<and> dget r ''chosen'' = Some (chosen_json p (length voters)) \<and>
    pp_digest p = d \<and> hash_val (PDict (pp_body p)) = d \<and>
    (\<forall>d' vs. dget (cs_votes c) d' = Some vs \<longrightarrow> length vs < length voters \<or> length vs = length voters \<and> d \<le> d') \<and>
    (\<forall>k. total_nodes = Some k \<longrightarrow> 0 < k \<and> (\<exists>frac. vote_fraction (length voters) k = Return frac \<and> \<not> f_less frac quorum))"
proof -
  have ok: "consensus_ok c" by (rule consensus_reachable_ok [OF assms(1)])
  obtain d n rows p where d: "tally c = (d, n) # rows" "dget (cs_proposals c) d = Some p" "r = accept_json p n (tally c)"
    "\<And>k. total_nodes = Some k \<Longrightarrow> 0 < k \<and> (\<exists>frac. vote_fraction n k = Return frac \<and> \<not> f_less frac quorum)"
    by (rule decide_accepts [OF assms(2,3)]) blast
  obtain voters where v: "dget (cs_votes c) d = Some voters" "n = length voters"
    "\<And>d' vs. dget (cs_votes c) d' = Some vs \<Longrightarrow> length vs < n \<or> length vs = n \<and> d \<le> d'"
    using tally_first [OF d(1)] ok unfolding consensus_ok_def by metis
  have "dget r ''chosen'' = Some (chosen_json p (length voters))" using d(3) v(2) by (simp add: accept_json_def)
  then show ?thesis using ok v d(2,4) unfolding consensus_ok_def by blast
qed

lemma tally_of_votes:
  assumes "consensus_ok c" "consensus_ok c'" "\<forall>d. set (dget_or (cs_votes c) d []) = set (dget_or (cs_votes c') d [])"
  shows "tally c = tally c'"
proof -
  let ?items = "\<lambda>c. map (\<lambda>(d, voters). (d, length voters)) (cs_votes c)" and ?key = "\<lambda>(d :: string, n :: nat). (- int n, d)"
  have dist: "distinct (?items c)" if "consensus_ok c" for c
  proof -
    have "map fst (?items c) = dkeys (cs_votes c)" by auto
    then show ?thesis using that unfolding consensus_ok_def by (metis distinct_map)
  qed
  have sub: "set (?items c) \<subseteq> set (?items c')"
    if "consensus_ok c" "consensus_ok c'" "\<forall>d. set (dget_or (cs_votes c) d []) = set (dget_or (cs_votes c') d [])" for c c'
  proof
    fix x assume "x \<in> set (?items c)"
    then obtain d vs where x: "(d, vs) \<in> set (cs_votes c)" "x = (d, length vs)" by auto
    then have vs: "dget (cs_votes c) d = Some vs" using that(1) by (simp add: consensus_ok_def)
    then have "set (dget_or (cs_votes c') d []) = set vs" using that(3) by (metis dget_or_def option.simps(5))
    moreover have "distinct vs" "vs \<noteq> []" using that(1) vs unfolding consensus_ok_def by blast+
    ultimately have "set (dget_or (cs_votes c') d []) = set vs" "distinct vs" "vs \<noteq> []" by blast+
    then obtain vs' where vs': "dget (cs_votes c') d = Some vs'" "set vs' = set vs"
      by (cases "dget (cs_votes c') d") (simp_all add: dget_or_def)
    then have "length vs' = length vs" using that(2) \<open>distinct vs\<close> by (metis consensus_ok_def distinct_card)
    then show "x \<in> set (?items c')" using map_of_SomeD [OF vs'(1)] x(2) by force
  qed
  have "mset (?items c) = mset (?items c')"
    using sub [OF assms] sub [OF assms(2,1)] assms(3) dist assms(1,2)
    by (subst set_eq_iff_mset_eq_distinct [symmetric]) auto
  moreover have "inj_on ?key (set (?items c))" by (auto simp: inj_on_def)
  ultimately show ?thesis
    unfolding tally_def by (intro sort_key_inj_key_eq) (simp_all only: mset_sort sorted_sort_key)
qed

text \<open>
  C36: the decision does not depend on the order in which proposals and votes came in: two nodes that
  know the same proposals and the same voters of each decide the same.
\<close>

theorem consensus_order_independent:
  assumes "consensus_reachable c" "consensus_reachable c'"
    and "\<forall>d. dget (cs_proposals c) d = dget (cs_proposals c') d"
    and "\<forall>d. set (dget_or (cs_votes c) d []) = set (dget_or (cs_votes c') d [])"
  shows "fst (decide total_nodes quorum c) = fst (decide total_nodes quorum c')"
proof -
  have "tally c = tally c'"
    using tally_of_votes consensus_reachable_ok assms by blast
  then show ?thesis
    using assms(3)
    by (auto simp: decide_def bindS_def readS_def liftS_def raiseS_def record_decision_result split: list.splits option.splits sum.splits)
qed

text \<open>
  A node that changes its mind does not take its vote back: after it ingests another policy it is
  among the voters of both, and the digest that sorts first wins the tie.
\<close>

lemma old_vote_stays:
  assumes "pp_digest (proposal_of p) \<noteq> pp_digest (proposal_of q)"
  shows "cs_votes (snd (thenS (propose_body node p) (propose_body node q) new_consensus)) =
    [(pp_digest (proposal_of p), [node]), (pp_digest (proposal_of q), [node])]"
  using assms by (simp add: propose_body_def op_defs Let_def vote_def new_consensus_def has_key_def dget_or_def)

section \<open>Samples\<close>

definition sample_body :: "pyval dict" where
  "sample_body = [(''version'', PStr ''v2'')]"

definition sample_consensus :: consensus where
  "sample_consensus = snd (thenS (propose_body ''a'' sample_body) (propose_body ''b'' sample_body) new_consensus)"

definition other_consensus :: consensus where
  "other_consensus = snd (thenS (propose_body ''b'' sample_body) (propose_body ''a'' sample_body) new_consensus)"

lemma two_proposals_reachable: "consensus_reachable (snd (thenS (propose_body a p) (propose_body b q) new_consensus))"
proof -
  have "fst (propose_body a p new_consensus) = Return (proposal_of p)"
    by (simp add: propose_body_def op_defs Let_def vote_def has_key_def new_consensus_def)
  then obtain x t where "propose_body a p new_consensus = (Return x, t)" by (metis prod.collapse)
  then have "snd (thenS (propose_body a p) (propose_body b q) new_consensus) = snd (propose_body b q (snd (propose_body a p new_consensus)))"
    by (simp add: thenS_def bindS_def)
  then show ?thesis unfolding consensus_reachable_def
    by (metis consensus_step.proposed rtranclp.rtrancl_into_rtrancl rtranclp.rtrancl_refl)
qed

lemma sample_consensus_eq:
  "cs_votes sample_consensus = [(hash_val (PDict sample_body), [''b'', ''a''])]"
  "cs_votes other_consensus = [(hash_val (PDict sample_body), [''a'', ''b''])]"
  "cs_proposals sample_consensus = [(hash_val (PDict sample_body), proposal_of sample_body)]"
  "cs_proposals other_consensus = [(hash_val (PDict sample_body), proposal_of sample_body)]"
  by (simp_all add: sample_consensus_def other_consensus_def propose_body_def op_defs Let_def vote_def new_consensus_def
      has_key_def dget_or_def proposal_of_def)

theorem consensus_order_independent_witness:
  "fst (decide (Some 2) (Fin (1 / 2)) sample_consensus) = fst (decide (Some 2) (Fin (1 / 2)) other_consensus)"
  by (rule consensus_order_independent)
    (unfold sample_consensus_eq, auto simp: sample_consensus_def other_consensus_def two_proposals_reachable dget_or_def)

theorem consensus_accepts_most_voted_witness:
  "\<exists>r t p. decide (Some 2) (Fin (1 / 2)) sample_consensus = (Return r, t) \<and> dget r ''chosen'' = Some (chosen_json p 2) \<and>
     hash_val (PDict (pp_body p)) = hash_val (PDict sample_body)"
proof -
  have reach: "consensus_reachable sample_consensus" unfolding sample_consensus_def by (rule two_proposals_reachable)
  have tally: "tally sample_consensus = [(hash_val (PDict sample_body), 2)]" by (simp add: tally_def sample_consensus_eq)
  have two: "rnd 2 = Fin 2" using rnd_small_int [of 2] by simp
  then have "vote_fraction 2 2 = Return (Fin 1)"
    using rnd_small_int [of 1] by (simp add: vote_fraction_def int_to_float_def f_quot_def)
  then obtain r t where run: "decide (Some 2) (Fin (1 / 2)) sample_consensus = (Return r, t)" "dget r ''accepted'' = Some (PBool True)"
    by (simp add: decide_def tally op_defs sample_consensus_eq record_decision_result accept_json_def)
  from consensus_accepts_most_voted [OF reach run] obtain d p voters where
    "dget (cs_votes sample_consensus) d = Some voters" "dget r ''chosen'' = Some (chosen_json p (length voters))" "hash_val (PDict (pp_body p)) = d"
    by blast
  moreover from this(1) have "length voters = 2" by (auto simp: sample_consensus_eq split: if_splits)
  moreover from calculation(1) have "d = hash_val (PDict sample_body)" by (auto simp: sample_consensus_eq split: if_splits)
  ultimately show ?thesis using run(1) by metis
qed

end
