(* ===== verification/Service_Scores.thy ===== *)
theory Service_Scores
  imports Quantum_Simulator Transport_Models
begin

text \<open>
  \<^verbatim>\<open>services/meta_learning\<close>, \<^verbatim>\<open>services/qcc\<close> and \<^verbatim>\<open>services/oracle\<close>: suggestions from a window of
  samples, the mode a workload is advised to use, the units a job is charged, the score of a provider
  and the record of a settlement.
\<close>

section \<open>Samples\<close>

record meta_metrics =
  mm_latency_ms :: pyfloat
  mm_throughput :: pyfloat
  mm_reward_signal :: pyfloat
  mm_error_rate :: pyfloat
  mm_policy_performance :: pyfloat

record meta_learning =
  ml_samples :: "meta_metrics list"
  ml_max_window :: nat

definition observe_metrics :: "meta_metrics \<Rightarrow> meta_learning \<Rightarrow> meta_learning" where
  "observe_metrics m s =
     (let xs = ml_samples s @ [m] in s\<lparr>ml_samples := drop (length xs - ml_max_window s) xs\<rparr>)"

text \<open>\<open>statistics.mean\<close> of floats: the exact mean, rounded once; of what is not finite, the sum.\<close>

definition exact_mean :: "pyfloat list \<Rightarrow> pyfloat" where
  "exact_mean xs =
     (if list_all (\<lambda>x. case x of Fin _ \<Rightarrow> True | _ \<Rightarrow> False) xs
      then rnd (sum_list (map (\<lambda>x. case x of Fin q \<Rightarrow> q | _ \<Rightarrow> 0) xs) / of_nat (length xs))
      else f_sum (filter (\<lambda>x. case x of Fin _ \<Rightarrow> False | _ \<Rightarrow> True) xs))"

definition suggest :: "meta_learning \<Rightarrow> pyval dict" where
  "suggest s =
     (if ml_samples s = [] then [(''policy_update'', PStr ''none''), (''scaling_hint'', PStr ''stable'')]
      else (let avg = (\<lambda>f. exact_mean (map f (ml_samples s))); avg_latency = avg mm_latency_ms;
                avg_throughput = avg mm_throughput; avg_error = avg mm_error_rate
            in [(''avg_latency_ms'', PFloat (round_dec 3 avg_latency)), (''avg_throughput'', PFloat (round_dec 3 avg_throughput)),
                (''avg_error_rate'', PFloat (round_dec 5 avg_error)),
                (''policy_update'', PStr (if f_less (lit (2 / 100)) avg_error then ''tighten_validation'' else ''keep'')),
                (''scaling_hint'', PStr (if f_less (Fin 120) avg_latency \<and> f_less (Fin 100) avg_throughput
                   then ''scale_out'' else ''stable''))]))"

section \<open>Advice on transport\<close>

definition advised_mode :: "string \<Rightarrow> pyfloat \<Rightarrow> pyfloat \<Rightarrow> pyfloat \<Rightarrow> string" where
  "advised_mode workload error_rate latency_ms volatility =
     (if workload = ''market_execution''
      then (if f_le latency_ms (Fin 250) \<and> f_less error_rate (lit (1 / 10)) then ''direct'' else ''vpn'')
      else if workload = ''model_training''
      then (if f_less (lit (5 / 100)) error_rate then ''vpn'' else ''direct'')
      else if f_less (lit (2 / 10)) error_rate then ''vpn''
      else if f_less volatility (lit (35 / 100)) \<and> f_less latency_ms (Fin 500) then ''tor''
      else ''direct'')"

definition advice_confidence :: "pyfloat \<Rightarrow> pyfloat \<Rightarrow> pyfloat" where
  "advice_confidence error_rate volatility =
     f_max (lit (1 / 10)) (f_min (lit (99 / 100))
       (f_sub (f_sub (Fin 1) error_rate) (f_mul (f_min volatility (Fin (1 / 2))) (lit (3 / 10)))))"

definition latency_factor_of :: "string \<Rightarrow> pyfloat" where
  "latency_factor_of mode = (if mode = ''vpn'' then lit (105 / 100) else if mode = ''tor'' then lit (12 / 10) else Fin 1)"

definition recommend_transport :: "pyval dict \<Rightarrow> pyval dict result" where
  "recommend_transport metrics =
     bindR (to_float (dget_or metrics ''error_rate'' (PFloat (Fin 0)))) (\<lambda>error_rate.
     bindR (to_float (dget_or metrics ''latency_ms'' (PFloat (Fin 0)))) (\<lambda>latency_ms.
     bindR (to_float (dget_or metrics ''volatility'' (PFloat (Fin 0)))) (\<lambda>volatility.
       let mode = advised_mode (to_str (dget_or metrics ''workload'' (PStr ''research''))) error_rate latency_ms volatility;
           confidence = advice_confidence error_rate volatility
       in Return [(''recommended_mode'', PStr mode), (''confidence_score'', PFloat (round_dec 4 confidence)),
         (''projected_latency_ms'', PFloat (round_dec 6 (f_mul latency_ms (latency_factor_of mode)))),
         (''risk_adjusted_score'', PFloat (round_dec 6 (f_mul (f_sub (Fin 1) error_rate) confidence)))])))"

definition suggest_transport :: "string \<Rightarrow> pyfloat \<Rightarrow> pyfloat \<Rightarrow> pyfloat \<Rightarrow> pyval dict result" where
  "suggest_transport workload latency_ms error_rate volatility =
     recommend_transport [(''workload'', PStr workload), (''latency_ms'', PFloat latency_ms),
       (''error_rate'', PFloat error_rate), (''volatility'', PFloat volatility)]"

section \<open>Units, providers, settlements\<close>

definition job_count :: "pyval dict \<Rightarrow> string \<Rightarrow> int \<Rightarrow> int result" where
  "job_count job k def = bindR (to_int (dget_or job k (PInt def))) (\<lambda>n. Return (max 1 n))"

definition estimate_qcu :: "pyval dict \<Rightarrow> pyval dict result" where
  "estimate_qcu job =
     bindR (job_count job ''qubit_count'' 1) (\<lambda>qubits.
     bindR (job_count job ''depth'' 1) (\<lambda>depth.
     bindR (job_count job ''shots'' 1024) (\<lambda>shots.
     bindR (int_to_float (qubits * depth * shots)) (\<lambda>volume.
     bindR (int_to_float qubits) (\<lambda>q.
     bindR (int_to_float depth) (\<lambda>d.
     bindR (int_to_float shots) (\<lambda>n.
       Return [(''qcu'', PFloat (round_dec 8 (f_quot volume (Fin 1000000)))), (''qubits'', PFloat q), (''depth'', PFloat d),
         (''shots'', PFloat n)])))))))"

definition mint_payload :: "string \<Rightarrow> pyfloat \<Rightarrow> string \<Rightarrow> pyval dict" where
  "mint_payload wallet qcu nonce =
     [(''wallet'', PStr wallet), (''qcu'', PFloat (round_dec 8 qcu)), (''nonce'', PStr nonce), (''token_type'', PStr ''QCC'')]"

definition burn_payload :: "string \<Rightarrow> pyfloat \<Rightarrow> string \<Rightarrow> pyval dict" where
  "burn_payload wallet qcu nonce =
     [(''wallet'', PStr wallet), (''qcu'', PFloat (round_dec 8 qcu)), (''nonce'', PStr nonce), (''token_type'', PStr ''QCC''),
      (''action'', PStr ''burn'')]"

definition provider_tier :: "pyfloat \<Rightarrow> string" where
  "provider_tier score =
     (if f_le (lit (85 / 100)) score then ''gold'' else if f_le (lit (6 / 10)) score then ''silver'' else ''bronze'')"

definition provider_reliability :: "pyfloat \<Rightarrow> pyfloat \<Rightarrow> pyfloat" where
  "provider_reliability uptime error_rate = clip_unit (f_mul uptime (f_sub (Fin 1) error_rate))"

definition provider_latency :: "pyfloat \<Rightarrow> pyfloat" where
  "provider_latency latency_ms = clip_unit (f_sub (Fin 1) (f_quot (f_min latency_ms (Fin 2000)) (Fin 2000)))"

definition provider_score :: "pyfloat \<Rightarrow> pyfloat \<Rightarrow> pyfloat" where
  "provider_score reliability latency_factor =
     round_dec 6 (f_add (f_mul (lit (7 / 10)) reliability) (f_mul (lit (3 / 10)) latency_factor))"

definition score_provider :: "pyval dict \<Rightarrow> pyval dict result" where
  "score_provider telemetry =
     bindR (to_float (dget_or telemetry ''uptime'' (PFloat (Fin 0)))) (\<lambda>uptime.
     bindR (to_float (dget_or telemetry ''error_rate'' (PFloat (Fin 1)))) (\<lambda>error_rate.
     bindR (to_float (dget_or telemetry ''latency_ms'' (PFloat (Fin 1000)))) (\<lambda>latency_ms.
       let reliability = provider_reliability uptime error_rate; latency_factor = provider_latency latency_ms;
           score = provider_score reliability latency_factor
       in Return [(''score'', PFloat score), (''tier'', PStr (provider_tier score)),
         (''reliability'', PFloat (round_dec 6 reliability)), (''latency_factor'', PFloat (round_dec 6 latency_factor))])))"

definition settlement_fields :: "string \<Rightarrow> string \<Rightarrow> pyfloat \<Rightarrow> pyfloat \<Rightarrow> string \<Rightarrow> pyval dict" where
  "settlement_fields ts settlement_id qcu_consumed unit_price provider_id =
     [(''settlement_id'', PStr settlement_id), (''qcu_consumed'', PFloat qcu_consumed), (''unit_price'', PFloat unit_price),
      (''gross'', PFloat (f_mul qcu_consumed unit_price)), (''provider_id'', PStr provider_id), (''ts'', PStr ts)]"

definition settle :: "string \<Rightarrow> string \<Rightarrow> pyfloat \<Rightarrow> pyfloat \<Rightarrow> string \<Rightarrow> pyval dict" where
  "settle ts settlement_id qcu_consumed unit_price provider_id =
     (let payload = settlement_fields ts settlement_id qcu_consumed unit_price provider_id
      in payload @ [(''record_hash'', PStr (hash_val (PDict payload)))])"

section \<open>Advice and policy\<close>

text \<open>The policy engine the runtime builds when no file is given.\<close>

definition runtime_transport_policy :: "string \<Rightarrow> policy_engine" where
  "runtime_transport_policy version =
     policy_from_mapping (Some [(''version'', PStr version), (''policy'', PDict DEFAULT_TRANSPORT_POLICY)]) version"

lemma runtime_policy_table:
  "pe_policy (runtime_transport_policy version) =
     [(''research'', [''direct'', ''tor'', ''vpn'']), (''model_training'', [''direct'', ''vpn'']),
      (''market_execution'', [''direct'', ''vpn'']), (''identity_binding'', [''direct'']),
      (''transport_control'', [''direct'', ''tor'', ''vpn''])]"
proof -
  have m: "read_modes (PStrs [''direct'', ''vpn'', ''tor'']) = [''direct'', ''tor'', ''vpn'']"
      "read_modes (PStrs [''direct'', ''vpn'']) = [''direct'', ''vpn'']" "read_modes (PStrs [''direct'']) = [''direct'']"
    by code_simp+
  have "foldl (\<lambda>acc kv. dset (fst kv) (read_modes (snd kv)) acc) [] DEFAULT_TRANSPORT_POLICY =
     [(''research'', [''direct'', ''tor'', ''vpn'']), (''model_training'', [''direct'', ''vpn'']),
      (''market_execution'', [''direct'', ''vpn'']), (''identity_binding'', [''direct'']),
      (''transport_control'', [''direct'', ''tor'', ''vpn''])]"
    unfolding DEFAULT_TRANSPORT_POLICY_def foldl_Cons foldl_Nil fst_conv snd_conv m by simp
  then show ?thesis
    by (simp add: runtime_transport_policy_def policy_from_mapping_def Let_def dget_or_def has_key_def)
qed

lemma advised_modes: "advised_mode w e l v \<in> {''direct'', ''vpn'', ''tor''}"
  by (simp add: advised_mode_def)

lemma mode_texts: "lower (strip ''direct'') = ''direct''" "lower (strip ''vpn'') = ''vpn''" "lower (strip ''tor'') = ''tor''"
  by code_simp+

lemma allowed_table:
  assumes "strip workload = workload" "workload \<noteq> []" "mode \<in> {''direct'', ''vpn'', ''tor''}"
  shows "allows (runtime_transport_policy version) workload mode \<longleftrightarrow>
    (if workload \<in> {''research'', ''transport_control''} then True
     else if workload = ''identity_binding'' then mode = ''direct'' else mode \<noteq> ''tor'')"
proof -
  have m: "lower (strip mode) = mode" using assms(3) mode_texts by auto
  have "allows (runtime_transport_policy version) workload mode \<longleftrightarrow>
      mode \<in> set (case dget (pe_policy (runtime_transport_policy version)) workload of Some ms \<Rightarrow> ms
        | None \<Rightarrow> dget_or (pe_policy (runtime_transport_policy version)) ''model_training'' [mode_value DIRECT])"
    using assms(1,2) by (simp add: allows_def Let_def m)
  moreover have "(case dget (pe_policy (runtime_transport_policy version)) workload of Some ms \<Rightarrow> ms
        | None \<Rightarrow> dget_or (pe_policy (runtime_transport_policy version)) ''model_training'' [mode_value DIRECT]) =
      (if workload \<in> {''research'', ''transport_control''} then [''direct'', ''tor'', ''vpn'']
       else if workload = ''identity_binding'' then [''direct''] else [''direct'', ''vpn''])"
  proof -
    consider "workload = ''research''" | "workload = ''model_training''" | "workload = ''market_execution''"
      | "workload = ''identity_binding''" | "workload = ''transport_control''"
      | "workload \<noteq> ''research''" "workload \<noteq> ''model_training''" "workload \<noteq> ''market_execution''"
        "workload \<noteq> ''identity_binding''" "workload \<noteq> ''transport_control''"
      by blast
    then show ?thesis unfolding runtime_policy_table dget_or_def by cases simp_all
  qed
  ultimately have "allows (runtime_transport_policy version) workload mode \<longleftrightarrow>
      mode \<in> set (if workload \<in> {''research'', ''transport_control''} then [''direct'', ''tor'', ''vpn'']
       else if workload = ''identity_binding'' then [''direct''] else [''direct'', ''vpn''])"
    by (rule trans [OF _ arg_cong])
  also have "\<dots> \<longleftrightarrow> (if workload \<in> {''research'', ''transport_control''} then mode \<in> set [''direct'', ''tor'', ''vpn'']
       else if workload = ''identity_binding'' then mode \<in> set [''direct''] else mode \<in> set [''direct'', ''vpn''])"
    by (simp only: if_distrib [of "\<lambda>xs. mode \<in> set xs"])
  also have "mode \<in> set [''direct'', ''tor'', ''vpn''] \<longleftrightarrow> True" using assms(3) by auto
  also have "mode \<in> set [''direct''] \<longleftrightarrow> mode = ''direct''" by simp
  also have "mode \<in> set [''direct'', ''vpn''] \<longleftrightarrow> mode \<noteq> ''tor''" using assms(3) by auto
  finally show ?thesis .
qed

lemma advice_cases:
  assumes "allowed \<longleftrightarrow> (if open_mode then True else if bound then direct else \<not> tor)" "direct \<or> vpn \<or> tor"
    "\<not> (direct \<and> tor)" "\<not> (vpn \<and> tor)" "\<not> (ruled \<and> tor)" "\<not> (bound \<and> ruled)"
  shows "allowed \<longleftrightarrow> (open_mode \<or> ruled) \<or> direct \<or> \<not> bound \<and> vpn"
  using assms by argo

text \<open>
  What the optimizer advises is what the runtime's transport policy allows for the workloads it
  has rules for; for identity binding the policy allows only direct connections and for workloads it
  does not list no Tor, while the advice follows the measurements alone, so there it may name a mode
  that is then refused.
\<close>

theorem transport_advice_allowed:
  assumes "suggest_transport workload latency_ms error_rate volatility = Return advice" "strip workload = workload" "workload \<noteq> []"
  shows "\<exists>mode. dget advice ''recommended_mode'' = Some (PStr mode) \<and>
    (allows (runtime_transport_policy version) workload mode \<longleftrightarrow>
      workload \<in> {''research'', ''transport_control'', ''market_execution'', ''model_training''} \<or> mode = ''direct'' \<or>
      workload \<noteq> ''identity_binding'' \<and> mode = ''vpn'')"
proof -
  define mode where "mode = advised_mode workload error_rate latency_ms volatility"
  have rec: "dget advice ''recommended_mode'' = Some (PStr mode)"
    using assms(1) by (auto simp: mode_def suggest_transport_def recommend_transport_def dget_or_def to_float_def to_str_def Let_def)
  have tor: "workload \<in> {''market_execution'', ''model_training''} \<Longrightarrow> mode \<noteq> ''tor''"
    by (auto simp: mode_def advised_mode_def)
  have modes: "mode \<in> {''direct'', ''vpn'', ''tor''}" unfolding mode_def by (rule advised_modes)
  have three: "mode = ''direct'' \<or> mode = ''vpn'' \<or> mode = ''tor''" using modes by blast
  have table: "allows (runtime_transport_policy version) workload mode \<longleftrightarrow>
      (if workload \<in> {''research'', ''transport_control''} then True
       else if workload = ''identity_binding'' then mode = ''direct'' else mode \<noteq> ''tor'')"
    by (rule allowed_table [OF assms(2,3) modes])
  have not_tor: "\<not> (mode = ''direct'' \<and> mode = ''tor'')" "\<not> (mode = ''vpn'' \<and> mode = ''tor'')"
    by (simp_all add: conj_commute [of _ "mode = ''tor''"] cong: conj_cong)
  have bound: "\<not> (workload = ''identity_binding'' \<and> workload \<in> {''market_execution'', ''model_training''})"
    by (rule notI, elim conjE) simp
  have ruled: "\<not> (workload \<in> {''market_execution'', ''model_training''} \<and> mode = ''tor'')"
    using tor by blast
  have listed: "workload \<in> {''research'', ''transport_control'', ''market_execution'', ''model_training''} \<longleftrightarrow>
      workload \<in> {''research'', ''transport_control''} \<or> workload \<in> {''market_execution'', ''model_training''}" by blast
  have "allows (runtime_transport_policy version) workload mode \<longleftrightarrow>
      workload \<in> {''research'', ''transport_control'', ''market_execution'', ''model_training''} \<or> mode = ''direct'' \<or>
      workload \<noteq> ''identity_binding'' \<and> mode = ''vpn''"
    unfolding listed by (rule advice_cases [OF table three not_tor ruled bound])
  with rec show ?thesis by (intro exI [of _ mode] conjI)
qed

theorem transport_advice_allowed_witness:
  "\<exists>advice. suggest_transport ''identity_binding'' (Fin 0) (Fin 0) (Fin 0) = Return advice \<and>
     dget advice ''recommended_mode'' = Some (PStr ''tor'') \<and> \<not> allows (runtime_transport_policy ''v1'') ''identity_binding'' ''tor''"
proof -
  obtain advice where advice: "suggest_transport ''identity_binding'' (Fin 0) (Fin 0) (Fin 0) = Return advice"
    by (simp add: suggest_transport_def recommend_transport_def dget_or_def to_float_def Let_def)
  have "unit_float (lit (2 / 10))" unfolding lit_def by (rule rnd_unit) simp_all
  moreover have "fl (1 / 4) = 1 / 4" by (rule fl_dyadic [of _ 1 "- 2"]) (simp_all add: pow2_def)
  then have "in_range (1 / 4) 1 (lit (35 / 100))"
    unfolding lit_def using pow2_le_iff [of 0 53] by (intro rnd_in_range) (simp_all add: pow2_def)
  ultimately have "\<not> f_less (lit (2 / 10)) (Fin 0)" "f_less (Fin 0) (lit (35 / 100))" by (auto elim!: in_rangeE)
  then have "advised_mode ''identity_binding'' (Fin 0) (Fin 0) (Fin 0) = ''tor''" by (simp add: advised_mode_def)
  then have mode: "dget advice ''recommended_mode'' = Some (PStr ''tor'')"
    using advice by (auto simp: suggest_transport_def recommend_transport_def dget_or_def to_float_def to_str_def Let_def)
  have "strip ''identity_binding'' = ''identity_binding''" by code_simp
  from transport_advice_allowed [OF advice this, of "''v1''"] advice mode show ?thesis by auto
qed

end
