(* ===== verification/Nlm_Client.thy ===== *)
theory Nlm_Client
  imports Value_Json Sha256 State_Result "HOL-Library.Product_Lexorder"
begin

text \<open>
  \<^verbatim>\<open>services/plugins/nlm_client.py\<close>: the client of the NLM Digital Collections web service, with its
  cache, its pacing of requests and the reading of the XML it gets.  The network and the XML parser are
  arguments; the requests that have left, with the time each left, are part of the state.  Bytes are
  held as the text they decode to.
\<close>

section \<open>Parameters\<close>

definition plus_char :: "char \<Rightarrow> string" where
  "plus_char c =
     (let n = code c in
      if 48 \<le> n \<and> n \<le> 57 \<or> 65 \<le> n \<and> n \<le> 90 \<or> 97 \<le> n \<and> n \<le> 122 \<or> c \<in> set ''_.-~'' then [c]
      else if c = CHR '' '' then ''+''
      else concat (map (\<lambda>b. [CHR ''%'', ''0123456789ABCDEF'' ! (b div 16), ''0123456789ABCDEF'' ! (b mod 16)]) (utf8_char c)))"

definition quote_plus :: "string \<Rightarrow> string" where
  "quote_plus s = concat (map plus_char s)"

definition urlencode :: "(string \<times> string) list \<Rightarrow> string" where
  "urlencode params = join ''&'' (map (\<lambda>(k, v). quote_plus k @ ''='' @ quote_plus v) params)"

definition clamp_retmax :: "int \<Rightarrow> int" where
  "clamp_retmax retmax = (if retmax < 1 then 1 else if 200 < retmax then 200 else retmax)"

section \<open>XML\<close>

datatype xml = Element (xml_tag: string) (xml_attrib: "string dict") (xml_text: "string option") (xml_children: "xml list")
  (xml_tail: "string option")

definition text_or :: "string option \<Rightarrow> string" where
  "text_or t = (case t of Some s \<Rightarrow> s | None \<Rightarrow> [])"

fun itertext :: "xml \<Rightarrow> string" where
  "itertext (Element tag attrib txt children tail) =
     text_or txt @ concat (map (\<lambda>c. itertext c @ text_or (xml_tail c)) children)"

definition findall :: "xml \<Rightarrow> string \<Rightarrow> xml list" where
  "findall e tag = filter (\<lambda>c. xml_tag c = tag) (xml_children e)"

definition find_text :: "xml \<Rightarrow> string \<Rightarrow> string" where
  "find_text e tag = (case findall e tag of [] \<Rightarrow> [] | x # _ \<Rightarrow> strip (text_or (xml_text x)))"

definition safe_int :: "string option \<Rightarrow> int" where
  "safe_int v = (case v of Some s \<Rightarrow> (case py_int s of Inr n \<Rightarrow> n | Inl _ \<Rightarrow> 0) | None \<Rightarrow> 0)"

text \<open>The contents of a document by name, in the order of their first appearance.\<close>

definition read_content :: "xml \<Rightarrow> string list dict" where
  "read_content doc =
     foldl (\<lambda>acc node. let name = strip (dget_or (xml_attrib node) ''name'' []) in
         if name = [] then acc else dset name (dget_or acc name [] @ [strip (itertext node)]) acc)
       [] (findall doc ''content'')"

definition read_document :: "xml \<Rightarrow> pyval dict" where
  "read_document doc =
     [(''url'', PStr (dget_or (xml_attrib doc) ''url'' [])), (''rank'', PInt (safe_int (dget (xml_attrib doc) ''rank''))),
      (''content'', PDict (map (map_prod id (\<lambda>vs. PList (map PStr vs))) (read_content doc)))]"

definition list_meta :: "string dict \<Rightarrow> pyval" where
  "list_meta attrs = PDict (map (\<lambda>k. (k, PInt (safe_int (dget attrs k)))) [''num'', ''start'', ''per''])"

definition parse_result :: "xml \<Rightarrow> pyval dict result" where
  "parse_result e =
     (if xml_tag e \<noteq> ''nlmSearchResult'' then
        (let error_text = strip (itertext e) in
         Raise (RuntimeError (if error_text \<noteq> [] then error_text else ''unexpected response e element: '' @ xml_tag e)))
      else (let lists = findall e ''list'';
                attrs = (case lists of l # _ \<Rightarrow> xml_attrib l | [] \<Rightarrow> []);
                documents = (case lists of l # _ \<Rightarrow> map read_document (findall l ''document'') | [] \<Rightarrow> [])
            in Return [(''term'', PStr (find_text e ''term'')), (''file'', PStr (find_text e ''file'')),
                 (''server'', PStr (find_text e ''server'')), (''count'', PInt (safe_int (Some (find_text e ''count'')))),
                 (''retstart'', PInt (safe_int (Some (find_text e ''retstart'')))),
                 (''retmax'', PInt (safe_int (Some (find_text e ''retmax'')))), (''list'', list_meta attrs),
                 (''documents'', PList (map PDict documents))]))"

section \<open>The client\<close>

record nlm_client =
  nc_tool :: string
  nc_email :: "string option"
  nc_times :: "pyfloat list"
  nc_cache :: "(pyfloat \<times> pyval dict) dict"
  nc_sent :: "(pyfloat \<times> string) list"

text \<open>What a call takes from outside: the clock, the network and the XML parser; the last two fail with the text of an exception.\<close>

record nlm_world =
  nw_now :: pyfloat
  nw_fetch :: "string \<Rightarrow> string + string"
  nw_parse :: "string \<Rightarrow> string + xml"

definition new_client :: "string \<Rightarrow> string option \<Rightarrow> nlm_client" where
  "new_client tool email = \<lparr>nc_tool = tool, nc_email = email, nc_times = [], nc_cache = [], nc_sent = []\<rparr>"

definition BASE_URL :: string where
  "BASE_URL = ''https://wsearch.nlm.nih.gov/ws/query''"

definition MAX_REQUESTS_PER_MINUTE :: nat where
  "MAX_REQUESTS_PER_MINUTE = 85"

definition DEFAULT_CACHE_TTL_SECONDS :: int where
  "DEFAULT_CACHE_TTL_SECONDS = 12 * 60 * 60"

definition expired :: "pyfloat \<Rightarrow> pyfloat \<Rightarrow> bool" where
  "expired now t = f_le (Fin 60) (f_sub now t)"

definition enforce_rate_limit :: "pyfloat \<Rightarrow> (nlm_client, unit) op" where
  "enforce_rate_limit now =
     thenS (writeS (\<lambda>c. c\<lparr>nc_times := dropWhile (expired now) (nc_times c)\<rparr>))
     (bindS (readS (\<lambda>c. Return (length (nc_times c)))) (\<lambda>n.
      thenS (requireS (n < MAX_REQUESTS_PER_MINUTE)
          (RuntimeError (''NLM client request rate would exceed '' @ py_str (int MAX_REQUESTS_PER_MINUTE) @ '' requests/minute.'')))
        (writeS (\<lambda>c. c\<lparr>nc_times := nc_times c @ [now]\<rparr>))))"

definition http_get :: "nlm_world \<Rightarrow> string \<Rightarrow> (nlm_client, string) op" where
  "http_get w url =
     thenS (writeS (\<lambda>c. c\<lparr>nc_sent := nc_sent c @ [(nw_now w, url)]\<rparr>))
       (liftS (case nw_fetch w url of Inr body \<Rightarrow> Return body
          | Inl exc \<Rightarrow> Raise (RuntimeError (''unable to fetch NLM response: '' @ exc))))"

definition parse_xml :: "nlm_world \<Rightarrow> string \<Rightarrow> pyval dict result" where
  "parse_xml w body = (case nw_parse w body of Inr e \<Rightarrow> parse_result e
     | Inl exc \<Rightarrow> Raise (RuntimeError (''invalid XML response: '' @ exc)))"

definition with_meta :: "pyfloat \<Rightarrow> string \<Rightarrow> pyval dict \<Rightarrow> pyval dict" where
  "with_meta now url parsed =
     dset ''meta'' (PDict [(''source'', PStr ''NLM Digital Collections Web Service''), (''base_url'', PStr BASE_URL),
       (''request_url'', PStr url), (''cached'', PBool False), (''fetched_at_epoch'', PFloat now),
       (''request_rate_limit_per_minute'', PInt (int MAX_REQUESTS_PER_MINUTE))]) parsed"

definition as_cached :: "pyval dict \<Rightarrow> pyval dict" where
  "as_cached payload =
     (let meta = (case dget_or payload ''meta'' (PDict []) of PDict d \<Rightarrow> d | _ \<Rightarrow> [])
      in dset ''meta'' (PDict (dset ''cached'' (PBool True) meta)) payload)"

definition cached_answer :: "pyfloat \<Rightarrow> int \<Rightarrow> string \<Rightarrow> nlm_client \<Rightarrow> pyval dict option" where
  "cached_answer now ttl key c =
     (case dget (nc_cache c) key of
        Some (created_at, payload) \<Rightarrow> if f_le (f_sub now created_at) (Fin (of_int ttl)) then Some (as_cached payload) else None
      | None \<Rightarrow> None)"

definition nlm_query :: "nlm_world \<Rightarrow> (string \<times> string) list \<Rightarrow> bool \<Rightarrow> int option \<Rightarrow> (nlm_client, pyval dict) op" where
  "nlm_query w params use_cache cache_ttl_seconds =
     (let ttl = (case cache_ttl_seconds of None \<Rightarrow> DEFAULT_CACHE_TTL_SECONDS | Some s \<Rightarrow> max 0 s);
          key = urlencode (sort params); now = nw_now w; caching = (use_cache \<and> 0 < ttl); url = BASE_URL @ ''?'' @ urlencode params
      in bindS (readS (\<lambda>c. Return (if caching then cached_answer now ttl key c else None))) (\<lambda>hit.
         case hit of
           Some out \<Rightarrow> returnS out
         | None \<Rightarrow>
             thenS (enforce_rate_limit now)
             (bindS (http_get w url) (\<lambda>body.
              bindS (liftS (parse_xml w body)) (\<lambda>parsed.
              let out = with_meta now url parsed in
              thenS (writeS (\<lambda>c. if caching then c\<lparr>nc_cache := dset key (now, out) (nc_cache c)\<rparr> else c))
                (returnS out))))))"

definition client_params :: "nlm_client \<Rightarrow> string option \<Rightarrow> string option \<Rightarrow> (string \<times> string) list" where
  "client_params c tool email =
     (let t = strip (case tool of Some s \<Rightarrow> s | None \<Rightarrow> nc_tool c);
          e = strip (case email of Some s \<Rightarrow> s | None \<Rightarrow> text_or (nc_email c))
      in (if t = [] then [] else [(''tool'', t)]) @ (if e = [] then [] else [(''email'', e)]))"

definition nlm_search ::
    "nlm_world \<Rightarrow> string \<Rightarrow> int \<Rightarrow> string option \<Rightarrow> string option \<Rightarrow> bool \<Rightarrow> int option \<Rightarrow> (nlm_client, pyval dict) op" where
  "nlm_search w search_term retmax tool email use_cache ttl =
     thenS (requireS (strip search_term \<noteq> []) (ValueError ''term is required''))
     (bindS (readS (\<lambda>c. Return (client_params c tool email))) (\<lambda>extra.
      nlm_query w ([(''db'', ''digitalCollections''), (''term'', strip search_term), (''retmax'', py_str (clamp_retmax retmax))] @ extra)
        use_cache ttl))"

definition nlm_continue ::
    "nlm_world \<Rightarrow> string \<Rightarrow> string \<Rightarrow> int \<Rightarrow> int \<Rightarrow> string option \<Rightarrow> string option \<Rightarrow> bool \<Rightarrow> int option \<Rightarrow> (nlm_client, pyval dict) op" where
  "nlm_continue w file server retstart retmax tool email use_cache ttl =
     thenS (requireS (strip file \<noteq> []) (ValueError ''file is required''))
     (thenS (requireS (strip server \<noteq> []) (ValueError ''server is required''))
     (thenS (requireS (0 \<le> retstart) (ValueError ''retstart must be a non-negative integer''))
     (bindS (readS (\<lambda>c. Return (client_params c tool email))) (\<lambda>extra.
      nlm_query w ([(''file'', strip file), (''server'', strip server), (''retstart'', py_str retstart),
          (''retmax'', py_str (clamp_retmax retmax))] @ extra) use_cache ttl))))"

section \<open>Pacing\<close>

text \<open>The client after any calls, at a clock that does not run backwards.\<close>

inductive nlm_at :: "rat \<Rightarrow> nlm_client \<Rightarrow> bool" where
  opened: "nlm_at now (new_client tool email)"
| later: "nlm_at now c \<Longrightarrow> now \<le> now' \<Longrightarrow> nlm_at now' c"
| searched: "nlm_at now c \<Longrightarrow> nw_now w = Fin now \<Longrightarrow> nlm_at now (snd (nlm_search w q n tool email uc ttl c))"
| continued: "nlm_at now c \<Longrightarrow> nw_now w = Fin now \<Longrightarrow> nlm_at now (snd (nlm_continue w f s i n tool email uc ttl c))"

text \<open>What has left is what is still counted, after what is a minute old.\<close>

definition paced :: "rat \<Rightarrow> nlm_client \<Rightarrow> bool" where
  "paced now c \<longleftrightarrow> (\<exists>old. map fst (nc_sent c) = old @ nc_times c \<and> (\<forall>t\<in>set old. expired (Fin now) t)) \<and>
     length (nc_times c) \<le> MAX_REQUESTS_PER_MINUTE"

lemma expired_later:
  assumes "expired (Fin now) t" "now \<le> now'"
  shows "expired (Fin now') t"
proof (cases t)
  case (Fin q)
  have "fl (now - q) \<le> fl (now' - q)" using assms(2) by (intro fl_mono) simp
  then show ?thesis using assms(1) unfolding Fin expired_def f_sub_def
    by (auto simp: rnd_def Let_def f_le_def split: if_splits)
qed (use assms in \<open>simp_all add: expired_def f_sub_def f_le_def\<close>)

lemma paced_later: "paced now c \<Longrightarrow> now \<le> now' \<Longrightarrow> paced now' c"
  unfolding paced_def using expired_later by blast

text \<open>The two effects of a query on what is counted and what has left.\<close>

lemma query_effect:
  "(nc_times (snd (nlm_query w ps uc ttl c)), nc_sent (snd (nlm_query w ps uc ttl c))) \<in>
     {(nc_times c, nc_sent c), (dropWhile (expired (nw_now w)) (nc_times c), nc_sent c)} \<union>
     (if length (dropWhile (expired (nw_now w)) (nc_times c)) < MAX_REQUESTS_PER_MINUTE
      then {(dropWhile (expired (nw_now w)) (nc_times c) @ [nw_now w], nc_sent c @ [(nw_now w, BASE_URL @ ''?'' @ urlencode ps)])} else {})"
  by (auto simp: nlm_query_def Let_def op_defs enforce_rate_limit_def http_get_def split: option.splits sum.splits)

lemma paced_query:
  assumes "paced now c" "nw_now w = Fin now"
  shows "paced now (snd (nlm_query w ps uc ttl c))"
proof -
  from assms(1) obtain old where old: "map fst (nc_sent c) = old @ nc_times c" "\<forall>t\<in>set old. expired (Fin now) t"
    and few: "length (nc_times c) \<le> MAX_REQUESTS_PER_MINUTE" unfolding paced_def by blast
  let ?gone = "takeWhile (expired (Fin now)) (nc_times c)" and ?left = "dropWhile (expired (Fin now)) (nc_times c)"
  have split: "map fst (nc_sent c) = (old @ ?gone) @ ?left" using old(1) by simp
  have gone: "\<forall>t\<in>set (old @ ?gone). expired (Fin now) t" using old(2) by (auto dest: set_takeWhileD)
  have short: "length ?left \<le> MAX_REQUESTS_PER_MINUTE" using few length_dropWhile_le le_trans by blast
  from query_effect [of w ps uc ttl c] assms(2) consider
      (same) "nc_times (snd (nlm_query w ps uc ttl c)) = nc_times c" "nc_sent (snd (nlm_query w ps uc ttl c)) = nc_sent c"
    | (refused) "nc_times (snd (nlm_query w ps uc ttl c)) = ?left" "nc_sent (snd (nlm_query w ps uc ttl c)) = nc_sent c"
    | (sent) url where "nc_times (snd (nlm_query w ps uc ttl c)) = ?left @ [Fin now]"
        "nc_sent (snd (nlm_query w ps uc ttl c)) = nc_sent c @ [(Fin now, url)]" "length ?left < MAX_REQUESTS_PER_MINUTE"
    by (auto split: if_splits)
  then show ?thesis
  proof cases
    case same
    then show ?thesis using assms(1) by (simp add: paced_def)
  next
    case refused
    then show ?thesis unfolding paced_def refused using split gone short by blast
  next
    case sent
    then show ?thesis unfolding paced_def sent(1,2) using split gone
      by (intro conjI exI [of _ "old @ ?gone"]) simp_all
  qed
qed

lemma paced_new: "paced now (new_client tool email)"
  by (simp add: paced_def new_client_def)

lemma nlm_at_paced: "nlm_at now c \<Longrightarrow> paced now c"
proof (induction rule: nlm_at.induct)
  case (later now c now')
  then show ?case using paced_later by blast
next
  case (searched now c w q n tool email uc ttl)
  then show ?case by (simp add: nlm_search_def op_defs paced_query)
next
  case (continued now c w f s i n tool email uc ttl)
  then show ?case by (simp add: nlm_continue_def op_defs paced_query)
qed (rule paced_new)

text \<open>
  C29: whatever is searched, cached or refused, at every moment of a clock that does not run backwards
  at most 85 requests have left for the service during the last sixty seconds.
\<close>

theorem nlm_rate_bounded:
  assumes "nlm_at now c"
  shows "length (filter (\<lambda>(t, url). \<not> f_le (Fin 60) (f_sub (Fin now) t)) (nc_sent c)) \<le> 85"
proof -
  from nlm_at_paced [OF assms] obtain old where old: "map fst (nc_sent c) = old @ nc_times c" "\<forall>t\<in>set old. expired (Fin now) t"
    and few: "length (nc_times c) \<le> MAX_REQUESTS_PER_MINUTE" unfolding paced_def by blast
  have "length (filter (\<lambda>(t, url). \<not> f_le (Fin 60) (f_sub (Fin now) t)) (nc_sent c)) =
      length (filter (\<lambda>t. \<not> expired (Fin now) t) (map fst (nc_sent c)))"
    by (simp add: filter_map expired_def comp_def case_prod_unfold)
  also have "\<dots> = length (filter (\<lambda>t. \<not> expired (Fin now) t) (nc_times c))" using old by (simp add: filter_empty_conv)
  also have "\<dots> \<le> 85" using few le_trans [OF length_filter_le] by (simp add: MAX_REQUESTS_PER_MINUTE_def)
  finally show ?thesis .
qed

theorem nlm_rate_bounded_witness:
  "\<exists>c. nlm_at 0 c \<and> nc_sent c \<noteq> [] \<and>
     length (filter (\<lambda>(t, url). \<not> f_le (Fin 60) (f_sub (Fin 0) t)) (nc_sent c)) \<le> 85"
proof -
  define c where "c = snd (nlm_search \<lparr>nw_now = Fin 0, nw_fetch = (\<lambda>_. Inl ''down''), nw_parse = (\<lambda>_. Inl ''none'')\<rparr>
    ''heart'' 10 None None True None (new_client ''qso_fabric_demo'' None))"
  have at: "nlm_at 0 c" unfolding c_def by (intro nlm_at.searched nlm_at.opened) simp
  have "strip ''heart'' = ''heart''" by code_simp
  then have "nc_sent c \<noteq> []"
    by (simp add: c_def nlm_search_def nlm_query_def Let_def op_defs enforce_rate_limit_def http_get_def new_client_def
        cached_answer_def MAX_REQUESTS_PER_MINUTE_def)
  with at nlm_rate_bounded [OF at] show ?thesis by blast
qed

end
