(* ===== verification/Plugin_Service.thy ===== *)
theory Plugin_Service
  imports Qso_Tools Value_Json
begin

text \<open>
  \<^verbatim>\<open>services/plugins\<close>: the demonstration plugins with their scene nodes and animations, the service that
  selects and applies them through the tools, and the client of the NLM web service with its cache and
  its pacing of requests.  The network and the XML parser are arguments of the client; the requests
  that have left are recorded in its state.
\<close>

section \<open>Plugins\<close>

record demo_node =
  dn_uri :: string
  dn_state :: "json dict"

record demo_plugin =
  pl_id :: string
  pl_manifest :: "json dict"
  pl_nodes :: "string \<Rightarrow> demo_node list"
  pl_animations :: "string \<Rightarrow> json dict list"

definition manifest_of :: "string \<Rightarrow> string \<Rightarrow> string \<Rightarrow> json dict" where
  "manifest_of plugin_id name description =
     [(''plugin_id'', JStr plugin_id), (''name'', JStr name), (''version'', JStr ''v1''), (''description'', JStr description)]"

definition node_uri :: "string \<Rightarrow> string \<Rightarrow> string" where
  "node_uri world_uri name = rstrip_char (CHR ''/'') world_uri @ ''/node/'' @ name"

definition ints :: "int list \<Rightarrow> json" where
  "ints ns = JArr (map JInt ns)"

definition floats :: "string list \<Rightarrow> json" where
  "floats ts = JArr (map JFloat ts)"

definition texts :: "string list \<Rightarrow> json" where
  "texts ss = JArr (map JStr ss)"

definition transform_of :: "json \<Rightarrow> json \<Rightarrow> json" where
  "transform_of pos scl = JObj [(''pos'', pos), (''rot'', ints [0, 0, 0, 1]), (''scl'', scl)]"

definition components_of :: "string \<Rightarrow> string \<Rightarrow> json" where
  "components_of mesh material =
     JObj [(''mesh'', JObj [(''uri'', JStr (''qso://asset/mesh/'' @ mesh))]),
       (''material'', JObj [(''uri'', JStr (''qso://asset/material/'' @ material))])]"

definition bounds_of :: "string list \<Rightarrow> string list \<Rightarrow> json" where
  "bounds_of lo hi = JObj [(''type'', JStr ''aabb''), (''min'', floats lo), (''max'', floats hi)]"

definition scene_state :: "string \<Rightarrow> string \<Rightarrow> string \<Rightarrow> json \<Rightarrow> json \<Rightarrow> json \<Rightarrow> json dict \<Rightarrow> json dict" where
  "scene_state ident name parent transform components bounds meta =
     [(''kind'', JStr ''scene_node''), (''id'', JStr ident), (''name'', JStr name), (''parent'', JStr parent),
      (''transform'', transform), (''components'', components), (''bounds'', bounds), (''layer_mask'', JInt 1)] @
     (if meta = [] then [] else [(''meta'', JObj meta)])"

definition spin :: "string \<Rightarrow> int list \<Rightarrow> string \<Rightarrow> json dict" where
  "spin uri axis speed = [(''uri'', JStr uri), (''type'', JStr ''spin''), (''axis'', ints axis), (''radians_per_sec'', JFloat speed)]"

definition quantum_sphere_nodes :: "string \<Rightarrow> demo_node list" where
  "quantum_sphere_nodes world =
     [\<lparr>dn_uri = node_uri world ''quantum_sphere'', dn_state = scene_state ''quantum_sphere'' ''QuantumSphere'' (node_uri world ''root'')
         (transform_of (floats [''0.0'', ''1.8'', ''-3.8'']) (floats [''1.25'', ''1.25'', ''1.25'']))
         (components_of ''sphere_quantum'' ''quantum_rainbow'') (bounds_of [''-0.6'', ''-0.6'', ''-0.6''] [''0.6'', ''0.6'', ''0.6''])
         [(''higher_dimensions'', JInt 7),
          (''quantum_safe_channel'', JObj [(''scheme'', JStr ''ML-KEM-768-demo''), (''from'', JStr ''qso://node/demo/a''),
             (''to'', JStr ''qso://node/demo/b''), (''payload_type'', JStr ''transaction_bundle'')])]\<rparr>,
      \<lparr>dn_uri = node_uri world ''quantum_channel_beam'', dn_state = scene_state ''quantum_channel_beam'' ''QuantumChannelBeam''
         (node_uri world ''quantum_sphere'') (transform_of (ints [0, 0, 0]) (floats [''0.1'', ''0.1'', ''2.4'']))
         (components_of ''beam'' ''quantum_beam'') (bounds_of [''-0.5'', ''-0.5'', ''-0.5''] [''0.5'', ''0.5'', ''0.5'']) []\<rparr>]"

definition quantum_sphere_plugin :: demo_plugin where
  "quantum_sphere_plugin =
     \<lparr>pl_id = ''quantum_sphere_demo'', pl_manifest = manifest_of ''quantum_sphere_demo'' ''Quantum Sphere Demo''
        ''Adds a multicolored rotating sphere with higher-dimensional and transaction-channel metadata.'',
      pl_nodes = quantum_sphere_nodes,
      pl_animations = (\<lambda>world. [spin (node_uri world ''quantum_sphere'') [0, 1, 0] ''0.85'',
        spin (node_uri world ''quantum_channel_beam'') [0, 0, 1] ''1.35''])\<rparr>"

definition satoshi_chain_nodes :: "string \<Rightarrow> demo_node list" where
  "satoshi_chain_nodes world =
     [\<lparr>dn_uri = node_uri world ''satoshi_chain_anchor'', dn_state = scene_state ''satoshi_chain_anchor'' ''SatoshiChainAnchor''
         (node_uri world ''root'') (transform_of (floats [''2.4'', ''1.25'', ''-3.1'']) (floats [''0.95'', ''0.95'', ''0.95'']))
         (components_of ''satoshi_anchor'' ''satoshi_gold'') (bounds_of [''-0.55'', ''-0.55'', ''-0.55''] [''0.55'', ''0.55'', ''0.55''])
         [(''satoshi_chain'', JObj [(''chain_id'', JStr ''SATOSHI_CHAIN_V1''), (''snapshot_block'', JInt 840000),
            (''untouched_mode'', JStr ''patoshi''), (''token_model'', JStr ''sUTXO_NFT''),
            (''finality'', JStr ''bft_deterministic'')])]\<rparr>,
      \<lparr>dn_uri = node_uri world ''satoshi_chain_ledger_ring'', dn_state = scene_state ''satoshi_chain_ledger_ring''
         ''SatoshiChainLedgerRing'' (node_uri world ''satoshi_chain_anchor'')
         (transform_of (ints [0, 0, 0]) (floats [''1.65'', ''0.09'', ''1.65''])) (components_of ''ledger_ring'' ''ledger_pulse'')
         (bounds_of [''-0.75'', ''-0.1'', ''-0.75''] [''0.75'', ''0.1'', ''0.75''])
         [(''ledger_channel'', JObj [(''proof_mode'', JStr ''spv_or_committee''),
            (''asset_namespace'', JStr ''qso://asset/sutxo'')])]\<rparr>]"

definition satoshi_chain_plugin :: demo_plugin where
  "satoshi_chain_plugin =
     \<lparr>pl_id = ''satoshi_chain_demo'', pl_manifest = manifest_of ''satoshi_chain_demo'' ''Satoshi Chain Demo''
        ''Adds satoshi-chain scene nodes with sUTXO and snapshot metadata for qso_fabric demos.'',
      pl_nodes = satoshi_chain_nodes,
      pl_animations = (\<lambda>world. [spin (node_uri world ''satoshi_chain_anchor'') [0, 1, 0] ''0.52'',
        spin (node_uri world ''satoshi_chain_ledger_ring'') [1, 0, 0] ''0.34''])\<rparr>"

definition nlm_anchor_meta :: "json dict" where
  "nlm_anchor_meta =
     [(''source'', JStr ''National Library of Medicine Digital Collections''),
      (''web_service'', JObj [(''base_url'', JStr ''https://wsearch.nlm.nih.gov/ws/query''),
         (''database'', JStr ''digitalCollections''), (''free_access'', JBool True), (''registration_required'', JBool False),
         (''request_rate_limit_per_minute'', JInt 85), (''cache_recommendation_hours'', ints [12, 24]),
         (''update_schedule'', JStr ''weekly_sunday'')])]"

definition nlm_endpoint_meta :: "json dict" where
  "nlm_endpoint_meta =
     [(''query_contract'', JObj [(''required_initial_parameters'', texts [''db'', ''term'']),
         (''required_subsequent_parameters'', texts [''file'', ''server'', ''retstart'']),
         (''optional_parameters'', texts [''retmax'', ''tool'', ''email'']), (''db_required_value'', JStr ''digitalCollections''),
         (''field_prefix'', JStr ''dc:<fieldValue>''), (''publication_field'', JStr ''Publication:<fieldValue>''),
         (''response_root'', JStr ''nlmSearchResult''), (''response_format'', JStr ''xml'')]),
      (''dc_fields'', texts [''dc:creator'', ''dc:coverage'', ''dc:date'', ''dc:description'', ''dc:format'', ''dc:identifier'',
         ''dc:language'', ''dc:relation'', ''dc:rights'', ''dc:subject'', ''dc:title'', ''dc:type'', ''Publication'', ''snippet''])]"

definition nlm_nodes :: "string \<Rightarrow> demo_node list" where
  "nlm_nodes world =
     [\<lparr>dn_uri = node_uri world ''nlm_dc_anchor'', dn_state = scene_state ''nlm_dc_anchor'' ''NLMDigitalCollectionsAnchor''
         (node_uri world ''root'') (transform_of (floats [''-2.35'', ''1.4'', ''-3.05'']) (floats [''1.0'', ''1.0'', ''1.0'']))
         (components_of ''data_anchor'' ''medical_blue'') (bounds_of [''-0.6'', ''-0.6'', ''-0.6''] [''0.6'', ''0.6'', ''0.6''])
         nlm_anchor_meta\<rparr>,
      \<lparr>dn_uri = node_uri world ''nlm_dc_endpoint'', dn_state = scene_state ''nlm_dc_endpoint'' ''NLMDigitalCollectionsEndpoint''
         (node_uri world ''nlm_dc_anchor'') (transform_of (floats [''0.0'', ''-0.9'', ''0.0'']) (floats [''1.45'', ''0.2'', ''0.75'']))
         (components_of ''query_panel'' ''endpoint_panel'') (bounds_of [''-0.7'', ''-0.2'', ''-0.4''] [''0.7'', ''0.2'', ''0.4''])
         nlm_endpoint_meta\<rparr>]"

definition nlm_plugin :: demo_plugin where
  "nlm_plugin =
     \<lparr>pl_id = ''nlm_digital_collections_demo'', pl_manifest = manifest_of ''nlm_digital_collections_demo'' ''NLM Digital Collections Demo''
        ''Adds NLM Digital Collections web-service endpoint/parameter metadata as QSO scene nodes.'',
      pl_nodes = nlm_nodes,
      pl_animations = (\<lambda>world. [spin (node_uri world ''nlm_dc_anchor'') [0, 1, 0] ''0.28'',
        spin (node_uri world ''nlm_dc_endpoint'') [0, 0, 1] ''0.14''])\<rparr>"

section \<open>The service\<close>

definition builtin_plugins :: "demo_plugin list" where
  "builtin_plugins = [quantum_sphere_plugin, satoshi_chain_plugin, nlm_plugin]"

definition open_plugins :: "demo_plugin list option \<Rightarrow> demo_plugin list result" where
  "open_plugins given =
     (let plugins = (case given of Some ps \<Rightarrow> ps | None \<Rightarrow> builtin_plugins) in
      if distinct (map pl_id plugins) then Return plugins
      else Raise (ValueError ''duplicate demo plugin ids are not allowed''))"

text \<open>\<open>dict.fromkeys\<close>: each value at its first place.\<close>

definition first_places :: "'a list \<Rightarrow> 'a list" where
  "first_places xs = foldl (\<lambda>acc x. if x \<in> set acc then acc else acc @ [x]) [] xs"

definition resolve_plugins :: "demo_plugin list \<Rightarrow> string list option \<Rightarrow> demo_plugin list result" where
  "resolve_plugins plugins plugin_ids =
     (let wanted = first_places (filter (\<lambda>v. v \<noteq> []) (map strip (case plugin_ids of Some ids \<Rightarrow> ids | None \<Rightarrow> [])));
          by_id = foldl (\<lambda>acc p. dset (pl_id p) p acc) [] plugins;
          missing = filter (\<lambda>i. \<not> has_key by_id i) wanted
      in if wanted = [] then Return plugins
         else if missing \<noteq> [] then Raise (ValueError (''unknown demo plugin ids: '' @ join '', '' missing))
         else Return (map (\<lambda>i. the (dget by_id i)) wanted))"

definition list_demo_plugins :: "demo_plugin list \<Rightarrow> string list option \<Rightarrow> json dict list result" where
  "list_demo_plugins plugins plugin_ids =
     bindR (resolve_plugins plugins plugin_ids) (\<lambda>active. Return (map pl_manifest active))"

record demo_payload =
  dp_world_uri :: string
  dp_plugins :: "json dict list"
  dp_nodes :: "demo_node list"
  dp_animations :: "json dict list"

definition demo_payload_of :: "demo_plugin list \<Rightarrow> string \<Rightarrow> string list option \<Rightarrow> demo_payload result" where
  "demo_payload_of plugins world_uri plugin_ids =
     bindR (resolve_plugins plugins plugin_ids) (\<lambda>active.
       Return \<lparr>dp_world_uri = world_uri, dp_plugins = map pl_manifest active,
         dp_nodes = concat (map (\<lambda>p. pl_nodes p world_uri) active),
         dp_animations = concat (map (\<lambda>p. pl_animations p world_uri) active)\<rparr>)"

definition ignoring_errors :: "('s, 'a) op \<Rightarrow> ('s, unit) op" where
  "ignoring_errors m = (\<lambda>s. (Return (), snd (m s)))"

definition apply_node :: "fabric_env \<Rightarrow> string \<Rightarrow> string \<Rightarrow> string \<Rightarrow> demo_node \<Rightarrow> (fabric, unit) op" where
  "apply_node env actor policy_version node_id n =
     thenS (ignoring_errors (qso_create env (dn_uri n) [(''type'', JStr ''scene_node'')]))
       (bindS (qso_patch env (dn_uri n) (dn_state n) actor policy_version node_id) (\<lambda>_. returnS ()))"

definition apply_demo_plugins ::
    "fabric_env \<Rightarrow> demo_plugin list \<Rightarrow> string \<Rightarrow> string \<Rightarrow> string \<Rightarrow> string \<Rightarrow> string list option \<Rightarrow> (fabric, json dict) op" where
  "apply_demo_plugins env plugins world_uri actor policy_version node_id plugin_ids =
     bindS (liftS (demo_payload_of plugins world_uri plugin_ids)) (\<lambda>payload.
       thenS (eachS (apply_node env actor policy_version node_id) (dp_nodes payload))
         (returnS [(''status'', JStr ''ok''), (''world_uri'', JStr world_uri), (''plugins'', JArr (map JObj (dp_plugins payload))),
           (''animations'', JArr (map JObj (dp_animations payload))), (''applied_nodes'', JInt (int (length (dp_nodes payload))))]))"

section \<open>What applying plugins does\<close>

text \<open>The live state of an object, empty when there is none.\<close>

definition live_state :: "fabric \<Rightarrow> string \<Rightarrow> json dict" where
  "live_state s uri = (case dget (eg_registry (fr_engine s)) uri of Some obj \<Rightarrow> ob_state_layer obj | None \<Rightarrow> [])"

definition known :: "fabric \<Rightarrow> string \<Rightarrow> bool" where
  "known s uri \<longleftrightarrow> dget (eg_registry (fr_engine s)) uri \<noteq> None"

lemma created_state: "live_state (snd (qso_create env uri schema s)) u = live_state s u"
  by (auto simp: live_state_def qso_create_def qso_create_by_def bindS_def next_call_def on_engine_def create_object_def
      rg_create_def has_key_def Let_def split: option.splits)

lemma patched_state:
  assumes "live s" "qso_patch env uri delta actor pv node s = (Inr e, t)"
  shows "known t uri" "live_state t u = (if u = uri then deep_merge (live_state s u) delta else live_state s u)"
proof -
  from patch_registry [OF _ qso_patch_engine [OF assms(2)]] assms(1)
  obtain obj obj' where "dget (eg_registry (fr_engine s)) uri = Some obj"
      "eg_registry (fr_engine t) = dset uri obj' (eg_registry (fr_engine s))" "ob_state_layer obj' = deep_merge (ob_state_layer obj) delta"
    unfolding live_def by blast
  then show "known t uri" "live_state t u = (if u = uri then deep_merge (live_state s u) delta else live_state s u)"
    by (simp_all add: known_def live_state_def)
qed

lemma patch_keeps_known:
  assumes "live s" "qso_patch env uri delta actor pv node s = (Inr e, t)" "known s u"
  shows "known t u"
  using patch_registry [OF _ qso_patch_engine [OF assms(2)]] assms(1,3) unfolding live_def by (auto simp: known_def)

lemma create_keeps_known: "known s u \<Longrightarrow> known (snd (qso_create env uri schema s)) u"
  by (auto simp: known_def qso_create_def qso_create_by_def bindS_def next_call_def on_engine_def create_object_def
      rg_create_def has_key_def Let_def split: option.splits)

lemma apply_node_effect:
  assumes "live s" "apply_node env actor pv node n s = (Inr x, t)"
  shows "live t" "known t (dn_uri n)" "known s u \<Longrightarrow> known t u"
    "live_state t u = (if u = dn_uri n then deep_merge (live_state s u) (dn_state n) else live_state s u)"
proof -
  let ?s1 = "snd (qso_create env (dn_uri n) [(''type'', JStr ''scene_node'')] s)"
  have live1: "live ?s1" using keepsD [OF live_tools(3) assms(1)] .
  from assms(2) obtain e where run: "qso_patch env (dn_uri n) (dn_state n) actor pv node ?s1 = (Inr e, t)"
    by (auto simp: apply_node_def thenS_Return bindS_Return ignoring_errors_def)
  show "live t" by (rule keeps_result [OF live_patch live1 run])
  show "known t (dn_uri n)" by (rule patched_state(1) [OF live1 run])
  show "known s u \<Longrightarrow> known t u" using patch_keeps_known [OF live1 run] create_keeps_known by blast
  show "live_state t u = (if u = dn_uri n then deep_merge (live_state s u) (dn_state n) else live_state s u)"
    by (simp add: patched_state(2) [OF live1 run] created_state)
qed

lemma apply_nodes_effect:
  assumes "live s" "eachS (apply_node env actor pv node) ns s = (Inr x, t)" "distinct (map dn_uri ns)"
  shows "live t \<and> (\<forall>u. known s u \<longrightarrow> known t u) \<and>
    (\<forall>n\<in>set ns. known t (dn_uri n) \<and> live_state t (dn_uri n) = deep_merge (live_state s (dn_uri n)) (dn_state n)) \<and>
    (\<forall>u. u \<notin> dn_uri ` set ns \<longrightarrow> live_state t u = live_state s u)"
  using assms
proof (induction ns arbitrary: s)
  case Nil
  then show ?case by simp
next
  case (Cons n ns)
  from Cons.prems(2) obtain y m where one: "apply_node env actor pv node n s = (Inr y, m)"
    and rest: "eachS (apply_node env actor pv node) ns m = (Inr x, t)" by (auto simp: thenS_Return)
  note eff = apply_node_effect [OF Cons.prems(1) one]
  from Cons.IH [OF eff(1) rest] Cons.prems(3) have ih: "live t" "\<And>u. known m u \<Longrightarrow> known t u"
      "\<And>k. k \<in> set ns \<Longrightarrow> known t (dn_uri k) \<and> live_state t (dn_uri k) = deep_merge (live_state m (dn_uri k)) (dn_state k)"
      "\<And>u. u \<notin> dn_uri ` set ns \<Longrightarrow> live_state t u = live_state m u" by auto
  have "known t (dn_uri k) \<and> live_state t (dn_uri k) = deep_merge (live_state s (dn_uri k)) (dn_state k)"
    if "k \<in> set (n # ns)" for k
  proof (cases "k \<in> set ns")
    case True
    then have "dn_uri k \<in> dn_uri ` set ns" by (rule imageI)
    then have "dn_uri k \<noteq> dn_uri n" using Cons.prems(3) by auto
    then show ?thesis using ih(3) [OF True] eff(4) [of "dn_uri k"] by simp
  next
    case False
    then have "k = n" using that by simp
    then show ?thesis using ih(2,4) [of "dn_uri n"] eff(2) eff(4) [of "dn_uri n"] Cons.prems(3) by simp
  qed
  moreover have "live_state t u = live_state s u" if "u \<notin> dn_uri ` set (n # ns)" for u
    using ih(4) [of u] eff(4) [of u] that by simp
  ultimately show ?case using ih(1,2) eff(3) by blast
qed

text \<open>
  Applying plugins that returns has given every node of the selected plugins a live object whose
  state is what was there with the node's state merged in, and has changed the state of nothing else;
  every object there was is still there.
\<close>

theorem plugins_applied:
  assumes "live s" "demo_payload_of plugins world_uri plugin_ids = Return payload" "distinct (map dn_uri (dp_nodes payload))"
    and "apply_demo_plugins env plugins world_uri actor pv node plugin_ids s = (Return out, t)"
  shows "live t \<and> dget out ''applied_nodes'' = Some (JInt (int (length (dp_nodes payload)))) \<and>
    (\<forall>n\<in>set (dp_nodes payload). known t (dn_uri n) \<and>
       live_state t (dn_uri n) = deep_merge (live_state s (dn_uri n)) (dn_state n)) \<and>
    (\<forall>u. u \<notin> dn_uri ` set (dp_nodes payload) \<longrightarrow> live_state t u = live_state s u) \<and> (\<forall>u. known s u \<longrightarrow> known t u)"
proof -
  from assms(2,4) obtain x where run: "eachS (apply_node env actor pv node) (dp_nodes payload) s = (Inr x, t)"
    and out: "dget out ''applied_nodes'' = Some (JInt (int (length (dp_nodes payload))))"
    by (auto simp: apply_demo_plugins_def bindS_Return thenS_Return)
  from apply_nodes_effect [OF assms(1) run assms(3)] out show ?thesis by blast
qed

text \<open>The nodes of the built-in plugins have different URIs in every world.\<close>

lemma builtin_nodes_distinct:
  "distinct (map dn_uri (concat (map (\<lambda>p. pl_nodes p world) builtin_plugins)))"
  by (simp add: builtin_plugins_def quantum_sphere_plugin_def satoshi_chain_plugin_def nlm_plugin_def quantum_sphere_nodes_def
      satoshi_chain_nodes_def nlm_nodes_def node_uri_def)

lemma builtin_payload:
  "\<exists>payload. demo_payload_of builtin_plugins world None = Return payload \<and>
     dp_nodes payload = concat (map (\<lambda>p. pl_nodes p world) builtin_plugins)"
  by (simp add: demo_payload_of_def resolve_plugins_def first_places_def)

lemma patch_keeps_policy: "patch event_id uri delta actor pv node g = (r, g') \<Longrightarrow> eg_policy g' = eg_policy g"
  by (auto simp: patch_def Let_def split_beta split: sum.splits)

text \<open>Without a policy a node with a URI is applied.\<close>

lemma apply_node_runs:
  assumes "live s" "eg_policy (fr_engine s) = None" "\<forall>k. strip (fe_uuid env k) \<noteq> []" "strip actor \<noteq> []" "strip pv \<noteq> []"
    "strip (dn_uri n) \<noteq> []"
  shows "\<exists>t. apply_node env actor pv node n s = (Inr (), t) \<and> eg_policy (fr_engine t) = None"
proof -
  let ?s1 = "snd (qso_create env (dn_uri n) [(''type'', JStr ''scene_node'')] s)"
  have live1: "live ?s1" using keepsD [OF live_tools(3) assms(1)] .
  have pol: "eg_policy (fr_engine ?s1) = None" and obj: "dget (eg_registry (fr_engine ?s1)) (dn_uri n) \<noteq> None"
    using assms(2) by (auto simp: qso_create_def qso_create_by_def bindS_def next_call_def on_engine_def create_object_def
        rg_create_def has_key_def Let_def split: option.splits)
  from obj obtain ob where "dget (eg_registry (fr_engine ?s1)) (dn_uri n) = Some ob" by blast
  from qso_patch_accepted [OF live1 pol this, of env actor pv "dn_state n" node] assms(3-6)
  obtain e t where run: "qso_patch env (dn_uri n) (dn_state n) actor pv node ?s1 = (Inr e, t)" by auto
  have "eg_policy (fr_engine t) = None"
    using patch_keeps_policy [OF qso_patch_engine [OF run]] pol by simp
  with run show ?thesis by (auto simp: apply_node_def thenS_def bindS_def ignoring_errors_def returnS_def)
qed

lemma apply_nodes_run:
  assumes "live s" "eg_policy (fr_engine s) = None" "\<forall>k. strip (fe_uuid env k) \<noteq> []" "strip actor \<noteq> []" "strip pv \<noteq> []"
    "\<forall>n\<in>set ns. strip (dn_uri n) \<noteq> []"
  shows "\<exists>t. eachS (apply_node env actor pv node) ns s = (Inr (), t)"
  using assms
proof (induction ns arbitrary: s)
  case (Cons n ns)
  from apply_node_runs [OF Cons.prems(1-5), of n node] Cons.prems(6)
  obtain m where m: "apply_node env actor pv node n s = (Inr (), m)" "eg_policy (fr_engine m) = None" by auto
  from Cons.IH [OF apply_node_effect(1) [OF Cons.prems(1) m(1)] m(2) Cons.prems(3-5)] Cons.prems(6) m(1)
  show ?case by (auto simp: thenS_def bindS_def)
qed (simp add: returnS_def)

theorem plugins_applied_witness:
  "\<exists>out t. apply_demo_plugins sample_env builtin_plugins ''qso://w'' ''me'' ''v1'' ''rest'' None (new_fabric \<lparr>cr_secret = [1]\<rparr>) = (Return out, t) \<and>
     dget out ''applied_nodes'' = Some (JInt 6) \<and> known t ''qso://w/node/nlm_dc_anchor''"
proof -
  let ?s = "new_fabric \<lparr>cr_secret = [1]\<rparr>"
  obtain payload where p: "demo_payload_of builtin_plugins ''qso://w'' None = Return payload"
      "dp_nodes payload = concat (map (\<lambda>p. pl_nodes p ''qso://w'') builtin_plugins)" using builtin_payload by blast
  have uris: "map dn_uri (dp_nodes payload) = map (\<lambda>n. ''qso://w/node/'' @ n) [''quantum_sphere'', ''quantum_channel_beam'',
      ''satoshi_chain_anchor'', ''satoshi_chain_ledger_ring'', ''nlm_dc_anchor'', ''nlm_dc_endpoint'']"
    unfolding p(2) by code_simp
  have "\<forall>u\<in>set (map dn_uri (dp_nodes payload)). strip u \<noteq> []" unfolding uris by (auto simp: strip_Nil_iff is_space_def)
  then have "\<forall>n\<in>set (dp_nodes payload). strip (dn_uri n) \<noteq> []" by simp
  moreover have "eg_policy (fr_engine ?s) = None" by (simp add: new_fabric_def fresh_engine_def)
  moreover have "\<forall>k. strip (fe_uuid sample_env k) \<noteq> []" by (simp add: sample_env_def strip_Nil_iff is_space_def)
  moreover have "strip ''me'' \<noteq> []" "strip ''v1'' \<noteq> []" by code_simp+
  ultimately obtain t where "eachS (apply_node sample_env ''me'' ''v1'' ''rest'') (dp_nodes payload) ?s = (Inr (), t)"
    using apply_nodes_run [OF live_new] by blast
  then obtain out where run: "apply_demo_plugins sample_env builtin_plugins ''qso://w'' ''me'' ''v1'' ''rest'' None ?s = (Return out, t)"
    using p(1) by (auto simp: apply_demo_plugins_def bindS_def thenS_def liftS_def returnS_def)
  have d: "distinct (map dn_uri (dp_nodes payload))" unfolding p(2) by (rule builtin_nodes_distinct)
  have six: "length (dp_nodes payload) = 6" using arg_cong [OF uris, of length] by simp
  have "''qso://w/node/nlm_dc_anchor'' \<in> set (map dn_uri (dp_nodes payload))" unfolding uris by simp
  with plugins_applied [OF live_new p(1) d run] six run show ?thesis by auto
qed

end
