(* ===== verification/Runtime_Tools.thy ===== *)
theory Runtime_Tools
  imports Policy_Sync Service_Scores Transport_Manager Quantum_Manager Plugin_Service Json_Parser
begin

text \<open>
  \<^verbatim>\<open>services/runtime.py\<close> with the operations of \<^verbatim>\<open>api/mcp_tools/qso_tools.py\<close> that join its services: how
  the runtime is put together from the environment, its report on itself, and the tools that switch and
  use the transport and record it as an object, and those that record identity events.
\<close>

section \<open>The environment\<close>

type_synonym environ = "string \<Rightarrow> string option"

definition env_text :: "environ \<Rightarrow> string \<Rightarrow> string \<Rightarrow> string" where
  "env_text e name def = strip (case e name of Some v \<Rightarrow> v | None \<Rightarrow> def)"

datatype store_choice = In_Memory | At_Path string

definition choose_store :: "environ \<Rightarrow> string \<Rightarrow> store_choice" where
  "choose_store e name = (let path = env_text e name [] in if path \<noteq> [] then At_Path path else In_Memory)"

definition build_event_store :: "environ \<Rightarrow> store_choice" where
  "build_event_store e = choose_store e ''QSO_EVENT_STORE_PATH''"

definition build_checkpoint_store :: "environ \<Rightarrow> store_choice" where
  "build_checkpoint_store e = choose_store e ''QSO_CHECKPOINT_STORE_PATH''"

definition build_snapshot_store :: "environ \<Rightarrow> store_choice" where
  "build_snapshot_store e = choose_store e ''QSO_SNAPSHOT_STORE_DIR''"

definition transport_state_path :: "environ \<Rightarrow> string" where
  "transport_state_path e = env_text e ''QSO_TRANSPORT_STATE_PATH'' ''.codex/state/transport_state.json''"

definition network_audit_path :: "environ \<Rightarrow> string" where
  "network_audit_path e = env_text e ''QSO_NETWORK_AUDIT_PATH'' ''.codex/state/network_audit.jsonl''"

definition mesh_mode_enabled :: "environ \<Rightarrow> bool" where
  "mesh_mode_enabled e \<longleftrightarrow> lower (env_text e ''QSO_MESH_MODE'' []) \<in> {''1'', ''true'', ''yes'', ''on'', ''mesh'', ''required''}"

definition mesh_required_env :: "string list" where
  "mesh_required_env = [''QSO_EVENT_STORE_PATH'', ''QSO_CHECKPOINT_STORE_PATH'', ''QSO_SNAPSHOT_STORE_DIR'',
     ''QSO_NETWORK_AUDIT_PATH'', ''QSO_TRANSPORT_STATE_PATH'']"

definition unresolved_stores :: "environ \<Rightarrow> string list" where
  "unresolved_stores e =
     (if build_event_store e = In_Memory then [''event_store=in_memory''] else []) @
     (if build_checkpoint_store e = In_Memory then [''checkpoint_store=in_memory''] else []) @
     (if build_snapshot_store e = In_Memory then [''snapshot_store=in_memory''] else [])"

definition enforce_mesh_persistence :: "environ \<Rightarrow> unit result" where
  "enforce_mesh_persistence e =
     (if \<not> mesh_mode_enabled e then Return ()
      else let missing = filter (\<lambda>name. env_text e name [] = []) mesh_required_env; unresolved = unresolved_stores e in
        if missing \<noteq> [] then Raise (RuntimeError (''mesh_mode_requires_env:'' @ join '', '' (sort missing)))
        else if unresolved \<noteq> []
        then Raise (RuntimeError (''mesh_mode_requires_persistent_stores:'' @ join '','' unresolved))
        else Return ())"

text \<open>A policy file that cannot be read, parsed or used is passed over.\<close>

definition build_transport_policy :: "environ \<Rightarrow> (string \<Rightarrow> string result) \<Rightarrow> policy_engine" where
  "build_transport_policy e read =
     (let path = env_text e ''QSO_TRANSPORT_POLICY_PATH'' [];
          given = env_text e ''QSO_TRANSPORT_POLICY_VERSION'' ''v1'';
          version = (if given = [] then ''v1'' else given);
          built_in = policy_from_mapping (Some [(''version'', PStr version), (''policy'', PDict DEFAULT_TRANSPORT_POLICY)]) version
      in if path = [] then built_in
         else case bindR (read path) json_loads of
           Inl _ \<Rightarrow> built_in
         | Inr (JObj d) \<Rightarrow> policy_from_mapping (Some (val_row d)) version
         | Inr v \<Rightarrow> if to_bool (val_of v) then built_in else policy_from_mapping None version)"

section \<open>The runtime\<close>

record runtime =
  rt_gdml :: gdml
  rt_transport :: transport_manager

definition bootstrap_transport :: "environ \<Rightarrow> world \<Rightarrow> transport_manager \<Rightarrow> transport_manager" where
  "bootstrap_transport e wd t =
     (let mode = lower (env_text e ''QSO_TRANSPORT_MODE'' [])
      in if mode = [] then t
         else snd (manager_set_mode wd mode ''runtime-bootstrap'' (pe_version (tm_policy t)) ''bootstrap'' ''transport_control'' t))"

definition new_runtime ::
    "crypto \<Rightarrow> environ \<Rightarrow> (string \<Rightarrow> string result) \<Rightarrow> world \<Rightarrow> state_file \<Rightarrow> json list \<Rightarrow> runtime result" where
  "new_runtime c e read wd file lines =
     bindR (enforce_mesh_persistence e) (\<lambda>_.
     bindR (open_audit_logger lines (Some c)) (\<lambda>audit.
       let t = make_manager (build_transport_policy e read) (open_state_store (wd_state_now wd) file) audit None (Some c)
       in Return \<lparr>rt_gdml = new_gdml c, rt_transport = bootstrap_transport e wd t\<rparr>))"

definition on_core :: "(Qso_Tools.fabric, 'a) op \<Rightarrow> (runtime, 'a) op" where
  "on_core m = (\<lambda>s. case m (gd_fabric (rt_gdml s)) of (r, f) \<Rightarrow> (r, s\<lparr>rt_gdml := (rt_gdml s)\<lparr>gd_fabric := f\<rparr>\<rparr>))"

definition on_gdml :: "(gdml, 'a) op \<Rightarrow> (runtime, 'a) op" where
  "on_gdml m = (\<lambda>s. case m (rt_gdml s) of (r, g) \<Rightarrow> (r, s\<lparr>rt_gdml := g\<rparr>))"

definition on_transport :: "(transport_manager, 'a) op \<Rightarrow> (runtime, 'a) op" where
  "on_transport m = (\<lambda>s. case m (rt_transport s) of (r, t) \<Rightarrow> (r, s\<lparr>rt_transport := t\<rparr>))"

section \<open>Health\<close>

text \<open>What the report asks of the file system: whether a directory is usable, and whether a file is there.\<close>

record disk =
  dk_parent :: "string \<Rightarrow> string"
  dk_ready :: "string \<Rightarrow> bool \<times> string"
  dk_exists :: "string \<Rightarrow> bool"

definition store_health :: "disk \<Rightarrow> (string \<Rightarrow> string) \<Rightarrow> string \<Rightarrow> store_choice \<Rightarrow> pyval dict" where
  "store_health d folder mode choice = (case choice of
       At_Path path \<Rightarrow> (case dk_ready d (folder path) of (ok, detail) \<Rightarrow>
         [(''ok'', PBool ok), (''mode'', PStr mode), (''path'', PStr path), (''detail'', PStr detail)])
     | In_Memory \<Rightarrow> [(''ok'', PBool True), (''mode'', PStr ''in_memory''), (''detail'', PStr ''ephemeral'')])"

definition state_health :: "disk \<Rightarrow> string \<Rightarrow> pyval dict" where
  "state_health d path = (case dk_ready d (dk_parent d path) of (ok, detail) \<Rightarrow>
     [(''ok'', PBool (ok \<and> dk_exists d path)), (''path'', PStr path), (''detail'', PStr detail)])"

definition audit_health :: "disk \<Rightarrow> string \<Rightarrow> bool \<Rightarrow> pyval dict" where
  "audit_health d path chain_ok = (case dk_ready d (dk_parent d path) of (ok, detail) \<Rightarrow>
     [(''ok'', PBool (ok \<and> chain_ok)), (''path'', PStr path), (''detail'', PStr detail), (''hash_chain_ok'', PBool chain_ok)])"

definition health_components :: "disk \<Rightarrow> environ \<Rightarrow> nat \<Rightarrow> bool \<Rightarrow> pyval dict dict" where
  "health_components d e plugin_count chain_ok =
     [(''event_store'', store_health d (dk_parent d) ''jsonl'' (build_event_store e)),
      (''checkpoint_store'', store_health d (dk_parent d) ''json'' (build_checkpoint_store e)),
      (''snapshot_store'', store_health d id ''filesystem'' (build_snapshot_store e)),
      (''plugins'', [(''ok'', PBool True), (''count'', PInt (int plugin_count)), (''detail'', PStr ''loaded'')]),
      (''transport_state'', state_health d (transport_state_path e)),
      (''transport_audit'', audit_health d (network_audit_path e) chain_ok)]"

definition health_report :: "disk \<Rightarrow> environ \<Rightarrow> demo_plugin list \<Rightarrow> runtime \<Rightarrow> pyval dict result" where
  "health_report d e plugins s =
     bindR (list_demo_plugins plugins None) (\<lambda>manifests.
     bindR (if dk_exists d (network_audit_path e) then verify_audit_chain (rt_transport s) else Return True) (\<lambda>chain_ok.
       let components = health_components d e (length manifests) chain_ok
       in Return [(''ok'', PBool (\<forall>(name, row)\<in>set components. to_bool (dget_or row ''ok'' PNone))),
            (''mesh_mode'', PBool (mesh_mode_enabled e)), (''components'', PDict (map (map_prod id PDict) components))]))"

section \<open>The transport as an object\<close>

definition record_transport :: "fabric_env \<Rightarrow> pyval dict \<Rightarrow> string \<Rightarrow> string \<Rightarrow> string \<Rightarrow> (runtime, qso_event) op" where
  "record_transport env shown actor policy_version node_id =
     on_core (upsert_transport_qso env OBJECT_URI (json_row shown) actor policy_version node_id)"

definition qso_transport_set ::
    "fabric_env \<Rightarrow> world \<Rightarrow> string \<Rightarrow> string \<Rightarrow> string \<Rightarrow> string \<Rightarrow> (runtime, json dict) op" where
  "qso_transport_set env wd mode actor policy_version node_id =
     bindS (on_transport (manager_set_mode wd mode actor policy_version node_id ''transport_control'')) (\<lambda>out.
     bindS (record_transport env (sw_state out) actor policy_version node_id) (\<lambda>event.
       returnS [(''state'', JObj (json_row (sw_state out))), (''audit_event'', JObj (sw_audit_event out)),
         (''circuit_id'', JStr (sw_circuit_id out)), (''qso_event'', JObj (event_json env event))]))"

definition response_json :: "transport_response \<Rightarrow> json dict" where
  "response_json r =
     [(''status_code'', JInt (tp_status_code r)), (''headers'', JObj (map (map_prod id JStr) (tp_headers r))),
      (''body_text'', JStr (body_text r)), (''elapsed_ms'', JFloat (json_float (round6 (tp_elapsed_ms r)))),
      (''mode'', JStr (mode_value (tp_mode r))), (''adapter'', JStr (tp_adapter r)),
      (''exit_fingerprint'', JStr (tp_exit_fingerprint r)), (''error'', JStr (tp_error r)), (''ok'', JBool (response_ok r))]"

definition qso_transport_send ::
    "fabric_env \<Rightarrow> world \<Rightarrow> string \<Rightarrow> string \<Rightarrow> string \<Rightarrow> pyval dict option \<Rightarrow> string option \<Rightarrow> string \<Rightarrow> string \<Rightarrow> string \<Rightarrow>
      pyfloat \<Rightarrow> pyval dict option \<Rightarrow> (runtime, json dict) op" where
  "qso_transport_send env wd workload_type method url headers body actor policy_version node_id timeout_seconds metadata =
     bindS (liftS (request_from_inputs method url headers body (PFloat timeout_seconds) metadata)) (\<lambda>request.
     bindS (on_transport (manager_send wd workload_type request actor policy_version)) (\<lambda>out.
     bindS (record_transport env (sd_state out) actor policy_version node_id) (\<lambda>event.
       returnS [(''response'', JObj (response_json (sd_response out))), (''state'', JObj (json_row (sd_state out))),
         (''health'', JObj (json_row (sd_health out))), (''audit_event'', JObj (sd_audit_event out)),
         (''circuit_id'', JStr (sd_circuit_id out)), (''exit_profile'', JObj (json_row (sd_exit_profile out))),
         (''qso_event'', JObj (event_json env event))])))"

section \<open>Identity events\<close>

text \<open>An operation of the authority or the engine, given two identifiers, with its event as the tools return it.\<close>

definition event_tool :: "fabric_env \<Rightarrow> (string \<Rightarrow> string \<Rightarrow> engine \<Rightarrow> qso_event result \<times> engine) \<Rightarrow> (runtime, json dict) op" where
  "event_tool env f =
     bindS (on_core next_call) (\<lambda>a. bindS (on_core next_call) (\<lambda>b.
     bindS (on_core (on_engine (f (fe_uuid env a) (fe_uuid env b)))) (\<lambda>event. returnS (event_json env event))))"

definition qso_identity_create ::
    "fabric_env \<Rightarrow> string \<Rightarrow> json dict \<Rightarrow> string \<Rightarrow> string \<Rightarrow> string \<Rightarrow> (runtime, json dict) op" where
  "qso_identity_create env uri immutable_core actor policy_version node_id =
     bindS (on_core next_call) (\<lambda>n. event_tool env (\<lambda>id1 id2.
       eg_create_identity (fe_now env n) id1 id2 uri immutable_core actor policy_version node_id))"

definition qso_identity_event ::
    "fabric_env \<Rightarrow> string \<Rightarrow> string \<Rightarrow> json dict \<Rightarrow> string \<Rightarrow> string \<Rightarrow> string \<Rightarrow> (runtime, json dict) op" where
  "qso_identity_event env uri event_type payload actor policy_version node_id =
     event_tool env (\<lambda>id1 id2.
       eg_apply_identity_event id1 id2 uri (parse_identity_event_type event_type) payload actor policy_version node_id)"

definition qso_authority_issue_credential ::
    "fabric_env \<Rightarrow> string \<Rightarrow> string \<Rightarrow> json dict option \<Rightarrow> string \<Rightarrow> string \<Rightarrow> string \<Rightarrow> (runtime, json dict) op" where
  "qso_authority_issue_credential env uri credential_id credential_body actor policy_version node_id =
     event_tool env (\<lambda>id1 id2. issue_credential uri credential_id credential_body id1 id2 actor policy_version node_id)"

definition qso_authority_revoke_credential ::
    "fabric_env \<Rightarrow> string \<Rightarrow> string \<Rightarrow> string \<Rightarrow> string \<Rightarrow> string \<Rightarrow> string \<Rightarrow> (runtime, json dict) op" where
  "qso_authority_revoke_credential env uri credential_id reason actor policy_version node_id =
     event_tool env (\<lambda>id1 id2. revoke_credential uri credential_id reason id1 id2 actor policy_version node_id)"

definition qjfp_handshake :: "string \<Rightarrow> string \<Rightarrow> string \<Rightarrow> json dict \<Rightarrow> json dict" where
  "qjfp_handshake node_identity hardware_signature policy_version quantum_capabilities =
     (let accepted = (strip node_identity \<noteq> [] \<and> strip hardware_signature \<noteq> []) in
      [(''accepted'', JBool accepted), (''reason'', JStr (if accepted then ''accepted'' else ''missing_identity_or_signature'')),
       (''node_identity'', JStr node_identity), (''policy_version'', JStr policy_version),
       (''quantum_capabilities'', JObj quantum_capabilities)])"

section \<open>Mesh mode\<close>

text \<open>In mesh mode what is required is enough: the check of the stores after it never refuses.\<close>

lemma mesh_check:
  assumes "mesh_mode_enabled e"
  shows "enforce_mesh_persistence e = Return () \<longleftrightarrow> (\<forall>name\<in>set mesh_required_env. env_text e name [] \<noteq> [])"
  using assms
  by (auto simp: enforce_mesh_persistence_def Let_def unresolved_stores_def build_event_store_def build_checkpoint_store_def
      build_snapshot_store_def choose_store_def mesh_required_env_def filter_empty_conv)

section \<open>What every operation keeps\<close>

definition keyed :: "engine \<Rightarrow> bool" where
  "keyed g \<longleftrightarrow> (\<forall>u obj. dget (eg_registry g) u = Some obj \<longrightarrow> ob_uri obj = u)"

definition core_ok :: "json dict option \<Rightarrow> crypto \<Rightarrow> engine \<Rightarrow> bool" where
  "core_ok p c g \<longleftrightarrow> eg_policy g = p \<and> eg_crypto g = c \<and> keyed g"

lemma core_ok_clock [simp]: "core_ok p c (g\<lparr>eg_clock := k\<rparr>) = core_ok p c g" "core_ok p c (g\<lparr>eg_log := l\<rparr>) = core_ok p c g"
  by (simp_all add: core_ok_def keyed_def)

lemma core_ok_create: "core_ok p c g \<Longrightarrow> core_ok p c (snd (create_object now uri schema actor g))"
  by (auto simp: core_ok_def keyed_def create_object_def rg_create_def Let_def split: sum.splits)

lemma core_ok_patch: "core_ok p c g \<Longrightarrow> core_ok p c (snd (patch event_id uri delta actor pv node g))"
  by (auto simp: core_ok_def keyed_def patch_def Let_def split_beta rg_update_def rg_read_def bindR_eq_Return
      split: sum.splits option.splits if_splits)

lemma core_ok_kernel: "core_ok p c g \<Longrightarrow> core_ok p c (snd (identity_kernel_events uri strict g))"
  by (simp add: identity_kernel_events_def split: prod.splits)

lemma core_ok_identity:
  assumes "core_ok p c g"
  shows "core_ok p c (snd (eg_apply_identity_event id1 id2 uri ty payload actor pv node g))"
proof -
  have kernel: "core_ok p c h" if "identity_kernel_events uri True (g\<lparr>eg_clock := k\<rparr>) = (r, h)" for k r h
    using core_ok_kernel [of p c "g\<lparr>eg_clock := k\<rparr>" uri True] assms that by simp
  show ?thesis using assms kernel
    by (auto simp: eg_apply_identity_event_def Let_def core_ok_patch split: sum.splits prod.splits)
qed

lemma core_ok_new_identity:
  assumes "core_ok p c g"
  shows "core_ok p c (snd (eg_create_identity now id1 id2 uri core actor pv node g))"
proof -
  let ?made = "create_object now uri [(''type'', JStr ''identity''), (''subtype'', JStr ''person'')] actor g"
  have "core_ok p c h" if "?made = (r, h)" for r h
    using core_ok_create [OF assms, of now uri "[(''type'', JStr ''identity''), (''subtype'', JStr ''person'')]" actor] that by simp
  then show ?thesis using assms
    by (auto simp: eg_create_identity_def core_ok_identity split: sum.splits prod.splits)
qed

text \<open>The same of the operations over the fabric.\<close>

abbreviation core_kept :: "json dict option \<Rightarrow> crypto \<Rightarrow> Qso_Tools.fabric \<Rightarrow> bool" where
  "core_kept p c \<equiv> \<lambda>f. core_ok p c (fr_engine f)"

lemma kept_on_engine: "(\<And>g. core_ok p c g \<Longrightarrow> core_ok p c (snd (f g))) \<Longrightarrow> keeps (core_kept p c) (on_engine f)"
  by (auto simp: keeps_def on_engine_def split: prod.splits) (metis snd_conv)

lemma kept_calls: "keeps (core_kept p c) next_call"
  by (simp add: keeps_def next_call_def)

lemma kept_created: "keeps (core_kept p c) (qso_create_by env uri schema actor)"
  unfolding qso_create_by_def by (intro keeps_bindS kept_calls kept_on_engine core_ok_create)

lemma kept_patched: "keeps (core_kept p c) (engine_patch env uri delta actor pv node)"
  unfolding engine_patch_def by (intro keeps_bindS kept_calls kept_on_engine core_ok_patch)

lemma kept_upsert: "keeps (core_kept p c) (upsert_transport_qso env uri shown actor pv node)"
  unfolding upsert_transport_qso_def ensure_object_def qso_has_def
  by (intro keeps_intros kept_patched kept_created)

lemma kept_streamed: "keeps (core_kept p c) (qso_patch env uri delta actor pv node)"
proof -
  have "keeps (core_kept p c) (dispatch_stream uri payload)" "keeps (core_kept p c) (put_checkpoint env uri n)" for uri payload n
    by (simp_all add: keeps_def dispatch_stream_def put_checkpoint_def writeS_def Let_def)
  then show ?thesis unfolding qso_patch_def announce_patch_def by (intro keeps_intros kept_patched kept_calls)
qed

section \<open>Reachable runtimes\<close>

inductive rt_step :: "runtime \<Rightarrow> runtime \<Rightarrow> bool" where
  switched: "rt_step s (snd (qso_transport_set env wd mode actor pv node s))"
| sent: "rt_step s (snd (qso_transport_send env wd wl method url headers body actor pv node timeout metadata s))"
| status: "rt_step s (snd (on_transport (manager_status wd) s))"
| created: "rt_step s (snd (on_core (qso_create env uri schema) s))"
| patched: "rt_step s (snd (on_core (qso_patch env uri delta actor pv node) s))"
| new_identity: "rt_step s (snd (qso_identity_create env uri core actor pv node s))"
| identity: "rt_step s (snd (qso_identity_event env uri event_type payload actor pv node s))"
| published: "rt_step s (snd (on_gdml (publish_policy env policy actor node) s))"
| rolled_back: "rt_step s (snd (on_gdml (rollback env target actor node) s))"
| optimized: "rt_step s (snd (on_gdml (global_optimize env) s))"
| rewarded: "rt_step s (snd (on_gdml (ingest_reward node reward) s))"

definition rt_reachable :: "runtime \<Rightarrow> bool" where
  "rt_reachable s \<longleftrightarrow> (\<exists>c e read wd file s0. new_runtime c e read wd file [] = Return s0 \<and> rt_step\<^sup>*\<^sup>* s0 s)"

definition rt_engine :: "runtime \<Rightarrow> engine" where
  "rt_engine s = fr_engine (gd_fabric (rt_gdml s))"

definition rt_ok :: "runtime \<Rightarrow> bool" where
  "rt_ok s \<longleftrightarrow> gdml_ok (rt_gdml s) \<and> keyed (rt_engine s) \<and> manager_ok (rt_transport s)"

text \<open>An operation on one part keeps all when it keeps what the others ask of that part.\<close>

lemma rt_ok_core:
  assumes "\<And>p c. keeps (core_kept p c) m"
  shows "keeps rt_ok (on_core m)"
proof -
  have "rt_ok (snd (on_core m s))" if ok: "rt_ok s" for s
  proof -
    obtain r f where run: "m (gd_fabric (rt_gdml s)) = (r, f)" by fastforce
    have "core_ok (eg_policy (rt_engine s)) (eg_crypto (rt_engine s)) (rt_engine s)" using ok by (simp add: rt_ok_def core_ok_def)
    then have "core_ok (eg_policy (rt_engine s)) (eg_crypto (rt_engine s)) (fr_engine f)"
      using keepsD [OF assms] run unfolding rt_engine_def by (metis snd_conv)
    then show ?thesis using ok run by (auto simp: rt_ok_def on_core_def core_ok_def rt_engine_def gdml_ok_def)
  qed
  then show ?thesis by (simp add: keeps_def)
qed

lemma rt_ok_transport:
  assumes "\<And>t. manager_ok t \<Longrightarrow> manager_ok (snd (m t))"
  shows "keeps rt_ok (on_transport m)"
  using assms by (auto simp: keeps_def rt_ok_def on_transport_def rt_engine_def split: prod.splits) (metis snd_conv)

lemma rt_ok_gdml:
  assumes "\<And>g. gdml_ok g \<Longrightarrow> gdml_ok (snd (m g))" "\<And>g. eg_registry (fr_engine (gd_fabric (snd (m g)))) = eg_registry (fr_engine (gd_fabric g))"
  shows "keeps rt_ok (on_gdml m)"
proof -
  have "rt_ok (snd (on_gdml m s))" if ok: "rt_ok s" for s
    using ok assms(1) [of "rt_gdml s"] assms(2) [of "rt_gdml s"]
    by (cases "m (rt_gdml s)") (auto simp: rt_ok_def on_gdml_def rt_engine_def keyed_def)
  then show ?thesis by (simp add: keeps_def)
qed

lemma publish_registry: "eg_registry (fr_engine (gd_fabric (snd (publish_policy env policy actor node g)))) = eg_registry (fr_engine (gd_fabric g))"
  by (auto simp: publish_policy_def op_defs Let_def with_runtime_def next_call_def on_engine_def clock_tick_def adopt_policy_def
      set_resolver_def log_policy_def split: sum.splits prod.splits)

lemma rollback_registry: "eg_registry (fr_engine (gd_fabric (snd (rollback env target actor node g)))) = eg_registry (fr_engine (gd_fabric g))"
  by (simp add: rollback_def bindS_def readS_def raiseS_def publish_registry)

lemma optimize_registry: "eg_registry (fr_engine (gd_fabric (snd (global_optimize env g)))) = eg_registry (fr_engine (gd_fabric g))"
proof -
  define policy where "policy = optimized_policy (recommend_from (aggregate_rewards_of (gd_rewards g)))"
  obtain r t where run: "publish_policy env policy ''gdml-optimizer'' ''gdml-core'' g = (r, t)" by fastforce
  have "snd (global_optimize env g) = t"
    using run unfolding policy_def by (cases r) (simp_all add: global_optimize_def op_defs)
  then show ?thesis using publish_registry [of env policy "''gdml-optimizer''" "''gdml-core''" g] run by simp
qed

lemma set_mode_ok: "manager_ok t \<Longrightarrow> manager_ok (snd (manager_set_mode wd mode actor pv node wl t))"
  using set_mode_grows grows_ok by (metis prod.collapse)

lemma send_ok: "manager_ok t \<Longrightarrow> manager_ok (snd (manager_send wd wl q actor pv t))"
  using send_grows grows_ok by (metis prod.collapse)

lemma status_ok: "manager_ok t \<Longrightarrow> manager_ok (snd (manager_status wd t))"
  using status_grows grows_ok by (metis prod.collapse)

lemma rt_ok_record: "keeps rt_ok (record_transport env shown actor pv node)"
  unfolding record_transport_def by (intro rt_ok_core kept_upsert)

lemma rt_ok_event_tool:
  assumes "\<And>p c id1 id2 g. core_ok p c g \<Longrightarrow> core_ok p c (snd (f id1 id2 g))"
  shows "keeps rt_ok (event_tool env f)"
  unfolding event_tool_def using assms by (intro keeps_bindS keeps_simple rt_ok_core kept_calls kept_on_engine) simp_all

lemma rt_ok_tools:
  "keeps rt_ok (qso_transport_set env wd mode actor pv node)"
  "keeps rt_ok (qso_transport_send env wd wl method url headers body actor pv node timeout metadata)"
  "keeps rt_ok (on_transport (manager_status wd))"
proof -
  show "keeps rt_ok (qso_transport_set env wd mode actor pv node)" unfolding qso_transport_set_def
    by (intro keeps_bindS keeps_simple rt_ok_record, rule rt_ok_transport, rule set_mode_ok)
  show "keeps rt_ok (qso_transport_send env wd wl method url headers body actor pv node timeout metadata)"
    unfolding qso_transport_send_def
    by (intro keeps_bindS keeps_simple rt_ok_record, rule rt_ok_transport, rule send_ok)
  show "keeps rt_ok (on_transport (manager_status wd))" by (rule rt_ok_transport, rule status_ok)
qed

lemma rt_ok_objects:
  "keeps rt_ok (on_core (qso_create env uri schema))" "keeps rt_ok (on_core (qso_patch env uri delta actor pv node))"
  unfolding qso_create_def by (rule rt_ok_core kept_created kept_streamed)+

lemma rt_ok_identities:
  "keeps rt_ok (qso_identity_create env uri core actor pv node)"
  "keeps rt_ok (qso_identity_event env uri event_type payload actor pv node)"
proof -
  have "keeps rt_ok (on_core next_call)" by (rule rt_ok_core) (rule kept_calls)
  moreover have "keeps rt_ok (event_tool env (\<lambda>id1 id2. eg_create_identity now id1 id2 uri core actor pv node))" for now
    by (rule rt_ok_event_tool) (rule core_ok_new_identity)
  ultimately show "keeps rt_ok (qso_identity_create env uri core actor pv node)"
    unfolding qso_identity_create_def by (rule keeps_bindS)
  show "keeps rt_ok (qso_identity_event env uri event_type payload actor pv node)"
    unfolding qso_identity_event_def by (rule rt_ok_event_tool) (rule core_ok_identity)
qed

lemma rt_ok_policies:
  "keeps rt_ok (on_gdml (publish_policy env policy actor node))" "keeps rt_ok (on_gdml (rollback env target actor node))"
  "keeps rt_ok (on_gdml (global_optimize env))" "keeps rt_ok (on_gdml (ingest_reward node reward))"
proof -
  show "keeps rt_ok (on_gdml (publish_policy env policy actor node))" by (rule rt_ok_gdml [OF publish_ok publish_registry])
  show "keeps rt_ok (on_gdml (rollback env target actor node))" by (rule rt_ok_gdml [OF rollback_ok rollback_registry])
  show "keeps rt_ok (on_gdml (global_optimize env))" by (rule rt_ok_gdml [OF optimize_ok optimize_registry])
  show "keeps rt_ok (on_gdml (ingest_reward node reward))"
    by (rule rt_ok_gdml) (simp_all add: ingest_reward_def writeS_def gdml_ok_def)
qed

lemma rt_step_ok: "rt_step s t \<Longrightarrow> rt_ok s \<Longrightarrow> rt_ok t"
  by (induction rule: rt_step.induct) (blast intro: keepsD rt_ok_tools rt_ok_objects rt_ok_identities rt_ok_policies)+

lemma new_runtime_ok:
  assumes "new_runtime c e read wd file [] = Return s"
  shows "rt_ok s"
proof -
  from assms obtain audit where audit: "open_audit_logger [] (Some c) = Return audit"
    and s: "s = \<lparr>rt_gdml = new_gdml c, rt_transport = bootstrap_transport e wd
      (make_manager (build_transport_policy e read) (open_state_store (wd_state_now wd) file) audit None (Some c))\<rparr>"
    by (auto simp: new_runtime_def Let_def bindR_eq_Return)
  have "manager_ok (bootstrap_transport e wd (make_manager p f audit None (Some c)))" for p f
    using fresh_manager_ok(1) [OF audit] by (simp add: bootstrap_transport_def Let_def set_mode_ok)
  moreover have "keyed (fr_engine (gd_fabric (new_gdml c)))"
    by (simp add: keyed_def new_gdml_def set_resolver_def new_fabric_def fresh_engine_def)
  ultimately show ?thesis by (simp add: rt_ok_def s new_gdml_ok rt_engine_def)
qed

lemma rt_reachable_ok: "rt_reachable s \<Longrightarrow> rt_ok s"
proof -
  have "rt_step\<^sup>*\<^sup>* s0 s \<Longrightarrow> rt_ok s0 \<Longrightarrow> rt_ok s" for s0
    by (induction rule: rtranclp_induct) (auto intro: rt_step_ok)
  then show "rt_reachable s \<Longrightarrow> rt_ok s" unfolding rt_reachable_def using new_runtime_ok by blast
qed

section \<open>A switch of the transport\<close>

text \<open>How a switch that returns has come about, in the manager and in the engine.\<close>

lemma store_set_mode_written:
  "store_set_mode now (mode_value m) pv node f = Return (st, f') \<Longrightarrow> f' = write_state st \<and> ts_mode st = m"
  by (auto simp: store_set_mode_def mutate_state_def Let_def bindR_eq_Return)

lemma audit_log_longer: "audit_log e a = Return (event, a') \<Longrightarrow> length (au_lines a) < length (au_lines a')"
  by (auto simp: audit_log_def Let_def bindR_eq_Return)

lemma switched_manager:
  assumes "manager_ok t" "manager_set_mode wd mode actor pv node ''transport_control'' t = (Inr out, t')"
  shows "\<exists>st row. allows (tm_policy t) ''transport_control'' (mode_value (ts_mode st)) \<and> tm_state t' = write_state st \<and>
    sw_state out = transport_state_to_dict st \<and> au_lines (tm_audit t') = au_lines (tm_audit t) @ [JObj row] \<and>
    governed (tm_policy t) (JObj row)"
proof -
  have grown: "grows t t'" by (rule set_mode_grows [OF assms])
  from assms(2) obtain m st where m: "enforce (tm_policy t) ''transport_control'' (mode_value m) = Return ()"
      "store_set_mode (wd_state_now wd) (mode_value m) pv (Some node) (tm_state t) = Return (st, tm_state t')"
      "sw_state out = transport_state_to_dict st" and logged: "length (au_lines (tm_audit t')) > length (au_lines (tm_audit t))"
    by (auto simp: manager_set_mode_def Let_def bindR_eq_Return dest: audit_log_longer split: sum.splits prod.splits)
  have mode: "tm_state t' = write_state st" "ts_mode st = m" using store_set_mode_written [OF m(2)] by blast+
  from grown logged obtain row where "au_lines (tm_audit t') = au_lines (tm_audit t) @ [JObj row]" "governed (tm_policy t) (JObj row)"
    by (auto simp: grows_def)
  moreover have "allows (tm_policy t) ''transport_control'' (mode_value (ts_mode st))"
    using m(1) mode(2) by (simp add: enforce_def split: if_splits)
  ultimately show ?thesis using mode(1) m(3) by blast
qed

lemma patch_done:
  assumes "keyed g" "patch event_id uri delta actor pv node g = (Inr e, g')"
  shows "check_policy (eg_policy g) pv actor = Return () \<and> eg_log g' = append_log e (eg_log g) \<and> qe_delta e = delta \<and>
    qe_object_uri e = uri \<and> (\<exists>old obj. dget (eg_registry g') uri = Some obj \<and> ob_state_layer obj = deep_merge old delta)"
proof -
  from assms(2) obtain obj where obj: "dget (eg_registry g) uri = Some obj" "check_policy (eg_policy g) pv actor = Return ()"
    by (auto simp: patch_def Let_def split_beta bindR_eq_Return rg_read_def split: sum.splits option.splits)
  then have "ob_uri obj = uri" using assms(1) by (auto simp: keyed_def)
  with assms(2) obj show ?thesis
    by (auto simp: patch_def Let_def split_beta rg_read_def rg_update_def has_key_def split: sum.splits)
qed

lemma keyed_upsert:
  assumes "keyed (fr_engine f)" "upsert_transport_qso env uri shown actor pv node f = (Inr e, f')"
  shows "check_policy (eg_policy (fr_engine f)) pv actor = Return () \<and> eg_log (fr_engine f') = append_log e (eg_log (fr_engine f)) \<and>
    qe_delta e = shown \<and> qe_object_uri e = uri \<and>
    (\<exists>old obj. dget (eg_registry (fr_engine f')) uri = Some obj \<and> ob_state_layer obj = deep_merge old shown)"
proof -
  from assms(2) obtain x m where made: "ensure_object env uri [(''$id'', JStr ''qso://infra.transport''), (''type'', JStr ''transport''),
        (''schema_ref'', JStr ''api/schemas/transport.schema.json'')] actor f = (Inr x, m)"
    and run: "engine_patch env uri shown actor pv node m = (Inr e, f')" by (auto simp: upsert_transport_qso_def thenS_Return)
  have same: "eg_policy (fr_engine m) = eg_policy (fr_engine f)" "eg_log (fr_engine m) = eg_log (fr_engine f)"
    using made by (auto simp: ensure_object_def bindS_Return qso_has_def qso_create_by_def next_call_Return on_engine_Return
        create_object_def Let_def split: if_splits sum.splits)
  have "keyed (fr_engine m)"
  proof -
    let ?p = "eg_policy (fr_engine f)" and ?c = "eg_crypto (fr_engine f)"
    have "keeps (core_kept ?p ?c) (ensure_object env uri schema actor)" for schema
      unfolding ensure_object_def qso_has_def by (intro keeps_intros kept_created)
    from keeps_result [OF this _ made] assms(1) show ?thesis by (simp add: core_ok_def)
  qed
  moreover from run have "patch (fe_uuid env (fr_calls m)) uri shown actor pv node (fr_engine m) = (Inr e, fr_engine f')"
    by (auto simp: engine_patch_Return)
  ultimately show ?thesis using patch_done [of "fr_engine m"] same by simp
qed

lemma flat_transport: "distinct (dkeys (json_row (transport_state_to_dict st)))"
    "dget (json_row (transport_state_to_dict st)) k = Some v \<Longrightarrow> v \<noteq> JObj d"
  by (auto simp: json_row_def transport_state_to_dict_def split: if_splits)

text \<open>An event with non-empty fields that the policy allows is taken.\<close>

lemma patch_runs:
  assumes "keyed g" "check_policy (eg_policy g) pv actor = Return ()" "dget (eg_registry g) uri = Some obj"
    and "\<forall>x\<in>{event_id, actor, uri, pv}. strip x \<noteq> []"
  shows "\<exists>e g'. patch event_id uri delta actor pv node g = (Inr e, g')"
proof -
  have "ob_uri obj = uri" using assms(1,3) by (auto simp: keyed_def)
  with assms(2-4) show ?thesis
    by (simp add: patch_def rg_read_def rg_update_def has_key_def Let_def next_datetime_def payload_Return strip_isoformat split_beta)
qed

lemma patch_refused:
  assumes "check_policy (eg_policy g) pv actor = Raise err"
  shows "patch event_id uri delta actor pv node g = (Raise err, g)"
  using assms by (simp add: patch_def)

text \<open>The object of the transport is there before it is patched.\<close>

lemma ensured:
  "\<exists>f'. ensure_object env uri schema actor f = (Inr (), f') \<and> dget (eg_registry (fr_engine f')) uri \<noteq> None \<and>
     eg_policy (fr_engine f') = eg_policy (fr_engine f) \<and> eg_log (fr_engine f') = eg_log (fr_engine f)"
  by (auto simp: ensure_object_def qso_has_def rg_has_def has_key_def op_defs qso_create_by_def next_call_def on_engine_def
      create_object_def rg_create_def Let_def)

lemma upsert_refused:
  assumes "check_policy (eg_policy (fr_engine f)) pv actor = Raise err"
  shows "\<exists>f'. upsert_transport_qso env uri shown actor pv node f = (Raise err, f') \<and> eg_log (fr_engine f') = eg_log (fr_engine f)"
proof -
  from ensured obtain m where m: "ensure_object env uri [(''$id'', JStr ''qso://infra.transport''), (''type'', JStr ''transport''),
      (''schema_ref'', JStr ''api/schemas/transport.schema.json'')] actor f = (Inr (), m)"
    "eg_policy (fr_engine m) = eg_policy (fr_engine f)" "eg_log (fr_engine m) = eg_log (fr_engine f)" by blast
  with assms show ?thesis
    by (auto simp: upsert_transport_qso_def thenS_def bindS_def engine_patch_def next_call_def on_engine_def patch_refused)
qed

lemma upsert_runs:
  assumes "keyed (fr_engine f)" "check_policy (eg_policy (fr_engine f)) pv actor = Return ()"
    and "\<forall>k. strip (fe_uuid env k) \<noteq> []" "\<forall>x\<in>{actor, uri, pv}. strip x \<noteq> []"
  shows "\<exists>e f'. upsert_transport_qso env uri shown actor pv node f = (Inr e, f')"
proof -
  let ?schema = "[(''$id'', JStr ''qso://infra.transport''), (''type'', JStr ''transport''),
      (''schema_ref'', JStr ''api/schemas/transport.schema.json'')]"
  from ensured obtain m obj where m: "ensure_object env uri ?schema actor f = (Inr (), m)"
    "dget (eg_registry (fr_engine m)) uri = Some obj" "eg_policy (fr_engine m) = eg_policy (fr_engine f)" by blast
  let ?p = "eg_policy (fr_engine f)" and ?c = "eg_crypto (fr_engine f)"
  have "keeps (core_kept ?p ?c) (ensure_object env uri ?schema actor)"
    unfolding ensure_object_def qso_has_def by (intro keeps_intros kept_created)
  from keeps_result [OF this _ m(1)] assms(1) have "keyed (fr_engine m)" by (simp add: core_ok_def)
  from patch_runs [OF this _ m(2), of pv actor "fe_uuid env (fr_calls m)" shown node] assms(2-4) m(3)
  obtain e g where "patch (fe_uuid env (fr_calls m)) uri shown actor pv node (fr_engine m) = (Inr e, g)" by auto
  with m(1) show ?thesis
    by (auto simp: upsert_transport_qso_def thenS_def bindS_def engine_patch_def next_call_def on_engine_def)
qed

text \<open>A switch that the transport policy allows and the policy of the engine refuses raises, and is in force.\<close>

lemma refused_switch_in_force:
  assumes "rt_ok s" "readable (tm_state (rt_transport s))" "allows (tm_policy (rt_transport s)) ''transport_control'' (mode_value m)"
    and "check_policy (eg_policy (rt_engine s)) pv actor = Raise err"
  shows "\<exists>t st. qso_transport_set env wd (mode_value m) actor pv node s = (Raise err, t) \<and>
    tm_state (rt_transport t) = write_state st \<and> ts_mode st = m \<and> eg_log (rt_engine t) = eg_log (rt_engine s)"
proof -
  have "manager_ok (rt_transport s)" using assms(1) by (simp add: rt_ok_def)
  from set_mode_runs [OF this assms(2,3)] obtain rep t' st where
      t': "manager_set_mode wd (mode_value m) actor pv node ''transport_control'' (rt_transport s) = (Return rep, t')"
      "tm_state t' = write_state st" "ts_mode st = m" by blast
  from upsert_refused [OF assms(4) [unfolded rt_engine_def], of env OBJECT_URI "json_row (sw_state rep)" node]
  obtain f' where "upsert_transport_qso env OBJECT_URI (json_row (sw_state rep)) actor pv node (gd_fabric (rt_gdml s)) = (Raise err, f')"
      "eg_log (fr_engine f') = eg_log (rt_engine s)" by (auto simp: rt_engine_def)
  with t' show ?thesis
    by (auto simp: qso_transport_set_def bindS_def on_transport_def record_transport_def on_core_def rt_engine_def)
qed


text \<open>A runtime started without any setting.\<close>

lemma default_policy: "build_transport_policy (\<lambda>_. None) read = runtime_transport_policy ''v1''"
proof -
  have "strip ''v1'' = ''v1''" "strip [] = []" by code_simp+
  then show ?thesis by (simp add: build_transport_policy_def env_text_def runtime_transport_policy_def Let_def)
qed

lemma default_runtime:
  "new_runtime c (\<lambda>_. None) read wd None [] = Return \<lparr>rt_gdml = new_gdml c, rt_transport =
     make_manager (runtime_transport_policy ''v1'') (write_state (default_transport_state (wd_state_now wd)))
       \<lparr>au_lines = [], au_last_hash = audit_genesis, au_crypto = Some c\<rparr> None (Some c)\<rparr>"
proof -
  have empty: "strip [] = []" "lower [] = []" by code_simp+
  then have "\<not> mesh_mode_enabled (\<lambda>_. None)" by (simp add: mesh_mode_enabled_def env_text_def)
  then show ?thesis
    by (simp add: new_runtime_def enforce_mesh_persistence_def open_audit_logger_def tail_hash_def default_policy
        bootstrap_transport_def env_text_def empty Let_def open_state_store_def)
qed


end
