(* ===== verification/Spec2Isabelle.thy ===== *)
theory Spec2Isabelle
  imports Policy_Guard Merkle State_Engine Fabric_Rankings Transport_Manager Quantum_Lisp
    Governance_Limits Agent_Dsl Constellation_Contract Prefix_Stream Identity_Verifier
    Lisp_Reasoning Scene_Projector Global_Meta Service_Scores
    Nlm_Client Runtime_Tools
begin

text \<open>
  A model of qso-fabric, a runtime for quantum state objects (QSOs): Python services that keep live
  objects, log every change as a signed event, rebuild their state from the log, police transport
  and policy, and reason about ``quantum'' fabrics of state.  Everything below is a shallow
  embedding of the Python under \<^verbatim>\<open>src/\<close>, read as Python 3.11; a definition carries the name of the
  function it translates, with a prefix where two modules use one name.

  \<^bold>\<open>Parts and theories.\<close>

  \<^item> \<open>Prelude\<close>: exceptions as \<open>py_error + 'a\<close> (\<open>Raise\<close>, \<open>Return\<close>, \<open>bindR\<close>, \<open>mapR\<close>), dictionaries as
    insertion-ordered association lists (\<open>dget\<close>, \<open>dset\<close>), and the methods of \<open>str\<close> the code calls.
    \<open>Json\<close>, \<open>Sha256\<close>, \<open>Datetime\<close>, \<open>Py_Float\<close>, \<open>Value_Json\<close>: the standard library as the code uses
    it -- \<open>json.dumps\<close> with sorted keys, \<open>hashlib\<close>, \<open>datetime\<close>, binary64 arithmetic with \<open>round\<close>
    and \<open>repr\<close>, and \<open>json.dumps\<close> over dynamic values.
  \<^item> \<open>Fixed_Math\<close>, \<open>Stellar_Physics\<close>, \<open>Policy_Guard\<close>: \<^verbatim>\<open>solis/physics\<close>, \<^verbatim>\<open>solis/constellation\<close>,
    \<^verbatim>\<open>solis/sheaf\<close>, \<^verbatim>\<open>solis/agent/runtime\<close> and \<^verbatim>\<open>solis/agent/marketplace/revenue_model.py\<close>: 64.64
    fixed-point numbers, the engines computed with them, and the guard that decides agent actions.
  \<^item> \<open>Merkle\<close>: \<^verbatim>\<open>solis/merkle\<close> and \<^verbatim>\<open>solis/identity/anchor\<close>, roots, proofs and accumulators.
  \<^item> \<open>Identity_Kernel\<close>: \<^verbatim>\<open>core/identity\<close>, the reducer that turns the events of an identity into its
    state.  \<open>Event_Store\<close>: \<^verbatim>\<open>storage/event_store\<close> with its index and checkpoints.  \<open>Event_Log\<close>:
    \<^verbatim>\<open>services/event_log\<close> and \<^verbatim>\<open>solis/shared/event_envelope.py\<close>, signed events over a store.
    \<open>Entanglement\<close>: \<^verbatim>\<open>services/entanglement_graph\<close>, links, cycles and bounded subscriber queues.
    \<open>State_Engine\<close>: \<^verbatim>\<open>services/registry\<close>, \<^verbatim>\<open>services/state_engine\<close>, \<^verbatim>\<open>services/identity_authority\<close>,
    which compose the four.  A patch goes through \<open>check_policy\<close>, becomes an event of the log,
    updates the registry and is published to the subscribers of linked objects.
  \<^item> \<open>Fabric_Values\<close>, \<open>Fabric_Repair\<close>, \<open>Fabric_Trust\<close>, \<open>Fabric_Stability\<close>, \<open>Fabric_Scene\<close>,
    \<open>Fabric_State\<close>, \<open>Fabric_Gluing\<close>, \<open>Fabric_Rankings\<close>: \<^verbatim>\<open>services/quantum/fabric\<close>, one theory per
    group of its modules.
  \<^item> \<open>Transport_Models\<close>, \<open>Transport_Audit\<close>, \<open>Transport_Monitors\<close>, \<open>Transport_Manager\<close>:
    \<^verbatim>\<open>services/transport\<close>: policy, signed audit chain and its replay, monitors, adapters, manager.
  \<^item> \<open>Quantum_Lisp\<close>: \<^verbatim>\<open>services/quantum_lisp\<close>, tokenizer, reader and compiler.  \<open>Quantum_Simulator\<close>:
    \<^verbatim>\<open>services/quantum/simulators\<close>, the state-vector simulator.  \<open>Quantum_Manager\<close>: the backends, the
    manager, the replay and the response filter of \<^verbatim>\<open>services/quantum\<close>.  \<open>Lisp_Reasoning\<close>: the analysis
    of a compiled program over the fabric and the backends.
  \<^item> \<open>Qso_Tools\<close>: \<^verbatim>\<open>services/runtime.py\<close> and \<^verbatim>\<open>api/mcp_tools/qso_tools.py\<close>, the state of a fabric
    (engine, transport, checkpoints, streams) and the operations on it.  \<open>Cursor_Tokens\<close> and
    \<open>Prefix_Stream\<close>: the cursors of its subscriptions and the merged stream of a prefix.
    \<open>Scene_Projector\<close>: \<^verbatim>\<open>qso_vr_visualization\<close>, world matrices, integrity and interest of a scene.
  \<^item> \<open>Json_Parser\<close>: \<open>json.loads\<close>.  \<open>Qff_Snapshot\<close>: \<^verbatim>\<open>qff\<close>, \<^verbatim>\<open>services/snapshot_exporter\<close> and
    \<^verbatim>\<open>storage/snapshot_store\<close>.  \<open>Identity_Verifier\<close>: \<^verbatim>\<open>services/identity_verifier\<close>, bundles and their six
    verification steps.
  \<^item> \<open>Governance\<close>, \<open>Governance_Limits\<close>: \<^verbatim>\<open>solis/governance\<close> and \<^verbatim>\<open>solis/execution\<close>, roles, signed
    decisions, limits and intents.  \<open>State_Result\<close>, \<open>Agent_Dsl\<close>: the state-and-exception monad, and
    \<^verbatim>\<open>solis/agent\<close>, agent language, templates and sandbox.
  \<^item> \<open>Stellar_Projector\<close>: \<^verbatim>\<open>solis/projectors\<close>, \<^verbatim>\<open>solis/entanglement\<close> and \<^verbatim>\<open>solis/gdml\<close>.  \<open>Solis_Gates\<close>:
    \<^verbatim>\<open>solis/integration/gates.py\<close> and \<^verbatim>\<open>solis/identity/zk\<close>.  \<open>Gate_Audit\<close>: the audit of the gates' decisions.
    \<open>Star_Service\<close>, \<open>Constellation_Service\<close>: \<^verbatim>\<open>solis/services\<close>, stars and their groups on the fabric.
    \<open>Star_Contract\<close>, \<open>Constellation_Contract\<close>: what those services promise, proved over every operation.
  \<^item> \<open>Policy_Sync\<close>: \<^verbatim>\<open>gdml\<close> and \<^verbatim>\<open>meta/proposal_engine\<close>, the policy the state engine asks, its publication
    and rollback, and the optimizer that publishes from rewards.  \<open>Global_Meta\<close>: \<^verbatim>\<open>qso_global_meta\<close>, votes
    and decisions on policies, shared rewards and hints.  \<open>Service_Scores\<close>: \<^verbatim>\<open>services/meta_learning\<close>,
    \<^verbatim>\<open>services/qcc\<close> and \<^verbatim>\<open>services/oracle\<close>.
  \<^item> \<open>Plugin_Service\<close>, \<open>Nlm_Client\<close>: \<^verbatim>\<open>services/plugins\<close>, the demonstration plugins, their application and the
    paced client of a web service.  \<open>Runtime_Tools\<close>: \<^verbatim>\<open>services/runtime.py\<close>, start-up, mesh mode and health,
    with the tools over several services; the steps of a whole runtime and what they keep.

  \<^bold>\<open>State and operations.\<close>  A Python object that lives on is a \<open>record\<close> named after its class; a
  method that changes it returns the new record, beside its result or exception.  Where a method
  can raise after it has changed its object, the operation returns the object even so (\<open>entangle\<close>,
  \<open>publish_patch\<close>, \<open>ms_append\<close>, \<open>manager_send\<close>).  Dynamic values are datatypes: \<open>json\<close> for what a
  log holds, \<open>pyval\<close> for what the fabric exchanges.

  \<^bold>\<open>How the parts interact.\<close>  A tool reads and patches objects of the state engine.  A patch asks
  \<open>check_policy\<close>, makes a signed event, appends it to the log and its hash-chained store, merges the
  delta into the registry and publishes a payload to the subscribers of the object and of the
  objects linked to it; the log alone rebuilds the state (\<open>rebuild_matches_live\<close>).  Stars,
  constellations, gates, quantum objects, scene nodes, identities and transport records are objects
  of the same engine, so what holds of every patch holds of them.

  \<^bold>\<open>Interfaces.\<close>  \<open>chained_store\<close> (append, read, verify) is interpreted on the in-memory and the JSONL
  store; \<open>signer\<close> on the signing service; \<open>transport_adapter\<close> on the direct, VPN and Tor adapters;
  \<open>codec\<close> on every record of the fabric; \<open>snapshot_store\<close> on the memory and the file store;
  \<open>object_invariant\<close>, what every write of a permitted object keeps, on the well-formedness \<open>live\<close> of a
  fabric and on the contents of any other object; its extensions \<open>star_invariant\<close> and \<open>star_family\<close> on
  the same for the operations of single stars and of groups, and on the guarded path of a star.  Their lemmas are proved once and reach the code through the interpretations.

  \<^bold>\<open>What the lemmas show.\<close>  Each theory proves an invariant or specification of its component; the
  numbered claims are the main ones: rebuilding agrees with the live state; patches are atomic;
  chains, proofs, decisions, snapshots and bundles reject what was not signed or hashed; identities
  move only along their life cycle; links stay acyclic; stars move only as the guard allows;
  subscriptions deliver every event once; the simulator computes what its gates denote and shares
  all shots out; a scene's matrices are products down its tree and its check finds exactly the cycles; the versions
  of the published policies climb, so a rollback is always refused; votes decide by number, whatever
  their order; a switch of the transport shows in its file, its log and its object alike; the client of
  the web service stays within its rate.

  \<^bold>\<open>Parameters.\<close>  What is not in the repository is an argument: the C math library behind float
  power, \<open>exp\<close>, \<open>hypot\<close> and \<open>log2\<close>; \<open>urllib\<close> and the network; the clock, \<open>uuid\<close> and time stamps
  (the fields of \<open>fabric_env\<close>); host names; the archive format of a snapshot (\<open>archive_codec\<close>); the
  reading of events by pydantic (\<open>validate\<close>, \<open>validate_link\<close>); the packages qiskit, cirq and
  pennylane and the process of the ITensor runner (\<open>quantum_env\<close>); the XML parser (\<open>nlm_world\<close>) and the
  file system behind the health report (\<open>disk\<close>).  Files are the lists of values of
  their lines, request bodies their UTF-8 text.

  \<^bold>\<open>Bounds and fuel.\<close>  \<open>path_exists\<close> searches with fuel \<open>path_fuel\<close>; \<open>path_search_terminates\<close> shows
  that this is enough for every graph, so the search is the code's unbounded loop.  \<open>json_loads\<close> has
  fuel twice the length of its text and one, since each step consumes a character or opens a value.
  Everything else recurses structurally or with a measure.  Hypotheses on sizes are those of the code's own
  arithmetic: raw fixed-point values between \<open>RAW_MIN\<close> and \<open>RAW_MAX\<close> (the code raises beyond), the
  clock below a day's microseconds, numbers of items below \<open>2 ^ 52\<close> where a position is a float.

  \<^bold>\<open>Where the model is coarser than Python.\<close>  Characters are those up to U+00FF, which the type
  \<open>char\<close> holds.  A float is the rational it denotes or an infinity or NaN; the sign of a zero is not
  kept (no modelled operation tells \<open>-0.0\<close> from \<open>0.0\<close> other than by printing it).  Rankings compare
  with the total order of these values.  The recursion limit of the interpreter, threads and locks
  are not modelled: every operation runs alone.  The engine behind the tools keeps its log without a
  store and an index; \<open>Event_Log\<close> and \<open>Event_Store\<close> model the log over them.

  \<^bold>\<open>Not modelled.\<close>  The HTTP, gRPC and websocket layers route requests to the services above; the
  command-line tools, report generators and viewers read files or write HTML; anchoring adapters,
  exporters and the adapters of brokers call outside services; the investigation engines beside the runtime collect and rank public records; federation and node
  prototypes are not called by it.  \<open>asyncio\<close> scheduling is modelled by what the streams yield, not by
  the interleaving of tasks.
\<close>

end
